(* ===== verification/Prelude.thy ===== *)
theory Prelude
  imports Complex_Main "HOL-Library.Sublist"
begin

text \<open>
  Shared vocabulary of the development: the fragment of the JavaScript value model, string and
  array library that the TypeScript sources use, and the collections of hints of the components.

  Numbers. Clock readings (\<open>Date.now()\<close>, milliseconds), counters and sizes are \<^typ>\<open>int\<close>:
  the code only adds, subtracts and compares them, and they stay far below \<open>2 ^ 53\<close>. Fractional
  quantities (loads, token counts, ratios) are \<^typ>\<open>rat\<close>: the rounding of IEEE doubles is
  not modelled.

  Strings. A JavaScript string is a \<^typ>\<open>string\<close>, one \<^typ>\<open>char\<close> per code unit, so the
  model covers the code units below 256.
\<close>

named_theorems js_simps "equations of the JavaScript library model"
named_theorems state_defs "definitions of the records' operations, unfolded to compute"

section \<open>Values\<close>

text \<open>
  Values of static type \<open>unknown\<close>. Arrays and objects carry an identity, because \<open>===\<close>
  compares them by reference. Objects are their own enumerable properties in order; properties
  inherited from a prototype are not modelled. The infinities are not values of the model.
\<close>

datatype jsval =
    JUndef
  | JNull
  | JBool bool
  | JNum rat
  | JNaN
  | JStr string
  | JArr nat "jsval list"
  | JObj nat "(string \<times> jsval) list"

text \<open>The operator \<open>===\<close>.\<close>

fun strict_eq :: "jsval \<Rightarrow> jsval \<Rightarrow> bool" where
  "strict_eq JUndef JUndef = True"
| "strict_eq JNull JNull = True"
| "strict_eq (JBool a) (JBool b) = (a = b)"
| "strict_eq (JNum a) (JNum b) = (a = b)"
| "strict_eq (JStr a) (JStr b) = (a = b)"
| "strict_eq (JArr i _) (JArr j _) = (i = j)"
| "strict_eq (JObj i _) (JObj j _) = (i = j)"
| "strict_eq _ _ = False"

text \<open>\<open>Array.prototype.includes\<close> compares with SameValueZero: \<open>NaN\<close> equals itself.\<close>

definition same_value_zero :: "jsval \<Rightarrow> jsval \<Rightarrow> bool" where
  "same_value_zero a b = (strict_eq a b \<or> (a = JNaN \<and> b = JNaN))"

definition val_includes :: "jsval list \<Rightarrow> jsval \<Rightarrow> bool" where
  "val_includes xs v = list_ex (\<lambda>x. same_value_zero x v) xs"

fun truthy :: "jsval \<Rightarrow> bool" where
  "truthy JUndef = False"
| "truthy JNull = False"
| "truthy (JBool b) = b"
| "truthy (JNum x) = (x \<noteq> 0)"
| "truthy JNaN = False"
| "truthy (JStr s) = (s \<noteq> [])"
| "truthy (JArr _ _) = True"
| "truthy (JObj _ _) = True"

text \<open>\<open>typeof a === 'number' && typeof b === 'number' && a R b\<close>; a comparison with \<open>NaN\<close>
  is false.\<close>

fun both_numbers :: "(rat \<Rightarrow> rat \<Rightarrow> bool) \<Rightarrow> jsval \<Rightarrow> jsval \<Rightarrow> bool" where
  "both_numbers R (JNum a) (JNum b) = R a b"
| "both_numbers R _ _ = False"

text \<open>\<open>typeof a === 'string' && typeof b === 'string' && a R b\<close>.\<close>

fun both_strings :: "(string \<Rightarrow> string \<Rightarrow> bool) \<Rightarrow> jsval \<Rightarrow> jsval \<Rightarrow> bool" where
  "both_strings R (JStr a) (JStr b) = R a b"
| "both_strings R _ _ = False"

text \<open>\<open>Array.isArray(v) && p(v)\<close>.\<close>

fun array_and :: "(jsval list \<Rightarrow> bool) \<Rightarrow> jsval \<Rightarrow> bool" where
  "array_and p (JArr _ xs) = p xs"
| "array_and p _ = False"

lemma strict_eq_JStr [simp]: "strict_eq v (JStr s) = (v = JStr s)"
  by (cases v) auto

lemma strict_eq_JStr' [simp]: "strict_eq (JStr s) v = (v = JStr s)"
  by (cases v) auto

lemma strict_eq_sym: "strict_eq a b = strict_eq b a"
  by (induction a b rule: strict_eq.induct) auto

lemma strict_eq_refl_iff: "strict_eq a a = (a \<noteq> JNaN)"
  by (cases a) auto

lemma same_value_zero_refl [simp]: "same_value_zero a a"
  by (simp add: same_value_zero_def strict_eq_refl_iff)

lemma val_includes_strings:
  "val_includes (map JStr ss) v = (\<exists>s \<in> set ss. v = JStr s)"
  by (auto simp: val_includes_def same_value_zero_def list_ex_iff)

text \<open>A string parameter or property that may be missing; \<open>if (s)\<close> also fails on the empty
  string.\<close>

definition str_truthy :: "string option \<Rightarrow> bool" where
  "str_truthy s = (s \<noteq> None \<and> s \<noteq> Some [])"

text \<open>\<open>s || d\<close> for a string that may be missing.\<close>

definition str_or :: "string option \<Rightarrow> string \<Rightarrow> string" where
  "str_or s d = (case s of None \<Rightarrow> d | Some t \<Rightarrow> if t = [] then d else t)"

text \<open>\<open>n || d\<close> for a number that may be missing.\<close>

definition num_or :: "int option \<Rightarrow> int \<Rightarrow> int" where
  "num_or n d = (case n of None \<Rightarrow> d | Some k \<Rightarrow> if k = 0 then d else k)"

text \<open>\<open>x ?? d\<close>, a default of a destructured parameter, or an option spread over defaults.\<close>

definition dflt :: "'a option \<Rightarrow> 'a \<Rightarrow> 'a" where
  "dflt x d = (case x of None \<Rightarrow> d | Some y \<Rightarrow> y)"

section \<open>Strings\<close>

abbreviation js_startsWith :: "string \<Rightarrow> string \<Rightarrow> bool" where
  "js_startsWith s p \<equiv> prefix p s"

abbreviation js_endsWith :: "string \<Rightarrow> string \<Rightarrow> bool" where
  "js_endsWith s p \<equiv> suffix p s"

abbreviation js_includes :: "string \<Rightarrow> string \<Rightarrow> bool" where
  "js_includes s p \<equiv> sublist p s"

text \<open>\<open>s.split(d)\<close> for a one-character separator.\<close>

fun js_split :: "char \<Rightarrow> string \<Rightarrow> string list" where
  "js_split d [] = [[]]"
| "js_split d (c # cs) =
     (if c = d then [] # js_split d cs
      else case js_split d cs of [] \<Rightarrow> [[c]] | w # ws \<Rightarrow> (c # w) # ws)"

text \<open>\<open>ws.join(d)\<close> for a one-character separator.\<close>

fun js_join :: "char \<Rightarrow> string list \<Rightarrow> string" where
  "js_join d [] = []"
| "js_join d [w] = w"
| "js_join d (w # ws) = w @ d # js_join d ws"

lemma js_split_nonempty [simp]: "js_split d s \<noteq> []"
  by (cases s) (auto split: list.splits)

lemma js_split_no_sep: "w \<in> set (js_split d s) \<Longrightarrow> d \<notin> set w"
  by (induction s arbitrary: w) (fastforce split: if_splits list.splits)+

lemma js_join_split: "js_join d (js_split d s) = s"
proof (induction s)
  case Nil
  then show ?case by simp
next
  case (Cons c cs)
  obtain w ws where "js_split d cs = w # ws"
    by (cases "js_split d cs") auto
  with Cons show ?case by (cases ws) auto
qed

lemma js_split_append_sep:
  "d \<notin> set w \<Longrightarrow> js_split d (w @ d # s) = w # js_split d s"
  by (induction w) auto

lemma js_split_append: "js_split d (s @ d # t) = js_split d s @ js_split d t"
  by (induction s) (auto split: list.splits)

lemma js_split_single: "d \<notin> set w \<Longrightarrow> js_split d w = [w]"
  by (induction w) auto

text \<open>\<open>String.prototype.toLowerCase\<close> on the ASCII letters.\<close>

definition to_lower :: "char \<Rightarrow> char" where
  "to_lower c = (let n = of_char c :: nat in if 65 \<le> n \<and> n \<le> 90 then char_of (n + 32) else c)"

definition js_toLowerCase :: "string \<Rightarrow> string" where
  "js_toLowerCase s = map to_lower s"

text \<open>\<open>a <= b\<close> on strings: lexicographic on code units.\<close>

fun js_str_le :: "string \<Rightarrow> string \<Rightarrow> bool" where
  "js_str_le [] _ = True"
| "js_str_le (_ # _) [] = False"
| "js_str_le (a # s) (b # t) =
     (if (of_char a :: nat) = of_char b then js_str_le s t else (of_char a :: nat) < of_char b)"

abbreviation js_str_ge :: "string \<Rightarrow> string \<Rightarrow> bool" where
  "js_str_ge a b \<equiv> js_str_le b a"

text \<open>Decimal numerals, as \<open>String(n)\<close> prints integers.\<close>

fun nat_str :: "nat \<Rightarrow> string" where
  "nat_str n = (if n < 10 then [char_of (48 + n)]
                else nat_str (n div 10) @ [char_of (48 + n mod 10)])"

declare nat_str.simps [simp del]

definition is_digit :: "char \<Rightarrow> bool" where
  "is_digit c \<longleftrightarrow> 48 \<le> (of_char c :: nat) \<and> (of_char c :: nat) \<le> 57"

lemma nat_str_digits: "c \<in> set (nat_str n) \<Longrightarrow> is_digit c"
proof (induction n rule: nat_str.induct)
  case (1 n)
  from "1.prems" show ?case
    by (subst (asm) nat_str.simps) (auto simp: is_digit_def dest: "1.IH" split: if_splits)
qed

text \<open>Reading a numeral back.\<close>

definition digits_val :: "string \<Rightarrow> nat" where
  "digits_val s = foldl (\<lambda>a c. 10 * a + (of_char c - 48)) 0 s"

lemma digits_val_nat_str [simp]: "digits_val (nat_str n) = n"
proof (induction n rule: nat_str.induct)
  case (1 n)
  show ?case
  proof (cases "n < 10")
    case True
    then show ?thesis by (subst nat_str.simps) (simp add: digits_val_def)
  next
    case False
    with 1 show ?thesis by (subst nat_str.simps) (simp add: digits_val_def)
  qed
qed

lemma nat_str_inject [simp]: "nat_str m = nat_str n \<longleftrightarrow> m = n"
  by (metis digits_val_nat_str)

lemma nat_str_no_sep: "\<not> is_digit c \<Longrightarrow> c \<notin> set (nat_str n)"
  using nat_str_digits by blast

lemma append_sep_eq:
  assumes "d \<notin> set u" and "d \<notin> set v" and "u @ d # s = v @ d # t"
  shows "u = v \<and> s = t"
  using assms by (induction u arbitrary: v) (case_tac v; auto)+

definition int_str :: "int \<Rightarrow> string" where
  "int_str i = (if i < 0 then CHR ''-'' # nat_str (nat (- i)) else nat_str (nat i))"

text \<open>\<open>s.replace(/needle/g, r)\<close> for a literal needle: leftmost matches that do not overlap.\<close>

function replace_all :: "string \<Rightarrow> string \<Rightarrow> string \<Rightarrow> string" where
  "replace_all needle r s =
     (case s of
        [] \<Rightarrow> []
      | c # cs \<Rightarrow>
          if needle \<noteq> [] \<and> prefix needle s then r @ replace_all needle r (drop (length needle) s)
          else c # replace_all needle r cs)"
  by pat_completeness auto

termination replace_all
  by (relation "measure (\<lambda>(n, r, s). length s)") auto

declare replace_all.simps [simp del]

lemma replace_all_absent: "\<not> sublist needle s \<Longrightarrow> replace_all needle r s = s"
proof (induction s)
  case Nil
  then show ?case by (simp add: replace_all.simps)
next
  case (Cons c cs)
  then have "\<not> prefix needle (c # cs)" "\<not> sublist needle cs"
    by (auto simp: sublist_Cons_right)
  with Cons.IH show ?case by (subst replace_all.simps) simp
qed

text \<open>The text in double quotes.\<close>

definition quoted :: "string \<Rightarrow> string" where
  "quoted s = CHR 0x22 # s @ [CHR 0x22]"

text \<open>A property read \<open>obj[k]\<close> of a plain object with the given properties.\<close>

definition obj_prop :: "(string \<times> jsval) list \<Rightarrow> string \<Rightarrow> jsval" where
  "obj_prop props k = (case map_of props k of Some v \<Rightarrow> v | None \<Rightarrow> JUndef)"

text \<open>A property read of a value of type \<open>object\<close>: arrays have their indices and \<open>length\<close>.\<close>

fun js_prop :: "jsval \<Rightarrow> string \<Rightarrow> jsval" where
  "js_prop (JObj _ props) k = obj_prop props k"
| "js_prop (JArr _ xs) k =
     (if k = ''length'' then JNum (of_nat (length xs))
      else case find (\<lambda>i. nat_str i = k) [0..<length xs] of
             Some i \<Rightarrow> xs ! i | None \<Rightarrow> JUndef)"
| "js_prop _ k = JUndef"

section \<open>Timers\<close>

text \<open>The delay a call \<open>setTimeout(f, ms)\<close> really waits: values below 1 or above
  \<open>2 ^ 31 - 1\<close> become 1.\<close>

definition timer_delay :: "int \<Rightarrow> int" where
  "timer_delay ms = (if ms < 1 \<or> 2147483647 < ms then 1 else ms)"

lemma timer_delay_pos: "0 < timer_delay ms"
  by (simp add: timer_delay_def)

section \<open>Arrays\<close>

text \<open>\<open>xs.slice(-n)\<close>: the last \<open>n\<close> elements, and all of them when \<open>n\<close> is 0.\<close>

definition slice_last :: "nat \<Rightarrow> 'a list \<Rightarrow> 'a list" where
  "slice_last n xs = (if n = 0 then xs else drop (length xs - n) xs)"

text \<open>\<open>xs.slice(a, b)\<close>; a negative index counts from the end.\<close>

definition slice_index :: "'a list \<Rightarrow> int \<Rightarrow> nat" where
  "slice_index xs i = (if i < 0 then nat (max 0 (int (length xs) + i)) else min (nat i) (length xs))"

definition js_slice :: "int \<Rightarrow> int \<Rightarrow> 'a list \<Rightarrow> 'a list" where
  "js_slice a b xs = drop (slice_index xs a) (take (slice_index xs b) xs)"

text \<open>\<open>xs.findIndex(p)\<close> followed by \<open>splice(index, 1)\<close>: the first match removed.\<close>

fun remove_first :: "('a \<Rightarrow> bool) \<Rightarrow> 'a list \<Rightarrow> 'a list" where
  "remove_first p [] = []"
| "remove_first p (x # xs) = (if p x then xs else x # remove_first p xs)"

lemma length_slice_last: "0 < n \<Longrightarrow> length (slice_last n xs) = min n (length xs)"
  by (simp add: slice_last_def)

lemma length_remove_first:
  "length (remove_first p xs) = (if list_ex p xs then length xs - 1 else length xs)"
proof (induction xs)
  case Nil
  then show ?case by simp
next
  case (Cons x xs)
  then show ?case by (cases xs) auto
qed

lemma remove_first_none: "\<not> list_ex p xs \<Longrightarrow> remove_first p xs = xs"
  by (induction xs) auto

lemma set_remove_first_subset: "set (remove_first p xs) \<subseteq> set xs"
  by (induction xs) auto

lemma length_filter_mono:
  "(\<And>x. x \<in> set xs \<Longrightarrow> p x \<Longrightarrow> q x) \<Longrightarrow> length (filter p xs) \<le> length (filter q xs)"
  by (induction xs) (auto simp: le_SucI)

lemma length_filter_cover:
  "(\<And>x. x \<in> set xs \<Longrightarrow> p x \<Longrightarrow> q x \<or> r x) \<Longrightarrow>
     length (filter p xs) \<le> length (filter q xs) + length (filter r xs)"
  by (induction xs) (auto simp: le_SucI)

text \<open>A \<open>for\<close> loop that returns at the first element with a result.\<close>

fun first_some :: "('a \<Rightarrow> 'b option) \<Rightarrow> 'a list \<Rightarrow> 'b option" where
  "first_some f [] = None"
| "first_some f (x # xs) = (case f x of None \<Rightarrow> first_some f xs | Some y \<Rightarrow> Some y)"

lemma first_some_None: "first_some f xs = None \<longleftrightarrow> (\<forall>x \<in> set xs. f x = None)"
  by (induction xs) (auto split: option.splits)

lemma first_some_SomeD: "first_some f xs = Some y \<Longrightarrow> \<exists>x \<in> set xs. f x = Some y"
  by (induction xs) (auto split: option.splits)

lemma first_some_split:
  "first_some f xs = Some y \<Longrightarrow>
     \<exists>us x vs. xs = us @ x # vs \<and> (\<forall>u \<in> set us. f u = None) \<and> f x = Some y"
proof (induction xs)
  case Nil
  then show ?case by simp
next
  case (Cons a xs)
  show ?case
  proof (cases "f a")
    case None
    with Cons obtain us x vs where "xs = us @ x # vs" "\<forall>u \<in> set us. f u = None" "f x = Some y"
      by auto
    with None have "a # xs = (a # us) @ x # vs \<and> (\<forall>u \<in> set (a # us). f u = None) \<and> f x = Some y"
      by simp
    then show ?thesis by blast
  next
    case (Some b)
    with Cons.prems have "a # xs = [] @ a # xs \<and> (\<forall>u \<in> set []. f u = None) \<and> f a = Some y"
      by simp
    then show ?thesis by blast
  qed
qed

end
