(* ===== verification/JsMap.thy ===== *)
theory JsMap
  imports Prelude "HOL-Library.AList"
begin

text \<open>
  The JavaScript \<open>Map\<close>: an association list in insertion order with distinct keys. \<open>set\<close> on
  a present key replaces the value in place, on an absent one appends; \<open>delete\<close> removes the
  key. The locale \<open>keyed_store\<close> is the interface the components rely on, and the last section
  interprets it on this model.
\<close>

type_synonym ('k, 'v) jsmap = "('k \<times> 'v) list"

definition jm_get :: "('k, 'v) jsmap \<Rightarrow> 'k \<Rightarrow> 'v option" where
  "jm_get m k = map_of m k"

definition jm_set :: "'k \<Rightarrow> 'v \<Rightarrow> ('k, 'v) jsmap \<Rightarrow> ('k, 'v) jsmap" where
  "jm_set k v m = AList.update k v m"

definition jm_delete :: "'k \<Rightarrow> ('k, 'v) jsmap \<Rightarrow> ('k, 'v) jsmap" where
  "jm_delete k m = AList.delete k m"

definition jm_has :: "('k, 'v) jsmap \<Rightarrow> 'k \<Rightarrow> bool" where
  "jm_has m k = (jm_get m k \<noteq> None)"

definition jm_keys :: "('k, 'v) jsmap \<Rightarrow> 'k list" where
  "jm_keys m = map fst m"

definition jm_values :: "('k, 'v) jsmap \<Rightarrow> 'v list" where
  "jm_values m = map snd m"

definition jm_size :: "('k, 'v) jsmap \<Rightarrow> nat" where
  "jm_size m = length m"

text \<open>Deleting, while iterating, every entry that satisfies a predicate.\<close>

definition jm_delete_if :: "('k \<Rightarrow> 'v \<Rightarrow> bool) \<Rightarrow> ('k, 'v) jsmap \<Rightarrow> ('k, 'v) jsmap" where
  "jm_delete_if p m = filter (\<lambda>(k, v). \<not> p k v) m"

text \<open>Mutating every value in place (the values are object references in the source).\<close>

definition jm_map :: "('k \<Rightarrow> 'v \<Rightarrow> 'w) \<Rightarrow> ('k, 'v) jsmap \<Rightarrow> ('k, 'w) jsmap" where
  "jm_map f m = map (\<lambda>(k, v). (k, f k v)) m"

definition jm_ok :: "('k, 'v) jsmap \<Rightarrow> bool" where
  "jm_ok m = distinct (map fst m)"

lemma jm_get_Nil [simp]: "jm_get [] k = None"
  by (simp add: jm_get_def)

lemma jm_get_set [simp]: "jm_get (jm_set k v m) k' = (if k' = k then Some v else jm_get m k')"
  by (simp add: jm_get_def jm_set_def update_conv')

lemma jm_get_delete [simp]: "jm_get (jm_delete k m) k' = (if k' = k then None else jm_get m k')"
  by (simp add: jm_get_def jm_delete_def delete_conv')

lemma jm_get_map [simp]: "jm_get (jm_map f m) k = map_option (f k) (jm_get m k)"
  by (induction m) (auto simp: jm_get_def jm_map_def)

lemma jm_has_Nil [simp]: "jm_has [] k = False"
  by (simp add: jm_has_def)

lemma jm_has_set [simp]: "jm_has (jm_set k v m) k' = (k' = k \<or> jm_has m k')"
  by (simp add: jm_has_def)

lemma jm_has_delete [simp]: "jm_has (jm_delete k m) k' = (k' \<noteq> k \<and> jm_has m k')"
  by (simp add: jm_has_def)

lemma jm_ok_Nil [simp]: "jm_ok []"
  by (simp add: jm_ok_def)

lemma jm_ok_set [simp, intro]: "jm_ok m \<Longrightarrow> jm_ok (jm_set k v m)"
  by (simp add: jm_ok_def jm_set_def distinct_update)

lemma jm_ok_delete [simp, intro]: "jm_ok m \<Longrightarrow> jm_ok (jm_delete k m)"
  by (simp add: jm_ok_def jm_delete_def distinct_delete)

lemma jm_ok_delete_if [simp, intro]: "jm_ok m \<Longrightarrow> jm_ok (jm_delete_if p m)"
  by (induction m) (auto simp: jm_ok_def jm_delete_if_def)

lemma jm_ok_map [simp]: "jm_ok (jm_map f m) = jm_ok m"
proof -
  have "map fst (jm_map f m) = map fst m"
    by (induction m) (auto simp: jm_map_def)
  then show ?thesis by (simp add: jm_ok_def)
qed

lemma jm_get_delete_if:
  "jm_ok m \<Longrightarrow> jm_get (jm_delete_if p m) k =
     (case jm_get m k of None \<Rightarrow> None | Some v \<Rightarrow> if p k v then None else Some v)"
proof (induction m)
  case Nil
  then show ?case by (simp add: jm_delete_if_def)
next
  case (Cons a m)
  obtain k' v' where a: "a = (k', v')" by (cases a)
  have "k' = k \<Longrightarrow> jm_get m k = None"
    using Cons.prems a by (auto simp: jm_ok_def jm_get_def map_of_eq_None_iff)
  with Cons a show ?case
    by (auto simp: jm_get_def jm_delete_if_def jm_ok_def split: option.splits)
qed

lemma jm_get_Some_in: "jm_get m k = Some v \<Longrightarrow> (k, v) \<in> set m"
  by (simp add: jm_get_def map_of_SomeD)

lemma jm_get_in: "jm_ok m \<Longrightarrow> (k, v) \<in> set m \<Longrightarrow> jm_get m k = Some v"
  by (simp add: jm_get_def jm_ok_def)

lemma jm_values_get: "jm_ok m \<Longrightarrow> v \<in> set (jm_values m) \<Longrightarrow> \<exists>k. jm_get m k = Some v"
  unfolding jm_values_def by (auto, blast intro: jm_get_in)

lemma jm_get_values: "jm_get m k = Some v \<Longrightarrow> v \<in> set (jm_values m)"
  by (force simp: jm_values_def dest: jm_get_Some_in)

lemma jm_keys_set [simp]: "set (jm_keys (jm_set k v m)) = insert k (set (jm_keys m))"
  by (simp add: jm_keys_def jm_set_def dom_update)

lemma jm_size_set: "jm_size (jm_set k v m) = (if jm_has m k then jm_size m else Suc (jm_size m))"
proof (induction m)
  case Nil
  then show ?case by (simp add: jm_size_def jm_set_def)
next
  case (Cons a m)
  then show ?case
    by (cases a) (auto simp: jm_size_def jm_set_def jm_has_def jm_get_def)
qed

lemma jm_size_delete:
  "jm_ok m \<Longrightarrow> jm_size (jm_delete k m) = (if jm_has m k then jm_size m - 1 else jm_size m)"
proof (induction m)
  case Nil
  then show ?case by (simp add: jm_size_def jm_delete_def)
next
  case (Cons a m)
  obtain k' v' where a: "a = (k', v')" by (cases a)
  have nodel: "k' = k \<Longrightarrow> AList.delete k m = m"
    using Cons.prems a by (auto simp: jm_ok_def intro!: delete_id)
  have len: "jm_has m k \<Longrightarrow> 0 < length m"
    by (cases m) (auto simp: jm_has_def)
  from Cons a nodel len show ?case
    by (auto simp: jm_size_def jm_delete_def jm_has_def jm_get_def jm_ok_def)
qed

section \<open>The interface of a keyed store\<close>

locale keyed_store =
  fixes empty :: "'m"
    and get :: "'m \<Rightarrow> 'k \<Rightarrow> 'v option"
    and put :: "'k \<Rightarrow> 'v \<Rightarrow> 'm \<Rightarrow> 'm"
    and del :: "'k \<Rightarrow> 'm \<Rightarrow> 'm"
    and ok :: "'m \<Rightarrow> bool"
  assumes get_empty: "get empty k = None"
    and get_put: "ok m \<Longrightarrow> get (put k v m) k' = (if k' = k then Some v else get m k')"
    and get_del: "ok m \<Longrightarrow> get (del k m) k' = (if k' = k then None else get m k')"
    and ok_empty: "ok empty"
    and ok_put: "ok m \<Longrightarrow> ok (put k v m)"
    and ok_del: "ok m \<Longrightarrow> ok (del k m)"
begin

lemma put_put_get: "ok m \<Longrightarrow> get (put k v (put k w m)) = get (put k v m)"
  by (rule ext) (simp add: get_put ok_put)

lemma put_commute_get:
  "ok m \<Longrightarrow> k \<noteq> l \<Longrightarrow> get (put k v (put l w m)) = get (put l w (put k v m))"
  by (rule ext) (simp add: get_put ok_put)

lemma del_put_get: "ok m \<Longrightarrow> get m k = None \<Longrightarrow> get (del k (put k v m)) = get m"
  by (rule ext) (simp add: get_put get_del ok_put)

lemma ok_put_all: "ok m \<Longrightarrow> ok (fold (\<lambda>(k, v). put k v) kvs m)"
  by (induction kvs arbitrary: m) (auto simp: ok_put)

lemma get_put_all:
  "ok m \<Longrightarrow> get (fold (\<lambda>(k, v). put k v) kvs m) k =
     (case map_of (rev kvs) k of None \<Rightarrow> get m k | Some v \<Rightarrow> Some v)"
proof (induction kvs arbitrary: m)
  case Nil
  then show ?case by simp
next
  case (Cons kv kvs)
  obtain k' v' where kv: "kv = (k', v')" by (cases kv)
  from Cons show ?case
    by (simp add: kv ok_put get_put map_add_def split: option.splits)
qed

end

interpretation jm: keyed_store "[]" jm_get jm_set jm_delete jm_ok
  by unfold_locales auto

lemma jm_set_set_get: "jm_ok m \<Longrightarrow> jm_get (jm_set k v (jm_set k w m)) = jm_get (jm_set k v m)"
  by (rule jm.put_put_get)

end
