(* ===== verification/CircuitBreaker.thy ===== *)
theory CircuitBreaker
  imports JsMap
begin

text \<open>
  \<open>packages/kernel/src/resilience/circuit-breaker.ts\<close>: the circuit breaker and its registry.

  The state of the class is the record \<open>CircuitBreaker\<close>; \<open>cb_events\<close> is the sequence of calls
  of the optional callbacks \<open>onStateChange\<close> and \<open>onMetric\<close>, which observe and do not change the
  breaker. \<open>execute\<close> is asynchronous: \<open>cb_admit\<close> is its part up to the call of the function,
  \<open>cb_onSuccess\<close> and \<open>cb_onFailure\<close> run when the call settles, and any number of calls can be
  in flight between the two. \<open>cb_execute\<close> composes them for one call that runs alone, and the
  step relation \<open>cb_step\<close> interleaves calls freely.
\<close>

section \<open>State and operations\<close>

datatype CircuitState = CLOSED | OPEN | HALF_OPEN

record CircuitBreakerOptions =
  cbo_name :: string
  cbo_failureThreshold :: int
  cbo_resetTimeout :: int
  cbo_successThreshold :: int
  cbo_callTimeout :: int

record CircuitBreakerMetric =
  cbm_name :: string
  cbm_state :: CircuitState
  cbm_totalCalls :: int
  cbm_successfulCalls :: int
  cbm_failedCalls :: int
  cbm_rejectedCalls :: int
  cbm_lastFailureTime :: "int option"
  cbm_lastSuccessTime :: "int option"

datatype cb_event = OnStateChange CircuitState CircuitState | OnMetric CircuitBreakerMetric

record CircuitBreaker =
  cb_options :: CircuitBreakerOptions
  cb_state :: CircuitState
  cb_failureCount :: int
  cb_successCount :: int
  cb_lastFailureTime :: "int option"
  cb_lastSuccessTime :: "int option"
  cb_totalCalls :: int
  cb_successfulCalls :: int
  cb_failedCalls :: int
  cb_rejectedCalls :: int
  cb_nextAttempt :: int
  cb_events :: "cb_event list"

text \<open>\<open>CircuitBreakerError\<close> carries a message and the state of the circuit; the two messages are
  its two constructors here, and any other error is the one the called function threw.\<close>

datatype 'e cb_error = CircuitOpen CircuitState | CallTimedOut CircuitState | CallError 'e

definition new_CircuitBreaker :: "CircuitBreakerOptions \<Rightarrow> CircuitBreaker" where
  "new_CircuitBreaker opts =
     \<lparr>cb_options = opts, cb_state = CLOSED, cb_failureCount = 0, cb_successCount = 0,
      cb_lastFailureTime = None, cb_lastSuccessTime = None, cb_totalCalls = 0,
      cb_successfulCalls = 0, cb_failedCalls = 0, cb_rejectedCalls = 0, cb_nextAttempt = 0,
      cb_events = []\<rparr>"

definition cb_transitionTo :: "int \<Rightarrow> CircuitState \<Rightarrow> CircuitBreaker \<Rightarrow> CircuitBreaker" where
  "cb_transitionTo now newState cb =
     (let oldState = cb_state cb;
          cb1 = cb\<lparr>cb_state := newState\<rparr>;
          cb2 = (if newState = OPEN
                 then cb1\<lparr>cb_nextAttempt := now + cbo_resetTimeout (cb_options cb1)\<rparr> else cb1)
      in cb2\<lparr>cb_events := cb_events cb2 @ [OnStateChange oldState newState]\<rparr>)"

definition cb_getMetrics :: "CircuitBreaker \<Rightarrow> CircuitBreakerMetric" where
  "cb_getMetrics cb =
     \<lparr>cbm_name = cbo_name (cb_options cb), cbm_state = cb_state cb,
      cbm_totalCalls = cb_totalCalls cb, cbm_successfulCalls = cb_successfulCalls cb,
      cbm_failedCalls = cb_failedCalls cb, cbm_rejectedCalls = cb_rejectedCalls cb,
      cbm_lastFailureTime = cb_lastFailureTime cb, cbm_lastSuccessTime = cb_lastSuccessTime cb\<rparr>"

definition cb_emitMetric :: "CircuitBreaker \<Rightarrow> CircuitBreaker" where
  "cb_emitMetric cb = cb\<lparr>cb_events := cb_events cb @ [OnMetric (cb_getMetrics cb)]\<rparr>"

definition cb_onSuccess :: "int \<Rightarrow> CircuitBreaker \<Rightarrow> CircuitBreaker" where
  "cb_onSuccess now cb =
     (let cb1 = cb\<lparr>cb_successfulCalls := cb_successfulCalls cb + 1,
                   cb_lastSuccessTime := Some now, cb_failureCount := 0\<rparr>;
          cb2 = (if cb_state cb1 = HALF_OPEN then
                   (let c = cb1\<lparr>cb_successCount := cb_successCount cb1 + 1\<rparr> in
                    if cb_successCount c \<ge> cbo_successThreshold (cb_options c)
                    then (cb_transitionTo now CLOSED c)\<lparr>cb_successCount := 0\<rparr>
                    else c)
                 else cb1)
      in cb_emitMetric cb2)"

definition cb_onFailure :: "int \<Rightarrow> CircuitBreaker \<Rightarrow> CircuitBreaker" where
  "cb_onFailure now cb =
     (let cb1 = cb\<lparr>cb_failedCalls := cb_failedCalls cb + 1, cb_lastFailureTime := Some now,
                   cb_failureCount := cb_failureCount cb + 1\<rparr>;
          cb2 = (if cb_state cb1 = HALF_OPEN
                 then (cb_transitionTo now OPEN cb1)\<lparr>cb_successCount := 0\<rparr>
                 else if cb_failureCount cb1 \<ge> cbo_failureThreshold (cb_options cb1)
                 then cb_transitionTo now OPEN cb1
                 else cb1)
      in cb_emitMetric cb2)"

text \<open>The part of \<open>execute\<close> before the call: \<open>Inl\<close> is the thrown error, \<open>Inr\<close> that the call
  may start.\<close>

definition cb_admit :: "int \<Rightarrow> CircuitBreaker \<Rightarrow> CircuitBreaker \<times> ('e cb_error + unit)" where
  "cb_admit now cb =
     (let cb1 = cb\<lparr>cb_totalCalls := cb_totalCalls cb + 1\<rparr> in
      if cb_state cb1 = OPEN then
        if now < cb_nextAttempt cb1 then
          (let cb2 = cb_emitMetric (cb1\<lparr>cb_rejectedCalls := cb_rejectedCalls cb1 + 1\<rparr>)
           in (cb2, Inl (CircuitOpen (cb_state cb2))))
        else (cb_transitionTo now HALF_OPEN cb1, Inr ())
      else (cb1, Inr ()))"

text \<open>A call of the function: it settles after some milliseconds with a value or an error, or
  never. The timeout's timer is started first, so it wins a tie.\<close>

datatype ('a, 'e) fn_run = Settles int "'e + 'a" | NeverSettles

fun run_result :: "int \<Rightarrow> CircuitState \<Rightarrow> ('a, 'e) fn_run \<Rightarrow> int \<times> ('e cb_error + 'a)" where
  "run_result timeout st (Settles d r) =
     (if d < timer_delay timeout
      then (d, case r of Inl e \<Rightarrow> Inl (CallError e) | Inr v \<Rightarrow> Inr v)
      else (timer_delay timeout, Inl (CallTimedOut st)))"
| "run_result timeout st NeverSettles = (timer_delay timeout, Inl (CallTimedOut st))"

text \<open>\<open>executeWithTimeout\<close>: how long the promise takes, and its result.\<close>

definition cb_executeWithTimeout ::
    "CircuitBreaker \<Rightarrow> ('a, 'e) fn_run \<Rightarrow> int \<times> ('e cb_error + 'a)" where
  "cb_executeWithTimeout cb run = run_result (cbo_callTimeout (cb_options cb)) (cb_state cb) run"

definition cb_execute ::
    "int \<Rightarrow> ('a, 'e) fn_run \<Rightarrow> CircuitBreaker \<Rightarrow> CircuitBreaker \<times> ('e cb_error + 'a)" where
  "cb_execute now run cb =
     (case cb_admit now cb of
        (cb1, Inl err) \<Rightarrow> (cb1, Inl err)
      | (cb1, Inr _) \<Rightarrow>
          (case cb_executeWithTimeout cb1 run of
             (d, Inr v) \<Rightarrow> (cb_onSuccess (now + d) cb1, Inr v)
           | (d, Inl err) \<Rightarrow> (cb_onFailure (now + d) cb1, Inl err)))"

definition cb_reset :: "CircuitBreaker \<Rightarrow> CircuitBreaker" where
  "cb_reset cb =
     cb\<lparr>cb_state := CLOSED, cb_failureCount := 0, cb_successCount := 0, cb_totalCalls := 0,
        cb_successfulCalls := 0, cb_failedCalls := 0, cb_rejectedCalls := 0,
        cb_lastFailureTime := None, cb_lastSuccessTime := None, cb_nextAttempt := 0\<rparr>"

section \<open>The registry\<close>

type_synonym CircuitBreakerRegistry = "(string, CircuitBreaker) jsmap"

definition cbr_getOrCreate ::
    "CircuitBreakerOptions \<Rightarrow> CircuitBreakerRegistry \<Rightarrow> CircuitBreakerRegistry \<times> CircuitBreaker" where
  "cbr_getOrCreate opts reg =
     (case jm_get reg (cbo_name opts) of
        Some breaker \<Rightarrow> (reg, breaker)
      | None \<Rightarrow> (jm_set (cbo_name opts) (new_CircuitBreaker opts) reg, new_CircuitBreaker opts))"

definition cbr_get :: "CircuitBreakerRegistry \<Rightarrow> string \<Rightarrow> CircuitBreaker option" where
  "cbr_get reg name = jm_get reg name"

definition cbr_getAllMetrics :: "CircuitBreakerRegistry \<Rightarrow> CircuitBreakerMetric list" where
  "cbr_getAllMetrics reg = map cb_getMetrics (jm_values reg)"

definition cbr_resetAll :: "CircuitBreakerRegistry \<Rightarrow> CircuitBreakerRegistry" where
  "cbr_resetAll reg = jm_map (\<lambda>_. cb_reset) reg"

section \<open>Interleaved calls\<close>

text \<open>A breaker, the number of calls in flight, and the clock.\<close>

record cb_sys =
  sys_breaker :: CircuitBreaker
  sys_inflight :: nat
  sys_clock :: int

inductive cb_step :: "cb_sys \<Rightarrow> cb_sys \<Rightarrow> bool" where
  tick: "0 \<le> d \<Longrightarrow> cb_step s (s\<lparr>sys_clock := sys_clock s + d\<rparr>)"
| start: "cb_admit (sys_clock s) (sys_breaker s) = (cb', (Inr () :: unit cb_error + unit)) \<Longrightarrow>
     cb_step s (s\<lparr>sys_breaker := cb', sys_inflight := Suc (sys_inflight s)\<rparr>)"
| reject: "cb_admit (sys_clock s) (sys_breaker s) = (cb', (Inl e :: unit cb_error + unit)) \<Longrightarrow>
     cb_step s (s\<lparr>sys_breaker := cb'\<rparr>)"
| succeed: "sys_inflight s = Suc n \<Longrightarrow>
     cb_step s (s\<lparr>sys_breaker := cb_onSuccess (sys_clock s) (sys_breaker s), sys_inflight := n\<rparr>)"
| fail: "sys_inflight s = Suc n \<Longrightarrow>
     cb_step s (s\<lparr>sys_breaker := cb_onFailure (sys_clock s) (sys_breaker s), sys_inflight := n\<rparr>)"

inductive cb_reachable :: "CircuitBreakerOptions \<Rightarrow> cb_sys \<Rightarrow> bool" for opts where
  init: "cb_reachable opts \<lparr>sys_breaker = new_CircuitBreaker opts, sys_inflight = 0, sys_clock = t\<rparr>"
| step: "cb_reachable opts s \<Longrightarrow> cb_step s s' \<Longrightarrow> cb_reachable opts s'"

inductive_cases cb_stepE: "cb_step s s'"

lemmas cb_op_defs =
  cb_transitionTo_def cb_emitMetric_def cb_onSuccess_def cb_onFailure_def cb_admit_def


section \<open>The abstract breaker\<close>

text \<open>
  What the class promises, without its statistics and callbacks: a three-state automaton with the
  count of failures since the last success and, in the half-open state, the successes so far.
\<close>

datatype abs_breaker =
    AClosed int
  | AOpen int int
  | AHalf int int

fun abs_admit :: "int \<Rightarrow> abs_breaker \<Rightarrow> abs_breaker \<times> bool" where
  "abs_admit now (AClosed k) = (AClosed k, True)"
| "abs_admit now (AOpen until k) = (if now < until then (AOpen until k, False) else (AHalf 0 k, True))"
| "abs_admit now (AHalf n k) = (AHalf n k, True)"

fun abs_success :: "CircuitBreakerOptions \<Rightarrow> abs_breaker \<Rightarrow> abs_breaker" where
  "abs_success opts (AClosed k) = AClosed 0"
| "abs_success opts (AOpen until k) = AOpen until 0"
| "abs_success opts (AHalf n k) =
     (if cbo_successThreshold opts \<le> n + 1 then AClosed 0 else AHalf (n + 1) 0)"

fun abs_failure :: "CircuitBreakerOptions \<Rightarrow> int \<Rightarrow> abs_breaker \<Rightarrow> abs_breaker" where
  "abs_failure opts now (AClosed k) =
     (if cbo_failureThreshold opts \<le> k + 1 then AOpen (now + cbo_resetTimeout opts) (k + 1)
      else AClosed (k + 1))"
| "abs_failure opts now (AOpen until k) =
     (if cbo_failureThreshold opts \<le> k + 1 then AOpen (now + cbo_resetTimeout opts) (k + 1)
      else AOpen until (k + 1))"
| "abs_failure opts now (AHalf n k) = AOpen (now + cbo_resetTimeout opts) (k + 1)"

definition cb_abs :: "CircuitBreaker \<Rightarrow> abs_breaker" where
  "cb_abs cb =
     (case cb_state cb of
        CLOSED \<Rightarrow> AClosed (cb_failureCount cb)
      | OPEN \<Rightarrow> AOpen (cb_nextAttempt cb) (cb_failureCount cb)
      | HALF_OPEN \<Rightarrow> AHalf (cb_successCount cb) (cb_failureCount cb))"

text \<open>The fields agree: successes are counted in the half-open state only, a closed breaker is
  below its failure threshold, a half-open one below its success threshold.\<close>

definition cb_wf :: "CircuitBreaker \<Rightarrow> bool" where
  "cb_wf cb \<longleftrightarrow>
     (cb_state cb \<noteq> HALF_OPEN \<longrightarrow> cb_successCount cb = 0) \<and>
     (cb_state cb = CLOSED \<longrightarrow> cb_failureCount cb < max 1 (cbo_failureThreshold (cb_options cb))) \<and>
     (cb_state cb = HALF_OPEN \<longrightarrow> cb_successCount cb < max 1 (cbo_successThreshold (cb_options cb))) \<and>
     0 \<le> cb_successCount cb \<and> 0 \<le> cb_failureCount cb"

lemma cb_wf_new: "cb_wf (new_CircuitBreaker opts)"
  by (simp add: cb_wf_def new_CircuitBreaker_def)

lemma cb_wf_success: "cb_wf cb \<Longrightarrow> cb_wf (cb_onSuccess now cb)"
  by (auto simp: cb_wf_def cb_op_defs Let_def)

lemma cb_wf_failure: "cb_wf cb \<Longrightarrow> cb_wf (cb_onFailure now cb)"
  by (auto simp: cb_wf_def cb_op_defs Let_def)

lemma cb_wf_admit: "cb_wf cb \<Longrightarrow> cb_admit now cb = (cb', r) \<Longrightarrow> cb_wf cb'"
  by (auto simp: cb_wf_def cb_op_defs Let_def split: if_splits)

lemma cb_abs_success: "cb_wf cb \<Longrightarrow> cb_abs (cb_onSuccess now cb) = abs_success (cb_options cb) (cb_abs cb)"
  by (cases "cb_state cb") (auto simp: cb_abs_def cb_wf_def cb_op_defs Let_def)

lemma cb_abs_failure: "cb_abs (cb_onFailure now cb) = abs_failure (cb_options cb) now (cb_abs cb)"
  by (cases "cb_state cb") (auto simp: cb_abs_def cb_op_defs Let_def)

lemma cb_abs_admit:
  "cb_wf cb \<Longrightarrow> cb_admit now cb = (cb', r) \<Longrightarrow>
     abs_admit now (cb_abs cb) = (cb_abs cb', case r of Inl _ \<Rightarrow> False | Inr _ \<Rightarrow> True)"
  by (cases "cb_state cb") (auto simp: cb_abs_def cb_wf_def cb_op_defs Let_def split: if_splits)

lemma cb_options_ops [simp]:
  "cb_options (cb_onSuccess now cb) = cb_options cb"
  "cb_options (cb_onFailure now cb) = cb_options cb"
  "cb_options (new_CircuitBreaker opts) = opts"
  by (auto simp: cb_op_defs Let_def new_CircuitBreaker_def)

lemma cb_options_admit: "cb_admit now cb = (cb', r) \<Longrightarrow> cb_options cb' = cb_options cb"
  by (auto simp: cb_op_defs Let_def split: if_splits)

section \<open>Reachable states\<close>

text \<open>The accounting of the statistics, with the calls still in flight.\<close>

definition cb_balanced :: "cb_sys \<Rightarrow> bool" where
  "cb_balanced s \<longleftrightarrow>
     (let cb = sys_breaker s in
      cb_totalCalls cb = cb_successfulCalls cb + cb_failedCalls cb + cb_rejectedCalls cb
                         + int (sys_inflight s))"

definition cb_sys_inv :: "CircuitBreakerOptions \<Rightarrow> cb_sys \<Rightarrow> bool" where
  "cb_sys_inv opts s \<longleftrightarrow>
     cb_options (sys_breaker s) = opts \<and> cb_wf (sys_breaker s) \<and> cb_balanced s \<and>
     (cb_state (sys_breaker s) = OPEN \<longrightarrow>
        cb_nextAttempt (sys_breaker s) \<le> sys_clock s + cbo_resetTimeout opts)"

lemma cb_counts_admit:
  "cb_admit now cb = (cb', r) \<Longrightarrow>
     cb_totalCalls cb' = cb_totalCalls cb + 1 \<and> cb_successfulCalls cb' = cb_successfulCalls cb \<and>
     cb_failedCalls cb' = cb_failedCalls cb \<and>
     cb_rejectedCalls cb' = cb_rejectedCalls cb + (case r of Inl _ \<Rightarrow> 1 | Inr _ \<Rightarrow> 0)"
  by (auto simp: cb_op_defs Let_def split: if_splits)

lemma cb_counts_settle:
  "cb_totalCalls (cb_onSuccess now cb) = cb_totalCalls cb"
  "cb_successfulCalls (cb_onSuccess now cb) = cb_successfulCalls cb + 1"
  "cb_failedCalls (cb_onSuccess now cb) = cb_failedCalls cb"
  "cb_rejectedCalls (cb_onSuccess now cb) = cb_rejectedCalls cb"
  "cb_totalCalls (cb_onFailure now cb) = cb_totalCalls cb"
  "cb_successfulCalls (cb_onFailure now cb) = cb_successfulCalls cb"
  "cb_failedCalls (cb_onFailure now cb) = cb_failedCalls cb + 1"
  "cb_rejectedCalls (cb_onFailure now cb) = cb_rejectedCalls cb"
  by (auto simp: cb_op_defs Let_def)

lemma cb_open_success:
  "cb_state (cb_onSuccess now cb) = OPEN \<longleftrightarrow> cb_state cb = OPEN"
  "cb_nextAttempt (cb_onSuccess now cb) = cb_nextAttempt cb"
  by (auto simp: cb_op_defs Let_def)

lemma cb_open_failure:
  "cb_state cb = OPEN \<Longrightarrow> cb_state (cb_onFailure now cb) = OPEN"
  "cb_nextAttempt (cb_onFailure now cb) = cb_nextAttempt cb \<or>
   cb_nextAttempt (cb_onFailure now cb) = now + cbo_resetTimeout (cb_options cb)"
  "cb_state cb \<noteq> OPEN \<Longrightarrow> cb_state (cb_onFailure now cb) = OPEN \<Longrightarrow>
     cb_nextAttempt (cb_onFailure now cb) = now + cbo_resetTimeout (cb_options cb)"
  by (auto simp: cb_op_defs Let_def)

lemma cb_open_admit:
  "cb_admit now cb = (cb', r) \<Longrightarrow> cb_state cb' = OPEN \<longleftrightarrow> cb_state cb = OPEN \<and> now < cb_nextAttempt cb"
  "cb_admit now cb = (cb', r) \<Longrightarrow> cb_nextAttempt cb' = cb_nextAttempt cb"
  "cb_admit now cb = (cb', Inl e) \<Longrightarrow> cb_state cb = OPEN \<and> now < cb_nextAttempt cb"
  "cb_admit now cb = (cb', Inr u) \<Longrightarrow> \<not> (cb_state cb = OPEN \<and> now < cb_nextAttempt cb)"
  by (auto simp: cb_op_defs Let_def split: if_splits)

lemma cb_step_inv:
  assumes "cb_step s s'" and inv: "cb_sys_inv opts s"
  shows "cb_sys_inv opts s'"
  using assms(1)
proof cases
  case (tick d)
  with inv show ?thesis by (auto simp: cb_sys_inv_def cb_balanced_def)
next
  case (start cb')
  with inv cb_wf_admit [OF _ start(2)] cb_options_admit [OF start(2)]
    cb_counts_admit [OF start(2)] cb_open_admit(1,2) [OF start(2)]
  show ?thesis by (simp add: cb_sys_inv_def cb_balanced_def Let_def)
next
  case (reject cb' e)
  with inv cb_wf_admit [OF _ reject(2)] cb_options_admit [OF reject(2)]
    cb_counts_admit [OF reject(2)] cb_open_admit(1,2) [OF reject(2)]
  show ?thesis by (simp add: cb_sys_inv_def cb_balanced_def Let_def)
next
  case (succeed n)
  with inv show ?thesis
    by (simp add: cb_sys_inv_def cb_balanced_def Let_def cb_wf_success cb_counts_settle cb_open_success)
next
  case (fail n)
  with inv cb_open_failure [where cb = "sys_breaker s" and now = "sys_clock s"] show ?thesis
    by (auto simp: cb_sys_inv_def cb_balanced_def Let_def cb_wf_failure cb_counts_settle)
qed

lemma cb_reachable_inv: "cb_reachable opts s \<Longrightarrow> cb_sys_inv opts s"
proof (induction rule: cb_reachable.induct)
  case (init t)
  have "cb_wf (new_CircuitBreaker opts)" by (rule cb_wf_new)
  then show ?case
    by (simp add: cb_sys_inv_def cb_balanced_def Let_def) (simp add: new_CircuitBreaker_def)
next
  case (step s s')
  then show ?case by (blast intro: cb_step_inv)
qed


section \<open>Properties\<close>

text \<open>A breaker that one failure trips for a second, used by the witnesses.\<close>

definition demo_cb_opts :: CircuitBreakerOptions where
  "demo_cb_opts = \<lparr>cbo_name = ''db'', cbo_failureThreshold = 1, cbo_resetTimeout = 1000,
                    cbo_successThreshold = 2, cbo_callTimeout = 50\<rparr>"

definition demo_cb_open :: cb_sys where
  "demo_cb_open =
     \<lparr>sys_breaker = cb_onFailure 5 (fst (cb_admit 5 (new_CircuitBreaker demo_cb_opts)
                      :: CircuitBreaker \<times> (unit cb_error + unit))),
      sys_inflight = 0, sys_clock = 5\<rparr>"

lemma demo_cb_open_reachable: "cb_reachable demo_cb_opts demo_cb_open"
proof -
  let ?s0 = "\<lparr>sys_breaker = new_CircuitBreaker demo_cb_opts, sys_inflight = 0, sys_clock = 5\<rparr>"
  let ?cb1 = "fst (cb_admit 5 (new_CircuitBreaker demo_cb_opts)
                :: CircuitBreaker \<times> (unit cb_error + unit))"
  let ?s1 = "?s0\<lparr>sys_breaker := ?cb1, sys_inflight := 1\<rparr>"
  have 1: "cb_reachable demo_cb_opts ?s0" by (rule cb_reachable.init)
  have "cb_step ?s0 ?s1"
    using cb_step.start [of ?s0 ?cb1]
    by (simp add: cb_admit_def new_CircuitBreaker_def Let_def)
  with 1 have 2: "cb_reachable demo_cb_opts ?s1" by (rule cb_reachable.step)
  have "cb_step ?s1 demo_cb_open"
    using cb_step.fail [of ?s1 0] by (simp add: demo_cb_open_def)
  with 2 show ?thesis by (rule cb_reachable.step)
qed

lemma demo_cb_open_fields:
  "cb_state (sys_breaker demo_cb_open) = OPEN" "cb_nextAttempt (sys_breaker demo_cb_open) = 1005"
  "sys_clock demo_cb_open = 5" "cb_options (sys_breaker demo_cb_open) = demo_cb_opts"
  by (simp_all add: demo_cb_open_def cb_op_defs new_CircuitBreaker_def Let_def demo_cb_opts_def)

lemma demo_cb_open_wf: "cb_wf (sys_breaker demo_cb_open)"
  using cb_reachable_inv [OF demo_cb_open_reachable] by (simp add: cb_sys_inv_def)

text \<open>
  C1. The breaker refines the three-state automaton: admission, a successful and a failed call
  commute with the abstraction, and a call is admitted exactly when the automaton admits it.
\<close>

theorem cb_refines_abs:
  assumes "cb_wf cb"
  shows "cb_abs (cb_onSuccess now cb) = abs_success (cb_options cb) (cb_abs cb) \<and>
         cb_abs (cb_onFailure now cb) = abs_failure (cb_options cb) now (cb_abs cb) \<and>
         abs_admit now (cb_abs cb) =
           (cb_abs (fst (cb_admit now cb :: CircuitBreaker \<times> (unit cb_error + unit))),
            \<not> isl (snd (cb_admit now cb :: CircuitBreaker \<times> (unit cb_error + unit))))"
proof -
  obtain cb' and r :: "unit cb_error + unit" where adm: "cb_admit now cb = (cb', r)"
    by (cases "cb_admit now cb :: CircuitBreaker \<times> (unit cb_error + unit)")
  from cb_abs_admit [OF assms adm]
  have "abs_admit now (cb_abs cb) = (cb_abs cb', \<not> isl r)" by (cases r) auto
  with assms adm show ?thesis by (simp add: cb_abs_success cb_abs_failure)
qed

theorem cb_refines_abs_witness:
  "cb_abs (cb_onSuccess 6 (sys_breaker demo_cb_open)) = AOpen 1005 0 \<and>
   cb_abs (cb_onFailure 6 (sys_breaker demo_cb_open)) = AOpen 1006 2"
  using cb_refines_abs [OF demo_cb_open_wf, of 6]
  by (simp add: demo_cb_open_fields cb_abs_def)
     (simp add: demo_cb_open_def cb_op_defs new_CircuitBreaker_def Let_def demo_cb_opts_def)

text \<open>
  C2. In every reachable state of freely interleaved calls, the statistics account for every call
  (succeeded, failed, rejected or still in flight), a closed breaker has seen fewer consecutive
  failures than its threshold, and the retry time of an open one is at most one reset timeout away.
\<close>

theorem cb_reachable_sound:
  assumes "cb_reachable opts s"
  shows "cb_totalCalls (sys_breaker s) =
           cb_successfulCalls (sys_breaker s) + cb_failedCalls (sys_breaker s)
           + cb_rejectedCalls (sys_breaker s) + int (sys_inflight s) \<and>
         (cb_state (sys_breaker s) = CLOSED \<longrightarrow>
            cb_failureCount (sys_breaker s) < max 1 (cbo_failureThreshold opts)) \<and>
         (cb_state (sys_breaker s) = OPEN \<longrightarrow>
            cb_nextAttempt (sys_breaker s) \<le> sys_clock s + cbo_resetTimeout opts)"
  using cb_reachable_inv [OF assms] by (auto simp: cb_sys_inv_def cb_balanced_def cb_wf_def Let_def)

theorem cb_reachable_sound_witness:
  "cb_nextAttempt (sys_breaker demo_cb_open) \<le> 5 + cbo_resetTimeout demo_cb_opts"
  using cb_reachable_sound [OF demo_cb_open_reachable] by (simp add: demo_cb_open_fields)

lemma cb_open_stays:
  assumes "cb_step\<^sup>*\<^sup>* s s'" and "cb_sys_inv opts s" and "cb_state (sys_breaker s) = OPEN"
    and "sys_clock s' < cb_nextAttempt (sys_breaker s)"
  shows "cb_sys_inv opts s' \<and> cb_state (sys_breaker s') = OPEN \<and>
         cb_nextAttempt (sys_breaker s) \<le> cb_nextAttempt (sys_breaker s') \<and>
         sys_inflight s' \<le> sys_inflight s"
  using assms
proof (induction rule: rtranclp_induct)
  case base
  then show ?case by simp
next
  case (step t u)
  from step.hyps(2) have "sys_clock t \<le> sys_clock u" by cases auto
  with step.IH step.prems have IH: "cb_sys_inv opts t" "cb_state (sys_breaker t) = OPEN"
    "cb_nextAttempt (sys_breaker s) \<le> cb_nextAttempt (sys_breaker t)"
    "sys_inflight t \<le> sys_inflight s" "sys_clock t < cb_nextAttempt (sys_breaker s)"
    by auto
  from step.hyps(2) IH(1) have inv: "cb_sys_inv opts u" by (rule cb_step_inv)
  from step.hyps(2) show ?case
  proof cases
    case (start cb')
    from cb_open_admit(4) [OF start(2)] IH(2,3,5) have False by simp
    then show ?thesis ..
  next
    case (reject cb' e)
    with IH inv cb_open_admit(1,2) [OF reject(2)] show ?thesis by simp
  next
    case (fail n)
    from IH(1,2) have "cb_nextAttempt (sys_breaker t) \<le> sys_clock t + cbo_resetTimeout opts"
      and "cb_options (sys_breaker t) = opts" by (auto simp: cb_sys_inv_def)
    with fail IH inv cb_open_failure [where cb = "sys_breaker t" and now = "sys_clock t"]
    show ?thesis by auto
  qed (use IH inv in \<open>auto simp: cb_open_success\<close>)
qed

text \<open>
  Once a reachable breaker is open, no interleaving of calls starts a new call before the
  retry time: as long as the clock is short of it the breaker stays open, the retry time is never
  moved forward in time, and the calls in flight only drain.
\<close>

theorem cb_open_rejects:
  assumes "cb_reachable opts s" and "cb_state (sys_breaker s) = OPEN"
    and "cb_step\<^sup>*\<^sup>* s s'" and "sys_clock s' < cb_nextAttempt (sys_breaker s)"
  shows "cb_state (sys_breaker s') = OPEN \<and> sys_inflight s' \<le> sys_inflight s \<and>
         cb_nextAttempt (sys_breaker s) \<le> cb_nextAttempt (sys_breaker s') \<and>
         isl (snd (cb_admit (sys_clock s') (sys_breaker s')
                :: CircuitBreaker \<times> (unit cb_error + unit)))"
proof -
  from cb_reachable_inv [OF assms(1)] have "cb_sys_inv opts s" .
  from cb_open_stays [OF assms(3) this assms(2,4)] assms(4)
  show ?thesis by (auto simp: cb_admit_def Let_def)
qed

theorem cb_open_rejects_witness:
  "\<exists>s'. cb_step\<^sup>*\<^sup>* demo_cb_open s' \<and> sys_clock s' = 905 \<and> cb_state (sys_breaker s') = OPEN"
proof -
  let ?s' = "demo_cb_open\<lparr>sys_clock := sys_clock demo_cb_open + 900\<rparr>"
  have st: "cb_step\<^sup>*\<^sup>* demo_cb_open ?s'"
    using cb_step.tick [of 900 demo_cb_open] by (simp add: r_into_rtranclp)
  have "sys_clock ?s' < cb_nextAttempt (sys_breaker demo_cb_open)" "sys_clock ?s' = 905"
    by (simp_all add: demo_cb_open_fields)
  with cb_open_rejects [OF demo_cb_open_reachable demo_cb_open_fields(1) st] st
  show ?thesis by blast
qed

text \<open>Consecutive calls that all succeed at once, at the given times.\<close>

definition cb_successes :: "int list \<Rightarrow> CircuitBreaker \<Rightarrow> CircuitBreaker" where
  "cb_successes ts cb =
     fold (\<lambda>t c. fst (cb_execute t (Settles 0 (Inr ()) :: (unit, unit) fn_run) c)) ts cb"

lemma cb_execute_success:
  assumes "cb_wf cb" and "snd (abs_admit t (cb_abs cb))"
  shows "cb_abs (fst (cb_execute t (Settles 0 (Inr ()) :: (unit, unit) fn_run) cb)) =
           abs_success (cb_options cb) (fst (abs_admit t (cb_abs cb)))"
    and "cb_wf (fst (cb_execute t (Settles 0 (Inr ()) :: (unit, unit) fn_run) cb))"
    and "cb_options (fst (cb_execute t (Settles 0 (Inr ()) :: (unit, unit) fn_run) cb)) = cb_options cb"
proof -
  obtain cb' and r :: "unit cb_error + unit" where adm: "cb_admit t cb = (cb', r)"
    by (cases "cb_admit t cb :: CircuitBreaker \<times> (unit cb_error + unit)")
  from cb_abs_admit [OF assms(1) adm] assms(2) have r: "r = Inr ()" "fst (abs_admit t (cb_abs cb)) = cb_abs cb'"
    by (cases r; simp)+
  note wf' = cb_wf_admit [OF assms(1) adm] and opts' = cb_options_admit [OF adm]
  have ex: "fst (cb_execute t (Settles 0 (Inr ()) :: (unit, unit) fn_run) cb) = cb_onSuccess t cb'"
    using adm r by (simp add: cb_execute_def cb_executeWithTimeout_def timer_delay_pos)
  show "cb_abs (fst (cb_execute t (Settles 0 (Inr ()) :: (unit, unit) fn_run) cb)) =
      abs_success (cb_options cb) (fst (abs_admit t (cb_abs cb)))"
    "cb_wf (fst (cb_execute t (Settles 0 (Inr ()) :: (unit, unit) fn_run) cb))"
    "cb_options (fst (cb_execute t (Settles 0 (Inr ()) :: (unit, unit) fn_run) cb)) = cb_options cb"
    using wf' opts' r by (simp_all add: ex cb_abs_success cb_wf_success)
qed

lemma cb_half_open_closes:
  assumes "cb_wf cb" and "cb_abs cb = AHalf n k"
    and "int (length ts) + n = max 1 (cbo_successThreshold (cb_options cb))"
  shows "cb_abs (cb_successes ts cb) = AClosed 0"
  using assms
proof (induction ts arbitrary: cb n k)
  case Nil
  then show ?case by (auto simp: cb_wf_def cb_abs_def split: CircuitState.splits)
next
  case (Cons t ts)
  let ?c = "fst (cb_execute t (Settles 0 (Inr ()) :: (unit, unit) fn_run) cb)"
  have adm: "snd (abs_admit t (cb_abs cb))" using Cons.prems(2) by simp
  note ex = cb_execute_success [OF Cons.prems(1) adm]
  have run: "cb_successes (t # ts) cb = cb_successes ts ?c" by (simp add: cb_successes_def)
  show ?case
  proof (cases ts)
    case Nil
    with ex(1) Cons.prems run show ?thesis by (simp add: cb_successes_def)
  next
    case (Cons t' ts')
    have "0 \<le> n" using Cons.prems(1,2) by (auto simp: cb_wf_def cb_abs_def split: CircuitState.splits)
    with Cons Cons.prems have "\<not> cbo_successThreshold (cb_options cb) \<le> n + 1" by auto
    with ex(1) Cons.prems have "cb_abs ?c = AHalf (n + 1) 0" by simp
    with ex(2,3) Cons.IH [of ?c "n + 1" 0] Cons.prems(3) run show ?thesis by simp
  qed
qed

text \<open>
  C3. Recovery: once the retry time of an open breaker has come, as many consecutive successful
  calls as the success threshold asks for (at least one) close it again, with its failure count
  cleared.
\<close>

theorem cb_recovers:
  assumes "cb_wf cb" and "cb_state cb = OPEN" and "cb_nextAttempt cb \<le> t"
    and "int (length (t # ts)) = max 1 (cbo_successThreshold (cb_options cb))"
  shows "cb_state (cb_successes (t # ts) cb) = CLOSED \<and> cb_failureCount (cb_successes (t # ts) cb) = 0"
proof -
  let ?c = "fst (cb_execute t (Settles 0 (Inr ()) :: (unit, unit) fn_run) cb)"
  have abs: "cb_abs cb = AOpen (cb_nextAttempt cb) (cb_failureCount cb)"
    using assms(2) by (simp add: cb_abs_def)
  with assms(3) have adm: "snd (abs_admit t (cb_abs cb))" by simp
  note ex = cb_execute_success [OF assms(1) adm]
  have "cb_abs (cb_successes (t # ts) cb) = AClosed 0"
  proof (cases ts)
    case Nil
    with ex(1) abs assms(3,4) show ?thesis by (simp add: cb_successes_def)
  next
    case (Cons t' ts')
    with ex(1) abs assms(3,4) have "cb_abs ?c = AHalf 1 0" by simp
    from cb_half_open_closes [OF ex(2) this, of ts] ex(3) assms(4)
    show ?thesis by (simp add: cb_successes_def)
  qed
  then show ?thesis by (simp add: cb_abs_def split: CircuitState.splits)
qed

theorem cb_recovers_witness:
  "cb_state (cb_successes [2000, 2001] (sys_breaker demo_cb_open)) = CLOSED"
  using cb_recovers [OF demo_cb_open_wf, of 2000 "[2001]"]
  by (simp add: demo_cb_open_fields) (simp add: demo_cb_opts_def)

end
