(* ===== verification/Retry.thy ===== *)
theory Retry
  imports Prelude
begin

text \<open>
  \<open>packages/kernel/src/resilience/retry.ts\<close>: retry with exponential backoff and jitter.

  The retried function is modelled by its outcome at each attempt, an error (its message) or a
  value; \<open>Math.random()\<close> by a value in the unit interval per attempt. The loop is a recursion on
  the attempt; its result records what is returned or thrown, how often the function was called,
  and the calls of \<open>onRetry\<close> (attempt, error, delay), each followed by a sleep of that delay.
\<close>

section \<open>Options and delays\<close>

record RetryOptions =
  ro_maxRetries :: int
  ro_baseDelay :: rat
  ro_maxDelay :: rat
  ro_backoffMultiplier :: rat
  ro_jitter :: bool
  ro_retryCondition :: "(string \<Rightarrow> bool) option"

definition DEFAULT_RETRY_OPTIONS :: RetryOptions where
  "DEFAULT_RETRY_OPTIONS =
     \<lparr>ro_maxRetries = 3, ro_baseDelay = 1000, ro_maxDelay = 30000, ro_backoffMultiplier = 2,
      ro_jitter = True, ro_retryCondition = None\<rparr>"

definition calculateDelay :: "nat \<Rightarrow> RetryOptions \<Rightarrow> rat \<Rightarrow> int" where
  "calculateDelay attempt opts random =
     (let delay = ro_baseDelay opts * ro_backoffMultiplier opts ^ attempt;
          delay = min delay (ro_maxDelay opts);
          delay = (if ro_jitter opts then random * delay else delay)
      in \<lfloor>delay\<rfloor>)"

section \<open>The loop\<close>

text \<open>\<open>RetryExhaustedError\<close> carries the number of retries of its message, the last error and the
  attempt; a refused error is rethrown as it is; with a negative \<open>maxRetries\<close> the loop body never
  runs and the code throws the unassigned \<open>lastError\<close>.\<close>

datatype retry_error = RetryExhausted int string int | Rethrown string | ThrowUndefined

record 'a retry_run =
  rr_result :: "retry_error + 'a"
  rr_calls :: nat
  rr_onRetry :: "(int \<times> string \<times> int) list"

function retry_from ::
    "RetryOptions \<Rightarrow> (nat \<Rightarrow> string + 'a) \<Rightarrow> (nat \<Rightarrow> rat) \<Rightarrow> nat \<Rightarrow>
     (int \<times> string \<times> int) list \<Rightarrow> 'a retry_run" where
  "retry_from opts fn rnd attempt calls =
     (if int attempt \<le> ro_maxRetries opts then
        (case fn attempt of
           Inr v \<Rightarrow> \<lparr>rr_result = Inr v, rr_calls = Suc attempt, rr_onRetry = calls\<rparr>
         | Inl lastError \<Rightarrow>
             if int attempt \<ge> ro_maxRetries opts then
               \<lparr>rr_result = Inl (RetryExhausted (ro_maxRetries opts) lastError (int attempt)),
                rr_calls = Suc attempt, rr_onRetry = calls\<rparr>
             else if (case ro_retryCondition opts of None \<Rightarrow> False | Some cond \<Rightarrow> \<not> cond lastError) then
               \<lparr>rr_result = Inl (Rethrown lastError), rr_calls = Suc attempt, rr_onRetry = calls\<rparr>
             else
               (let delay = calculateDelay attempt opts (rnd attempt)
                in retry_from opts fn rnd (Suc attempt)
                     (calls @ [(int attempt + 1, lastError, delay)])))
      else \<lparr>rr_result = Inl ThrowUndefined, rr_calls = attempt, rr_onRetry = calls\<rparr>)"
  by pat_completeness auto
termination
  by (relation "measure (\<lambda>(opts, fn, rnd, attempt, calls). nat (ro_maxRetries opts + 1 - int attempt))") auto

declare retry_from.simps [simp del]

definition withRetry :: "(nat \<Rightarrow> string + 'a) \<Rightarrow> (nat \<Rightarrow> rat) \<Rightarrow> RetryOptions \<Rightarrow> 'a retry_run" where
  "withRetry fn rnd opts = retry_from opts fn rnd 0 []"

section \<open>Common retry conditions\<close>

definition isNetworkError :: "string \<Rightarrow> bool" where
  "isNetworkError message =
     list_ex (\<lambda>code. js_includes message code)
       [''ECONNREFUSED'', ''ECONNRESET'', ''ETIMEDOUT'', ''ENOTFOUND'', ''EAI_AGAIN'']"

text \<open>The regular expression \<open>/status[:\s]*(\d{3})/i\<close>: the leftmost match, whose separators are
  taken greedily (no digit is a separator, so there is no backtracking).\<close>

definition is_space :: "char \<Rightarrow> bool" where
  "is_space c = (let n = of_char c :: nat in (9 \<le> n \<and> n \<le> 13) \<or> n = 32 \<or> n = 160)"

definition is_digit :: "char \<Rightarrow> bool" where
  "is_digit c = (let n = of_char c :: nat in 48 \<le> n \<and> n \<le> 57)"

definition digit_val :: "char \<Rightarrow> int" where
  "digit_val c = int (of_char c) - 48"

definition status_here :: "string \<Rightarrow> int option" where
  "status_here s =
     (if js_toLowerCase (take 6 s) = ''status'' then
        (case dropWhile (\<lambda>c. c = CHR '':'' \<or> is_space c) (drop 6 s) of
           a # b # c # _ \<Rightarrow>
             if is_digit a \<and> is_digit b \<and> is_digit c
             then Some (100 * digit_val a + 10 * digit_val b + digit_val c) else None
         | _ \<Rightarrow> None)
      else None)"

fun match_status :: "string \<Rightarrow> int option" where
  "match_status [] = None"
| "match_status (c # cs) = (case status_here (c # cs) of Some n \<Rightarrow> Some n | None \<Rightarrow> match_status cs)"

definition isServerError :: "string \<Rightarrow> bool" where
  "isServerError message =
     (case match_status message of Some status \<Rightarrow> status \<ge> 500 \<and> status < 600 | None \<Rightarrow> False)"

definition isRateLimitError :: "string \<Rightarrow> bool" where
  "isRateLimitError message =
     (js_includes message ''429'' \<or> js_includes (js_toLowerCase message) ''rate limit'')"

definition isTransientError :: "string \<Rightarrow> bool" where
  "isTransientError message =
     (isNetworkError message \<or> isServerError message \<or> isRateLimitError message)"

section \<open>Lemmas\<close>

definition retryable :: "RetryOptions \<Rightarrow> string \<Rightarrow> bool" where
  "retryable opts e = (case ro_retryCondition opts of None \<Rightarrow> True | Some cond \<Rightarrow> cond e)"

lemma retry_from_step:
  "int attempt < ro_maxRetries opts \<Longrightarrow> fn attempt = Inl e \<Longrightarrow> retryable opts e \<Longrightarrow>
     retry_from opts fn rnd attempt calls =
       retry_from opts fn rnd (Suc attempt)
         (calls @ [(int attempt + 1, e, calculateDelay attempt opts (rnd attempt))])"
  by (subst retry_from.simps) (auto simp: retryable_def Let_def split: option.splits)

lemma retry_from_stop:
  assumes "\<not> (int attempt < ro_maxRetries opts \<and> (\<exists>e. fn attempt = Inl e \<and> retryable opts e))"
  shows "retry_from opts fn rnd attempt calls =
     (if int attempt \<le> ro_maxRetries opts then
        \<lparr>rr_result =
           (case fn attempt of
              Inr v \<Rightarrow> Inr v
            | Inl e \<Rightarrow> Inl (if int attempt = ro_maxRetries opts
                            then RetryExhausted (ro_maxRetries opts) e (int attempt)
                            else Rethrown e)),
         rr_calls = Suc attempt, rr_onRetry = calls\<rparr>
      else \<lparr>rr_result = Inl ThrowUndefined, rr_calls = attempt, rr_onRetry = calls\<rparr>)"
proof (cases "fn attempt")
  case (Inl e)
  show ?thesis
  proof (cases "int attempt < ro_maxRetries opts")
    case True
    with assms Inl have "\<not> retryable opts e" by blast
    with True Inl show ?thesis
      by (subst retry_from.simps) (simp add: retryable_def split: option.splits)
  next
    case False
    with Inl show ?thesis by (subst retry_from.simps) simp
  qed
next
  case (Inr v)
  then show ?thesis by (subst retry_from.simps) simp
qed

lemma retry_from_skip:
  assumes "j \<le> k" and "int k \<le> ro_maxRetries opts"
    and "\<forall>i. j \<le> i \<and> i < k \<longrightarrow> (\<exists>e. fn i = Inl e \<and> retryable opts e)"
  shows "\<exists>calls'. retry_from opts fn rnd j calls = retry_from opts fn rnd k calls'"
  using assms
proof (induction "k - j" arbitrary: j calls)
  case 0
  then show ?case by auto
next
  case (Suc d)
  then have "j < k" by simp
  with Suc.prems obtain e where "fn j = Inl e" "retryable opts e" by blast
  with \<open>j < k\<close> Suc.prems(2) have "retry_from opts fn rnd j calls =
      retry_from opts fn rnd (Suc j) (calls @ [(int j + 1, e, calculateDelay j opts (rnd j))])"
    by (intro retry_from_step) auto
  with Suc.hyps(1) [of "Suc j"] Suc.hyps(2) Suc.prems \<open>j < k\<close> show ?case by auto
qed

lemma calculateDelay_bounds:
  assumes "0 \<le> ro_baseDelay opts" "0 \<le> ro_backoffMultiplier opts" "0 \<le> ro_maxDelay opts"
    and "0 \<le> r" "r \<le> 1"
  shows "0 \<le> calculateDelay attempt opts r" "of_int (calculateDelay attempt opts r) \<le> ro_maxDelay opts"
proof -
  let ?d = "min (ro_baseDelay opts * ro_backoffMultiplier opts ^ attempt) (ro_maxDelay opts)"
  have d: "0 \<le> ?d" "?d \<le> ro_maxDelay opts" using assms by auto
  have "0 \<le> r * ?d" by (rule mult_nonneg_nonneg [OF assms(4) d(1)])
  moreover have "r * ?d \<le> ?d" by (rule mult_left_le_one_le [OF d(1) assms(4,5)])
  ultimately have "0 \<le> r * ?d" "r * ?d \<le> ?d" .
  with d have x: "0 \<le> (if ro_jitter opts then r * ?d else ?d)"
    "(if ro_jitter opts then r * ?d else ?d) \<le> ro_maxDelay opts" by auto
  have eq: "calculateDelay attempt opts r = \<lfloor>if ro_jitter opts then r * ?d else ?d\<rfloor>"
    by (simp add: calculateDelay_def Let_def)
  show "0 \<le> calculateDelay attempt opts r" using x(1) unfolding eq by (subst zero_le_floor)
  show "of_int (calculateDelay attempt opts r) \<le> ro_maxDelay opts"
    unfolding eq by (rule order_trans [OF of_int_floor_le x(2)])
qed

lemma retry_from_log:
  assumes "\<forall>i. 0 \<le> rnd i \<and> rnd i \<le> 1"
    and "0 \<le> ro_baseDelay opts" "0 \<le> ro_backoffMultiplier opts" "0 \<le> ro_maxDelay opts"
    and "\<forall>(a, e, d) \<in> set calls. 0 \<le> d \<and> of_int d \<le> ro_maxDelay opts"
    and "length calls = attempt"
  shows "(\<forall>(a, e, d) \<in> set (rr_onRetry (retry_from opts fn rnd attempt calls)).
            0 \<le> d \<and> of_int d \<le> ro_maxDelay opts) \<and>
         rr_calls (retry_from opts fn rnd attempt calls) \<le> max attempt (nat (ro_maxRetries opts + 1)) \<and>
         (int attempt \<le> ro_maxRetries opts \<longrightarrow>
            length (rr_onRetry (retry_from opts fn rnd attempt calls)) + 1 =
            rr_calls (retry_from opts fn rnd attempt calls))"
  using assms
proof (induction opts fn rnd attempt calls rule: retry_from.induct)
  case (1 opts fn rnd attempt calls)
  show ?case
  proof (cases "int attempt < ro_maxRetries opts \<and> (\<exists>e. fn attempt = Inl e \<and> retryable opts e)")
    case True
    then obtain e where e: "int attempt < ro_maxRetries opts" "fn attempt = Inl e" "retryable opts e"
      by blast
    let ?d = "calculateDelay attempt opts (rnd attempt)"
    from calculateDelay_bounds [of opts "rnd attempt" attempt] "1.prems"
    have d: "0 \<le> ?d \<and> of_int ?d \<le> ro_maxDelay opts" by auto
    have "\<not> (case ro_retryCondition opts of None \<Rightarrow> False | Some cond \<Rightarrow> \<not> cond e)"
      using e(3) by (auto simp: retryable_def split: option.splits)
    from "1.IH" [OF _ e(2) _ this refl] "1.prems" e d
    show ?thesis by (auto simp: retry_from_step)
  next
    case False
    have "rr_onRetry (retry_from opts fn rnd attempt calls) = calls"
      "rr_calls (retry_from opts fn rnd attempt calls) =
         (if int attempt \<le> ro_maxRetries opts then Suc attempt else attempt)"
      by (simp_all add: retry_from_stop [where fn = fn, OF False])
    moreover have "int attempt \<le> ro_maxRetries opts \<Longrightarrow> Suc attempt \<le> nat (ro_maxRetries opts + 1)"
      by arith
    ultimately show ?thesis using "1.prems" by simp
  qed
qed

section \<open>Properties\<close>

text \<open>
  The outcome of the loop on every branch. If the first attempts fail with retryable errors
  and attempt \<open>k\<close>, within the limit, succeeds, its value is returned after exactly \<open>k + 1\<close> calls;
  if all permitted attempts fail with retryable errors, the exhaustion error carries the last
  error and the number of retries; an error the condition refuses before the limit is rethrown
  at once.
\<close>

theorem withRetry_outcome:
  assumes "int k \<le> ro_maxRetries opts"
    and "\<forall>i < k. \<exists>e. fn i = Inl e \<and> retryable opts e"
  shows "(fn k = Inr v \<longrightarrow>
            rr_result (withRetry fn rnd opts) = Inr v \<and> rr_calls (withRetry fn rnd opts) = Suc k) \<and>
         (fn k = Inl e \<and> int k = ro_maxRetries opts \<longrightarrow>
            rr_result (withRetry fn rnd opts) = Inl (RetryExhausted (int k) e (int k)) \<and>
            rr_calls (withRetry fn rnd opts) = Suc k) \<and>
         (fn k = Inl e \<and> int k < ro_maxRetries opts \<and> \<not> retryable opts e \<longrightarrow>
            rr_result (withRetry fn rnd opts) = Inl (Rethrown e) \<and>
            rr_calls (withRetry fn rnd opts) = Suc k)"
proof -
  from retry_from_skip [OF _ assms(1), of 0 fn rnd "[]"] assms(2)
  obtain lg where eq: "withRetry fn rnd opts = retry_from opts fn rnd k lg"
    by (auto simp: withRetry_def)
  from assms(1) show ?thesis
    unfolding eq by (auto simp: retry_from_stop)
qed

theorem withRetry_outcome_witness:
  "rr_result (withRetry (\<lambda>i. if i < 2 then Inl ''ETIMEDOUT'' else Inr (7::int)) (\<lambda>_. 1 / 2)
     DEFAULT_RETRY_OPTIONS) = Inr 7"
proof -
  have "int 2 \<le> ro_maxRetries DEFAULT_RETRY_OPTIONS" by (simp add: DEFAULT_RETRY_OPTIONS_def)
  from withRetry_outcome [OF this, of "\<lambda>i. if i < 2 then Inl ''ETIMEDOUT'' else Inr 7" 7 "\<lambda>_. 1 / 2"]
  show ?thesis by (auto simp: retryable_def DEFAULT_RETRY_OPTIONS_def)
qed

text \<open>
  The loop is bounded: with non-negative options and random numbers in the unit interval, the
  function is called at most \<open>maxRetries + 1\<close> times, every call but the last is followed by one
  \<open>onRetry\<close> and one sleep, and no sleep is negative or longer than \<open>maxDelay\<close>.
\<close>

theorem withRetry_bounded:
  assumes "\<forall>i. 0 \<le> rnd i \<and> rnd i \<le> 1"
    and "0 \<le> ro_baseDelay opts" "0 \<le> ro_backoffMultiplier opts" "0 \<le> ro_maxDelay opts"
    and "0 \<le> ro_maxRetries opts"
  shows "int (rr_calls (withRetry fn rnd opts)) \<le> ro_maxRetries opts + 1 \<and>
         length (rr_onRetry (withRetry fn rnd opts)) + 1 = rr_calls (withRetry fn rnd opts) \<and>
         (\<forall>(a, e, d) \<in> set (rr_onRetry (withRetry fn rnd opts)).
            0 \<le> d \<and> of_int d \<le> ro_maxDelay opts)"
proof -
  from retry_from_log [OF assms(1-4), of "[]" 0 fn] assms(5)
  show ?thesis by (auto simp: withRetry_def)
qed

theorem withRetry_bounded_witness:
  "rr_calls (withRetry (\<lambda>i. Inl ''status 503'' :: string + unit) (\<lambda>_. 1 / 2) DEFAULT_RETRY_OPTIONS) \<le> 4"
  using withRetry_bounded [of "\<lambda>_. 1 / 2" DEFAULT_RETRY_OPTIONS "\<lambda>i. Inl ''status 503'' :: string + unit"]
  by (simp add: DEFAULT_RETRY_OPTIONS_def)

lemma isTransientError_examples:
  "isTransientError ''connect ECONNREFUSED 127.0.0.1''"
  "isTransientError ''Status: 503''"
  "isTransientError ''Rate Limit reached''"
  "\<not> isTransientError ''status 404''"
  by code_simp+

end
