(* ===== verification/Bulkhead.thy ===== *)
theory Bulkhead
  imports Prelude
begin

text \<open>
  \<open>packages/kernel/src/resilience/bulkhead.ts\<close>: a bound on concurrent executions with a bounded
  waiting queue.

  A task is a number: the identity of the function passed to \<open>execute\<close>, of its promise and of its
  queue timer. The asynchronous \<open>run\<close> is split at its \<open>await\<close> into \<open>bh_run\<close> (before) and
  \<open>bh_run_finally\<close> (the \<open>finally\<close> block). \<open>bh_events\<close> records the calls of \<open>onReject\<close> and
  \<open>onMetric\<close> and the queued promises that are rejected. The step relation \<open>bh_step\<close> runs any
  number of tasks concurrently; it keeps the running tasks with their start times, which the
  class holds in the closures of its promises.
\<close>

section \<open>State and operations\<close>

record BulkheadOptions =
  bo_name :: string
  bo_maxConcurrent :: int
  bo_maxQueue :: int
  bo_queueTimeout :: int

record BulkheadInfo =
  bi_name :: string
  bi_activeCount :: int
  bi_queueSize :: int
  bi_maxConcurrent :: int
  bi_maxQueue :: int

record BulkheadMetric =
  bm_name :: string
  bm_activeCount :: int
  bm_queueSize :: int
  bm_totalExecutions :: int
  bm_totalRejections :: int
  bm_totalTimeouts :: int
  bm_avgExecutionTime :: rat

record QueuedItem =
  qi_task :: nat
  qi_enqueuedAt :: int

datatype bh_error = BulkheadFullError BulkheadInfo | BulkheadTimeoutError BulkheadInfo | BulkheadReset

datatype bh_event = OnReject BulkheadInfo | OnBulkheadMetric BulkheadMetric | RejectPromise nat bh_error

record Bulkhead =
  bh_options :: BulkheadOptions
  bh_activeCount :: int
  bh_queue :: "QueuedItem list"
  bh_totalExecutions :: int
  bh_totalRejections :: int
  bh_totalTimeouts :: int
  bh_totalExecutionTime :: int
  bh_events :: "bh_event list"

definition new_Bulkhead :: "BulkheadOptions \<Rightarrow> Bulkhead" where
  "new_Bulkhead opts =
     \<lparr>bh_options = opts, bh_activeCount = 0, bh_queue = [], bh_totalExecutions = 0,
      bh_totalRejections = 0, bh_totalTimeouts = 0, bh_totalExecutionTime = 0, bh_events = []\<rparr>"

definition bh_getInfo :: "Bulkhead \<Rightarrow> BulkheadInfo" where
  "bh_getInfo bh =
     \<lparr>bi_name = bo_name (bh_options bh), bi_activeCount = bh_activeCount bh,
      bi_queueSize = int (length (bh_queue bh)),
      bi_maxConcurrent = bo_maxConcurrent (bh_options bh), bi_maxQueue = bo_maxQueue (bh_options bh)\<rparr>"

definition bh_getMetrics :: "Bulkhead \<Rightarrow> BulkheadMetric" where
  "bh_getMetrics bh =
     \<lparr>bm_name = bo_name (bh_options bh), bm_activeCount = bh_activeCount bh,
      bm_queueSize = int (length (bh_queue bh)), bm_totalExecutions = bh_totalExecutions bh,
      bm_totalRejections = bh_totalRejections bh, bm_totalTimeouts = bh_totalTimeouts bh,
      bm_avgExecutionTime =
        (if bh_totalExecutions bh > 0
         then of_int (bh_totalExecutionTime bh) / of_int (bh_totalExecutions bh) else 0)\<rparr>"

definition bh_emit :: "bh_event \<Rightarrow> Bulkhead \<Rightarrow> Bulkhead" where
  "bh_emit ev bh = bh\<lparr>bh_events := bh_events bh @ [ev]\<rparr>"

definition bh_emitMetric :: "Bulkhead \<Rightarrow> Bulkhead" where
  "bh_emitMetric bh = bh_emit (OnBulkheadMetric (bh_getMetrics bh)) bh"

definition bh_run :: "Bulkhead \<Rightarrow> Bulkhead" where
  "bh_run bh =
     bh\<lparr>bh_activeCount := bh_activeCount bh + 1, bh_totalExecutions := bh_totalExecutions bh + 1\<rparr>"

text \<open>The queue's head, when there is room, leaves the queue and starts to run.\<close>

definition bh_dequeue :: "Bulkhead \<Rightarrow> Bulkhead \<times> nat option" where
  "bh_dequeue bh =
     (if length (bh_queue bh) = 0 \<or> bh_activeCount bh \<ge> bo_maxConcurrent (bh_options bh)
      then (bh, None)
      else (case bh_queue bh of
              item # rest \<Rightarrow> (bh_run (bh\<lparr>bh_queue := rest\<rparr>), Some (qi_task item))
            | [] \<Rightarrow> (bh, None)))"

definition bh_run_finally :: "int \<Rightarrow> int \<Rightarrow> Bulkhead \<Rightarrow> Bulkhead \<times> nat option" where
  "bh_run_finally now startTime bh =
     bh_dequeue (bh_emitMetric
       (bh\<lparr>bh_totalExecutionTime := bh_totalExecutionTime bh + (now - startTime),
           bh_activeCount := bh_activeCount bh - 1\<rparr>))"

definition bh_enqueue :: "int \<Rightarrow> nat \<Rightarrow> Bulkhead \<Rightarrow> Bulkhead" where
  "bh_enqueue now task bh =
     bh\<lparr>bh_queue := bh_queue bh @ [\<lparr>qi_task = task, qi_enqueuedAt = now\<rparr>]\<rparr>"

text \<open>The queue timer of a task fires.\<close>

definition bh_queue_timeout :: "nat \<Rightarrow> Bulkhead \<Rightarrow> Bulkhead" where
  "bh_queue_timeout task bh =
     (if list_ex (\<lambda>item. qi_task item = task) (bh_queue bh) then
        (let bh1 = bh\<lparr>bh_queue := remove_first (\<lambda>item. qi_task item = task) (bh_queue bh),
                      bh_totalTimeouts := bh_totalTimeouts bh + 1\<rparr>;
             bh2 = bh_emitMetric bh1
         in bh_emit (RejectPromise task (BulkheadTimeoutError (bh_getInfo bh2))) bh2)
      else bh)"

datatype bh_outcome = Started | Enqueued | Refused bh_error

definition bh_execute :: "int \<Rightarrow> nat \<Rightarrow> Bulkhead \<Rightarrow> Bulkhead \<times> bh_outcome" where
  "bh_execute now task bh =
     (if bh_activeCount bh < bo_maxConcurrent (bh_options bh) then (bh_run bh, Started)
      else if int (length (bh_queue bh)) \<ge> bo_maxQueue (bh_options bh) then
        (let bh1 = bh\<lparr>bh_totalRejections := bh_totalRejections bh + 1\<rparr>;
             bh2 = bh_emit (OnReject (bh_getInfo bh1)) bh1;
             bh3 = bh_emitMetric bh2
         in (bh3, Refused (BulkheadFullError (bh_getInfo bh3))))
      else (bh_enqueue now task bh, Enqueued))"

definition bh_reset :: "Bulkhead \<Rightarrow> Bulkhead" where
  "bh_reset bh =
     (let bh1 = fold (\<lambda>item. bh_emit (RejectPromise (qi_task item) BulkheadReset)) (bh_queue bh) bh
      in bh1\<lparr>bh_queue := [], bh_activeCount := 0, bh_totalExecutions := 0, bh_totalRejections := 0,
             bh_totalTimeouts := 0, bh_totalExecutionTime := 0\<rparr>)"

section \<open>Concurrent tasks\<close>

record bh_sys =
  bs_bulkhead :: Bulkhead
  bs_running :: "(nat \<times> int) list"
  bs_submitted :: nat
  bs_clock :: int

definition add_started :: "int \<Rightarrow> nat option \<Rightarrow> (nat \<times> int) list \<Rightarrow> (nat \<times> int) list" where
  "add_started now t rs = (case t of None \<Rightarrow> rs | Some k \<Rightarrow> rs @ [(k, now)])"

inductive bh_step :: "bh_sys \<Rightarrow> bh_sys \<Rightarrow> bool" where
  bh_tick: "0 \<le> d \<Longrightarrow> bh_step s (s\<lparr>bs_clock := bs_clock s + d\<rparr>)"
| bh_submit: "bh_execute (bs_clock s) task (bs_bulkhead s) = (bh', out) \<Longrightarrow>
     bh_step s (s\<lparr>bs_bulkhead := bh', bs_submitted := Suc (bs_submitted s),
                  bs_running := add_started (bs_clock s)
                    (if out = Started then Some task else None) (bs_running s)\<rparr>)"
| bh_finish: "bs_running s = us @ (task, start) # vs \<Longrightarrow>
     bh_run_finally (bs_clock s) start (bs_bulkhead s) = (bh', next_task) \<Longrightarrow>
     bh_step s (s\<lparr>bs_bulkhead := bh',
                  bs_running := add_started (bs_clock s) next_task (us @ vs)\<rparr>)"
| bh_expire: "bh_step s (s\<lparr>bs_bulkhead := bh_queue_timeout task (bs_bulkhead s)\<rparr>)"

definition bh_init :: "BulkheadOptions \<Rightarrow> int \<Rightarrow> bh_sys" where
  "bh_init opts t =
     \<lparr>bs_bulkhead = new_Bulkhead opts, bs_running = [], bs_submitted = 0, bs_clock = t\<rparr>"

definition bh_reachable :: "BulkheadOptions \<Rightarrow> bh_sys \<Rightarrow> bool" where
  "bh_reachable opts s = (\<exists>t. bh_step\<^sup>*\<^sup>* (bh_init opts t) s)"

section \<open>The invariant\<close>

text \<open>The counter is the number of running tasks and within its limit, the queue is within its
  limit, nothing waits while there is room, and every submitted task is accounted for.\<close>

definition bh_inv :: "BulkheadOptions \<Rightarrow> bh_sys \<Rightarrow> bool" where
  "bh_inv opts s \<longleftrightarrow>
     (let bh = bs_bulkhead s in
      bh_options bh = opts \<and>
      bh_activeCount bh = int (length (bs_running s)) \<and>
      bh_activeCount bh \<le> max 0 (bo_maxConcurrent opts) \<and>
      int (length (bh_queue bh)) \<le> max 0 (bo_maxQueue opts) \<and>
      (bh_queue bh \<noteq> [] \<longrightarrow> bo_maxConcurrent opts \<le> bh_activeCount bh) \<and>
      int (bs_submitted s) =
        bh_totalExecutions bh + bh_totalRejections bh + bh_totalTimeouts bh
        + int (length (bh_queue bh)))"

lemmas bh_op_defs =
  bh_emit_def bh_emitMetric_def bh_run_def bh_dequeue_def bh_run_finally_def bh_enqueue_def
  bh_queue_timeout_def bh_execute_def

lemma bh_inv_init: "bh_inv opts (bh_init opts t)"
  by (simp add: bh_inv_def bh_init_def new_Bulkhead_def)

lemma bh_step_inv:
  assumes "bh_step s s'" and "bh_inv opts s"
  shows "bh_inv opts s'"
  using assms(1)
proof cases
  case (bh_tick d)
  with assms(2) show ?thesis by (simp add: bh_inv_def)
next
  case (bh_submit task bh' out)
  with assms(2) show ?thesis
    by (auto simp: bh_inv_def bh_op_defs add_started_def Let_def split: if_splits)
next
  case (bh_finish us task start vs bh' nxt)
  with assms(2) show ?thesis
    by (auto simp: bh_inv_def bh_op_defs add_started_def Let_def split: if_splits list.splits)
next
  case (bh_expire task)
  let ?p = "\<lambda>item. qi_task item = task" and ?q = "bh_queue (bs_bulkhead s)"
  have shrink: "list_ex ?p ?q \<Longrightarrow>
      ?q \<noteq> [] \<and> length ?q = Suc (length (remove_first ?p ?q))"
    using length_remove_first [of ?p ?q] by (cases "?q = []") (auto simp: Suc_diff_Suc)
  show ?thesis
  proof (cases "list_ex ?p ?q")
    case True
    from shrink [OF this] have "?q \<noteq> []" "int (length ?q) = 1 + int (length (remove_first ?p ?q))"
      by simp_all
    with True assms(2) bh_expire show ?thesis
      by (simp add: bh_inv_def bh_op_defs Let_def)
  next
    case False
    with assms(2) bh_expire show ?thesis by (simp add: bh_queue_timeout_def)
  qed
qed

lemma bh_reachable_inv:
  assumes "bh_reachable opts s"
  shows "bh_inv opts s"
proof -
  from assms obtain t where "bh_step\<^sup>*\<^sup>* (bh_init opts t) s" by (auto simp: bh_reachable_def)
  then show ?thesis
    by (induction rule: rtranclp_induct) (auto intro: bh_inv_init bh_step_inv)
qed

section \<open>Properties\<close>

definition demo_bh_opts :: BulkheadOptions where
  "demo_bh_opts = \<lparr>bo_name = ''io'', bo_maxConcurrent = 1, bo_maxQueue = 1, bo_queueTimeout = 100\<rparr>"

definition demo_bh_busy :: bh_sys where
  "demo_bh_busy =
     \<lparr>bs_bulkhead = bh_enqueue 0 8 (bh_run (new_Bulkhead demo_bh_opts)), bs_running = [(7, 0)],
      bs_submitted = Suc (Suc 0), bs_clock = 0\<rparr>"

lemma demo_bh_busy_reachable: "bh_reachable demo_bh_opts demo_bh_busy"
proof -
  let ?s0 = "bh_init demo_bh_opts 0"
  let ?s1 = "?s0\<lparr>bs_bulkhead := bh_run (new_Bulkhead demo_bh_opts), bs_submitted := Suc 0,
                 bs_running := [(7, 0)]\<rparr>"
  have "bh_step ?s0 ?s1"
    using bh_step.bh_submit [of ?s0 7 "bh_run (new_Bulkhead demo_bh_opts)" Started]
    by (simp add: bh_init_def bh_execute_def new_Bulkhead_def demo_bh_opts_def add_started_def)
  moreover have "bh_step ?s1 demo_bh_busy"
    using bh_step.bh_submit [of ?s1 8 "bs_bulkhead demo_bh_busy" Enqueued]
    by (simp add: bh_init_def bh_execute_def new_Bulkhead_def demo_bh_opts_def add_started_def
        demo_bh_busy_def bh_run_def)
  ultimately have "bh_step\<^sup>*\<^sup>* ?s0 demo_bh_busy" by simp
  then show ?thesis by (auto simp: bh_reachable_def)
qed

text \<open>
  C4. However tasks are submitted, finish and time out, the tasks really running never exceed
  \<open>maxConcurrent\<close>, the queue never exceeds \<open>maxQueue\<close>, a task waits only while all slots are
  taken, and every submission is executed, rejected, timed out or still queued.
\<close>

theorem bulkhead_isolates:
  assumes "bh_reachable opts s"
  shows "int (length (bs_running s)) \<le> max 0 (bo_maxConcurrent opts) \<and>
         int (length (bh_queue (bs_bulkhead s))) \<le> max 0 (bo_maxQueue opts) \<and>
         (bh_queue (bs_bulkhead s) \<noteq> [] \<longrightarrow> bo_maxConcurrent opts \<le> int (length (bs_running s))) \<and>
         int (bs_submitted s) =
           bh_totalExecutions (bs_bulkhead s) + bh_totalRejections (bs_bulkhead s)
           + bh_totalTimeouts (bs_bulkhead s) + int (length (bh_queue (bs_bulkhead s)))"
  using bh_reachable_inv [OF assms] by (auto simp: bh_inv_def Let_def)

theorem bulkhead_isolates_witness: "length (bs_running demo_bh_busy) \<le> 1"
  using bulkhead_isolates [OF demo_bh_busy_reachable] by (simp add: demo_bh_opts_def)

text \<open>
  \<open>reset\<close> forgets the tasks that are still running: applied to a reachable bulkhead that is at
  its limit, it makes room that is not there, and the next submission starts a task beyond the
  limit.
\<close>

theorem bulkhead_reset_overcommits:
  assumes "bh_reachable opts s" and "0 < bo_maxConcurrent opts"
    and "int (length (bs_running s)) = bo_maxConcurrent opts"
  shows "\<exists>s'. bh_step (s\<lparr>bs_bulkhead := bh_reset (bs_bulkhead s)\<rparr>) s' \<and>
              bo_maxConcurrent opts < int (length (bs_running s'))"
proof -
  let ?s = "s\<lparr>bs_bulkhead := bh_reset (bs_bulkhead s)\<rparr>"
  let ?bh = "bh_run (bh_reset (bs_bulkhead s))"
  let ?s' = "?s\<lparr>bs_bulkhead := ?bh, bs_submitted := Suc (bs_submitted ?s),
                bs_running := add_started (bs_clock ?s) (Some 0) (bs_running ?s)\<rparr>"
  have opt: "bh_options (fold (\<lambda>item. bh_emit (RejectPromise (qi_task item) BulkheadReset)) q b)
      = bh_options b" for q b
    by (induction q arbitrary: b) (auto simp: bh_emit_def)
  have "bh_options (bs_bulkhead s) = opts"
    using bh_reachable_inv [OF assms(1)] by (simp add: bh_inv_def Let_def)
  then have "bh_execute (bs_clock ?s) 0 (bs_bulkhead ?s) = (?bh, Started)"
    using assms(2) by (simp add: bh_execute_def bh_reset_def Let_def opt)
  from bh_step.bh_submit [OF this] have "bh_step ?s ?s'" by simp
  moreover have "bo_maxConcurrent opts < int (length (bs_running ?s'))"
    using assms(3) by (simp add: add_started_def)
  ultimately show ?thesis by blast
qed

theorem bulkhead_reset_overcommits_witness:
  "\<exists>s'. bh_step (demo_bh_busy\<lparr>bs_bulkhead := bh_reset (bs_bulkhead demo_bh_busy)\<rparr>) s' \<and>
        1 < int (length (bs_running s'))"
  using bulkhead_reset_overcommits [OF demo_bh_busy_reachable]
  by (simp add: demo_bh_opts_def demo_bh_busy_def)

end
