(* ===== verification/RateLimiter.thy ===== *)
theory RateLimiter
  imports JsMap
begin

text \<open>
  \<open>packages/kernel/src/resilience/rate-limiter.ts\<close>: the three strategies, their factory and the
  HTTP middleware.

  Each class is a record of its options, its \<open>Map\<close> and the calls of \<open>onLimitExceeded\<close> so far.
  Token counts are rationals. \<open>rli_resetMs\<close> is \<open>None\<close> where the code computes \<open>Infinity\<close> (a
  positive deficit divided by a refill rate of 0). The model of the token bucket is meant for
  \<open>windowMs \<noteq> 0\<close>: the source divides by it.
\<close>

section \<open>Options and results\<close>

datatype rl_strategy = token_bucket | sliding_window | fixed_window | other_strategy string

record RateLimiterOptions =
  rlo_name :: string
  rlo_maxRequests :: int
  rlo_windowMs :: int
  rlo_strategy :: rl_strategy

record RateLimitInfo =
  rli_limit :: int
  rli_remaining :: int
  rli_resetMs :: "int option"
  rli_allowed :: bool

type_synonym rl_call = "string \<times> RateLimitInfo"

section \<open>Token bucket\<close>

record Bucket =
  bk_tokens :: rat
  bk_lastRefill :: int

record TokenBucketLimiter =
  tb_options :: RateLimiterOptions
  tb_buckets :: "(string, Bucket) jsmap"
  tb_exceeded :: "rl_call list"

definition new_TokenBucketLimiter :: "RateLimiterOptions \<Rightarrow> TokenBucketLimiter" where
  "new_TokenBucketLimiter opts = \<lparr>tb_options = opts, tb_buckets = [], tb_exceeded = []\<rparr>"

definition tb_rate :: "RateLimiterOptions \<Rightarrow> rat" where
  "tb_rate opts = of_int (rlo_maxRequests opts) / of_int (rlo_windowMs opts)"

definition tb_bucket :: "TokenBucketLimiter \<Rightarrow> int \<Rightarrow> string \<Rightarrow> Bucket" where
  "tb_bucket s now key =
     (case jm_get (tb_buckets s) key of
        Some b \<Rightarrow> b
      | None \<Rightarrow> \<lparr>bk_tokens = of_int (rlo_maxRequests (tb_options s)), bk_lastRefill = now\<rparr>)"

definition tb_refilled :: "TokenBucketLimiter \<Rightarrow> int \<Rightarrow> string \<Rightarrow> rat" where
  "tb_refilled s now key =
     (let bucket = tb_bucket s now key;
          elapsed = now - bk_lastRefill bucket;
          tokensToAdd = of_int elapsed * tb_rate (tb_options s)
      in min (of_int (rlo_maxRequests (tb_options s))) (bk_tokens bucket + tokensToAdd))"

text \<open>\<open>Math.ceil((tokens - available) / refillRate)\<close> for a positive deficit.\<close>

definition tb_wait :: "RateLimiterOptions \<Rightarrow> rat \<Rightarrow> int option" where
  "tb_wait opts deficit = (if tb_rate opts = 0 then None else Some \<lceil>deficit / tb_rate opts\<rceil>)"

definition tb_consume ::
  "TokenBucketLimiter \<Rightarrow> int \<Rightarrow> string \<Rightarrow> rat \<Rightarrow> TokenBucketLimiter \<times> RateLimitInfo" where
  "tb_consume s now key tokens =
     (let opts = tb_options s;
          available = tb_refilled s now key;
          allowed = (tokens \<le> available);
          left = (if allowed then available - tokens else available);
          s1 = s\<lparr>tb_buckets := jm_set key \<lparr>bk_tokens = left, bk_lastRefill = now\<rparr> (tb_buckets s)\<rparr>;
          s2 = (if allowed then s1
                else s1\<lparr>tb_exceeded := tb_exceeded s1 @
                  [(key, \<lparr>rli_limit = rlo_maxRequests opts, rli_remaining = \<lfloor>left\<rfloor>,
                          rli_resetMs = tb_wait opts (tokens - left), rli_allowed = False\<rparr>)]\<rparr>)
      in (s2, \<lparr>rli_limit = rlo_maxRequests opts, rli_remaining = \<lfloor>left\<rfloor>,
               rli_resetMs = (if allowed then Some 0 else tb_wait opts (tokens - left)),
               rli_allowed = allowed\<rparr>))"

definition tb_reset :: "string \<Rightarrow> TokenBucketLimiter \<Rightarrow> TokenBucketLimiter" where
  "tb_reset key s = s\<lparr>tb_buckets := jm_delete key (tb_buckets s)\<rparr>"

definition tb_resetAll :: "TokenBucketLimiter \<Rightarrow> TokenBucketLimiter" where
  "tb_resetAll s = s\<lparr>tb_buckets := []\<rparr>"

section \<open>Sliding window\<close>

record SlidingWindowLimiter =
  sw_options :: RateLimiterOptions
  sw_windows :: "(string, int list) jsmap"
  sw_exceeded :: "rl_call list"

definition new_SlidingWindowLimiter :: "RateLimiterOptions \<Rightarrow> SlidingWindowLimiter" where
  "new_SlidingWindowLimiter opts = \<lparr>sw_options = opts, sw_windows = [], sw_exceeded = []\<rparr>"

definition sw_live :: "SlidingWindowLimiter \<Rightarrow> int \<Rightarrow> string \<Rightarrow> int list" where
  "sw_live s now key =
     (let timestamps = (case jm_get (sw_windows s) key of Some ts \<Rightarrow> ts | None \<Rightarrow> []);
          windowStart = now - rlo_windowMs (sw_options s)
      in filter (\<lambda>t. windowStart < t) timestamps)"

text \<open>In the callback the code tests \<open>timestamps[0]\<close> itself, so a first timestamp of 0 counts
  as none; the result tests the length.\<close>

definition sw_consume ::
  "SlidingWindowLimiter \<Rightarrow> int \<Rightarrow> string \<Rightarrow> SlidingWindowLimiter \<times> RateLimitInfo" where
  "sw_consume s now key =
     (let opts = sw_options s;
          live = sw_live s now key;
          allowed = (int (length live) < rlo_maxRequests opts);
          timestamps = (if allowed then live @ [now] else live);
          s1 = (if allowed then s
                else s\<lparr>sw_exceeded := sw_exceeded s @
                  [(key, \<lparr>rli_limit = rlo_maxRequests opts, rli_remaining = 0,
                          rli_resetMs = Some (case live of
                              t # _ \<Rightarrow> if t \<noteq> 0 then t + rlo_windowMs opts - now
                                     else rlo_windowMs opts
                            | [] \<Rightarrow> rlo_windowMs opts),
                          rli_allowed = False\<rparr>)]\<rparr>);
          s2 = s1\<lparr>sw_windows := jm_set key timestamps (sw_windows s1)\<rparr>;
          resetMs = (case timestamps of t # _ \<Rightarrow> t + rlo_windowMs opts - now
                     | [] \<Rightarrow> rlo_windowMs opts)
      in (s2, \<lparr>rli_limit = rlo_maxRequests opts,
               rli_remaining = max 0 (rlo_maxRequests opts - int (length timestamps)),
               rli_resetMs = Some (max 0 resetMs), rli_allowed = allowed\<rparr>))"

definition sw_reset :: "string \<Rightarrow> SlidingWindowLimiter \<Rightarrow> SlidingWindowLimiter" where
  "sw_reset key s = s\<lparr>sw_windows := jm_delete key (sw_windows s)\<rparr>"

definition sw_resetAll :: "SlidingWindowLimiter \<Rightarrow> SlidingWindowLimiter" where
  "sw_resetAll s = s\<lparr>sw_windows := []\<rparr>"

section \<open>Fixed window\<close>

record Counter =
  ct_count :: int
  ct_windowStart :: int

record FixedWindowLimiter =
  fw_options :: RateLimiterOptions
  fw_counters :: "(string, Counter) jsmap"
  fw_exceeded :: "rl_call list"

definition new_FixedWindowLimiter :: "RateLimiterOptions \<Rightarrow> FixedWindowLimiter" where
  "new_FixedWindowLimiter opts = \<lparr>fw_options = opts, fw_counters = [], fw_exceeded = []\<rparr>"

definition fw_counter :: "FixedWindowLimiter \<Rightarrow> int \<Rightarrow> string \<Rightarrow> Counter" where
  "fw_counter s now key =
     (case jm_get (fw_counters s) key of
        Some c \<Rightarrow> if now - ct_windowStart c \<ge> rlo_windowMs (fw_options s)
                  then \<lparr>ct_count = 0, ct_windowStart = now\<rparr> else c
      | None \<Rightarrow> \<lparr>ct_count = 0, ct_windowStart = now\<rparr>)"

definition fw_consume ::
  "FixedWindowLimiter \<Rightarrow> int \<Rightarrow> string \<Rightarrow> FixedWindowLimiter \<times> RateLimitInfo" where
  "fw_consume s now key =
     (let opts = fw_options s;
          counter = fw_counter s now key;
          allowed = (ct_count counter < rlo_maxRequests opts);
          counter1 = (if allowed then counter\<lparr>ct_count := ct_count counter + 1\<rparr> else counter);
          resetMs = ct_windowStart counter1 + rlo_windowMs opts - now;
          s1 = s\<lparr>fw_counters := jm_set key counter1 (fw_counters s)\<rparr>;
          s2 = (if allowed then s1
                else s1\<lparr>fw_exceeded := fw_exceeded s1 @
                  [(key, \<lparr>rli_limit = rlo_maxRequests opts, rli_remaining = 0,
                          rli_resetMs = Some resetMs, rli_allowed = False\<rparr>)]\<rparr>)
      in (s2, \<lparr>rli_limit = rlo_maxRequests opts,
               rli_remaining = max 0 (rlo_maxRequests opts - ct_count counter1),
               rli_resetMs = Some (max 0 resetMs), rli_allowed = allowed\<rparr>))"

definition fw_reset :: "string \<Rightarrow> FixedWindowLimiter \<Rightarrow> FixedWindowLimiter" where
  "fw_reset key s = s\<lparr>fw_counters := jm_delete key (fw_counters s)\<rparr>"

definition fw_resetAll :: "FixedWindowLimiter \<Rightarrow> FixedWindowLimiter" where
  "fw_resetAll s = s\<lparr>fw_counters := []\<rparr>"

section \<open>Factory and middleware\<close>

datatype rate_limiter =
    TokenBucketL TokenBucketLimiter
  | SlidingWindowL SlidingWindowLimiter
  | FixedWindowL FixedWindowLimiter

datatype rl_error = UnknownStrategy string

definition createRateLimiter :: "RateLimiterOptions \<Rightarrow> rl_error + rate_limiter" where
  "createRateLimiter opts =
     (case rlo_strategy opts of
        token_bucket \<Rightarrow> Inr (TokenBucketL (new_TokenBucketLimiter opts))
      | sliding_window \<Rightarrow> Inr (SlidingWindowL (new_SlidingWindowLimiter opts))
      | fixed_window \<Rightarrow> Inr (FixedWindowL (new_FixedWindowLimiter opts))
      | other_strategy name \<Rightarrow> Inl (UnknownStrategy name))"

text \<open>\<open>limiter.consume(key)\<close>: the number of tokens defaults to 1.\<close>

fun rl_consume :: "rate_limiter \<Rightarrow> int \<Rightarrow> string \<Rightarrow> rate_limiter \<times> RateLimitInfo" where
  "rl_consume (TokenBucketL s) now key = map_prod TokenBucketL id (tb_consume s now key 1)"
| "rl_consume (SlidingWindowL s) now key = map_prod SlidingWindowL id (sw_consume s now key)"
| "rl_consume (FixedWindowL s) now key = map_prod FixedWindowL id (fw_consume s now key)"

text \<open>\<open>Math.ceil(ms / 1000)\<close>, where infinity stays infinity.\<close>

definition ceil_seconds :: "int option \<Rightarrow> int option" where
  "ceil_seconds ms = map_option (\<lambda>m. \<lceil>(of_int m :: rat) / 1000\<rceil>) ms"

record RateLimitHeaders =
  rh_limit :: int
  rh_remaining :: int
  rh_reset :: "int option"

datatype rl_reply = CallNext RateLimitHeaders | TooManyRequests RateLimitHeaders "int option"

text \<open>\<open>options.keyExtractor?.(req) || req.ip || 'default'\<close>.\<close>

definition request_key :: "('r \<Rightarrow> string option) option \<Rightarrow> ('r \<Rightarrow> string option) \<Rightarrow> 'r \<Rightarrow> string" where
  "request_key keyExtractor ip req =
     str_or (case keyExtractor of Some f \<Rightarrow> f req | None \<Rightarrow> None) (str_or (ip req) ''default'')"

definition rateLimitMiddleware ::
  "('r \<Rightarrow> string option) option \<Rightarrow> ('r \<Rightarrow> string option) \<Rightarrow> rate_limiter \<Rightarrow> int \<Rightarrow> 'r \<Rightarrow>
     rate_limiter \<times> rl_reply" where
  "rateLimitMiddleware keyExtractor ip limiter now req =
     (let key = request_key keyExtractor ip req;
          (limiter1, result) = rl_consume limiter now key;
          headers = \<lparr>rh_limit = rli_limit result, rh_remaining = rli_remaining result,
                     rh_reset = ceil_seconds (rli_resetMs result)\<rparr>
      in (limiter1,
          if \<not> rli_allowed result then TooManyRequests headers (ceil_seconds (rli_resetMs result))
          else CallNext headers))"

section \<open>The interface of a limiter\<close>

text \<open>A sequence of requests, each with its time and key, and the verdicts.\<close>

fun rl_run ::
  "('s \<Rightarrow> int \<Rightarrow> string \<Rightarrow> 's \<times> RateLimitInfo) \<Rightarrow> 's \<Rightarrow> (int \<times> string) list \<Rightarrow> 's" where
  "rl_run consume s [] = s"
| "rl_run consume s ((t, k) # rs) = rl_run consume (fst (consume s t k)) rs"

fun rl_verdicts ::
  "('s \<Rightarrow> int \<Rightarrow> string \<Rightarrow> 's \<times> RateLimitInfo) \<Rightarrow> 's \<Rightarrow> (int \<times> string) list \<Rightarrow>
     (int \<times> string \<times> RateLimitInfo) list" where
  "rl_verdicts consume s [] = []"
| "rl_verdicts consume s ((t, k) # rs) =
     (t, k, snd (consume s t k)) # rl_verdicts consume (fst (consume s t k)) rs"

text \<open>The times at which a key was admitted.\<close>

definition rl_admitted :: "string \<Rightarrow> (int \<times> string \<times> RateLimitInfo) list \<Rightarrow> int list" where
  "rl_admitted key vs = map fst (filter (\<lambda>(t, k, i). k = key \<and> rli_allowed i) vs)"

lemma rl_run_append: "rl_run c s (rs @ rs') = rl_run c (rl_run c s rs) rs'"
  by (induction c s rs rule: rl_run.induct) auto

lemma rl_verdicts_append:
  "rl_verdicts c s (rs @ rs') = rl_verdicts c s rs @ rl_verdicts c (rl_run c s rs) rs'"
  by (induction c s rs rule: rl_run.induct) auto

lemma rl_admitted_append: "rl_admitted k (vs @ vs') = rl_admitted k vs @ rl_admitted k vs'"
  by (simp add: rl_admitted_def)

locale keyed_limiter =
  fixes consume :: "'s \<Rightarrow> int \<Rightarrow> string \<Rightarrow> 's \<times> RateLimitInfo"
    and view :: "'s \<Rightarrow> string \<Rightarrow> 'v option"
    and opts :: "'s \<Rightarrow> RateLimiterOptions"
    and reset :: "string \<Rightarrow> 's \<Rightarrow> 's"
  assumes opts_consume: "opts (fst (consume s t k)) = opts s"
    and view_frame: "k' \<noteq> k \<Longrightarrow> view (fst (consume s t k)) k' = view s k'"
    and view_local: "opts s = opts s' \<Longrightarrow> view s k = view s' k \<Longrightarrow>
          view (fst (consume s t k)) k = view (fst (consume s' t k)) k"
    and verdict_local: "opts s = opts s' \<Longrightarrow> view s k = view s' k \<Longrightarrow>
          snd (consume s t k) = snd (consume s' t k)"
    and opts_reset: "opts (reset k s) = opts s"
    and view_reset: "view (reset k s) k' = (if k' = k then None else view s k')"
begin

lemma opts_run: "opts (rl_run consume s rs) = opts s"
  by (induction rs arbitrary: s) (auto simp: opts_consume)

lemma isolation:
  assumes "opts s = opts s'" and "view s key = view s' key"
  shows "filter (\<lambda>(t, k, i). k = key) (rl_verdicts consume s rs) =
         rl_verdicts consume s' (filter (\<lambda>(t, k). k = key) rs)"
  using assms
proof (induction rs arbitrary: s s')
  case Nil
  then show ?case by simp
next
  case (Cons r rs)
  obtain t k where r: "r = (t, k)" by (cases r)
  show ?case
  proof (cases "k = key")
    case True
    have "snd (consume s t k) = snd (consume s' t k)"
      by (rule verdict_local) (use Cons.prems True in auto)
    moreover have "filter (\<lambda>(t, k, i). k = key) (rl_verdicts consume (fst (consume s t k)) rs) =
        rl_verdicts consume (fst (consume s' t k)) (filter (\<lambda>(t, k). k = key) rs)"
      by (rule Cons.IH) (use Cons.prems True in \<open>auto simp: opts_consume intro!: view_local\<close>)
    ultimately show ?thesis by (simp add: r True)
  next
    case False
    have "filter (\<lambda>(t, k, i). k = key) (rl_verdicts consume (fst (consume s t k)) rs) =
        rl_verdicts consume s' (filter (\<lambda>(t, k). k = key) rs)"
      by (rule Cons.IH) (use Cons.prems False in \<open>auto simp: opts_consume view_frame\<close>)
    with False show ?thesis by (simp add: r)
  qed
qed

lemma reset_forgets:
  assumes "view s0 key = None" and "opts s0 = opts s"
  shows "filter (\<lambda>(t, k, i). k = key) (rl_verdicts consume (reset key s) rs) =
         rl_verdicts consume s0 (filter (\<lambda>(t, k). k = key) rs)"
  by (rule isolation) (use assms in \<open>auto simp: opts_reset view_reset\<close>)

end

definition tb_consume1 ::
  "TokenBucketLimiter \<Rightarrow> int \<Rightarrow> string \<Rightarrow> TokenBucketLimiter \<times> RateLimitInfo" where
  "tb_consume1 s now key = tb_consume s now key 1"

lemma tb_refilled_cong:
  "tb_options s = tb_options s' \<Longrightarrow> jm_get (tb_buckets s) k = jm_get (tb_buckets s') k \<Longrightarrow>
     tb_refilled s t k = tb_refilled s' t k"
  by (simp add: tb_refilled_def tb_bucket_def split: option.split)

lemma tb_consume1_local:
  assumes "tb_options s = tb_options s'" "jm_get (tb_buckets s) k = jm_get (tb_buckets s') k"
  shows "jm_get (tb_buckets (fst (tb_consume1 s t k))) k =
           jm_get (tb_buckets (fst (tb_consume1 s' t k))) k"
    and "snd (tb_consume1 s t k) = snd (tb_consume1 s' t k)"
  using tb_refilled_cong [OF assms, of t] assms(1)
  by (simp_all add: tb_consume1_def tb_consume_def Let_def)

lemma tb_consume1_frame:
  "tb_options (fst (tb_consume1 s t k)) = tb_options s"
  "k' \<noteq> k \<Longrightarrow> jm_get (tb_buckets (fst (tb_consume1 s t k))) k' = jm_get (tb_buckets s) k'"
  by (simp_all add: tb_consume1_def tb_consume_def Let_def)

interpretation tb: keyed_limiter tb_consume1 "\<lambda>s. jm_get (tb_buckets s)" tb_options tb_reset
  by unfold_locales (auto simp: tb_reset_def tb_consume1_frame intro: tb_consume1_local)

interpretation sw: keyed_limiter sw_consume "\<lambda>s. jm_get (sw_windows s)" sw_options sw_reset
  by unfold_locales (auto simp: sw_consume_def sw_live_def sw_reset_def Let_def)

lemma fw_counter_cong:
  "fw_options s = fw_options s' \<Longrightarrow> jm_get (fw_counters s) k = jm_get (fw_counters s') k \<Longrightarrow>
     fw_counter s t k = fw_counter s' t k"
  by (simp add: fw_counter_def split: option.split)

lemma fw_consume_local:
  assumes "fw_options s = fw_options s'" "jm_get (fw_counters s) k = jm_get (fw_counters s') k"
  shows "jm_get (fw_counters (fst (fw_consume s t k))) k =
           jm_get (fw_counters (fst (fw_consume s' t k))) k"
    and "snd (fw_consume s t k) = snd (fw_consume s' t k)"
  using fw_counter_cong [OF assms, of t] assms(1)
  by (simp_all add: fw_consume_def Let_def)

lemma fw_consume_frame:
  "fw_options (fst (fw_consume s t k)) = fw_options s"
  "k' \<noteq> k \<Longrightarrow> jm_get (fw_counters (fst (fw_consume s t k))) k' = jm_get (fw_counters s) k'"
  by (simp_all add: fw_consume_def Let_def)

interpretation fw: keyed_limiter fw_consume "\<lambda>s. jm_get (fw_counters s)" fw_options fw_reset
  by unfold_locales (auto simp: fw_reset_def fw_consume_frame intro: fw_consume_local)

lemma rl_verdicts_lift:
  assumes "\<And>s t k. rl_consume (C s) t k = map_prod C id (c s t k)"
  shows "rl_verdicts rl_consume (C s) rs = rl_verdicts c s rs"
  using assms by (induction rs arbitrary: s) auto

lemmas rl_verdicts_tb = rl_verdicts_lift [of TokenBucketL tb_consume1]
  and rl_verdicts_sw = rl_verdicts_lift [of SlidingWindowL sw_consume]
  and rl_verdicts_fw = rl_verdicts_lift [of FixedWindowL fw_consume]

text \<open>
  C5. Clients do not share a budget: whichever strategy the factory selects, the verdicts a key gets
  in mixed traffic are the verdicts it gets when its requests are the only ones.
\<close>

theorem rate_limit_isolates_keys:
  "filter (\<lambda>(t, k, i). k = key) (rl_verdicts rl_consume limiter rs) =
   rl_verdicts rl_consume limiter (filter (\<lambda>(t, k). k = key) rs)"
proof (cases limiter)
  case (TokenBucketL s)
  then show ?thesis
    by (simp add: rl_verdicts_tb tb_consume1_def tb.isolation)
next
  case (SlidingWindowL s)
  then show ?thesis by (simp add: rl_verdicts_sw sw.isolation)
next
  case (FixedWindowL s)
  then show ?thesis by (simp add: rl_verdicts_fw fw.isolation)
qed

section \<open>Token bucket: rate conformance\<close>

text \<open>A sequence of requests with their time, key and number of tokens; the tokens granted to a
  key.\<close>

fun tb_run :: "TokenBucketLimiter \<Rightarrow> (int \<times> string \<times> rat) list \<Rightarrow> TokenBucketLimiter" where
  "tb_run s [] = s"
| "tb_run s ((t, k, n) # rs) = tb_run (fst (tb_consume s t k n)) rs"

fun tb_granted :: "string \<Rightarrow> TokenBucketLimiter \<Rightarrow> (int \<times> string \<times> rat) list \<Rightarrow> rat" where
  "tb_granted key s [] = 0"
| "tb_granted key s ((t, k, n) # rs) =
     (if k = key \<and> rli_allowed (snd (tb_consume s t k n)) then n else 0)
     + tb_granted key (fst (tb_consume s t k n)) rs"

text \<open>No bucket is in debt or was refilled in the future.\<close>

definition tb_ok :: "int \<Rightarrow> TokenBucketLimiter \<Rightarrow> bool" where
  "tb_ok t s \<longleftrightarrow> 0 \<le> rlo_maxRequests (tb_options s) \<and> 0 < rlo_windowMs (tb_options s) \<and>
     (\<forall>k b. jm_get (tb_buckets s) k = Some b \<longrightarrow> 0 \<le> bk_tokens b \<and> bk_lastRefill b \<le> t)"

lemma tb_rate_nonneg: "tb_ok t s \<Longrightarrow> 0 \<le> tb_rate (tb_options s)"
  by (simp add: tb_ok_def tb_rate_def)

lemma tb_refilled_le: "tb_refilled s t k \<le> of_int (rlo_maxRequests (tb_options s))"
  by (simp add: tb_refilled_def Let_def)

lemma tb_refilled_nonneg:
  assumes "tb_ok t s"
  shows "0 \<le> tb_refilled s t k"
  using assms tb_rate_nonneg [OF assms]
  by (auto simp: tb_refilled_def tb_bucket_def tb_ok_def Let_def split: option.split)

lemma tb_refilled_grows:
  assumes "tb_ok t s" and "t \<le> t'"
  shows "tb_refilled s t' k \<le> tb_refilled s t k + tb_rate (tb_options s) * of_int (t' - t)"
proof -
  have "0 \<le> tb_rate (tb_options s) * of_int (t' - t)"
    using tb_rate_nonneg [OF assms(1)] assms(2) by simp
  then show ?thesis
    by (auto simp: tb_refilled_def tb_bucket_def Let_def min_def algebra_simps split: option.split)
qed

lemma tb_consume_options [simp]: "tb_options (fst (tb_consume s t k n)) = tb_options s"
  by (simp add: tb_consume_def Let_def)

lemma tb_consume_allowed: "rli_allowed (snd (tb_consume s t k n)) = (n \<le> tb_refilled s t k)"
  by (simp add: tb_consume_def Let_def)

lemma tb_consume_bucket:
  "jm_get (tb_buckets (fst (tb_consume s t k n))) k' =
     (if k' = k
      then Some \<lparr>bk_tokens = (if n \<le> tb_refilled s t k then tb_refilled s t k - n
                             else tb_refilled s t k), bk_lastRefill = t\<rparr>
      else jm_get (tb_buckets s) k')"
  by (simp add: tb_consume_def Let_def)

lemma tb_consume_ok:
  assumes "tb_ok t0 s" and "t0 \<le> t"
  shows "tb_ok t (fst (tb_consume s t k n))"
proof -
  have "tb_ok t s" using assms by (force simp: tb_ok_def)
  from tb_refilled_nonneg [OF this] this show ?thesis
    by (auto simp: tb_ok_def tb_consume_bucket)
qed

text \<open>Right after a request, the level of its key is what was there less what was granted; the
  level of another key is what it was.\<close>

lemma tb_level_step:
  "tb_refilled (fst (tb_consume s t k n)) t key \<le>
     tb_refilled s t key - (if k = key \<and> n \<le> tb_refilled s t k then n else 0)"
proof (cases "k = key")
  case True
  have "tb_refilled (fst (tb_consume s t key n)) t key \<le>
      (if n \<le> tb_refilled s t key then tb_refilled s t key - n else tb_refilled s t key)"
    by (simp add: tb_refilled_def [of "fst _"] tb_bucket_def tb_consume_bucket Let_def)
  with True show ?thesis by (simp split: if_splits)
next
  case False
  then show ?thesis using tb_refilled_cong [of "fst (tb_consume s t k n)" s key t]
    by (simp add: tb_consume_bucket)
qed

lemma tb_granted_bound:
  assumes "tb_ok t0 s" and "sorted (map fst rs)" and "\<forall>r \<in> set rs. t0 \<le> fst r \<and> fst r \<le> tn"
    and "t0 \<le> tn"
  shows "tb_granted key s rs \<le> tb_refilled s t0 key + tb_rate (tb_options s) * of_int (tn - t0)"
  using assms
proof (induction rs arbitrary: s t0)
  case Nil
  then show ?case
    using tb_refilled_nonneg [OF Nil.prems(1), of key] tb_rate_nonneg [OF Nil.prems(1)] by simp
next
  case (Cons r rs)
  obtain t k n where r: "r = (t, k, n)" by (cases r)
  let ?s = "fst (tb_consume s t k n)" and ?rate = "tb_rate (tb_options s)"
  let ?g = "if k = key \<and> n \<le> tb_refilled s t k then n else 0"
  have t: "t0 \<le> t" "t \<le> tn" using Cons.prems r by auto
  have "tb_granted key ?s rs \<le> tb_refilled ?s t key + tb_rate (tb_options ?s) * of_int (tn - t)"
    by (rule Cons.IH) (use Cons.prems r t in \<open>auto intro: tb_consume_ok\<close>)
  moreover have "tb_refilled ?s t key \<le> tb_refilled s t key - ?g" by (rule tb_level_step)
  moreover have "tb_refilled s t key \<le> tb_refilled s t0 key + ?rate * of_int (t - t0)"
    by (rule tb_refilled_grows [OF Cons.prems(1) t(1)])
  ultimately have "?g + tb_granted key ?s rs \<le>
      tb_refilled s t0 key + ?rate * of_int (t - t0) + ?rate * of_int (tn - t)" by simp
  also have "\<dots> = tb_refilled s t0 key + ?rate * of_int (tn - t0)" by (simp add: algebra_simps)
  finally show ?case by (simp add: r tb_consume_allowed)
qed

lemma tb_run_ok:
  assumes "tb_ok t0 s" and "sorted (map fst rs)" and "\<forall>r \<in> set rs. t0 \<le> fst r \<and> fst r \<le> tn"
    and "t0 \<le> tn"
  shows "tb_ok tn (tb_run s rs) \<and> tb_options (tb_run s rs) = tb_options s"
  using assms
proof (induction rs arbitrary: s t0)
  case Nil
  then show ?case by (force simp: tb_ok_def)
next
  case (Cons r rs)
  obtain t k n where r: "r = (t, k, n)" by (cases r)
  have "tb_ok tn (tb_run (fst (tb_consume s t k n)) rs) \<and>
      tb_options (tb_run (fst (tb_consume s t k n)) rs) = tb_options (fst (tb_consume s t k n))"
    by (rule Cons.IH [of t]) (use Cons.prems r in \<open>auto intro: tb_consume_ok\<close>)
  then show ?case by (simp add: r)
qed

text \<open>
  C6. A token bucket conforms to its rate in every interval: whatever came before (\<open>us\<close>), over any
  stretch of requests (\<open>vs\<close>) from its first instant to its last the tokens granted to a key are
  at most the capacity plus the refill of that duration.
\<close>

theorem token_bucket_conforms:
  assumes "0 \<le> rlo_maxRequests opts" and "0 < rlo_windowMs opts"
    and "sorted (map fst (us @ vs))" and "vs \<noteq> []"
  shows "tb_granted key (tb_run (new_TokenBucketLimiter opts) us) vs \<le>
         of_int (rlo_maxRequests opts) + tb_rate opts * of_int (fst (last vs) - fst (hd vs))"
proof -
  let ?start = "fst (hd (us @ vs))" and ?from = "fst (hd vs)" and ?till = "fst (last vs)"
  let ?init = "new_TokenBucketLimiter opts"
  let ?s = "tb_run ?init us"
  have us: "\<forall>r \<in> set us. ?start \<le> fst r \<and> fst r \<le> ?from" "?start \<le> ?from"
    using assms(3,4) by (cases us; cases vs; auto simp: sorted_append)+
  have vs: "\<forall>r \<in> set vs. ?from \<le> fst r \<and> fst r \<le> ?till" "?from \<le> ?till"
  proof -
    obtain ws v where "vs = ws @ [v]" using assms(4) by (cases vs rule: rev_cases) auto
    with assms(3) show "\<forall>r \<in> set vs. ?from \<le> fst r \<and> fst r \<le> ?till" "?from \<le> ?till"
      by (cases ws; auto simp: sorted_append)+
  qed
  have "tb_ok ?start ?init" using assms(1,2) by (simp add: tb_ok_def new_TokenBucketLimiter_def)
  from tb_run_ok [OF this _ us] have ok: "tb_ok ?from ?s" "tb_options ?s = opts"
    using assms(3) by (simp_all add: sorted_append new_TokenBucketLimiter_def)
  have "tb_granted key ?s vs \<le> tb_refilled ?s ?from key + tb_rate (tb_options ?s) * of_int (?till - ?from)"
    by (rule tb_granted_bound [OF ok(1) _ vs]) (use assms(3) in \<open>simp add: sorted_append\<close>)
  then show ?thesis using tb_refilled_le [of ?s ?from key] ok(2) by simp
qed

definition demo_rl_opts :: RateLimiterOptions where
  "demo_rl_opts = \<lparr>rlo_name = ''api'', rlo_maxRequests = 2, rlo_windowMs = 1000,
                   rlo_strategy = token_bucket\<rparr>"

theorem token_bucket_conforms_witness:
  "tb_granted ''a'' (tb_run (new_TokenBucketLimiter demo_rl_opts) [(0, ''a'', 1)])
     [(5, ''a'', 1), (5, ''a'', 1), (505, ''a'', 1)] \<le> 3"
  using token_bucket_conforms [of demo_rl_opts "[(0, ''a'', 1)]"
      "[(5, ''a'', 1), (5, ''a'', 1), (505, ''a'', 1)]" "''a''"]
  by (simp add: demo_rl_opts_def tb_rate_def)

text \<open>
  A refusal tells the truth: when a request for at most the capacity is refused with
  \<open>resetMs = w\<close>, the same request made \<open>w\<close> milliseconds later, with no other request for the key
  in between, is granted; and it is refused at every earlier millisecond.
\<close>

theorem token_bucket_retry_after:
  assumes "0 < rlo_maxRequests (tb_options s)" and "0 < rlo_windowMs (tb_options s)"
    and "n \<le> of_int (rlo_maxRequests (tb_options s))"
    and "tb_consume s now key n = (s', info)" and "\<not> rli_allowed info"
    and "rli_resetMs info = Some w" and "0 \<le> d"
  shows "rli_allowed (snd (tb_consume s' (now + d) key n)) = (w \<le> d)"
proof -
  let ?l = "tb_refilled s now key" and ?rate = "tb_rate (tb_options s)"
  have rate: "0 < ?rate" using assms(1,2) by (simp add: tb_rate_def)
  have s': "s' = fst (tb_consume s now key n)" and info: "info = snd (tb_consume s now key n)"
    using assms(4) by simp_all
  have low: "\<not> n \<le> ?l" using assms(5) by (simp add: info tb_consume_allowed)
  then have w: "w = \<lceil>(n - ?l) / ?rate\<rceil>"
    using assms(6) rate by (simp add: info tb_consume_def tb_wait_def Let_def)
  have "tb_refilled s' (now + d) key =
      min (of_int (rlo_maxRequests (tb_options s))) (?l + of_int d * ?rate)"
    using low by (simp add: s' tb_refilled_def [of "fst _"] tb_bucket_def tb_consume_bucket Let_def)
  moreover have "(n \<le> ?l + of_int d * ?rate) = (w \<le> d)"
    using rate by (simp add: w ceiling_le_iff divide_le_eq algebra_simps)
  ultimately show ?thesis using assms(3) by (simp add: tb_consume_allowed)
qed

theorem token_bucket_retry_after_witness:
  "rli_allowed (snd (tb_consume (fst (tb_consume
     (fst (tb_consume (new_TokenBucketLimiter demo_rl_opts) 0 ''a'' 2)) 100 ''a'' 1)) 500 ''a'' 1))"
proof -
  let ?s = "fst (tb_consume (new_TokenBucketLimiter demo_rl_opts) 0 ''a'' 2)"
  have "rli_resetMs (snd (tb_consume ?s 100 ''a'' 1)) = Some 400"
    "\<not> rli_allowed (snd (tb_consume ?s 100 ''a'' 1))"
    by (simp_all add: tb_consume_def Let_def tb_refilled_def tb_bucket_def tb_rate_def tb_wait_def
        new_TokenBucketLimiter_def demo_rl_opts_def)
  then show ?thesis
    using token_bucket_retry_after [of ?s 1 100 "''a''" "fst (tb_consume ?s 100 ''a'' 1)"
        "snd (tb_consume ?s 100 ''a'' 1)" 400 400]
    by (simp add: demo_rl_opts_def new_TokenBucketLimiter_def)
qed

section \<open>Sliding and fixed windows: the bound on admissions\<close>

definition in_window :: "int \<Rightarrow> int \<Rightarrow> int list \<Rightarrow> nat" where
  "in_window w t xs = length (filter (\<lambda>x. t - w < x \<and> x \<le> t) xs)"

text \<open>When a new latest element arrives, the windows that end before it are unchanged and each later
  one is within the window that ends at the new element.\<close>

lemma in_window_snoc:
  assumes "\<forall>x \<in> set xs. x \<le> u" and "\<And>t. in_window w t xs \<le> b" and "in_window w u xs < b"
  shows "in_window w t (xs @ [u]) \<le> b"
proof (cases "t - w < u \<and> u \<le> t")
  case True
  have "in_window w t xs \<le> in_window w u xs"
    unfolding in_window_def by (rule length_filter_mono) (use assms(1) True in auto)
  with True assms(3) show ?thesis by (simp add: in_window_def)
next
  case False
  then have "in_window w t (xs @ [u]) = in_window w t xs" by (auto simp: in_window_def)
  with assms(2) show ?thesis by simp
qed

lemma times_bounded:
  fixes rs :: "(int \<times> string) list"
  obtains now where "\<forall>r \<in> set rs. fst r \<le> now"
proof -
  have "\<forall>r \<in> set rs. fst r \<le> Max (fst ` set rs)" by simp
  then show ?thesis by (rule that)
qed

lemma rl_admitted_snoc:
  "rl_admitted key (rl_verdicts c s (rs @ [(t, k)])) =
     rl_admitted key (rl_verdicts c s rs) @
     (if k = key \<and> rli_allowed (snd (c (rl_run c s rs) t k)) then [t] else [])"
  by (simp add: rl_verdicts_append rl_admitted_append) (simp add: rl_admitted_def)

definition sw_stamps :: "SlidingWindowLimiter \<Rightarrow> string \<Rightarrow> int list" where
  "sw_stamps s key = (case jm_get (sw_windows s) key of Some ts \<Rightarrow> ts | None \<Rightarrow> [])"

text \<open>What the limiter keeps of a key agrees, in every window still open, with what was admitted.\<close>

definition sw_inv :: "int \<Rightarrow> int \<Rightarrow> nat \<Rightarrow> int list \<Rightarrow> int list \<Rightarrow> bool" where
  "sw_inv now w b stamps admitted \<longleftrightarrow>
     (\<forall>x \<in> set admitted. x \<le> now) \<and>
     (\<forall>u \<ge> now. filter (\<lambda>x. u - w < x) stamps = filter (\<lambda>x. u - w < x) admitted) \<and>
     (\<forall>t. in_window w t admitted \<le> b)"

lemma sw_inv_later: "sw_inv now w b st ad \<Longrightarrow> now \<le> now' \<Longrightarrow> sw_inv now' w b st ad"
  by (fastforce simp: sw_inv_def)

lemma sw_consume_simps:
  "rli_allowed (snd (sw_consume s t k)) =
     (int (length (sw_live s t k)) < rlo_maxRequests (sw_options s))"
  "sw_stamps (fst (sw_consume s t k)) key =
     (if key = k then (if int (length (sw_live s t k)) < rlo_maxRequests (sw_options s)
                       then sw_live s t k @ [t] else sw_live s t k)
      else sw_stamps s key)"
  by (simp_all add: sw_consume_def sw_stamps_def Let_def)

lemma sw_live_stamps:
  "sw_live s t k = filter (\<lambda>x. t - rlo_windowMs (sw_options s) < x) (sw_stamps s k)"
  by (simp add: sw_live_def sw_stamps_def)

lemma sw_inv_admit:
  assumes "sw_inv now w b st ad" and "length (filter (\<lambda>x. now - w < x) st) < b"
  shows "sw_inv now w b (filter (\<lambda>x. now - w < x) st @ [now]) (ad @ [now])"
proof -
  have le: "\<forall>x \<in> set ad. x \<le> now" and bound: "\<And>t. in_window w t ad \<le> b"
    and same: "\<And>u. now \<le> u \<Longrightarrow> filter (\<lambda>x. u - w < x) st = filter (\<lambda>x. u - w < x) ad"
    using assms(1) by (auto simp: sw_inv_def)
  have "in_window w now ad \<le> length (filter (\<lambda>x. now - w < x) ad)"
    unfolding in_window_def by (rule length_filter_mono) simp
  with assms(2) same [of now] have "in_window w now ad < b" by simp
  from in_window_snoc [OF le bound this] have "in_window w t (ad @ [now]) \<le> b" for t .
  moreover have "filter (\<lambda>x. u - w < x) (filter (\<lambda>x. now - w < x) st) =
      filter (\<lambda>x. u - w < x) ad" if "now \<le> u" for u
    using that same [OF that] by (simp add: same) (rule filter_cong, auto)
  ultimately show ?thesis using le by (simp add: sw_inv_def)
qed

lemma sw_inv_refuse:
  "sw_inv now w b st ad \<Longrightarrow> sw_inv now w b (filter (\<lambda>x. now - w < x) st) ad"
  by (auto simp: sw_inv_def) (rule filter_cong, auto)

lemma sw_run_inv:
  assumes "sorted (map fst rs)" and "\<forall>r \<in> set rs. fst r \<le> now"
    and "0 \<le> rlo_maxRequests opts"
  defines "s \<equiv> rl_run sw_consume (new_SlidingWindowLimiter opts) rs"
  shows "sw_inv now (rlo_windowMs opts) (nat (rlo_maxRequests opts)) (sw_stamps s key)
           (rl_admitted key (rl_verdicts sw_consume (new_SlidingWindowLimiter opts) rs))"
  using assms(1,2) unfolding s_def
proof (induction rs arbitrary: now rule: rev_induct)
  case Nil
  show ?case
    by (simp add: sw_inv_def sw_stamps_def rl_admitted_def new_SlidingWindowLimiter_def in_window_def)
next
  case (snoc r rs)
  obtain t k where r: "r = (t, k)" by (cases r)
  let ?s = "rl_run sw_consume (new_SlidingWindowLimiter opts) rs"
  let ?st = "sw_stamps ?s key" and ?w = "rlo_windowMs opts" and ?b = "nat (rlo_maxRequests opts)"
  let ?ad = "rl_admitted key (rl_verdicts sw_consume (new_SlidingWindowLimiter opts) rs)"
  have opts: "sw_options ?s = opts"
    by (simp add: sw.opts_run new_SlidingWindowLimiter_def)
  have "sw_inv t ?w ?b ?st ?ad"
    by (rule snoc.IH) (use snoc.prems r in \<open>auto simp: sorted_append\<close>)
  from this sw_inv_admit [OF this] sw_inv_refuse [OF this]
  have "sw_inv t ?w ?b (sw_stamps (fst (sw_consume ?s t k)) key)
      (?ad @ (if k = key \<and> rli_allowed (snd (sw_consume ?s t k)) then [t] else []))"
    by (auto simp: sw_consume_simps sw_live_stamps opts)
  from sw_inv_later [OF this, of now] show ?case
    using snoc.prems r by (simp add: rl_admitted_snoc rl_run_append)
qed

text \<open>
  A sliding window is exact: in every window of \<open>windowMs\<close> milliseconds, wherever it ends, at
  most \<open>maxRequests\<close> requests of a key are admitted.
\<close>

theorem sliding_window_limits:
  assumes "sorted (map fst rs)" and "0 \<le> rlo_maxRequests opts"
  shows "int (in_window (rlo_windowMs opts) t
           (rl_admitted key (rl_verdicts sw_consume (new_SlidingWindowLimiter opts) rs)))
         \<le> rlo_maxRequests opts"
proof -
  obtain now where "\<forall>r \<in> set rs. fst r \<le> now" by (rule times_bounded)
  from sw_run_inv [OF assms(1) this assms(2), of key] show ?thesis
    using assms(2) by (auto simp: sw_inv_def nat_le_iff le_nat_iff)
qed

theorem sliding_window_limits_witness:
  "in_window 1000 1400 (rl_admitted ''a'' (rl_verdicts sw_consume
     (new_SlidingWindowLimiter demo_rl_opts) [(0, ''a''), (500, ''a''), (600, ''a''), (1400, ''a'')]))
   \<le> 2"
  using sliding_window_limits [of "[(0, ''a''), (500, ''a''), (600, ''a''), (1400, ''a'')]"
      demo_rl_opts 1400 "''a''"]
  by (simp add: demo_rl_opts_def)

text \<open>What a counter tells of the admissions, at a time when it has last been read.\<close>

definition fw_inv :: "int \<Rightarrow> int \<Rightarrow> nat \<Rightarrow> Counter option \<Rightarrow> int list \<Rightarrow> bool" where
  "fw_inv now w b c ad \<longleftrightarrow>
     (case c of
        None \<Rightarrow> ad = []
      | Some ct \<Rightarrow>
          (let ws = ct_windowStart ct in
           ws \<le> now \<and> (\<forall>x \<in> set ad. x \<le> now \<and> x < ws + w) \<and>
           int (length (filter (\<lambda>x. ws \<le> x) ad)) = ct_count ct \<and> ct_count ct \<le> int b \<and>
           length (filter (\<lambda>x. ws - w < x \<and> x < ws) ad) \<le> b \<and>
           (\<forall>t. in_window w t ad \<le> 2 * b)))"

lemma fw_inv_later: "fw_inv now w b c ad \<Longrightarrow> now \<le> now' \<Longrightarrow> fw_inv now' w b c ad"
  by (fastforce simp: fw_inv_def Let_def split: option.splits)

lemma fw_inv_new_window:
  assumes "fw_inv now w b c ad" and "0 < w"
    and "\<And>ct. c = Some ct \<Longrightarrow> w \<le> now - ct_windowStart ct"
  shows "fw_inv now w b (Some \<lparr>ct_count = 0, ct_windowStart = now\<rparr>) ad"
proof (cases c)
  case None
  with assms show ?thesis by (simp add: fw_inv_def in_window_def)
next
  case (Some ct)
  let ?ws = "ct_windowStart ct"
  have inv: "\<forall>x \<in> set ad. x < ?ws + w" "int (length (filter (\<lambda>x. ?ws \<le> x) ad)) \<le> int b"
    "\<forall>t. in_window w t ad \<le> 2 * b"
    using assms(1) Some by (auto simp: fw_inv_def Let_def)
  have "length (filter (\<lambda>x. now - w < x \<and> x < now) ad) \<le> length (filter (\<lambda>x. ?ws \<le> x) ad)"
    by (rule length_filter_mono) (use assms(3) [OF Some] in auto)
  moreover have old: "\<forall>x \<in> set ad. x < now" using inv(1) assms(3) [OF Some] by fastforce
  then have "filter (\<lambda>x. now \<le> x) ad = []" by (auto simp: filter_empty_conv)
  ultimately show ?thesis using inv old assms(2) by (fastforce simp: fw_inv_def)
qed

lemma fw_inv_admit:
  assumes "fw_inv now w b (Some ct) ad" and "now < ct_windowStart ct + w" and "ct_count ct < int b"
  shows "fw_inv now w b (Some (ct\<lparr>ct_count := ct_count ct + 1\<rparr>)) (ad @ [now])"
proof -
  let ?ws = "ct_windowStart ct"
  have inv: "?ws \<le> now" "\<forall>x \<in> set ad. x \<le> now \<and> x < ?ws + w"
    "int (length (filter (\<lambda>x. ?ws \<le> x) ad)) = ct_count ct"
    "length (filter (\<lambda>x. ?ws - w < x \<and> x < ?ws) ad) \<le> b" "\<And>t. in_window w t ad \<le> 2 * b"
    using assms(1) by (auto simp: fw_inv_def Let_def)
  have "in_window w now ad \<le> length (filter (\<lambda>x. ?ws \<le> x) ad)
      + length (filter (\<lambda>x. ?ws - w < x \<and> x < ?ws) ad)"
    unfolding in_window_def by (rule length_filter_cover) (use inv(1) in auto)
  with inv(3,4) assms(3) have "in_window w now ad < 2 * b" by linarith
  from in_window_snoc [OF _ inv(5) this] inv(2) have "in_window w t (ad @ [now]) \<le> 2 * b" for t
    by blast
  with inv assms(2,3) show ?thesis by (simp add: fw_inv_def Let_def)
qed

lemma fw_consume_simps:
  "rli_allowed (snd (fw_consume s t k)) =
     (ct_count (fw_counter s t k) < rlo_maxRequests (fw_options s))"
  "jm_get (fw_counters (fst (fw_consume s t k))) key =
     (if key = k
      then Some (if ct_count (fw_counter s t k) < rlo_maxRequests (fw_options s)
                 then (fw_counter s t k)\<lparr>ct_count := ct_count (fw_counter s t k) + 1\<rparr>
                 else fw_counter s t k)
      else jm_get (fw_counters s) key)"
  by (simp_all add: fw_consume_def Let_def)

lemma fw_counter_inv:
  assumes "fw_inv t (rlo_windowMs (fw_options s)) b (jm_get (fw_counters s) k) ad"
    and "0 < rlo_windowMs (fw_options s)"
  shows "fw_inv t (rlo_windowMs (fw_options s)) b (Some (fw_counter s t k)) ad"
    and "t < ct_windowStart (fw_counter s t k) + rlo_windowMs (fw_options s)"
  using fw_inv_new_window [OF assms] assms
  by (auto simp: fw_counter_def split: option.splits)

lemma fw_run_inv:
  assumes "sorted (map fst rs)" and "\<forall>r \<in> set rs. fst r \<le> now"
    and "0 \<le> rlo_maxRequests opts" and "0 < rlo_windowMs opts"
  shows "fw_inv now (rlo_windowMs opts) (nat (rlo_maxRequests opts))
           (jm_get (fw_counters (rl_run fw_consume (new_FixedWindowLimiter opts) rs)) key)
           (rl_admitted key (rl_verdicts fw_consume (new_FixedWindowLimiter opts) rs))"
  using assms(1,2)
proof (induction rs arbitrary: now rule: rev_induct)
  case Nil
  show ?case by (simp add: fw_inv_def rl_admitted_def new_FixedWindowLimiter_def)
next
  case (snoc r rs)
  obtain t k where r: "r = (t, k)" by (cases r)
  let ?s = "rl_run fw_consume (new_FixedWindowLimiter opts) rs"
  let ?w = "rlo_windowMs opts" and ?b = "nat (rlo_maxRequests opts)"
  let ?ad = "rl_admitted key (rl_verdicts fw_consume (new_FixedWindowLimiter opts) rs)"
  have opts: "fw_options ?s = opts" by (simp add: fw.opts_run new_FixedWindowLimiter_def)
  have inv: "fw_inv t ?w ?b (jm_get (fw_counters ?s) key) ?ad"
    by (rule snoc.IH) (use snoc.prems r in \<open>auto simp: sorted_append\<close>)
  note counter = fw_counter_inv [of t ?s ?b key ?ad, unfolded opts, OF inv assms(4)]
  from inv counter fw_inv_admit [OF counter]
  have "fw_inv t ?w ?b (jm_get (fw_counters (fst (fw_consume ?s t k))) key)
      (?ad @ (if k = key \<and> rli_allowed (snd (fw_consume ?s t k)) then [t] else []))"
    by (auto simp: fw_consume_simps opts)
  from fw_inv_later [OF this, of now] show ?case
    using snoc.prems r by (simp add: rl_admitted_snoc rl_run_append)
qed

text \<open>
  A fixed window bounds the admissions of a key in every window of \<open>windowMs\<close> milliseconds by
  twice \<open>maxRequests\<close>.
\<close>

theorem fixed_window_limits:
  assumes "sorted (map fst rs)" and "0 \<le> rlo_maxRequests opts" and "0 < rlo_windowMs opts"
  shows "int (in_window (rlo_windowMs opts) t
           (rl_admitted key (rl_verdicts fw_consume (new_FixedWindowLimiter opts) rs)))
         \<le> 2 * rlo_maxRequests opts"
proof -
  obtain now where "\<forall>r \<in> set rs. fst r \<le> now" by (rule times_bounded)
  from fw_run_inv [OF assms(1) this assms(2,3), of key]
  have "in_window (rlo_windowMs opts) t
      (rl_admitted key (rl_verdicts fw_consume (new_FixedWindowLimiter opts) rs))
      \<le> 2 * nat (rlo_maxRequests opts)"
    by (auto simp: fw_inv_def Let_def in_window_def split: option.splits)
  then show ?thesis using assms(2) by linarith
qed

theorem fixed_window_limits_witness:
  "in_window 1000 1100 (rl_admitted ''a'' (rl_verdicts fw_consume
     (new_FixedWindowLimiter demo_rl_opts)
     [(0, ''a''), (900, ''a''), (1000, ''a''), (1100, ''a''), (1100, ''a'')])) \<le> 4"
  using fixed_window_limits [of "[(0, ''a''), (900, ''a''), (1000, ''a''), (1100, ''a''), (1100, ''a'')]"
      demo_rl_opts 1100 "''a''"]
  by (simp add: demo_rl_opts_def)

end
