(* ===== verification/Cache.thy ===== *)
theory Cache
  imports JsMap
begin

text \<open>
  \<open>packages/kernel/src/cache/cache-manager.ts\<close>: the in-memory layer of the cache manager (the only
  layer the class has: \<open>useL2\<close> and \<open>redisUrl\<close> are never read).

  The asynchronous methods have no \<open>await\<close> of their own but for \<open>getOrSet\<close> and \<open>warm\<close>, so
  each is one atomic operation at a time \<open>now\<close>. \<open>cm_metrics\<close> is the sequence of calls of
  \<open>onMetric\<close>. \<open>cm_interval\<close> tells whether the periodic clean-up is installed.
\<close>

section \<open>State\<close>

record CacheOptions =
  co_defaultTtl :: int
  co_maxL1Size :: int
  co_useL2 :: bool
  co_redisUrl :: "string option"
  co_keyPrefix :: string

record CacheMetric =
  mt_hits :: int
  mt_misses :: int
  mt_l1Hits :: int
  mt_l2Hits :: int
  mt_sets :: int
  mt_deletes :: int
  mt_hitRate :: rat
  mt_size :: int

record CacheEntry =
  ce_value :: jsval
  ce_expiresAt :: int
  ce_createdAt :: int

record CacheManager =
  cm_options :: CacheOptions
  cm_l1Cache :: "(string, CacheEntry) jsmap"
  cm_hits :: int
  cm_misses :: int
  cm_l1Hits :: int
  cm_l2Hits :: int
  cm_sets :: int
  cm_deletes :: int
  cm_interval :: bool
  cm_metrics :: "CacheMetric list"

definition new_CacheManager :: "CacheOptions \<Rightarrow> CacheManager" where
  "new_CacheManager opts =
     \<lparr>cm_options = opts, cm_l1Cache = [], cm_hits = 0, cm_misses = 0, cm_l1Hits = 0, cm_l2Hits = 0,
      cm_sets = 0, cm_deletes = 0, cm_interval = True, cm_metrics = []\<rparr>"

section \<open>Operations\<close>

definition cm_getMetrics :: "CacheManager \<Rightarrow> CacheMetric" where
  "cm_getMetrics c =
     (let total = cm_hits c + cm_misses c in
      \<lparr>mt_hits = cm_hits c, mt_misses = cm_misses c, mt_l1Hits = cm_l1Hits c,
       mt_l2Hits = cm_l2Hits c, mt_sets = cm_sets c, mt_deletes = cm_deletes c,
       mt_hitRate = (if total > 0 then of_int (cm_hits c) / of_int total else 0),
       mt_size = int (jm_size (cm_l1Cache c))\<rparr>)"

definition cm_emitMetric :: "CacheManager \<Rightarrow> CacheManager" where
  "cm_emitMetric c = c\<lparr>cm_metrics := cm_metrics c @ [cm_getMetrics c]\<rparr>"

definition cm_getFullKey :: "CacheManager \<Rightarrow> string \<Rightarrow> string" where
  "cm_getFullKey c key = co_keyPrefix (cm_options c) @ '':'' @ key"

definition cm_get :: "int \<Rightarrow> string \<Rightarrow> CacheManager \<Rightarrow> CacheManager \<times> jsval" where
  "cm_get now key c =
     (let fullKey = cm_getFullKey c key;
          l1Entry = jm_get (cm_l1Cache c) fullKey
      in case l1Entry of
           Some e \<Rightarrow>
             if ce_expiresAt e > now
             then (cm_emitMetric (c\<lparr>cm_hits := cm_hits c + 1, cm_l1Hits := cm_l1Hits c + 1\<rparr>), ce_value e)
             else (cm_emitMetric (c\<lparr>cm_l1Cache := jm_delete fullKey (cm_l1Cache c),
                                    cm_misses := cm_misses c + 1\<rparr>), JNull)
         | None \<Rightarrow> (cm_emitMetric (c\<lparr>cm_misses := cm_misses c + 1\<rparr>), JNull))"

text \<open>The loop of \<open>evictOldest\<close>; \<open>None\<close> stands for the initial \<open>(null, Infinity)\<close>.\<close>

fun oldest_entry :: "(string \<times> int) option \<Rightarrow> (string \<times> CacheEntry) list \<Rightarrow> (string \<times> int) option" where
  "oldest_entry best [] = best"
| "oldest_entry best ((key, e) # es) =
     oldest_entry (case best of
         None \<Rightarrow> Some (key, ce_createdAt e)
       | Some (_, oldestTime) \<Rightarrow>
           if ce_createdAt e < oldestTime then Some (key, ce_createdAt e) else best) es"

definition cm_evictOldest :: "CacheManager \<Rightarrow> CacheManager" where
  "cm_evictOldest c =
     (case oldest_entry None (cm_l1Cache c) of
        None \<Rightarrow> c
      | Some (oldestKey, _) \<Rightarrow>
          if oldestKey \<noteq> [] then c\<lparr>cm_l1Cache := jm_delete oldestKey (cm_l1Cache c)\<rparr> else c)"

definition cm_set :: "int \<Rightarrow> string \<Rightarrow> jsval \<Rightarrow> int option \<Rightarrow> CacheManager \<Rightarrow> CacheManager" where
  "cm_set now key v ttlSeconds c =
     (let fullKey = cm_getFullKey c key;
          ttl = num_or ttlSeconds (co_defaultTtl (cm_options c));
          expiresAt = now + ttl * 1000;
          c1 = (if int (jm_size (cm_l1Cache c)) \<ge> co_maxL1Size (cm_options c)
                then cm_evictOldest c else c);
          c2 = c1\<lparr>cm_l1Cache := jm_set fullKey
                    \<lparr>ce_value = v, ce_expiresAt = expiresAt, ce_createdAt = now\<rparr> (cm_l1Cache c1)\<rparr>
      in cm_emitMetric (c2\<lparr>cm_sets := cm_sets c2 + 1\<rparr>))"

definition cm_delete :: "string \<Rightarrow> CacheManager \<Rightarrow> CacheManager" where
  "cm_delete key c =
     cm_emitMetric (c\<lparr>cm_l1Cache := jm_delete (cm_getFullKey c key) (cm_l1Cache c),
                      cm_deletes := cm_deletes c + 1\<rparr>)"

text \<open>\<open>fullPattern.replace('*', '')\<close> removes the first star only.\<close>

definition cm_patternPrefix :: "CacheManager \<Rightarrow> string \<Rightarrow> string" where
  "cm_patternPrefix c pattern = remove_first (\<lambda>ch. ch = CHR ''*'') (cm_getFullKey c pattern)"

definition cm_deletePattern :: "string \<Rightarrow> CacheManager \<Rightarrow> CacheManager \<times> int" where
  "cm_deletePattern pattern c =
     (let p = cm_patternPrefix c pattern;
          count = int (length (filter (\<lambda>key. js_startsWith key p) (jm_keys (cm_l1Cache c))));
          c1 = c\<lparr>cm_l1Cache := jm_delete_if (\<lambda>key e. js_startsWith key p) (cm_l1Cache c),
                 cm_deletes := cm_deletes c + count\<rparr>
      in (cm_emitMetric c1, count))"

text \<open>
  \<open>getOrSet\<close> awaits the factory between its lookup (at \<open>t1\<close>) and its \<open>set\<close> (at \<open>t2\<close>);
  \<open>factory\<close> is its outcome and what the cache has become by then.
\<close>

definition cm_getOrSet ::
  "int \<Rightarrow> int \<Rightarrow> string \<Rightarrow> (CacheManager \<Rightarrow> CacheManager \<times> ('e + jsval)) \<Rightarrow> int option \<Rightarrow>
     CacheManager \<Rightarrow> CacheManager \<times> ('e + jsval)" where
  "cm_getOrSet t1 t2 key factory ttlSeconds c =
     (let (c1, cached) = cm_get t1 key c in
      if \<not> strict_eq cached JNull then (c1, Inr cached)
      else (case factory c1 of
              (c2, Inl err) \<Rightarrow> (c2, Inl err)
            | (c2, Inr v) \<Rightarrow> (cm_set t2 key v ttlSeconds c2, Inr v)))"

text \<open>\<open>warm\<close> starts all factories; the list holds their outcomes in the order they settle.\<close>

fun cm_warm :: "(int \<times> string \<times> ('e + jsval) \<times> int option) list \<Rightarrow> CacheManager \<Rightarrow> CacheManager" where
  "cm_warm [] c = c"
| "cm_warm ((now, key, Inr v, ttl) # es) c = cm_warm es (cm_set now key v ttl c)"
| "cm_warm ((now, key, Inl err, ttl) # es) c = cm_warm es c"

definition cm_has :: "int \<Rightarrow> string \<Rightarrow> CacheManager \<Rightarrow> bool" where
  "cm_has now key c =
     (case jm_get (cm_l1Cache c) (cm_getFullKey c key) of
        None \<Rightarrow> False | Some e \<Rightarrow> ce_expiresAt e > now)"

definition cm_clear :: "CacheManager \<Rightarrow> CacheManager" where
  "cm_clear c = cm_emitMetric (c\<lparr>cm_l1Cache := []\<rparr>)"

definition cm_destroy :: "CacheManager \<Rightarrow> CacheManager" where
  "cm_destroy c = c\<lparr>cm_interval := False, cm_l1Cache := []\<rparr>"

definition cm_cleanup :: "int \<Rightarrow> CacheManager \<Rightarrow> CacheManager" where
  "cm_cleanup now c =
     c\<lparr>cm_l1Cache := jm_delete_if (\<lambda>key e. ce_expiresAt e \<le> now) (cm_l1Cache c)\<rparr>"

text \<open>\<open>createCacheManager\<close>: the given options, where present, override the defaults.\<close>

record PartialCacheOptions =
  po_defaultTtl :: "int option"
  po_maxL1Size :: "int option"
  po_useL2 :: "bool option"
  po_redisUrl :: "string option"
  po_keyPrefix :: "string option"

definition createCacheManager :: "PartialCacheOptions \<Rightarrow> CacheManager" where
  "createCacheManager p =
     new_CacheManager
       \<lparr>co_defaultTtl = dflt (po_defaultTtl p) 300, co_maxL1Size = dflt (po_maxL1Size p) 10000,
        co_useL2 = dflt (po_useL2 p) False, co_redisUrl = po_redisUrl p,
        co_keyPrefix = dflt (po_keyPrefix p) ''infinity''\<rparr>"

section \<open>Histories\<close>

datatype cache_op =
    CGet int string
  | CSet int string jsval "int option"
  | CDelete string
  | CDeletePattern string
  | CClear
  | CDestroy
  | CCleanup int

fun cm_apply :: "cache_op \<Rightarrow> CacheManager \<Rightarrow> CacheManager" where
  "cm_apply (CGet now key) c = fst (cm_get now key c)"
| "cm_apply (CSet now key v ttl) c = cm_set now key v ttl c"
| "cm_apply (CDelete key) c = cm_delete key c"
| "cm_apply (CDeletePattern pattern) c = fst (cm_deletePattern pattern c)"
| "cm_apply CClear c = cm_clear c"
| "cm_apply CDestroy c = cm_destroy c"
| "cm_apply (CCleanup now) c = cm_cleanup now c"

definition cm_history :: "CacheOptions \<Rightarrow> cache_op list \<Rightarrow> CacheManager" where
  "cm_history opts ops = fold cm_apply ops (new_CacheManager opts)"

lemma cm_history_snoc: "cm_history opts (ops @ [op]) = cm_apply op (cm_history opts ops)"
  by (simp add: cm_history_def)

lemma cm_emitMetric_simps [simp]:
  "cm_l1Cache (cm_emitMetric c) = cm_l1Cache c"
  "cm_options (cm_emitMetric c) = cm_options c"
  "cm_hits (cm_emitMetric c) = cm_hits c"
  "cm_misses (cm_emitMetric c) = cm_misses c"
  by (simp_all add: cm_emitMetric_def)

lemma cm_evictOldest_simps [simp]:
  "cm_options (cm_evictOldest c) = cm_options c"
  "cm_hits (cm_evictOldest c) = cm_hits c"
  "cm_misses (cm_evictOldest c) = cm_misses c"
  by (simp_all add: cm_evictOldest_def split: option.splits prod.splits)

lemma cm_getFullKey_inj [simp]: "cm_getFullKey c k = cm_getFullKey c k' \<longleftrightarrow> k = k'"
  by (simp add: cm_getFullKey_def)

lemma cm_getFullKey_cong: "cm_options c = cm_options c' \<Longrightarrow> cm_getFullKey c k = cm_getFullKey c' k"
  by (simp add: cm_getFullKey_def)

lemma cm_getFullKey_nonempty [simp]: "cm_getFullKey c k \<noteq> []"
  by (simp add: cm_getFullKey_def)

lemma cm_apply_options [simp]: "cm_options (cm_apply op c) = cm_options c"
  by (cases op) (auto simp: cm_get_def cm_set_def cm_delete_def cm_deletePattern_def cm_clear_def
      cm_destroy_def cm_cleanup_def Let_def split: option.splits)

lemma cm_history_options [simp]: "cm_options (cm_history opts ops) = opts"
  by (induction ops rule: rev_induct)
     (simp_all add: cm_history_snoc, simp add: cm_history_def new_CacheManager_def)

lemma oldest_entry_SomeD:
  "oldest_entry best es = Some (k, t) \<Longrightarrow>
     (best = Some (k, t) \<or> (\<exists>e. (k, e) \<in> set es \<and> ce_createdAt e = t)) \<and>
     (\<forall>e \<in> snd ` set es. t \<le> ce_createdAt e) \<and>
     (\<forall>k' t'. best = Some (k', t') \<longrightarrow> t \<le> t')"
proof (induction best es rule: oldest_entry.induct)
  case (1 best)
  then show ?case by simp
next
  case (2 best key e es)
  from "2.IH" "2.prems" show ?case
    by (auto split: option.splits prod.splits if_splits)
qed

lemma oldest_entry_Some: "oldest_entry (Some b) es \<noteq> None"
  by (induction es arbitrary: b) (auto split: prod.splits)

lemma oldest_entry_None: "oldest_entry None es = None \<longleftrightarrow> es = []"
proof (cases es)
  case (Cons a es')
  then show ?thesis using oldest_entry_Some by (cases a) (simp del: not_None_eq)
qed simp

section \<open>Capacity\<close>

lemma cm_evictOldest_removes:
  assumes "cm_l1Cache c \<noteq> []" and "[] \<notin> set (jm_keys (cm_l1Cache c))"
  shows "\<exists>k e. (k, e) \<in> set (cm_l1Cache c) \<and>
           cm_l1Cache (cm_evictOldest c) = jm_delete k (cm_l1Cache c) \<and>
           (\<forall>e' \<in> set (jm_values (cm_l1Cache c)). ce_createdAt e \<le> ce_createdAt e')"
proof -
  obtain k t where kt: "oldest_entry None (cm_l1Cache c) = Some (k, t)"
    using assms(1) oldest_entry_None by (cases "oldest_entry None (cm_l1Cache c)") auto
  from oldest_entry_SomeD [OF this] obtain e where
    "(k, e) \<in> set (cm_l1Cache c)" "ce_createdAt e = t"
    "\<forall>e' \<in> set (jm_values (cm_l1Cache c)). t \<le> ce_createdAt e'"
    by (auto simp: jm_values_def)
  moreover from this(1) assms(2) have "k \<noteq> []" by (force simp: jm_keys_def)
  ultimately show ?thesis using kt by (auto simp: cm_evictOldest_def)
qed

definition cm_ok :: "CacheManager \<Rightarrow> bool" where
  "cm_ok c \<longleftrightarrow> jm_ok (cm_l1Cache c) \<and>
     (\<forall>key \<in> set (jm_keys (cm_l1Cache c)). \<exists>k. key = cm_getFullKey c k) \<and>
     int (jm_size (cm_l1Cache c)) \<le> max 1 (co_maxL1Size (cm_options c))"

lemma jm_keys_delete_subset: "set (jm_keys (jm_delete k m)) \<subseteq> set (jm_keys m)"
  by (auto simp: jm_keys_def jm_delete_def delete_keys)

lemma jm_keys_delete_if_subset: "set (jm_keys (jm_delete_if p m)) \<subseteq> set (jm_keys m)"
  by (auto simp: jm_keys_def jm_delete_if_def)

lemma jm_size_delete_if: "jm_size (jm_delete_if p m) \<le> jm_size m"
  by (simp add: jm_size_def jm_delete_if_def)

lemma jm_size_delete_le: "jm_ok m \<Longrightarrow> jm_size (jm_delete k m) \<le> jm_size m"
  by (simp add: jm_size_delete)

lemma cm_ok_shrink:
  assumes "cm_ok c" and "cm_options c' = cm_options c" and "jm_ok (cm_l1Cache c')"
    and "set (jm_keys (cm_l1Cache c')) \<subseteq> set (jm_keys (cm_l1Cache c))"
    and "jm_size (cm_l1Cache c') \<le> jm_size (cm_l1Cache c)"
  shows "cm_ok c'"
proof -
  have "cm_getFullKey c' k = cm_getFullKey c k" for k
    using assms(2) by (rule cm_getFullKey_cong)
  then show ?thesis using assms by (fastforce simp: cm_ok_def)
qed

lemma cm_ok_evict:
  assumes "cm_ok c" and "co_maxL1Size (cm_options c) \<le> int (jm_size (cm_l1Cache c))"
  shows "cm_ok (cm_evictOldest c) \<and>
         int (jm_size (cm_l1Cache (cm_evictOldest c))) < max 1 (co_maxL1Size (cm_options c))"
proof (cases "cm_l1Cache c = []")
  case True
  then show ?thesis using assms(1) by (simp add: cm_evictOldest_def jm_size_def)
next
  case False
  have "[] \<notin> set (jm_keys (cm_l1Cache c))"
    using assms(1) by (metis cm_ok_def cm_getFullKey_nonempty)
  from cm_evictOldest_removes [OF False this] obtain k e where
    ke: "(k, e) \<in> set (cm_l1Cache c)" "cm_l1Cache (cm_evictOldest c) = jm_delete k (cm_l1Cache c)"
    by blast
  have ok: "jm_ok (cm_l1Cache c)" using assms(1) by (simp add: cm_ok_def)
  have "jm_has (cm_l1Cache c) k" using jm_get_in [OF ok ke(1)] by (simp add: jm_has_def)
  then have "jm_size (jm_delete k (cm_l1Cache c)) = jm_size (cm_l1Cache c) - 1"
    using ok by (simp add: jm_size_delete)
  moreover have "0 < jm_size (cm_l1Cache c)" using False by (simp add: jm_size_def)
  moreover have "cm_ok (cm_evictOldest c)"
    by (rule cm_ok_shrink [OF assms(1)])
       (use ok ke(2) in \<open>auto simp: jm_size_delete dest: jm_keys_delete_subset [THEN subsetD]\<close>)
  ultimately show ?thesis using ke(2) assms by (simp add: cm_ok_def)
qed

lemma cm_ok_set:
  assumes "cm_ok c"
  shows "cm_ok (cm_set now key v ttl c)"
proof -
  define c1 where "c1 = (if int (jm_size (cm_l1Cache c)) \<ge> co_maxL1Size (cm_options c)
                then cm_evictOldest c else c)"
  have opts: "cm_options c1 = cm_options c" by (simp add: c1_def)
  have "cm_ok c1 \<and> int (jm_size (cm_l1Cache c1)) < max 1 (co_maxL1Size (cm_options c))"
    using assms cm_ok_evict [OF assms] by (auto simp: c1_def)
  then have c1: "cm_ok c1" "int (jm_size (cm_l1Cache c1)) < max 1 (co_maxL1Size (cm_options c))"
    by simp_all
  let ?c = "cm_set now key v ttl c"
  have l1: "\<exists>e. cm_l1Cache ?c = jm_set (cm_getFullKey c1 key) e (cm_l1Cache c1)" "cm_options ?c = cm_options c1"
    by (auto simp: cm_set_def Let_def c1_def cm_getFullKey_def)
  have full: "cm_getFullKey ?c k = cm_getFullKey c1 k" for k
    using l1(2) by (rule cm_getFullKey_cong)
  from c1 l1 opts show ?thesis
    by (auto simp: cm_ok_def full jm_size_set)
qed

lemma cm_ok_apply: "cm_ok c \<Longrightarrow> cm_ok (cm_apply op c)"
proof (cases op)
  case (CSet now key v ttl)
  assume "cm_ok c"
  then show ?thesis by (simp add: CSet cm_ok_set)
next
  case (CGet now key)
  assume "cm_ok c"
  then show ?thesis
    by (rule cm_ok_shrink)
       (use \<open>cm_ok c\<close> in \<open>auto simp: CGet cm_get_def Let_def cm_ok_def jm_size_delete_le
          split: option.split dest: jm_keys_delete_subset [THEN subsetD]\<close>)
qed (frule cm_ok_shrink; auto simp: cm_delete_def cm_deletePattern_def cm_clear_def cm_destroy_def
       cm_cleanup_def Let_def cm_ok_def jm_size_delete_le jm_size_delete_if jm_size_def [of "[]"]
       jm_keys_def [of "[]"]
       dest: jm_keys_delete_subset [THEN subsetD] jm_keys_delete_if_subset [THEN subsetD])+

lemma cm_ok_history: "cm_ok (cm_history opts ops)"
proof (induction ops rule: rev_induct)
  case Nil
  show ?case by (simp add: cm_ok_def cm_history_def new_CacheManager_def jm_keys_def jm_size_def)
next
  case (snoc op ops)
  then show ?case by (simp add: cm_history_snoc cm_ok_apply)
qed

section \<open>The abstract cache\<close>

text \<open>What a cache promises: a key maps to the value written last and its expiry, unless it has been
  deleted since. Evictions and clean-ups may lose entries but never make one up.\<close>

type_synonym abs_cache = "string \<Rightarrow> (jsval \<times> int) option"

fun abs_apply :: "CacheOptions \<Rightarrow> cache_op \<Rightarrow> abs_cache \<Rightarrow> abs_cache" where
  "abs_apply opts (CSet now key v ttl) m =
     m(key \<mapsto> (v, now + num_or ttl (co_defaultTtl opts) * 1000))"
| "abs_apply opts (CDelete key) m = m(key := None)"
| "abs_apply opts (CDeletePattern pattern) m =
     (\<lambda>key. if js_startsWith (co_keyPrefix opts @ '':'' @ key)
                (remove_first (\<lambda>ch. ch = CHR ''*'') (co_keyPrefix opts @ '':'' @ pattern))
             then None else m key)"
| "abs_apply opts CClear m = Map.empty"
| "abs_apply opts CDestroy m = Map.empty"
| "abs_apply opts (CGet now key) m = m"
| "abs_apply opts (CCleanup now) m = m"

definition abs_history :: "CacheOptions \<Rightarrow> cache_op list \<Rightarrow> abs_cache" where
  "abs_history opts ops = fold (abs_apply opts) ops Map.empty"

definition cm_contents :: "CacheManager \<Rightarrow> abs_cache" where
  "cm_contents c key =
     map_option (\<lambda>e. (ce_value e, ce_expiresAt e)) (jm_get (cm_l1Cache c) (cm_getFullKey c key))"

lemma cm_contents_emitMetric [simp]: "cm_contents (cm_emitMetric c) = cm_contents c"
  by (simp add: cm_contents_def cm_getFullKey_def fun_eq_iff)

lemma map_le_Some: "m \<subseteq>\<^sub>m m' \<longleftrightarrow> (\<forall>k v. m k = Some v \<longrightarrow> m' k = Some v)"
  by (fastforce simp: map_le_def dom_def)

lemma cm_contents_evict:
  "jm_ok (cm_l1Cache c) \<Longrightarrow> cm_contents (cm_evictOldest c) \<subseteq>\<^sub>m cm_contents c"
  by (auto simp: cm_contents_def cm_evictOldest_def map_le_Some cm_getFullKey_def
      split: option.splits if_splits)

lemma cm_contents_set:
  "cm_contents (cm_set now key v ttl c) =
     (cm_contents (if int (jm_size (cm_l1Cache c)) \<ge> co_maxL1Size (cm_options c)
                   then cm_evictOldest c else c))
       (key \<mapsto> (v, now + num_or ttl (co_defaultTtl (cm_options c)) * 1000))"
  by (rule ext) (auto simp: cm_contents_def cm_set_def Let_def cm_getFullKey_def)

lemma cm_contents_apply:
  assumes "jm_ok (cm_l1Cache c)" and "cm_contents c \<subseteq>\<^sub>m m"
  shows "cm_contents (cm_apply op c) \<subseteq>\<^sub>m abs_apply (cm_options c) op m"
proof (cases op)
  case (CSet now key v ttl)
  have "cm_contents (cm_evictOldest c) \<subseteq>\<^sub>m m"
    by (rule map_le_trans [OF cm_contents_evict [OF assms(1)] assms(2)])
  with assms(2) show ?thesis by (simp add: CSet cm_contents_set map_le_upd)
next
  case (CGet now key)
  with assms show ?thesis
    by (auto simp: cm_get_def Let_def map_le_Some cm_contents_def cm_getFullKey_def split: option.splits)
next
  case (CDelete key)
  with assms show ?thesis
    by (auto simp: cm_delete_def map_le_Some cm_contents_def cm_getFullKey_def)
next
  case (CDeletePattern pattern)
  with assms show ?thesis
    by (auto simp: cm_deletePattern_def cm_patternPrefix_def Let_def map_le_Some cm_contents_def
        cm_getFullKey_def jm_get_delete_if split: option.splits if_splits)
next
  case CClear
  then show ?thesis by (auto simp: cm_clear_def map_le_Some cm_contents_def)
next
  case CDestroy
  then show ?thesis by (auto simp: cm_destroy_def map_le_Some cm_contents_def)
next
  case (CCleanup now)
  with assms show ?thesis
    by (auto simp: cm_cleanup_def map_le_Some cm_contents_def cm_getFullKey_def jm_get_delete_if
        split: option.splits if_splits)
qed

lemma cm_contents_history: "cm_contents (cm_history opts ops) \<subseteq>\<^sub>m abs_history opts ops"
proof (induction ops rule: rev_induct)
  case Nil
  show ?case
    by (simp add: cm_history_def abs_history_def new_CacheManager_def cm_contents_def map_le_def)
next
  case (snoc op ops)
  have "jm_ok (cm_l1Cache (cm_history opts ops))" using cm_ok_history by (simp add: cm_ok_def)
  from cm_contents_apply [OF this snoc, of op] show ?case
    by (simp add: cm_history_snoc abs_history_def)
qed

lemma cm_get_contents:
  "snd (cm_get now key c) =
     (case cm_contents c key of Some (v, t) \<Rightarrow> if t > now then v else JNull | None \<Rightarrow> JNull)"
  by (simp add: cm_get_def cm_contents_def Let_def split: option.split)

text \<open>
  C7. The cache refines the abstract cache: after any history it holds a submap of the writes that
  have not been overwritten or deleted, so a lookup that is not a miss returns the value written
  last under the key, and not after its expiry.
\<close>

theorem cache_never_stale:
  assumes "snd (cm_get now key (cm_history opts ops)) = v" and "v \<noteq> JNull"
  shows "\<exists>t. abs_history opts ops key = Some (v, t) \<and> now < t"
proof -
  from assms obtain t where "cm_contents (cm_history opts ops) key = Some (v, t)" "now < t"
    by (auto simp: cm_get_contents split: option.splits if_splits)
  then show ?thesis
    using cm_contents_history [of opts ops] by (auto simp: map_le_def dom_def)
qed

definition demo_cache_opts :: CacheOptions where
  "demo_cache_opts = \<lparr>co_defaultTtl = 10, co_maxL1Size = 2, co_useL2 = False, co_redisUrl = None,
                      co_keyPrefix = ''p''\<rparr>"

lemmas cache_defs = cm_history_def cm_get_def cm_set_def cm_emitMetric_def cm_getFullKey_def
  cm_evictOldest_def new_CacheManager_def jm_get_def jm_set_def jm_size_def jm_delete_def
  num_or_def Let_def

theorem cache_never_stale_witness:
  "\<exists>t. abs_history demo_cache_opts [CSet 0 ''k'' (JNum 7) None] ''k'' = Some (JNum 7, t) \<and> 5000 < t"
  by (rule cache_never_stale) (simp_all add: cache_defs demo_cache_opts_def)

text \<open>
  Bounded memory: after any history the layer holds at most
  \<open>maxL1Size\<close> entries (one, when that is 0), each under a key of its namespace, and no key twice.
\<close>

theorem cache_bounded:
  "jm_ok (cm_l1Cache (cm_history opts ops)) \<and>
   jm_size (cm_l1Cache (cm_history opts ops)) \<le> nat (max 1 (co_maxL1Size opts)) \<and>
   (\<nexists>key. key \<in> set (jm_keys (cm_l1Cache (cm_history opts ops))) \<and>
           (\<forall>k. key \<noteq> co_keyPrefix opts @ '':'' @ k))"
  using cm_ok_history [of opts ops] unfolding cm_ok_def cm_getFullKey_def
  by (auto simp: le_nat_iff)

text \<open>\<open>deletePattern\<close> deletes by prefix: what follows the first star, or its absence, does not
  matter.\<close>

lemma cm_deletePattern_get:
  assumes "jm_ok (cm_l1Cache c)"
  shows "jm_get (cm_l1Cache (fst (cm_deletePattern pattern c))) key =
     (if js_startsWith key (cm_patternPrefix c pattern) then None else jm_get (cm_l1Cache c) key)"
  by (simp add: cm_deletePattern_def Let_def jm_get_delete_if [OF assms] split: option.split)

lemma remove_first_append:
  "remove_first p (xs @ ys) = (if list_ex p xs then remove_first p xs @ ys else xs @ remove_first p ys)"
  by (induction xs) auto

lemma cm_deletePattern_starless:
  assumes "CHR ''*'' \<notin> set (co_keyPrefix (cm_options c))" and "CHR ''*'' \<notin> set pattern"
  shows "cm_patternPrefix c pattern = cm_getFullKey c pattern"
proof -
  have "\<not> list_ex (\<lambda>ch. ch = CHR ''*'') (cm_getFullKey c pattern)"
    using assms by (auto simp: cm_getFullKey_def list_ex_iff)
  then show ?thesis by (simp add: cm_patternPrefix_def remove_first_none)
qed

section \<open>Retention\<close>

text \<open>An operation that leaves an entry of \<open>key\<close> in place until \<open>t\<close>, in a cache with room.\<close>

fun keeps_key :: "int \<Rightarrow> string \<Rightarrow> cache_op \<Rightarrow> bool" where
  "keeps_key t key (CGet now k) = (now < t)"
| "keeps_key t key (CCleanup now) = (now < t)"
| "keeps_key t key (CSet now k v ttl) = (k \<noteq> key)"
| "keeps_key t key (CDelete k) = (k \<noteq> key)"
| "keeps_key t key _ = False"

definition op_sets :: "cache_op \<Rightarrow> nat" where
  "op_sets op = (case op of CSet _ _ _ _ \<Rightarrow> 1 | _ \<Rightarrow> 0)"

lemma cm_size_set_room:
  assumes "int (jm_size (cm_l1Cache c)) < co_maxL1Size (cm_options c)"
  shows "jm_size (cm_l1Cache (cm_set now k v ttl c)) \<le> Suc (jm_size (cm_l1Cache c))"
    and "cm_contents (cm_set now k v ttl c) =
           (cm_contents c)(k \<mapsto> (v, now + num_or ttl (co_defaultTtl (cm_options c)) * 1000))"
  using assms
  by (simp add: cm_set_def [of now k v ttl c] Let_def jm_size_set, simp add: cm_contents_set)

lemma cm_keep_step:
  assumes "cm_ok c" and "keeps_key t key op" and "cm_contents c key = Some (v, t)"
    and "int (jm_size (cm_l1Cache c)) + int (op_sets op) \<le> co_maxL1Size (cm_options c)"
  shows "cm_contents (cm_apply op c) key = Some (v, t) \<and>
         jm_size (cm_l1Cache (cm_apply op c)) \<le> jm_size (cm_l1Cache c) + op_sets op"
proof (cases op)
  case (CSet now k w ttl)
  then have "int (jm_size (cm_l1Cache c)) < co_maxL1Size (cm_options c)"
    using assms(4) by (simp add: op_sets_def)
  from cm_size_set_room [OF this, of now k w ttl] CSet assms(2,3) show ?thesis
    by (simp add: op_sets_def)
next
  case (CGet now k)
  with assms show ?thesis
    by (auto simp: cm_get_def Let_def cm_contents_def cm_getFullKey_def op_sets_def cm_ok_def
        jm_size_delete_le split: option.splits)
next
  case (CDelete k)
  with assms show ?thesis
    by (auto simp: cm_delete_def cm_contents_def cm_getFullKey_def op_sets_def cm_ok_def
        jm_size_delete_le)
next
  case (CCleanup now)
  with assms show ?thesis
    by (auto simp: cm_cleanup_def cm_contents_def cm_getFullKey_def op_sets_def cm_ok_def
        jm_size_delete_if jm_get_delete_if)
qed (use assms in auto)

lemma cm_keep:
  assumes "cm_ok c" and "\<forall>op \<in> set ops. keeps_key t key op" and "cm_contents c key = Some (v, t)"
    and "int (jm_size (cm_l1Cache c)) + int (sum_list (map op_sets ops)) \<le> co_maxL1Size (cm_options c)"
  shows "cm_contents (fold cm_apply ops c) key = Some (v, t)"
  using assms
proof (induction ops arbitrary: c)
  case Nil
  then show ?case by simp
next
  case (Cons op ops)
  have "cm_contents (cm_apply op c) key = Some (v, t) \<and>
         jm_size (cm_l1Cache (cm_apply op c)) \<le> jm_size (cm_l1Cache c) + op_sets op"
    by (rule cm_keep_step) (use Cons.prems in auto)
  with Cons.prems Cons.IH [of "cm_apply op c"] show ?case by (simp add: cm_ok_apply)
qed

text \<open>
  A write is found until it expires: after \<open>set\<close> in a cache with room, and then any lookups
  and clean-ups before the expiry, any deletions of other keys, and any writes of other keys that
  the capacity still allows, a lookup returns the value.
\<close>

theorem cache_keeps_fresh:
  assumes "num_or ttl (co_defaultTtl opts) = secs" and "now' < now + secs * 1000"
    and "\<forall>op \<in> set ops'. keeps_key (now + secs * 1000) key op"
    and "int (jm_size (cm_l1Cache (cm_history opts ops))) + 1 + int (sum_list (map op_sets ops'))
         \<le> co_maxL1Size opts"
  shows "snd (cm_get now' key (cm_history opts (ops @ CSet now key v ttl # ops'))) = v"
proof -
  let ?c = "cm_history opts ops" and ?d = "cm_set now key v ttl (cm_history opts ops)"
  have room: "int (jm_size (cm_l1Cache ?c)) < co_maxL1Size (cm_options ?c)"
    using assms(4) by simp
  have "cm_options ?d = opts" using cm_apply_options [of "CSet now key v ttl" ?c] by simp
  then have "cm_contents (fold cm_apply ops' ?d) key = Some (v, now + secs * 1000)"
    using assms cm_size_set_room [OF room, of now key v ttl]
    by (intro cm_keep) (auto intro: cm_ok_set cm_ok_history)
  then show ?thesis using assms(2) by (simp add: cm_get_contents) (simp add: cm_history_def)
qed

theorem cache_keeps_fresh_witness:
  "snd (cm_get 9000 ''k'' (cm_history demo_cache_opts
      ([] @ CSet 0 ''k'' (JNum 7) None # [CSet 50 ''j'' JNull (Some 1), CCleanup 8000]))) = JNum 7"
  by (rule cache_keeps_fresh [where secs = 10])
     (simp_all add: demo_cache_opts_def num_or_def op_sets_def cm_history_def new_CacheManager_def
       jm_size_def)

text \<open>
  Overwriting a key of a full cache evicts: although no room is needed, the oldest entry is
  removed first, so when another key holds it that key is lost and the cache shrinks.
\<close>

theorem cache_overwrite_evicts:
  assumes "cm_l1Cache (cm_history opts ops) = (victim, e) # rest"
    and "co_maxL1Size opts \<le> int (jm_size (cm_l1Cache (cm_history opts ops)))"
    and "\<forall>e' \<in> set (jm_values rest). ce_createdAt e < ce_createdAt e'"
    and "jm_has rest (co_keyPrefix opts @ '':'' @ key)"
  shows "\<not> jm_has (cm_l1Cache (cm_set now key v ttl (cm_history opts ops))) victim \<and>
         jm_size (cm_l1Cache (cm_set now key v ttl (cm_history opts ops))) <
           jm_size (cm_l1Cache (cm_history opts ops))"
proof -
  let ?c = "cm_history opts ops" and ?k = "co_keyPrefix opts @ '':'' @ key"
  have ok: "cm_ok ?c" by (rule cm_ok_history)
  then have dist: "jm_ok (cm_l1Cache ?c)" by (simp add: cm_ok_def)
  have keys: "[] \<notin> set (jm_keys (cm_l1Cache ?c))" using ok by (metis cm_ok_def cm_getFullKey_nonempty)
  obtain k e' where ke: "(k, e') \<in> set (cm_l1Cache ?c)"
    "cm_l1Cache (cm_evictOldest ?c) = jm_delete k (cm_l1Cache ?c)"
    "\<forall>x \<in> set (jm_values (cm_l1Cache ?c)). ce_createdAt e' \<le> ce_createdAt x"
    using cm_evictOldest_removes [OF _ keys] assms(1) by auto
  have "k = victim"
  proof (rule ccontr)
    assume "k \<noteq> victim"
    then have "e' \<in> set (jm_values rest)" using ke(1) assms(1) by (force simp: jm_values_def)
    with assms(3) have "ce_createdAt e < ce_createdAt e'" by simp
    moreover have "ce_createdAt e' \<le> ce_createdAt e" using ke(3) assms(1) by (simp add: jm_values_def)
    ultimately show False by simp
  qed
  moreover have ne: "victim \<noteq> ?k"
    using dist assms(1,4) by (auto simp: jm_ok_def jm_has_def jm_get_def map_of_eq_None_iff
        simp flip: not_None_eq)
  moreover have "cm_l1Cache (cm_set now key v ttl ?c) =
      jm_set ?k \<lparr>ce_value = v, ce_expiresAt = now + num_or ttl (co_defaultTtl opts) * 1000,
                 ce_createdAt = now\<rparr> (jm_delete k (cm_l1Cache ?c))"
    using assms(2) by (simp add: cm_set_def Let_def ke(2) cm_getFullKey_def)
  moreover have "jm_has (cm_l1Cache ?c) victim" "jm_has (cm_l1Cache ?c) ?k"
    using assms(1,4) by (simp_all add: jm_has_def jm_get_def)
  ultimately show ?thesis using dist assms(1) by (simp add: jm_size_set jm_size_delete) (simp add: jm_size_def)
qed

theorem cache_overwrite_evicts_witness:
  "\<not> jm_has (cm_l1Cache (cm_set 20 ''b'' JNull None
      (cm_history demo_cache_opts [CSet 0 ''a'' JNull None, CSet 10 ''b'' JNull None]))) ''p:a''"
  using cache_overwrite_evicts [of demo_cache_opts "[CSet 0 ''a'' JNull None, CSet 10 ''b'' JNull None]"
      "''p:a''" "\<lparr>ce_value = JNull, ce_expiresAt = 10000, ce_createdAt = 0\<rparr>"
      "[(''p:b'', \<lparr>ce_value = JNull, ce_expiresAt = 10010, ce_createdAt = 10\<rparr>)]"
      "''b''" 20 JNull None]
  by (simp add: cache_defs demo_cache_opts_def jm_values_def jm_has_def)

end
