(* ===== verification/Permissions.thy ===== *)
theory Permissions
  imports JsMap
begin

text \<open>
  \<open>packages/permissions/src/index.ts\<close>: roles, plan tiers, conditions and the permission engine.

  The string unions of the source are datatypes, with the strings they stand for given by
  \<open>..._str\<close> functions (conditions and messages see the strings). Roles and plan tiers are ordered by
  the priorities and levels of the source (class \<open>linorder\<close>).
\<close>

section \<open>Types\<close>

datatype PlanTier = P_free | P_starter | P_pro | P_enterprise

datatype Role = R_owner | R_admin | R_editor | R_viewer | R_guest

datatype Action =
    A_create | A_read | A_update | A_delete | A_list | A_manage | A_execute | A_export | A_invite
  | A_configure

datatype ResourceType =
    T_tenant | T_user | T_module | T_workflow | T_file | T_api_key | T_billing | T_settings
  | T_analytics | T_integration

datatype cond_operator = Op_eq | Op_neq | Op_in | Op_nin | Op_gt | Op_lt | Op_gte | Op_lte | Op_exists

record PermissionCondition =
  pc_field :: string
  pc_operator :: cond_operator
  pc_value :: jsval

record Permission =
  pm_resource :: ResourceType
  pm_actions :: "Action list"
  pm_conditions :: "PermissionCondition list option"

record RoleDefinition =
  rd_role :: Role
  rd_name :: string
  rd_description :: string
  rd_permissions :: "Permission list"
  rd_assignable :: bool
  rd_minPlanTier :: PlanTier
  rd_priority :: int

record PlanLimits =
  pl_maxUsers :: int
  pl_maxModules :: int
  pl_maxWorkflows :: int
  pl_maxStorage :: int
  pl_maxApiKeys :: int
  pl_maxIntegrations :: int
  pl_features :: "string list"

record PolicyContext =
  cx_role :: Role
  cx_planTier :: PlanTier
  cx_userId :: string
  cx_tenantId :: string
  cx_resourceOwnerId :: "string option"
  cx_metadata :: "(string \<times> jsval) list option"

datatype resolver = ByRole | ByPlan | ByCondition | ByOverride | ByDefault

record PolicyResult =
  pr_allowed :: bool
  pr_reason :: "string option"
  pr_resolvedBy :: resolver

fun tier_str :: "PlanTier \<Rightarrow> string" where
  "tier_str P_free = ''free''"
| "tier_str P_starter = ''starter''"
| "tier_str P_pro = ''pro''"
| "tier_str P_enterprise = ''enterprise''"

fun role_str :: "Role \<Rightarrow> string" where
  "role_str R_owner = ''owner''"
| "role_str R_admin = ''admin''"
| "role_str R_editor = ''editor''"
| "role_str R_viewer = ''viewer''"
| "role_str R_guest = ''guest''"

fun action_str :: "Action \<Rightarrow> string" where
  "action_str A_create = ''create''"
| "action_str A_read = ''read''"
| "action_str A_update = ''update''"
| "action_str A_delete = ''delete''"
| "action_str A_list = ''list''"
| "action_str A_manage = ''manage''"
| "action_str A_execute = ''execute''"
| "action_str A_export = ''export''"
| "action_str A_invite = ''invite''"
| "action_str A_configure = ''configure''"

fun resource_str :: "ResourceType \<Rightarrow> string" where
  "resource_str T_tenant = ''tenant''"
| "resource_str T_user = ''user''"
| "resource_str T_module = ''module''"
| "resource_str T_workflow = ''workflow''"
| "resource_str T_file = ''file''"
| "resource_str T_api_key = ''api_key''"
| "resource_str T_billing = ''billing''"
| "resource_str T_settings = ''settings''"
| "resource_str T_analytics = ''analytics''"
| "resource_str T_integration = ''integration''"

section \<open>Plan tiers\<close>

fun PLAN_TIER_LEVELS :: "PlanTier \<Rightarrow> int" where
  "PLAN_TIER_LEVELS P_free = 0"
| "PLAN_TIER_LEVELS P_starter = 1"
| "PLAN_TIER_LEVELS P_pro = 2"
| "PLAN_TIER_LEVELS P_enterprise = 3"

definition isPlanAtLeast :: "PlanTier \<Rightarrow> PlanTier \<Rightarrow> bool" where
  "isPlanAtLeast current required \<longleftrightarrow> PLAN_TIER_LEVELS current \<ge> PLAN_TIER_LEVELS required"

definition comparePlanTiers :: "PlanTier \<Rightarrow> PlanTier \<Rightarrow> int" where
  "comparePlanTiers a b = PLAN_TIER_LEVELS a - PLAN_TIER_LEVELS b"

fun PLAN_LIMITS :: "PlanTier \<Rightarrow> PlanLimits" where
  "PLAN_LIMITS P_free =
     \<lparr>pl_maxUsers = 3, pl_maxModules = 5, pl_maxWorkflows = 10, pl_maxStorage = 100,
      pl_maxApiKeys = 2, pl_maxIntegrations = 1,
      pl_features = [''basic_analytics'', ''community_support'']\<rparr>"
| "PLAN_LIMITS P_starter =
     \<lparr>pl_maxUsers = 10, pl_maxModules = 20, pl_maxWorkflows = 50, pl_maxStorage = 1000,
      pl_maxApiKeys = 10, pl_maxIntegrations = 5,
      pl_features = [''basic_analytics'', ''advanced_analytics'', ''email_support'', ''custom_domain'']\<rparr>"
| "PLAN_LIMITS P_pro =
     \<lparr>pl_maxUsers = 50, pl_maxModules = 100, pl_maxWorkflows = 500, pl_maxStorage = 10000,
      pl_maxApiKeys = 50, pl_maxIntegrations = 25,
      pl_features = [''basic_analytics'', ''advanced_analytics'', ''custom_analytics'',
        ''priority_support'', ''custom_domain'', ''sso'', ''audit_log'', ''api_access'']\<rparr>"
| "PLAN_LIMITS P_enterprise =
     \<lparr>pl_maxUsers = -1, pl_maxModules = -1, pl_maxWorkflows = -1, pl_maxStorage = -1,
      pl_maxApiKeys = -1, pl_maxIntegrations = -1,
      pl_features = [''basic_analytics'', ''advanced_analytics'', ''custom_analytics'',
        ''priority_support'', ''custom_domain'', ''sso'', ''audit_log'', ''api_access'',
        ''dedicated_support'', ''sla'', ''custom_integrations'', ''white_label'']\<rparr>"

definition getPlanLimits :: "PlanTier \<Rightarrow> PlanLimits" where
  "getPlanLimits tier = PLAN_LIMITS tier"

definition hasFeature :: "PlanTier \<Rightarrow> string \<Rightarrow> bool" where
  "hasFeature tier feature \<longleftrightarrow> feature \<in> set (pl_features (PLAN_LIMITS tier))"

datatype limit_key = L_maxUsers | L_maxModules | L_maxWorkflows | L_maxStorage | L_maxApiKeys
  | L_maxIntegrations

fun limit_of :: "limit_key \<Rightarrow> PlanLimits \<Rightarrow> int" where
  "limit_of L_maxUsers l = pl_maxUsers l"
| "limit_of L_maxModules l = pl_maxModules l"
| "limit_of L_maxWorkflows l = pl_maxWorkflows l"
| "limit_of L_maxStorage l = pl_maxStorage l"
| "limit_of L_maxApiKeys l = pl_maxApiKeys l"
| "limit_of L_maxIntegrations l = pl_maxIntegrations l"

definition isWithinLimit :: "PlanTier \<Rightarrow> limit_key \<Rightarrow> int \<Rightarrow> bool" where
  "isWithinLimit tier limitKey currentUsage =
     (let limit = limit_of limitKey (PLAN_LIMITS tier)
      in if limit = -1 then True else currentUsage < limit)"

section \<open>Roles\<close>

definition ALL_ACTIONS :: "Action list" where
  "ALL_ACTIONS = [A_create, A_read, A_update, A_delete, A_list, A_manage, A_execute, A_export,
                  A_invite, A_configure]"

definition CRUD_ACTIONS :: "Action list" where
  "CRUD_ACTIONS = [A_create, A_read, A_update, A_delete, A_list]"

definition READ_ACTIONS :: "Action list" where
  "READ_ACTIONS = [A_read, A_list]"

definition ALL_RESOURCES :: "ResourceType list" where
  "ALL_RESOURCES = [T_tenant, T_user, T_module, T_workflow, T_file, T_api_key, T_billing,
                    T_settings, T_analytics, T_integration]"

definition plain_permission :: "ResourceType \<Rightarrow> Action list \<Rightarrow> Permission" where
  "plain_permission resource actions =
     \<lparr>pm_resource = resource, pm_actions = actions, pm_conditions = None\<rparr>"

definition allPermissions :: "ResourceType list \<Rightarrow> Action list \<Rightarrow> Permission list" where
  "allPermissions resources actions = map (\<lambda>resource. plain_permission resource actions) resources"

fun ROLE_DEFINITIONS :: "Role \<Rightarrow> RoleDefinition" where
  "ROLE_DEFINITIONS R_owner =
     \<lparr>rd_role = R_owner, rd_name = ''Owner'',
      rd_description = ''Full access to all resources. Can manage billing and transfer ownership.'',
      rd_permissions = allPermissions ALL_RESOURCES ALL_ACTIONS,
      rd_assignable = False, rd_minPlanTier = P_free, rd_priority = 100\<rparr>"
| "ROLE_DEFINITIONS R_admin =
     \<lparr>rd_role = R_admin, rd_name = ''Administrator'',
      rd_description =
        ''Full access to most resources. Cannot manage billing or transfer ownership.'',
      rd_permissions =
        allPermissions [T_user, T_module, T_workflow, T_file, T_api_key, T_settings, T_analytics,
                        T_integration] ALL_ACTIONS
        @ [plain_permission T_tenant [A_read, A_update, A_list],
           plain_permission T_billing [A_read, A_list]],
      rd_assignable = True, rd_minPlanTier = P_free, rd_priority = 80\<rparr>"
| "ROLE_DEFINITIONS R_editor =
     \<lparr>rd_role = R_editor, rd_name = ''Editor'',
      rd_description = ''Can create and edit content. Cannot manage users or settings.'',
      rd_permissions =
        allPermissions [T_module, T_workflow, T_file, T_integration] CRUD_ACTIONS
        @ [plain_permission T_analytics [A_read, A_list, A_export],
           plain_permission T_tenant [A_read],
           plain_permission T_user [A_read, A_list],
           plain_permission T_api_key [A_read, A_list]],
      rd_assignable = True, rd_minPlanTier = P_free, rd_priority = 60\<rparr>"
| "ROLE_DEFINITIONS R_viewer =
     \<lparr>rd_role = R_viewer, rd_name = ''Viewer'',
      rd_description = ''Read-only access to most resources.'',
      rd_permissions =
        allPermissions [T_tenant, T_user, T_module, T_workflow, T_file, T_analytics, T_integration]
          READ_ACTIONS,
      rd_assignable = True, rd_minPlanTier = P_free, rd_priority = 40\<rparr>"
| "ROLE_DEFINITIONS R_guest =
     \<lparr>rd_role = R_guest, rd_name = ''Guest'',
      rd_description = ''Very limited read access. Can only view public resources.'',
      rd_permissions =
        [plain_permission T_module [A_read, A_list], plain_permission T_workflow [A_read]],
      rd_assignable = True, rd_minPlanTier = P_free, rd_priority = 20\<rparr>"

definition getRoleDefinition :: "Role \<Rightarrow> RoleDefinition" where
  "getRoleDefinition role = ROLE_DEFINITIONS role"

definition getRolePriority :: "Role \<Rightarrow> int" where
  "getRolePriority role = rd_priority (ROLE_DEFINITIONS role)"

definition isRoleAtLeast :: "Role \<Rightarrow> Role \<Rightarrow> bool" where
  "isRoleAtLeast current required \<longleftrightarrow>
     rd_priority (ROLE_DEFINITIONS current) \<ge> rd_priority (ROLE_DEFINITIONS required)"

text \<open>The orders of tiers and roles are linear.\<close>

instantiation PlanTier :: linorder
begin

definition less_eq_PlanTier :: "PlanTier \<Rightarrow> PlanTier \<Rightarrow> bool" where
  "less_eq_PlanTier a b = isPlanAtLeast b a"

definition less_PlanTier :: "PlanTier \<Rightarrow> PlanTier \<Rightarrow> bool" where
  "less_PlanTier a b = (PLAN_TIER_LEVELS a < PLAN_TIER_LEVELS b)"

instance
proof
  fix a b :: PlanTier
  assume "a \<le> b" "b \<le> a"
  then show "a = b" by (cases a; cases b) (auto simp: less_eq_PlanTier_def isPlanAtLeast_def)
qed (auto simp: less_eq_PlanTier_def less_PlanTier_def isPlanAtLeast_def)

end

instantiation Role :: linorder
begin

definition less_eq_Role :: "Role \<Rightarrow> Role \<Rightarrow> bool" where
  "less_eq_Role a b = isRoleAtLeast b a"

definition less_Role :: "Role \<Rightarrow> Role \<Rightarrow> bool" where
  "less_Role a b = (getRolePriority a < getRolePriority b)"

instance
proof
  fix a b :: Role
  assume "a \<le> b" "b \<le> a"
  then show "a = b" by (cases a; cases b) (auto simp: less_eq_Role_def isRoleAtLeast_def)
qed (auto simp: less_eq_Role_def less_Role_def isRoleAtLeast_def getRolePriority_def)

end

section \<open>Conditions\<close>

definition cond_field :: "string \<Rightarrow> PolicyContext \<Rightarrow> jsval" where
  "cond_field field cx =
     (if field = ''userId'' then JStr (cx_userId cx)
      else if field = ''tenantId'' then JStr (cx_tenantId cx)
      else if field = ''role'' then JStr (role_str (cx_role cx))
      else if field = ''planTier'' then JStr (tier_str (cx_planTier cx))
      else if field = ''resourceOwnerId''
      then (case cx_resourceOwnerId cx of Some s \<Rightarrow> JStr s | None \<Rightarrow> JUndef)
      else (case cx_metadata cx of
              Some md \<Rightarrow> if js_startsWith field ''metadata.'' then obj_prop md (drop 9 field) else JUndef
            | None \<Rightarrow> JUndef))"

definition evaluateCondition :: "PermissionCondition \<Rightarrow> PolicyContext \<Rightarrow> bool" where
  "evaluateCondition c cx =
     (let fieldValue = cond_field (pc_field c) cx; value = pc_value c in
      case pc_operator c of
        Op_eq \<Rightarrow> strict_eq fieldValue value
      | Op_neq \<Rightarrow> \<not> strict_eq fieldValue value
      | Op_in \<Rightarrow> array_and (\<lambda>xs. val_includes xs fieldValue) value
      | Op_nin \<Rightarrow> array_and (\<lambda>xs. \<not> val_includes xs fieldValue) value
      | Op_gt \<Rightarrow> both_numbers (>) fieldValue value
      | Op_lt \<Rightarrow> both_numbers (<) fieldValue value
      | Op_gte \<Rightarrow> both_numbers (\<ge>) fieldValue value
      | Op_lte \<Rightarrow> both_numbers (\<le>) fieldValue value
      | Op_exists \<Rightarrow> (if truthy value then \<not> strict_eq fieldValue JUndef
                      else strict_eq fieldValue JUndef))"

section \<open>The engine\<close>

record DenyRule =
  dr_resource :: ResourceType
  dr_action :: Action
  dr_condition :: "PermissionCondition option"

record PermissionEngine =
  pe_roleOverrides :: "(Role, Permission list) jsmap"
  pe_denyRules :: "DenyRule list"

definition new_PermissionEngine :: PermissionEngine where
  "new_PermissionEngine = \<lparr>pe_roleOverrides = [], pe_denyRules = []\<rparr>"

definition overrides_of :: "PermissionEngine \<Rightarrow> Role \<Rightarrow> Permission list" where
  "overrides_of e role = (case jm_get (pe_roleOverrides e) role of Some ps \<Rightarrow> ps | None \<Rightarrow> [])"

definition addRoleOverride :: "Role \<Rightarrow> Permission list \<Rightarrow> PermissionEngine \<Rightarrow> PermissionEngine" where
  "addRoleOverride role permissions e =
     e\<lparr>pe_roleOverrides := jm_set role (overrides_of e role @ permissions) (pe_roleOverrides e)\<rparr>"

definition addDenyRule ::
  "ResourceType \<Rightarrow> Action \<Rightarrow> PermissionCondition option \<Rightarrow> PermissionEngine \<Rightarrow> PermissionEngine" where
  "addDenyRule resource action condition e =
     e\<lparr>pe_denyRules := pe_denyRules e @
        [\<lparr>dr_resource = resource, dr_action = action, dr_condition = condition\<rparr>]\<rparr>"

definition pe_reset :: "PermissionEngine \<Rightarrow> PermissionEngine" where
  "pe_reset e = e\<lparr>pe_roleOverrides := [], pe_denyRules := []\<rparr>"

definition pr_allow :: "resolver \<Rightarrow> PolicyResult" where
  "pr_allow r = \<lparr>pr_allowed = True, pr_reason = None, pr_resolvedBy = r\<rparr>"

definition pr_deny :: "string \<Rightarrow> resolver \<Rightarrow> PolicyResult" where
  "pr_deny reason r = \<lparr>pr_allowed = False, pr_reason = Some reason, pr_resolvedBy = r\<rparr>"

definition deny_hit :: "ResourceType \<Rightarrow> Action \<Rightarrow> PolicyContext \<Rightarrow> DenyRule \<Rightarrow> PolicyResult option" where
  "deny_hit resource action cx rule =
     (if dr_resource rule = resource \<and> dr_action rule = action \<and>
         (case dr_condition rule of None \<Rightarrow> True | Some c \<Rightarrow> evaluateCondition c cx)
      then Some (pr_deny ''Explicitly denied by deny rule'' ByOverride) else None)"

text \<open>A permission in a list of overrides or of a role: \<open>byCond\<close> resolves a permission with
  conditions, \<open>byPlain\<close> one without.\<close>

definition perm_hit ::
  "resolver \<Rightarrow> resolver \<Rightarrow> ResourceType \<Rightarrow> Action \<Rightarrow> PolicyContext \<Rightarrow> Permission \<Rightarrow> PolicyResult option" where
  "perm_hit byCond byPlain resource action cx perm =
     (if pm_resource perm = resource \<and> action \<in> set (pm_actions perm) then
        (case pm_conditions perm of
           Some (c # cs) \<Rightarrow>
             if list_all (\<lambda>c. evaluateCondition c cx) (c # cs) then Some (pr_allow byCond) else None
         | _ \<Rightarrow> Some (pr_allow byPlain))
      else None)"

definition pe_evaluate ::
  "PermissionEngine \<Rightarrow> ResourceType \<Rightarrow> Action \<Rightarrow> PolicyContext \<Rightarrow> PolicyResult" where
  "pe_evaluate e resource action cx =
     (case first_some (deny_hit resource action cx) (pe_denyRules e) of
        Some r \<Rightarrow> r
      | None \<Rightarrow>
     (let roleDef = ROLE_DEFINITIONS (cx_role cx) in
      if \<not> isPlanAtLeast (cx_planTier cx) (rd_minPlanTier roleDef) then
        pr_deny (''Role '' @ quoted (role_str (cx_role cx)) @ '' requires plan '' @
                 quoted (tier_str (rd_minPlanTier roleDef)) @ '' or higher'') ByPlan
      else
        (case first_some (perm_hit ByOverride ByOverride resource action cx) (overrides_of e (cx_role cx)) of
           Some r \<Rightarrow> r
         | None \<Rightarrow>
        (case first_some (perm_hit ByCondition ByRole resource action cx) (rd_permissions roleDef) of
           Some r \<Rightarrow> r
         | None \<Rightarrow>
           pr_deny (''Role '' @ quoted (role_str (cx_role cx)) @ '' does not have '' @
                    quoted (action_str action) @ '' permission on '' @ quoted (resource_str resource))
             ByDefault))))"

definition evaluateMany ::
  "PermissionEngine \<Rightarrow> (ResourceType \<times> Action) list \<Rightarrow> PolicyContext \<Rightarrow> PolicyResult list" where
  "evaluateMany e checks cx = map (\<lambda>(resource, action). pe_evaluate e resource action cx) checks"

definition getAllowedActions :: "PermissionEngine \<Rightarrow> ResourceType \<Rightarrow> PolicyContext \<Rightarrow> Action list" where
  "getAllowedActions e resource cx =
     filter (\<lambda>action. pr_allowed (pe_evaluate e resource action cx)) ALL_ACTIONS"

definition hasAnyAccess :: "PermissionEngine \<Rightarrow> ResourceType \<Rightarrow> PolicyContext \<Rightarrow> bool" where
  "hasAnyAccess e resource cx \<longleftrightarrow> 0 < length (getAllowedActions e resource cx)"

definition checkPermission :: "ResourceType \<Rightarrow> Action \<Rightarrow> PolicyContext \<Rightarrow> PolicyResult" where
  "checkPermission resource action cx = pe_evaluate new_PermissionEngine resource action cx"

definition isResourceOwner :: "PolicyContext \<Rightarrow> bool" where
  "isResourceOwner cx \<longleftrightarrow>
     str_truthy (cx_resourceOwnerId cx) \<and> Some (cx_userId cx) = cx_resourceOwnerId cx"

definition createProductionEngine :: PermissionEngine where
  "createProductionEngine =
     (let guest = Some \<lparr>pc_field = ''role'', pc_operator = Op_eq, pc_value = JStr ''guest''\<rparr>
      in addDenyRule T_file A_delete guest
           (addDenyRule T_workflow A_delete guest
             (addDenyRule T_module A_delete guest new_PermissionEngine)))"

definition getAvailableRoles :: "PlanTier \<Rightarrow> Role list" where
  "getAvailableRoles planTier =
     map rd_role (filter (\<lambda>def. isPlanAtLeast planTier (rd_minPlanTier def))
       (map ROLE_DEFINITIONS [R_owner, R_admin, R_editor, R_viewer, R_guest]))"

section \<open>What decides\<close>

definition denied :: "PermissionEngine \<Rightarrow> ResourceType \<Rightarrow> Action \<Rightarrow> PolicyContext \<Rightarrow> bool" where
  "denied e resource action cx \<longleftrightarrow>
     (\<exists>rule \<in> set (pe_denyRules e). dr_resource rule = resource \<and> dr_action rule = action \<and>
        (\<forall>c. dr_condition rule = Some c \<longrightarrow> evaluateCondition c cx))"

definition granted_by :: "ResourceType \<Rightarrow> Action \<Rightarrow> PolicyContext \<Rightarrow> Permission list \<Rightarrow> bool" where
  "granted_by resource action cx perms \<longleftrightarrow>
     (\<exists>p \<in> set perms. pm_resource p = resource \<and> action \<in> set (pm_actions p) \<and>
        (\<forall>cs. pm_conditions p = Some cs \<longrightarrow> (\<forall>c \<in> set cs. evaluateCondition c cx)))"

lemma first_deny_hit:
  "first_some (deny_hit resource action cx) rules = None \<longleftrightarrow>
     \<not> denied \<lparr>pe_roleOverrides = ov, pe_denyRules = rules\<rparr> resource action cx"
  by (auto simp: first_some_None denied_def deny_hit_def split: option.splits if_splits)

lemma deny_hit_refuses: "first_some (deny_hit resource action cx) rules = Some r \<Longrightarrow> \<not> pr_allowed r"
  by (auto dest!: first_some_SomeD simp: deny_hit_def pr_deny_def split: if_splits)

lemma perm_hit_None:
  "perm_hit a b resource action cx p = None \<longleftrightarrow> \<not> granted_by resource action cx [p]"
  by (auto simp: perm_hit_def granted_by_def list_all_iff split: option.splits list.splits)

lemma first_perm_hit_None:
  "first_some (perm_hit a b resource action cx) perms = None \<longleftrightarrow> \<not> granted_by resource action cx perms"
  by (auto simp: first_some_None perm_hit_None) (auto simp: granted_by_def)

lemma perm_hit_allows: "first_some (perm_hit a b resource action cx) perms = Some r \<Longrightarrow> pr_allowed r"
  by (auto dest!: first_some_SomeD simp: perm_hit_def pr_allow_def split: option.splits list.splits if_splits)

lemma perm_hit_grants:
  "first_some (perm_hit a b resource action cx) perms = Some r \<Longrightarrow> granted_by resource action cx perms"
  using first_perm_hit_None [of a b resource action cx perms] by simp

lemma min_plan_free [simp]: "rd_minPlanTier (ROLE_DEFINITIONS role) = P_free"
  by (cases role) simp_all

lemma isPlanAtLeast_free [simp]: "isPlanAtLeast tier P_free"
  by (cases tier) (simp_all add: isPlanAtLeast_def)

lemma allowed_iff:
  "pr_allowed (pe_evaluate e resource action cx) \<longleftrightarrow>
     \<not> denied e resource action cx \<and>
     (granted_by resource action cx (overrides_of e (cx_role cx)) \<or>
      granted_by resource action cx (rd_permissions (ROLE_DEFINITIONS (cx_role cx))))"
proof (cases "first_some (deny_hit resource action cx) (pe_denyRules e)")
  case None
  then have "\<not> denied e resource action cx"
    using first_deny_hit [of resource action cx "pe_denyRules e" "pe_roleOverrides e"]
    by (simp add: denied_def)
  with None show ?thesis
    by (auto simp: pe_evaluate_def Let_def first_perm_hit_None pr_deny_def
        dest: perm_hit_allows perm_hit_grants split: option.splits)
next
  case (Some r)
  then have "denied e resource action cx"
    using first_deny_hit [of resource action cx "pe_denyRules e" "pe_roleOverrides e"]
    by (auto simp: denied_def)
  with Some deny_hit_refuses [OF Some] show ?thesis by (simp add: pe_evaluate_def)
qed

text \<open>Engines an application can build.\<close>

datatype engine_op = AddOverride Role "Permission list" | AddDeny DenyRule | ResetEngine

fun pe_apply :: "engine_op \<Rightarrow> PermissionEngine \<Rightarrow> PermissionEngine" where
  "pe_apply (AddOverride role perms) e = addRoleOverride role perms e"
| "pe_apply (AddDeny r) e = addDenyRule (dr_resource r) (dr_action r) (dr_condition r) e"
| "pe_apply ResetEngine e = pe_reset e"

lemma denied_apply:
  "denied (addRoleOverride role perms e) = denied e"
  "denied (addDenyRule res act c e) resource action cx \<longleftrightarrow>
     denied e resource action cx \<or>
     (res = resource \<and> act = action \<and> (\<forall>d. c = Some d \<longrightarrow> evaluateCondition d cx))"
  by (auto simp: denied_def addRoleOverride_def addDenyRule_def fun_eq_iff)

lemma overrides_apply:
  "overrides_of (addRoleOverride role perms e) r =
     overrides_of e r @ (if r = role then perms else [])"
  "overrides_of (addDenyRule res act c e) r = overrides_of e r"
  by (auto simp: overrides_of_def addRoleOverride_def addDenyRule_def split: option.split)

text \<open>
  Explicit deny always wins. Once a deny rule that applies to a request is in the engine, no
  sequence of further overrides and deny rules makes the request allowed, and its refusal is
  attributed to the override stage.
\<close>

theorem deny_rule_wins:
  assumes "rule \<in> set (pe_denyRules e)"
    and "\<forall>c. dr_condition rule = Some c \<longrightarrow> evaluateCondition c cx"
    and "ResetEngine \<notin> set ops"
  shows "\<not> pr_allowed (pe_evaluate (fold pe_apply ops e) (dr_resource rule) (dr_action rule) cx)"
proof -
  have "denied (fold pe_apply ops e) (dr_resource rule) (dr_action rule) cx"
    if "denied e (dr_resource rule) (dr_action rule) cx" for e
    using that assms(3)
  proof (induction ops arbitrary: e)
    case Nil
    then show ?case by simp
  next
    case (Cons op ops)
    then show ?case by (cases op) (auto simp: denied_apply)
  qed
  moreover have "denied e (dr_resource rule) (dr_action rule) cx"
    using assms(1,2) by (auto simp: denied_def)
  ultimately show ?thesis by (simp add: allowed_iff)
qed

definition demo_cx :: "Role \<Rightarrow> PolicyContext" where
  "demo_cx role = \<lparr>cx_role = role, cx_planTier = P_pro, cx_userId = ''u1'', cx_tenantId = ''t1'',
                   cx_resourceOwnerId = None, cx_metadata = None\<rparr>"

theorem deny_rule_wins_witness:
  "\<not> pr_allowed (pe_evaluate (fold pe_apply [AddOverride R_guest (allPermissions ALL_RESOURCES ALL_ACTIONS)]
     createProductionEngine) T_file A_delete (demo_cx R_guest))"
  using deny_rule_wins [of "\<lparr>dr_resource = T_file, dr_action = A_delete, dr_condition =
      Some \<lparr>pc_field = ''role'', pc_operator = Op_eq, pc_value = JStr ''guest''\<rparr>\<rparr>"
      createProductionEngine "demo_cx R_guest"
      "[AddOverride R_guest (allPermissions ALL_RESOURCES ALL_ACTIONS)]"]
  by (simp add: createProductionEngine_def new_PermissionEngine_def addDenyRule_def Let_def
      evaluateCondition_def cond_field_def demo_cx_def)

definition override_perms :: "Role \<Rightarrow> engine_op list \<Rightarrow> Permission list" where
  "override_perms role ops =
     concat (map (\<lambda>op. case op of AddOverride r ps \<Rightarrow> if r = role then ps else [] | _ \<Rightarrow> []) ops)"

text \<open>
  Without deny rules, overrides only add: an action is allowed exactly if the role's own
  permissions or the permissions added for the role contain it with all conditions met; the plan
  tier never matters (every role of the source is available on every plan).
\<close>

theorem overrides_only_add:
  assumes "\<forall>op \<in> set ops. \<exists>role perms. op = AddOverride role perms"
  shows "pr_allowed (pe_evaluate (fold pe_apply ops new_PermissionEngine) resource action cx) \<longleftrightarrow>
         granted_by resource action cx (override_perms (cx_role cx) ops) \<or>
         granted_by resource action cx (rd_permissions (ROLE_DEFINITIONS (cx_role cx)))"
proof -
  have "denied (fold pe_apply ops e) = denied e \<and>
      overrides_of (fold pe_apply ops e) (cx_role cx) =
        overrides_of e (cx_role cx) @ override_perms (cx_role cx) ops" for e
    using assms
  proof (induction ops arbitrary: e)
    case Nil
    then show ?case by (simp add: override_perms_def)
  next
    case (Cons op ops)
    then obtain role perms where "op = AddOverride role perms" by auto
    with Cons show ?case by (auto simp: denied_apply overrides_apply override_perms_def)
  qed
  moreover have "\<not> denied new_PermissionEngine resource action cx"
    "overrides_of new_PermissionEngine (cx_role cx) = []"
    by (simp_all add: denied_def overrides_of_def new_PermissionEngine_def)
  ultimately show ?thesis by (simp add: allowed_iff)
qed

theorem overrides_only_add_witness:
  "pr_allowed (pe_evaluate (fold pe_apply [AddOverride R_guest [plain_permission T_file [A_read]]]
     new_PermissionEngine) T_file A_read (demo_cx R_guest))"
  using overrides_only_add [of "[AddOverride R_guest [plain_permission T_file [A_read]]]" T_file A_read
      "demo_cx R_guest"]
  by (simp add: demo_cx_def override_perms_def granted_by_def plain_permission_def)

definition base_allows :: "Role \<Rightarrow> ResourceType \<Rightarrow> Action \<Rightarrow> bool" where
  "base_allows role resource action \<longleftrightarrow>
     list_ex (\<lambda>p. pm_resource p = resource \<and> action \<in> set (pm_actions p))
       (rd_permissions (ROLE_DEFINITIONS role))"

lemma base_conditions: "p \<in> set (rd_permissions (ROLE_DEFINITIONS role)) \<Longrightarrow> pm_conditions p = None"
  by (cases role) (auto simp: allPermissions_def plain_permission_def)

lemma checkPermission_base:
  "pr_allowed (checkPermission resource action cx) = base_allows (cx_role cx) resource action"
  by (auto simp: checkPermission_def allowed_iff denied_def new_PermissionEngine_def overrides_of_def
      granted_by_def base_allows_def list_ex_iff base_conditions)

lemmas role_tables = base_allows_def allPermissions_def plain_permission_def ALL_ACTIONS_def
  ALL_RESOURCES_def CRUD_ACTIONS_def READ_ACTIONS_def

lemma base_allows_simps [simp]:
  "base_allows R_owner resource action"
  "base_allows R_admin resource action =
     ((resource \<noteq> T_tenant \<and> resource \<noteq> T_billing) \<or>
      (resource = T_tenant \<and> action \<in> {A_read, A_update, A_list}) \<or>
      (resource = T_billing \<and> action \<in> {A_read, A_list}))"
  "base_allows R_editor resource action =
     ((resource \<in> {T_module, T_workflow, T_file, T_integration} \<and>
        action \<in> {A_create, A_read, A_update, A_delete, A_list}) \<or>
      (resource = T_analytics \<and> action \<in> {A_read, A_list, A_export}) \<or>
      (resource = T_tenant \<and> action = A_read) \<or>
      (resource \<in> {T_user, T_api_key} \<and> action \<in> {A_read, A_list}))"
  "base_allows R_viewer resource action =
     (resource \<in> {T_tenant, T_user, T_module, T_workflow, T_file, T_analytics, T_integration} \<and>
      action \<in> {A_read, A_list})"
  "base_allows R_guest resource action =
     ((resource = T_module \<and> action \<in> {A_read, A_list}) \<or> (resource = T_workflow \<and> action = A_read))"
  by (cases resource; cases action; simp add: role_tables)+

text \<open>
  The priorities order the roles by power, with one exception: whatever a role may do, a role
  of higher priority may do, except that a viewer may list tenants and an editor may not.
\<close>

theorem role_hierarchy:
  assumes "isRoleAtLeast r s"
    and "pr_allowed (checkPermission resource action (cx\<lparr>cx_role := s\<rparr>))"
    and "\<not> pr_allowed (checkPermission resource action (cx\<lparr>cx_role := r\<rparr>))"
  shows "r = R_editor \<and> s = R_viewer \<and> resource = T_tenant \<and> action = A_list"
  using assms by (cases r; cases s) (auto simp: checkPermission_base isRoleAtLeast_def)

theorem role_hierarchy_witness:
  "\<exists>r s cx. isRoleAtLeast r s \<and> pr_allowed (checkPermission T_tenant A_list (cx\<lparr>cx_role := s\<rparr>)) \<and>
     \<not> pr_allowed (checkPermission T_tenant A_list (cx\<lparr>cx_role := r\<rparr>)) \<and> r = R_editor"
  using role_hierarchy [of R_editor R_viewer T_tenant A_list "demo_cx R_guest"]
  by (intro exI [of _ R_editor] exI [of _ R_viewer] exI [of _ "demo_cx R_guest"])
     (simp add: checkPermission_base isRoleAtLeast_def)

text \<open>
  A larger plan never has a smaller limit: usage that is within a limit on one tier is within
  it on every higher tier. (Features are not monotone: the support channels differ by tier.)
\<close>

theorem plan_limits_monotone:
  assumes "isPlanAtLeast tier' tier" and "isWithinLimit tier limitKey usage"
  shows "isWithinLimit tier' limitKey usage"
  using assms
  by (cases tier; cases tier'; cases limitKey) (simp_all add: isWithinLimit_def isPlanAtLeast_def)

theorem plan_limits_monotone_witness: "isWithinLimit P_pro L_maxUsers 9"
  by (rule plan_limits_monotone [of _ P_starter]) (simp_all add: isWithinLimit_def isPlanAtLeast_def)

end
