(* ===== verification/Encoding.thy ===== *)
theory Encoding
  imports Prelude "HOL-Library.Word"
begin

unbundle bit_operations_syntax

text \<open>
  The codecs of the host that the secret store relies on: UTF-8 (\<open>TextEncoder\<close>, \<open>Buffer.toString\<close>),
  Base64url (\<open>Buffer\<close>), numerals in base 16 and 36 (\<open>Number.toString(radix)\<close>), \<open>padStart\<close>, ISO dates
  and the 32-bit hash \<open>simpleHash\<close> of the store, with the round trip of the first two. Bytes are
  natural numbers; the model covers code units below 256, so a UTF-8 sequence has at most two bytes.
\<close>

section \<open>UTF-8\<close>

definition utf8_char :: "char \<Rightarrow> nat list" where
  "utf8_char c = (let n = of_char c in if n < 128 then [n] else [192 + n div 64, 128 + n mod 64])"

definition utf8_encode :: "string \<Rightarrow> nat list" where
  "utf8_encode s = concat (map utf8_char s)"

text \<open>Decoding; \<^const>\<open>None\<close> for byte strings that are not UTF-8 of code units below 256.\<close>

fun utf8_decode :: "nat list \<Rightarrow> string option" where
  "utf8_decode [] = Some []"
| "utf8_decode (b # bs) =
     (if b < 128 then map_option (\<lambda>s. char_of b # s) (utf8_decode bs)
      else case bs of
        c # cs \<Rightarrow>
          if (b = 194 \<or> b = 195) \<and> 128 \<le> c \<and> c < 192
          then map_option (\<lambda>s. char_of ((b - 192) * 64 + (c - 128)) # s) (utf8_decode cs)
          else None
      | [] \<Rightarrow> None)"

lemma utf8_decode_char: "utf8_decode (utf8_char c @ bs) = map_option (\<lambda>s. c # s) (utf8_decode bs)"
proof -
  define n where "n = (of_char c :: nat)"
  have c: "char_of n = c" by (simp add: n_def)
  have n: "n < 256" unfolding n_def by (rule nat_of_char_less_256)
  show ?thesis
  proof (cases "n < 128")
    case True
    then show ?thesis by (simp add: utf8_char_def n_def [symmetric] c)
  next
    case False
    have d: "n div 64 = 2 \<or> n div 64 = 3" using n False by auto
    have "(192 + n div 64 - 192) * 64 + (128 + n mod 64 - 128) = n" by simp
    with False d show ?thesis
      by (auto simp: utf8_char_def n_def [symmetric] c Let_def)
  qed
qed

lemma utf8_round_trip [simp]: "utf8_decode (utf8_encode s) = Some s"
  by (induction s) (simp_all add: utf8_encode_def utf8_decode_char)

lemma utf8_bytes: "b \<in> set (utf8_encode s) \<Longrightarrow> b < 256"
proof -
  have "b < 256" if "b \<in> set (utf8_char c)" for c
  proof -
    have "(of_char c :: nat) < 256" by (rule nat_of_char_less_256)
    then have "(of_char c :: nat) div 64 < 4" by (auto intro: less_mult_imp_div_less)
    with that show ?thesis by (auto simp: utf8_char_def Let_def split: if_splits)
  qed
  then show "b \<in> set (utf8_encode s) \<Longrightarrow> b < 256" by (auto simp: utf8_encode_def)
qed

section \<open>Base64url\<close>

definition b64_char :: "nat \<Rightarrow> char" where
  "b64_char n =
     (if n < 26 then char_of (n + 65)
      else if n < 52 then char_of (n + 71)
      else if n < 62 then char_of (n - 4)
      else if n = 62 then CHR ''-'' else CHR ''_'')"

text \<open>Decoding accepts both alphabets, skips other characters and stops at padding.\<close>

definition b64_val :: "char \<Rightarrow> nat option" where
  "b64_val c =
     (let n = of_char c :: nat in
      if 65 \<le> n \<and> n \<le> 90 then Some (n - 65)
      else if 97 \<le> n \<and> n \<le> 122 then Some (n - 71)
      else if 48 \<le> n \<and> n \<le> 57 then Some (n + 4)
      else if n = 45 \<or> n = 43 then Some 62
      else if n = 95 \<or> n = 47 then Some 63
      else None)"

fun sextets :: "nat list \<Rightarrow> nat list" where
  "sextets (a # b # c # bs) =
     a div 4 # (a mod 4 * 16 + b div 16) # (b mod 16 * 4 + c div 64) # c mod 64 # sextets bs"
| "sextets [a, b] = [a div 4, a mod 4 * 16 + b div 16, b mod 16 * 4]"
| "sextets [a] = [a div 4, a mod 4 * 16]"
| "sextets [] = []"

fun octets :: "nat list \<Rightarrow> nat list" where
  "octets (p # q # r # s # ss) =
     (p * 4 + q div 16) # (q mod 16 * 16 + r div 4) # (r mod 4 * 64 + s) # octets ss"
| "octets [p, q, r] = [p * 4 + q div 16, q mod 16 * 16 + r div 4]"
| "octets [p, q] = [p * 4 + q div 16]"
| "octets _ = []"

definition base64url_encode :: "nat list \<Rightarrow> string" where
  "base64url_encode bs = map b64_char (sextets bs)"

definition base64url_decode :: "string \<Rightarrow> nat list" where
  "base64url_decode s = octets (List.map_filter b64_val (takeWhile (\<lambda>c. c \<noteq> CHR ''='') s))"

lemma digit_split:
  fixes x y k :: nat
  assumes "x < k"
  shows "(y * k + x) div k = y" and "(y * k + x) mod k = x"
  using assms by simp_all

lemma octets_sextets: "\<forall>b \<in> set bs. b < 256 \<Longrightarrow> octets (sextets bs) = bs"
proof (induction bs rule: sextets.induct)
  case (1 a b c bs)
  then have "b div 16 < 16" "c div 64 < 4" by (auto intro!: less_mult_imp_div_less)
  with 1 show ?case by (simp add: digit_split)
next
  case (2 a b)
  then have "b div 16 < 16" by (auto intro!: less_mult_imp_div_less)
  then show ?case by (simp add: digit_split)
qed simp_all

lemma sextets_less: "\<forall>b \<in> set bs. b < 256 \<Longrightarrow> n \<in> set (sextets bs) \<Longrightarrow> n < 64"
proof -
  have digits: "x < 4 \<Longrightarrow> y < 16 \<Longrightarrow> x * 16 + y < 64" "y < 16 \<Longrightarrow> x < 4 \<Longrightarrow> y * 4 + x < 64" for x y :: nat
    by simp_all
  show "\<forall>b \<in> set bs. b < 256 \<Longrightarrow> n \<in> set (sextets bs) \<Longrightarrow> n < 64"
  proof (induction bs rule: sextets.induct)
    case (1 a b c bs)
    then have "a div 4 < 64" "b div 16 < 16" "c div 64 < 4" by (auto intro!: less_mult_imp_div_less)
    with 1 digits show ?case by auto
  next
    case (2 a b)
    then have "a div 4 < 64" "b div 16 < 16" by (auto intro!: less_mult_imp_div_less)
    with 2 digits digits(2) [of _ 0] show ?case by auto
  next
    case (3 a)
    then have "a div 4 < 64" by (auto intro!: less_mult_imp_div_less)
    with 3 digits(1) [of _ 0] show ?case by auto
  qed simp
qed

lemma char_of_neq: "n < 256 \<Longrightarrow> n \<noteq> of_char c \<Longrightarrow> char_of n \<noteq> c" for n :: nat
  by auto

lemma b64_char_val:
  assumes "n < 64"
  shows "b64_val (b64_char n) = Some n" and "b64_char n \<noteq> CHR ''=''" and "b64_char n \<noteq> CHR '':''"
  using assms by (auto simp: b64_char_def b64_val_def Let_def char_of_neq)

lemma map_filter_vals: "\<forall>n \<in> set ns. n < 64 \<Longrightarrow> List.map_filter b64_val (map b64_char ns) = ns"
  by (induction ns) (auto simp: List.map_filter_simps b64_char_val)

lemma base64url_round_trip:
  assumes "\<forall>b \<in> set bs. b < 256"
  shows "base64url_decode (base64url_encode bs) = bs"
proof -
  have lt: "\<forall>n \<in> set (sextets bs). n < 64" using sextets_less assms by blast
  have "takeWhile (\<lambda>c. c \<noteq> CHR ''='') (map b64_char (sextets bs)) = map b64_char (sextets bs)"
    using lt by (intro takeWhile_eq_all_conv [THEN iffD2]) (auto simp: b64_char_val)
  then show ?thesis
    unfolding base64url_decode_def base64url_encode_def
    by (simp only: map_filter_vals [OF lt] octets_sextets [OF assms])
qed

lemma base64url_no_colon: "\<forall>b \<in> set bs. b < 256 \<Longrightarrow> CHR '':'' \<notin> set (base64url_encode bs)"
  using sextets_less b64_char_val(3) by (fastforce simp: base64url_encode_def)

section \<open>Numerals, padding, dates\<close>

definition digit_char :: "nat \<Rightarrow> char" where
  "digit_char d = (if d < 10 then char_of (48 + d) else char_of (87 + d))"

function radix_str :: "nat \<Rightarrow> nat \<Rightarrow> string" where
  "radix_str r n =
     (if r \<le> 1 \<or> n < r then [digit_char n] else radix_str r (n div r) @ [digit_char (n mod r)])"
  by pat_completeness auto

termination radix_str
  by (relation "measure snd") (auto intro: div_less_dividend)

declare radix_str.simps [simp del]

text \<open>\<open>s.padStart(n, c)\<close> for a single character.\<close>

definition pad_start :: "nat \<Rightarrow> char \<Rightarrow> string \<Rightarrow> string" where
  "pad_start n c s = replicate (n - length s) c @ s"

text \<open>The calendar date of a day since the epoch, and \<open>toISOString\<close> for the years 0 to 9999.\<close>

definition civil_date :: "int \<Rightarrow> int \<times> int \<times> int" where
  "civil_date days =
     (let z = days + 719468;
          era = z div 146097;
          doe = z mod 146097;
          yoe = (doe - doe div 1460 + doe div 36524 - doe div 146096) div 365;
          doy = doe - (365 * yoe + yoe div 4 - yoe div 100);
          mp = (5 * doy + 2) div 153;
          d = doy - (153 * mp + 2) div 5 + 1;
          m = (if mp < 10 then mp + 3 else mp - 9)
      in (yoe + era * 400 + (if m \<le> 2 then 1 else 0), m, d))"

definition num_pad :: "nat \<Rightarrow> int \<Rightarrow> string" where
  "num_pad n i = pad_start n (CHR ''0'') (int_str i)"

definition iso_str :: "int \<Rightarrow> string" where
  "iso_str t =
     (let (y, m, d) = civil_date (t div 86400000); r = t mod 86400000
      in num_pad 4 y @ ''-'' @ num_pad 2 m @ ''-'' @ num_pad 2 d @ ''T'' @
         num_pad 2 (r div 3600000) @ '':'' @ num_pad 2 (r div 60000 mod 60) @ '':'' @
         num_pad 2 (r div 1000 mod 60) @ ''.'' @ num_pad 3 (r mod 1000) @ ''Z'')"

section \<open>The 32-bit hash\<close>

text \<open>\<open>hash = ((hash << 5) - hash) + c; hash = hash & hash\<close>: the value is cut to a signed 32-bit
  integer once per character.\<close>

definition hash_step :: "char \<Rightarrow> 32 word \<Rightarrow> 32 word" where
  "hash_step c h = push_bit 5 h - h + of_nat (of_char c)"

definition simpleHash :: "string \<Rightarrow> string" where
  "simpleHash s =
     (let h = sint (fold hash_step s 0)
      in pad_start 16 (CHR ''0'') (radix_str 16 (nat \<bar>h\<bar>)) @
         pad_start 16 (CHR ''0'') (radix_str 16 (nat \<bar>h * 31\<bar>)))"

end
