(* ===== verification/Json.thy ===== *)
theory Json
  imports Encoding
begin

text \<open>
  \<open>JSON.stringify\<close> without indentation, for the values the sources pass to it: quoting of strings, values of
  type \<open>unknown\<close>, and objects written out property by property. How a fractional number prints
  (\<open>Number.prototype.toString\<close>, the shortest decimal that reads back) is the argument \<open>num\<close>.
\<close>

definition json_char :: "char \<Rightarrow> string" where
  "json_char c =
     (let n = of_char c :: nat in
      if n = 34 then [CHR 0x5C, CHR 0x22]
      else if n = 92 then [CHR 0x5C, CHR 0x5C]
      else if n = 8 then CHR 0x5C # ''b''
      else if n = 9 then CHR 0x5C # ''t''
      else if n = 10 then CHR 0x5C # ''n''
      else if n = 12 then CHR 0x5C # ''f''
      else if n = 13 then CHR 0x5C # ''r''
      else if n < 32 then CHR 0x5C # ''u'' @ pad_start 4 (CHR ''0'') (radix_str 16 n)
      else [c])"

definition json_quote :: "string \<Rightarrow> string" where
  "json_quote s = quoted (concat (map json_char s))"

definition json_bool :: "bool \<Rightarrow> string" where
  "json_bool b = (if b then ''true'' else ''false'')"

text \<open>Arrays and objects from the texts of their parts; a property without a value is left out.\<close>

definition json_arr :: "string list \<Rightarrow> string" where
  "json_arr xs = CHR ''['' # js_join (CHR '','') xs @ '']''"

definition json_obj :: "(string \<times> string option) list \<Rightarrow> string" where
  "json_obj ps =
     CHR 0x7B # js_join (CHR '','') (List.map_filter (\<lambda>(k, v). map_option (\<lambda>t. json_quote k @ CHR '':'' # t) v) ps)
       @ [CHR 0x7D]"

text \<open>Values of type \<open>unknown\<close>; \<^const>\<open>None\<close> is \<open>undefined\<close>, which prints as \<open>null\<close> in an array.\<close>

fun json_val :: "(rat \<Rightarrow> string) \<Rightarrow> jsval \<Rightarrow> string option"
  and json_items :: "(rat \<Rightarrow> string) \<Rightarrow> jsval list \<Rightarrow> string list"
  and json_props :: "(rat \<Rightarrow> string) \<Rightarrow> (string \<times> jsval) list \<Rightarrow> (string \<times> string option) list" where
  "json_val num JUndef = None"
| "json_val num JNull = Some ''null''"
| "json_val num (JBool b) = Some (json_bool b)"
| "json_val num (JNum x) = Some (num x)"
| "json_val num JNaN = Some ''null''"
| "json_val num (JStr s) = Some (json_quote s)"
| "json_val num (JArr i xs) = Some (json_arr (json_items num xs))"
| "json_val num (JObj i ps) = Some (json_obj (json_props num ps))"
| "json_items num [] = []"
| "json_items num (v # vs) = dflt (json_val num v) ''null'' # json_items num vs"
| "json_props num [] = []"
| "json_props num ((k, v) # ps) = (k, json_val num v) # json_props num ps"

lemma json_quote_plain:
  "list_all (\<lambda>c. 32 \<le> (of_char c :: nat) \<and> of_char c \<noteq> (34 :: nat) \<and> of_char c \<noteq> (92 :: nat)) s \<Longrightarrow>
   json_quote s = quoted s"
proof -
  assume "list_all (\<lambda>c. 32 \<le> (of_char c :: nat) \<and> of_char c \<noteq> (34 :: nat) \<and> of_char c \<noteq> (92 :: nat)) s"
  then have "concat (map json_char s) = s"
    by (induction s) (auto simp: json_char_def Let_def)
  then show ?thesis by (simp add: json_quote_def)
qed

end
