(* ===== verification/PolicyEngine.thy ===== *)
theory PolicyEngine
  imports JsMap Json
begin

text \<open>
  \<open>packages/policy-engine/src/index.ts\<close>: conditions over attribute paths, rules, the four combining
  strategies, the engine with its decision cache, and the predefined policy sets.

  Two functions of the host are parameters. \<open>rx p s\<close> is \<open>new RegExp(p).test(s)\<close>, \<open>None\<close> when the
  constructor throws a \<open>SyntaxError\<close>: the operator \<open>matches\<close> catches it, \<open>matchesGlob\<close> does not, so
  whatever uses a glob returns an option (\<open>None\<close>: the exception escapes). \<open>stringify\<close> is
  \<open>JSON.stringify\<close>, used for the cache key. The em dash of the messages is written \<open>-\<close>, and the
  \<open>metadata\<close> of rules, which nothing reads, is left out.
\<close>

section \<open>Types\<close>

datatype PolicyEffect = Allow | Deny

datatype PolicyOperator =
    PO_eq | PO_neq | PO_gt | PO_gte | PO_lt | PO_lte | PO_in | PO_not_in | PO_contains
  | PO_starts_with | PO_ends_with | PO_matches | PO_exists | PO_not_exists

datatype PolicyCombineStrategy = first_match | deny_overrides | allow_overrides | majority

record PolicyCondition =
  po_attribute :: string
  po_operator :: PolicyOperator
  po_value :: jsval

record PolicyRule =
  ru_id :: string
  ru_description :: "string option"
  ru_priority :: "int option"
  ru_effect :: PolicyEffect
  ru_conditions :: "PolicyCondition list"
  ru_resources :: "string list option"
  ru_actions :: "string list option"

record PolicySet =
  ps_id :: string
  ps_name :: string
  ps_description :: "string option"
  ps_version :: string
  ps_combineStrategy :: PolicyCombineStrategy
  ps_rules :: "PolicyRule list"
  ps_defaultEffect :: PolicyEffect
  ps_enabled :: bool

record ConditionResult =
  cr_attribute :: string
  cr_operator :: PolicyOperator
  cr_expected :: jsval
  cr_actual :: jsval
  cr_passed :: bool

record RuleTrace =
  rt_ruleId :: string
  rt_matched :: bool
  rt_effect :: PolicyEffect
  rt_conditionResults :: "ConditionResult list"

record PolicyDecision =
  pd_effect :: PolicyEffect
  pd_matchedRuleId :: "string option"
  pd_policySetId :: "string option"
  pd_isDefault :: bool
  pd_reason :: string
  pd_trace :: "RuleTrace list option"

record PolicyEngineConfig =
  cf_trace :: bool
  cf_cacheTtl :: int
  cf_defaultEffect :: PolicyEffect
  cf_maxRulesPerSet :: int

definition DEFAULT_POLICY_ENGINE_CONFIG :: PolicyEngineConfig where
  "DEFAULT_POLICY_ENGINE_CONFIG =
     \<lparr>cf_trace = False, cf_cacheTtl = 5000, cf_defaultEffect = Deny, cf_maxRulesPerSet = 500\<rparr>"

section \<open>Helpers\<close>

fun get_path :: "jsval \<Rightarrow> string list \<Rightarrow> jsval" where
  "get_path current [] = current"
| "get_path current (part # parts) =
     (case current of
        JObj _ _ \<Rightarrow> get_path (js_prop current part) parts
      | JArr _ _ \<Rightarrow> get_path (js_prop current part) parts
      | JNull \<Rightarrow> JUndef
      | JUndef \<Rightarrow> JUndef
      | _ \<Rightarrow> JUndef)"

definition getAttributeValue :: "jsval \<Rightarrow> string \<Rightarrow> jsval" where
  "getAttributeValue ctx path = get_path ctx (js_split CHR ''.'' path)"

definition escape_regex :: "string \<Rightarrow> string" where
  "escape_regex s =
     concat (map (\<lambda>c. if c \<in> set (''.+^${}()|[]'' @ [CHR 0x5C]) then [CHR 0x5C, c] else [c]) s)"

definition glob_regex :: "string \<Rightarrow> string" where
  "glob_regex pattern =
     (let s1 = escape_regex pattern;
          s2 = replace_all ''**'' ''__DOUBLE_STAR__'' s1;
          s3 = replace_all ''*'' ''[^/]*'' s2;
          s4 = replace_all ''__DOUBLE_STAR__'' ''.*'' s3
      in CHR ''^'' # s4 @ ''$'')"

type_synonym regex = "string \<Rightarrow> string \<Rightarrow> bool option"

definition matchesGlob :: "regex \<Rightarrow> string \<Rightarrow> string \<Rightarrow> bool option" where
  "matchesGlob rx pattern v =
     (if pattern = ''*'' \<or> pattern = ''**'' then Some True
      else if pattern = v then Some True
      else rx (glob_regex pattern) v)"

definition pol_passed :: "regex \<Rightarrow> PolicyOperator \<Rightarrow> jsval \<Rightarrow> jsval \<Rightarrow> bool" where
  "pol_passed rx operator actual expected =
     (case operator of
        PO_eq \<Rightarrow> strict_eq actual expected
      | PO_neq \<Rightarrow> \<not> strict_eq actual expected
      | PO_gt \<Rightarrow> both_numbers (>) actual expected
      | PO_gte \<Rightarrow> both_numbers (\<ge>) actual expected
      | PO_lt \<Rightarrow> both_numbers (<) actual expected
      | PO_lte \<Rightarrow> both_numbers (\<le>) actual expected
      | PO_in \<Rightarrow> array_and (\<lambda>xs. val_includes xs actual) expected
      | PO_not_in \<Rightarrow> array_and (\<lambda>xs. \<not> val_includes xs actual) expected
      | PO_contains \<Rightarrow> both_strings (\<lambda>a e. js_includes a e) actual expected
      | PO_starts_with \<Rightarrow> both_strings (\<lambda>a e. js_startsWith a e) actual expected
      | PO_ends_with \<Rightarrow> both_strings (\<lambda>a e. js_endsWith a e) actual expected
      | PO_matches \<Rightarrow> both_strings (\<lambda>a e. rx e a = Some True) actual expected
      | PO_exists \<Rightarrow> \<not> strict_eq actual JUndef \<and> \<not> strict_eq actual JNull
      | PO_not_exists \<Rightarrow> strict_eq actual JUndef \<or> strict_eq actual JNull)"

definition pol_evaluateCondition :: "regex \<Rightarrow> PolicyCondition \<Rightarrow> jsval \<Rightarrow> ConditionResult" where
  "pol_evaluateCondition rx c ctx =
     (let actual = getAttributeValue ctx (po_attribute c); expected = po_value c in
      \<lparr>cr_attribute = po_attribute c, cr_operator = po_operator c, cr_expected = expected,
       cr_actual = actual, cr_passed = pol_passed rx (po_operator c) actual expected\<rparr>)"

text \<open>\<open>xs.some(p)\<close> where \<open>p\<close> may throw.\<close>

fun some_of :: "('a \<Rightarrow> bool option) \<Rightarrow> 'a list \<Rightarrow> bool option" where
  "some_of p [] = Some False"
| "some_of p (x # xs) =
     (case p x of None \<Rightarrow> None | Some True \<Rightarrow> Some True | Some False \<Rightarrow> some_of p xs)"

text \<open>A filter of a rule: absent or empty filters, and absent or empty requests, match.\<close>

definition filter_matches ::
  "(string \<Rightarrow> string \<Rightarrow> bool option) \<Rightarrow> string list option \<Rightarrow> string option \<Rightarrow> bool option" where
  "filter_matches m patterns req =
     (case (patterns, req) of
        (Some (p # ps), Some r) \<Rightarrow> if r \<noteq> [] then some_of (\<lambda>p. m p r) (p # ps) else Some True
      | _ \<Rightarrow> Some True)"

definition action_matches :: "regex \<Rightarrow> string \<Rightarrow> string \<Rightarrow> bool option" where
  "action_matches rx a action =
     (if a = ''*'' \<or> a = action then Some True else matchesGlob rx a action)"

definition ruleAppliesToRequest ::
  "regex \<Rightarrow> PolicyRule \<Rightarrow> string option \<Rightarrow> string option \<Rightarrow> bool option" where
  "ruleAppliesToRequest rx rule action resource =
     (case filter_matches (action_matches rx) (ru_actions rule) action of
        None \<Rightarrow> None
      | Some False \<Rightarrow> Some False
      | Some True \<Rightarrow> filter_matches (matchesGlob rx) (ru_resources rule) resource)"

section \<open>Strategies\<close>

text \<open>A request, and the environment of its evaluation.\<close>

record pol_request =
  rq_ctx :: jsval
  rq_action :: "string option"
  rq_resource :: "string option"

definition pol_evaluateRule ::
  "regex \<Rightarrow> bool \<Rightarrow> pol_request \<Rightarrow> PolicyRule \<Rightarrow> RuleTrace list \<Rightarrow> (bool \<times> RuleTrace list) option" where
  "pol_evaluateRule rx tracing rq rule traces =
     (case ruleAppliesToRequest rx rule (rq_action rq) (rq_resource rq) of
        None \<Rightarrow> None
      | Some False \<Rightarrow>
          Some (False, if tracing then traces @ [\<lparr>rt_ruleId = ru_id rule, rt_matched = False,
                         rt_effect = ru_effect rule, rt_conditionResults = []\<rparr>] else traces)
      | Some True \<Rightarrow>
          (let conditionResults = map (\<lambda>c. pol_evaluateCondition rx c (rq_ctx rq)) (ru_conditions rule);
               allPassed = list_all cr_passed conditionResults
           in Some (allPassed, if tracing then traces @ [\<lparr>rt_ruleId = ru_id rule,
                      rt_matched = allPassed, rt_effect = ru_effect rule,
                      rt_conditionResults = conditionResults\<rparr>] else traces)))"

text \<open>\<open>Omit<PolicyDecision, 'policySetId' | 'trace'>\<close>: both fields \<open>None\<close>.\<close>

definition pd_base :: "PolicyEffect \<Rightarrow> string option \<Rightarrow> bool \<Rightarrow> string \<Rightarrow> PolicyDecision" where
  "pd_base effect rule_id isDefault reason =
     \<lparr>pd_effect = effect, pd_matchedRuleId = rule_id, pd_policySetId = None,
      pd_isDefault = isDefault, pd_reason = reason, pd_trace = None\<rparr>"

fun effect_str :: "PolicyEffect \<Rightarrow> string" where
  "effect_str Allow = ''allow''"
| "effect_str Deny = ''deny''"

type_synonym strategy_result = "(PolicyDecision \<times> RuleTrace list) option"

fun firstMatchStrategy ::
  "regex \<Rightarrow> bool \<Rightarrow> pol_request \<Rightarrow> PolicySet \<Rightarrow> PolicyRule list \<Rightarrow> RuleTrace list \<Rightarrow> strategy_result" where
  "firstMatchStrategy rx tracing rq ps [] traces =
     Some (pd_base (ps_defaultEffect ps) None True ''No rules matched - using policy set default'', traces)"
| "firstMatchStrategy rx tracing rq ps (rule # rules) traces =
     (case pol_evaluateRule rx tracing rq rule traces of
        None \<Rightarrow> None
      | Some (matched, traces1) \<Rightarrow>
          if matched then
            Some (pd_base (ru_effect rule) (Some (ru_id rule)) False
              (''Rule '' @ quoted (ru_id rule) @ '' matched ('' @
               str_or (ru_description rule) (effect_str (ru_effect rule)) @ '')''), traces1)
          else firstMatchStrategy rx tracing rq ps rules traces1)"

text \<open>\<open>hasAllow\<close> is the loop's variable.\<close>

fun denyOverridesStrategy ::
  "regex \<Rightarrow> bool \<Rightarrow> pol_request \<Rightarrow> PolicySet \<Rightarrow> bool \<Rightarrow> PolicyRule list \<Rightarrow> RuleTrace list \<Rightarrow>
     strategy_result" where
  "denyOverridesStrategy rx tracing rq ps hasAllow [] traces =
     Some (if hasAllow then pd_base Allow None False ''Allow rule matched, no denies''
           else pd_base (ps_defaultEffect ps) None True
                  ''No matching rules - using policy set default'', traces)"
| "denyOverridesStrategy rx tracing rq ps hasAllow (rule # rules) traces =
     (case pol_evaluateRule rx tracing rq rule traces of
        None \<Rightarrow> None
      | Some (matched, traces1) \<Rightarrow>
          if matched \<and> ru_effect rule = Deny then
            Some (pd_base Deny (Some (ru_id rule)) False
              (''Deny rule '' @ quoted (ru_id rule) @ '' matched - deny overrides''), traces1)
          else denyOverridesStrategy rx tracing rq ps
                 (hasAllow \<or> (matched \<and> ru_effect rule = Allow)) rules traces1)"

fun allowOverridesStrategy ::
  "regex \<Rightarrow> bool \<Rightarrow> pol_request \<Rightarrow> PolicySet \<Rightarrow> PolicyRule list \<Rightarrow> RuleTrace list \<Rightarrow> strategy_result" where
  "allowOverridesStrategy rx tracing rq ps [] traces =
     (case find (\<lambda>t. rt_matched t \<and> rt_effect t = Deny) traces of
        Some denyTrace \<Rightarrow>
          Some (pd_base Deny (Some (rt_ruleId denyTrace)) False
                  ''No allow rules matched but deny rule found'', traces)
      | None \<Rightarrow>
          Some (pd_base (ps_defaultEffect ps) None True
                  ''No matching rules - using policy set default'', traces))"
| "allowOverridesStrategy rx tracing rq ps (rule # rules) traces =
     (case pol_evaluateRule rx tracing rq rule traces of
        None \<Rightarrow> None
      | Some (matched, traces1) \<Rightarrow>
          if matched \<and> ru_effect rule = Allow then
            Some (pd_base Allow (Some (ru_id rule)) False
              (''Allow rule '' @ quoted (ru_id rule) @ '' matched - allow overrides''), traces1)
          else allowOverridesStrategy rx tracing rq ps rules traces1)"

fun majorityStrategy ::
  "regex \<Rightarrow> bool \<Rightarrow> pol_request \<Rightarrow> PolicySet \<Rightarrow> nat \<Rightarrow> nat \<Rightarrow> PolicyRule list \<Rightarrow> RuleTrace list \<Rightarrow>
     strategy_result" where
  "majorityStrategy rx tracing rq ps allows denies [] traces =
     Some (if allows = 0 \<and> denies = 0
           then pd_base (ps_defaultEffect ps) None True
                  ''No matching rules - using policy set default''
           else pd_base (if allows \<ge> denies then Allow else Deny) None False
                  (''Majority decision: '' @ nat_str allows @ '' allows vs '' @
                   nat_str denies @ '' denies''), traces)"
| "majorityStrategy rx tracing rq ps allows denies (rule # rules) traces =
     (case pol_evaluateRule rx tracing rq rule traces of
        None \<Rightarrow> None
      | Some (matched, traces1) \<Rightarrow>
          majorityStrategy rx tracing rq ps
            (if matched \<and> ru_effect rule = Allow then allows + 1 else allows)
            (if matched \<and> ru_effect rule \<noteq> Allow then denies + 1 else denies) rules traces1)"

definition applyStrategy ::
  "regex \<Rightarrow> bool \<Rightarrow> pol_request \<Rightarrow> PolicySet \<Rightarrow> PolicyRule list \<Rightarrow> RuleTrace list \<Rightarrow> strategy_result" where
  "applyStrategy rx tracing rq ps rules traces =
     (case ps_combineStrategy ps of
        first_match \<Rightarrow> firstMatchStrategy rx tracing rq ps rules traces
      | deny_overrides \<Rightarrow> denyOverridesStrategy rx tracing rq ps False rules traces
      | allow_overrides \<Rightarrow> allowOverridesStrategy rx tracing rq ps rules traces
      | majority \<Rightarrow> majorityStrategy rx tracing rq ps 0 0 rules traces)"

text \<open>The sort is stable, in descending priority.\<close>

definition rule_priority :: "PolicyRule \<Rightarrow> int" where
  "rule_priority rule = (case ru_priority rule of None \<Rightarrow> 0 | Some p \<Rightarrow> p)"

definition sortedRules :: "PolicySet \<Rightarrow> PolicyRule list" where
  "sortedRules ps = sort_key (\<lambda>r. - rule_priority r) (ps_rules ps)"

text \<open>The evaluation proper, without the cache.\<close>

definition evaluateSet ::
  "regex \<Rightarrow> PolicyEngineConfig \<Rightarrow> string \<Rightarrow> PolicySet \<Rightarrow> pol_request \<Rightarrow> PolicyDecision option" where
  "evaluateSet rx cfg policySetId ps rq =
     (case applyStrategy rx (cf_trace cfg) rq ps (sortedRules ps) [] of
        None \<Rightarrow> None
      | Some (d, traces) \<Rightarrow>
          Some (d\<lparr>pd_policySetId := Some policySetId,
                  pd_trace := (if cf_trace cfg then Some traces else None)\<rparr>))"

section \<open>The engine\<close>

record CachedDecision =
  cd_decision :: PolicyDecision
  cd_expiresAt :: int

record PolicyEngine =
  en_policySets :: "(string, PolicySet) jsmap"
  en_decisionCache :: "(string, CachedDecision) jsmap"
  en_config :: PolicyEngineConfig

record PartialEngineConfig =
  pf_trace :: "bool option"
  pf_cacheTtl :: "int option"
  pf_defaultEffect :: "PolicyEffect option"
  pf_maxRulesPerSet :: "int option"

definition createPolicyEngine :: "PartialEngineConfig \<Rightarrow> PolicyEngine" where
  "createPolicyEngine p =
     \<lparr>en_policySets = [], en_decisionCache = [],
      en_config =
        \<lparr>cf_trace = dflt (pf_trace p) (cf_trace DEFAULT_POLICY_ENGINE_CONFIG),
         cf_cacheTtl = dflt (pf_cacheTtl p) (cf_cacheTtl DEFAULT_POLICY_ENGINE_CONFIG),
         cf_defaultEffect =
           dflt (pf_defaultEffect p) (cf_defaultEffect DEFAULT_POLICY_ENGINE_CONFIG),
         cf_maxRulesPerSet =
           dflt (pf_maxRulesPerSet p) (cf_maxRulesPerSet DEFAULT_POLICY_ENGINE_CONFIG)\<rparr>\<rparr>"

datatype PolicyEngineError = RULES_LIMIT_EXCEEDED string

definition en_clearCache :: "PolicyEngine \<Rightarrow> PolicyEngine" where
  "en_clearCache e = e\<lparr>en_decisionCache := []\<rparr>"

definition loadPolicySet :: "PolicySet \<Rightarrow> PolicyEngine \<Rightarrow> PolicyEngineError + PolicyEngine" where
  "loadPolicySet ps e =
     (if int (length (ps_rules ps)) > cf_maxRulesPerSet (en_config e) then
        Inl (RULES_LIMIT_EXCEEDED (''Policy set '' @ quoted (ps_id ps) @
          '' exceeds max rules limit of '' @ int_str (cf_maxRulesPerSet (en_config e))))
      else Inr (en_clearCache (e\<lparr>en_policySets := jm_set (ps_id ps) ps (en_policySets e)\<rparr>)))"

definition removePolicySet :: "string \<Rightarrow> PolicyEngine \<Rightarrow> PolicyEngine \<times> bool" where
  "removePolicySet policySetId e =
     (let removed = jm_has (en_policySets e) policySetId;
          e1 = e\<lparr>en_policySets := jm_delete policySetId (en_policySets e)\<rparr>
      in (if removed then en_clearCache e1 else e1, removed))"

definition getPolicySet :: "string \<Rightarrow> PolicyEngine \<Rightarrow> PolicySet option" where
  "getPolicySet policySetId e = jm_get (en_policySets e) policySetId"

definition listPolicySets :: "PolicyEngine \<Rightarrow> PolicySet list" where
  "listPolicySets e = jm_values (en_policySets e)"

text \<open>The separator of the key is \<open>|\<close>; an absent action or resource is the empty string.\<close>

definition buildCacheKey :: "(jsval \<Rightarrow> string) \<Rightarrow> string \<Rightarrow> pol_request \<Rightarrow> string" where
  "buildCacheKey stringify policySetId rq =
     policySetId @ ''|'' @ dflt (rq_action rq) [] @ ''|'' @ dflt (rq_resource rq) [] @
     ''|'' @ stringify (rq_ctx rq)"

text \<open>The cached decision of a key that has not expired.\<close>

definition cached_decision :: "int \<Rightarrow> string \<Rightarrow> PolicyEngine \<Rightarrow> PolicyDecision option" where
  "cached_decision now key e =
     (if cf_cacheTtl (en_config e) > 0 then
        (case jm_get (en_decisionCache e) key of
           Some cached \<Rightarrow> if cd_expiresAt cached > now then Some (cd_decision cached) else None
         | None \<Rightarrow> None)
      else None)"

definition store_decision :: "int \<Rightarrow> string \<Rightarrow> PolicyDecision \<Rightarrow> PolicyEngine \<Rightarrow> PolicyEngine" where
  "store_decision now key result e =
     (if cf_cacheTtl (en_config e) > 0 then
        e\<lparr>en_decisionCache := jm_set key
            \<lparr>cd_decision = result, cd_expiresAt = now + cf_cacheTtl (en_config e)\<rparr>
            (en_decisionCache e)\<rparr>
      else e)"

definition en_evaluate ::
  "regex \<Rightarrow> (jsval \<Rightarrow> string) \<Rightarrow> int \<Rightarrow> string \<Rightarrow> pol_request \<Rightarrow> PolicyEngine \<Rightarrow>
     PolicyEngine \<times> PolicyDecision option" where
  "en_evaluate rx stringify now policySetId rq e =
     (case jm_get (en_policySets e) policySetId of
        None \<Rightarrow>
          (e, Some (pd_base (cf_defaultEffect (en_config e)) None True
                (''Policy set '' @ quoted policySetId @ '' not found - using engine default'')))
      | Some ps \<Rightarrow>
          if \<not> ps_enabled ps then
            (e, Some ((pd_base (ps_defaultEffect ps) None True
                  (''Policy set '' @ quoted policySetId @ '' is disabled - using set default''))
                  \<lparr>pd_policySetId := Some policySetId\<rparr>))
          else
            (case cached_decision now (buildCacheKey stringify policySetId rq) e of
               Some d \<Rightarrow> (e, Some d)
             | None \<Rightarrow>
                 (case evaluateSet rx (en_config e) policySetId ps rq of
                    None \<Rightarrow> (e, None)
                  | Some result \<Rightarrow>
                      (store_decision now (buildCacheKey stringify policySetId rq) result e,
                       Some result))))"

text \<open>The evaluation of a list of policy sets in turn; an exception ends it.\<close>

fun evaluate_each ::
  "regex \<Rightarrow> (jsval \<Rightarrow> string) \<Rightarrow> int \<Rightarrow> pol_request \<Rightarrow> string list \<Rightarrow> PolicyEngine \<Rightarrow>
     PolicyEngine \<times> PolicyDecision list option" where
  "evaluate_each rx stringify now rq [] e = (e, Some [])"
| "evaluate_each rx stringify now rq (i # ids) e =
     (case en_evaluate rx stringify now i rq e of
        (e1, None) \<Rightarrow> (e1, None)
      | (e1, Some d) \<Rightarrow>
          (case evaluate_each rx stringify now rq ids e1 of
             (e2, None) \<Rightarrow> (e2, None)
           | (e2, Some ds) \<Rightarrow> (e2, Some (d # ds))))"

definition combineDecisions ::
  "PolicyEngineConfig \<Rightarrow> PolicyDecision list \<Rightarrow> PolicyCombineStrategy \<Rightarrow> PolicyDecision" where
  "combineDecisions cfg decisions strategy =
     (case decisions of
        [] \<Rightarrow> pd_base (cf_defaultEffect cfg) None True ''No decisions to combine''
      | d0 # _ \<Rightarrow>
          (case strategy of
             deny_overrides \<Rightarrow>
               (case find (\<lambda>d. pd_effect d = Deny) decisions of
                  Some deny \<Rightarrow> deny\<lparr>pd_reason := ''Deny overrides: '' @ pd_reason deny\<rparr>
                | None \<Rightarrow> d0\<lparr>pd_reason := ''All policies allow''\<rparr>)
           | allow_overrides \<Rightarrow>
               (case find (\<lambda>d. pd_effect d = Allow) decisions of
                  Some allow \<Rightarrow> allow\<lparr>pd_reason := ''Allow overrides: '' @ pd_reason allow\<rparr>
                | None \<Rightarrow> d0\<lparr>pd_reason := ''All policies deny''\<rparr>)
           | first_match \<Rightarrow> d0
           | majority \<Rightarrow>
               (let allows = length (filter (\<lambda>d. pd_effect d = Allow) decisions);
                    denies = length (filter (\<lambda>d. pd_effect d = Deny) decisions)
                in pd_base (if allows \<ge> denies then Allow else Deny) None False
                     (''Majority: '' @ nat_str allows @ '' allows, '' @ nat_str denies @ '' denies''))))"

definition evaluateAll ::
  "regex \<Rightarrow> (jsval \<Rightarrow> string) \<Rightarrow> int \<Rightarrow> pol_request \<Rightarrow> PolicyCombineStrategy option \<Rightarrow> PolicyEngine \<Rightarrow>
     PolicyEngine \<times> PolicyDecision option" where
  "evaluateAll rx stringify now rq strategy e =
     (let activeSets = filter ps_enabled (jm_values (en_policySets e)) in
      if activeSets = [] then
        (e, Some (pd_base (cf_defaultEffect (en_config e)) None True
              ''No active policy sets - using engine default''))
      else
        (case evaluate_each rx stringify now rq (map ps_id activeSets) e of
           (e1, None) \<Rightarrow> (e1, None)
         | (e1, Some decisions) \<Rightarrow>
             (e1, Some (combineDecisions (en_config e) decisions (dflt strategy deny_overrides)))))"

record EngineStats =
  st_policySets :: int
  st_cachedDecisions :: int
  st_config :: PolicyEngineConfig

definition getCacheSize :: "PolicyEngine \<Rightarrow> int" where
  "getCacheSize e = int (jm_size (en_decisionCache e))"

definition getStats :: "PolicyEngine \<Rightarrow> EngineStats" where
  "getStats e =
     \<lparr>st_policySets = int (jm_size (en_policySets e)),
      st_cachedDecisions = int (jm_size (en_decisionCache e)), st_config = en_config e\<rparr>"

section \<open>Predefined policy sets\<close>

definition simple_rule ::
  "string \<Rightarrow> string \<Rightarrow> int \<Rightarrow> PolicyEffect \<Rightarrow> PolicyCondition \<Rightarrow> string list \<Rightarrow> string list \<Rightarrow> PolicyRule" where
  "simple_rule i descr prio effect cond resources actions =
     \<lparr>ru_id = i, ru_description = Some descr, ru_priority = Some prio, ru_effect = effect,
      ru_conditions = [cond], ru_resources = Some resources, ru_actions = Some actions\<rparr>"

definition attr_eq :: "string \<Rightarrow> string \<Rightarrow> PolicyCondition" where
  "attr_eq attr v = \<lparr>po_attribute = attr, po_operator = PO_eq, po_value = JStr v\<rparr>"

definition createPlatformPolicySet :: "string option \<Rightarrow> PolicySet" where
  "createPlatformPolicySet tenantId =
     \<lparr>ps_id = (if str_truthy tenantId then ''platform-'' @ dflt tenantId [] else ''platform-default''),
      ps_name = ''Platform RBAC Policy'',
      ps_description = Some ''Standard role-based access control for the Trancendos platform'',
      ps_version = ''1.0.0'', ps_combineStrategy = deny_overrides,
      ps_rules =
        [simple_rule ''owner-full-access'' ''Owners have unrestricted access'' 100 Allow
           (attr_eq ''subject.role'' ''owner'') [''*''] [''*''],
         simple_rule ''admin-broad-access'' ''Admins have broad access excluding billing'' 90 Allow
           (attr_eq ''subject.role'' ''admin'')
           [''tenant'', ''user'', ''module'', ''workflow'', ''file'', ''api_key'', ''settings'',
            ''analytics'', ''integration'']
           [''create'', ''read'', ''update'', ''delete'', ''list'', ''manage'', ''invite''],
         simple_rule ''editor-content-access'' ''Editors can manage content and files'' 80 Allow
           (attr_eq ''subject.role'' ''editor'') [''module'', ''workflow'', ''file'']
           [''create'', ''read'', ''update'', ''delete'', ''list'', ''execute''],
         simple_rule ''viewer-read-only'' ''Viewers have read-only access'' 70 Allow
           (attr_eq ''subject.role'' ''viewer'') [''module'', ''workflow'', ''file'', ''analytics'']
           [''read'', ''list''],
         simple_rule ''guest-minimal-access'' ''Guests have minimal read access'' 60 Allow
           (attr_eq ''subject.role'' ''guest'') [''module''] [''read'', ''list''],
         simple_rule ''deny-suspended'' ''Deny all access for suspended accounts'' 200 Deny
           (attr_eq ''subject.status'' ''suspended'') [''*''] [''*'']],
      ps_defaultEffect = Deny, ps_enabled = True\<rparr>"

definition attr_in :: "string \<Rightarrow> nat \<Rightarrow> string list \<Rightarrow> PolicyCondition" where
  "attr_in attr i vs = \<lparr>po_attribute = attr, po_operator = PO_in, po_value = JArr i (map JStr vs)\<rparr>"

definition createPlanPolicySet :: PolicySet where
  "createPlanPolicySet =
     \<lparr>ps_id = ''plan-gating'', ps_name = ''Plan Tier Feature Gating'',
      ps_description = Some ''Gates features based on subscription plan tier'',
      ps_version = ''1.0.0'', ps_combineStrategy = deny_overrides,
      ps_rules =
        [simple_rule ''enterprise-all-features'' ''Enterprise plan has access to all features'' 100
           Allow (attr_eq ''subject.plan'' ''enterprise'') [''*''] [''*''],
         simple_rule ''pro-most-features'' ''Pro plan has access to most features'' 90 Allow
           (attr_in ''subject.plan'' 1 [''pro'', ''enterprise''])
           [''module'', ''workflow'', ''file'', ''analytics'', ''integration'', ''api_key'']
           [''create'', ''read'', ''update'', ''delete'', ''list'', ''execute'', ''export''],
         simple_rule ''starter-basic-features'' ''Starter plan has access to basic features'' 80 Allow
           (attr_in ''subject.plan'' 2 [''starter'', ''pro'', ''enterprise''])
           [''module'', ''workflow'', ''file''] [''create'', ''read'', ''update'', ''delete'', ''list''],
         simple_rule ''free-read-basic'' ''Free plan has read-only access to basic features'' 70 Allow
           \<lparr>po_attribute = ''subject.plan'', po_operator = PO_exists, po_value = JUndef\<rparr>
           [''module''] [''read'', ''list'']],
      ps_defaultEffect = Deny, ps_enabled = True\<rparr>"

section \<open>What the strategies decide\<close>

text \<open>Whether a rule matches a request; \<open>None\<close> when a pattern throws.\<close>

definition rule_match :: "regex \<Rightarrow> pol_request \<Rightarrow> PolicyRule \<Rightarrow> bool option" where
  "rule_match rx rq rule =
     map_option (\<lambda>b. b \<and> list_all (\<lambda>c. cr_passed (pol_evaluateCondition rx c (rq_ctx rq)))
                           (ru_conditions rule))
       (ruleAppliesToRequest rx rule (rq_action rq) (rq_resource rq))"

definition hits :: "regex \<Rightarrow> pol_request \<Rightarrow> PolicyEffect \<Rightarrow> PolicyRule list \<Rightarrow> PolicyRule list" where
  "hits rx rq eff rules = filter (\<lambda>r. rule_match rx rq r = Some True \<and> ru_effect r = eff) rules"

lemma hits_simps [simp]:
  "hits rx rq eff [] = []"
  "hits rx rq eff (r # rs) =
     (if rule_match rx rq r = Some True \<and> ru_effect r = eff then r # hits rx rq eff rs
      else hits rx rq eff rs)"
  by (simp_all add: hits_def)

lemma evaluateRule_match:
  assumes "rule_match rx rq rule = Some m"
  obtains traces' where "pol_evaluateRule rx tr rq rule traces = Some (m, traces')"
    and "\<not> tr \<Longrightarrow> traces' = traces"
    and "tr \<Longrightarrow> \<exists>t. traces' = traces @ [t] \<and> rt_matched t = m \<and> rt_effect t = ru_effect rule \<and>
               rt_ruleId t = ru_id rule"
proof -
  obtain b where b: "ruleAppliesToRequest rx rule (rq_action rq) (rq_resource rq) = Some b"
    "m = (b \<and> list_all (\<lambda>c. cr_passed (pol_evaluateCondition rx c (rq_ctx rq))) (ru_conditions rule))"
    using assms by (auto simp: rule_match_def)
  obtain traces' where t: "pol_evaluateRule rx tr rq rule traces = Some (m, traces')"
    "\<not> tr \<longrightarrow> traces' = traces"
    "tr \<longrightarrow> (\<exists>t. traces' = traces @ [t] \<and> rt_matched t = m \<and> rt_effect t = ru_effect rule \<and>
               rt_ruleId t = ru_id rule)"
    using b by (cases b; cases tr) (auto simp: pol_evaluateRule_def Let_def list.pred_map comp_def)
  with that show thesis by blast
qed

definition all_defined :: "regex \<Rightarrow> pol_request \<Rightarrow> PolicyRule list \<Rightarrow> bool" where
  "all_defined rx rq rules \<longleftrightarrow> (\<forall>r \<in> set rules. rule_match rx rq r \<noteq> None)"

lemma all_defined_Cons:
  "all_defined rx rq (r # rs) \<longleftrightarrow> (\<exists>m. rule_match rx rq r = Some m) \<and> all_defined rx rq rs"
  by (auto simp: all_defined_def)

lemma firstMatch_effect:
  assumes "all_defined rx rq rules"
  shows "\<exists>d traces'. firstMatchStrategy rx tr rq ps rules traces = Some (d, traces') \<and>
     pd_effect d = (case find (\<lambda>r. rule_match rx rq r = Some True) rules of
                      Some r \<Rightarrow> ru_effect r | None \<Rightarrow> ps_defaultEffect ps)"
  using assms
proof (induction rules arbitrary: traces)
  case Nil
  then show ?case by (simp add: pd_base_def)
next
  case (Cons r rules)
  then obtain m where m: "rule_match rx rq r = Some m" by (auto simp: all_defined_Cons)
  obtain t where "pol_evaluateRule rx tr rq r traces = Some (m, t)"
    by (rule evaluateRule_match [OF m])
  with Cons m show ?case by (auto simp: all_defined_Cons pd_base_def)
qed

lemma denyOverrides_effect:
  assumes "all_defined rx rq rules"
  shows "\<exists>d traces'. denyOverridesStrategy rx tr rq ps b rules traces = Some (d, traces') \<and>
     pd_effect d = (if hits rx rq Deny rules \<noteq> [] then Deny
                    else if b \<or> hits rx rq Allow rules \<noteq> [] then Allow else ps_defaultEffect ps)"
  using assms
proof (induction rules arbitrary: traces b)
  case Nil
  then show ?case by (simp add: pd_base_def)
next
  case (Cons r rules)
  then obtain m where m: "rule_match rx rq r = Some m" by (auto simp: all_defined_Cons)
  obtain t where t: "pol_evaluateRule rx tr rq r traces = Some (m, t)"
    by (rule evaluateRule_match [OF m])
  from Cons.IH [of "b \<or> (m \<and> ru_effect r = Allow)" t] Cons.prems m t show ?case
    by (cases "ru_effect r") (auto simp: all_defined_Cons pd_base_def)
qed

lemma majority_effect:
  assumes "all_defined rx rq rules"
  shows "\<exists>d traces'. majorityStrategy rx tr rq ps a n rules traces = Some (d, traces') \<and>
     pd_effect d =
       (let allows = a + length (hits rx rq Allow rules); denies = n + length (hits rx rq Deny rules)
        in if allows = 0 \<and> denies = 0 then ps_defaultEffect ps
           else if allows \<ge> denies then Allow else Deny)"
  using assms
proof (induction rules arbitrary: traces a n)
  case Nil
  then show ?case by (simp add: pd_base_def)
next
  case (Cons r rules)
  then obtain m where m: "rule_match rx rq r = Some m" by (auto simp: all_defined_Cons)
  obtain t where t: "pol_evaluateRule rx tr rq r traces = Some (m, t)"
    by (rule evaluateRule_match [OF m])
  have d: "all_defined rx rq rules" using Cons.prems by (simp add: all_defined_Cons)
  show ?case
    using Cons.IH [OF d, of "if m \<and> ru_effect r = Allow then a + 1 else a"
        "if m \<and> ru_effect r \<noteq> Allow then n + 1 else n" t] m t
    by (cases "ru_effect r") (auto simp: Let_def)
qed

text \<open>The traces collected so far matter only when tracing.\<close>

lemma allowOverrides_effect:
  assumes "all_defined rx rq rules"
  shows "\<exists>d traces'. allowOverridesStrategy rx tr rq ps rules traces = Some (d, traces') \<and>
     pd_effect d =
       (if hits rx rq Allow rules \<noteq> [] then Allow
        else if (\<exists>t \<in> set traces. rt_matched t \<and> rt_effect t = Deny) \<or> (tr \<and> hits rx rq Deny rules \<noteq> [])
        then Deny else ps_defaultEffect ps)"
  using assms
proof (induction rules arbitrary: traces)
  case Nil
  then show ?case by (auto simp: pd_base_def find_None_iff find_Some_iff split: option.split)
next
  case (Cons r rules)
  then obtain m where m: "rule_match rx rq r = Some m" by (auto simp: all_defined_Cons)
  obtain t where t: "pol_evaluateRule rx tr rq r traces = Some (m, t)"
    and off: "\<not> tr \<Longrightarrow> t = traces"
    and on: "tr \<Longrightarrow> \<exists>x. t = traces @ [x] \<and> rt_matched x = m \<and> rt_effect x = ru_effect r \<and>
               rt_ruleId x = ru_id r"
    by (rule evaluateRule_match [OF m, of tr traces]) blast
  have d: "all_defined rx rq rules" using Cons.prems by (simp add: all_defined_Cons)
  show ?case
    using Cons.IH [OF d, of t] m t off on
    by (cases tr; cases "ru_effect r"; cases m) (auto simp: pd_base_def)
qed

text \<open>What a set of rules, in order, should decide.\<close>

definition strategy_spec ::
  "regex \<Rightarrow> pol_request \<Rightarrow> PolicyCombineStrategy \<Rightarrow> PolicyEffect \<Rightarrow> PolicyRule list \<Rightarrow> PolicyEffect" where
  "strategy_spec rx rq strategy def rules =
     (let allows = hits rx rq Allow rules; denies = hits rx rq Deny rules in
      if allows = [] \<and> denies = [] then def
      else case strategy of
          first_match \<Rightarrow> ru_effect (hd (filter (\<lambda>r. rule_match rx rq r = Some True) rules))
        | deny_overrides \<Rightarrow> if denies \<noteq> [] then Deny else Allow
        | allow_overrides \<Rightarrow> if allows \<noteq> [] then Allow else Deny
        | majority \<Rightarrow> if length allows \<ge> length denies then Allow else Deny)"

lemma find_filter_hd:
  "find p xs = (if filter p xs = [] then None else Some (hd (filter p xs)))"
  by (induction xs) auto

lemma hits_both_Nil:
  "hits rx rq Allow rules = [] \<and> hits rx rq Deny rules = [] \<longleftrightarrow>
     filter (\<lambda>r. rule_match rx rq r = Some True) rules = []"
proof -
  have "ru_effect r = Allow \<or> ru_effect r = Deny" for r by (cases "ru_effect r") auto
  then show ?thesis by (fastforce simp: hits_def filter_empty_conv)
qed

lemma evaluateSet_effect:
  assumes "all_defined rx rq (ps_rules ps)"
  shows "\<exists>d. evaluateSet rx cfg i ps rq = Some d \<and>
     pd_effect d =
       (if ps_combineStrategy ps = allow_overrides \<and> \<not> cf_trace cfg \<and>
           hits rx rq Allow (sortedRules ps) = []
        then ps_defaultEffect ps
        else strategy_spec rx rq (ps_combineStrategy ps) (ps_defaultEffect ps) (sortedRules ps))"
proof -
  have d: "all_defined rx rq (sortedRules ps)"
    using assms by (simp add: all_defined_def sortedRules_def)
  show ?thesis
  proof (cases "ps_combineStrategy ps")
    case first_match
    with firstMatch_effect [OF d, of "cf_trace cfg" ps "[]"] show ?thesis
      unfolding find_filter_hd strategy_spec_def Let_def hits_both_Nil
      by (auto simp: evaluateSet_def applyStrategy_def)
  next
    case deny_overrides
    with denyOverrides_effect [OF d, of "cf_trace cfg" ps False "[]"] show ?thesis
      by (auto simp: evaluateSet_def applyStrategy_def strategy_spec_def Let_def)
  next
    case allow_overrides
    with allowOverrides_effect [OF d, of "cf_trace cfg" ps "[]"] show ?thesis
      by (auto simp: evaluateSet_def applyStrategy_def strategy_spec_def Let_def)
  next
    case majority
    with majority_effect [OF d, of "cf_trace cfg" ps 0 0 "[]"] show ?thesis
      by (auto simp: evaluateSet_def applyStrategy_def strategy_spec_def Let_def)
  qed
qed

section \<open>Properties\<close>

text \<open>
  C8. Every strategy decides by its specification when decisions are traced, and, the
  \<open>allow_overrides\<close> strategy apart, also when they are not: the effect depends only on which rules
  match, in order of priority, and falls back to the default exactly when none does.
\<close>

theorem strategies_meet_spec:
  assumes "all_defined rx rq (ps_rules ps)"
    and "cf_trace cfg \<or> ps_combineStrategy ps \<noteq> allow_overrides"
  shows "map_option pd_effect (evaluateSet rx cfg i ps rq) =
         Some (strategy_spec rx rq (ps_combineStrategy ps) (ps_defaultEffect ps) (sortedRules ps))"
  using evaluateSet_effect [OF assms(1), of cfg i] assms(2) by auto

definition demo_rx :: regex where
  "demo_rx p v = Some (p = CHR ''^'' # v @ ''$'')"

definition demo_ctx :: "string \<Rightarrow> string \<Rightarrow> jsval" where
  "demo_ctx role status =
     JObj 0 [(''subject'', JObj 1 [(''role'', JStr role), (''status'', JStr status)])]"

definition demo_r1 :: PolicyRule where
  "demo_r1 = simple_rule ''r1'' [] 1 Deny (attr_eq ''subject.role'' ''guest'') [''*''] [''*'']"

definition demo_r2 :: PolicyRule where
  "demo_r2 = simple_rule ''r2'' [] 2 Allow (attr_eq ''subject.role'' ''owner'') [''*''] [''*'']"

definition demo_set :: "PolicyCombineStrategy \<Rightarrow> PolicySet" where
  "demo_set strategy =
     \<lparr>ps_id = ''s'', ps_name = ''s'', ps_description = None, ps_version = ''1'',
      ps_combineStrategy = strategy, ps_rules = [demo_r1, demo_r2],
      ps_defaultEffect = Allow, ps_enabled = True\<rparr>"

definition demo_rq :: pol_request where
  "demo_rq = \<lparr>rq_ctx = demo_ctx ''guest'' ''active'', rq_action = Some ''read'',
              rq_resource = Some ''file''\<rparr>"

definition quiet_config :: PolicyEngineConfig where
  "quiet_config = DEFAULT_POLICY_ENGINE_CONFIG"

lemma get_attr_subject:
  "getAttributeValue (JObj i [(''subject'', JObj j ps)]) ''subject.role'' = obj_prop ps ''role''"
  "getAttributeValue (JObj i [(''subject'', JObj j ps)]) ''subject.status'' = obj_prop ps ''status''"
  by (simp_all add: getAttributeValue_def obj_prop_def)

lemma demo_match:
  "rule_match demo_rx demo_rq (simple_rule i d p eff (attr_eq ''subject.role'' v) [''*''] [''*'']) =
     Some (v = ''guest'')"
  by (auto simp: rule_match_def ruleAppliesToRequest_def filter_matches_def action_matches_def
      matchesGlob_def pol_evaluateCondition_def pol_passed_def Let_def get_attr_subject obj_prop_def
      demo_rq_def demo_ctx_def simple_rule_def attr_eq_def)

lemma demo_rules:
  "rule_match demo_rx demo_rq demo_r1 = Some True" "rule_match demo_rx demo_rq demo_r2 = Some False"
  "ru_effect demo_r1 = Deny" "ru_effect demo_r2 = Allow"
  "ru_priority demo_r1 = Some 1" "ru_priority demo_r2 = Some 2"
  unfolding demo_r1_def demo_r2_def demo_match by (simp_all add: simple_rule_def)

lemma demo_set_simps:
  "ps_rules (demo_set strategy) = [demo_r1, demo_r2]" "ps_enabled (demo_set strategy)"
  "ps_combineStrategy (demo_set strategy) = strategy" "ps_defaultEffect (demo_set strategy) = Allow"
  "ps_id (demo_set strategy) = ''s''"
  by (simp_all add: demo_set_def)

lemma some_of_defined: "\<forall>x \<in> set xs. p x \<noteq> None \<Longrightarrow> some_of p xs \<noteq> None"
  by (induction xs) (auto split: option.split bool.split)

lemma filter_matches_defined: "(\<And>p r. m p r \<noteq> None) \<Longrightarrow> filter_matches m ps req \<noteq> None"
  by (auto simp: filter_matches_def simp del: some_of.simps not_None_eq
      split: option.split list.split intro!: some_of_defined)

text \<open>Only a throwing \<open>RegExp\<close> makes an evaluation throw.\<close>

lemma total_regex_defined:
  assumes "\<And>p v. rx p v \<noteq> None"
  shows "all_defined rx rq rules"
proof -
  have glob: "matchesGlob rx p v \<noteq> None" for p v
    using assms by (auto simp: matchesGlob_def)
  then have "action_matches rx p v \<noteq> None" for p v
    by (auto simp: action_matches_def)
  with glob have "ruleAppliesToRequest rx r a b \<noteq> None" for r a b
    using filter_matches_defined [of "action_matches rx"] filter_matches_defined [of "matchesGlob rx"]
    by (auto simp: ruleAppliesToRequest_def split: option.split bool.split)
  then show ?thesis by (simp add: all_defined_def rule_match_def)
qed

lemma demo_defined: "all_defined demo_rx rq rules"
  by (rule total_regex_defined) (simp add: demo_rx_def)

lemma demo_sorted: "sortedRules (demo_set strategy) = [demo_r2, demo_r1]"
  by (simp add: sortedRules_def demo_set_simps rule_priority_def demo_rules)

theorem strategies_meet_spec_witness:
  "map_option pd_effect (evaluateSet demo_rx quiet_config ''s'' (demo_set deny_overrides) demo_rq) =
     Some Deny"
  using strategies_meet_spec [where rx = demo_rx and rq = demo_rq and cfg = quiet_config
      and ps = "demo_set deny_overrides" and i = "''s''", OF demo_defined]
  by (simp add: demo_sorted demo_rules demo_set_simps strategy_spec_def)

text \<open>
  Without tracing (the default) \<open>allow_overrides\<close> ignores deny rules: when no allow rule
  matches, the default effect is the decision even though a deny rule matches; switching tracing
  on turns the same decision into a denial.
\<close>

theorem allow_overrides_loses_denies:
  assumes "all_defined rx rq (ps_rules ps)" and "ps_combineStrategy ps = allow_overrides"
    and "\<not> cf_trace cfg"
    and "\<forall>r \<in> set (ps_rules ps). rule_match rx rq r = Some True \<longrightarrow> ru_effect r = Deny"
    and "\<exists>r \<in> set (ps_rules ps). rule_match rx rq r = Some True"
  shows "map_option pd_effect (evaluateSet rx cfg i ps rq) = Some (ps_defaultEffect ps) \<and>
         map_option pd_effect (evaluateSet rx (cfg\<lparr>cf_trace := True\<rparr>) i ps rq) = Some Deny"
proof -
  have rules: "set (sortedRules ps) = set (ps_rules ps)" by (simp add: sortedRules_def)
  have "hits rx rq Allow (sortedRules ps) = []" "hits rx rq Deny (sortedRules ps) \<noteq> []"
    using assms(4,5) by (auto simp: hits_def filter_empty_conv rules)
  then show ?thesis
    using evaluateSet_effect [OF assms(1), of cfg i]
      evaluateSet_effect [OF assms(1), of "cfg\<lparr>cf_trace := True\<rparr>" i] assms(2,3)
    by (auto simp: strategy_spec_def Let_def)
qed

theorem allow_overrides_loses_denies_witness:
  "map_option pd_effect (evaluateSet demo_rx quiet_config ''s'' (demo_set allow_overrides) demo_rq) =
     Some Allow"
  using allow_overrides_loses_denies [where rx = demo_rx and rq = demo_rq and cfg = quiet_config
      and ps = "demo_set allow_overrides" and i = "''s''", OF demo_defined]
  by (simp add: demo_rules demo_set_simps quiet_config_def DEFAULT_POLICY_ENGINE_CONFIG_def)

text \<open>Histories of an engine.\<close>

datatype pol_op =
    LoadSet PolicySet
  | RemoveSet string
  | Evaluate int string pol_request
  | EvaluateAll int pol_request "PolicyCombineStrategy option"
  | ClearCache

fun en_apply :: "regex \<Rightarrow> (jsval \<Rightarrow> string) \<Rightarrow> pol_op \<Rightarrow> PolicyEngine \<Rightarrow> PolicyEngine" where
  "en_apply rx sf (LoadSet ps) e = (case loadPolicySet ps e of Inl err \<Rightarrow> e | Inr e' \<Rightarrow> e')"
| "en_apply rx sf (RemoveSet i) e = fst (removePolicySet i e)"
| "en_apply rx sf (Evaluate now i rq) e = fst (en_evaluate rx sf now i rq e)"
| "en_apply rx sf (EvaluateAll now rq s) e = fst (evaluateAll rx sf now rq s e)"
| "en_apply rx sf ClearCache e = en_clearCache e"

text \<open>The requests an operation puts to the engine.\<close>

fun asked :: "pol_op \<Rightarrow> pol_request set" where
  "asked (Evaluate now i rq) = {rq}"
| "asked (EvaluateAll now rq s) = {rq}"
| "asked op = {}"

text \<open>Every cached decision is what its set, as it is now, decides for a request that was put before.\<close>

definition cache_ok ::
  "regex \<Rightarrow> (jsval \<Rightarrow> string) \<Rightarrow> pol_request set \<Rightarrow> PolicyEngine \<Rightarrow> bool" where
  "cache_ok rx sf R e \<longleftrightarrow>
     (\<forall>key c. jm_get (en_decisionCache e) key = Some c \<longrightarrow>
        (\<exists>i ps. \<exists>rq \<in> R. key = buildCacheKey sf i rq \<and> jm_get (en_policySets e) i = Some ps \<and>
           ps_enabled ps \<and> evaluateSet rx (en_config e) i ps rq = Some (cd_decision c)))"

lemma cache_okD:
  assumes "cache_ok rx sf R e" and "jm_get (en_decisionCache e) key = Some c"
  obtains i ps rq where "rq \<in> R" "key = buildCacheKey sf i rq" "jm_get (en_policySets e) i = Some ps"
    "evaluateSet rx (en_config e) i ps rq = Some (cd_decision c)"
  using assms unfolding cache_ok_def by blast

lemma cache_ok_mono: "cache_ok rx sf R e \<Longrightarrow> R \<subseteq> R' \<Longrightarrow> cache_ok rx sf R' e"
  unfolding cache_ok_def by blast

lemma cache_ok_evaluate:
  "cache_ok rx sf R e \<Longrightarrow> rq \<in> R \<Longrightarrow> cache_ok rx sf R (fst (en_evaluate rx sf now i rq e)) \<and>
     en_config (fst (en_evaluate rx sf now i rq e)) = en_config e"
  by (auto simp: en_evaluate_def store_decision_def cache_ok_def split: option.split)

lemma cache_ok_each:
  "cache_ok rx sf R e \<Longrightarrow> rq \<in> R \<Longrightarrow> cache_ok rx sf R (fst (evaluate_each rx sf now rq ids e))"
proof (induction ids arbitrary: e)
  case Nil
  then show ?case by simp
next
  case (Cons i ids)
  then have "cache_ok rx sf R (fst (en_evaluate rx sf now i rq e))" by (simp add: cache_ok_evaluate)
  with Cons.IH [OF this] Cons.prems(2) show ?case by (auto split: prod.splits option.splits)
qed

lemma fst_evaluateAll:
  "fst (evaluateAll rx sf now rq s e) =
     (if filter ps_enabled (jm_values (en_policySets e)) = [] then e
      else fst (evaluate_each rx sf now rq
                 (map ps_id (filter ps_enabled (jm_values (en_policySets e)))) e))"
  by (simp add: evaluateAll_def split: prod.split option.split)

lemma cache_ok_remove:
  assumes "cache_ok rx sf R e"
  shows "cache_ok rx sf R (fst (removePolicySet i e))"
proof (cases "jm_has (en_policySets e) i")
  case True
  then show ?thesis by (simp add: removePolicySet_def en_clearCache_def cache_ok_def Let_def)
next
  case False
  then have "jm_get (jm_delete i (en_policySets e)) = jm_get (en_policySets e)"
    by (auto simp: jm_has_def fun_eq_iff)
  with False assms show ?thesis by (simp add: removePolicySet_def cache_ok_def Let_def)
qed

lemma cache_ok_cleared: "en_decisionCache e = [] \<Longrightarrow> cache_ok rx sf R e"
  by (simp add: cache_ok_def)

lemma cache_ok_apply:
  assumes "cache_ok rx sf R e"
  shows "cache_ok rx sf (R \<union> asked op) (en_apply rx sf op e)"
proof -
  have "cache_ok rx sf (R \<union> asked op) e" using assms by (rule cache_ok_mono) simp
  then show ?thesis
    by (cases op)
       (auto simp: fst_evaluateAll cache_ok_each cache_ok_remove cache_ok_evaluate loadPolicySet_def
         en_clearCache_def intro: cache_ok_cleared)
qed

lemma cache_ok_history:
  "cache_ok rx sf (\<Union>op \<in> set ops. asked op) (fold (en_apply rx sf) ops (createPolicyEngine p))"
proof (induction ops rule: rev_induct)
  case Nil
  show ?case by (simp add: cache_ok_def createPolicyEngine_def)
next
  case (snoc op ops)
  from cache_ok_apply [OF snoc.IH, of op] show ?case by (simp add: Un_commute)
qed

text \<open>Keys without the separator are read back uniquely.\<close>

definition plain_request :: "(jsval \<Rightarrow> string) \<Rightarrow> string \<Rightarrow> pol_request \<Rightarrow> bool" where
  "plain_request sf i rq \<longleftrightarrow>
     (\<exists>a r. rq_action rq = Some a \<and> a \<noteq> [] \<and> rq_resource rq = Some r \<and> r \<noteq> [] \<and>
        CHR ''|'' \<notin> set i \<union> set a \<union> set r \<union> set (sf (rq_ctx rq)))"

lemma js_split_singleton: "length (js_split d s) = Suc 0 \<Longrightarrow> js_split d s = [s]"
  by (metis js_join.simps(2) js_join_split length_0_conv length_Suc_conv)

lemma js_split_length: "0 < length (js_split d s)"
  by simp

lemma buildCacheKey_inj:
  assumes "buildCacheKey sf i' rq' = buildCacheKey sf i rq" and "plain_request sf i rq"
  shows "i' = i \<and> rq_action rq' = rq_action rq \<and> rq_resource rq' = rq_resource rq \<and>
         sf (rq_ctx rq') = sf (rq_ctx rq)"
proof -
  define a r a' r' where "a = dflt (rq_action rq) []" and "r = dflt (rq_resource rq) []"
    and "a' = dflt (rq_action rq') []" and "r' = dflt (rq_resource rq') []"
  let ?d = "CHR ''|''"
  have no: "?d \<notin> set i" "?d \<notin> set a" "?d \<notin> set r" "?d \<notin> set (sf (rq_ctx rq))" "a \<noteq> []" "r \<noteq> []"
    using assms(2) by (auto simp: plain_request_def a_def r_def dflt_def)
  have "js_split ?d (i' @ ?d # a' @ ?d # r' @ ?d # sf (rq_ctx rq')) =
        js_split ?d (i @ ?d # a @ ?d # r @ ?d # sf (rq_ctx rq))"
    using assms(1) by (simp add: buildCacheKey_def a_def r_def a'_def r'_def)
  then have eq: "js_split ?d i' @ js_split ?d a' @ js_split ?d r' @ js_split ?d (sf (rq_ctx rq')) =
      [i, a, r, sf (rq_ctx rq)]"
    using no by (simp add: js_split_append js_split_single)
  note pos = js_split_length [of ?d i'] js_split_length [of ?d a'] js_split_length [of ?d r']
    js_split_length [of ?d "sf (rq_ctx rq')"]
  from arg_cong [OF eq, of length]
  have "length (js_split ?d i') + (length (js_split ?d a') + (length (js_split ?d r') +
      length (js_split ?d (sf (rq_ctx rq'))))) = 4" by simp
  with pos have "length (js_split ?d i') = Suc 0" "length (js_split ?d a') = Suc 0"
    "length (js_split ?d r') = Suc 0" "length (js_split ?d (sf (rq_ctx rq'))) = Suc 0"
    by linarith+
  from this [THEN js_split_singleton] eq
  have "i' = i" "a' = a" "r' = r" "sf (rq_ctx rq') = sf (rq_ctx rq)" by simp_all
  with no show ?thesis
    by (cases rq; cases rq') (auto simp: a_def a'_def r_def r'_def dflt_def split: option.splits)
qed

text \<open>An evaluation that finds its decision, and one with an empty cache.\<close>

lemma evaluate_cached:
  assumes "jm_get (en_policySets e) i = Some ps" and "ps_enabled ps"
    and "cached_decision now (buildCacheKey sf i rq) e = Some d"
  shows "snd (en_evaluate rx sf now i rq e) = Some d"
  using assms by (simp add: en_evaluate_def)

lemma evaluate_cleared:
  assumes "jm_get (en_policySets e) i = Some ps" and "ps_enabled ps"
  shows "snd (en_evaluate rx sf now i rq (en_clearCache e)) = evaluateSet rx (en_config e) i ps rq"
  using assms by (simp add: en_evaluate_def en_clearCache_def cached_decision_def split: option.split)

lemma evaluate_uncached:
  assumes "\<And>ps. jm_get (en_policySets e) i = Some ps \<Longrightarrow> ps_enabled ps \<Longrightarrow>
      cached_decision now (buildCacheKey sf i rq) e = None"
  shows "snd (en_evaluate rx sf now i rq e) = snd (en_evaluate rx sf now i rq (en_clearCache e))"
  using assms by (simp add: en_evaluate_def en_clearCache_def cached_decision_def [of now _ "e\<lparr>en_decisionCache := []\<rparr>"] split: option.split)

text \<open>
  C9. What the decision cache may answer, after any loads, removals and evaluations: an evaluation of a
  request whose set identifier, action, resource and context text do not contain the separator of the
  key (action and resource present and not empty) answers what the engine would answer with an empty
  cache, as the sets are now, to a request with the same action, the same resource and a context of the
  same JSON text: to this one, or to one that was put to the engine before. Contexts of the same text
  are not told apart, which is all the cache forgets.
\<close>

theorem decision_cache_transparent:
  assumes "e = fold (en_apply rx sf) ops (createPolicyEngine p)" and "plain_request sf i rq"
  shows "\<exists>rq' \<in> insert rq (\<Union>op \<in> set ops. asked op).
           rq_action rq' = rq_action rq \<and> rq_resource rq' = rq_resource rq \<and>
           sf (rq_ctx rq') = sf (rq_ctx rq) \<and>
           snd (en_evaluate rx sf now i rq e) = snd (en_evaluate rx sf now i rq' (en_clearCache e))"
proof (cases "\<exists>ps d. jm_get (en_policySets e) i = Some ps \<and> ps_enabled ps \<and>
    cached_decision now (buildCacheKey sf i rq) e = Some d")
  case True
  then obtain ps d where ps: "jm_get (en_policySets e) i = Some ps" "ps_enabled ps"
    and d: "cached_decision now (buildCacheKey sf i rq) e = Some d" by blast
  from d obtain c where c: "jm_get (en_decisionCache e) (buildCacheKey sf i rq) = Some c"
    "cd_decision c = d" by (auto simp: cached_decision_def split: if_splits option.splits)
  have "cache_ok rx sf (\<Union>op \<in> set ops. asked op) e" unfolding assms(1) by (rule cache_ok_history)
  then obtain i' ps' rq' where rq': "rq' \<in> (\<Union>op \<in> set ops. asked op)"
    and *: "buildCacheKey sf i rq = buildCacheKey sf i' rq'" "jm_get (en_policySets e) i' = Some ps'"
      "evaluateSet rx (en_config e) i' ps' rq' = Some (cd_decision c)"
    using c(1) by (rule cache_okD)
  have same: "i' = i" "rq_action rq' = rq_action rq" "rq_resource rq' = rq_resource rq"
    "sf (rq_ctx rq') = sf (rq_ctx rq)"
    using buildCacheKey_inj [OF *(1) [symmetric] assms(2)] by blast+
  from *(2,3) ps(1) have "evaluateSet rx (en_config e) i ps rq' = Some d" unfolding same c(2) by simp
  then have "snd (en_evaluate rx sf now i rq e) = snd (en_evaluate rx sf now i rq' (en_clearCache e))"
    by (simp only: evaluate_cached [OF ps d] evaluate_cleared [OF ps])
  with same rq' show ?thesis by blast
next
  case False
  then have "snd (en_evaluate rx sf now i rq e) = snd (en_evaluate rx sf now i rq (en_clearCache e))"
    by (intro evaluate_uncached) (meson not_None_eq)
  then show ?thesis by blast
qed

text \<open>\<open>JSON.stringify\<close> of a context; the demonstrations hold no numbers.\<close>

definition demo_sf :: "jsval \<Rightarrow> string" where
  "demo_sf c = dflt (json_val (\<lambda>_. ''0'') c) ''undefined''"

definition no_options :: PartialEngineConfig where
  "no_options = \<lparr>pf_trace = None, pf_cacheTtl = None, pf_defaultEffect = None, pf_maxRulesPerSet = None\<rparr>"

text \<open>The same request for a context that is another object with the same text.\<close>

definition demo_rq2 :: pol_request where
  "demo_rq2 = demo_rq\<lparr>rq_ctx := (case rq_ctx demo_rq of JObj i ps \<Rightarrow> JObj (Suc i) (ps @ [(''x'', JUndef)]) | c \<Rightarrow> c)\<rparr>"

theorem decision_cache_transparent_witness:
  "let e = fold (en_apply demo_rx demo_sf) [LoadSet (demo_set deny_overrides), Evaluate 0 ''s'' demo_rq]
             (createPolicyEngine no_options)
   in \<exists>rq' \<in> {demo_rq2, demo_rq}.
        snd (en_evaluate demo_rx demo_sf 9 ''s'' demo_rq2 e) =
        snd (en_evaluate demo_rx demo_sf 9 ''s'' rq' (en_clearCache e))"
proof -
  have "plain_request demo_sf ''s'' demo_rq2"
    by (simp add: plain_request_def demo_sf_def demo_rq2_def demo_rq_def dflt_def) code_simp
  from decision_cache_transparent [where rx = demo_rx and now = 9 and p = no_options and
      ops = "[LoadSet (demo_set deny_overrides), Evaluate 0 ''s'' demo_rq]", OF refl this]
  show ?thesis unfolding Let_def by auto
qed

text \<open>
  The cache key is ambiguous: a request with the same key as an earlier one (for instance with
  the separator moved from the resource to the action) is answered with the earlier request's
  decision for as long as that is cached, whatever the rules say of it.
\<close>

theorem cache_key_collision:
  assumes "jm_get (en_policySets e) i = Some ps" and "ps_enabled ps" and "0 < cf_cacheTtl (en_config e)"
    and "en_decisionCache e = []" and "buildCacheKey sf i rq' = buildCacheKey sf i rq"
    and "evaluateSet rx (en_config e) i ps rq = Some d"
    and "now' < now + cf_cacheTtl (en_config e)"
  shows "snd (en_evaluate rx sf now' i rq' (fst (en_evaluate rx sf now i rq e))) = Some d"
  using assms by (simp add: en_evaluate_def cached_decision_def store_decision_def)

definition sneaky_set :: PolicySet where
  "sneaky_set = (demo_set deny_overrides)\<lparr>ps_rules :=
     [simple_rule ''r1'' [] 1 Deny (attr_eq ''subject.role'' ''guest'') [''*''] [''read'']]\<rparr>"

definition sneaky_engine :: PolicyEngine where
  "sneaky_engine = en_apply demo_rx demo_sf (LoadSet sneaky_set) (createPolicyEngine no_options)"

definition early_rq :: pol_request where
  "early_rq = demo_rq\<lparr>rq_action := Some ''list|read'', rq_resource := Some ''file''\<rparr>"

definition late_rq :: pol_request where
  "late_rq = demo_rq\<lparr>rq_action := Some ''list'', rq_resource := Some ''read|file''\<rparr>"

lemma sneaky_simps:
  "jm_get (en_policySets sneaky_engine) ''s'' = Some sneaky_set" "en_decisionCache sneaky_engine = []"
  "cf_cacheTtl (en_config sneaky_engine) = 5000" "ps_enabled sneaky_set"
  "buildCacheKey demo_sf ''s'' late_rq = buildCacheKey demo_sf ''s'' early_rq"
  by (simp_all add: loadPolicySet_def createPolicyEngine_def no_options_def dflt_def
      en_clearCache_def sneaky_set_def demo_set_def DEFAULT_POLICY_ENGINE_CONFIG_def sneaky_engine_def
      buildCacheKey_def late_rq_def early_rq_def demo_rq_def)

theorem cache_key_collision_witness:
  "\<exists>d. evaluateSet demo_rx (en_config sneaky_engine) ''s'' sneaky_set early_rq = Some d \<and>
     snd (en_evaluate demo_rx demo_sf 1 ''s'' late_rq
       (fst (en_evaluate demo_rx demo_sf 0 ''s'' early_rq sneaky_engine))) = Some d"
proof -
  obtain d where "evaluateSet demo_rx (en_config sneaky_engine) ''s'' sneaky_set early_rq = Some d"
    using evaluateSet_effect [OF demo_defined] by blast
  then show ?thesis
    using cache_key_collision [OF sneaky_simps(1,4) _ sneaky_simps(2,5), of demo_rx d 1 0]
    by (simp add: sneaky_simps(3))
qed

section \<open>The platform policy set\<close>

text \<open>Patterns of lower-case letters and underscores, and what \<open>RegExp\<close> documents for them.\<close>

definition word_pattern :: "string \<Rightarrow> bool" where
  "word_pattern p \<longleftrightarrow> p \<noteq> [] \<and> list_all (\<lambda>c. c = CHR ''_'' \<or> (97 \<le> (of_char c :: nat) \<and> (of_char c :: nat) \<le> 122)) p"

definition literal_regex :: "regex \<Rightarrow> bool" where
  "literal_regex rx \<longleftrightarrow> (\<forall>p v. word_pattern p \<longrightarrow> rx (CHR ''^'' # p @ ''$'') v = Some (p = v))"

lemma not_sublist_char: "c \<in> set needle \<Longrightarrow> c \<notin> set s \<Longrightarrow> \<not> sublist needle s"
  using set_mono_sublist by blast

lemma word_pattern_chars:
  assumes "word_pattern p" and "c \<in> set p"
  shows "c = CHR ''_'' \<or> (97 \<le> (of_char c :: nat) \<and> (of_char c :: nat) \<le> 122)"
  using assms by (simp add: word_pattern_def list_all_iff)

lemma glob_regex_word:
  assumes "word_pattern p"
  shows "glob_regex p = CHR ''^'' # p @ ''$''"
proof -
  have no: "c \<notin> set p" if "c \<in> set (''.+^${}()|[]*D'' @ [CHR 0x5C])" for c
    using word_pattern_chars [OF assms, of c] that by auto
  have "concat (map (\<lambda>c. if c \<in> set (''.+^${}()|[]'' @ [CHR 0x5C]) then [CHR 0x5C, c] else [c]) xs) = xs"
    if "set xs \<subseteq> set p" for xs
    using that
  proof (induction xs)
    case Nil
    then show ?case by simp
  next
    case (Cons x xs)
    have "x \<notin> set (''.+^${}()|[]'' @ [CHR 0x5C])" using Cons.prems no by auto
    with Cons show ?case by simp
  qed
  then have "escape_regex p = p" by (simp add: escape_regex_def)
  moreover have "\<not> sublist ''**'' p" "\<not> sublist ''*'' p"
    by (rule not_sublist_char [of "CHR ''*''"]; use no in simp)+
  moreover have "\<not> sublist ''__DOUBLE_STAR__'' p"
    by (rule not_sublist_char [of "CHR ''D''"]) (use no in simp_all)
  ultimately show ?thesis by (simp add: glob_regex_def Let_def replace_all_absent)
qed

lemma matchesGlob_word:
  assumes "literal_regex rx" and "word_pattern p"
  shows "matchesGlob rx p v = Some (p = v)"
  using assms glob_regex_word [OF assms(2)]
  by (auto simp: matchesGlob_def literal_regex_def word_pattern_def)

lemma filter_words:
  assumes "literal_regex rx" and "list_all word_pattern ps" and "ps \<noteq> []" and "v \<noteq> []"
  shows "filter_matches (matchesGlob rx) (Some ps) (Some v) = Some (v \<in> set ps)"
    and "filter_matches (action_matches rx) (Some ps) (Some v) = Some (v \<in> set ps)"
proof -
  have "some_of (\<lambda>p. matchesGlob rx p v) qs = Some (v \<in> set qs)"
    "some_of (\<lambda>p. action_matches rx p v) qs = Some (v \<in> set qs)" if "list_all word_pattern qs" for qs
    using that
    by (induction qs)
       (auto simp: matchesGlob_word [OF assms(1)] action_matches_def word_pattern_def split: bool.split)
  from this [OF assms(2)] assms(3,4)
  show "filter_matches (matchesGlob rx) (Some ps) (Some v) = Some (v \<in> set ps)"
    "filter_matches (action_matches rx) (Some ps) (Some v) = Some (v \<in> set ps)"
    by (auto simp: filter_matches_def simp del: some_of.simps split: list.split)
qed

lemma filter_star:
  "v \<noteq> [] \<Longrightarrow> filter_matches (matchesGlob rx) (Some [''*'']) (Some v) = Some True"
  "v \<noteq> [] \<Longrightarrow> filter_matches (action_matches rx) (Some [''*'']) (Some v) = Some True"
  by (simp_all add: filter_matches_def matchesGlob_def action_matches_def)

definition platform_grants :: "jsval \<Rightarrow> string \<Rightarrow> string \<Rightarrow> bool" where
  "platform_grants role action resource \<longleftrightarrow>
     role = JStr ''owner'' \<or>
     (role = JStr ''admin'' \<and>
        resource \<in> {''tenant'', ''user'', ''module'', ''workflow'', ''file'', ''api_key'', ''settings'',
                     ''analytics'', ''integration''} \<and>
        action \<in> {''create'', ''read'', ''update'', ''delete'', ''list'', ''manage'', ''invite''}) \<or>
     (role = JStr ''editor'' \<and> resource \<in> {''module'', ''workflow'', ''file''} \<and>
        action \<in> {''create'', ''read'', ''update'', ''delete'', ''list'', ''execute''}) \<or>
     (role = JStr ''viewer'' \<and> resource \<in> {''module'', ''workflow'', ''file'', ''analytics''} \<and>
        action \<in> {''read'', ''list''}) \<or>
     (role = JStr ''guest'' \<and> resource = ''module'' \<and> action \<in> {''read'', ''list''})"

lemma simple_rule_match:
  assumes "filter_matches (action_matches rx) (Some as) (Some a) = Some b"
    and "filter_matches (matchesGlob rx) (Some rs) (Some r) = Some c"
    and "rq_action rq = Some a" and "rq_resource rq = Some r"
  shows "rule_match rx rq (simple_rule i d p eff (attr_eq attr v) rs as) =
         Some (b \<and> c \<and> getAttributeValue (rq_ctx rq) attr = JStr v)"
  using assms by (auto simp: rule_match_def ruleAppliesToRequest_def simple_rule_def attr_eq_def
      pol_evaluateCondition_def pol_passed_def Let_def split: bool.split)

lemma simple_rule_effect [simp]: "ru_effect (simple_rule i d p eff c rs as) = eff"
  by (simp add: simple_rule_def)

lemma word_pattern_table:
  "list_all word_pattern [''tenant'', ''user'', ''module'', ''workflow'', ''file'', ''api_key'',
     ''settings'', ''analytics'', ''integration'']"
  "list_all word_pattern [''create'', ''read'', ''update'', ''delete'', ''list'', ''manage'',
     ''invite'', ''execute'']"
  by (simp_all add: word_pattern_def)

text \<open>
  The platform policy decides by its table: a suspended account is refused everything, whatever
  its role; any other is allowed exactly what the table grants to its role, and everything else is
  refused.
\<close>

theorem platform_policy_table:
  assumes "literal_regex rx" and "rq_ctx rq = JObj i [(''subject'', JObj j props)]"
    and "rq_action rq = Some a" and "a \<noteq> []" and "rq_resource rq = Some r" and "r \<noteq> []"
  shows "map_option pd_effect (evaluateSet rx cfg s (createPlatformPolicySet t) rq) =
         Some (if obj_prop props ''status'' \<noteq> JStr ''suspended'' \<and>
                  platform_grants (obj_prop props ''role'') a r then Allow else Deny)"
proof -
  let ?ps = "createPlatformPolicySet t"
  have star: "rule_match rx rq (simple_rule n d p eff (attr_eq attr v) [''*''] [''*'']) =
      Some (getAttributeValue (rq_ctx rq) attr = JStr v)" for n d p eff attr v
    using simple_rule_match [OF filter_star(2) [OF assms(4)] filter_star(1) [OF assms(6)] assms(3,5)]
    by simp
  have word: "rule_match rx rq (simple_rule n d p eff (attr_eq attr v) rs as) =
      Some (a \<in> set as \<and> r \<in> set rs \<and> getAttributeValue (rq_ctx rq) attr = JStr v)"
    if "list_all word_pattern as" "list_all word_pattern rs" "as \<noteq> []" "rs \<noteq> []" for n d p eff attr v as rs
    using simple_rule_match [OF filter_words(2) [OF assms(1) that(1,3) assms(4)]
        filter_words(1) [OF assms(1) that(2,4) assms(6)] assms(3,5)] .
  have attr: "getAttributeValue (rq_ctx rq) ''subject.role'' = obj_prop props ''role''"
    "getAttributeValue (rq_ctx rq) ''subject.status'' = obj_prop props ''status''"
    by (simp_all add: assms(2) get_attr_subject)
  have rules: "\<forall>x \<in> set (ps_rules ?ps). rule_match rx rq x \<noteq> None"
    "(\<exists>x \<in> set (ps_rules ?ps). rule_match rx rq x = Some True \<and> ru_effect x = Deny) \<longleftrightarrow>
       obj_prop props ''status'' = JStr ''suspended''"
    "(\<exists>x \<in> set (ps_rules ?ps). rule_match rx rq x = Some True \<and> ru_effect x = Allow) \<longleftrightarrow>
       platform_grants (obj_prop props ''role'') a r"
    using word_pattern_table by (auto simp: createPlatformPolicySet_def star word attr platform_grants_def)
  have hits: "hits rx rq eff (sortedRules ?ps) \<noteq> [] \<longleftrightarrow>
      (\<exists>x \<in> set (ps_rules ?ps). rule_match rx rq x = Some True \<and> ru_effect x = eff)" for eff
    by (auto simp: hits_def filter_empty_conv sortedRules_def)
  have set_simps: "ps_combineStrategy ?ps = deny_overrides" "ps_defaultEffect ?ps = Deny"
    by (simp_all add: createPlatformPolicySet_def)
  from rules(1) have "all_defined rx rq (ps_rules ?ps)" by (simp add: all_defined_def)
  from evaluateSet_effect [OF this, of cfg s] hits [of Deny] hits [of Allow] show ?thesis
    unfolding set_simps rules(2,3) by (auto simp: strategy_spec_def Let_def)
qed

theorem platform_policy_table_witness:
  "map_option pd_effect (evaluateSet demo_rx quiet_config ''p'' (createPlatformPolicySet None)
     \<lparr>rq_ctx = demo_ctx ''owner'' ''suspended'', rq_action = Some ''read'', rq_resource = Some ''file''\<rparr>)
   = Some Deny"
proof -
  have "literal_regex demo_rx" by (auto simp: literal_regex_def demo_rx_def)
  from platform_policy_table [OF this, of
      "\<lparr>rq_ctx = demo_ctx ''owner'' ''suspended'', rq_action = Some ''read'', rq_resource = Some ''file''\<rparr>"]
  show ?thesis by (simp add: demo_ctx_def obj_prop_def)
qed

end
