(* ===== verification/Hive.thy ===== *)
theory Hive
  imports JsMap
begin

text \<open>
  \<open>packages/hive/src/HiveService.ts\<close>: the message router with its clearance rules, queues, routing
  cache, channels and maintenance tasks.

  Messages are mutated in place while the queues and the history refer to them, so they live in a
  store \<open>hv_store\<close>, and queues and history hold references (positions in the store). Each
  \<open>async\<close> method is one atomic step: its awaits are of its own methods, which return without
  waiting for anything. Identifiers that the code draws from clock and random generator are arguments,
  and so is \<open>encode\<close>, the Base64 text of \<open>JSON.stringify\<close> of a payload. \<open>hv_calls\<close> is the sequence
  of handler calls made by \<open>emit\<close>.
\<close>

section \<open>Types\<close>

datatype BeeRole = QUEEN | WORKER | SCOUT | GUARD | DRONE | NURSE | FORAGER

datatype DataClassification = PUBLIC | INTERNAL | CONFIDENTIAL | CLASSIFIED | VOID

datatype UserType =
    SUPER_ADMIN | ORG_ADMIN | POWER_USER | STANDARD_USER | BOT | AGENT | GUEST | SYSTEM

datatype ChannelStatus = ACTIVE | CONGESTED | DEGRADED | OFFLINE | MAINTENANCE

datatype RoutingStrategy =
    SHORTEST_PATH | LOAD_BALANCED | SECURITY_FIRST | LATENCY_OPTIMISED | REDUNDANT | ADAPTIVE

datatype MessagePriority = CRITICAL | HIGH | NORMAL | LOW | BACKGROUND

datatype MessageStatus =
    QUEUED | ROUTING | IN_TRANSIT | DELIVERED | FAILED | EXPIRED | BLOCKED | QUARANTINED

fun class_str :: "DataClassification \<Rightarrow> string" where
  "class_str PUBLIC = ''public''"
| "class_str INTERNAL = ''internal''"
| "class_str CONFIDENTIAL = ''confidential''"
| "class_str CLASSIFIED = ''classified''"
| "class_str VOID = ''void''"

fun user_str :: "UserType \<Rightarrow> string" where
  "user_str SUPER_ADMIN = ''super_admin''"
| "user_str ORG_ADMIN = ''org_admin''"
| "user_str POWER_USER = ''power_user''"
| "user_str STANDARD_USER = ''standard_user''"
| "user_str BOT = ''bot''"
| "user_str AGENT = ''agent''"
| "user_str GUEST = ''guest''"
| "user_str SYSTEM = ''system''"

fun priority_num :: "MessagePriority \<Rightarrow> int" where
  "priority_num CRITICAL = 0"
| "priority_num HIGH = 1"
| "priority_num NORMAL = 2"
| "priority_num LOW = 3"
| "priority_num BACKGROUND = 4"

definition all_classifications :: "DataClassification list" where
  "all_classifications = [PUBLIC, INTERNAL, CONFIDENTIAL, CLASSIFIED, VOID]"

definition all_user_types :: "UserType list" where
  "all_user_types =
     [SUPER_ADMIN, ORG_ADMIN, POWER_USER, STANDARD_USER, BOT, AGENT, GUEST, SYSTEM]"

definition all_priorities :: "MessagePriority list" where
  "all_priorities = [CRITICAL, HIGH, NORMAL, LOW, BACKGROUND]"

text \<open>\<open>a >= b\<close> on the enum compares the strings.\<close>

definition class_ge :: "DataClassification \<Rightarrow> DataClassification \<Rightarrow> bool" where
  "class_ge a b = js_str_ge (class_str a) (class_str b)"

record NodeMetrics =
  nm_messagesRouted :: int
  nm_messagesDropped :: int
  nm_averageLatency :: rat
  nm_peakLoad :: rat
  nm_errorRate :: rat
  nm_lastReset :: int

record HiveNode =
  hn_id :: string
  hn_role :: BeeRole
  hn_status :: ChannelStatus
  hn_capacity :: rat
  hn_load :: rat
  hn_specialisations :: "DataClassification list"
  hn_allowedUserTypes :: "UserType list"
  hn_location :: string
  hn_latency :: rat
  hn_throughput :: rat
  hn_uptime :: rat
  hn_lastHeartbeat :: int
  hn_connectedNodes :: "string list"
  hn_metrics :: NodeMetrics

datatype hop_action = Forwarded | Processed | HopBlocked | Encrypted | Decrypted

record MessageHop =
  mh_nodeId :: string
  mh_nodeRole :: BeeRole
  mh_arrivedAt :: int
  mh_departedAt :: "int option"
  mh_latency :: rat
  mh_action :: hop_action

record HiveMessage =
  ms_id :: string
  ms_sourceEntityId :: string
  ms_sourceUserType :: UserType
  ms_destinationEntityId :: "string option"
  ms_destinationService :: "string option"
  ms_classification :: DataClassification
  ms_priority :: MessagePriority
  ms_payload :: jsval
  ms_encryptedPayload :: "string option"
  ms_routingPath :: "string list"
  ms_hops :: "MessageHop list"
  ms_createdAt :: int
  ms_expiresAt :: "int option"
  ms_deliveredAt :: "int option"
  ms_status :: MessageStatus
  ms_lighthouseTokenId :: string

record RoutingDecision =
  de_messageId :: string
  de_selectedPath :: "string list"
  de_strategy :: RoutingStrategy
  de_reason :: string
  de_estimatedLatency :: rat
  de_decidedAt :: int

record DataChannel =
  ch_id :: string
  ch_name :: string
  ch_sourceUserType :: UserType
  ch_targetUserType :: UserType
  ch_classification :: DataClassification
  ch_encrypted :: bool
  ch_encryptionAlgorithm :: string
  ch_status :: ChannelStatus
  ch_throughput :: rat
  ch_latency :: rat
  ch_createdAt :: int
  ch_lastUsedAt :: int

datatype hive_event =
    NodeAdded string BeeRole
  | NodeRemoved string
  | MessageBlocked string string
  | MessageDelivered string "string list"
  | ChannelCreated string string
  | NodeOffline string

fun event_name :: "hive_event \<Rightarrow> string" where
  "event_name (NodeAdded _ _) = ''hive.node_added''"
| "event_name (NodeRemoved _) = ''hive.node_removed''"
| "event_name (MessageBlocked _ _) = ''hive.message_blocked''"
| "event_name (MessageDelivered _ _) = ''hive.message_delivered''"
| "event_name (ChannelCreated _ _) = ''hive.channel_created''"
| "event_name (NodeOffline _) = ''hive.node_offline''"

record HiveService =
  hv_nodes :: "(string, HiveNode) jsmap"
  hv_channels :: "(string, DataChannel) jsmap"
  hv_routingTable :: "(string, string list) jsmap"
  hv_lastUpdated :: int
  hv_version :: int
  hv_store :: "HiveMessage list"
  hv_messageQueue :: "(MessagePriority, nat list) jsmap"
  hv_messageHistory :: "nat list"
  hv_eventHandlers :: "(string, nat list) jsmap"
  hv_routingCache :: "(string, RoutingDecision) jsmap"
  hv_calls :: "(nat \<times> hive_event) list"

section \<open>Events\<close>

definition hv_on :: "string \<Rightarrow> nat \<Rightarrow> HiveService \<Rightarrow> HiveService" where
  "hv_on ev handler h =
     (let hs = (case jm_get (hv_eventHandlers h) ev of Some hs \<Rightarrow> hs | None \<Rightarrow> [])
      in h\<lparr>hv_eventHandlers := jm_set ev (if handler \<in> set hs then hs else hs @ [handler])
             (hv_eventHandlers h)\<rparr>)"

definition hv_emit :: "hive_event \<Rightarrow> HiveService \<Rightarrow> HiveService" where
  "hv_emit ev h =
     (case jm_get (hv_eventHandlers h) (event_name ev) of
        None \<Rightarrow> h
      | Some hs \<Rightarrow> h\<lparr>hv_calls := hv_calls h @ map (\<lambda>x. (x, ev)) hs\<rparr>)"

section \<open>Nodes\<close>

definition zero_metrics :: "int \<Rightarrow> NodeMetrics" where
  "zero_metrics now =
     \<lparr>nm_messagesRouted = 0, nm_messagesDropped = 0, nm_averageLatency = 0, nm_peakLoad = 0,
      nm_errorRate = 0, nm_lastReset = now\<rparr>"

record NodeConfig =
  nc_role :: BeeRole
  nc_capacity :: "rat option"
  nc_specialisations :: "DataClassification list option"
  nc_allowedUserTypes :: "UserType list option"
  nc_location :: "string option"
  nc_latency :: "rat option"
  nc_throughput :: "rat option"

definition hv_updateRoutingTable :: "int \<Rightarrow> HiveService \<Rightarrow> HiveService" where
  "hv_updateRoutingTable now h =
     h\<lparr>hv_routingTable :=
         map (\<lambda>i. (i, filter (\<lambda>nid. nid \<noteq> i) (jm_keys (hv_nodes h)))) (jm_keys (hv_nodes h)),
       hv_lastUpdated := now, hv_version := hv_version h + 1\<rparr>"

definition hv_addNode :: "int \<Rightarrow> string \<Rightarrow> NodeConfig \<Rightarrow> HiveService \<Rightarrow> HiveService" where
  "hv_addNode now newId config h =
     (let node =
        \<lparr>hn_id = newId, hn_role = nc_role config, hn_status = ACTIVE,
         hn_capacity = dflt (nc_capacity config) 1, hn_load = 0,
         hn_specialisations = dflt (nc_specialisations config) [INTERNAL],
         hn_allowedUserTypes = dflt (nc_allowedUserTypes config) [STANDARD_USER],
         hn_location = dflt (nc_location config) ''eu-west-1'',
         hn_latency = dflt (nc_latency config) 5,
         hn_throughput = dflt (nc_throughput config) 10000,
         hn_uptime = 100, hn_lastHeartbeat = now, hn_connectedNodes = [],
         hn_metrics = zero_metrics now\<rparr>
      in hv_emit (NodeAdded newId (nc_role config))
           (hv_updateRoutingTable now (h\<lparr>hv_nodes := jm_set newId node (hv_nodes h)\<rparr>)))"

definition hv_removeNode :: "int \<Rightarrow> string \<Rightarrow> HiveService \<Rightarrow> HiveService" where
  "hv_removeNode now nodeId h =
     hv_emit (NodeRemoved nodeId)
       (hv_updateRoutingTable now (h\<lparr>hv_nodes := jm_delete nodeId (hv_nodes h)\<rparr>))"

record NodeHealth =
  nh_nodeId :: string
  nh_role :: BeeRole
  nh_status :: ChannelStatus
  nh_load :: rat
  nh_latency :: rat
  nh_uptime :: rat
  nh_healthy :: bool
  nh_lastHeartbeat :: int

definition hv_getNodeHealth :: "HiveService \<Rightarrow> (string, NodeHealth) jsmap" where
  "hv_getNodeHealth h =
     jm_map (\<lambda>i node. \<lparr>nh_nodeId = i, nh_role = hn_role node, nh_status = hn_status node,
               nh_load = hn_load node, nh_latency = hn_latency node, nh_uptime = hn_uptime node,
               nh_healthy = (hn_status node = ACTIVE \<and> hn_load node < 9 / 10),
               nh_lastHeartbeat = hn_lastHeartbeat node\<rparr>) (hv_nodes h)"

section \<open>Clearance\<close>

fun getAllowedClassifications :: "UserType \<Rightarrow> DataClassification list" where
  "getAllowedClassifications SUPER_ADMIN = [PUBLIC, INTERNAL, CONFIDENTIAL, CLASSIFIED, VOID]"
| "getAllowedClassifications ORG_ADMIN = [PUBLIC, INTERNAL, CONFIDENTIAL, CLASSIFIED]"
| "getAllowedClassifications POWER_USER = [PUBLIC, INTERNAL, CONFIDENTIAL]"
| "getAllowedClassifications STANDARD_USER = [PUBLIC, INTERNAL]"
| "getAllowedClassifications BOT = [PUBLIC, INTERNAL]"
| "getAllowedClassifications AGENT = [PUBLIC, INTERNAL, CONFIDENTIAL]"
| "getAllowedClassifications GUEST = [PUBLIC]"
| "getAllowedClassifications SYSTEM = [PUBLIC, INTERNAL, CONFIDENTIAL, CLASSIFIED, VOID]"

text \<open>\<open>None\<close> when the check passes, else the reason.\<close>

definition hv_guardCheck :: "int \<Rightarrow> HiveMessage \<Rightarrow> string option" where
  "hv_guardCheck now m =
     (if ms_classification m \<notin> set (getAllowedClassifications (ms_sourceUserType m)) then
        Some (''User type '' @ user_str (ms_sourceUserType m) @ '' cannot access '' @
              class_str (ms_classification m) @ '' data'')
      else if ms_lighthouseTokenId m = [] then Some ''Missing Lighthouse token''
      else if (case ms_expiresAt m of Some t \<Rightarrow> now > t | None \<Rightarrow> False) then Some ''Message expired''
      else None)"

definition hv_validateClassification :: "HiveMessage \<Rightarrow> HiveMessage" where
  "hv_validateClassification m =
     (if ms_classification m = VOID \<and> ms_sourceUserType m \<noteq> SUPER_ADMIN \<and> ms_sourceUserType m \<noteq> SYSTEM
      then m\<lparr>ms_classification := CLASSIFIED\<rparr> else m)"

section \<open>Routing\<close>

definition hv_getEligibleNodes :: "HiveMessage \<Rightarrow> HiveService \<Rightarrow> HiveNode list" where
  "hv_getEligibleNodes m h =
     filter (\<lambda>node. hn_status node = ACTIVE \<and> hn_load node < 9 / 10 \<and>
                    ms_classification m \<in> set (hn_specialisations node) \<and>
                    ms_sourceUserType m \<in> set (hn_allowedUserTypes node)) (jm_values (hv_nodes h))"

definition hv_buildOptimalPath :: "HiveNode list \<Rightarrow> string list" where
  "hv_buildOptimalPath nodes =
     (if length nodes = 0 then []
      else (let guardNodes = filter (\<lambda>n. hn_role n = GUARD) nodes;
                workerNodes = filter (\<lambda>n. hn_role n = WORKER) nodes
            in (if length guardNodes > 0 then [hn_id (guardNodes ! 0)] else []) @
               (if length workerNodes > 0 then [hn_id (workerNodes ! 0)] else []) @
               (if length guardNodes > 1 then [hn_id (guardNodes ! 1)] else [])))"

definition hv_cacheKey :: "HiveMessage \<Rightarrow> string" where
  "hv_cacheKey m =
     user_str (ms_sourceUserType m) @ '':'' @ class_str (ms_classification m) @ '':'' @
     dflt (ms_destinationService m) ''undefined''"

text \<open>\<open>node?.latency || 5\<close>.\<close>

definition path_latency :: "HiveService \<Rightarrow> string list \<Rightarrow> rat" where
  "path_latency h path =
     sum_list (map (\<lambda>i. case jm_get (hv_nodes h) i of
                          Some n \<Rightarrow> if hn_latency n \<noteq> 0 then hn_latency n else 5
                        | None \<Rightarrow> 5) path)"

definition hv_newDecision :: "int \<Rightarrow> HiveMessage \<Rightarrow> HiveService \<Rightarrow> RoutingDecision" where
  "hv_newDecision now m h =
     (let path = hv_buildOptimalPath (hv_getEligibleNodes m h) in
      \<lparr>de_messageId = ms_id m, de_selectedPath = path, de_strategy = ADAPTIVE,
       de_reason = ''Adaptive routing for '' @ class_str (ms_classification m) @ '' data from '' @
                   user_str (ms_sourceUserType m),
       de_estimatedLatency = path_latency h path, de_decidedAt = now\<rparr>)"

definition hv_scoutPath :: "int \<Rightarrow> HiveMessage \<Rightarrow> HiveService \<Rightarrow> HiveService \<times> RoutingDecision" where
  "hv_scoutPath now m h =
     (case (case jm_get (hv_routingCache h) (hv_cacheKey m) of
              Some cached \<Rightarrow> if now - de_decidedAt cached < 30000 then Some cached else None
            | None \<Rightarrow> None) of
        Some cached \<Rightarrow> (h, cached)
      | None \<Rightarrow>
          (let decision = hv_newDecision now m h
           in (h\<lparr>hv_routingCache := jm_set (hv_cacheKey m) decision (hv_routingCache h)\<rparr>, decision)))"

definition encryptPayload :: "(jsval \<Rightarrow> string) \<Rightarrow> jsval \<Rightarrow> DataClassification \<Rightarrow> string" where
  "encryptPayload encode payload c =
     ''encrypted:'' @ (if class_ge c VOID then ''ML-KEM-1024'' else ''ML-KEM-768'') @ '':'' @ encode payload"

text \<open>The loop over the path: the message as it is passed on, and the nodes it loads.\<close>

fun hv_hops ::
  "(jsval \<Rightarrow> string) \<Rightarrow> int \<Rightarrow> string list \<Rightarrow> HiveMessage \<Rightarrow> (string, HiveNode) jsmap \<Rightarrow>
     HiveMessage \<times> (string, HiveNode) jsmap" where
  "hv_hops encode now [] m nodes = (m, nodes)"
| "hv_hops encode now (nodeId # path) m nodes =
     (case jm_get nodes nodeId of
        None \<Rightarrow> hv_hops encode now path m nodes
      | Some node \<Rightarrow>
          (let encrypts = (class_ge (ms_classification m) CONFIDENTIAL \<and>
                           \<not> str_truthy (ms_encryptedPayload m));
               m1 = (if encrypts then m\<lparr>ms_encryptedPayload :=
                        Some (encryptPayload encode (ms_payload m) (ms_classification m))\<rparr> else m);
               hop = \<lparr>mh_nodeId = nodeId, mh_nodeRole = hn_role node, mh_arrivedAt = now,
                      mh_departedAt = Some now, mh_latency = hn_latency node,
                      mh_action = (if encrypts then Encrypted else Forwarded)\<rparr>;
               m2 = m1\<lparr>ms_hops := ms_hops m1 @ [hop]\<rparr>;
               node1 = node\<lparr>hn_metrics := (hn_metrics node)\<lparr>nm_messagesRouted :=
                              nm_messagesRouted (hn_metrics node) + 1\<rparr>,
                            hn_load := min 1 (hn_load node + 1 / 1000)\<rparr>
           in hv_hops encode now path m2 (jm_set nodeId node1 nodes)))"

text \<open>\<open>processMessage\<close> of the message at position \<open>r\<close> of the store.\<close>

definition hv_processMessage :: "(jsval \<Rightarrow> string) \<Rightarrow> int \<Rightarrow> nat \<Rightarrow> HiveService \<Rightarrow> HiveService" where
  "hv_processMessage encode now r h =
     (let m = (hv_store h ! r)\<lparr>ms_status := ROUTING\<rparr>;
          (h1, decision) = hv_scoutPath now m h;
          m1 = m\<lparr>ms_routingPath := de_selectedPath decision, ms_status := IN_TRANSIT\<rparr>;
          (m2, nodes) = hv_hops encode now (de_selectedPath decision) m1 (hv_nodes h1);
          m3 = m2\<lparr>ms_status := DELIVERED, ms_deliveredAt := Some now\<rparr>
      in hv_emit (MessageDelivered (ms_id m3) (ms_routingPath m3))
           (h1\<lparr>hv_nodes := nodes, hv_store := (hv_store h1)[r := m3],
               hv_messageHistory := hv_messageHistory h1 @ [r]\<rparr>))"

record MessageInput =
  mi_sourceEntityId :: string
  mi_sourceUserType :: UserType
  mi_destinationEntityId :: "string option"
  mi_destinationService :: "string option"
  mi_classification :: DataClassification
  mi_priority :: MessagePriority
  mi_payload :: jsval
  mi_encryptedPayload :: "string option"
  mi_expiresAt :: "int option"
  mi_deliveredAt :: "int option"
  mi_lighthouseTokenId :: string

definition full_message :: "int \<Rightarrow> string \<Rightarrow> MessageInput \<Rightarrow> HiveMessage" where
  "full_message now mid i =
     \<lparr>ms_id = mid, ms_sourceEntityId = mi_sourceEntityId i, ms_sourceUserType = mi_sourceUserType i,
      ms_destinationEntityId = mi_destinationEntityId i,
      ms_destinationService = mi_destinationService i, ms_classification = mi_classification i,
      ms_priority = mi_priority i, ms_payload = mi_payload i,
      ms_encryptedPayload = mi_encryptedPayload i, ms_routingPath = [], ms_hops = [],
      ms_createdAt = now, ms_expiresAt = mi_expiresAt i, ms_deliveredAt = mi_deliveredAt i,
      ms_status = QUEUED, ms_lighthouseTokenId = mi_lighthouseTokenId i\<rparr>"

definition hv_queue_of :: "MessagePriority \<Rightarrow> HiveService \<Rightarrow> nat list" where
  "hv_queue_of p h = (case jm_get (hv_messageQueue h) p of Some q \<Rightarrow> q | None \<Rightarrow> [])"

definition hv_routeMessage ::
  "(jsval \<Rightarrow> string) \<Rightarrow> int \<Rightarrow> string \<Rightarrow> MessageInput \<Rightarrow> HiveService \<Rightarrow> HiveService \<times> nat" where
  "hv_routeMessage encode now mid i h =
     (let m = full_message now mid i; r = length (hv_store h) in
      case hv_guardCheck now m of
        Some reason \<Rightarrow>
          (hv_emit (MessageBlocked mid reason)
             (h\<lparr>hv_store := hv_store h @ [m\<lparr>ms_status := BLOCKED\<rparr>]\<rparr>), r)
      | None \<Rightarrow>
          (let h1 = h\<lparr>hv_store := hv_store h @ [hv_validateClassification m],
                      hv_messageQueue := jm_set (ms_priority m) (hv_queue_of (ms_priority m) h @ [r])
                                           (hv_messageQueue h)\<rparr>
           in (if priority_num (ms_priority m) \<le> priority_num HIGH
               then hv_processMessage encode now r h1 else h1, r)))"

text \<open>Each tick takes up to ten messages of every priority.\<close>

definition hv_processQueue :: "(jsval \<Rightarrow> string) \<Rightarrow> int \<Rightarrow> MessagePriority \<Rightarrow> HiveService \<Rightarrow> HiveService" where
  "hv_processQueue encode now p h =
     (let q = hv_queue_of p h;
          h1 = (if jm_has (hv_messageQueue h) p
                then h\<lparr>hv_messageQueue := jm_set p (drop 10 q) (hv_messageQueue h)\<rparr> else h)
      in fold (hv_processMessage encode now) (take 10 q) h1)"

definition hv_processQueues :: "(jsval \<Rightarrow> string) \<Rightarrow> int \<Rightarrow> HiveService \<Rightarrow> HiveService" where
  "hv_processQueues encode now h = fold (hv_processQueue encode now) all_priorities h"

section \<open>Channels and services\<close>

datatype hive_error = ChannelNotAllowed DataClassification

definition hv_createChannel ::
  "int \<Rightarrow> string \<Rightarrow> UserType \<Rightarrow> UserType \<Rightarrow> DataClassification \<Rightarrow> string \<Rightarrow> HiveService \<Rightarrow>
     hive_error + HiveService \<times> DataChannel" where
  "hv_createChannel now newId source target c name h =
     (if c \<notin> set (getAllowedClassifications source) \<or> c \<notin> set (getAllowedClassifications target)
      then Inl (ChannelNotAllowed c)
      else (let channel =
              \<lparr>ch_id = newId, ch_name = name, ch_sourceUserType = source, ch_targetUserType = target,
               ch_classification = c, ch_encrypted = class_ge c CONFIDENTIAL,
               ch_encryptionAlgorithm =
                 (if class_ge c VOID then ''ML-KEM-1024''
                  else if class_ge c CONFIDENTIAL then ''ML-KEM-768'' else ''AES-256-GCM''),
               ch_status = ACTIVE, ch_throughput = 0, ch_latency = 0, ch_createdAt = now,
               ch_lastUsedAt = now\<rparr>
            in Inr (hv_emit (ChannelCreated newId name)
                      (h\<lparr>hv_channels := jm_set newId channel (hv_channels h)\<rparr>), channel)))"

record ServiceInfo =
  si_name :: string
  si_endpoint :: string
  si_classification :: DataClassification
  si_minUserType :: UserType

datatype ServiceDiscoveryResult = Found ServiceInfo | NotFound string

definition hv_services :: "(string \<times> ServiceInfo) list" where
  "hv_services =
     [(''infinity-one'', \<lparr>si_name = ''Infinity-One'', si_endpoint = ''https://identity.trancendos.com'',
         si_classification = INTERNAL, si_minUserType = GUEST\<rparr>),
      (''lighthouse'', \<lparr>si_name = ''Lighthouse'', si_endpoint = ''https://lighthouse.trancendos.com'',
         si_classification = CLASSIFIED, si_minUserType = ORG_ADMIN\<rparr>),
      (''void'', \<lparr>si_name = ''The Void'', si_endpoint = ''https://void.trancendos.com'',
         si_classification = VOID, si_minUserType = SUPER_ADMIN\<rparr>),
      (''royal-bank'', \<lparr>si_name = ''Royal Bank of Arcadia'', si_endpoint = ''https://rba.trancendos.com'',
         si_classification = CONFIDENTIAL, si_minUserType = STANDARD_USER\<rparr>),
      (''arcadian-exchange'', \<lparr>si_name = ''Arcadian Exchange'',
         si_endpoint = ''https://aex.trancendos.com'', si_classification = INTERNAL,
         si_minUserType = STANDARD_USER\<rparr>),
      (''icebox'', \<lparr>si_name = ''IceBox'', si_endpoint = ''https://icebox.trancendos.com'',
         si_classification = CLASSIFIED, si_minUserType = ORG_ADMIN\<rparr>)]"

definition discoverService :: "string \<Rightarrow> UserType \<Rightarrow> ServiceDiscoveryResult" where
  "discoverService serviceName userType =
     (case map_of hv_services serviceName of
        None \<Rightarrow> NotFound ''Service not found''
      | Some service \<Rightarrow>
          if si_classification service \<notin> set (getAllowedClassifications userType)
          then NotFound (''Access denied: insufficient clearance for '' @ serviceName)
          else Found service)"

section \<open>Health, metrics and maintenance\<close>

definition hv_getTotalQueueDepth :: "HiveService \<Rightarrow> int" where
  "hv_getTotalQueueDepth h = sum_list (map (\<lambda>q. int (length q)) (jm_values (hv_messageQueue h)))"

definition hv_history :: "HiveService \<Rightarrow> HiveMessage list" where
  "hv_history h = map (\<lambda>r. hv_store h ! r) (hv_messageHistory h)"

definition hv_calculateThroughput :: "int \<Rightarrow> HiveService \<Rightarrow> int" where
  "hv_calculateThroughput now h =
     int (length (filter (\<lambda>m. case ms_deliveredAt m of Some t \<Rightarrow> now - t < 1000 | None \<Rightarrow> False)
       (hv_history h)))"

definition hv_calculateAverageLatency :: "HiveService \<Rightarrow> rat" where
  "hv_calculateAverageLatency h =
     (let delivered = filter (\<lambda>m. ms_deliveredAt m \<noteq> None) (hv_history h) in
      if length delivered = 0 then 0
      else of_int (sum_list (map (\<lambda>m. dflt (ms_deliveredAt m) 0 - ms_createdAt m) delivered))
             / of_nat (length delivered))"

definition hv_calculateErrorRate :: "HiveService \<Rightarrow> rat" where
  "hv_calculateErrorRate h =
     (if length (hv_messageHistory h) = 0 then 0
      else of_nat (length (filter (\<lambda>m. ms_status m = FAILED \<or> ms_status m = BLOCKED) (hv_history h)))
             / of_nat (length (hv_messageHistory h)))"

datatype hive_status = Healthy | Degraded | Critical

record HiveHealthReport =
  hr_status :: hive_status
  hr_totalNodes :: int
  hr_activeNodes :: int
  hr_degradedNodes :: int
  hr_offlineNodes :: int
  hr_averageLoad :: rat
  hr_averageLatency :: rat
  hr_messageQueueDepth :: int
  hr_messagesPerSecond :: int
  hr_topologyVersion :: int
  hr_lastUpdated :: int

definition count_status :: "ChannelStatus \<Rightarrow> HiveNode list \<Rightarrow> nat" where
  "count_status st nodes = length (filter (\<lambda>n. hn_status n = st) nodes)"

definition hv_getHiveHealth :: "int \<Rightarrow> HiveService \<Rightarrow> HiveHealthReport" where
  "hv_getHiveHealth now h =
     (let nodes = jm_values (hv_nodes h); n = of_nat (length nodes) :: rat;
          offline = count_status OFFLINE nodes; degraded = count_status DEGRADED nodes
      in \<lparr>hr_status = (if of_nat offline > n * (3 / 10) then Critical
                       else if of_nat degraded > n * (2 / 10) then Degraded else Healthy),
          hr_totalNodes = int (length nodes), hr_activeNodes = int (count_status ACTIVE nodes),
          hr_degradedNodes = int degraded, hr_offlineNodes = int offline,
          hr_averageLoad = (if length nodes > 0 then sum_list (map hn_load nodes) / n else 0),
          hr_averageLatency = (if length nodes > 0 then sum_list (map hn_latency nodes) / n else 0),
          hr_messageQueueDepth = hv_getTotalQueueDepth h,
          hr_messagesPerSecond = hv_calculateThroughput now h,
          hr_topologyVersion = hv_version h, hr_lastUpdated = hv_lastUpdated h\<rparr>)"

record HiveMetrics =
  hx_totalNodes :: int
  hx_activeNodes :: int
  hx_totalMessages :: int
  hx_messagesPerSecond :: int
  hx_averageLatency :: rat
  hx_errorRate :: rat
  hx_nodesByRole :: "(BeeRole, int) jsmap"
  hx_classificationBreakdown :: "(DataClassification, int) jsmap"
  hx_userTypeBreakdown :: "(UserType, int) jsmap"

text \<open>\<open>rec[k] = (rec[k] || 0) + 1\<close> for each key in turn.\<close>

definition count_keys :: "'k list \<Rightarrow> ('k, int) jsmap" where
  "count_keys ks = fold (\<lambda>k m. jm_set k (num_or (jm_get m k) 0 + 1) m) ks []"

definition hv_getMetrics :: "int \<Rightarrow> HiveService \<Rightarrow> HiveMetrics" where
  "hv_getMetrics now h =
     \<lparr>hx_totalNodes = int (jm_size (hv_nodes h)),
      hx_activeNodes = int (count_status ACTIVE (jm_values (hv_nodes h))),
      hx_totalMessages = int (length (hv_messageHistory h)),
      hx_messagesPerSecond = hv_calculateThroughput now h,
      hx_averageLatency = hv_calculateAverageLatency h, hx_errorRate = hv_calculateErrorRate h,
      hx_nodesByRole = count_keys (map hn_role (jm_values (hv_nodes h))),
      hx_classificationBreakdown = count_keys (map ms_classification (hv_history h)),
      hx_userTypeBreakdown = count_keys (map ms_sourceUserType (hv_history h))\<rparr>"

text \<open>The number of items cleaned; the duration is the clock's business.\<close>

definition hv_cleanup :: "int \<Rightarrow> HiveService \<Rightarrow> HiveService \<times> int" where
  "hv_cleanup now h =
     (let expired = (\<lambda>r. case ms_expiresAt (hv_store h ! r) of Some t \<Rightarrow> now > t | None \<Rightarrow> False);
          stale = (\<lambda>key d. now - de_decidedAt d > 300000);
          nodes = jm_map (\<lambda>i n. if now - nm_lastReset (hn_metrics n) > 86400000
                                then n\<lparr>hn_metrics := zero_metrics now\<rparr> else n) (hv_nodes h);
          cleaned = length (filter expired (hv_messageHistory h)) +
                    length (filter (\<lambda>(k, d). stale k d) (hv_routingCache h))
      in (h\<lparr>hv_messageHistory := filter (\<lambda>r. \<not> expired r) (hv_messageHistory h),
            hv_routingCache := jm_delete_if stale (hv_routingCache h), hv_nodes := nodes\<rparr>,
          int cleaned))"

definition hv_monitorNode :: "int \<Rightarrow> HiveNode \<Rightarrow> HiveNode" where
  "hv_monitorNode now n =
     (let n1 = (if now - hn_lastHeartbeat n > 30000 then n\<lparr>hn_status := OFFLINE\<rparr> else n)
      in n1\<lparr>hn_lastHeartbeat := now, hn_load := max 0 (hn_load n1 - 1 / 100)\<rparr>)"

definition hv_monitorHealth :: "int \<Rightarrow> HiveService \<Rightarrow> HiveService" where
  "hv_monitorHealth now h =
     fold hv_emit
       (map (\<lambda>n. NodeOffline (hn_id n))
         (filter (\<lambda>n. now - hn_lastHeartbeat n > 30000) (jm_values (hv_nodes h))))
       (h\<lparr>hv_nodes := jm_map (\<lambda>i n. hv_monitorNode now n) (hv_nodes h)\<rparr>)"

section \<open>The constructor\<close>

definition node_config ::
  "BeeRole \<Rightarrow> rat \<Rightarrow> DataClassification list \<Rightarrow> UserType list \<Rightarrow> string \<Rightarrow> NodeConfig" where
  "node_config role cap specs users loc =
     \<lparr>nc_role = role, nc_capacity = Some cap, nc_specialisations = Some specs,
      nc_allowedUserTypes = Some users, nc_location = Some loc, nc_latency = None, nc_throughput = None\<rparr>"

definition default_topology :: "NodeConfig list" where
  "default_topology =
     [node_config QUEEN 1 all_classifications all_user_types ''eu-west-1''] @
     map (\<lambda>i. node_config WORKER (8 / 10) [PUBLIC, INTERNAL] [STANDARD_USER, POWER_USER, BOT, AGENT]
                (''eu-west-'' @ nat_str (i + 1))) [0..<5] @
     map (\<lambda>i. node_config GUARD (9 / 10) all_classifications all_user_types
                (''eu-west-'' @ nat_str (i + 1))) [0..<3] @
     map (\<lambda>i. node_config SCOUT (7 / 10) [PUBLIC, INTERNAL] all_user_types
                (''eu-west-'' @ nat_str (i + 1))) [0..<2] @
     [node_config NURSE (5 / 10) [INTERNAL] [SYSTEM] ''eu-west-1'',
      node_config DRONE (3 / 10) [INTERNAL] [SYSTEM] ''eu-west-1'']"

definition empty_hive :: "int \<Rightarrow> HiveService" where
  "empty_hive now =
     \<lparr>hv_nodes = [], hv_channels = [], hv_routingTable = [], hv_lastUpdated = now, hv_version = 1,
      hv_store = [], hv_messageQueue = map (\<lambda>p. (p, [])) all_priorities, hv_messageHistory = [],
      hv_eventHandlers = [], hv_routingCache = [], hv_calls = []\<rparr>"

definition hv_initialiseDefaultTopology :: "int \<Rightarrow> string list \<Rightarrow> HiveService \<Rightarrow> HiveService" where
  "hv_initialiseDefaultTopology now newIds h =
     fold (\<lambda>(i, config). hv_addNode now i config) (zip newIds default_topology) h"

definition new_HiveService :: "int \<Rightarrow> string list \<Rightarrow> HiveService" where
  "new_HiveService now newIds = hv_initialiseDefaultTopology now newIds (empty_hive now)"

section \<open>Histories\<close>

datatype hive_op =
    H_addNode int string NodeConfig
  | H_removeNode int string
  | H_route int string MessageInput
  | H_queues int
  | H_channel int string UserType UserType DataClassification string
  | H_cleanup int
  | H_monitor int
  | H_on string nat

fun hv_apply :: "(jsval \<Rightarrow> string) \<Rightarrow> hive_op \<Rightarrow> HiveService \<Rightarrow> HiveService" where
  "hv_apply encode (H_addNode now i config) h = hv_addNode now i config h"
| "hv_apply encode (H_removeNode now i) h = hv_removeNode now i h"
| "hv_apply encode (H_route now mid i) h = fst (hv_routeMessage encode now mid i h)"
| "hv_apply encode (H_queues now) h = hv_processQueues encode now h"
| "hv_apply encode (H_channel now i s t c n) h =
     (case hv_createChannel now i s t c n h of Inl e \<Rightarrow> h | Inr (h', ch) \<Rightarrow> h')"
| "hv_apply encode (H_cleanup now) h = fst (hv_cleanup now h)"
| "hv_apply encode (H_monitor now) h = hv_monitorHealth now h"
| "hv_apply encode (H_on ev x) h = hv_on ev x h"

definition hv_run :: "(jsval \<Rightarrow> string) \<Rightarrow> int \<Rightarrow> string list \<Rightarrow> hive_op list \<Rightarrow> HiveService" where
  "hv_run encode now newIds ops = fold (hv_apply encode) ops (new_HiveService now newIds)"

section \<open>Separation\<close>

text \<open>What a message of the store may be: refused, or cleared for its classification and carrying a
  token. Queues and history refer to cleared messages only.\<close>

definition msg_cleared :: "HiveMessage \<Rightarrow> bool" where
  "msg_cleared m \<longleftrightarrow>
     ms_classification m \<in> set (getAllowedClassifications (ms_sourceUserType m)) \<and>
     ms_lighthouseTokenId m \<noteq> []"

definition cleared_refs :: "HiveMessage list \<Rightarrow> nat list \<Rightarrow> bool" where
  "cleared_refs store rs \<longleftrightarrow>
     (\<forall>r \<in> set rs. r < length store \<and> msg_cleared (store ! r) \<and> ms_status (store ! r) \<noteq> BLOCKED)"

definition hv_inv :: "HiveService \<Rightarrow> bool" where
  "hv_inv h \<longleftrightarrow>
     cleared_refs (hv_store h) (hv_messageHistory h) \<and>
     (\<forall>p. cleared_refs (hv_store h) (hv_queue_of p h)) \<and>
     (\<forall>r < length (hv_store h). ms_status (hv_store h ! r) = DELIVERED \<longrightarrow> msg_cleared (hv_store h ! r)) \<and>
     (\<forall>i c. jm_get (hv_channels h) i = Some c \<longrightarrow>
        ch_classification c \<in> set (getAllowedClassifications (ch_sourceUserType c)) \<and>
        ch_classification c \<in> set (getAllowedClassifications (ch_targetUserType c)))"

text \<open>The fields a step must leave alone for the invariant to carry over.\<close>

definition same_messages :: "HiveService \<Rightarrow> HiveService \<Rightarrow> bool" where
  "same_messages h h' \<longleftrightarrow>
     hv_store h' = hv_store h \<and> hv_messageQueue h' = hv_messageQueue h \<and>
     set (hv_messageHistory h') \<subseteq> set (hv_messageHistory h) \<and> hv_channels h' = hv_channels h"

lemma hv_inv_same: "hv_inv h \<Longrightarrow> same_messages h h' \<Longrightarrow> hv_inv h'"
  by (auto simp: hv_inv_def same_messages_def cleared_refs_def hv_queue_of_def)

lemma hv_emit_simps [simp]:
  "hv_store (hv_emit ev h) = hv_store h" "hv_messageQueue (hv_emit ev h) = hv_messageQueue h"
  "hv_messageHistory (hv_emit ev h) = hv_messageHistory h" "hv_channels (hv_emit ev h) = hv_channels h"
  "hv_nodes (hv_emit ev h) = hv_nodes h" "hv_routingCache (hv_emit ev h) = hv_routingCache h"
  by (simp_all add: hv_emit_def split: option.split)

lemma fold_hv_emit_simps [simp]:
  "hv_store (fold hv_emit evs h) = hv_store h" "hv_messageQueue (fold hv_emit evs h) = hv_messageQueue h"
  "hv_messageHistory (fold hv_emit evs h) = hv_messageHistory h"
  "hv_channels (fold hv_emit evs h) = hv_channels h"
  by (induction evs arbitrary: h) simp_all

lemma hv_queue_of_emit [simp]: "hv_queue_of p (hv_emit ev h) = hv_queue_of p h"
  by (simp add: hv_queue_of_def)

lemma guard_cleared: "hv_guardCheck now m = None \<Longrightarrow> msg_cleared m"
  by (auto simp: hv_guardCheck_def msg_cleared_def split: if_splits)

text \<open>The downgrade of \<open>validateClassification\<close> is unreachable: the guard has refused already.\<close>

lemma validate_after_guard: "hv_guardCheck now m = None \<Longrightarrow> hv_validateClassification m = m"
  by (cases "ms_sourceUserType m") (auto simp: hv_guardCheck_def hv_validateClassification_def split: if_splits)

lemma hv_hops_keeps:
  "(m', nodes') = hv_hops encode now path m nodes \<Longrightarrow>
     ms_classification m' = ms_classification m \<and> ms_sourceUserType m' = ms_sourceUserType m \<and>
     ms_lighthouseTokenId m' = ms_lighthouseTokenId m \<and> ms_id m' = ms_id m \<and>
     ms_routingPath m' = ms_routingPath m \<and> ms_payload m' = ms_payload m"
  by (induction encode now path m nodes rule: hv_hops.induct) (auto simp: Let_def split: option.splits)

lemma hv_scoutPath_simps [simp]:
  "hv_store (fst (hv_scoutPath now m h)) = hv_store h"
  "hv_messageQueue (fst (hv_scoutPath now m h)) = hv_messageQueue h"
  "hv_messageHistory (fst (hv_scoutPath now m h)) = hv_messageHistory h"
  "hv_channels (fst (hv_scoutPath now m h)) = hv_channels h"
  "hv_nodes (fst (hv_scoutPath now m h)) = hv_nodes h"
  by (simp_all add: hv_scoutPath_def Let_def split: option.split)

lemma hv_process_shape:
  "\<exists>m. hv_store (hv_processMessage encode now r h) = (hv_store h)[r := m] \<and>
     ms_classification m = ms_classification (hv_store h ! r) \<and>
     ms_sourceUserType m = ms_sourceUserType (hv_store h ! r) \<and>
     ms_lighthouseTokenId m = ms_lighthouseTokenId (hv_store h ! r) \<and> ms_status m = DELIVERED"
  "hv_messageHistory (hv_processMessage encode now r h) = hv_messageHistory h @ [r]"
  "hv_messageQueue (hv_processMessage encode now r h) = hv_messageQueue h"
  "hv_channels (hv_processMessage encode now r h) = hv_channels h"
proof -
  let ?m = "(hv_store h ! r)\<lparr>ms_status := ROUTING\<rparr>"
  obtain h1 d where sp: "hv_scoutPath now ?m h = (h1, d)" by (cases "hv_scoutPath now ?m h")
  note h1 = hv_scoutPath_simps [of now ?m h, unfolded sp, simplified]
  let ?m1 = "?m\<lparr>ms_routingPath := de_selectedPath d, ms_status := IN_TRANSIT\<rparr>"
  obtain m2 nodes where hops: "(m2, nodes) = hv_hops encode now (de_selectedPath d) ?m1 (hv_nodes h1)"
    by (cases "hv_hops encode now (de_selectedPath d) ?m1 (hv_nodes h1)") auto
  note m2 = hv_hops_keeps [OF hops]
  have eq: "hv_processMessage encode now r h =
      hv_emit (MessageDelivered (ms_id m2) (ms_routingPath m2))
        (h1\<lparr>hv_nodes := nodes,
            hv_store := (hv_store h1)[r := m2\<lparr>ms_status := DELIVERED, ms_deliveredAt := Some now\<rparr>],
            hv_messageHistory := hv_messageHistory h1 @ [r]\<rparr>)"
    using sp hops [symmetric] by (simp add: hv_processMessage_def Let_def)
  show "\<exists>m. hv_store (hv_processMessage encode now r h) = (hv_store h)[r := m] \<and>
     ms_classification m = ms_classification (hv_store h ! r) \<and>
     ms_sourceUserType m = ms_sourceUserType (hv_store h ! r) \<and>
     ms_lighthouseTokenId m = ms_lighthouseTokenId (hv_store h ! r) \<and> ms_status m = DELIVERED"
    using m2 h1 by (intro exI [of _ "m2\<lparr>ms_status := DELIVERED, ms_deliveredAt := Some now\<rparr>"]) (simp add: eq)
  show "hv_messageHistory (hv_processMessage encode now r h) = hv_messageHistory h @ [r]"
    "hv_messageQueue (hv_processMessage encode now r h) = hv_messageQueue h"
    "hv_channels (hv_processMessage encode now r h) = hv_channels h"
    using h1 by (simp_all add: eq)
qed

lemma cleared_refs_process:
  assumes "cleared_refs (hv_store h) rs"
  shows "cleared_refs (hv_store (hv_processMessage encode now r h)) rs"
proof -
  obtain m where m: "hv_store (hv_processMessage encode now r h) = (hv_store h)[r := m]"
    "msg_cleared m = msg_cleared (hv_store h ! r)" "ms_status m = DELIVERED"
    using hv_process_shape(1) [of encode now r h] by (auto simp: msg_cleared_def)
  have "msg_cleared ((hv_store h)[r := m] ! q) \<and> ms_status ((hv_store h)[r := m] ! q) \<noteq> BLOCKED"
    if "q \<in> set rs" for q
    using that assms m by (cases "q = r") (auto simp: cleared_refs_def)
  then show ?thesis using assms by (auto simp: cleared_refs_def m)
qed

lemma hv_inv_process:
  assumes "hv_inv h" and "r < length (hv_store h)" and "msg_cleared (hv_store h ! r)"
  shows "hv_inv (hv_processMessage encode now r h)"
proof -
  obtain m where m: "hv_store (hv_processMessage encode now r h) = (hv_store h)[r := m]"
    "msg_cleared m" "ms_status m = DELIVERED"
    using hv_process_shape(1) [of encode now r h] assms(3) by (auto simp: msg_cleared_def)
  have "cleared_refs (hv_store (hv_processMessage encode now r h)) (hv_messageHistory h @ [r])"
    using cleared_refs_process [of h "hv_messageHistory h" encode now r] assms m
    by (auto simp: cleared_refs_def hv_inv_def)
  moreover have "cleared_refs (hv_store (hv_processMessage encode now r h)) (hv_queue_of p h)" for p
    by (rule cleared_refs_process) (use assms(1) in \<open>simp add: hv_inv_def\<close>)
  moreover have "msg_cleared (hv_store (hv_processMessage encode now r h) ! s)"
    if "s < length (hv_store (hv_processMessage encode now r h))"
      "ms_status (hv_store (hv_processMessage encode now r h) ! s) = DELIVERED" for s
    using that assms(1) m by (cases "s = r") (auto simp: hv_inv_def)
  ultimately show ?thesis
    using assms(1) by (simp add: hv_inv_def hv_process_shape(2-4) hv_queue_of_def)
qed

lemma hv_inv_fold_process:
  "hv_inv h \<Longrightarrow> cleared_refs (hv_store h) rs \<Longrightarrow> hv_inv (fold (hv_processMessage encode now) rs h)"
proof (induction rs arbitrary: h)
  case Nil
  then show ?case by simp
next
  case (Cons r rs)
  have "cleared_refs (hv_store h) rs" using Cons.prems(2) by (simp add: cleared_refs_def)
  from Cons.IH [OF hv_inv_process cleared_refs_process [OF this]] Cons.prems show ?case
    by (simp add: cleared_refs_def)
qed

lemma hv_inv_processQueue: "hv_inv h \<Longrightarrow> hv_inv (hv_processQueue encode now p h)"
proof -
  assume inv: "hv_inv h"
  have "cleared_refs (hv_store h) (hv_queue_of p h)" using inv by (simp add: hv_inv_def)
  then have refs: "cleared_refs (hv_store h) (take 10 (hv_queue_of p h))"
    "cleared_refs (hv_store h) (drop 10 (hv_queue_of p h))"
    by (auto simp: cleared_refs_def dest: in_set_takeD in_set_dropD)
  let ?h = "if jm_has (hv_messageQueue h) p
    then h\<lparr>hv_messageQueue := jm_set p (drop 10 (hv_queue_of p h)) (hv_messageQueue h)\<rparr> else h"
  have "hv_inv ?h" using inv refs(2) by (auto simp: hv_inv_def hv_queue_of_def)
  then show ?thesis
    using hv_inv_fold_process [of ?h "take 10 (hv_queue_of p h)"] refs(1)
    by (simp add: hv_processQueue_def Let_def split: if_splits)
qed

lemma hv_inv_processQueues: "hv_inv h \<Longrightarrow> hv_inv (hv_processQueues encode now h)"
  by (simp add: hv_processQueues_def all_priorities_def hv_inv_processQueue)

lemma cleared_refs_append: "cleared_refs store rs \<Longrightarrow> cleared_refs (store @ xs) rs"
  by (auto simp: cleared_refs_def nth_append)

lemma hv_inv_store:
  assumes "hv_inv h" and "ms_status m \<noteq> DELIVERED"
  shows "hv_inv (h\<lparr>hv_store := hv_store h @ [m]\<rparr>)"
  using assms by (auto simp: hv_inv_def hv_queue_of_def nth_append less_Suc_eq intro: cleared_refs_append)

lemma full_message_fields:
  "ms_status (full_message now mid i) = QUEUED"
  "ms_classification (full_message now mid i) = mi_classification i"
  "ms_sourceUserType (full_message now mid i) = mi_sourceUserType i"
  "ms_lighthouseTokenId (full_message now mid i) = mi_lighthouseTokenId i"
  "ms_priority (full_message now mid i) = mi_priority i"
  "ms_expiresAt (full_message now mid i) = mi_expiresAt i"
  "ms_encryptedPayload (full_message now mid i) = mi_encryptedPayload i"
  "ms_payload (full_message now mid i) = mi_payload i" "ms_hops (full_message now mid i) = []"
  by (simp_all add: full_message_def)

definition hv_enqueue :: "HiveMessage \<Rightarrow> HiveService \<Rightarrow> HiveService" where
  "hv_enqueue m h = h\<lparr>hv_store := hv_store h @ [m],
     hv_messageQueue := jm_set (ms_priority m) (hv_queue_of (ms_priority m) h @ [length (hv_store h)])
                          (hv_messageQueue h)\<rparr>"

lemma hv_inv_enqueue:
  assumes "hv_inv h" and "msg_cleared m" and "ms_status m = QUEUED"
  shows "hv_inv (hv_enqueue m h)"
proof -
  have "cleared_refs (hv_store h @ [m]) (hv_queue_of p h)" for p
    using assms(1) by (simp add: hv_inv_def cleared_refs_append)
  then have "cleared_refs (hv_store h @ [m]) (hv_queue_of p (hv_enqueue m h))" for p
    using assms(2,3) by (auto simp: hv_enqueue_def hv_queue_of_def cleared_refs_def)
  moreover have "hv_inv (h\<lparr>hv_store := hv_store h @ [m]\<rparr>)"
    by (rule hv_inv_store) (use assms in simp_all)
  ultimately show ?thesis by (simp add: hv_inv_def hv_enqueue_def)
qed

lemma routeMessage_unfold:
  "fst (hv_routeMessage encode now mid i h) =
     (case hv_guardCheck now (full_message now mid i) of
        Some reason \<Rightarrow> hv_emit (MessageBlocked mid reason)
          (h\<lparr>hv_store := hv_store h @ [(full_message now mid i)\<lparr>ms_status := BLOCKED\<rparr>]\<rparr>)
      | None \<Rightarrow>
          if priority_num (mi_priority i) \<le> 1
          then hv_processMessage encode now (length (hv_store h)) (hv_enqueue (full_message now mid i) h)
          else hv_enqueue (full_message now mid i) h)"
  by (simp add: hv_routeMessage_def Let_def full_message_fields validate_after_guard hv_enqueue_def
      split: option.split)

lemma hv_inv_route:
  assumes "hv_inv h"
  shows "hv_inv (fst (hv_routeMessage encode now mid i h))"
proof (cases "hv_guardCheck now (full_message now mid i)")
  case (Some reason)
  have "hv_inv (h\<lparr>hv_store := hv_store h @ [(full_message now mid i)\<lparr>ms_status := BLOCKED\<rparr>]\<rparr>)"
    by (rule hv_inv_store [OF assms]) simp
  then have "hv_inv (hv_emit (MessageBlocked mid reason)
      (h\<lparr>hv_store := hv_store h @ [(full_message now mid i)\<lparr>ms_status := BLOCKED\<rparr>]\<rparr>))"
    by (rule hv_inv_same) (simp add: same_messages_def)
  with Some show ?thesis by (simp add: routeMessage_unfold)
next
  case None
  let ?m = "full_message now mid i"
  have "hv_inv (hv_enqueue ?m h)"
    by (rule hv_inv_enqueue [OF assms guard_cleared [OF None]]) (simp add: full_message_fields)
  moreover have "length (hv_store h) < length (hv_store (hv_enqueue ?m h))"
    "hv_store (hv_enqueue ?m h) ! length (hv_store h) = ?m"
    by (simp_all add: hv_enqueue_def)
  ultimately show ?thesis
    using hv_inv_process [of "hv_enqueue ?m h" "length (hv_store h)"] guard_cleared [OF None] None
    by (simp add: routeMessage_unfold)
qed

lemma hv_inv_apply: "hv_inv h \<Longrightarrow> hv_inv (hv_apply encode op h)"
proof (cases op)
  case (H_channel now i s t c n)
  assume "hv_inv h"
  then show ?thesis
    by (auto simp: H_channel hv_createChannel_def Let_def hv_inv_def hv_queue_of_def)
qed (auto simp: hv_inv_route hv_inv_processQueues
      elim!: hv_inv_same
      simp: same_messages_def hv_addNode_def hv_removeNode_def hv_updateRoutingTable_def hv_cleanup_def
        hv_monitorHealth_def hv_on_def Let_def)

lemma hv_inv_new: "hv_inv (new_HiveService now newIds)"
proof -
  have "hv_inv (fold (\<lambda>(i, config). hv_addNode now i config) xs h)" if "hv_inv h" for xs h
    using that
  proof (induction xs arbitrary: h)
    case Nil
    then show ?case by simp
  next
    case (Cons x xs)
    obtain i c where x: "x = (i, c)" by (cases x)
    show ?case using Cons.IH [OF hv_inv_apply [OF Cons.prems, of "\<lambda>_. []" "H_addNode now i c"]] by (simp add: x)
  qed
  moreover have "hv_inv (empty_hive now)"
    by (simp add: hv_inv_def empty_hive_def cleared_refs_def hv_queue_of_def all_priorities_def jm_get_def)
  ultimately show ?thesis by (simp add: new_HiveService_def hv_initialiseDefaultTopology_def)
qed

lemma hv_inv_run: "hv_inv (hv_run encode now newIds ops)"
proof -
  have "hv_inv h \<Longrightarrow> hv_inv (fold (hv_apply encode) ops h)" for h
    by (induction ops arbitrary: h) (auto intro: hv_inv_apply)
  then show ?thesis by (simp add: hv_run_def hv_inv_new)
qed

text \<open>
  C10. Data separation: whatever is routed, queued, cleaned up or reconfigured, every message of the
  history is delivered data that its sender's user type is cleared for, under a token; and every
  channel carries a classification that both its ends are cleared for.
\<close>

theorem hive_separation:
  "(\<forall>m \<in> set (hv_history (hv_run encode now newIds ops)).
      ms_classification m \<in> set (getAllowedClassifications (ms_sourceUserType m)) \<and>
      ms_lighthouseTokenId m \<noteq> [] \<and> ms_status m \<noteq> BLOCKED) \<and>
   (\<forall>i c. jm_get (hv_channels (hv_run encode now newIds ops)) i = Some c \<longrightarrow>
      ch_classification c \<in> set (getAllowedClassifications (ch_sourceUserType c)) \<and>
      ch_classification c \<in> set (getAllowedClassifications (ch_targetUserType c)))"
  using hv_inv_run [of encode now newIds ops]
  by (auto simp: hv_inv_def hv_history_def cleared_refs_def msg_cleared_def)

definition demo_input :: "DataClassification \<Rightarrow> MessagePriority \<Rightarrow> MessageInput" where
  "demo_input c p =
     \<lparr>mi_sourceEntityId = ''e1'', mi_sourceUserType = SUPER_ADMIN, mi_destinationEntityId = None,
      mi_destinationService = Some ''void'', mi_classification = c, mi_priority = p,
      mi_payload = JStr ''x'', mi_encryptedPayload = None, mi_expiresAt = None, mi_deliveredAt = None,
      mi_lighthouseTokenId = ''tok''\<rparr>"

definition no_encode :: "jsval \<Rightarrow> string" where
  "no_encode v = ''b64''"

lemma demo_guard: "hv_guardCheck now (full_message now mid (demo_input c p)) = None"
  by (cases c) (simp_all add: hv_guardCheck_def full_message_def demo_input_def)

lemma run_route_history:
  assumes "hv_guardCheck now (full_message now mid i) = None" and "priority_num (mi_priority i) \<le> 1"
  shows "hv_messageHistory (hv_apply encode (H_route now mid i) h) =
         hv_messageHistory h @ [length (hv_store h)]"
  using assms by (simp add: routeMessage_unfold hv_process_shape hv_enqueue_def)

theorem hive_separation_witness:
  "\<exists>m. m \<in> set (hv_history (hv_run no_encode 0 [] [H_route 0 ''m1'' (demo_input VOID CRITICAL)])) \<and>
       ms_lighthouseTokenId m \<noteq> []"
proof -
  let ?h = "hv_run no_encode 0 [] [H_route 0 ''m1'' (demo_input VOID CRITICAL)]"
  have "hv_messageHistory ?h \<noteq> []"
    using run_route_history [OF demo_guard, of VOID CRITICAL no_encode 0 "''m1''" "new_HiveService 0 []"]
    by (simp add: hv_run_def demo_input_def)
  then have "hv_history ?h \<noteq> []" by (simp add: hv_history_def)
  then obtain m where "m \<in> set (hv_history ?h)" by (cases "hv_history ?h") auto
  with hive_separation [of no_encode 0 "[]" "[H_route 0 ''m1'' (demo_input VOID CRITICAL)]"]
  show ?thesis by blast
qed

definition may_carry :: "HiveMessage \<Rightarrow> HiveNode \<Rightarrow> bool" where
  "may_carry m n \<longleftrightarrow> hn_status n = ACTIVE \<and> hn_load n < 9 / 10 \<and>
     ms_classification m \<in> set (hn_specialisations n) \<and>
     ms_sourceUserType m \<in> set (hn_allowedUserTypes n)"

lemma eligible_may_carry:
  "set (hv_getEligibleNodes m h) = {n \<in> set (jm_values (hv_nodes h)). may_carry m n}"
  by (auto simp: hv_getEligibleNodes_def may_carry_def)

text \<open>
  A freshly decided path uses only nodes that may carry the message: each is a guard or a worker
  of the colony, active, below its load limit, specialised in the classification and open to the
  sender's user type; and the path starts at a guard whenever an eligible guard exists.
\<close>

theorem hive_path_eligible:
  assumes "path = de_selectedPath (hv_newDecision now m h)"
  shows "(\<forall>i \<in> set path. \<exists>n \<in> set (jm_values (hv_nodes h)).
            hn_id n = i \<and> hn_role n \<in> {GUARD, WORKER} \<and> may_carry m n) \<and>
         ((\<exists>n \<in> set (jm_values (hv_nodes h)). hn_role n = GUARD \<and> may_carry m n) \<longrightarrow>
            (\<exists>n \<in> set (jm_values (hv_nodes h)). path \<noteq> [] \<and> hn_id n = hd path \<and>
               hn_role n = GUARD \<and> may_carry m n))"
proof -
  define E where "E = hv_getEligibleNodes m h"
  define G where "G = filter (\<lambda>n. hn_role n = GUARD) E"
  define W where "W = filter (\<lambda>n. hn_role n = WORKER) E"
  have path: "path = (if E = [] then [] else
      (if G \<noteq> [] then [hn_id (G ! 0)] else []) @ (if W \<noteq> [] then [hn_id (W ! 0)] else []) @
      (if 1 < length G then [hn_id (G ! 1)] else []))"
    by (simp add: assms hv_newDecision_def hv_buildOptimalPath_def Let_def E_def G_def W_def)
  have set_E: "set E = {n \<in> set (jm_values (hv_nodes h)). may_carry m n}"
    by (simp add: E_def eligible_may_carry)
  have guard: "n \<in> set (jm_values (hv_nodes h)) \<and> hn_role n = GUARD \<and> may_carry m n" if "n \<in> set G" for n
    using that set_E by (simp add: G_def)
  have worker: "n \<in> set (jm_values (hv_nodes h)) \<and> hn_role n = WORKER \<and> may_carry m n" if "n \<in> set W" for n
    using that set_E by (simp add: W_def)
  have "\<exists>n \<in> set (jm_values (hv_nodes h)). hn_id n = i \<and> hn_role n \<in> {GUARD, WORKER} \<and> may_carry m n"
    if "i \<in> set path" for i
  proof -
    from that consider "G \<noteq> []" "i = hn_id (G ! 0)" | "W \<noteq> []" "i = hn_id (W ! 0)"
      | "1 < length G" "i = hn_id (G ! 1)"
      unfolding path by (auto split: if_splits)
    then obtain n where "n \<in> set G \<union> set W" "i = hn_id n"
      by cases (auto intro: nth_mem)
    with guard worker show ?thesis by blast
  qed
  moreover have "\<exists>n \<in> set (jm_values (hv_nodes h)). path \<noteq> [] \<and> hn_id n = hd path \<and>
               hn_role n = GUARD \<and> may_carry m n"
    if "n \<in> set (jm_values (hv_nodes h))" "hn_role n = GUARD" "may_carry m n" for n
  proof -
    have "n \<in> set E" "n \<in> set G" using that set_E by (simp_all add: G_def)
    then have "E \<noteq> []" "G \<noteq> []" by auto
    then have "path \<noteq> []" "hd path = hn_id (G ! 0)" "G ! 0 \<in> set G" by (simp_all add: path)
    with guard show ?thesis by metis
  qed
  ultimately show ?thesis by blast
qed

lemma class_ge_CONFIDENTIAL: "class_ge c CONFIDENTIAL = (c \<noteq> CLASSIFIED)"
  by (cases c) (simp_all add: class_ge_def)

lemma hv_hops_encrypted:
  "str_truthy (ms_encryptedPayload m) \<Longrightarrow>
     ms_encryptedPayload (fst (hv_hops encode now path m nodes)) = ms_encryptedPayload m"
  by (induction path arbitrary: m nodes) (auto simp: Let_def split: option.split)

lemma hv_hops_plain:
  "ms_classification m = CLASSIFIED \<Longrightarrow>
     ms_encryptedPayload (fst (hv_hops encode now path m nodes)) = ms_encryptedPayload m"
  by (induction path arbitrary: m nodes)
     (auto simp: Let_def class_ge_CONFIDENTIAL split: option.split)

text \<open>
  Encryption at the boundary follows the spelling of the classifications, not their level: a
  message that passes at least one node leaves with an encrypted payload exactly if it is not
  CLASSIFIED, and the same holds of the flag of channels.
\<close>

theorem hive_boundary_encryption:
  assumes "hv_hops encode now path m nodes = (m', nodes')" and "ms_encryptedPayload m = None"
    and "\<exists>i \<in> set path. jm_has nodes i"
  shows "(ms_encryptedPayload m' \<noteq> None) = (ms_classification m \<noteq> CLASSIFIED)"
proof (cases "ms_classification m = CLASSIFIED")
  case True
  from hv_hops_plain [OF this, of encode now path nodes] assms(1,2) True show ?thesis by simp
next
  case False
  have "ms_encryptedPayload (fst (hv_hops encode now path m nodes)) \<noteq> None"
    using assms(2,3) False
  proof (induction path arbitrary: m nodes)
    case Nil
    then show ?case by simp
  next
    case (Cons i path)
    show ?case
    proof (cases "jm_get nodes i")
      case None
      then have "\<exists>i \<in> set path. jm_has nodes i" using Cons.prems(2) by (auto simp: jm_has_def)
      with Cons None show ?thesis by simp
    next
      case (Some n)
      with Cons.prems show ?thesis
        by (auto simp: Let_def class_ge_CONFIDENTIAL str_truthy_def encryptPayload_def hv_hops_encrypted)
    qed
  qed
  with False assms(1) show ?thesis by simp
qed

definition demo_node :: HiveNode where
  "demo_node = \<lparr>hn_id = ''g'', hn_role = GUARD, hn_status = ACTIVE, hn_capacity = 1, hn_load = 0,
     hn_specialisations = all_classifications, hn_allowedUserTypes = all_user_types,
     hn_location = ''x'', hn_latency = 5, hn_throughput = 1, hn_uptime = 100, hn_lastHeartbeat = 0,
     hn_connectedNodes = [], hn_metrics = zero_metrics 0\<rparr>"

theorem hive_path_eligible_witness:
  "de_selectedPath (hv_newDecision 0 (full_message 0 ''m1'' (demo_input VOID CRITICAL))
     ((empty_hive 0)\<lparr>hv_nodes := [(''g'', demo_node)]\<rparr>)) \<noteq> []"
proof -
  let ?m = "full_message 0 ''m1'' (demo_input VOID CRITICAL)"
  let ?h = "(empty_hive 0)\<lparr>hv_nodes := [(''g'', demo_node)]\<rparr>"
  have "hn_role demo_node = GUARD \<and> may_carry ?m demo_node"
    by (simp add: demo_node_def may_carry_def full_message_def demo_input_def all_classifications_def
        all_user_types_def)
  with hive_path_eligible [OF refl, of 0 ?m ?h] show ?thesis by (auto simp: jm_values_def)
qed

theorem hive_boundary_encryption_witness:
  "ms_encryptedPayload (fst (hv_hops no_encode 0 [''g'']
     (full_message 0 ''m1'' (demo_input CLASSIFIED CRITICAL)) [(''g'', demo_node)])) = None"
  using hive_boundary_encryption [of no_encode 0 "[''g'']"
      "full_message 0 ''m1'' (demo_input CLASSIFIED CRITICAL)" "[(''g'', demo_node)]"]
  by (cases "hv_hops no_encode 0 [''g''] (full_message 0 ''m1'' (demo_input CLASSIFIED CRITICAL))
        [(''g'', demo_node)]")
     (simp add: jm_has_def jm_get_def full_message_def demo_input_def)

lemma fold_process_history:
  "hv_messageHistory (fold (hv_processMessage encode now) rs h) = hv_messageHistory h @ rs"
  "hv_messageQueue (fold (hv_processMessage encode now) rs h) = hv_messageQueue h"
  by (induction rs arbitrary: h) (simp_all add: hv_process_shape)

lemma processQueue_history:
  "hv_messageHistory (hv_processQueue encode now p h) = hv_messageHistory h @ take 10 (hv_queue_of p h)"
  "p' \<noteq> p \<Longrightarrow> hv_queue_of p' (hv_processQueue encode now p h) = hv_queue_of p' h"
  by (simp_all add: hv_processQueue_def Let_def fold_process_history hv_queue_of_def)

lemma processQueues_history:
  "hv_messageHistory (hv_processQueues encode now h) =
     hv_messageHistory h @ concat (map (\<lambda>p. take 10 (hv_queue_of p h)) all_priorities)"
  by (simp add: hv_processQueues_def all_priorities_def processQueue_history)

lemma cleared_refs_fresh: "cleared_refs store rs \<Longrightarrow> length store \<notin> set rs"
  by (auto simp: cleared_refs_def)

text \<open>
  Urgent messages are delivered twice: a critical or high-priority message that passes the guard
  is processed at once but stays in its queue, so the next tick of the queues processes it again and
  it stands in the history two times.
\<close>

theorem hive_double_delivery:
  assumes "h = hv_run encode t0 newIds ops" and "hv_guardCheck now (full_message now mid i) = None"
    and "mi_priority i = CRITICAL \<or> mi_priority i = HIGH"
    and "length (hv_queue_of (mi_priority i) h) < 10"
  shows "count_list (hv_messageHistory (hv_processQueues encode now'
           (fst (hv_routeMessage encode now mid i h)))) (length (hv_store h)) = 2"
proof -
  let ?r = "length (hv_store h)" and ?h = "fst (hv_routeMessage encode now mid i h)"
  have inv: "hv_inv h" unfolding assms(1) by (rule hv_inv_run)
  have fresh: "?r \<notin> set (hv_messageHistory h)" "?r \<notin> set (hv_queue_of p h)" for p
    using inv by (auto simp: hv_inv_def dest: cleared_refs_fresh)
  have h: "hv_messageHistory ?h = hv_messageHistory h @ [?r]"
    using run_route_history [OF assms(2), of encode h] assms(3) by auto
  have q: "hv_queue_of p ?h = hv_queue_of p h @ (if p = mi_priority i then [?r] else [])" for p
    using assms(2,3) by (auto simp: routeMessage_unfold hv_queue_of_def hv_process_shape hv_enqueue_def
        full_message_fields)
  have "count_list (take 10 (hv_queue_of p h @ xs)) ?r = count_list (take (10 - length (hv_queue_of p h)) xs) ?r"
    for p xs using fresh(2) [of p] by (auto simp: count_list_0_iff dest: in_set_takeD)
  then have "count_list (take 10 (hv_queue_of p ?h)) ?r = (if p = mi_priority i then 1 else 0)" for p
    using assms(4) by (auto simp: q)
  moreover have "count_list (hv_messageHistory h) ?r = 0"
    using fresh(1) by (simp add: count_list_0_iff)
  ultimately show ?thesis
    using assms(3) by (auto simp: processQueues_history h all_priorities_def)
qed

theorem hive_double_delivery_witness:
  "count_list (hv_messageHistory (hv_processQueues no_encode 100
     (fst (hv_routeMessage no_encode 0 ''m1'' (demo_input VOID CRITICAL) (hv_run no_encode 0 [] [])))))
     (length (hv_store (hv_run no_encode 0 [] []))) = 2"
  by (rule hive_double_delivery [OF refl demo_guard])
     (simp_all add: demo_input_def hv_run_def new_HiveService_def hv_initialiseDefaultTopology_def
       empty_hive_def hv_queue_of_def all_priorities_def jm_get_def)

end
