(* ===== verification/ZeroTrust.thy ===== *)
theory ZeroTrust
  imports Prelude
begin

text \<open>
  \<open>packages/iam-middleware/src/zeroTrust.ts\<close>: the context extracted from the Cloudflare headers and
  the zero-trust middleware with its two presets.

  A request is its header list and the path name of its URL. \<open>Headers.get\<close> ignores the case of
  names and joins repeated headers. A response is its status, text and extra header; \<open>None\<close> lets the
  request pass.
\<close>

section \<open>Requests and context\<close>

record ZtRequest =
  zr_headers :: "(string \<times> string) list"
  zr_pathname :: string

fun join_values :: "string list \<Rightarrow> string" where
  "join_values [] = []"
| "join_values [v] = v"
| "join_values (v # vs) = v @ '', '' @ join_values vs"

definition headers_get :: "(string \<times> string) list \<Rightarrow> string \<Rightarrow> string option" where
  "headers_get hs name =
     (let vs = map snd (filter (\<lambda>(n, v). js_toLowerCase n = js_toLowerCase name) hs)
      in if vs = [] then None else Some (join_values vs))"

datatype DevicePostureStatus = healthy | unhealthy | unknown

datatype AccessPolicy = policy_allow | policy_deny | mfa_required

record ZeroTrustContext =
  zc_deviceId :: "string option"
  zc_devicePosture :: DevicePostureStatus
  zc_country :: "string option"
  zc_mfaVerified :: bool
  zc_accessPolicy :: AccessPolicy
  zc_riskScore :: int

text \<open>\<open>a || b\<close> for strings that may be \<open>null\<close>, with \<open>undefined\<close> last.\<close>

definition or_string :: "string option \<Rightarrow> string option \<Rightarrow> string option" where
  "or_string a b = (if str_truthy a then a else b)"

definition truthy_or_none :: "string option \<Rightarrow> string option" where
  "truthy_or_none a = (if str_truthy a then a else None)"

definition extractZeroTrustContext :: "ZtRequest \<Rightarrow> ZeroTrustContext" where
  "extractZeroTrustContext request =
     (let hget = headers_get (zr_headers request);
          devicePostureHeader =
            str_or (or_string (hget ''cf-device-posture'') (hget ''CF-Device-Posture'')) ''unknown'';
          devicePosture =
            (if js_toLowerCase devicePostureHeader = ''healthy'' then healthy
             else if js_toLowerCase devicePostureHeader = ''unhealthy'' then unhealthy else unknown);
          country = truthy_or_none (or_string (hget ''cf-ipcountry'') (hget ''CF-IPCountry''));
          mfaVerified =
            (str_truthy (hget ''cf-access-jwt-assertion'') \<or> str_truthy (hget ''CF-Access-Jwt-Assertion''));
          riskScore = (if devicePosture = unhealthy then 40 else 0) +
                      (if devicePosture = unknown then 20 else 0) + (if \<not> mfaVerified then 10 else 0);
          accessPolicy = (if devicePosture = unhealthy then policy_deny
                          else if \<not> mfaVerified then mfa_required else policy_allow)
      in \<lparr>zc_deviceId = truthy_or_none (hget ''cf-device-id''), zc_devicePosture = devicePosture,
          zc_country = country, zc_mfaVerified = mfaVerified, zc_accessPolicy = accessPolicy,
          zc_riskScore = riskScore\<rparr>)"

section \<open>The middleware\<close>

record ZeroTrustOptions =
  zo_mfaRoutes :: "string list option"
  zo_healthyDeviceRoutes :: "string list option"
  zo_allowedCountries :: "string list option"
  zo_blockedCountries :: "string list option"
  zo_minRiskScore :: "int option"
  zo_enforceOnAllRoutes :: "bool option"

datatype ZtResponse = ZtResponse (zt_status: int) (zt_text: string) (zt_authenticate: "string option")

definition createZeroTrustMiddleware :: "ZeroTrustOptions \<Rightarrow> ZtRequest \<Rightarrow> ZtResponse option" where
  "createZeroTrustMiddleware options request =
     (let mfaRoutes = dflt (zo_mfaRoutes options) [];
          healthyDeviceRoutes = dflt (zo_healthyDeviceRoutes options) [];
          allowedCountries = dflt (zo_allowedCountries options) [];
          blockedCountries = dflt (zo_blockedCountries options) [];
          minRiskScore = dflt (zo_minRiskScore options) 70;
          pathname = zr_pathname request;
          context = extractZeroTrustContext request
      in if length blockedCountries > 0 \<and>
            (case zc_country context of Some c \<Rightarrow> c \<in> set blockedCountries | None \<Rightarrow> False)
         then Some (ZtResponse 403 ''Access denied from your location'' None)
         else if length allowedCountries > 0 \<and>
            (case zc_country context of Some c \<Rightarrow> c \<notin> set allowedCountries | None \<Rightarrow> False)
         then Some (ZtResponse 403 ''Access denied from your location'' None)
         else if zc_riskScore context > 100 - minRiskScore
         then Some (ZtResponse 403 ''Access denied due to high risk score'' None)
         else if list_ex (\<lambda>route. js_startsWith pathname route) healthyDeviceRoutes \<and>
                 zc_devicePosture context \<noteq> healthy
         then Some (ZtResponse 403 ''Healthy device posture required'' None)
         else if list_ex (\<lambda>route. js_startsWith pathname route) mfaRoutes \<and>
                 \<not> zc_mfaVerified context
         then Some (ZtResponse 401 ''MFA verification required'' (Some ''Cloudflare-Access''))
         else None)"

definition no_zt_options :: ZeroTrustOptions where
  "no_zt_options =
     \<lparr>zo_mfaRoutes = None, zo_healthyDeviceRoutes = None, zo_allowedCountries = None,
      zo_blockedCountries = None, zo_minRiskScore = None, zo_enforceOnAllRoutes = None\<rparr>"

definition adminZeroTrustMiddleware :: "ZtRequest \<Rightarrow> ZtResponse option" where
  "adminZeroTrustMiddleware =
     createZeroTrustMiddleware (no_zt_options\<lparr>zo_mfaRoutes := Some [''/admin''],
       zo_healthyDeviceRoutes := Some [''/admin''], zo_enforceOnAllRoutes := Some True,
       zo_minRiskScore := Some 80\<rparr>)"

definition apiZeroTrustMiddleware :: "ZtRequest \<Rightarrow> ZtResponse option" where
  "apiZeroTrustMiddleware =
     createZeroTrustMiddleware (no_zt_options\<lparr>zo_healthyDeviceRoutes := Some [''/api''],
       zo_minRiskScore := Some 60\<rparr>)"

section \<open>Properties\<close>

text \<open>The risk score is a function of the posture and the presence of the access token.\<close>

lemma risk_score:
  "zc_riskScore (extractZeroTrustContext r) =
     (case zc_devicePosture (extractZeroTrustContext r) of healthy \<Rightarrow> 0 | unhealthy \<Rightarrow> 40 | unknown \<Rightarrow> 20)
     + (if zc_mfaVerified (extractZeroTrustContext r) then 0 else 10)"
  by (simp add: extractZeroTrustContext_def Let_def)

lemma zero_trust_passes:
  "createZeroTrustMiddleware opts r = None \<longleftrightarrow>
     (let cx = extractZeroTrustContext r in
      (case zc_country cx of
         None \<Rightarrow> True
       | Some c \<Rightarrow> c \<notin> set (dflt (zo_blockedCountries opts) []) \<and>
                  (dflt (zo_allowedCountries opts) [] \<noteq> [] \<longrightarrow>
                   c \<in> set (dflt (zo_allowedCountries opts) []))) \<and>
      zc_riskScore cx \<le> 100 - dflt (zo_minRiskScore opts) 70 \<and>
      (\<forall>route \<in> set (dflt (zo_healthyDeviceRoutes opts) []).
         js_startsWith (zr_pathname r) route \<longrightarrow> zc_devicePosture cx = healthy) \<and>
      (\<forall>route \<in> set (dflt (zo_mfaRoutes opts) []).
         js_startsWith (zr_pathname r) route \<longrightarrow> zc_mfaVerified cx))"
  unfolding createZeroTrustMiddleware_def Let_def list_ex_iff
  by (cases "zc_country (extractZeroTrustContext r)") auto

text \<open>
  C11. The admin preset protects the admin routes: a request that passes has a device that is not
  unhealthy, and under \<open>/admin\<close> a healthy device and a verified second factor; conversely every
  request with both passes.
\<close>

theorem admin_zero_trust_protects:
  "adminZeroTrustMiddleware r = None \<longleftrightarrow>
     (let cx = extractZeroTrustContext r in
      (zc_devicePosture cx = healthy \<and> zc_mfaVerified cx) \<or>
      (\<not> js_startsWith (zr_pathname r) ''/admin'' \<and>
       (zc_devicePosture cx = healthy \<or> (zc_devicePosture cx = unknown \<and> zc_mfaVerified cx))))"
  unfolding adminZeroTrustMiddleware_def zero_trust_passes Let_def risk_score
  by (cases "zc_devicePosture (extractZeroTrustContext r)"; cases "zc_country (extractZeroTrustContext r)")
     (auto simp: no_zt_options_def dflt_def)

text \<open>
  \<open>minRiskScore\<close> is a strictness, not a score that is allowed: raising it only refuses more,
  so a request that passes at a high setting passes at every lower one.
\<close>

theorem min_risk_score_is_strictness:
  assumes "createZeroTrustMiddleware (opts\<lparr>zo_minRiskScore := Some hi\<rparr>) r = None" and "lo \<le> hi"
  shows "createZeroTrustMiddleware (opts\<lparr>zo_minRiskScore := Some lo\<rparr>) r = None"
  using assms unfolding zero_trust_passes Let_def
  by (cases "zc_country (extractZeroTrustContext r)") (simp_all add: dflt_def)

theorem min_risk_score_is_strictness_witness:
  "createZeroTrustMiddleware (no_zt_options\<lparr>zo_minRiskScore := Some 0\<rparr>)
     \<lparr>zr_headers = [(''Cf-Device-Posture'', ''Healthy'')], zr_pathname = ''/x''\<rparr> = None"
  by (rule min_risk_score_is_strictness [where hi = 80]) (code_simp, simp)

end
