(* ===== verification/Iam.thy ===== *)
theory Iam
  imports Prelude
begin

text \<open>
  \<open>packages/iam-middleware/src/index.ts\<close>: token verification, the local permission check, the IAM
  middleware and the route guards.

  Base64 and the URL-safe alphabet are defined here byte for byte. Parameters stand for what the
  file takes from the host: \<open>hmac alg secret text\<close> (bytes of the digest), \<open>parse_alg\<close> and
  \<open>parse_payload\<close> (\<open>JSON.parse\<close> of a decoded part and its fields, \<open>None\<close> when it throws),
  \<open>sha512\<close> (hex digest). Requests are read as the declared interface; a payload is read at its
  declared type. A response is the status and body that the guard sends, or \<open>Next\<close>.
\<close>

section \<open>Base64\<close>

definition b64_alphabet :: string where
  "b64_alphabet = ''ABCDEFGHIJKLMNOPQRSTUVWXYZabcdefghijklmnopqrstuvwxyz0123456789+/''"

definition b64_char :: "nat \<Rightarrow> char" where
  "b64_char n = b64_alphabet ! (n mod 64)"

text \<open>\<open>Buffer.toString('base64')\<close>.\<close>

fun base64 :: "nat list \<Rightarrow> string" where
  "base64 [] = []"
| "base64 [a] = [b64_char (a div 4), b64_char (a mod 4 * 16), CHR ''='', CHR ''='']"
| "base64 [a, b] =
     [b64_char (a div 4), b64_char (a mod 4 * 16 + b div 16), b64_char (b mod 16 * 4), CHR ''='']"
| "base64 (a # b # c # bs) =
     [b64_char (a div 4), b64_char (a mod 4 * 16 + b div 16), b64_char (b mod 16 * 4 + c div 64),
      b64_char (c mod 64)] @ base64 bs"

text \<open>\<open>Buffer.from(str)\<close>: the UTF-8 bytes of a string (code units below 256).\<close>

definition utf8 :: "string \<Rightarrow> nat list" where
  "utf8 s = concat (map (\<lambda>ch. let n = of_char ch :: nat in
              if n < 128 then [n] else [192 + n div 64, 128 + n mod 64]) s)"

text \<open>The three \<open>replace\<close> calls of \<open>base64UrlEncode\<close>.\<close>

definition url_safe :: "string \<Rightarrow> string" where
  "url_safe s = filter (\<lambda>ch. ch \<noteq> CHR ''='')
     (map (\<lambda>ch. if ch = CHR ''+'' then CHR ''-'' else if ch = CHR ''/'' then CHR ''_'' else ch) s)"

definition base64UrlEncode :: "string \<Rightarrow> string" where
  "base64UrlEncode str = url_safe (base64 (utf8 str))"

text \<open>\<open>base64UrlDecode\<close> up to the host's decoder \<open>b64decode\<close>.\<close>

definition base64UrlDecode :: "(string \<Rightarrow> string) \<Rightarrow> string \<Rightarrow> string" where
  "base64UrlDecode b64decode str =
     (let base64 = map (\<lambda>ch. if ch = CHR ''-'' then CHR ''+'' else if ch = CHR ''_'' then CHR ''/'' else ch) str;
          padded = base64 @ replicate ((4 - length base64 mod 4) mod 4) CHR ''=''
      in b64decode padded)"

section \<open>Tokens\<close>

datatype jwt_algorithm = HS256 | HS512

fun alg_str :: "jwt_algorithm \<Rightarrow> string" where
  "alg_str HS256 = ''HS256''"
| "alg_str HS512 = ''HS512''"

record IAMTokenPayload =
  tp_sub :: string
  tp_email :: string
  tp_role :: string
  tp_jti :: string
  tp_iat :: int
  tp_exp :: "int option"
  tp_active_role :: "string option"
  tp_active_role_level :: "int option"
  tp_subscription_tier :: "string option"
  tp_permissions :: "string list option"

record jwt_host =
  host_hmac :: "jwt_algorithm \<Rightarrow> string \<Rightarrow> string \<Rightarrow> nat list"
  host_b64decode :: "string \<Rightarrow> string"
  host_parse_alg :: "string \<Rightarrow> string option option"
  host_parse_payload :: "string \<Rightarrow> IAMTokenPayload option"

text \<open>The expected signature: the Base64 text of the digest is itself encoded once more.\<close>

definition expectedSig :: "jwt_host \<Rightarrow> jwt_algorithm \<Rightarrow> string \<Rightarrow> string \<Rightarrow> string" where
  "expectedSig host alg secret signingInput =
     base64UrlEncode (base64 (host_hmac host alg secret signingInput))"

definition verifyJWT ::
  "jwt_host \<Rightarrow> int \<Rightarrow> string \<Rightarrow> string \<Rightarrow> jwt_algorithm \<Rightarrow> IAMTokenPayload option" where
  "verifyJWT host now token secret alg =
     (case js_split CHR ''.'' token of
        [headerB64, payloadB64, signatureB64] \<Rightarrow>
          (case host_parse_alg host (base64UrlDecode (host_b64decode host) headerB64) of
             None \<Rightarrow> None
           | Some header_alg \<Rightarrow>
               if header_alg \<noteq> Some (alg_str alg) then None
               else if expectedSig host alg secret (headerB64 @ ''.'' @ payloadB64) \<noteq> signatureB64
               then None
               else (case host_parse_payload host (base64UrlDecode (host_b64decode host) payloadB64) of
                       None \<Rightarrow> None
                     | Some payload \<Rightarrow>
                         if (case tp_exp payload of None \<Rightarrow> False
                             | Some e \<Rightarrow> e \<noteq> 0 \<and> now > e * 1000) then None
                         else Some payload))
      | _ \<Rightarrow> None)"

section \<open>Local permission check\<close>

definition evaluatePermissionLocal :: "string list \<Rightarrow> string \<Rightarrow> string \<Rightarrow> string \<Rightarrow> bool" where
  "evaluatePermissionLocal permissions namespace resource action =
     (let target = namespace @ '':'' @ resource @ '':'' @ action in
      list_ex (\<lambda>p.
        if p = ''*'' then True
        else if p = target then True
        else (let parts = js_split CHR '':'' p; targetParts = js_split CHR '':'' target in
              if length parts \<noteq> 3 then False
              else list_all (\<lambda>i. parts ! i = ''*'' \<or> (i < length targetParts \<and> parts ! i = targetParts ! i))
                     [0..<length parts])) permissions)"

section \<open>Requests, audit and responses\<close>

record IAMPrincipal =
  ip_userId :: string
  ip_email :: string
  ip_role :: string
  ip_roleLevel :: "int option"
  ip_activeRole :: "string option"
  ip_subscriptionTier :: "string option"
  ip_permissions :: "string list"
  ip_isNHI :: bool
  ip_serviceId :: "string option"

record IamRequest =
  ir_principal :: "IAMPrincipal option"
  ir_iamToken :: "string option"
  ir_requestId :: "string option"
  ir_authorization :: "string option"
  ir_serviceHeader :: "string option"
  ir_method :: string
  ir_path :: string

datatype audit_decision = AUDIT_ALLOW | AUDIT_DENY | AUDIT_UNAUTHENTICATED

fun decision_str :: "audit_decision \<Rightarrow> string" where
  "decision_str AUDIT_ALLOW = ''ALLOW''"
| "decision_str AUDIT_DENY = ''DENY''"
| "decision_str AUDIT_UNAUTHENTICATED = ''UNAUTHENTICATED''"

record audit_entry =
  ae_requestId :: string
  ae_serviceId :: string
  ae_principalId :: string
  ae_principalRole :: string
  ae_action :: string
  ae_resource :: string
  ae_decision :: audit_decision
  ae_reason :: string
  ae_timestamp :: int
  ae_integrityHash :: string

definition auditLog ::
  "(string \<Rightarrow> string) \<Rightarrow> int \<Rightarrow> string \<Rightarrow> string \<Rightarrow> IAMPrincipal option \<Rightarrow> string \<Rightarrow> string \<Rightarrow>
     audit_decision \<Rightarrow> string \<Rightarrow> audit_entry" where
  "auditLog sha512 now serviceId requestId who action resource decision reason =
     \<lparr>ae_requestId = requestId, ae_serviceId = serviceId,
      ae_principalId = str_or (map_option ip_userId who) ''anonymous'',
      ae_principalRole = str_or (map_option ip_role who) ''none'',
      ae_action = action, ae_resource = resource, ae_decision = decision, ae_reason = reason,
      ae_timestamp = now,
      ae_integrityHash = sha512 (requestId @ '':'' @
        (case who of Some p \<Rightarrow> ip_userId p | None \<Rightarrow> ''undefined'') @ '':'' @ action @ '':'' @
        resource @ '':'' @ decision_str decision @ '':'' @ int_str now)\<rparr>"

datatype iam_reply = Next | Reply int string "(string \<times> jsval) list"

definition opt_str :: "string option \<Rightarrow> jsval" where
  "opt_str s = (case s of Some t \<Rightarrow> JStr t | None \<Rightarrow> JUndef)"

definition err_reply :: "int \<Rightarrow> string \<Rightarrow> string \<Rightarrow> (string \<times> jsval) list \<Rightarrow> IamRequest \<Rightarrow> iam_reply" where
  "err_reply status err code extra req =
     Reply status code
       ([(''error'', JStr err), (''code'', JStr code)] @ extra @ [(''requestId'', opt_str (ir_requestId req))])"

section \<open>Route guards\<close>

text \<open>A guard answers a request and may write an audit entry.\<close>

type_synonym guard = "IamRequest \<Rightarrow> audit_entry list \<times> iam_reply"

definition unauthenticated :: guard where
  "unauthenticated req = ([], err_reply 401 ''Authentication required'' ''UNAUTHENTICATED'' [] req)"

definition requireAuth :: guard where
  "requireAuth req = (if ir_principal req = None then unauthenticated req else ([], Next))"

definition level_str :: "int option \<Rightarrow> string" where
  "level_str l = (case l of Some n \<Rightarrow> int_str n | None \<Rightarrow> ''null'')"

definition requireLevel :: "(string \<Rightarrow> string) \<Rightarrow> int \<Rightarrow> int \<Rightarrow> guard" where
  "requireLevel sha512 now maxLevel req =
     (case ir_principal req of
        None \<Rightarrow> unauthenticated req
      | Some p \<Rightarrow>
          (let level = ip_roleLevel p in
           if (case level of None \<Rightarrow> True | Some l \<Rightarrow> l > maxLevel) then
             ([auditLog sha512 now (str_or (ir_serviceHeader req) ''unknown'')
                 (str_or (ir_requestId req) ''unknown'') (Some p) (ir_method req) (ir_path req)
                 AUDIT_DENY (''Insufficient level: '' @ level_str level @ '' > '' @ int_str maxLevel)],
              err_reply 403 ''Insufficient privilege level'' ''INSUFFICIENT_LEVEL''
                [(''required'', JNum (of_int maxLevel)),
                 (''actual'', case level of Some l \<Rightarrow> JNum (of_int l) | None \<Rightarrow> JNull)] req)
           else ([], Next)))"

definition permission_str :: "string \<Rightarrow> string \<Rightarrow> string \<Rightarrow> string" where
  "permission_str namespace resource action = namespace @ '':'' @ resource @ '':'' @ action"

definition requirePermission :: "(string \<Rightarrow> string) \<Rightarrow> int \<Rightarrow> string \<Rightarrow> string \<Rightarrow> string \<Rightarrow> guard" where
  "requirePermission sha512 now namespace resource action req =
     (case ir_principal req of
        None \<Rightarrow> unauthenticated req
      | Some p \<Rightarrow>
          if \<not> evaluatePermissionLocal (ip_permissions p) namespace resource action then
            ([auditLog sha512 now (str_or (ir_serviceHeader req) ''unknown'')
                (str_or (ir_requestId req) ''unknown'') (Some p)
                (permission_str namespace resource action) (ir_path req) AUDIT_DENY
                ''Permission not in token claims''],
             err_reply 403 ''Permission denied'' ''PERMISSION_DENIED''
               [(''required'', JStr (permission_str namespace resource action))] req)
          else ([], Next))"

record PermissionRequirement =
  pq_namespace :: string
  pq_resource :: string
  pq_action :: string

definition requireAnyPermission :: "PermissionRequirement list \<Rightarrow> guard" where
  "requireAnyPermission requirements req =
     (case ir_principal req of
        None \<Rightarrow> unauthenticated req
      | Some p \<Rightarrow>
          if \<not> list_ex (\<lambda>q. evaluatePermissionLocal (ip_permissions p) (pq_namespace q)
                              (pq_resource q) (pq_action q)) requirements then
            ([], err_reply 403 ''Permission denied'' ''PERMISSION_DENIED''
               [(''required'', JArr 0 (map (\<lambda>q. JStr (permission_str (pq_namespace q) (pq_resource q)
                                                     (pq_action q))) requirements))] req)
          else ([], Next))"

definition requireNHI :: guard where
  "requireNHI req =
     (case ir_principal req of
        None \<Rightarrow> unauthenticated req
      | Some p \<Rightarrow> if \<not> ip_isNHI p then ([], err_reply 403 ''NHI access only'' ''HUMAN_NOT_ALLOWED'' [] req)
                  else ([], Next))"

definition requireHuman :: guard where
  "requireHuman req =
     (case ir_principal req of
        None \<Rightarrow> unauthenticated req
      | Some p \<Rightarrow> if ip_isNHI p then ([], err_reply 403 ''Human access only'' ''NHI_NOT_ALLOWED'' [] req)
                  else ([], Next))"

section \<open>The middleware\<close>

record IAMMiddlewareOptions =
  io_serviceId :: string
  io_jwtSecret :: "string option"
  io_algorithm :: "jwt_algorithm option"
  io_requireAuth :: "bool option"
  io_auditAll :: "bool option"
  io_meshAddress :: "string option"

text \<open>\<open>env_secret\<close> is the environment's default for the secret (empty when it has none).\<close>

definition iam_secret :: "IAMMiddlewareOptions \<Rightarrow> string \<Rightarrow> string" where
  "iam_secret opts env_secret = dflt (io_jwtSecret opts) env_secret"

definition iam_principal :: "string \<Rightarrow> IAMTokenPayload \<Rightarrow> IAMPrincipal" where
  "iam_principal serviceId payload =
     \<lparr>ip_userId = tp_sub payload, ip_email = tp_email payload, ip_role = tp_role payload,
      ip_roleLevel = tp_active_role_level payload, ip_activeRole = tp_active_role payload,
      ip_subscriptionTier = tp_subscription_tier payload,
      ip_permissions = dflt (tp_permissions payload) [],
      ip_isNHI = (tp_role payload = ''agent'' \<or> tp_role payload = ''bot'' \<or> tp_role payload = ''nhi''),
      ip_serviceId = (if tp_role payload = ''agent'' then Some serviceId else None)\<rparr>"

text \<open>The token, with the fallback from HS512 to HS256.\<close>

definition iam_payload ::
  "jwt_host \<Rightarrow> int \<Rightarrow> string \<Rightarrow> string \<Rightarrow> jwt_algorithm \<Rightarrow> IAMTokenPayload option" where
  "iam_payload host now token secret alg =
     (case verifyJWT host now token secret alg of
        Some payload \<Rightarrow> Some payload
      | None \<Rightarrow> if alg = HS512 then verifyJWT host now token secret HS256 else None)"

record iam_result =
  ix_request :: IamRequest
  ix_headers :: "(string \<times> string) list"
  ix_audit :: "audit_entry list"
  ix_reply :: iam_reply

definition iamMiddleware ::
  "jwt_host \<Rightarrow> (string \<Rightarrow> string) \<Rightarrow> string \<Rightarrow> IAMMiddlewareOptions \<Rightarrow> int \<Rightarrow> string \<Rightarrow> IamRequest \<Rightarrow> iam_result" where
  "iamMiddleware host sha512 env_secret opts now newId req0 =
     (let req = req0\<lparr>ir_requestId := Some newId\<rparr>;
          jwtSecret = iam_secret opts env_secret;
          algorithm = dflt (io_algorithm opts) HS512;
          required = dflt (io_requireAuth opts) False;
          auditAll = dflt (io_auditAll opts) False;
          headers = [(''X-Service-Id'', io_serviceId opts), (''X-Request-Id'', newId)] @
            (if str_truthy (io_meshAddress opts)
             then [(''X-Mesh-Address'', dflt (io_meshAddress opts) [])] else []) @
            [(''X-IAM-Version'', ''1.0'')];
          token = (case ir_authorization req of
                     Some h \<Rightarrow> if js_startsWith h ''Bearer '' then Some (drop 7 h) else None
                   | None \<Rightarrow> None);
          result = (\<lambda>r audit reply. \<lparr>ix_request = r, ix_headers = headers, ix_audit = audit, ix_reply = reply\<rparr>);
          audit = (\<lambda>who decision reason. if auditAll then
                     [auditLog sha512 now (io_serviceId opts) newId who (ir_method req) (ir_path req)
                        decision reason] else []);
          refuse = (\<lambda>code reason. if required
                      then result req (audit None AUDIT_UNAUTHENTICATED reason)
                             (err_reply 401 ''Unauthorized'' code [] req)
                      else result req [] Next)
      in if \<not> str_truthy token then refuse ''NO_TOKEN'' ''No token provided''
         else if jwtSecret = [] then
           result req [] (Reply 500 [] [(''error'', JStr ''IAM not configured''), (''requestId'', JStr newId)])
         else (case iam_payload host now (dflt token []) jwtSecret algorithm of
                 None \<Rightarrow> refuse ''INVALID_TOKEN'' ''Invalid or expired token''
               | Some payload \<Rightarrow>
                   (let who = iam_principal (io_serviceId opts) payload
                    in result (req\<lparr>ir_principal := Some who, ir_iamToken := token\<rparr>)
                         (audit (Some who) AUDIT_ALLOW ''Authenticated'') Next)))"

record IamHealth =
  ih_version :: string
  ih_algorithm :: string
  ih_status :: string
  ih_meshAddress :: "string option"
  ih_routingProtocol :: string

definition iamHealthStatus :: "string option \<Rightarrow> string option \<Rightarrow> string option \<Rightarrow> IamHealth" where
  "iamHealthStatus env_secret env_protocol meshAddress =
     \<lparr>ih_version = ''1.0'', ih_algorithm = ''HS512'',
      ih_status = (if str_truthy env_secret then ''configured'' else ''unconfigured''),
      ih_meshAddress = (if str_truthy meshAddress then meshAddress else None),
      ih_routingProtocol = str_or env_protocol ''static_port''\<rparr>"

section \<open>Base64 lengths\<close>

lemma b64_char_in: "b64_char n \<in> set b64_alphabet"
proof -
  have "length b64_alphabet = 64" by (simp add: b64_alphabet_def)
  then have "n mod 64 < length b64_alphabet" by simp
  then show ?thesis unfolding b64_char_def by (rule nth_mem)
qed

lemma b64_char_not [simp]: "b64_char n \<noteq> CHR ''=''"
proof -
  have "CHR ''='' \<notin> set b64_alphabet" by (simp add: b64_alphabet_def)
  then show ?thesis using b64_char_in [of n] by metis
qed

lemma base64_chars: "set (base64 bs) \<subseteq> insert CHR ''='' (set b64_alphabet)"
  by (induction bs rule: base64.induct) (auto simp: b64_char_in)

lemma length_base64: "length (base64 bs) = 4 * ((length bs + 2) div 3)"
proof (induction bs rule: base64.induct)
  case (4 a b c bs)
  have "(length bs + 3 + 2) div 3 = Suc ((length bs + 2) div 3)" by presburger
  with 4 show ?case by simp
qed simp_all

lemma length_url_safe: "length (url_safe s) = length (filter (\<lambda>ch. ch \<noteq> CHR ''='') s)"
  by (induction s) (simp_all add: url_safe_def)

lemma length_url_base64: "length (url_safe (base64 bs)) = (4 * length bs + 2) div 3"
proof -
  have "length (filter (\<lambda>ch. ch \<noteq> CHR ''='') (base64 bs)) = (4 * length bs + 2) div 3"
    by (induction bs rule: base64.induct) simp_all
  then show ?thesis by (simp add: length_url_safe)
qed

lemma utf8_ascii:
  "(\<And>ch. ch \<in> set s \<Longrightarrow> (of_char ch :: nat) < 128) \<Longrightarrow> utf8 s = map of_char s"
  by (induction s) (auto simp: utf8_def Let_def)

lemma base64_ascii:
  assumes "ch \<in> set (base64 bs)"
  shows "(of_char ch :: nat) < 128"
proof -
  have "\<forall>ch \<in> insert CHR ''='' (set b64_alphabet). (of_char ch :: nat) < 128"
    by (simp add: b64_alphabet_def)
  then show ?thesis using assms base64_chars [of bs] by blast
qed

lemma length_double_encoding:
  "length (base64UrlEncode (base64 bs)) = (16 * ((length bs + 2) div 3) + 2) div 3"
  using utf8_ascii [of "base64 bs", OF base64_ascii]
  by (simp add: base64UrlEncode_def length_url_base64 length_base64)

lemma encoded_lengths_differ:
  fixes n :: nat
  assumes "0 < n"
  shows "(16 * ((n + 2) div 3) + 2) div 3 \<noteq> (4 * n + 2) div 3"
proof -
  define q where "q = (n + 2) div 3"
  have q: "n \<le> 3 * q" "1 \<le> q" using assms unfolding q_def by linarith+
  have "(4 * n + 2) div 3 \<le> (12 * q + 2) div 3" by (rule div_le_mono) (use q in linarith)
  moreover have "(15 * q + 3) div 3 \<le> (16 * q + 2) div 3" by (rule div_le_mono) (use q in linarith)
  ultimately show ?thesis unfolding q_def [symmetric] using q by linarith
qed

text \<open>
  C12. No standard token is accepted: a token signed as RFC 7515 prescribes, with the URL-safe Base64
  text of the digest of its first two parts, is rejected whatever the digest, because the expected
  signature encodes that text a second time and is longer.
\<close>

theorem jwt_rejects_standard_tokens:
  assumes "CHR ''.'' \<notin> set headerB64" and "CHR ''.'' \<notin> set payloadB64"
    and "host_hmac host alg secret (headerB64 @ ''.'' @ payloadB64) \<noteq> []"
  shows "verifyJWT host now (headerB64 @ ''.'' @ payloadB64 @ ''.'' @
           url_safe (base64 (host_hmac host alg secret (headerB64 @ ''.'' @ payloadB64)))) secret alg = None"
proof -
  define n where "n = length (host_hmac host alg secret (headerB64 @ ''.'' @ payloadB64))"
  define sig where "sig = url_safe (base64 (host_hmac host alg secret (headerB64 @ ''.'' @ payloadB64)))"
  have "0 < n" using assms(3) by (simp add: n_def)
  then have "(16 * ((n + 2) div 3) + 2) div 3 \<noteq> (4 * n + 2) div 3" by (rule encoded_lengths_differ)
  then have "length (expectedSig host alg secret (headerB64 @ ''.'' @ payloadB64)) \<noteq> length sig"
    by (simp add: expectedSig_def length_double_encoding length_url_base64 n_def sig_def)
  then have ne: "expectedSig host alg secret (headerB64 @ ''.'' @ payloadB64) \<noteq> sig" by metis
  have split: "js_split CHR ''.'' (headerB64 @ ''.'' @ payloadB64 @ ''.'' @ sig) =
      headerB64 # payloadB64 # js_split CHR ''.'' sig"
    using assms(1,2) js_split_append_sep [of "CHR ''.''"] by simp
  show ?thesis
  proof (cases "js_split CHR ''.'' sig")
    case Nil
    then show ?thesis by simp
  next
    case (Cons w ws)
    show ?thesis
    proof (cases ws)
      case Nil
      then have "w = sig" using js_join_split [of "CHR ''.''" sig] Cons by simp
      with ne Cons Nil show ?thesis
        unfolding verifyJWT_def sig_def [symmetric] split by (auto split: option.split)
    next
      case (Cons x xs)
      with \<open>js_split CHR ''.'' sig = w # ws\<close> show ?thesis
        unfolding verifyJWT_def sig_def [symmetric] split by simp
    qed
  qed
qed

definition demo_payload :: IAMTokenPayload where
  "demo_payload = \<lparr>tp_sub = ''u1'', tp_email = ''u@x'', tp_role = ''user'', tp_jti = ''j'', tp_iat = 0,
     tp_exp = Some 100, tp_active_role = None, tp_active_role_level = Some 2,
     tp_subscription_tier = None, tp_permissions = Some [''hive:*:read'']\<rparr>"

definition demo_host :: jwt_host where
  "demo_host = \<lparr>host_hmac = (\<lambda>_ _ _. [1]), host_b64decode = id, host_parse_alg = (\<lambda>_. Some (Some ''HS512'')),
     host_parse_payload = (\<lambda>_. Some demo_payload)\<rparr>"

theorem jwt_rejects_standard_tokens_witness:
  "verifyJWT demo_host 0 (''h'' @ ''.'' @ ''p'' @ ''.'' @
     url_safe (base64 (host_hmac demo_host HS512 ''k'' (''h'' @ ''.'' @ ''p'')))) ''k'' HS512 = None"
  by (rule jwt_rejects_standard_tokens) (simp_all add: demo_host_def)

definition authentic :: "jwt_host \<Rightarrow> int \<Rightarrow> string \<Rightarrow> string \<Rightarrow> jwt_algorithm \<Rightarrow> IAMTokenPayload \<Rightarrow> bool" where
  "authentic host now secret token alg payload \<longleftrightarrow>
     (\<exists>h p. js_split CHR ''.'' token = [h, p, expectedSig host alg secret (h @ ''.'' @ p)] \<and>
        host_parse_alg host (base64UrlDecode (host_b64decode host) h) = Some (Some (alg_str alg)) \<and>
        host_parse_payload host (base64UrlDecode (host_b64decode host) p) = Some payload \<and>
        (\<forall>e. tp_exp payload = Some e \<and> e \<noteq> 0 \<longrightarrow> now \<le> e * 1000))"

lemma verifyJWT_authentic:
  "verifyJWT host now token secret alg = Some payload \<Longrightarrow> authentic host now secret token alg payload"
  by (fastforce simp: verifyJWT_def authentic_def split: list.splits option.splits if_splits)

text \<open>
  C13. A principal is authentic: the middleware attaches one only for a bearer token of three parts
  whose header names the configured algorithm (or HS256, when HS512 is configured), whose signature
  is the expected one under the configured secret, and which has not expired; its fields are those
  of the signed payload.
\<close>

theorem iam_principal_authentic:
  assumes "ir_principal req = None"
    and "ir_principal (ix_request (iamMiddleware host sha512 env_secret opts now newId req)) = Some who"
  shows "\<exists>token payload alg. ir_authorization req = Some (''Bearer '' @ token) \<and>
     iam_secret opts env_secret \<noteq> [] \<and>
     (alg = dflt (io_algorithm opts) HS512 \<or> (dflt (io_algorithm opts) HS512 = HS512 \<and> alg = HS256)) \<and>
     authentic host now (iam_secret opts env_secret) token alg payload \<and>
     who = iam_principal (io_serviceId opts) payload"
proof -
  obtain h where h: "ir_authorization req = Some h" "prefix ''Bearer '' h"
    using assms by (auto simp: iamMiddleware_def Let_def str_truthy_def split: option.splits if_splits)
  obtain token where token: "h = ''Bearer '' @ token" using h(2) by (auto simp: prefix_def)
  let ?secret = "iam_secret opts env_secret" and ?alg = "dflt (io_algorithm opts) HS512"
  obtain payload where pl: "?secret \<noteq> []" "iam_payload host now token ?secret ?alg = Some payload"
    "who = iam_principal (io_serviceId opts) payload"
    using assms h by (auto simp: iamMiddleware_def Let_def token str_truthy_def dflt_def
        split: option.splits if_splits)
  from pl(2) consider "verifyJWT host now token ?secret ?alg = Some payload"
    | "?alg = HS512" "verifyJWT host now token ?secret HS256 = Some payload"
    by (auto simp: iam_payload_def split: option.splits if_splits)
  then obtain alg where "alg = ?alg \<or> (?alg = HS512 \<and> alg = HS256)"
    "authentic host now ?secret token alg payload"
    by cases (auto dest: verifyJWT_authentic)
  with h(1) token pl(1,3) show ?thesis by blast
qed

definition demo_req :: IamRequest where
  "demo_req = \<lparr>ir_principal = None, ir_iamToken = None, ir_requestId = None,
     ir_authorization = Some ''Bearer h.p.QVE9PQ'', ir_serviceHeader = None, ir_method = ''GET'',
     ir_path = ''/''\<rparr>"

definition demo_iam_opts :: IAMMiddlewareOptions where
  "demo_iam_opts = \<lparr>io_serviceId = ''hive'', io_jwtSecret = Some ''k'', io_algorithm = None,
     io_requireAuth = None, io_auditAll = None, io_meshAddress = None\<rparr>"

lemma demo_accepted:
  "ir_principal (ix_request (iamMiddleware demo_host id [] demo_iam_opts 0 ''r1'' demo_req)) =
     Some (iam_principal ''hive'' demo_payload)"
  by code_simp

theorem iam_principal_authentic_witness:
  "\<exists>token payload alg. ir_authorization demo_req = Some (''Bearer '' @ token) \<and>
     authentic demo_host 0 ''k'' token alg payload"
  using iam_principal_authentic [OF _ demo_accepted]
  by (auto simp: demo_req_def iam_secret_def demo_iam_opts_def dflt_def)

section \<open>Guards\<close>

locale route_guard =
  fixes g :: guard and pass :: "IAMPrincipal \<Rightarrow> bool"
  assumes unauth: "ir_principal req = None \<Longrightarrow> snd (g req) = snd (unauthenticated req)"
    and accept: "ir_principal req = Some p \<Longrightarrow> pass p \<Longrightarrow> snd (g req) = Next"
    and refuse: "ir_principal req = Some p \<Longrightarrow> \<not> pass p \<Longrightarrow>
          \<exists>code body. snd (g req) = Reply 403 code body"
begin

lemma next_iff: "snd (g req) = Next \<longleftrightarrow> (\<exists>p. ir_principal req = Some p \<and> pass p)"
proof (cases "ir_principal req")
  case None
  then show ?thesis using unauth [of req] by (simp add: unauthenticated_def err_reply_def)
next
  case (Some p)
  then show ?thesis using accept [OF Some] refuse [OF Some] by (cases "pass p") auto
qed

lemma status:
  "snd (g req) = Reply st code body \<Longrightarrow> st = (if ir_principal req = None then 401 else 403)"
  using unauth [of req] accept [of req] refuse [of req]
  by (cases "ir_principal req"; cases "pass (the (ir_principal req))")
     (auto simp: unauthenticated_def err_reply_def)

end

interpretation auth: route_guard requireAuth "\<lambda>p. True"
  by unfold_locales (auto simp: requireAuth_def)

interpretation lev: route_guard "requireLevel sha512 now maxLevel"
  "\<lambda>p. \<exists>l. ip_roleLevel p = Some l \<and> l \<le> maxLevel" for sha512 now maxLevel
  by unfold_locales (auto simp: requireLevel_def Let_def err_reply_def split: option.splits)

interpretation perm: route_guard "requirePermission sha512 now namespace resource action"
  "\<lambda>p. evaluatePermissionLocal (ip_permissions p) namespace resource action"
  for sha512 now namespace resource action
  by unfold_locales (auto simp: requirePermission_def err_reply_def)

interpretation any_perm: route_guard "requireAnyPermission reqs"
  "\<lambda>p. \<exists>q \<in> set reqs. evaluatePermissionLocal (ip_permissions p) (pq_namespace q) (pq_resource q) (pq_action q)"
  for reqs
  by unfold_locales (auto simp: requireAnyPermission_def err_reply_def list_ex_iff)

interpretation nhi: route_guard requireNHI ip_isNHI
  by unfold_locales (auto simp: requireNHI_def err_reply_def)

interpretation human: route_guard requireHuman "\<lambda>p. \<not> ip_isNHI p"
  by unfold_locales (auto simp: requireHuman_def err_reply_def)

text \<open>The guards a route lists before its handler.\<close>

datatype route_guard_spec =
    G_auth
  | G_level int
  | G_permission string string string
  | G_any "PermissionRequirement list"
  | G_nhi
  | G_human

fun guard_of :: "(string \<Rightarrow> string) \<Rightarrow> int \<Rightarrow> route_guard_spec \<Rightarrow> guard" where
  "guard_of sha512 now G_auth = requireAuth"
| "guard_of sha512 now (G_level l) = requireLevel sha512 now l"
| "guard_of sha512 now (G_permission n r a) = requirePermission sha512 now n r a"
| "guard_of sha512 now (G_any reqs) = requireAnyPermission reqs"
| "guard_of sha512 now G_nhi = requireNHI"
| "guard_of sha512 now G_human = requireHuman"

fun guard_passes :: "route_guard_spec \<Rightarrow> IAMPrincipal \<Rightarrow> bool" where
  "guard_passes G_auth p = True"
| "guard_passes (G_level l) p = (\<exists>k. ip_roleLevel p = Some k \<and> k \<le> l)"
| "guard_passes (G_permission n r a) p = evaluatePermissionLocal (ip_permissions p) n r a"
| "guard_passes (G_any reqs) p = (\<exists>q \<in> set reqs.
     evaluatePermissionLocal (ip_permissions p) (pq_namespace q) (pq_resource q) (pq_action q))"
| "guard_passes G_nhi p = ip_isNHI p"
| "guard_passes G_human p = (\<not> ip_isNHI p)"

fun run_guards :: "guard list \<Rightarrow> IamRequest \<Rightarrow> iam_reply" where
  "run_guards [] req = Next"
| "run_guards (g # gs) req = (case snd (g req) of Next \<Rightarrow> run_guards gs req | r \<Rightarrow> r)"

lemma guard_of_next:
  "snd (guard_of sha512 now s req) = Next \<longleftrightarrow> (\<exists>p. ir_principal req = Some p \<and> guard_passes s p)"
  by (cases s) (simp_all add: auth.next_iff lev.next_iff perm.next_iff any_perm.next_iff nhi.next_iff
      human.next_iff)

lemma guard_of_status:
  "snd (guard_of sha512 now s req) = Reply st code body \<Longrightarrow>
     st = (if ir_principal req = None then 401 else 403)"
  by (cases s) (auto dest: auth.status lev.status perm.status any_perm.status nhi.status human.status)

text \<open>
  A chain of guards admits exactly the principals that every guard admits; whoever is stopped
  gets 401 when unauthenticated and 403 otherwise, whichever guard stops the request.
\<close>

theorem guard_chain:
  assumes "specs \<noteq> []" and "reply = run_guards (map (guard_of sha512 now) specs) req"
  shows "(reply = Next \<longleftrightarrow> (\<exists>p. ir_principal req = Some p \<and> list_all (\<lambda>s. guard_passes s p) specs)) \<and>
         (reply = Next \<or> (\<exists>code body. reply = Reply (if ir_principal req = None then 401 else 403) code body))"
proof -
  let ?run = "\<lambda>specs. run_guards (map (guard_of sha512 now) specs) req"
  have "(?run specs = Next \<longleftrightarrow>
           specs = [] \<or> (\<exists>p. ir_principal req = Some p \<and> list_all (\<lambda>s. guard_passes s p) specs)) \<and>
        (?run specs = Next \<or>
         (\<exists>code body. ?run specs = Reply (if ir_principal req = None then 401 else 403) code body))"
    for specs
  proof (induction specs)
    case Nil
    then show ?case by simp
  next
    case (Cons s specs)
    show ?case
    proof (cases "snd (guard_of sha512 now s req)")
      case Next
      with guard_of_next [of sha512 now s req] Cons show ?thesis by auto
    next
      case (Reply st code body)
      with guard_of_next [of sha512 now s req] guard_of_status [OF Reply] show ?thesis by auto
    qed
  qed
  from this [of specs] assms(1) show ?thesis unfolding assms(2) by blast
qed

theorem guard_chain_witness:
  "run_guards (map (guard_of id 0) [G_level 3, G_permission ''hive'' ''swarm'' ''read''])
     (demo_req\<lparr>ir_principal := Some (iam_principal ''hive'' demo_payload)\<rparr>) = Next"
proof -
  have "evaluatePermissionLocal [''hive:*:read''] ''hive'' ''swarm'' ''read''" by code_simp
  then show ?thesis
    using guard_chain [of "[G_level 3, G_permission ''hive'' ''swarm'' ''read'']" _ id 0
        "demo_req\<lparr>ir_principal := Some (iam_principal ''hive'' demo_payload)\<rparr>", OF _ refl]
    by (simp add: iam_principal_def demo_payload_def dflt_def)
qed

text \<open>
  The local check is the wildcard match it documents: for a namespace, resource and action
  without colons, a permission list grants the triple exactly if it holds \<open>*\<close> or a triple whose
  components are equal or \<open>*\<close>.
\<close>

theorem permission_match:
  assumes "CHR '':'' \<notin> set namespace" and "CHR '':'' \<notin> set resource" and "CHR '':'' \<notin> set action"
  shows "evaluatePermissionLocal permissions namespace resource action \<longleftrightarrow>
     (\<exists>p \<in> set permissions. p = ''*'' \<or>
        (\<exists>a b c. js_split CHR '':'' p = [a, b, c] \<and> (a = ''*'' \<or> a = namespace) \<and>
           (b = ''*'' \<or> b = resource) \<and> (c = ''*'' \<or> c = action)))"
proof -
  let ?t = "namespace @ '':'' @ resource @ '':'' @ action"
  have t: "js_split CHR '':'' ?t = [namespace, resource, action]"
    using assms by (simp add: js_split_append_sep js_split_single)
  have three: "length xs = 3 \<longleftrightarrow> (\<exists>a b c. xs = [a, b, c])" for xs :: "string list"
    by (auto simp: numeral_3_eq_3 length_Suc_conv)
  have "(if p = ''*'' then True else if p = ?t then True
        else (let parts = js_split CHR '':'' p; targetParts = js_split CHR '':'' ?t in
              if length parts \<noteq> 3 then False
              else list_all (\<lambda>i. parts ! i = ''*'' \<or> (i < length targetParts \<and> parts ! i = targetParts ! i))
                     [0..<length parts])) \<longleftrightarrow>
      (p = ''*'' \<or> (\<exists>a b c. js_split CHR '':'' p = [a, b, c] \<and> (a = ''*'' \<or> a = namespace) \<and>
           (b = ''*'' \<or> b = resource) \<and> (c = ''*'' \<or> c = action)))" for p
  proof (cases "length (js_split CHR '':'' p) = 3")
    case True
    then obtain a b c where abc: "js_split CHR '':'' p = [a, b, c]" using three by auto
    have "p = ?t \<Longrightarrow> [a, b, c] = [namespace, resource, action]" using t abc by simp
    then show ?thesis unfolding Let_def t abc by (auto simp: upt_rec)
  next
    case False
    then have "p \<noteq> ?t" using t by auto
    with False show ?thesis by (auto simp: Let_def)
  qed
  note this [unfolded Let_def]
  then show ?thesis unfolding evaluatePermissionLocal_def Let_def list_ex_iff by (simp only:)
qed

theorem permission_match_witness:
  "evaluatePermissionLocal [''a:b:c'', ''hive:*:read''] ''hive'' ''swarm'' ''read''"
  using permission_match [of "''hive''" "''swarm''" "''read''" "[''a:b:c'', ''hive:*:read'']"] by simp

end
