(* ===== verification/KernelCore.thy ===== *)
theory KernelCore
  imports JsMap
begin

text \<open>
  The kernel of \<open>packages/kernel/src/index.ts\<close>: event bus, IPC bus, process manager, permission
  manager, storage and the class \<open>InfinityKernel\<close> that owns them.

  Handlers are callbacks of other modules. What they do is a parameter: a handler of the event bus
  may subscribe and unsubscribe handlers while it runs and may throw (\<open>react\<close>, which also sees the
  calls made so far), a handler of the IPC bus returns, throws or rejects (\<open>run\<close>). A value of type
  \<open>User\<close> is a \<^typ>\<open>jsval\<close>: the session is read back from the storage without any check. Fresh
  payload objects have the identity 0; nothing compares them. The field \<open>pendingReplies\<close> of the
  IPC bus is never used in the source, and log output is left out except for the warnings.
\<close>

section \<open>Event bus\<close>

datatype KernelEventType =
    user_login | user_logout | module_installed | module_uninstalled | module_started
  | module_stopped | file_created | file_updated | file_deleted | permission_granted
  | permission_revoked | notification_received | system_alert | system_update

primrec event_str :: "KernelEventType \<Rightarrow> string" where
  "event_str user_login = ''user:login''"
| "event_str user_logout = ''user:logout''"
| "event_str module_installed = ''module:installed''"
| "event_str module_uninstalled = ''module:uninstalled''"
| "event_str module_started = ''module:started''"
| "event_str module_stopped = ''module:stopped''"
| "event_str file_created = ''file:created''"
| "event_str file_updated = ''file:updated''"
| "event_str file_deleted = ''file:deleted''"
| "event_str permission_granted = ''permission:granted''"
| "event_str permission_revoked = ''permission:revoked''"
| "event_str notification_received = ''notification:received''"
| "event_str system_alert = ''system:alert''"
| "event_str system_update = ''system:update''"

record KernelEvent =
  ke_type :: KernelEventType
  ke_payload :: jsval
  ke_timestamp :: int
  ke_source :: string

text \<open>A \<open>Set\<close> of handlers: the entries in insertion order, each with the stamp of its insertion,
  so that a loop over the set can go on after its elements were deleted, added or re-added.\<close>

record 'h EventBus =
  eb_handlers :: "(string, (nat \<times> 'h) list) jsmap"
  eb_stamp :: nat

definition new_EventBus :: "'h EventBus" where
  "new_EventBus = \<lparr>eb_handlers = [], eb_stamp = 0\<rparr>"

definition eb_set :: "'h EventBus \<Rightarrow> string \<Rightarrow> (nat \<times> 'h) list" where
  "eb_set b ty = dflt (jm_get (eb_handlers b) ty) []"

definition eb_on :: "string \<Rightarrow> 'h \<Rightarrow> 'h EventBus \<Rightarrow> 'h EventBus" where
  "eb_on ty h b =
     (let b1 = (if jm_has (eb_handlers b) ty then b
                else b\<lparr>eb_handlers := jm_set ty [] (eb_handlers b)\<rparr>);
          hs = eb_set b1 ty
      in if h \<in> snd ` set hs then b1
         else b1\<lparr>eb_handlers := jm_set ty (hs @ [(eb_stamp b1, h)]) (eb_handlers b1),
                 eb_stamp := Suc (eb_stamp b1)\<rparr>)"

definition eb_off :: "string \<Rightarrow> 'h \<Rightarrow> 'h EventBus \<Rightarrow> 'h EventBus" where
  "eb_off ty h b =
     (case jm_get (eb_handlers b) ty of
        None \<Rightarrow> b
      | Some hs \<Rightarrow>
          b\<lparr>eb_handlers := jm_set ty (filter (\<lambda>e. snd e \<noteq> h) hs) (eb_handlers b)\<rparr>)"

datatype 'h bus_op = On string 'h | Off string 'h

primrec eb_apply :: "'h bus_op \<Rightarrow> 'h EventBus \<Rightarrow> 'h EventBus" where
  "eb_apply (On ty h) b = eb_on ty h b"
| "eb_apply (Off ty h) b = eb_off ty h b"

text \<open>What a handler does when it is called, after the given calls: operations on the bus, and
  the exception it throws, if any.\<close>

type_synonym 'h reaction = "'h list \<Rightarrow> 'h \<Rightarrow> KernelEvent \<Rightarrow> 'h bus_op list \<times> string option"

text \<open>\<open>Set.forEach\<close>: the next entry is the first one inserted after the last one visited. The
  value \<^const>\<open>None\<close> means that the loop never ends.\<close>

partial_function (option) eb_forEach ::
  "'h reaction \<Rightarrow> KernelEvent \<Rightarrow> string \<Rightarrow> nat \<Rightarrow> 'h EventBus \<Rightarrow> 'h list \<Rightarrow>
     ('h EventBus \<times> 'h list \<times> string option) option" where
  "eb_forEach react ev ty from b calls =
     (case find (\<lambda>e. from \<le> fst e) (eb_set b ty) of
        None \<Rightarrow> Some (b, calls, None)
      | Some e \<Rightarrow>
          (case snd (react calls (snd e) ev) of
             Some err \<Rightarrow>
               Some (fold eb_apply (fst (react calls (snd e) ev)) b, calls @ [snd e], Some err)
           | None \<Rightarrow>
               eb_forEach react ev ty (Suc (fst e))
                 (fold eb_apply (fst (react calls (snd e) ev)) b) (calls @ [snd e])))"

definition eb_emit ::
  "'h reaction \<Rightarrow> KernelEvent \<Rightarrow> 'h EventBus \<Rightarrow> ('h EventBus \<times> 'h list \<times> string option) option" where
  "eb_emit react ev b =
     (case eb_forEach react ev (event_str (ke_type ev)) 0 b [] of
        None \<Rightarrow> None
      | Some (b1, calls, Some err) \<Rightarrow> Some (b1, calls, Some err)
      | Some (b1, calls, None) \<Rightarrow> eb_forEach react ev ''*'' 0 b1 calls)"

section \<open>IPC bus\<close>

record IPCMessage =
  im_id :: string
  im_from :: string
  im_to :: string
  im_type :: string
  im_payload :: jsval
  im_timestamp :: int
  im_replyTo :: "string option"

type_synonym 'h IPCBus = "(string, (string, 'h) jsmap) jsmap"

datatype ipc_return = Returns jsval | Throws string | Rejects string

record 'h ipc_send =
  is_calls :: "'h list"
  is_result :: "string + jsval"
  is_unhandled :: "string list"
  is_warning :: "string option"

definition ib_register :: "string \<Rightarrow> string \<Rightarrow> 'h \<Rightarrow> 'h IPCBus \<Rightarrow> 'h IPCBus" where
  "ib_register moduleId messageType handler b =
     (let b1 = (if jm_has b moduleId then b else jm_set moduleId [] b)
      in jm_set moduleId (jm_set messageType handler (dflt (jm_get b1 moduleId) [])) b1)"

definition ib_unregister :: "string \<Rightarrow> 'h IPCBus \<Rightarrow> 'h IPCBus" where
  "ib_unregister moduleId b = jm_delete moduleId b"

text \<open>The loop of a broadcast: nothing is awaited, so a rejection stays unhandled, but an
  exception leaves the loop.\<close>

fun ib_broadcast :: "('h \<Rightarrow> IPCMessage \<Rightarrow> ipc_return) \<Rightarrow> IPCMessage \<Rightarrow> (string, 'h) jsmap list \<Rightarrow> 'h ipc_send" where
  "ib_broadcast run m [] = \<lparr>is_calls = [], is_result = Inr JNull, is_unhandled = [], is_warning = None\<rparr>"
| "ib_broadcast run m (hs # rest) =
     (case jm_get hs (im_type m) of
        None \<Rightarrow> ib_broadcast run m rest
      | Some h \<Rightarrow>
          (case run h m of
             Throws err \<Rightarrow> \<lparr>is_calls = [h], is_result = Inl err, is_unhandled = [], is_warning = None\<rparr>
           | Rejects err \<Rightarrow>
               (let r = ib_broadcast run m rest
                in r\<lparr>is_calls := h # is_calls r, is_unhandled := err # is_unhandled r\<rparr>)
           | Returns _ \<Rightarrow>
               (let r = ib_broadcast run m rest in r\<lparr>is_calls := h # is_calls r\<rparr>)))"

definition ib_send :: "('h \<Rightarrow> IPCMessage \<Rightarrow> ipc_return) \<Rightarrow> IPCMessage \<Rightarrow> 'h IPCBus \<Rightarrow> 'h ipc_send" where
  "ib_send run m b =
     (if im_to m = ''broadcast'' then ib_broadcast run m (jm_values b)
      else case jm_get b (im_to m) of
        None \<Rightarrow> \<lparr>is_calls = [], is_result = Inr JNull, is_unhandled = [],
                 is_warning = Some (''[IPC] No handlers registered for module: '' @ im_to m)\<rparr>
      | Some hs \<Rightarrow>
          (case jm_get hs (im_type m) of
             None \<Rightarrow> \<lparr>is_calls = [], is_result = Inr JNull, is_unhandled = [],
                      is_warning = Some (''[IPC] No handler for message type: '' @ im_type m @
                                         '' in module: '' @ im_to m)\<rparr>
           | Some h \<Rightarrow>
               \<lparr>is_calls = [h],
                is_result = (case run h m of Returns v \<Rightarrow> Inr v | Throws err \<Rightarrow> Inl err
                             | Rejects err \<Rightarrow> Inl err),
                is_unhandled = [], is_warning = None\<rparr>))"

section \<open>Process manager\<close>

datatype process_status = initialising | running | suspended | terminated

record KernelProcess =
  kp_pid :: string
  kp_moduleId :: string
  kp_status :: process_status
  kp_startedAt :: int
  kp_memoryUsage :: "rat option"
  kp_cpuUsage :: "rat option"

record ProcessManager =
  pm_processes :: "(string, KernelProcess) jsmap"
  pm_pidCounter :: nat

definition new_ProcessManager :: ProcessManager where
  "new_ProcessManager = \<lparr>pm_processes = [], pm_pidCounter = 0\<rparr>"

definition pid_str :: "nat \<Rightarrow> int \<Rightarrow> string" where
  "pid_str n now = ''pid_'' @ nat_str n @ ''_'' @ int_str now"

definition pm_spawn :: "int \<Rightarrow> string \<Rightarrow> ProcessManager \<Rightarrow> ProcessManager \<times> KernelProcess" where
  "pm_spawn now moduleId m =
     (let n = Suc (pm_pidCounter m);
          pid = pid_str n now;
          process = \<lparr>kp_pid = pid, kp_moduleId = moduleId, kp_status = initialising,
                     kp_startedAt = now, kp_memoryUsage = None, kp_cpuUsage = None\<rparr>
      in (m\<lparr>pm_processes := jm_set pid process (pm_processes m), pm_pidCounter := n\<rparr>, process))"

definition pm_setStatus :: "string \<Rightarrow> process_status \<Rightarrow> ProcessManager \<Rightarrow> ProcessManager" where
  "pm_setStatus pid status m =
     (case jm_get (pm_processes m) pid of
        None \<Rightarrow> m
      | Some p \<Rightarrow> m\<lparr>pm_processes := jm_set pid (p\<lparr>kp_status := status\<rparr>) (pm_processes m)\<rparr>)"

text \<open>The object is also marked as terminated; it has left the table by then.\<close>

definition pm_terminate :: "string \<Rightarrow> ProcessManager \<Rightarrow> ProcessManager \<times> KernelProcess option" where
  "pm_terminate pid m =
     (case jm_get (pm_processes m) pid of
        None \<Rightarrow> (m, None)
      | Some p \<Rightarrow> (m\<lparr>pm_processes := jm_delete pid (pm_processes m)\<rparr>,
                   Some (p\<lparr>kp_status := terminated\<rparr>)))"

definition pm_getProcess :: "ProcessManager \<Rightarrow> string \<Rightarrow> KernelProcess option" where
  "pm_getProcess m pid = jm_get (pm_processes m) pid"

definition pm_getProcessByModule :: "ProcessManager \<Rightarrow> string \<Rightarrow> KernelProcess option" where
  "pm_getProcessByModule m moduleId =
     find (\<lambda>p. kp_moduleId p = moduleId) (jm_values (pm_processes m))"

definition pm_listProcesses :: "ProcessManager \<Rightarrow> KernelProcess list" where
  "pm_listProcesses m = jm_values (pm_processes m)"

section \<open>Permission manager\<close>

datatype ModulePermission =
    filesystem_read | filesystem_write | filesystem_delete | network_fetch | notifications_send
  | clipboard_read | clipboard_write | camera_access | microphone_access | location_access
  | users_read | ai_access

type_synonym PermissionManager = "(string, ModulePermission list) jsmap"

definition set_add :: "'a \<Rightarrow> 'a list \<Rightarrow> 'a list" where
  "set_add p ps = (if p \<in> set ps then ps else ps @ [p])"

definition gm_grant :: "string \<Rightarrow> ModulePermission list \<Rightarrow> PermissionManager \<Rightarrow> PermissionManager" where
  "gm_grant moduleId permissions g =
     (let g1 = (if jm_has g moduleId then g else jm_set moduleId [] g)
      in fold (\<lambda>p g. jm_set moduleId (set_add p (dflt (jm_get g moduleId) [])) g) permissions g1)"

definition gm_revoke :: "string \<Rightarrow> ModulePermission list option \<Rightarrow> PermissionManager \<Rightarrow> PermissionManager" where
  "gm_revoke moduleId permissions g =
     (case permissions of
        None \<Rightarrow> jm_delete moduleId g
      | Some ps \<Rightarrow>
          fold (\<lambda>p g. case jm_get g moduleId of
                        None \<Rightarrow> g
                      | Some granted \<Rightarrow> jm_set moduleId (filter (\<lambda>q. q \<noteq> p) granted) g) ps g)"

definition gm_check :: "PermissionManager \<Rightarrow> string \<Rightarrow> ModulePermission \<Rightarrow> bool" where
  "gm_check g moduleId permission =
     (case jm_get g moduleId of None \<Rightarrow> False | Some ps \<Rightarrow> permission \<in> set ps)"

definition gm_checkAll :: "PermissionManager \<Rightarrow> string \<Rightarrow> ModulePermission list \<Rightarrow> bool" where
  "gm_checkAll g moduleId permissions = list_all (gm_check g moduleId) permissions"

definition gm_getGranted :: "PermissionManager \<Rightarrow> string \<Rightarrow> ModulePermission list" where
  "gm_getGranted g moduleId = dflt (jm_get g moduleId) []"

section \<open>Storage\<close>

type_synonym StorageAPI = "(string, jsval) jsmap"

definition st_get :: "StorageAPI \<Rightarrow> string \<Rightarrow> jsval" where
  "st_get s key =
     (case jm_get s key of None \<Rightarrow> JNull | Some v \<Rightarrow> if v = JUndef then JNull else v)"

definition st_set :: "string \<Rightarrow> jsval \<Rightarrow> StorageAPI \<Rightarrow> StorageAPI" where
  "st_set key v s = jm_set key v s"

definition st_delete :: "string \<Rightarrow> StorageAPI \<Rightarrow> StorageAPI" where
  "st_delete key s = jm_delete key s"

definition st_clear :: "string option \<Rightarrow> StorageAPI \<Rightarrow> StorageAPI" where
  "st_clear pre s =
     (if str_truthy pre
      then fold jm_delete (filter (\<lambda>k. js_startsWith k (dflt pre [])) (jm_keys s)) s
      else [])"

section \<open>The kernel\<close>

datatype kernel_status = kstopped | kstarting | krunning | kerror

primrec kstatus_str :: "kernel_status \<Rightarrow> string" where
  "kstatus_str kstopped = ''stopped''"
| "kstatus_str kstarting = ''starting''"
| "kstatus_str krunning = ''running''"
| "kstatus_str kerror = ''error''"

definition KERNEL_VERSION :: string where
  "KERNEL_VERSION = ''0.1.0''"

definition KERNEL_NAME :: string where
  "KERNEL_NAME = ''infinity-kernel''"

record ('e, 'i) InfinityKernel =
  ik_events :: "'e EventBus"
  ik_ipc :: "'i IPCBus"
  ik_processes :: ProcessManager
  ik_permissions :: PermissionManager
  ik_storage :: StorageAPI
  ik_currentUser :: jsval
  ik_startTime :: "int option"
  ik_status :: kernel_status

definition new_InfinityKernel :: "('e, 'i) InfinityKernel" where
  "new_InfinityKernel =
     \<lparr>ik_events = new_EventBus, ik_ipc = [], ik_processes = new_ProcessManager,
      ik_permissions = [], ik_storage = [], ik_currentUser = JNull, ik_startTime = None,
      ik_status = kstopped\<rparr>"

definition ik_emit ::
  "'e reaction \<Rightarrow> KernelEventType \<Rightarrow> (string \<times> jsval) list \<Rightarrow> int \<Rightarrow> ('e, 'i) InfinityKernel \<Rightarrow>
     (('e, 'i) InfinityKernel \<times> 'e list \<times> string option) option" where
  "ik_emit react ty payload now k =
     map_option (\<lambda>(b, r). (k\<lparr>ik_events := b\<rparr>, r))
       (eb_emit react \<lparr>ke_type = ty, ke_payload = JObj 0 payload, ke_timestamp = now,
                       ke_source = KERNEL_NAME\<rparr> (ik_events k))"

text \<open>\<open>start\<close> up to its \<open>await\<close>, with the session read from the storage (\<^const>\<open>None\<close> when the
  kernel already runs), and the rest of it, after whatever ran in between.\<close>

definition ik_startBegin :: "int \<Rightarrow> ('e, 'i) InfinityKernel \<Rightarrow> ('e, 'i) InfinityKernel \<times> jsval option" where
  "ik_startBegin now k =
     (if ik_status k = krunning then (k, None)
      else (k\<lparr>ik_status := kstarting, ik_startTime := Some now\<rparr>,
            Some (st_get (ik_storage k) ''kernel:current_user'')))"

definition ik_startResume ::
  "'e reaction \<Rightarrow> int \<Rightarrow> jsval \<Rightarrow> ('e, 'i) InfinityKernel \<Rightarrow>
     (('e, 'i) InfinityKernel \<times> string option) option" where
  "ik_startResume react now savedSession k =
     (let k1 = (if truthy savedSession then k\<lparr>ik_currentUser := savedSession\<rparr> else k);
          k2 = k1\<lparr>ik_status := krunning\<rparr>
      in case ik_emit react system_alert
                [(''message'', JStr ''Kernel started''), (''level'', JStr ''info'')] now k2 of
           None \<Rightarrow> None
         | Some (k3, _, None) \<Rightarrow> Some (k3, None)
         | Some (k3, _, Some err) \<Rightarrow> Some (k3\<lparr>ik_status := kerror\<rparr>, Some err))"

definition ik_start ::
  "'e reaction \<Rightarrow> int \<Rightarrow> ('e, 'i) InfinityKernel \<Rightarrow> (('e, 'i) InfinityKernel \<times> string option) option" where
  "ik_start react now k =
     (case ik_startBegin now k of
        (k1, None) \<Rightarrow> Some (k1, None)
      | (k1, Some savedSession) \<Rightarrow> ik_startResume react now savedSession k1)"

text \<open>\<open>stop\<close> up to its \<open>await\<close>, which is there only with a user, and the rest of it.\<close>

definition ik_stopBegin :: "('e, 'i) InfinityKernel \<Rightarrow> ('e, 'i) InfinityKernel" where
  "ik_stopBegin k =
     (let k1 = k\<lparr>ik_processes := fold (\<lambda>p m. fst (pm_terminate (kp_pid p) m))
                   (pm_listProcesses (ik_processes k)) (ik_processes k)\<rparr>
      in if truthy (ik_currentUser k1)
         then k1\<lparr>ik_storage := st_set ''kernel:current_user'' (ik_currentUser k1) (ik_storage k1)\<rparr>
         else k1)"

definition ik_stopEnd :: "('e, 'i) InfinityKernel \<Rightarrow> ('e, 'i) InfinityKernel" where
  "ik_stopEnd k = k\<lparr>ik_status := kstopped\<rparr>"

definition ik_stop :: "('e, 'i) InfinityKernel \<Rightarrow> ('e, 'i) InfinityKernel" where
  "ik_stop k = ik_stopEnd (ik_stopBegin k)"

definition ik_setUser ::
  "'e reaction \<Rightarrow> int \<Rightarrow> jsval \<Rightarrow> ('e, 'i) InfinityKernel \<Rightarrow>
     (('e, 'i) InfinityKernel \<times> string option) option" where
  "ik_setUser react now user k =
     map_option (\<lambda>(k1, _, err). (k1, err))
       (if truthy user
        then ik_emit react user_login
               [(''userId'', js_prop user ''id''), (''email'', js_prop user ''email'')] now
               (k\<lparr>ik_currentUser := user\<rparr>)
        else ik_emit react user_logout [] now (k\<lparr>ik_currentUser := user\<rparr>))"

definition ik_getUser :: "('e, 'i) InfinityKernel \<Rightarrow> jsval" where
  "ik_getUser k = ik_currentUser k"

definition ik_uptime :: "int \<Rightarrow> ('e, 'i) InfinityKernel \<Rightarrow> int" where
  "ik_uptime now k =
     (case ik_startTime k of None \<Rightarrow> 0 | Some t \<Rightarrow> if t = 0 then 0 else now - t)"

record KernelStatusReport =
  ks_name :: string
  ks_version :: string
  ks_status :: string
  ks_uptime :: int
  ks_processCount :: nat
  ks_currentUser :: jsval

definition ik_getStatus :: "int \<Rightarrow> ('e, 'i) InfinityKernel \<Rightarrow> KernelStatusReport" where
  "ik_getStatus now k =
     \<lparr>ks_name = KERNEL_NAME, ks_version = KERNEL_VERSION, ks_status = kstatus_str (ik_status k),
      ks_uptime = ik_uptime now k,
      ks_processCount = length (pm_listProcesses (ik_processes k)),
      ks_currentUser =
        (let email = js_prop (ik_currentUser k) ''email''
         in if email = JUndef then JNull else email)\<rparr>"

text \<open>The singleton, and the deprecated portal that keeps the kernel it found: kernels are
  references into a heap.\<close>

record ('e, 'i) kernel_world =
  kw_heap :: "('e, 'i) InfinityKernel list"
  kw_instance :: "nat option"

definition getKernel :: "('e, 'i) kernel_world \<Rightarrow> ('e, 'i) kernel_world \<times> nat" where
  "getKernel w =
     (case kw_instance w of
        Some r \<Rightarrow> (w, r)
      | None \<Rightarrow>
          (let r = length (kw_heap w)
           in (\<lparr>kw_heap = kw_heap w @ [new_InfinityKernel], kw_instance = Some r\<rparr>, r)))"

definition resetKernel :: "('e, 'i) kernel_world \<Rightarrow> ('e, 'i) kernel_world" where
  "resetKernel w = w\<lparr>kw_instance := None\<rparr>"

definition new_InfinityPortalService :: "('e, 'i) kernel_world \<Rightarrow> ('e, 'i) kernel_world \<times> nat" where
  "new_InfinityPortalService w = getKernel w"

definition portal_start ::
  "'e reaction \<Rightarrow> int \<Rightarrow> nat \<Rightarrow> ('e, 'i) kernel_world \<Rightarrow> (('e, 'i) kernel_world \<times> string option) option" where
  "portal_start react now r w =
     map_option (\<lambda>(k, err). (w\<lparr>kw_heap := (kw_heap w)[r := k]\<rparr>, err)) (ik_start react now (kw_heap w ! r))"

definition portal_stop :: "nat \<Rightarrow> ('e, 'i) kernel_world \<Rightarrow> ('e, 'i) kernel_world" where
  "portal_stop r w = w\<lparr>kw_heap := (kw_heap w)[r := ik_stop (kw_heap w ! r)]\<rparr>"

definition portal_getStatus :: "int \<Rightarrow> nat \<Rightarrow> ('e, 'i) kernel_world \<Rightarrow> KernelStatusReport" where
  "portal_getStatus now r w = ik_getStatus now (kw_heap w ! r)"

section \<open>Emission\<close>

definition eb_ok :: "'h EventBus \<Rightarrow> bool" where
  "eb_ok b \<longleftrightarrow> (\<forall>ty. sorted_wrt (<) (map fst (eb_set b ty)) \<and>
     (\<forall>e \<in> set (eb_set b ty). fst e < eb_stamp b) \<and> distinct (map snd (eb_set b ty)))"

definition subscribers :: "'h EventBus \<Rightarrow> string \<Rightarrow> 'h list" where
  "subscribers b ty = map snd (eb_set b ty)"

lemma eb_ok_new [simp]: "eb_ok new_EventBus"
  by (simp add: eb_ok_def new_EventBus_def eb_set_def dflt_def)

lemma eb_set_new [simp]: "eb_set new_EventBus ty = []"
  by (simp add: new_EventBus_def eb_set_def dflt_def)

lemma eb_set_on:
  "eb_set (eb_on ty h b) ty' =
     (if ty' = ty \<and> h \<notin> set (subscribers b ty) then eb_set b ty @ [(eb_stamp b, h)] else eb_set b ty')"
  by (auto simp: eb_on_def eb_set_def subscribers_def Let_def dflt_def jm_has_def split: option.splits)

lemma eb_stamp_on:
  "eb_stamp (eb_on ty h b) = (if h \<in> set (subscribers b ty) then eb_stamp b else Suc (eb_stamp b))"
  by (auto simp: eb_on_def eb_set_def subscribers_def Let_def dflt_def jm_has_def split: option.splits)

lemma eb_set_off:
  "eb_set (eb_off ty h b) ty' =
     (if ty' = ty then filter (\<lambda>e. snd e \<noteq> h) (eb_set b ty) else eb_set b ty')"
  by (auto simp: eb_off_def eb_set_def dflt_def case_prod_beta split: option.splits)

lemma eb_stamp_off [simp]: "eb_stamp (eb_off ty h b) = eb_stamp b"
  by (simp add: eb_off_def split: option.splits)

lemma subseq_distinct: "subseq xs ys \<Longrightarrow> distinct ys \<Longrightarrow> distinct xs"
  unfolding subseq_conv_nths by (auto intro: distinct_nthsI)

lemma sorted_map_filter: "sorted_wrt (<) (map f xs) \<Longrightarrow> sorted_wrt (<) (map f (filter P xs))"
  by (induction xs) auto

lemma eb_ok_apply: "eb_ok b \<Longrightarrow> eb_ok (eb_apply op b)"
proof (cases op)
  case (On ty h)
  assume "eb_ok b"
  with On show ?thesis
    by (auto simp: eb_ok_def eb_set_on eb_stamp_on sorted_wrt_append subscribers_def less_Suc_eq)
next
  case (Off ty h)
  assume "eb_ok b"
  with Off show ?thesis
    by (fastforce simp: eb_ok_def eb_set_off distinct_map_filter sorted_map_filter)
qed

lemma eb_ok_fold: "eb_ok b \<Longrightarrow> eb_ok (fold eb_apply ops b)"
  by (induction ops arbitrary: b) (auto simp: eb_ok_apply)

text \<open>Reactions that only unsubscribe handlers and never throw, and the handlers nobody
  unsubscribes.\<close>

definition only_off :: "'h reaction \<Rightarrow> KernelEvent \<Rightarrow> bool" where
  "only_off react ev \<longleftrightarrow>
     (\<forall>calls h. snd (react calls h ev) = None \<and>
        (\<forall>op \<in> set (fst (react calls h ev)). \<exists>ty h'. op = Off ty h'))"

definition kept :: "'h reaction \<Rightarrow> KernelEvent \<Rightarrow> string \<Rightarrow> 'h \<Rightarrow> bool" where
  "kept react ev ty h \<longleftrightarrow> (\<forall>calls h'. Off ty h \<notin> set (fst (react calls h' ev)))"

lemma fold_off_set:
  assumes "\<forall>op \<in> set ops. \<exists>ty h. op = Off ty h"
  shows "eb_set (fold eb_apply ops b) ty = filter (\<lambda>e. Off ty (snd e) \<notin> set ops) (eb_set b ty)"
  using assms
proof (induction ops arbitrary: b)
  case Nil
  then show ?case by simp
next
  case (Cons op ops)
  then obtain ty' h where "op = Off ty' h" by auto
  with Cons show ?case
    by (auto simp: eb_set_off intro!: filter_cong)
qed

lemma filter_after:
  assumes "sorted_wrt (<) (map fst xs)" and "filter (\<lambda>e. from \<le> fst e) xs = e # r"
  shows "filter (\<lambda>e'. Suc (fst e) \<le> fst e') xs = r \<and> find (\<lambda>e. from \<le> fst e) xs = Some e"
  using assms
proof (induction xs)
  case Nil
  then show ?case by simp
next
  case (Cons x xs)
  show ?case
  proof (cases "from \<le> fst x")
    case True
    with Cons.prems have "e = x" "filter (\<lambda>e. from \<le> fst e) xs = r" by auto
    moreover have "filter (\<lambda>e. from \<le> fst e) xs = xs" "filter (\<lambda>e. Suc (fst x) \<le> fst e) xs = xs"
      using Cons.prems True by (force simp: filter_id_conv)+
    ultimately show ?thesis using True by simp
  next
    case False
    with Cons have "filter (\<lambda>e'. Suc (fst e) \<le> fst e') xs = r \<and> find (\<lambda>e. from \<le> fst e) xs = Some e"
      by simp
    moreover have "from \<le> fst e"
      using Cons.prems(2) by (metis filter_eq_ConsD)
    ultimately show ?thesis using False by simp
  qed
qed

lemma forEach_delivers:
  assumes "eb_ok b" and "only_off react ev"
    and "subscribed = map snd (filter (\<lambda>e. from \<le> fst e) (eb_set b ty))"
  shows "\<exists>b' calls'. eb_forEach react ev ty from b calls = Some (b', calls @ calls', None) \<and>
    subseq calls' subscribed \<and> filter (kept react ev ty) calls' = filter (kept react ev ty) subscribed \<and>
    eb_ok b' \<and> (\<forall>ty'. \<exists>P. eb_set b' ty' = filter (\<lambda>e. P (snd e)) (eb_set b ty') \<and>
      (\<forall>h. kept react ev ty' h \<longrightarrow> P h))"
  using assms
proof (induction "length subscribed" arbitrary: b "from" calls subscribed rule: less_induct)
  case less
  let ?K = "\<lambda>ty. kept react ev ty"
  show ?case
  proof (cases "filter (\<lambda>e. from \<le> fst e) (eb_set b ty)")
    case Nil
    then have "find (\<lambda>e. from \<le> fst e) (eb_set b ty) = None"
      by (auto simp: filter_empty_conv find_None_iff)
    then have "eb_forEach react ev ty from b calls = Some (b, calls @ [], None)"
      by (subst eb_forEach.simps) simp
    moreover have "\<exists>P. eb_set b ty' = filter (\<lambda>e. P (snd e)) (eb_set b ty') \<and> (\<forall>h. ?K ty' h \<longrightarrow> P h)" for ty'
      by (rule exI [of _ "\<lambda>_. True"]) simp
    ultimately show ?thesis using Nil less.prems by auto
  next
    case (Cons e r)
    let ?ops = "fst (react calls (snd e) ev)" and ?b = "fold eb_apply (fst (react calls (snd e) ev)) b"
    have sorted: "sorted_wrt (<) (map fst (eb_set b ty))" using less.prems(1) by (simp add: eb_ok_def)
    note step = filter_after [OF sorted Cons]
    have off: "\<forall>op \<in> set ?ops. \<exists>ty h. op = Off ty h" "snd (react calls (snd e) ev) = None"
      using less.prems(2) by (auto simp: only_off_def)
    have rest: "filter (\<lambda>x. Suc (fst e) \<le> fst x) (eb_set ?b ty) = filter (\<lambda>x. Off ty (snd x) \<notin> set ?ops) r"
      unfolding fold_off_set [OF off(1)] filter_filter
      by (subst conjunct1 [OF step, symmetric]) (simp add: filter_filter conj_commute)
    let ?s = "map snd (filter (\<lambda>x. Off ty (snd x) \<notin> set ?ops) r)"
    have "length ?s < length subscribed"
      using Cons less.prems(3) by (simp add: le_imp_less_Suc)
    from less.hyps [OF this eb_ok_fold [OF less.prems(1)] less.prems(2)
        arg_cong [OF rest, of "map snd", symmetric], of "calls @ [snd e]"]
    obtain b' c where IH: "eb_forEach react ev ty (Suc (fst e)) ?b (calls @ [snd e]) =
          Some (b', (calls @ [snd e]) @ c, None)" "subseq c ?s" "filter (?K ty) c = filter (?K ty) ?s"
        "eb_ok b'" "\<forall>ty'. \<exists>P. eb_set b' ty' = filter (\<lambda>e. P (snd e)) (eb_set ?b ty') \<and>
            (\<forall>h. ?K ty' h \<longrightarrow> P h)"
      by blast
    have run: "eb_forEach react ev ty from b calls = Some (b', calls @ snd e # c, None)"
      using IH(1) step off(2) by (subst eb_forEach.simps) simp
    have sub: "subscribed = snd e # map snd r" using Cons less.prems(3) by simp
    have "subseq ?s (map snd r)"
      by (intro subseq_map) (rule subseq_filter_left)
    then have "subseq (snd e # c) subscribed"
      using IH(2) sub by (auto intro: subseq_order.trans)
    moreover have "filter (?K ty) ?s = filter (?K ty) (map snd r)"
      by (auto simp: filter_map comp_def kept_def intro!: arg_cong [of _ _ "map snd"] filter_cong)
    then have "filter (?K ty) (snd e # c) = filter (?K ty) subscribed"
      using IH(3) sub by simp
    moreover have "\<exists>P. eb_set b' ty' = filter (\<lambda>e. P (snd e)) (eb_set b ty') \<and> (\<forall>h. ?K ty' h \<longrightarrow> P h)" for ty'
    proof -
      from IH(5) obtain P where "eb_set b' ty' = filter (\<lambda>e. P (snd e)) (eb_set ?b ty')"
        "\<forall>h. ?K ty' h \<longrightarrow> P h" by blast
      then show ?thesis
        by (intro exI [of _ "\<lambda>h. Off ty' h \<notin> set ?ops \<and> P h"])
           (simp add: fold_off_set [OF off(1)] filter_filter kept_def)
    qed
    ultimately show ?thesis using run IH(4) by auto
  qed
qed

text \<open>
  A handler that subscribes itself anew while it handles an event is visited again by the loop
  over the same set: the emission never ends.
\<close>

definition rearm :: "string \<Rightarrow> 'h \<Rightarrow> 'h reaction" where
  "rearm ty h0 calls h ev = (if h = h0 then [Off ty h0, On ty h0] else [], None)"

lemma rearm_step:
  assumes "eb_ok b" and "from \<le> s" and "(s, h0) \<in> set (eb_set b ty)"
    and "find (\<lambda>e. from \<le> fst e) (eb_set b ty) = Some e"
  shows "\<exists>s' \<ge> Suc (fst e). (s', h0) \<in> set (eb_set (fold eb_apply (fst (rearm ty h0 calls (snd e) ev)) b) ty)"
proof -
  have "e \<in> set (eb_set b ty)" using assms(4) by (auto simp: find_Some_iff)
  then have sorted: "sorted_wrt (<) (map fst (eb_set b ty))" and bound: "fst e < eb_stamp b"
    using assms(1) by (auto simp: eb_ok_def)
  show ?thesis
  proof (cases "snd e = h0")
    case True
    then show ?thesis
      using bound by (auto simp: rearm_def eb_set_on eb_set_off subscribers_def intro!: exI [of _ "eb_stamp b"])
  next
    case False
    obtain r where e: "filter (\<lambda>e. from \<le> fst e) (eb_set b ty) = e # r"
    proof (cases "filter (\<lambda>e. from \<le> fst e) (eb_set b ty)")
      case Nil
      with assms(2,3) show ?thesis by (auto simp: filter_empty_conv)
    next
      case (Cons e' r)
      with filter_after [OF sorted Cons] assms(4) that show ?thesis by simp
    qed
    have "(s, h0) \<in> set (e # r)" unfolding e [symmetric] using assms(2,3) by simp
    then have "(s, h0) \<in> set r" using False by auto
    then have "(s, h0) \<in> set (filter (\<lambda>e'. Suc (fst e) \<le> fst e') (eb_set b ty))"
      using filter_after [OF sorted e] by simp
    then show ?thesis using False by (auto simp: rearm_def)
  qed
qed

lemma rearm_loops:
  assumes "eb_forEach react ev ty from b calls = Some r"
  shows "react = rearm ty h0 \<longrightarrow> eb_ok b \<longrightarrow> \<not> (\<exists>s \<ge> from. (s, h0) \<in> set (eb_set b ty))"
proof (rule eb_forEach.raw_induct [OF _ assms, where P = "\<lambda>react ev ty from b calls r.
    react = rearm ty h0 \<longrightarrow> eb_ok b \<longrightarrow> \<not> (\<exists>s \<ge> from. (s, h0) \<in> set (eb_set b ty))"], intro impI notI)
  fix loop react ev ty "from" b calls r
  assume IH: "\<And>react ev ty from b calls r. loop react ev ty from b calls = Some r \<Longrightarrow>
      react = rearm ty h0 \<longrightarrow> eb_ok b \<longrightarrow> \<not> (\<exists>s \<ge> from. (s, h0) \<in> set (eb_set b ty))"
    and run: "(case find (\<lambda>e. from \<le> fst e) (eb_set b ty) of
        None \<Rightarrow> Some (b, calls, None)
      | Some e \<Rightarrow>
          (case snd (react calls (snd e) ev) of
             None \<Rightarrow> loop react ev ty (Suc (fst e))
                       (fold eb_apply (fst (react calls (snd e) ev)) b) (calls @ [snd e])
           | Some err \<Rightarrow>
               Some (fold eb_apply (fst (react calls (snd e) ev)) b, calls @ [snd e], Some err))) = Some r"
    and h: "react = rearm ty h0" "eb_ok b" "\<exists>s \<ge> from. (s, h0) \<in> set (eb_set b ty)"
  from h(3) obtain s e where s: "from \<le> s" "(s, h0) \<in> set (eb_set b ty)"
    and e: "find (\<lambda>e. from \<le> fst e) (eb_set b ty) = Some e"
    by (cases "find (\<lambda>e. from \<le> fst e) (eb_set b ty)") (auto simp: find_None_iff)
  have "snd (react calls (snd e) ev) = None" using h(1) by (simp add: rearm_def)
  with run e have "loop react ev ty (Suc (fst e)) (fold eb_apply (fst (react calls (snd e) ev)) b)
      (calls @ [snd e]) = Some r" by simp
  from IH [OF this] h(1) eb_ok_fold [OF h(2)] rearm_step [OF h(2) s e, of calls ev]
  show False by auto
qed

lemma rearm_diverges:
  assumes "h0 \<in> set (subscribers (fold eb_apply ops new_EventBus) (event_str (ke_type ev)))"
  shows "eb_emit (rearm (event_str (ke_type ev)) h0) ev (fold eb_apply ops new_EventBus) = None"
proof (cases "eb_forEach (rearm (event_str (ke_type ev)) h0) ev (event_str (ke_type ev)) 0
    (fold eb_apply ops new_EventBus) []")
  case None
  then show ?thesis by (simp add: eb_emit_def)
next
  case (Some r)
  from rearm_loops [OF this] eb_ok_fold [OF eb_ok_new] assms show ?thesis
    by (fastforce simp: subscribers_def)
qed

section \<open>Permissions and processes\<close>

datatype perm_op =
    Grant string "ModulePermission list"
  | Revoke string "ModulePermission list option"

primrec perm_apply :: "perm_op \<Rightarrow> PermissionManager \<Rightarrow> PermissionManager" where
  "perm_apply (Grant m ps) g = gm_grant m ps g"
| "perm_apply (Revoke m ps) g = gm_revoke m ps g"

text \<open>The specification: a set of pairs of module and permission.\<close>

primrec perm_abs :: "perm_op \<Rightarrow> (string \<times> ModulePermission) set \<Rightarrow> (string \<times> ModulePermission) set" where
  "perm_abs (Grant m ps) S = S \<union> {m} \<times> set ps"
| "perm_abs (Revoke m ps) S = S - {m} \<times> (case ps of None \<Rightarrow> UNIV | Some qs \<Rightarrow> set qs)"

definition granted :: "PermissionManager \<Rightarrow> (string \<times> ModulePermission) set" where
  "granted g = {(m, p). gm_check g m p}"

lemma granted_add:
  "granted (jm_set m (set_add p (dflt (jm_get g m) [])) g) = insert (m, p) (granted g)"
  by (auto simp: granted_def gm_check_def set_add_def dflt_def split: option.splits if_splits)

lemma granted_del:
  "granted (case jm_get g m of None \<Rightarrow> g | Some ps \<Rightarrow> jm_set m (filter (\<lambda>q. q \<noteq> p) ps) g) =
     granted g - {(m, p)}"
  by (auto simp: granted_def gm_check_def split: option.splits if_splits)

lemma granted_grants:
  "granted (fold (\<lambda>p g. jm_set m (set_add p (dflt (jm_get g m) [])) g) ps g) =
     granted g \<union> {m} \<times> set ps"
  by (induction ps arbitrary: g) (auto simp: granted_add)

lemma granted_revokes:
  "granted (fold (\<lambda>p g. case jm_get g m of None \<Rightarrow> g
       | Some ps \<Rightarrow> jm_set m (filter (\<lambda>q. q \<noteq> p) ps) g) qs g) = granted g - {m} \<times> set qs"
  by (induction qs arbitrary: g) (auto simp: granted_del)

lemma granted_apply: "granted (perm_apply op g) = perm_abs op (granted g)"
proof (cases op)
  case (Grant m ps)
  have "granted (jm_set m [] g) = granted g" if "\<not> jm_has g m"
    using that by (auto simp: granted_def gm_check_def jm_has_def split: if_splits)
  with Grant show ?thesis
    by (simp add: gm_grant_def Let_def granted_grants)
next
  case (Revoke m ps)
  then show ?thesis
  proof (cases ps)
    case None
    with Revoke show ?thesis
      by (auto simp: gm_revoke_def granted_def gm_check_def split: option.splits if_splits)
  next
    case (Some qs)
    with Revoke show ?thesis by (simp add: gm_revoke_def granted_revokes)
  qed
qed

lemma granted_history: "granted (fold perm_apply ops g) = fold perm_abs ops (granted g)"
  by (induction ops arbitrary: g) (simp_all add: granted_apply)

datatype proc_op =
    Spawn int string
  | SetStatus string process_status
  | Terminate string

fun proc_run :: "proc_op list \<Rightarrow> ProcessManager \<Rightarrow> ProcessManager \<times> KernelProcess list" where
  "proc_run [] m = (m, [])"
| "proc_run (Spawn now md # ops) m =
     (let (m1, p) = pm_spawn now md m; (m2, ps) = proc_run ops m1 in (m2, p # ps))"
| "proc_run (SetStatus pid st # ops) m = proc_run ops (pm_setStatus pid st m)"
| "proc_run (Terminate pid # ops) m = proc_run ops (fst (pm_terminate pid m))"

lemma pid_str_inject: "pid_str m s = pid_str n t \<Longrightarrow> m = n"
  using append_sep_eq [of "CHR ''_''" "nat_str m" "nat_str n" "int_str s" "int_str t"]
  by (simp add: pid_str_def nat_str_no_sep is_digit_def)

definition pm_ok :: "ProcessManager \<Rightarrow> bool" where
  "pm_ok m \<longleftrightarrow> jm_ok (pm_processes m) \<and>
     (\<forall>pid p. jm_get (pm_processes m) pid = Some p \<longrightarrow>
        kp_pid p = pid \<and> (\<exists>n \<le> pm_pidCounter m. \<exists>t. pid = pid_str n t))"

lemma pm_ok_spawn: "pm_ok m \<Longrightarrow> pm_ok (fst (pm_spawn now md m))"
proof -
  assume ok: "pm_ok m"
  then have "\<exists>n \<le> Suc (pm_pidCounter m). \<exists>t. pid = pid_str n t"
    if "jm_get (pm_processes m) pid = Some p" for pid p
    using that unfolding pm_ok_def by (meson le_SucI)
  with ok show ?thesis
    unfolding pm_ok_def pm_spawn_def by (auto simp: Let_def simp del: nat_str_inject)
qed

lemma pm_ok_setStatus: "pm_ok m \<Longrightarrow> pm_ok (pm_setStatus pid st m)"
  unfolding pm_ok_def pm_setStatus_def by (auto split: option.splits)

lemma pm_ok_terminate: "pm_ok m \<Longrightarrow> pm_ok (fst (pm_terminate pid m))"
  unfolding pm_ok_def pm_terminate_def by (auto split: option.splits)

lemma pm_counter [simp]:
  "pm_pidCounter (pm_setStatus pid st m) = pm_pidCounter m"
  "pm_pidCounter (fst (pm_terminate pid m)) = pm_pidCounter m"
  by (auto simp: pm_setStatus_def pm_terminate_def split: option.splits)

lemma jm_has_setStatus [simp]:
  "jm_has (pm_processes (pm_setStatus pid st m)) q = jm_has (pm_processes m) q"
  by (auto simp: pm_setStatus_def jm_has_def split: option.splits)

lemma jm_has_terminate:
  "jm_has (pm_processes (fst (pm_terminate pid m))) q \<Longrightarrow> jm_has (pm_processes m) q"
  by (auto simp: pm_terminate_def jm_has_def split: option.splits if_splits)

lemma proc_run_ok:
  assumes "pm_ok m"
  shows "pm_ok (fst (proc_run ops m)) \<and> distinct (map kp_pid (snd (proc_run ops m))) \<and>
    (\<forall>p \<in> set (snd (proc_run ops m)). \<exists>n > pm_pidCounter m. \<exists>t. kp_pid p = pid_str n t) \<and>
    (\<forall>pid. jm_has (pm_processes (fst (proc_run ops m))) pid \<longrightarrow>
       jm_has (pm_processes m) pid \<or> pid \<in> kp_pid ` set (snd (proc_run ops m)))"
  using assms
proof (induction ops m rule: proc_run.induct)
  case (2 now md ops m)
  let ?r = "proc_run ops (fst (pm_spawn now md m))"
  have c: "pm_pidCounter (fst (pm_spawn now md m)) = Suc (pm_pidCounter m)"
    "kp_pid (snd (pm_spawn now md m)) = pid_str (Suc (pm_pidCounter m)) now"
    "jm_has (pm_processes (fst (pm_spawn now md m))) q \<longleftrightarrow>
       q = pid_str (Suc (pm_pidCounter m)) now \<or> jm_has (pm_processes m) q" for q
    by (simp_all add: pm_spawn_def Let_def)
  have IH: "pm_ok (fst ?r)" "distinct (map kp_pid (snd ?r))"
    "\<forall>p \<in> set (snd ?r). \<exists>n > Suc (pm_pidCounter m). \<exists>t. kp_pid p = pid_str n t"
    "\<forall>pid. jm_has (pm_processes (fst ?r)) pid \<longrightarrow>
       jm_has (pm_processes (fst (pm_spawn now md m))) pid \<or> pid \<in> kp_pid ` set (snd ?r)"
    using "2.IH" [OF refl surjective_pairing [symmetric] pm_ok_spawn [OF "2.prems"]] c(1) by simp_all
  have "pid_str (Suc (pm_pidCounter m)) now \<notin> kp_pid ` set (snd ?r)"
    using IH(3) pid_str_inject by fastforce
  moreover have "\<forall>p \<in> set (snd ?r). \<exists>n > pm_pidCounter m. \<exists>t. kp_pid p = pid_str n t"
    using IH(3) by (meson Suc_lessD)
  ultimately show ?case
    using IH(1,2,4) c by (auto simp: split_beta Let_def)
qed (auto simp: pm_ok_setStatus pm_ok_terminate dest: jm_has_terminate)

lemma pm_ok_new [simp]: "pm_ok new_ProcessManager"
  by (simp add: pm_ok_def new_ProcessManager_def)

section \<open>Sessions\<close>

datatype session_op = Login int jsval | Logout int | Start int | Stop

text \<open>One operation with its exception, if any, and a history of them, up to the first exception;
  \<^const>\<open>None\<close> when an emission never ends.\<close>

primrec session_step ::
  "'e reaction \<Rightarrow> session_op \<Rightarrow> ('e, 'i) InfinityKernel \<Rightarrow> (('e, 'i) InfinityKernel \<times> string option) option" where
  "session_step react (Login now user) k = ik_setUser react now user k"
| "session_step react (Logout now) k = ik_setUser react now JNull k"
| "session_step react (Start now) k = ik_start react now k"
| "session_step react Stop k = Some (ik_stop k, None)"

fun session_run ::
  "'e reaction \<Rightarrow> session_op list \<Rightarrow> ('e, 'i) InfinityKernel \<Rightarrow> (('e, 'i) InfinityKernel \<times> string option) option" where
  "session_run react [] k = Some (k, None)"
| "session_run react (op # ops) k =
     (case session_step react op k of
        None \<Rightarrow> None
      | Some (k1, Some err) \<Rightarrow> Some (k1, Some err)
      | Some (k1, None) \<Rightarrow> session_run react ops k1)"

text \<open>The specification: the current user, the saved session and whether the kernel runs.\<close>

fun session_abs :: "session_op \<Rightarrow> jsval \<times> jsval \<times> bool \<Rightarrow> jsval \<times> jsval \<times> bool" where
  "session_abs (Login _ user) (cur, saved, r) = (user, saved, r)"
| "session_abs (Logout _) (cur, saved, r) = (JNull, saved, r)"
| "session_abs (Start _) (cur, saved, r) =
     (if r then (cur, saved, r) else (if truthy saved then saved else cur, saved, True))"
| "session_abs Stop (cur, saved, r) = (cur, if truthy cur then cur else saved, False)"

definition session_of :: "('e, 'i) InfinityKernel \<Rightarrow> jsval \<times> jsval \<times> bool" where
  "session_of k =
     (ik_currentUser k, st_get (ik_storage k) ''kernel:current_user'', ik_status k = krunning)"

definition calm :: "'h reaction \<Rightarrow> bool" where
  "calm react \<longleftrightarrow> (\<forall>ev. only_off react ev)"

lemma emit_returns:
  assumes "eb_ok b" and "only_off react ev"
  shows "\<exists>b' calls. eb_emit react ev b = Some (b', calls, None) \<and> eb_ok b'"
proof -
  obtain b1 c1 where 1: "eb_forEach react ev (event_str (ke_type ev)) 0 b [] = Some (b1, c1, None)" "eb_ok b1"
    using forEach_delivers [OF assms refl, of "event_str (ke_type ev)" 0 "[]"] by auto
  obtain b2 c2 where "eb_forEach react ev ''*'' 0 b1 c1 = Some (b2, c1 @ c2, None)" "eb_ok b2"
    using forEach_delivers [OF 1(2) assms(2) refl, of "''*''" 0 c1] by auto
  with 1 show ?thesis by (simp add: eb_emit_def)
qed

lemma ik_emit_returns:
  assumes "eb_ok (ik_events k)" and "calm react"
  shows "\<exists>b calls. ik_emit react ty payload now k = Some (k\<lparr>ik_events := b\<rparr>, calls, None) \<and> eb_ok b"
  using emit_returns [of "ik_events k" react] assms
  by (fastforce simp: ik_emit_def calm_def)

lemma session_step_abs:
  assumes "eb_ok (ik_events k)" and "calm react"
  shows "\<exists>k'. session_step react op k = Some (k', None) \<and> eb_ok (ik_events k') \<and>
    session_of k' = session_abs op (session_of k)"
proof (cases op)
  case (Login now user)
  have "\<exists>b calls. ik_emit react ty pl now (k\<lparr>ik_currentUser := user\<rparr>) =
      Some (k\<lparr>ik_currentUser := user, ik_events := b\<rparr>, calls, None) \<and> eb_ok b" for ty pl
    using ik_emit_returns [of "k\<lparr>ik_currentUser := user\<rparr>" react] assms by simp
  then show ?thesis using Login by (fastforce simp: ik_setUser_def session_of_def)
next
  case (Logout now)
  have "\<exists>b calls. ik_emit react ty pl now (k\<lparr>ik_currentUser := JNull\<rparr>) =
      Some (k\<lparr>ik_currentUser := JNull, ik_events := b\<rparr>, calls, None) \<and> eb_ok b" for ty pl
    using ik_emit_returns [of "k\<lparr>ik_currentUser := JNull\<rparr>" react] assms by simp
  then show ?thesis using Logout by (fastforce simp: ik_setUser_def session_of_def)
next
  case (Start now)
  let ?u = "st_get (ik_storage k) ''kernel:current_user''"
  let ?k1 = "k\<lparr>ik_startTime := Some now, ik_currentUser := ?u, ik_status := krunning\<rparr>"
  let ?k2 = "k\<lparr>ik_startTime := Some now, ik_status := krunning\<rparr>"
  let ?emit = "ik_emit react system_alert
    [(''message'', JStr ''Kernel started''), (''level'', JStr ''info'')] now"
  have "\<exists>b calls. ?emit ?k1 = Some (?k1\<lparr>ik_events := b\<rparr>, calls, None) \<and> eb_ok b"
    "\<exists>b calls. ?emit ?k2 = Some (?k2\<lparr>ik_events := b\<rparr>, calls, None) \<and> eb_ok b"
    using ik_emit_returns [of ?k1 react] ik_emit_returns [of ?k2 react] assms by simp_all
  then obtain b1 c1 b2 c2 where
    "?emit ?k1 = Some (?k1\<lparr>ik_events := b1\<rparr>, c1, None)" "eb_ok b1"
    "?emit ?k2 = Some (?k2\<lparr>ik_events := b2\<rparr>, c2, None)" "eb_ok b2" by blast
  with Start assms show ?thesis
    by (cases "ik_status k = krunning"; cases "truthy ?u")
       (simp_all add: ik_start_def ik_startBegin_def ik_startResume_def session_of_def Let_def)
next
  case Stop
  have "truthy v \<Longrightarrow> v \<noteq> JUndef" for v by (cases v) auto
  then show ?thesis using Stop assms
    by (auto simp: ik_stop_def ik_stopBegin_def ik_stopEnd_def session_of_def Let_def st_get_def
        st_set_def)
qed

lemma session_run_abs:
  assumes "eb_ok (ik_events k)" and "calm react"
  shows "\<exists>k'. session_run react ops k = Some (k', None) \<and> session_of k' = fold session_abs ops (session_of k)"
  using assms
proof (induction ops arbitrary: k)
  case Nil
  then show ?case by simp
next
  case (Cons op ops)
  obtain k1 where "session_step react op k = Some (k1, None)" "eb_ok (ik_events k1)"
    "session_of k1 = session_abs op (session_of k)"
    using session_step_abs [OF Cons.prems] by blast
  with Cons.IH [of k1] Cons.prems show ?case by simp
qed

text \<open>A logout is not written to the storage: after a stop and a start the user is back.\<close>

lemma logout_undone:
  assumes "calm react" and "eb_ok (ik_events k)" and "truthy user"
  shows "\<exists>k'. session_run react [Login t1 user, Stop, Start t2, Logout t3, Stop, Start t4] k =
      Some (k', None) \<and> ik_getUser k' = user"
  using session_run_abs [OF assms(2,1), of "[Login t1 user, Stop, Start t2, Logout t3, Stop, Start t4]"]
    assms(3)
  by (auto simp: session_of_def ik_getUser_def split: if_splits)

section \<open>Messages\<close>

text \<open>The handler a module registered for a message type.\<close>

definition ib_route :: "'h IPCBus \<Rightarrow> string \<Rightarrow> string \<Rightarrow> 'h option" where
  "ib_route b moduleId ty = (case jm_get b moduleId of None \<Rightarrow> None | Some hs \<Rightarrow> jm_get hs ty)"

lemma ib_route_register:
  "ib_route (ib_register moduleId ty h b) m t =
     (if m = moduleId \<and> t = ty then Some h else ib_route b m t)"
  by (auto simp: ib_route_def ib_register_def Let_def dflt_def jm_has_def split: option.splits)

lemma ib_route_unregister:
  "ib_route (ib_unregister moduleId b) m t = (if m = moduleId then None else ib_route b m t)"
  by (auto simp: ib_route_def ib_unregister_def split: option.splits)

lemma ib_send_direct:
  "im_to m \<noteq> ''broadcast'' \<Longrightarrow>
     is_calls (ib_send run m b) = (case ib_route b (im_to m) (im_type m) of None \<Rightarrow> [] | Some h \<Rightarrow> [h])"
  by (auto simp: ib_send_def ib_route_def split: option.splits)

lemma ib_broadcast_all:
  assumes "\<forall>h. \<not> (\<exists>err. run h m = Throws err)"
  shows "is_calls (ib_broadcast run m hss) = List.map_filter (\<lambda>hs. jm_get hs (im_type m)) hss \<and>
    is_result (ib_broadcast run m hss) = Inr JNull"
  using assms
  by (induction hss) (auto simp: List.map_filter_simps Let_def split: option.splits ipc_return.splits)

text \<open>A handler that throws keeps a broadcast from the modules registered after it.\<close>

lemma ib_broadcast_throw:
  "jm_get hs (im_type m) = Some h \<Longrightarrow> run h m = Throws err \<Longrightarrow>
     is_calls (ib_broadcast run m (hs # hss)) = [h] \<and> is_result (ib_broadcast run m (hs # hss)) = Inl err"
  by simp

section \<open>Properties\<close>

text \<open>
  C17. Emission. Whatever was subscribed and unsubscribed before, and although handlers unsubscribe
  handlers while the event is delivered, an emission ends; it calls the handlers of the event's type
  and then those of the wildcard, in the order of their subscription, none twice, and misses no
  handler that nobody unsubscribes meanwhile.
\<close>

theorem emit_delivers:
  assumes "only_off react ev"
  shows "\<exists>b' first second.
    eb_emit react ev (fold eb_apply ops new_EventBus) = Some (b', first @ second, None) \<and>
    subseq first (subscribers (fold eb_apply ops new_EventBus) (event_str (ke_type ev))) \<and>
    subseq second (subscribers (fold eb_apply ops new_EventBus) ''*'') \<and>
    distinct first \<and> distinct second \<and>
    filter (kept react ev (event_str (ke_type ev))) first =
      filter (kept react ev (event_str (ke_type ev)))
        (subscribers (fold eb_apply ops new_EventBus) (event_str (ke_type ev))) \<and>
    filter (kept react ev ''*'') second =
      filter (kept react ev ''*'') (subscribers (fold eb_apply ops new_EventBus) ''*'')"
proof -
  let ?b = "fold eb_apply ops new_EventBus" and ?ty = "event_str (ke_type ev)"
  have ok: "eb_ok ?b" by (rule eb_ok_fold [OF eb_ok_new])
  obtain b1 c1 where 1: "eb_forEach react ev ?ty 0 ?b [] = Some (b1, c1, None)" "eb_ok b1"
      "subseq c1 (subscribers ?b ?ty)"
      "filter (kept react ev ?ty) c1 = filter (kept react ev ?ty) (subscribers ?b ?ty)"
      "\<forall>ty. \<exists>P. eb_set b1 ty = filter (\<lambda>e. P (snd e)) (eb_set ?b ty) \<and> (\<forall>h. kept react ev ty h \<longrightarrow> P h)"
    using forEach_delivers [OF ok assms refl, of ?ty 0 "[]"] by (auto simp: subscribers_def)
  obtain b2 c2 where 2: "eb_forEach react ev ''*'' 0 b1 c1 = Some (b2, c1 @ c2, None)"
      "subseq c2 (subscribers b1 ''*'')"
      "filter (kept react ev ''*'') c2 = filter (kept react ev ''*'') (subscribers b1 ''*'')"
    using forEach_delivers [OF 1(2) assms refl, of "''*''" 0 c1] by (auto simp: subscribers_def)
  obtain P where P: "eb_set b1 ''*'' = filter (\<lambda>e. P (snd e)) (eb_set ?b ''*'')"
      "\<forall>h. kept react ev ''*'' h \<longrightarrow> P h" using 1(5) by blast
  then have star: "subscribers b1 ''*'' = filter P (subscribers ?b ''*'')"
    by (simp add: subscribers_def filter_map comp_def)
  have "subseq c2 (subscribers ?b ''*'')"
    using 2(2) unfolding star by (rule subseq_order.trans) (rule subseq_filter_left)
  moreover have "filter (kept react ev ''*'') c2 = filter (kept react ev ''*'') (subscribers ?b ''*'')"
    using 2(3) P(2) unfolding star by (auto simp: filter_filter intro!: filter_cong)
  moreover have "distinct (subscribers ?b ty)" for ty
    using ok by (simp add: eb_ok_def subscribers_def)
  ultimately show ?thesis
    using 1 2(1) by (auto simp: eb_emit_def intro: subseq_distinct)
qed

definition leaver :: "nat reaction" where
  "leaver calls h ev = (if h = 1 then [Off ''user:login'' 1, Off ''user:login'' 2] else [], None)"

theorem emit_delivers_witness:
  "\<exists>b' first second. eb_emit leaver
     \<lparr>ke_type = user_login, ke_payload = JNull, ke_timestamp = 0, ke_source = []\<rparr>
     (fold eb_apply [On ''user:login'' 1, On ''user:login'' 2, On ''user:login'' 3] new_EventBus) =
       Some (b', first @ second, None) \<and> filter (\<lambda>h. h \<noteq> 1 \<and> h \<noteq> 2) first = [3]"
proof -
  let ?ev = "\<lparr>ke_type = user_login, ke_payload = JNull, ke_timestamp = 0, ke_source = []\<rparr>"
  let ?b = "fold eb_apply [On ''user:login'' (1::nat), On ''user:login'' 2, On ''user:login'' 3] new_EventBus"
  have "only_off leaver ?ev" by (simp add: only_off_def leaver_def)
  from emit_delivers [OF this, of "[On ''user:login'' 1, On ''user:login'' 2, On ''user:login'' 3]"]
  obtain b' first second where e: "eb_emit leaver ?ev ?b = Some (b', first @ second, None)"
    "filter (kept leaver ?ev ''user:login'') first =
       filter (kept leaver ?ev ''user:login'') (subscribers ?b ''user:login'')"
    by auto
  have k: "kept leaver ?ev ''user:login'' = (\<lambda>h. h \<noteq> 1 \<and> h \<noteq> 2)"
    by (auto simp: kept_def leaver_def)
  have "subscribers ?b ''user:login'' = [1, 2, 3]"
    by (simp add: subscribers_def eb_set_on)
  with e(2) have "filter (\<lambda>h. h \<noteq> 1 \<and> h \<noteq> 2) first = [3]" unfolding k by simp
  with e(1) show ?thesis by blast
qed

text \<open>
  Module permissions. After any history of grants and revocations the manager answers by the
  set of pairs that were granted and not revoked since, for single checks, for lists of permissions
  and for the listing of a module.
\<close>

theorem permissions_refine:
  "{(m, p). gm_check (fold perm_apply ops []) m p} = fold perm_abs ops {} \<and>
   (gm_checkAll (fold perm_apply ops []) moduleId ps \<longleftrightarrow> {moduleId} \<times> set ps \<subseteq> fold perm_abs ops {}) \<and>
   set (gm_getGranted (fold perm_apply ops []) moduleId) = fold perm_abs ops {} `` {moduleId}"
proof -
  have "granted [] = {}" by (simp add: granted_def gm_check_def)
  then have h: "fold perm_abs ops {} = {(m, p). gm_check (fold perm_apply ops []) m p}"
    using granted_history [of ops "[]"] by (simp add: granted_def)
  show ?thesis unfolding h
    by (cases "jm_get (fold perm_apply ops []) moduleId")
       (auto simp: gm_checkAll_def list_all_iff gm_getGranted_def gm_check_def dflt_def subset_eq)
qed

text \<open>
  Processes. No pid is ever given twice, and after any history every process of the table is
  filed under its own pid, which an earlier spawn returned.
\<close>

theorem process_table:
  "distinct (map kp_pid (snd (proc_run ops new_ProcessManager))) \<and>
   (case pm_getProcess (fst (proc_run ops new_ProcessManager)) pid of
      None \<Rightarrow> True
    | Some p \<Rightarrow> kp_pid p = pid \<and> pid \<in> kp_pid ` set (snd (proc_run ops new_ProcessManager)))"
proof -
  have "\<not> jm_has (pm_processes new_ProcessManager) q" for q
    by (simp add: new_ProcessManager_def)
  then show ?thesis
    using proc_run_ok [OF pm_ok_new, of ops]
    by (auto simp: pm_getProcess_def pm_ok_def jm_has_def split: option.splits)
qed

text \<open>
  C18. Sessions. With event handlers that neither throw nor subscribe while they run, every history
  of logins, logouts, stops and starts of a kernel succeeds and leaves the current user, the saved
  session and the running state of the specification: a start of a stopped kernel restores the saved
  user, and only a stop with a current user changes what is saved. A logout saves nothing, so it is
  undone by the next stop and start.
\<close>

theorem kernel_session:
  assumes "calm react"
  shows "\<exists>k'. session_run react ops
      (new_InfinityKernel\<lparr>ik_events := fold eb_apply subscriptions new_EventBus\<rparr>) = Some (k', None) \<and>
    (ik_getUser k', st_get (ik_storage k') ''kernel:current_user'', ik_status k' = krunning) =
      fold session_abs ops (JNull, JNull, False)"
proof -
  let ?k = "new_InfinityKernel\<lparr>ik_events := fold eb_apply subscriptions new_EventBus\<rparr>"
  have "eb_ok (ik_events ?k)" by (simp add: eb_ok_fold)
  moreover have "session_of ?k = (JNull, JNull, False)"
    by (simp add: session_of_def new_InfinityKernel_def st_get_def)
  then have "fold session_abs ops (session_of ?k) = fold session_abs ops (JNull, JNull, False)"
    by (rule arg_cong)
  ultimately show ?thesis
    using session_run_abs [OF _ assms, of ?k ops] unfolding session_of_def ik_getUser_def by metis
qed

theorem kernel_session_witness:
  "\<exists>k'. session_run (\<lambda>calls h ev. ([], None))
      [Start 1, Login 2 (JObj 7 []), Stop, Start 3, Logout 4, Stop, Start 5]
      (new_InfinityKernel\<lparr>ik_events := fold eb_apply [On ''*'' (0::nat)] new_EventBus\<rparr>) = Some (k', None) \<and>
    ik_getUser k' = JObj 7 []"
  using kernel_session [of "\<lambda>calls h ev. ([], None)"
      "[Start 1, Login 2 (JObj 7 []), Stop, Start 3, Logout 4, Stop, Start 5]" "[On ''*'' (0::nat)]"]
  by (auto simp: calm_def only_off_def)

end
