(* ===== verification/ServiceRegistry.thy ===== *)
theory ServiceRegistry
  imports JsMap
begin

text \<open>
  The service registry of \<open>packages/kernel/src/microservices/service-registry.ts\<close>: registration,
  heartbeats, discovery, weighted round robin and the periodic clean-up. Weights are integers in the
  model. The \<open>onEvent\<close> callback is a log of the events it gets, each with the instance as it is at
  that moment; it does not call the registry back, and callers do not change the instances they
  were handed. The interval timer is the operation \<open>sr_cleanup\<close> with the time it runs at.
\<close>

datatype service_protocol = http | https | grpc

datatype service_status = healthy_service | degraded_service | unhealthy_service | starting_service | stopping_service

primrec protocol_str :: "service_protocol \<Rightarrow> string" where
  "protocol_str http = ''http''"
| "protocol_str https = ''https''"
| "protocol_str grpc = ''grpc''"

record ServiceInstance =
  si_id :: string
  si_name :: string
  si_version :: string
  si_host :: string
  si_port :: int
  si_protocol :: service_protocol
  si_status :: service_status
  si_metadata :: "(string \<times> string) list"
  si_tags :: "string list"
  si_registeredAt :: int
  si_lastHeartbeat :: int
  si_weight :: int

record ServiceRegistryOptions =
  so_heartbeatInterval :: int
  so_unhealthyTimeout :: int
  so_deregisterTimeout :: int

text \<open>A heartbeat emits its new status as the type of the event, whatever the status is.\<close>

datatype service_event_type = Registered | Deregistered | StatusChanged service_status

record ServiceEvent =
  sv_type :: service_event_type
  sv_instance :: ServiceInstance
  sv_timestamp :: int

record ServiceRegistry =
  sr_options :: ServiceRegistryOptions
  sr_instances :: "(string, ServiceInstance) jsmap"
  sr_counters :: "(string, int) jsmap"
  sr_timer :: bool
  sr_events :: "ServiceEvent list"

definition new_ServiceRegistry :: "ServiceRegistryOptions \<Rightarrow> ServiceRegistry" where
  "new_ServiceRegistry options =
     \<lparr>sr_options = options, sr_instances = [], sr_counters = [], sr_timer = True, sr_events = []\<rparr>"

definition sr_emitEvent :: "service_event_type \<Rightarrow> ServiceInstance \<Rightarrow> int \<Rightarrow> ServiceRegistry \<Rightarrow> ServiceRegistry" where
  "sr_emitEvent ty i now r =
     r\<lparr>sr_events := sr_events r @ [\<lparr>sv_type = ty, sv_instance = i, sv_timestamp = now\<rparr>]\<rparr>"

definition sr_register :: "int \<Rightarrow> ServiceInstance \<Rightarrow> ServiceRegistry \<Rightarrow> ServiceRegistry \<times> ServiceInstance" where
  "sr_register now i r =
     (let full = i\<lparr>si_registeredAt := now, si_lastHeartbeat := now\<rparr>
      in (sr_emitEvent Registered full now (r\<lparr>sr_instances := jm_set (si_id i) full (sr_instances r)\<rparr>), full))"

definition sr_deregister :: "int \<Rightarrow> string \<Rightarrow> ServiceRegistry \<Rightarrow> ServiceRegistry \<times> bool" where
  "sr_deregister now instanceId r =
     (case jm_get (sr_instances r) instanceId of
        None \<Rightarrow> (r, False)
      | Some i \<Rightarrow>
          (sr_emitEvent Deregistered i now
             (r\<lparr>sr_instances := jm_delete instanceId (sr_instances r)\<rparr>), True))"

definition sr_heartbeat :: "int \<Rightarrow> string \<Rightarrow> service_status option \<Rightarrow> ServiceRegistry \<Rightarrow> ServiceRegistry \<times> bool" where
  "sr_heartbeat now instanceId status r =
     (case jm_get (sr_instances r) instanceId of
        None \<Rightarrow> (r, False)
      | Some i \<Rightarrow>
          (let i1 = i\<lparr>si_lastHeartbeat := now\<rparr> in
           case status of
             None \<Rightarrow> (r\<lparr>sr_instances := jm_set instanceId i1 (sr_instances r)\<rparr>, True)
           | Some st \<Rightarrow>
               (let i2 = i1\<lparr>si_status := st\<rparr>;
                    r1 = r\<lparr>sr_instances := jm_set instanceId i2 (sr_instances r)\<rparr>
                in (if si_status i \<noteq> st then sr_emitEvent (StatusChanged st) i2 now r1 else r1, True))))"

text \<open>\<open>healthy\<close> and \<open>tags\<close> are the fields of the options object; a missing object has neither.\<close>

definition sr_discover :: "ServiceRegistry \<Rightarrow> string \<Rightarrow> bool option \<Rightarrow> string list option \<Rightarrow> ServiceInstance list" where
  "sr_discover r serviceName healthy tags =
     (let is0 = filter (\<lambda>i. si_name i = serviceName) (jm_values (sr_instances r));
          is1 = (if healthy \<noteq> Some False
                 then filter (\<lambda>i. si_status i = healthy_service \<or> si_status i = degraded_service) is0 else is0)
      in case tags of
           Some (t # ts) \<Rightarrow> filter (\<lambda>i. list_all (\<lambda>tag. tag \<in> set (si_tags i)) (t # ts)) is1
         | _ \<Rightarrow> is1)"

text \<open>The loop of \<open>resolve\<close>: subtract weights until the target is not positive.\<close>

fun sr_pick :: "ServiceInstance list \<Rightarrow> int \<Rightarrow> ServiceInstance option" where
  "sr_pick [] target = None"
| "sr_pick (i # is) target =
     (if target - si_weight i \<le> 0 then Some i else sr_pick is (target - si_weight i))"

text \<open>The counter is positive, so \<open>counter % totalWeight\<close> is the remainder by the absolute value;
  for a total of 0 it is \<open>NaN\<close>, and no comparison of the loop holds.\<close>

definition sr_resolve :: "string \<Rightarrow> ServiceRegistry \<Rightarrow> ServiceRegistry \<times> ServiceInstance option" where
  "sr_resolve serviceName r =
     (let is = sr_discover r serviceName None None in
      case is of
        [] \<Rightarrow> (r, None)
      | first # _ \<Rightarrow>
          (let counter = num_or (jm_get (sr_counters r) serviceName) 0 + 1;
               r1 = r\<lparr>sr_counters := jm_set serviceName counter (sr_counters r)\<rparr>;
               totalWeight = sum_list (map si_weight is)
           in (r1, if totalWeight = 0 then Some first
                   else case sr_pick is (counter mod \<bar>totalWeight\<bar>) of
                          Some i \<Rightarrow> Some i
                        | None \<Rightarrow> Some first)))"

definition sr_getServiceUrl :: "string \<Rightarrow> ServiceRegistry \<Rightarrow> ServiceRegistry \<times> string option" where
  "sr_getServiceUrl serviceName r =
     (case sr_resolve serviceName r of
        (r1, None) \<Rightarrow> (r1, None)
      | (r1, Some i) \<Rightarrow>
          (r1, Some (protocol_str (si_protocol i) @ ''://'' @ si_host i @ '':'' @ int_str (si_port i))))"

definition sr_getServices :: "ServiceRegistry \<Rightarrow> (string, ServiceInstance list) jsmap" where
  "sr_getServices r =
     fold (\<lambda>i services. jm_set (si_name i) (dflt (jm_get services (si_name i)) [] @ [i]) services)
       (jm_values (sr_instances r)) []"

definition sr_getAllInstances :: "ServiceRegistry \<Rightarrow> ServiceInstance list" where
  "sr_getAllInstances r = jm_values (sr_instances r)"

definition sr_getInstance :: "ServiceRegistry \<Rightarrow> string \<Rightarrow> ServiceInstance option" where
  "sr_getInstance r instanceId = jm_get (sr_instances r) instanceId"

text \<open>One instance of the clean-up loop.\<close>

definition sr_sweep :: "int \<Rightarrow> string \<times> ServiceInstance \<Rightarrow> ServiceRegistry \<Rightarrow> ServiceRegistry" where
  "sr_sweep now entry r =
     (let (instanceId, i) = entry; silent = now - si_lastHeartbeat i in
      if silent > so_deregisterTimeout (sr_options r) then
        sr_emitEvent Deregistered i now (r\<lparr>sr_instances := jm_delete instanceId (sr_instances r)\<rparr>)
      else if silent > so_unhealthyTimeout (sr_options r) \<and> si_status i \<noteq> unhealthy_service then
        (let i1 = i\<lparr>si_status := unhealthy_service\<rparr>
         in sr_emitEvent (StatusChanged unhealthy_service) i1 now
              (r\<lparr>sr_instances := jm_set instanceId i1 (sr_instances r)\<rparr>))
      else r)"

definition sr_cleanup :: "int \<Rightarrow> ServiceRegistry \<Rightarrow> ServiceRegistry" where
  "sr_cleanup now r = fold (sr_sweep now) (sr_instances r) r"

definition sr_destroy :: "ServiceRegistry \<Rightarrow> ServiceRegistry" where
  "sr_destroy r = r\<lparr>sr_timer := False, sr_instances := []\<rparr>"

section \<open>Histories\<close>

datatype registry_op =
    Register int ServiceInstance
  | Deregister int string
  | Heartbeat int string "service_status option"
  | Resolve string
  | Cleanup int

primrec sr_apply :: "registry_op \<Rightarrow> ServiceRegistry \<Rightarrow> ServiceRegistry" where
  "sr_apply (Register now i) r = fst (sr_register now i r)"
| "sr_apply (Deregister now k) r = fst (sr_deregister now k r)"
| "sr_apply (Heartbeat now k st) r = fst (sr_heartbeat now k st r)"
| "sr_apply (Resolve name) r = fst (sr_resolve name r)"
| "sr_apply (Cleanup now) r = sr_cleanup now r"

definition sr_ok :: "ServiceRegistry \<Rightarrow> bool" where
  "sr_ok r \<longleftrightarrow> jm_ok (sr_instances r) \<and>
     (\<forall>k i. jm_get (sr_instances r) k = Some i \<longrightarrow> si_id i = k) \<and>
     (\<forall>name n. jm_get (sr_counters r) name = Some n \<longrightarrow> 0 < n)"

lemma sr_instances_emit [simp]:
  "sr_instances (sr_emitEvent ty i now r) = sr_instances r"
  "sr_counters (sr_emitEvent ty i now r) = sr_counters r"
  "sr_options (sr_emitEvent ty i now r) = sr_options r"
  by (simp_all add: sr_emitEvent_def)

lemma sr_ok_register: "sr_ok r \<Longrightarrow> sr_ok (fst (sr_register now i r))"
  by (auto simp: sr_ok_def sr_register_def Let_def)

lemma sr_ok_deregister: "sr_ok r \<Longrightarrow> sr_ok (fst (sr_deregister now k r))"
  by (auto simp: sr_ok_def sr_deregister_def split: option.splits if_splits)

lemma sr_ok_heartbeat: "sr_ok r \<Longrightarrow> sr_ok (fst (sr_heartbeat now k st r))"
  by (auto simp: sr_ok_def sr_heartbeat_def Let_def split: option.splits if_splits)

lemma sr_ok_resolve: "sr_ok r \<Longrightarrow> sr_ok (fst (sr_resolve name r))"
  by (auto simp: sr_ok_def sr_resolve_def Let_def num_or_def less_imp_le
      split: option.splits list.splits if_splits)

lemma sr_ok_sweep: "sr_ok r \<Longrightarrow> si_id i = k \<Longrightarrow> sr_ok (sr_sweep now (k, i) r)"
  by (auto simp: sr_ok_def sr_sweep_def Let_def split: if_splits)

lemma sr_ok_sweeps:
  "sr_ok r \<Longrightarrow> \<forall>(k, i) \<in> set es. si_id i = k \<Longrightarrow> sr_ok (fold (sr_sweep now) es r)"
  by (induction es arbitrary: r) (auto simp: sr_ok_sweep)

lemma sr_ok_cleanup: "sr_ok r \<Longrightarrow> sr_ok (sr_cleanup now r)"
  unfolding sr_cleanup_def by (rule sr_ok_sweeps) (auto simp: sr_ok_def dest: jm_get_in)

lemma sr_ok_apply: "sr_ok r \<Longrightarrow> sr_ok (sr_apply op r)"
  by (cases op) (simp_all add: sr_ok_register sr_ok_deregister sr_ok_heartbeat sr_ok_resolve sr_ok_cleanup)

lemma sr_ok_history: "sr_ok r \<Longrightarrow> sr_ok (fold sr_apply ops r)"
  by (induction ops arbitrary: r) (auto simp: sr_ok_apply)

lemma sr_ok_new: "sr_ok (new_ServiceRegistry options)"
  by (simp add: sr_ok_def new_ServiceRegistry_def)

section \<open>Round robin\<close>

primrec sr_resolves :: "nat \<Rightarrow> string \<Rightarrow> ServiceRegistry \<Rightarrow> ServiceInstance option list" where
  "sr_resolves 0 name r = []"
| "sr_resolves (Suc n) name r = snd (sr_resolve name r) # sr_resolves n name (fst (sr_resolve name r))"

definition weights_before :: "ServiceInstance list \<Rightarrow> nat \<Rightarrow> int" where
  "weights_before is j = sum_list (map si_weight (take j is))"

lemma sr_pick_in: "sr_pick is t = Some i \<Longrightarrow> i \<in> set is"
  by (induction "is" arbitrary: t) (auto split: if_splits)

lemma weights_before_simps [simp]:
  "weights_before is 0 = 0"
  "weights_before (i # is) (Suc j) = si_weight i + weights_before is j"
  by (simp_all add: weights_before_def)

lemma weights_before_nonneg: "\<forall>i \<in> set is. 0 < si_weight i \<Longrightarrow> 0 \<le> weights_before is j"
  unfolding weights_before_def by (intro sum_list_nonneg) (auto dest!: in_set_takeD intro: less_imp_le)

lemma weights_before_Suc:
  "j < length is \<Longrightarrow> weights_before is (Suc j) = weights_before is j + si_weight (is ! j)"
  by (simp add: weights_before_def take_Suc_conv_app_nth)

lemma weights_before_mono:
  "\<forall>i \<in> set is. 0 < si_weight i \<Longrightarrow> j < k \<Longrightarrow> k \<le> length is \<Longrightarrow> weights_before is j < weights_before is k"
proof (induction k)
  case (Suc k)
  then have "0 < si_weight (is ! k)" "weights_before is j \<le> weights_before is k"
    by (cases "j = k"; simp)+
  with Suc.prems weights_before_Suc [of k "is"] show ?case by linarith
qed simp

text \<open>The targets for which an instance is picked: its weight many, but the first instance also
  gets the target 0, and the last one never reaches the total.\<close>

lemma sr_pick_iff:
  assumes "distinct is" and "\<forall>i \<in> set is. 0 < si_weight i" and "0 \<le> t" and "j < length is"
  shows "sr_pick is t = Some (is ! j) \<longleftrightarrow>
    (j = 0 \<or> weights_before is j < t) \<and> t \<le> weights_before is (Suc j)"
  using assms
proof (induction "is" arbitrary: t j)
  case Nil
  then show ?case by simp
next
  case (Cons i "is")
  show ?case
  proof (cases j)
    case 0
    then show ?thesis using Cons.prems sr_pick_in [of "is" "t - si_weight i" i] by auto
  next
    case (Suc k)
    have "0 \<le> weights_before is k" using Cons.prems by (simp add: weights_before_nonneg)
    moreover have "is ! k \<noteq> i" using Cons.prems Suc by auto
    moreover have "sr_pick is (t - si_weight i) = Some (is ! k) \<longleftrightarrow>
        (k = 0 \<or> weights_before is k < t - si_weight i) \<and> t - si_weight i \<le> weights_before is (Suc k)"
      if "si_weight i < t" using Cons.IH [of "t - si_weight i" k] Cons.prems Suc that by simp
    ultimately show ?thesis using Suc by auto
  qed
qed

lemma rotate_count:
  fixes P :: "int \<Rightarrow> bool"
  assumes "0 < w"
  shows "length (filter (\<lambda>k. P (int k mod int w)) [a..<a + w]) = length (filter (\<lambda>k. P (int k)) [0..<w])"
proof (induction a)
  case 0
  show ?case by (auto intro!: arg_cong [of _ _ length] filter_cong)
next
  case (Suc a)
  have "[a..<a + w] = a # [Suc a..<a + w]" using assms by (simp add: upt_conv_Cons)
  moreover have "[Suc a..<Suc a + w] = [Suc a..<a + w] @ [a + w]" using assms by simp
  ultimately have "length (filter (\<lambda>k. P (int k mod int w)) [Suc a..<Suc a + w]) =
      length (filter (\<lambda>k. P (int k mod int w)) [a..<a + w])"
    by (simp only: filter.simps filter_append length_append of_nat_add mod_add_self2) simp
  with Suc show ?case by simp
qed

lemma interval_count:
  "length (filter (\<lambda>k. lo < int k \<and> int k \<le> hi) [0..<n]) = nat (min hi (int n - 1) - max lo (- 1))"
proof (induction n)
  case (Suc n)
  then show ?case by (auto simp: min_def max_def nat_diff_distrib')
qed simp

lemma sr_pick_total:
  "is \<noteq> [] \<Longrightarrow> t \<le> sum_list (map si_weight is) \<Longrightarrow> sr_pick is t \<noteq> None"
proof (induction "is" arbitrary: t)
  case (Cons i "is")
  then show ?case by (cases "is") auto
qed simp

lemma sr_resolve_counter:
  assumes "sr_discover r name None None = ds" and "ds \<noteq> []" and "\<forall>i \<in> set ds. 0 < si_weight i"
    and "num_or (jm_get (sr_counters r) name) 0 = int c"
  shows "snd (sr_resolve name r) = sr_pick ds (int (Suc c) mod sum_list (map si_weight ds))"
    and "sr_discover (fst (sr_resolve name r)) name None None = ds"
    and "num_or (jm_get (sr_counters (fst (sr_resolve name r))) name) 0 = int (Suc c)"
proof -
  obtain d ds' where d: "ds = d # ds'" using assms(2) by (cases ds) auto
  have "0 < weights_before ds (length ds)"
    using weights_before_mono [OF assms(3), of 0 "length ds"] assms(2) by simp
  then have w: "0 < sum_list (map si_weight ds)" by (simp add: weights_before_def)
  then have "sr_pick ds (int (Suc c) mod sum_list (map si_weight ds)) \<noteq> None"
    by (intro sr_pick_total assms(2)) (simp add: less_imp_le)
  with w assms(1,4) d show "snd (sr_resolve name r) = sr_pick ds (int (Suc c) mod sum_list (map si_weight ds))"
    by (auto simp: sr_resolve_def Let_def add.commute simp del: sr_pick.simps)
  show "sr_discover (fst (sr_resolve name r)) name None None = ds"
    using assms(1) d by (simp add: sr_resolve_def Let_def sr_discover_def)
  show "num_or (jm_get (sr_counters (fst (sr_resolve name r))) name) 0 = int (Suc c)"
    using assms(1,4) d by (simp add: sr_resolve_def Let_def num_or_def)
qed

lemma sr_resolves_picks:
  assumes "sr_discover r name None None = ds" and "ds \<noteq> []" and "\<forall>i \<in> set ds. 0 < si_weight i"
    and "num_or (jm_get (sr_counters r) name) 0 = int c"
  shows "sr_resolves n name r =
    map (\<lambda>k. sr_pick ds (int k mod sum_list (map si_weight ds))) [Suc c..<Suc c + n]"
  using assms
proof (induction n arbitrary: r c)
  case (Suc n)
  note step = sr_resolve_counter [OF Suc.prems]
  have "[Suc c..<Suc c + Suc n] = Suc c # [Suc (Suc c)..<Suc (Suc c) + n]"
    by (simp add: upt_conv_Cons)
  with Suc.IH [OF step(2) Suc.prems(2,3) step(3)] step(1) show ?case by simp
qed simp

lemma sr_ok_ids: "sr_ok r \<Longrightarrow> map si_id (jm_values (sr_instances r)) = jm_keys (sr_instances r)"
  by (auto simp: sr_ok_def jm_values_def jm_keys_def dest: jm_get_in)

lemma sr_discover_distinct: "sr_ok r \<Longrightarrow> distinct (sr_discover r name healthy tags)"
proof -
  assume ok: "sr_ok r"
  have "distinct (map si_id (jm_values (sr_instances r)))"
    using ok unfolding sr_ok_ids [OF ok] by (simp add: sr_ok_def jm_ok_def jm_keys_def)
  then have "distinct (jm_values (sr_instances r))" by (simp add: distinct_map)
  then show ?thesis by (simp add: sr_discover_def Let_def split: option.splits list.splits)
qed

lemma sr_counter_nat:
  assumes "sr_ok r" shows "num_or (jm_get (sr_counters r) name) 0 = int (nat (num_or (jm_get (sr_counters r) name) 0))"
proof -
  have "0 \<le> num_or (jm_get (sr_counters r) name) 0"
    using assms by (auto simp: sr_ok_def num_or_def less_imp_le split: option.splits)
  then show ?thesis by simp
qed

section \<open>The clean-up\<close>

text \<open>What the clean-up makes of one entry.\<close>

definition swept :: "ServiceRegistryOptions \<Rightarrow> int \<Rightarrow> string \<times> ServiceInstance \<Rightarrow> (string \<times> ServiceInstance) option" where
  "swept opts now e =
     (let silent = now - si_lastHeartbeat (snd e) in
      if silent > so_deregisterTimeout opts then None
      else if silent > so_unhealthyTimeout opts then Some (fst e, (snd e)\<lparr>si_status := unhealthy_service\<rparr>)
      else Some e)"

lemma jm_delete_middle:
  "jm_ok (pre @ (k, v) # es) \<Longrightarrow> jm_delete k (pre @ (k, v) # es) = pre @ es"
  unfolding jm_delete_def jm_ok_def
  by (induction pre) (auto intro!: delete_id)

lemma jm_set_middle:
  "jm_ok (pre @ (k, v) # es) \<Longrightarrow> jm_set k w (pre @ (k, v) # es) = pre @ (k, w) # es"
  unfolding jm_set_def jm_ok_def by (induction pre) auto

lemma sr_sweep_middle:
  assumes "sr_instances r = pre @ e # es" and "jm_ok (sr_instances r)"
  shows "sr_instances (sr_sweep now e r) =
      pre @ (case swept (sr_options r) now e of None \<Rightarrow> [] | Some e' \<Rightarrow> [e']) @ es"
    and "sr_options (sr_sweep now e r) = sr_options r"
    and "jm_ok (sr_instances (sr_sweep now e r))"
proof -
  obtain k i where e: "e = (k, i)" by (cases e)
  have "i\<lparr>si_status := unhealthy_service\<rparr> = i" if "si_status i = unhealthy_service"
    using that by (cases i) simp
  then show "sr_instances (sr_sweep now e r) =
      pre @ (case swept (sr_options r) now e of None \<Rightarrow> [] | Some e' \<Rightarrow> [e']) @ es"
    using assms jm_delete_middle [of pre k i es] jm_set_middle [of pre k i es]
    by (auto simp: sr_sweep_def swept_def e Let_def)
  show "sr_options (sr_sweep now e r) = sr_options r" "jm_ok (sr_instances (sr_sweep now e r))"
    using assms(2) by (auto simp: sr_sweep_def e Let_def)
qed

lemma sr_sweeps:
  "sr_instances r = pre @ es \<Longrightarrow> jm_ok (sr_instances r) \<Longrightarrow>
     sr_instances (fold (sr_sweep now) es r) = pre @ List.map_filter (swept (sr_options r) now) es"
proof (induction es arbitrary: pre r)
  case Nil
  then show ?case by (simp add: List.map_filter_simps)
next
  case (Cons e es)
  note m = sr_sweep_middle [OF Cons.prems, of now]
  show ?case
    using Cons.IH [of "sr_sweep now e r" "pre @ (case swept (sr_options r) now e of None \<Rightarrow> [] | Some e' \<Rightarrow> [e'])"] m
    by (simp add: List.map_filter_simps split: option.splits)
qed

lemma sr_cleanup_instances:
  "sr_ok r \<Longrightarrow> sr_instances (sr_cleanup now r) = List.map_filter (swept (sr_options r) now) (sr_instances r)"
  unfolding sr_cleanup_def using sr_sweeps [of r "[]" "sr_instances r" now] by (simp add: sr_ok_def)

lemma sr_options_apply [simp]: "sr_options (sr_apply op r) = sr_options r"
proof (cases op)
  case (Cleanup now)
  have "sr_options (fold (sr_sweep now) es r) = sr_options r" for es
    by (induction es arbitrary: r) (auto simp: sr_sweep_def Let_def split: prod.splits)
  with Cleanup show ?thesis by (simp add: sr_cleanup_def)
qed (auto simp: sr_register_def sr_deregister_def sr_heartbeat_def sr_resolve_def Let_def
    split: option.splits list.splits)

lemma sr_options_history: "sr_options (fold sr_apply ops r) = sr_options r"
  by (induction ops arbitrary: r) auto

section \<open>Properties\<close>

text \<open>
  C19. Load balancing. In a round of as many resolutions as the total weight, from any reachable
  state, each usable instance is returned as often as its weight says, except that the first one is
  returned once more and the last one once less: of two or more instances of weight 1 the last gets
  no traffic at all.
\<close>

theorem round_robin_shares:
  assumes "ds = sr_discover (fold sr_apply ops (new_ServiceRegistry options)) name None None"
    and "\<forall>i \<in> set ds. 0 < si_weight i" and "j < length ds"
  shows "int (length (filter (\<lambda>x. x = Some (ds ! j))
      (sr_resolves (nat (sum_list (map si_weight ds))) name (fold sr_apply ops (new_ServiceRegistry options))))) =
    si_weight (ds ! j) + (if j = 0 then 1 else 0) - (if Suc j = length ds then 1 else 0)"
proof -
  let ?r = "fold sr_apply ops (new_ServiceRegistry options)" and ?w = "sum_list (map si_weight ds)"
  define c where "c = nat (num_or (jm_get (sr_counters ?r) name) 0)"
  have ok: "sr_ok ?r" by (intro sr_ok_history sr_ok_new)
  have dist: "distinct ds" unfolding assms(1) by (rule sr_discover_distinct [OF ok])
  have ne: "ds \<noteq> []" using assms(3) by auto
  have len: "weights_before ds (length ds) = ?w" by (simp add: weights_before_def)
  have "0 < weights_before ds (length ds)"
    using weights_before_mono [OF assms(2), of 0 "length ds"] ne by simp
  then have w: "0 < ?w" using len by simp
  have "length (filter (\<lambda>x. x = Some (ds ! j)) (sr_resolves (nat ?w) name ?r)) =
      length (filter (\<lambda>k. sr_pick ds (int k mod ?w) = Some (ds ! j)) [Suc c..<Suc c + nat ?w])"
    using sr_resolves_picks [OF assms(1) [symmetric] ne assms(2), of c "nat ?w"] sr_counter_nat [OF ok, of name]
    by (simp add: c_def filter_map comp_def)
  also have "\<dots> = length (filter (\<lambda>k. sr_pick ds (int k) = Some (ds ! j)) [0..<nat ?w])"
    using rotate_count [of "nat ?w" "\<lambda>t. sr_pick ds t = Some (ds ! j)" "Suc c"] w by simp
  also have "\<dots> = length (filter (\<lambda>k. (if j = 0 then - 1 else weights_before ds j) < int k \<and>
      int k \<le> weights_before ds (Suc j)) [0..<nat ?w])"
    using sr_pick_iff [OF dist assms(2) _ assms(3)]
    by (intro arg_cong [of _ _ length] filter_cong) auto
  also have "int \<dots> = si_weight (ds ! j) + (if j = 0 then 1 else 0) - (if Suc j = length ds then 1 else 0)"
  proof -
    have "weights_before ds (Suc j) = weights_before ds j + si_weight (ds ! j)"
      using assms(3) by (rule weights_before_Suc)
    moreover have "0 \<le> weights_before ds j" "0 < si_weight (ds ! j)"
      using assms(2,3) weights_before_nonneg by auto
    moreover have "if Suc j = length ds then weights_before ds (Suc j) = ?w else weights_before ds (Suc j) < ?w"
      using weights_before_mono [OF assms(2), of "Suc j" "length ds"] assms(3) len by auto
    ultimately show ?thesis
      unfolding interval_count using w by (auto simp: min_def max_def split: if_splits)
  qed
  finally show ?thesis .
qed

definition demo_instance :: "string \<Rightarrow> ServiceInstance" where
  "demo_instance k =
     \<lparr>si_id = k, si_name = ''api'', si_version = ''1'', si_host = ''h'', si_port = 80, si_protocol = http,
      si_status = healthy_service, si_metadata = [], si_tags = [], si_registeredAt = 0,
      si_lastHeartbeat = 0, si_weight = 1\<rparr>"

definition demo_registry_options :: ServiceRegistryOptions where
  "demo_registry_options =
     \<lparr>so_heartbeatInterval = 10, so_unhealthyTimeout = 30, so_deregisterTimeout = 60\<rparr>"

lemma demo_discover:
  "sr_discover (fold sr_apply [Register 0 (demo_instance ''a''), Register 0 (demo_instance ''b'')]
     (new_ServiceRegistry demo_registry_options)) ''api'' None None = [demo_instance ''a'', demo_instance ''b'']"
  by (simp add: sr_discover_def sr_register_def new_ServiceRegistry_def demo_instance_def jm_values_def
      jm_set_def Let_def)

theorem round_robin_shares_witness:
  "length (filter (\<lambda>x. x = Some (demo_instance ''b'')) (sr_resolves 2 ''api''
     (fold sr_apply [Register 0 (demo_instance ''a''), Register 0 (demo_instance ''b'')]
       (new_ServiceRegistry demo_registry_options)))) = 0"
  using round_robin_shares [OF demo_discover [symmetric], of 1]
  by (simp add: demo_instance_def)

text \<open>
  Freshness. From any reachable state, discovery after a clean-up returns exactly the instances
  it returned before whose last heartbeat lies within both timeouts, in the same order.
\<close>

theorem cleanup_keeps_fresh:
  "sr_discover (sr_cleanup now (fold sr_apply ops (new_ServiceRegistry options))) name None tags =
     filter (\<lambda>i. now - si_lastHeartbeat i \<le> so_unhealthyTimeout options \<and>
                 now - si_lastHeartbeat i \<le> so_deregisterTimeout options)
       (sr_discover (fold sr_apply ops (new_ServiceRegistry options)) name None tags)"
proof -
  let ?r = "fold sr_apply ops (new_ServiceRegistry options)"
  let ?fresh = "\<lambda>i. now - si_lastHeartbeat i \<le> so_unhealthyTimeout options \<and>
    now - si_lastHeartbeat i \<le> so_deregisterTimeout options"
  have "sr_ok ?r" by (intro sr_ok_history sr_ok_new)
  then have inst: "sr_instances (sr_cleanup now ?r) = List.map_filter (swept options now) (sr_instances ?r)"
    using sr_cleanup_instances by (simp add: sr_options_history new_ServiceRegistry_def)
  have usable: "filter (\<lambda>i. si_name i = name \<and> (si_status i = healthy_service \<or> si_status i = degraded_service))
      (jm_values (List.map_filter (swept options now) es)) =
    filter ?fresh (filter (\<lambda>i. si_name i = name \<and>
      (si_status i = healthy_service \<or> si_status i = degraded_service)) (jm_values es))" for es
    by (induction es) (auto simp: jm_values_def List.map_filter_simps swept_def Let_def split: option.splits if_splits)
  have split: "filter (\<lambda>i. si_status i = healthy_service \<or> si_status i = degraded_service)
      (filter (\<lambda>i. si_name i = name) xs) =
    filter (\<lambda>i. si_name i = name \<and> (si_status i = healthy_service \<or> si_status i = degraded_service)) xs" for xs
    by (auto intro: filter_cong)
  show ?thesis
    unfolding sr_discover_def Let_def inst
    by (auto simp: split usable split: option.splits list.splits intro!: filter_cong)
qed

end
