(* ===== verification/VoidTypes.thy ===== *)
theory VoidTypes
  imports JsMap
begin

text \<open>
  The data of the secret store: the types of \<open>packages/void/src/types.ts\<close> that the service uses.

  Timestamps are times in milliseconds where the code stores ISO strings it made itself: strings of
  that format compare like their times. A timestamp that a caller supplies as a string is a
  \<open>js_date\<close>, the value of \<open>new Date(...)\<close>, which may be invalid; every comparison with an invalid date
  is false. \<open>Partial<T>\<close> is a record of options. The types of multi-party computation are declared in
  the source and never used.
\<close>

section \<open>Enumerations\<close>

datatype SecretClassification = INTERNAL | CONFIDENTIAL | CLASSIFIED | VOID | QUANTUM | NEURAL

datatype SecretType =
    PRIVATE_KEY | SYMMETRIC_KEY | SIGNING_KEY | QUANTUM_KEY | CERTIFICATE | CA_BUNDLE
  | API_KEY | OAUTH_SECRET | DATABASE_URL | SERVICE_ACCOUNT | WEBHOOK_SECRET | PASSPHRASE
  | MASTER_KEY | SHAMIR_SHARD | MPC_SHARE | HSM_REFERENCE | ZERO_KNOWLEDGE
  | ENCRYPTION_KEY | HMAC_SECRET | SESSION_SECRET | TOTP_SEED | BACKUP_CODE
  | PAYMENT_KEY | BANK_CREDENTIAL | CRYPTO_WALLET
  | NEURAL_BINDING | QUANTUM_ENTANGLED | BIO_METRIC_HASH | HOLOGRAPHIC

datatype SecretStatus =
    S_ACTIVE | S_ROTATING | S_DEPRECATED | S_REVOKED | S_EXPIRED | S_SHREDDED | S_QUARANTINED | S_SEALED

datatype EncryptionAlgorithm =
    AES_256_GCM | CHACHA20_POLY1305 | AES_256_CBC | ML_KEM_1024 | ML_KEM_768 | ML_DSA_65
  | SLH_DSA_256 | BIKE_L3 | HYBRID_X25519_MLKEM | HYBRID_P384_MLKEM

datatype RotationStrategy = IMMEDIATE | GRACEFUL | DUAL_ACTIVE | BLUE_GREEN | CANARY

datatype ComplianceFramework =
    F_GDPR | F_SOC2 | F_ISO27001 | F_PCI_DSS | F_HIPAA | F_FIPS_140 | F_NIST_CSF | F_DORA | F_NIS2

datatype SecretAction =
    A_CREATE | A_READ | A_UPDATE | A_DELETE | A_ACCESS_GRANTED | A_ACCESS_DENIED | A_ACCESS_REVOKED
  | A_ROTATE | A_ROTATION_START | A_ROTATION_COMPLETE | A_ROTATION_FAILED
  | A_SHARD_DISTRIBUTE | A_SHARD_COLLECT | A_RECONSTRUCT
  | A_SEAL | A_UNSEAL | A_QUARANTINE | A_SHRED | A_BREAK_GLASS
  | A_POLICY_UPDATE | A_POLICY_EVALUATE | A_ZK_PROOF_GENERATE | A_ZK_PROOF_VERIFY

definition all_classifications :: "SecretClassification list" where
  "all_classifications = [INTERNAL, CONFIDENTIAL, CLASSIFIED, VOID, QUANTUM, NEURAL]"

definition all_secret_types :: "SecretType list" where
  "all_secret_types =
     [PRIVATE_KEY, SYMMETRIC_KEY, SIGNING_KEY, QUANTUM_KEY, CERTIFICATE, CA_BUNDLE, API_KEY,
      OAUTH_SECRET, DATABASE_URL, SERVICE_ACCOUNT, WEBHOOK_SECRET, PASSPHRASE, MASTER_KEY,
      SHAMIR_SHARD, MPC_SHARE, HSM_REFERENCE, ZERO_KNOWLEDGE, ENCRYPTION_KEY, HMAC_SECRET,
      SESSION_SECRET, TOTP_SEED, BACKUP_CODE, PAYMENT_KEY, BANK_CREDENTIAL, CRYPTO_WALLET,
      NEURAL_BINDING, QUANTUM_ENTANGLED, BIO_METRIC_HASH, HOLOGRAPHIC]"

definition all_statuses :: "SecretStatus list" where
  "all_statuses =
     [S_ACTIVE, S_ROTATING, S_DEPRECATED, S_REVOKED, S_EXPIRED, S_SHREDDED, S_QUARANTINED, S_SEALED]"

text \<open>The string values of the enumerations that get into texts.\<close>

primrec classification_str :: "SecretClassification \<Rightarrow> string" where
  "classification_str INTERNAL = ''INTERNAL''"
| "classification_str CONFIDENTIAL = ''CONFIDENTIAL''"
| "classification_str CLASSIFIED = ''CLASSIFIED''"
| "classification_str VOID = ''VOID''"
| "classification_str QUANTUM = ''QUANTUM''"
| "classification_str NEURAL = ''NEURAL''"

primrec strategy_str :: "RotationStrategy \<Rightarrow> string" where
  "strategy_str IMMEDIATE = ''IMMEDIATE''"
| "strategy_str GRACEFUL = ''GRACEFUL''"
| "strategy_str DUAL_ACTIVE = ''DUAL_ACTIVE''"
| "strategy_str BLUE_GREEN = ''BLUE_GREEN''"
| "strategy_str CANARY = ''CANARY''"

primrec secret_type_str :: "SecretType \<Rightarrow> string" where
  "secret_type_str PRIVATE_KEY = ''PRIVATE_KEY''"
| "secret_type_str SYMMETRIC_KEY = ''SYMMETRIC_KEY''"
| "secret_type_str SIGNING_KEY = ''SIGNING_KEY''"
| "secret_type_str QUANTUM_KEY = ''QUANTUM_KEY''"
| "secret_type_str CERTIFICATE = ''CERTIFICATE''"
| "secret_type_str CA_BUNDLE = ''CA_BUNDLE''"
| "secret_type_str API_KEY = ''API_KEY''"
| "secret_type_str OAUTH_SECRET = ''OAUTH_SECRET''"
| "secret_type_str DATABASE_URL = ''DATABASE_URL''"
| "secret_type_str SERVICE_ACCOUNT = ''SERVICE_ACCOUNT''"
| "secret_type_str WEBHOOK_SECRET = ''WEBHOOK_SECRET''"
| "secret_type_str PASSPHRASE = ''PASSPHRASE''"
| "secret_type_str MASTER_KEY = ''MASTER_KEY''"
| "secret_type_str SHAMIR_SHARD = ''SHAMIR_SHARD''"
| "secret_type_str MPC_SHARE = ''MPC_SHARE''"
| "secret_type_str HSM_REFERENCE = ''HSM_REFERENCE''"
| "secret_type_str ZERO_KNOWLEDGE = ''ZERO_KNOWLEDGE''"
| "secret_type_str ENCRYPTION_KEY = ''ENCRYPTION_KEY''"
| "secret_type_str HMAC_SECRET = ''HMAC_SECRET''"
| "secret_type_str SESSION_SECRET = ''SESSION_SECRET''"
| "secret_type_str TOTP_SEED = ''TOTP_SEED''"
| "secret_type_str BACKUP_CODE = ''BACKUP_CODE''"
| "secret_type_str PAYMENT_KEY = ''PAYMENT_KEY''"
| "secret_type_str BANK_CREDENTIAL = ''BANK_CREDENTIAL''"
| "secret_type_str CRYPTO_WALLET = ''CRYPTO_WALLET''"
| "secret_type_str NEURAL_BINDING = ''NEURAL_BINDING''"
| "secret_type_str QUANTUM_ENTANGLED = ''QUANTUM_ENTANGLED''"
| "secret_type_str BIO_METRIC_HASH = ''BIO_METRIC_HASH''"
| "secret_type_str HOLOGRAPHIC = ''HOLOGRAPHIC''"

primrec action_name :: "SecretAction \<Rightarrow> string" where
  "action_name A_CREATE = ''CREATE''"
| "action_name A_READ = ''READ''"
| "action_name A_UPDATE = ''UPDATE''"
| "action_name A_DELETE = ''DELETE''"
| "action_name A_ACCESS_GRANTED = ''ACCESS_GRANTED''"
| "action_name A_ACCESS_DENIED = ''ACCESS_DENIED''"
| "action_name A_ACCESS_REVOKED = ''ACCESS_REVOKED''"
| "action_name A_ROTATE = ''ROTATE''"
| "action_name A_ROTATION_START = ''ROTATION_START''"
| "action_name A_ROTATION_COMPLETE = ''ROTATION_COMPLETE''"
| "action_name A_ROTATION_FAILED = ''ROTATION_FAILED''"
| "action_name A_SHARD_DISTRIBUTE = ''SHARD_DISTRIBUTE''"
| "action_name A_SHARD_COLLECT = ''SHARD_COLLECT''"
| "action_name A_RECONSTRUCT = ''RECONSTRUCT''"
| "action_name A_SEAL = ''SEAL''"
| "action_name A_UNSEAL = ''UNSEAL''"
| "action_name A_QUARANTINE = ''QUARANTINE''"
| "action_name A_SHRED = ''SHRED''"
| "action_name A_BREAK_GLASS = ''BREAK_GLASS''"
| "action_name A_POLICY_UPDATE = ''POLICY_UPDATE''"
| "action_name A_POLICY_EVALUATE = ''POLICY_EVALUATE''"
| "action_name A_ZK_PROOF_GENERATE = ''ZK_PROOF_GENERATE''"
| "action_name A_ZK_PROOF_VERIFY = ''ZK_PROOF_VERIFY''"

section \<open>Dates of callers\<close>

datatype js_date = At int | Invalid_Date

text \<open>\<open>new Date(d) < new Date(t)\<close> and \<open>new Date(d) > new Date(t)\<close> for a valid \<open>t\<close>.\<close>

fun date_before :: "js_date \<Rightarrow> int \<Rightarrow> bool" where
  "date_before (At d) t = (d < t)"
| "date_before Invalid_Date t = False"

fun date_after :: "js_date \<Rightarrow> int \<Rightarrow> bool" where
  "date_after (At d) t = (t < d)"
| "date_after Invalid_Date t = False"

definition DAY :: int where "DAY = 86400000"

text \<open>\<open>Math.floor((d - now) / day)\<close>; \<^const>\<open>None\<close> is \<open>NaN\<close>.\<close>

fun days_until :: "js_date \<Rightarrow> int \<Rightarrow> int option" where
  "days_until (At d) now = Some ((d - now) div DAY)"
| "days_until Invalid_Date now = None"

definition days_le :: "js_date \<Rightarrow> int \<Rightarrow> int \<Rightarrow> bool" where
  "days_le d now n = (case days_until d now of None \<Rightarrow> False | Some k \<Rightarrow> k \<le> n)"

section \<open>Access control\<close>

datatype principal_type = P_user | P_role | P_service | P_group | P_organisation | P_system

record AccessPrincipal =
  ap_type :: principal_type
  ap_id :: string
  ap_name :: "string option"
  ap_expiresAt :: "js_date option"
  ap_grantedBy :: "string option"
  ap_grantedAt :: int

datatype condition_type =
    C_time_of_day | C_day_of_week | C_ip_range | C_geo_location | C_mfa_verified | C_risk_score_below
  | C_lighthouse_token_valid | C_hive_classification_match | C_quantum_verified | C_neural_verified

primrec condition_str :: "condition_type \<Rightarrow> string" where
  "condition_str C_time_of_day = ''time_of_day''"
| "condition_str C_day_of_week = ''day_of_week''"
| "condition_str C_ip_range = ''ip_range''"
| "condition_str C_geo_location = ''geo_location''"
| "condition_str C_mfa_verified = ''mfa_verified''"
| "condition_str C_risk_score_below = ''risk_score_below''"
| "condition_str C_lighthouse_token_valid = ''lighthouse_token_valid''"
| "condition_str C_hive_classification_match = ''hive_classification_match''"
| "condition_str C_quantum_verified = ''quantum_verified''"
| "condition_str C_neural_verified = ''neural_verified''"

datatype condition_operator = eq_op | neq_op | lt_op | lte_op | gt_op | gte_op | in_op | not_in_op | matches_op

record AccessCondition =
  ac_type :: condition_type
  ac_operator :: condition_operator
  ac_value :: jsval

record AccessWindow =
  aw_daysOfWeek :: "int list"
  aw_startTime :: string
  aw_endTime :: string
  aw_timezone :: string

record AccessRateLimit =
  rl_maxRequests :: int
  rl_windowSeconds :: int
  rl_perPrincipal :: bool

record BreakGlassConfig =
  bg_enabled :: bool
  bg_authorisedPrincipals :: "string list"
  bg_requireReason :: bool
  bg_alertOnUse :: bool
  bg_alertRecipients :: "string list"
  bg_autoRotateAfterUse :: bool

record SecretAccessPolicy =
  sp_readers :: "AccessPrincipal list"
  sp_writers :: "AccessPrincipal list"
  sp_managers :: "AccessPrincipal list"
  sp_approvers :: "AccessPrincipal list"
  sp_conditions :: "AccessCondition list"
  sp_requireApproval :: bool
  sp_approvalQuorum :: "int option"
  sp_accessWindows :: "AccessWindow list option"
  sp_ipAllowlist :: "string list option"
  sp_requireMFA :: bool
  sp_requireHardwareKey :: bool
  sp_rateLimit :: "AccessRateLimit option"
  sp_breakGlass :: "BreakGlassConfig option"

text \<open>\<open>Partial<SecretAccessPolicy>\<close>.\<close>

record PartialAccessPolicy =
  pp_readers :: "AccessPrincipal list option"
  pp_writers :: "AccessPrincipal list option"
  pp_managers :: "AccessPrincipal list option"
  pp_approvers :: "AccessPrincipal list option"
  pp_conditions :: "AccessCondition list option"
  pp_requireApproval :: "bool option"
  pp_approvalQuorum :: "int option"
  pp_accessWindows :: "AccessWindow list option"
  pp_ipAllowlist :: "string list option"
  pp_requireMFA :: "bool option"
  pp_requireHardwareKey :: "bool option"
  pp_rateLimit :: "AccessRateLimit option"
  pp_breakGlass :: "BreakGlassConfig option"

section \<open>Envelopes\<close>

datatype hash_algorithm = SHA_256 | SHA_384 | SHA_512 | BLAKE3

record EncryptedPayload =
  ep_ciphertext :: string
  ep_iv :: string
  ep_authTag :: string
  ep_aad :: "string option"
  ep_algorithm :: EncryptionAlgorithm
  ep_keyId :: string
  ep_keyVersion :: int
  ep_plaintextHash :: string
  ep_hashAlgorithm :: hash_algorithm
  ep_encryptedAt :: int

datatype kdf_algorithm = HKDF | PBKDF2 | Argon2id | scrypt | CRYSTALS_Kyber

record KeyDerivationInfo =
  kd_algorithm :: kdf_algorithm
  kd_salt :: string
  kd_iterations :: "int option"
  kd_memoryCost :: "int option"
  kd_parallelism :: "int option"
  kd_keyLength :: int
  kd_info :: "string option"

datatype holder_type = H_user | H_service | H_hsm | H_cloudflare_kv | H_supabase | H_offline

record ShardHolder =
  sh_holderId :: string
  sh_holderType :: holder_type
  sh_shardIndex :: int
  sh_encryptedShard :: string
  sh_publicKeyFingerprint :: string
  sh_confirmed :: bool
  sh_confirmedAt :: "int option"
  sh_geoLocation :: "string option"

record ShamirConfig =
  sc_totalShards :: int
  sc_threshold :: int
  sc_shardHolders :: "ShardHolder list"
  sc_distributed :: bool
  sc_distributedAt :: "int option"
  sc_lastReconstructedAt :: "int option"
  sc_requireAudit :: bool

record PartialShamirConfig =
  ps_totalShards :: "int option"
  ps_threshold :: "int option"
  ps_shardHolders :: "ShardHolder list option"
  ps_distributed :: "bool option"
  ps_distributedAt :: "int option"
  ps_lastReconstructedAt :: "int option"
  ps_requireAudit :: "bool option"

record ShamirReconstructionResult =
  sx_success :: bool
  sx_secretId :: string
  sx_shardsUsed :: nat
  sx_reconstructedAt :: int
  sx_requestedBy :: string
  sx_reason :: string
  sx_auditId :: string

datatype zk_system = Groth16 | PLONK | STARKs | Bulletproofs | Nova | Halo2

record ZeroKnowledgeBinding =
  zk_system :: zk_system
  zk_commitment :: string
  zk_verificationKey :: string
  zk_proof :: string
  zk_publicInputs :: "string list"
  zk_circuitId :: string
  zk_proofGeneratedAt :: int
  zk_proofExpiresAt :: "int option"

record ZKVerificationResult =
  zv_valid :: bool
  zv_secretId :: string
  zv_verifiedAt :: int
  zv_verifier :: string
  zv_proofSystem :: zk_system
  zv_publicInputsHash :: string

record RotationConfig =
  rc_enabled :: bool
  rc_intervalDays :: int
  rc_strategy :: RotationStrategy
  rc_notifyDaysBefore :: int
  rc_notifyRecipients :: "string list"
  rc_lastRotatedAt :: "int option"
  rc_nextRotationAt :: "js_date option"
  rc_webhookUrl :: "string option"
  rc_keepVersions :: int
  rc_customHandler :: "string option"

record PartialRotationConfig =
  pc_enabled :: "bool option"
  pc_intervalDays :: "int option"
  pc_strategy :: "RotationStrategy option"
  pc_notifyDaysBefore :: "int option"
  pc_notifyRecipients :: "string list option"
  pc_lastRotatedAt :: "int option"
  pc_nextRotationAt :: "js_date option"
  pc_webhookUrl :: "string option"
  pc_keepVersions :: "int option"
  pc_customHandler :: "string option"

datatype rotation_trigger = Tr_auto | Tr_manual | Tr_policy | Tr_breach_response

datatype rotation_status = Ro_pending | Ro_in_progress | Ro_completed | Ro_failed | Ro_rolled_back

record RotationEvent =
  re_id :: string
  re_secretId :: string
  re_previousVersion :: int
  re_newVersion :: int
  re_strategy :: RotationStrategy
  re_triggeredBy :: rotation_trigger
  re_triggeredByPrincipal :: "string option"
  re_startedAt :: int
  re_completedAt :: "int option"
  re_status :: rotation_status
  re_error :: "string option"

datatype audit_principal = AP_user | AP_service | AP_system | AP_admin | AP_break_glass

datatype audit_result = R_success | R_denied | R_error | R_partial

text \<open>The optional fields that no operation ever sets (addresses, routing path, risk score, denial
  reason) are left out.\<close>

record SecretAuditEntry =
  au_id :: string
  au_secretId :: string
  au_action :: SecretAction
  au_principalId :: string
  au_principalType :: audit_principal
  au_lighthouseTokenId :: "string option"
  au_result :: audit_result
  au_isBreakGlass :: bool
  au_reason :: "string option"
  au_timestamp :: int
  au_entryHash :: string
  au_previousEntryHash :: "string option"

datatype secret_environment = production | staging | development | testing

record SecretMetadata =
  md_sourceSystem :: "string option"
  md_externalRef :: "string option"
  md_environment :: secret_environment
  md_region :: string
  md_replicatedTo :: "string list option"
  md_labels :: "(string \<times> string) list"
  md_linkedEntityIds :: "string list option"
  md_linkedApplicationIds :: "string list option"
  md_complianceFrameworks :: "ComplianceFramework list"
  md_dataResidency :: "string list option"
  md_sensitivityScore :: int

record PartialMetadata =
  pm_sourceSystem :: "string option"
  pm_externalRef :: "string option"
  pm_environment :: "secret_environment option"
  pm_region :: "string option"
  pm_replicatedTo :: "string list option"
  pm_labels :: "(string \<times> string) list option"
  pm_linkedEntityIds :: "string list option"
  pm_linkedApplicationIds :: "string list option"
  pm_complianceFrameworks :: "ComplianceFramework list option"
  pm_dataResidency :: "string list option"
  pm_sensitivityScore :: "int option"

datatype legal_basis =
    consent | contract | legal_obligation | vital_interests | public_task | legitimate_interests

record SecretGDPR =
  gd_containsPersonalData :: bool
  gd_dataSubjectIds :: "string list option"
  gd_legalBasis :: "legal_basis option"
  gd_retentionDays :: "int option"
  gd_scheduledErasureAt :: "int option"
  gd_erasureCompletedAt :: "int option"
  gd_portabilityAvailable :: bool

record SecretEnvelope =
  se_id :: string
  se_name :: string
  se_description :: "string option"
  se_type :: SecretType
  se_classification :: SecretClassification
  se_status :: SecretStatus
  se_version :: nat
  se_previousVersions :: "string list"
  se_encryptedPayload :: EncryptedPayload
  se_keyDerivation :: KeyDerivationInfo
  se_accessPolicy :: SecretAccessPolicy
  se_shamirConfig :: "ShamirConfig option"
  se_zkBinding :: "ZeroKnowledgeBinding option"
  se_metadata :: SecretMetadata
  se_auditLog :: "SecretAuditEntry list"
  se_tags :: "string list"
  se_path :: string
  se_ownerId :: string
  se_organisationId :: "string option"
  se_expiresAt :: "js_date option"
  se_rotationConfig :: "RotationConfig option"
  se_gdpr :: SecretGDPR
  se_createdAt :: int
  se_updatedAt :: int
  se_lastAccessedAt :: "int option"

section \<open>Requests and answers\<close>

record StoreSecretRequest =
  rq_name :: string
  rq_description :: "string option"
  rq_type :: SecretType
  rq_classification :: SecretClassification
  rq_plaintext :: string
  rq_path :: string
  rq_tags :: "string list option"
  rq_accessPolicy :: "PartialAccessPolicy option"
  rq_shamirConfig :: "PartialShamirConfig option"
  rq_rotationConfig :: "PartialRotationConfig option"
  rq_expiresAt :: "js_date option"
  rq_metadata :: "PartialMetadata option"
  rq_requestedBy :: string
  rq_reason :: "string option"

record RetrieveSecretRequest =
  rr_secretId :: string
  rr_requestedBy :: string
  rr_reason :: "string option"
  rr_mfaToken :: "string option"
  rr_hardwareKeySignature :: "string option"
  rr_lighthouseTokenId :: "string option"
  rr_breakGlass :: "bool option"
  rr_breakGlassReason :: "string option"

record RetrieveSecretResponse =
  rs_secretId :: string
  rs_name :: string
  rs_type :: SecretType
  rs_classification :: SecretClassification
  rs_version :: nat
  rs_plaintext :: string
  rs_expiresAt :: "js_date option"
  rs_retrievedAt :: int
  rs_auditId :: string
  rs_warnings :: "string list option"

record RotateSecretRequest =
  ro_secretId :: string
  ro_newPlaintext :: "string option"
  ro_strategy :: RotationStrategy
  ro_requestedBy :: string
  ro_reason :: "string option"
  ro_gracePeriodHours :: "int option"

record SecretSearchOptions =
  sq_path :: "string option"
  sq_type :: "SecretType option"
  sq_classification :: "SecretClassification option"
  sq_status :: "SecretStatus option"
  sq_tags :: "string list option"
  sq_ownerId :: "string option"
  sq_organisationId :: "string option"
  sq_environment :: "secret_environment option"
  sq_expiringWithinDays :: "int option"
  sq_createdAfter :: "int option"
  sq_createdBefore :: "int option"
  sq_limit :: "int option"
  sq_offset :: "int option"

section \<open>The vault\<close>

datatype master_status = mk_active | mk_rotating | mk_retired

record VoidMasterKey =
  mk_id :: string
  mk_version :: int
  mk_algorithm :: EncryptionAlgorithm
  mk_status :: master_status
  mk_shamirShards :: "ShardHolder list"
  mk_shamirThreshold :: int
  mk_shamirTotal :: int
  mk_sealed :: bool
  mk_unsealProgress :: int
  mk_createdAt :: int
  mk_lastRotatedAt :: "int option"

record VaultSealStatus =
  vl_sealed :: bool
  vl_shamirThreshold :: int
  vl_shamirTotal :: int
  vl_shardsProvided :: nat
  vl_shardsRemaining :: int
  vl_progress :: int
  vl_lastSealedAt :: "int option"
  vl_lastUnsealedAt :: "int option"
  vl_sealedBy :: "string option"
  vl_unsealedBy :: "string list option"

record UnsealRequest =
  ur_shardIndex :: int
  ur_encryptedShard :: string
  ur_providedBy :: string
  ur_signature :: string

datatype health_status = V_healthy | V_degraded | V_critical | V_sealed

text \<open>The counts by classification, type and status are functions of the key.\<close>

record VoidMetrics =
  vm_totalSecrets :: nat
  vm_byClassification :: "SecretClassification \<Rightarrow> nat"
  vm_byType :: "SecretType \<Rightarrow> nat"
  vm_byStatus :: "SecretStatus \<Rightarrow> nat"
  vm_expiringIn7Days :: nat
  vm_expiringIn30Days :: nat
  vm_accessRequests24h :: nat
  vm_deniedRequests24h :: nat
  vm_breakGlassUses30d :: nat
  vm_rotationsCompleted30d :: nat
  vm_rotationsFailed30d :: nat
  vm_sealStatus :: VaultSealStatus
  vm_avgSensitivityScore :: int
  vm_pendingGDPRErasure :: nat
  vm_lastHealthCheck :: int
  vm_healthStatus :: health_status

datatype backend_type =
    B_cloudflare_kv | B_supabase | B_r2 | B_hsm | B_memory | B_quantum_storage

record StorageBackend =
  sb_id :: string
  sb_type :: backend_type
  sb_priority :: int
  sb_encrypted :: bool
  sb_region :: "string option"
  sb_config :: "(string \<times> jsval) list"

record VoidConfig =
  vc_masterKeyAlgorithm :: EncryptionAlgorithm
  vc_defaultEncryptionAlgorithm :: EncryptionAlgorithm
  vc_shamirThreshold :: int
  vc_shamirTotal :: int
  vc_autoSealMinutes :: int
  vc_maxSecretSizeBytes :: int
  vc_maxSecretsPerOrg :: int
  vc_defaultRetentionDays :: int
  vc_auditRetentionDays :: int
  vc_enableZKProofs :: bool
  vc_enableShamirForVoid :: bool
  vc_lighthouseIntegration :: bool
  vc_hiveIntegration :: bool
  vc_warpTunnelIntegration :: bool
  vc_storageBackends :: "StorageBackend list"

datatype threat_level = T_low | T_medium | T_high | T_critical

primrec threat_str :: "threat_level \<Rightarrow> string" where
  "threat_str T_low = ''low''"
| "threat_str T_medium = ''medium''"
| "threat_str T_high = ''high''"
| "threat_str T_critical = ''critical''"

datatype warp_status =
    W_initiated | W_scanning | W_capturing | W_encrypting | W_transferring | W_quarantined | W_failed

record SecretWarpTransfer =
  wt_id :: string
  wt_secretId :: string
  wt_secretName :: string
  wt_reason :: string
  wt_threatLevel :: threat_level
  wt_triggeredBy :: string
  wt_triggeredAt :: int
  wt_status :: warp_status
  wt_iceBoxEntryId :: "string option"
  wt_autoShredded :: bool
  wt_shredCompletedAt :: "int option"

end
