(* ===== verification/VoidVault.thy ===== *)
theory VoidVault
  imports VoidTypes Encoding
begin

text \<open>
  The secret store of \<open>packages/void/src/VoidService.ts\<close>: seal and unseal, storage, retrieval, update,
  crypto-shredding, rotation, Shamir bookkeeping, proofs, access control, quarantine, erasure,
  search, audit and metrics.

  Every operation takes the time and the random strings it draws (\<open>rnd k\<close> is the \<open>k\<close>-th draw of
  the operation), and reads the clock once. The encryption of the source is an encoding, and the
  model has that encoding; \<open>JSON.stringify\<close> and the decoding of byte strings outside the fragment of
  \<^theory_text>\<open>Encoding\<close> are the parameters of \<open>void_host\<close>. Operations are atomic except the quarantine,
  whose five delays are the operation \<open>warp_tick\<close>. Envelopes are looked up by their identifier; the
  callers do not modify the objects they are handed. Local time is UTC.
\<close>

record void_host =
  vh_json :: "(string \<times> jsval) list \<Rightarrow> string"
  vh_utf8 :: "nat list \<Rightarrow> string"

datatype void_error =
    VaultSealed int
  | InvalidShardSignature
  | NameRequired | PlaintextRequired | PathRequired
  | SecretTooLarge nat int
  | SecretNotFound string
  | SecretShredded string | SecretRevoked string | SecretQuarantined string | SecretSealed string
  | SecretExpired string
  | AccessDenied string
  | MFARequired | HardwareKeyRequired
  | RateLimited int int
  | NoShamirConfig string
  | InsufficientShards nat int
  | NoZKBinding string
  | NotAManager
  | InvalidTimeValue

datatype void_timer = AutoRotate int string string

record VoidService =
  vs_config :: VoidConfig
  vs_secrets :: "(string, SecretEnvelope) jsmap"
  vs_masterKey :: "VoidMasterKey option"
  vs_sealStatus :: VaultSealStatus
  vs_unsealShards :: "(int, string) jsmap"
  vs_rotationEvents :: "(string, RotationEvent list) jsmap"
  vs_warpTransfers :: "(string, SecretWarpTransfer) jsmap"
  vs_accessRequestLog :: "(string, int) jsmap"
  vs_timers :: "void_timer list"

type_synonym entropy = "nat \<Rightarrow> string"

section \<open>Configuration\<close>

definition void_DEFAULT_CONFIG :: VoidConfig where
  "void_DEFAULT_CONFIG =
     \<lparr>vc_masterKeyAlgorithm = ML_KEM_1024, vc_defaultEncryptionAlgorithm = AES_256_GCM,
      vc_shamirThreshold = 5, vc_shamirTotal = 9, vc_autoSealMinutes = 30,
      vc_maxSecretSizeBytes = 65536, vc_maxSecretsPerOrg = 10000, vc_defaultRetentionDays = 365,
      vc_auditRetentionDays = 2555, vc_enableZKProofs = True, vc_enableShamirForVoid = True,
      vc_lighthouseIntegration = True, vc_hiveIntegration = True, vc_warpTunnelIntegration = True,
      vc_storageBackends =
        [\<lparr>sb_id = ''cloudflare-kv-primary'', sb_type = B_cloudflare_kv, sb_priority = 1,
          sb_encrypted = True, sb_region = Some ''global'', sb_config = []\<rparr>,
         \<lparr>sb_id = ''supabase-secondary'', sb_type = B_supabase, sb_priority = 2,
          sb_encrypted = True, sb_region = Some ''eu-west-1'', sb_config = []\<rparr>]\<rparr>"

section \<open>Helpers\<close>

definition void_generateId :: "string \<Rightarrow> int \<Rightarrow> string \<Rightarrow> string" where
  "void_generateId pre now random = pre @ ''-'' @ radix_str 36 (nat now) @ ''-'' @ random"

definition generateFingerprint :: "string \<Rightarrow> string" where
  "generateFingerprint input = take 40 (simpleHash input)"

definition computeCommitment :: "string \<Rightarrow> string" where
  "computeCommitment input = ''commit:'' @ simpleHash input"

definition simulateEncryptedShard :: "string \<Rightarrow> nat \<Rightarrow> string \<Rightarrow> string" where
  "simulateEncryptedShard masterKeyId shardIndex random =
     base64url_encode (utf8_encode
       (''shard:'' @ masterKeyId @ '':'' @ nat_str shardIndex @ '':'' @ random))"

definition holder_types :: "holder_type list" where
  "holder_types =
     [H_hsm, H_cloudflare_kv, H_supabase, H_offline, H_hsm, H_cloudflare_kv, H_offline, H_supabase,
      H_offline]"

definition geo_locations :: "string list" where
  "geo_locations =
     [''eu-west-1'', ''us-east-1'', ''ap-southeast-1'', ''eu-central-1'', ''us-west-2'',
      ''ap-northeast-1'', ''sa-east-1'', ''af-south-1'', ''au-southeast-1'']"

definition generateShamirShards :: "string \<Rightarrow> entropy \<Rightarrow> ShardHolder list" where
  "generateShamirShards masterKeyId rnd =
     map (\<lambda>i. \<lparr>sh_holderId = ''shard-holder-'' @ nat_str (i + 1), sh_holderType = holder_types ! i,
               sh_shardIndex = int i + 1,
               sh_encryptedShard = simulateEncryptedShard masterKeyId (i + 1) (rnd i),
               sh_publicKeyFingerprint = generateFingerprint (''holder-'' @ nat_str (i + 1)),
               sh_confirmed = False, sh_confirmedAt = None, sh_geoLocation = Some (geo_locations ! i)\<rparr>)
       [0..<9]"

text \<open>The constructor.\<close>

definition new_VoidService :: "int \<Rightarrow> entropy \<Rightarrow> VoidConfig \<Rightarrow> VoidService" where
  "new_VoidService now rnd config =
     (let masterKeyId = void_generateId ''mk'' now (rnd 0)
      in \<lparr>vs_config = config, vs_secrets = [],
          vs_masterKey = Some
            \<lparr>mk_id = masterKeyId, mk_version = 1, mk_algorithm = vc_masterKeyAlgorithm config,
             mk_status = mk_active,
             mk_shamirShards = generateShamirShards masterKeyId (\<lambda>i. rnd (i + 1)),
             mk_shamirThreshold = vc_shamirThreshold config, mk_shamirTotal = vc_shamirTotal config,
             mk_sealed = True, mk_unsealProgress = 0, mk_createdAt = now, mk_lastRotatedAt = None\<rparr>,
          vs_sealStatus =
            \<lparr>vl_sealed = True, vl_shamirThreshold = vc_shamirThreshold config,
             vl_shamirTotal = vc_shamirTotal config, vl_shardsProvided = 0,
             vl_shardsRemaining = vc_shamirThreshold config, vl_progress = 0,
             vl_lastSealedAt = None, vl_lastUnsealedAt = None, vl_sealedBy = None,
             vl_unsealedBy = None\<rparr>,
          vs_unsealShards = [], vs_rotationEvents = [], vs_warpTransfers = [],
          vs_accessRequestLog = [], vs_timers = []\<rparr>)"

section \<open>Seal and unseal\<close>

definition verifyShardSignature :: "UnsealRequest \<Rightarrow> bool" where
  "verifyShardSignature request \<longleftrightarrow> ur_signature request \<noteq> [] \<and> ur_encryptedShard request \<noteq> []"

definition set_master_sealed :: "bool \<Rightarrow> int \<Rightarrow> VoidService \<Rightarrow> VoidService" where
  "set_master_sealed b progress v =
     v\<lparr>vs_masterKey := map_option (\<lambda>m. m\<lparr>mk_sealed := b, mk_unsealProgress := progress\<rparr>) (vs_masterKey v)\<rparr>"

definition completUnseal :: "int \<Rightarrow> string \<Rightarrow> VoidService \<Rightarrow> VoidService" where
  "completUnseal now unsealedBy v =
     (set_master_sealed False 100
       (v\<lparr>vs_sealStatus := (vs_sealStatus v)
            \<lparr>vl_sealed := False, vl_progress := 100, vl_shardsRemaining := 0,
             vl_lastUnsealedAt := Some now, vl_unsealedBy := Some [unsealedBy]\<rparr>\<rparr>))
       \<lparr>vs_unsealShards := []\<rparr>"

text \<open>The threshold of the configuration is positive, otherwise the progress is not a number.\<close>

definition provideUnsealShard ::
  "int \<Rightarrow> UnsealRequest \<Rightarrow> VoidService \<Rightarrow> VoidService \<times> (void_error + VaultSealStatus)" where
  "provideUnsealShard now request v =
     (if \<not> vl_sealed (vs_sealStatus v) then (v, Inr (vs_sealStatus v))
      else if \<not> verifyShardSignature request then (v, Inl InvalidShardSignature)
      else
        (let shards = jm_set (ur_shardIndex request) (ur_encryptedShard request) (vs_unsealShards v);
             threshold = vc_shamirThreshold (vs_config v);
             provided = jm_size shards;
             v1 = v\<lparr>vs_unsealShards := shards,
                    vs_sealStatus := (vs_sealStatus v)
                      \<lparr>vl_shardsProvided := provided,
                       vl_shardsRemaining := max 0 (threshold - int provided),
                       vl_progress := \<lfloor>of_nat provided / of_int threshold * 100 + (1 / 2 :: rat)\<rfloor>\<rparr>\<rparr>;
             v2 = (if int provided \<ge> threshold then completUnseal now (ur_providedBy request) v1 else v1)
         in (v2, Inr (vs_sealStatus v2))))"

definition sealVault :: "int \<Rightarrow> string \<Rightarrow> VoidService \<Rightarrow> VoidService \<times> VaultSealStatus" where
  "sealVault now sealedBy v =
     (let v1 = (set_master_sealed True 0
                 (v\<lparr>vs_sealStatus := (vs_sealStatus v)
                      \<lparr>vl_sealed := True, vl_shardsProvided := 0,
                       vl_shardsRemaining := vc_shamirThreshold (vs_config v), vl_progress := 0,
                       vl_lastSealedAt := Some now, vl_sealedBy := Some sealedBy\<rparr>\<rparr>))
                 \<lparr>vs_unsealShards := []\<rparr>
      in (v1, vs_sealStatus v1))"

definition getSealStatus :: "VoidService \<Rightarrow> VaultSealStatus" where
  "getSealStatus v = vs_sealStatus v"

definition requireUnsealed :: "VoidService \<Rightarrow> void_error option" where
  "requireUnsealed v =
     (if vl_sealed (vs_sealStatus v) then Some (VaultSealed (vl_shardsRemaining (vs_sealStatus v))) else None)"

section \<open>Encryption\<close>

definition selectEncryptionAlgorithm :: "SecretClassification \<Rightarrow> EncryptionAlgorithm" where
  "selectEncryptionAlgorithm classification =
     (case classification of
        VOID \<Rightarrow> ML_KEM_1024
      | QUANTUM \<Rightarrow> ML_KEM_1024
      | CLASSIFIED \<Rightarrow> HYBRID_X25519_MLKEM
      | CONFIDENTIAL \<Rightarrow> CHACHA20_POLY1305
      | NEURAL \<Rightarrow> SLH_DSA_256
      | INTERNAL \<Rightarrow> AES_256_GCM)"

definition encryptSecret ::
  "int \<Rightarrow> string \<Rightarrow> string \<Rightarrow> VoidService \<Rightarrow> string \<Rightarrow> EncryptionAlgorithm \<Rightarrow> string \<Rightarrow> EncryptedPayload" where
  "encryptSecret now iv authTag v plaintext algorithm secretId =
     \<lparr>ep_ciphertext = base64url_encode (utf8_encode plaintext) @ '':encrypted'', ep_iv = iv,
      ep_authTag = authTag, ep_aad = Some (''void:'' @ secretId), ep_algorithm = algorithm,
      ep_keyId = (case vs_masterKey v of Some m \<Rightarrow> mk_id m | None \<Rightarrow> ''mk-default''),
      ep_keyVersion = (case vs_masterKey v of Some m \<Rightarrow> mk_version m | None \<Rightarrow> 1),
      ep_plaintextHash = simpleHash plaintext, ep_hashAlgorithm = SHA_256, ep_encryptedAt = now\<rparr>"

text \<open>\<open>s.replace(needle, '')\<close>: the first occurrence only.\<close>

fun remove_needle :: "string \<Rightarrow> string \<Rightarrow> string" where
  "remove_needle needle [] = []"
| "remove_needle needle (c # cs) =
     (if js_startsWith (c # cs) needle then drop (length needle) (c # cs)
      else c # remove_needle needle cs)"

definition decryptSecret :: "void_host \<Rightarrow> EncryptedPayload \<Rightarrow> string" where
  "decryptSecret h payload =
     (let bytes = base64url_decode (remove_needle '':encrypted'' (ep_ciphertext payload))
      in case utf8_decode bytes of Some s \<Rightarrow> s | None \<Rightarrow> vh_utf8 h bytes)"

definition cryptoShred :: "SecretEnvelope \<Rightarrow> SecretEnvelope" where
  "cryptoShred e =
     e\<lparr>se_encryptedPayload := (se_encryptedPayload e)
         \<lparr>ep_keyId := ''SHREDDED'', ep_ciphertext := ''SHREDDED'', ep_iv := ''SHREDDED'',
          ep_authTag := ''SHREDDED''\<rparr>\<rparr>"

definition generateZKBinding :: "int \<Rightarrow> string \<Rightarrow> string \<Rightarrow> ZeroKnowledgeBinding" where
  "generateZKBinding now plaintext secretId =
     (let commitment = computeCommitment plaintext
      in \<lparr>zk_system = Groth16, zk_commitment = commitment,
          zk_verificationKey = generateFingerprint (''vk:'' @ secretId),
          zk_proof = generateFingerprint (''proof:'' @ secretId @ '':'' @ commitment),
          zk_publicInputs = [commitment], zk_circuitId = ''void-secret-v1'',
          zk_proofGeneratedAt = now, zk_proofExpiresAt = Some (now + 365 * DAY)\<rparr>)"

section \<open>What a new secret gets\<close>

definition spread :: "'a option \<Rightarrow> 'a \<Rightarrow> 'a" where
  "spread overriding base = dflt overriding base"

definition spread_opt :: "'a option \<Rightarrow> 'a option \<Rightarrow> 'a option" where
  "spread_opt overriding base = (case overriding of None \<Rightarrow> base | Some x \<Rightarrow> Some x)"

definition empty_partial_policy :: PartialAccessPolicy where
  "empty_partial_policy =
     \<lparr>pp_readers = None, pp_writers = None, pp_managers = None, pp_approvers = None,
      pp_conditions = None, pp_requireApproval = None, pp_approvalQuorum = None,
      pp_accessWindows = None, pp_ipAllowlist = None, pp_requireMFA = None,
      pp_requireHardwareKey = None, pp_rateLimit = None, pp_breakGlass = None\<rparr>"

text \<open>The object literal of the source, and the policy of the request spread over it.\<close>

definition base_policy :: "int \<Rightarrow> StoreSecretRequest \<Rightarrow> SecretAccessPolicy" where
  "base_policy now rq =
     (let pp = dflt (rq_accessPolicy rq) empty_partial_policy;
          owner = \<lparr>ap_type = P_user, ap_id = rq_requestedBy rq, ap_name = None, ap_expiresAt = None,
                   ap_grantedBy = Some ''system'', ap_grantedAt = now\<rparr>;
          secretive = (rq_classification rq = VOID \<or> rq_classification rq = CLASSIFIED)
      in \<lparr>sp_readers = owner # dflt (pp_readers pp) [],
          sp_writers = owner # dflt (pp_writers pp) [],
          sp_managers = owner # dflt (pp_managers pp) [],
          sp_approvers = dflt (pp_approvers pp) [],
          sp_conditions = dflt (pp_conditions pp) [],
          sp_requireApproval = dflt (pp_requireApproval pp) False,
          sp_approvalQuorum = None, sp_accessWindows = None, sp_ipAllowlist = None,
          sp_requireMFA = secretive,
          sp_requireHardwareKey = (rq_classification rq = VOID),
          sp_rateLimit = Some \<lparr>rl_maxRequests = 100, rl_windowSeconds = 3600, rl_perPrincipal = True\<rparr>,
          sp_breakGlass = Some
            \<lparr>bg_enabled = secretive, bg_authorisedPrincipals = [rq_requestedBy rq],
             bg_requireReason = True, bg_alertOnUse = True, bg_alertRecipients = [rq_requestedBy rq],
             bg_autoRotateAfterUse = True\<rparr>\<rparr>)"

definition buildAccessPolicy :: "int \<Rightarrow> StoreSecretRequest \<Rightarrow> SecretAccessPolicy" where
  "buildAccessPolicy now rq =
     (let pp = dflt (rq_accessPolicy rq) empty_partial_policy; b = base_policy now rq
      in \<lparr>sp_readers = spread (pp_readers pp) (sp_readers b),
          sp_writers = spread (pp_writers pp) (sp_writers b),
          sp_managers = spread (pp_managers pp) (sp_managers b),
          sp_approvers = spread (pp_approvers pp) (sp_approvers b),
          sp_conditions = spread (pp_conditions pp) (sp_conditions b),
          sp_requireApproval = spread (pp_requireApproval pp) (sp_requireApproval b),
          sp_approvalQuorum = spread_opt (pp_approvalQuorum pp) (sp_approvalQuorum b),
          sp_accessWindows = spread_opt (pp_accessWindows pp) (sp_accessWindows b),
          sp_ipAllowlist = spread_opt (pp_ipAllowlist pp) (sp_ipAllowlist b),
          sp_requireMFA = spread (pp_requireMFA pp) (sp_requireMFA b),
          sp_requireHardwareKey = spread (pp_requireHardwareKey pp) (sp_requireHardwareKey b),
          sp_rateLimit = spread_opt (pp_rateLimit pp) (sp_rateLimit b),
          sp_breakGlass = spread_opt (pp_breakGlass pp) (sp_breakGlass b)\<rparr>)"

definition buildShamirConfig :: "VoidService \<Rightarrow> string \<Rightarrow> entropy \<Rightarrow> PartialShamirConfig option \<Rightarrow> ShamirConfig" where
  "buildShamirConfig v secretId rnd partial =
     (let b = \<lparr>sc_totalShards = vc_shamirTotal (vs_config v), sc_threshold = vc_shamirThreshold (vs_config v),
               sc_shardHolders = generateShamirShards secretId rnd, sc_distributed = False,
               sc_distributedAt = None, sc_lastReconstructedAt = None, sc_requireAudit = True\<rparr>
      in case partial of None \<Rightarrow> b
         | Some p \<Rightarrow>
             \<lparr>sc_totalShards = spread (ps_totalShards p) (sc_totalShards b),
              sc_threshold = spread (ps_threshold p) (sc_threshold b),
              sc_shardHolders = spread (ps_shardHolders p) (sc_shardHolders b),
              sc_distributed = spread (ps_distributed p) (sc_distributed b),
              sc_distributedAt = spread_opt (ps_distributedAt p) (sc_distributedAt b),
              sc_lastReconstructedAt = spread_opt (ps_lastReconstructedAt p) (sc_lastReconstructedAt b),
              sc_requireAudit = spread (ps_requireAudit p) (sc_requireAudit b)\<rparr>)"

definition rotation_interval :: "SecretType \<Rightarrow> int" where
  "rotation_interval ty =
     (case ty of
        MASTER_KEY \<Rightarrow> 365 | PRIVATE_KEY \<Rightarrow> 365 | API_KEY \<Rightarrow> 90 | OAUTH_SECRET \<Rightarrow> 180
      | DATABASE_URL \<Rightarrow> 90 | SIGNING_KEY \<Rightarrow> 180 | SYMMETRIC_KEY \<Rightarrow> 90 | PAYMENT_KEY \<Rightarrow> 90
      | _ \<Rightarrow> 90)"

definition buildRotationConfig :: "int \<Rightarrow> SecretType \<Rightarrow> PartialRotationConfig option \<Rightarrow> RotationConfig" where
  "buildRotationConfig now ty partial =
     (let interval = rotation_interval ty;
          b = \<lparr>rc_enabled = True, rc_intervalDays = interval, rc_strategy = GRACEFUL,
               rc_notifyDaysBefore = 14, rc_notifyRecipients = [], rc_lastRotatedAt = None,
               rc_nextRotationAt = Some (At (now + interval * DAY)), rc_webhookUrl = None,
               rc_keepVersions = 3, rc_customHandler = None\<rparr>
      in case partial of None \<Rightarrow> b
         | Some p \<Rightarrow>
             \<lparr>rc_enabled = spread (pc_enabled p) (rc_enabled b),
              rc_intervalDays = spread (pc_intervalDays p) (rc_intervalDays b),
              rc_strategy = spread (pc_strategy p) (rc_strategy b),
              rc_notifyDaysBefore = spread (pc_notifyDaysBefore p) (rc_notifyDaysBefore b),
              rc_notifyRecipients = spread (pc_notifyRecipients p) (rc_notifyRecipients b),
              rc_lastRotatedAt = spread_opt (pc_lastRotatedAt p) (rc_lastRotatedAt b),
              rc_nextRotationAt = spread_opt (pc_nextRotationAt p) (rc_nextRotationAt b),
              rc_webhookUrl = spread_opt (pc_webhookUrl p) (rc_webhookUrl b),
              rc_keepVersions = spread (pc_keepVersions p) (rc_keepVersions b),
              rc_customHandler = spread_opt (pc_customHandler p) (rc_customHandler b)\<rparr>)"

text \<open>\<open>[...new Set(frameworks)]\<close> keeps the first of equal elements.\<close>

definition inferComplianceFrameworks :: "SecretType \<Rightarrow> SecretClassification \<Rightarrow> ComplianceFramework list" where
  "inferComplianceFrameworks ty classification =
     rev (remdups (rev
       ([F_ISO27001, F_SOC2] @
        (if ty = PAYMENT_KEY \<or> ty = BANK_CREDENTIAL then [F_PCI_DSS] else []) @
        (if classification = VOID \<or> classification = CLASSIFIED then [F_NIST_CSF, F_FIPS_140] else []) @
        (if ty = QUANTUM_KEY \<or> ty = QUANTUM_ENTANGLED then [F_NIST_CSF] else []))))"

definition calculateSensitivityScore :: "SecretType \<Rightarrow> SecretClassification \<Rightarrow> int" where
  "calculateSensitivityScore ty classification =
     (let baseScore =
        (case ty of
           MASTER_KEY \<Rightarrow> 100 | PRIVATE_KEY \<Rightarrow> 95 | QUANTUM_KEY \<Rightarrow> 100 | PAYMENT_KEY \<Rightarrow> 95
         | BANK_CREDENTIAL \<Rightarrow> 95 | SIGNING_KEY \<Rightarrow> 90 | SHAMIR_SHARD \<Rightarrow> 100 | MPC_SHARE \<Rightarrow> 95
         | DATABASE_URL \<Rightarrow> 85 | API_KEY \<Rightarrow> 75 | OAUTH_SECRET \<Rightarrow> 80 | SYMMETRIC_KEY \<Rightarrow> 85
         | _ \<Rightarrow> 60);
          bonus =
        (case classification of VOID \<Rightarrow> 0 | CLASSIFIED \<Rightarrow> 0 | CONFIDENTIAL \<Rightarrow> - 5 | INTERNAL \<Rightarrow> - 15 | _ \<Rightarrow> 0)
      in min 100 (max 0 (baseScore + bonus)))"

definition mightContainPersonalData :: "SecretType \<Rightarrow> bool" where
  "mightContainPersonalData ty \<longleftrightarrow> ty \<in> set [TOTP_SEED, BACKUP_CODE, BIO_METRIC_HASH, NEURAL_BINDING]"

definition build_metadata :: "SecretType \<Rightarrow> SecretClassification \<Rightarrow> PartialMetadata option \<Rightarrow> SecretMetadata" where
  "build_metadata ty classification partial =
     (let b = \<lparr>md_sourceSystem = None, md_externalRef = None, md_environment = production,
               md_region = ''eu-west-1'', md_replicatedTo = None, md_labels = [],
               md_linkedEntityIds = None, md_linkedApplicationIds = None,
               md_complianceFrameworks = inferComplianceFrameworks ty classification,
               md_dataResidency = None,
               md_sensitivityScore = calculateSensitivityScore ty classification\<rparr>
      in case partial of None \<Rightarrow> b
         | Some p \<Rightarrow>
             \<lparr>md_sourceSystem = spread_opt (pm_sourceSystem p) (md_sourceSystem b),
              md_externalRef = spread_opt (pm_externalRef p) (md_externalRef b),
              md_environment = spread (pm_environment p) (md_environment b),
              md_region = spread (pm_region p) (md_region b),
              md_replicatedTo = spread_opt (pm_replicatedTo p) (md_replicatedTo b),
              md_labels = spread (pm_labels p) (md_labels b),
              md_linkedEntityIds = spread_opt (pm_linkedEntityIds p) (md_linkedEntityIds b),
              md_linkedApplicationIds = spread_opt (pm_linkedApplicationIds p) (md_linkedApplicationIds b),
              md_complianceFrameworks = spread (pm_complianceFrameworks p) (md_complianceFrameworks b),
              md_dataResidency = spread_opt (pm_dataResidency p) (md_dataResidency b),
              md_sensitivityScore = spread (pm_sensitivityScore p) (md_sensitivityScore b)\<rparr>)"

section \<open>Audit entries\<close>

definition audit_result_str :: "audit_result \<Rightarrow> string" where
  "audit_result_str r =
     (case r of R_success \<Rightarrow> ''success'' | R_denied \<Rightarrow> ''denied'' | R_error \<Rightarrow> ''error'' | R_partial \<Rightarrow> ''partial'')"

definition opt_str :: "string option \<Rightarrow> jsval" where
  "opt_str s = (case s of None \<Rightarrow> JUndef | Some t \<Rightarrow> JStr t)"

definition str_opt :: "jsval \<Rightarrow> string option" where
  "str_opt v = (case v of JStr s \<Rightarrow> Some s | _ \<Rightarrow> None)"

definition createAuditEntry ::
  "void_host \<Rightarrow> int \<Rightarrow> string \<Rightarrow> VoidService \<Rightarrow> string \<Rightarrow> SecretAction \<Rightarrow> string \<Rightarrow> audit_result \<Rightarrow>
     (string \<times> jsval) list \<Rightarrow> SecretAuditEntry" where
  "createAuditEntry h now random v secretId action principalId result extra =
     (let auditId = void_generateId ''audit'' now random;
          previous = (case jm_get (vs_secrets v) secretId of
                        Some e \<Rightarrow> if se_auditLog e = [] then None
                                  else Some (au_entryHash (last (se_auditLog e)))
                      | None \<Rightarrow> None);
          entryHash = simpleHash (vh_json h
            ([(''id'', JStr auditId), (''secretId'', JStr secretId), (''action'', JStr (action_name action)),
              (''principalId'', JStr principalId), (''result'', JStr (audit_result_str result)),
              (''timestamp'', JStr (iso_str now))] @ extra))
      in \<lparr>au_id = auditId, au_secretId = secretId, au_action = action, au_principalId = principalId,
          au_principalType = AP_user,
          au_lighthouseTokenId = str_opt (obj_prop extra ''lighthouseTokenId''),
          au_result = result, au_isBreakGlass = (obj_prop extra ''isBreakGlass'' = JBool True),
          au_reason = str_opt (obj_prop extra ''reason''), au_timestamp = now,
          au_entryHash = entryHash, au_previousEntryHash = previous\<rparr>)"

definition log_audit :: "SecretAuditEntry \<Rightarrow> SecretEnvelope \<Rightarrow> SecretEnvelope" where
  "log_audit a e = e\<lparr>se_auditLog := se_auditLog e @ [a]\<rparr>"

definition put_secret :: "SecretEnvelope \<Rightarrow> string \<Rightarrow> VoidService \<Rightarrow> VoidService" where
  "put_secret e secretId v = v\<lparr>vs_secrets := jm_set secretId e (vs_secrets v)\<rparr>"

definition sanitiseEnvelope :: "SecretEnvelope \<Rightarrow> SecretEnvelope" where
  "sanitiseEnvelope e =
     e\<lparr>se_encryptedPayload := (se_encryptedPayload e)
         \<lparr>ep_ciphertext := ''[REDACTED]'', ep_iv := ''[REDACTED]'', ep_authTag := ''[REDACTED]''\<rparr>\<rparr>"

section \<open>Storing\<close>

text \<open>\<open>s.trim()\<close> is empty: the white space of the modelled code units.\<close>

definition is_blank :: "string \<Rightarrow> bool" where
  "is_blank s \<longleftrightarrow> list_all (\<lambda>c. (of_char c :: nat) \<in> set [9, 10, 11, 12, 13, 32, 160]) s"

definition validateSecretRequest :: "StoreSecretRequest \<Rightarrow> VoidService \<Rightarrow> void_error option" where
  "validateSecretRequest rq v =
     (let sizeBytes = length (utf8_encode (rq_plaintext rq)) in
      if is_blank (rq_name rq) then Some NameRequired
      else if rq_plaintext rq = [] then Some PlaintextRequired
      else if is_blank (rq_path rq) then Some PathRequired
      else if int sizeBytes > vc_maxSecretSizeBytes (vs_config v)
      then Some (SecretTooLarge sizeBytes (vc_maxSecretSizeBytes (vs_config v)))
      else None)"

definition deliverShards :: "int \<Rightarrow> ShamirConfig \<Rightarrow> ShamirConfig" where
  "deliverShards now config =
     config\<lparr>sc_shardHolders := map (\<lambda>s. s\<lparr>sh_confirmed := True, sh_confirmedAt := Some now\<rparr>) (sc_shardHolders config),
            sc_distributed := True, sc_distributedAt := Some now\<rparr>"

definition new_envelope :: "void_host \<Rightarrow> int \<Rightarrow> entropy \<Rightarrow> StoreSecretRequest \<Rightarrow> VoidService \<Rightarrow> SecretEnvelope" where
  "new_envelope h now rnd rq v =
     (let secretId = void_generateId ''sec'' now (rnd 0);
          shamir = (if rq_classification rq = VOID \<and> vc_enableShamirForVoid (vs_config v)
                    then Some (buildShamirConfig v secretId (\<lambda>i. rnd (i + 5)) (rq_shamirConfig rq)) else None)
      in \<lparr>se_id = secretId, se_name = rq_name rq, se_description = rq_description rq,
          se_type = rq_type rq, se_classification = rq_classification rq, se_status = S_ACTIVE,
          se_version = 1, se_previousVersions = [],
          se_encryptedPayload = encryptSecret now (rnd 1) (rnd 2) v (rq_plaintext rq)
            (selectEncryptionAlgorithm (rq_classification rq)) secretId,
          se_keyDerivation = \<lparr>kd_algorithm = HKDF, kd_salt = rnd 3, kd_iterations = None,
            kd_memoryCost = None, kd_parallelism = None, kd_keyLength = 32,
            kd_info = Some (''void:'' @ secretId @ '':'' @ classification_str (rq_classification rq))\<rparr>,
          se_accessPolicy = buildAccessPolicy now rq,
          se_shamirConfig = map_option (deliverShards now) shamir,
          se_zkBinding = (if vc_enableZKProofs (vs_config v) \<and> rq_classification rq \<noteq> INTERNAL
                          then Some (generateZKBinding now (rq_plaintext rq) secretId) else None),
          se_metadata = build_metadata (rq_type rq) (rq_classification rq) (rq_metadata rq),
          se_auditLog = [createAuditEntry h now (rnd 4) v secretId A_CREATE (rq_requestedBy rq) R_success
            [(''reason'', opt_str (rq_reason rq)),
             (''classification'', JStr (classification_str (rq_classification rq))),
             (''type'', JStr (secret_type_str (rq_type rq)))]],
          se_tags = dflt (rq_tags rq) [], se_path = rq_path rq, se_ownerId = rq_requestedBy rq,
          se_organisationId = None, se_expiresAt = rq_expiresAt rq,
          se_rotationConfig = Some (buildRotationConfig now (rq_type rq) (rq_rotationConfig rq)),
          se_gdpr = \<lparr>gd_containsPersonalData = mightContainPersonalData (rq_type rq),
            gd_dataSubjectIds = None, gd_legalBasis = None, gd_retentionDays = None,
            gd_scheduledErasureAt = None, gd_erasureCompletedAt = None,
            gd_portabilityAvailable = False\<rparr>,
          se_createdAt = now, se_updatedAt = now, se_lastAccessedAt = None\<rparr>)"

definition storeSecret ::
  "void_host \<Rightarrow> int \<Rightarrow> entropy \<Rightarrow> StoreSecretRequest \<Rightarrow> VoidService \<Rightarrow> VoidService \<times> (void_error + SecretEnvelope)" where
  "storeSecret h now rnd rq v =
     (case requireUnsealed v of Some err \<Rightarrow> (v, Inl err) | None \<Rightarrow>
     (case validateSecretRequest rq v of Some err \<Rightarrow> (v, Inl err) | None \<Rightarrow>
       (let envelope = new_envelope h now rnd rq v
        in (put_secret envelope (se_id envelope) v, Inr (sanitiseEnvelope envelope)))))"

section \<open>Access control\<close>

definition verifyLighthouseToken :: "string \<Rightarrow> bool" where
  "verifyLighthouseToken tokenId = js_startsWith tokenId ''uet-''"

definition void_evaluateCondition :: "RetrieveSecretRequest \<Rightarrow> AccessCondition \<Rightarrow> bool" where
  "void_evaluateCondition rq c =
     (case ac_type c of
        C_mfa_verified \<Rightarrow> str_truthy (rr_mfaToken rq)
      | C_lighthouse_token_valid \<Rightarrow> str_truthy (rr_lighthouseTokenId rq)
      | C_risk_score_below \<Rightarrow> True
      | _ \<Rightarrow> True)"

text \<open>1 January 1970 was a Thursday, day 4 of the week.\<close>

definition utc_day :: "int \<Rightarrow> int" where
  "utc_day now = (now div DAY + 4) mod 7"

definition utc_clock :: "int \<Rightarrow> string" where
  "utc_clock now =
     pad_start 2 (CHR ''0'') (int_str (now div 3600000 mod 24)) @ '':'' @
     pad_start 2 (CHR ''0'') (int_str (now div 60000 mod 60))"

definition checkAccessWindow :: "int \<Rightarrow> AccessWindow list \<Rightarrow> bool" where
  "checkAccessWindow now windows =
     list_ex (\<lambda>w. utc_day now \<in> set (aw_daysOfWeek w) \<and>
                  js_str_ge (utc_clock now) (aw_startTime w) \<and> js_str_le (utc_clock now) (aw_endTime w)) windows"

text \<open>The reason of a refusal; \<^const>\<open>None\<close> when access is allowed.\<close>

definition checkAccess :: "int \<Rightarrow> VoidConfig \<Rightarrow> SecretAccessPolicy \<Rightarrow> RetrieveSecretRequest \<Rightarrow> string option" where
  "checkAccess now config policy rq =
     (if rr_breakGlass rq = Some True then
        (case sp_breakGlass policy of
           None \<Rightarrow> Some ''Break-glass not enabled for this secret''
         | Some bg \<Rightarrow>
             if \<not> bg_enabled bg then Some ''Break-glass not enabled for this secret''
             else if rr_requestedBy rq \<notin> set (bg_authorisedPrincipals bg)
             then Some ''Principal not authorised for break-glass access''
             else if bg_requireReason bg \<and> \<not> str_truthy (rr_breakGlassReason rq)
             then Some ''Break-glass reason required''
             else None)
      else if \<not> list_ex (\<lambda>r. ap_id r = rr_requestedBy rq \<or> ap_id r = ''*'') (sp_readers policy)
      then Some ''Principal not in readers list''
      else if (case find (\<lambda>r. ap_id r = rr_requestedBy rq) (sp_readers policy) of
                 None \<Rightarrow> False
               | Some r \<Rightarrow> (case ap_expiresAt r of None \<Rightarrow> False | Some d \<Rightarrow> date_before d now))
      then Some ''Access grant has expired''
      else case find (\<lambda>c. \<not> void_evaluateCondition rq c) (sp_conditions policy) of
        Some c \<Rightarrow> Some (''Condition not met: '' @ condition_str (ac_type c))
      | None \<Rightarrow>
          if (case sp_accessWindows policy of
                None \<Rightarrow> False | Some ws \<Rightarrow> ws \<noteq> [] \<and> \<not> checkAccessWindow now ws)
          then Some ''Outside allowed access window''
          else if vc_lighthouseIntegration config \<and> str_truthy (rr_lighthouseTokenId rq) \<and>
                  \<not> verifyLighthouseToken (dflt (rr_lighthouseTokenId rq) [])
          then Some ''Lighthouse token invalid or revoked''
          else None)"

definition rate_key :: "int \<Rightarrow> string \<Rightarrow> AccessRateLimit \<Rightarrow> string" where
  "rate_key now principalId rl =
     principalId @ '':'' @
     (if rl_windowSeconds rl = 0 then ''Infinity'' else int_str (now div (rl_windowSeconds rl * 1000)))"

definition checkRateLimit ::
  "int \<Rightarrow> string \<Rightarrow> SecretAccessPolicy \<Rightarrow> VoidService \<Rightarrow> VoidService \<times> void_error option" where
  "checkRateLimit now principalId policy v =
     (case sp_rateLimit policy of
        None \<Rightarrow> (v, None)
      | Some rl \<Rightarrow>
          (let key = rate_key now principalId rl;
               count = dflt (jm_get (vs_accessRequestLog v) key) 0
           in if count \<ge> rl_maxRequests rl
              then (v, Some (RateLimited (rl_maxRequests rl) (rl_windowSeconds rl)))
              else (v\<lparr>vs_accessRequestLog := jm_set key (count + 1) (vs_accessRequestLog v)\<rparr>, None)))"

section \<open>Retrieval\<close>

definition retrieve_status :: "string \<Rightarrow> SecretStatus \<Rightarrow> void_error option" where
  "retrieve_status secretId status =
     (case status of
        S_SHREDDED \<Rightarrow> Some (SecretShredded secretId)
      | S_REVOKED \<Rightarrow> Some (SecretRevoked secretId)
      | S_QUARANTINED \<Rightarrow> Some (SecretQuarantined secretId)
      | S_SEALED \<Rightarrow> Some (SecretSealed secretId)
      | _ \<Rightarrow> None)"

definition handleBreakGlassAccess ::
  "int \<Rightarrow> string \<Rightarrow> SecretAccessPolicy \<Rightarrow> RetrieveSecretRequest \<Rightarrow> VoidService \<Rightarrow> VoidService" where
  "handleBreakGlassAccess now secretId policy rq v =
     (case sp_breakGlass policy of
        None \<Rightarrow> v
      | Some bg \<Rightarrow>
          if bg_autoRotateAfterUse bg
          then v\<lparr>vs_timers := vs_timers v @ [AutoRotate (now + 5000) secretId (rr_requestedBy rq)]\<rparr>
          else v)"

definition retrieve_warnings :: "int \<Rightarrow> SecretEnvelope \<Rightarrow> string list" where
  "retrieve_warnings now e =
     (case se_expiresAt e of
        None \<Rightarrow> []
      | Some d \<Rightarrow>
          (case days_until d now of
             None \<Rightarrow> []
           | Some n \<Rightarrow> if n \<le> 7 then [''Secret expires in '' @ int_str n @ '' days''] else [])) @
     (if se_status e = S_ROTATING
      then [''Secret is currently being rotated - new version available soon''] else [])"

text \<open>The answer once all checks are passed.\<close>

definition retrieve_granted ::
  "void_host \<Rightarrow> int \<Rightarrow> entropy \<Rightarrow> RetrieveSecretRequest \<Rightarrow> SecretEnvelope \<Rightarrow> VoidService \<Rightarrow>
     VoidService \<times> RetrieveSecretResponse" where
  "retrieve_granted h now rnd rq e v =
     (let secretId = rr_secretId rq;
          entry = createAuditEntry h now (rnd 0) v secretId A_READ (rr_requestedBy rq) R_success
            [(''reason'', opt_str (rr_reason rq)), (''isBreakGlass'', JBool (dflt (rr_breakGlass rq) False)),
             (''lighthouseTokenId'', opt_str (rr_lighthouseTokenId rq))];
          v1 = put_secret (log_audit entry (e\<lparr>se_lastAccessedAt := Some now\<rparr>)) secretId v;
          v2 = (if rr_breakGlass rq = Some True
                then handleBreakGlassAccess now secretId (se_accessPolicy e) rq v1 else v1);
          warnings = retrieve_warnings now e
      in (v2, \<lparr>rs_secretId = se_id e, rs_name = se_name e, rs_type = se_type e,
               rs_classification = se_classification e, rs_version = se_version e,
               rs_plaintext = decryptSecret h (se_encryptedPayload e), rs_expiresAt = se_expiresAt e,
               rs_retrievedAt = now, rs_auditId = au_id entry,
               rs_warnings = (if warnings = [] then None else Some warnings)\<rparr>))"

definition retrieveSecret ::
  "void_host \<Rightarrow> int \<Rightarrow> entropy \<Rightarrow> RetrieveSecretRequest \<Rightarrow> VoidService \<Rightarrow>
     VoidService \<times> (void_error + RetrieveSecretResponse)" where
  "retrieveSecret h now rnd rq v =
     (case requireUnsealed v of Some err \<Rightarrow> (v, Inl err) | None \<Rightarrow>
     (case jm_get (vs_secrets v) (rr_secretId rq) of None \<Rightarrow> (v, Inl (SecretNotFound (rr_secretId rq))) | Some e \<Rightarrow>
     (case retrieve_status (rr_secretId rq) (se_status e) of Some err \<Rightarrow> (v, Inl err) | None \<Rightarrow>
        if (case se_expiresAt e of None \<Rightarrow> False | Some d \<Rightarrow> date_before d now) then
          (put_secret (e\<lparr>se_status := S_EXPIRED\<rparr>) (rr_secretId rq) v, Inl (SecretExpired (rr_secretId rq)))
        else
     (case checkRateLimit now (rr_requestedBy rq) (se_accessPolicy e) v of
        (v1, Some err) \<Rightarrow> (v1, Inl err)
      | (v1, None) \<Rightarrow>
     (case checkAccess now (vs_config v) (se_accessPolicy e) rq of
        Some reason \<Rightarrow>
          (put_secret (log_audit (createAuditEntry h now (rnd 0) v1 (rr_secretId rq) A_ACCESS_DENIED
             (rr_requestedBy rq) R_denied [(''reason'', JStr reason)]) e) (rr_secretId rq) v1,
           Inl (AccessDenied reason))
      | None \<Rightarrow>
          if sp_requireMFA (se_accessPolicy e) \<and> \<not> str_truthy (rr_mfaToken rq) then (v1, Inl MFARequired)
          else if sp_requireHardwareKey (se_accessPolicy e) \<and> \<not> str_truthy (rr_hardwareKeySignature rq)
          then (v1, Inl HardwareKeyRequired)
          else map_prod id Inr (retrieve_granted h now rnd rq e v1))))))"

section \<open>Update and deletion\<close>

text \<open>The identifier of a version.\<close>

definition version_id :: "string \<Rightarrow> nat \<Rightarrow> string" where
  "version_id secretId n = secretId @ '':v'' @ nat_str n"

definition new_version :: "int \<Rightarrow> EncryptedPayload \<Rightarrow> string \<Rightarrow> SecretEnvelope \<Rightarrow> SecretEnvelope" where
  "new_version now payload secretId e =
     e\<lparr>se_previousVersions := se_previousVersions e @ [version_id secretId (se_version e)],
       se_version := se_version e + 1, se_encryptedPayload := payload\<rparr>"

definition updateSecret ::
  "void_host \<Rightarrow> int \<Rightarrow> entropy \<Rightarrow> string \<Rightarrow> string \<Rightarrow> string \<Rightarrow> string option \<Rightarrow> VoidService \<Rightarrow>
     VoidService \<times> (void_error + SecretEnvelope)" where
  "updateSecret h now rnd secretId newPlaintext updatedBy reason v =
     (case requireUnsealed v of Some err \<Rightarrow> (v, Inl err) | None \<Rightarrow>
     (case jm_get (vs_secrets v) secretId of None \<Rightarrow> (v, Inl (SecretNotFound secretId)) | Some e \<Rightarrow>
       (let payload = encryptSecret now (rnd 0) (rnd 1) v newPlaintext
              (selectEncryptionAlgorithm (se_classification e)) secretId;
            e1 = (new_version now payload secretId e)\<lparr>se_updatedAt := now\<rparr>;
            e2 = (if vc_enableZKProofs (vs_config v) \<and> se_zkBinding e \<noteq> None
                  then e1\<lparr>se_zkBinding := Some (generateZKBinding now newPlaintext secretId)\<rparr> else e1);
            e3 = log_audit (createAuditEntry h now (rnd 2) v secretId A_UPDATE updatedBy R_success
                   [(''reason'', opt_str reason)]) e2
        in (put_secret e3 secretId v, Inr (sanitiseEnvelope e3)))))"

definition deleteSecret ::
  "void_host \<Rightarrow> int \<Rightarrow> entropy \<Rightarrow> string \<Rightarrow> string \<Rightarrow> string \<Rightarrow> VoidService \<Rightarrow> VoidService \<times> (void_error + unit)" where
  "deleteSecret h now rnd secretId deletedBy reason v =
     (case requireUnsealed v of Some err \<Rightarrow> (v, Inl err) | None \<Rightarrow>
     (case jm_get (vs_secrets v) secretId of None \<Rightarrow> (v, Inl (SecretNotFound secretId)) | Some e \<Rightarrow>
       (let e1 = (cryptoShred e)\<lparr>se_status := S_SHREDDED, se_updatedAt := now\<rparr>
        in (put_secret (log_audit (createAuditEntry h now (rnd 0) v secretId A_SHRED deletedBy R_success
              [(''reason'', JStr reason)]) e1) secretId v, Inr ()))))"

section \<open>Rotation\<close>

text \<open>\<open>toISOString\<close> of a date outside the range of dates throws. The deprecation that a grace period
  schedules only writes to the log.\<close>

definition MAX_DATE :: int where
  "MAX_DATE = 8640000000000000"

definition set_last_event :: "string \<Rightarrow> RotationEvent \<Rightarrow> VoidService \<Rightarrow> VoidService" where
  "set_last_event secretId event v =
     v\<lparr>vs_rotationEvents :=
         jm_set secretId (butlast (dflt (jm_get (vs_rotationEvents v) secretId) []) @ [event]) (vs_rotationEvents v)\<rparr>"

definition next_rotation :: "int \<Rightarrow> RotationConfig \<Rightarrow> RotationConfig option" where
  "next_rotation now rc =
     (let rc1 = rc\<lparr>rc_lastRotatedAt := Some now\<rparr> in
      if rc_intervalDays rc = 0 then Some rc1
      else if \<bar>now + rc_intervalDays rc * DAY\<bar> > MAX_DATE then None
      else Some (rc1\<lparr>rc_nextRotationAt := Some (At (now + rc_intervalDays rc * DAY))\<rparr>))"

definition rotateSecret ::
  "void_host \<Rightarrow> int \<Rightarrow> entropy \<Rightarrow> RotateSecretRequest \<Rightarrow> VoidService \<Rightarrow> VoidService \<times> (void_error + RotationEvent)" where
  "rotateSecret h now rnd rq v =
     (let secretId = ro_secretId rq in
      case requireUnsealed v of Some err \<Rightarrow> (v, Inl err) | None \<Rightarrow>
     (case jm_get (vs_secrets v) secretId of None \<Rightarrow> (v, Inl (SecretNotFound secretId)) | Some e \<Rightarrow>
       (let event =
              \<lparr>re_id = void_generateId ''rot'' now (rnd 0), re_secretId = secretId,
               re_previousVersion = int (se_version e), re_newVersion = int (se_version e) + 1,
               re_strategy = ro_strategy rq, re_triggeredBy = Tr_manual,
               re_triggeredByPrincipal = Some (ro_requestedBy rq), re_startedAt = now,
               re_completedAt = None, re_status = Ro_in_progress, re_error = None\<rparr>;
            v1 = v\<lparr>vs_rotationEvents := jm_set secretId
                   (dflt (jm_get (vs_rotationEvents v) secretId) [] @ [event]) (vs_rotationEvents v)\<rparr>;
            payload = encryptSecret now (rnd 1) (rnd 2) v (dflt (ro_newPlaintext rq) (rnd 3))
              (selectEncryptionAlgorithm (se_classification e)) secretId;
            e1 = (new_version now payload secretId e)\<lparr>se_status := S_ACTIVE, se_updatedAt := now\<rparr>;
            rotated = (case se_rotationConfig e of
                         None \<Rightarrow> Some None
                       | Some rc \<Rightarrow> map_option Some (next_rotation now rc))
        in case rotated of
             Some rc \<Rightarrow>
               (let done = event\<lparr>re_status := Ro_completed, re_completedAt := Some now\<rparr>;
                    e2 = log_audit (createAuditEntry h now (rnd 4) v secretId A_ROTATE (ro_requestedBy rq) R_success
                      [(''reason'', opt_str (ro_reason rq)),
                       (''previousVersion'', JNum (of_nat (se_version e))),
                       (''newVersion'', JNum (of_nat (se_version e) + 1)),
                       (''strategy'', JStr (strategy_str (ro_strategy rq)))]) (e1\<lparr>se_rotationConfig := rc\<rparr>)
                in (put_secret e2 secretId (set_last_event secretId done v1), Inr done))
           | None \<Rightarrow>
               (let failed = event\<lparr>re_status := Ro_failed, re_error := Some ''Invalid time value''\<rparr>;
                    e2 = e1\<lparr>se_rotationConfig :=
                           map_option (\<lambda>rc. rc\<lparr>rc_lastRotatedAt := Some now\<rparr>) (se_rotationConfig e)\<rparr>
                in (put_secret e2 secretId (set_last_event secretId failed v1), Inl InvalidTimeValue)))))"

record RotationSummary =
  rsm_rotated :: nat
  rsm_failed :: nat
  rsm_skipped :: nat

text \<open>One secret of the automatic rotation; \<open>rnd\<close> gives the draws of its rotation.\<close>

definition auto_rotate_one ::
  "void_host \<Rightarrow> int \<Rightarrow> entropy \<Rightarrow> string \<Rightarrow> VoidService \<times> RotationSummary \<Rightarrow> VoidService \<times> RotationSummary" where
  "auto_rotate_one h now rnd secretId acc =
     (let (v, r) = acc; skip = (v, r\<lparr>rsm_skipped := rsm_skipped r + 1\<rparr>) in
      case jm_get (vs_secrets v) secretId of
        None \<Rightarrow> (v, r)
      | Some e \<Rightarrow>
          (case se_rotationConfig e of
             None \<Rightarrow> skip
           | Some rc \<Rightarrow>
               if \<not> rc_enabled rc then skip
               else if (case rc_nextRotationAt rc of None \<Rightarrow> True | Some d \<Rightarrow> date_after d now) then skip
               else (case rotateSecret h now rnd
                       \<lparr>ro_secretId = secretId, ro_newPlaintext = None, ro_strategy = rc_strategy rc,
                        ro_requestedBy = ''system:auto-rotation'', ro_reason = Some ''Scheduled auto-rotation'',
                        ro_gracePeriodHours = None\<rparr> v of
                       (v1, Inr _) \<Rightarrow> (v1, r\<lparr>rsm_rotated := rsm_rotated r + 1\<rparr>)
                     | (v1, Inl _) \<Rightarrow> (v1, r\<lparr>rsm_failed := rsm_failed r + 1\<rparr>))))"

definition runAutoRotation :: "void_host \<Rightarrow> int \<Rightarrow> (string \<Rightarrow> entropy) \<Rightarrow> VoidService \<Rightarrow> VoidService \<times> RotationSummary" where
  "runAutoRotation h now rnd v =
     fold (\<lambda>secretId. auto_rotate_one h now (rnd secretId) secretId) (jm_keys (vs_secrets v))
       (v, \<lparr>rsm_rotated = 0, rsm_failed = 0, rsm_skipped = 0\<rparr>)"

text \<open>The timer of a break-glass access fires: a rotation whose error is only logged.\<close>

definition timer_due :: "int \<Rightarrow> void_timer \<Rightarrow> bool" where
  "timer_due now t = (case t of AutoRotate due _ _ \<Rightarrow> due \<le> now)"

definition fire_timer :: "void_host \<Rightarrow> int \<Rightarrow> entropy \<Rightarrow> VoidService \<Rightarrow> VoidService" where
  "fire_timer h now rnd v =
     (case find (timer_due now) (vs_timers v) of
        None \<Rightarrow> v
      | Some (AutoRotate due secretId user) \<Rightarrow>
          fst (rotateSecret h now rnd
            \<lparr>ro_secretId = secretId, ro_newPlaintext = None, ro_strategy = IMMEDIATE,
             ro_requestedBy = ''system:break-glass-auto-rotate'',
             ro_reason = Some (''Auto-rotation after break-glass access by '' @ user),
             ro_gracePeriodHours = None\<rparr>
            (v\<lparr>vs_timers := remove_first (timer_due now) (vs_timers v)\<rparr>)))"

section \<open>Shards and proofs\<close>

definition reconstructFromShards ::
  "void_host \<Rightarrow> int \<Rightarrow> entropy \<Rightarrow> string \<Rightarrow> (int \<times> string) list \<Rightarrow> string \<Rightarrow> string \<Rightarrow> VoidService \<Rightarrow>
     VoidService \<times> (void_error + ShamirReconstructionResult)" where
  "reconstructFromShards h now rnd secretId shards requestedBy reason v =
     (case requireUnsealed v of Some err \<Rightarrow> (v, Inl err) | None \<Rightarrow>
     (case (case jm_get (vs_secrets v) secretId of None \<Rightarrow> None
            | Some e \<Rightarrow> map_option (Pair e) (se_shamirConfig e)) of
        None \<Rightarrow> (v, Inl (NoShamirConfig secretId))
      | Some (e, sc) \<Rightarrow>
          if int (length shards) < sc_threshold sc
          then (v, Inl (InsufficientShards (length shards) (sc_threshold sc)))
          else
            (let auditId = void_generateId ''audit'' now (rnd 0);
                 entry = createAuditEntry h now (rnd 1) v secretId A_RECONSTRUCT requestedBy R_success
                   [(''reason'', JStr reason), (''shardsUsed'', JNum (of_nat (length shards))),
                    (''auditId'', JStr auditId)]
             in (put_secret (log_audit entry e) secretId v,
                 Inr \<lparr>sx_success = True, sx_secretId = secretId, sx_shardsUsed = length shards,
                      sx_reconstructedAt = now, sx_requestedBy = requestedBy, sx_reason = reason,
                      sx_auditId = auditId\<rparr>))))"

definition verifyZKProof :: "int \<Rightarrow> string \<Rightarrow> string \<Rightarrow> string list \<Rightarrow> VoidService \<Rightarrow> void_error + ZKVerificationResult" where
  "verifyZKProof now secretId proof publicInputs v =
     (case (case jm_get (vs_secrets v) secretId of None \<Rightarrow> None | Some e \<Rightarrow> se_zkBinding e) of
        None \<Rightarrow> Inl (NoZKBinding secretId)
      | Some z \<Rightarrow>
          Inr \<lparr>zv_valid = (proof = zk_proof z), zv_secretId = secretId, zv_verifiedAt = now,
               zv_verifier = ''void-zk-engine-v1'', zv_proofSystem = zk_system z,
               zv_publicInputsHash = computeCommitment (js_join (CHR '':'') publicInputs)\<rparr>)"

section \<open>Quarantine\<close>

text \<open>The call up to the first delay: the transfer is registered and already scanning.\<close>

definition quarantineSecret ::
  "int \<Rightarrow> entropy \<Rightarrow> string \<Rightarrow> string \<Rightarrow> threat_level \<Rightarrow> string \<Rightarrow> VoidService \<Rightarrow>
     VoidService \<times> (void_error + SecretWarpTransfer)" where
  "quarantineSecret now rnd secretId reason threatLevel triggeredBy v =
     (case jm_get (vs_secrets v) secretId of
        None \<Rightarrow> (v, Inl (SecretNotFound secretId))
      | Some e \<Rightarrow>
          (let transferId = void_generateId ''warp'' now (rnd 0);
               transfer =
                 \<lparr>wt_id = transferId, wt_secretId = secretId, wt_secretName = se_name e,
                  wt_reason = reason, wt_threatLevel = threatLevel, wt_triggeredBy = triggeredBy,
                  wt_triggeredAt = now, wt_status = W_scanning, wt_iceBoxEntryId = None,
                  wt_autoShredded = False, wt_shredCompletedAt = None\<rparr>
           in (v\<lparr>vs_warpTransfers := jm_set transferId transfer (vs_warpTransfers v)\<rparr>, Inr transfer)))"

text \<open>The end of the pipeline, after the delay of the last step.\<close>

definition warp_finish :: "void_host \<Rightarrow> int \<Rightarrow> entropy \<Rightarrow> SecretWarpTransfer \<Rightarrow> VoidService \<Rightarrow> VoidService" where
  "warp_finish h now rnd t v =
     (case jm_get (vs_secrets v) (wt_secretId t) of
        None \<Rightarrow> v
      | Some e \<Rightarrow>
          (let critical = (wt_threatLevel t = T_critical);
               e1 = e\<lparr>se_status := S_QUARANTINED, se_updatedAt := now\<rparr>;
               e2 = (if critical then (cryptoShred e1)\<lparr>se_status := S_SHREDDED\<rparr> else e1);
               t1 = (if critical then t\<lparr>wt_autoShredded := True, wt_shredCompletedAt := Some now\<rparr> else t);
               t2 = t1\<lparr>wt_iceBoxEntryId := Some (void_generateId ''ice'' now (rnd 0))\<rparr>;
               entry = createAuditEntry h now (rnd 1) v (wt_secretId t) A_QUARANTINE (wt_triggeredBy t) R_success
                 [(''reason'', JStr (wt_reason t)), (''threatLevel'', JStr (threat_str (wt_threatLevel t))),
                  (''transferId'', JStr (wt_id t)), (''iceBoxEntryId'', opt_str (wt_iceBoxEntryId t2)),
                  (''autoShredded'', JBool (wt_autoShredded t2))]
           in (put_secret (log_audit entry e2) (wt_secretId t) v)
                \<lparr>vs_warpTransfers := jm_set (wt_id t) t2 (vs_warpTransfers v)\<rparr>))"

text \<open>One delay of 50 milliseconds of \<open>executeWarpTunnel\<close> has passed.\<close>

definition warp_tick :: "void_host \<Rightarrow> int \<Rightarrow> entropy \<Rightarrow> string \<Rightarrow> VoidService \<Rightarrow> VoidService" where
  "warp_tick h now rnd transferId v =
     (case jm_get (vs_warpTransfers v) transferId of
        None \<Rightarrow> v
      | Some t \<Rightarrow>
          (let advance = (\<lambda>st. v\<lparr>vs_warpTransfers := jm_set transferId (t\<lparr>wt_status := st\<rparr>) (vs_warpTransfers v)\<rparr>)
           in case wt_status t of
                W_scanning \<Rightarrow> advance W_capturing
              | W_capturing \<Rightarrow> advance W_encrypting
              | W_encrypting \<Rightarrow> advance W_transferring
              | W_transferring \<Rightarrow> advance W_quarantined
              | W_quarantined \<Rightarrow> if wt_iceBoxEntryId t = None then warp_finish h now rnd t v else v
              | _ \<Rightarrow> v))"

section \<open>Erasure\<close>

datatype erasure_action = Erased | Scheduled | Retained

record ErasureResult =
  er_erased :: nat
  er_scheduled :: nat
  er_details :: "(string \<times> erasure_action \<times> string) list"

definition erase_one :: "int \<Rightarrow> string \<Rightarrow> string \<times> SecretEnvelope \<Rightarrow> VoidService \<times> ErasureResult \<Rightarrow> VoidService \<times> ErasureResult" where
  "erase_one now dataSubjectId entry acc =
     (let (secretId, e) = entry; (v, r) = acc;
          detail = (\<lambda>a why r. r\<lparr>er_details := er_details r @ [(secretId, a, why)]\<rparr>)
      in if dataSubjectId \<notin> set (dflt (gd_dataSubjectIds (se_gdpr e)) []) then (v, r)
         else if gd_legalBasis (se_gdpr e) = Some legal_obligation
         then (v, detail Retained ''Legal obligation - cannot erase'' r)
         else if se_classification e \<noteq> VOID then
           (put_secret ((cryptoShred e)\<lparr>se_status := S_SHREDDED,
              se_gdpr := (se_gdpr e)\<lparr>gd_erasureCompletedAt := Some now\<rparr>\<rparr>) secretId v,
            detail Erased ''GDPR erasure completed'' (r\<lparr>er_erased := er_erased r + 1\<rparr>))
         else
           (put_secret (e\<lparr>se_gdpr := (se_gdpr e)\<lparr>gd_scheduledErasureAt := Some (now + 30 * DAY)\<rparr>\<rparr>) secretId v,
            detail Scheduled ''VOID secret - scheduled for quorum erasure''
              (r\<lparr>er_scheduled := er_scheduled r + 1\<rparr>)))"

definition processGDPRErasure :: "int \<Rightarrow> string \<Rightarrow> VoidService \<Rightarrow> VoidService \<times> ErasureResult" where
  "processGDPRErasure now dataSubjectId v =
     fold (erase_one now dataSubjectId) (vs_secrets v)
       (v, \<lparr>er_erased = 0, er_scheduled = 0, er_details = []\<rparr>)"

section \<open>Search and audit\<close>

definition opt_differs :: "'a option \<Rightarrow> 'a \<Rightarrow> bool" where
  "opt_differs wanted actual = (case wanted of None \<Rightarrow> False | Some w \<Rightarrow> w \<noteq> actual)"

definition search_match :: "int \<Rightarrow> SecretSearchOptions \<Rightarrow> string \<Rightarrow> SecretEnvelope \<Rightarrow> bool" where
  "search_match now q requestedBy e \<longleftrightarrow>
     \<not> (str_truthy (sq_path q) \<and> \<not> js_startsWith (se_path e) (dflt (sq_path q) [])) \<and>
     \<not> opt_differs (sq_type q) (se_type e) \<and>
     \<not> opt_differs (sq_classification q) (se_classification e) \<and>
     \<not> opt_differs (sq_status q) (se_status e) \<and>
     \<not> (str_truthy (sq_ownerId q) \<and> sq_ownerId q \<noteq> Some (se_ownerId e)) \<and>
     \<not> (str_truthy (sq_organisationId q) \<and> sq_organisationId q \<noteq> se_organisationId e) \<and>
     \<not> opt_differs (sq_environment q) (md_environment (se_metadata e)) \<and>
     list_all (\<lambda>tag. tag \<in> set (se_tags e)) (dflt (sq_tags q) []) \<and>
     \<not> (case (sq_expiringWithinDays q, se_expiresAt e) of
          (Some n, Some d) \<Rightarrow> n \<noteq> 0 \<and> (case days_until d now of None \<Rightarrow> False | Some k \<Rightarrow> k > n)
        | _ \<Rightarrow> False) \<and>
     \<not> (case sq_createdAfter q of None \<Rightarrow> False | Some t \<Rightarrow> se_createdAt e < t) \<and>
     \<not> (case sq_createdBefore q of None \<Rightarrow> False | Some t \<Rightarrow> se_createdAt e > t) \<and>
     list_ex (\<lambda>r. ap_id r = requestedBy \<or> ap_id r = ''*'') (sp_readers (se_accessPolicy e))"

text \<open>The results leave out payload and audit log.\<close>

definition without_secrets :: "SecretEnvelope \<Rightarrow> SecretEnvelope" where
  "without_secrets e =
     e\<lparr>se_encryptedPayload :=
         \<lparr>ep_ciphertext = [], ep_iv = [], ep_authTag = [], ep_aad = None, ep_algorithm = AES_256_GCM,
          ep_keyId = [], ep_keyVersion = 0, ep_plaintextHash = [], ep_hashAlgorithm = SHA_256,
          ep_encryptedAt = 0\<rparr>,
       se_auditLog := []\<rparr>"

definition searchSecrets :: "int \<Rightarrow> SecretSearchOptions \<Rightarrow> string \<Rightarrow> VoidService \<Rightarrow> void_error + SecretEnvelope list" where
  "searchSecrets now q requestedBy v =
     (case requireUnsealed v of Some err \<Rightarrow> Inl err | None \<Rightarrow>
       (let offset = dflt (sq_offset q) 0; limit = dflt (sq_limit q) 50
        in Inr (js_slice offset (offset + limit)
             (map without_secrets (filter (search_match now q requestedBy) (jm_values (vs_secrets v)))))))"

definition getAuditLog :: "string \<Rightarrow> string \<Rightarrow> int option \<Rightarrow> VoidService \<Rightarrow> void_error + SecretAuditEntry list" where
  "getAuditLog secretId requestedBy limit v =
     (case jm_get (vs_secrets v) secretId of
        None \<Rightarrow> Inl (SecretNotFound secretId)
      | Some e \<Rightarrow>
          if \<not> list_ex (\<lambda>m. ap_id m = requestedBy) (sp_managers (se_accessPolicy e)) then Inl NotAManager
          else Inr (drop (slice_index (se_auditLog e) (- dflt limit 100)) (se_auditLog e)))"

section \<open>Metrics\<close>

definition count_if :: "('a \<Rightarrow> bool) \<Rightarrow> 'a list \<Rightarrow> nat" where
  "count_if p xs = length (filter p xs)"

definition void_getMetrics :: "int \<Rightarrow> VoidService \<Rightarrow> VoidMetrics" where
  "void_getMetrics now v =
     (let es = jm_values (vs_secrets v);
          entries = concat (map se_auditLog es);
          events = concat (jm_values (vs_rotationEvents v));
          expiring = (\<lambda>n e. case se_expiresAt e of None \<Rightarrow> False | Some d \<Rightarrow> days_le d now n);
          total = length es
      in \<lparr>vm_totalSecrets = total,
          vm_byClassification = (\<lambda>c. count_if (\<lambda>e. se_classification e = c) es),
          vm_byType = (\<lambda>t. count_if (\<lambda>e. se_type e = t) es),
          vm_byStatus = (\<lambda>st. count_if (\<lambda>e. se_status e = st) es),
          vm_expiringIn7Days = count_if (expiring 7) es,
          vm_expiringIn30Days = count_if (expiring 30) es,
          vm_accessRequests24h = count_if (\<lambda>a. au_timestamp a \<ge> now - DAY \<and> au_action a = A_READ) entries,
          vm_deniedRequests24h = count_if (\<lambda>a. au_timestamp a \<ge> now - DAY \<and> au_action a = A_ACCESS_DENIED) entries,
          vm_breakGlassUses30d = count_if (\<lambda>a. au_timestamp a \<ge> now - 30 * DAY \<and> au_isBreakGlass a) entries,
          vm_rotationsCompleted30d =
            count_if (\<lambda>r. re_startedAt r \<ge> now - 30 * DAY \<and> re_status r = Ro_completed) events,
          vm_rotationsFailed30d =
            count_if (\<lambda>r. re_startedAt r \<ge> now - 30 * DAY \<and> re_status r = Ro_failed) events,
          vm_sealStatus = vs_sealStatus v,
          vm_avgSensitivityScore =
            (if total > 0 then
               \<lfloor>of_int (sum_list (map (\<lambda>e. md_sensitivityScore (se_metadata e)) es)) / of_nat total + (1 / 2 :: rat)\<rfloor>
             else 0),
          vm_pendingGDPRErasure =
            count_if (\<lambda>e. gd_scheduledErasureAt (se_gdpr e) \<noteq> None \<and> gd_erasureCompletedAt (se_gdpr e) = None) es,
          vm_lastHealthCheck = now,
          vm_healthStatus =
            (if vl_sealed (vs_sealStatus v) then V_sealed
             else if total = 0 then V_healthy
             else if count_if (\<lambda>e. se_status e = S_QUARANTINED) es > 0 then V_degraded
             else V_healthy)\<rparr>)"

section \<open>Histories\<close>

datatype void_op =
    Provide int UnsealRequest
  | Seal int string
  | Store int entropy StoreSecretRequest
  | Retrieve int entropy RetrieveSecretRequest
  | Update int entropy string string string "string option"
  | Delete int entropy string string string
  | Rotate int entropy RotateSecretRequest
  | AutoRotation int "string \<Rightarrow> entropy"
  | FireTimer int entropy
  | Reconstruct int entropy string "(int \<times> string) list" string string
  | Quarantine int entropy string string threat_level string
  | WarpTick int entropy string
  | Erase int string

primrec void_apply :: "void_host \<Rightarrow> void_op \<Rightarrow> VoidService \<Rightarrow> VoidService" where
  "void_apply h (Provide now rq) v = fst (provideUnsealShard now rq v)"
| "void_apply h (Seal now who) v = fst (sealVault now who v)"
| "void_apply h (Store now rnd rq) v = fst (storeSecret h now rnd rq v)"
| "void_apply h (Retrieve now rnd rq) v = fst (retrieveSecret h now rnd rq v)"
| "void_apply h (Update now rnd sid pt who why) v = fst (updateSecret h now rnd sid pt who why v)"
| "void_apply h (Delete now rnd sid who why) v = fst (deleteSecret h now rnd sid who why v)"
| "void_apply h (Rotate now rnd rq) v = fst (rotateSecret h now rnd rq v)"
| "void_apply h (AutoRotation now rnd) v = fst (runAutoRotation h now rnd v)"
| "void_apply h (FireTimer now rnd) v = fire_timer h now rnd v"
| "void_apply h (Reconstruct now rnd sid shards who why) v = fst (reconstructFromShards h now rnd sid shards who why v)"
| "void_apply h (Quarantine now rnd sid why lvl who) v = fst (quarantineSecret now rnd sid why lvl who v)"
| "void_apply h (WarpTick now rnd tid) v = warp_tick h now rnd tid v"
| "void_apply h (Erase now subject) v = fst (processGDPRErasure now subject v)"

end
