(* ===== verification/VoidProps.thy ===== *)
theory VoidProps
  imports VoidVault
begin

text \<open>
  What the secret store guarantees: the quorum that opens the vault, the round trip of a secret, the
  chain of its audit log and its versions, the protection of top-secret entries, the rate limit, and
  two things it does not do: keep a shredded secret away, and erase personal data.

  The locales are the interface the operations share: a property of single envelopes that survives
  the changes a reader makes (\<open>read_invariant\<close>), or every elementary change of an envelope
  (\<open>envelope_invariant\<close>), survives the operations of the service. They are interpreted for the
  stored payload, the audit chain and the versions, the access policy and the erasure data.
\<close>

section \<open>Invariants of envelopes\<close>

definition every_secret :: "(string \<Rightarrow> SecretEnvelope \<Rightarrow> bool) \<Rightarrow> VoidService \<Rightarrow> bool" where
  "every_secret P v \<longleftrightarrow> (\<forall>sid e. jm_get (vs_secrets v) sid = Some e \<longrightarrow> P sid e)"

definition last_hash :: "SecretAuditEntry list \<Rightarrow> string option" where
  "last_hash xs = (if xs = [] then None else Some (au_entryHash (last xs)))"

lemma put_secret_get [simp]:
  "jm_get (vs_secrets (put_secret e sid v)) sid' = (if sid' = sid then Some e else jm_get (vs_secrets v) sid')"
  by (simp add: put_secret_def)

lemma put_secret_fields [simp]:
  "vs_config (put_secret e sid v) = vs_config v"
  "vs_sealStatus (put_secret e sid v) = vs_sealStatus v"
  "vs_unsealShards (put_secret e sid v) = vs_unsealShards v"
  "vs_accessRequestLog (put_secret e sid v) = vs_accessRequestLog v"
  "vs_timers (put_secret e sid v) = vs_timers v"
  by (simp_all add: put_secret_def)

lemma every_secret_put: "every_secret P v \<Longrightarrow> P sid e \<Longrightarrow> every_secret P (put_secret e sid v)"
  by (simp add: every_secret_def)

lemma every_secretD: "every_secret P v \<Longrightarrow> jm_get (vs_secrets v) sid = Some e \<Longrightarrow> P sid e"
  by (simp add: every_secret_def)

lemma every_secret_cong: "vs_secrets v = vs_secrets w \<Longrightarrow> every_secret P v = every_secret P w"
  by (simp add: every_secret_def)

lemma audit_previous:
  "jm_get (vs_secrets v) sid = Some e \<Longrightarrow>
     au_previousEntryHash (createAuditEntry h now random v sid action who result extra) = last_hash (se_auditLog e)"
  by (simp add: createAuditEntry_def last_hash_def Let_def)

lemma checkRateLimit_fields [simp]:
  "vs_secrets (fst (checkRateLimit now who policy v)) = vs_secrets v"
  "vs_config (fst (checkRateLimit now who policy v)) = vs_config v"
  "vs_sealStatus (fst (checkRateLimit now who policy v)) = vs_sealStatus v"
  "vs_unsealShards (fst (checkRateLimit now who policy v)) = vs_unsealShards v"
  by (auto simp: checkRateLimit_def Let_def split: option.splits)

lemma checkRateLimit_secrets:
  "checkRateLimit now who policy v = (v1, r) \<Longrightarrow> vs_secrets v1 = vs_secrets v"
  using checkRateLimit_fields(1) [of now who policy v] by simp

lemma handleBreakGlass_fields [simp]:
  "vs_secrets (handleBreakGlassAccess now sid policy rq v) = vs_secrets v"
  "vs_config (handleBreakGlassAccess now sid policy rq v) = vs_config v"
  "vs_sealStatus (handleBreakGlassAccess now sid policy rq v) = vs_sealStatus v"
  "vs_unsealShards (handleBreakGlassAccess now sid policy rq v) = vs_unsealShards v"
  "vs_accessRequestLog (handleBreakGlassAccess now sid policy rq v) = vs_accessRequestLog v"
  by (auto simp: handleBreakGlassAccess_def split: option.splits)

lemma set_last_event_fields [simp]:
  "vs_secrets (set_last_event sid ev v) = vs_secrets v"
  "vs_config (set_last_event sid ev v) = vs_config v"
  "vs_sealStatus (set_last_event sid ev v) = vs_sealStatus v"
  "vs_unsealShards (set_last_event sid ev v) = vs_unsealShards v"
  "vs_accessRequestLog (set_last_event sid ev v) = vs_accessRequestLog v"
  by (simp_all add: set_last_event_def)

lemma log_same [simp]:
  "se_auditLog (new_version now payload sid e) = se_auditLog e"
  "se_auditLog (cryptoShred e) = se_auditLog e"
  "se_gdpr (cryptoShred e) = se_gdpr e"
  by (simp_all add: new_version_def cryptoShred_def)

text \<open>Storing is the only operation that makes an envelope; its key is the drawn identifier.\<close>

definition stored_id :: "int \<Rightarrow> entropy \<Rightarrow> string" where
  "stored_id now rnd = void_generateId ''sec'' now (rnd 0)"

lemma new_envelope_id [simp]: "se_id (new_envelope h now rnd rq v) = stored_id now rnd"
  by (simp add: new_envelope_def stored_id_def Let_def)

lemma storeSecret_every:
  "every_secret P v \<Longrightarrow> P (stored_id now rnd) (new_envelope h now rnd rq v) \<Longrightarrow>
     every_secret P (fst (storeSecret h now rnd rq v))"
  by (simp add: storeSecret_def Let_def every_secret_put split: option.splits)

lemma completUnseal_secrets [simp]: "vs_secrets (completUnseal now who v) = vs_secrets v"
  by (simp add: completUnseal_def set_master_sealed_def)

lemma provide_secrets [simp]: "vs_secrets (fst (provideUnsealShard now rq v)) = vs_secrets v"
  by (simp add: provideUnsealShard_def Let_def)

lemma seal_secrets [simp]: "vs_secrets (fst (sealVault now who v)) = vs_secrets v"
  by (simp add: sealVault_def set_master_sealed_def Let_def)

locale read_invariant =
  fixes P :: "string \<Rightarrow> SecretEnvelope \<Rightarrow> bool"
  assumes status: "P sid e \<Longrightarrow> P sid (e\<lparr>se_status := st\<rparr>)"
    and accessed: "P sid e \<Longrightarrow> P sid (e\<lparr>se_lastAccessedAt := ta\<rparr>)"
    and audited: "P sid e \<Longrightarrow> au_previousEntryHash a = last_hash (se_auditLog e) \<Longrightarrow> P sid (log_audit a e)"
begin

lemma retrieve: "every_secret P v \<Longrightarrow> every_secret P (fst (retrieveSecret h now rnd rq v))"
proof -
  assume inv: "every_secret P v"
  have granted: "every_secret P (fst (retrieve_granted h now rnd rq e w))"
    if w: "vs_secrets w = vs_secrets v" and e: "jm_get (vs_secrets v) (rr_secretId rq) = Some e" for w e
  proof -
    have "every_secret P w" using inv every_secret_cong [OF w] by blast
    moreover have "P (rr_secretId rq) (log_audit (createAuditEntry h now (rnd 0) w (rr_secretId rq) a who r ex)
        (e\<lparr>se_lastAccessedAt := Some now\<rparr>))" for a who r ex
      using every_secretD [OF inv e] audit_previous [of w "rr_secretId rq" e] w e
      by (intro audited accessed) simp_all
    ultimately show ?thesis
      by (simp add: retrieve_granted_def Let_def every_secret_put
          every_secret_cong [OF handleBreakGlass_fields(1)])
  qed
  have denied: "every_secret P (put_secret (log_audit (createAuditEntry h now (rnd 0) w (rr_secretId rq) a who r ex) e)
      (rr_secretId rq) w)"
    if w: "vs_secrets w = vs_secrets v" and e: "jm_get (vs_secrets v) (rr_secretId rq) = Some e" for w e a who r ex
    using inv every_secret_cong [OF w] every_secretD [OF inv e] audit_previous [of w "rr_secretId rq" e] w e
    by (intro every_secret_put audited) simp_all
  show ?thesis
  proof (cases "requireUnsealed v")
    case Some
    then show ?thesis using inv by (simp add: retrieveSecret_def)
  next
    case unsealed: None
    show ?thesis
    proof (cases "jm_get (vs_secrets v) (rr_secretId rq)")
      case None
      then show ?thesis using inv unsealed by (simp add: retrieveSecret_def)
    next
      case e: (Some e)
      obtain v1 r where rated: "checkRateLimit now (rr_requestedBy rq) (se_accessPolicy e) v = (v1, r)"
        by (cases "checkRateLimit now (rr_requestedBy rq) (se_accessPolicy e) v")
      have v1: "vs_secrets v1 = vs_secrets v" by (rule checkRateLimit_secrets [OF rated])
      then have "every_secret P v1" using inv every_secret_cong by blast
      moreover have "every_secret P (put_secret (e\<lparr>se_status := S_EXPIRED\<rparr>) (rr_secretId rq) v)"
        using inv by (intro every_secret_put status every_secretD [OF inv e])
      ultimately show ?thesis
        using inv granted [OF v1 e] denied [OF v1 e]
        by (simp add: retrieveSecret_def unsealed e rated split: option.splits)
    qed
  qed
qed

lemma reconstruct: "every_secret P v \<Longrightarrow> every_secret P (fst (reconstructFromShards h now rnd sid shards who why v))"
proof -
  assume inv: "every_secret P v"
  have "P sid (log_audit (createAuditEntry h now r v sid a w x ex) e)"
    if e: "jm_get (vs_secrets v) sid = Some e" for r a w x ex e
    using e every_secretD [OF inv e] by (intro audited) (auto simp: audit_previous)
  then show ?thesis
    using inv by (auto simp: reconstructFromShards_def Let_def split: option.splits intro!: every_secret_put)
qed

lemma quarantine: "every_secret P v \<Longrightarrow> every_secret P (fst (quarantineSecret now rnd sid why lvl who v))"
  by (auto simp: quarantineSecret_def Let_def every_secret_def split: option.splits)

end

locale envelope_invariant = read_invariant +
  assumes updated: "P sid e \<Longrightarrow> P sid (e\<lparr>se_updatedAt := t\<rparr>)"
    and binding: "P sid e \<Longrightarrow> P sid (e\<lparr>se_zkBinding := z\<rparr>)"
    and rotation: "P sid e \<Longrightarrow> P sid (e\<lparr>se_rotationConfig := rc\<rparr>)"
    and version: "P sid e \<Longrightarrow> P sid (new_version now payload sid e)"
    and shredded: "P sid e \<Longrightarrow> P sid (cryptoShred e)"
    and erased: "P sid e \<Longrightarrow> subject \<in> set (dflt (gd_dataSubjectIds (se_gdpr e)) []) \<Longrightarrow>
      gd_dataSubjectIds g = gd_dataSubjectIds (se_gdpr e) \<Longrightarrow> P sid (e\<lparr>se_gdpr := g\<rparr>)"
begin

lemma update: "every_secret P v \<Longrightarrow> every_secret P (fst (updateSecret h now rnd sid pt who why v))"
proof -
  assume inv: "every_secret P v"
  show ?thesis
  proof (cases "requireUnsealed v = None \<and> jm_get (vs_secrets v) sid \<noteq> None")
    case False
    then show ?thesis using inv by (auto simp: updateSecret_def split: option.splits)
  next
    case True
    then obtain e where e: "jm_get (vs_secrets v) sid = Some e" and u: "requireUnsealed v = None" by auto
    have Pe: "P sid e" by (rule every_secretD [OF inv e])
    let ?e1 = "\<lambda>payload. (new_version now payload sid e)\<lparr>se_updatedAt := now\<rparr>"
    have "P sid (log_audit (createAuditEntry h now r v sid a w x ex) (?e1 payload))"
      "P sid (log_audit (createAuditEntry h now r v sid a w x ex) ((?e1 payload)\<lparr>se_zkBinding := z\<rparr>))"
      for r a w x ex payload z
      using e by (auto intro!: audited updated version binding Pe simp: audit_previous)
    then show ?thesis
      using inv by (auto simp: updateSecret_def u e Let_def intro!: every_secret_put)
  qed
qed

lemma delete: "every_secret P v \<Longrightarrow> every_secret P (fst (deleteSecret h now rnd sid who why v))"
proof -
  assume inv: "every_secret P v"
  have "P sid (log_audit (createAuditEntry h now r v sid a w x ex)
      ((cryptoShred e)\<lparr>se_status := S_SHREDDED, se_updatedAt := now\<rparr>))"
    if e: "jm_get (vs_secrets v) sid = Some e" for r a w x ex e
    using e every_secretD [OF inv e] by (auto intro!: audited updated status shredded simp: audit_previous)
  then show ?thesis
    using inv by (auto simp: deleteSecret_def Let_def split: option.splits intro!: every_secret_put)
qed

lemma rotate: "every_secret P v \<Longrightarrow> every_secret P (fst (rotateSecret h now rnd rq v))"
proof -
  assume inv: "every_secret P v"
  show ?thesis
  proof (cases "requireUnsealed v = None \<and> jm_get (vs_secrets v) (ro_secretId rq) \<noteq> None")
    case False
    then show ?thesis using inv by (auto simp: rotateSecret_def Let_def split: option.splits)
  next
    case True
    then obtain e where e: "jm_get (vs_secrets v) (ro_secretId rq) = Some e" and u: "requireUnsealed v = None" by auto
    have Pe: "P (ro_secretId rq) e" by (rule every_secretD [OF inv e])
    let ?e1 = "\<lambda>payload rc. (new_version now payload (ro_secretId rq) e)
      \<lparr>se_status := S_ACTIVE, se_updatedAt := now, se_rotationConfig := rc\<rparr>"
    have P1: "P (ro_secretId rq) (?e1 payload rc)" for payload rc
      by (intro rotation updated status version Pe)
    then have "P (ro_secretId rq) (log_audit (createAuditEntry h now r v (ro_secretId rq) a w x ex) (?e1 payload rc))"
      for r a w x ex payload rc
      using e by (intro audited) (auto simp: audit_previous)
    moreover have "every_secret P (set_last_event sid ev (v\<lparr>vs_rotationEvents := evs\<rparr>))" for sid ev evs
      using inv by (simp add: every_secret_def)
    ultimately show ?thesis
      using P1 by (auto simp: rotateSecret_def u e Let_def intro!: every_secret_put split: option.splits)
  qed
qed

lemma auto_one:
  "every_secret P (fst acc) \<Longrightarrow> every_secret P (fst (auto_rotate_one h now rnd sid acc))"
proof -
  assume inv: "every_secret P (fst acc)"
  obtain v r where acc: "acc = (v, r)" by (cases acc)
  have "every_secret P v'" if "rotateSecret h now rnd rq v = (v', x)" for rq v' x
    using rotate [of v h now rnd rq] inv acc that by simp
  then show ?thesis
    using inv unfolding auto_rotate_one_def acc Let_def
    by (auto split: option.splits prod.splits sum.splits)
qed

lemma auto: "every_secret P v \<Longrightarrow> every_secret P (fst (runAutoRotation h now rnd v))"
proof -
  have "every_secret P (fst acc) \<Longrightarrow>
      every_secret P (fst (fold (\<lambda>sid. auto_rotate_one h now (rnd sid) sid) sids acc))" for sids acc
    by (induction sids arbitrary: acc) (simp_all add: auto_one)
  then show "every_secret P v \<Longrightarrow> every_secret P (fst (runAutoRotation h now rnd v))"
    by (simp add: runAutoRotation_def)
qed

lemma timer: "every_secret P v \<Longrightarrow> every_secret P (fire_timer h now rnd v)"
  by (auto simp: fire_timer_def every_secret_cong [of "v\<lparr>vs_timers := x\<rparr>" v for x]
      split: option.splits void_timer.splits intro!: rotate)

lemma tick: "every_secret P v \<Longrightarrow> every_secret P (warp_tick h now rnd tid v)"
proof -
  assume inv: "every_secret P v"
  have "every_secret P (warp_finish h now rnd t v)" for t
  proof (cases "jm_get (vs_secrets v) (wt_secretId t)")
    case None
    then show ?thesis using inv by (simp add: warp_finish_def)
  next
    case e: (Some e)
    let ?e1 = "e\<lparr>se_status := S_QUARANTINED, se_updatedAt := now\<rparr>"
    have "P (wt_secretId t) ?e1" "P (wt_secretId t) ((cryptoShred ?e1)\<lparr>se_status := S_SHREDDED\<rparr>)"
      using every_secretD [OF inv e] by (auto intro!: updated status shredded)
    then have "P (wt_secretId t) (log_audit (createAuditEntry h now r v (wt_secretId t) a w x ex) e')"
      if "e' = ?e1 \<or> e' = (cryptoShred ?e1)\<lparr>se_status := S_SHREDDED\<rparr>" for r a w x ex e'
      using e that by (auto intro!: audited simp: audit_previous)
    then have "every_secret P (put_secret (log_audit (createAuditEntry h now r v (wt_secretId t) a w x ex)
        (if c then (cryptoShred ?e1)\<lparr>se_status := S_SHREDDED\<rparr> else ?e1)) (wt_secretId t) v)" for r a w x ex c
      using inv by (intro every_secret_put) auto
    then show ?thesis
      unfolding warp_finish_def e Let_def by (simp add: every_secret_def)
  qed
  then show ?thesis
    using inv by (auto simp: warp_tick_def Let_def every_secret_def split: option.splits warp_status.splits)
qed

lemma erase_entry:
  assumes inv: "every_secret P (fst acc)" and e: "P sid e"
  shows "every_secret P (fst (erase_one now subject (sid, e) acc))"
proof -
  obtain v r where acc: "acc = (v, r)" by (cases acc)
  show ?thesis
  proof (cases "subject \<in> set (dflt (gd_dataSubjectIds (se_gdpr e)) [])")
    case False
    then show ?thesis using inv by (simp add: erase_one_def Let_def acc)
  next
    case True
    have "P sid ((cryptoShred e)\<lparr>se_status := S_SHREDDED, se_gdpr := (se_gdpr e)\<lparr>gd_erasureCompletedAt := t\<rparr>\<rparr>)" for t
      by (rule erased [where subject = subject]) (use True in \<open>auto intro!: status shredded e\<close>)
    moreover have "P sid (e\<lparr>se_gdpr := (se_gdpr e)\<lparr>gd_scheduledErasureAt := t\<rparr>\<rparr>)" for t
      by (rule erased [where subject = subject]) (use True in \<open>auto intro!: e\<close>)
    ultimately show ?thesis
      using inv True by (simp add: erase_one_def Let_def acc every_secret_put)
  qed
qed

lemma erasure: "jm_ok (vs_secrets v) \<Longrightarrow> every_secret P v \<Longrightarrow> every_secret P (fst (processGDPRErasure now subject v))"
proof -
  have fold: "every_secret P (fst acc) \<Longrightarrow> (\<And>sid e. (sid, e) \<in> set es \<Longrightarrow> P sid e) \<Longrightarrow>
      every_secret P (fst (fold (erase_one now subject) es acc))" for es acc
  proof (induction es arbitrary: acc)
    case (Cons x es)
    obtain sid e where x: "x = (sid, e)" by (cases x)
    show ?case using Cons.IH [OF erase_entry [OF Cons.prems(1), of sid e]] Cons.prems(2) by (simp add: x)
  qed simp
  assume ok: "jm_ok (vs_secrets v)" and inv: "every_secret P v"
  have "P sid e" if "(sid, e) \<in> set (vs_secrets v)" for sid e
    using that inv ok by (auto simp: every_secret_def jm_get_in)
  then show "every_secret P (fst (processGDPRErasure now subject v))"
    using fold [of "(v, \<lparr>er_erased = 0, er_scheduled = 0, er_details = []\<rparr>)"] inv
    by (simp add: processGDPRErasure_def)
qed

text \<open>One operation, and a history of them.\<close>

lemma step:
  assumes "jm_ok (vs_secrets v)" and "every_secret P v"
    and "\<And>now rnd rq. op = Store now rnd rq \<Longrightarrow> P (stored_id now rnd) (new_envelope h now rnd rq v)"
  shows "every_secret P (void_apply h op v)"
  using assms
  by (cases op) (simp_all add: retrieve update delete rotate auto timer reconstruct quarantine tick erasure
      storeSecret_every every_secret_cong [OF provide_secrets] every_secret_cong [OF seal_secrets])

end

lemma unsealed_iff: "requireUnsealed v = None \<longleftrightarrow> \<not> vl_sealed (vs_sealStatus v)"
  by (simp add: requireUnsealed_def)

section \<open>What no operation touches\<close>

text \<open>Every operation but sealing and unsealing keeps the seal; every operation keeps the
  configuration and the identifiers distinct.\<close>

definition seal_state :: "VoidService \<Rightarrow> VoidConfig \<times> VaultSealStatus \<times> (int, string) jsmap" where
  "seal_state v = (vs_config v, vs_sealStatus v, vs_unsealShards v)"

definition secrets_ok :: "VoidService \<Rightarrow> bool" where
  "secrets_ok v = jm_ok (vs_secrets v)"

named_theorems seal_simps

lemma put_secret_seal [seal_simps]: "seal_state (put_secret e sid v) = seal_state v"
  by (simp add: seal_state_def)

lemma put_secret_ok [simp]: "secrets_ok v \<Longrightarrow> secrets_ok (put_secret e sid v)"
  by (simp add: secrets_ok_def put_secret_def)

lemma checkRateLimit_seal [seal_simps]: "seal_state (fst (checkRateLimit now who policy v)) = seal_state v"
  by (simp add: seal_state_def)

lemma handleBreakGlass_seal [seal_simps]: "seal_state (handleBreakGlassAccess now sid policy rq v) = seal_state v"
  by (simp add: seal_state_def)

lemma set_last_event_seal [seal_simps]: "seal_state (set_last_event sid ev v) = seal_state v"
  by (simp add: seal_state_def)

lemma seal_state_update [seal_simps]:
  "seal_state (v\<lparr>vs_rotationEvents := r\<rparr>) = seal_state v"
  "seal_state (v\<lparr>vs_warpTransfers := w\<rparr>) = seal_state v"
  "seal_state (v\<lparr>vs_timers := t\<rparr>) = seal_state v"
  by (simp_all add: seal_state_def)

lemma secrets_ok_update [simp]:
  "secrets_ok (v\<lparr>vs_rotationEvents := r\<rparr>) = secrets_ok v"
  "secrets_ok (v\<lparr>vs_warpTransfers := w\<rparr>) = secrets_ok v"
  "secrets_ok (v\<lparr>vs_timers := t\<rparr>) = secrets_ok v"
  "secrets_ok (fst (checkRateLimit now who policy v)) = secrets_ok v"
  "secrets_ok (handleBreakGlassAccess now sid policy rq v) = secrets_ok v"
  "secrets_ok (set_last_event sid ev v) = secrets_ok v"
  by (simp_all add: secrets_ok_def)

text \<open>The two facts are carried together: \<open>keeps v w\<close>.\<close>

definition keeps :: "VoidService \<Rightarrow> VoidService \<Rightarrow> bool" where
  "keeps v w \<longleftrightarrow> seal_state w = seal_state v \<and> (secrets_ok v \<longrightarrow> secrets_ok w)"

lemma keeps_refl [simp]: "keeps v v"
  by (simp add: keeps_def)

lemma keeps_trans: "keeps u v \<Longrightarrow> keeps v w \<Longrightarrow> keeps u w"
  by (simp add: keeps_def)

lemma keeps_rated: "checkRateLimit now who policy v = (v1, r) \<Longrightarrow> keeps v v1"
  using checkRateLimit_seal [of now who policy v] secrets_ok_update(4) [of now who policy v] by (simp add: keeps_def)

lemma keeps_store: "keeps v (fst (storeSecret h now rnd rq v))"
  by (simp add: storeSecret_def Let_def keeps_def seal_simps split: option.splits)

lemma keeps_granted: "keeps v (fst (retrieve_granted h now rnd rq e v))"
  by (simp add: retrieve_granted_def Let_def keeps_def seal_simps)

lemma keeps_put: "keeps v w \<Longrightarrow> keeps v (put_secret e sid w)"
  by (simp add: keeps_def seal_simps)

lemma keeps_retrieve: "keeps v (fst (retrieveSecret h now rnd rq v))"
  unfolding retrieveSecret_def
  by (auto split: option.splits prod.splits simp del: not_None_eq
      intro: keeps_trans [OF keeps_rated keeps_granted] keeps_rated keeps_put keeps_put [OF keeps_rated])

lemma keeps_update: "keeps v (fst (updateSecret h now rnd sid pt who why v))"
  by (simp add: updateSecret_def Let_def keeps_def seal_simps split: option.splits)

lemma keeps_delete: "keeps v (fst (deleteSecret h now rnd sid who why v))"
  by (simp add: deleteSecret_def Let_def keeps_def seal_simps split: option.splits)

lemma keeps_rotate: "keeps v (fst (rotateSecret h now rnd rq v))"
  by (simp add: rotateSecret_def Let_def keeps_def seal_simps split: option.splits)

lemma keeps_auto_one: "keeps (fst acc) (fst (auto_rotate_one h now rnd sid acc))"
proof -
  obtain v r where acc: "acc = (v, r)" by (cases acc)
  have "keeps v v1" if "rotateSecret h now rnd rq v = (v1, x)" for rq v1 x
    using keeps_rotate [of v h now rnd rq] that by simp
  then show ?thesis
    unfolding auto_rotate_one_def acc Let_def by (auto split: option.splits prod.splits sum.splits)
qed

lemma keeps_fold:
  assumes "\<And>x acc. keeps (fst acc) (fst (f x acc))"
  shows "keeps (fst acc) (fst (fold f xs acc))"
proof (induction xs arbitrary: acc)
  case (Cons x xs)
  show ?case using keeps_trans [OF assms [of acc x] Cons.IH [of "f x acc"]] by simp
qed simp

lemma keeps_auto: "keeps v (fst (runAutoRotation h now rnd v))"
  using keeps_fold [of "\<lambda>sid. auto_rotate_one h now (rnd sid) sid" "(v, r)" for r, OF keeps_auto_one]
  by (simp add: runAutoRotation_def)

lemma keeps_erasure: "keeps v (fst (processGDPRErasure now subject v))"
proof -
  have "keeps (fst acc) (fst (erase_one now subject x acc))" for x acc
    by (simp add: erase_one_def Let_def keeps_def seal_simps split: prod.splits)
  from keeps_fold [of "erase_one now subject" "(v, r)" for r, OF this] show ?thesis
    by (simp add: processGDPRErasure_def)
qed

lemma keeps_timer: "keeps v (fire_timer h now rnd v)"
proof -
  have "keeps v (fst (rotateSecret h now rnd rq (v\<lparr>vs_timers := t\<rparr>)))" for rq t
    using keeps_rotate [of "v\<lparr>vs_timers := t\<rparr>" h now rnd rq] by (simp add: keeps_def seal_simps)
  then show ?thesis by (simp add: fire_timer_def split: option.splits void_timer.splits)
qed

lemma keeps_reconstruct: "keeps v (fst (reconstructFromShards h now rnd sid shards who why v))"
  by (simp add: reconstructFromShards_def Let_def keeps_def seal_simps split: option.splits)

lemma keeps_quarantine: "keeps v (fst (quarantineSecret now rnd sid why lvl who v))"
  by (simp add: quarantineSecret_def Let_def keeps_def seal_simps split: option.splits)

lemma keeps_tick: "keeps v (warp_tick h now rnd tid v)"
proof -
  have "keeps v (warp_finish h now rnd t v)" for t
    by (simp add: warp_finish_def Let_def keeps_def seal_simps split: option.splits)
  then show ?thesis
    by (simp add: warp_tick_def Let_def keeps_def seal_simps split: option.splits warp_status.splits)
qed

lemmas keeps_operations =
  keeps_store keeps_retrieve keeps_update keeps_delete keeps_rotate keeps_auto keeps_timer
  keeps_reconstruct keeps_quarantine keeps_tick keeps_erasure

lemma secrets_ok_apply: "secrets_ok v \<Longrightarrow> secrets_ok (void_apply h op v)"
  using keeps_operations by (cases op) (simp_all add: keeps_def secrets_ok_def)

section \<open>Histories\<close>

definition void_run :: "void_host \<Rightarrow> void_op list \<Rightarrow> VoidService \<Rightarrow> VoidService" where
  "void_run h ops v = fold (void_apply h) ops v"

lemma void_run_simps [simp]:
  "void_run h [] v = v"
  "void_run h (op # ops) v = void_run h ops (void_apply h op v)"
  "void_run h (ops @ ops') v = void_run h ops' (void_run h ops v)"
  by (simp_all add: void_run_def)

lemma secrets_ok_run: "secrets_ok v \<Longrightarrow> secrets_ok (void_run h ops v)"
  by (induction ops arbitrary: v) (simp_all add: secrets_ok_apply)

lemma new_service_ok [simp]: "secrets_ok (new_VoidService now rnd config)" "every_secret P (new_VoidService now rnd config)"
  by (simp_all add: new_VoidService_def secrets_ok_def every_secret_def Let_def)

context envelope_invariant
begin

lemma history:
  assumes "secrets_ok v" and "every_secret P v"
    and "\<And>now rnd rq w. Store now rnd rq \<in> set ops \<Longrightarrow> P (stored_id now rnd) (new_envelope h now rnd rq w)"
  shows "every_secret P (void_run h ops v)"
  using assms
proof (induction ops arbitrary: v)
  case (Cons op ops)
  have "every_secret P (void_apply h op v)"
    using Cons.prems by (intro step) (auto simp: secrets_ok_def)
  then show ?case using Cons by (simp add: secrets_ok_apply)
qed simp

end

section \<open>The audit log and the versions\<close>

fun audit_linked :: "string option \<Rightarrow> SecretAuditEntry list \<Rightarrow> bool" where
  "audit_linked prev [] = True"
| "audit_linked prev (a # as) = (au_previousEntryHash a = prev \<and> audit_linked (Some (au_entryHash a)) as)"

lemma audit_linked_snoc:
  "audit_linked prev (as @ [a]) \<longleftrightarrow>
     audit_linked prev as \<and> au_previousEntryHash a = (if as = [] then prev else last_hash as)"
  by (induction as arbitrary: prev) (auto simp: last_hash_def)

fun log_from_creation :: "SecretAuditEntry list \<Rightarrow> bool" where
  "log_from_creation [] = False"
| "log_from_creation (a # as) = (au_action a = A_CREATE \<and> audit_linked (Some (au_entryHash a)) as)"

definition traced :: "string \<Rightarrow> SecretEnvelope \<Rightarrow> bool" where
  "traced sid e \<longleftrightarrow>
     se_id e = sid \<and> log_from_creation (se_auditLog e) \<and>
     1 \<le> se_version e \<and> se_previousVersions e = map (version_id sid) [1..<se_version e]"

lemma log_linked_snoc:
  "log_from_creation as \<Longrightarrow> au_previousEntryHash a = last_hash as \<Longrightarrow> log_from_creation (as @ [a])"
  by (cases as) (auto simp: audit_linked_snoc last_hash_def)

interpretation tr: envelope_invariant traced
proof unfold_locales
  fix sid :: string and e :: SecretEnvelope and now :: int and payload :: EncryptedPayload
  show "traced sid e \<Longrightarrow> traced sid (new_version now payload sid e)"
    by (simp add: traced_def new_version_def)
next
  fix sid :: string and e :: SecretEnvelope and a :: SecretAuditEntry
  show "traced sid e \<Longrightarrow> au_previousEntryHash a = last_hash (se_auditLog e) \<Longrightarrow> traced sid (log_audit a e)"
    using log_linked_snoc [of "se_auditLog e" a] by (simp add: traced_def log_audit_def)
qed (auto simp: traced_def cryptoShred_def)

lemma new_envelope_traced: "traced (stored_id now rnd) (new_envelope h now rnd rq v)"
  by (simp add: traced_def new_envelope_def createAuditEntry_def stored_id_def Let_def)

text \<open>
  The record of a secret is complete. After any history of operations, every secret is stored
  under its own identifier, its log begins with its creation and each later entry carries the hash of
  the entry before it, and its previous versions are exactly the versions 1 up to the current one,
  in order. Denied and failed operations included; rotation does not apply \<open>keepVersions\<close>.
\<close>

theorem void_record_complete:
  "case jm_get (vs_secrets (void_run h ops (new_VoidService now rnd config))) sid of
     None \<Rightarrow> True
   | Some e \<Rightarrow>
       se_id e = sid \<and> log_from_creation (se_auditLog e) \<and>
       1 \<le> se_version e \<and> se_previousVersions e = map (version_id sid) [1..<se_version e]"
  using every_secretD [OF tr.history [OF new_service_ok new_envelope_traced], of h ops now rnd config sid]
  by (simp add: traced_def split: option.split)

section \<open>Erasure of personal data\<close>

definition no_subjects :: "string \<Rightarrow> SecretEnvelope \<Rightarrow> bool" where
  "no_subjects sid e \<longleftrightarrow> gd_dataSubjectIds (se_gdpr e) = None"

interpretation ns: envelope_invariant no_subjects
  by unfold_locales (auto simp: no_subjects_def log_audit_def new_version_def)

lemma erasure_none:
  "(\<And>sid e. (sid, e) \<in> set es \<Longrightarrow> no_subjects sid e) \<Longrightarrow> fold (erase_one now subject) es acc = acc"
proof (induction es arbitrary: acc)
  case (Cons x es)
  obtain sid e where x: "x = (sid, e)" by (cases x)
  have "no_subjects sid e" using Cons.prems [of sid e] by (simp add: x)
  then have "erase_one now subject x acc = acc"
    by (cases acc) (simp add: erase_one_def x Let_def no_subjects_def dflt_def)
  then show ?case using Cons by simp
qed simp

text \<open>
  The erasure of personal data never erases anything. No operation ever fills in the data
  subjects of a secret, so after any history a request for erasure returns the empty report and
  leaves the vault as it was, whatever the data subject.
\<close>

theorem gdpr_erasure_noop:
  "processGDPRErasure now' subject (void_run h ops (new_VoidService now rnd config)) =
     (void_run h ops (new_VoidService now rnd config), \<lparr>er_erased = 0, er_scheduled = 0, er_details = []\<rparr>)"
proof -
  let ?v = "void_run h ops (new_VoidService now rnd config)"
  have "every_secret no_subjects ?v"
    by (rule ns.history [OF new_service_ok]) (simp add: no_subjects_def new_envelope_def Let_def)
  moreover have "jm_ok (vs_secrets ?v)"
    using secrets_ok_run [OF new_service_ok(1)] by (simp add: secrets_ok_def)
  ultimately have "no_subjects sid e" if "(sid, e) \<in> set (vs_secrets ?v)" for sid e
    using that by (auto simp: every_secret_def jm_get_in)
  then show ?thesis by (simp add: processGDPRErasure_def erasure_none)
qed

section \<open>Opening the vault\<close>

text \<open>The distinct shard numbers handed in since the vault was last sealed.\<close>

fun collect_shard :: "void_op \<Rightarrow> int set \<Rightarrow> int set" where
  "collect_shard (Provide now rq) S = (if verifyShardSignature rq then insert (ur_shardIndex rq) S else S)"
| "collect_shard (Seal now who) S = {}"
| "collect_shard op S = S"

definition quorum :: "VoidConfig \<Rightarrow> int set \<Rightarrow> VoidService \<Rightarrow> bool" where
  "quorum config S v \<longleftrightarrow>
     finite S \<and> vs_config v = config \<and> jm_ok (vs_unsealShards v) \<and> set (jm_keys (vs_unsealShards v)) \<subseteq> S \<and>
     (vl_sealed (vs_sealStatus v) \<or> vc_shamirThreshold config \<le> int (card S))"

lemma jm_size_card: "jm_ok m \<Longrightarrow> jm_size m = card (set (jm_keys m))"
  unfolding jm_ok_def jm_size_def jm_keys_def using distinct_card by fastforce

lemma quorum_cong: "seal_state w = seal_state v \<Longrightarrow> quorum config S v \<Longrightarrow> quorum config S w"
  by (simp add: quorum_def seal_state_def)

lemma quorum_provide:
  assumes q: "quorum config S v"
  shows "quorum config (collect_shard (Provide now rq) S) (fst (provideUnsealShard now rq v))"
proof (cases "vl_sealed (vs_sealStatus v) \<and> verifyShardSignature rq")
  case False
  have "card S \<le> card (insert (ur_shardIndex rq) S)" using q by (intro card_mono) (auto simp: quorum_def)
  then show ?thesis using False q by (auto simp: quorum_def provideUnsealShard_def)
next
  case True
  let ?shards = "jm_set (ur_shardIndex rq) (ur_encryptedShard rq) (vs_unsealShards v)"
  have ok: "jm_ok ?shards" and sub: "set (jm_keys ?shards) \<subseteq> insert (ur_shardIndex rq) S"
    using q by (auto simp: quorum_def)
  have "jm_size ?shards \<le> card (insert (ur_shardIndex rq) S)"
    unfolding jm_size_card [OF ok] using q sub by (intro card_mono) (auto simp: quorum_def)
  then show ?thesis
    using True q ok sub
    by (auto simp: quorum_def provideUnsealShard_def completUnseal_def set_master_sealed_def Let_def jm_keys_def)
qed

lemma quorum_apply: "quorum config S v \<Longrightarrow> quorum config (collect_shard op S) (void_apply h op v)"
proof -
  assume q: "quorum config S v"
  have keep: "keeps v w \<Longrightarrow> quorum config S w" for w
    using q quorum_cong by (auto simp: keeps_def)
  show ?thesis
  proof (cases op)
    case (Seal now who)
    then show ?thesis using q
      by (simp add: quorum_def sealVault_def set_master_sealed_def Let_def jm_keys_def)
  qed (simp_all add: quorum_provide [OF q, simplified] keep keeps_operations)
qed

lemma quorum_run: "quorum config S v \<Longrightarrow> quorum config (fold collect_shard ops S) (void_run h ops v)"
  by (induction ops arbitrary: S v) (simp_all add: quorum_apply)

text \<open>
  C14. A sealed vault gives no secret away, and only a quorum opens it. After any history from the
  start: while the vault is sealed, retrieving, storing, updating, deleting, rotating, reconstructing
  and searching all fail and change nothing; and when it is open, at least as many distinct shard
  numbers as the configured threshold have been handed in, with a signature, since it was last sealed.
\<close>

theorem void_unseal_needs_quorum:
  "let v = void_run h ops (new_VoidService now rnd config);
       sealed = VaultSealed (vl_shardsRemaining (vs_sealStatus v))
   in if vl_sealed (vs_sealStatus v) then
        retrieveSecret h now' rnd' rr v = (v, Inl sealed) \<and> storeSecret h now' rnd' rq v = (v, Inl sealed) \<and>
        updateSecret h now' rnd' sid pt who why v = (v, Inl sealed) \<and>
        deleteSecret h now' rnd' sid who reason v = (v, Inl sealed) \<and>
        rotateSecret h now' rnd' ro v = (v, Inl sealed) \<and>
        reconstructFromShards h now' rnd' sid shards who reason v = (v, Inl sealed) \<and>
        searchSecrets now' q who v = Inl sealed
      else vc_shamirThreshold config \<le> int (card (fold collect_shard ops {}))"
proof -
  have "quorum config {} (new_VoidService now rnd config)"
    by (simp add: quorum_def new_VoidService_def Let_def jm_keys_def)
  from quorum_run [OF this, of ops h]
  have "vl_sealed (vs_sealStatus (void_run h ops (new_VoidService now rnd config))) \<or>
      vc_shamirThreshold config \<le> int (card (fold collect_shard ops {}))"
    by (simp add: quorum_def)
  then show ?thesis
    by (auto simp: Let_def requireUnsealed_def retrieveSecret_def storeSecret_def updateSecret_def
        deleteSecret_def rotateSecret_def reconstructFromShards_def searchSecrets_def)
qed

text \<open>
  The seal is no more than the check at the head of those seven operations. Quarantine and erasure do not make it: what
  they do to the secrets, shredding included, is the same whether the vault is sealed or not.
\<close>

lemma erase_one_seal:
  assumes "acc' = (fst acc\<lparr>vs_sealStatus := x\<rparr>, snd acc)"
  shows "erase_one now subject entry acc' =
    (fst (erase_one now subject entry acc)\<lparr>vs_sealStatus := x\<rparr>, snd (erase_one now subject entry acc))"
  unfolding assms by (cases acc; cases entry) (simp add: erase_one_def Let_def put_secret_def)

lemma erasure_ignores_seal:
  "processGDPRErasure now subject (v\<lparr>vs_sealStatus := x\<rparr>) =
     (fst (processGDPRErasure now subject v)\<lparr>vs_sealStatus := x\<rparr>, snd (processGDPRErasure now subject v))"
proof -
  let ?r = "\<lparr>er_erased = 0, er_scheduled = 0, er_details = []\<rparr>"
  have go: "fold (erase_one now subject) es acc' =
      (fst (fold (erase_one now subject) es acc)\<lparr>vs_sealStatus := x\<rparr>, snd (fold (erase_one now subject) es acc))"
    if "acc' = (fst acc\<lparr>vs_sealStatus := x\<rparr>, snd acc)" for es acc acc'
    using that
  proof (induction es arbitrary: acc acc')
    case (Cons entry es)
    from Cons.IH [OF erase_one_seal [OF Cons.prems]] show ?case by simp
  qed simp
  show ?thesis
    using go [of "(v\<lparr>vs_sealStatus := x\<rparr>, ?r)" "(v, ?r)"] by (simp add: processGDPRErasure_def)
qed

lemma quarantine_ignores_seal:
  "quarantineSecret now rnd sid why lvl who (v\<lparr>vs_sealStatus := x\<rparr>) =
     (fst (quarantineSecret now rnd sid why lvl who v)\<lparr>vs_sealStatus := x\<rparr>,
      snd (quarantineSecret now rnd sid why lvl who v))"
  by (simp add: quarantineSecret_def Let_def split: option.split)

section \<open>An example\<close>

text \<open>A vault opened by five shards, a top-secret entry of Ada's, and her request for it.\<close>

definition demo_host :: void_host where
  "demo_host = \<lparr>vh_json = (\<lambda>_. []), vh_utf8 = (\<lambda>_. [])\<rparr>"

definition demo_vault :: VoidService where
  "demo_vault = void_run demo_host
     (map (\<lambda>i. Provide 1 \<lparr>ur_shardIndex = i, ur_encryptedShard = ''s'', ur_providedBy = ''ada'', ur_signature = ''x''\<rparr>)
        [1, 2, 3, 4, 5])
     (new_VoidService 0 (\<lambda>_. ''r'') void_DEFAULT_CONFIG)"

definition demo_store :: StoreSecretRequest where
  "demo_store =
     \<lparr>rq_name = ''key'', rq_description = None, rq_type = API_KEY, rq_classification = VOID,
      rq_plaintext = ''p'', rq_path = ''/k'', rq_tags = None, rq_accessPolicy = None,
      rq_shamirConfig = None, rq_rotationConfig = None, rq_expiresAt = None, rq_metadata = None,
      rq_requestedBy = ''ada'', rq_reason = None\<rparr>"

definition demo_get :: RetrieveSecretRequest where
  "demo_get =
     \<lparr>rr_secretId = stored_id 2 (\<lambda>_. ''r''), rr_requestedBy = ''ada'', rr_reason = None,
      rr_mfaToken = Some ''m'', rr_hardwareKeySignature = Some ''h'', rr_lighthouseTokenId = None,
      rr_breakGlass = None, rr_breakGlassReason = None\<rparr>"

lemma demo_vault_open:
  "requireUnsealed demo_vault = None" "vs_secrets demo_vault = []" "vs_accessRequestLog demo_vault = []"
  "vs_config demo_vault = void_DEFAULT_CONFIG"
  by (simp_all add: demo_vault_def provideUnsealShard_def completUnseal_def set_master_sealed_def
      new_VoidService_def requireUnsealed_def verifyShardSignature_def void_DEFAULT_CONFIG_def Let_def
      jm_set_def jm_size_def)

section \<open>A secret comes back\<close>

lemma remove_needle_suffix:
  "CHR '':'' \<notin> set xs \<Longrightarrow> remove_needle '':encrypted'' (xs @ '':encrypted'') = xs"
  by (induction xs) auto

lemma decrypt_encrypt [simp]: "decryptSecret h (encryptSecret now iv tag v plaintext alg sid) = plaintext"
proof -
  have bytes: "\<forall>b \<in> set (utf8_encode plaintext). b < 256" using utf8_bytes by blast
  show ?thesis
    unfolding decryptSecret_def encryptSecret_def
    by (simp add: remove_needle_suffix [OF base64url_no_colon [OF bytes]] base64url_round_trip [OF bytes])
qed

lemma storeSecret_ok:
  "storeSecret h now rnd rq v = (v1, Inr e) \<longleftrightarrow>
     requireUnsealed v = None \<and> validateSecretRequest rq v = None \<and>
     v1 = put_secret (new_envelope h now rnd rq v) (stored_id now rnd) v \<and>
     e = sanitiseEnvelope (new_envelope h now rnd rq v)"
  by (auto simp: storeSecret_def Let_def split: option.splits)

lemma sanitise_id [simp]: "se_id (sanitiseEnvelope e) = se_id e"
  by (simp add: sanitiseEnvelope_def)

definition has_expired :: "int \<Rightarrow> SecretEnvelope \<Rightarrow> bool" where
  "has_expired now e = (case se_expiresAt e of None \<Rightarrow> False | Some d \<Rightarrow> date_before d now)"

definition may_read :: "int \<Rightarrow> VoidConfig \<Rightarrow> RetrieveSecretRequest \<Rightarrow> SecretEnvelope \<Rightarrow> bool" where
  "may_read now config rr e \<longleftrightarrow>
     retrieve_status (rr_secretId rr) (se_status e) = None \<and> \<not> has_expired now e \<and>
     checkAccess now config (se_accessPolicy e) rr = None \<and>
     (sp_requireMFA (se_accessPolicy e) \<longrightarrow> str_truthy (rr_mfaToken rr)) \<and>
     (sp_requireHardwareKey (se_accessPolicy e) \<longrightarrow> str_truthy (rr_hardwareKeySignature rr))"

lemma map_prod_Inr: "map_prod id Inr p = (a, Inr b) \<longleftrightarrow> p = (a, b)"
  by (cases p) simp

lemma retrieveSecret_okD:
  assumes "retrieveSecret h now rnd rr v = (v2, Inr resp)"
  obtains e v1 where "requireUnsealed v = None" "jm_get (vs_secrets v) (rr_secretId rr) = Some e"
    "may_read now (vs_config v) rr e"
    "checkRateLimit now (rr_requestedBy rr) (se_accessPolicy e) v = (v1, None)"
    "retrieve_granted h now rnd rr e v1 = (v2, resp)"
proof (cases "jm_get (vs_secrets v) (rr_secretId rr)")
  case None
  then show ?thesis using assms by (simp add: retrieveSecret_def split: option.splits)
next
  case (Some e)
  show ?thesis
    by (rule that [of e "fst (checkRateLimit now (rr_requestedBy rr) (se_accessPolicy e) v)"])
      (use assms Some in \<open>auto simp: retrieveSecret_def may_read_def has_expired_def [symmetric] map_prod_Inr
         split: option.splits prod.splits if_splits\<close>)
qed

lemma retrieveSecret_okI:
  assumes "requireUnsealed v = None" "jm_get (vs_secrets v) (rr_secretId rr) = Some e"
    "may_read now (vs_config v) rr e"
    "checkRateLimit now (rr_requestedBy rr) (se_accessPolicy e) v = (v1, None)"
  shows "retrieveSecret h now rnd rr v = map_prod id Inr (retrieve_granted h now rnd rr e v1)"
  using assms by (auto simp: retrieveSecret_def may_read_def has_expired_def)

definition demo_stored :: VoidService where
  "demo_stored = put_secret (new_envelope demo_host 2 (\<lambda>_. ''r'') demo_store demo_vault)
     (stored_id 2 (\<lambda>_. ''r'')) demo_vault"

lemma demo_store_ok:
  "storeSecret demo_host 2 (\<lambda>_. ''r'') demo_store demo_vault =
     (demo_stored, Inr (sanitiseEnvelope (new_envelope demo_host 2 (\<lambda>_. ''r'') demo_store demo_vault)))"
proof -
  have "validateSecretRequest demo_store demo_vault = None"
    unfolding validateSecretRequest_def demo_vault_open by code_simp
  then show ?thesis by (simp add: storeSecret_ok demo_vault_open demo_stored_def)
qed

lemma demo_retrieve_ok:
  assumes "jm_get (vs_secrets v) (stored_id 2 (\<lambda>_. ''r'')) = Some e" and "requireUnsealed v = None"
    and "se_accessPolicy e = buildAccessPolicy 2 demo_store" and "se_status e = S_ACTIVE" and "se_expiresAt e = None"
    and "jm_get (vs_accessRequestLog v) k = None" and "k = ''ada:0''" and "vs_config v = void_DEFAULT_CONFIG"
  shows "\<exists>v2 resp. retrieveSecret demo_host 3 (\<lambda>_. ''r'') demo_get v = (v2, Inr resp)"
proof -
  let ?p = "buildAccessPolicy 2 demo_store"
  have rate: "sp_rateLimit ?p = Some \<lparr>rl_maxRequests = 100, rl_windowSeconds = 3600, rl_perPrincipal = True\<rparr>"
    and "checkAccess 3 void_DEFAULT_CONFIG ?p demo_get = None"
    by code_simp+
  then have "may_read 3 (vs_config v) demo_get e"
    using assms by (simp add: may_read_def has_expired_def retrieve_status_def demo_get_def str_truthy_def)
  moreover have "rate_key 3 ''ada'' \<lparr>rl_maxRequests = 100, rl_windowSeconds = 3600, rl_perPrincipal = True\<rparr> = ''ada:0''"
    by code_simp
  then obtain w where "checkRateLimit 3 (rr_requestedBy demo_get) (se_accessPolicy e) v = (w, None)"
    using assms(3,6,7) rate by (simp add: checkRateLimit_def demo_get_def Let_def dflt_def)
  ultimately have "retrieveSecret demo_host 3 (\<lambda>_. ''r'') demo_get v =
      map_prod id Inr (retrieve_granted demo_host 3 (\<lambda>_. ''r'') demo_get e w)"
    using assms(1,2) by (intro retrieveSecret_okI) (simp_all add: demo_get_def)
  then show ?thesis by (cases "retrieve_granted demo_host 3 (\<lambda>_. ''r'') demo_get e w") simp
qed

text \<open>The request is granted, and it still is while a quarantine of the entry is only pending.\<close>

definition demo_ops :: "void_op list" where
  "demo_ops = [Quarantine 3 (\<lambda>_. ''r'') (stored_id 2 (\<lambda>_. ''r'')) ''leak'' T_critical ''eve'']"

lemma demo_envelope:
  "se_status (new_envelope h now rnd rq v) = S_ACTIVE"
  "se_expiresAt (new_envelope h now rnd rq v) = rq_expiresAt rq"
  "se_accessPolicy (new_envelope h now rnd rq v) = buildAccessPolicy now rq"
  by (simp_all add: new_envelope_def Let_def)

lemma demo_run_ok: "\<exists>v2 resp. retrieveSecret demo_host 3 (\<lambda>_. ''r'') demo_get (void_run demo_host demo_ops demo_stored) = (v2, Inr resp)"
proof -
  let ?v = "void_run demo_host demo_ops demo_stored" and ?e = "new_envelope demo_host 2 (\<lambda>_. ''r'') demo_store demo_vault"
  have get: "jm_get (vs_secrets demo_stored) (stored_id 2 (\<lambda>_. ''r'')) = Some ?e"
    by (simp add: demo_stored_def)
  then have v: "vs_secrets ?v = vs_secrets demo_stored" "seal_state ?v = seal_state demo_stored"
    "vs_accessRequestLog ?v = vs_accessRequestLog demo_stored"
    by (simp_all add: demo_ops_def quarantineSecret_def Let_def seal_simps)
  then have "seal_state ?v = seal_state demo_vault" by (simp add: demo_stored_def seal_simps)
  then have "requireUnsealed ?v = None" and "vs_config ?v = void_DEFAULT_CONFIG"
    using demo_vault_open by (simp_all add: seal_state_def unsealed_iff)
  moreover have "jm_get (vs_accessRequestLog ?v) ''ada:0'' = None"
    unfolding v by (simp add: demo_stored_def demo_vault_open)
  ultimately show ?thesis
    using get by (intro demo_retrieve_ok) (auto simp: v demo_envelope demo_store_def)
qed

text \<open>The operations that leave the payload of a secret alone. The automatic rotation, the timers, the
  end of a quarantine and the erasure may reach any secret.\<close>

fun writes :: "string \<Rightarrow> void_op \<Rightarrow> bool" where
  "writes sid (Provide now rq) = False"
| "writes sid (Seal now who) = False"
| "writes sid (Store now rnd rq) = (stored_id now rnd = sid)"
| "writes sid (Retrieve now rnd rq) = False"
| "writes sid (Update now rnd sid' pt who why) = (sid' = sid)"
| "writes sid (Delete now rnd sid' who why) = (sid' = sid)"
| "writes sid (Rotate now rnd rq) = (ro_secretId rq = sid)"
| "writes sid (AutoRotation now rnd) = True"
| "writes sid (FireTimer now rnd) = True"
| "writes sid (Reconstruct now rnd sid' shards who why) = False"
| "writes sid (Quarantine now rnd sid' why lvl who) = False"
| "writes sid (WarpTick now rnd tid) = True"
| "writes sid (Erase now subject) = True"

text \<open>What a reader sees of a secret, but for its status and its log.\<close>

definition content :: "SecretEnvelope \<Rightarrow>
    string \<times> SecretType \<times> SecretClassification \<times> nat \<times> EncryptedPayload" where
  "content e = (se_name e, se_type e, se_classification e, se_version e, se_encryptedPayload e)"

definition has_content ::
  "string \<Rightarrow> string \<times> SecretType \<times> SecretClassification \<times> nat \<times> EncryptedPayload \<Rightarrow>
     string \<Rightarrow> SecretEnvelope \<Rightarrow> bool" where
  "has_content sid c sid' e \<longleftrightarrow> (sid' = sid \<longrightarrow> content e = c)"

interpretation hc: read_invariant "has_content sid c" for sid c
  by unfold_locales (simp_all add: has_content_def content_def log_audit_def)

lemma has_content_put:
  "sid' \<noteq> sid \<Longrightarrow> every_secret (has_content sid c) v \<Longrightarrow> every_secret (has_content sid c) (put_secret e sid' v)"
  by (simp add: every_secret_put has_content_def)

lemma content_kept:
  assumes inv: "every_secret (has_content sid c) v" and w: "\<not> writes sid op"
  shows "every_secret (has_content sid c) (void_apply h op v)"
proof (cases op)
  case (Update now rnd sid' pt who why)
  with w inv show ?thesis by (simp add: updateSecret_def Let_def has_content_put split: option.splits)
next
  case (Delete now rnd sid' who why)
  with w inv show ?thesis by (simp add: deleteSecret_def Let_def has_content_put split: option.splits)
next
  case (Rotate now rnd rq)
  have "every_secret (has_content sid c) (set_last_event s ev (v\<lparr>vs_rotationEvents := evs\<rparr>))" for s ev evs
    using inv by (simp add: every_secret_def)
  with w inv Rotate show ?thesis by (simp add: rotateSecret_def Let_def has_content_put split: option.splits)
next
  case (Store now rnd rq)
  with w inv show ?thesis by (simp add: storeSecret_every has_content_def)
qed (use w inv in \<open>simp_all add: hc.retrieve hc.reconstruct hc.quarantine
    every_secret_cong [OF provide_secrets] every_secret_cong [OF seal_secrets]\<close>)

lemma content_kept_run:
  "every_secret (has_content sid c) v \<Longrightarrow> \<forall>op \<in> set ops. \<not> writes sid op \<Longrightarrow>
     every_secret (has_content sid c) (void_run h ops v)"
  by (induction ops arbitrary: v) (simp_all add: content_kept)

text \<open>
  C15. A stored secret comes back. Store a secret, run any history of operations that neither write
  that secret nor sweep over all of them, and whoever then retrieves it successfully gets exactly the
  plaintext, name, type and classification that were stored, as version 1.
\<close>

theorem void_round_trip:
  assumes "storeSecret h now rnd rq v = (v1, Inr e)"
    and "\<forall>op \<in> set ops. \<not> writes (se_id e) op"
    and "retrieveSecret h now' rnd' rr (void_run h ops v1) = (v2, Inr resp)" and "rr_secretId rr = se_id e"
  shows "rs_plaintext resp = rq_plaintext rq \<and> rs_name resp = rq_name rq \<and> rs_type resp = rq_type rq \<and>
     rs_classification resp = rq_classification rq \<and> rs_version resp = 1"
proof -
  let ?sid = "stored_id now rnd" and ?c = "content (new_envelope h now rnd rq v)"
  have e: "se_id e = ?sid" and v1: "v1 = put_secret (new_envelope h now rnd rq v) ?sid v"
    using assms(1) by (auto simp: storeSecret_ok)
  have "every_secret (has_content ?sid ?c) v1"
    unfolding v1 every_secret_def by (auto simp: has_content_def)
  then have "every_secret (has_content ?sid ?c) (void_run h ops v1)"
    by (rule content_kept_run) (use assms(2) e in simp)
  moreover obtain e' w where e': "jm_get (vs_secrets (void_run h ops v1)) (rr_secretId rr) = Some e'"
    and "retrieve_granted h now' rnd' rr e' w = (v2, resp)"
    by (rule retrieveSecret_okD [OF assms(3)]) blast
  ultimately have "content e' = ?c"
    and "resp = snd (retrieve_granted h now' rnd' rr e' w)"
    using every_secretD assms(4) e by (fastforce simp: has_content_def)+
  then show ?thesis
    by (simp add: retrieve_granted_def Let_def content_def new_envelope_def)
qed

theorem void_round_trip_witness:
  "\<exists>v2 resp. retrieveSecret demo_host 3 (\<lambda>_. ''r'') demo_get (void_run demo_host demo_ops demo_stored) = (v2, Inr resp) \<and>
     rs_plaintext resp = ''p'' \<and> rs_version resp = 1"
proof -
  obtain v2 resp where get: "retrieveSecret demo_host 3 (\<lambda>_. ''r'') demo_get (void_run demo_host demo_ops demo_stored) = (v2, Inr resp)"
    using demo_run_ok by blast
  have "rs_plaintext resp = rq_plaintext demo_store \<and> rs_version resp = 1"
    using void_round_trip [OF demo_store_ok _ get] by (simp add: demo_ops_def demo_get_def)
  then show ?thesis using get by (auto simp: demo_store_def)
qed

section \<open>Top-secret entries\<close>

text \<open>The access policy and the classification of a secret are set when it is stored.\<close>

definition has_policy :: "string \<Rightarrow> SecretAccessPolicy \<times> SecretClassification \<Rightarrow> string \<Rightarrow> SecretEnvelope \<Rightarrow> bool" where
  "has_policy sid pc sid' e \<longleftrightarrow> (sid' = sid \<longrightarrow> (se_accessPolicy e, se_classification e) = pc)"

interpretation hp: envelope_invariant "has_policy sid pc" for sid pc
  by unfold_locales (simp_all add: has_policy_def log_audit_def new_version_def cryptoShred_def)

lemma owner_only:
  assumes "rq_classification rq = VOID" and "rq_accessPolicy rq = None"
    and "may_read now' config rr e" and "se_accessPolicy e = buildAccessPolicy now rq"
  shows "rr_requestedBy rr = rq_requestedBy rq \<or> rq_requestedBy rq = ''*''"
    and "str_truthy (rr_mfaToken rr)" and "str_truthy (rr_hardwareKeySignature rr)"
proof -
  have policy: "sp_readers (se_accessPolicy e) = sp_readers (base_policy now rq)"
    "sp_breakGlass (se_accessPolicy e) = sp_breakGlass (base_policy now rq)"
    "sp_requireMFA (se_accessPolicy e)" "sp_requireHardwareKey (se_accessPolicy e)"
    using assms(1,2,4)
    by (simp_all add: buildAccessPolicy_def base_policy_def Let_def empty_partial_policy_def spread_def
        spread_opt_def dflt_def)
  then show "str_truthy (rr_mfaToken rr)" "str_truthy (rr_hardwareKeySignature rr)"
    using assms(3) by (simp_all add: may_read_def)
  have "checkAccess now' config (se_accessPolicy e) rr = None"
    using assms(3) by (simp add: may_read_def)
  then show "rr_requestedBy rr = rq_requestedBy rq \<or> rq_requestedBy rq = ''*''"
    using assms(1,2) unfolding checkAccess_def policy
    by (auto simp: base_policy_def Let_def empty_partial_policy_def dflt_def split: if_splits)
qed

text \<open>
  C16. A top-secret entry stays with its owner. A secret stored as VOID without a policy of its own
  is, after any history whatsoever that does not draw its identifier again, retrieved only by the
  principal who stored it (unless that principal is called \<open>*\<close>), and only with a second factor and a
  hardware signature: break-glass access, updates, rotations and quarantine open no other way.
\<close>

theorem void_secret_owner_only:
  assumes "storeSecret h now rnd rq v = (v1, Inr e)" and "secrets_ok v"
    and "rq_classification rq = VOID" and "rq_accessPolicy rq = None"
    and "\<forall>now' rnd' rq'. Store now' rnd' rq' \<in> set ops \<longrightarrow> stored_id now' rnd' \<noteq> se_id e"
    and "retrieveSecret h now' rnd' rr (void_run h ops v1) = (v2, Inr resp)" and "rr_secretId rr = se_id e"
  shows "(rr_requestedBy rr = rq_requestedBy rq \<or> rq_requestedBy rq = ''*'') \<and>
    str_truthy (rr_mfaToken rr) \<and> str_truthy (rr_hardwareKeySignature rr)"
proof -
  let ?sid = "stored_id now rnd" and ?pc = "(buildAccessPolicy now rq, VOID)"
  have e: "se_id e = ?sid" and v1: "v1 = put_secret (new_envelope h now rnd rq v) ?sid v"
    using assms(1) by (auto simp: storeSecret_ok)
  have "every_secret (has_policy ?sid ?pc) v1"
    unfolding v1 every_secret_def using assms(3) by (auto simp: has_policy_def new_envelope_def Let_def)
  moreover have "secrets_ok v1" using assms(2) by (simp add: v1)
  ultimately have "every_secret (has_policy ?sid ?pc) (void_run h ops v1)"
    by (intro hp.history) (use assms(5) e in \<open>auto simp: has_policy_def\<close>)
  moreover obtain e' where "jm_get (vs_secrets (void_run h ops v1)) (rr_secretId rr) = Some e'"
    and reads: "may_read now' (vs_config (void_run h ops v1)) rr e'"
    by (rule retrieveSecret_okD [OF assms(6)]) blast
  ultimately have "se_accessPolicy e' = buildAccessPolicy now rq"
    using every_secretD assms(7) e by (fastforce simp: has_policy_def)
  with owner_only [OF assms(3,4) reads] show ?thesis by blast
qed

theorem void_secret_owner_only_witness:
  "\<exists>v2 resp. retrieveSecret demo_host 3 (\<lambda>_. ''r'') demo_get (void_run demo_host demo_ops demo_stored) = (v2, Inr resp) \<and>
     rr_requestedBy demo_get = ''ada''"
proof -
  obtain v2 resp where get: "retrieveSecret demo_host 3 (\<lambda>_. ''r'') demo_get (void_run demo_host demo_ops demo_stored) = (v2, Inr resp)"
    using demo_run_ok by blast
  have "secrets_ok demo_vault" by (simp add: secrets_ok_def demo_vault_open)
  then have "rr_requestedBy demo_get = rq_requestedBy demo_store"
    using void_secret_owner_only [OF demo_store_ok _ _ _ _ get] by (simp add: demo_ops_def demo_get_def demo_store_def)
  then show ?thesis using get by (simp add: demo_store_def)
qed

section \<open>Rotation\<close>

lemma rotate_stored:
  assumes "requireUnsealed v = None" and "jm_get (vs_secrets v) sid = Some e"
    and "ro_secretId ro = sid" and "ro_newPlaintext ro = Some p"
  shows "\<exists>e'. jm_get (vs_secrets (fst (rotateSecret h now rnd ro v))) sid = Some e' \<and>
     se_status e' = S_ACTIVE \<and> se_version e' = se_version e + 1 \<and>
     decryptSecret h (se_encryptedPayload e') = p \<and> se_accessPolicy e' = se_accessPolicy e"
  using assms
  by (simp add: rotateSecret_def Let_def new_version_def log_audit_def dflt_def split: option.split)

text \<open>
  Rotation undoes crypto-shredding. Once a secret is shredded every retrieval is refused as
  shredded; but a rotation, which nobody's rights are checked for, makes it active again under the
  same identifier and access policy, one version on, with the new plaintext readable in it.
\<close>

theorem rotation_revives_shredded:
  assumes "requireUnsealed v = None" and "jm_get (vs_secrets v) sid = Some e"
    and "ro_secretId ro = sid" and "ro_newPlaintext ro = Some p" and "rr_secretId rr = sid"
  shows "let v1 = fst (deleteSecret h now rnd sid who why v);
             v2 = fst (rotateSecret h now' rnd' ro v1)
         in retrieveSecret h t rt rr v1 = (v1, Inl (SecretShredded sid)) \<and>
            (\<exists>e'. jm_get (vs_secrets v2) sid = Some e' \<and> se_status e' = S_ACTIVE \<and>
              se_version e' = se_version e + 1 \<and> decryptSecret h (se_encryptedPayload e') = p \<and>
              se_accessPolicy e' = se_accessPolicy e)"
proof -
  let ?v1 = "fst (deleteSecret h now rnd sid who why v)"
  obtain e1 where e1: "jm_get (vs_secrets ?v1) sid = Some e1" "se_status e1 = S_SHREDDED"
    "se_version e1 = se_version e" "se_accessPolicy e1 = se_accessPolicy e"
    using assms(1,2) by (simp add: deleteSecret_def Let_def log_audit_def cryptoShred_def)
  moreover have opened: "requireUnsealed ?v1 = None"
    using assms(1) keeps_delete [of v h now rnd sid who why]
    by (simp add: keeps_def seal_state_def unsealed_iff)
  ultimately have "retrieveSecret h t rt rr ?v1 = (?v1, Inl (SecretShredded sid))"
    using assms(5) by (simp add: retrieveSecret_def retrieve_status_def)
  with rotate_stored [OF opened e1(1) assms(3,4), of h now' rnd'] e1 show ?thesis
    by (simp add: Let_def)
qed

theorem rotation_revives_shredded_witness:
  "let sid = stored_id 2 (\<lambda>_. ''r'');
       v1 = fst (deleteSecret demo_host 3 (\<lambda>_. ''d'') sid ''ada'' ''leaked'' demo_stored);
       v2 = fst (rotateSecret demo_host 4 (\<lambda>_. ''t'')
         \<lparr>ro_secretId = sid, ro_newPlaintext = Some ''q'', ro_strategy = IMMEDIATE, ro_requestedBy = ''eve'',
          ro_reason = None, ro_gracePeriodHours = None\<rparr> v1)
   in retrieveSecret demo_host 3 (\<lambda>_. ''r'') demo_get v1 = (v1, Inl (SecretShredded sid)) \<and>
      (\<exists>e. jm_get (vs_secrets v2) sid = Some e \<and> se_status e = S_ACTIVE \<and>
        decryptSecret demo_host (se_encryptedPayload e) = ''q'')"
proof -
  have opened: "requireUnsealed demo_stored = None"
    using demo_vault_open(1) by (simp add: demo_stored_def unsealed_iff)
  have get: "jm_get (vs_secrets demo_stored) (stored_id 2 (\<lambda>_. ''r'')) =
      Some (new_envelope demo_host 2 (\<lambda>_. ''r'') demo_store demo_vault)"
    by (simp add: demo_stored_def)
  show ?thesis
    using rotation_revives_shredded [OF opened get, of
        "\<lparr>ro_secretId = stored_id 2 (\<lambda>_. ''r''), ro_newPlaintext = Some ''q'', ro_strategy = IMMEDIATE,
          ro_requestedBy = ''eve'', ro_reason = None, ro_gracePeriodHours = None\<rparr>" "''q''" demo_get
        demo_host 3 "\<lambda>_. ''d''" "''ada''" "''leaked''" 4 "\<lambda>_. ''t''" 3 "\<lambda>_. ''r''"]
    by (auto simp: Let_def demo_get_def)
qed

end
