(* ===== verification/AutoScaler.thy ===== *)
theory AutoScaler
  imports JsMap
begin

text \<open>
  The auto-scaler of \<open>packages/kernel/src/scaling/auto-scaler.ts\<close>: policies, the decision for one
  service, its history and the default policies.

  Metrics are finite rationals and targets are positive; replica counts, steps and cooldowns are
  integers. The reason of a decision is a constructor with the values its text shows.
\<close>

section \<open>Policies and decisions\<close>

datatype scaling_metric_type = average_metric | total_metric | percentile_metric

record CustomScalingMetric =
  cs_name :: string
  cs_targetValue :: rat
  cs_type :: scaling_metric_type

record ScalingPolicy =
  po_name :: string
  po_service :: string
  po_minReplicas :: int
  po_maxReplicas :: int
  po_targetCpuPercent :: rat
  po_targetMemoryPercent :: rat
  po_customMetrics :: "CustomScalingMetric list option"
  po_scaleUpCooldown :: int
  po_scaleDownCooldown :: int
  po_scaleUpStep :: int
  po_scaleDownStep :: int

datatype scaling_reason =
    NoScaling
  | CpuAbove rat rat
  | CpuWellBelow rat rat
  | MemoryAbove rat rat
  | CustomAbove string rat rat
  | UpCooldown int
  | DownCooldown int

type_synonym metrics = "(string, rat) jsmap"

record ScalingDecision =
  sd_service :: string
  sd_currentReplicas :: int
  sd_desiredReplicas :: int
  sd_reason :: scaling_reason
  sd_metrics :: metrics
  sd_timestamp :: int

record AutoScaler =
  sc_policies :: "(string, ScalingPolicy) jsmap"
  sc_currentReplicas :: "(string, int) jsmap"
  sc_lastScaleUp :: "(string, int) jsmap"
  sc_lastScaleDown :: "(string, int) jsmap"
  sc_decisions :: "ScalingDecision list"

definition new_AutoScaler :: AutoScaler where
  "new_AutoScaler =
     \<lparr>sc_policies = [], sc_currentReplicas = [], sc_lastScaleUp = [], sc_lastScaleDown = [], sc_decisions = []\<rparr>"

definition registerPolicy :: "ScalingPolicy \<Rightarrow> AutoScaler \<Rightarrow> AutoScaler" where
  "registerPolicy p s =
     s\<lparr>sc_policies := jm_set (po_service p) p (sc_policies s),
       sc_currentReplicas :=
         (if jm_has (sc_currentReplicas s) (po_service p) then sc_currentReplicas s
          else jm_set (po_service p) (po_minReplicas p) (sc_currentReplicas s))\<rparr>"

section \<open>The decision\<close>

text \<open>What one metric asks for: the replicas that bring it to its target.\<close>

definition scaled :: "int \<Rightarrow> rat \<Rightarrow> rat \<Rightarrow> int" where
  "scaled current v target = \<lceil>of_int current * (v / target)\<rceil>"

definition cpu_wish :: "ScalingPolicy \<Rightarrow> int \<Rightarrow> rat option \<Rightarrow> int \<times> scaling_reason" where
  "cpu_wish p current cpu =
     (case cpu of
        None \<Rightarrow> (current, NoScaling)
      | Some v \<Rightarrow>
          if v > po_targetCpuPercent p then
            (scaled current v (po_targetCpuPercent p), CpuAbove v (po_targetCpuPercent p))
          else if v < po_targetCpuPercent p * (1 / 2) then
            (max (po_minReplicas p) (scaled current v (po_targetCpuPercent p)),
             CpuWellBelow v (po_targetCpuPercent p))
          else (current, NoScaling))"

text \<open>A metric above its target raises the wish, never lowers it.\<close>

definition raise_wish ::
  "int \<Rightarrow> rat option \<Rightarrow> rat \<Rightarrow> (rat \<Rightarrow> scaling_reason) \<Rightarrow> int \<times> scaling_reason \<Rightarrow> int \<times> scaling_reason" where
  "raise_wish current value target why wish =
     (case value of
        None \<Rightarrow> wish
      | Some v \<Rightarrow>
          if v > target \<and> scaled current v target > fst wish then (scaled current v target, why v) else wish)"

definition custom_wish :: "int \<Rightarrow> metrics \<Rightarrow> CustomScalingMetric \<Rightarrow> int \<times> scaling_reason \<Rightarrow> int \<times> scaling_reason" where
  "custom_wish current ms cm wish =
     raise_wish current (jm_get ms (cs_name cm)) (cs_targetValue cm)
       (\<lambda>v. CustomAbove (cs_name cm) v (cs_targetValue cm)) wish"

definition metric_wish :: "ScalingPolicy \<Rightarrow> int \<Rightarrow> metrics \<Rightarrow> int \<times> scaling_reason" where
  "metric_wish p current ms =
     fold (custom_wish current ms) (dflt (po_customMetrics p) [])
       (raise_wish current (jm_get ms ''memoryPercent'') (po_targetMemoryPercent p)
          (\<lambda>v. MemoryAbove v (po_targetMemoryPercent p))
          (cpu_wish p current (jm_get ms ''cpuPercent'')))"

text \<open>The step limits, then the bounds of the policy.\<close>

definition limit_step :: "ScalingPolicy \<Rightarrow> int \<Rightarrow> int \<Rightarrow> int" where
  "limit_step p current desired =
     (if desired > current then min desired (current + po_scaleUpStep p)
      else if desired < current then max desired (current - po_scaleDownStep p)
      else desired)"

definition clamp :: "ScalingPolicy \<Rightarrow> int \<Rightarrow> int" where
  "clamp p desired = max (po_minReplicas p) (min (po_maxReplicas p) desired)"

text \<open>The cooldowns; the text of the reason shows the remaining seconds, rounded up.\<close>

definition cooldown_left :: "int \<Rightarrow> int \<Rightarrow> int \<Rightarrow> int" where
  "cooldown_left cooldown now since = \<lceil>(of_int (cooldown * 1000 - (now - since)) / 1000 :: rat)\<rceil>"

definition apply_cooldown ::
  "ScalingPolicy \<Rightarrow> AutoScaler \<Rightarrow> string \<Rightarrow> int \<Rightarrow> int \<Rightarrow> int \<times> scaling_reason \<Rightarrow> int \<times> scaling_reason" where
  "apply_cooldown p s service now current wish =
     (let lastUp = num_or (jm_get (sc_lastScaleUp s) service) 0;
          lastDown = num_or (jm_get (sc_lastScaleDown s) service) 0
      in if fst wish > current then
           (if now - lastUp < po_scaleUpCooldown p * 1000
            then (current, UpCooldown (cooldown_left (po_scaleUpCooldown p) now lastUp)) else wish)
         else if fst wish < current then
           (if now - lastDown < po_scaleDownCooldown p * 1000
            then (current, DownCooldown (cooldown_left (po_scaleDownCooldown p) now lastDown)) else wish)
         else wish)"

definition scaler_decide :: "ScalingPolicy \<Rightarrow> AutoScaler \<Rightarrow> string \<Rightarrow> int \<Rightarrow> metrics \<Rightarrow> ScalingDecision" where
  "scaler_decide p s service now ms =
     (let current = num_or (jm_get (sc_currentReplicas s) service) (po_minReplicas p);
          (wish, reason) = metric_wish p current ms;
          (desired, reason1) =
            apply_cooldown p s service now current (clamp p (limit_step p current wish), reason)
      in \<lparr>sd_service = service, sd_currentReplicas = current, sd_desiredReplicas = desired,
          sd_reason = reason1, sd_metrics = ms, sd_timestamp = now\<rparr>)"

text \<open>The history keeps the last 500 of more than 1000 decisions.\<close>

definition scaler_record :: "ScalingDecision \<Rightarrow> AutoScaler \<Rightarrow> AutoScaler" where
  "scaler_record d s =
     (let ds = sc_decisions s @ [d]
      in s\<lparr>sc_decisions := (if length ds > 1000 then slice_last 500 ds else ds)\<rparr>)"

definition scaler_update :: "ScalingDecision \<Rightarrow> AutoScaler \<Rightarrow> AutoScaler" where
  "scaler_update d s =
     (let service = sd_service d; desired = sd_desiredReplicas d; now = sd_timestamp d
      in if desired = sd_currentReplicas d then s
         else
           (let s1 = s\<lparr>sc_currentReplicas := jm_set service desired (sc_currentReplicas s)\<rparr>
            in if desired > sd_currentReplicas d
               then s1\<lparr>sc_lastScaleUp := jm_set service now (sc_lastScaleUp s1)\<rparr>
               else s1\<lparr>sc_lastScaleDown := jm_set service now (sc_lastScaleDown s1)\<rparr>))"

text \<open>\<^const>\<open>Inl\<close>: there is no policy for the service.\<close>

definition scaler_evaluate ::
  "int \<Rightarrow> string \<Rightarrow> metrics \<Rightarrow> AutoScaler \<Rightarrow> AutoScaler \<times> (string + ScalingDecision)" where
  "scaler_evaluate now service ms s =
     (case jm_get (sc_policies s) service of
        None \<Rightarrow> (s, Inl service)
      | Some p \<Rightarrow>
          (let d = scaler_decide p s service now ms
           in (scaler_update d (scaler_record d s), Inr d)))"

section \<open>Readings\<close>

definition scaler_getHistory :: "string option \<Rightarrow> int \<Rightarrow> AutoScaler \<Rightarrow> ScalingDecision list" where
  "scaler_getHistory service limit s =
     (let history = (if str_truthy service then filter (\<lambda>d. Some (sd_service d) = service) (sc_decisions s)
                     else sc_decisions s)
      in drop (slice_index history (- limit)) history)"

definition getReplicas :: "string \<Rightarrow> AutoScaler \<Rightarrow> int" where
  "getReplicas service s = num_or (jm_get (sc_currentReplicas s) service) 0"

definition getPolicies :: "AutoScaler \<Rightarrow> ScalingPolicy list" where
  "getPolicies s = jm_values (sc_policies s)"

definition DefaultScalingPolicies :: "ScalingPolicy list" where
  "DefaultScalingPolicies =
     [\<lparr>po_name = ''api-gateway-scaling'', po_service = ''api-gateway'', po_minReplicas = 2,
       po_maxReplicas = 10, po_targetCpuPercent = 70, po_targetMemoryPercent = 80,
       po_customMetrics = Some [\<lparr>cs_name = ''requestsPerSecond'', cs_targetValue = 1000, cs_type = average_metric\<rparr>],
       po_scaleUpCooldown = 60, po_scaleDownCooldown = 300, po_scaleUpStep = 2, po_scaleDownStep = 1\<rparr>,
      \<lparr>po_name = ''ai-service-scaling'', po_service = ''ai-service'', po_minReplicas = 1,
       po_maxReplicas = 8, po_targetCpuPercent = 60, po_targetMemoryPercent = 75,
       po_customMetrics = Some [\<lparr>cs_name = ''inferenceQueueLength'', cs_targetValue = 10, cs_type = average_metric\<rparr>,
                                \<lparr>cs_name = ''avgLatencyMs'', cs_targetValue = 5000, cs_type = average_metric\<rparr>],
       po_scaleUpCooldown = 120, po_scaleDownCooldown = 600, po_scaleUpStep = 1, po_scaleDownStep = 1\<rparr>,
      \<lparr>po_name = ''worker-scaling'', po_service = ''infinity-worker'', po_minReplicas = 1,
       po_maxReplicas = 6, po_targetCpuPercent = 75, po_targetMemoryPercent = 80,
       po_customMetrics = Some [\<lparr>cs_name = ''jobQueueLength'', cs_targetValue = 50, cs_type = total_metric\<rparr>],
       po_scaleUpCooldown = 90, po_scaleDownCooldown = 300, po_scaleUpStep = 2, po_scaleDownStep = 1\<rparr>,
      \<lparr>po_name = ''web-frontend-scaling'', po_service = ''web-frontend'', po_minReplicas = 2,
       po_maxReplicas = 8, po_targetCpuPercent = 70, po_targetMemoryPercent = 80, po_customMetrics = None,
       po_scaleUpCooldown = 60, po_scaleDownCooldown = 300, po_scaleUpStep = 2, po_scaleDownStep = 1\<rparr>]"

section \<open>Histories\<close>

datatype scaler_op = Register ScalingPolicy | Evaluate int string metrics

text \<open>The log holds every decision with the policy that was in force.\<close>

type_synonym scaler_log = "(ScalingPolicy \<times> ScalingDecision) list"

fun scaler_run :: "scaler_op list \<Rightarrow> AutoScaler \<times> scaler_log \<Rightarrow> AutoScaler \<times> scaler_log" where
  "scaler_run [] (s, ds) = (s, ds)"
| "scaler_run (Register p # ops) (s, ds) = scaler_run ops (registerPolicy p s, ds)"
| "scaler_run (Evaluate now service ms # ops) (s, ds) =
     (case scaler_evaluate now service ms s of
        (s1, Inl _) \<Rightarrow> scaler_run ops (s1, ds)
      | (s1, Inr d) \<Rightarrow> scaler_run ops (s1, ds @ [(the (jm_get (sc_policies s) service), d)]))"

text \<open>A policy whose numbers make sense.\<close>

definition valid_policy :: "ScalingPolicy \<Rightarrow> bool" where
  "valid_policy p \<longleftrightarrow> 0 \<le> po_minReplicas p \<and> po_minReplicas p \<le> po_maxReplicas p \<and>
     0 \<le> po_scaleUpStep p \<and> 0 \<le> po_scaleDownStep p \<and> 0 \<le> po_scaleUpCooldown p \<and> 0 \<le> po_scaleDownCooldown p"

definition in_bounds :: "ScalingPolicy \<Rightarrow> int \<Rightarrow> bool" where
  "in_bounds p n \<longleftrightarrow> po_minReplicas p \<le> n \<and> n \<le> po_maxReplicas p"

definition scaled_up :: "ScalingDecision \<Rightarrow> bool" where
  "scaled_up d \<longleftrightarrow> sd_currentReplicas d < sd_desiredReplicas d"

definition scaled_down :: "ScalingDecision \<Rightarrow> bool" where
  "scaled_down d \<longleftrightarrow> sd_desiredReplicas d < sd_currentReplicas d"

text \<open>
  A change ends within the bounds. It goes up by at most a step or, when that is further, to the minimum, and down
  by at most a step or to the maximum: a policy can be replaced by one whose bounds exclude the current number.
\<close>

definition decision_ok :: "ScalingPolicy \<Rightarrow> ScalingDecision \<Rightarrow> bool" where
  "decision_ok p d \<longleftrightarrow> valid_policy p \<and>
     (scaled_up d \<or> scaled_down d \<or> in_bounds p (sd_currentReplicas d) \<longrightarrow> in_bounds p (sd_desiredReplicas d)) \<and>
     sd_desiredReplicas d \<le> max (sd_currentReplicas d + po_scaleUpStep p) (po_minReplicas p) \<and>
     min (sd_currentReplicas d - po_scaleDownStep p) (po_maxReplicas p) \<le> sd_desiredReplicas d"

text \<open>Two changes of a service in the same direction are apart by the cooldown in force at the later one.\<close>

definition apart :: "ScalingPolicy \<times> ScalingDecision \<Rightarrow> ScalingPolicy \<times> ScalingDecision \<Rightarrow> bool" where
  "apart e e' \<longleftrightarrow> (case (e, e') of ((p, d), (p', d')) \<Rightarrow>
     sd_service d = sd_service d' \<longrightarrow>
     (scaled_up d \<and> scaled_up d' \<longrightarrow> po_scaleUpCooldown p' * 1000 \<le> sd_timestamp d' - sd_timestamp d) \<and>
     (scaled_down d \<and> scaled_down d' \<longrightarrow> po_scaleDownCooldown p' * 1000 \<le> sd_timestamp d' - sd_timestamp d))"

definition scaler_inv :: "AutoScaler \<times> scaler_log \<Rightarrow> bool" where
  "scaler_inv sd \<longleftrightarrow> (case sd of (s, ds) \<Rightarrow>
     (\<forall>x p. jm_get (sc_policies s) x = Some p \<longrightarrow> valid_policy p) \<and>
     (\<forall>(p, d) \<in> set ds. decision_ok p d \<and>
        (scaled_up d \<longrightarrow> (\<exists>t. jm_get (sc_lastScaleUp s) (sd_service d) = Some t \<and> sd_timestamp d \<le> t)) \<and>
        (scaled_down d \<longrightarrow> (\<exists>t. jm_get (sc_lastScaleDown s) (sd_service d) = Some t \<and> sd_timestamp d \<le> t))) \<and>
     sorted_wrt apart ds)"

text \<open>While no policy is replaced, the replicas stay within the bounds of the plan.\<close>

definition plan_inv :: "(string \<Rightarrow> ScalingPolicy) \<Rightarrow> AutoScaler \<times> scaler_log \<Rightarrow> bool" where
  "plan_inv plan sd \<longleftrightarrow> (case sd of (s, ds) \<Rightarrow>
     (\<forall>x p. jm_get (sc_policies s) x = Some p \<longrightarrow> p = plan x \<and> valid_policy p) \<and>
     (\<forall>x n. jm_get (sc_currentReplicas s) x = Some n \<longrightarrow> in_bounds (plan x) n) \<and>
     (\<forall>(p, d) \<in> set ds. p = plan (sd_service d) \<and> in_bounds p (sd_currentReplicas d)))"

lemma num_or_Some [simp]: "num_or (Some t) 0 = t"
  by (simp add: num_or_def)

lemma bounds_num_or:
  "valid_policy p \<Longrightarrow> (\<And>n. o' = Some n \<Longrightarrow> in_bounds p n) \<Longrightarrow> in_bounds p (num_or o' (po_minReplicas p))"
  by (auto simp: num_or_def in_bounds_def valid_policy_def split: option.splits)

lemma clamp_step:
  assumes "valid_policy p"
  shows "in_bounds p (clamp p n)"
    and "clamp p (limit_step p current w) \<le> max (current + po_scaleUpStep p) (po_minReplicas p)"
    and "min (current - po_scaleDownStep p) (po_maxReplicas p) \<le> clamp p (limit_step p current w)"
  using assms by (auto simp: valid_policy_def in_bounds_def clamp_def limit_step_def)

text \<open>A decision either keeps the replicas, or makes the clamped step with its cooldown over.\<close>

lemma decide_cases:
  fixes p s service now ms
  defines "d \<equiv> scaler_decide p s service now ms"
    and "current \<equiv> num_or (jm_get (sc_currentReplicas s) service) (po_minReplicas p)"
  shows "sd_service d = service" and "sd_currentReplicas d = current" and "sd_timestamp d = now"
    and "sd_desiredReplicas d = current \<or>
      sd_desiredReplicas d = clamp p (limit_step p current (fst (metric_wish p current ms))) \<and>
      (scaled_up d \<longrightarrow> po_scaleUpCooldown p * 1000 \<le> now - num_or (jm_get (sc_lastScaleUp s) service) 0) \<and>
      (scaled_down d \<longrightarrow> po_scaleDownCooldown p * 1000 \<le> now - num_or (jm_get (sc_lastScaleDown s) service) 0)"
  unfolding d_def current_def scaler_decide_def Let_def scaled_up_def scaled_down_def
  by (auto simp: apply_cooldown_def Let_def split_beta)

lemma decide_ok:
  assumes "valid_policy p"
  shows "decision_ok p (scaler_decide p s service now ms)"
  using decide_cases(4) [of p s service now ms] clamp_step [OF assms] assms
  by (auto simp: decision_ok_def decide_cases(2) valid_policy_def scaled_up_def scaled_down_def)

lemma decide_apart:
  assumes inv: "scaler_inv (s, ds)" and d: "(q, d) \<in> set ds"
  shows "apart (q, d) (p, scaler_decide p s service now ms)"
  using inv d decide_cases(4) [of p s service now ms] decide_cases(1-3) [of p s service now ms]
  unfolding apart_def scaler_inv_def scaled_up_def scaled_down_def
  by fastforce

lemma scaler_record_fields [simp]:
  "sc_policies (scaler_record d s) = sc_policies s" "sc_currentReplicas (scaler_record d s) = sc_currentReplicas s"
  "sc_lastScaleUp (scaler_record d s) = sc_lastScaleUp s" "sc_lastScaleDown (scaler_record d s) = sc_lastScaleDown s"
  by (simp_all add: scaler_record_def Let_def)

lemma scaler_update_fields [simp]:
  "sc_policies (scaler_update d s) = sc_policies s"
  "jm_get (sc_currentReplicas (scaler_update d s)) x =
     (if (scaled_up d \<or> scaled_down d) \<and> x = sd_service d then Some (sd_desiredReplicas d) else jm_get (sc_currentReplicas s) x)"
  "jm_get (sc_lastScaleUp (scaler_update d s)) x =
     (if scaled_up d \<and> x = sd_service d then Some (sd_timestamp d) else jm_get (sc_lastScaleUp s) x)"
  "jm_get (sc_lastScaleDown (scaler_update d s)) x =
     (if scaled_down d \<and> x = sd_service d then Some (sd_timestamp d) else jm_get (sc_lastScaleDown s) x)"
  by (auto simp: scaler_update_def scaled_up_def scaled_down_def Let_def)

lemma register_inv: "scaler_inv (s, ds) \<Longrightarrow> valid_policy p \<Longrightarrow> scaler_inv (registerPolicy p s, ds)"
  by (auto simp: scaler_inv_def registerPolicy_def)

lemma register_plan:
  assumes inv: "plan_inv plan (s, ds)" and p: "p = plan (po_service p)" "valid_policy p"
  shows "plan_inv plan (registerPolicy p s, ds)"
proof -
  have "in_bounds (plan (po_service p)) (po_minReplicas p)"
    using p by (metis in_bounds_def order_refl valid_policy_def)
  then show ?thesis
    using inv p by (auto simp: plan_inv_def registerPolicy_def)
qed

lemma evaluate_inv:
  fixes now ms
  assumes inv: "scaler_inv (s, ds)" and p: "jm_get (sc_policies s) service = Some p"
  defines "d \<equiv> scaler_decide p s service now ms"
  shows "scaler_inv (scaler_update d (scaler_record d s), ds @ [(p, d)])"
proof -
  have valid: "valid_policy p" using inv p by (auto simp: scaler_inv_def)
  have ok: "decision_ok p d" unfolding d_def by (rule decide_ok [OF valid])
  have apart: "\<forall>e \<in> set ds. apart e (p, d)"
    unfolding d_def using decide_apart [OF inv] by auto
  have d: "sd_service d = service" "sd_timestamp d = now" by (simp_all add: d_def decide_cases)
  have later: "sd_timestamp d' \<le> now"
    if "(q, d') \<in> set ds" "sd_service d' = service" "scaled_up d' \<and> scaled_up d \<or> scaled_down d' \<and> scaled_down d" for q d'
  proof -
    have "0 \<le> po_scaleUpCooldown p * 1000" "0 \<le> po_scaleDownCooldown p * 1000"
      using valid by (auto simp: valid_policy_def)
    then show ?thesis using apart that d by (fastforce simp: apart_def)
  qed
  show ?thesis
    using inv ok apart later d by (fastforce simp: scaler_inv_def sorted_wrt_append)
qed

lemma evaluate_plan:
  fixes now ms
  assumes inv: "plan_inv plan (s, ds)" and p: "jm_get (sc_policies s) service = Some p"
  defines "d \<equiv> scaler_decide p s service now ms"
  shows "plan_inv plan (scaler_update d (scaler_record d s), ds @ [(p, d)])"
proof -
  have plan: "p = plan service" "valid_policy p" using inv p by (auto simp: plan_inv_def)
  have c: "in_bounds p (sd_currentReplicas d)"
    unfolding d_def decide_cases using inv plan by (intro bounds_num_or) (auto simp: plan_inv_def)
  then have "in_bounds p (sd_desiredReplicas d)" using decide_ok [OF plan(2)] by (simp add: decision_ok_def d_def)
  then show ?thesis using inv c plan by (auto simp: plan_inv_def d_def decide_cases)
qed

text \<open>An invariant kept by both operations holds of every run.\<close>

lemma scaler_run_keeps:
  assumes reg: "\<And>p s ds. Register p \<in> set ops \<Longrightarrow> I (s, ds) \<Longrightarrow> I (registerPolicy p s, ds)"
    and ev: "\<And>s ds service p now ms. I (s, ds) \<Longrightarrow> jm_get (sc_policies s) service = Some p \<Longrightarrow>
      I (scaler_update (scaler_decide p s service now ms) (scaler_record (scaler_decide p s service now ms) s),
         ds @ [(p, scaler_decide p s service now ms)])"
  shows "I sd \<Longrightarrow> I (scaler_run ops sd)"
  using reg
proof (induction ops arbitrary: sd)
  case Nil
  then show ?case by (cases sd) simp
next
  case (Cons op ops)
  obtain s ds where sd: "sd = (s, ds)" by (cases sd)
  show ?case
  proof (cases op)
    case (Register p)
    then show ?thesis using Cons by (simp add: sd)
  next
    case (Evaluate now service ms)
    show ?thesis
    proof (cases "jm_get (sc_policies s) service")
      case None
      then show ?thesis using Cons by (simp add: sd Evaluate scaler_evaluate_def)
    next
      case (Some p)
      show ?thesis
        using Cons.IH [OF ev [OF Cons.prems(1) [unfolded sd] Some]] Cons.prems(2)
        by (simp add: sd Evaluate scaler_evaluate_def Let_def Some)
    qed
  qed
qed

lemma scaler_inv_new: "scaler_inv (new_AutoScaler, [])"
  by (simp add: scaler_inv_def new_AutoScaler_def)

lemma plan_inv_new: "plan_inv plan (new_AutoScaler, [])"
  by (simp add: plan_inv_def new_AutoScaler_def)

section \<open>Overload\<close>

text \<open>One evaluation of an overloaded service whose cooldown is over adds a replica, up to the maximum.\<close>

lemma scaled_above:
  assumes "0 < current" and "0 < target" and "target < v"
  shows "current < scaled current v target"
proof -
  have "1 < v / target" using assms(2,3) by simp
  then have "of_int current * 1 < of_int current * (v / target)"
    using assms(1) by (intro mult_strict_left_mono) simp_all
  then show ?thesis by (simp add: scaled_def less_ceiling_iff)
qed

lemma raise_wish_mono: "fst wish \<le> fst (raise_wish current value target why wish)"
  by (auto simp: raise_wish_def split: option.split)

lemma metric_wish_above:
  assumes "jm_get ms ''cpuPercent'' = Some v" and "po_targetCpuPercent p < v"
  shows "scaled current v (po_targetCpuPercent p) \<le> fst (metric_wish p current ms)"
proof -
  have customs: "fst wish \<le> fst (fold (custom_wish current ms) cms wish)" for cms wish
  proof (induction cms arbitrary: wish)
    case (Cons cm cms)
    have "fst wish \<le> fst (custom_wish current ms cm wish)" unfolding custom_wish_def by (rule raise_wish_mono)
    then show ?case using Cons.IH [of "custom_wish current ms cm wish"] by simp
  qed simp
  have "fst (cpu_wish p current (Some v)) \<le> fst (metric_wish p current ms)"
    unfolding metric_wish_def assms(1) by (rule order_trans [OF raise_wish_mono customs])
  then show ?thesis using assms(2) by (simp add: cpu_wish_def)
qed

definition cpu_above :: "ScalingPolicy \<Rightarrow> metrics \<Rightarrow> bool" where
  "cpu_above p ms \<longleftrightarrow> 0 < po_targetCpuPercent p \<and>
     (case jm_get ms ''cpuPercent'' of None \<Rightarrow> False | Some v \<Rightarrow> po_targetCpuPercent p < v)"

lemma overload_step:
  fixes now ms
  assumes p: "jm_get (sc_policies s) service = Some p" "valid_policy p" "0 < po_scaleUpStep p" "0 < po_minReplicas p"
    and over: "cpu_above p ms" and n: "jm_get (sc_currentReplicas s) service = Some n" "in_bounds p n"
    and cool: "po_scaleUpCooldown p * 1000 \<le> now - num_or (jm_get (sc_lastScaleUp s) service) 0"
  defines "s1 \<equiv> fst (scaler_evaluate now service ms s)"
  shows "\<exists>m. jm_get (sc_currentReplicas s1) service = Some m \<and> in_bounds p m \<and> min (po_maxReplicas p) (n + 1) \<le> m"
    and "jm_get (sc_policies s1) service = Some p"
    and "num_or (jm_get (sc_lastScaleUp s1) service) 0 \<in> {now, num_or (jm_get (sc_lastScaleUp s) service) 0}"
proof -
  let ?d = "scaler_decide p s service now ms" and ?wish = "fst (metric_wish p n ms)"
  have n0: "0 < n" using n p by (simp add: in_bounds_def)
  have "n < ?wish"
    using over metric_wish_above [of ms _ p n] scaled_above [OF n0, of "po_targetCpuPercent p"]
    by (fastforce simp: cpu_above_def split: option.splits)
  then have wish: "min (po_maxReplicas p) (n + 1) \<le> clamp p (limit_step p n ?wish)"
    using p n by (auto simp: clamp_def limit_step_def in_bounds_def)
  have current: "num_or (jm_get (sc_currentReplicas s) service) (po_minReplicas p) = n"
    using n n0 by (simp add: num_or_def)
  then have some: "num_or (Some n) (po_minReplicas p) = n" using n by simp
  have "sd_desiredReplicas ?d = clamp p (limit_step p n ?wish)"
    using wish n cool unfolding scaler_decide_def apply_cooldown_def Let_def current
    by (auto simp: split_beta in_bounds_def)
  moreover have "in_bounds p (clamp p (limit_step p n ?wish))" by (rule clamp_step [OF p(2)])
  moreover have "n \<le> clamp p (limit_step p n ?wish)" using wish n by (auto simp: in_bounds_def)
  ultimately show "\<exists>m. jm_get (sc_currentReplicas s1) service = Some m \<and> in_bounds p m \<and> min (po_maxReplicas p) (n + 1) \<le> m"
    using wish n by (auto simp: s1_def scaler_evaluate_def p Let_def decide_cases scaled_up_def scaled_down_def some)
  show "jm_get (sc_policies s1) service = Some p"
    by (simp add: s1_def scaler_evaluate_def p Let_def)
  show "num_or (jm_get (sc_lastScaleUp s1) service) 0 \<in> {now, num_or (jm_get (sc_lastScaleUp s) service) 0}"
    by (simp add: s1_def scaler_evaluate_def p Let_def decide_cases)
qed

definition evaluations :: "int \<Rightarrow> int \<Rightarrow> string \<Rightarrow> metrics \<Rightarrow> nat \<Rightarrow> AutoScaler \<Rightarrow> AutoScaler" where
  "evaluations now gap service ms k s =
     fold (\<lambda>i s. fst (scaler_evaluate (now + int i * gap) service ms s)) [0..<k] s"

lemma evaluations_Suc:
  "evaluations now gap service ms (Suc k) s =
     fst (scaler_evaluate (now + int k * gap) service ms (evaluations now gap service ms k s))"
  by (simp add: evaluations_def)

lemma evaluations_grow:
  assumes p: "jm_get (sc_policies s) service = Some p" "valid_policy p" "0 < po_scaleUpStep p" "0 < po_minReplicas p"
    and over: "cpu_above p ms" and n: "jm_get (sc_currentReplicas s) service = Some n" "in_bounds p n"
    and cool: "po_scaleUpCooldown p * 1000 \<le> now - num_or (jm_get (sc_lastScaleUp s) service) 0"
    and gap: "po_scaleUpCooldown p * 1000 \<le> gap"
  shows "let s' = evaluations now gap service ms k s
    in jm_get (sc_policies s') service = Some p \<and>
       (\<exists>m. jm_get (sc_currentReplicas s') service = Some m \<and> in_bounds p m \<and> min (po_maxReplicas p) (n + int k) \<le> m) \<and>
       po_scaleUpCooldown p * 1000 \<le> now + int k * gap - num_or (jm_get (sc_lastScaleUp s') service) 0"
proof (induction k)
  case 0
  then show ?case using p n cool by (simp add: evaluations_def)
next
  case (Suc k)
  let ?s = "evaluations now gap service ms k s" and ?now = "now + int k * gap"
  obtain m where pol: "jm_get (sc_policies ?s) service = Some p"
    and m: "jm_get (sc_currentReplicas ?s) service = Some m" "in_bounds p m" "min (po_maxReplicas p) (n + int k) \<le> m"
    and c: "po_scaleUpCooldown p * 1000 \<le> ?now - num_or (jm_get (sc_lastScaleUp ?s) service) 0"
    using Suc by (auto simp: Let_def)
  note step = overload_step [OF pol p(2-4) over m(1,2) c]
  have gap0: "0 \<le> gap" using gap p(2) by (simp add: valid_policy_def)
  have "\<exists>m'. jm_get (sc_currentReplicas (fst (scaler_evaluate ?now service ms ?s))) service = Some m' \<and>
      in_bounds p m' \<and> min (po_maxReplicas p) (n + int (Suc k)) \<le> m'"
    using step(1) m(3) by fastforce
  moreover have "po_scaleUpCooldown p * 1000 \<le> now + int (Suc k) * gap -
      num_or (jm_get (sc_lastScaleUp (fst (scaler_evaluate ?now service ms ?s))) service) 0"
    using step(3) c gap gap0 by (auto simp: distrib_right)
  ultimately show ?case
    using step(2) by (simp add: Let_def evaluations_Suc)
qed

section \<open>Properties\<close>

lemma decision_steps:
  assumes "decision_ok p d"
  shows "(sd_desiredReplicas d \<noteq> sd_currentReplicas d \<longrightarrow>
         po_minReplicas p \<le> sd_desiredReplicas d \<and> sd_desiredReplicas d \<le> po_maxReplicas p) \<and>
      sd_desiredReplicas d \<le> max (sd_currentReplicas d + po_scaleUpStep p) (po_minReplicas p) \<and>
      min (sd_currentReplicas d - po_scaleDownStep p) (po_maxReplicas p) \<le> sd_desiredReplicas d"
  using assms unfolding decision_ok_def in_bounds_def scaled_up_def scaled_down_def by linarith

lemma decision_within:
  assumes "decision_ok p d" and "in_bounds p (sd_currentReplicas d)"
  shows "in_bounds p (sd_currentReplicas d) \<and> in_bounds p (sd_desiredReplicas d) \<and>
        sd_desiredReplicas d \<le> sd_currentReplicas d + po_scaleUpStep p \<and>
        sd_currentReplicas d - po_scaleDownStep p \<le> sd_desiredReplicas d"
  using assms unfolding decision_ok_def valid_policy_def in_bounds_def scaled_up_def scaled_down_def by linarith

text \<open>
  C20. The scaler stays in its bounds. Register valid policies, any number of them per service, and evaluate
  services in any order, at any clock readings, with any metrics: every change ends between the minimum and
  the maximum of the policy in force; it goes up by at most a step, or to the minimum if that is further, and
  down by at most a step, or to the maximum; two changes of a service in the same direction are apart by the
  cooldown in force at the later one. While no service gets a second, different policy, the number of replicas
  is always within the bounds, so that a change is a step at most.
\<close>

theorem scaler_safe:
  assumes "\<forall>p. Register p \<in> set ops \<longrightarrow> valid_policy p"
  shows "(\<forall>(p, d) \<in> set (snd (scaler_run ops (new_AutoScaler, []))).
      (sd_desiredReplicas d \<noteq> sd_currentReplicas d \<longrightarrow>
         po_minReplicas p \<le> sd_desiredReplicas d \<and> sd_desiredReplicas d \<le> po_maxReplicas p) \<and>
      sd_desiredReplicas d \<le> max (sd_currentReplicas d + po_scaleUpStep p) (po_minReplicas p) \<and>
      min (sd_currentReplicas d - po_scaleDownStep p) (po_maxReplicas p) \<le> sd_desiredReplicas d) \<and>
    sorted_wrt apart (snd (scaler_run ops (new_AutoScaler, []))) \<and>
    ((\<forall>p. Register p \<in> set ops \<longrightarrow> p = plan (po_service p)) \<longrightarrow>
     (\<forall>(p, d) \<in> set (snd (scaler_run ops (new_AutoScaler, []))).
        in_bounds p (sd_currentReplicas d) \<and> in_bounds p (sd_desiredReplicas d) \<and>
        sd_desiredReplicas d \<le> sd_currentReplicas d + po_scaleUpStep p \<and>
        sd_currentReplicas d - po_scaleDownStep p \<le> sd_desiredReplicas d))"
proof -
  let ?r = "scaler_run ops (new_AutoScaler, [])"
  have inv: "scaler_inv ?r"
    by (rule scaler_run_keeps [where I = scaler_inv]) (use assms in \<open>auto intro: register_inv evaluate_inv scaler_inv_new\<close>)
  have plan: "plan_inv plan ?r" if "\<forall>p. Register p \<in> set ops \<longrightarrow> p = plan (po_service p)"
    by (rule scaler_run_keeps [where I = "plan_inv plan"])
       (use assms that in \<open>auto intro: register_plan evaluate_plan plan_inv_new\<close>)
  have ok: "decision_ok p d" if "(p, d) \<in> set (snd ?r)" for p d
    using inv that by (auto simp: scaler_inv_def split: prod.splits)
  have within: "in_bounds p (sd_currentReplicas d)"
    if "\<forall>p. Register p \<in> set ops \<longrightarrow> p = plan (po_service p)" "(p, d) \<in> set (snd ?r)" for p d
    using plan [OF that(1)] that(2) by (auto simp: plan_inv_def split: prod.splits)
  show ?thesis
  proof (intro conjI impI)
    show "sorted_wrt apart (snd ?r)" using inv by (auto simp: scaler_inv_def split: prod.splits)
  qed (use decision_steps [OF ok] decision_within [OF ok within] in blast)+
qed

definition demo_policy :: ScalingPolicy where
  "demo_policy = hd DefaultScalingPolicies"

lemma demo_policy_valid: "valid_policy demo_policy"
  by (simp add: valid_policy_def demo_policy_def DefaultScalingPolicies_def)

theorem scaler_safe_witness:
  "let ds = snd (scaler_run [Register demo_policy, Evaluate 60000 ''api-gateway'' [(''cpuPercent'', 100)],
       Register (demo_policy\<lparr>po_minReplicas := 8\<rparr>), Evaluate 60001 ''api-gateway'' [(''cpuPercent'', 100)]] (new_AutoScaler, []))
   in sorted_wrt apart ds \<and> (\<forall>(p, d) \<in> set ds. sd_desiredReplicas d \<le> max (sd_currentReplicas d + po_scaleUpStep p) (po_minReplicas p))"
  using scaler_safe [of "[Register demo_policy, Evaluate 60000 ''api-gateway'' [(''cpuPercent'', 100)],
      Register (demo_policy\<lparr>po_minReplicas := 8\<rparr>), Evaluate 60001 ''api-gateway'' [(''cpuPercent'', 100)]]" "\<lambda>_. demo_policy"]
  by (fastforce simp: Let_def demo_policy_def DefaultScalingPolicies_def valid_policy_def)

text \<open>
  The scaler catches up. Evaluate a service whose CPU stays above its target once per cooldown:
  after as many evaluations as replicas are missing it runs at its maximum.
\<close>

theorem scaler_catches_up:
  assumes "jm_get (sc_policies s) service = Some p" and "valid_policy p" and "0 < po_scaleUpStep p"
    and "0 < po_minReplicas p" and "cpu_above p ms"
    and "in_bounds p (getReplicas service s)"
    and "po_scaleUpCooldown p * 1000 \<le> now - num_or (jm_get (sc_lastScaleUp s) service) 0"
    and "po_scaleUpCooldown p * 1000 \<le> gap" and "po_maxReplicas p - getReplicas service s \<le> int k"
  shows "getReplicas service (evaluations now gap service ms k s) = po_maxReplicas p"
proof -
  obtain n where n: "jm_get (sc_currentReplicas s) service = Some n" "getReplicas service s = n"
    using assms(4,6) by (cases "jm_get (sc_currentReplicas s) service") (auto simp: getReplicas_def num_or_def in_bounds_def)
  obtain m where "jm_get (sc_currentReplicas (evaluations now gap service ms k s)) service = Some m"
    "in_bounds p m" "min (po_maxReplicas p) (n + int k) \<le> m"
    using evaluations_grow [OF assms(1-5) n(1) _ assms(7,8), of k] assms(6) n(2) by (auto simp: Let_def)
  then show ?thesis using assms(9) n(2) by (simp add: getReplicas_def in_bounds_def)
qed

theorem scaler_catches_up_witness:
  "getReplicas ''api-gateway'' (evaluations 60000 60000 ''api-gateway'' [(''cpuPercent'', 100)] 8
     (registerPolicy demo_policy new_AutoScaler)) = 10"
proof -
  have "po_maxReplicas demo_policy = 10" "po_service demo_policy = ''api-gateway''"
    by (simp_all add: demo_policy_def DefaultScalingPolicies_def)
  moreover have "cpu_above demo_policy [(''cpuPercent'', 100)]"
    by (simp add: cpu_above_def demo_policy_def DefaultScalingPolicies_def jm_get_def)
  ultimately show ?thesis
    using scaler_catches_up [of "registerPolicy demo_policy new_AutoScaler" "''api-gateway''" demo_policy
        "[(''cpuPercent'', 100)]" 60000 60000 8] demo_policy_valid
    by (simp add: registerPolicy_def new_AutoScaler_def getReplicas_def in_bounds_def demo_policy_def
        DefaultScalingPolicies_def num_or_def)
qed

end
