(* ===== verification/Billing.thy ===== *)
theory Billing
  imports KernelCore Encoding
begin

text \<open>
  The billing system of \<open>packages/kernel/src/marketplace/billing-system.ts\<close>: usage tracker,
  subscriptions, invoices, payments and the unified system that joins them.

  Prices and quantities are rationals; \<open>Math.round\<close> rounds halves up. Every operation takes the time
  and the random suffixes of the identifiers it makes. The parts are the fields of one state, and the
  callers keep no reference into it, except that they may put a payment method on an account, which
  no operation does. Listeners only observe: they neither throw nor call back, so the branch for a
  failed payment is not reached. The year of an invoice number is that of UTC.
\<close>

section \<open>Data\<close>

datatype BillingPeriod = monthly | quarterly | annual
datatype PaymentStatus = pay_pending | pay_processing | pay_completed | pay_failed | pay_refunded | pay_cancelled
datatype SubscriptionStatus = sub_active | sub_paused | sub_cancelled | sub_expired | sub_trial | sub_past_due
datatype InvoiceStatus = inv_draft | inv_open | inv_paid | inv_void | inv_uncollectible

datatype method_type = by_card | by_bank_transfer | by_crypto | by_credits

record PaymentMethod =
  pm_id :: string
  pm_type :: method_type
  pm_last4 :: "string option"
  pm_brand :: "string option"
  pm_expiryMonth :: "int option"
  pm_expiryYear :: "int option"
  pm_isDefault :: bool

datatype tax_type = vat | gst | sales_tax

record TaxInfo =
  ti_taxId :: "string option"
  ti_taxType :: "tax_type option"
  ti_country :: string
  ti_region :: "string option"
  ti_exempt :: bool

record BillingAccount =
  ba_id :: string
  ba_ownerId :: string
  ba_name :: string
  ba_email :: string
  ba_currency :: string
  ba_paymentMethod :: "PaymentMethod option"
  ba_balance :: rat
  ba_creditLimit :: rat
  ba_taxInfo :: "TaxInfo option"
  ba_createdAt :: int
  ba_updatedAt :: int

record Subscription =
  sb_id :: string
  sb_accountId :: string
  sb_serviceId :: string
  sb_tierName :: string
  sb_status :: SubscriptionStatus
  sb_period :: BillingPeriod
  sb_pricePerPeriod :: rat
  sb_currency :: string
  sb_currentPeriodStart :: int
  sb_currentPeriodEnd :: int
  sb_trialEnd :: "int option"
  sb_cancelAtPeriodEnd :: bool
  sb_createdAt :: int
  sb_updatedAt :: int

record UsageRecord =
  ur_id :: string
  ur_accountId :: string
  ur_serviceId :: string
  ur_metric :: string
  ur_quantity :: rat
  ur_unit :: string
  ur_timestamp :: int
  ur_metadata :: "(string \<times> jsval) list option"

datatype line_type = subscription_line | usage_line | one_time_line | credit_line | discount_line

text \<open>The description of a line by its constituents.\<close>

datatype line_description = PlanText string BillingPeriod | UsageText string rat string rat

record InvoiceLineItem =
  li_serviceId :: string
  li_serviceName :: string
  li_description :: line_description
  li_type :: line_type
  li_quantity :: rat
  li_unitPrice :: rat
  li_total :: rat
  li_metric :: "string option"
  li_freeQuotaUsed :: "rat option"

record Invoice =
  iv_id :: string
  iv_accountId :: string
  iv_invoiceNumber :: string
  iv_status :: InvoiceStatus
  iv_periodStart :: int
  iv_periodEnd :: int
  iv_lineItems :: "InvoiceLineItem list"
  iv_subtotal :: rat
  iv_tax :: rat
  iv_discount :: rat
  iv_total :: rat
  iv_currency :: string
  iv_dueDate :: int
  iv_paidDate :: "int option"
  iv_paymentId :: "string option"
  iv_createdAt :: int

record Payment =
  py_id :: string
  py_accountId :: string
  py_invoiceId :: string
  py_amount :: rat
  py_currency :: string
  py_status :: PaymentStatus
  py_paymentMethod :: PaymentMethod
  py_gatewayReference :: "string option"
  py_createdAt :: int
  py_completedAt :: "int option"
  py_failureReason :: "string option"

datatype billing_event_type =
    usage_recorded | invoice_created | invoice_paid | payment_completed | payment_failed
  | subscription_created | subscription_cancelled | subscription_renewed | refund_processed

primrec billing_event_str :: "billing_event_type \<Rightarrow> string" where
  "billing_event_str usage_recorded = ''billing:usage.recorded''"
| "billing_event_str invoice_created = ''billing:invoice.created''"
| "billing_event_str invoice_paid = ''billing:invoice.paid''"
| "billing_event_str payment_completed = ''billing:payment.completed''"
| "billing_event_str payment_failed = ''billing:payment.failed''"
| "billing_event_str subscription_created = ''billing:subscription.created''"
| "billing_event_str subscription_cancelled = ''billing:subscription.cancelled''"
| "billing_event_str subscription_renewed = ''billing:subscription.renewed''"
| "billing_event_str refund_processed = ''billing:refund.processed''"

record BillingEvent =
  be_type :: billing_event_type
  be_accountId :: string
  be_payload :: "(string \<times> jsval) list"
  be_timestamp :: int

text \<open>From \<open>service-package.ts\<close>.\<close>

datatype pricing_type = free_pricing | freemium | subscription_pricing | usage_based | one_time

record PricingTier =
  tr_name :: string
  tr_price :: rat
  tr_features :: "string list"
  tr_limits :: "(string, rat) jsmap"

record UsagePricing =
  up_metric :: string
  up_unit :: string
  up_pricePerUnit :: rat
  up_freeQuota :: rat

record PricingModel =
  pr_type :: pricing_type
  pr_basePrice :: "rat option"
  pr_currency :: "string option"
  pr_tiers :: "PricingTier list option"
  pr_trialDays :: "int option"
  pr_usagePricing :: "UsagePricing list option"

definition js_round :: "rat \<Rightarrow> rat" where
  "js_round x = of_int \<lfloor>x + 1 / 2\<rfloor>"

definition make_id :: "string \<Rightarrow> int \<Rightarrow> string \<Rightarrow> string" where
  "make_id pre now random = pre @ ''_'' @ int_str now @ ''_'' @ random"

section \<open>Usage tracker\<close>

record UsageTracker =
  ut_records :: "UsageRecord list"
  ut_counters :: "(string, rat) jsmap"

definition usage_key :: "string \<Rightarrow> string \<Rightarrow> string \<Rightarrow> string" where
  "usage_key accountId serviceId metric = accountId @ '':'' @ serviceId @ '':'' @ metric"

definition ut_record ::
  "int \<Rightarrow> string \<Rightarrow> string \<Rightarrow> string \<Rightarrow> string \<Rightarrow> rat \<Rightarrow> string \<Rightarrow> (string \<times> jsval) list option \<Rightarrow>
     UsageTracker \<Rightarrow> UsageTracker \<times> UsageRecord" where
  "ut_record now random accountId serviceId metric quantity unit metadata u =
     (let r = \<lparr>ur_id = make_id ''usage'' now random, ur_accountId = accountId, ur_serviceId = serviceId,
               ur_metric = metric, ur_quantity = quantity, ur_unit = unit, ur_timestamp = now,
               ur_metadata = metadata\<rparr>;
          key = usage_key accountId serviceId metric
      in (u\<lparr>ut_records := ut_records u @ [r],
            ut_counters := jm_set key (dflt (jm_get (ut_counters u) key) 0 + quantity) (ut_counters u)\<rparr>, r))"

definition ut_getUsage :: "string \<Rightarrow> string \<Rightarrow> int \<Rightarrow> int \<Rightarrow> UsageTracker \<Rightarrow> UsageRecord list" where
  "ut_getUsage accountId serviceId startTime endTime u =
     filter (\<lambda>r. ur_accountId r = accountId \<and> ur_serviceId r = serviceId \<and>
                 ur_timestamp r \<ge> startTime \<and> ur_timestamp r \<le> endTime) (ut_records u)"

record usage_sum =
  us_total :: rat
  us_unit :: string
  us_count :: nat

definition aggregate_one :: "UsageRecord \<Rightarrow> (string, usage_sum) jsmap \<Rightarrow> (string, usage_sum) jsmap" where
  "aggregate_one r m =
     (let s = dflt (jm_get m (ur_metric r)) \<lparr>us_total = 0, us_unit = ur_unit r, us_count = 0\<rparr>
      in jm_set (ur_metric r) (s\<lparr>us_total := us_total s + ur_quantity r, us_count := us_count s + 1\<rparr>) m)"

definition ut_getAggregatedUsage ::
  "string \<Rightarrow> string \<Rightarrow> int \<Rightarrow> int \<Rightarrow> UsageTracker \<Rightarrow> (string, usage_sum) jsmap" where
  "ut_getAggregatedUsage accountId serviceId startTime endTime u =
     fold aggregate_one (ut_getUsage accountId serviceId startTime endTime u) []"

definition ut_getCurrentUsage :: "string \<Rightarrow> string \<Rightarrow> string \<Rightarrow> UsageTracker \<Rightarrow> rat" where
  "ut_getCurrentUsage accountId serviceId metric u =
     dflt (jm_get (ut_counters u) (usage_key accountId serviceId metric)) 0"

definition ut_resetPeriodCounters :: "string \<Rightarrow> UsageTracker \<Rightarrow> UsageTracker" where
  "ut_resetPeriodCounters accountId u =
     u\<lparr>ut_counters := jm_map (\<lambda>key n. if js_startsWith key (accountId @ '':'') then 0 else n) (ut_counters u)\<rparr>"

definition ut_getTotalRecords :: "UsageTracker \<Rightarrow> nat" where
  "ut_getTotalRecords u = length (ut_records u)"

section \<open>Subscriptions\<close>

type_synonym subscriptions = "(string, Subscription) jsmap"

definition getPeriodMs :: "BillingPeriod \<Rightarrow> int" where
  "getPeriodMs period =
     (case period of
        monthly \<Rightarrow> 30 * 24 * 60 * 60 * 1000
      | quarterly \<Rightarrow> 90 * 24 * 60 * 60 * 1000
      | annual \<Rightarrow> 365 * 24 * 60 * 60 * 1000)"

definition find_tier :: "string \<Rightarrow> PricingModel \<Rightarrow> PricingTier option" where
  "find_tier name pricing = find (\<lambda>t. tr_name t = name) (dflt (pr_tiers pricing) [])"

definition period_price :: "PricingModel \<Rightarrow> string option \<Rightarrow> BillingPeriod \<Rightarrow> rat" where
  "period_price pricing tierName period =
     (let base = dflt (pr_basePrice pricing) 0;
          price = (if str_truthy tierName \<and> pr_tiers pricing \<noteq> None
                   then (case find_tier (dflt tierName []) pricing of None \<Rightarrow> base | Some t \<Rightarrow> tr_price t)
                   else base)
      in case period of monthly \<Rightarrow> price | quarterly \<Rightarrow> price * 3 | annual \<Rightarrow> price * 12 * (4 / 5))"

definition trial_days :: "PricingModel \<Rightarrow> int option" where
  "trial_days pricing = (case pr_trialDays pricing of None \<Rightarrow> None | Some n \<Rightarrow> if n = 0 then None else Some n)"

definition sub_create ::
  "int \<Rightarrow> string \<Rightarrow> string \<Rightarrow> string \<Rightarrow> PricingModel \<Rightarrow> string option \<Rightarrow> BillingPeriod \<Rightarrow> subscriptions \<Rightarrow>
     subscriptions \<times> Subscription" where
  "sub_create now random accountId serviceId pricing tierName period m =
     (let s = \<lparr>sb_id = make_id ''sub'' now random, sb_accountId = accountId, sb_serviceId = serviceId,
               sb_tierName = str_or tierName ''default'',
               sb_status = (if trial_days pricing = None then sub_active else sub_trial), sb_period = period,
               sb_pricePerPeriod = js_round (period_price pricing tierName period),
               sb_currency = str_or (pr_currency pricing) ''USD'',
               sb_currentPeriodStart = now, sb_currentPeriodEnd = now + getPeriodMs period,
               sb_trialEnd = map_option (\<lambda>d. now + d * 86400000) (trial_days pricing),
               sb_cancelAtPeriodEnd = False, sb_createdAt = now, sb_updatedAt = now\<rparr>
      in (jm_set (sb_id s) s m, s))"

definition sub_cancel :: "int \<Rightarrow> string \<Rightarrow> bool \<Rightarrow> subscriptions \<Rightarrow> subscriptions \<times> bool" where
  "sub_cancel now sid immediate m =
     (case jm_get m sid of
        None \<Rightarrow> (m, False)
      | Some s \<Rightarrow>
          (jm_set sid
             (if immediate then s\<lparr>sb_status := sub_cancelled, sb_updatedAt := now\<rparr>
              else s\<lparr>sb_cancelAtPeriodEnd := True, sb_updatedAt := now\<rparr>) m, True))"

definition sub_pause :: "int \<Rightarrow> string \<Rightarrow> subscriptions \<Rightarrow> subscriptions \<times> bool" where
  "sub_pause now sid m =
     (case jm_get m sid of
        None \<Rightarrow> (m, False)
      | Some s \<Rightarrow>
          if sb_status s \<noteq> sub_active then (m, False)
          else (jm_set sid (s\<lparr>sb_status := sub_paused, sb_updatedAt := now\<rparr>) m, True))"

definition sub_resume :: "int \<Rightarrow> string \<Rightarrow> subscriptions \<Rightarrow> subscriptions \<times> bool" where
  "sub_resume now sid m =
     (case jm_get m sid of
        None \<Rightarrow> (m, False)
      | Some s \<Rightarrow>
          if sb_status s \<noteq> sub_paused then (m, False)
          else (jm_set sid (s\<lparr>sb_status := sub_active, sb_updatedAt := now\<rparr>) m, True))"

definition sub_changeTier :: "int \<Rightarrow> string \<Rightarrow> string \<Rightarrow> PricingModel \<Rightarrow> subscriptions \<Rightarrow> subscriptions \<times> bool" where
  "sub_changeTier now sid newTierName pricing m =
     (case jm_get m sid of
        None \<Rightarrow> (m, False)
      | Some s \<Rightarrow>
          (case find_tier newTierName pricing of
             None \<Rightarrow> (m, False)
           | Some t \<Rightarrow>
               (jm_set sid (s\<lparr>sb_tierName := newTierName, sb_pricePerPeriod := tr_price t, sb_updatedAt := now\<rparr>) m,
                True)))"

definition sub_renew :: "int \<Rightarrow> string \<Rightarrow> subscriptions \<Rightarrow> subscriptions \<times> bool" where
  "sub_renew now sid m =
     (case jm_get m sid of
        None \<Rightarrow> (m, False)
      | Some s \<Rightarrow>
          if sb_cancelAtPeriodEnd s
          then (jm_set sid (s\<lparr>sb_status := sub_cancelled, sb_updatedAt := now\<rparr>) m, False)
          else (jm_set sid (s\<lparr>sb_currentPeriodStart := sb_currentPeriodEnd s,
                  sb_currentPeriodEnd := sb_currentPeriodEnd s + getPeriodMs (sb_period s),
                  sb_updatedAt := now\<rparr>) m, True))"

definition sub_getByAccount :: "string \<Rightarrow> subscriptions \<Rightarrow> Subscription list" where
  "sub_getByAccount accountId m = filter (\<lambda>s. sb_accountId s = accountId) (jm_values m)"

definition sub_getByService :: "string \<Rightarrow> string \<Rightarrow> subscriptions \<Rightarrow> Subscription option" where
  "sub_getByService accountId serviceId m =
     find (\<lambda>s. sb_accountId s = accountId \<and> sb_serviceId s = serviceId \<and> sb_status s \<noteq> sub_cancelled) (jm_values m)"

definition is_live :: "Subscription \<Rightarrow> bool" where
  "is_live s \<longleftrightarrow> sb_status s = sub_active \<or> sb_status s = sub_trial"

definition sub_getActiveCount :: "subscriptions \<Rightarrow> nat" where
  "sub_getActiveCount m = length (filter is_live (jm_values m))"

definition sub_getDueForRenewal :: "int \<Rightarrow> subscriptions \<Rightarrow> Subscription list" where
  "sub_getDueForRenewal now m =
     filter (\<lambda>s. sb_status s = sub_active \<and> sb_currentPeriodEnd s \<le> now) (jm_values m)"

section \<open>Invoices\<close>

record InvoiceGenerator =
  ig_invoices :: "(string, Invoice) jsmap"
  ig_counter :: nat

definition subscription_item :: "Subscription \<Rightarrow> InvoiceLineItem" where
  "subscription_item s =
     (let price = (if sb_status s = sub_trial then 0 else sb_pricePerPeriod s)
      in \<lparr>li_serviceId = sb_serviceId s, li_serviceName = sb_serviceId s,
          li_description = PlanText (sb_tierName s) (sb_period s), li_type = subscription_line,
          li_quantity = 1, li_unitPrice = price, li_total = price, li_metric = None, li_freeQuotaUsed = None\<rparr>)"

definition usage_item :: "string \<Rightarrow> (string, usage_sum) jsmap \<Rightarrow> UsagePricing \<Rightarrow> InvoiceLineItem option" where
  "usage_item serviceId aggregated rule =
     (case jm_get aggregated (up_metric rule) of
        None \<Rightarrow> None
      | Some usage \<Rightarrow>
          (let billable = max 0 (us_total usage - up_freeQuota rule)
           in if billable > 0 then
                Some \<lparr>li_serviceId = serviceId, li_serviceName = serviceId,
                      li_description = UsageText (up_metric rule) (us_total usage) (up_unit rule) (up_freeQuota rule),
                      li_type = usage_line, li_quantity = billable, li_unitPrice = up_pricePerUnit rule,
                      li_total = js_round (billable * up_pricePerUnit rule), li_metric = Some (up_metric rule),
                      li_freeQuotaUsed = Some (min (us_total usage) (up_freeQuota rule))\<rparr>
              else None))"

definition line_items ::
  "string \<Rightarrow> Subscription list \<Rightarrow> UsageTracker \<Rightarrow> (string, UsagePricing list) jsmap \<Rightarrow> int \<Rightarrow> int \<Rightarrow> InvoiceLineItem list" where
  "line_items accountId subs u usagePricing periodStart periodEnd =
     map subscription_item (filter is_live subs) @
     concat (map (\<lambda>(serviceId, rules).
       List.map_filter (usage_item serviceId (ut_getAggregatedUsage accountId serviceId periodStart periodEnd u)) rules)
       usagePricing)"

definition invoice_number :: "int \<Rightarrow> nat \<Rightarrow> string" where
  "invoice_number now n =
     ''INV-'' @ int_str (fst (civil_date (now div 86400000))) @ ''-'' @ pad_start 6 (CHR ''0'') (nat_str n)"

definition inv_generate ::
  "int \<Rightarrow> string \<Rightarrow> BillingAccount \<Rightarrow> Subscription list \<Rightarrow> UsageTracker \<Rightarrow> (string, UsagePricing list) jsmap \<Rightarrow>
     int \<Rightarrow> int \<Rightarrow> InvoiceGenerator \<Rightarrow> InvoiceGenerator \<times> Invoice" where
  "inv_generate now random account subs u usagePricing periodStart periodEnd g =
     (let items = line_items (ba_id account) subs u usagePricing periodStart periodEnd;
          subtotal = sum_list (map li_total items);
          tax = js_round (subtotal * 0);
          discount = 0;
          total = subtotal + tax - discount;
          n = Suc (ig_counter g);
          i = \<lparr>iv_id = make_id ''inv'' now random, iv_accountId = ba_id account,
               iv_invoiceNumber = invoice_number now n,
               iv_status = (if total = 0 then inv_paid else inv_open),
               iv_periodStart = periodStart, iv_periodEnd = periodEnd, iv_lineItems = items,
               iv_subtotal = subtotal, iv_tax = tax, iv_discount = discount, iv_total = total,
               iv_currency = ba_currency account, iv_dueDate = periodEnd + 30 * 24 * 60 * 60 * 1000,
               iv_paidDate = None, iv_paymentId = None, iv_createdAt = now\<rparr>
      in (\<lparr>ig_invoices = jm_set (iv_id i) i (ig_invoices g), ig_counter = n\<rparr>, i))"

definition inv_markPaid :: "int \<Rightarrow> string \<Rightarrow> string \<Rightarrow> InvoiceGenerator \<Rightarrow> InvoiceGenerator \<times> bool" where
  "inv_markPaid now invoiceId paymentId g =
     (case jm_get (ig_invoices g) invoiceId of
        None \<Rightarrow> (g, False)
      | Some i \<Rightarrow>
          (g\<lparr>ig_invoices := jm_set invoiceId
               (i\<lparr>iv_status := inv_paid, iv_paidDate := Some now, iv_paymentId := Some paymentId\<rparr>) (ig_invoices g)\<rparr>, True))"

definition inv_voidInvoice :: "string \<Rightarrow> InvoiceGenerator \<Rightarrow> InvoiceGenerator \<times> bool" where
  "inv_voidInvoice invoiceId g =
     (case jm_get (ig_invoices g) invoiceId of
        None \<Rightarrow> (g, False)
      | Some i \<Rightarrow>
          if iv_status i = inv_paid then (g, False)
          else (g\<lparr>ig_invoices := jm_set invoiceId (i\<lparr>iv_status := inv_void\<rparr>) (ig_invoices g)\<rparr>, True))"

definition inv_getByAccount :: "string \<Rightarrow> InvoiceGenerator \<Rightarrow> Invoice list" where
  "inv_getByAccount accountId g =
     sort_key (\<lambda>i. - iv_createdAt i) (filter (\<lambda>i. iv_accountId i = accountId) (jm_values (ig_invoices g)))"

definition inv_getUnpaid :: "InvoiceGenerator \<Rightarrow> Invoice list" where
  "inv_getUnpaid g = sort_key iv_dueDate (filter (\<lambda>i. iv_status i = inv_open) (jm_values (ig_invoices g)))"

definition inv_getOverdue :: "int \<Rightarrow> InvoiceGenerator \<Rightarrow> Invoice list" where
  "inv_getOverdue now g = filter (\<lambda>i. iv_status i = inv_open \<and> iv_dueDate i < now) (jm_values (ig_invoices g))"

definition inv_getRevenue :: "int \<Rightarrow> int \<Rightarrow> InvoiceGenerator \<Rightarrow> rat \<times> nat" where
  "inv_getRevenue startTime endTime g =
     (let paid = filter (\<lambda>i. iv_status i = inv_paid \<and>
                   (case iv_paidDate i of None \<Rightarrow> False | Some d \<Rightarrow> d \<noteq> 0 \<and> d \<ge> startTime \<and> d \<le> endTime))
                   (jm_values (ig_invoices g))
      in (sum_list (map iv_total paid), length paid))"

section \<open>Payments\<close>

type_synonym payments = "(string, Payment) jsmap"

datatype payment_error = NoPaymentMethod | CannotRefund | RefundTooLarge

definition processPayment ::
  "int \<Rightarrow> string \<Rightarrow> BillingAccount \<Rightarrow> Invoice \<Rightarrow> PaymentMethod option \<Rightarrow> payments \<Rightarrow> payments \<times> (payment_error + Payment)" where
  "processPayment now random account i chosen m =
     (case (case chosen of Some x \<Rightarrow> Some x | None \<Rightarrow> ba_paymentMethod account) of
        None \<Rightarrow> (m, Inl NoPaymentMethod)
      | Some x \<Rightarrow>
          (let p = \<lparr>py_id = make_id ''pay'' now random, py_accountId = ba_id account, py_invoiceId = iv_id i,
                    py_amount = iv_total i, py_currency = iv_currency i, py_status = pay_completed,
                    py_paymentMethod = x, py_gatewayReference = Some (''gw_'' @ int_str now),
                    py_createdAt = now, py_completedAt = Some now, py_failureReason = None\<rparr>
           in (jm_set (py_id p) p m, Inr p)))"

text \<open>A missing gateway reference prints as \<open>undefined\<close>.\<close>

definition processRefund ::
  "int \<Rightarrow> string \<Rightarrow> string \<Rightarrow> rat option \<Rightarrow> payments \<Rightarrow> payments \<times> (payment_error + Payment)" where
  "processRefund now random paymentId amount m =
     (case jm_get m paymentId of
        None \<Rightarrow> (m, Inl CannotRefund)
      | Some original \<Rightarrow>
          if py_status original \<noteq> pay_completed then (m, Inl CannotRefund)
          else
            (let refundAmount = (case amount of None \<Rightarrow> py_amount original
                                 | Some a \<Rightarrow> if a = 0 then py_amount original else a)
             in if refundAmount > py_amount original then (m, Inl RefundTooLarge)
                else
                  (let refund = \<lparr>py_id = make_id ''ref'' now random, py_accountId = py_accountId original,
                         py_invoiceId = py_invoiceId original, py_amount = - refundAmount,
                         py_currency = py_currency original, py_status = pay_completed,
                         py_paymentMethod = py_paymentMethod original,
                         py_gatewayReference = Some (''ref_'' @ dflt (py_gatewayReference original) ''undefined''),
                         py_createdAt = now, py_completedAt = Some now, py_failureReason = None\<rparr>
                   in (jm_set paymentId (original\<lparr>py_status := pay_refunded\<rparr>) (jm_set (py_id refund) refund m),
                       Inr refund))))"

definition pay_getByAccount :: "string \<Rightarrow> payments \<Rightarrow> Payment list" where
  "pay_getByAccount accountId m =
     sort_key (\<lambda>p. - py_createdAt p) (filter (\<lambda>p. py_accountId p = accountId) (jm_values m))"

definition getPayment :: "string \<Rightarrow> payments \<Rightarrow> Payment option" where
  "getPayment paymentId m = jm_get m paymentId"

section \<open>The system\<close>

record 'h BillingSystem =
  bs_usage :: UsageTracker
  bs_subscriptions :: subscriptions
  bs_invoices :: InvoiceGenerator
  bs_payments :: payments
  bs_accounts :: "(string, BillingAccount) jsmap"
  bs_listeners :: "'h EventBus"
  bs_delivered :: "('h \<times> BillingEvent) list"

definition new_BillingSystem :: "'h BillingSystem" where
  "new_BillingSystem =
     \<lparr>bs_usage = \<lparr>ut_records = [], ut_counters = []\<rparr>, bs_subscriptions = [],
      bs_invoices = \<lparr>ig_invoices = [], ig_counter = 0\<rparr>, bs_payments = [], bs_accounts = [],
      bs_listeners = new_EventBus, bs_delivered = []\<rparr>"

definition bs_on :: "string \<Rightarrow> 'h \<Rightarrow> 'h BillingSystem \<Rightarrow> 'h BillingSystem" where
  "bs_on ty h b = b\<lparr>bs_listeners := eb_on ty h (bs_listeners b)\<rparr>"

definition bs_off :: "string \<Rightarrow> 'h \<Rightarrow> 'h BillingSystem \<Rightarrow> 'h BillingSystem" where
  "bs_off ty h b = b\<lparr>bs_listeners := eb_off ty h (bs_listeners b)\<rparr>"

definition bs_emit :: "BillingEvent \<Rightarrow> 'h BillingSystem \<Rightarrow> 'h BillingSystem" where
  "bs_emit ev b =
     b\<lparr>bs_delivered := bs_delivered b @
         map (\<lambda>h. (h, ev)) (subscribers (bs_listeners b) (billing_event_str (be_type ev)) @
                            subscribers (bs_listeners b) ''*'')\<rparr>"

definition createAccount ::
  "int \<Rightarrow> string \<Rightarrow> string \<Rightarrow> string \<Rightarrow> string \<Rightarrow> string \<Rightarrow> 'h BillingSystem \<Rightarrow> 'h BillingSystem \<times> BillingAccount" where
  "createAccount now random ownerId name email currency b =
     (let a = \<lparr>ba_id = make_id ''acct'' now random, ba_ownerId = ownerId, ba_name = name, ba_email = email,
               ba_currency = currency, ba_paymentMethod = None, ba_balance = 0, ba_creditLimit = 0,
               ba_taxInfo = None, ba_createdAt = now, ba_updatedAt = now\<rparr>
      in (b\<lparr>bs_accounts := jm_set (ba_id a) a (bs_accounts b)\<rparr>, a))"

definition getAccount :: "string \<Rightarrow> 'h BillingSystem \<Rightarrow> BillingAccount option" where
  "getAccount accountId b = jm_get (bs_accounts b) accountId"

definition getAccountByOwner :: "string \<Rightarrow> 'h BillingSystem \<Rightarrow> BillingAccount option" where
  "getAccountByOwner ownerId b = find (\<lambda>a. ba_ownerId a = ownerId) (jm_values (bs_accounts b))"

text \<open>The caller puts a payment method on the account object.\<close>

definition put_method :: "string \<Rightarrow> PaymentMethod option \<Rightarrow> 'h BillingSystem \<Rightarrow> 'h BillingSystem" where
  "put_method accountId x b =
     (case jm_get (bs_accounts b) accountId of
        None \<Rightarrow> b
      | Some a \<Rightarrow> b\<lparr>bs_accounts := jm_set accountId (a\<lparr>ba_paymentMethod := x\<rparr>) (bs_accounts b)\<rparr>)"

definition bs_subscribe ::
  "int \<Rightarrow> string \<Rightarrow> string \<Rightarrow> string \<Rightarrow> PricingModel \<Rightarrow> string option \<Rightarrow> BillingPeriod option \<Rightarrow>
     'h BillingSystem \<Rightarrow> 'h BillingSystem \<times> Subscription option" where
  "bs_subscribe now random accountId serviceId pricing tierName period b =
     (case jm_get (bs_accounts b) accountId of None \<Rightarrow> (b, None) | Some _ \<Rightarrow>
     (case sub_getByService accountId serviceId (bs_subscriptions b) of Some _ \<Rightarrow> (b, None) | None \<Rightarrow>
       (let (m, s) = sub_create now random accountId serviceId pricing tierName (dflt period monthly) (bs_subscriptions b)
        in (bs_emit \<lparr>be_type = subscription_created, be_accountId = accountId,
              be_payload = [(''subscriptionId'', JStr (sb_id s)), (''serviceId'', JStr serviceId),
                (''tierName'', case tierName of None \<Rightarrow> JUndef | Some t \<Rightarrow> JStr t)],
              be_timestamp = now\<rparr> (b\<lparr>bs_subscriptions := m\<rparr>), Some s))))"

definition recordUsage ::
  "int \<Rightarrow> string \<Rightarrow> string \<Rightarrow> string \<Rightarrow> string \<Rightarrow> rat \<Rightarrow> string \<Rightarrow> 'h BillingSystem \<Rightarrow> 'h BillingSystem \<times> UsageRecord" where
  "recordUsage now random accountId serviceId metric quantity unit b =
     (let (u, r) = ut_record now random accountId serviceId metric quantity unit None (bs_usage b)
      in (bs_emit \<lparr>be_type = usage_recorded, be_accountId = accountId,
            be_payload = [(''serviceId'', JStr serviceId), (''metric'', JStr metric),
              (''quantity'', JNum quantity), (''unit'', JStr unit)],
            be_timestamp = now\<rparr> (b\<lparr>bs_usage := u\<rparr>), r))"

text \<open>The payment of an invoice, the renewals and the reset of the counters. The invoice that
  \<open>processBilling\<close> returns is the stored object, so it is the paid one.\<close>

definition settle ::
  "int \<Rightarrow> string \<Rightarrow> string \<Rightarrow> BillingAccount \<Rightarrow> Invoice \<Rightarrow> Subscription list \<Rightarrow> 'h BillingSystem \<Rightarrow> 'h BillingSystem" where
  "settle now random accountId account i activeSubs b =
     (case processPayment now random account i None (bs_payments b) of
        (m, Inl _) \<Rightarrow> b\<lparr>bs_payments := m\<rparr>
      | (m, Inr p) \<Rightarrow>
          (let b1 = b\<lparr>bs_payments := m, bs_invoices := fst (inv_markPaid now (iv_id i) (py_id p) (bs_invoices b))\<rparr>;
               b2 = bs_emit \<lparr>be_type = payment_completed, be_accountId = accountId,
                      be_payload = [(''paymentId'', JStr (py_id p)), (''invoiceId'', JStr (iv_id i)),
                        (''amount'', JNum (py_amount p))],
                      be_timestamp = now\<rparr> b1
           in b2\<lparr>bs_subscriptions := fold (\<lambda>s m. fst (sub_renew now (sb_id s) m)) activeSubs (bs_subscriptions b2),
                 bs_usage := ut_resetPeriodCounters accountId (bs_usage b2)\<rparr>))"

definition list_min :: "int list \<Rightarrow> int" where
  "list_min xs = foldr min (tl xs) (hd xs)"

definition list_max :: "int list \<Rightarrow> int" where
  "list_max xs = foldr max (tl xs) (hd xs)"

definition processBilling ::
  "int \<Rightarrow> (nat \<Rightarrow> string) \<Rightarrow> string \<Rightarrow> (string, UsagePricing list) jsmap \<Rightarrow> 'h BillingSystem \<Rightarrow>
     'h BillingSystem \<times> Invoice option" where
  "processBilling now rnd accountId usagePricing b =
     (case jm_get (bs_accounts b) accountId of None \<Rightarrow> (b, None) | Some account \<Rightarrow>
       (let activeSubs = filter is_live (sub_getByAccount accountId (bs_subscriptions b)) in
        if activeSubs = [] then (b, None)
        else
          (let periodStart = list_min (map sb_currentPeriodStart activeSubs);
               periodEnd = list_max (map sb_currentPeriodEnd activeSubs);
               (g, i) = inv_generate now (rnd 0) account activeSubs (bs_usage b) usagePricing
                 periodStart periodEnd (bs_invoices b);
               b1 = bs_emit \<lparr>be_type = invoice_created, be_accountId = accountId,
                      be_payload = [(''invoiceId'', JStr (iv_id i)), (''total'', JNum (iv_total i))],
                      be_timestamp = now\<rparr> (b\<lparr>bs_invoices := g\<rparr>)
           in if iv_total i > 0 \<and> ba_paymentMethod account \<noteq> None then
                (let b2 = settle now (rnd 1) accountId account i activeSubs b1
                 in (b2, jm_get (ig_invoices (bs_invoices b2)) (iv_id i)))
              else (b1, Some i))))"

record BillingSummary =
  bm_account :: "BillingAccount option"
  bm_activeSubscriptions :: "Subscription list"
  bm_recentInvoices :: "Invoice list"
  bm_recentPayments :: "Payment list"
  bm_currentUsage :: "(string, rat) jsmap"

definition getBillingSummary :: "string \<Rightarrow> 'h BillingSystem \<Rightarrow> BillingSummary" where
  "getBillingSummary accountId b =
     \<lparr>bm_account = jm_get (bs_accounts b) accountId,
      bm_activeSubscriptions =
        filter (\<lambda>s. sb_status s \<noteq> sub_cancelled) (sub_getByAccount accountId (bs_subscriptions b)),
      bm_recentInvoices = take 10 (inv_getByAccount accountId (bs_invoices b)),
      bm_recentPayments = take 10 (pay_getByAccount accountId (bs_payments b)),
      bm_currentUsage = []\<rparr>"

section \<open>Histories\<close>

datatype 'h bill_op =
    OpenAccount int string string string string string
  | PutMethod string "PaymentMethod option"
  | Subscribe int string string string PricingModel "string option" "BillingPeriod option"
  | Create int string string string PricingModel "string option" BillingPeriod
  | Cancel int string bool
  | Pause int string
  | Resume int string
  | ChangeTier int string string PricingModel
  | Renew int string
  | Use int string string string string rat string
  | RecordOnly int string string string string rat string "(string \<times> jsval) list option"
  | ResetCounters string
  | Generate int string BillingAccount "Subscription list" "(string, UsagePricing list) jsmap" int int
  | Pay int string BillingAccount Invoice "PaymentMethod option"
  | Bill int "nat \<Rightarrow> string" string "(string, UsagePricing list) jsmap"
  | MarkPaid int string string
  | VoidInvoice string
  | Refund int string string "rat option"
  | Listen string 'h
  | Unlisten string 'h

primrec bill_apply :: "'h bill_op \<Rightarrow> 'h BillingSystem \<Rightarrow> 'h BillingSystem" where
  "bill_apply (OpenAccount now random owner name email currency) b = fst (createAccount now random owner name email currency b)"
| "bill_apply (PutMethod acc x) b = put_method acc x b"
| "bill_apply (Subscribe now random acc svc pricing tier period) b = fst (bs_subscribe now random acc svc pricing tier period b)"
| "bill_apply (Create now random acc svc pricing tier period) b =
     b\<lparr>bs_subscriptions := fst (sub_create now random acc svc pricing tier period (bs_subscriptions b))\<rparr>"
| "bill_apply (Cancel now sid immediate) b = b\<lparr>bs_subscriptions := fst (sub_cancel now sid immediate (bs_subscriptions b))\<rparr>"
| "bill_apply (Pause now sid) b = b\<lparr>bs_subscriptions := fst (sub_pause now sid (bs_subscriptions b))\<rparr>"
| "bill_apply (Resume now sid) b = b\<lparr>bs_subscriptions := fst (sub_resume now sid (bs_subscriptions b))\<rparr>"
| "bill_apply (ChangeTier now sid tier pricing) b =
     b\<lparr>bs_subscriptions := fst (sub_changeTier now sid tier pricing (bs_subscriptions b))\<rparr>"
| "bill_apply (Renew now sid) b = b\<lparr>bs_subscriptions := fst (sub_renew now sid (bs_subscriptions b))\<rparr>"
| "bill_apply (Use now random acc svc metric q unit) b = fst (recordUsage now random acc svc metric q unit b)"
| "bill_apply (RecordOnly now random acc svc metric q unit metadata) b =
     b\<lparr>bs_usage := fst (ut_record now random acc svc metric q unit metadata (bs_usage b))\<rparr>"
| "bill_apply (ResetCounters acc) b = b\<lparr>bs_usage := ut_resetPeriodCounters acc (bs_usage b)\<rparr>"
| "bill_apply (Generate now random account subs pricing since until) b =
     b\<lparr>bs_invoices := fst (inv_generate now random account subs (bs_usage b) pricing since until (bs_invoices b))\<rparr>"
| "bill_apply (Pay now random account i chosen) b =
     b\<lparr>bs_payments := fst (processPayment now random account i chosen (bs_payments b))\<rparr>"
| "bill_apply (Bill now rnd acc pricing) b = fst (processBilling now rnd acc pricing b)"
| "bill_apply (MarkPaid now iid pid) b = b\<lparr>bs_invoices := fst (inv_markPaid now iid pid (bs_invoices b))\<rparr>"
| "bill_apply (VoidInvoice iid) b = b\<lparr>bs_invoices := fst (inv_voidInvoice iid (bs_invoices b))\<rparr>"
| "bill_apply (Refund now random pid amount) b = b\<lparr>bs_payments := fst (processRefund now random pid amount (bs_payments b))\<rparr>"
| "bill_apply (Listen ty h) b = bs_on ty h b"
| "bill_apply (Unlisten ty h) b = bs_off ty h b"

definition bill_run :: "'h bill_op list \<Rightarrow> 'h BillingSystem" where
  "bill_run ops = fold bill_apply ops new_BillingSystem"

section \<open>How subscriptions evolve\<close>

text \<open>Every operation but \<open>subscribe\<close> and \<open>create\<close> only lets existing subscriptions go on: nothing leaves the
  cancelled state, and a trial ends in cancellation only.\<close>

definition follows :: "Subscription \<Rightarrow> Subscription \<Rightarrow> bool" where
  "follows s s' \<longleftrightarrow> sb_id s' = sb_id s \<and> sb_accountId s' = sb_accountId s \<and> sb_serviceId s' = sb_serviceId s \<and>
     sb_trialEnd s' = sb_trialEnd s \<and> (sb_status s = sub_cancelled \<longrightarrow> sb_status s' = sub_cancelled) \<and>
     (sb_status s = sub_trial \<longrightarrow> sb_status s' = sub_trial \<or> sb_status s' = sub_cancelled)"

definition evolves :: "subscriptions \<Rightarrow> subscriptions \<Rightarrow> bool" where
  "evolves m m' \<longleftrightarrow> (jm_ok m \<longrightarrow> jm_ok m') \<and>
     (\<forall>sid s'. jm_get m' sid = Some s' \<longrightarrow> (\<exists>s. jm_get m sid = Some s \<and> follows s s'))"

lemma follows_refl [simp]: "follows s s"
  by (simp add: follows_def)

lemma evolves_refl [simp]: "evolves m m"
  by (auto simp: evolves_def)

lemma follows_trans: "follows s t \<Longrightarrow> follows t u \<Longrightarrow> follows s u"
  by (auto simp: follows_def)

lemma evolves_trans:
  assumes "evolves m m'" and "evolves m' m''"
  shows "evolves m m''"
  unfolding evolves_def
proof (intro conjI allI impI)
  show "jm_ok m \<Longrightarrow> jm_ok m''" using assms by (simp add: evolves_def)
next
  fix sid u assume "jm_get m'' sid = Some u"
  then obtain t where "jm_get m' sid = Some t" "follows t u" using assms(2) by (auto simp: evolves_def)
  moreover from this obtain s where "jm_get m sid = Some s" "follows s t" using assms(1) by (auto simp: evolves_def)
  ultimately show "\<exists>s. jm_get m sid = Some s \<and> follows s u" using follows_trans by blast
qed

lemma evolves_set: "jm_get m sid = Some s \<Longrightarrow> follows s s' \<Longrightarrow> evolves m (jm_set sid s' m)"
  by (auto simp: evolves_def)

lemma evolves_operations:
  "evolves m (fst (sub_cancel now sid immediate m))"
  "evolves m (fst (sub_pause now sid m))"
  "evolves m (fst (sub_resume now sid m))"
  "evolves m (fst (sub_changeTier now sid tier pricing m))"
  "evolves m (fst (sub_renew now sid m))"
  by (auto simp: sub_cancel_def sub_pause_def sub_resume_def sub_changeTier_def sub_renew_def follows_def
      intro!: evolves_set split: option.split)

lemma evolves_renewals: "evolves m (fold (\<lambda>s m. fst (sub_renew now (sb_id s) m)) ss m)"
proof (induction ss arbitrary: m)
  case (Cons s ss)
  show ?case using evolves_trans [OF evolves_operations(5) Cons.IH] by simp
qed simp

lemma bs_emit_fields [simp]:
  "bs_subscriptions (bs_emit ev b) = bs_subscriptions b" "bs_invoices (bs_emit ev b) = bs_invoices b"
  "bs_payments (bs_emit ev b) = bs_payments b" "bs_usage (bs_emit ev b) = bs_usage b"
  "bs_accounts (bs_emit ev b) = bs_accounts b"
  by (simp_all add: bs_emit_def)

lemma evolves_settle: "evolves (bs_subscriptions b) (bs_subscriptions (settle now random acc account i ss b))"
  by (simp add: settle_def Let_def evolves_renewals split: prod.split sum.split)

lemma evolves_bill: "evolves (bs_subscriptions b) (bs_subscriptions (fst (processBilling now rnd acc pricing b)))"
  using evolves_settle [where b = "bs_emit ev (b\<lparr>bs_invoices := g\<rparr>)" for ev g]
  by (auto simp: processBilling_def Let_def split: option.split prod.split)

text \<open>The invariant of the subscriptions: filed under their own identifier, and a subscription with a trial is
  on trial or cancelled.\<close>

definition sub_ok :: "string \<Rightarrow> Subscription \<Rightarrow> bool" where
  "sub_ok sid s \<longleftrightarrow> sb_id s = sid \<and> (sb_trialEnd s = None \<or> sb_status s = sub_trial \<or> sb_status s = sub_cancelled)"

definition subs_ok :: "subscriptions \<Rightarrow> bool" where
  "subs_ok m \<longleftrightarrow> jm_ok m \<and> (\<forall>sid s. jm_get m sid = Some s \<longrightarrow> sub_ok sid s)"

lemma subs_okD:
  assumes "subs_ok m"
  shows "jm_ok m" and "jm_get m sid = Some s \<Longrightarrow> sub_ok sid s"
  using assms unfolding subs_ok_def by blast+

lemma own_ids: "subs_ok m \<Longrightarrow> (k, s) \<in> set m \<Longrightarrow> sb_id s = k \<and> jm_get m k = Some s"
  using subs_okD(1,2) jm_get_in by (metis sub_ok_def)

lemma own_values: "subs_ok m \<Longrightarrow> s \<in> set (jm_values m) \<Longrightarrow> jm_get m (sb_id s) = Some s"
  using jm_values_get [OF subs_okD(1)] subs_okD(2) by (metis sub_ok_def)

lemma distinct_ids: "subs_ok m \<Longrightarrow> distinct (map sb_id (jm_values m))"
proof -
  assume ok: "subs_ok m"
  have "map sb_id (jm_values m) = map fst m"
    unfolding jm_values_def map_map by (rule map_cong [OF refl]) (use own_ids [OF ok] in force)
  then show ?thesis using subs_okD(1) [OF ok] by (simp add: jm_ok_def)
qed

lemma follows_ok: "follows r s \<Longrightarrow> sub_ok sid r \<Longrightarrow> sub_ok sid s"
  by (auto simp: follows_def sub_ok_def)

lemma evolvesD:
  assumes "evolves m m'" and "jm_get m' sid = Some s'"
  obtains s where "jm_get m sid = Some s" "follows s s'"
  using assms unfolding evolves_def by blast

lemma subs_ok_evolves:
  assumes ok: "subs_ok m" and ev: "evolves m m'"
  shows "subs_ok m'"
  unfolding subs_ok_def
proof (intro conjI allI impI)
  show "jm_ok m'" using subs_okD(1) [OF ok] ev by (simp add: evolves_def)
next
  fix sid s assume "jm_get m' sid = Some s"
  then obtain r where "jm_get m sid = Some r" "follows r s" by (rule evolvesD [OF ev])
  then show "sub_ok sid s" using subs_okD(2) [OF ok] follows_ok by blast
qed

lemma find_NoneD: "find p xs = None \<Longrightarrow> x \<in> set xs \<Longrightarrow> \<not> p x"
  by (auto simp: find_None_iff)

text \<open>A creation files one new subscription.\<close>

lemma sub_create_cases:
  obtains n where "fst (sub_create now random acc svc pricing tier period m) = jm_set (sb_id n) n m"
    and "sb_accountId n = acc" and "sb_serviceId n = svc" and "sub_ok (sb_id n) n"
proof
  let ?n = "snd (sub_create now random acc svc pricing tier period m)"
  show "fst (sub_create now random acc svc pricing tier period m) = jm_set (sb_id ?n) ?n m"
    and "sb_accountId ?n = acc" and "sb_serviceId ?n = svc" and "sub_ok (sb_id ?n) ?n"
    by (simp_all add: sub_create_def Let_def sub_ok_def)
qed

lemma subs_ok_create: "subs_ok m \<Longrightarrow> subs_ok (fst (sub_create now random acc svc pricing tier period m))"
  by (rule sub_create_cases [of now random acc svc pricing tier period m]) (auto simp: subs_ok_def)

text \<open>What an operation does to the subscriptions.\<close>

lemma apply_cases:
  fixes op :: "'h bill_op"
  defines "m \<equiv> \<lambda>b :: 'h BillingSystem. bs_subscriptions b"
  obtains "evolves (m b) (m (bill_apply op b))"
  | now random acc svc pricing tier period where "op = Subscribe now random acc svc pricing tier period"
      "sub_getByService acc svc (m b) = None"
      "m (bill_apply op b) = fst (sub_create now random acc svc pricing tier (dflt period monthly) (m b))"
  | now random acc svc pricing tier period where "op = Create now random acc svc pricing tier period"
      "m (bill_apply op b) = fst (sub_create now random acc svc pricing tier period (m b))"
proof (cases op)
  case (Subscribe now random acc svc pricing tier period)
  show ?thesis
  proof (cases "jm_get (bs_accounts b) acc = None \<or> sub_getByService acc svc (bs_subscriptions b) \<noteq> None")
    case True
    then show ?thesis by (intro that(1)) (auto simp: m_def Subscribe bs_subscribe_def split: option.split)
  next
    case False
    then show ?thesis
      by (intro that(2) [OF Subscribe]) (auto simp: m_def Subscribe bs_subscribe_def Let_def split: option.splits prod.splits)
  qed
next
  case (Create now random acc svc pricing tier period)
  show ?thesis by (rule that(3) [OF Create]) (simp add: m_def Create)
qed (rule that(1), auto simp: m_def createAccount_def put_method_def recordUsage_def bs_on_def bs_off_def Let_def split_beta
    intro: evolves_operations evolves_bill split: option.split)+

lemma subs_ok_apply: "subs_ok (bs_subscriptions b) \<Longrightarrow> subs_ok (bs_subscriptions (bill_apply op b))"
  by (rule apply_cases [of b op]) (simp_all add: subs_ok_evolves subs_ok_create)

text \<open>The subscriptions of an account to a service that are not cancelled.\<close>

definition open_ids :: "string \<Rightarrow> string \<Rightarrow> subscriptions \<Rightarrow> string set" where
  "open_ids acc svc m =
     {k. \<exists>s. jm_get m k = Some s \<and> sb_accountId s = acc \<and> sb_serviceId s = svc \<and> sb_status s \<noteq> sub_cancelled}"

lemma finite_open: "finite (open_ids acc svc m)"
proof (rule finite_subset)
  show "open_ids acc svc m \<subseteq> fst ` set m"
    by (force simp: open_ids_def jm_get_def dest: map_of_SomeD)
qed simp

lemma open_length:
  assumes "jm_ok m"
  shows "length (filter (\<lambda>s. sb_accountId s = acc \<and> sb_serviceId s = svc \<and> sb_status s \<noteq> sub_cancelled) (jm_values m)) =
    card (open_ids acc svc m)"
proof -
  let ?p = "\<lambda>s. sb_accountId s = acc \<and> sb_serviceId s = svc \<and> sb_status s \<noteq> sub_cancelled"
  let ?fs = "filter (\<lambda>e. ?p (snd e)) m"
  have "distinct (map fst ?fs)" using assms by (simp add: jm_ok_def distinct_map_filter)
  moreover have "set (map fst ?fs) = open_ids acc svc m"
    using assms by (force simp: open_ids_def jm_get_def jm_ok_def dest: map_of_SomeD)
  ultimately have "length ?fs = card (open_ids acc svc m)"
    using distinct_card by fastforce
  moreover have "length (filter ?p (jm_values m)) = length ?fs"
    by (simp add: jm_values_def filter_map comp_def)
  ultimately show ?thesis by simp
qed

lemma open_evolves: "evolves m m' \<Longrightarrow> card (open_ids acc svc m') \<le> card (open_ids acc svc m)"
proof (rule card_mono [OF finite_open])
  assume ev: "evolves m m'"
  show "open_ids acc svc m' \<subseteq> open_ids acc svc m"
    using evolvesD [OF ev] by (fastforce simp: open_ids_def follows_def)
qed

fun created :: "string \<Rightarrow> string \<Rightarrow> 'h bill_op \<Rightarrow> bool" where
  "created acc svc (Create now random acc' svc' pricing tier period) \<longleftrightarrow> acc' = acc \<and> svc' = svc"
| "created acc svc op \<longleftrightarrow> False"

lemma open_created:
  "card (open_ids acc svc (fst (sub_create now random acc' svc' pricing tier period m))) \<le>
     (if acc' = acc \<and> svc' = svc then Suc (card (open_ids acc svc m)) else card (open_ids acc svc m))"
proof -
  let ?m = "fst (sub_create now random acc' svc' pricing tier period m)"
    and ?i = "sb_id (snd (sub_create now random acc' svc' pricing tier period m))"
  have sub: "open_ids acc svc ?m \<subseteq> (if acc' = acc \<and> svc' = svc then insert ?i (open_ids acc svc m) else open_ids acc svc m)"
    by (auto simp: open_ids_def sub_create_def Let_def split: if_splits)
  have "card (open_ids acc svc ?m) \<le> card (if acc' = acc \<and> svc' = svc then insert ?i (open_ids acc svc m) else open_ids acc svc m)"
    by (rule card_mono [OF _ sub]) (simp add: finite_open)
  also have "\<dots> \<le> (if acc' = acc \<and> svc' = svc then Suc (card (open_ids acc svc m)) else card (open_ids acc svc m))"
    by (simp add: card_insert_le_m1 card_insert_if finite_open)
  finally show ?thesis .
qed

lemma open_free: "sub_getByService acc svc m = None \<Longrightarrow> open_ids acc svc m = {}"
  using find_NoneD jm_get_values unfolding sub_getByService_def open_ids_def by fastforce

lemma open_apply:
  "card (open_ids acc svc (bs_subscriptions (bill_apply op b))) \<le>
     (if created acc svc op then Suc (card (open_ids acc svc (bs_subscriptions b)))
      else max 1 (card (open_ids acc svc (bs_subscriptions b))))"
proof (rule apply_cases [of b op])
  assume "evolves (bs_subscriptions b) (bs_subscriptions (bill_apply op b))"
  from open_evolves [OF this, of acc svc] show ?thesis by (simp add: le_max_iff_disj)
next
  fix now random acc' svc' pricing tier period
  assume op: "op = Subscribe now random acc' svc' pricing tier period"
    and free: "sub_getByService acc' svc' (bs_subscriptions b) = None"
    and m: "bs_subscriptions (bill_apply op b) = fst (sub_create now random acc' svc' pricing tier (dflt period monthly) (bs_subscriptions b))"
  show ?thesis
    using open_created [of acc svc now random acc' svc' pricing tier "dflt period monthly" "bs_subscriptions b"] open_free [OF free]
    unfolding m by (cases "acc' = acc \<and> svc' = svc") (auto simp: op)
next
  fix now random acc' svc' pricing tier period
  assume op: "op = Create now random acc' svc' pricing tier period"
    and m: "bs_subscriptions (bill_apply op b) = fst (sub_create now random acc' svc' pricing tier period (bs_subscriptions b))"
  show ?thesis
    using open_created [of acc svc now random acc' svc' pricing tier period "bs_subscriptions b"]
    unfolding m by (auto simp: op split: if_splits)
qed

lemma open_history:
  "card (open_ids acc svc (bs_subscriptions b)) \<le> Suc k \<Longrightarrow>
   card (open_ids acc svc (bs_subscriptions (fold bill_apply ops b))) \<le> Suc (k + length (filter (created acc svc) ops))"
proof (induction ops arbitrary: b k)
  case (Cons op ops)
  have "card (open_ids acc svc (bs_subscriptions (bill_apply op b))) \<le> Suc (k + (if created acc svc op then 1 else 0))"
    using open_apply [of acc svc op b] Cons.prems by (auto split: if_splits)
  from Cons.IH [OF this] show ?case by (simp split: if_splits)
qed simp

lemma subs_ok_Nil: "subs_ok []"
  by (simp add: subs_ok_def)

lemma subs_ok_history: "subs_ok (bs_subscriptions b) \<Longrightarrow> subs_ok (bs_subscriptions (fold bill_apply ops b))"
  by (induction ops arbitrary: b) (simp_all add: subs_ok_apply)

lemma subs_ok_run: "subs_ok (bs_subscriptions (bill_run ops))"
  unfolding bill_run_def by (rule subs_ok_history) (simp add: new_BillingSystem_def subs_ok_Nil)

section \<open>One billing run\<close>

definition renewed :: "int \<Rightarrow> Subscription \<Rightarrow> Subscription" where
  "renewed now s =
     (if sb_cancelAtPeriodEnd s then s\<lparr>sb_status := sub_cancelled, sb_updatedAt := now\<rparr>
      else s\<lparr>sb_currentPeriodStart := sb_currentPeriodEnd s,
             sb_currentPeriodEnd := sb_currentPeriodEnd s + getPeriodMs (sb_period s), sb_updatedAt := now\<rparr>)"

lemma renewed_id [simp]: "sb_id (renewed now s) = sb_id s" "sb_accountId (renewed now s) = sb_accountId s"
  by (simp_all add: renewed_def)

lemma jm_set_present:
  "jm_ok m \<Longrightarrow> jm_get m k = Some v \<Longrightarrow> jm_set k w m = jm_map (\<lambda>k' x. if k' = k then w else x) m"
proof (induction m)
  case (Cons a m)
  obtain k' x where a: "a = (k', x)" by (cases a)
  have "jm_map (\<lambda>k'' x. if k'' = k then w else x) m = m" if "k' = k"
    using Cons.prems(1) that by (auto simp: a jm_ok_def jm_map_def rev_image_eqI intro!: map_idI)
  then show ?case
    using Cons by (auto simp: a jm_set_def jm_map_def jm_get_def jm_ok_def split: if_splits)
qed (simp add: jm_get_def)

lemma jm_map_absent: "jm_get m k = None \<Longrightarrow> jm_map (\<lambda>k' x. if k' = k then f x else x) m = m"
  by (force simp: jm_map_def jm_get_def map_of_eq_None_iff intro!: map_idI)

lemma jm_map_cong: "(\<And>k v. (k, v) \<in> set m \<Longrightarrow> f k v = g k v) \<Longrightarrow> jm_map f m = jm_map g m"
  by (auto simp: jm_map_def)

lemma renew_map:
  assumes "jm_ok m"
  shows "fst (sub_renew now sid m) = jm_map (\<lambda>k s. if k = sid then renewed now s else s) m"
proof (cases "jm_get m sid")
  case None
  then show ?thesis by (simp add: sub_renew_def jm_map_absent)
next
  case (Some s)
  have "fst (sub_renew now sid m) = jm_set sid (renewed now s) m"
    using Some by (simp add: sub_renew_def renewed_def)
  also have "\<dots> = jm_map (\<lambda>k x. if k = sid then renewed now s else x) m"
    by (rule jm_set_present [OF assms Some])
  also have "\<dots> = jm_map (\<lambda>k x. if k = sid then renewed now x else x) m"
    using jm_get_in [OF assms] Some by (intro jm_map_cong) fastforce
  finally show ?thesis .
qed

lemma jm_map_map: "jm_map f (jm_map g m) = jm_map (\<lambda>k v. f k (g k v)) m"
  by (auto simp: jm_map_def)

lemma renewals_map:
  "jm_ok m \<Longrightarrow> distinct (map sb_id ss) \<Longrightarrow>
     fold (\<lambda>s m. fst (sub_renew now (sb_id s) m)) ss m =
       jm_map (\<lambda>k s. if k \<in> sb_id ` set ss then renewed now s else s) m"
proof (induction ss arbitrary: m)
  case Nil
  have "jm_map (\<lambda>k s. s) m = m" for m :: subscriptions by (auto simp: jm_map_def)
  then show ?case by simp
next
  case (Cons s ss)
  have step: "fold (\<lambda>s m. fst (sub_renew now (sb_id s) m)) (s # ss) m =
      jm_map (\<lambda>k t. if k \<in> sb_id ` set ss then renewed now t else t)
        (jm_map (\<lambda>k t. if k = sb_id s then renewed now t else t) m)"
    using Cons by (simp add: renew_map)
  show ?case
    unfolding step jm_map_map using Cons.prems(2) by (intro jm_map_cong) (auto simp: image_iff)
qed

definition live_subs :: "string \<Rightarrow> 'h BillingSystem \<Rightarrow> Subscription list" where
  "live_subs acc b = filter is_live (sub_getByAccount acc (bs_subscriptions b))"

lemma live_subs_ids:
  assumes "subs_ok (bs_subscriptions b)"
  shows "distinct (map sb_id (live_subs acc b))"
    and "s \<in> set (live_subs acc b) \<longleftrightarrow>
      jm_get (bs_subscriptions b) (sb_id s) = Some s \<and> sb_accountId s = acc \<and> is_live s"
proof -
  let ?m = "bs_subscriptions b"
  show "distinct (map sb_id (live_subs acc b))"
    unfolding live_subs_def sub_getByAccount_def by (intro distinct_map_filter distinct_ids assms)
  have "s \<in> set (jm_values ?m) \<longleftrightarrow> jm_get ?m (sb_id s) = Some s"
    using own_values [OF assms] jm_get_values by metis
  then show "s \<in> set (live_subs acc b) \<longleftrightarrow> jm_get ?m (sb_id s) = Some s \<and> sb_accountId s = acc \<and> is_live s"
    by (auto simp: live_subs_def sub_getByAccount_def)
qed

text \<open>What the account owes: the prices of its active subscriptions and its usage in the window.\<close>

definition window :: "Subscription list \<Rightarrow> int \<times> int" where
  "window ss = (list_min (map sb_currentPeriodStart ss), list_max (map sb_currentPeriodEnd ss))"

definition usage_items ::
  "string \<Rightarrow> UsageTracker \<Rightarrow> (string, UsagePricing list) jsmap \<Rightarrow> int \<times> int \<Rightarrow> InvoiceLineItem list" where
  "usage_items accountId u usagePricing w =
     concat (map (\<lambda>(serviceId, rules).
       List.map_filter (usage_item serviceId (ut_getAggregatedUsage accountId serviceId (fst w) (snd w) u)) rules)
       usagePricing)"

lemma line_items_split:
  "line_items acc (live_subs acc b) u pricing (fst w) (snd w) =
     map subscription_item (live_subs acc b) @ usage_items acc u pricing w"
  by (simp add: line_items_def usage_items_def live_subs_def)

lemma subscription_item_total:
  "li_total (subscription_item s) = (if sb_status s = sub_trial then 0 else sb_pricePerPeriod s)"
  by (simp add: subscription_item_def Let_def)

text \<open>Accounts are filed under their own identifier.\<close>

definition accounts_ok :: "'h BillingSystem \<Rightarrow> bool" where
  "accounts_ok b \<longleftrightarrow> (\<forall>k a. jm_get (bs_accounts b) k = Some a \<longrightarrow> ba_id a = k)"

lemma accounts_settle [simp]: "bs_accounts (settle now random acc account i ss b) = bs_accounts b"
  by (simp add: settle_def Let_def split: prod.split sum.split)

lemma accounts_bill [simp]: "bs_accounts (fst (processBilling now rnd acc pricing b)) = bs_accounts b"
  by (simp add: processBilling_def Let_def split: option.split prod.split)

lemma accounts_ok_apply: "accounts_ok b \<Longrightarrow> accounts_ok (bill_apply op b)"
  by (cases op) (auto simp: accounts_ok_def createAccount_def put_method_def bs_subscribe_def recordUsage_def
      bs_on_def bs_off_def Let_def split_beta split: option.split)

lemma accounts_ok_run: "accounts_ok (bill_run ops)"
proof -
  have "accounts_ok b \<Longrightarrow> accounts_ok (fold bill_apply ops b)" for b :: "'a BillingSystem"
    by (induction ops arbitrary: b) (simp_all add: accounts_ok_apply)
  moreover have "accounts_ok (new_BillingSystem :: 'a BillingSystem)"
    by (simp add: accounts_ok_def new_BillingSystem_def)
  ultimately show ?thesis by (simp add: bill_run_def)
qed

lemma js_round_0 [simp]: "js_round 0 = 0"
proof -
  have "\<lfloor>1 / 2 :: rat\<rfloor> = 0" by (simp add: floor_eq_iff)
  then show ?thesis by (simp add: js_round_def)
qed

lemma generate_fields:
  assumes "inv_generate now random account ss u pricing s e g = (g', i)"
  shows "iv_lineItems i = line_items (ba_id account) ss u pricing s e"
    and "iv_total i = sum_list (map li_total (iv_lineItems i))"
    and "iv_status i = (if iv_total i = 0 then inv_paid else inv_open)"
    and "jm_get (ig_invoices g') (iv_id i) = Some i"
  using assms by (auto simp: inv_generate_def Let_def)

lemma processPayment_ok:
  assumes "ba_paymentMethod account = Some x"
  obtains p where "processPayment now random account i None m = (jm_set (py_id p) p m, Inr p)"
    "py_amount p = iv_total i" "py_status p = pay_completed" "py_invoiceId p = iv_id i"
  by (rule that [of "projr (snd (processPayment now random account i None m))"])
    (simp_all add: processPayment_def assms Let_def)

lemma settle_fields:
  assumes pm: "ba_paymentMethod account = Some x" and i: "jm_get (ig_invoices (bs_invoices b)) (iv_id i) = Some i"
  shows "\<exists>p. jm_get (ig_invoices (bs_invoices (settle now random acc account i ss b))) (iv_id i) =
        Some (i\<lparr>iv_status := inv_paid, iv_paidDate := Some now, iv_paymentId := Some (py_id p)\<rparr>) \<and>
      getPayment (py_id p) (bs_payments (settle now random acc account i ss b)) = Some p \<and>
      py_amount p = iv_total i \<and> py_status p = pay_completed \<and> py_invoiceId p = iv_id i"
    and "bs_subscriptions (settle now random acc account i ss b) =
      fold (\<lambda>s m. fst (sub_renew now (sb_id s) m)) ss (bs_subscriptions b)"
proof -
  obtain p where p: "processPayment now random account i None (bs_payments b) = (jm_set (py_id p) p (bs_payments b), Inr p)"
    "py_amount p = iv_total i" "py_status p = pay_completed" "py_invoiceId p = iv_id i"
    by (rule processPayment_ok [OF pm])
  show "\<exists>p. jm_get (ig_invoices (bs_invoices (settle now random acc account i ss b))) (iv_id i) =
        Some (i\<lparr>iv_status := inv_paid, iv_paidDate := Some now, iv_paymentId := Some (py_id p)\<rparr>) \<and>
      getPayment (py_id p) (bs_payments (settle now random acc account i ss b)) = Some p \<and>
      py_amount p = iv_total i \<and> py_status p = pay_completed \<and> py_invoiceId p = iv_id i"
    using p i by (intro exI [of _ p]) (simp add: settle_def Let_def inv_markPaid_def getPayment_def)
  show "bs_subscriptions (settle now random acc account i ss b) =
      fold (\<lambda>s m. fst (sub_renew now (sb_id s) m)) ss (bs_subscriptions b)"
    using p by (simp add: settle_def Let_def)
qed

definition payer :: "string \<Rightarrow> 'h BillingSystem \<Rightarrow> PaymentMethod option" where
  "payer acc b = (case getAccount acc b of None \<Rightarrow> None | Some a \<Rightarrow> ba_paymentMethod a)"

lemma bill_none:
  "getAccount acc b = None \<or> live_subs acc b = [] \<Longrightarrow> processBilling now rnd acc pricing b = (b, None)"
  by (auto simp: processBilling_def getAccount_def live_subs_def Let_def split: option.split)

lemma bill_some:
  assumes a: "getAccount acc b = Some a" "ba_id a = acc" and live: "live_subs acc b \<noteq> []"
    and subs: "subs_ok (bs_subscriptions b)"
  obtains i b' where "processBilling now rnd acc pricing b = (b', Some i)"
    "iv_lineItems i = map subscription_item (live_subs acc b) @ usage_items acc (bs_usage b) pricing (window (live_subs acc b))"
    "iv_total i = sum_list (map li_total (iv_lineItems i))"
    "if iv_total i > 0 \<and> ba_paymentMethod a \<noteq> None then
       iv_status i = inv_paid \<and>
       (\<exists>p. iv_paymentId i = Some (py_id p) \<and> getPayment (py_id p) (bs_payments b') = Some p \<and>
          py_amount p = iv_total i \<and> py_status p = pay_completed \<and> py_invoiceId p = iv_id i) \<and>
       bs_subscriptions b' =
         jm_map (\<lambda>k s. if k \<in> sb_id ` set (live_subs acc b) then renewed now s else s) (bs_subscriptions b)
     else
       iv_status i = (if iv_total i = 0 then inv_paid else inv_open) \<and>
       bs_subscriptions b' = bs_subscriptions b \<and> bs_payments b' = bs_payments b"
proof -
  let ?ss = "live_subs acc b"
  obtain g i where gen: "inv_generate now (rnd 0) a ?ss (bs_usage b) pricing
      (list_min (map sb_currentPeriodStart ?ss)) (list_max (map sb_currentPeriodEnd ?ss)) (bs_invoices b) = (g, i)"
    by (cases "inv_generate now (rnd 0) a ?ss (bs_usage b) pricing
      (list_min (map sb_currentPeriodStart ?ss)) (list_max (map sb_currentPeriodEnd ?ss)) (bs_invoices b)")
  note f = generate_fields [OF gen]
  have items: "iv_lineItems i = map subscription_item ?ss @ usage_items acc (bs_usage b) pricing (window ?ss)"
    using f(1) line_items_split [of acc b "bs_usage b" pricing "window ?ss"] a(2) by (simp add: window_def)
  let ?b1 = "bs_emit \<lparr>be_type = invoice_created, be_accountId = acc,
      be_payload = [(''invoiceId'', JStr (iv_id i)), (''total'', JNum (iv_total i))], be_timestamp = now\<rparr>
      (b\<lparr>bs_invoices := g\<rparr>)"
  let ?b2 = "settle now (rnd 1) acc a i ?ss ?b1"
  have run: "processBilling now rnd acc pricing b =
      (if iv_total i > 0 \<and> ba_paymentMethod a \<noteq> None
       then (?b2, jm_get (ig_invoices (bs_invoices ?b2)) (iv_id i)) else (?b1, Some i))"
    using a(1) live gen by (auto simp: processBilling_def getAccount_def live_subs_def Let_def)
  show ?thesis
  proof (cases "iv_total i > 0 \<and> ba_paymentMethod a \<noteq> None")
    case False
    then show ?thesis using that [OF _ items f(2)] run f(3) by auto
  next
    case True
    then obtain x where x: "ba_paymentMethod a = Some x" by auto
    have i1: "jm_get (ig_invoices (bs_invoices ?b1)) (iv_id i) = Some i" using f(4) by simp
    obtain p where p: "jm_get (ig_invoices (bs_invoices ?b2)) (iv_id i) =
          Some (i\<lparr>iv_status := inv_paid, iv_paidDate := Some now, iv_paymentId := Some (py_id p)\<rparr>)"
      "getPayment (py_id p) (bs_payments ?b2) = Some p" "py_amount p = iv_total i"
      "py_status p = pay_completed" "py_invoiceId p = iv_id i"
      using settle_fields(1) [OF x i1] by blast
    have subs': "bs_subscriptions ?b2 =
        jm_map (\<lambda>k s. if k \<in> sb_id ` set ?ss then renewed now s else s) (bs_subscriptions b)"
      using settle_fields(2) [OF x i1] renewals_map [OF subs_okD(1) [OF subs] live_subs_ids(1) [OF subs]] by simp
    show ?thesis
      by (rule that [of ?b2 "i\<lparr>iv_status := inv_paid, iv_paidDate := Some now, iv_paymentId := Some (py_id p)\<rparr>"])
        (use run True p subs' items f(2) in auto)
  qed
qed

text \<open>After a paid run the renewed subscriptions are live and cost what they did.\<close>

lemma live_renewed:
  assumes subs: "subs_ok (bs_subscriptions b)" and stay: "\<forall>s \<in> set (live_subs acc b). \<not> sb_cancelAtPeriodEnd s"
    and b': "bs_subscriptions b' =
      jm_map (\<lambda>k s. if k \<in> sb_id ` set (live_subs acc b) then renewed now s else s) (bs_subscriptions b)"
  shows "live_subs acc b' = map (renewed now) (live_subs acc b)"
proof -
  let ?m = "bs_subscriptions b" and ?ss = "live_subs acc b"
  let ?g = "\<lambda>s. if sb_id s \<in> sb_id ` set ?ss then renewed now s else s"
  have vals: "jm_values (bs_subscriptions b') = map ?g (jm_values ?m)"
    unfolding b' jm_values_def jm_map_def map_map by (rule map_cong [OF refl]) (use own_ids [OF subs] in force)
  have mine: "sb_id s \<in> sb_id ` set ?ss \<longleftrightarrow> s \<in> set ?ss" if "s \<in> set (jm_values ?m)" for s
  proof -
    have s: "jm_get ?m (sb_id s) = Some s" by (rule own_values [OF subs that])
    have "s = t" if "t \<in> set ?ss" "sb_id s = sb_id t" for t
    proof -
      have "jm_get ?m (sb_id t) = Some t" using that(1) live_subs_ids(2) [OF subs] by blast
      then show ?thesis using s that(2) by (metis option.inject)
    qed
    then show ?thesis by blast
  qed
  have live: "is_live (?g s) = is_live s" "sb_accountId (?g s) = sb_accountId s" if "s \<in> set (jm_values ?m)" for s
    using stay mine [OF that] by (auto simp: renewed_def is_live_def)
  have "live_subs acc b' = map ?g (filter (\<lambda>s. is_live (?g s) \<and> sb_accountId (?g s) = acc) (jm_values ?m))"
    by (simp add: live_subs_def sub_getByAccount_def vals filter_map comp_def conj_commute)
  also have "filter (\<lambda>s. is_live (?g s) \<and> sb_accountId (?g s) = acc) (jm_values ?m) =
      filter (\<lambda>s. is_live s \<and> sb_accountId s = acc) (jm_values ?m)"
    using live by (intro filter_cong) auto
  also have "\<dots> = ?ss" by (simp add: live_subs_def sub_getByAccount_def conj_commute)
  finally show ?thesis by simp
qed

lemma renewed_item: "\<not> sb_cancelAtPeriodEnd s \<Longrightarrow> subscription_item (renewed now s) = subscription_item s"
  by (simp add: subscription_item_def renewed_def Let_def)

lemma bill_items:
  assumes "processBilling now rnd acc pricing b = (b', Some i)" and "accounts_ok b" and "subs_ok (bs_subscriptions b)"
  shows "take (length (live_subs acc b)) (iv_lineItems i) = map subscription_item (live_subs acc b)"
    and "bs_subscriptions b' = bs_subscriptions b \<or> bs_subscriptions b' =
      jm_map (\<lambda>k s. if k \<in> sb_id ` set (live_subs acc b) then renewed now s else s) (bs_subscriptions b)"
proof -
  have "\<not> (getAccount acc b = None \<or> live_subs acc b = [])"
    using bill_none [of acc b now rnd pricing] assms(1) by (metis option.distinct(1) prod.inject)
  then obtain a where a: "getAccount acc b = Some a" and live: "live_subs acc b \<noteq> []"
    by (cases "getAccount acc b") auto
  have id: "ba_id a = acc" using assms(2) a by (auto simp: accounts_ok_def getAccount_def)
  show "take (length (live_subs acc b)) (iv_lineItems i) = map subscription_item (live_subs acc b)"
    by (rule bill_some [OF a id live assms(3), of now rnd pricing]) (use assms(1) in auto)
  show "bs_subscriptions b' = bs_subscriptions b \<or> bs_subscriptions b' =
      jm_map (\<lambda>k s. if k \<in> sb_id ` set (live_subs acc b) then renewed now s else s) (bs_subscriptions b)"
    by (rule bill_some [OF a id live assms(3), of now rnd pricing]) (use assms(1) in \<open>auto split: if_splits\<close>)
qed

section \<open>Properties\<close>

text \<open>
  C21. Subscriptions. After any history, an account has at most one subscription to a service that is
  not cancelled, and one more for every time the subscription manager was told directly to create one, which
  skips the check of \<open>subscribe\<close>. A subscription that began with a trial is cancelled or still on trial, for
  which its line on every invoice is 0: the end of the trial is recorded and never looked at.
\<close>

theorem subscriptions_sound:
  "length (filter (\<lambda>s. sb_accountId s = acc \<and> sb_serviceId s = svc \<and> sb_status s \<noteq> sub_cancelled)
      (jm_values (bs_subscriptions (bill_run ops)))) \<le> 1 + length (filter (created acc svc) ops) \<and>
   list_all (\<lambda>s. sb_trialEnd s = None \<or> sb_status s = sub_cancelled \<or>
        sb_status s = sub_trial \<and> li_total (subscription_item s) = 0)
      (jm_values (bs_subscriptions (bill_run ops)))"
proof
  let ?m = "bs_subscriptions (bill_run ops)"
  have ok: "subs_ok ?m" by (rule subs_ok_run)
  have "card (open_ids acc svc (bs_subscriptions (new_BillingSystem :: 'a BillingSystem))) \<le> Suc 0"
    by (simp add: open_ids_def new_BillingSystem_def)
  from open_history [OF this, of ops]
  show "length (filter (\<lambda>s. sb_accountId s = acc \<and> sb_serviceId s = svc \<and> sb_status s \<noteq> sub_cancelled) (jm_values ?m))
      \<le> 1 + length (filter (created acc svc) ops)"
    unfolding open_length [OF subs_okD(1) [OF ok]] by (simp add: bill_run_def)
  show "list_all (\<lambda>s. sb_trialEnd s = None \<or> sb_status s = sub_cancelled \<or>
      sb_status s = sub_trial \<and> li_total (subscription_item s) = 0) (jm_values ?m)"
    using own_values [OF ok] subs_okD(2) [OF ok] by (auto simp: list_all_iff sub_ok_def subscription_item_total)
qed

text \<open>
  C22. A billing run. From any reachable state, billing an account without live subscriptions does
  nothing. Otherwise it invoices the price of every active subscription, nothing for those on trial,
  and the usage in the window of the periods. If that is positive and the account has a payment
  method, the invoice is paid by a completed payment of its total and exactly the invoiced
  subscriptions are renewed; if not, the invoice stays open (paid when it is 0) and neither payments
  nor subscriptions change.
\<close>

theorem billing_run:
  "let b = bill_run ops; ss = live_subs acc b in
   case processBilling now rnd acc pricing b of
     (b', None) \<Rightarrow> b' = b \<and> (getAccount acc b = None \<or> ss = [])
   | (b', Some i) \<Rightarrow>
       iv_total i = sum_list (map (\<lambda>s. if sb_status s = sub_trial then 0 else sb_pricePerPeriod s) ss) +
         sum_list (map li_total (usage_items acc (bs_usage b) pricing (window ss))) \<and>
       (if iv_total i > 0 \<and> payer acc b \<noteq> None then
          iv_status i = inv_paid \<and>
          (\<exists>p. iv_paymentId i = Some (py_id p) \<and> getPayment (py_id p) (bs_payments b') = Some p \<and>
             py_amount p = iv_total i \<and> py_status p = pay_completed \<and> py_invoiceId p = iv_id i) \<and>
          bs_subscriptions b' =
            jm_map (\<lambda>k s. if k \<in> sb_id ` set ss then renewed now s else s) (bs_subscriptions b)
        else
          iv_status i = (if iv_total i = 0 then inv_paid else inv_open) \<and>
          bs_subscriptions b' = bs_subscriptions b \<and> bs_payments b' = bs_payments b)"
proof -
  let ?b = "bill_run ops"
  let ?ss = "live_subs acc ?b"
  show ?thesis
  proof (cases "getAccount acc ?b = None \<or> ?ss = []")
    case True
    then show ?thesis using bill_none [of acc ?b now rnd pricing] by (auto simp: Let_def)
  next
    case False
    then obtain a where a: "getAccount acc ?b = Some a" and live: "?ss \<noteq> []" by auto
    have id: "ba_id a = acc" using accounts_ok_run a by (auto simp: accounts_ok_def getAccount_def)
    show ?thesis
      by (rule bill_some [OF a id live subs_ok_run, of now rnd pricing])
        (simp add: Let_def subscription_item_total comp_def payer_def a)
  qed
qed

text \<open>
  Billing looks at no date. Bill an account whose subscriptions are not set to end, and bill it
  again, at the same instant if you like: the second invoice charges the same subscriptions the same
  prices in full, yearly ones included, because nothing asks whether a period is over.
\<close>

theorem billing_ignores_periods:
  assumes "processBilling now rnd acc pricing (bill_run ops) = (b1, Some i1)"
    and "processBilling now' rnd' acc pricing' b1 = (b2, Some i2)"
    and "\<forall>s \<in> set (live_subs acc (bill_run ops)). \<not> sb_cancelAtPeriodEnd s"
  shows "take (length (live_subs acc (bill_run ops))) (iv_lineItems i1) =
      map subscription_item (live_subs acc (bill_run ops)) \<and>
    take (length (live_subs acc (bill_run ops))) (iv_lineItems i2) =
      map subscription_item (live_subs acc (bill_run ops))"
proof -
  let ?b = "bill_run ops"
  note first = bill_items [OF assms(1) accounts_ok_run subs_ok_run]
  have b1: "b1 = fst (processBilling now rnd acc pricing ?b)" using assms(1) by simp
  have "accounts_ok b1" using accounts_ok_run by (simp add: b1 accounts_ok_def)
  moreover have "subs_ok (bs_subscriptions b1)"
    unfolding b1 by (rule subs_ok_evolves [OF subs_ok_run evolves_bill])
  ultimately have second: "take (length (live_subs acc b1)) (iv_lineItems i2) = map subscription_item (live_subs acc b1)"
    by (rule bill_items(1) [OF assms(2)])
  have "map subscription_item (live_subs acc b1) = map subscription_item (live_subs acc ?b) \<and>
      length (live_subs acc b1) = length (live_subs acc ?b)"
  proof (cases "bs_subscriptions b1 = bs_subscriptions ?b")
    case True
    then show ?thesis by (simp add: live_subs_def)
  next
    case False
    then have "live_subs acc b1 = map (renewed now) (live_subs acc ?b)"
      using first(2) by (intro live_renewed [OF subs_ok_run assms(3)]) simp
    then show ?thesis using assms(3) by (simp add: renewed_item)
  qed
  then show ?thesis using first(1) second by simp
qed

text \<open>Ada, who pays by card, has a yearly plan for 96 a year.\<close>

definition demo_acct :: string where
  "demo_acct = make_id ''acct'' 1 ''r''"

definition demo_bill_ops :: "nat bill_op list" where
  "demo_bill_ops =
     [OpenAccount 1 ''r'' ''ada'' ''Ada'' ''ada@x'' ''USD'',
      PutMethod demo_acct (Some \<lparr>pm_id = ''m'', pm_type = by_card, pm_last4 = None, pm_brand = None,
        pm_expiryMonth = None, pm_expiryYear = None, pm_isDefault = True\<rparr>),
      Subscribe 2 ''r'' demo_acct ''api'' \<lparr>pr_type = subscription_pricing, pr_basePrice = Some 10,
        pr_currency = None, pr_tiers = None, pr_trialDays = None, pr_usagePricing = None\<rparr> None (Some annual)]"

definition demo_bills :: "(nat BillingSystem \<times> Invoice option) \<times> (nat BillingSystem \<times> Invoice option)" where
  "demo_bills =
     (let r1 = processBilling 3 (\<lambda>_. ''r'') demo_acct [] (bill_run demo_bill_ops)
      in (r1, processBilling 3 (\<lambda>_. ''s'') demo_acct [] (fst r1)))"

lemma demo_bills_ok:
  "snd (fst demo_bills) \<noteq> None \<and> snd (snd demo_bills) \<noteq> None \<and>
   list_all (\<lambda>s. \<not> sb_cancelAtPeriodEnd s) (live_subs demo_acct (bill_run demo_bill_ops)) \<and>
   map (\<lambda>s. (sb_status s, sb_pricePerPeriod s)) (live_subs demo_acct (bill_run demo_bill_ops)) = [(sub_active, 96)]"
  by code_simp

lemma hd_take_one: "take 1 xs = [x] \<Longrightarrow> hd xs = x"
  by (cases xs) simp_all

theorem billing_ignores_periods_witness:
  "\<exists>i1 i2. snd (fst demo_bills) = Some i1 \<and> snd (snd demo_bills) = Some i2 \<and>
     li_total (hd (iv_lineItems i1)) = 96 \<and> li_total (hd (iv_lineItems i2)) = 96"
proof -
  let ?b = "bill_run demo_bill_ops"
  obtain b1 i1 b2 i2 where r: "fst demo_bills = (b1, Some i1)" "snd demo_bills = (b2, Some i2)"
    using demo_bills_ok by (cases "fst demo_bills"; cases "snd demo_bills") auto
  have "processBilling 3 (\<lambda>_. ''r'') demo_acct [] ?b = (b1, Some i1)"
    and "processBilling 3 (\<lambda>_. ''s'') demo_acct [] b1 = (b2, Some i2)"
    using r by (auto simp: demo_bills_def Let_def)
  note twice = billing_ignores_periods [OF this]
  obtain s where s: "live_subs demo_acct ?b = [s]" "sb_pricePerPeriod s = 96" "sb_status s = sub_active"
      "\<not> sb_cancelAtPeriodEnd s"
    using demo_bills_ok by (cases "live_subs demo_acct ?b") auto
  then have "take 1 (iv_lineItems i1) = [subscription_item s]" "take 1 (iv_lineItems i2) = [subscription_item s]"
    using twice by simp_all
  then have "hd (iv_lineItems i1) = subscription_item s" "hd (iv_lineItems i2) = subscription_item s"
    by (simp_all add: hd_take_one)
  then show ?thesis using r s by (simp add: subscription_item_total)
qed

end
