(* ===== verification/LighthouseTypes.thy ===== *)
theory LighthouseTypes
  imports Json JsMap
begin

text \<open>
  The data of the token hub: the types of \<open>packages/lighthouse/src/types.ts\<close>. Dates are milliseconds;
  the scores and volumes of tokens are whole numbers; confidences and the results of an analysis are
  rationals. A property that may be missing is an option.
\<close>

section \<open>Tokens\<close>

datatype EntityType =
    E_USER | E_DATA | E_AI_MODEL | E_BOT | E_AGENT | E_ITEM | E_SERVICE | E_TRANSACTION
  | E_DOCUMENT | E_MEDIA | E_CODE | E_WORKFLOW | E_POLICY | E_SECRET | E_DEVICE | E_NETWORK
  | E_QUANTUM_RESOURCE | E_NEURAL_PATTERN

primrec entity_str :: "EntityType \<Rightarrow> string" where
  "entity_str E_USER = ''user''"
| "entity_str E_DATA = ''data''"
| "entity_str E_AI_MODEL = ''ai_model''"
| "entity_str E_BOT = ''bot''"
| "entity_str E_AGENT = ''agent''"
| "entity_str E_ITEM = ''item''"
| "entity_str E_SERVICE = ''service''"
| "entity_str E_TRANSACTION = ''transaction''"
| "entity_str E_DOCUMENT = ''document''"
| "entity_str E_MEDIA = ''media''"
| "entity_str E_CODE = ''code''"
| "entity_str E_WORKFLOW = ''workflow''"
| "entity_str E_POLICY = ''policy''"
| "entity_str E_SECRET = ''secret''"
| "entity_str E_DEVICE = ''device''"
| "entity_str E_NETWORK = ''network''"
| "entity_str E_QUANTUM_RESOURCE = ''quantum_resource''"
| "entity_str E_NEURAL_PATTERN = ''neural_pattern''"

datatype DataClassification =
    C_public | C_internal | C_confidential | C_classified | C_void

primrec lh_class_str :: "DataClassification \<Rightarrow> string" where
  "lh_class_str C_public = ''public''"
| "lh_class_str C_internal = ''internal''"
| "lh_class_str C_confidential = ''confidential''"
| "lh_class_str C_classified = ''classified''"
| "lh_class_str C_void = ''void''"

datatype TokenStatus =
    T_active | T_suspended | T_revoked | T_expired | T_rotating | T_quarantined | T_compromised

record TokenHeader =
  th_algorithm :: string
  th_version :: string
  th_entityType :: EntityType
  th_issuer :: string
  th_issuedAt :: int

record AccessPattern =
  pa_resource :: string
  pa_frequency :: int
  pa_lastAccessed :: int
  pa_typicalTime :: string

record BehaviouralFingerprint =
  fp_accessPatterns :: "AccessPattern list"
  fp_typicalLocations :: "string list"
  fp_typicalHours :: "int list"
  fp_typicalDevices :: "string list"
  fp_interactionFrequency :: int
  fp_dataVolumeTypical :: int
  fp_anomalyScore :: int
  fp_lastUpdated :: int

record TokenPayload =
  pl_entityId :: string
  pl_entityType :: EntityType
  pl_entityHash :: string
  pl_permissions :: "string list"
  pl_riskScore :: int
  pl_fingerprint :: BehaviouralFingerprint
  pl_classification :: DataClassification
  pl_hiveNodeId :: string
  pl_voidKeyId :: "string option"
  pl_parentTokenId :: "string option"
  pl_chainId :: string
  pl_nonce :: string
  pl_customClaims :: "(string \<times> jsval) list"

record TokenSignature =
  sg_algorithm :: string
  sg_value :: string
  sg_publicKeyId :: string
  sg_hybridSignature :: "string option"
  sg_timestamp :: int

record AuditChainEntry =
  ac_id :: string
  ac_previousHash :: string
  ac_action :: string
  ac_actor :: string
  ac_timestamp :: int
  ac_hash :: string

record TokenRotation =
  ro_previousTokenId :: string
  ro_newTokenId :: string
  ro_reason :: string
  ro_rotatedAt :: int
  ro_rotatedBy :: string

record TokenMetadata =
  tm_createdBy :: string
  tm_createdReason :: string
  tm_lastModifiedBy :: "string option"
  tm_tags :: "string list"
  tm_auditChain :: "AuditChainEntry list"
  tm_rotationHistory :: "TokenRotation list"
  tm_verificationCount :: nat
  tm_suspicionCount :: nat

record UniversalEntityToken =
  tk_id :: string
  tk_entityId :: string
  tk_entityType :: EntityType
  tk_version :: nat
  tk_header :: TokenHeader
  tk_payload :: TokenPayload
  tk_signature :: TokenSignature
  tk_status :: TokenStatus
  tk_createdAt :: int
  tk_expiresAt :: "int option"
  tk_revokedAt :: "int option"
  tk_lastVerifiedAt :: "int option"
  tk_rotatedAt :: "int option"
  tk_metadata :: TokenMetadata

section \<open>Threats\<close>

datatype ThreatType =
    CREDENTIAL_STUFFING | ACCOUNT_TAKEOVER | PRIVILEGE_ESCALATION | IMPOSSIBLE_TRAVEL
  | BRUTE_FORCE | DATA_EXFILTRATION | DATA_TAMPERING | UNAUTHORISED_ACCESS | DATA_POISONING
  | AI_JAILBREAK | BOT_ABUSE | AGENT_HIJACKING | MODEL_EXTRACTION | PROMPT_INJECTION
  | LATERAL_MOVEMENT | SUPPLY_CHAIN | INSIDER_THREAT | ZERO_DAY | RANSOMWARE | QUANTUM_ATTACK
  | HARVEST_NOW_DECRYPT_LATER | NEURAL_HIJACKING | THOUGHT_EXTRACTION

datatype ThreatSeverity =
    V_info | V_low | V_medium | V_high | V_critical | V_catastrophic

datatype ThreatStatus =
    H_detected | H_investigating | H_confirmed | H_contained | H_eradicated | H_recovered
  | H_false_positive | H_warp_tunnelled

datatype IndicatorType =
    I_ip_address | I_domain | I_url | I_file_hash | I_email | I_user_agent
  | I_behaviour_pattern | I_token_pattern

datatype ResolutionAction =
    RA_blocked | RA_quarantined | RA_remediated | RA_accepted_risk | RA_false_positive
  | RA_escalated

record ThreatEvidence =
  ev_type :: string
  ev_description :: string
  ev_data :: jsval
  ev_timestamp :: int
  ev_source :: string
  ev_confidence :: rat

record ThreatIndicator =
  in_type :: IndicatorType
  in_value :: string
  in_confidence :: rat
  in_source :: string
  in_firstSeen :: int
  in_lastSeen :: int

record ThreatResolution =
  rs_action :: ResolutionAction
  rs_description :: string
  rs_resolvedBy :: string
  rs_resolvedAt :: int
  rs_preventionMeasures :: "string list"
  rs_lessonsLearned :: "string list"

record ThreatEvent =
  te_id :: string
  te_tokenId :: string
  te_entityId :: string
  te_entityType :: EntityType
  te_type :: ThreatType
  te_severity :: ThreatSeverity
  te_confidence :: rat
  te_description :: string
  te_evidence :: "ThreatEvidence list"
  te_indicators :: "ThreatIndicator list"
  te_status :: ThreatStatus
  te_detectedAt :: int
  te_resolvedAt :: "int option"
  te_warpTunnelTriggered :: bool
  te_iceBoxId :: "string option"
  te_assignedTo :: "string option"
  te_resolution :: "ThreatResolution option"
  te_mitreTactics :: "string list"
  te_mitreTechniques :: "string list"

section \<open>Warp tunnel\<close>

datatype WarpTunnelStatus =
    W_scanning | W_capturing | W_encrypting | W_transferring | W_verifying | W_completed
  | W_failed | W_rolled_back

datatype warp_recommendation =
    R_transfer | R_monitor | R_release

record ScanFinding =
  sf_type :: string
  sf_severity :: ThreatSeverity
  sf_description :: string
  sf_evidence :: string
  sf_confidence :: rat

record WarpScanResult =
  ws_scanId :: string
  ws_scannedAt :: int
  ws_duration :: int
  ws_findings :: "ScanFinding list"
  ws_riskScore :: int
  ws_recommendation :: warp_recommendation
  ws_signatures :: "string list"

text \<open>The state of a snapshot is the object \<open>{ entityId, entityType, capturedAt, metadata: {} }\<close>, or \<open>{}\<close>
  before the capture; it is kept as its JSON text.\<close>

record EntitySnapshot =
  es_entityId :: string
  es_entityType :: EntityType
  es_capturedAt :: int
  es_state :: string
  es_hash :: string
  es_encryptedWith :: string
  es_size :: nat

record TransferMetrics =
  tf_scanDuration :: int
  tf_captureDuration :: int
  tf_encryptionDuration :: int
  tf_transferDuration :: int
  tf_totalDuration :: int
  tf_dataSize :: nat
  tf_compressionRatio :: rat

record WarpTunnelTransfer =
  wt_id :: string
  wt_sourceEntityId :: string
  wt_sourceEntityType :: EntityType
  wt_sourceTokenId :: string
  wt_threatEventId :: string
  wt_status :: WarpTunnelStatus
  wt_initiatedAt :: int
  wt_completedAt :: "int option"
  wt_scanResult :: WarpScanResult
  wt_captureSnapshot :: EntitySnapshot
  wt_transferMetrics :: TransferMetrics
  wt_iceBoxId :: "string option"
  wt_initiatedBy :: string
  wt_reason :: string

section \<open>Icebox\<close>

datatype IceBoxStatus =
    B_quarantined | B_analysing | B_pending_verdict | B_released | B_permanently_blocked
  | B_legal_hold | B_archived

record CodeAnalysis =
  ca_language :: "string option"
  ca_complexity :: rat
  ca_vulnerabilities :: "string list"
  ca_maliciousPatterns :: "string list"
  ca_obfuscationDetected :: bool

record StaticAnalysis =
  sa_fileType :: "string option"
  sa_fileSize :: "nat option"
  sa_hashes :: "(string \<times> string) list"
  sa_signatures :: "string list"
  sa_entropy :: rat
  sa_suspiciousPatterns :: "string list"
  sa_codeAnalysis :: "CodeAnalysis option"

record DynamicAnalysis =
  da_executionEnvironment :: string
  da_duration :: int
  da_systemCalls :: "string list"
  da_networkConnections :: "string list"
  da_fileOperations :: "string list"
  da_registryChanges :: "string list option"
  da_processCreations :: "string list"
  da_anomalies :: "string list"

record BehaviouralAnalysis =
  ba_baselineDeviation :: int
  ba_anomalousActions :: "string list"
  ba_suspiciousPatterns :: "string list"
  ba_intentClassification :: string
  ba_riskFactors :: "string list"

record NetworkConnection =
  nc_destination :: string
  nc_port :: nat
  nc_protocol :: string
  nc_bytesTransferred :: nat
  nc_suspicious :: bool

record NetworkAnalysis =
  na_connections :: "NetworkConnection list"
  na_dnsQueries :: "string list"
  na_dataTransferred :: nat
  na_suspiciousEndpoints :: "string list"
  na_c2Detected :: bool

record ForensicEvent =
  fe_timestamp :: int
  fe_type :: string
  fe_description :: string
  fe_severity :: ThreatSeverity
  fe_evidence :: string

text \<open>The evidence of a finding by its constituents: the entropy, or the anomalous actions.\<close>

datatype finding_evidence = EntropyText rat | ActionTexts "string list"

record ForensicFinding =
  ff_id :: string
  ff_type :: string
  ff_severity :: ThreatSeverity
  ff_description :: string
  ff_evidence :: finding_evidence
  ff_recommendation :: string
  ff_confidence :: rat

record ForensicAnalysis =
  fa_id :: string
  fa_startedAt :: int
  fa_completedAt :: "int option"
  fa_analyst :: string
  fa_staticAnalysis :: StaticAnalysis
  fa_dynamicAnalysis :: "DynamicAnalysis option"
  fa_behaviouralAnalysis :: BehaviouralAnalysis
  fa_networkAnalysis :: "NetworkAnalysis option"
  fa_timeline :: "ForensicEvent list"
  fa_findings :: "ForensicFinding list"
  fa_riskScore :: rat
  fa_confidence :: rat

datatype VerdictDecision =
    D_release | D_block | D_remediate_and_release | D_escalate | D_legal_action | D_destroy

primrec decision_str :: "VerdictDecision \<Rightarrow> string" where
  "decision_str D_release = ''release''"
| "decision_str D_block = ''block''"
| "decision_str D_remediate_and_release = ''remediate_and_release''"
| "decision_str D_escalate = ''escalate''"
| "decision_str D_legal_action = ''legal_action''"
| "decision_str D_destroy = ''destroy''"

record IceBoxVerdict =
  vd_decision :: VerdictDecision
  vd_reason :: string
  vd_decidedBy :: string
  vd_decidedAt :: int
  vd_conditions :: "string list option"
  vd_followUpActions :: "string list"

record IceBoxEntry =
  ib_id :: string
  ib_entityId :: string
  ib_entityType :: EntityType
  ib_tokenId :: string
  ib_warpTunnelId :: string
  ib_threatEventId :: string
  ib_status :: IceBoxStatus
  ib_quarantinedAt :: int
  ib_releasedAt :: "int option"
  ib_deletedAt :: "int option"
  ib_snapshot :: EntitySnapshot
  ib_analysis :: ForensicAnalysis
  ib_verdict :: "IceBoxVerdict option"
  ib_assignedAnalyst :: "string option"
  ib_legalHold :: bool
  ib_retentionUntil :: int
  ib_tags :: "string list"
  ib_notes :: "string list"

section \<open>Activity, metrics, configuration\<close>

datatype activity_result =
    A_success | A_failure | A_blocked

record TokenActivity =
  av_tokenId :: string
  av_entityId :: string
  av_entityType :: EntityType
  av_action :: string
  av_resource :: string
  av_ipAddress :: "string option"
  av_location :: "string option"
  av_timestamp :: int
  av_duration :: "int option"
  av_result :: activity_result
  av_riskScore :: int
  av_anomalous :: bool

record RiskyEntity =
  rk_entityId :: string
  rk_entityType :: EntityType
  rk_tokenId :: string
  rk_riskScore :: int
  rk_threatCount :: nat
  rk_lastThreatAt :: int

record LighthouseMetrics =
  lm_totalTokens :: nat
  lm_activeTokens :: nat
  lm_revokedTokens :: nat
  lm_quarantinedTokens :: nat
  lm_threatsDetected :: nat
  lm_threatsResolved :: nat
  lm_warpTunnelTransfers :: nat
  lm_iceBoxEntries :: nat
  lm_averageRiskScore :: int
  lm_tokensByType :: "(EntityType, nat) jsmap"
  lm_threatsByType :: "(ThreatType, nat) jsmap"
  lm_threatsBySeverity :: "(ThreatSeverity, nat) jsmap"
  lm_topRiskyEntities :: "RiskyEntity list"
  lm_recentAlerts :: "ThreatEvent list"

record ThreatIntelligence =
  ti_id :: string
  ti_source :: string
  ti_type :: IndicatorType
  ti_value :: string
  ti_severity :: ThreatSeverity
  ti_confidence :: rat
  ti_description :: string
  ti_tags :: "string list"
  ti_firstSeen :: int
  ti_lastSeen :: int
  ti_expiresAt :: "int option"
  ti_relatedIndicators :: "string list"

record RiskThresholds =
  rt_autoWarpTunnel :: int
  rt_humanReview :: int
  rt_autoBlock :: int
  rt_alertThreshold :: int

record WarpTunnelConfig =
  wc_enabled :: bool
  wc_autoTriggerThreshold :: int
  wc_scanTimeout :: int
  wc_transferTimeout :: int
  wc_encryptionAlgorithm :: string
  wc_verificationRequired :: bool

record IceBoxConfig =
  ic_defaultRetentionDays :: int
  ic_legalHoldRetentionDays :: int
  ic_autoAnalysis :: bool
  ic_aiAnalysisEnabled :: bool
  ic_sandboxEnabled :: bool
  ic_maxConcurrentAnalyses :: int

record MonitoringConfig =
  mc_realTimeEnabled :: bool
  mc_batchIntervalMs :: int
  mc_retentionDays :: int
  mc_alertChannels :: "string list"
  mc_metricsEnabled :: bool
  mc_dashboardEnabled :: bool

record LighthouseConfig =
  lc_tokenAlgorithm :: string
  lc_tokenExpiry :: int
  lc_rotationInterval :: int
  lc_riskThresholds :: RiskThresholds
  lc_warpTunnel :: WarpTunnelConfig
  lc_iceBox :: IceBoxConfig
  lc_monitoring :: MonitoringConfig

record PartialLighthouseConfig =
  qc_tokenAlgorithm :: "string option"
  qc_tokenExpiry :: "int option"
  qc_rotationInterval :: "int option"
  qc_riskThresholds :: "RiskThresholds option"
  qc_warpTunnel :: "WarpTunnelConfig option"
  qc_iceBox :: "IceBoxConfig option"
  qc_monitoring :: "MonitoringConfig option"

end
