(* ===== verification/Lighthouse.thy ===== *)
theory Lighthouse
  imports LighthouseTypes
begin

text \<open>
  The token hub of \<open>packages/lighthouse/src/LighthouseService.ts\<close>: tokens for entities, threat events,
  the warp tunnel that moves a suspicious entity into the icebox, forensic analysis and verdicts.

  Every operation reads the clock once (\<open>le_now\<close>) and draws random texts (\<open>le_text k\<close> is the \<open>k\<close>-th); the
  readings of the warp pipeline, which measures its steps, are \<open>le_tick\<close>. Each asynchronous operation is
  awaited before the next one, except the analysis that a transfer starts and does not await: it is under
  way in \<open>lh_pending\<close> until \<open>analysisEnd\<close>, whenever that comes. A token is one object, kept in the map
  of tokens under its identifier. Local time is UTC. Listeners only take note of events.
\<close>

record lh_env =
  le_now :: int
  le_text :: "nat \<Rightarrow> string"
  le_tick :: "nat \<Rightarrow> int"
  le_scan :: int

definition later_draws :: "nat \<Rightarrow> lh_env \<Rightarrow> lh_env" where
  "later_draws n e = e\<lparr>le_text := (\<lambda>k. le_text e (k + n))\<rparr>"

text \<open>\<open>Number.prototype.toString\<close> for fractions, and \<open>Math.log2\<close>.\<close>

record lh_host =
  lo_num :: "rat \<Rightarrow> string"
  lo_log2 :: "rat \<Rightarrow> rat"

datatype lh_data =
    TokenIssued string string EntityType
  | TokenRotated string string string
  | TokenRevoked string string string
  | TokenSuspicious string string
  | RiskUpdated string int int string
  | ThreatDetected ThreatEvent
  | WarpInitiated string string EntityType string
  | WarpCompleted string "string option"
  | WarpFailed string
  | EntryAdded string string
  | AnalysisComplete string rat
  | VerdictIssued string VerdictDecision string

primrec lh_event_name :: "lh_data \<Rightarrow> string" where
  "lh_event_name (TokenIssued _ _ _) = ''token.issued''"
| "lh_event_name (TokenRotated _ _ _) = ''token.rotated''"
| "lh_event_name (TokenRevoked _ _ _) = ''token.revoked''"
| "lh_event_name (TokenSuspicious _ _) = ''token.suspicious''"
| "lh_event_name (RiskUpdated _ _ _ _) = ''risk.updated''"
| "lh_event_name (ThreatDetected _) = ''threat.detected''"
| "lh_event_name (WarpInitiated _ _ _ _) = ''warp_tunnel.initiated''"
| "lh_event_name (WarpCompleted _ _) = ''warp_tunnel.completed''"
| "lh_event_name (WarpFailed _) = ''warp_tunnel.failed''"
| "lh_event_name (EntryAdded _ _) = ''icebox.entry_added''"
| "lh_event_name (AnalysisComplete _ _) = ''icebox.analysis_complete''"
| "lh_event_name (VerdictIssued _ _ _) = ''icebox.verdict_issued''"

record 'h Lighthouse =
  lh_config :: LighthouseConfig
  lh_tokens :: "(string, UniversalEntityToken) jsmap"
  lh_tokensByEntity :: "(string, string) jsmap"
  lh_threats :: "(string, ThreatEvent) jsmap"
  lh_warpTransfers :: "(string, WarpTunnelTransfer) jsmap"
  lh_iceBox :: "(string, IceBoxEntry) jsmap"
  lh_activities :: "TokenActivity list"
  lh_threatIntel :: "(string, ThreatIntelligence) jsmap"
  lh_handlers :: "(string, 'h list) jsmap"
  lh_signingKeyId :: string
  lh_pending :: "string list"
  lh_delivered :: "('h \<times> lh_data) list"

section \<open>Configuration\<close>

definition lh_DEFAULT_CONFIG :: LighthouseConfig where
  "lh_DEFAULT_CONFIG =
     \<lparr>lc_tokenAlgorithm = ''ML-DSA-65'', lc_tokenExpiry = 0, lc_rotationInterval = 86400 * 30,
      lc_riskThresholds = \<lparr>rt_autoWarpTunnel = 85, rt_humanReview = 65, rt_autoBlock = 95, rt_alertThreshold = 50\<rparr>,
      lc_warpTunnel = \<lparr>wc_enabled = True, wc_autoTriggerThreshold = 85, wc_scanTimeout = 5000,
        wc_transferTimeout = 10000, wc_encryptionAlgorithm = ''ML-KEM-1024'', wc_verificationRequired = True\<rparr>,
      lc_iceBox = \<lparr>ic_defaultRetentionDays = 90, ic_legalHoldRetentionDays = 2555, ic_autoAnalysis = True,
        ic_aiAnalysisEnabled = True, ic_sandboxEnabled = True, ic_maxConcurrentAnalyses = 10\<rparr>,
      lc_monitoring = \<lparr>mc_realTimeEnabled = True, mc_batchIntervalMs = 5000, mc_retentionDays = 365,
        mc_alertChannels = [''email'', ''slack'', ''webhook''], mc_metricsEnabled = True, mc_dashboardEnabled = True\<rparr>\<rparr>"

definition lh_merge_config :: "PartialLighthouseConfig \<Rightarrow> LighthouseConfig" where
  "lh_merge_config q =
     (let b = lh_DEFAULT_CONFIG
      in \<lparr>lc_tokenAlgorithm = dflt (qc_tokenAlgorithm q) (lc_tokenAlgorithm b),
          lc_tokenExpiry = dflt (qc_tokenExpiry q) (lc_tokenExpiry b),
          lc_rotationInterval = dflt (qc_rotationInterval q) (lc_rotationInterval b),
          lc_riskThresholds = dflt (qc_riskThresholds q) (lc_riskThresholds b),
          lc_warpTunnel = dflt (qc_warpTunnel q) (lc_warpTunnel b),
          lc_iceBox = dflt (qc_iceBox q) (lc_iceBox b),
          lc_monitoring = dflt (qc_monitoring q) (lc_monitoring b)\<rparr>)"

definition new_Lighthouse :: "PartialLighthouseConfig \<Rightarrow> 'h Lighthouse" where
  "new_Lighthouse q =
     \<lparr>lh_config = lh_merge_config q, lh_tokens = [], lh_tokensByEntity = [], lh_threats = [],
      lh_warpTransfers = [], lh_iceBox = [], lh_activities = [], lh_threatIntel = [], lh_handlers = [],
      lh_signingKeyId = ''lighthouse_key_v1'', lh_pending = [], lh_delivered = []\<rparr>"

section \<open>Events\<close>

definition lh_on :: "string \<Rightarrow> 'h \<Rightarrow> 'h Lighthouse \<Rightarrow> 'h Lighthouse" where
  "lh_on event h l =
     (let hs = dflt (jm_get (lh_handlers l) event) []
      in l\<lparr>lh_handlers := jm_set event (if h \<in> set hs then hs else hs @ [h]) (lh_handlers l)\<rparr>)"

definition lh_emit :: "lh_data \<Rightarrow> 'h Lighthouse \<Rightarrow> 'h Lighthouse" where
  "lh_emit d l =
     l\<lparr>lh_delivered := lh_delivered l @ map (\<lambda>h. (h, d)) (dflt (jm_get (lh_handlers l) (lh_event_name d)) [])\<rparr>"

section \<open>Hashes and identifiers\<close>

definition sha3Hash :: "string \<Rightarrow> string" where
  "sha3Hash data = pad_start 64 (CHR ''0'') (radix_str 16 (nat \<bar>sint (fold hash_step data 0)\<bar>))"

definition hashEntity :: "string \<Rightarrow> EntityType \<Rightarrow> string" where
  "hashEntity entityId ty = sha3Hash (entityId @ '':'' @ entity_str ty)"

definition hashChainEntry :: "string \<Rightarrow> string \<Rightarrow> int \<Rightarrow> string" where
  "hashChainEntry action actor t = sha3Hash (action @ '':'' @ actor @ '':'' @ iso_str t)"

definition zero_hash :: string where
  "zero_hash = replicate 64 (CHR ''0'')"

text \<open>The empty identifier has no first character: \<open>NaN\<close>.\<close>

definition assignHiveNode :: "string \<Rightarrow> string" where
  "assignHiveNode entityId =
     ''hive_node_'' @ (case entityId of [] \<Rightarrow> ''NaN'' | c # _ \<Rightarrow> nat_str (of_char c mod 10))"

definition lh_generateId :: "string \<Rightarrow> int \<Rightarrow> string \<Rightarrow> string" where
  "lh_generateId pre now random = pre @ radix_str 36 (nat now) @ ''_'' @ random"

definition generateTokenId :: "int \<Rightarrow> string \<Rightarrow> string" where
  "generateTokenId now random = lh_generateId ''uet_'' now random"

section \<open>Signatures\<close>

definition json_strings :: "string list \<Rightarrow> string" where
  "json_strings xs = json_arr (map json_quote xs)"

definition json_date :: "int \<Rightarrow> string" where
  "json_date t = json_quote (iso_str t)"

definition json_header :: "TokenHeader \<Rightarrow> string" where
  "json_header h = json_obj
     [(''algorithm'', Some (json_quote (th_algorithm h))), (''version'', Some (json_quote (th_version h))),
      (''entityType'', Some (json_quote (entity_str (th_entityType h)))),
      (''issuer'', Some (json_quote (th_issuer h))), (''issuedAt'', Some (json_date (th_issuedAt h)))]"

definition json_fingerprint :: "BehaviouralFingerprint \<Rightarrow> string" where
  "json_fingerprint f = json_obj
     [(''accessPatterns'', Some (json_arr (map (\<lambda>p. json_obj
         [(''resource'', Some (json_quote (pa_resource p))), (''frequency'', Some (int_str (pa_frequency p))),
          (''lastAccessed'', Some (json_date (pa_lastAccessed p))),
          (''typicalTime'', Some (json_quote (pa_typicalTime p)))]) (fp_accessPatterns f)))),
      (''typicalLocations'', Some (json_strings (fp_typicalLocations f))),
      (''typicalHours'', Some (json_arr (map int_str (fp_typicalHours f)))),
      (''typicalDevices'', Some (json_strings (fp_typicalDevices f))),
      (''interactionFrequency'', Some (int_str (fp_interactionFrequency f))),
      (''dataVolumeTypical'', Some (int_str (fp_dataVolumeTypical f))),
      (''anomalyScore'', Some (int_str (fp_anomalyScore f))),
      (''lastUpdated'', Some (json_date (fp_lastUpdated f)))]"

definition json_payload :: "lh_host \<Rightarrow> TokenPayload \<Rightarrow> string" where
  "json_payload ho p = json_obj
     [(''entityId'', Some (json_quote (pl_entityId p))),
      (''entityType'', Some (json_quote (entity_str (pl_entityType p)))),
      (''entityHash'', Some (json_quote (pl_entityHash p))),
      (''permissions'', Some (json_strings (pl_permissions p))),
      (''riskScore'', Some (int_str (pl_riskScore p))),
      (''behaviouralFingerprint'', Some (json_fingerprint (pl_fingerprint p))),
      (''classification'', Some (json_quote (lh_class_str (pl_classification p)))),
      (''hiveNodeId'', Some (json_quote (pl_hiveNodeId p))),
      (''voidKeyId'', map_option json_quote (pl_voidKeyId p)),
      (''parentTokenId'', map_option json_quote (pl_parentTokenId p)),
      (''chainId'', Some (json_quote (pl_chainId p))), (''nonce'', Some (json_quote (pl_nonce p))),
      (''customClaims'', Some (json_obj (json_props (lo_num ho) (pl_customClaims p))))]"

definition signature_value :: "lh_host \<Rightarrow> TokenHeader \<Rightarrow> TokenPayload \<Rightarrow> string" where
  "signature_value ho h p =
     base64url_encode (utf8_encode (sha3Hash
       (json_obj [(''header'', Some (json_header h)), (''payload'', Some (json_payload ho p))])))"

definition signToken :: "lh_host \<Rightarrow> int \<Rightarrow> TokenHeader \<Rightarrow> TokenPayload \<Rightarrow> 'h Lighthouse \<Rightarrow> TokenSignature" where
  "signToken ho now h p l =
     \<lparr>sg_algorithm = lc_tokenAlgorithm (lh_config l), sg_value = signature_value ho h p,
      sg_publicKeyId = lh_signingKeyId l, sg_hybridSignature = None, sg_timestamp = now\<rparr>"

definition verifySignature :: "lh_host \<Rightarrow> UniversalEntityToken \<Rightarrow> bool" where
  "verifySignature ho t \<longleftrightarrow> sg_value (tk_signature t) = signature_value ho (tk_header t) (tk_payload t)"

section \<open>Changing a token\<close>

text \<open>The code changes the object it got from the map.\<close>

definition lh_update :: "string \<Rightarrow> (UniversalEntityToken \<Rightarrow> UniversalEntityToken) \<Rightarrow> 'h Lighthouse \<Rightarrow> 'h Lighthouse" where
  "lh_update tid f l =
     (case jm_get (lh_tokens l) tid of
        None \<Rightarrow> l
      | Some t \<Rightarrow> l\<lparr>lh_tokens := jm_set tid (f t) (lh_tokens l)\<rparr>)"

definition tk_meta :: "(TokenMetadata \<Rightarrow> TokenMetadata) \<Rightarrow> UniversalEntityToken \<Rightarrow> UniversalEntityToken" where
  "tk_meta f t = t\<lparr>tk_metadata := f (tk_metadata t)\<rparr>"

definition suspect :: "UniversalEntityToken \<Rightarrow> UniversalEntityToken" where
  "suspect = tk_meta (\<lambda>m. m\<lparr>tm_suspicionCount := tm_suspicionCount m + 1\<rparr>)"

definition appendAuditChain :: "int \<Rightarrow> string \<Rightarrow> string \<Rightarrow> string \<Rightarrow> UniversalEntityToken \<Rightarrow> UniversalEntityToken" where
  "appendAuditChain now random action actor t =
     (let chain = tm_auditChain (tk_metadata t);
          previousHash = (if chain = [] then zero_hash else ac_hash (List.last chain))
      in tk_meta (\<lambda>m. m\<lparr>tm_auditChain := chain @
           [\<lparr>ac_id = lh_generateId [] now random, ac_previousHash = previousHash, ac_action = action,
             ac_actor = actor, ac_timestamp = now, ac_hash = hashChainEntry action actor now\<rparr>]\<rparr>) t)"

definition createInitialFingerprint :: "int \<Rightarrow> BehaviouralFingerprint" where
  "createInitialFingerprint now =
     \<lparr>fp_accessPatterns = [], fp_typicalLocations = [], fp_typicalHours = [], fp_typicalDevices = [],
      fp_interactionFrequency = 0, fp_dataVolumeTypical = 0, fp_anomalyScore = 0, fp_lastUpdated = now\<rparr>"

section \<open>Issuing\<close>

record IssueTokenOptions =
  io_permissions :: "string list option"
  io_initialRiskScore :: "int option"
  io_classification :: "DataClassification option"
  io_hiveNodeId :: "string option"
  io_voidKeyId :: "string option"
  io_parentTokenId :: "string option"
  io_customClaims :: "(string \<times> jsval) list option"
  io_createdBy :: "string option"
  io_reason :: "string option"
  io_tags :: "string list option"

definition no_options :: IssueTokenOptions where
  "no_options =
     \<lparr>io_permissions = None, io_initialRiskScore = None, io_classification = None, io_hiveNodeId = None,
      io_voidKeyId = None, io_parentTokenId = None, io_customClaims = None, io_createdBy = None,
      io_reason = None, io_tags = None\<rparr>"

text \<open>The draws: identifier of the token, of its chain, the nonce, and the identifier of the first entry.\<close>

definition issue_payload :: "lh_env \<Rightarrow> string \<Rightarrow> EntityType \<Rightarrow> IssueTokenOptions \<Rightarrow> TokenPayload" where
  "issue_payload e entityId ty op =
     \<lparr>pl_entityId = entityId, pl_entityType = ty, pl_entityHash = hashEntity entityId ty,
      pl_permissions = dflt (io_permissions op) [], pl_riskScore = num_or (io_initialRiskScore op) 10,
      pl_fingerprint = createInitialFingerprint (le_now e),
      pl_classification = dflt (io_classification op) C_internal,
      pl_hiveNodeId = str_or (io_hiveNodeId op) (assignHiveNode entityId),
      pl_voidKeyId = io_voidKeyId op, pl_parentTokenId = io_parentTokenId op,
      pl_chainId = lh_generateId ''chain_'' (le_now e) (le_text e 1), pl_nonce = le_text e 2,
      pl_customClaims = dflt (io_customClaims op) []\<rparr>"

definition issue_token :: "lh_host \<Rightarrow> lh_env \<Rightarrow> string \<Rightarrow> EntityType \<Rightarrow> IssueTokenOptions \<Rightarrow> 'h Lighthouse \<Rightarrow> UniversalEntityToken" where
  "issue_token ho e entityId ty op l =
     (let now = le_now e;
          payload = issue_payload e entityId ty op;
          header = \<lparr>th_algorithm = lc_tokenAlgorithm (lh_config l), th_version = ''2.0'', th_entityType = ty,
                    th_issuer = ''lighthouse_node_primary'', th_issuedAt = now\<rparr>;
          createdBy = str_or (io_createdBy op) ''system''
      in \<lparr>tk_id = generateTokenId now (le_text e 0), tk_entityId = entityId, tk_entityType = ty, tk_version = 1,
          tk_header = header, tk_payload = payload, tk_signature = signToken ho now header payload l,
          tk_status = T_active, tk_createdAt = now,
          tk_expiresAt = (if lc_tokenExpiry (lh_config l) > 0
                          then Some (now + lc_tokenExpiry (lh_config l) * 1000) else None),
          tk_revokedAt = None, tk_lastVerifiedAt = None, tk_rotatedAt = None,
          tk_metadata =
            \<lparr>tm_createdBy = createdBy, tm_createdReason = str_or (io_reason op) ''Entity registration'',
             tm_lastModifiedBy = None, tm_tags = dflt (io_tags op) [],
             tm_auditChain =
               [\<lparr>ac_id = lh_generateId [] now (le_text e 3), ac_previousHash = zero_hash,
                 ac_action = ''token.issued'', ac_actor = createdBy, ac_timestamp = now,
                 ac_hash = hashChainEntry ''token.issued'' createdBy now\<rparr>],
             tm_rotationHistory = [], tm_verificationCount = 0, tm_suspicionCount = 0\<rparr>\<rparr>)"

definition issueToken ::
  "lh_host \<Rightarrow> lh_env \<Rightarrow> string \<Rightarrow> EntityType \<Rightarrow> IssueTokenOptions \<Rightarrow> 'h Lighthouse \<Rightarrow> 'h Lighthouse \<times> UniversalEntityToken" where
  "issueToken ho e entityId ty op l =
     (let t = issue_token ho e entityId ty op l
      in (lh_emit (TokenIssued (tk_id t) entityId ty)
            (l\<lparr>lh_tokens := jm_set (tk_id t) t (lh_tokens l),
               lh_tokensByEntity := jm_set entityId (tk_id t) (lh_tokensByEntity l)\<rparr>), t))"

section \<open>Revocation, verification, rotation\<close>

definition revoke :: "int \<Rightarrow> string \<Rightarrow> string \<Rightarrow> UniversalEntityToken \<Rightarrow> UniversalEntityToken" where
  "revoke now random revokedBy t =
     appendAuditChain now random ''token.revoked'' revokedBy (t\<lparr>tk_status := T_revoked, tk_revokedAt := Some now\<rparr>)"

definition revokeToken :: "lh_env \<Rightarrow> string \<Rightarrow> string \<Rightarrow> string \<Rightarrow> 'h Lighthouse \<Rightarrow> 'h Lighthouse" where
  "revokeToken e tokenId reason revokedBy l =
     (case jm_get (lh_tokens l) tokenId of
        None \<Rightarrow> l
      | Some _ \<Rightarrow> lh_emit (TokenRevoked tokenId reason revokedBy)
          (lh_update tokenId (revoke (le_now e) (le_text e 0) revokedBy) l))"

definition flagSuspiciousToken :: "lh_env \<Rightarrow> string \<Rightarrow> string \<Rightarrow> 'h Lighthouse \<Rightarrow> 'h Lighthouse" where
  "flagSuspiciousToken e tokenId reason l =
     (case jm_get (lh_tokens l) tokenId of
        None \<Rightarrow> l
      | Some _ \<Rightarrow> lh_emit (TokenSuspicious tokenId reason)
          (lh_update tokenId (appendAuditChain (le_now e) (le_text e 0) (''suspicious.'' @ reason) ''lighthouse_auto'' \<circ> suspect) l))"

datatype token_refusal =
    TokenNotFound
  | NotActive TokenStatus
  | TokenExpired
  | InvalidSignature
  | IntegrityFailed

definition verifyToken ::
  "lh_host \<Rightarrow> lh_env \<Rightarrow> string \<Rightarrow> 'h Lighthouse \<Rightarrow> 'h Lighthouse \<times> (token_refusal + UniversalEntityToken)" where
  "verifyToken ho e tokenId l =
     (case jm_get (lh_tokens l) tokenId of None \<Rightarrow> (l, Inl TokenNotFound) | Some t \<Rightarrow>
        if tk_status t \<noteq> T_active then (l, Inl (NotActive (tk_status t)))
        else if (case tk_expiresAt t of None \<Rightarrow> False | Some d \<Rightarrow> le_now e > d)
        then (revokeToken e tokenId ''expired'' ''system'' l, Inl TokenExpired)
        else if \<not> verifySignature ho t
        then (flagSuspiciousToken e tokenId ''signature_invalid'' l, Inl InvalidSignature)
        else if hashEntity (tk_entityId t) (tk_entityType t) \<noteq> pl_entityHash (tk_payload t)
        then (flagSuspiciousToken e tokenId ''entity_tampered'' l, Inl IntegrityFailed)
        else
          (let t1 = tk_meta (\<lambda>m. m\<lparr>tm_verificationCount := tm_verificationCount m + 1\<rparr>)
                      (t\<lparr>tk_lastVerifiedAt := Some (le_now e)\<rparr>)
           in (lh_update tokenId (\<lambda>_. t1) l, Inr t1)))"

definition getEntityToken :: "string \<Rightarrow> 'h Lighthouse \<Rightarrow> UniversalEntityToken option" where
  "getEntityToken entityId l =
     (case jm_get (lh_tokensByEntity l) entityId of
        None \<Rightarrow> None
      | Some tokenId \<Rightarrow> if tokenId = [] then None else jm_get (lh_tokens l) tokenId)"

definition rotation_options :: "string \<Rightarrow> string \<Rightarrow> string \<Rightarrow> UniversalEntityToken \<Rightarrow> IssueTokenOptions" where
  "rotation_options tokenId reason rotatedBy old =
     no_options\<lparr>io_permissions := Some (pl_permissions (tk_payload old)),
       io_classification := Some (pl_classification (tk_payload old)),
       io_hiveNodeId := Some (pl_hiveNodeId (tk_payload old)),
       io_voidKeyId := pl_voidKeyId (tk_payload old), io_parentTokenId := Some tokenId,
       io_createdBy := Some rotatedBy, io_reason := Some (''Rotation: '' @ reason)\<rparr>"

text \<open>\<^const>\<open>Inl\<close>: there is no such token.\<close>

definition rotateToken ::
  "lh_host \<Rightarrow> lh_env \<Rightarrow> string \<Rightarrow> string \<Rightarrow> string \<Rightarrow> 'h Lighthouse \<Rightarrow> 'h Lighthouse \<times> (string + UniversalEntityToken)" where
  "rotateToken ho e tokenId reason rotatedBy l =
     (case jm_get (lh_tokens l) tokenId of None \<Rightarrow> (l, Inl tokenId) | Some old \<Rightarrow>
       (let (l1, new) = issueToken ho e (tk_entityId old) (tk_entityType old)
              (rotation_options tokenId reason rotatedBy old) l;
            rotation = \<lparr>ro_previousTokenId = tokenId, ro_newTokenId = tk_id new, ro_reason = reason,
                        ro_rotatedAt = le_now e, ro_rotatedBy = rotatedBy\<rparr>;
            l2 = lh_update (tk_id new)
                   (\<lambda>t. tk_meta (\<lambda>m. m\<lparr>tm_rotationHistory := tm_rotationHistory (tk_metadata old) @ [rotation]\<rparr>)
                          (t\<lparr>tk_version := tk_version old + 1\<rparr>)) l1;
            l3 = revokeToken (later_draws 4 e) tokenId (''Rotated: '' @ reason) rotatedBy l2
        in (lh_emit (TokenRotated tokenId (tk_id new) reason) l3,
            case jm_get (lh_tokens l3) (tk_id new) of None \<Rightarrow> Inl (tk_id new) | Some t \<Rightarrow> Inr t)))"

section \<open>Warp tunnel and icebox\<close>

text \<open>The first draws of a transfer: its identifier, then those of the scan, of the entry, of the analysis and
  of the audit entry.\<close>

definition scanEntity :: "lh_env \<Rightarrow> string \<Rightarrow> 'h Lighthouse \<Rightarrow> WarpScanResult" where
  "scanEntity e entityId l =
     (let token = getEntityToken entityId l;
          findings = (case token of None \<Rightarrow> [] | Some t \<Rightarrow>
            (if pl_riskScore (tk_payload t) > 80 then
               [\<lparr>sf_type = ''high_risk_score'', sf_severity = V_high,
                 sf_description = ''Risk score: '' @ int_str (pl_riskScore (tk_payload t)), sf_evidence = [],
                 sf_confidence = 9 / 10\<rparr>] else []) @
            (if tm_suspicionCount (tk_metadata t) > 5 then
               [\<lparr>sf_type = ''repeated_suspicion'', sf_severity = V_medium,
                 sf_description = ''Suspicion count: '' @ nat_str (tm_suspicionCount (tk_metadata t)), sf_evidence = [],
                 sf_confidence = 8 / 10\<rparr>] else []))
      in \<lparr>ws_scanId = lh_generateId [] (le_now e) (le_text e 1), ws_scannedAt = le_now e, ws_duration = le_scan e,
          ws_findings = findings,
          ws_riskScore = num_or (map_option (\<lambda>t. pl_riskScore (tk_payload t)) token) 50,
          ws_recommendation = R_transfer, ws_signatures = []\<rparr>)"

definition captureEntitySnapshot :: "int \<Rightarrow> string \<Rightarrow> EntityType \<Rightarrow> EntitySnapshot" where
  "captureEntitySnapshot now entityId ty =
     (let state = json_obj
            [(''entityId'', Some (json_quote entityId)), (''entityType'', Some (json_quote (entity_str ty))),
             (''capturedAt'', Some (json_date now)), (''metadata'', Some (json_obj []))]
      in \<lparr>es_entityId = entityId, es_entityType = ty, es_capturedAt = now, es_state = state,
          es_hash = sha3Hash state, es_encryptedWith = ''ml_kem_1024_key_v1'', es_size = length state\<rparr>)"

definition encryptSnapshot :: "EntitySnapshot \<Rightarrow> EntitySnapshot" where
  "encryptSnapshot s = s\<lparr>es_encryptedWith := ''ml_kem_1024_key_v1''\<rparr>"

definition initiateForensicAnalysis :: "lh_env \<Rightarrow> ForensicAnalysis" where
  "initiateForensicAnalysis e =
     \<lparr>fa_id = lh_generateId [] (le_now e) (le_text e 3), fa_startedAt = le_now e, fa_completedAt = None,
      fa_analyst = ''ai_lighthouse'',
      fa_staticAnalysis = \<lparr>sa_fileType = None, sa_fileSize = None, sa_hashes = [], sa_signatures = [],
        sa_entropy = 0, sa_suspiciousPatterns = [], sa_codeAnalysis = None\<rparr>,
      fa_dynamicAnalysis = None,
      fa_behaviouralAnalysis = \<lparr>ba_baselineDeviation = 0, ba_anomalousActions = [], ba_suspiciousPatterns = [],
        ba_intentClassification = ''unknown'', ba_riskFactors = []\<rparr>,
      fa_networkAnalysis = None, fa_timeline = [], fa_findings = [], fa_riskScore = 0, fa_confidence = 0\<rparr>"

definition calculateEntropy :: "lh_host \<Rightarrow> string \<Rightarrow> rat" where
  "calculateEntropy ho s =
     - sum_list (map (\<lambda>c. let q = of_nat (count_list s c) / of_nat (length s) in q * lo_log2 ho q) (remdups s))"

text \<open>The expression \<open>\d{1,3}\.\d{1,3}\.\d{1,3}\.\d{1,3}\<close>: three groups of digits followed by a dot, and a digit.\<close>

definition octet_dot :: "string \<Rightarrow> string option" where
  "octet_dot s =
     (let n = length (takeWhile is_digit s)
      in if 1 \<le> n \<and> n \<le> 3 \<and> js_startsWith (drop n s) ''.'' then Some (drop (n + 1) s) else None)"

definition ip_at :: "string \<Rightarrow> bool" where
  "ip_at s =
     (case octet_dot s of None \<Rightarrow> False | Some s1 \<Rightarrow>
      (case octet_dot s1 of None \<Rightarrow> False | Some s2 \<Rightarrow>
      (case octet_dot s2 of None \<Rightarrow> False | Some s3 \<Rightarrow> takeWhile is_digit s3 \<noteq> [])))"

definition detectSuspiciousPatterns :: "string \<Rightarrow> string list" where
  "detectSuspiciousPatterns s =
     (if js_includes s ''eval('' then [''code_injection''] else []) @
     (if js_includes s ''base64'' then [''base64_encoding''] else []) @
     (if list_ex (\<lambda>k. ip_at (drop k s)) [0..<length s] then [''ip_address_present''] else [])"

definition performStaticAnalysis :: "lh_host \<Rightarrow> EntitySnapshot \<Rightarrow> StaticAnalysis" where
  "performStaticAnalysis ho s =
     \<lparr>sa_fileType = None, sa_fileSize = Some (es_size s),
      sa_hashes = [(''sha256'', sha3Hash (es_state s)), (''sha3_256'', sha3Hash (es_state s))],
      sa_signatures = [], sa_entropy = calculateEntropy ho (es_state s),
      sa_suspiciousPatterns = detectSuspiciousPatterns (es_state s), sa_codeAnalysis = None\<rparr>"

definition performBehaviouralAnalysis :: "string \<Rightarrow> 'h Lighthouse \<Rightarrow> BehaviouralAnalysis" where
  "performBehaviouralAnalysis entityId l =
     (let score = map_option (\<lambda>t. fp_anomalyScore (pl_fingerprint (tk_payload t))) (getEntityToken entityId l)
      in \<lparr>ba_baselineDeviation = num_or score 0, ba_anomalousActions = [], ba_suspiciousPatterns = [],
          ba_intentClassification = (case score of Some k \<Rightarrow> if k > 70 then ''suspicious'' else ''normal'' | None \<Rightarrow> ''normal''),
          ba_riskFactors = (case score of Some k \<Rightarrow> if k > 50 then [''elevated_anomaly_score''] else [] | None \<Rightarrow> [])\<rparr>)"

definition performAIAnalysis :: "lh_env \<Rightarrow> ForensicAnalysis \<Rightarrow> ForensicFinding list" where
  "performAIAnalysis e a =
     (let entropy = sa_entropy (fa_staticAnalysis a);
          deviation = ba_baselineDeviation (fa_behaviouralAnalysis a);
          high = entropy > 15 / 2
      in (if high then
            [\<lparr>ff_id = lh_generateId [] (le_now e) (le_text e 0), ff_type = ''high_entropy'', ff_severity = V_medium,
              ff_description = ''High entropy detected - possible encryption or obfuscation'',
              ff_evidence = EntropyText entropy,
              ff_recommendation = ''Investigate for data exfiltration or malware'', ff_confidence = 3 / 4\<rparr>] else []) @
         (if deviation > 50 then
            [\<lparr>ff_id = lh_generateId [] (le_now e) (le_text e (if high then 1 else 0)),
              ff_type = ''behavioural_anomaly'', ff_severity = V_high,
              ff_description = ''Significant deviation from baseline: '' @ int_str deviation @ ''%'',
              ff_evidence = ActionTexts (ba_anomalousActions (fa_behaviouralAnalysis a)),
              ff_recommendation = ''Review recent activity and consider blocking'', ff_confidence = 17 / 20\<rparr>] else []))"

definition calculateForensicRiskScore :: "ForensicAnalysis \<Rightarrow> rat" where
  "calculateForensicRiskScore a =
     (let n = (\<lambda>v. of_nat (length (filter (\<lambda>f. ff_severity f = v) (fa_findings a))))
      in min 100 (of_int (ba_baselineDeviation (fa_behaviouralAnalysis a)) * (2 / 5) +
                  n V_critical * 20 + n V_high * 10 + n V_medium * 5))"

definition calculateAnalysisConfidence :: "ForensicAnalysis \<Rightarrow> rat" where
  "calculateAnalysisConfidence a = min (99 / 100) (1 / 2 + of_nat (length (fa_findings a)) * (1 / 20))"

text \<open>The analysis up to its first suspension, and the rest.\<close>

definition analysisBegin :: "int \<Rightarrow> IceBoxEntry \<Rightarrow> IceBoxEntry" where
  "analysisBegin now b =
     b\<lparr>ib_status := B_analysing, ib_analysis := (ib_analysis b)\<lparr>fa_startedAt := now\<rparr>\<rparr>"

definition analysisEnd :: "lh_host \<Rightarrow> lh_env \<Rightarrow> string \<Rightarrow> 'h Lighthouse \<Rightarrow> 'h Lighthouse" where
  "analysisEnd ho e iceBoxId l =
     (case jm_get (lh_iceBox l) iceBoxId of None \<Rightarrow> l | Some b \<Rightarrow>
       (let a1 = (ib_analysis b)\<lparr>fa_staticAnalysis := performStaticAnalysis ho (ib_snapshot b),
                   fa_behaviouralAnalysis := performBehaviouralAnalysis (ib_entityId b) l\<rparr>;
            a2 = (if ic_aiAnalysisEnabled (lc_iceBox (lh_config l))
                  then a1\<lparr>fa_findings := fa_findings a1 @ performAIAnalysis e a1\<rparr> else a1);
            a3 = a2\<lparr>fa_riskScore := calculateForensicRiskScore a2,
                   fa_confidence := calculateAnalysisConfidence a2, fa_completedAt := Some (le_now e)\<rparr>
        in lh_emit (AnalysisComplete iceBoxId (fa_riskScore a3))
             (l\<lparr>lh_iceBox := jm_set iceBoxId (b\<lparr>ib_analysis := a3, ib_status := B_pending_verdict\<rparr>) (lh_iceBox l)\<rparr>)))"

definition runForensicAnalysis :: "lh_host \<Rightarrow> lh_env \<Rightarrow> string \<Rightarrow> 'h Lighthouse \<Rightarrow> 'h Lighthouse" where
  "runForensicAnalysis ho e iceBoxId l =
     (case jm_get (lh_iceBox l) iceBoxId of None \<Rightarrow> l | Some b \<Rightarrow>
        analysisEnd ho e iceBoxId
          (l\<lparr>lh_iceBox := jm_set iceBoxId (analysisBegin (le_now e) b) (lh_iceBox l)\<rparr>))"

definition transferToIceBox :: "lh_host \<Rightarrow> lh_env \<Rightarrow> WarpTunnelTransfer \<Rightarrow> 'h Lighthouse \<Rightarrow> 'h Lighthouse \<times> IceBoxEntry" where
  "transferToIceBox ho e w l =
     (let entry =
            \<lparr>ib_id = lh_generateId [] (le_now e) (le_text e 2), ib_entityId = wt_sourceEntityId w,
             ib_entityType = wt_sourceEntityType w, ib_tokenId = wt_sourceTokenId w, ib_warpTunnelId = wt_id w,
             ib_threatEventId = wt_threatEventId w, ib_status = B_quarantined, ib_quarantinedAt = le_now e,
             ib_releasedAt = None, ib_deletedAt = None, ib_snapshot = wt_captureSnapshot w,
             ib_analysis = initiateForensicAnalysis e, ib_verdict = None, ib_assignedAnalyst = None,
             ib_legalHold = False,
             ib_retentionUntil = le_now e + ic_defaultRetentionDays (lc_iceBox (lh_config l)) * 86400 * 1000,
             ib_tags = [entity_str (wt_sourceEntityType w), ''auto-quarantine''],
             ib_notes = [''Quarantined via Warp Tunnel: '' @ wt_reason w]\<rparr>;
          l1 = lh_emit (EntryAdded (ib_id entry) (wt_sourceEntityId w))
                 (l\<lparr>lh_iceBox := jm_set (ib_id entry) entry (lh_iceBox l)\<rparr>)
      in if ic_autoAnalysis (lc_iceBox (lh_config l)) then
           (let entry1 = analysisBegin (le_now e) entry
            in (l1\<lparr>lh_iceBox := jm_set (ib_id entry) entry1 (lh_iceBox l1), lh_pending := lh_pending l1 @ [ib_id entry]\<rparr>,
                entry1))
         else (l1, entry))"

definition finishAnalysis :: "lh_host \<Rightarrow> lh_env \<Rightarrow> string \<Rightarrow> 'h Lighthouse \<Rightarrow> 'h Lighthouse" where
  "finishAnalysis ho e iceBoxId l =
     (if iceBoxId \<in> set (lh_pending l)
      then analysisEnd ho e iceBoxId (l\<lparr>lh_pending := remove1 iceBoxId (lh_pending l)\<rparr>) else l)"

text \<open>Scan, capture, encrypt, transfer, verify, suspend; \<open>le_tick\<close> are the readings of the step clocks.\<close>

definition empty_snapshot :: "int \<Rightarrow> string \<Rightarrow> EntityType \<Rightarrow> EntitySnapshot" where
  "empty_snapshot now entityId ty =
     \<lparr>es_entityId = entityId, es_entityType = ty, es_capturedAt = now, es_state = json_obj [], es_hash = [],
      es_encryptedWith = [], es_size = 0\<rparr>"

definition warp_measure :: "lh_env \<Rightarrow> TransferMetrics" where
  "warp_measure e =
     \<lparr>tf_scanDuration = le_tick e 2 - le_tick e 1, tf_captureDuration = le_tick e 4 - le_tick e 3,
      tf_encryptionDuration = le_tick e 6 - le_tick e 5, tf_transferDuration = le_tick e 8 - le_tick e 7,
      tf_totalDuration = 0, tf_dataSize = 0, tf_compressionRatio = 1\<rparr>"

definition executeWarpTunnel :: "lh_host \<Rightarrow> lh_env \<Rightarrow> WarpTunnelTransfer \<Rightarrow> 'h Lighthouse \<Rightarrow> 'h Lighthouse" where
  "executeWarpTunnel ho e w l =
     (let w1 = w\<lparr>wt_status := W_transferring, wt_scanResult := scanEntity e (wt_sourceEntityId w) l,
                wt_captureSnapshot :=
                  encryptSnapshot (captureEntitySnapshot (le_now e) (wt_sourceEntityId w) (wt_sourceEntityType w)),
                wt_transferMetrics := warp_measure e\<rparr>;
          (l1, entry) = transferToIceBox ho e w1 l;
          w2 = w1\<lparr>wt_iceBoxId := Some (ib_id entry), wt_status := W_verifying\<rparr>
      in if es_hash (ib_snapshot entry) \<noteq> es_hash (wt_captureSnapshot w2) then
           lh_emit (WarpFailed (wt_id w))
             (l1\<lparr>lh_warpTransfers := jm_set (wt_id w) (w2\<lparr>wt_status := W_failed\<rparr>) (lh_warpTransfers l1)\<rparr>)
         else
           (let l2 = lh_update (wt_sourceTokenId w)
                  (appendAuditChain (le_now e) (le_text e 4) ''token.quarantined'' ''warp_tunnel'' \<circ>
                     (\<lambda>t. t\<lparr>tk_status := T_quarantined\<rparr>)) l1;
                w3 = w2\<lparr>wt_status := W_completed, wt_completedAt := Some (le_now e),
                       wt_transferMetrics := (wt_transferMetrics w2)
                         \<lparr>tf_totalDuration := le_tick e 9 - le_tick e 0, tf_dataSize := es_size (wt_captureSnapshot w2)\<rparr>\<rparr>
            in lh_emit (WarpCompleted (wt_id w) (wt_iceBoxId w3))
                 (l2\<lparr>lh_warpTransfers := jm_set (wt_id w) w3 (lh_warpTransfers l2)\<rparr>)))"

definition triggerWarpTunnel ::
  "lh_host \<Rightarrow> lh_env \<Rightarrow> string \<Rightarrow> EntityType \<Rightarrow> string \<Rightarrow> string \<Rightarrow> string \<Rightarrow> 'h Lighthouse \<Rightarrow> 'h Lighthouse" where
  "triggerWarpTunnel ho e entityId ty tokenId reason initiatedBy l =
     (let now = le_now e;
          w = \<lparr>wt_id = lh_generateId [] now (le_text e 0), wt_sourceEntityId = entityId, wt_sourceEntityType = ty,
               wt_sourceTokenId = tokenId, wt_threatEventId = [], wt_status = W_scanning, wt_initiatedAt = now,
               wt_completedAt = None,
               wt_scanResult = \<lparr>ws_scanId = [], ws_scannedAt = now, ws_duration = 0, ws_findings = [],
                 ws_riskScore = 0, ws_recommendation = R_transfer, ws_signatures = []\<rparr>,
               wt_captureSnapshot = empty_snapshot now entityId ty,
               wt_transferMetrics = \<lparr>tf_scanDuration = 0, tf_captureDuration = 0, tf_encryptionDuration = 0,
                 tf_transferDuration = 0, tf_totalDuration = 0, tf_dataSize = 0, tf_compressionRatio = 1\<rparr>,
               wt_iceBoxId = None, wt_initiatedBy = initiatedBy, wt_reason = reason\<rparr>;
          l1 = lh_emit (WarpInitiated (wt_id w) entityId ty reason)
                 (l\<lparr>lh_warpTransfers := jm_set (wt_id w) w (lh_warpTransfers l)\<rparr>)
      in executeWarpTunnel ho e w l1)"

section \<open>Threats\<close>

definition calculateThreatConfidence :: "ThreatType \<Rightarrow> ThreatEvidence list \<Rightarrow> rat" where
  "calculateThreatConfidence ty evidence =
     (case ty of BRUTE_FORCE \<Rightarrow> 95 / 100 | IMPOSSIBLE_TRAVEL \<Rightarrow> 90 / 100 | CREDENTIAL_STUFFING \<Rightarrow> 85 / 100
      | DATA_EXFILTRATION \<Rightarrow> 75 / 100 | INSIDER_THREAT \<Rightarrow> 65 / 100 | _ \<Rightarrow> 70 / 100) +
     of_nat (length evidence) * (2 / 100)"

definition getMitreTactics :: "ThreatType \<Rightarrow> string list" where
  "getMitreTactics ty =
     (case ty of CREDENTIAL_STUFFING \<Rightarrow> [''TA0006'', ''TA0001''] | PRIVILEGE_ESCALATION \<Rightarrow> [''TA0004'']
      | DATA_EXFILTRATION \<Rightarrow> [''TA0010''] | LATERAL_MOVEMENT \<Rightarrow> [''TA0008''] | INSIDER_THREAT \<Rightarrow> [''TA0009'']
      | _ \<Rightarrow> [''TA0001''])"

definition getMitreTechniques :: "ThreatType \<Rightarrow> string list" where
  "getMitreTechniques ty =
     (case ty of CREDENTIAL_STUFFING \<Rightarrow> [''T1110.004''] | PRIVILEGE_ESCALATION \<Rightarrow> [''T1548'']
      | DATA_EXFILTRATION \<Rightarrow> [''T1041''] | LATERAL_MOVEMENT \<Rightarrow> [''T1021''] | _ \<Rightarrow> [])"

definition createThreatEvent ::
  "lh_host \<Rightarrow> lh_env \<Rightarrow> UniversalEntityToken \<Rightarrow> ThreatType \<Rightarrow> ThreatSeverity \<Rightarrow> string \<Rightarrow> ThreatEvidence list \<Rightarrow>
     'h Lighthouse \<Rightarrow> 'h Lighthouse" where
  "createThreatEvent ho e t ty severity description evidence l =
     (let threat =
            \<lparr>te_id = lh_generateId [] (le_now e) (le_text e 0), te_tokenId = tk_id t, te_entityId = tk_entityId t,
             te_entityType = tk_entityType t, te_type = ty, te_severity = severity,
             te_confidence = calculateThreatConfidence ty evidence, te_description = description,
             te_evidence = evidence, te_indicators = [], te_status = H_detected, te_detectedAt = le_now e,
             te_resolvedAt = None, te_warpTunnelTriggered = False, te_iceBoxId = None, te_assignedTo = None,
             te_resolution = None, te_mitreTactics = getMitreTactics ty, te_mitreTechniques = getMitreTechniques ty\<rparr>;
          l1 = l\<lparr>lh_threats := jm_set (te_id threat) threat (lh_threats l)\<rparr>
      in if severity = V_critical \<or> severity = V_catastrophic then
           (let l2 = triggerWarpTunnel ho (later_draws 1 e) (tk_entityId t) (tk_entityType t) (tk_id t) description
                       ''lighthouse_auto'' l1;
                threat1 = threat\<lparr>te_warpTunnelTriggered := True\<rparr>
            in lh_emit (ThreatDetected threat1)
                 (l2\<lparr>lh_threats := jm_set (te_id threat) threat1 (lh_threats l2)\<rparr>))
         else lh_emit (ThreatDetected threat) l1)"

definition updateRiskScore :: "lh_host \<Rightarrow> lh_env \<Rightarrow> string \<Rightarrow> int \<Rightarrow> string \<Rightarrow> 'h Lighthouse \<Rightarrow> 'h Lighthouse" where
  "updateRiskScore ho e tokenId newScore reason l =
     (case jm_get (lh_tokens l) tokenId of None \<Rightarrow> l | Some t \<Rightarrow>
       (let oldScore = pl_riskScore (tk_payload t);
            t1 = t\<lparr>tk_payload := (tk_payload t)\<lparr>pl_riskScore := min 100 (max 0 newScore)\<rparr>\<rparr>;
            l1 = lh_update tokenId (\<lambda>_. t1) l;
            thresholds = lc_riskThresholds (lh_config l);
            l2 = (if newScore \<ge> rt_autoWarpTunnel thresholds then
                    triggerWarpTunnel ho e (tk_entityId t) (tk_entityType t) tokenId
                      (''Risk score '' @ int_str newScore @ '': '' @ reason) ''lighthouse_auto'' l1
                  else if newScore \<ge> rt_alertThreshold thresholds then
                    createThreatEvent ho e t1 UNAUTHORISED_ACCESS V_high reason [] l1
                  else l1)
        in lh_emit (RiskUpdated tokenId oldScore newScore reason) l2))"

section \<open>Activity\<close>

record AnomalyDetectionResult =
  ad_detected :: bool
  ad_threatType :: "ThreatType option"
  ad_severity :: "ThreatSeverity option"
  ad_description :: "string option"

definition hour_of :: "int \<Rightarrow> int" where
  "hour_of t = t div 3600000 mod 24"

definition detectAnomaly :: "BehaviouralFingerprint \<Rightarrow> TokenActivity \<Rightarrow> AnomalyDetectionResult" where
  "detectAnomaly fp a =
     (let hour = hour_of (av_timestamp a)
      in if fp_typicalHours fp \<noteq> [] \<and> hour \<notin> set (fp_typicalHours fp) then
           \<lparr>ad_detected = True, ad_threatType = Some INSIDER_THREAT, ad_severity = Some V_low,
            ad_description = Some (''Activity at unusual hour: '' @ int_str hour @ '':00'')\<rparr>
         else if str_truthy (av_location a) \<and> fp_typicalLocations fp \<noteq> [] \<and>
                 dflt (av_location a) [] \<notin> set (fp_typicalLocations fp) then
           \<lparr>ad_detected = True, ad_threatType = Some ACCOUNT_TAKEOVER, ad_severity = Some V_medium,
            ad_description = Some (''Activity from unusual location: '' @ dflt (av_location a) [])\<rparr>
         else if fp_anomalyScore fp > 70 then
           \<lparr>ad_detected = True, ad_threatType = Some UNAUTHORISED_ACCESS, ad_severity = Some V_high,
            ad_description = Some (''High anomaly score: '' @ int_str (fp_anomalyScore fp))\<rparr>
         else \<lparr>ad_detected = False, ad_threatType = None, ad_severity = None, ad_description = None\<rparr>)"

text \<open>Appending to a list that keeps at most \<open>n\<close> elements.\<close>

definition push_shift :: "nat \<Rightarrow> 'a \<Rightarrow> 'a list \<Rightarrow> 'a list" where
  "push_shift n x xs =
     (if x \<in> set xs then xs else let ys = xs @ [x] in if length ys > n then tl ys else ys)"

definition updateBehaviouralFingerprint :: "int \<Rightarrow> TokenActivity \<Rightarrow> BehaviouralFingerprint \<Rightarrow> BehaviouralFingerprint" where
  "updateBehaviouralFingerprint now a fp =
     fp\<lparr>fp_typicalHours := push_shift 12 (hour_of (av_timestamp a)) (fp_typicalHours fp),
        fp_typicalLocations := (if str_truthy (av_location a)
          then push_shift 5 (dflt (av_location a) []) (fp_typicalLocations fp) else fp_typicalLocations fp),
        fp_lastUpdated := now\<rparr>"

definition checkThreatIntelligence :: "string \<Rightarrow> 'h Lighthouse \<Rightarrow> ThreatIntelligence option" where
  "checkThreatIntelligence indicator l = find (\<lambda>i. ti_value i = indicator) (jm_values (lh_threatIntel l))"

definition recordActivity :: "lh_host \<Rightarrow> lh_env \<Rightarrow> TokenActivity \<Rightarrow> 'h Lighthouse \<Rightarrow> 'h Lighthouse \<times> TokenActivity" where
  "recordActivity ho e a l =
     (case getEntityToken (av_entityId a) l of
        None \<Rightarrow> (l\<lparr>lh_activities := lh_activities l @ [a\<lparr>av_anomalous := False\<rparr>]\<rparr>, a\<lparr>av_anomalous := False\<rparr>)
      | Some t0 \<Rightarrow>
          (let t = t0\<lparr>tk_payload := (tk_payload t0)
                 \<lparr>pl_fingerprint := updateBehaviouralFingerprint (le_now e) a (pl_fingerprint (tk_payload t0))\<rparr>\<rparr>;
               tid = dflt (jm_get (lh_tokensByEntity l) (av_entityId a)) [];
               l1 = lh_update tid (\<lambda>_. t) l;
               anomaly = detectAnomaly (pl_fingerprint (tk_payload t)) a;
               a1 = a\<lparr>av_anomalous := ad_detected anomaly\<rparr>;
               l2 = (if ad_detected anomaly then
                       createThreatEvent ho e t (dflt (ad_threatType anomaly) UNAUTHORISED_ACCESS)
                         (dflt (ad_severity anomaly) V_medium)
                         (str_or (ad_description anomaly) ''Anomalous activity detected'') []
                         (lh_update tid suspect l1)
                     else l1);
               l3 = (case av_ipAddress a of
                       None \<Rightarrow> l2
                     | Some ip \<Rightarrow>
                         if ip = [] then l2
                         else (case checkThreatIntelligence ip l2 of
                                 None \<Rightarrow> l2
                               | Some i \<Rightarrow>
                                   createThreatEvent ho (later_draws 1 e) t UNAUTHORISED_ACCESS V_high
                                     (''IP '' @ ip @ '' found in threat intelligence: '' @ ti_description i) [] l2))
           in (l3\<lparr>lh_activities := lh_activities l3 @ [a1]\<rparr>, a1)))"

section \<open>Verdicts\<close>

definition getFollowUpActions :: "VerdictDecision \<Rightarrow> string list" where
  "getFollowUpActions d =
     (case d of
        D_release \<Rightarrow> [''Monitor closely for 30 days'', ''Update behavioural baseline'']
      | D_block \<Rightarrow> [''Revoke all tokens'', ''Notify security team'', ''Update threat intelligence'']
      | D_remediate_and_release \<Rightarrow> [''Apply security patches'', ''Reset credentials'', ''Enable enhanced monitoring'']
      | D_escalate \<Rightarrow> [''Notify CISO'', ''Engage incident response team'']
      | D_legal_action \<Rightarrow> [''Preserve evidence'', ''Notify legal team'', ''File incident report'']
      | D_destroy \<Rightarrow> [''Crypto-shred all data'', ''Revoke all tokens'', ''Update blocklists''])"

definition put_entry :: "IceBoxEntry \<Rightarrow> string \<Rightarrow> 'h Lighthouse \<Rightarrow> 'h Lighthouse" where
  "put_entry b iceBoxId l = l\<lparr>lh_iceBox := jm_set iceBoxId b (lh_iceBox l)\<rparr>"

text \<open>\<^const>\<open>Inl\<close>: there is no such entry.\<close>

definition issueVerdict ::
  "lh_env \<Rightarrow> string \<Rightarrow> VerdictDecision \<Rightarrow> string \<Rightarrow> string \<Rightarrow> string list option \<Rightarrow> 'h Lighthouse \<Rightarrow>
     'h Lighthouse \<times> (string + IceBoxEntry)" where
  "issueVerdict e iceBoxId decision reason decidedBy conditions l =
     (case jm_get (lh_iceBox l) iceBoxId of None \<Rightarrow> (l, Inl iceBoxId) | Some b0 \<Rightarrow>
       (let now = le_now e;
            b = b0\<lparr>ib_verdict := Some \<lparr>vd_decision = decision, vd_reason = reason, vd_decidedBy = decidedBy,
                  vd_decidedAt = now, vd_conditions = conditions, vd_followUpActions = getFollowUpActions decision\<rparr>\<rparr>;
            (b1, l1) =
              (case decision of
                 D_release \<Rightarrow>
                   (b\<lparr>ib_status := B_released, ib_releasedAt := Some now\<rparr>,
                    lh_update (ib_tokenId b)
                      (appendAuditChain now (le_text e 0) ''token.released_from_icebox'' decidedBy \<circ>
                         (\<lambda>t. t\<lparr>tk_status := T_active\<rparr>)) l)
               | D_block \<Rightarrow>
                   (b\<lparr>ib_status := B_permanently_blocked\<rparr>,
                    revokeToken e (ib_tokenId b) (''IceBox verdict: '' @ decision_str decision) decidedBy l)
               | D_destroy \<Rightarrow>
                   (b\<lparr>ib_status := B_permanently_blocked\<rparr>,
                    revokeToken e (ib_tokenId b) (''IceBox verdict: '' @ decision_str decision) decidedBy l)
               | D_legal_action \<Rightarrow>
                   (b\<lparr>ib_status := B_legal_hold, ib_legalHold := True,
                      ib_retentionUntil := now + ic_legalHoldRetentionDays (lc_iceBox (lh_config l)) * 86400 * 1000\<rparr>, l)
               | _ \<Rightarrow> (b, l))
        in (lh_emit (VerdictIssued iceBoxId decision decidedBy) (put_entry b1 iceBoxId l1), Inr b1)))"

section \<open>Monitoring and metrics\<close>

definition expire_one :: "lh_env \<Rightarrow> string \<Rightarrow> 'h Lighthouse \<Rightarrow> 'h Lighthouse" where
  "expire_one e k l =
     (case jm_get (lh_tokens l) k of None \<Rightarrow> l | Some t \<Rightarrow>
        if (case tk_expiresAt t of None \<Rightarrow> False | Some d \<Rightarrow> le_now e > d) \<and> tk_status t = T_active
        then revokeToken e (tk_id t) ''expired'' ''system'' l else l)"

definition runMonitoringCycle :: "lh_env \<Rightarrow> 'h Lighthouse \<Rightarrow> 'h Lighthouse" where
  "runMonitoringCycle e l =
     fold (\<lambda>(i, k). expire_one (later_draws i e) k) (enumerate 0 (jm_keys (lh_tokens l))) l"

definition count_by :: "('a \<Rightarrow> 'k) \<Rightarrow> 'a list \<Rightarrow> ('k, nat) jsmap" where
  "count_by f xs = fold (\<lambda>x m. jm_set (f x) (dflt (jm_get m (f x)) 0 + 1) m) xs []"

definition lh_getMetrics :: "int \<Rightarrow> 'h Lighthouse \<Rightarrow> LighthouseMetrics" where
  "lh_getMetrics now l =
     (let tokens = jm_values (lh_tokens l);
          threats = jm_values (lh_threats l);
          active = filter (\<lambda>t. tk_status t = T_active) tokens;
          risk = (\<lambda>t. pl_riskScore (tk_payload t));
          avg = (if active = [] then 0 else of_int (sum_list (map risk active)) / of_nat (length active) :: rat)
      in \<lparr>lm_totalTokens = jm_size (lh_tokens l), lm_activeTokens = length active,
          lm_revokedTokens = length (filter (\<lambda>t. tk_status t = T_revoked) tokens),
          lm_quarantinedTokens = length (filter (\<lambda>t. tk_status t = T_quarantined) tokens),
          lm_threatsDetected = jm_size (lh_threats l),
          lm_threatsResolved = length (filter (\<lambda>t. te_status t = H_eradicated) threats),
          lm_warpTunnelTransfers = jm_size (lh_warpTransfers l), lm_iceBoxEntries = jm_size (lh_iceBox l),
          lm_averageRiskScore = \<lfloor>avg + 1 / 2\<rfloor>,
          lm_tokensByType = count_by tk_entityType tokens,
          lm_threatsByType = count_by te_type threats, lm_threatsBySeverity = count_by te_severity threats,
          lm_topRiskyEntities =
            map (\<lambda>t. \<lparr>rk_entityId = tk_entityId t, rk_entityType = tk_entityType t, rk_tokenId = tk_id t,
                     rk_riskScore = risk t,
                     rk_threatCount = length (filter (\<lambda>th. te_entityId th = tk_entityId t) threats),
                     rk_lastThreatAt = now\<rparr>)
              (take 10 (sort_key (\<lambda>t. - risk t) active)),
          lm_recentAlerts = take 20 (sort_key (\<lambda>th. - te_detectedAt th) threats)\<rparr>)"

section \<open>Histories\<close>

datatype 'h lh_op =
    Issue lh_env string EntityType IssueTokenOptions
  | Verify lh_env string
  | Rotate lh_env string string string
  | Revoke lh_env string string string
  | UpdateRisk lh_env string int string
  | Activity lh_env TokenActivity
  | Threat lh_env string ThreatType ThreatSeverity string "ThreatEvidence list"
  | Warp lh_env string EntityType string string string
  | FinishAnalysis lh_env string
  | Analyse lh_env string
  | Verdict lh_env string VerdictDecision string string "string list option"
  | Monitor lh_env
  | On string 'h

primrec lh_apply :: "lh_host \<Rightarrow> 'h lh_op \<Rightarrow> 'h Lighthouse \<Rightarrow> 'h Lighthouse" where
  "lh_apply ho (Issue e entityId ty op) l = fst (issueToken ho e entityId ty op l)"
| "lh_apply ho (Verify e tid) l = fst (verifyToken ho e tid l)"
| "lh_apply ho (Rotate e tid reason by) l = fst (rotateToken ho e tid reason by l)"
| "lh_apply ho (Revoke e tid reason by) l = revokeToken e tid reason by l"
| "lh_apply ho (UpdateRisk e tid score reason) l = updateRiskScore ho e tid score reason l"
| "lh_apply ho (Activity e a) l = fst (recordActivity ho e a l)"
| "lh_apply ho (Threat e tid ty sev desc evidence) l =
     (case jm_get (lh_tokens l) tid of None \<Rightarrow> l | Some t \<Rightarrow> createThreatEvent ho e t ty sev desc evidence l)"
| "lh_apply ho (Warp e entityId ty tid reason by) l = triggerWarpTunnel ho e entityId ty tid reason by l"
| "lh_apply ho (FinishAnalysis e iid) l = finishAnalysis ho e iid l"
| "lh_apply ho (Analyse e iid) l = runForensicAnalysis ho e iid l"
| "lh_apply ho (Verdict e iid d reason by conds) l = fst (issueVerdict e iid d reason by conds l)"
| "lh_apply ho (Monitor e) l = runMonitoringCycle e l"
| "lh_apply ho (On ev h) l = lh_on ev h l"

definition lh_run :: "lh_host \<Rightarrow> 'h lh_op list \<Rightarrow> 'h Lighthouse \<Rightarrow> 'h Lighthouse" where
  "lh_run ho ops l = fold (lh_apply ho) ops l"

end
