(* ===== verification/LighthouseProps.thy ===== *)
theory LighthouseProps
  imports Lighthouse
begin

text \<open>
  What the token hub guarantees: how a token evolves (\<open>tok_step\<close>, one rule per elementary change, and its
  closure), laws of single tokens proved once over all operations (locale \<open>token_law\<close>), that a quarantined
  token stays refused; and what it does not do: the detection of anomalies, verification after an
  activity, and quarantine across rotation.
\<close>

section \<open>How a token evolves\<close>

inductive tok_step :: "UniversalEntityToken \<Rightarrow> UniversalEntityToken \<Rightarrow> bool" where
  audit: "tok_step t (appendAuditChain now random action actor t)"
| doubt: "tok_step t (suspect t)"
| revoked: "tok_step t (t\<lparr>tk_status := T_revoked, tk_revokedAt := Some now\<rparr>)"
| quarantined: "tok_step t (t\<lparr>tk_status := T_quarantined\<rparr>)"
| verified: "tok_step t (tk_meta (\<lambda>m. m\<lparr>tm_verificationCount := n\<rparr>) (t\<lparr>tk_lastVerifiedAt := Some now\<rparr>))"
| risk: "tok_step t (t\<lparr>tk_payload := (tk_payload t)\<lparr>pl_riskScore := score\<rparr>\<rparr>)"
| activity: "tok_step t (t\<lparr>tk_payload := (tk_payload t)
      \<lparr>pl_fingerprint := updateBehaviouralFingerprint now a (pl_fingerprint (tk_payload t))\<rparr>\<rparr>)"
| rotated: "tok_step t (tk_meta (\<lambda>m. m\<lparr>tm_rotationHistory := rs\<rparr>) (t\<lparr>tk_version := v\<rparr>))"

abbreviation tok_steps :: "UniversalEntityToken \<Rightarrow> UniversalEntityToken \<Rightarrow> bool" where
  "tok_steps \<equiv> tok_step\<^sup>*\<^sup>*"

definition tk_evolves :: "'h Lighthouse \<Rightarrow> 'h Lighthouse \<Rightarrow> bool" where
  "tk_evolves l l' \<longleftrightarrow> lh_threatIntel l' = lh_threatIntel l \<and> lh_config l' = lh_config l \<and>
     (\<forall>k. rel_option tok_steps (jm_get (lh_tokens l) k) (jm_get (lh_tokens l') k))"

lemma tk_evolves_same:
  "lh_threatIntel l' = lh_threatIntel l \<Longrightarrow> lh_config l' = lh_config l \<Longrightarrow> lh_tokens l' = lh_tokens l \<Longrightarrow> tk_evolves l l'"
  by (simp add: tk_evolves_def option.rel_refl)

lemma tk_evolves_refl [simp]: "tk_evolves l l"
  by (rule tk_evolves_same) simp_all

lemma tk_evolves_trans:
  assumes "tk_evolves l1 l2" and "tk_evolves l2 l3"
  shows "tk_evolves l1 l3"
proof -
  have "rel_option tok_steps (jm_get (lh_tokens l1) k) (jm_get (lh_tokens l3) k)" for k
  proof -
    have "rel_option tok_steps (jm_get (lh_tokens l1) k) (jm_get (lh_tokens l2) k)"
      and "rel_option tok_steps (jm_get (lh_tokens l2) k) (jm_get (lh_tokens l3) k)"
      using assms by (simp_all add: tk_evolves_def)
    then show ?thesis
      by (cases "jm_get (lh_tokens l1) k"; cases "jm_get (lh_tokens l2) k"; cases "jm_get (lh_tokens l3) k")
        (auto intro: rtranclp_trans)
  qed
  then show ?thesis using assms by (simp add: tk_evolves_def)
qed

lemma tk_evolves_update: "(\<And>t. jm_get (lh_tokens l) tid = Some t \<Longrightarrow> tok_steps t (f t)) \<Longrightarrow> tk_evolves l (lh_update tid f l)"
  by (auto simp: tk_evolves_def lh_update_def option.rel_refl split: option.split)

lemma lh_emit_fields [simp]:
  "lh_tokens (lh_emit d l) = lh_tokens l" "lh_threatIntel (lh_emit d l) = lh_threatIntel l"
  "lh_config (lh_emit d l) = lh_config l" "lh_iceBox (lh_emit d l) = lh_iceBox l"
  "lh_warpTransfers (lh_emit d l) = lh_warpTransfers l" "lh_threats (lh_emit d l) = lh_threats l"
  "lh_tokensByEntity (lh_emit d l) = lh_tokensByEntity l"
  by (simp_all add: lh_emit_def)

lemma tk_evolves_emit [simp]: "tk_evolves l (lh_emit d l') = tk_evolves l l'"
  by (simp add: tk_evolves_def)

lemma tk_evolves_fields [simp]:
  "tk_evolves l (l'\<lparr>lh_threats := x\<rparr>) = tk_evolves l l'"
  "tk_evolves l (l'\<lparr>lh_warpTransfers := w\<rparr>) = tk_evolves l l'"
  "tk_evolves l (l'\<lparr>lh_iceBox := b\<rparr>) = tk_evolves l l'"
  "tk_evolves l (l'\<lparr>lh_pending := p\<rparr>) = tk_evolves l l'"
  "tk_evolves l (l'\<lparr>lh_activities := a\<rparr>) = tk_evolves l l'"
  "tk_evolves l (l'\<lparr>lh_handlers := hs\<rparr>) = tk_evolves l l'"
  by (simp_all add: tk_evolves_def)

lemma steps_two: "tok_step t u \<Longrightarrow> tok_step u w \<Longrightarrow> tok_steps t w"
  by (rule rtranclp.rtrancl_into_rtrancl [OF r_into_rtranclp])

lemma steps_revoke: "tok_steps t (revoke now random by t)"
  unfolding revoke_def by (rule steps_two [OF tok_step.revoked tok_step.audit])

lemma tk_evolves_revokeToken: "tk_evolves l (revokeToken e tid reason by l)"
  by (auto simp: revokeToken_def intro: tk_evolves_update steps_revoke split: option.split)

lemma tk_evolves_flag: "tk_evolves l (flagSuspiciousToken e tid reason l)"
  by (auto simp: flagSuspiciousToken_def intro!: tk_evolves_update steps_two [OF tok_step.doubt tok_step.audit]
      split: option.split)

lemma tk_evolves_verify: "tk_evolves l (fst (verifyToken ho e tid l))"
proof -
  have "tk_evolves l (lh_update tid (\<lambda>_. tk_meta (\<lambda>m. m\<lparr>tm_verificationCount := tm_verificationCount m + 1\<rparr>)
      (t\<lparr>tk_lastVerifiedAt := Some now\<rparr>)) l)" if "jm_get (lh_tokens l) tid = Some t" for t now
  proof (rule tk_evolves_update)
    fix u assume "jm_get (lh_tokens l) tid = Some u"
    with that have "u = t" by simp
    then show "tok_steps u (tk_meta (\<lambda>m. m\<lparr>tm_verificationCount := tm_verificationCount m + 1\<rparr>)
        (t\<lparr>tk_lastVerifiedAt := Some now\<rparr>))"
      using tok_step.verified [of t "tm_verificationCount (tk_metadata t) + 1" now]
      by (intro r_into_rtranclp) (simp add: tk_meta_def)
  qed
  then show ?thesis
    by (auto simp: verifyToken_def Let_def tk_evolves_revokeToken tk_evolves_flag split: option.split)
qed

lemma tk_evolves_transfer: "tk_evolves l (fst (transferToIceBox ho e w l))"
  by (simp add: transferToIceBox_def Let_def)

lemma transfer_snapshot: "ib_snapshot (snd (transferToIceBox ho e w l)) = wt_captureSnapshot w"
  by (simp add: transferToIceBox_def Let_def analysisBegin_def)

lemma steps_quarantine:
  "tok_steps t ((appendAuditChain now random action actor \<circ> (\<lambda>t. t\<lparr>tk_status := T_quarantined\<rparr>)) t)"
  unfolding comp_def by (rule steps_two [OF tok_step.quarantined tok_step.audit])

lemma tk_evolves_execute: "tk_evolves l (executeWarpTunnel ho e w l)"
  by (auto simp: executeWarpTunnel_def Let_def split_beta tk_evolves_transfer
      intro!: tk_evolves_trans [OF tk_evolves_transfer tk_evolves_update] steps_quarantine)

lemma tk_evolves_trigger: "tk_evolves l (triggerWarpTunnel ho e entityId ty tid reason by l)"
  unfolding triggerWarpTunnel_def Let_def by (rule tk_evolves_trans [OF _ tk_evolves_execute]) simp

lemma tk_evolves_threat: "tk_evolves l (createThreatEvent ho e t ty severity desc evidence l)"
proof -
  have "tk_evolves l (triggerWarpTunnel ho e1 i y k d b (l\<lparr>lh_threats := m\<rparr>))" for e1 i y k d b m
    by (rule tk_evolves_trans [OF _ tk_evolves_trigger]) simp
  then show ?thesis by (simp add: createThreatEvent_def Let_def)
qed

lemma steps_update:
  assumes "jm_get (lh_tokens l) tid = Some t" and "tok_steps t u"
  shows "tk_evolves l (lh_update tid (\<lambda>_. u) l)"
  by (rule tk_evolves_update) (use assms in simp)

lemma tk_evolves_risk: "tk_evolves l (updateRiskScore ho e tid score reason l)"
proof (cases "jm_get (lh_tokens l) tid")
  case None
  then show ?thesis by (simp add: updateRiskScore_def)
next
  case (Some t)
  have "tk_evolves l (lh_update tid (\<lambda>_. t\<lparr>tk_payload := (tk_payload t)\<lparr>pl_riskScore := n\<rparr>\<rparr>) l)" for n
    using Some by (rule steps_update) (rule r_into_rtranclp, rule tok_step.risk)
  then show ?thesis
    using Some by (auto simp: updateRiskScore_def Let_def intro: tk_evolves_trans tk_evolves_trigger tk_evolves_threat)
qed

lemma entity_token_id:
  "getEntityToken entityId l = Some t \<Longrightarrow>
   jm_get (lh_tokens l) (dflt (jm_get (lh_tokensByEntity l) entityId) []) = Some t"
  by (auto simp: getEntityToken_def dflt_def split: option.splits if_splits)

lemma tk_evolves_activity: "tk_evolves l (fst (recordActivity ho e a l))"
proof (cases "getEntityToken (av_entityId a) l")
  case None
  then show ?thesis by (simp add: recordActivity_def)
next
  case (Some t0)
  let ?tid = "dflt (jm_get (lh_tokensByEntity l) (av_entityId a)) []"
  let ?t = "t0\<lparr>tk_payload := (tk_payload t0)
    \<lparr>pl_fingerprint := updateBehaviouralFingerprint (le_now e) a (pl_fingerprint (tk_payload t0))\<rparr>\<rparr>"
  let ?l1 = "lh_update ?tid (\<lambda>_. ?t) l"
  have 1: "tk_evolves l ?l1"
    using entity_token_id [OF Some] by (rule steps_update) (rule r_into_rtranclp, rule tok_step.activity)
  then have "tk_evolves l (lh_update ?tid suspect ?l1)"
    by (rule tk_evolves_trans) (rule tk_evolves_update, rule r_into_rtranclp, rule tok_step.doubt)
  then have 2: "tk_evolves l (createThreatEvent ho e ?t ty sev d [] (lh_update ?tid suspect ?l1))" for ty sev d
    by (rule tk_evolves_trans) (rule tk_evolves_threat)
  have 3: "tk_evolves l (createThreatEvent ho e1 ?t ty sev d [] l2)" if "tk_evolves l l2" for e1 ty sev d l2
    using that by (rule tk_evolves_trans) (rule tk_evolves_threat)
  show ?thesis
    using 1 2 by (auto simp: recordActivity_def Some Let_def intro: 3 split: option.split)
qed

lemma tk_evolves_analysisEnd: "tk_evolves l (analysisEnd ho e iid l)"
  by (simp add: analysisEnd_def Let_def split: option.split)

lemma tk_evolves_finish: "tk_evolves l (finishAnalysis ho e iid l)"
  unfolding finishAnalysis_def by (auto intro: tk_evolves_trans [OF _ tk_evolves_analysisEnd])

lemma tk_evolves_run: "tk_evolves l (runForensicAnalysis ho e iid l)"
  unfolding runForensicAnalysis_def by (auto intro: tk_evolves_trans [OF _ tk_evolves_analysisEnd] split: option.split)

lemma tk_evolves_monitor: "tk_evolves l (runMonitoringCycle e l)"
proof -
  have one: "tk_evolves l (expire_one e1 k l)" for e1 k and l :: "'h Lighthouse"
    by (auto simp: expire_one_def tk_evolves_revokeToken split: option.split)
  have "tk_evolves l (fold (\<lambda>(i, k). expire_one (later_draws i e) k) iks l)" for iks and l :: "'h Lighthouse"
    by (induction iks arbitrary: l) (auto intro: tk_evolves_trans one)
  then show ?thesis by (simp add: runMonitoringCycle_def)
qed

lemma tk_evolves_verdict: "d \<noteq> D_release \<Longrightarrow> tk_evolves l (fst (issueVerdict e iid d reason by conds l))"
  by (cases d) (auto simp: issueVerdict_def Let_def put_entry_def tk_evolves_revokeToken split: option.split)

lemmas tk_evolves_operations =
  tk_evolves_verify tk_evolves_revokeToken tk_evolves_risk tk_evolves_activity tk_evolves_threat tk_evolves_trigger
  tk_evolves_finish tk_evolves_run tk_evolves_monitor

text \<open>What is left: issuing, rotating and releasing.\<close>

definition issues :: "'h lh_op \<Rightarrow> bool" where
  "issues op \<longleftrightarrow> (case op of Issue _ _ _ _ \<Rightarrow> True | Rotate _ _ _ _ \<Rightarrow> True | _ \<Rightarrow> False)"

definition releases :: "'h lh_op \<Rightarrow> bool" where
  "releases op \<longleftrightarrow> (case op of Verdict _ _ d _ _ _ \<Rightarrow> d = D_release | _ \<Rightarrow> False)"

lemma tk_evolves_apply: "\<not> issues op \<Longrightarrow> \<not> releases op \<Longrightarrow> tk_evolves l (lh_apply ho op l)"
  by (cases op) (auto simp: issues_def releases_def tk_evolves_operations tk_evolves_verdict lh_on_def Let_def
      split: option.split)

section \<open>Laws of single tokens\<close>

locale token_law =
  fixes ho :: lh_host
    and P :: "UniversalEntityToken \<Rightarrow> bool"
  assumes issued: "P (issue_token ho e entityId ty op (l :: 'h Lighthouse))"
    and step: "tok_step t u \<Longrightarrow> P t \<Longrightarrow> P u"
    and released: "P t \<Longrightarrow> P (t\<lparr>tk_status := T_active\<rparr>)"
begin

definition every :: "'h Lighthouse \<Rightarrow> bool" where
  "every l \<longleftrightarrow> (\<forall>k t. jm_get (lh_tokens l) k = Some t \<longrightarrow> P t)"

lemma everyD: "every l \<Longrightarrow> jm_get (lh_tokens l) k = Some t \<Longrightarrow> P t"
  by (simp add: every_def)

lemma steps: "tok_steps t u \<Longrightarrow> P t \<Longrightarrow> P u"
  by (induction rule: rtranclp_induct) (auto intro: step)

lemma every_evolves: "tk_evolves l l' \<Longrightarrow> every l \<Longrightarrow> every l'"
proof -
  assume e: "tk_evolves l l'" and all: "every l"
  have "P u" if u: "jm_get (lh_tokens l') k = Some u" for k u
  proof -
    have "rel_option tok_steps (jm_get (lh_tokens l) k) (Some u)" using e u by (metis tk_evolves_def)
    then obtain t where "jm_get (lh_tokens l) k = Some t" "tok_steps t u"
      by (cases "jm_get (lh_tokens l) k") auto
    then show ?thesis using all steps everyD by blast
  qed
  then show ?thesis by (simp add: every_def)
qed

lemma every_update: "every l \<Longrightarrow> (\<And>t. P t \<Longrightarrow> P (f t)) \<Longrightarrow> every (lh_update tid f l)"
  by (auto simp: every_def lh_update_def split: option.splits)

lemma every_emit [simp]: "every (lh_emit d l) = every l"
  by (simp add: every_def)

lemma every_issue: "every l \<Longrightarrow> every (fst (issueToken ho e entityId ty op (l :: 'h Lighthouse)))"
  by (auto simp: every_def issueToken_def Let_def issued)

lemma every_rotate: "every l \<Longrightarrow> every (fst (rotateToken ho e tid reason by (l :: 'h Lighthouse)))"
proof (cases "jm_get (lh_tokens l) tid")
  case (Some old)
  assume "every l"
  then have 1: "every (fst (issueToken ho e (tk_entityId old) (tk_entityType old) op l))" for op
    by (rule every_issue)
  have "every (lh_update k (\<lambda>t. tk_meta (\<lambda>m. m\<lparr>tm_rotationHistory := rs\<rparr>) (t\<lparr>tk_version := v\<rparr>)) l1)"
    if "every l1" for k rs v and l1 :: "'h Lighthouse"
    using that by (rule every_update) (rule step [OF tok_step.rotated])
  then have "every (revokeToken e1 k r b (lh_update j (\<lambda>t. tk_meta (\<lambda>m. m\<lparr>tm_rotationHistory := rs\<rparr>)
      (t\<lparr>tk_version := v\<rparr>)) l1))" if "every l1" for e1 k r b j rs v and l1 :: "'h Lighthouse"
    using that by (intro every_evolves [OF tk_evolves_revokeToken]) auto
  note 2 = this [OF 1]
  show ?thesis
    unfolding rotateToken_def Some option.case Let_def split_beta fst_conv every_emit by (rule 2)
qed (simp add: rotateToken_def)

lemma every_release: "every l \<Longrightarrow> every (fst (issueVerdict e iid D_release reason by conds (l :: 'h Lighthouse)))"
proof (cases "jm_get (lh_iceBox l) iid")
  case (Some b)
  assume "every l"
  then have "every (lh_update k (appendAuditChain now random action by \<circ> (\<lambda>t. t\<lparr>tk_status := T_active\<rparr>)) l)"
    for k now random action
    by (rule every_update) (simp add: step [OF tok_step.audit] released)
  then show ?thesis by (simp add: issueVerdict_def Some Let_def put_entry_def every_def)
qed (simp add: issueVerdict_def)

lemma every_apply: "every l \<Longrightarrow> every (lh_apply ho op (l :: 'h Lighthouse))"
proof (cases "issues op \<or> releases op")
  case True
  assume "every l"
  with True show ?thesis
    by (cases op) (auto simp: issues_def releases_def every_issue every_rotate every_release)
next
  case False
  then show "every l \<Longrightarrow> ?thesis" by (auto intro: every_evolves tk_evolves_apply)
qed

lemma every_run: "every l \<Longrightarrow> every (lh_run ho ops (l :: 'h Lighthouse))"
  by (induction ops arbitrary: l) (simp_all add: lh_run_def every_apply)

lemma every_new: "every (new_Lighthouse q)"
  by (simp add: every_def new_Lighthouse_def)

lemma law: "jm_get (lh_tokens (lh_run ho ops (new_Lighthouse q :: 'h Lighthouse))) k = Some t \<Longrightarrow> P t"
  by (rule everyD [OF every_run [OF every_new]])

end

text \<open>Nothing raises an anomaly score, and the hash of the entity is never changed.\<close>

definition calm :: "UniversalEntityToken \<Rightarrow> bool" where
  "calm t \<longleftrightarrow> fp_anomalyScore (pl_fingerprint (tk_payload t)) = 0"

definition entity_hashed :: "UniversalEntityToken \<Rightarrow> bool" where
  "entity_hashed t \<longleftrightarrow> pl_entityHash (tk_payload t) = hashEntity (tk_entityId t) (tk_entityType t)"

inductive_cases tok_stepE: "tok_step t u"

lemma token_changes:
  "tk_payload (appendAuditChain now random action actor t) = tk_payload t"
  "tk_payload (suspect t) = tk_payload t" "tk_payload (tk_meta f t) = tk_payload t"
  "tk_status (appendAuditChain now random action actor t) = tk_status t"
  "tk_status (suspect t) = tk_status t" "tk_status (tk_meta f t) = tk_status t"
  "tk_entityId (appendAuditChain now random action actor t) = tk_entityId t"
  "tk_entityId (suspect t) = tk_entityId t" "tk_entityId (tk_meta f t) = tk_entityId t"
  "tk_entityType (appendAuditChain now random action actor t) = tk_entityType t"
  "tk_entityType (suspect t) = tk_entityType t" "tk_entityType (tk_meta f t) = tk_entityType t"
  by (simp_all add: appendAuditChain_def suspect_def tk_meta_def Let_def)

interpretation calm: token_law ho calm for ho
  by unfold_locales
    (auto simp: calm_def issue_token_def Let_def issue_payload_def createInitialFingerprint_def token_changes
      updateBehaviouralFingerprint_def elim!: tok_stepE)

interpretation hashed: token_law ho entity_hashed for ho
  by unfold_locales
    (auto simp: entity_hashed_def issue_token_def Let_def issue_payload_def token_changes elim!: tok_stepE)

text \<open>No operation makes a token active but those that issue or release.\<close>

lemma steps_inactive: "tok_steps t u \<Longrightarrow> tk_status t \<noteq> T_active \<Longrightarrow> tk_status u \<noteq> T_active"
  by (induction rule: rtranclp_induct) (auto simp: token_changes elim!: tok_stepE)

section \<open>Anomalies\<close>

lemma push_shift_member: "0 < n \<Longrightarrow> x \<in> set (push_shift n x xs)"
  by (cases xs) (simp_all add: push_shift_def Let_def)

lemma detect_none:
  assumes "fp_anomalyScore fp = 0"
  shows "\<not> ad_detected (detectAnomaly (updateBehaviouralFingerprint now a fp) a)"
proof -
  let ?fp = "updateBehaviouralFingerprint now a fp"
  have "hour_of (av_timestamp a) \<in> set (fp_typicalHours ?fp)"
    by (simp add: updateBehaviouralFingerprint_def push_shift_member)
  moreover have "str_truthy (av_location a) \<Longrightarrow> dflt (av_location a) [] \<in> set (fp_typicalLocations ?fp)"
    by (simp add: updateBehaviouralFingerprint_def push_shift_member)
  moreover have "fp_anomalyScore ?fp = 0"
    using assms by (simp add: updateBehaviouralFingerprint_def)
  ultimately show ?thesis by (simp add: detectAnomaly_def Let_def)
qed

lemma tk_evolves_intel: "tk_evolves l l' \<Longrightarrow> lh_threatIntel l' = lh_threatIntel l"
  by (simp add: tk_evolves_def)

lemma intel_update [simp]: "lh_threatIntel (lh_update tid f l) = lh_threatIntel l"
  by (simp add: lh_update_def split: option.split)

lemma intel_issuing:
  "lh_threatIntel (fst (issueToken ho e entityId ty op l)) = lh_threatIntel l"
  "lh_threatIntel (fst (rotateToken ho e tid reason by l)) = lh_threatIntel l"
  "lh_threatIntel (fst (issueVerdict e iid D_release reason by conds l)) = lh_threatIntel l"
  by (auto simp: issueToken_def rotateToken_def issueVerdict_def Let_def split_beta put_entry_def
      tk_evolves_intel [OF tk_evolves_revokeToken] split: option.split)

lemma intel_apply: "lh_threatIntel (lh_apply ho op l) = lh_threatIntel l"
proof (cases "issues op \<or> releases op")
  case True
  then show ?thesis by (cases op) (simp_all add: issues_def releases_def intel_issuing)
next
  case False
  then show ?thesis by (auto intro: tk_evolves_intel tk_evolves_apply)
qed

lemma intel_run: "lh_threatIntel (lh_run ho ops l) = lh_threatIntel l"
  by (induction ops arbitrary: l) (simp_all add: lh_run_def intel_apply)

lemma recordActivity_calm:
  assumes "lh_threatIntel l = []" and "\<forall>t. getEntityToken (av_entityId a) l = Some t \<longrightarrow> calm t"
  shows "recordActivity ho e a l =
    (let l1 = (case getEntityToken (av_entityId a) l of
                 None \<Rightarrow> l
               | Some t \<Rightarrow> lh_update (dflt (jm_get (lh_tokensByEntity l) (av_entityId a)) [])
                   (\<lambda>_. t\<lparr>tk_payload := (tk_payload t)\<lparr>pl_fingerprint :=
                      updateBehaviouralFingerprint (le_now e) a (pl_fingerprint (tk_payload t))\<rparr>\<rparr>) l)
     in (l1\<lparr>lh_activities := lh_activities l1 @ [a\<lparr>av_anomalous := False\<rparr>]\<rparr>, a\<lparr>av_anomalous := False\<rparr>))"
proof (cases "getEntityToken (av_entityId a) l")
  case None
  then show ?thesis by (simp add: recordActivity_def Let_def)
next
  case (Some t)
  have "checkThreatIntelligence ip (lh_update k f l) = None" for ip k f
    using assms(1) by (simp add: checkThreatIntelligence_def jm_values_def)
  moreover have "\<not> ad_detected (detectAnomaly (updateBehaviouralFingerprint now a (pl_fingerprint (tk_payload t))) a)" for now
    using assms(2) Some by (intro detect_none) (simp add: calm_def)
  ultimately show ?thesis by (simp add: recordActivity_def Some Let_def split: option.split)
qed

lemma run_intel: "lh_threatIntel (lh_run ho ops (new_Lighthouse q)) = []"
  by (simp add: intel_run) (simp add: new_Lighthouse_def)

lemma run_calm: "getEntityToken i (lh_run ho ops (new_Lighthouse q)) = Some t \<Longrightarrow> calm t"
  by (drule entity_token_id) (rule calm.law)

text \<open>
  C24. The detection of anomalies detects nothing. After any history, recording any activity of any
  entity marks it as normal and creates no threat, raises no suspicion and notifies nobody: the
  fingerprint is updated with the hour and the place of the activity before they are looked up in it, and
  neither the anomaly score nor the threat intelligence is ever filled.
\<close>

theorem activity_raises_no_alarm:
  "let l = lh_run ho ops (new_Lighthouse q); r = recordActivity ho e a l
   in \<not> av_anomalous (snd r) \<and> lh_threats (fst r) = lh_threats l \<and> lh_warpTransfers (fst r) = lh_warpTransfers l \<and>
      lh_delivered (fst r) = lh_delivered l \<and>
      (\<forall>k. rel_option (\<lambda>t u. tm_suspicionCount (tk_metadata u) = tm_suspicionCount (tk_metadata t) \<and> tk_status u = tk_status t)
         (jm_get (lh_tokens l) k) (jm_get (lh_tokens (fst r)) k))"
proof -
  let ?l = "lh_run ho ops (new_Lighthouse q)"
  note rec = recordActivity_calm [OF run_intel, of a ho ops q ho e]
  have r: "recordActivity ho e a ?l = (let l1 = (case getEntityToken (av_entityId a) ?l of
                 None \<Rightarrow> ?l
               | Some t \<Rightarrow> lh_update (dflt (jm_get (lh_tokensByEntity ?l) (av_entityId a)) [])
                   (\<lambda>_. t\<lparr>tk_payload := (tk_payload t)\<lparr>pl_fingerprint :=
                      updateBehaviouralFingerprint (le_now e) a (pl_fingerprint (tk_payload t))\<rparr>\<rparr>) ?l)
     in (l1\<lparr>lh_activities := lh_activities l1 @ [a\<lparr>av_anomalous := False\<rparr>]\<rparr>, a\<lparr>av_anomalous := False\<rparr>))"
    by (rule rec) (use run_calm in blast)
  show ?thesis
  proof (cases "getEntityToken (av_entityId a) ?l")
    case None
    then show ?thesis by (simp add: r Let_def option.rel_refl)
  next
    case (Some t)
    from entity_token_id [OF Some] show ?thesis
      by (auto simp: r Some Let_def lh_update_def option.rel_refl)
  qed
qed

section \<open>Verification\<close>

definition expired_at :: "int \<Rightarrow> UniversalEntityToken \<Rightarrow> bool" where
  "expired_at now t \<longleftrightarrow> (case tk_expiresAt t of None \<Rightarrow> False | Some d \<Rightarrow> now > d)"

text \<open>The answer of a verification without the token.\<close>

definition verdict_on :: "lh_host \<Rightarrow> lh_env \<Rightarrow> string \<Rightarrow> 'h Lighthouse \<Rightarrow> token_refusal + unit" where
  "verdict_on ho e tid l = map_sum id (\<lambda>_. ()) (snd (verifyToken ho e tid l))"

lemma verdict_on_token:
  assumes "jm_get (lh_tokens l) tid = Some t" and "entity_hashed t"
  shows "verdict_on ho e tid l =
    (if tk_status t \<noteq> T_active then Inl (NotActive (tk_status t))
     else if expired_at (le_now e) t then Inl TokenExpired
     else if verifySignature ho t then Inr () else Inl InvalidSignature)"
  using assms by (simp add: verdict_on_def verifyToken_def expired_at_def entity_hashed_def Let_def)

lemma issued_fields:
  "tk_status (issue_token ho e i ty op l) = T_active"
  "verifySignature ho (issue_token ho e i ty op l)"
  "entity_hashed (issue_token ho e i ty op l)"
  "tk_id (issue_token ho e i ty op l) = generateTokenId (le_now e) (le_text e 0)"
  by (simp_all add: issue_token_def Let_def verifySignature_def signToken_def entity_hashed_def issue_payload_def)

lemma issueToken_snd: "snd (issueToken ho e i ty op l) = issue_token ho e i ty op l"
  by (simp add: issueToken_def Let_def)

lemma token_id_nonempty: "generateTokenId now random \<noteq> []"
  by (simp add: generateTokenId_def lh_generateId_def)

lemma issued_lookup:
  "jm_get (lh_tokens (fst (issueToken ho e i ty op l))) (tk_id (issue_token ho e i ty op l)) =
     Some (issue_token ho e i ty op l)"
  "jm_get (lh_tokensByEntity (fst (issueToken ho e i ty op l))) i = Some (tk_id (issue_token ho e i ty op l))"
  "getEntityToken i (fst (issueToken ho e i ty op l)) = Some (issue_token ho e i ty op l)"
  by (simp_all add: issueToken_def Let_def getEntityToken_def issued_fields token_id_nonempty)

lemma activity_changes_payload:
  assumes "lh_threatIntel l = []" and "calm t"
    and "getEntityToken (av_entityId a) l = Some t" and "jm_get (lh_tokensByEntity l) (av_entityId a) = Some tid"
  shows "jm_get (lh_tokens (fst (recordActivity ho e a l))) tid =
    Some (t\<lparr>tk_payload := (tk_payload t)\<lparr>pl_fingerprint :=
       updateBehaviouralFingerprint (le_now e) a (pl_fingerprint (tk_payload t))\<rparr>\<rparr>)"
proof -
  have "jm_get (lh_tokens l) tid = Some t" using entity_token_id [OF assms(3)] assms(4) by (simp add: dflt_def)
  moreover have c: "\<forall>u. getEntityToken (av_entityId a) l = Some u \<longrightarrow> calm u" using assms(2,3) by simp
  ultimately show ?thesis
    by (simp add: recordActivity_calm [OF assms(1) c] assms(3,4) Let_def dflt_def lh_update_def)
qed

text \<open>
  The first activity of an entity breaks its token. After any history, a token that was just issued
  verifies until it expires. Once one activity of its entity has been recorded it does not: the fingerprint is
  part of the signed payload and changes, so the verification reports an invalid signature, unless the 32-bit
  hash of the changed payload happens to be the signed one.
\<close>

theorem activity_breaks_token:
  "let l = lh_run ho ops (new_Lighthouse q); t = issue_token ho e1 i ty op l;
       l1 = fst (issueToken ho e1 i ty op l); l2 = fst (recordActivity ho e2 (a\<lparr>av_entityId := i\<rparr>) l1);
       changed = (tk_payload t)\<lparr>pl_fingerprint :=
         updateBehaviouralFingerprint (le_now e2) (a\<lparr>av_entityId := i\<rparr>) (pl_fingerprint (tk_payload t))\<rparr>
   in verdict_on ho e3 (tk_id t) l1 = (if expired_at (le_now e3) t then Inl TokenExpired else Inr ()) \<and>
      verdict_on ho e3 (tk_id t) l2 =
        (if expired_at (le_now e3) t then Inl TokenExpired
         else if signature_value ho (tk_header t) changed = signature_value ho (tk_header t) (tk_payload t) then Inr ()
         else Inl InvalidSignature)"
proof -
  let ?l = "lh_run ho ops (new_Lighthouse q)"
  let ?l1 = "fst (issueToken ho e1 i ty op ?l)"
  define t where "t = issue_token ho e1 i ty op ?l"
  have h: "entity_hashed t" "tk_status t = T_active" and sig: "sg_value (tk_signature t) = signature_value ho (tk_header t) (tk_payload t)"
    using issued_fields [of ho e1 i ty op ?l] by (simp_all add: t_def verifySignature_def)
  have calm: "calm t" unfolding t_def by (rule calm.issued)
  have intel: "lh_threatIntel ?l1 = []" by (simp add: intel_issuing run_intel)
  have got: "jm_get (lh_tokens ?l1) (tk_id t) = Some t" "getEntityToken (av_entityId (a\<lparr>av_entityId := i\<rparr>)) ?l1 = Some t"
    "jm_get (lh_tokensByEntity ?l1) (av_entityId (a\<lparr>av_entityId := i\<rparr>)) = Some (tk_id t)"
    by (simp_all add: t_def issued_lookup)
  note later = activity_changes_payload [OF intel calm got(2,3), of ho e2]
  show ?thesis
    unfolding Let_def t_def [symmetric]
    using verdict_on_token [OF got(1) h(1), of ho e3] verdict_on_token [OF later, of ho e3] h sig
    by (auto simp: verifySignature_def expired_at_def entity_hashed_def)
qed

section \<open>Quarantine\<close>

text \<open>Operations that neither release an entity nor draw the identifier \<open>tid\<close> again.\<close>

definition spares :: "string \<Rightarrow> 'h lh_op \<Rightarrow> bool" where
  "spares tid op \<longleftrightarrow> \<not> releases op \<and>
     (case op of Issue e _ _ _ \<Rightarrow> generateTokenId (le_now e) (le_text e 0) \<noteq> tid
      | Rotate e _ _ _ \<Rightarrow> generateTokenId (le_now e) (le_text e 0) \<noteq> tid | _ \<Rightarrow> True)"

definition blocked :: "string \<Rightarrow> 'h Lighthouse \<Rightarrow> bool" where
  "blocked tid l \<longleftrightarrow> (case jm_get (lh_tokens l) tid of None \<Rightarrow> False | Some t \<Rightarrow> tk_status t \<noteq> T_active)"

lemma blocked_evolves: "tk_evolves l l' \<Longrightarrow> blocked tid l \<Longrightarrow> blocked tid l'"
proof -
  assume e: "tk_evolves l l'" and b: "blocked tid l"
  from b obtain t where t: "jm_get (lh_tokens l) tid = Some t" "tk_status t \<noteq> T_active"
    by (auto simp: blocked_def split: option.splits)
  have "rel_option tok_steps (jm_get (lh_tokens l) tid) (jm_get (lh_tokens l') tid)" using e by (simp add: tk_evolves_def)
  then obtain u where "jm_get (lh_tokens l') tid = Some u" "tok_steps t u"
    using t by (cases "jm_get (lh_tokens l') tid") auto
  with steps_inactive t(2) show ?thesis by (simp add: blocked_def)
qed

lemma blocked_issue:
  "generateTokenId (le_now e) (le_text e 0) \<noteq> tid \<Longrightarrow> blocked tid (fst (issueToken ho e i ty op l)) = blocked tid l"
  by (simp add: blocked_def issueToken_def Let_def issued_fields)

lemma blocked_update: "k \<noteq> tid \<Longrightarrow> blocked tid (lh_update k f l) = blocked tid l"
  by (auto simp: blocked_def lh_update_def split: option.splits)

lemma blocked_emit: "blocked tid (lh_emit d l) = blocked tid l"
  by (simp add: blocked_def)

lemma blocked_rotate:
  assumes "generateTokenId (le_now e) (le_text e 0) \<noteq> tid" and "blocked tid l"
  shows "blocked tid (fst (rotateToken ho e k reason by l))"
proof (cases "jm_get (lh_tokens l) k")
  case None
  then show ?thesis using assms(2) by (simp add: rotateToken_def)
next
  case (Some old)
  have 1: "blocked tid (fst (issueToken ho e i ty op l))" for i ty op
    using assms by (simp add: blocked_issue)
  have new: "tk_id (snd (issueToken ho e i ty op l)) \<noteq> tid" for i ty op
    using assms(1) by (simp add: issueToken_def Let_def issued_fields)
  show ?thesis
    unfolding rotateToken_def Some option.case Let_def split_beta fst_conv blocked_emit
    by (rule blocked_evolves [OF tk_evolves_revokeToken]) (simp only: blocked_update [OF new] 1)
qed

lemma blocked_apply: "spares tid op \<Longrightarrow> blocked tid l \<Longrightarrow> blocked tid (lh_apply ho op l)"
proof (cases "issues op")
  case True
  then show "spares tid op \<Longrightarrow> blocked tid l \<Longrightarrow> ?thesis"
    by (cases op) (auto simp: issues_def spares_def blocked_issue blocked_rotate)
next
  case False
  then show "spares tid op \<Longrightarrow> blocked tid l \<Longrightarrow> ?thesis"
    using tk_evolves_apply [of op l ho] blocked_evolves [of l _ tid] by (simp add: spares_def)
qed

lemma blocked_run: "list_all (spares tid) ops \<Longrightarrow> blocked tid l \<Longrightarrow> blocked tid (lh_run ho ops l)"
  by (induction ops arbitrary: l) (simp_all add: lh_run_def blocked_apply)

lemma blocked_refused:
  "blocked tid l \<Longrightarrow> \<exists>s. verdict_on ho e tid l = Inl (NotActive s) \<and> s \<noteq> T_active"
  by (auto simp: blocked_def verdict_on_def verifyToken_def split: option.splits)

lemma transfer_files:
  "wt_sourceTokenId w = tid \<Longrightarrow>
   \<exists>b. b \<in> set (jm_values (lh_iceBox (fst (transferToIceBox ho e w l)))) \<and> ib_tokenId b = tid"
  by (rule exI [of _ "snd (transferToIceBox ho e w l)"], rule conjI, rule jm_get_values)
    (auto simp: transferToIceBox_def Let_def analysisBegin_def)

lemma iceBox_update [simp]: "lh_iceBox (lh_update k f l) = lh_iceBox l"
  by (simp add: lh_update_def split: option.split)

lemma tokens_transfer [simp]: "lh_tokens (fst (transferToIceBox ho e w l)) = lh_tokens l"
  by (simp add: transferToIceBox_def Let_def)

lemma execute_files:
  "wt_sourceTokenId w = tid \<Longrightarrow>
   \<exists>b. b \<in> set (jm_values (lh_iceBox (executeWarpTunnel ho e w l))) \<and> ib_tokenId b = tid"
  unfolding executeWarpTunnel_def Let_def split_beta by (simp add: transfer_snapshot) (rule transfer_files, simp)

lemma execute_blocks:
  "wt_sourceTokenId w = tid \<Longrightarrow> jm_get (lh_tokens l) tid = Some t \<Longrightarrow> blocked tid (executeWarpTunnel ho e w l)"
  unfolding executeWarpTunnel_def Let_def split_beta
  by (simp add: transfer_snapshot blocked_def lh_update_def token_changes)

lemma trigger_blocks:
  "jm_get (lh_tokens l) tid = Some t \<Longrightarrow> blocked tid (triggerWarpTunnel ho e i ty tid reason by l)"
  unfolding triggerWarpTunnel_def Let_def by (rule execute_blocks) simp_all

lemma trigger_files:
  "\<exists>b. b \<in> set (jm_values (lh_iceBox (triggerWarpTunnel ho e i ty tid reason by l))) \<and> ib_tokenId b = tid"
  unfolding triggerWarpTunnel_def Let_def by (rule execute_files) simp

text \<open>
  C23. Quarantine holds. Set the risk score of a token to the threshold of the warp tunnel or above, in any
  state: the token is in the icebox, and from then on its verification is refused, whatever happens next,
  as long as no entity is released from the icebox and no new token draws its identifier. In particular
  neither another score nor a rotation, an analysis or another verdict makes it active again.
\<close>

theorem quarantine_holds:
  assumes "jm_get (lh_tokens l) tid = Some t"
    and "rt_autoWarpTunnel (lc_riskThresholds (lh_config l)) \<le> score"
    and "list_all (spares tid) ops"
  shows "(\<exists>b. b \<in> set (jm_values (lh_iceBox (updateRiskScore ho e tid score reason l))) \<and> ib_tokenId b = tid) \<and>
    (\<exists>s. verdict_on ho e' tid (lh_run ho ops (updateRiskScore ho e tid score reason l)) = Inl (NotActive s) \<and> s \<noteq> T_active)"
proof -
  have "blocked tid (updateRiskScore ho e tid score reason l)"
    unfolding updateRiskScore_def assms(1) option.case Let_def blocked_emit using assms(2)
    by (auto intro!: trigger_blocks simp: lh_update_def assms(1))
  then have "blocked tid (lh_run ho ops (updateRiskScore ho e tid score reason l))"
    by (rule blocked_run [OF assms(3)])
  moreover have "\<exists>b. b \<in> set (jm_values (lh_iceBox (updateRiskScore ho e tid score reason l))) \<and> ib_tokenId b = tid"
    unfolding updateRiskScore_def assms(1) option.case Let_def lh_emit_fields using assms(2)
    by (simp add: trigger_files)
  ultimately show ?thesis using blocked_refused by blast
qed

text \<open>
  Rotation escapes quarantine. Rotating a token, whatever its status, gives its entity a new token
  that verifies, with the old permissions and the risk score 10: rotation asks neither for the status nor
  for the score.
\<close>

theorem rotation_escapes_quarantine:
  assumes "jm_get (lh_tokens l) tid = Some old" and "generateTokenId (le_now e) (le_text e 0) \<noteq> tid"
    and "le_now e' \<le> le_now e + lc_tokenExpiry (lh_config l) * 1000 \<or> lc_tokenExpiry (lh_config l) = 0"
  shows "case rotateToken ho e tid reason by l of
      (l', Inr new) \<Rightarrow>
        verdict_on ho e' (tk_id new) l' = Inr () \<and> tk_entityId new = tk_entityId old \<and>
        pl_permissions (tk_payload new) = pl_permissions (tk_payload old) \<and> pl_riskScore (tk_payload new) = 10
    | _ \<Rightarrow> False"
proof -
  let ?op = "rotation_options tid reason by old"
  define new where "new = issue_token ho e (tk_entityId old) (tk_entityType old) ?op l"
  define f where "f = (\<lambda>t. tk_meta (\<lambda>m. m\<lparr>tm_rotationHistory := tm_rotationHistory (tk_metadata old) @
      [\<lparr>ro_previousTokenId = tid, ro_newTokenId = tk_id new, ro_reason = reason, ro_rotatedAt = le_now e,
        ro_rotatedBy = by\<rparr>]\<rparr>) (t\<lparr>tk_version := tk_version old + 1\<rparr>))"
  define l1 where "l1 = fst (issueToken ho e (tk_entityId old) (tk_entityType old) ?op l)"
  define l2 where "l2 = revokeToken (later_draws 4 e) tid (''Rotated: '' @ reason) by (lh_update (tk_id new) f l1)"
  have id: "tk_id new \<noteq> tid" using assms(2) by (simp add: new_def issued_fields)
  have "jm_get (lh_tokens l1) (tk_id new) = Some new" unfolding l1_def new_def by (rule issued_lookup)
  then have got: "jm_get (lh_tokens l2) (tk_id new) = Some (f new)"
    using id by (auto simp: l2_def revokeToken_def lh_update_def split: option.split)
  have rot: "rotateToken ho e tid reason by l = (lh_emit (TokenRotated tid (tk_id new) reason) l2, Inr (f new))"
    unfolding rotateToken_def assms(1) option.case Let_def split_beta issueToken_snd
    unfolding new_def [symmetric] l1_def [symmetric] f_def [symmetric] l2_def [symmetric] got by simp
  have hashed: "entity_hashed (f new)" and sig: "verifySignature ho (f new)" and active: "tk_status (f new) = T_active"
    using issued_fields(1-3) [of ho e "tk_entityId old" "tk_entityType old" ?op l]
    by (simp_all add: entity_hashed_def verifySignature_def tk_meta_def f_def new_def)
  have fresh: "\<not> expired_at (le_now e') (f new)"
    using assms(3) by (auto simp: expired_at_def tk_meta_def f_def new_def issue_token_def Let_def)
  have "verdict_on ho e' (tk_id new) (lh_emit (TokenRotated tid (tk_id new) reason) l2) = Inr ()"
    by (subst verdict_on_token [of _ _ "f new"]) (simp_all add: got hashed active sig fresh)
  then show ?thesis
    by (simp add: rot f_def new_def tk_meta_def issue_token_def issue_payload_def rotation_options_def no_options_def
        num_or_def dflt_def Let_def)
qed

section \<open>Witnesses\<close>

definition demo_host :: lh_host where
  "demo_host = \<lparr>lo_num = (\<lambda>_. ''0''), lo_log2 = (\<lambda>_. 0)\<rparr>"

definition demo_env :: lh_env where
  "demo_env = \<lparr>le_now = 0, le_text = (\<lambda>k. nat_str k), le_tick = (\<lambda>_. 0), le_scan = 100\<rparr>"

definition demo_hub :: "nat Lighthouse" where
  "demo_hub = fst (issueToken demo_host demo_env ''eve'' E_USER no_options
     (new_Lighthouse \<lparr>qc_tokenAlgorithm = None, qc_tokenExpiry = None, qc_rotationInterval = None,
        qc_riskThresholds = None, qc_warpTunnel = None, qc_iceBox = None, qc_monitoring = None\<rparr>))"

lemma demo_hub_token:
  "\<exists>t. jm_get (lh_tokens demo_hub) ''uet_0_0'' = Some t \<and> tk_entityId t = ''eve''"
  "rt_autoWarpTunnel (lc_riskThresholds (lh_config demo_hub)) = 85" "lc_tokenExpiry (lh_config demo_hub) = 0"
proof -
  have id: "generateTokenId 0 (nat_str 0) = ''uet_0_0''"
    by code_simp
  show "\<exists>t. jm_get (lh_tokens demo_hub) ''uet_0_0'' = Some t \<and> tk_entityId t = ''eve''"
    unfolding demo_hub_def issueToken_def Let_def fst_conv lh_emit_fields
    by (simp add: issued_fields demo_env_def id) (simp add: issue_token_def Let_def)
  show "rt_autoWarpTunnel (lc_riskThresholds (lh_config demo_hub)) = 85" "lc_tokenExpiry (lh_config demo_hub) = 0"
    by (simp_all add: demo_hub_def issueToken_def Let_def new_Lighthouse_def lh_merge_config_def lh_DEFAULT_CONFIG_def
        dflt_def)
qed

theorem quarantine_holds_witness:
  "\<exists>s. verdict_on demo_host demo_env ''uet_0_0''
      (lh_run demo_host [Verdict demo_env ''0_3'' D_block ''seen'' ''bob'' None]
        (updateRiskScore demo_host demo_env ''uet_0_0'' 90 ''alert'' demo_hub)) = Inl (NotActive s)"
proof -
  obtain t where "jm_get (lh_tokens demo_hub) ''uet_0_0'' = Some t" using demo_hub_token(1) by blast
  from quarantine_holds [OF this, of 90 "[Verdict demo_env ''0_3'' D_block ''seen'' ''bob'' None]" demo_host demo_env
      "''alert''" demo_env]
  show ?thesis by (auto simp: demo_hub_token(2) spares_def releases_def)
qed

theorem rotation_escapes_quarantine_witness:
  "\<exists>l' new. rotateToken demo_host (later_draws 5 demo_env) ''uet_0_0'' ''routine'' ''eve'' demo_hub = (l', Inr new) \<and>
     verdict_on demo_host demo_env (tk_id new) l' = Inr ()"
proof -
  obtain t where t: "jm_get (lh_tokens demo_hub) ''uet_0_0'' = Some t" using demo_hub_token(1) by blast
  have "generateTokenId 0 (nat_str 5) = ''uet_0_5''"
    by code_simp
  then have "generateTokenId (le_now (later_draws 5 demo_env)) (le_text (later_draws 5 demo_env) 0) \<noteq> ''uet_0_0''"
    by (simp add: later_draws_def demo_env_def)
  from rotation_escapes_quarantine [OF t this, of demo_env demo_host "''routine''" "''eve''"]
  show ?thesis by (auto simp: demo_hub_token(3) split: prod.splits sum.splits)
qed

end
