(* ===== verification/LighthouseVoid.thy ===== *)
theory LighthouseVoid
  imports LighthouseProps VoidProps
begin

text \<open>
  The token hub and the secret store together: the store's access check asks for a token of the hub.
\<close>

lemma genuine_token_refused:
  "rr_breakGlass rq \<noteq> Some True \<Longrightarrow> vc_lighthouseIntegration config \<Longrightarrow>
   rr_lighthouseTokenId rq = Some (generateTokenId t random) \<Longrightarrow> checkAccess now config policy rq \<noteq> None"
  by (auto simp: checkAccess_def verifyLighthouseToken_def generateTokenId_def lh_generateId_def str_truthy_def dflt_def
      split: option.splits if_splits)

lemma refused_access:
  assumes "\<And>policy. checkAccess now (vs_config v) policy rq \<noteq> None"
  shows "isl (snd (retrieveSecret h now rnd rq v))"
proof (cases "snd (retrieveSecret h now rnd rq v)")
  case (Inr resp)
  then have "retrieveSecret h now rnd rq v = (fst (retrieveSecret h now rnd rq v), Inr resp)"
    by (metis prod.collapse)
  then obtain e where "may_read now (vs_config v) rq e" by (rule retrieveSecret_okD)
  with assms [of "se_accessPolicy e"] show ?thesis by (simp add: may_read_def)
qed simp

text \<open>
  C25. The store accepts no token of the hub. In a vault with the Lighthouse integration on, a retrieval without
  break-glass access that presents a token the hub has issued is refused, whoever asks (break-glass access is
  granted before the token is looked at, and without the integration it is not looked at): the hub's
  identifiers begin with \<open>uet_\<close>, and the store wants \<open>uet-\<close>. Any text that begins so passes its check, and what follows
  makes no difference.
\<close>

theorem void_refuses_lighthouse_tokens:
  assumes "vc_lighthouseIntegration (vs_config v)" and "rr_breakGlass rq \<noteq> Some True"
  shows "isl (snd (retrieveSecret h now rnd
        (rq\<lparr>rr_lighthouseTokenId := Some (tk_id (issue_token ho e i ty op l))\<rparr>) v)) \<and>
    checkAccess now (vs_config v) policy (rq\<lparr>rr_lighthouseTokenId := Some (''uet-'' @ x)\<rparr>) =
    checkAccess now (vs_config v) policy (rq\<lparr>rr_lighthouseTokenId := Some (''uet-'' @ y)\<rparr>)"
proof
  show "isl (snd (retrieveSecret h now rnd (rq\<lparr>rr_lighthouseTokenId := Some (tk_id (issue_token ho e i ty op l))\<rparr>) v))"
    using assms by (intro refused_access genuine_token_refused [of _ _ "le_now e" "le_text e 0"]) (simp_all add: issued_fields)
  have "void_evaluateCondition (rq\<lparr>rr_lighthouseTokenId := Some (''uet-'' @ x)\<rparr>) =
      void_evaluateCondition (rq\<lparr>rr_lighthouseTokenId := Some (''uet-'' @ y)\<rparr>)"
    by (rule ext) (simp add: void_evaluateCondition_def str_truthy_def split: condition_type.split)
  then show "checkAccess now (vs_config v) policy (rq\<lparr>rr_lighthouseTokenId := Some (''uet-'' @ x)\<rparr>) =
      checkAccess now (vs_config v) policy (rq\<lparr>rr_lighthouseTokenId := Some (''uet-'' @ y)\<rparr>)"
    by (simp add: checkAccess_def verifyLighthouseToken_def str_truthy_def dflt_def cong: option.case_cong if_cong)
qed

theorem void_refuses_lighthouse_tokens_witness:
  "isl (snd (retrieveSecret VoidProps.demo_host 3 (\<lambda>_. ''r'')
     (demo_get\<lparr>rr_lighthouseTokenId := Some (tk_id (issue_token LighthouseProps.demo_host demo_env ''eve'' E_USER
        no_options demo_hub))\<rparr>) demo_stored))"
proof -
  have "vc_lighthouseIntegration (vs_config demo_stored)" "rr_breakGlass demo_get \<noteq> Some True"
    by (simp_all add: demo_stored_def put_secret_def demo_vault_open void_DEFAULT_CONFIG_def demo_get_def)
  from void_refuses_lighthouse_tokens [OF this] show ?thesis by blast
qed

end
