(* ===== verification/DependencyGraph.thy ===== *)
theory DependencyGraph
  imports Prelude
begin

text \<open>
  The dependency graph of \<open>services/artifactory/src/intelligence/dependency-graph.ts\<close>: registration, impact
  analysis (breadth first), circular dependencies (depth first), dependency trees and statistics.

  The database behind it is an interface of the source, \<open>GraphDatabase\<close>; it is an argument here, a record
  of its methods over a state \<open>'d\<close>. Readings do not change it, and no other client changes it during one
  operation. The two searches may not end on an infinite graph, so they are partial functions whose
  value \<^const>\<open>None\<close> means that they never return.
\<close>

section \<open>Data\<close>

datatype scan_status = clean | vulnerable | quarantined | scan_pending

record DependencyNode =
  dn_id :: string
  dn_name :: string
  dn_version :: string
  dn_type :: string
  dn_tenantId :: string
  dn_repositoryId :: string
  dn_publishedAt :: string
  dn_scanStatus :: scan_status
  dn_metadata :: "(string \<times> jsval) list"

datatype dependency_type = runtime_dep | dev_dep | peer_dep | optional_dep | build_dep

record DependencyEdge =
  de_sourceId :: string
  de_targetId :: string
  de_dependencyType :: dependency_type
  de_versionConstraint :: string
  de_resolved :: bool

record ImpactAnalysis =
  im_rootArtifactId :: string
  im_rootArtifactName :: string
  im_directDependents :: "DependencyNode list"
  im_transitiveDependents :: "DependencyNode list"
  im_totalImpacted :: nat
  im_impactedTenants :: "string set"
  im_maxDepth :: nat
  im_criticalPaths :: "string list list"

record VulnerabilityPropagation =
  vp_sourceArtifactId :: string
  vp_vulnerabilityId :: string
  vp_severity :: string
  vp_affectedNodes :: "DependencyNode list"
  vp_propagationPaths :: "string list list"
  vp_totalExposure :: nat

text \<open>The pairs of \<open>getDependencies\<close> are an edge with its target, those of \<open>getDependents\<close> an edge with
  its source.\<close>

record 'd GraphDatabase =
  gd_getNode :: "'d \<Rightarrow> string \<Rightarrow> DependencyNode option"
  gd_upsertNode :: "DependencyNode \<Rightarrow> 'd \<Rightarrow> 'd"
  gd_deleteNode :: "string \<Rightarrow> 'd \<Rightarrow> 'd"
  gd_addEdge :: "DependencyEdge \<Rightarrow> 'd \<Rightarrow> 'd"
  gd_removeEdge :: "string \<Rightarrow> string \<Rightarrow> 'd \<Rightarrow> 'd"
  gd_getDependencies :: "'d \<Rightarrow> string \<Rightarrow> (DependencyEdge \<times> DependencyNode) list"
  gd_getDependents :: "'d \<Rightarrow> string \<Rightarrow> (DependencyEdge \<times> DependencyNode) list"
  gd_getAllNodes :: "'d \<Rightarrow> string \<Rightarrow> nat \<Rightarrow> nat \<Rightarrow> DependencyNode list"

section \<open>Changes\<close>

definition registerArtifact :: "'d GraphDatabase \<Rightarrow> DependencyNode \<Rightarrow> 'd \<Rightarrow> 'd" where
  "registerArtifact db node d = gd_upsertNode db node d"

definition addDependency :: "'d GraphDatabase \<Rightarrow> DependencyEdge \<Rightarrow> 'd \<Rightarrow> 'd" where
  "addDependency db edge d = gd_addEdge db edge d"

definition remove_edges :: "'d GraphDatabase \<Rightarrow> (DependencyEdge \<times> DependencyNode) list \<Rightarrow> 'd \<Rightarrow> 'd" where
  "remove_edges db edges d = fold (\<lambda>(e, _). gd_removeEdge db (de_sourceId e) (de_targetId e)) edges d"

record new_dependency =
  nd_targetId :: string
  nd_dependencyType :: dependency_type
  nd_versionConstraint :: string

definition updateDependencies :: "'d GraphDatabase \<Rightarrow> string \<Rightarrow> new_dependency list \<Rightarrow> 'd \<Rightarrow> 'd" where
  "updateDependencies db artifactId dependencies d =
     fold (\<lambda>n. gd_addEdge db
         \<lparr>de_sourceId = artifactId, de_targetId = nd_targetId n, de_dependencyType = nd_dependencyType n,
          de_versionConstraint = nd_versionConstraint n, de_resolved = True\<rparr>)
       dependencies (remove_edges db (gd_getDependencies db d artifactId) d)"

definition removeArtifact :: "'d GraphDatabase \<Rightarrow> string \<Rightarrow> 'd \<Rightarrow> 'd" where
  "removeArtifact db artifactId d =
     gd_deleteNode db artifactId
       (remove_edges db (gd_getDependents db d artifactId)
         (remove_edges db (gd_getDependencies db d artifactId) d))"

section \<open>Impact analysis\<close>

record impact_item =
  qi_nodeId :: string
  qi_depth :: nat
  qi_path :: "string list"

record impact_state =
  is_queue :: "impact_item list"
  is_visited :: "string set"
  is_direct :: "DependencyNode list"
  is_transitive :: "DependencyNode list"
  is_tenants :: "string set"
  is_paths :: "string list list"
  is_maxDepth :: nat

definition visit_dependent :: "impact_item \<Rightarrow> DependencyEdge \<times> DependencyNode \<Rightarrow> impact_state \<Rightarrow> impact_state" where
  "visit_dependent current dep s =
     (let source = snd dep
      in if dn_id source \<in> is_visited s then s
         else
           (let path = qi_path current @ [dn_name source]
            in s\<lparr>is_visited := insert (dn_id source) (is_visited s),
                 is_tenants := insert (dn_tenantId source) (is_tenants s),
                 is_direct := (if qi_depth current = 0 then is_direct s @ [source] else is_direct s),
                 is_transitive := (if qi_depth current = 0 then is_transitive s else is_transitive s @ [source]),
                 is_paths := (if dn_scanStatus source = vulnerable \<or> dn_scanStatus source = quarantined
                              then is_paths s @ [path] else is_paths s),
                 is_queue := is_queue s @
                   [\<lparr>qi_nodeId = dn_id source, qi_depth = qi_depth current + 1, qi_path = path\<rparr>]\<rparr>))"

text \<open>One round of the loop, after the head of the queue is taken off.\<close>

definition impact_step :: "(string \<Rightarrow> (DependencyEdge \<times> DependencyNode) list) \<Rightarrow> nat \<Rightarrow> impact_item \<Rightarrow> impact_state \<Rightarrow> impact_state" where
  "impact_step dependents maxDepth current s =
     (if qi_depth current > maxDepth then s
      else fold (visit_dependent current) (dependents (qi_nodeId current))
             (s\<lparr>is_maxDepth := max (is_maxDepth s) (qi_depth current)\<rparr>))"

partial_function (option) impact_loop ::
  "(string \<Rightarrow> (DependencyEdge \<times> DependencyNode) list) \<Rightarrow> nat \<Rightarrow> impact_state \<Rightarrow> impact_state option" where
  "impact_loop dependents maxDepth s =
     (case is_queue s of
        [] \<Rightarrow> Some s
      | current # rest \<Rightarrow>
          impact_loop dependents maxDepth (impact_step dependents maxDepth current (s\<lparr>is_queue := rest\<rparr>)))"

definition impact_start :: "string \<Rightarrow> string \<Rightarrow> impact_state" where
  "impact_start artifactId name =
     \<lparr>is_queue = [\<lparr>qi_nodeId = artifactId, qi_depth = 0, qi_path = [name]\<rparr>], is_visited = {artifactId},
      is_direct = [], is_transitive = [], is_tenants = {}, is_paths = [], is_maxDepth = 0\<rparr>"

text \<open>\<^const>\<open>Inl\<close>: the artifact is not in the graph (\<open>GraphError\<close>).\<close>

definition analyzeImpact :: "'d GraphDatabase \<Rightarrow> 'd \<Rightarrow> string \<Rightarrow> nat \<Rightarrow> (string + ImpactAnalysis) option" where
  "analyzeImpact db d artifactId maxDepth =
     (case gd_getNode db d artifactId of
        None \<Rightarrow> Some (Inl artifactId)
      | Some rootNode \<Rightarrow>
          map_option (\<lambda>s. Inr
            \<lparr>im_rootArtifactId = artifactId, im_rootArtifactName = dn_name rootNode,
             im_directDependents = is_direct s, im_transitiveDependents = is_transitive s,
             im_totalImpacted = length (is_direct s) + length (is_transitive s),
             im_impactedTenants = is_tenants s, im_maxDepth = is_maxDepth s, im_criticalPaths = is_paths s\<rparr>)
            (impact_loop (gd_getDependents db d) maxDepth (impact_start artifactId (dn_name rootNode))))"

definition traceVulnerabilityPropagation ::
  "'d GraphDatabase \<Rightarrow> 'd \<Rightarrow> string \<Rightarrow> string \<Rightarrow> string \<Rightarrow> (string + VulnerabilityPropagation) option" where
  "traceVulnerabilityPropagation db d artifactId vulnerabilityId severity =
     map_option (map_sum id (\<lambda>im.
       (let affected = im_directDependents im @ im_transitiveDependents im
        in \<lparr>vp_sourceArtifactId = artifactId, vp_vulnerabilityId = vulnerabilityId, vp_severity = severity,
            vp_affectedNodes = affected,
            vp_propagationPaths = (if length (im_criticalPaths im) > 0 then im_criticalPaths im
                                   else [[im_rootArtifactName im]]),
            vp_totalExposure = length affected\<rparr>)))
       (analyzeImpact db d artifactId 10)"

section \<open>Circular dependencies\<close>

record cycle_state =
  cy_cycles :: "string list list"
  cy_visited :: "string set"
  cy_stack :: "string set"

definition index_of :: "'a \<Rightarrow> 'a list \<Rightarrow> nat option" where
  "index_of x xs = find (\<lambda>i. xs ! i = x) [0..<length xs]"

definition report_cycle :: "string list \<Rightarrow> DependencyNode \<Rightarrow> cycle_state \<Rightarrow> cycle_state" where
  "report_cycle path target s =
     (case index_of (dn_name target) path of
        None \<Rightarrow> s
      | Some i \<Rightarrow> s\<lparr>cy_cycles := cy_cycles s @ [drop i path @ [dn_name target]]\<rparr>)"

definition cy_enter :: "string \<Rightarrow> cycle_state \<Rightarrow> cycle_state" where
  "cy_enter i s = s\<lparr>cy_visited := insert i (cy_visited s), cy_stack := insert i (cy_stack s)\<rparr>"

definition cy_leave :: "string \<Rightarrow> cycle_state \<Rightarrow> cycle_state" where
  "cy_leave i s = s\<lparr>cy_stack := cy_stack s - {i}\<rparr>"

text \<open>The loop of \<open>dfs\<close> over the dependencies of a node; the recursive call is the middle branch.\<close>

partial_function (option) cycle_deps ::
  "(string \<Rightarrow> (DependencyEdge \<times> DependencyNode) list) \<Rightarrow> (DependencyEdge \<times> DependencyNode) list \<Rightarrow> string list \<Rightarrow>
     cycle_state \<Rightarrow> cycle_state option" where
  "cycle_deps dependencies deps path s =
     (case deps of
        [] \<Rightarrow> Some s
      | dep # rest \<Rightarrow>
          if dn_id (snd dep) \<in> cy_stack s
          then cycle_deps dependencies rest path (report_cycle path (snd dep) s)
          else if dn_id (snd dep) \<notin> cy_visited s
          then Option.bind
            (cycle_deps dependencies (dependencies (dn_id (snd dep))) (path @ [dn_name (snd dep)])
               (cy_enter (dn_id (snd dep)) s))
            (\<lambda>s1. cycle_deps dependencies rest path (cy_leave (dn_id (snd dep)) s1))
          else cycle_deps dependencies rest path s)"

definition cycle_dfs ::
  "(string \<Rightarrow> (DependencyEdge \<times> DependencyNode) list) \<Rightarrow> string \<Rightarrow> string list \<Rightarrow> cycle_state \<Rightarrow> cycle_state option" where
  "cycle_dfs dependencies nodeId path s =
     map_option (cy_leave nodeId) (cycle_deps dependencies (dependencies nodeId) path (cy_enter nodeId s))"

fun cycle_roots ::
  "(string \<Rightarrow> (DependencyEdge \<times> DependencyNode) list) \<Rightarrow> DependencyNode list \<Rightarrow> cycle_state \<Rightarrow> cycle_state option" where
  "cycle_roots dependencies [] s = Some s"
| "cycle_roots dependencies (node # nodes) s =
     (if dn_id node \<notin> cy_visited s
      then Option.bind (cycle_dfs dependencies (dn_id node) [dn_name node] s) (cycle_roots dependencies nodes)
      else cycle_roots dependencies nodes s)"

definition findCircularDependencies :: "'d GraphDatabase \<Rightarrow> 'd \<Rightarrow> string \<Rightarrow> string list list option" where
  "findCircularDependencies db d tenantId =
     map_option cy_cycles
       (cycle_roots (gd_getDependencies db d) (gd_getAllNodes db d tenantId 10000 0)
          \<lparr>cy_cycles = [], cy_visited = {}, cy_stack = {}\<rparr>)"

section \<open>Trees and statistics\<close>

datatype dependency_tree = Tree DependencyNode DependencyEdge "dependency_tree list"

text \<open>The recursion stops at the depth \<open>maxDepth\<close>; the argument counts what is left. The second component
  is the number of nodes added to \<open>totalNodes\<close>.\<close>

primrec buildTree ::
  "nat \<Rightarrow> (string \<Rightarrow> (DependencyEdge \<times> DependencyNode) list) \<Rightarrow> string \<Rightarrow> dependency_tree list \<times> nat" where
  "buildTree 0 dependencies nodeId = ([], 0)"
| "buildTree (Suc n) dependencies nodeId =
     fold (\<lambda>(e, target) (ts, k).
         (case buildTree n dependencies (dn_id target) of (sub, j) \<Rightarrow> (ts @ [Tree target e sub], k + 1 + j)))
       (dependencies nodeId) ([], 0)"

definition getDependencyTree ::
  "'d GraphDatabase \<Rightarrow> 'd \<Rightarrow> string \<Rightarrow> nat \<Rightarrow> string + (DependencyNode \<times> dependency_tree list \<times> nat)" where
  "getDependencyTree db d artifactId maxDepth =
     (case gd_getNode db d artifactId of
        None \<Rightarrow> Inl artifactId
      | Some rootNode \<Rightarrow>
          (case buildTree maxDepth (gd_getDependencies db d) artifactId of (ts, n) \<Rightarrow> Inr (rootNode, ts, 1 + n)))"

record graph_stats =
  gs_totalNodes :: nat
  gs_totalEdges :: nat
  gs_avgDependencies :: rat
  gs_maxDependencies :: nat
  gs_orphanedNodes :: nat

definition getGraphStats :: "'d GraphDatabase \<Rightarrow> 'd \<Rightarrow> string \<Rightarrow> graph_stats" where
  "getGraphStats db d tenantId =
     (let nodes = gd_getAllNodes db d tenantId 100000 0;
          deps = (\<lambda>n. length (gd_getDependencies db d (dn_id n)));
          dependents = (\<lambda>n. length (gd_getDependents db d (dn_id n)));
          totalEdges = sum_list (map deps nodes)
      in \<lparr>gs_totalNodes = length nodes, gs_totalEdges = totalEdges,
          gs_avgDependencies = (if length nodes > 0 then of_nat totalEdges / of_nat (length nodes) else 0),
          gs_maxDependencies = fold (\<lambda>n m. max m (deps n)) nodes 0,
          gs_orphanedNodes = length (filter (\<lambda>n. deps n = 0 \<and> dependents n = 0) nodes)\<rparr>)"

section \<open>The breadth-first search\<close>

text \<open>The identifiers one step away, and those at most \<open>n\<close> steps away.\<close>

definition next_ids :: "(string \<Rightarrow> (DependencyEdge \<times> DependencyNode) list) \<Rightarrow> string \<Rightarrow> string set" where
  "next_ids edges v = (\<lambda>e. dn_id (snd e)) ` set (edges v)"

primrec near :: "('a \<Rightarrow> 'a set) \<Rightarrow> 'a \<Rightarrow> nat \<Rightarrow> 'a set" where
  "near E r 0 = {r}"
| "near E r (Suc n) = near E r n \<union> \<Union> (E ` near E r n)"

lemma near_mono: "m \<le> n \<Longrightarrow> near E r m \<subseteq> near E r n"
  by (rule lift_Suc_mono_le [of "near E r"]) auto

lemma near_closed: "r \<in> V \<Longrightarrow> (\<And>v. v \<in> V \<Longrightarrow> E v \<subseteq> V) \<Longrightarrow> near E r n \<subseteq> V"
  by (induction n) auto

text \<open>What one round adds.\<close>

definition new_item :: "impact_item \<Rightarrow> DependencyNode \<Rightarrow> impact_item" where
  "new_item current n = \<lparr>qi_nodeId = dn_id n, qi_depth = qi_depth current + 1, qi_path = qi_path current @ [dn_name n]\<rparr>"

definition round_adds :: "impact_item \<Rightarrow> DependencyNode list \<Rightarrow> impact_state \<Rightarrow> impact_state \<Rightarrow> bool" where
  "round_adds current new s s' \<longleftrightarrow>
     distinct (map dn_id new) \<and> set (map dn_id new) \<inter> is_visited s = {} \<and>
     is_visited s' = is_visited s \<union> set (map dn_id new) \<and>
     is_queue s' = is_queue s @ map (new_item current) new \<and>
     is_direct s' = is_direct s @ (if qi_depth current = 0 then new else []) \<and>
     is_transitive s' = is_transitive s @ (if qi_depth current = 0 then [] else new) \<and>
     is_tenants s' = is_tenants s \<union> dn_tenantId ` set new \<and> is_maxDepth s' = is_maxDepth s"

lemma visit_round:
  "\<exists>new. round_adds current new s (fold (visit_dependent current) deps s) \<and>
     set (map dn_id new) = (\<lambda>e. dn_id (snd e)) ` set deps - is_visited s"
proof (induction deps arbitrary: s)
  case Nil
  then show ?case by (intro exI [of _ "[]"]) (simp add: round_adds_def)
next
  case (Cons dep deps)
  let ?s1 = "visit_dependent current dep s"
  obtain new where new: "round_adds current new ?s1 (fold (visit_dependent current) deps ?s1)"
    "set (map dn_id new) = (\<lambda>e. dn_id (snd e)) ` set deps - is_visited ?s1"
    using Cons.IH by blast
  show ?case
  proof (cases "dn_id (snd dep) \<in> is_visited s")
    case True
    then have "?s1 = s" by (simp add: visit_dependent_def)
    with new True show ?thesis by (intro exI [of _ new]) auto
  next
    case False
    then have "round_adds current (snd dep # new) s (fold (visit_dependent current) (dep # deps) s) \<and>
        set (map dn_id (snd dep # new)) = (\<lambda>e. dn_id (snd e)) ` set (dep # deps) - is_visited s"
      using new by (auto simp: round_adds_def visit_dependent_def Let_def new_item_def)
    then show ?thesis by blast
  qed
qed

text \<open>The invariant of the search from \<open>r\<close> to depth \<open>m\<close>.\<close>

definition impact_inv :: "(string \<Rightarrow> string set) \<Rightarrow> string \<Rightarrow> nat \<Rightarrow> impact_state \<Rightarrow> bool" where
  "impact_inv E r m s \<longleftrightarrow>
     r \<in> is_visited s \<and> is_visited s \<subseteq> near E r (m + 1) \<and>
     (\<forall>q \<in> set (is_queue s). qi_nodeId q \<in> is_visited s \<and> qi_nodeId q \<in> near E r (qi_depth q) \<and>
        qi_depth q \<le> m + 1 \<and> (0 < qi_depth q \<longrightarrow> qi_nodeId q \<notin> near E r (qi_depth q - 1))) \<and>
     sorted (map qi_depth (is_queue s)) \<and>
     (\<forall>q \<in> set (is_queue s). qi_depth q \<le> qi_depth (hd (is_queue s)) + 1) \<and>
     (is_queue s \<noteq> [] \<longrightarrow> near E r (qi_depth (hd (is_queue s))) \<subseteq> is_visited s) \<and>
     (\<forall>v \<in> is_visited s. E v \<subseteq> is_visited s \<or> v \<in> qi_nodeId ` set (is_queue s) \<or> near E r (m + 1) \<subseteq> is_visited s)"

lemma impact_inv_final:
  assumes "impact_inv E r m s" and "is_queue s = []"
  shows "is_visited s = near E r (m + 1)"
proof (cases "near E r (m + 1) \<subseteq> is_visited s")
  case True
  then show ?thesis using assms(1) by (auto simp: impact_inv_def)
next
  case False
  then have "\<And>v. v \<in> is_visited s \<Longrightarrow> E v \<subseteq> is_visited s" using assms by (auto simp: impact_inv_def)
  then have "near E r (m + 1) \<subseteq> is_visited s"
    by (intro near_closed) (use assms(1) in \<open>auto simp: impact_inv_def\<close>)
  then show ?thesis using False by blast
qed

lemma impact_invD:
  assumes "impact_inv E r m s" and "is_queue s = current # rest"
  shows "qi_nodeId current \<in> is_visited s" and "qi_nodeId current \<in> near E r (qi_depth current)"
    and "qi_depth current \<le> m + 1" and "near E r (qi_depth current) \<subseteq> is_visited s"
    and "sorted (map qi_depth rest)" and "is_visited s \<subseteq> near E r (m + 1)" and "r \<in> is_visited s"
    and "q \<in> set rest \<Longrightarrow> qi_depth current \<le> qi_depth q \<and> qi_depth q \<le> qi_depth current + 1"
    and "q \<in> set rest \<Longrightarrow> qi_nodeId q \<in> is_visited s \<and> qi_nodeId q \<in> near E r (qi_depth q) \<and> qi_depth q \<le> m + 1"
    and "q \<in> set rest \<Longrightarrow> 0 < qi_depth q \<Longrightarrow> qi_nodeId q \<notin> near E r (qi_depth q - 1)"
    and "v \<in> is_visited s \<Longrightarrow>
      E v \<subseteq> is_visited s \<or> v = qi_nodeId current \<or> v \<in> qi_nodeId ` set rest \<or> near E r (m + 1) \<subseteq> is_visited s"
  using assms by (auto simp: impact_inv_def)

lemma impact_step_skip:
  assumes inv: "impact_inv E r m s" and q: "is_queue s = current # rest" and deep: "m < qi_depth current"
  shows "impact_inv E r m (s\<lparr>is_queue := rest\<rparr>)"
proof -
  note D = impact_invD [OF inv q]
  have all: "near E r (m + 1) \<subseteq> is_visited s"
    using D(3,4) deep by (metis Suc_eq_plus1 Suc_leI le_antisym)
  have hd: "near E r (qi_depth (hd rest)) \<subseteq> is_visited s" if "rest \<noteq> []"
    using near_mono [of "qi_depth (hd rest)" "m + 1" E r] D(9) [of "hd rest"] that all by auto
  have low: "qi_depth x \<le> qi_depth (hd rest) + 1" if "x \<in> set rest" for x
    using D(8) [OF that] D(8) [of "hd rest"] that by (cases rest) auto
  show ?thesis
    unfolding impact_inv_def using D(5-7,9,10) all hd low by simp
qed

lemma sorted_head: "sorted (map f xs) \<Longrightarrow> x \<in> set xs \<Longrightarrow> f (hd xs) \<le> f x"
  by (cases xs) auto

lemma impact_step_round:
  assumes inv: "impact_inv E r m s" and q: "is_queue s = current # rest" and k: "qi_depth current \<le> m"
    and new: "round_adds current new (s\<lparr>is_queue := rest, is_maxDepth := d\<rparr>) s'"
      "set (map dn_id new) = E (qi_nodeId current) - is_visited s"
  shows "impact_inv E r m s'"
proof -
  note D = impact_invD [OF inv q]
  let ?k = "qi_depth current"
  have v': "is_visited s' = is_visited s \<union> E (qi_nodeId current)"
    using new by (auto simp: round_adds_def)
  have q': "is_queue s' = rest @ map (new_item current) new" using new(1) by (simp add: round_adds_def)
  have E: "E (qi_nodeId current) \<subseteq> near E r (?k + 1)" using D(2) by auto
  have up: "near E r (?k + 1) \<subseteq> near E r (m + 1)" using k by (intro near_mono) simp
  have items: "qi_nodeId x \<in> is_visited s' \<and> qi_nodeId x \<in> near E r (?k + 1) \<and> qi_depth x = ?k + 1 \<and>
      qi_nodeId x \<notin> near E r ?k" if x: "x \<in> set (map (new_item current) new)" for x
  proof -
    obtain n where n: "x = new_item current n" "n \<in> set new" using x by auto
    then have "dn_id n \<in> E (qi_nodeId current) - is_visited s" using new(2) by auto
    then show ?thesis using n E D(4) v' by (auto simp: new_item_def)
  qed
  have depth: "?k \<le> qi_depth x \<and> qi_depth x \<le> ?k + 1" if x: "x \<in> set (is_queue s')" for x
  proof (cases "x \<in> set rest")
    case True
    then show ?thesis by (rule D(8))
  next
    case False
    then have "x \<in> set (map (new_item current) new)" using x by (simp add: q')
    then show ?thesis using items by simp
  qed
  have sorted: "sorted (map qi_depth (is_queue s'))"
    unfolding q' map_append sorted_append using D(5,8) by (auto simp: new_item_def sorted_wrt_map sorted_wrt_iff_nth_less)
  have head: "near E r (qi_depth (hd (is_queue s'))) \<subseteq> is_visited s'" if ne: "is_queue s' \<noteq> []"
  proof (cases "qi_depth (hd (is_queue s')) = ?k")
    case True
    then show ?thesis using D(4) v' by auto
  next
    case False
    with depth [of "hd (is_queue s')"] ne have h: "qi_depth (hd (is_queue s')) = ?k + 1" by auto
    have late: "qi_nodeId x \<notin> near E r ?k" if "x \<in> set rest" for x
    proof -
      have "qi_depth (hd (is_queue s')) \<le> qi_depth x"
        by (rule sorted_head [OF sorted]) (simp add: q' that)
      then have "qi_depth x = ?k + 1" using D(8) [OF that] h by simp
      then show ?thesis using D(10) [OF that] by simp
    qed
    have "E v \<subseteq> is_visited s'" if v: "v \<in> near E r ?k" for v
    proof -
      have "v \<notin> qi_nodeId ` set rest" using late v by auto
      moreover have "E v \<subseteq> near E r (m + 1)" using v up by auto
      moreover have "v \<in> is_visited s" using v D(4) by blast
      ultimately show ?thesis using D(11) [of v] unfolding v' by blast
    qed
    then show ?thesis using h D(4) v' by auto
  qed
  have closed: "E v \<subseteq> is_visited s' \<or> v \<in> qi_nodeId ` set (is_queue s') \<or> near E r (m + 1) \<subseteq> is_visited s'"
    if v: "v \<in> is_visited s'" for v
  proof (cases "v \<in> is_visited s")
    case True
    have "v \<in> qi_nodeId ` set rest \<Longrightarrow> v \<in> qi_nodeId ` set (is_queue s')" by (auto simp: q')
    with D(11) [OF True] show ?thesis unfolding v' by blast
  next
    case False
    then have "v \<in> dn_id ` set new" using v new(2) v' by auto
    then have "v \<in> qi_nodeId ` set (map (new_item current) new)" by (simp add: new_item_def image_image)
    then show ?thesis by (simp add: q' image_Un)
  qed
  have entries: "qi_nodeId x \<in> is_visited s' \<and> qi_nodeId x \<in> near E r (qi_depth x) \<and>
      qi_depth x \<le> m + 1 \<and> (0 < qi_depth x \<longrightarrow> qi_nodeId x \<notin> near E r (qi_depth x - 1))"
    if x: "x \<in> set (is_queue s')" for x
  proof (cases "x \<in> set rest")
    case True
    then show ?thesis using D(9,10) v' by blast
  next
    case False
    then have "x \<in> set (map (new_item current) new)" using x by (simp add: q')
    from items [OF this] k show ?thesis by (simp del: near.simps)
  qed
  have low: "qi_depth x \<le> qi_depth (hd (is_queue s')) + 1" if x: "x \<in> set (is_queue s')" for x
    using depth [OF x] depth [OF hd_in_set [of "is_queue s'"]] x by (cases "is_queue s'") auto
  have top: "is_visited s' \<subseteq> near E r (m + 1)" using D(6) E up v' by blast
  have "r \<in> is_visited s'" using D(7) v' by blast
  then show ?thesis
    unfolding impact_inv_def using sorted head closed entries low top by blast
qed

text \<open>What has been found so far.\<close>

definition impact_found :: "(string \<Rightarrow> string set) \<Rightarrow> string \<Rightarrow> nat \<Rightarrow> impact_state \<Rightarrow> bool" where
  "impact_found E r m s \<longleftrightarrow>
     distinct (map dn_id (is_direct s @ is_transitive s)) \<and>
     dn_id ` set (is_direct s @ is_transitive s) = is_visited s - {r} \<and>
     is_tenants s = dn_tenantId ` set (is_direct s @ is_transitive s) \<and> is_maxDepth s \<le> m \<and>
     (if \<forall>q \<in> set (is_queue s). 0 < qi_depth q then dn_id ` set (is_direct s) = E r - {r}
      else is_visited s = {r} \<and> is_direct s = [] \<and> tl (is_queue s) = [])"

lemma impact_found_skip:
  assumes "impact_found E r m s" and "is_queue s = current # rest" and "m < qi_depth current"
    and "impact_inv E r m s"
  shows "impact_found E r m (s\<lparr>is_queue := rest\<rparr>)"
proof -
  have "\<forall>q \<in> set (is_queue s). 0 < qi_depth q"
    using impact_invD(8) [OF assms(4,2)] assms(2,3) by fastforce
  then show ?thesis using assms(1,2) by (auto simp: impact_found_def)
qed

lemma impact_found_round:
  assumes found: "impact_found E r m s" and q: "is_queue s = current # rest" and k: "qi_depth current \<le> m"
    and inv: "impact_inv E r m s"
    and new: "round_adds current new (s\<lparr>is_queue := rest, is_maxDepth := max (is_maxDepth s) (qi_depth current)\<rparr>) s'"
      "set (map dn_id new) = E (qi_nodeId current) - is_visited s"
  shows "impact_found E r m s'"
proof -
  note D = impact_invD [OF inv q]
  have r: "r \<notin> dn_id ` set new" using new(2) D(7) by auto
  have apart: "dn_id ` set new \<inter> is_visited s = {}" using new(2) by auto
  show ?thesis
  proof (cases "qi_depth current = 0")
    case True
    then have "is_visited s = {r}" "is_direct s = []" "rest = []" "qi_nodeId current = r"
      using found q D(2) by (auto simp: impact_found_def)
    then show ?thesis
      using True new found r by (auto simp: impact_found_def round_adds_def new_item_def)
  next
    case False
    have deep: "\<forall>x \<in> set (is_queue s'). 0 < qi_depth x" "\<forall>x \<in> set (is_queue s). 0 < qi_depth x"
      using False D(8) new(1) q by (fastforce simp: round_adds_def new_item_def)+
    let ?f = "is_direct s @ is_transitive s"
    have all: "is_direct s' @ is_transitive s' = ?f @ new" using False new(1) by (simp add: round_adds_def)
    have f: "distinct (map dn_id ?f)" "dn_id ` set ?f = is_visited s - {r}" "is_tenants s = dn_tenantId ` set ?f"
      "is_maxDepth s \<le> m" "dn_id ` set (is_direct s) = E r - {r}"
      using found deep(2) by (simp_all only: impact_found_def if_True simp_thms)
    have "distinct (map dn_id (?f @ new))"
      unfolding map_append distinct_append using f(1,2) apart new(1) by (auto simp: round_adds_def)
    moreover have "dn_id ` set (?f @ new) = is_visited s' - {r}"
      unfolding set_append image_Un f(2) [unfolded set_append image_Un] using new(1) r by (auto simp: round_adds_def)
    moreover have "is_tenants s' = dn_tenantId ` set (?f @ new)" "is_maxDepth s' \<le> m"
      "dn_id ` set (is_direct s') = E r - {r}"
      using new(1) f(3-5) k False by (auto simp: round_adds_def)
    ultimately show ?thesis
      unfolding impact_found_def all using deep(1) by simp
  qed
qed

lemma impact_step_ok:
  assumes "impact_inv (next_ids dependents) r m s" and "impact_found (next_ids dependents) r m s"
    and "is_queue s = current # rest"
  defines "s' \<equiv> impact_step dependents m current (s\<lparr>is_queue := rest\<rparr>)"
  shows "impact_inv (next_ids dependents) r m s' \<and> impact_found (next_ids dependents) r m s' \<and>
    (\<exists>new. distinct new \<and> set new \<subseteq> next_ids dependents (qi_nodeId current) - is_visited s \<and>
       is_visited s' = is_visited s \<union> set new \<and> length (is_queue s') = length rest + length new)"
proof (cases "m < qi_depth current")
  case True
  then have "s' = s\<lparr>is_queue := rest\<rparr>" by (simp add: s'_def impact_step_def)
  then show ?thesis
    using impact_step_skip [OF assms(1,3) True] impact_found_skip [OF assms(2,3) True assms(1)]
    by (auto intro: exI [of _ "[]"])
next
  case False
  let ?s0 = "s\<lparr>is_queue := rest, is_maxDepth := max (is_maxDepth s) (qi_depth current)\<rparr>"
  have s': "s' = fold (visit_dependent current) (dependents (qi_nodeId current)) ?s0"
    using False by (simp add: s'_def impact_step_def)
  obtain new where new: "round_adds current new ?s0 s'"
    "set (map dn_id new) = next_ids dependents (qi_nodeId current) - is_visited s"
    using visit_round [of current ?s0 "dependents (qi_nodeId current)"] s' by (auto simp: next_ids_def)
  have "distinct (map dn_id new)" "is_visited s' = is_visited s \<union> set (map dn_id new)"
      "length (is_queue s') = length rest + length (map dn_id new)"
    using new(1) by (simp_all add: round_adds_def)
  then show ?thesis
    using False impact_step_round [OF assms(1,3) _ new] impact_found_round [OF assms(2,3) _ assms(1) new] new(2)
    by (intro conjI exI [of _ "map dn_id new"]) simp_all
qed

lemma impact_loop_total:
  assumes "finite U" and "\<And>v. v \<in> U \<Longrightarrow> next_ids dependents v \<subseteq> U"
    and "impact_inv (next_ids dependents) r m s" and "impact_found (next_ids dependents) r m s"
    and "is_visited s \<subseteq> U"
  shows "\<exists>s'. impact_loop dependents m s = Some s' \<and> is_queue s' = [] \<and>
    impact_inv (next_ids dependents) r m s' \<and> impact_found (next_ids dependents) r m s'"
  using assms(3-5)
proof (induction "length (is_queue s) + card (U - is_visited s)" arbitrary: s rule: less_induct)
  case less
  show ?case
  proof (cases "is_queue s")
    case Nil
    then show ?thesis using less.prems by (simp add: impact_loop.simps)
  next
    case (Cons current rest)
    let ?s' = "impact_step dependents m current (s\<lparr>is_queue := rest\<rparr>)"
    from impact_step_ok [OF less.prems(1,2) Cons] obtain new where new: "distinct new"
      "set new \<subseteq> next_ids dependents (qi_nodeId current) - is_visited s"
      "is_visited ?s' = is_visited s \<union> set new" "length (is_queue ?s') = length rest + length new"
      and ok: "impact_inv (next_ids dependents) r m ?s'" "impact_found (next_ids dependents) r m ?s'" by blast
    have "qi_nodeId current \<in> U" using impact_invD(1) [OF less.prems(1) Cons] less.prems(3) by blast
    then have U: "set new \<subseteq> U" using assms(2) new(2) by blast
    have "card (set new) + card (U - is_visited ?s') = card (U - is_visited s)"
    proof -
      have "U - is_visited s = set new \<union> (U - is_visited ?s')" using new(2,3) U by blast
      then show ?thesis
        using assms(1) new(3) by (subst card_Un_disjoint [symmetric]) auto
    qed
    then have "length (is_queue ?s') + card (U - is_visited ?s') < length (is_queue s) + card (U - is_visited s)"
      using new(1,4) Cons by (simp add: distinct_card)
    moreover have "is_visited ?s' \<subseteq> U" using less.prems(3) new(3) U by blast
    ultimately show ?thesis
      using less.hyps [OF _ ok] Cons by (simp add: impact_loop.simps)
  qed
qed

text \<open>Only finitely many identifiers can be reached from the given ones.\<close>

definition finite_from :: "(string \<Rightarrow> (DependencyEdge \<times> DependencyNode) list) \<Rightarrow> string set \<Rightarrow> bool" where
  "finite_from edges S \<longleftrightarrow> (\<exists>U. finite U \<and> S \<subseteq> U \<and> (\<forall>v \<in> U. next_ids edges v \<subseteq> U))"

lemma impact_start_ok:
  "impact_inv E a m (impact_start a name)" "impact_found E a m (impact_start a name)"
  by (auto simp: impact_inv_def impact_found_def impact_start_def near_mono [THEN subsetD, of 0])

lemma impact_loop_result:
  assumes "finite_from dependents {a}"
  shows "\<exists>s. impact_loop dependents m (impact_start a name) = Some s \<and>
    distinct (map dn_id (is_direct s @ is_transitive s)) \<and>
    dn_id ` set (is_direct s) = next_ids dependents a - {a} \<and>
    dn_id ` set (is_direct s @ is_transitive s) = near (next_ids dependents) a (m + 1) - {a} \<and>
    is_tenants s = dn_tenantId ` set (is_direct s @ is_transitive s) \<and> is_maxDepth s \<le> m"
proof -
  obtain U where "finite U" "a \<in> U" "\<And>v. v \<in> U \<Longrightarrow> next_ids dependents v \<subseteq> U"
    using assms by (auto simp: finite_from_def)
  then obtain s where s: "impact_loop dependents m (impact_start a name) = Some s" "is_queue s = []"
      "impact_inv (next_ids dependents) a m s" "impact_found (next_ids dependents) a m s"
    using impact_loop_total [of U dependents a m "impact_start a name"] impact_start_ok
    by (auto simp: impact_start_def)
  then show ?thesis
    using impact_inv_final [OF s(3,2)] by (auto simp: impact_found_def simp del: near.simps)
qed

text \<open>
  C26. Impact analysis. On a graph in which the artifact reaches finitely many others it returns, and
  finds exactly the artifacts that depend on it over at most \<open>maxDepth + 1\<close> edges, each once and without
  itself: the direct ones are those one edge away, the total is their number, the tenants are theirs, and
  the depth it reports is at most \<open>maxDepth\<close>.
\<close>

theorem impact_exact:
  assumes "gd_getNode db d a = Some rootNode" and "finite_from (gd_getDependents db d) {a}"
  shows "\<exists>im. analyzeImpact db d a m = Some (Inr im) \<and>
    distinct (map dn_id (im_directDependents im @ im_transitiveDependents im)) \<and>
    dn_id ` set (im_directDependents im) = next_ids (gd_getDependents db d) a - {a} \<and>
    dn_id ` set (im_directDependents im @ im_transitiveDependents im) =
      near (next_ids (gd_getDependents db d)) a (m + 1) - {a} \<and>
    im_totalImpacted im = card (near (next_ids (gd_getDependents db d)) a (m + 1) - {a}) \<and>
    im_impactedTenants im = dn_tenantId ` set (im_directDependents im @ im_transitiveDependents im) \<and>
    im_maxDepth im \<le> m"
proof -
  obtain s where s: "impact_loop (gd_getDependents db d) m (impact_start a (dn_name rootNode)) = Some s"
    "distinct (map dn_id (is_direct s @ is_transitive s))"
    "dn_id ` set (is_direct s) = next_ids (gd_getDependents db d) a - {a}"
    "dn_id ` set (is_direct s @ is_transitive s) = near (next_ids (gd_getDependents db d)) a (m + 1) - {a}"
    "is_tenants s = dn_tenantId ` set (is_direct s @ is_transitive s)" "is_maxDepth s \<le> m"
    using impact_loop_result [OF assms(2), of m "dn_name rootNode"] by blast
  have "length (is_direct s) + length (is_transitive s) =
      card (near (next_ids (gd_getDependents db d)) a (m + 1) - {a})"
    using distinct_card [OF s(2)] unfolding set_map s(4) by simp
  then show ?thesis
    using s by (simp add: analyzeImpact_def assms(1) del: near.simps)
qed

section \<open>The depth-first search\<close>

lemma index_of_member: "x \<in> set xs \<Longrightarrow> index_of x xs \<noteq> None"
  by (auto simp: index_of_def find_None_iff in_set_conv_nth)

lemma report_cycle_fields [simp]:
  "cy_visited (report_cycle path n s) = cy_visited s" "cy_stack (report_cycle path n s) = cy_stack s"
  by (simp_all add: report_cycle_def split: option.split)

lemma report_cycle_reports: "dn_name n \<in> set path \<Longrightarrow> cy_cycles (report_cycle path n s) \<noteq> []"
  using index_of_member [of "dn_name n" path] by (auto simp: report_cycle_def split: option.splits)

abbreviation edge_rel :: "(string \<Rightarrow> (DependencyEdge \<times> DependencyNode) list) \<Rightarrow> (string \<times> string) set" where
  "edge_rel edges \<equiv> {(v, w). w \<in> next_ids edges v}"

text \<open>The finished identifiers are visited and off the stack; as long as nothing was reported, no edge leaves
  them and they lie on no cycle.\<close>

definition finished :: "cycle_state \<Rightarrow> string set" where
  "finished s = cy_visited s - cy_stack s"

definition settled :: "(string \<Rightarrow> (DependencyEdge \<times> DependencyNode) list) \<Rightarrow> cycle_state \<Rightarrow> bool" where
  "settled edges s \<longleftrightarrow> cy_stack s \<subseteq> cy_visited s \<and>
     (cy_cycles s = [] \<longrightarrow> (\<forall>v \<in> finished s. next_ids edges v \<subseteq> finished s \<and> (v, v) \<notin> (edge_rel edges)\<^sup>+))"

lemma closed_trancl:
  "(v, w) \<in> (edge_rel edges)\<^sup>+ \<Longrightarrow> v \<in> F \<Longrightarrow> (\<And>u. u \<in> F \<Longrightarrow> next_ids edges u \<subseteq> F) \<Longrightarrow> w \<in> F"
  by (induction rule: trancl_induct) auto

lemma settled_enter: "settled edges s \<Longrightarrow> i \<notin> cy_visited s \<Longrightarrow> settled edges (cy_enter i s)"
proof -
  assume "settled edges s" "i \<notin> cy_visited s"
  moreover from this have "finished (cy_enter i s) = finished s" by (auto simp: finished_def cy_enter_def settled_def)
  ultimately show ?thesis by (auto simp: settled_def cy_enter_def)
qed

lemma settled_leave:
  assumes "settled edges s" and "i \<in> cy_stack s" and "cy_cycles s = [] \<Longrightarrow> next_ids edges i \<subseteq> finished s"
  shows "settled edges (cy_leave i s)"
proof -
  have v: "i \<in> cy_visited s" using assms(1,2) by (auto simp: settled_def)
  have f: "finished (cy_leave i s) = insert i (finished s)"
    using assms(2) v by (auto simp: finished_def cy_leave_def)
  have "(v, v) \<notin> (edge_rel edges)\<^sup>+ \<and> next_ids edges v \<subseteq> insert i (finished s)"
    if none: "cy_cycles s = []" and v: "v \<in> insert i (finished s)" for v
  proof -
    have old: "\<And>u. u \<in> finished s \<Longrightarrow> next_ids edges u \<subseteq> finished s \<and> (u, u) \<notin> (edge_rel edges)\<^sup>+"
      using assms(1) none by (simp add: settled_def)
    have "(i, i) \<notin> (edge_rel edges)\<^sup>+"
    proof
      assume loop: "(i, i) \<in> (edge_rel edges)\<^sup>+"
      obtain w where w: "w \<in> next_ids edges i" "w = i \<or> (w, i) \<in> (edge_rel edges)\<^sup>+"
        by (rule converse_tranclE [OF loop]) (blast intro: that)+
      then have "w \<in> finished s" using assms(3) none by blast
      then have "i \<in> finished s" using w(2) closed_trancl [of w i edges "finished s"] old by blast
      then show False using assms(2) by (simp add: finished_def)
    qed
    then show ?thesis using v old assms(3) none by blast
  qed
  then show ?thesis using assms(1) f by (auto simp: settled_def cy_leave_def)
qed

text \<open>What a call of the loop needs, and what it leaves: \<open>c\<close> is the node whose dependencies it goes through.\<close>

definition dfs_pre ::
  "(string \<Rightarrow> (DependencyEdge \<times> DependencyNode) list) \<Rightarrow> (string \<Rightarrow> string) \<Rightarrow> (DependencyEdge \<times> DependencyNode) list \<Rightarrow>
     string \<Rightarrow> string list \<Rightarrow> cycle_state \<Rightarrow> bool" where
  "dfs_pre edges nm deps c path s \<longleftrightarrow> set deps \<subseteq> set (edges c) \<and> c \<in> cy_stack s \<and>
     (\<forall>v \<in> cy_stack s. (v, c) \<in> (edge_rel edges)\<^sup>* \<and> nm v \<in> set path) \<and> settled edges s"

definition dfs_post ::
  "(string \<Rightarrow> (DependencyEdge \<times> DependencyNode) list) \<Rightarrow> (DependencyEdge \<times> DependencyNode) list \<Rightarrow> string \<Rightarrow>
     cycle_state \<Rightarrow> cycle_state \<Rightarrow> bool" where
  "dfs_post edges deps c s s' \<longleftrightarrow> cy_stack s' = cy_stack s \<and> cy_visited s \<subseteq> cy_visited s' \<and> settled edges s' \<and>
     (cy_cycles s' = [] \<longrightarrow> cy_cycles s = [] \<and> (\<lambda>e. dn_id (snd e)) ` set deps \<subseteq> finished s') \<and>
     (cy_cycles s' \<noteq> [] \<longrightarrow> cy_cycles s \<noteq> [] \<or> (\<exists>v. (c, v) \<in> (edge_rel edges)\<^sup>* \<and> (v, v) \<in> (edge_rel edges)\<^sup>+))"

lemma dfs_post_finished:
  assumes "dfs_post edges deps c s s'"
  shows "finished s \<subseteq> finished s'"
  using assms by (auto simp: dfs_post_def finished_def)

lemma dfs_post_step:
  assumes "dfs_post edges rest c s1 s'" and "cy_stack s1 = cy_stack s" and "cy_visited s \<subseteq> cy_visited s1"
    and "cy_cycles s1 = [] \<Longrightarrow> cy_cycles s = [] \<and> dn_id (snd dep) \<in> finished s1"
    and "cy_cycles s1 \<noteq> [] \<Longrightarrow> cy_cycles s \<noteq> [] \<or> (\<exists>v. (c, v) \<in> (edge_rel edges)\<^sup>* \<and> (v, v) \<in> (edge_rel edges)\<^sup>+)"
  shows "dfs_post edges (dep # rest) c s s'"
  using assms dfs_post_finished [OF assms(1)] by (auto simp: dfs_post_def)

lemma dfs_report:
  assumes pre: "dfs_pre edges nm (dep # rest) c path s" and on: "dn_id (snd dep) \<in> cy_stack s"
    and names: "dn_name (snd dep) = nm (dn_id (snd dep))"
  shows "dfs_pre edges nm rest c path (report_cycle path (snd dep) s)"
    and "cy_cycles (report_cycle path (snd dep) s) \<noteq> []"
    and "\<exists>v. (c, v) \<in> (edge_rel edges)\<^sup>* \<and> (v, v) \<in> (edge_rel edges)\<^sup>+"
proof -
  let ?t = "dn_id (snd dep)"
  show r: "cy_cycles (report_cycle path (snd dep) s) \<noteq> []"
    using pre on by (intro report_cycle_reports) (simp add: names dfs_pre_def)
  then show "dfs_pre edges nm rest c path (report_cycle path (snd dep) s)"
    using pre by (simp add: dfs_pre_def settled_def)
  have "dep \<in> set (edges c)" "(?t, c) \<in> (edge_rel edges)\<^sup>*"
    using pre on by (auto simp: dfs_pre_def)
  then have "(c, ?t) \<in> edge_rel edges" by (auto simp: next_ids_def)
  then have "(c, ?t) \<in> (edge_rel edges)\<^sup>* \<and> (?t, ?t) \<in> (edge_rel edges)\<^sup>+"
    using \<open>(?t, c) \<in> _\<close> by (auto intro: rtrancl_into_trancl1)
  then show "\<exists>v. (c, v) \<in> (edge_rel edges)\<^sup>* \<and> (v, v) \<in> (edge_rel edges)\<^sup>+" by blast
qed

lemma dfs_call_pre:
  assumes pre: "dfs_pre edges nm (dep # rest) c path s" and new: "dn_id (snd dep) \<notin> cy_visited s"
    and names: "dn_name (snd dep) = nm (dn_id (snd dep))"
  shows "dfs_pre edges nm (edges (dn_id (snd dep))) (dn_id (snd dep)) (path @ [dn_name (snd dep)]) (cy_enter (dn_id (snd dep)) s)"
proof -
  let ?t = "dn_id (snd dep)"
  have edge: "(c, ?t) \<in> edge_rel edges" using pre by (auto simp: dfs_pre_def next_ids_def)
  have "(v, ?t) \<in> (edge_rel edges)\<^sup>*" if "v \<in> cy_stack s" for v
    using that pre edge by (auto simp: dfs_pre_def intro: rtrancl_into_rtrancl)
  moreover have "settled edges (cy_enter ?t s)" using settled_enter [OF _ new] pre by (simp add: dfs_pre_def)
  ultimately show ?thesis
    using pre by (auto simp: dfs_pre_def cy_enter_def names)
qed

lemma dfs_return:
  assumes pre: "dfs_pre edges nm (dep # rest) c path s" and new: "dn_id (snd dep) \<notin> cy_visited s"
    and post: "dfs_post edges (edges (dn_id (snd dep))) (dn_id (snd dep)) (cy_enter (dn_id (snd dep)) s) s2"
  defines "s1 \<equiv> cy_leave (dn_id (snd dep)) s2"
  shows "cy_stack s1 = cy_stack s" and "cy_visited s \<subseteq> cy_visited s1" and "dfs_pre edges nm rest c path s1"
    and "cy_cycles s1 = [] \<Longrightarrow> cy_cycles s = [] \<and> dn_id (snd dep) \<in> finished s1"
    and "cy_cycles s1 \<noteq> [] \<Longrightarrow> cy_cycles s \<noteq> [] \<or> (\<exists>v. (c, v) \<in> (edge_rel edges)\<^sup>* \<and> (v, v) \<in> (edge_rel edges)\<^sup>+)"
proof -
  let ?t = "dn_id (snd dep)"
  have off: "?t \<notin> cy_stack s" using pre new by (auto simp: dfs_pre_def settled_def)
  have stack2: "cy_stack s2 = insert ?t (cy_stack s)" and vis2: "insert ?t (cy_visited s) \<subseteq> cy_visited s2"
    using post by (auto simp: dfs_post_def cy_enter_def)
  show stack: "cy_stack s1 = cy_stack s" using stack2 off by (auto simp: s1_def cy_leave_def)
  show "cy_visited s \<subseteq> cy_visited s1" using vis2 by (auto simp: s1_def cy_leave_def)
  have "settled edges s1"
    unfolding s1_def using post stack2 by (intro settled_leave) (auto simp: dfs_post_def next_ids_def)
  then show "dfs_pre edges nm rest c path s1" using pre stack by (auto simp: dfs_pre_def)
  show "cy_cycles s1 = [] \<Longrightarrow> cy_cycles s = [] \<and> ?t \<in> finished s1"
    using post vis2 off stack by (auto simp: s1_def cy_leave_def dfs_post_def cy_enter_def finished_def)
  have edge: "(c, ?t) \<in> edge_rel edges" using pre by (auto simp: dfs_pre_def next_ids_def)
  show "cy_cycles s1 \<noteq> [] \<Longrightarrow> cy_cycles s \<noteq> [] \<or> (\<exists>v. (c, v) \<in> (edge_rel edges)\<^sup>* \<and> (v, v) \<in> (edge_rel edges)\<^sup>+)"
  proof -
    assume "cy_cycles s1 \<noteq> []"
    then have "cy_cycles s \<noteq> [] \<or> (\<exists>v. (?t, v) \<in> (edge_rel edges)\<^sup>* \<and> (v, v) \<in> (edge_rel edges)\<^sup>+)"
      using post by (simp add: s1_def cy_leave_def dfs_post_def cy_enter_def)
    then show ?thesis using converse_rtrancl_into_rtrancl [OF edge] by blast
  qed
qed

lemma cycle_deps_total:
  assumes fin: "finite U" and closed: "\<And>v. v \<in> U \<Longrightarrow> next_ids edges v \<subseteq> U"
    and names: "\<And>v e. e \<in> set (edges v) \<Longrightarrow> dn_name (snd e) = nm (dn_id (snd e))"
  shows "card (U - cy_visited s) < n \<Longrightarrow> c \<in> U \<Longrightarrow> dfs_pre edges nm deps c path s \<Longrightarrow>
    \<exists>s'. cycle_deps edges deps path s = Some s' \<and> dfs_post edges deps c s s'"
proof (induction n arbitrary: deps c path s)
  case 0
  then show ?case by simp
next
  case (Suc n)
  from Suc.prems(1,3) show ?case
  proof (induction deps arbitrary: s)
    case Nil
    then show ?case by (intro exI [of _ s]) (simp add: cycle_deps.simps dfs_post_def dfs_pre_def)
  next
    case (Cons dep rest)
    let ?t = "dn_id (snd dep)"
    have dep: "dep \<in> set (edges c)" using Cons.prems(2) by (simp add: dfs_pre_def)
    note nm = names [OF dep]
    have t: "?t \<in> U" using closed [OF Suc.prems(2)] dep by (auto simp: next_ids_def)
    have smaller: "card (U - cy_visited s1) < Suc n" if "cy_visited s \<subseteq> cy_visited s1" for s1
    proof -
      have "card (U - cy_visited s1) \<le> card (U - cy_visited s)" using that by (intro card_mono) (auto simp: fin)
      then show ?thesis using Cons.prems(1) by linarith
    qed
    consider "?t \<in> cy_stack s" | "?t \<notin> cy_stack s" "?t \<notin> cy_visited s" | "?t \<notin> cy_stack s" "?t \<in> cy_visited s"
      by blast
    then show ?case
    proof cases
      case 1
      let ?s1 = "report_cycle path (snd dep) s"
      note r = dfs_report [OF Cons.prems(2) 1 nm]
      obtain s' where "cycle_deps edges rest path ?s1 = Some s'" "dfs_post edges rest c ?s1 s'"
        using Cons.IH [OF smaller r(1)] by auto
      then show ?thesis
        using 1 r(2,3) by (auto simp: cycle_deps.simps [of edges "dep # rest"] intro!: dfs_post_step [of _ _ _ ?s1])
    next
      case 2
      have "card (U - cy_visited (cy_enter ?t s)) < n"
      proof -
        have "U - cy_visited (cy_enter ?t s) \<subset> U - cy_visited s" using t 2 by (auto simp: cy_enter_def)
        then have "card (U - cy_visited (cy_enter ?t s)) < card (U - cy_visited s)"
          by (rule psubset_card_mono [rotated]) (simp add: fin)
        then show ?thesis using Cons.prems(1) by linarith
      qed
      then obtain s2 where s2: "cycle_deps edges (edges ?t) (path @ [dn_name (snd dep)]) (cy_enter ?t s) = Some s2"
          "dfs_post edges (edges ?t) ?t (cy_enter ?t s) s2"
        using Suc.IH [OF _ t dfs_call_pre [OF Cons.prems(2) 2(2) nm]] by blast
      note b = dfs_return [OF Cons.prems(2) 2(2) s2(2)]
      obtain s' where "cycle_deps edges rest path (cy_leave ?t s2) = Some s'" "dfs_post edges rest c (cy_leave ?t s2) s'"
        using Cons.IH [OF smaller [OF b(2)] b(3)] by blast
      then show ?thesis
        using 2 s2(1) dfs_post_step [OF _ b(1,2,4,5)] by (auto simp: cycle_deps.simps [of edges "dep # rest"])
    next
      case 3
      have "dfs_pre edges nm rest c path s" using Cons.prems(2) by (simp add: dfs_pre_def)
      then obtain s' where "cycle_deps edges rest path s = Some s'" "dfs_post edges rest c s s'"
        using Cons.IH [OF Cons.prems(1)] by blast
      then show ?thesis
        using 3 by (auto simp: cycle_deps.simps [of edges "dep # rest"] finished_def intro!: dfs_post_step [of _ _ _ s])
    qed
  qed
qed

text \<open>A node from which a cycle can be reached.\<close>

definition cyclic_from :: "(string \<Rightarrow> (DependencyEdge \<times> DependencyNode) list) \<Rightarrow> string \<Rightarrow> bool" where
  "cyclic_from edges n \<longleftrightarrow> (\<exists>v. (n, v) \<in> (edge_rel edges)\<^sup>* \<and> (v, v) \<in> (edge_rel edges)\<^sup>+)"

definition roots_post ::
  "(string \<Rightarrow> (DependencyEdge \<times> DependencyNode) list) \<Rightarrow> string set \<Rightarrow> cycle_state \<Rightarrow> cycle_state \<Rightarrow> bool" where
  "roots_post edges roots s s' \<longleftrightarrow> cy_stack s' = {} \<and> settled edges s' \<and> cy_visited s \<subseteq> cy_visited s' \<and>
     (cy_cycles s' = [] \<longrightarrow> cy_cycles s = [] \<and> roots \<subseteq> finished s') \<and>
     (cy_cycles s' \<noteq> [] \<longrightarrow> cy_cycles s \<noteq> [] \<or> (\<exists>n \<in> roots. cyclic_from edges n))"

lemma roots_post_trans:
  assumes "roots_post edges A s s1" and "roots_post edges B s1 s'"
  shows "roots_post edges (A \<union> B) s s'"
proof -
  have "finished s1 \<subseteq> finished s'" using assms by (auto simp: roots_post_def finished_def)
  then show ?thesis using assms unfolding roots_post_def by blast
qed

lemma cycle_dfs_total:
  assumes "finite U" and "\<And>v. v \<in> U \<Longrightarrow> next_ids edges v \<subseteq> U"
    and "\<And>v e. e \<in> set (edges v) \<Longrightarrow> dn_name (snd e) = nm (dn_id (snd e))"
    and "i \<in> U" and "i \<notin> cy_visited s" and "cy_stack s = {}" and "settled edges s"
  shows "\<exists>s'. cycle_dfs edges i [nm i] s = Some s' \<and> roots_post edges {i} s s'"
proof -
  have "settled edges (cy_enter i s)" by (rule settled_enter [OF assms(7,5)])
  then have "dfs_pre edges nm (edges i) i [nm i] (cy_enter i s)"
    using assms(6) by (simp add: dfs_pre_def cy_enter_def)
  then obtain s2 where s2: "cycle_deps edges (edges i) [nm i] (cy_enter i s) = Some s2"
      "dfs_post edges (edges i) i (cy_enter i s) s2"
    using cycle_deps_total [of U edges nm "cy_enter i s" "Suc (card (U - cy_visited (cy_enter i s)))" i] assms(1-4) by blast
  have stack: "cy_stack s2 = {i}" "insert i (cy_visited s) \<subseteq> cy_visited s2"
    using s2(2) assms(6) by (auto simp: dfs_post_def cy_enter_def)
  have "settled edges (cy_leave i s2)"
    using s2(2) stack by (intro settled_leave) (auto simp: dfs_post_def next_ids_def)
  then have "roots_post edges {i} s (cy_leave i s2)"
    using s2(2) stack by (auto simp: roots_post_def cy_leave_def dfs_post_def cy_enter_def finished_def cyclic_from_def)
  then show ?thesis using s2(1) by (simp add: cycle_dfs_def)
qed

lemma cycle_roots_total:
  assumes "finite U" and "\<And>v. v \<in> U \<Longrightarrow> next_ids edges v \<subseteq> U"
    and "\<And>v e. e \<in> set (edges v) \<Longrightarrow> dn_name (snd e) = nm (dn_id (snd e))"
  shows "dn_id ` set nodes \<subseteq> U \<Longrightarrow> \<forall>n \<in> set nodes. dn_name n = nm (dn_id n) \<Longrightarrow> cy_stack s = {} \<Longrightarrow> settled edges s \<Longrightarrow>
    \<exists>s'. cycle_roots edges nodes s = Some s' \<and> roots_post edges (dn_id ` set nodes) s s'"
proof (induction nodes arbitrary: s)
  case Nil
  then show ?case by (simp add: roots_post_def)
next
  case (Cons node nodes)
  have "\<exists>s1. (if dn_id node \<notin> cy_visited s then cycle_dfs edges (dn_id node) [dn_name node] s else Some s) = Some s1 \<and>
      roots_post edges {dn_id node} s s1"
  proof (cases "dn_id node \<in> cy_visited s")
    case True
    then show ?thesis using Cons.prems(3,4) by (auto simp: roots_post_def finished_def)
  next
    case False
    then show ?thesis
      using cycle_dfs_total [OF assms, where i = "dn_id node" and s = s] Cons.prems by simp
  qed
  then obtain s1 where s1: "(if dn_id node \<notin> cy_visited s then cycle_dfs edges (dn_id node) [dn_name node] s else Some s) = Some s1"
      "roots_post edges {dn_id node} s s1" by blast
  then obtain s' where s': "cycle_roots edges nodes s1 = Some s'" "roots_post edges (dn_id ` set nodes) s1 s'"
    using Cons.IH [of s1] Cons.prems by (auto simp: roots_post_def)
  have "cycle_roots edges (node # nodes) s = Some s'" using s1(1) s'(1) by (auto split: if_splits)
  then show ?case using roots_post_trans [OF s1(2) s'(2)] by simp
qed

text \<open>
  C27. The search for circular dependencies ends and decides. On a graph in which the artifacts of the tenant
  (the first 10000) reach finitely many others, and in which an identifier always comes with the same name,
  the search returns, and it reports no cycle exactly if no cycle can be reached from an artifact of the tenant.
\<close>

theorem circular_search_decides:
  assumes "finite_from (gd_getDependencies db d) (dn_id ` set (gd_getAllNodes db d tenantId 10000 0))"
    and "\<forall>v. \<forall>e \<in> set (gd_getDependencies db d v). dn_name (snd e) = nm (dn_id (snd e))"
    and "\<forall>n \<in> set (gd_getAllNodes db d tenantId 10000 0). dn_name n = nm (dn_id n)"
  shows "\<exists>cycles. findCircularDependencies db d tenantId = Some cycles \<and>
    (cycles = [] \<longleftrightarrow>
      \<not> list_ex (\<lambda>n. cyclic_from (gd_getDependencies db d) (dn_id n)) (gd_getAllNodes db d tenantId 10000 0))"
proof -
  let ?E = "gd_getDependencies db d" and ?N = "gd_getAllNodes db d tenantId 10000 0"
  let ?s = "\<lparr>cy_cycles = [], cy_visited = {}, cy_stack = {}\<rparr>"
  obtain U where U: "finite U" "dn_id ` set ?N \<subseteq> U" "\<And>v. v \<in> U \<Longrightarrow> next_ids ?E v \<subseteq> U"
    using assms(1) by (auto simp: finite_from_def)
  have "settled ?E ?s" by (simp add: settled_def finished_def)
  then obtain s' where s': "cycle_roots ?E ?N ?s = Some s'" "roots_post ?E (dn_id ` set ?N) ?s s'"
    using cycle_roots_total [OF U(1,3), of nm ?N ?s] assms(2,3) U(2) by auto
  have "\<not> cyclic_from ?E i" if none: "cy_cycles s' = []" and i: "i \<in> dn_id ` set ?N" for i
  proof
    assume "cyclic_from ?E i"
    then obtain v where v: "(i, v) \<in> (edge_rel ?E)\<^sup>*" "(v, v) \<in> (edge_rel ?E)\<^sup>+" by (auto simp: cyclic_from_def)
    have f: "i \<in> finished s'" and ok: "\<And>u. u \<in> finished s' \<Longrightarrow> next_ids ?E u \<subseteq> finished s' \<and> (u, u) \<notin> (edge_rel ?E)\<^sup>+"
      using s'(2) none i by (auto simp: roots_post_def settled_def)
    have "v \<in> finished s'"
      using v(1) f closed_trancl [of i v ?E "finished s'"] ok by (auto dest: rtranclD)
    then show False using ok v(2) by blast
  qed
  then have "cy_cycles s' = [] \<longleftrightarrow> \<not> list_ex (\<lambda>n. cyclic_from ?E (dn_id n)) ?N"
    using s'(2) by (auto simp: roots_post_def list_ex_iff)
  then show ?thesis using s'(1) by (simp add: findCircularDependencies_def)
qed

section \<open>A graph of two artifacts that depend on each other\<close>

definition demo_node :: "string \<Rightarrow> DependencyNode" where
  "demo_node i = \<lparr>dn_id = i, dn_name = i, dn_version = ''1'', dn_type = ''npm'', dn_tenantId = ''t'',
     dn_repositoryId = ''r'', dn_publishedAt = [], dn_scanStatus = clean, dn_metadata = []\<rparr>"

definition demo_edge :: "string \<Rightarrow> string \<Rightarrow> DependencyEdge" where
  "demo_edge i j = \<lparr>de_sourceId = i, de_targetId = j, de_dependencyType = runtime_dep, de_versionConstraint = ''*'',
     de_resolved = True\<rparr>"

definition demo_pairs :: "string \<Rightarrow> (DependencyEdge \<times> DependencyNode) list" where
  "demo_pairs v =
     (if v = ''a'' then [(demo_edge ''a'' ''b'', demo_node ''b'')]
      else if v = ''b'' then [(demo_edge ''b'' ''a'', demo_node ''a'')] else [])"

definition demo_db :: "unit GraphDatabase" where
  "demo_db = \<lparr>gd_getNode = (\<lambda>d i. Some (demo_node i)), gd_upsertNode = (\<lambda>n d. d), gd_deleteNode = (\<lambda>i d. d),
     gd_addEdge = (\<lambda>e d. d), gd_removeEdge = (\<lambda>i j d. d), gd_getDependencies = (\<lambda>d. demo_pairs),
     gd_getDependents = (\<lambda>d. demo_pairs), gd_getAllNodes = (\<lambda>d t n k. [demo_node ''a'', demo_node ''b''])\<rparr>"

lemma demo_finite: "S \<subseteq> {''a'', ''b''} \<Longrightarrow> finite_from demo_pairs S"
  unfolding finite_from_def
  by (rule exI [of _ "{''a'', ''b''}"]) (simp add: next_ids_def demo_pairs_def demo_node_def)

theorem impact_exact_witness:
  "\<exists>im. analyzeImpact demo_db () ''a'' 10 = Some (Inr im) \<and> dn_id ` set (im_directDependents im) = {''b''}"
proof -
  have "gd_getNode demo_db () ''a'' = Some (demo_node ''a'')" "finite_from (gd_getDependents demo_db ()) {''a''}"
    by (simp_all add: demo_db_def demo_finite)
  from impact_exact [OF this, of 10] show ?thesis
    by (auto simp: demo_db_def next_ids_def demo_pairs_def demo_node_def simp del: near.simps)
qed

theorem circular_search_decides_witness:
  "\<exists>cycles. findCircularDependencies demo_db () ''t'' = Some cycles \<and> cycles \<noteq> []"
proof -
  have "(''a'', ''a'') \<in> (edge_rel demo_pairs)\<^sup>+"
    by (rule trancl_into_trancl [of _ "''b''"])
      (auto simp: next_ids_def demo_pairs_def demo_node_def intro!: r_into_trancl)
  then have "cyclic_from demo_pairs ''a''" by (auto simp: cyclic_from_def)
  then show ?thesis
    using circular_search_decides [of demo_db "()" "''t''" "\<lambda>i. i"] demo_finite [of "{''a'', ''b''}"]
    by (auto simp: demo_db_def demo_node_def demo_pairs_def)
qed

end
