(* ===== verification/DynamicConfig.thy ===== *)
theory DynamicConfig
  imports KernelCore Encoding
begin

text \<open>
  Configuration store, feature flags and experiments of
  \<open>packages/kernel/src/os/dynamic-config.ts\<close>.

  Every operation takes the time at which it runs. Percentages, weights and priorities are rationals.
  Entries, flags and experiments are values: a caller that keeps one and writes to it is not
  modelled, and listeners only observe. Partial updates that give a field the value \<open>undefined\<close> are
  not modelled, nor is the order of the properties of an exported object with integer-like keys.

  The locale \<open>versioned\<close> is the contract of a versioned variable; the store provides it for every key.
\<close>

section \<open>Data\<close>

datatype ConfigValueType = string_type | number_type | boolean_type | json_type | secret_type
datatype FlagStatus = flag_active | flag_inactive | flag_archived
datatype RolloutStrategy = to_all | to_percentage | to_user_list | to_attribute | to_gradual
datatype ExperimentStatus = exp_draft | exp_running | exp_paused | exp_completed | exp_cancelled

record ConfigEntry =
  ce_key :: string
  ce_value :: jsval
  ce_type :: ConfigValueType
  ce_description :: string
  ce_namespace :: string
  ce_version :: nat
  ce_sensitive :: bool
  ce_environmentOverrides :: "(string, jsval) jsmap"
  ce_tags :: "string list"
  ce_modifiedBy :: string
  ce_createdAt :: int
  ce_updatedAt :: int

datatype update_reason = ReasonText string | RollbackTo nat | WinnerOf string string

record ConfigVersion =
  cv_version :: nat
  cv_key :: string
  cv_value :: jsval
  cv_previousValue :: jsval
  cv_modifiedBy :: string
  cv_reason :: update_reason
  cv_timestamp :: int

datatype condition_operator =
    c_eq | c_neq | c_in | c_not_in | c_contains | c_starts_with | c_ends_with | c_gt | c_lt | c_gte | c_lte | c_regex

record TargetingCondition =
  tc_attribute :: string
  tc_operator :: condition_operator
  tc_value :: jsval

record TargetingRule =
  tr_id :: string
  tr_name :: string
  tr_priority :: rat
  tr_conditions :: "TargetingCondition list"
  tr_value :: bool
  tr_enabled :: bool

record GradualRolloutStep =
  gs_percentage :: rat
  gs_startDate :: int
  gs_endDate :: "int option"

record RolloutConfig =
  rc_strategy :: RolloutStrategy
  rc_percentage :: "rat option"
  rc_userIds :: "string list option"
  rc_attributeRules :: "TargetingCondition list option"
  rc_gradualSchedule :: "GradualRolloutStep list option"

record FlagStats =
  fs_totalEvaluations :: nat
  fs_trueCount :: nat
  fs_falseCount :: nat
  fs_lastEvaluatedAt :: int

record FeatureFlag =
  ff_key :: string
  ff_name :: string
  ff_description :: string
  ff_status :: FlagStatus
  ff_defaultValue :: bool
  ff_rules :: "TargetingRule list"
  ff_rollout :: RolloutConfig
  ff_tags :: "string list"
  ff_owner :: string
  ff_createdAt :: int
  ff_updatedAt :: int
  ff_stats :: FlagStats

record EvaluationContext =
  ec_userId :: "string option"
  ec_email :: "string option"
  ec_attributes :: "(string \<times> jsval) list"
  ec_environment :: "string option"
  ec_metadata :: "(string \<times> jsval) list option"

record ExperimentVariant =
  ev_id :: string
  ev_name :: string
  ev_value :: jsval
  ev_weight :: rat
  ev_impressions :: nat
  ev_conversions :: nat

record variant_result =
  vr_conversionRate :: rat
  vr_impressions :: nat
  vr_conversions :: nat

record ExperimentResults =
  er_winner :: "string option"
  er_confidence :: rat
  er_sampleSize :: nat
  er_variantResults :: "(string, variant_result) jsmap"

record Experiment =
  ex_id :: string
  ex_name :: string
  ex_description :: string
  ex_configKey :: string
  ex_status :: ExperimentStatus
  ex_variants :: "ExperimentVariant list"
  ex_trafficAllocation :: rat
  ex_startDate :: int
  ex_endDate :: "int option"
  ex_successMetric :: string
  ex_results :: ExperimentResults
  ex_createdAt :: int

text \<open>The events, each with the payload the code gives it; the last two of the source's types are
  never emitted.\<close>

datatype config_event =
    ConfigUpdated string nat string
  | ConfigCreated string nat string
  | ConfigDeleted string
  | ConfigRolledBack string int nat
  | FlagToggled string bool
  | FlagCreated string string bool
  | FlagUpdated string "string list"
  | FlagArchived string

primrec config_event_str :: "config_event \<Rightarrow> string" where
  "config_event_str (ConfigUpdated k v n) = ''config:updated''"
| "config_event_str (ConfigCreated k v n) = ''config:created''"
| "config_event_str (ConfigDeleted k) = ''config:deleted''"
| "config_event_str (ConfigRolledBack k f t) = ''config:rolled_back''"
| "config_event_str (FlagToggled k b) = ''flag:toggled''"
| "config_event_str (FlagCreated k n b) = ''flag:created''"
| "config_event_str (FlagUpdated k us) = ''flag:updated''"
| "config_event_str (FlagArchived k) = ''flag:archived''"

record ConfigEvent =
  co_event :: config_event
  co_timestamp :: int

section \<open>Configuration store\<close>

text \<open>The store; \<open>cs_emitted\<close> is a ghost that lists the calls of listeners in order.\<close>

record 'h ConfigStore =
  cs_configs :: "(string, ConfigEntry) jsmap"
  cs_history :: "ConfigVersion list"
  cs_listeners :: "'h EventBus"
  cs_emitted :: "('h \<times> ConfigEvent) list"

definition new_ConfigStore :: "'h ConfigStore" where
  "new_ConfigStore = \<lparr>cs_configs = [], cs_history = [], cs_listeners = new_EventBus, cs_emitted = []\<rparr>"

definition notify :: "'h EventBus \<Rightarrow> ConfigEvent \<Rightarrow> ('h \<times> ConfigEvent) list" where
  "notify b ev =
     map (\<lambda>h. (h, ev)) (subscribers b (config_event_str (co_event ev))) @
     map (\<lambda>h. (h, ev)) (subscribers b ''*'')"

definition cs_emit :: "ConfigEvent \<Rightarrow> 'h ConfigStore \<Rightarrow> 'h ConfigStore" where
  "cs_emit ev s = s\<lparr>cs_emitted := cs_emitted s @ notify (cs_listeners s) ev\<rparr>"

definition cs_on :: "string \<Rightarrow> 'h \<Rightarrow> 'h ConfigStore \<Rightarrow> 'h ConfigStore" where
  "cs_on ty h s = s\<lparr>cs_listeners := eb_on ty h (cs_listeners s)\<rparr>"

definition cs_off :: "string \<Rightarrow> 'h \<Rightarrow> 'h ConfigStore \<Rightarrow> 'h ConfigStore" where
  "cs_off ty h s = s\<lparr>cs_listeners := eb_off ty h (cs_listeners s)\<rparr>"

fun inferType :: "jsval \<Rightarrow> ConfigValueType" where
  "inferType (JStr s) = string_type"
| "inferType (JNum x) = number_type"
| "inferType JNaN = number_type"
| "inferType (JBool b) = boolean_type"
| "inferType v = json_type"

record set_options =
  so_type :: "ConfigValueType option"
  so_description :: "string option"
  so_namespace :: "string option"
  so_sensitive :: "bool option"
  so_tags :: "string list option"
  so_modifiedBy :: "string option"
  so_reason :: "update_reason option"
  so_environment :: "string option"

definition no_options :: set_options where
  "no_options = \<lparr>so_type = None, so_description = None, so_namespace = None, so_sensitive = None,
     so_tags = None, so_modifiedBy = None, so_reason = None, so_environment = None\<rparr>"

text \<open>\<open>options.reason || 'Configuration update'\<close>: an empty text is falsy too.\<close>

definition reason_or :: "update_reason option \<Rightarrow> update_reason" where
  "reason_or r =
     (case r of None \<Rightarrow> ReasonText ''Configuration update''
      | Some t \<Rightarrow> if t = ReasonText [] then ReasonText ''Configuration update'' else t)"

definition config_entry :: "int \<Rightarrow> string \<Rightarrow> jsval \<Rightarrow> set_options \<Rightarrow> ConfigEntry option \<Rightarrow> ConfigEntry" where
  "config_entry now key v opts existing =
     \<lparr>ce_key = key,
      ce_value = v,
      ce_type = dflt (so_type opts) (dflt (map_option ce_type existing) (inferType v)),
      ce_description = str_or (so_description opts) (str_or (map_option ce_description existing) ''''),
      ce_namespace = str_or (so_namespace opts) (str_or (map_option ce_namespace existing) ''default''),
      ce_version = dflt (map_option ce_version existing) 0 + 1,
      ce_sensitive = dflt (so_sensitive opts) (dflt (map_option ce_sensitive existing) False),
      ce_environmentOverrides = dflt (map_option ce_environmentOverrides existing) [],
      ce_tags = dflt (so_tags opts) (dflt (map_option ce_tags existing) []),
      ce_modifiedBy = str_or (so_modifiedBy opts) ''system'',
      ce_createdAt = num_or (map_option ce_createdAt existing) now,
      ce_updatedAt = now\<rparr>"

definition override_entry :: "int \<Rightarrow> jsval \<Rightarrow> set_options \<Rightarrow> ConfigEntry \<Rightarrow> ConfigEntry" where
  "override_entry now v opts e =
     e\<lparr>ce_environmentOverrides := jm_set (dflt (so_environment opts) '''') v (ce_environmentOverrides e),
       ce_updatedAt := now,
       ce_modifiedBy := str_or (so_modifiedBy opts) ''system''\<rparr>"

definition cs_set ::
  "int \<Rightarrow> string \<Rightarrow> jsval \<Rightarrow> set_options \<Rightarrow> 'h ConfigStore \<Rightarrow> 'h ConfigStore \<times> ConfigEntry" where
  "cs_set now key v opts s =
     (let existing = jm_get (cs_configs s) key in
      if existing \<noteq> None \<and> str_truthy (so_environment opts) then
        (let e = override_entry now v opts (the existing)
         in (s\<lparr>cs_configs := jm_set key e (cs_configs s)\<rparr>, e))
      else
        (let e = config_entry now key v opts existing;
             h = \<lparr>cv_version = ce_version e, cv_key = key, cv_value = v,
                  cv_previousValue = dflt (map_option ce_value existing) JUndef,
                  cv_modifiedBy = ce_modifiedBy e, cv_reason = reason_or (so_reason opts),
                  cv_timestamp = now\<rparr>;
             ev = (if existing \<noteq> None then ConfigUpdated else ConfigCreated) key (ce_version e) (ce_namespace e)
         in (cs_emit \<lparr>co_event = ev, co_timestamp = now\<rparr>
               (s\<lparr>cs_history := cs_history s @ [h], cs_configs := jm_set key e (cs_configs s)\<rparr>), e)))"

definition cs_get :: "string \<Rightarrow> string option \<Rightarrow> 'h ConfigStore \<Rightarrow> jsval" where
  "cs_get key environment s =
     (case jm_get (cs_configs s) key of
        None \<Rightarrow> JUndef
      | Some e \<Rightarrow>
          (let v = dflt (jm_get (ce_environmentOverrides e) (dflt environment '''')) JUndef
           in if str_truthy environment \<and> v \<noteq> JUndef then v else ce_value e))"

definition cs_getEntry :: "string \<Rightarrow> 'h ConfigStore \<Rightarrow> ConfigEntry option" where
  "cs_getEntry key s = jm_get (cs_configs s) key"

definition cs_delete :: "int \<Rightarrow> string \<Rightarrow> 'h ConfigStore \<Rightarrow> 'h ConfigStore \<times> bool" where
  "cs_delete now key s =
     (if jm_has (cs_configs s) key
      then (cs_emit \<lparr>co_event = ConfigDeleted key, co_timestamp = now\<rparr>
              (s\<lparr>cs_configs := jm_delete key (cs_configs s)\<rparr>), True)
      else (s, False))"

record list_options =
  lo_namespace :: "string option"
  lo_tags :: "string list option"
  lo_prefix :: "string option"

definition cs_list :: "list_options \<Rightarrow> 'h ConfigStore \<Rightarrow> ConfigEntry list" where
  "cs_list opts s =
     (let e0 = jm_values (cs_configs s);
          e1 = (if str_truthy (lo_namespace opts) then filter (\<lambda>e. Some (ce_namespace e) = lo_namespace opts) e0 else e0);
          tags = dflt (lo_tags opts) [];
          e2 = (if tags \<noteq> [] then filter (\<lambda>e. list_ex (\<lambda>t. t \<in> set (ce_tags e)) tags) e1 else e1)
      in if str_truthy (lo_prefix opts) then filter (\<lambda>e. js_startsWith (ce_key e) (dflt (lo_prefix opts) '''')) e2 else e2)"

definition cs_getHistory :: "string \<Rightarrow> int \<Rightarrow> 'h ConfigStore \<Rightarrow> ConfigVersion list" where
  "cs_getHistory key limit s =
     (let hs = sort_key (\<lambda>h. - cv_timestamp h) (filter (\<lambda>h. cv_key h = key) (cs_history s))
      in js_slice 0 limit hs)"

definition find_version :: "string \<Rightarrow> nat \<Rightarrow> 'h ConfigStore \<Rightarrow> ConfigVersion option" where
  "find_version key n s = find (\<lambda>h. cv_key h = key \<and> cv_version h = n) (cs_history s)"

definition cs_rollback :: "int \<Rightarrow> string \<Rightarrow> nat \<Rightarrow> 'h ConfigStore \<Rightarrow> 'h ConfigStore \<times> ConfigEntry option" where
  "cs_rollback now key targetVersion s =
     (case find_version key targetVersion s of
        None \<Rightarrow> (s, None)
      | Some h \<Rightarrow>
          (let (s1, e) = cs_set now key (cv_value h)
                 (no_options\<lparr>so_modifiedBy := Some ''system'', so_reason := Some (RollbackTo targetVersion)\<rparr>) s
           in (cs_emit \<lparr>co_event = ConfigRolledBack key (int (ce_version e) - 1) targetVersion,
                        co_timestamp = now\<rparr> s1, Some e)))"

definition cs_diff :: "string \<Rightarrow> nat \<Rightarrow> nat \<Rightarrow> 'h ConfigStore \<Rightarrow> (jsval \<times> jsval) option" where
  "cs_diff key a b s =
     (case (find_version key a s, find_version key b s) of
        (Some x, Some y) \<Rightarrow> Some (cv_value x, cv_value y)
      | _ \<Rightarrow> None)"

definition cs_export :: "string option \<Rightarrow> 'h ConfigStore \<Rightarrow> (string, jsval) jsmap" where
  "cs_export ns s =
     fold (\<lambda>e r. jm_set (ce_key e) (if ce_sensitive e then JStr ''***REDACTED***'' else ce_value e) r)
       (cs_list \<lparr>lo_namespace = ns, lo_tags = None, lo_prefix = None\<rparr> s) []"

definition import_options :: "string option \<Rightarrow> string option \<Rightarrow> set_options" where
  "import_options ns modifiedBy =
     no_options\<lparr>so_namespace := Some (dflt ns ''default''), so_modifiedBy := Some (dflt modifiedBy ''import''),
       so_reason := Some (ReasonText ''Bulk import'')\<rparr>"

definition cs_import ::
  "int \<Rightarrow> (string, jsval) jsmap \<Rightarrow> string option \<Rightarrow> string option \<Rightarrow> 'h ConfigStore \<Rightarrow> 'h ConfigStore \<times> nat" where
  "cs_import now configs ns modifiedBy s =
     fold (\<lambda>(key, v) (s, count). (fst (cs_set now key v (import_options ns modifiedBy) s), count + 1))
       configs (s, 0)"

section \<open>Feature flags\<close>

record 'h FeatureFlagManager =
  fm_flags :: "(string, FeatureFlag) jsmap"
  fm_listeners :: "'h EventBus"
  fm_emitted :: "('h \<times> ConfigEvent) list"

definition new_FeatureFlagManager :: "'h FeatureFlagManager" where
  "new_FeatureFlagManager = \<lparr>fm_flags = [], fm_listeners = new_EventBus, fm_emitted = []\<rparr>"

definition fm_emit :: "ConfigEvent \<Rightarrow> 'h FeatureFlagManager \<Rightarrow> 'h FeatureFlagManager" where
  "fm_emit ev m = m\<lparr>fm_emitted := fm_emitted m @ notify (fm_listeners m) ev\<rparr>"

definition fm_on :: "string \<Rightarrow> 'h \<Rightarrow> 'h FeatureFlagManager \<Rightarrow> 'h FeatureFlagManager" where
  "fm_on ty h m = m\<lparr>fm_listeners := eb_on ty h (fm_listeners m)\<rparr>"

definition fm_off :: "string \<Rightarrow> 'h \<Rightarrow> 'h FeatureFlagManager \<Rightarrow> 'h FeatureFlagManager" where
  "fm_off ty h m = m\<lparr>fm_listeners := eb_off ty h (fm_listeners m)\<rparr>"

text \<open>\<open>config\<close> carries any times and statistics; they are replaced.\<close>

definition fm_create :: "int \<Rightarrow> FeatureFlag \<Rightarrow> 'h FeatureFlagManager \<Rightarrow> 'h FeatureFlagManager \<times> FeatureFlag" where
  "fm_create now config m =
     (let flag = config\<lparr>ff_createdAt := now, ff_updatedAt := now,
                        ff_stats := \<lparr>fs_totalEvaluations = 0, fs_trueCount = 0, fs_falseCount = 0,
                                     fs_lastEvaluatedAt = 0\<rparr>\<rparr>
      in (fm_emit \<lparr>co_event = FlagCreated (ff_key flag) (ff_name flag) (ff_defaultValue flag), co_timestamp = now\<rparr>
            (m\<lparr>fm_flags := jm_set (ff_key flag) flag (fm_flags m)\<rparr>), flag))"

text \<open>
  What the code takes from the host: \<open>String(v)\<close> for a number, an array or an object, the number a
  string, an array or an object is converted to by a comparison (\<open>None\<close> for \<open>NaN\<close>; the infinities
  are not values of the model), and \<open>new RegExp(p).test(s)\<close>, \<open>None\<close> when the pattern is not valid and
  the constructor throws.
\<close>

record dc_host =
  ho_text :: "jsval \<Rightarrow> string"
  ho_number :: "jsval \<Rightarrow> rat option"
  ho_regex :: "string \<Rightarrow> string \<Rightarrow> bool option"

fun js_String :: "dc_host \<Rightarrow> jsval \<Rightarrow> string" where
  "js_String H (JStr s) = s"
| "js_String H (JBool b) = (if b then ''true'' else ''false'')"
| "js_String H JNull = ''null''"
| "js_String H JUndef = ''undefined''"
| "js_String H JNaN = ''NaN''"
| "js_String H v = ho_text H v"

fun js_ToNumber :: "dc_host \<Rightarrow> jsval \<Rightarrow> rat option" where
  "js_ToNumber H (JNum x) = Some x"
| "js_ToNumber H JNaN = None"
| "js_ToNumber H JUndef = None"
| "js_ToNumber H JNull = Some 0"
| "js_ToNumber H (JBool b) = Some (if b then 1 else 0)"
| "js_ToNumber H v = ho_number H v"

text \<open>\<open>typeof value === 'number' && value R expected\<close>.\<close>

definition number_and :: "dc_host \<Rightarrow> (rat \<Rightarrow> rat \<Rightarrow> bool) \<Rightarrow> jsval \<Rightarrow> jsval \<Rightarrow> bool" where
  "number_and H R v expected =
     (case (v, js_ToNumber H expected) of (JNum a, Some b) \<Rightarrow> R a b | _ \<Rightarrow> False)"

text \<open>\<open>typeof value === 'string' && value R String(expected)\<close>.\<close>

definition string_and :: "dc_host \<Rightarrow> (string \<Rightarrow> string \<Rightarrow> bool) \<Rightarrow> jsval \<Rightarrow> jsval \<Rightarrow> bool" where
  "string_and H R v expected = (case v of JStr s \<Rightarrow> R s (js_String H expected) | _ \<Rightarrow> False)"

text \<open>The result \<open>None\<close> means that the call throws.\<close>

definition flag_condition :: "dc_host \<Rightarrow> jsval \<Rightarrow> TargetingCondition \<Rightarrow> bool option" where
  "flag_condition H v c =
     (case tc_operator c of
        c_eq \<Rightarrow> Some (strict_eq v (tc_value c))
      | c_neq \<Rightarrow> Some (\<not> strict_eq v (tc_value c))
      | c_in \<Rightarrow> Some (array_and (\<lambda>xs. val_includes xs v) (tc_value c))
      | c_not_in \<Rightarrow> Some (array_and (\<lambda>xs. \<not> val_includes xs v) (tc_value c))
      | c_contains \<Rightarrow> Some (string_and H js_includes v (tc_value c))
      | c_starts_with \<Rightarrow> Some (string_and H js_startsWith v (tc_value c))
      | c_ends_with \<Rightarrow> Some (string_and H js_endsWith v (tc_value c))
      | c_gt \<Rightarrow> Some (number_and H (>) v (tc_value c))
      | c_lt \<Rightarrow> Some (number_and H (<) v (tc_value c))
      | c_gte \<Rightarrow> Some (number_and H (\<ge>) v (tc_value c))
      | c_lte \<Rightarrow> Some (number_and H (\<le>) v (tc_value c))
      | c_regex \<Rightarrow> (case v of JStr s \<Rightarrow> ho_regex H (js_String H (tc_value c)) s | _ \<Rightarrow> Some False))"

definition resolveAttribute :: "string \<Rightarrow> EvaluationContext \<Rightarrow> jsval" where
  "resolveAttribute a ctx =
     (let opt = (\<lambda>s. case s of None \<Rightarrow> JUndef | Some t \<Rightarrow> JStr t) in
      if a = ''userId'' then opt (ec_userId ctx)
      else if a = ''email'' then opt (ec_email ctx)
      else if a = ''environment'' then opt (ec_environment ctx)
      else obj_prop (ec_attributes ctx) a)"

text \<open>\<open>cs.every(f)\<close> for a predicate that may throw.\<close>

fun every_opt :: "('a \<Rightarrow> bool option) \<Rightarrow> 'a list \<Rightarrow> bool option" where
  "every_opt f [] = Some True"
| "every_opt f (x # xs) =
     (case f x of None \<Rightarrow> None | Some False \<Rightarrow> Some False | Some True \<Rightarrow> every_opt f xs)"

definition flag_rule :: "dc_host \<Rightarrow> EvaluationContext \<Rightarrow> TargetingRule \<Rightarrow> bool option" where
  "flag_rule H ctx r =
     every_opt (\<lambda>c. flag_condition H (resolveAttribute (tc_attribute c) ctx) c) (tr_conditions r)"

definition hashString :: "string \<Rightarrow> int" where
  "hashString s = \<bar>sint (fold hash_step s 0)\<bar>"

definition in_percentage :: "string option \<Rightarrow> rat \<Rightarrow> bool" where
  "in_percentage userId p =
     (case userId of None \<Rightarrow> False | Some u \<Rightarrow> u \<noteq> [] \<and> of_int (hashString u mod 100) < p)"

definition active_step :: "int \<Rightarrow> GradualRolloutStep list \<Rightarrow> GradualRolloutStep option" where
  "active_step now steps =
     (case sort_key (\<lambda>s. - gs_startDate s) (filter (\<lambda>s. gs_startDate s \<le> now) steps) of
        [] \<Rightarrow> None
      | st # _ \<Rightarrow> Some st)"

definition isInRollout :: "dc_host \<Rightarrow> int \<Rightarrow> RolloutConfig \<Rightarrow> EvaluationContext \<Rightarrow> bool option" where
  "isInRollout H now rollout ctx =
     (case rc_strategy rollout of
        to_all \<Rightarrow> Some True
      | to_percentage \<Rightarrow> Some (in_percentage (ec_userId ctx) (dflt (rc_percentage rollout) 0))
      | to_user_list \<Rightarrow>
          Some (case ec_userId ctx of
                  None \<Rightarrow> False
                | Some u \<Rightarrow> u \<noteq> [] \<and> u \<in> set (dflt (rc_userIds rollout) []))
      | to_attribute \<Rightarrow>
          every_opt (\<lambda>c. flag_condition H (obj_prop (ec_attributes ctx) (tc_attribute c)) c)
            (dflt (rc_attributeRules rollout) [])
      | to_gradual \<Rightarrow>
          Some (case active_step now (dflt (rc_gradualSchedule rollout) []) of
                  None \<Rightarrow> False
                | Some st \<Rightarrow> in_percentage (ec_userId ctx) (gs_percentage st)))"

fun first_rule :: "dc_host \<Rightarrow> EvaluationContext \<Rightarrow> bool \<Rightarrow> TargetingRule list \<Rightarrow> bool option" where
  "first_rule H ctx result [] = Some result"
| "first_rule H ctx result (r # rs) =
     (case flag_rule H ctx r of
        None \<Rightarrow> None
      | Some True \<Rightarrow> Some (tr_value r)
      | Some False \<Rightarrow> first_rule H ctx result rs)"

definition flag_result :: "dc_host \<Rightarrow> int \<Rightarrow> EvaluationContext \<Rightarrow> FeatureFlag \<Rightarrow> bool option" where
  "flag_result H now ctx flag =
     (case isInRollout H now (ff_rollout flag) ctx of
        None \<Rightarrow> None
      | Some False \<Rightarrow> Some False
      | Some True \<Rightarrow>
          first_rule H ctx (ff_defaultValue flag) (sort_key tr_priority (filter tr_enabled (ff_rules flag))))"

definition count_result :: "int \<Rightarrow> bool \<Rightarrow> FlagStats \<Rightarrow> FlagStats" where
  "count_result now result st =
     st\<lparr>fs_totalEvaluations := fs_totalEvaluations st + 1,
        fs_trueCount := (if result then fs_trueCount st + 1 else fs_trueCount st),
        fs_falseCount := (if result then fs_falseCount st else fs_falseCount st + 1),
        fs_lastEvaluatedAt := now\<rparr>"

definition fm_evaluate ::
  "dc_host \<Rightarrow> int \<Rightarrow> string \<Rightarrow> EvaluationContext \<Rightarrow> 'h FeatureFlagManager \<Rightarrow>
     'h FeatureFlagManager \<times> bool option" where
  "fm_evaluate H now flagKey ctx m =
     (case jm_get (fm_flags m) flagKey of
        None \<Rightarrow> (m, Some False)
      | Some flag \<Rightarrow>
          if ff_status flag \<noteq> flag_active then (m, Some False)
          else (case flag_result H now ctx flag of
                  None \<Rightarrow> (m, None)
                | Some result \<Rightarrow>
                    (m\<lparr>fm_flags := jm_set flagKey (flag\<lparr>ff_stats := count_result now result (ff_stats flag)\<rparr>)
                        (fm_flags m)\<rparr>, Some result)))"

definition fm_toggle :: "int \<Rightarrow> string \<Rightarrow> 'h FeatureFlagManager \<Rightarrow> 'h FeatureFlagManager \<times> bool" where
  "fm_toggle now flagKey m =
     (case jm_get (fm_flags m) flagKey of
        None \<Rightarrow> (m, False)
      | Some flag \<Rightarrow>
          (let flag1 = flag\<lparr>ff_defaultValue := \<not> ff_defaultValue flag, ff_updatedAt := now\<rparr>
           in (fm_emit \<lparr>co_event = FlagToggled flagKey (ff_defaultValue flag1), co_timestamp = now\<rparr>
                 (m\<lparr>fm_flags := jm_set flagKey flag1 (fm_flags m)\<rparr>), True)))"

record flag_updates =
  fu_name :: "string option"
  fu_description :: "string option"
  fu_rules :: "TargetingRule list option"
  fu_rollout :: "RolloutConfig option"
  fu_tags :: "string list option"
  fu_defaultValue :: "bool option"

definition assign_updates :: "flag_updates \<Rightarrow> FeatureFlag \<Rightarrow> FeatureFlag" where
  "assign_updates u f =
     f\<lparr>ff_name := dflt (fu_name u) (ff_name f), ff_description := dflt (fu_description u) (ff_description f),
       ff_rules := dflt (fu_rules u) (ff_rules f), ff_rollout := dflt (fu_rollout u) (ff_rollout f),
       ff_tags := dflt (fu_tags u) (ff_tags f), ff_defaultValue := dflt (fu_defaultValue u) (ff_defaultValue f)\<rparr>"

definition update_keys :: "flag_updates \<Rightarrow> string list" where
  "update_keys u =
     map fst (filter snd
       [(''name'', fu_name u \<noteq> None), (''description'', fu_description u \<noteq> None), (''rules'', fu_rules u \<noteq> None),
        (''rollout'', fu_rollout u \<noteq> None), (''tags'', fu_tags u \<noteq> None),
        (''defaultValue'', fu_defaultValue u \<noteq> None)])"

definition fm_update ::
  "int \<Rightarrow> string \<Rightarrow> flag_updates \<Rightarrow> 'h FeatureFlagManager \<Rightarrow> 'h FeatureFlagManager \<times> FeatureFlag option" where
  "fm_update now flagKey u m =
     (case jm_get (fm_flags m) flagKey of
        None \<Rightarrow> (m, None)
      | Some flag \<Rightarrow>
          (let flag1 = (assign_updates u flag)\<lparr>ff_updatedAt := now\<rparr>
           in (fm_emit \<lparr>co_event = FlagUpdated flagKey (update_keys u), co_timestamp = now\<rparr>
                 (m\<lparr>fm_flags := jm_set flagKey flag1 (fm_flags m)\<rparr>), Some flag1)))"

definition fm_archive :: "int \<Rightarrow> string \<Rightarrow> 'h FeatureFlagManager \<Rightarrow> 'h FeatureFlagManager \<times> bool" where
  "fm_archive now flagKey m =
     (case jm_get (fm_flags m) flagKey of
        None \<Rightarrow> (m, False)
      | Some flag \<Rightarrow>
          (fm_emit \<lparr>co_event = FlagArchived flagKey, co_timestamp = now\<rparr>
             (m\<lparr>fm_flags := jm_set flagKey (flag\<lparr>ff_status := flag_archived, ff_updatedAt := now\<rparr>)
                 (fm_flags m)\<rparr>), True))"

definition fm_get :: "string \<Rightarrow> 'h FeatureFlagManager \<Rightarrow> FeatureFlag option" where
  "fm_get flagKey m = jm_get (fm_flags m) flagKey"

record flag_filter =
  fl_status :: "FlagStatus option"
  fl_tags :: "string list option"
  fl_owner :: "string option"

definition fm_list :: "flag_filter \<Rightarrow> 'h FeatureFlagManager \<Rightarrow> FeatureFlag list" where
  "fm_list opts m =
     (let f0 = jm_values (fm_flags m);
          f1 = (if fl_status opts \<noteq> None then filter (\<lambda>f. Some (ff_status f) = fl_status opts) f0 else f0);
          tags = dflt (fl_tags opts) [];
          f2 = (if tags \<noteq> [] then filter (\<lambda>f. list_ex (\<lambda>t. t \<in> set (ff_tags f)) tags) f1 else f1)
      in if str_truthy (fl_owner opts) then filter (\<lambda>f. Some (ff_owner f) = fl_owner opts) f2 else f2)"

text \<open>Evaluation replaces flags in place, so the keys can be taken at the start; the status of a flag
  is not changed by evaluating another.\<close>

fun evaluate_all ::
  "dc_host \<Rightarrow> int \<Rightarrow> EvaluationContext \<Rightarrow> FeatureFlag list \<Rightarrow> (string, bool) jsmap \<Rightarrow>
     'h FeatureFlagManager \<Rightarrow> 'h FeatureFlagManager \<times> (string, bool) jsmap option" where
  "evaluate_all H now ctx [] results m = (m, Some results)"
| "evaluate_all H now ctx (flag # flags) results m =
     (if ff_status flag = flag_active then
        (case fm_evaluate H now (ff_key flag) ctx m of
           (m1, None) \<Rightarrow> (m1, None)
         | (m1, Some b) \<Rightarrow> evaluate_all H now ctx flags (jm_set (ff_key flag) b results) m1)
      else evaluate_all H now ctx flags results m)"

definition fm_evaluateAll ::
  "dc_host \<Rightarrow> int \<Rightarrow> EvaluationContext \<Rightarrow> 'h FeatureFlagManager \<Rightarrow>
     'h FeatureFlagManager \<times> (string, bool) jsmap option" where
  "fm_evaluateAll H now ctx m = evaluate_all H now ctx (jm_values (fm_flags m)) [] m"

section \<open>Experiments\<close>

record 'h DynamicConfigSystem =
  dy_config :: "'h ConfigStore"
  dy_flags :: "'h FeatureFlagManager"
  dy_experiments :: "(string, Experiment) jsmap"

definition new_DynamicConfigSystem :: "'h DynamicConfigSystem" where
  "new_DynamicConfigSystem =
     \<lparr>dy_config = new_ConfigStore, dy_flags = new_FeatureFlagManager, dy_experiments = []\<rparr>"

definition put_experiment :: "Experiment \<Rightarrow> 'h DynamicConfigSystem \<Rightarrow> 'h DynamicConfigSystem" where
  "put_experiment e d = d\<lparr>dy_experiments := jm_set (ex_id e) e (dy_experiments d)\<rparr>"

definition dy_createExperiment ::
  "int \<Rightarrow> string \<Rightarrow> Experiment \<Rightarrow> 'h DynamicConfigSystem \<Rightarrow> 'h DynamicConfigSystem \<times> Experiment" where
  "dy_createExperiment now random config d =
     (let e = config\<lparr>ex_id := ''exp_'' @ int_str now @ ''_'' @ random, ex_status := exp_draft,
                     ex_results := \<lparr>er_winner = None, er_confidence = 0, er_sampleSize = 0, er_variantResults = []\<rparr>,
                     ex_createdAt := now\<rparr>
      in (put_experiment e d, e))"

definition dy_startExperiment :: "int \<Rightarrow> string \<Rightarrow> 'h DynamicConfigSystem \<Rightarrow> 'h DynamicConfigSystem \<times> bool" where
  "dy_startExperiment now eid d =
     (case jm_get (dy_experiments d) eid of
        None \<Rightarrow> (d, False)
      | Some e \<Rightarrow>
          if ex_status e \<noteq> exp_draft then (d, False)
          else (d\<lparr>dy_experiments := jm_set eid (e\<lparr>ex_status := exp_running, ex_startDate := now\<rparr>)
                   (dy_experiments d)\<rparr>, True))"

text \<open>The loop over the variants: the index of the first whose cumulative weight exceeds the bucket.\<close>

fun pick_variant :: "int \<Rightarrow> rat \<Rightarrow> nat \<Rightarrow> ExperimentVariant list \<Rightarrow> nat option" where
  "pick_variant b cum i [] = None"
| "pick_variant b cum i (v # vs) =
     (if of_int b < cum + ev_weight v then Some i else pick_variant b (cum + ev_weight v) (Suc i) vs)"

text \<open>\<open>hash >> 8\<close> is the floor of the division by 256.\<close>

definition variant_bucket :: "string \<Rightarrow> int" where
  "variant_bucket userId = \<bar>sint (fold hash_step userId 0) div 256\<bar> mod 100"

definition impression :: "Experiment \<Rightarrow> nat \<Rightarrow> Experiment" where
  "impression e i =
     (let v = ex_variants e ! i
      in e\<lparr>ex_variants := (ex_variants e)[i := v\<lparr>ev_impressions := ev_impressions v + 1\<rparr>],
           ex_results := (ex_results e)\<lparr>er_sampleSize := er_sampleSize (ex_results e) + 1\<rparr>\<rparr>)"

definition dy_recordImpression ::
  "string \<Rightarrow> string \<Rightarrow> 'h DynamicConfigSystem \<Rightarrow> 'h DynamicConfigSystem \<times> ExperimentVariant option" where
  "dy_recordImpression eid userId d =
     (case jm_get (dy_experiments d) eid of
        None \<Rightarrow> (d, None)
      | Some e \<Rightarrow>
          if ex_status e \<noteq> exp_running then (d, None)
          else if ex_trafficAllocation e \<le> of_int (hashString userId mod 100) then (d, None)
          else (case pick_variant (variant_bucket userId) 0 0 (ex_variants e) of
                  Some i \<Rightarrow>
                    (let e1 = impression e i
                     in (d\<lparr>dy_experiments := jm_set eid e1 (dy_experiments d)\<rparr>, Some (ex_variants e1 ! i)))
                | None \<Rightarrow> (d, case ex_variants e of [] \<Rightarrow> None | v # _ \<Rightarrow> Some v)))"

definition conversion_rate :: "ExperimentVariant \<Rightarrow> rat" where
  "conversion_rate v =
     (if 0 < ev_impressions v then of_nat (ev_conversions v) / of_nat (ev_impressions v) else 0)"

fun best_variant :: "rat \<Rightarrow> string option \<Rightarrow> ExperimentVariant list \<Rightarrow> string option" where
  "best_variant bestRate best [] = best"
| "best_variant bestRate best (v # vs) =
     (if bestRate < conversion_rate v then best_variant (conversion_rate v) (Some (ev_id v)) vs
      else best_variant bestRate best vs)"

definition variant_results :: "ExperimentVariant list \<Rightarrow> (string, variant_result) jsmap" where
  "variant_results vs =
     fold (\<lambda>v r. jm_set (ev_id v) \<lparr>vr_conversionRate = conversion_rate v, vr_impressions = ev_impressions v,
                                     vr_conversions = ev_conversions v\<rparr> r) vs []"

definition updateExperimentResults :: "Experiment \<Rightarrow> Experiment" where
  "updateExperimentResults e =
     (let best = best_variant 0 None (ex_variants e);
          totalSamples = sum_list (map ev_impressions (ex_variants e));
          confidence = min (99 / 100) (of_nat totalSamples / 1000)
      in e\<lparr>ex_results := \<lparr>er_winner = (if 95 / 100 \<le> confidence then best else None),
                          er_confidence = confidence, er_sampleSize = totalSamples,
                          er_variantResults = variant_results (ex_variants e)\<rparr>\<rparr>)"

text \<open>The first variant with the identifier, changed in place.\<close>

fun convert_first :: "string \<Rightarrow> ExperimentVariant list \<Rightarrow> ExperimentVariant list" where
  "convert_first vid [] = []"
| "convert_first vid (v # vs) =
     (if ev_id v = vid then v\<lparr>ev_conversions := ev_conversions v + 1\<rparr> # vs else v # convert_first vid vs)"

definition dy_recordConversion ::
  "string \<Rightarrow> string \<Rightarrow> 'h DynamicConfigSystem \<Rightarrow> 'h DynamicConfigSystem \<times> bool" where
  "dy_recordConversion eid vid d =
     (case jm_get (dy_experiments d) eid of
        None \<Rightarrow> (d, False)
      | Some e \<Rightarrow>
          if find (\<lambda>v. ev_id v = vid) (ex_variants e) = None then (d, False)
          else (d\<lparr>dy_experiments := jm_set eid
                     (updateExperimentResults (e\<lparr>ex_variants := convert_first vid (ex_variants e)\<rparr>))
                     (dy_experiments d)\<rparr>, True))"

definition apply_winner :: "int \<Rightarrow> Experiment \<Rightarrow> 'h ConfigStore \<Rightarrow> 'h ConfigStore" where
  "apply_winner now e s =
     (if 95 / 100 \<le> er_confidence (ex_results e) \<and> str_truthy (er_winner (ex_results e)) then
        (case find (\<lambda>v. Some (ev_id v) = er_winner (ex_results e)) (ex_variants e) of
           None \<Rightarrow> s
         | Some w \<Rightarrow>
             fst (cs_set now (ex_configKey e) (ev_value w)
               (no_options\<lparr>so_reason := Some (WinnerOf (ex_name e) (ev_name w)),
                           so_modifiedBy := Some ''experiment_system''\<rparr>) s))
      else s)"

definition dy_completeExperiment ::
  "int \<Rightarrow> string \<Rightarrow> 'h DynamicConfigSystem \<Rightarrow> 'h DynamicConfigSystem \<times> Experiment option" where
  "dy_completeExperiment now eid d =
     (case jm_get (dy_experiments d) eid of
        None \<Rightarrow> (d, None)
      | Some e \<Rightarrow>
          (let e1 = updateExperimentResults (e\<lparr>ex_status := exp_completed, ex_endDate := Some now\<rparr>)
           in (d\<lparr>dy_experiments := jm_set eid e1 (dy_experiments d),
                 dy_config := apply_winner now e1 (dy_config d)\<rparr>, Some e1)))"

definition dy_getExperiment :: "string \<Rightarrow> 'h DynamicConfigSystem \<Rightarrow> Experiment option" where
  "dy_getExperiment eid d = jm_get (dy_experiments d) eid"

definition dy_listExperiments :: "ExperimentStatus option \<Rightarrow> 'h DynamicConfigSystem \<Rightarrow> Experiment list" where
  "dy_listExperiments status d =
     (case status of
        None \<Rightarrow> jm_values (dy_experiments d)
      | Some s \<Rightarrow> filter (\<lambda>e. ex_status e = s) (jm_values (dy_experiments d)))"

end
