(* ===== verification/DynamicConfigProps.thy ===== *)
theory DynamicConfigProps
  imports DynamicConfig
begin

text \<open>
  The properties of the dynamic configuration system. Histories of the store are lists of operations;
  the abstract state of a key is the list of values written to it, and a run that never deletes the key
  refines it: the version counts the writes and a rollback appends an old value. For flags, the
  decision is that of the matching rule with the least priority; for experiments, the value applied
  is that of a variant with the best rate.
\<close>

section \<open>The contract of a versioned variable\<close>

locale versioned =
  fixes inv :: "'s \<Rightarrow> bool"
    and put :: "'v \<Rightarrow> 's \<Rightarrow> 's"
    and current :: "'s \<Rightarrow> 'v option"
    and version :: "'s \<Rightarrow> nat"
    and value_at :: "nat \<Rightarrow> 's \<Rightarrow> 'v option"
  assumes inv_put: "inv s \<Longrightarrow> inv (put v s)"
    and version_put: "inv s \<Longrightarrow> version (put v s) = Suc (version s)"
    and value_at_put: "inv s \<Longrightarrow> value_at n (put v s) = (if n = Suc (version s) then Some v else value_at n s)"
    and value_at_range: "inv s \<Longrightarrow> (value_at n s \<noteq> None) = (0 < n \<and> n \<le> version s)"
    and current_at: "inv s \<Longrightarrow> current s = value_at (version s) s"
begin

lemma current_put: "inv s \<Longrightarrow> current (put v s) = Some v"
  by (simp add: current_at inv_put version_put value_at_put)

lemma inv_puts: "inv s \<Longrightarrow> inv (fold put vs s)"
  by (induction vs arbitrary: s) (auto simp: inv_put)

lemma version_puts: "inv s \<Longrightarrow> version (fold put vs s) = version s + length vs"
  by (induction vs arbitrary: s) (auto simp: inv_put version_put)

lemma value_at_puts: "inv s \<Longrightarrow> n \<le> version s \<Longrightarrow> value_at n (fold put vs s) = value_at n s"
  by (induction vs arbitrary: s) (auto simp: inv_put version_put value_at_put)

lemma restore:
  assumes "inv s" and "0 < n" and "n \<le> version s"
  obtains v where "value_at n s = Some v" and "current (put v (fold put vs s)) = Some v"
  using assms value_at_range [of s n] current_put [OF inv_puts [OF assms(1)], of _ vs] by auto

end

section \<open>Histories of the store\<close>

datatype 'h cs_op =
    CSet int string jsval set_options
  | CDelete int string
  | CRollback int string nat
  | CImport int "(string, jsval) jsmap" "string option" "string option"
  | COn string 'h
  | COff string 'h

primrec cs_apply :: "'h cs_op \<Rightarrow> 'h ConfigStore \<Rightarrow> 'h ConfigStore" where
  "cs_apply (CSet now key v opts) s = fst (cs_set now key v opts s)"
| "cs_apply (CDelete now key) s = fst (cs_delete now key s)"
| "cs_apply (CRollback now key n) s = fst (cs_rollback now key n s)"
| "cs_apply (CImport now kvs ns by) s = fst (cs_import now kvs ns by s)"
| "cs_apply (COn ty h) s = cs_on ty h s"
| "cs_apply (COff ty h) s = cs_off ty h s"

definition cs_run :: "'h cs_op list \<Rightarrow> 'h ConfigStore" where
  "cs_run ops = fold cs_apply ops new_ConfigStore"

fun deletes :: "string \<Rightarrow> 'h cs_op \<Rightarrow> bool" where
  "deletes key (CDelete now k) = (k = key)"
| "deletes key _ = False"

text \<open>What an operation does to the list of the values written to a key.\<close>

fun spec_step :: "string \<Rightarrow> 'h cs_op \<Rightarrow> jsval list \<Rightarrow> jsval list" where
  "spec_step key (CSet now k v opts) vs =
     (if k = key \<and> (vs = [] \<or> \<not> str_truthy (so_environment opts)) then vs @ [v] else vs)"
| "spec_step key (CRollback now k n) vs =
     (if k = key \<and> 0 < n \<and> n \<le> length vs then vs @ [vs ! (n - 1)] else vs)"
| "spec_step key (CImport now kvs ns by) vs = vs @ map snd (filter (\<lambda>kv. fst kv = key) kvs)"
| "spec_step key _ vs = vs"

text \<open>The abstraction, and the invariant of a key that was not deleted.\<close>

definition key_history :: "string \<Rightarrow> 'h ConfigStore \<Rightarrow> ConfigVersion list" where
  "key_history key s = filter (\<lambda>h. cv_key h = key) (cs_history s)"

definition key_values :: "string \<Rightarrow> 'h ConfigStore \<Rightarrow> jsval list" where
  "key_values key s = map cv_value (key_history key s)"

definition current_entry :: "string \<Rightarrow> jsval list \<Rightarrow> ConfigEntry option \<Rightarrow> bool" where
  "current_entry key vs x =
     (case x of
        None \<Rightarrow> vs = []
      | Some e \<Rightarrow> vs \<noteq> [] \<and> ce_key e = key \<and> ce_value e = last vs \<and> ce_version e = length vs)"

definition key_inv :: "string \<Rightarrow> 'h ConfigStore \<Rightarrow> bool" where
  "key_inv key s =
     (map cv_version (key_history key s) = [1..<Suc (length (key_history key s))] \<and>
      current_entry key (key_values key s) (jm_get (cs_configs s) key))"

lemma cs_emit_fields [simp]:
  "cs_configs (cs_emit ev s) = cs_configs s" "cs_history (cs_emit ev s) = cs_history s"
  "cs_listeners (cs_emit ev s) = cs_listeners s"
  by (simp_all add: cs_emit_def)

lemma key_history_emit [simp]: "key_history key (cs_emit ev s) = key_history key s"
  by (simp add: key_history_def)

lemma key_values_emit [simp]: "key_values key (cs_emit ev s) = key_values key s"
  by (simp add: key_values_def)

lemma key_inv_emit [simp]: "key_inv key (cs_emit ev s) = key_inv key s"
  by (simp add: key_inv_def)

lemma listeners_fields [simp]:
  "cs_configs (cs_on ty h s) = cs_configs s" "cs_history (cs_on ty h s) = cs_history s"
  "cs_configs (cs_off ty h s) = cs_configs s" "cs_history (cs_off ty h s) = cs_history s"
  by (simp_all add: cs_on_def cs_off_def)

lemma config_entry_simps [simp]:
  "ce_key (config_entry now key v opts x) = key" "ce_value (config_entry now key v opts x) = v"
  "ce_version (config_entry now key v opts x) = dflt (map_option ce_version x) 0 + 1"
  by (simp_all add: config_entry_def)

lemma override_entry_simps [simp]:
  "ce_key (override_entry now v opts e) = ce_key e" "ce_value (override_entry now v opts e) = ce_value e"
  "ce_version (override_entry now v opts e) = ce_version e" "ce_type (override_entry now v opts e) = ce_type e"
  by (simp_all add: override_entry_def)

lemma set_configs:
  "jm_get (cs_configs (fst (cs_set now key v opts s))) k =
     (if k = key then Some (snd (cs_set now key v opts s)) else jm_get (cs_configs s) k)"
  by (simp add: cs_set_def Let_def)

lemma set_entry:
  "snd (cs_set now key v opts s) =
     (case jm_get (cs_configs s) key of
        Some e \<Rightarrow> if str_truthy (so_environment opts) then override_entry now v opts e
                  else config_entry now key v opts (Some e)
      | None \<Rightarrow> config_entry now key v opts None)"
  by (simp add: cs_set_def Let_def split: option.splits)

lemma set_other: "k \<noteq> key \<Longrightarrow> key_history k (fst (cs_set now key v opts s)) = key_history k s"
  by (simp add: cs_set_def Let_def key_history_def)

lemma set_history:
  assumes "jm_get (cs_configs s) key = None \<or> \<not> str_truthy (so_environment opts)"
  shows "map cv_version (key_history key (fst (cs_set now key v opts s))) =
           map cv_version (key_history key s) @ [dflt (map_option ce_version (jm_get (cs_configs s) key)) 0 + 1]"
    and "key_values key (fst (cs_set now key v opts s)) = key_values key s @ [v]"
  using assms by (auto simp: cs_set_def Let_def key_history_def key_values_def)

lemma set_overrides:
  assumes "jm_get (cs_configs s) key \<noteq> None" and "str_truthy (so_environment opts)"
  shows "key_history k (fst (cs_set now key v opts s)) = key_history k s"
  using assms by (simp add: cs_set_def Let_def key_history_def)

lemma length_key_values: "length (key_values key s) = length (key_history key s)"
  by (simp add: key_values_def)

lemma key_inv_entry: "key_inv key s \<Longrightarrow> (jm_get (cs_configs s) key = None) = (key_values key s = [])"
  by (auto simp: key_inv_def current_entry_def split: option.splits)

lemma key_inv_version:
  "key_inv key s \<Longrightarrow> dflt (map_option ce_version (jm_get (cs_configs s) key)) 0 = length (key_history key s)"
  by (auto simp: key_inv_def current_entry_def dflt_def length_key_values [symmetric] split: option.splits)

lemma key_inv_set_write:
  assumes inv: "key_inv key s" and x: "jm_get (cs_configs s) key = None \<or> \<not> str_truthy (so_environment opts)"
  shows "key_inv key (fst (cs_set now key v opts s))"
proof -
  note v = key_inv_version [OF inv]
  note h = set_history [OF x, of now v]
  have len: "length (key_history key (fst (cs_set now key v opts s))) = Suc (length (key_history key s))"
    using h(2) by (simp add: length_key_values [symmetric])
  have entry: "snd (cs_set now key v opts s) = config_entry now key v opts (jm_get (cs_configs s) key)"
    using x by (auto simp: set_entry split: option.splits)
  from inv h v len entry show ?thesis
    by (simp add: key_inv_def current_entry_def set_configs length_key_values)
qed

lemma key_inv_set_override:
  assumes inv: "key_inv key s" and x: "jm_get (cs_configs s) key \<noteq> None" and env: "str_truthy (so_environment opts)"
  shows "key_inv key (fst (cs_set now key v opts s))"
  using inv x env set_overrides [OF x env]
  by (auto simp: key_inv_def current_entry_def set_configs set_entry key_values_def)

lemma key_inv_set: "key_inv key s \<Longrightarrow> key_inv key (fst (cs_set now k v opts s))"
proof (cases "k = key")
  case True
  assume "key_inv key s"
  with True show ?thesis
    using key_inv_set_write [of key s opts] key_inv_set_override [of key s opts] by blast
next
  case False
  assume "key_inv key s"
  with False show ?thesis
    by (simp add: key_inv_def set_configs set_other key_values_def)
qed

lemma values_set:
  assumes inv: "key_inv key s"
  shows "key_values key (fst (cs_set now k v opts s)) =
    (if k = key \<and> (key_values key s = [] \<or> \<not> str_truthy (so_environment opts))
     then key_values key s @ [v] else key_values key s)"
proof (cases "k = key")
  case True
  show ?thesis
  proof (cases "jm_get (cs_configs s) key = None \<or> \<not> str_truthy (so_environment opts)")
    case w: True
    with True show ?thesis using set_history(2) [OF w, of now v] key_inv_entry [OF inv] by auto
  next
    case False
    with True show ?thesis
      using set_overrides [of s key opts key now v] key_inv_entry [OF inv] by (auto simp: key_values_def)
  qed
next
  case False
  then show ?thesis by (simp add: key_values_def set_other)
qed

lemma find_numbered:
  assumes "map f xs = [a..<a + length xs]"
  shows "find (\<lambda>x. f x = n) xs = (if a \<le> n \<and> n < a + length xs then Some (xs ! (n - a)) else None)"
  using assms
proof (induction xs arbitrary: a)
  case Nil
  then show ?case by simp
next
  case (Cons x xs)
  have "[a..<a + length (x # xs)] = a # [Suc a..<Suc a + length xs]"
    by (simp add: upt_conv_Cons del: upt_Suc)
  then have fx: "f x = a" and rest: "map f xs = [Suc a..<Suc a + length xs]"
    using Cons.prems by (simp_all del: upt_Suc)
  show ?case
    using Cons.IH [OF rest] fx by (auto simp: nth_Cons' Suc_diff_Suc)
qed

lemma find_filter: "find (\<lambda>x. p x \<and> q x) xs = find q (filter p xs)"
  by (induction xs) auto

lemma key_inv_find:
  assumes "key_inv key s"
  shows "find_version key n s =
           (if 0 < n \<and> n \<le> length (key_values key s) then Some (key_history key s ! (n - 1)) else None)"
  using assms find_numbered [of cv_version "key_history key s" 1 n]
  by (auto simp: find_version_def find_filter key_inv_def length_key_values key_history_def [symmetric])

definition rollback_options :: "nat \<Rightarrow> set_options" where
  "rollback_options n =
     no_options\<lparr>so_modifiedBy := Some ''system'', so_reason := Some (RollbackTo n)\<rparr>"

lemma rollback_options_simps [simp]:
  "\<not> str_truthy (so_environment (rollback_options n))" "so_type (rollback_options n) = None"
  by (simp_all add: rollback_options_def no_options_def str_truthy_def)

lemma rollback_some:
  assumes "find_version key n s = Some h"
  obtains ev where "fst (cs_rollback now key n s) = cs_emit ev (fst (cs_set now key (cv_value h) (rollback_options n) s))"
    and "snd (cs_rollback now key n s) = Some (snd (cs_set now key (cv_value h) (rollback_options n) s))"
  using assms by (fastforce simp: cs_rollback_def rollback_options_def case_prod_beta)

lemma rollback_none: "find_version key n s = None \<Longrightarrow> cs_rollback now key n s = (s, None)"
  by (simp add: cs_rollback_def)

lemma import_fold:
  "fst (cs_import now kvs ns by s) =
     fold (\<lambda>(k, v) s. fst (cs_set now k v (import_options ns by) s)) kvs s"
proof -
  have "fst (fold (\<lambda>(key, v) (s, count). (fst (cs_set now key v (import_options ns by) s), count + 1)) kvs (s, c)) =
        fold (\<lambda>(k, v) s. fst (cs_set now k v (import_options ns by) s)) kvs s" for c :: nat
    by (induction kvs arbitrary: s c) (auto split: prod.splits)
  then show ?thesis by (simp add: cs_import_def)
qed

lemma import_env [simp]: "\<not> str_truthy (so_environment (import_options ns by))" "so_type (import_options ns by) = None"
  by (simp_all add: import_options_def no_options_def str_truthy_def)

lemma key_import:
  assumes "key_inv key s"
  shows "key_inv key (fold (\<lambda>(k, v) s. fst (cs_set now k v (import_options ns by) s)) kvs s) \<and>
         key_values key (fold (\<lambda>(k, v) s. fst (cs_set now k v (import_options ns by) s)) kvs s) =
           key_values key s @ map snd (filter (\<lambda>kv. fst kv = key) kvs)"
  using assms
proof (induction kvs arbitrary: s)
  case Nil
  then show ?case by simp
next
  case (Cons kv kvs)
  obtain k v where kv: "kv = (k, v)" by (cases kv)
  show ?case
    using Cons.IH [OF key_inv_set [OF Cons.prems]] values_set [OF Cons.prems, of now k v] by (simp add: kv)
qed

lemma key_history_listeners [simp]:
  "key_history key (cs_on ty h s) = key_history key s" "key_history key (cs_off ty h s) = key_history key s"
  by (simp_all add: key_history_def)

lemma delete_history [simp]:
  "key_history key (fst (cs_delete now k s)) = key_history key s"
  by (simp add: cs_delete_def key_history_def)

lemma delete_configs:
  "jm_get (cs_configs (fst (cs_delete now k s))) key = (if key = k then None else jm_get (cs_configs s) key)"
  by (simp add: cs_delete_def jm_has_def)

text \<open>Every operation that does not delete the key keeps the invariant and refines the abstract step.\<close>

lemma key_apply:
  assumes inv: "key_inv key s" and d: "\<not> deletes key op"
  shows "key_inv key (cs_apply op s) \<and> key_values key (cs_apply op s) = spec_step key op (key_values key s)"
proof (cases op)
  case (CSet now k v opts)
  with inv show ?thesis by (simp add: key_inv_set values_set)
next
  case (CDelete now k)
  with inv d show ?thesis
    by (simp add: key_inv_def delete_configs key_values_def)
next
  case (CRollback now k n)
  show ?thesis
  proof (cases "find_version k n s")
    case None
    then show ?thesis
      using CRollback inv key_inv_find [OF inv, of n] by (auto simp: rollback_none split: if_splits)
  next
    case (Some h)
    then obtain ev where r: "fst (cs_rollback now k n s) =
        cs_emit ev (fst (cs_set now k (cv_value h) (rollback_options n) s))"
      by (rule rollback_some)
    have "k = key \<Longrightarrow> 0 < n \<and> n \<le> length (key_values key s) \<and> cv_value h = key_values key s ! (n - 1)"
      using Some key_inv_find [OF inv, of n] by (auto simp: key_values_def split: if_splits)
    then show ?thesis
      using CRollback inv r by (auto simp: key_inv_set values_set)
  qed
next
  case (CImport now kvs ns by')
  with inv show ?thesis by (simp add: import_fold key_import)
next
  case (COn ty h)
  with inv show ?thesis by (simp add: key_inv_def key_values_def)
next
  case (COff ty h)
  with inv show ?thesis by (simp add: key_inv_def key_values_def)
qed

lemma key_inv_new: "key_inv key new_ConfigStore" "key_values key new_ConfigStore = []"
  by (simp_all add: key_inv_def new_ConfigStore_def key_history_def key_values_def current_entry_def)

lemma key_fold:
  assumes "key_inv key s" and "\<not> list_ex (deletes key) ops"
  shows "key_inv key (fold cs_apply ops s) \<and>
         key_values key (fold cs_apply ops s) = fold (spec_step key) ops (key_values key s)"
  using assms by (induction ops arbitrary: s) (auto simp: key_apply)

lemma key_run:
  assumes "\<not> list_ex (deletes key) ops"
  shows "key_inv key (cs_run ops)" and "key_values key (cs_run ops) = fold (spec_step key) ops []"
  using key_fold [OF key_inv_new(1) assms] by (simp_all add: cs_run_def key_inv_new)

lemma get_plain: "cs_get key None s = dflt (map_option ce_value (jm_get (cs_configs s) key)) JUndef"
  by (simp add: cs_get_def dflt_def str_truthy_def split: option.splits)

lemma key_inv_get: "key_inv key s \<Longrightarrow> key_values key s \<noteq> [] \<Longrightarrow> cs_get key None s = last (key_values key s)"
  by (auto simp: get_plain key_inv_def current_entry_def dflt_def split: option.splits)

text \<open>The store provides the contract for every key.\<close>

definition plain_set :: "int \<Rightarrow> string \<Rightarrow> jsval \<Rightarrow> 'h ConfigStore \<Rightarrow> 'h ConfigStore" where
  "plain_set now key v s = fst (cs_set now key v no_options s)"

lemma no_environment [simp]: "\<not> str_truthy (so_environment no_options)"
  by (simp add: no_options_def str_truthy_def)

lemma plain_set_inv: "key_inv key s \<Longrightarrow> key_inv key (plain_set now key v s)"
  by (simp add: plain_set_def key_inv_set)

lemma plain_set_values: "key_inv key s \<Longrightarrow> key_values key (plain_set now key v s) = key_values key s @ [v]"
  by (simp add: plain_set_def values_set)

definition stored_value :: "string \<Rightarrow> 'h ConfigStore \<Rightarrow> jsval option" where
  "stored_value key s = map_option ce_value (cs_getEntry key s)"

definition stored_version :: "string \<Rightarrow> 'h ConfigStore \<Rightarrow> nat" where
  "stored_version key s = dflt (map_option ce_version (cs_getEntry key s)) 0"

definition version_value :: "string \<Rightarrow> nat \<Rightarrow> 'h ConfigStore \<Rightarrow> jsval option" where
  "version_value key n s = map_option cv_value (find_version key n s)"

lemma stored_version_values: "key_inv key s \<Longrightarrow> stored_version key s = length (key_values key s)"
  by (simp add: stored_version_def cs_getEntry_def key_inv_version length_key_values)

lemma version_value_nth:
  "key_inv key s \<Longrightarrow> version_value key n s =
     (if 0 < n \<and> n \<le> length (key_values key s) then Some (key_values key s ! (n - 1)) else None)"
  by (auto simp: version_value_def key_inv_find key_values_def)

lemma stored_value_last:
  "key_inv key s \<Longrightarrow> stored_value key s = (if key_values key s = [] then None else Some (last (key_values key s)))"
  by (auto simp: stored_value_def cs_getEntry_def key_inv_def current_entry_def split: option.splits)

interpretation cv: versioned "key_inv key" "plain_set now key" "stored_value key" "stored_version key" "version_value key"
  for key :: string and now :: int
  by unfold_locales
    (auto simp: plain_set_inv stored_version_values plain_set_values version_value_nth stored_value_last nth_append
       last_conv_nth)

section \<open>Types of the entries\<close>

fun writes_type :: "ConfigValueType \<Rightarrow> string \<Rightarrow> 'h cs_op \<Rightarrow> bool" where
  "writes_type t key (CSet now k v opts) =
     (k = key \<longrightarrow> dflt (so_type opts) t = t \<and> inferType v = t)"
| "writes_type t key (CImport now kvs ns by) = list_all (\<lambda>(k, v). k = key \<longrightarrow> inferType v = t) kvs"
| "writes_type t key _ = True"

definition typed_key :: "ConfigValueType \<Rightarrow> string \<Rightarrow> 'h ConfigStore \<Rightarrow> bool" where
  "typed_key t key s =
     ((\<forall>v \<in> set (key_values key s). inferType v = t) \<and>
      (\<forall>e. jm_get (cs_configs s) key = Some e \<longrightarrow> ce_key e = key \<and> ce_type e = t \<and> inferType (ce_value e) = t \<and>
         (\<forall>x v. jm_get (ce_environmentOverrides e) x = Some v \<longrightarrow> inferType v = t)))"

lemma config_entry_type:
  "ce_type (config_entry now key v opts x) = dflt (so_type opts) (dflt (map_option ce_type x) (inferType v))"
  by (simp add: config_entry_def)

lemma entry_overrides:
  "ce_environmentOverrides (config_entry now key v opts x) = dflt (map_option ce_environmentOverrides x) []"
  "ce_environmentOverrides (override_entry now v opts e) =
     jm_set (dflt (so_environment opts) []) v (ce_environmentOverrides e)"
  by (simp_all add: config_entry_def override_entry_def)

lemma typed_set:
  assumes t: "typed_key t key s" and ty: "k = key \<Longrightarrow> dflt (so_type opts) t = t"
    and v: "k = key \<Longrightarrow> inferType v = t"
  shows "typed_key t key (fst (cs_set now k v opts s))"
proof (cases "k = key")
  case False
  with t show ?thesis by (simp add: typed_key_def set_configs key_values_def set_other)
next
  case True
  show ?thesis
  proof (cases "jm_get (cs_configs s) key = None \<or> \<not> str_truthy (so_environment opts)")
    case w: True
    let ?e = "config_entry now key v opts (jm_get (cs_configs s) key)"
    have "ce_type ?e = t"
      using t ty v w True by (auto simp: typed_key_def config_entry_type dflt_def split: option.splits)
    moreover have "\<forall>x u. jm_get (ce_environmentOverrides ?e) x = Some u \<longrightarrow> inferType u = t"
      using t by (auto simp: typed_key_def entry_overrides dflt_def split: option.splits)
    moreover have "snd (cs_set now key v opts s) = ?e"
      using w by (auto simp: set_entry split: option.splits)
    ultimately show ?thesis
      using t v True set_history(2) [OF w, of now v] by (auto simp: typed_key_def set_configs)
  next
    case False
    with t True show ?thesis
      using set_overrides [of s key opts key now v] v
      by (auto simp: typed_key_def set_configs set_entry key_values_def entry_overrides split: if_splits)
  qed
qed

lemma typed_import:
  assumes "typed_key t key s" and "list_all (\<lambda>(k, v). k = key \<longrightarrow> inferType v = t) kvs"
  shows "typed_key t key (fold (\<lambda>(k, v) s. fst (cs_set now k v (import_options ns by) s)) kvs s)"
  using assms
proof (induction kvs arbitrary: s)
  case Nil
  then show ?case by simp
next
  case (Cons kv kvs)
  obtain k v where kv: "kv = (k, v)" by (cases kv)
  have "typed_key t key (fst (cs_set now k v (import_options ns by) s))"
    using Cons.prems by (intro typed_set) (auto simp: kv dflt_def)
  from Cons.IH [OF this] Cons.prems show ?case by (simp add: kv)
qed

lemma typed_apply:
  assumes t: "typed_key t key s" and op: "writes_type t key op"
  shows "typed_key t key (cs_apply op s)"
proof (cases op)
  case (CSet now k v opts)
  with assms show ?thesis by (auto intro!: typed_set)
next
  case (CDelete now k)
  with t show ?thesis by (auto simp: typed_key_def delete_configs key_values_def)
next
  case (CRollback now k n)
  show ?thesis
  proof (cases "find_version k n s")
    case None
    with CRollback t show ?thesis by (simp add: rollback_none)
  next
    case (Some h)
    then obtain ev where r: "fst (cs_rollback now k n s) =
        cs_emit ev (fst (cs_set now k (cv_value h) (rollback_options n) s))"
      by (rule rollback_some)
    have "k = key \<Longrightarrow> cv_value h \<in> set (key_values key s)"
      using Some by (auto simp: find_version_def key_values_def key_history_def find_Some_iff)
    then have "typed_key t key (fst (cs_set now k (cv_value h) (rollback_options n) s))"
      using t by (intro typed_set) (auto simp: typed_key_def dflt_def)
    with CRollback r show ?thesis by (simp add: typed_key_def)
  qed
next
  case (CImport now kvs ns by')
  with t op show ?thesis by (simp add: import_fold typed_import)
next
  case (COn ty h)
  with t show ?thesis by (simp add: typed_key_def key_values_def)
next
  case (COff ty h)
  with t show ?thesis by (simp add: typed_key_def key_values_def)
qed

section \<open>Decisions of flags\<close>

lemma hd_sort_key:
  "ys \<noteq> [] \<Longrightarrow> \<exists>us ws. ys = us @ hd (sort_key f ys) # ws \<and>
     (\<forall>u \<in> set us. f (hd (sort_key f ys)) < f u) \<and> (\<forall>w \<in> set ws. f (hd (sort_key f ys)) \<le> f w)"
  for f :: "'a \<Rightarrow> 'b::linorder"
proof (induction ys)
  case Nil
  then show ?case by simp
next
  case (Cons y ys)
  show ?case
  proof (cases "ys = []")
    case True
    then show ?thesis by (intro exI [of _ "[]"]) simp
  next
    case False
    let ?m = "hd (sort_key f ys)"
    from Cons.IH [OF False] obtain us ws where ys: "ys = us @ ?m # ws"
      and us: "\<forall>u \<in> set us. f ?m < f u" and ws: "\<forall>w \<in> set ws. f ?m \<le> f w"
      by blast
    obtain zs where z: "sort_key f ys = ?m # zs"
      using False by (cases "sort_key f ys") (auto simp flip: set_empty)
    have min: "\<forall>x \<in> set ys. f ?m \<le> f x"
      using us ws by (subst ys) auto
    show ?thesis
    proof (cases "f y \<le> f ?m")
      case True
      then have "hd (sort_key f (y # ys)) = y" by (subst sort_key_simps(2), subst z) simp
      moreover have "\<forall>x \<in> set ys. f y \<le> f x" using min True order_trans by blast
      ultimately show ?thesis by (intro exI [of _ "[]"] exI [of _ ys]) simp
    next
      case f: False
      then have "hd (sort_key f (y # ys)) = ?m" by (subst sort_key_simps(2), subst z) simp
      moreover have "y # ys = (y # us) @ ?m # ws" by (subst ys) simp
      ultimately show ?thesis
        using us ws f by (intro exI [of _ "y # us"] exI [of _ ws]) auto
    qed
  qed
qed

lemma filter_splitE:
  assumes "filter p xs = us @ r # ws"
  obtains us' ws' where "xs = us' @ r # ws'" and "filter p us' = us" and "filter p ws' = ws" and "p r"
  using assms
proof (induction xs arbitrary: us thesis)
  case Nil
  then show ?case by simp
next
  case (Cons x xs)
  show ?case
  proof (cases "p x \<and> us = []")
    case True
    with Cons.prems(2) show ?thesis by (intro Cons.prems(1) [of "[]" xs]) auto
  next
    case False
    obtain us1 where us1: "filter p xs = us1 @ r # ws" "us = (if p x then x # us1 else us1)"
      using Cons.prems(2) False by (cases us) (auto split: if_splits)
    obtain us' ws' where "xs = us' @ r # ws'" "filter p us' = us1" "filter p ws' = ws" "p r"
      by (rule Cons.IH [OF _ us1(1)])
    with us1(2) show ?thesis by (intro Cons.prems(1) [of "x # us'" ws']) auto
  qed
qed

definition rule_fires :: "dc_host \<Rightarrow> EvaluationContext \<Rightarrow> TargetingRule \<Rightarrow> bool" where
  "rule_fires H ctx r = (tr_enabled r \<and> flag_rule H ctx r = Some True)"

lemma first_rule_hd:
  assumes "\<And>r. r \<in> set rs \<Longrightarrow> flag_rule H ctx r \<noteq> None"
  shows "first_rule H ctx d rs =
    Some (case filter (\<lambda>r. flag_rule H ctx r = Some True) rs of [] \<Rightarrow> d | r # _ \<Rightarrow> tr_value r)"
  using assms
proof (induction rs)
  case Nil
  then show ?case by simp
next
  case (Cons r rs)
  then have "flag_rule H ctx r \<noteq> None" by simp
  then consider "flag_rule H ctx r = Some True" | "flag_rule H ctx r = Some False"
    by (cases "flag_rule H ctx r") auto
  then show ?case using Cons by cases simp_all
qed

lemma decided_by_rules:
  assumes total: "\<And>r. r \<in> set rules \<Longrightarrow> tr_enabled r \<Longrightarrow> flag_rule H ctx r \<noteq> None"
  obtains (none) "first_rule H ctx d (sort_key tr_priority (filter tr_enabled rules)) = Some d"
      and "\<not> list_ex (rule_fires H ctx) rules"
    | (rule) us r ws where "first_rule H ctx d (sort_key tr_priority (filter tr_enabled rules)) = Some (tr_value r)"
      and "rules = us @ r # ws" and "rule_fires H ctx r"
      and "\<forall>u \<in> set us. rule_fires H ctx u \<longrightarrow> tr_priority r < tr_priority u"
      and "\<forall>w \<in> set ws. rule_fires H ctx w \<longrightarrow> tr_priority r \<le> tr_priority w"
proof -
  let ?m = "\<lambda>r. flag_rule H ctx r = Some True"
  let ?fs = "filter (rule_fires H ctx) rules"
  have "filter ?m (sort_key tr_priority (filter tr_enabled rules)) = sort_key tr_priority ?fs"
    by (simp add: filter_sort rule_fires_def [abs_def])
  then have eq: "first_rule H ctx d (sort_key tr_priority (filter tr_enabled rules)) =
      Some (case sort_key tr_priority ?fs of [] \<Rightarrow> d | r # _ \<Rightarrow> tr_value r)"
    using total by (subst first_rule_hd) auto
  show ?thesis
  proof (cases "?fs = []")
    case True
    then show ?thesis using eq by (intro none) (simp_all add: filter_empty_conv list_ex_iff)
  next
    case False
    let ?r = "hd (sort_key tr_priority ?fs)"
    have "sort_key tr_priority ?fs \<noteq> []" using False by (simp flip: set_empty)
    then have e: "first_rule H ctx d (sort_key tr_priority (filter tr_enabled rules)) = Some (tr_value ?r)"
      by (subst eq) (simp add: list.case_eq_if)
    from hd_sort_key [OF False, of tr_priority] obtain us ws where split: "?fs = us @ ?r # ws"
      and lt: "\<forall>u \<in> set us. tr_priority ?r < tr_priority u" "\<forall>w \<in> set ws. tr_priority ?r \<le> tr_priority w"
      by blast
    from split obtain us' ws' where "rules = us' @ ?r # ws'" "filter (rule_fires H ctx) us' = us"
      "filter (rule_fires H ctx) ws' = ws" "rule_fires H ctx ?r"
      by (rule filter_splitE)
    with lt e show ?thesis by (intro rule [of ?r us' ws']) auto
  qed
qed

text \<open>A flag's counters.\<close>

definition counts_ok :: "FeatureFlag \<Rightarrow> bool" where
  "counts_ok f = (fs_totalEvaluations (ff_stats f) = fs_trueCount (ff_stats f) + fs_falseCount (ff_stats f))"

definition flags_ok :: "'h FeatureFlagManager \<Rightarrow> bool" where
  "flags_ok m = (\<forall>k f. jm_get (fm_flags m) k = Some f \<longrightarrow> ff_key f = k \<and> counts_ok f)"

datatype 'h fm_op =
    FCreate int FeatureFlag
  | FEvaluate int string EvaluationContext
  | FEvaluateAll int EvaluationContext
  | FToggle int string
  | FUpdate int string flag_updates
  | FArchive int string

primrec fm_apply :: "dc_host \<Rightarrow> 'h fm_op \<Rightarrow> 'h FeatureFlagManager \<Rightarrow> 'h FeatureFlagManager" where
  "fm_apply H (FCreate now f) m = fst (fm_create now f m)"
| "fm_apply H (FEvaluate now k ctx) m = fst (fm_evaluate H now k ctx m)"
| "fm_apply H (FEvaluateAll now ctx) m = fst (fm_evaluateAll H now ctx m)"
| "fm_apply H (FToggle now k) m = fst (fm_toggle now k m)"
| "fm_apply H (FUpdate now k u) m = fst (fm_update now k u m)"
| "fm_apply H (FArchive now k) m = fst (fm_archive now k m)"

lemma fm_emit_flags [simp]: "fm_flags (fm_emit ev m) = fm_flags m"
  by (simp add: fm_emit_def)

lemma flags_okD: "flags_ok m \<Longrightarrow> jm_get (fm_flags m) k = Some f \<Longrightarrow> ff_key f = k \<and> counts_ok f"
  by (simp add: flags_ok_def)

lemma flags_ok_set:
  "flags_ok m \<Longrightarrow> ff_key f = k \<and> counts_ok f \<Longrightarrow> fm_flags m' = jm_set k f (fm_flags m) \<Longrightarrow> flags_ok m'"
  by (simp add: flags_ok_def)

lemma flags_ok_evaluate:
  assumes ok: "flags_ok m"
  shows "flags_ok (fst (fm_evaluate H now k ctx m))"
proof (cases "jm_get (fm_flags m) k")
  case None
  with ok show ?thesis by (simp add: fm_evaluate_def)
next
  case (Some f)
  with flags_okD [OF ok this] ok show ?thesis
    by (auto simp: fm_evaluate_def flags_ok_def counts_ok_def count_result_def split: option.splits)
qed

lemma flags_ok_evaluate_all: "flags_ok m \<Longrightarrow> flags_ok (fst (evaluate_all H now ctx fs results m))"
proof (induction fs arbitrary: results m)
  case Nil
  then show ?case by simp
next
  case (Cons f fs)
  obtain m1 x where e: "fm_evaluate H now (ff_key f) ctx m = (m1, x)" by fastforce
  with flags_ok_evaluate [OF Cons.prems, of H now "ff_key f" ctx] have "flags_ok m1" by simp
  with Cons e show ?case by (auto split: option.splits)
qed

lemma flags_ok_create: "flags_ok m \<Longrightarrow> flags_ok (fst (fm_create now f m))"
  by (simp add: fm_create_def Let_def flags_ok_def counts_ok_def)

lemma flags_ok_changes:
  assumes ok: "flags_ok m"
  shows "flags_ok (fst (fm_toggle now k m))" and "flags_ok (fst (fm_update now k u m))"
    and "flags_ok (fst (fm_archive now k m))"
  using ok flags_okD [OF ok, of k]
  by (auto simp: fm_toggle_def fm_update_def fm_archive_def assign_updates_def Let_def flags_ok_def counts_ok_def
      split: option.splits)

lemma flags_ok_apply: "flags_ok m \<Longrightarrow> flags_ok (fm_apply H op m)"
  by (cases op)
    (simp_all add: flags_ok_evaluate flags_ok_evaluate_all fm_evaluateAll_def flags_ok_create flags_ok_changes)

lemma flags_ok_history: "flags_ok m \<Longrightarrow> flags_ok (fold (fm_apply H) ops m)"
  by (induction ops arbitrary: m) (auto simp: flags_ok_apply)

lemma flags_ok_run: "flags_ok (fold (fm_apply H) ops new_FeatureFlagManager)"
  by (rule flags_ok_history) (simp add: flags_ok_def new_FeatureFlagManager_def)

lemma wider_percentage: "p \<le> q \<Longrightarrow> in_percentage u p \<Longrightarrow> in_percentage u q"
  by (auto simp: in_percentage_def split: option.splits)

lemma hash_bounds: "0 \<le> hashString u mod 100" "hashString u mod 100 < 100"
  by simp_all

lemma full_percentage: "100 \<le> p \<Longrightarrow> in_percentage (Some u) p = (u \<noteq> [])"
proof -
  assume "100 \<le> p"
  moreover have "rat_of_int (hashString u mod 100) < of_int 100"
    by (subst of_int_less_iff) simp
  ultimately have "rat_of_int (hashString u mod 100) < p" by simp
  then show ?thesis by (simp add: in_percentage_def)
qed

section \<open>Winners of experiments\<close>

lemma conversion_rate_nonneg [simp]: "0 \<le> conversion_rate v"
  by (simp add: conversion_rate_def)

lemma best_variant_spec:
  "(best_variant b x vs = x \<and> (\<forall>v \<in> set vs. conversion_rate v \<le> b)) \<or>
   (\<exists>w \<in> set vs. best_variant b x vs = Some (ev_id w) \<and> b < conversion_rate w \<and>
      (\<forall>v \<in> set vs. conversion_rate v \<le> conversion_rate w))"
proof (induction vs arbitrary: b x)
  case Nil
  then show ?case by simp
next
  case (Cons v vs)
  show ?case
  proof (cases "b < conversion_rate v")
    case True
    from Cons.IH [of "conversion_rate v" "Some (ev_id v)"] show ?thesis
    proof (elim disjE bexE)
      assume "best_variant (conversion_rate v) (Some (ev_id v)) vs = Some (ev_id v) \<and>
        (\<forall>u \<in> set vs. conversion_rate u \<le> conversion_rate v)"
      with True show ?thesis by auto
    next
      fix w
      assume "w \<in> set vs" and "best_variant (conversion_rate v) (Some (ev_id v)) vs = Some (ev_id w) \<and>
        conversion_rate v < conversion_rate w \<and> (\<forall>u \<in> set vs. conversion_rate u \<le> conversion_rate w)"
      with True show ?thesis by (intro disjI2 bexI [of _ w]) auto
    qed
  next
    case False
    from Cons.IH [of b x] show ?thesis
    proof (elim disjE bexE)
      assume "best_variant b x vs = x \<and> (\<forall>u \<in> set vs. conversion_rate u \<le> b)"
      with False show ?thesis by auto
    next
      fix w
      assume "w \<in> set vs" and "best_variant b x vs = Some (ev_id w) \<and> b < conversion_rate w \<and>
        (\<forall>u \<in> set vs. conversion_rate u \<le> conversion_rate w)"
      with False show ?thesis by (intro disjI2 bexI [of _ w]) auto
    qed
  qed
qed

definition total_impressions :: "Experiment \<Rightarrow> nat" where
  "total_impressions e = sum_list (map ev_impressions (ex_variants e))"

lemma confident_iff: "(95 / 100 :: rat) \<le> min (99 / 100) (of_nat n / 1000) \<longleftrightarrow> 950 \<le> n"
proof -
  have "(95 / 100 :: rat) \<le> of_nat n / 1000 \<longleftrightarrow> (950 :: rat) \<le> of_nat n"
    by (simp add: field_simps)
  also have "\<dots> \<longleftrightarrow> of_nat 950 \<le> (of_nat n :: rat)" by simp
  also have "\<dots> \<longleftrightarrow> 950 \<le> n" by (rule of_nat_le_iff)
  finally show ?thesis by simp
qed

lemma find_unique:
  "distinct (map f vs) \<Longrightarrow> w \<in> set vs \<Longrightarrow> find (\<lambda>v. f v = f w) vs = Some w"
  by (induction vs) auto

lemma results_confidence:
  "95 / 100 \<le> er_confidence (ex_results (updateExperimentResults e)) \<longleftrightarrow> 950 \<le> total_impressions e"
proof -
  have "er_confidence (ex_results (updateExperimentResults e)) = min (99 / 100) (of_nat (total_impressions e) / 1000)"
    by (simp add: updateExperimentResults_def Let_def total_impressions_def)
  then show ?thesis by (simp only: confident_iff)
qed

lemma results_winner:
  "er_winner (ex_results (updateExperimentResults e)) =
     (if 950 \<le> total_impressions e then best_variant 0 None (ex_variants e) else None)"
  unfolding updateExperimentResults_def Let_def total_impressions_def confident_iff by simp

lemma updated_fields [simp]:
  "ex_variants (updateExperimentResults e) = ex_variants e" "ex_configKey (updateExperimentResults e) = ex_configKey e"
  "ex_name (updateExperimentResults e) = ex_name e" "ex_status (updateExperimentResults e) = ex_status e"
  by (simp_all add: updateExperimentResults_def Let_def)

lemma winner_options [simp]:
  "\<not> str_truthy (so_environment (no_options\<lparr>so_reason := r, so_modifiedBy := b\<rparr>))"
  by (simp add: no_options_def str_truthy_def)

lemma get_after_set:
  "\<not> str_truthy (so_environment opts) \<Longrightarrow> cs_get key None (fst (cs_set now key v opts s)) = v"
  by (auto simp: get_plain set_configs set_entry dflt_def split: option.splits)

lemma typed_run:
  assumes "list_all (writes_type t key) ops"
  shows "typed_key t key (cs_run ops)"
proof -
  have keep: "typed_key t key s \<Longrightarrow> typed_key t key (fold cs_apply ops s)" for s :: "'a ConfigStore"
    using assms by (induction ops arbitrary: s) (auto simp: typed_apply)
  have "typed_key t key (new_ConfigStore :: 'a ConfigStore)"
    by (simp add: typed_key_def new_ConfigStore_def key_values_def key_history_def)
  then show ?thesis unfolding cs_run_def by (rule keep)
qed

section \<open>Properties\<close>

definition demo_writes :: "nat cs_op list" where
  "demo_writes = [CSet 1 ''a'' (JNum 1) no_options, CSet 2 ''b'' (JNum 7) no_options, CSet 3 ''a'' (JNum 2) no_options]"

definition demo_flag :: FeatureFlag where
  "demo_flag = \<lparr>ff_key = ''f'', ff_name = ''F'', ff_description = '''', ff_status = flag_active,
     ff_defaultValue = False,
     ff_rules = [\<lparr>tr_id = ''r1'', tr_name = '''', tr_priority = 2,
                  tr_conditions = [], tr_value = False, tr_enabled = True\<rparr>,
                 \<lparr>tr_id = ''r2'', tr_name = '''', tr_priority = 1,
                  tr_conditions = [\<lparr>tc_attribute = ''userId'', tc_operator = c_eq, tc_value = JStr ''u''\<rparr>],
                  tr_value = True, tr_enabled = True\<rparr>],
     ff_rollout = \<lparr>rc_strategy = to_all, rc_percentage = None, rc_userIds = None, rc_attributeRules = None,
                   rc_gradualSchedule = None\<rparr>,
     ff_tags = [], ff_owner = '''', ff_createdAt = 0, ff_updatedAt = 0,
     ff_stats = \<lparr>fs_totalEvaluations = 0, fs_trueCount = 0, fs_falseCount = 0, fs_lastEvaluatedAt = 0\<rparr>\<rparr>"

definition demo_context :: EvaluationContext where
  "demo_context = \<lparr>ec_userId = Some ''u'', ec_email = None, ec_attributes = [], ec_environment = None,
     ec_metadata = None\<rparr>"

definition demo_dc_host :: dc_host where
  "demo_dc_host = \<lparr>ho_text = (\<lambda>v. ''''), ho_number = (\<lambda>v. None), ho_regex = (\<lambda>p s. None)\<rparr>"

definition demo_experiment :: Experiment where
  "demo_experiment = \<lparr>ex_id = ''e'', ex_name = '''', ex_description = '''', ex_configKey = ''k'',
     ex_status = exp_running,
     ex_variants = [\<lparr>ev_id = ''A'', ev_name = '''', ev_value = JNum 1, ev_weight = 50, ev_impressions = 500, ev_conversions = 10\<rparr>,
                    \<lparr>ev_id = ''B'', ev_name = '''', ev_value = JNum 2, ev_weight = 50, ev_impressions = 500, ev_conversions = 20\<rparr>],
     ex_trafficAllocation = 100, ex_startDate = 0, ex_endDate = None, ex_successMetric = '''',
     ex_results = \<lparr>er_winner = None, er_confidence = 0, er_sampleSize = 0, er_variantResults = []\<rparr>,
     ex_createdAt = 0\<rparr>"

text \<open>Deleting a key forgets its entry but not its history: the versions of the key written
  again start at 1, and a rollback to a version finds the value of the earlier life.\<close>

theorem delete_keeps_old_versions:
  assumes inv: "key_inv key s" and vs: "key_values key s = a # rest"
  shows "cs_get key None (fst (cs_rollback now2 key 1
           (plain_set now1 key b (fst (cs_delete now0 key s))))) = a"
    and "stored_version key (plain_set now1 key b (fst (cs_delete now0 key s))) = 1"
proof -
  let ?s = "plain_set now1 key b (fst (cs_delete now0 key s))"
  obtain h hs where h: "key_history key s = h # hs" "cv_value h = a"
    using vs by (auto simp: key_values_def)
  have v: "cv_version h = 1"
    using inv h by (simp add: key_inv_def upt_conv_Cons del: upt_Suc)
  have "\<exists>x. key_history key ?s = h # hs @ [x]"
    using h by (simp add: plain_set_def cs_set_def Let_def delete_configs key_history_def cs_delete_def)
  then have "find_version key 1 ?s = Some h"
    using v by (auto simp: find_version_def find_filter key_history_def [symmetric])
  then obtain ev where "fst (cs_rollback now2 key 1 ?s) =
      cs_emit ev (fst (cs_set now2 key (cv_value h) (rollback_options 1) ?s))"
    by (rule rollback_some)
  then show "cs_get key None (fst (cs_rollback now2 key 1 ?s)) = a"
    using h get_after_set [of "rollback_options 1" key now2 a ?s] by (simp add: get_plain)
  show "stored_version key ?s = 1"
    by (simp add: stored_version_def cs_getEntry_def plain_set_def set_configs set_entry delete_configs dflt_def)
qed

text \<open>
  C28. In every history of the configuration store that never deletes a key, the recorded values of
  the key are those of the abstract list of writes (a write appends its value, a rollback to a version
  that exists appends the value of that version, a write of an environment override to a present key
  appends nothing), the value read is the last, the version is their number, and a rollback to version
  \<open>n\<close> makes the \<open>n\<close>-th value current, or changes nothing when there is no such version.
\<close>

theorem config_refines_history:
  fixes ops :: "'h cs_op list"
  assumes "\<not> list_ex (deletes key) ops"
  defines "vs \<equiv> fold (spec_step key) ops []"
  shows "key_values key (cs_run ops) = vs \<and>
    cs_get key None (cs_run ops) = (if vs = [] then JUndef else last vs) \<and>
    stored_version key (cs_run ops) = length vs \<and>
    (\<forall>n now. if 0 < n \<and> n \<le> length vs
       then cs_get key None (fst (cs_rollback now key n (cs_run ops))) = vs ! (n - 1) \<and>
            stored_version key (fst (cs_rollback now key n (cs_run ops))) = length vs + 1
       else cs_rollback now key n (cs_run ops) = (cs_run ops, None))"
proof -
  note inv = key_run(1) [OF assms(1)] and vs = key_run(2) [OF assms(1), folded vs_def]
  have none: "cs_rollback now key n (cs_run ops) = (cs_run ops, None)" if "\<not> (0 < n \<and> n \<le> length vs)" for n now
    using that key_inv_find [OF inv, of n] by (intro rollback_none) (auto simp: vs)
  have some: "cs_get key None (cs_apply (CRollback now key n) (cs_run ops)) = vs ! (n - 1) \<and>
        stored_version key (cs_apply (CRollback now key n) (cs_run ops)) = length vs + 1"
    if "0 < n \<and> n \<le> length vs" for n now
    using that key_apply [OF inv, of "CRollback now key n"]
    by (simp add: vs key_inv_get stored_version_values del: cs_apply.simps)
  have "cs_get key None (cs_run ops) = (if vs = [] then JUndef else last vs)"
    using key_inv_get [OF inv] key_inv_entry [OF inv] by (auto simp: vs get_plain dflt_def)
  then show ?thesis
    using none some by (simp add: vs stored_version_values [OF inv])
qed

theorem config_refines_history_witness:
  "cs_get ''a'' None (fst (cs_rollback 9 ''a'' 1 (cs_run demo_writes))) = JNum 1"
proof -
  have no: "\<not> list_ex (deletes ''a'') demo_writes" by (simp add: demo_writes_def)
  have vs: "fold (spec_step ''a'') demo_writes [] = [JNum 1, JNum 2]"
    by (simp add: demo_writes_def)
  have "if 0 < (1 :: nat) \<and> 1 \<le> length (fold (spec_step ''a'') demo_writes [])
       then cs_get ''a'' None (fst (cs_rollback 9 ''a'' 1 (cs_run demo_writes))) =
              fold (spec_step ''a'') demo_writes [] ! (1 - 1) \<and>
            stored_version ''a'' (fst (cs_rollback 9 ''a'' 1 (cs_run demo_writes))) =
              length (fold (spec_step ''a'') demo_writes []) + 1
       else cs_rollback 9 ''a'' 1 (cs_run demo_writes) = (cs_run demo_writes, None)"
    using config_refines_history [OF no] by blast
  then show ?thesis by (simp add: vs)
qed

text \<open>
  C29. If the writes to a key have values of one type and give no other type, then after every history,
  deletions, rollbacks and environment overrides included, its entry carries that type, and every value
  read from it, in any environment, has it.
\<close>

theorem config_values_typed:
  assumes "list_all (writes_type t key) ops"
  shows "\<forall>e. cs_getEntry key (cs_run ops) = Some e \<longrightarrow>
           ce_key e = key \<and> ce_type e = t \<and> inferType (cs_get key env (cs_run ops)) = t"
proof -
  have ty: "typed_key t key (cs_run ops)" by (rule typed_run [OF assms])
  show ?thesis
  proof (intro allI impI)
    fix e
    assume e: "cs_getEntry key (cs_run ops) = Some e"
    then have g: "jm_get (cs_configs (cs_run ops)) key = Some e" by (simp add: cs_getEntry_def)
    with ty have t: "ce_key e = key" "ce_type e = t" "inferType (ce_value e) = t"
      "\<And>x v. jm_get (ce_environmentOverrides e) x = Some v \<Longrightarrow> inferType v = t"
      by (auto simp: typed_key_def)
    then show "ce_key e = key \<and> ce_type e = t \<and> inferType (cs_get key env (cs_run ops)) = t"
      using t(4) [of "dflt env []"] by (auto simp: cs_get_def g Let_def dflt_def split: option.splits)
  qed
qed

theorem config_values_typed_witness:
  "ce_type (the (cs_getEntry ''a'' (cs_run demo_writes))) = number_type"
proof -
  have ty: "list_all (writes_type number_type ''a'') demo_writes"
    by (simp add: demo_writes_def no_options_def dflt_def)
  have "\<not> list_ex (deletes ''a'') demo_writes" "fold (spec_step ''a'') demo_writes [] \<noteq> []"
    by (simp_all add: demo_writes_def)
  then have "key_inv ''a'' (cs_run demo_writes)" "key_values ''a'' (cs_run demo_writes) \<noteq> []"
    by (simp_all add: key_run)
  then obtain e where "cs_getEntry ''a'' (cs_run demo_writes) = Some e"
    using key_inv_entry by (auto simp: cs_getEntry_def)
  with config_values_typed [OF ty, of None] show ?thesis by simp
qed

text \<open>
  Evaluating an active flag for a user outside its rollout gives false; inside it, if no condition
  throws, the value of the enabled rule that matches with the least priority, the first in the list
  among equals, or the flag's default when none matches. The evaluation is counted, and in every
  history the counters of true and false results add up to the number of evaluations.
\<close>

theorem flag_decision:
  fixes H :: dc_host and ops :: "'h fm_op list"
  defines "m \<equiv> fold (fm_apply H) ops new_FeatureFlagManager"
  assumes f: "jm_get (fm_flags m) k = Some f" and active: "ff_status f = flag_active"
    and ro: "isInRollout H now (ff_rollout f) ctx = Some inside"
    and total: "\<forall>r \<in> set (ff_rules f). tr_enabled r \<longrightarrow> flag_rule H ctx r \<noteq> None"
  shows "\<exists>b. snd (fm_evaluate H now k ctx m) = Some b \<and>
    ff_stats (the (fm_get k (fst (fm_evaluate H now k ctx m)))) = count_result now b (ff_stats f) \<and>
    fs_totalEvaluations (ff_stats f) = fs_trueCount (ff_stats f) + fs_falseCount (ff_stats f) \<and>
    (if \<not> inside then \<not> b
     else if list_ex (rule_fires H ctx) (ff_rules f)
     then \<exists>us r ws. ff_rules f = us @ r # ws \<and> rule_fires H ctx r \<and> b = tr_value r \<and>
            (\<forall>u \<in> set us. rule_fires H ctx u \<longrightarrow> tr_priority r < tr_priority u) \<and>
            (\<forall>w \<in> set ws. rule_fires H ctx w \<longrightarrow> tr_priority r \<le> tr_priority w)
     else b = ff_defaultValue f)"
proof -
  have counts: "fs_totalEvaluations (ff_stats f) = fs_trueCount (ff_stats f) + fs_falseCount (ff_stats f)"
    using flags_okD [OF flags_ok_run, of H ops k f] f by (simp add: m_def counts_ok_def)
  have ev: "snd (fm_evaluate H now k ctx m) = Some b \<and>
      ff_stats (the (fm_get k (fst (fm_evaluate H now k ctx m)))) = count_result now b (ff_stats f)"
    if "flag_result H now ctx f = Some b" for b
    using f active that by (simp add: fm_evaluate_def fm_get_def)
  show ?thesis
  proof (cases inside)
    case False
    then have "flag_result H now ctx f = Some False" using ro by (simp add: flag_result_def)
    from ev [OF this] counts False show ?thesis by (intro exI [of _ False]) simp
  next
    case True
    then have res: "flag_result H now ctx f =
        first_rule H ctx (ff_defaultValue f) (sort_key tr_priority (filter tr_enabled (ff_rules f)))"
      using ro by (simp add: flag_result_def)
    from total have tot: "\<And>r. r \<in> set (ff_rules f) \<Longrightarrow> tr_enabled r \<Longrightarrow> flag_rule H ctx r \<noteq> None" by blast
    show ?thesis
    proof (rule decided_by_rules [OF tot, where d = "ff_defaultValue f"])
      assume "first_rule H ctx (ff_defaultValue f) (sort_key tr_priority (filter tr_enabled (ff_rules f))) =
          Some (ff_defaultValue f)" and "\<not> list_ex (rule_fires H ctx) (ff_rules f)"
      with ev res counts True show ?thesis by (intro exI [of _ "ff_defaultValue f"]) simp
    next
      fix us r ws
      assume "first_rule H ctx (ff_defaultValue f) (sort_key tr_priority (filter tr_enabled (ff_rules f))) =
          Some (tr_value r)"
        and rule: "ff_rules f = us @ r # ws" "rule_fires H ctx r"
          "\<forall>u \<in> set us. rule_fires H ctx u \<longrightarrow> tr_priority r < tr_priority u"
          "\<forall>w \<in> set ws. rule_fires H ctx w \<longrightarrow> tr_priority r \<le> tr_priority w"
      with ev res have e: "snd (fm_evaluate H now k ctx m) = Some (tr_value r) \<and>
        ff_stats (the (fm_get k (fst (fm_evaluate H now k ctx m)))) = count_result now (tr_value r) (ff_stats f)"
        by simp
      have fires: "list_ex (rule_fires H ctx) (ff_rules f)" using rule(1,2) by simp
      show ?thesis
        by (rule exI [of _ "tr_value r"]) (use e counts True fires rule in auto)
    qed
  qed
qed

theorem flag_decision_witness:
  "snd (fm_evaluate demo_dc_host 5 ''f'' demo_context
     (fold (fm_apply demo_dc_host) [FCreate 1 demo_flag :: nat fm_op] new_FeatureFlagManager)) = Some True"
proof -
  let ?m = "fold (fm_apply demo_dc_host) [FCreate 1 demo_flag :: nat fm_op] new_FeatureFlagManager"
  let ?f = "snd (fm_create 1 demo_flag (new_FeatureFlagManager :: nat FeatureFlagManager))"
  have f: "jm_get (fm_flags ?m) ''f'' = Some ?f"
    by (simp add: fm_create_def Let_def new_FeatureFlagManager_def demo_flag_def)
  have fs: "ff_status ?f = flag_active" "isInRollout demo_dc_host 5 (ff_rollout ?f) demo_context = Some True"
    and rules: "ff_rules ?f = ff_rules demo_flag"
    by (simp_all add: fm_create_def Let_def demo_flag_def isInRollout_def)
  have ok: "\<forall>r \<in> set (ff_rules ?f). tr_enabled r \<longrightarrow> flag_rule demo_dc_host demo_context r \<noteq> None"
    and fire: "list_ex (rule_fires demo_dc_host demo_context) (ff_rules ?f)"
    and only: "\<And>us r ws. ff_rules ?f = us @ r # ws \<Longrightarrow>
      \<forall>u \<in> set us. rule_fires demo_dc_host demo_context u \<longrightarrow> tr_priority r < tr_priority u \<Longrightarrow>
      \<forall>w \<in> set ws. rule_fires demo_dc_host demo_context w \<longrightarrow> tr_priority r \<le> tr_priority w \<Longrightarrow> tr_value r"
    unfolding rules
    by (auto simp: demo_flag_def demo_context_def flag_rule_def flag_condition_def resolveAttribute_def rule_fires_def
        Cons_eq_append_conv)
  from flag_decision [OF f fs ok] fire only show ?thesis by auto
qed

text \<open>
  Completing an experiment whose variants have distinct, non-empty identifiers changes the
  configuration exactly if there were at least 950 impressions and some variant has a conversion: the
  experiment's key then has the value of a variant whose conversion rate is positive and the best. It
  leaves every other key and, otherwise, the whole store as it was.
\<close>

theorem experiment_winner:
  fixes now :: int
  assumes e: "jm_get (dy_experiments d) eid = Some e"
    and ids: "distinct (map ev_id (ex_variants e))" "\<forall>v \<in> set (ex_variants e). ev_id v \<noteq> []"
  defines "d' \<equiv> fst (dy_completeExperiment now eid d)"
  shows "if 950 \<le> total_impressions e \<and> (\<exists>v \<in> set (ex_variants e). 0 < conversion_rate v)
    then (\<exists>w \<in> set (ex_variants e). cs_get (ex_configKey e) None (dy_config d') = ev_value w \<and>
            0 < conversion_rate w \<and> (\<forall>v \<in> set (ex_variants e). conversion_rate v \<le> conversion_rate w)) \<and>
         (\<forall>key. key \<noteq> ex_configKey e \<longrightarrow> cs_getEntry key (dy_config d') = cs_getEntry key (dy_config d))
    else dy_config d' = dy_config d"
proof -
  let ?fin = "e\<lparr>ex_status := exp_completed, ex_endDate := Some now\<rparr>"
  let ?e = "updateExperimentResults ?fin"
  have cfg: "dy_config d' = apply_winner now ?e (dy_config d)"
    by (simp add: d'_def dy_completeExperiment_def e Let_def)
  have conf: "95 / 100 \<le> er_confidence (ex_results ?e) \<longleftrightarrow> 950 \<le> total_impressions e"
    unfolding results_confidence by (simp add: total_impressions_def)
  have win: "er_winner (ex_results ?e) =
      (if 950 \<le> total_impressions e then best_variant 0 None (ex_variants e) else None)"
    using results_winner [of ?fin] by (simp add: total_impressions_def)
  show ?thesis
  proof (cases "950 \<le> total_impressions e \<and> (\<exists>v \<in> set (ex_variants e). 0 < conversion_rate v)")
    case False
    then have "er_winner (ex_results ?e) = None"
      using best_variant_spec [of 0 None "ex_variants e"] unfolding win by force
    then have "dy_config d' = dy_config d"
      unfolding cfg by (simp add: apply_winner_def str_truthy_def)
    with False show ?thesis by simp
  next
    case True
    then obtain w where w: "w \<in> set (ex_variants e)" "best_variant 0 None (ex_variants e) = Some (ev_id w)"
        "0 < conversion_rate w" "\<forall>v \<in> set (ex_variants e). conversion_rate v \<le> conversion_rate w"
      using best_variant_spec [of 0 None "ex_variants e"] by force
    have "find (\<lambda>v. Some (ev_id v) = er_winner (ex_results ?e)) (ex_variants ?e) = Some w"
      using True w find_unique [OF ids(1) w(1)] by (simp add: win)
    moreover have "str_truthy (er_winner (ex_results ?e))"
      using True w ids(2) by (simp add: win str_truthy_def)
    ultimately have s: "dy_config d' = fst (cs_set now (ex_configKey ?e) (ev_value w)
        (no_options\<lparr>so_reason := Some (WinnerOf (ex_name ?e) (ev_name w)),
                    so_modifiedBy := Some ''experiment_system''\<rparr>) (dy_config d))"
      using True conf unfolding cfg apply_winner_def by simp
    have "cs_get (ex_configKey e) None (dy_config d') = ev_value w"
      unfolding s using get_after_set [OF winner_options] by simp
    moreover have "key \<noteq> ex_configKey e \<Longrightarrow> cs_getEntry key (dy_config d') = cs_getEntry key (dy_config d)" for key
      by (simp add: s cs_getEntry_def set_configs)
    ultimately show ?thesis using True w by auto
  qed
qed

theorem experiment_winner_witness:
  "cs_get ''k'' None (dy_config (fst (dy_completeExperiment 9 ''e''
     (put_experiment demo_experiment (new_DynamicConfigSystem :: nat DynamicConfigSystem))))) = JNum 2"
proof -
  let ?d = "put_experiment demo_experiment (new_DynamicConfigSystem :: nat DynamicConfigSystem)"
  have e: "jm_get (dy_experiments ?d) ''e'' = Some demo_experiment"
    by (simp add: put_experiment_def new_DynamicConfigSystem_def demo_experiment_def)
  have ids: "distinct (map ev_id (ex_variants demo_experiment))"
      "\<forall>v \<in> set (ex_variants demo_experiment). ev_id v \<noteq> []"
    and facts: "950 \<le> total_impressions demo_experiment"
      "\<exists>v \<in> set (ex_variants demo_experiment). 0 < conversion_rate v"
      "\<And>w. w \<in> set (ex_variants demo_experiment) \<Longrightarrow>
        \<forall>v \<in> set (ex_variants demo_experiment). conversion_rate v \<le> conversion_rate w \<Longrightarrow> ev_value w = JNum 2"
      "ex_configKey demo_experiment = ''k''"
    by (auto simp: demo_experiment_def conversion_rate_def total_impressions_def)
  from experiment_winner [OF e ids, of 9] facts show ?thesis by auto
qed

end
