(* ===== verification/Webhooks.thy ===== *)
theory Webhooks
  imports DynamicConfig Json
begin

text \<open>
  Event stream and webhooks of \<open>packages/kernel/src/os/webhook-system.ts\<close>.

  A registration is an object that closures and timers keep after it has left the map of webhooks, so
  the objects are a list, and the map, the closures and the timers hold indices into it. Nothing between
  the start of a publication and the end of its deliveries is suspended, so each operation is one step;
  a retry is a timer that fires whenever the environment lets it. A delivery draws whether it succeeds,
  its identifier and its jitter, and reads the clock at its start and at its end. Listeners only take
  note; a subscriber from outside takes note and may throw (\<open>react\<close>). The conversions of JavaScript are
  those of \<open>dc_host\<close>. Identifiers of metadata objects are 0, which no other object has.
\<close>

section \<open>Data\<close>

datatype WebhookStatus = wh_active | wh_paused | wh_disabled | wh_error
datatype DeliveryStatus = dl_pending | dl_delivering | dl_delivered | dl_failed | dl_dead_letter
datatype StreamStatus = st_active | st_paused | st_backpressure | st_closed
datatype filter_operator = f_eq | f_neq | f_contains | f_startsWith | f_endsWith | f_gt | f_lt | f_in

record FilterCondition =
  fc_field :: string
  fc_operator :: filter_operator
  fc_value :: jsval

record EventFilter =
  ef_include :: "FilterCondition list option"
  ef_exclude :: "FilterCondition list option"

record RetryConfig =
  rc_maxAttempts :: int
  rc_initialDelayMs :: rat
  rc_maxDelayMs :: rat
  rc_backoffMultiplier :: rat
  rc_jitter :: bool

record WebhookStats =
  ws_totalDeliveries :: nat
  ws_successfulDeliveries :: nat
  ws_failedDeliveries :: nat
  ws_averageLatencyMs :: rat
  ws_lastDeliveryAt :: int
  ws_lastSuccessAt :: int
  ws_lastFailureAt :: int
  ws_consecutiveFailures :: nat

datatype http_verb = verb_POST | verb_PUT | verb_PATCH

record WebhookConfig =
  wh_name :: string
  wh_url :: string
  wh_verb :: http_verb
  wh_eventTypes :: "string list"
  wh_filter :: "EventFilter option"
  wh_secret :: string
  wh_headers :: "(string \<times> string) list"
  wh_retry :: RetryConfig
  wh_rateLimit :: "int \<times> int"
  wh_ownerId :: string

record WebhookRegistration = WebhookConfig +
  wh_id :: string
  wh_status :: WebhookStatus
  wh_createdAt :: int
  wh_updatedAt :: int
  wh_stats :: WebhookStats

record EventStreamMetadata =
  md_correlationId :: string
  md_causationId :: "string option"
  md_sequenceNumber :: nat
  md_partitionKey :: "string option"
  md_schemaVersion :: string
  md_contentType :: string

record StreamEvent =
  ev_id :: string
  ev_type :: string
  ev_source :: string
  ev_data :: jsval
  ev_metadata :: EventStreamMetadata
  ev_timestamp :: int

record DeliveryAttempt =
  da_id :: string
  da_webhookId :: string
  da_eventId :: string
  da_status :: DeliveryStatus
  da_httpStatus :: "int option"
  da_attemptNumber :: nat
  da_latencyMs :: int
  da_error :: "string option"
  da_timestamp :: int
  da_nextRetryAt :: "int option"

text \<open>The events, each with the payload the code gives it.\<close>

datatype webhook_event =
    WebhookCreated string string string
  | WebhookUpdated string "string list"
  | WebhookDeleted string string
  | DeliverySuccess string string nat int
  | DeliveryDead string string string
  | CircuitOpened string nat
  | CircuitClosed string
  | EventPublished string string nat
  | BackpressureOn nat
  | BackpressureOff nat

primrec webhook_event_str :: "webhook_event \<Rightarrow> string" where
  "webhook_event_str (WebhookCreated i n u) = ''webhook:created''"
| "webhook_event_str (WebhookUpdated i us) = ''webhook:updated''"
| "webhook_event_str (WebhookDeleted i n) = ''webhook:deleted''"
| "webhook_event_str (DeliverySuccess i ev n l) = ''webhook:delivery.success''"
| "webhook_event_str (DeliveryDead i ev err) = ''webhook:delivery.dead_letter''"
| "webhook_event_str (CircuitOpened i n) = ''webhook:circuit.open''"
| "webhook_event_str (CircuitClosed i) = ''webhook:circuit.closed''"
| "webhook_event_str (EventPublished i ty n) = ''stream:event.published''"
| "webhook_event_str (BackpressureOn n) = ''stream:backpressure.on''"
| "webhook_event_str (BackpressureOff n) = ''stream:backpressure.off''"

record WebhookEvent =
  we_event :: webhook_event
  we_timestamp :: int

definition hook_notify :: "'h EventBus \<Rightarrow> WebhookEvent \<Rightarrow> ('h \<times> WebhookEvent) list" where
  "hook_notify b ev =
     map (\<lambda>h. (h, ev)) (subscribers b (webhook_event_str (we_event ev))) @
     map (\<lambda>h. (h, ev)) (subscribers b ''*'')"

section \<open>Event stream\<close>

text \<open>The sets of subscribers are only iterated over in copies: a set is the list of its elements in the
  order of insertion. \<open>es_emitted\<close> is a ghost that lists the calls of listeners.\<close>

record ('s, 'h) EventStream =
  es_subscribers :: "(string, 's list) jsmap"
  es_buffer :: "StreamEvent list"
  es_sequenceCounter :: nat
  es_status :: StreamStatus
  es_maxBufferSize :: int
  es_backpressureThreshold :: int
  es_listeners :: "'h EventBus"
  es_emitted :: "('h \<times> WebhookEvent) list"

definition new_EventStream :: "int option \<Rightarrow> int option \<Rightarrow> ('s, 'h) EventStream" where
  "new_EventStream maxBufferSize backpressureThreshold =
     \<lparr>es_subscribers = [], es_buffer = [], es_sequenceCounter = 0, es_status = st_active,
      es_maxBufferSize = num_or maxBufferSize 10000,
      es_backpressureThreshold = num_or backpressureThreshold 8000,
      es_listeners = new_EventBus, es_emitted = []\<rparr>"

definition es_on :: "string \<Rightarrow> 'h \<Rightarrow> ('s, 'h) EventStream \<Rightarrow> ('s, 'h) EventStream" where
  "es_on ty h s = s\<lparr>es_listeners := eb_on ty h (es_listeners s)\<rparr>"

definition es_off :: "string \<Rightarrow> 'h \<Rightarrow> ('s, 'h) EventStream \<Rightarrow> ('s, 'h) EventStream" where
  "es_off ty h s = s\<lparr>es_listeners := eb_off ty h (es_listeners s)\<rparr>"

definition emitInternal :: "int \<Rightarrow> webhook_event \<Rightarrow> ('s, 'h) EventStream \<Rightarrow> ('s, 'h) EventStream" where
  "emitInternal now ev s =
     s\<lparr>es_emitted := es_emitted s @ hook_notify (es_listeners s) \<lparr>we_event = ev, we_timestamp = now\<rparr>\<rparr>"

definition set_add :: "'a \<Rightarrow> 'a list \<Rightarrow> 'a list" where
  "set_add x xs = (if x \<in> set xs then xs else xs @ [x])"

definition es_subscribe :: "string \<Rightarrow> 's \<Rightarrow> ('s, 'h) EventStream \<Rightarrow> ('s, 'h) EventStream" where
  "es_subscribe eventType handler s =
     s\<lparr>es_subscribers :=
         jm_set eventType (set_add handler (dflt (jm_get (es_subscribers s) eventType) [])) (es_subscribers s)\<rparr>"

text \<open>The function that \<open>subscribe\<close> returns.\<close>

definition es_unsubscribe :: "string \<Rightarrow> 's \<Rightarrow> ('s, 'h) EventStream \<Rightarrow> ('s, 'h) EventStream" where
  "es_unsubscribe eventType handler s =
     (case jm_get (es_subscribers s) eventType of
        None \<Rightarrow> s
      | Some hs \<Rightarrow> s\<lparr>es_subscribers := jm_set eventType (removeAll handler hs) (es_subscribers s)\<rparr>)"

record partial_metadata =
  pm_correlationId :: "string option"
  pm_causationId :: "string option"
  pm_partitionKey :: "string option"
  pm_schemaVersion :: "string option"
  pm_contentType :: "string option"

definition new_event ::
  "int \<Rightarrow> string \<Rightarrow> string \<Rightarrow> string \<Rightarrow> jsval \<Rightarrow> partial_metadata \<Rightarrow> nat \<Rightarrow> StreamEvent" where
  "new_event now random ty source data p n =
     \<lparr>ev_id = ''evt_'' @ int_str now @ ''_'' @ random, ev_type = ty, ev_source = source, ev_data = data,
      ev_metadata =
        \<lparr>md_correlationId = str_or (pm_correlationId p) (''cor_'' @ int_str now),
         md_causationId = pm_causationId p, md_sequenceNumber = n, md_partitionKey = pm_partitionKey p,
         md_schemaVersion = str_or (pm_schemaVersion p) ''1.0'',
         md_contentType = str_or (pm_contentType p) ''application/json''\<rparr>,
      ev_timestamp = now\<rparr>"

definition buffer_push :: "int \<Rightarrow> StreamEvent \<Rightarrow> StreamEvent list \<Rightarrow> StreamEvent list" where
  "buffer_push bound e b = (let b1 = b @ [e] in if int (length b1) > bound then tl b1 else b1)"

text \<open>\<open>publish\<close> before the subscribers are notified.\<close>

definition es_append :: "int \<Rightarrow> StreamEvent \<Rightarrow> ('s, 'h) EventStream \<Rightarrow> ('s, 'h) EventStream" where
  "es_append now e s =
     (let s1 = s\<lparr>es_sequenceCounter := Suc (es_sequenceCounter s),
                 es_buffer := buffer_push (es_maxBufferSize s) e (es_buffer s)\<rparr>
      in if int (length (es_buffer s1)) \<ge> es_backpressureThreshold s1 \<and> es_status s1 \<noteq> st_backpressure
         then emitInternal now (BackpressureOn (length (es_buffer s1))) (s1\<lparr>es_status := st_backpressure\<rparr>)
         else s1)"

definition all_subscribers :: "string \<Rightarrow> ('s, 'h) EventStream \<Rightarrow> 's list" where
  "all_subscribers ty s =
     (let typeSubscribers = dflt (jm_get (es_subscribers s) ty) [];
          wildcardSubscribers = dflt (jm_get (es_subscribers s) ''*'') []
      in fold set_add (typeSubscribers @ wildcardSubscribers) [])"

text \<open>The loop over the subscribers. An exception of a subscriber ends it; a rejected promise is caught.
  What a call does to the world \<open>'w\<close> is \<open>run k\<close> for the \<open>k\<close>-th call.\<close>

fun call_subscribers ::
  "(nat \<Rightarrow> 's \<Rightarrow> StreamEvent \<Rightarrow> 'w \<Rightarrow> 'w \<times> string option) \<Rightarrow> StreamEvent \<Rightarrow> nat \<Rightarrow> 's list \<Rightarrow> 'w \<Rightarrow> 'w \<times> string option" where
  "call_subscribers run e k [] w = (w, None)"
| "call_subscribers run e k (h # hs) w =
     (case run k h e w of
        (w1, Some err) \<Rightarrow> (w1, Some err)
      | (w1, None) \<Rightarrow> call_subscribers run e (Suc k) hs w1)"

definition es_publish ::
  "(nat \<Rightarrow> 's \<Rightarrow> StreamEvent \<Rightarrow> 'w \<Rightarrow> 'w \<times> string option) \<Rightarrow> int \<Rightarrow> string \<Rightarrow> string \<Rightarrow> string \<Rightarrow> jsval \<Rightarrow>
     partial_metadata \<Rightarrow> ('s, 'h) EventStream \<Rightarrow> 'w \<Rightarrow> ('s, 'h) EventStream \<times> 'w \<times> (string + StreamEvent)" where
  "es_publish run now random ty source data p s w =
     (if es_status s = st_closed then (s, w, Inl ''Event stream is closed'')
      else
        (let e = new_event now random ty source data p (Suc (es_sequenceCounter s));
             s1 = es_append now e s;
             hs = all_subscribers ty s1
         in case call_subscribers run e 0 hs w of
              (w1, Some err) \<Rightarrow> (s1, w1, Inl err)
            | (w1, None) \<Rightarrow> (emitInternal now (EventPublished (ev_id e) ty (length hs)) s1, w1, Inr e)))"

record replay_options =
  ro_fromSequence :: "int option"
  ro_fromTimestamp :: "int option"
  ro_eventType :: "string option"
  ro_limit :: "int option"

definition es_replay :: "replay_options \<Rightarrow> ('s, 'h) EventStream \<Rightarrow> StreamEvent list" where
  "es_replay opts s =
     (let events = es_buffer s;
          e1 = (case ro_fromSequence opts of
                  Some n \<Rightarrow> if n \<noteq> 0 then filter (\<lambda>e. int (md_sequenceNumber (ev_metadata e)) \<ge> n) events else events
                | None \<Rightarrow> events);
          e2 = (case ro_fromTimestamp opts of
                  Some t \<Rightarrow> if t \<noteq> 0 then filter (\<lambda>e. ev_timestamp e \<ge> t) e1 else e1
                | None \<Rightarrow> e1);
          e3 = (case ro_eventType opts of
                  Some ty \<Rightarrow> if ty \<noteq> [] then filter (\<lambda>e. ev_type e = ty) e2 else e2
                | None \<Rightarrow> e2)
      in case ro_limit opts of
           Some n \<Rightarrow> if n \<noteq> 0 then js_slice 0 n e3 else e3
         | None \<Rightarrow> e3)"

record stream_report =
  sr_status :: StreamStatus
  sr_bufferSize :: nat
  sr_subscriberCount :: nat
  sr_sequenceNumber :: nat

definition es_getStatus :: "('s, 'h) EventStream \<Rightarrow> stream_report" where
  "es_getStatus s =
     \<lparr>sr_status = es_status s, sr_bufferSize = length (es_buffer s),
      sr_subscriberCount = sum_list (map length (jm_values (es_subscribers s))),
      sr_sequenceNumber = es_sequenceCounter s\<rparr>"

definition es_pause :: "('s, 'h) EventStream \<Rightarrow> ('s, 'h) EventStream" where
  "es_pause s = s\<lparr>es_status := st_paused\<rparr>"

definition es_resume :: "int \<Rightarrow> ('s, 'h) EventStream \<Rightarrow> ('s, 'h) EventStream" where
  "es_resume now s =
     (let s1 = s\<lparr>es_status := st_active\<rparr>
      in if int (length (es_buffer s1)) < es_backpressureThreshold s1
         then emitInternal now (BackpressureOff (length (es_buffer s1))) s1 else s1)"

definition es_close :: "('s, 'h) EventStream \<Rightarrow> ('s, 'h) EventStream" where
  "es_close s = s\<lparr>es_status := st_closed, es_subscribers := []\<rparr>"

section \<open>Filters\<close>

definition metadata_val :: "EventStreamMetadata \<Rightarrow> jsval" where
  "metadata_val m =
     JObj 0 [(''correlationId'', JStr (md_correlationId m)),
             (''causationId'', case md_causationId m of None \<Rightarrow> JUndef | Some c \<Rightarrow> JStr c),
             (''sequenceNumber'', JNum (of_nat (md_sequenceNumber m))),
             (''partitionKey'', case md_partitionKey m of None \<Rightarrow> JUndef | Some k \<Rightarrow> JStr k),
             (''schemaVersion'', JStr (md_schemaVersion m)),
             (''contentType'', JStr (md_contentType m))]"

definition event_props :: "StreamEvent \<Rightarrow> (string \<times> jsval) list" where
  "event_props e =
     [(''id'', JStr (ev_id e)), (''type'', JStr (ev_type e)), (''source'', JStr (ev_source e)),
      (''data'', ev_data e), (''metadata'', metadata_val (ev_metadata e)),
      (''timestamp'', JNum (of_int (ev_timestamp e)))]"

text \<open>\<open>current?.[key]\<close>; a string has its indices and \<open>length\<close>.\<close>

fun optional_prop :: "jsval \<Rightarrow> string \<Rightarrow> jsval" where
  "optional_prop (JStr s) k =
     (if k = ''length'' then JNum (of_nat (length s))
      else case find (\<lambda>i. nat_str i = k) [0..<length s] of Some i \<Rightarrow> JStr [s ! i] | None \<Rightarrow> JUndef)"
| "optional_prop v k = js_prop v k"

definition getNestedValue :: "jsval \<Rightarrow> string \<Rightarrow> jsval" where
  "getNestedValue obj path = foldl optional_prop obj (js_split (CHR ''.'') path)"

definition wh_evaluateCondition :: "dc_host \<Rightarrow> StreamEvent \<Rightarrow> FilterCondition \<Rightarrow> bool" where
  "wh_evaluateCondition H e c =
     (let v = getNestedValue (JObj 0 (event_props e)) (fc_field c)
      in case fc_operator c of
           f_eq \<Rightarrow> strict_eq v (fc_value c)
         | f_neq \<Rightarrow> \<not> strict_eq v (fc_value c)
         | f_contains \<Rightarrow> string_and H js_includes v (fc_value c)
         | f_startsWith \<Rightarrow> string_and H js_startsWith v (fc_value c)
         | f_endsWith \<Rightarrow> string_and H js_endsWith v (fc_value c)
         | f_gt \<Rightarrow> number_and H (>) v (fc_value c)
         | f_lt \<Rightarrow> number_and H (<) v (fc_value c)
         | f_in \<Rightarrow> array_and (\<lambda>xs. val_includes xs v) (fc_value c))"

definition matchesFilter :: "dc_host \<Rightarrow> StreamEvent \<Rightarrow> EventFilter option \<Rightarrow> bool" where
  "matchesFilter H e f =
     (case f of
        None \<Rightarrow> True
      | Some f \<Rightarrow>
          \<not> (dflt (ef_include f) [] \<noteq> [] \<and> \<not> list_ex (wh_evaluateCondition H e) (dflt (ef_include f) [])) \<and>
          \<not> (dflt (ef_exclude f) [] \<noteq> [] \<and> list_ex (wh_evaluateCondition H e) (dflt (ef_exclude f) [])))"

text \<open>The text of the request and its signature; the delivery computes it and makes no use of it.\<close>

definition event_json :: "(rat \<Rightarrow> string) \<Rightarrow> StreamEvent \<Rightarrow> string" where
  "event_json num e = json_obj (json_props num (event_props e))"

definition wh_generateSignature :: "string \<Rightarrow> string \<Rightarrow> string" where
  "wh_generateSignature payload secret = ''sha256='' @ radix_str 16 (nat (hashString (payload @ secret)))"

section \<open>Webhooks\<close>

datatype 'h subscriber = Hook nat nat | Outside 'h

record CircuitState =
  ci_open :: bool
  ci_openedAt :: int
  ci_halfOpenAt :: int

text \<open>A retry that is due: the object of the webhook, the event and the number of the attempt.\<close>

record retry_timer =
  tm_hook :: nat
  tm_event :: StreamEvent
  tm_attempt :: nat

text \<open>\<open>wm_objects\<close> are all registrations ever made. \<open>wm_called\<close> is a ghost that lists the calls of outside
  subscribers, \<open>wm_emitted\<close> those of listeners.\<close>

record 'h WebhookManager =
  wm_objects :: "WebhookRegistration list"
  wm_webhooks :: "(string, nat) jsmap"
  wm_deliveryLog :: "DeliveryAttempt list"
  wm_deadLetterQueue :: "DeliveryAttempt list"
  wm_circuitState :: "(string, CircuitState) jsmap"
  wm_eventStream :: "('h subscriber, 'h) EventStream"
  wm_timers :: "retry_timer list"
  wm_listeners :: "'h EventBus"
  wm_emitted :: "('h \<times> WebhookEvent) list"
  wm_called :: "('h \<times> StreamEvent) list"

definition new_WebhookManager :: "('h subscriber, 'h) EventStream \<Rightarrow> 'h WebhookManager" where
  "new_WebhookManager s =
     \<lparr>wm_objects = [], wm_webhooks = [], wm_deliveryLog = [], wm_deadLetterQueue = [], wm_circuitState = [],
      wm_eventStream = s, wm_timers = [], wm_listeners = new_EventBus, wm_emitted = [], wm_called = []\<rparr>"

definition wm_on :: "string \<Rightarrow> 'h \<Rightarrow> 'h WebhookManager \<Rightarrow> 'h WebhookManager" where
  "wm_on ty h m = m\<lparr>wm_listeners := eb_on ty h (wm_listeners m)\<rparr>"

definition wm_off :: "string \<Rightarrow> 'h \<Rightarrow> 'h WebhookManager \<Rightarrow> 'h WebhookManager" where
  "wm_off ty h m = m\<lparr>wm_listeners := eb_off ty h (wm_listeners m)\<rparr>"

definition wm_emit :: "int \<Rightarrow> webhook_event \<Rightarrow> 'h WebhookManager \<Rightarrow> 'h WebhookManager" where
  "wm_emit now ev m =
     m\<lparr>wm_emitted := wm_emitted m @ hook_notify (wm_listeners m) \<lparr>we_event = ev, we_timestamp = now\<rparr>\<rparr>"

definition wm_object :: "'h WebhookManager \<Rightarrow> string \<Rightarrow> WebhookRegistration option" where
  "wm_object m i = map_option (\<lambda>r. wm_objects m ! r) (jm_get (wm_webhooks m) i)"

definition map_object :: "nat \<Rightarrow> (WebhookRegistration \<Rightarrow> WebhookRegistration) \<Rightarrow> 'h WebhookManager \<Rightarrow> 'h WebhookManager" where
  "map_object r f m = m\<lparr>wm_objects := (wm_objects m)[r := f (wm_objects m ! r)]\<rparr>"

definition zero_stats :: WebhookStats where
  "zero_stats =
     \<lparr>ws_totalDeliveries = 0, ws_successfulDeliveries = 0, ws_failedDeliveries = 0, ws_averageLatencyMs = 0,
      ws_lastDeliveryAt = 0, ws_lastSuccessAt = 0, ws_lastFailureAt = 0, ws_consecutiveFailures = 0\<rparr>"

subsection \<open>The register\<close>

text \<open>\<open>create\<close> subscribes one new closure for every event type, \<open>Hook r k\<close> for the \<open>k\<close>-th type of object \<open>r\<close>.\<close>

definition subscribe_hook :: "nat \<Rightarrow> string list \<Rightarrow> ('h subscriber, 'h) EventStream \<Rightarrow> ('h subscriber, 'h) EventStream" where
  "subscribe_hook r tys s = fold (\<lambda>(k, ty). es_subscribe ty (Hook r k)) (enumerate 0 tys) s"

definition wm_create ::
  "int \<Rightarrow> string \<Rightarrow> WebhookConfig \<Rightarrow> 'h WebhookManager \<Rightarrow> 'h WebhookManager \<times> WebhookRegistration" where
  "wm_create now random c m =
     (let w = WebhookConfig.extend c
                (WebhookRegistration.fields (''wh_'' @ int_str now @ ''_'' @ random) wh_active now now zero_stats);
          r = length (wm_objects m)
      in (wm_emit now (WebhookCreated (wh_id w) (wh_name w) (wh_url w))
            (m\<lparr>wm_objects := wm_objects m @ [w], wm_webhooks := jm_set (wh_id w) r (wm_webhooks m),
               wm_eventStream := subscribe_hook r (wh_eventTypes w) (wm_eventStream m)\<rparr>), w))"

record webhook_updates =
  wu_name :: "string option"
  wu_url :: "string option"
  wu_eventTypes :: "string list option"
  wu_filter :: "EventFilter option"
  wu_headers :: "(string \<times> string) list option"
  wu_retry :: "RetryConfig option"
  wu_rateLimit :: "(int \<times> int) option"

definition wu_keys :: "webhook_updates \<Rightarrow> string list" where
  "wu_keys u =
     (if wu_name u = None then [] else [''name'']) @ (if wu_url u = None then [] else [''url'']) @
     (if wu_eventTypes u = None then [] else [''eventTypes'']) @ (if wu_filter u = None then [] else [''filter'']) @
     (if wu_headers u = None then [] else [''headers'']) @ (if wu_retry u = None then [] else [''retry'']) @
     (if wu_rateLimit u = None then [] else [''rateLimit''])"

definition assign_updates :: "int \<Rightarrow> webhook_updates \<Rightarrow> WebhookRegistration \<Rightarrow> WebhookRegistration" where
  "assign_updates now u w =
     w\<lparr>wh_name := dflt (wu_name u) (wh_name w), wh_url := dflt (wu_url u) (wh_url w),
       wh_eventTypes := dflt (wu_eventTypes u) (wh_eventTypes w),
       wh_filter := (case wu_filter u of None \<Rightarrow> wh_filter w | Some f \<Rightarrow> Some f),
       wh_headers := dflt (wu_headers u) (wh_headers w), wh_retry := dflt (wu_retry u) (wh_retry w),
       wh_rateLimit := dflt (wu_rateLimit u) (wh_rateLimit w), wh_updatedAt := now\<rparr>"

definition wm_update ::
  "int \<Rightarrow> string \<Rightarrow> webhook_updates \<Rightarrow> 'h WebhookManager \<Rightarrow> 'h WebhookManager \<times> WebhookRegistration option" where
  "wm_update now webhookId u m =
     (case jm_get (wm_webhooks m) webhookId of
        None \<Rightarrow> (m, None)
      | Some r \<Rightarrow>
          (let m1 = map_object r (assign_updates now u) m
           in (wm_emit now (WebhookUpdated webhookId (wu_keys u))
                 (m1\<lparr>wm_webhooks := jm_set webhookId r (wm_webhooks m1)\<rparr>), Some (wm_objects m1 ! r))))"

definition wm_delete :: "int \<Rightarrow> string \<Rightarrow> 'h WebhookManager \<Rightarrow> 'h WebhookManager \<times> bool" where
  "wm_delete now webhookId m =
     (case jm_get (wm_webhooks m) webhookId of
        None \<Rightarrow> (m, False)
      | Some r \<Rightarrow>
          (wm_emit now (WebhookDeleted webhookId (wh_name (wm_objects m ! r)))
             (m\<lparr>wm_webhooks := jm_delete webhookId (wm_webhooks m),
                wm_circuitState := jm_delete webhookId (wm_circuitState m)\<rparr>), True))"

definition wm_list :: "string option \<Rightarrow> 'h WebhookManager \<Rightarrow> WebhookRegistration list" where
  "wm_list ownerId m =
     (let ws = map (\<lambda>r. wm_objects m ! r) (jm_values (wm_webhooks m))
      in case ownerId of
           Some own \<Rightarrow> if own \<noteq> [] then filter (\<lambda>w. wh_ownerId w = own) ws else ws
         | None \<Rightarrow> ws)"

definition wm_pause :: "int \<Rightarrow> string \<Rightarrow> 'h WebhookManager \<Rightarrow> 'h WebhookManager \<times> bool" where
  "wm_pause now webhookId m =
     (case jm_get (wm_webhooks m) webhookId of
        None \<Rightarrow> (m, False)
      | Some r \<Rightarrow> (map_object r (\<lambda>w. w\<lparr>wh_status := wh_paused, wh_updatedAt := now\<rparr>) m, True))"

definition wm_resume :: "int \<Rightarrow> string \<Rightarrow> 'h WebhookManager \<Rightarrow> 'h WebhookManager \<times> bool" where
  "wm_resume now webhookId m =
     (case jm_get (wm_webhooks m) webhookId of
        None \<Rightarrow> (m, False)
      | Some r \<Rightarrow>
          (let m1 = map_object r
                      (\<lambda>w. w\<lparr>wh_status := wh_active, wh_updatedAt := now,
                             wh_stats := (wh_stats w)\<lparr>ws_consecutiveFailures := 0\<rparr>\<rparr>) m
           in (m1\<lparr>wm_circuitState := jm_delete webhookId (wm_circuitState m1)\<rparr>, True)))"

subsection \<open>Delivery\<close>

record delivery_draw =
  dd_start :: int
  dd_now :: int
  dd_random :: rat
  dd_text :: string
  dd_jitter :: rat

definition new_attempt ::
  "delivery_draw \<Rightarrow> string \<Rightarrow> string \<Rightarrow> DeliveryStatus \<Rightarrow> int \<Rightarrow> nat \<Rightarrow> string option \<Rightarrow> int option \<Rightarrow> DeliveryAttempt" where
  "new_attempt d webhookId eventId st httpStatus n err next =
     \<lparr>da_id = ''del_'' @ int_str (dd_now d) @ ''_'' @ dd_text d, da_webhookId = webhookId, da_eventId = eventId,
      da_status = st, da_httpStatus = (if httpStatus = 0 then None else Some httpStatus),
      da_attemptNumber = n, da_latencyMs = 0, da_error = err, da_timestamp = dd_now d, da_nextRetryAt = next\<rparr>"

definition log_attempt :: "DeliveryAttempt \<Rightarrow> 'h WebhookManager \<Rightarrow> 'h WebhookManager" where
  "log_attempt a m =
     (let l = wm_deliveryLog m @ [a]
      in m\<lparr>wm_deliveryLog := (if length l > 10000 then slice_last 5000 l else l)\<rparr>)"

definition count_success :: "int \<Rightarrow> int \<Rightarrow> WebhookStats \<Rightarrow> WebhookStats" where
  "count_success now latencyMs s =
     (let n = Suc (ws_successfulDeliveries s)
      in s\<lparr>ws_totalDeliveries := Suc (ws_totalDeliveries s), ws_lastDeliveryAt := now,
           ws_successfulDeliveries := n, ws_lastSuccessAt := now, ws_consecutiveFailures := 0,
           ws_averageLatencyMs := (ws_averageLatencyMs s * of_nat (n - 1) + of_int latencyMs) / of_nat n\<rparr>)"

definition count_failure :: "int \<Rightarrow> WebhookStats \<Rightarrow> WebhookStats" where
  "count_failure now s =
     s\<lparr>ws_totalDeliveries := Suc (ws_totalDeliveries s), ws_lastDeliveryAt := now,
       ws_failedDeliveries := Suc (ws_failedDeliveries s), ws_lastFailureAt := now,
       ws_consecutiveFailures := Suc (ws_consecutiveFailures s)\<rparr>"

definition updateStats :: "delivery_draw \<Rightarrow> nat \<Rightarrow> bool \<Rightarrow> int \<Rightarrow> 'h WebhookManager \<Rightarrow> 'h WebhookManager" where
  "updateStats d r ok latencyMs m =
     map_object r (\<lambda>w. w\<lparr>wh_stats := (if ok then count_success (dd_now d) latencyMs (wh_stats w)
                                     else count_failure (dd_now d) (wh_stats w))\<rparr>) m"

definition calculateRetryDelay :: "rat \<Rightarrow> RetryConfig \<Rightarrow> nat \<Rightarrow> int" where
  "calculateRetryDelay random c attemptNumber =
     (let delay = rc_initialDelayMs c * rc_backoffMultiplier c ^ (attemptNumber - 1);
          delay1 = min delay (rc_maxDelayMs c);
          delay2 = (if rc_jitter c then delay1 * (1 / 2 + random * (1 / 2)) else delay1)
      in \<lfloor>delay2 + 1 / 2\<rfloor>)"

definition checkCircuitBreaker :: "int \<Rightarrow> nat \<Rightarrow> 'h WebhookManager \<Rightarrow> 'h WebhookManager" where
  "checkCircuitBreaker now r m =
     (let w = wm_objects m ! r
      in if ws_consecutiveFailures (wh_stats w) \<ge> 5
         then wm_emit now (CircuitOpened (wh_id w) (ws_consecutiveFailures (wh_stats w)))
                (map_object r (\<lambda>w. w\<lparr>wh_status := wh_error\<rparr>)
                  (m\<lparr>wm_circuitState := jm_set (wh_id w)
                      \<lparr>ci_open = True, ci_openedAt = now, ci_halfOpenAt = now + 60000\<rparr> (wm_circuitState m)\<rparr>))
         else m)"

definition circuit_open :: "string \<Rightarrow> 'h WebhookManager \<Rightarrow> bool" where
  "circuit_open webhookId m =
     (case jm_get (wm_circuitState m) webhookId of None \<Rightarrow> False | Some c \<Rightarrow> ci_open c)"

definition resetCircuitBreaker :: "int \<Rightarrow> string \<Rightarrow> 'h WebhookManager \<Rightarrow> 'h WebhookManager" where
  "resetCircuitBreaker now webhookId m =
     (if circuit_open webhookId m
      then (let m1 = m\<lparr>wm_circuitState := jm_delete webhookId (wm_circuitState m)\<rparr>;
                m2 = (case jm_get (wm_webhooks m1) webhookId of
                        Some r \<Rightarrow> map_object r (\<lambda>w. w\<lparr>wh_status := wh_active\<rparr>) m1
                      | None \<Rightarrow> m1)
            in wm_emit now (CircuitClosed webhookId) m2)
      else m)"

definition delivery_error :: string where
  "delivery_error = ''Error: Simulated delivery failure''"

definition attemptDelivery ::
  "delivery_draw \<Rightarrow> nat \<Rightarrow> StreamEvent \<Rightarrow> nat \<Rightarrow> 'h WebhookManager \<Rightarrow> 'h WebhookManager \<times> DeliveryAttempt" where
  "attemptDelivery d r e n m =
     (let w = wm_objects m ! r;
          latencyMs = dd_now d - dd_start d
      in if dd_random d > 1 / 10 then
           (let a = new_attempt d (wh_id w) (ev_id e) dl_delivered 200 n None None;
                m1 = log_attempt a m;
                m2 = updateStats d r True latencyMs m1;
                m3 = resetCircuitBreaker (dd_now d) (wh_id w) m2
            in (wm_emit (dd_now d) (DeliverySuccess (wh_id w) (ev_id e) n latencyMs) m3, a))
         else
           (let m1 = updateStats d r False latencyMs m
            in if int n < rc_maxAttempts (wh_retry w) then
                 (let delay = calculateRetryDelay (dd_jitter d) (wh_retry w) n;
                      a = new_attempt d (wh_id w) (ev_id e) dl_failed 0 n (Some delivery_error) (Some (dd_now d + delay));
                      m2 = log_attempt a m1
                  in (m2\<lparr>wm_timers := wm_timers m2 @ [\<lparr>tm_hook = r, tm_event = e, tm_attempt = Suc n\<rparr>]\<rparr>, a))
               else
                 (let a = new_attempt d (wh_id w) (ev_id e) dl_dead_letter 0 n (Some delivery_error) None;
                      m2 = log_attempt a m1;
                      m3 = checkCircuitBreaker (dd_now d) r (m2\<lparr>wm_deadLetterQueue := wm_deadLetterQueue m2 @ [a]\<rparr>)
                  in (wm_emit (dd_now d) (DeliveryDead (wh_id w) (ev_id e) delivery_error) m3, a))))"

definition wm_deliver ::
  "delivery_draw \<Rightarrow> string \<Rightarrow> StreamEvent \<Rightarrow> 'h WebhookManager \<Rightarrow> 'h WebhookManager \<times> (string + DeliveryAttempt)" where
  "wm_deliver d webhookId e m =
     (case jm_get (wm_webhooks m) webhookId of
        None \<Rightarrow> (m, Inl (''Webhook '' @ webhookId @ '' not found''))
      | Some r \<Rightarrow>
          (case jm_get (wm_circuitState m) webhookId of
             Some c \<Rightarrow>
               if ci_open c \<and> dd_start d < ci_halfOpenAt c
               then (let a = new_attempt d webhookId (ev_id e) dl_failed 0 1 (Some ''Circuit breaker open'') None
                     in (log_attempt a m, Inr a))
               else (case attemptDelivery d r e 1 m of (m1, a) \<Rightarrow> (m1, Inr a))
           | None \<Rightarrow> (case attemptDelivery d r e 1 m of (m1, a) \<Rightarrow> (m1, Inr a))))"

text \<open>The timer of a retry, the \<open>i\<close>-th of those that wait.\<close>

definition wm_retry_timer :: "delivery_draw \<Rightarrow> nat \<Rightarrow> 'h WebhookManager \<Rightarrow> 'h WebhookManager" where
  "wm_retry_timer d i m =
     (if i < length (wm_timers m) then
        (let t = wm_timers m ! i;
             m1 = m\<lparr>wm_timers := take i (wm_timers m) @ drop (Suc i) (wm_timers m)\<rparr>
         in fst (attemptDelivery d (tm_hook t) (tm_event t) (tm_attempt t) m1))
      else m)"

text \<open>The closure of a webhook and the subscribers from outside. That a delivery fails because the webhook
  is gone rejects the promise of the closure, which the stream catches.\<close>

fun run_subscriber ::
  "dc_host \<Rightarrow> ('h \<Rightarrow> StreamEvent \<Rightarrow> string option) \<Rightarrow> (nat \<Rightarrow> delivery_draw) \<Rightarrow> nat \<Rightarrow> 'h subscriber \<Rightarrow> StreamEvent \<Rightarrow>
     'h WebhookManager \<Rightarrow> 'h WebhookManager \<times> string option" where
  "run_subscriber H react draws i (Hook r k) e m =
     (let w = wm_objects m ! r
      in if wh_status w \<noteq> wh_active then (m, None)
         else if \<not> matchesFilter H e (wh_filter w) then (m, None)
         else (fst (wm_deliver (draws i) (wh_id w) e m), None))"
| "run_subscriber H react draws i (Outside h) e m = (m\<lparr>wm_called := wm_called m @ [(h, e)]\<rparr>, react h e)"

definition wm_publish ::
  "dc_host \<Rightarrow> ('h \<Rightarrow> StreamEvent \<Rightarrow> string option) \<Rightarrow> (nat \<Rightarrow> delivery_draw) \<Rightarrow> int \<Rightarrow> string \<Rightarrow> string \<Rightarrow> string \<Rightarrow>
     jsval \<Rightarrow> partial_metadata \<Rightarrow> 'h WebhookManager \<Rightarrow> 'h WebhookManager \<times> (string + StreamEvent)" where
  "wm_publish H react draws now random ty source data p m =
     (case es_publish (run_subscriber H react draws) now random ty source data p (wm_eventStream m) m of
        (s, m1, res) \<Rightarrow> (m1\<lparr>wm_eventStream := s\<rparr>, res))"

subsection \<open>Audit and replay\<close>

definition getDeliveryLog :: "string \<Rightarrow> int \<Rightarrow> 'h WebhookManager \<Rightarrow> DeliveryAttempt list" where
  "getDeliveryLog webhookId limit m =
     js_slice 0 limit (sort_key (\<lambda>d. - da_timestamp d) (filter (\<lambda>d. da_webhookId d = webhookId) (wm_deliveryLog m)))"

definition getDeadLetterQueue :: "string option \<Rightarrow> 'h WebhookManager \<Rightarrow> DeliveryAttempt list" where
  "getDeadLetterQueue webhookId m =
     (if str_truthy webhookId
      then filter (\<lambda>d. Some (da_webhookId d) = webhookId) (wm_deadLetterQueue m) else wm_deadLetterQueue m)"

definition wm_retryDeadLetter ::
  "delivery_draw \<Rightarrow> string \<Rightarrow> 'h WebhookManager \<Rightarrow> 'h WebhookManager \<times> bool" where
  "wm_retryDeadLetter d attemptId m =
     (case find (\<lambda>i. da_id (wm_deadLetterQueue m ! i) = attemptId) [0..<length (wm_deadLetterQueue m)] of
        None \<Rightarrow> (m, False)
      | Some i \<Rightarrow>
          (let a = wm_deadLetterQueue m ! i
           in case wm_object m (da_webhookId a) of
                None \<Rightarrow> (m, False)
              | Some w \<Rightarrow>
                  (let events = es_replay \<lparr>ro_fromSequence = None, ro_fromTimestamp = None, ro_eventType = None,
                                           ro_limit = Some 1000\<rparr> (wm_eventStream m)
                   in case find (\<lambda>e. ev_id e = da_eventId a) events of
                        None \<Rightarrow> (m, False)
                      | Some e \<Rightarrow>
                          (let m1 = m\<lparr>wm_deadLetterQueue := take i (wm_deadLetterQueue m) @ drop (Suc i) (wm_deadLetterQueue m)\<rparr>
                           in (fst (wm_deliver d (wh_id w) e m1), True)))))"

definition wm_purgeDeadLetterQueue :: "string option \<Rightarrow> 'h WebhookManager \<Rightarrow> 'h WebhookManager \<times> nat" where
  "wm_purgeDeadLetterQueue webhookId m =
     (let q = (if str_truthy webhookId
               then filter (\<lambda>d. Some (da_webhookId d) \<noteq> webhookId) (wm_deadLetterQueue m) else [])
      in (m\<lparr>wm_deadLetterQueue := q\<rparr>, length (wm_deadLetterQueue m) - length q))"

record webhook_system_stats =
  sy_totalWebhooks :: nat
  sy_activeWebhooks :: nat
  sy_totalDeliveries :: nat
  sy_deadLetterCount :: nat
  sy_openCircuits :: nat

definition wm_getSystemStats :: "'h WebhookManager \<Rightarrow> webhook_system_stats" where
  "wm_getSystemStats m =
     (let ws = map (\<lambda>r. wm_objects m ! r) (jm_values (wm_webhooks m))
      in \<lparr>sy_totalWebhooks = length ws, sy_activeWebhooks = length (filter (\<lambda>w. wh_status w = wh_active) ws),
          sy_totalDeliveries = length (wm_deliveryLog m), sy_deadLetterCount = length (wm_deadLetterQueue m),
          sy_openCircuits = length (filter ci_open (jm_values (wm_circuitState m)))\<rparr>)"

end
