(* ===== verification/WebhookProps.thy ===== *)
theory WebhookProps
  imports Webhooks
begin

text \<open>
  The properties of event streaming and webhook delivery. Histories are lists of operations of the manager
  and its stream (\<open>wh_run\<close>), or steps whose operations satisfy a guard (\<open>wh_steps\<close>). The stream refines
  the list of all events published: its buffer is the end of that list and a replay is a segment of it.
  A delivery is followed through its retries to the end. A webhook whose circuit has opened gets nothing
  from the stream any more, and backpressure never ends once it has begun.
\<close>

section \<open>What the operations leave alone\<close>

lemma map_object_fields [simp]:
  "wm_webhooks (map_object r f m) = wm_webhooks m" "wm_deliveryLog (map_object r f m) = wm_deliveryLog m"
  "wm_deadLetterQueue (map_object r f m) = wm_deadLetterQueue m"
  "wm_circuitState (map_object r f m) = wm_circuitState m"
  "wm_eventStream (map_object r f m) = wm_eventStream m" "wm_timers (map_object r f m) = wm_timers m"
  "wm_called (map_object r f m) = wm_called m"
  "length (wm_objects (map_object r f m)) = length (wm_objects m)"
  by (simp_all add: map_object_def)

lemma map_object_nth:
  "k < length (wm_objects m) \<Longrightarrow>
   wm_objects (map_object r f m) ! k = (if k = r then f (wm_objects m ! k) else wm_objects m ! k)"
  by (simp add: map_object_def nth_list_update)

lemma log_attempt_fields [simp]:
  "wm_objects (log_attempt a m) = wm_objects m" "wm_webhooks (log_attempt a m) = wm_webhooks m"
  "wm_deadLetterQueue (log_attempt a m) = wm_deadLetterQueue m"
  "wm_circuitState (log_attempt a m) = wm_circuitState m"
  "wm_eventStream (log_attempt a m) = wm_eventStream m" "wm_timers (log_attempt a m) = wm_timers m"
  "wm_called (log_attempt a m) = wm_called m"
  by (simp_all add: log_attempt_def Let_def)

lemma wm_emit_fields [simp]:
  "wm_objects (wm_emit now ev m) = wm_objects m" "wm_webhooks (wm_emit now ev m) = wm_webhooks m"
  "wm_deadLetterQueue (wm_emit now ev m) = wm_deadLetterQueue m"
  "wm_deliveryLog (wm_emit now ev m) = wm_deliveryLog m"
  "wm_circuitState (wm_emit now ev m) = wm_circuitState m"
  "wm_eventStream (wm_emit now ev m) = wm_eventStream m" "wm_timers (wm_emit now ev m) = wm_timers m"
  "wm_called (wm_emit now ev m) = wm_called m"
  by (simp_all add: wm_emit_def)

lemma updateStats_fields [simp]:
  "wm_webhooks (updateStats d r ok l m) = wm_webhooks m" "wm_deliveryLog (updateStats d r ok l m) = wm_deliveryLog m"
  "wm_deadLetterQueue (updateStats d r ok l m) = wm_deadLetterQueue m"
  "wm_circuitState (updateStats d r ok l m) = wm_circuitState m"
  "wm_eventStream (updateStats d r ok l m) = wm_eventStream m" "wm_timers (updateStats d r ok l m) = wm_timers m"
  "length (wm_objects (updateStats d r ok l m)) = length (wm_objects m)"
  by (simp_all add: updateStats_def)

lemma checkCircuitBreaker_fields [simp]:
  "wm_webhooks (checkCircuitBreaker now r m) = wm_webhooks m"
  "wm_deliveryLog (checkCircuitBreaker now r m) = wm_deliveryLog m"
  "wm_deadLetterQueue (checkCircuitBreaker now r m) = wm_deadLetterQueue m"
  "wm_eventStream (checkCircuitBreaker now r m) = wm_eventStream m"
  "wm_timers (checkCircuitBreaker now r m) = wm_timers m"
  "length (wm_objects (checkCircuitBreaker now r m)) = length (wm_objects m)"
  by (simp_all add: checkCircuitBreaker_def Let_def)

lemma resetCircuitBreaker_fields [simp]:
  "wm_webhooks (resetCircuitBreaker now i m) = wm_webhooks m"
  "wm_deliveryLog (resetCircuitBreaker now i m) = wm_deliveryLog m"
  "wm_deadLetterQueue (resetCircuitBreaker now i m) = wm_deadLetterQueue m"
  "wm_eventStream (resetCircuitBreaker now i m) = wm_eventStream m"
  "wm_timers (resetCircuitBreaker now i m) = wm_timers m"
  "length (wm_objects (resetCircuitBreaker now i m)) = length (wm_objects m)"
  by (simp_all add: resetCircuitBreaker_def Let_def split: option.split)

lemma attempt_frame [simp]:
  "wm_webhooks (fst (attemptDelivery d r e n m)) = wm_webhooks m"
  "wm_eventStream (fst (attemptDelivery d r e n m)) = wm_eventStream m"
  "length (wm_objects (fst (attemptDelivery d r e n m))) = length (wm_objects m)"
  by (simp_all add: attemptDelivery_def Let_def)

lemma deliver_frame [simp]:
  "wm_webhooks (fst (wm_deliver d i e m)) = wm_webhooks m"
  "wm_eventStream (fst (wm_deliver d i e m)) = wm_eventStream m"
  "length (wm_objects (fst (wm_deliver d i e m))) = length (wm_objects m)"
  by (simp_all add: wm_deliver_def Let_def split: option.split prod.split)
     (metis attempt_frame fst_conv)+

lemma timer_frame [simp]:
  "wm_webhooks (wm_retry_timer d i m) = wm_webhooks m"
  "wm_eventStream (wm_retry_timer d i m) = wm_eventStream m"
  "length (wm_objects (wm_retry_timer d i m)) = length (wm_objects m)"
  by (simp_all add: wm_retry_timer_def Let_def)

lemma run_subscriber_frame [simp]:
  "wm_webhooks (fst (run_subscriber H react ds k h e m)) = wm_webhooks m"
  "length (wm_objects (fst (run_subscriber H react ds k h e m))) = length (wm_objects m)"
  by (cases h; simp add: Let_def)+

lemma retryDeadLetter_stream [simp]: "wm_eventStream (fst (wm_retryDeadLetter d a m)) = wm_eventStream m"
  by (simp add: wm_retryDeadLetter_def Let_def split: option.split)

section \<open>Histories\<close>

datatype 'h wh_op =
    Publish "nat \<Rightarrow> delivery_draw" int string string string jsval partial_metadata
  | Subscribe string 'h
  | Unsubscribe string 'h
  | PauseStream
  | ResumeStream int
  | CloseStream
  | CreateHook int string WebhookConfig
  | UpdateHook int string webhook_updates
  | DeleteHook int string
  | PauseHook int string
  | ResumeHook int string
  | Deliver delivery_draw string StreamEvent
  | RetryTimer delivery_draw nat
  | RetryDead delivery_draw string
  | PurgeDead "string option"
  | OnStream string 'h
  | OffStream string 'h
  | OnHooks string 'h
  | OffHooks string 'h

definition map_stream ::
  "(('h subscriber, 'h) EventStream \<Rightarrow> ('h subscriber, 'h) EventStream) \<Rightarrow> 'h WebhookManager \<Rightarrow> 'h WebhookManager" where
  "map_stream f m = m\<lparr>wm_eventStream := f (wm_eventStream m)\<rparr>"

primrec wh_apply ::
  "dc_host \<Rightarrow> ('h \<Rightarrow> StreamEvent \<Rightarrow> string option) \<Rightarrow> 'h wh_op \<Rightarrow> 'h WebhookManager \<Rightarrow> 'h WebhookManager" where
  "wh_apply H react (Publish ds now random ty source data p) m = fst (wm_publish H react ds now random ty source data p m)"
| "wh_apply H react (Subscribe ty h) m = map_stream (es_subscribe ty (Outside h)) m"
| "wh_apply H react (Unsubscribe ty h) m = map_stream (es_unsubscribe ty (Outside h)) m"
| "wh_apply H react PauseStream m = map_stream es_pause m"
| "wh_apply H react (ResumeStream now) m = map_stream (es_resume now) m"
| "wh_apply H react CloseStream m = map_stream es_close m"
| "wh_apply H react (CreateHook now random c) m = fst (wm_create now random c m)"
| "wh_apply H react (UpdateHook now i u) m = fst (wm_update now i u m)"
| "wh_apply H react (DeleteHook now i) m = fst (wm_delete now i m)"
| "wh_apply H react (PauseHook now i) m = fst (wm_pause now i m)"
| "wh_apply H react (ResumeHook now i) m = fst (wm_resume now i m)"
| "wh_apply H react (Deliver d i e) m = fst (wm_deliver d i e m)"
| "wh_apply H react (RetryTimer d k) m = wm_retry_timer d k m"
| "wh_apply H react (RetryDead d a) m = fst (wm_retryDeadLetter d a m)"
| "wh_apply H react (PurgeDead i) m = fst (wm_purgeDeadLetterQueue i m)"
| "wh_apply H react (OnStream ty h) m = map_stream (es_on ty h) m"
| "wh_apply H react (OffStream ty h) m = map_stream (es_off ty h) m"
| "wh_apply H react (OnHooks ty h) m = wm_on ty h m"
| "wh_apply H react (OffHooks ty h) m = wm_off ty h m"

definition wh_run ::
  "dc_host \<Rightarrow> ('h \<Rightarrow> StreamEvent \<Rightarrow> string option) \<Rightarrow> 'h wh_op list \<Rightarrow> 'h WebhookManager \<Rightarrow> 'h WebhookManager" where
  "wh_run H react ops m = fold (wh_apply H react) ops m"

section \<open>The stream and the list of published events\<close>

text \<open>The specification: whether the stream is closed, and everything published so far.\<close>

record stream_log =
  sl_closed :: bool
  sl_events :: "StreamEvent list"

fun log_step :: "'h wh_op \<Rightarrow> stream_log \<Rightarrow> stream_log" where
  "log_step (Publish ds now random ty source data p) l =
     (if sl_closed l then l
      else l\<lparr>sl_events := sl_events l @ [new_event now random ty source data p (Suc (length (sl_events l)))]\<rparr>)"
| "log_step PauseStream l = l\<lparr>sl_closed := False\<rparr>"
| "log_step (ResumeStream now) l = l\<lparr>sl_closed := False\<rparr>"
| "log_step CloseStream l = l\<lparr>sl_closed := True\<rparr>"
| "log_step _ l = l"

definition log_of :: "'h wh_op list \<Rightarrow> stream_log" where
  "log_of ops = fold log_step ops \<lparr>sl_closed = False, sl_events = []\<rparr>"

definition keeps_log :: "('s, 'h) EventStream \<Rightarrow> stream_log \<Rightarrow> bool" where
  "keeps_log s l \<longleftrightarrow>
     (es_status s = st_closed) = sl_closed l \<and> es_sequenceCounter s = length (sl_events l) \<and>
     es_buffer s = drop (length (sl_events l) - nat (es_maxBufferSize s)) (sl_events l)"

lemma emitInternal_fields [simp]:
  "es_status (emitInternal now ev s) = es_status s" "es_buffer (emitInternal now ev s) = es_buffer s"
  "es_sequenceCounter (emitInternal now ev s) = es_sequenceCounter s"
  "es_maxBufferSize (emitInternal now ev s) = es_maxBufferSize s"
  "es_backpressureThreshold (emitInternal now ev s) = es_backpressureThreshold s"
  "es_subscribers (emitInternal now ev s) = es_subscribers s"
  by (simp_all add: emitInternal_def)

lemma es_append_fields [simp]:
  "es_buffer (es_append now e s) = buffer_push (es_maxBufferSize s) e (es_buffer s)"
  "es_sequenceCounter (es_append now e s) = Suc (es_sequenceCounter s)"
  "es_maxBufferSize (es_append now e s) = es_maxBufferSize s"
  "es_backpressureThreshold (es_append now e s) = es_backpressureThreshold s"
  "es_subscribers (es_append now e s) = es_subscribers s"
  by (simp_all add: es_append_def Let_def)

lemma es_append_status:
  "es_status (es_append now e s) =
     (if int (length (buffer_push (es_maxBufferSize s) e (es_buffer s))) \<ge> es_backpressureThreshold s
      then st_backpressure else es_status s)"
  by (auto simp: es_append_def Let_def)

lemma push_drop:
  assumes "0 < M"
  shows "buffer_push M e (drop (length es - nat M) es) = drop (length (es @ [e]) - nat M) (es @ [e])"
proof (cases "length es < nat M")
  case True
  with assms have "\<not> M < 1 + int (length es)" by linarith
  with True show ?thesis by (simp add: buffer_push_def Let_def)
next
  case False
  with assms have "es \<noteq> []" and "int (length (drop (length es - nat M) es @ [e])) > M" by auto
  with assms False show ?thesis by (simp add: buffer_push_def Let_def tl_drop drop_Suc Suc_diff_le tl_append2)
qed

lemma publish_stream:
  "fst (es_publish run now random ty source data p s w) =
     (if es_status s = st_closed then s
      else let e = new_event now random ty source data p (Suc (es_sequenceCounter s));
               s1 = es_append now e s
           in if snd (call_subscribers run e 0 (all_subscribers ty s1) w) = None
              then emitInternal now (EventPublished (ev_id e) ty (length (all_subscribers ty s1))) s1 else s1)"
  by (simp add: es_publish_def Let_def split: prod.split option.split)

lemma wm_publish_stream [simp]:
  "wm_eventStream (fst (wm_publish H react ds now random ty source data p m)) =
     fst (es_publish (run_subscriber H react ds) now random ty source data p (wm_eventStream m) m)"
  by (simp add: wm_publish_def split: prod.split)

lemma publish_keeps_log:
  assumes "keeps_log s l" and "0 < es_maxBufferSize s"
  shows "keeps_log (fst (es_publish run now random ty source data p s w))
           (log_step (Publish ds now random ty source data p) l)"
proof (cases "sl_closed l")
  case True
  with assms(1) show ?thesis by (simp add: publish_stream keeps_log_def)
next
  case False
  let ?e = "new_event now random ty source data p (Suc (es_sequenceCounter s))"
  have same: "keeps_log (emitInternal now ev s1) l' = keeps_log s1 l'" for ev l' and s1 :: "('a, 'c) EventStream"
    by (simp add: keeps_log_def)
  have "keeps_log (es_append now ?e s) (log_step (Publish ds now random ty source data p) l)"
    using assms False push_drop [OF assms(2), of ?e "sl_events l"]
    by (auto simp: keeps_log_def es_append_status)
  with False assms(1) show ?thesis by (simp add: publish_stream Let_def same keeps_log_def)
qed

lemma subscribe_hook_fields [simp]:
  "es_status (subscribe_hook r tys s) = es_status s" "es_buffer (subscribe_hook r tys s) = es_buffer s"
  "es_sequenceCounter (subscribe_hook r tys s) = es_sequenceCounter s"
  "es_maxBufferSize (subscribe_hook r tys s) = es_maxBufferSize s"
  "es_backpressureThreshold (subscribe_hook r tys s) = es_backpressureThreshold s"
  "es_emitted (subscribe_hook r tys s) = es_emitted s"
proof -
  have "es_status (fold (\<lambda>(k, ty). es_subscribe ty (Hook r k)) xs s) = es_status s \<and>
      es_buffer (fold (\<lambda>(k, ty). es_subscribe ty (Hook r k)) xs s) = es_buffer s \<and>
      es_sequenceCounter (fold (\<lambda>(k, ty). es_subscribe ty (Hook r k)) xs s) = es_sequenceCounter s \<and>
      es_maxBufferSize (fold (\<lambda>(k, ty). es_subscribe ty (Hook r k)) xs s) = es_maxBufferSize s \<and>
      es_backpressureThreshold (fold (\<lambda>(k, ty). es_subscribe ty (Hook r k)) xs s) = es_backpressureThreshold s \<and>
      es_emitted (fold (\<lambda>(k, ty). es_subscribe ty (Hook r k)) xs s) = es_emitted s" for xs
    by (induction xs arbitrary: s) (auto simp: es_subscribe_def)
  then show "es_status (subscribe_hook r tys s) = es_status s" "es_buffer (subscribe_hook r tys s) = es_buffer s"
    "es_sequenceCounter (subscribe_hook r tys s) = es_sequenceCounter s"
    "es_maxBufferSize (subscribe_hook r tys s) = es_maxBufferSize s"
    "es_backpressureThreshold (subscribe_hook r tys s) = es_backpressureThreshold s"
    "es_emitted (subscribe_hook r tys s) = es_emitted s"
    by (simp_all add: subscribe_hook_def)
qed

lemma publish_bounds [simp]:
  "es_maxBufferSize (fst (es_publish run now random ty source data p s w)) = es_maxBufferSize s"
  "es_backpressureThreshold (fst (es_publish run now random ty source data p s w)) = es_backpressureThreshold s"
  by (simp_all add: publish_stream Let_def)

lemma apply_bounds [simp]:
  "es_maxBufferSize (wm_eventStream (wh_apply H react op m)) = es_maxBufferSize (wm_eventStream m)"
  "es_backpressureThreshold (wm_eventStream (wh_apply H react op m)) = es_backpressureThreshold (wm_eventStream m)"
  by (cases op; simp add: map_stream_def es_subscribe_def es_unsubscribe_def es_pause_def es_resume_def es_close_def
      wm_create_def wm_update_def wm_delete_def wm_pause_def wm_resume_def wm_purgeDeadLetterQueue_def es_on_def es_off_def
      wm_on_def wm_off_def Let_def split: option.split)+

lemma apply_keeps_log:
  assumes "keeps_log (wm_eventStream m) l" and "0 < es_maxBufferSize (wm_eventStream m)"
  shows "keeps_log (wm_eventStream (wh_apply H react op m)) (log_step op l)"
proof (cases op)
  case (Publish ds now random ty source data p)
  show ?thesis unfolding Publish wh_apply.simps wm_publish_stream by (rule publish_keeps_log [OF assms])
qed (use assms in \<open>simp_all add: keeps_log_def map_stream_def es_subscribe_def es_unsubscribe_def es_pause_def es_resume_def es_close_def
      wm_create_def wm_update_def wm_delete_def wm_pause_def wm_resume_def wm_purgeDeadLetterQueue_def es_on_def es_off_def
      wm_on_def wm_off_def Let_def split: option.split\<close>)

lemma run_keeps_log:
  assumes "keeps_log (wm_eventStream m) l" and "0 < es_maxBufferSize (wm_eventStream m)"
  shows "keeps_log (wm_eventStream (wh_run H react ops m)) (fold log_step ops l) \<and>
         es_maxBufferSize (wm_eventStream (wh_run H react ops m)) = es_maxBufferSize (wm_eventStream m) \<and>
         es_backpressureThreshold (wm_eventStream (wh_run H react ops m)) = es_backpressureThreshold (wm_eventStream m)"
  using assms
proof (induction ops arbitrary: m l)
  case Nil
  then show ?case by (simp add: wh_run_def)
next
  case (Cons op ops)
  from Cons.IH [OF apply_keeps_log [OF Cons.prems]] Cons.prems(2) show ?case by (simp add: wh_run_def)
qed

definition numbered :: "stream_log \<Rightarrow> bool" where
  "numbered l \<longleftrightarrow> map (\<lambda>e. md_sequenceNumber (ev_metadata e)) (sl_events l) = [1..<Suc (length (sl_events l))]"

lemma log_step_numbered: "numbered l \<Longrightarrow> numbered (log_step op l)"
  by (cases op) (auto simp: numbered_def new_event_def)

lemma log_of_numbered: "numbered (log_of ops)"
proof -
  have "numbered l \<Longrightarrow> numbered (fold log_step ops l)" for l
    by (induction ops arbitrary: l) (auto intro: log_step_numbered)
  then show ?thesis by (simp add: log_of_def numbered_def)
qed

lemma filter_number_drop:
  assumes "map f es = [1..<Suc (length es)]"
  shows "filter (\<lambda>e. n \<le> int (f e)) (drop k es) = drop (max (nat n - 1) k) es"
proof -
  have nth: "f (es ! j) = Suc j" if "j < length es" for j
    using assms that nth_map [of j es f] nth_upt [of 1 j "Suc (length es)"] by simp
  have "filter (\<lambda>e. n \<le> int (f e)) (drop k es) = drop (nat n - 1 - k) (drop k es)"
  proof (cases "nat n - 1 - k \<le> length (drop k es)")
    case True
    let ?j = "nat n - 1 - k"
    have "filter (\<lambda>e. n \<le> int (f e)) (take ?j (drop k es)) = []"
      by (auto simp: filter_empty_conv in_set_conv_nth nth)
    moreover have "filter (\<lambda>e. n \<le> int (f e)) (drop ?j (drop k es)) = drop ?j (drop k es)"
      by (auto simp: filter_id_conv in_set_conv_nth nth)
    ultimately show ?thesis
      by (metis append_Nil append_take_drop_id filter_append)
  next
    case False
    then have "filter (\<lambda>e. n \<le> int (f e)) (drop k es) = []"
      by (auto simp: filter_empty_conv in_set_conv_nth nth)
    with False show ?thesis by simp
  qed
  then show ?thesis by (simp add: max_def)
qed

definition replay_from :: "int \<Rightarrow> replay_options" where
  "replay_from n = \<lparr>ro_fromSequence = Some n, ro_fromTimestamp = None, ro_eventType = None, ro_limit = None\<rparr>"

lemma new_stream_keeps_log:
  "keeps_log (wm_eventStream (new_WebhookManager (new_EventStream a b))) \<lparr>sl_closed = False, sl_events = []\<rparr>"
  by (simp add: keeps_log_def new_WebhookManager_def new_EventStream_def)

lemma run_log_of:
  assumes "0 < num_or a 10000"
  shows "keeps_log (wm_eventStream (wh_run H react ops (new_WebhookManager (new_EventStream a b)))) (log_of ops)"
    and "es_maxBufferSize (wm_eventStream (wh_run H react ops (new_WebhookManager (new_EventStream a b)))) = num_or a 10000"
    and "es_backpressureThreshold (wm_eventStream (wh_run H react ops (new_WebhookManager (new_EventStream a b)))) = num_or b 8000"
  using run_keeps_log [OF new_stream_keeps_log, of a b H react ops] assms
  by (simp_all add: log_of_def new_WebhookManager_def new_EventStream_def)

text \<open>
  C32. The stream refines the list of all events published. Whatever is created, delivered, paused or
  closed in between and whatever subscribers do, the stream's buffer is the end of that list, as long as
  the maximum allows; events are numbered from 1 without a gap; the stream is closed exactly if the last
  change of its status was a close; and a replay from a number gives the events of the list from that number on
  that are still in the buffer, in order.
\<close>

theorem stream_refines_log:
  assumes "0 < num_or a 10000"
    and "s = wm_eventStream (wh_run H react ops (new_WebhookManager (new_EventStream a b)))"
    and "es = sl_events (log_of ops)" and "gone = length es - nat (num_or a 10000)"
  shows "es_buffer s = drop gone es \<and>
    map (\<lambda>e. md_sequenceNumber (ev_metadata e)) es = [1..<Suc (length es)] \<and>
    es_sequenceCounter s = length es \<and> (es_status s = st_closed) = sl_closed (log_of ops) \<and>
    (0 < n \<longrightarrow> es_replay (replay_from n) s = drop (max (nat n - 1) gone) es)"
proof -
  have k: "keeps_log s (log_of ops)" and "es_maxBufferSize s = num_or a 10000"
    using run_log_of [OF assms(1), of H react ops b] assms(2) by simp_all
  then have b: "es_buffer s = drop gone es" using assms(3,4) by (simp add: keeps_log_def)
  have nums: "map (\<lambda>e. md_sequenceNumber (ev_metadata e)) es = [1..<Suc (length es)]"
    using log_of_numbered [of ops] assms(3) by (simp add: numbered_def)
  have "0 < n \<longrightarrow> es_replay (replay_from n) s = drop (max (nat n - 1) gone) es"
    using filter_number_drop [OF nums, of n gone] by (simp add: es_replay_def replay_from_def b Let_def)
  with k b nums show ?thesis by (simp add: keeps_log_def assms(3))
qed

section \<open>Backpressure\<close>

lemma log_step_grows: "length (sl_events l) \<le> length (sl_events (log_step op l))"
  by (cases op) auto

lemma log_of_grows: "length (sl_events (log_of ops)) \<le> length (sl_events (log_of (ops @ later)))"
proof -
  have "length (sl_events l) \<le> length (sl_events (fold log_step later l))" for l
    by (induction later arbitrary: l) (auto intro: order_trans log_step_grows)
  then show ?thesis by (simp add: log_of_def)
qed

text \<open>
  Backpressure is for good. Once the buffer has reached the threshold, it never falls below it again:
  from then on every publication that the stream accepts leaves it in backpressure, and resuming never
  announces that backpressure is over.
\<close>

theorem backpressure_for_good:
  assumes "0 < num_or a 10000" and "num_or b 8000 \<le> num_or a 10000"
    and "num_or b 8000 \<le> int (length (sl_events (log_of ops)))"
    and "m = wh_run H react (ops @ later) (new_WebhookManager (new_EventStream a b))"
  shows "es_emitted (es_resume now (wm_eventStream m)) = es_emitted (wm_eventStream m) \<and>
    (es_status (wm_eventStream m) \<noteq> st_closed \<longrightarrow>
     es_status (wm_eventStream (fst (wm_publish H react ds now random ty source data p m))) = st_backpressure)"
proof -
  let ?n = "length (sl_events (log_of (ops @ later)))"
  note r = run_log_of [OF assms(1), of H react "ops @ later" b, folded assms(4)]
  have "num_or b 8000 \<le> int ?n" using assms(3) log_of_grows [of ops later] by linarith
  moreover have "int (length (es_buffer (wm_eventStream m))) = min (int ?n) (num_or a 10000)"
    using r(1,2) assms(1) by (simp add: keeps_log_def)
  ultimately have full: "es_backpressureThreshold (wm_eventStream m) \<le> int (length (es_buffer (wm_eventStream m)))"
    using assms(2) r(3) by simp
  then have "es_backpressureThreshold (wm_eventStream m) \<le>
      int (length (buffer_push (es_maxBufferSize (wm_eventStream m)) e (es_buffer (wm_eventStream m))))" for e
    using r(2,3) assms(2) by (auto simp: buffer_push_def Let_def)
  with full show ?thesis
    by (simp add: es_resume_def Let_def publish_stream es_append_status)
qed

section \<open>A delivery and its retries\<close>

text \<open>The timer of the last retry fires as long as a retry is left, with one draw each.\<close>

fun retry_chain :: "(nat \<Rightarrow> delivery_draw) \<Rightarrow> nat \<Rightarrow> nat \<Rightarrow> 'h WebhookManager \<Rightarrow> 'h WebhookManager" where
  "retry_chain ds base 0 m = m"
| "retry_chain ds base (Suc k) m =
     (if base < length (wm_timers m)
      then retry_chain (\<lambda>i. ds (Suc i)) base k (wm_retry_timer (ds 0) (length (wm_timers m) - 1) m) else m)"

abbreviation lucky :: "delivery_draw \<Rightarrow> bool" where
  "lucky d \<equiv> dd_random d > 1 / 10"

definition failures_before :: "(nat \<Rightarrow> delivery_draw) \<Rightarrow> nat \<Rightarrow> nat" where
  "failures_before ds N = length (takeWhile (\<lambda>k. \<not> lucky (ds k)) [0..<N])"

lemma failures_before_0 [simp]: "failures_before ds 0 = 0"
  by (simp add: failures_before_def)

lemma failures_before_Suc:
  "failures_before ds (Suc N) = (if lucky (ds 0) then 0 else Suc (failures_before (\<lambda>k. ds (Suc k)) N))"
proof -
  have "[0..<Suc N] = 0 # map Suc [0..<N]" by (simp add: map_Suc_upt upt_conv_Cons)
  then show ?thesis by (simp add: failures_before_def takeWhile_map o_def)
qed

lemma failures_before_le: "failures_before ds N \<le> N"
  by (induction N arbitrary: ds) (auto simp: failures_before_Suc)

abbreviation stats_of :: "nat \<Rightarrow> 'h WebhookManager \<Rightarrow> WebhookStats" where
  "stats_of r m \<equiv> wh_stats (wm_objects m ! r)"

text \<open>The end of a delivery that is at its \<open>n\<close>-th attempt.\<close>

definition delivered_or_dead ::
  "nat \<Rightarrow> StreamEvent \<Rightarrow> nat \<Rightarrow> nat \<Rightarrow> nat \<Rightarrow> 'h WebhookManager \<Rightarrow> 'h WebhookManager \<Rightarrow> bool" where
  "delivered_or_dead r e left fails lastn m m' \<longleftrightarrow>
     (if fails < left
      then wm_deadLetterQueue m' = wm_deadLetterQueue m \<and>
           ws_successfulDeliveries (stats_of r m') = Suc (ws_successfulDeliveries (stats_of r m)) \<and>
           ws_consecutiveFailures (stats_of r m') = 0
      else ws_successfulDeliveries (stats_of r m') = ws_successfulDeliveries (stats_of r m) \<and>
           ws_consecutiveFailures (stats_of r m') = ws_consecutiveFailures (stats_of r m) + left \<and>
           (\<exists>a. wm_deadLetterQueue m' = wm_deadLetterQueue m @ [a] \<and> da_status a = dl_dead_letter \<and>
                da_webhookId a = wh_id (wm_objects m ! r) \<and> da_eventId a = ev_id e \<and> da_attemptNumber a = lastn) \<and>
           (5 \<le> ws_consecutiveFailures (stats_of r m) + left \<longrightarrow>
              wh_status (wm_objects m' ! r) = wh_error \<and> circuit_open (wh_id (wm_objects m ! r)) m')) \<and>
     ws_failedDeliveries (stats_of r m') = ws_failedDeliveries (stats_of r m) + fails"

lemma attempt_success:
  assumes "lucky d" and "r < length (wm_objects m)"
  shows "wm_timers (fst (attemptDelivery d r e n m)) = wm_timers m"
    and "delivered_or_dead r e (Suc k) 0 lastn m (fst (attemptDelivery d r e n m))"
proof -
  show "wm_timers (fst (attemptDelivery d r e n m)) = wm_timers m"
    using assms by (simp add: attemptDelivery_def Let_def)
  have reset: "wh_stats (wm_objects (resetCircuitBreaker now i m1) ! r) = wh_stats (wm_objects m1 ! r)"
    if "r < length (wm_objects m1)" for now i and m1 :: "'a WebhookManager"
    using that by (auto simp: resetCircuitBreaker_def Let_def map_object_nth split: option.split)
  show "delivered_or_dead r e (Suc k) 0 lastn m (fst (attemptDelivery d r e n m))"
    using assms by (simp add: delivered_or_dead_def attemptDelivery_def Let_def reset updateStats_def map_object_nth count_success_def)
qed

lemma attempt_retry:
  assumes "\<not> lucky d" and "r < length (wm_objects m)" and "int n < rc_maxAttempts (wh_retry (wm_objects m ! r))"
    and "m' = fst (attemptDelivery d r e n m)"
  shows "wm_timers m' = wm_timers m @ [\<lparr>tm_hook = r, tm_event = e, tm_attempt = Suc n\<rparr>]"
    and "wm_objects m' ! r = (wm_objects m ! r)\<lparr>wh_stats := count_failure (dd_now d) (stats_of r m)\<rparr>"
    and "wm_deadLetterQueue m' = wm_deadLetterQueue m"
  using assms by (simp_all add: attemptDelivery_def Let_def updateStats_def map_object_nth)

lemma attempt_dead:
  assumes "\<not> lucky d" and "r < length (wm_objects m)" and "\<not> int n < rc_maxAttempts (wh_retry (wm_objects m ! r))"
  shows "wm_timers (fst (attemptDelivery d r e n m)) = wm_timers m"
    and "delivered_or_dead r e (Suc 0) (Suc 0) n m (fst (attemptDelivery d r e n m))"
proof -
  show "wm_timers (fst (attemptDelivery d r e n m)) = wm_timers m"
    using assms by (simp add: attemptDelivery_def Let_def)
  show "delivered_or_dead r e (Suc 0) (Suc 0) n m (fst (attemptDelivery d r e n m))"
    using assms by (simp add: delivered_or_dead_def attemptDelivery_def Let_def updateStats_def map_object_nth
        count_failure_def checkCircuitBreaker_def new_attempt_def circuit_open_def)
qed

lemma delivered_or_dead_retry:
  assumes "delivered_or_dead r e (Suc k) f lastn m2 m'" and "wm_deadLetterQueue m2 = wm_deadLetterQueue m"
    and "wm_objects m2 ! r = (wm_objects m ! r)\<lparr>wh_stats := count_failure t (stats_of r m)\<rparr>"
  shows "delivered_or_dead r e (Suc (Suc k)) (Suc f) lastn m m'"
proof -
  have f: "ws_successfulDeliveries (stats_of r m2) = ws_successfulDeliveries (stats_of r m)"
    "ws_consecutiveFailures (stats_of r m2) = Suc (ws_consecutiveFailures (stats_of r m))"
    "ws_failedDeliveries (stats_of r m2) = Suc (ws_failedDeliveries (stats_of r m))"
    "wh_id (wm_objects m2 ! r) = wh_id (wm_objects m ! r)"
    by (simp_all add: assms(3) count_failure_def)
  show ?thesis using assms(1) by (auto simp: delivered_or_dead_def f assms(2) split: if_splits)
qed

lemma chain_outcome:
  assumes "r < length (wm_objects m)"
    and "Suc k = (if int n < rc_maxAttempts (wh_retry (wm_objects m ! r))
                  then Suc (nat (rc_maxAttempts (wh_retry (wm_objects m ! r)) - int n)) else 1)"
    and "m' = retry_chain (\<lambda>i. ds (Suc i)) (length (wm_timers m)) k (fst (attemptDelivery (ds 0) r e n m))"
  shows "wm_timers m' = wm_timers m \<and> delivered_or_dead r e (Suc k) (failures_before ds (Suc k)) (n + k) m m'"
  using assms
proof (induction k arbitrary: n m ds)
  case 0
  show ?case
  proof (cases "lucky (ds 0)")
    case True
    with attempt_success [OF True 0(1)] 0(3) show ?thesis by (simp add: failures_before_Suc)
  next
    case False
    from 0(2) have "\<not> int n < rc_maxAttempts (wh_retry (wm_objects m ! r))" by (auto split: if_splits)
    from attempt_dead [OF False 0(1) this] 0(3) False show ?thesis by (simp add: failures_before_Suc)
  qed
next
  case (Suc k)
  let ?m1 = "fst (attemptDelivery (ds 0) r e n m)"
  show ?case
  proof (cases "lucky (ds 0)")
    case True
    with attempt_success [OF True Suc.prems(1)] Suc.prems(3) show ?thesis by (simp add: failures_before_Suc)
  next
    case False
    from Suc.prems(2) have n: "int n < rc_maxAttempts (wh_retry (wm_objects m ! r))" by (auto split: if_splits)
    note m1 = attempt_retry [OF False Suc.prems(1) n refl, of e]
    let ?m2 = "?m1\<lparr>wm_timers := wm_timers m\<rparr>"
    have step: "wm_retry_timer (ds 1) (length (wm_timers ?m1) - 1) ?m1 = fst (attemptDelivery (ds 1) r e (Suc n) ?m2)"
      using m1(1) by (simp add: wm_retry_timer_def Let_def)
    have m': "m' = retry_chain (\<lambda>i. ds (Suc (Suc i))) (length (wm_timers ?m2)) k
        (fst (attemptDelivery (ds (Suc 0)) r e (Suc n) ?m2))"
      using Suc.prems(3) step m1(1) by (simp add: numeral_eq_Suc)
    have cnt: "Suc k = (if int (Suc n) < rc_maxAttempts (wh_retry (wm_objects ?m2 ! r))
        then Suc (nat (rc_maxAttempts (wh_retry (wm_objects ?m2 ! r)) - int (Suc n))) else 1)"
      using Suc.prems(2) n m1(2) by auto
    have len: "r < length (wm_objects ?m2)" by (simp add: Suc.prems(1))
    have ih: "wm_timers m' = wm_timers ?m2 \<and>
        delivered_or_dead r e (Suc k) (failures_before (\<lambda>i. ds (Suc i)) (Suc k)) (Suc n + k) ?m2 m'"
      by (rule Suc.IH [where ds = "\<lambda>i. ds (Suc i)", OF len cnt m'])
    then have "wm_timers m' = wm_timers m" and
        "delivered_or_dead r e (Suc (Suc k)) (Suc (failures_before (\<lambda>i. ds (Suc i)) (Suc k))) (Suc n + k) m m'"
      using delivered_or_dead_retry [OF conjunct2 [OF ih], of m "dd_now (ds 0)"] m1(2,3) by simp_all
    with False show ?thesis by (simp add: failures_before_Suc [of ds])
  qed
qed

section \<open>The state of the manager\<close>

definition stats_ok :: "WebhookStats \<Rightarrow> bool" where
  "stats_ok s \<longleftrightarrow> ws_totalDeliveries s = ws_successfulDeliveries s + ws_failedDeliveries s \<and>
     ws_consecutiveFailures s \<le> ws_failedDeliveries s"

definition wh_ok :: "'h WebhookManager \<Rightarrow> bool" where
  "wh_ok m \<longleftrightarrow>
     (\<forall>i r. jm_get (wm_webhooks m) i = Some r \<longrightarrow> r < length (wm_objects m) \<and> wh_id (wm_objects m ! r) = i) \<and>
     (\<forall>r < length (wm_objects m). stats_ok (stats_of r m)) \<and>
     length (wm_deliveryLog m) \<le> 10000 \<and>
     (\<forall>t \<in> set (wm_timers m). tm_hook t < length (wm_objects m)) \<and>
     (\<forall>ty hs r k. jm_get (es_subscribers (wm_eventStream m)) ty = Some hs \<longrightarrow> Hook r k \<in> set hs \<longrightarrow>
        r < length (wm_objects m)) \<and>
     (\<forall>a \<in> set (wm_deadLetterQueue m). da_status a = dl_dead_letter)"

lemma attempt_object:
  assumes "k < length (wm_objects m)"
  shows "wh_id (wm_objects (fst (attemptDelivery d r e n m)) ! k) = wh_id (wm_objects m ! k)"
    and "wh_retry (wm_objects (fst (attemptDelivery d r e n m)) ! k) = wh_retry (wm_objects m ! k)"
    and "stats_of k (fst (attemptDelivery d r e n m)) =
      (if k = r then (if lucky d then count_success (dd_now d) (dd_now d - dd_start d) (stats_of k m)
                      else count_failure (dd_now d) (stats_of k m)) else stats_of k m)"
  using assms
  by (auto simp: attemptDelivery_def Let_def updateStats_def map_object_nth checkCircuitBreaker_def resetCircuitBreaker_def
      split: option.split)

lemma log_bound: "length (wm_deliveryLog m) \<le> 10000 \<Longrightarrow> length (wm_deliveryLog (log_attempt a m)) \<le> 10000"
  by (simp add: log_attempt_def Let_def length_slice_last)

lemma attempt_logs:
  "length (wm_deliveryLog m) \<le> 10000 \<Longrightarrow> length (wm_deliveryLog (fst (attemptDelivery d r e n m))) \<le> 10000"
  by (simp add: attemptDelivery_def Let_def log_bound)

lemma attempt_lists:
  "set (wm_timers (fst (attemptDelivery d r e n m))) \<subseteq> insert \<lparr>tm_hook = r, tm_event = e, tm_attempt = Suc n\<rparr> (set (wm_timers m))"
  "a \<in> set (wm_deadLetterQueue (fst (attemptDelivery d r e n m))) \<Longrightarrow>
     a \<in> set (wm_deadLetterQueue m) \<or> da_status a = dl_dead_letter"
  by (auto simp: attemptDelivery_def Let_def new_attempt_def split: if_splits)

lemma stats_ok_count: "stats_ok s \<Longrightarrow> stats_ok (count_success now l s)" "stats_ok s \<Longrightarrow> stats_ok (count_failure now s)"
  by (simp_all add: stats_ok_def count_success_def count_failure_def Let_def)

lemma attempt_ok: "wh_ok m \<Longrightarrow> r < length (wm_objects m) \<Longrightarrow> wh_ok (fst (attemptDelivery d r e n m))"
  using attempt_lists(1) [of d r e n m]
  by (fastforce simp: wh_ok_def attempt_object stats_ok_count attempt_logs dest: attempt_lists(2))

lemma wh_ok_log: "wh_ok m \<Longrightarrow> wh_ok (log_attempt a m)"
  by (simp add: wh_ok_def log_bound)

lemma deliver_cases:
  "(\<exists>r. jm_get (wm_webhooks m) i = Some r \<and> fst (wm_deliver d i e m) = fst (attemptDelivery d r e 1 m)) \<or>
   (\<exists>a. fst (wm_deliver d i e m) = log_attempt a m) \<or> fst (wm_deliver d i e m) = m"
  by (simp add: wm_deliver_def Let_def split: option.split prod.split) (metis fst_conv)

lemma wh_ok_hook: "wh_ok m \<Longrightarrow> jm_get (wm_webhooks m) i = Some r \<Longrightarrow> r < length (wm_objects m) \<and> wh_id (wm_objects m ! r) = i"
  by (simp add: wh_ok_def)

lemma deliver_ok: "wh_ok m \<Longrightarrow> wh_ok (fst (wm_deliver d i e m))"
  using deliver_cases [of m i d e] wh_ok_hook [of m i] attempt_ok [of m _ d e 1] wh_ok_log [of m] by metis

lemma timer_ok:
  assumes "wh_ok m"
  shows "wh_ok (wm_retry_timer d i m)"
proof (cases "i < length (wm_timers m)")
  case True
  let ?m1 = "m\<lparr>wm_timers := take i (wm_timers m) @ drop (Suc i) (wm_timers m)\<rparr>"
  from assms have "wh_ok ?m1"
    by (auto simp: wh_ok_def dest: in_set_takeD in_set_dropD)
  moreover from assms True have "tm_hook (wm_timers m ! i) < length (wm_objects ?m1)"
    by (simp add: wh_ok_def)
  ultimately show ?thesis using True by (simp add: wm_retry_timer_def Let_def attempt_ok)
qed (use assms in \<open>simp add: wm_retry_timer_def\<close>)

lemma wh_ok_called: "wh_ok (m\<lparr>wm_called := cs\<rparr>) = wh_ok m"
  by (simp add: wh_ok_def)

lemma run_subscriber_ok: "wh_ok m \<Longrightarrow> wh_ok (fst (run_subscriber H react ds k h e m))"
  by (cases h) (simp_all add: Let_def deliver_ok wh_ok_called)

lemma call_subscribers_ok:
  "wh_ok m \<Longrightarrow> wh_ok (fst (call_subscribers (run_subscriber H react ds) e k hs m))"
proof (induction hs arbitrary: k m)
  case (Cons h hs)
  from run_subscriber_ok [OF Cons.prems, of H react ds k h e] Cons.IH show ?case
    by (auto split: prod.split option.split)
qed simp

lemma wh_ok_stream:
  "wh_ok m \<Longrightarrow> (\<And>ty hs r k. jm_get (es_subscribers s) ty = Some hs \<Longrightarrow> Hook r k \<in> set hs \<Longrightarrow> r < length (wm_objects m)) \<Longrightarrow>
   wh_ok (m\<lparr>wm_eventStream := s\<rparr>)"
  by (simp add: wh_ok_def)

lemma wh_ok_hooks: "wh_ok m \<Longrightarrow> jm_get (es_subscribers (wm_eventStream m)) ty = Some hs \<Longrightarrow> Hook r k \<in> set hs \<Longrightarrow>
   r < length (wm_objects m)"
  by (simp add: wh_ok_def) blast

lemma publish_subscribers [simp]:
  "es_subscribers (fst (es_publish run now random ty source data p s w)) = es_subscribers s"
  by (simp add: publish_stream Let_def)

lemma publish_world:
  "fst (wm_publish H react ds now random ty source data p m) =
     (if es_status (wm_eventStream m) = st_closed then m
      else (fst (call_subscribers (run_subscriber H react ds)
              (new_event now random ty source data p (Suc (es_sequenceCounter (wm_eventStream m)))) 0
              (all_subscribers ty (wm_eventStream m)) m))
           \<lparr>wm_eventStream := fst (es_publish (run_subscriber H react ds) now random ty source data p (wm_eventStream m) m)\<rparr>)"
proof -
  have "all_subscribers ty (es_append now e s) = all_subscribers ty s" for e and s :: "('a subscriber, 'a) EventStream"
    by (simp add: all_subscribers_def)
  then show ?thesis
    by (simp add: wm_publish_def es_publish_def Let_def split: prod.split option.split)
qed

lemma call_subscribers_frame [simp]:
  "wm_webhooks (fst (call_subscribers (run_subscriber H react ds) e k hs m)) = wm_webhooks m"
  "length (wm_objects (fst (call_subscribers (run_subscriber H react ds) e k hs m))) = length (wm_objects m)"
proof -
  have "wm_webhooks (fst (call_subscribers (run_subscriber H react ds) e k hs m)) = wm_webhooks m \<and>
      length (wm_objects (fst (call_subscribers (run_subscriber H react ds) e k hs m))) = length (wm_objects m)"
  proof (induction hs arbitrary: k m)
    case (Cons h hs)
    obtain m1 x where rs: "run_subscriber H react ds k h e m = (m1, x)" by fastforce
    from run_subscriber_frame [of H react ds k h e m]
    have "wm_webhooks m1 = wm_webhooks m" "length (wm_objects m1) = length (wm_objects m)"
      unfolding rs fst_conv by auto
    with Cons.IH show ?case by (simp add: rs split: option.split)
  qed simp
  then show "wm_webhooks (fst (call_subscribers (run_subscriber H react ds) e k hs m)) = wm_webhooks m"
    "length (wm_objects (fst (call_subscribers (run_subscriber H react ds) e k hs m))) = length (wm_objects m)" by simp_all
qed

lemma publish_ok: "wh_ok m \<Longrightarrow> wh_ok (fst (wm_publish H react ds now random ty source data p m))"
  unfolding publish_world
  by (auto intro!: wh_ok_stream call_subscribers_ok dest: wh_ok_hooks)

lemma subscribe_set:
  assumes "jm_get (es_subscribers (es_subscribe ty h s)) ty' = Some hs" and "x \<in> set hs"
  shows "x = h \<or> (\<exists>hs'. jm_get (es_subscribers s) ty' = Some hs' \<and> x \<in> set hs')"
  using assms by (auto simp: es_subscribe_def set_add_def dflt_def split: if_splits option.splits)

lemma unsubscribe_set:
  assumes "jm_get (es_subscribers (es_unsubscribe ty h s)) ty' = Some hs" and "x \<in> set hs"
  shows "\<exists>hs'. jm_get (es_subscribers s) ty' = Some hs' \<and> x \<in> set hs'"
  using assms by (auto simp: es_unsubscribe_def split: if_splits option.splits)

lemma subscribe_hook_set:
  assumes "jm_get (es_subscribers (subscribe_hook r tys s)) ty = Some hs" and "h \<in> set hs"
  shows "(\<exists>k. h = Hook r k) \<or> (\<exists>hs'. jm_get (es_subscribers s) ty = Some hs' \<and> h \<in> set hs')"
proof -
  have "jm_get (es_subscribers (fold (\<lambda>(k, ty). es_subscribe ty (Hook r k)) xs s)) ty = Some hs \<Longrightarrow> h \<in> set hs \<Longrightarrow>
      (\<exists>k. h = Hook r k) \<or> (\<exists>hs'. jm_get (es_subscribers s) ty = Some hs' \<and> h \<in> set hs')" for xs
  proof (induction xs arbitrary: s)
    case (Cons x xs)
    obtain k ty' where x: "x = (k, ty')" by (cases x)
    from Cons.IH [of "es_subscribe ty' (Hook r k) s"] Cons.prems subscribe_set [of ty' "Hook r k" s ty _ h] show ?case
      by (fastforce simp: x)
  qed auto
  with assms show ?thesis unfolding subscribe_hook_def by blast
qed

lemma create_ok:
  assumes "wh_ok m"
  shows "wh_ok (fst (wm_create now random c m))"
proof -
  let ?m = "fst (wm_create now random c m)"
  have objs: "\<exists>w. wm_objects ?m = wm_objects m @ [w] \<and> wh_stats w = zero_stats \<and>
      wm_webhooks ?m = jm_set (wh_id w) (length (wm_objects m)) (wm_webhooks m)"
    by (simp add: wm_create_def Let_def WebhookConfig.defs WebhookRegistration.defs)
  then obtain w where w: "wm_objects ?m = wm_objects m @ [w]" "wh_stats w = zero_stats"
    "wm_webhooks ?m = jm_set (wh_id w) (length (wm_objects m)) (wm_webhooks m)" by blast
  have hooks: "i < Suc (length (wm_objects m)) \<and> wh_id ((wm_objects m @ [w]) ! i) = k"
    if "jm_get (jm_set (wh_id w) (length (wm_objects m)) (wm_webhooks m)) k = Some i" for k i
    using that wh_ok_hook [OF assms, of k i] by (auto simp: nth_append split: if_splits)
  have stats: "stats_ok (wh_stats ((wm_objects m @ [w]) ! r))" if "r < Suc (length (wm_objects m))" for r
    using that assms w(2) by (auto simp: nth_append wh_ok_def stats_ok_def zero_stats_def less_Suc_eq)
  have subs: "r < Suc (length (wm_objects m))"
    if "jm_get (es_subscribers (wm_eventStream ?m)) ty = Some hs" "Hook r k \<in> set hs" for ty hs r k
    using subscribe_hook_set [of "length (wm_objects m)" _ "wm_eventStream m" ty hs "Hook r k"] that
      wh_ok_hooks [OF assms] by (fastforce simp: wm_create_def Let_def)
  have rest: "wm_deliveryLog ?m = wm_deliveryLog m" "wm_timers ?m = wm_timers m" "wm_deadLetterQueue ?m = wm_deadLetterQueue m"
    by (simp_all add: wm_create_def Let_def)
  show ?thesis
    unfolding wh_ok_def w(1,3) rest using hooks stats subs assms
    by (auto simp: wh_ok_def less_Suc_eq)
qed

lemma map_object_ok:
  assumes "wh_ok m" and "\<And>w. wh_id (f w) = wh_id w" and "\<And>w. stats_ok (wh_stats w) \<Longrightarrow> stats_ok (wh_stats (f w))"
  shows "wh_ok (map_object r f m)"
  using assms by (simp add: wh_ok_def map_object_nth)

lemma update_ok: "wh_ok m \<Longrightarrow> wh_ok (fst (wm_update now i u m))"
proof -
  assume m: "wh_ok m"
  have 1: "wh_ok (map_object r (assign_updates now u) m)" for r
    by (rule map_object_ok [OF m]) (simp_all add: assign_updates_def)
  show ?thesis
  proof (cases "jm_get (wm_webhooks m) i")
    case (Some r)
    let ?m1 = "map_object r (assign_updates now u) m"
    from wh_ok_hook [OF 1 [of r], of i r] Some have "r < length (wm_objects ?m1) \<and> wh_id (wm_objects ?m1 ! r) = i" by simp
    with 1 [of r] show ?thesis by (auto simp: wm_update_def Let_def Some wh_ok_def)
  qed (simp add: wm_update_def m)
qed

lemma resume_ok: "wh_ok m \<Longrightarrow> wh_ok (fst (wm_resume now i m))"
  using map_object_ok [of m "\<lambda>w. w\<lparr>wh_status := wh_active, wh_updatedAt := now, wh_stats := (wh_stats w)\<lparr>ws_consecutiveFailures := 0\<rparr>\<rparr>"]
  by (simp add: wm_resume_def Let_def split: option.split) (simp add: wh_ok_def stats_ok_def)

lemma retryDead_ok: "wh_ok m \<Longrightarrow> wh_ok (fst (wm_retryDeadLetter d a m))"
proof -
  assume m: "wh_ok m"
  have "wh_ok (m\<lparr>wm_deadLetterQueue := take i (wm_deadLetterQueue m) @ drop (Suc i) (wm_deadLetterQueue m)\<rparr>)" for i
    using m by (auto simp: wh_ok_def dest: in_set_takeD in_set_dropD)
  with m show ?thesis by (simp add: wm_retryDeadLetter_def Let_def deliver_ok split: option.split)
qed

lemma apply_ok:
  assumes "wh_ok m"
  shows "wh_ok (wh_apply H react op m)"
proof (cases op)
  case (Subscribe ty h)
  have "r < length (wm_objects m)"
    if "jm_get (es_subscribers (es_subscribe ty (Outside h) (wm_eventStream m))) ty' = Some hs" "Hook r k \<in> set hs" for ty' hs r k
    using subscribe_set [OF that] wh_ok_hooks [OF assms] by blast
  then show ?thesis unfolding Subscribe wh_apply.simps map_stream_def by (rule wh_ok_stream [OF assms])
next
  case (Unsubscribe ty h)
  have "r < length (wm_objects m)"
    if "jm_get (es_subscribers (es_unsubscribe ty (Outside h) (wm_eventStream m))) ty' = Some hs" "Hook r k \<in> set hs" for ty' hs r k
    using unsubscribe_set [OF that] wh_ok_hooks [OF assms] by blast
  then show ?thesis unfolding Unsubscribe wh_apply.simps map_stream_def by (rule wh_ok_stream [OF assms])
next
  case (DeleteHook now i)
  with assms show ?thesis by (auto simp: wm_delete_def wh_ok_def split: option.split)
next
  case (PauseHook now i)
  with assms show ?thesis by (auto simp: wm_pause_def intro!: map_object_ok split: option.split)
next
  case (PurgeDead i)
  with assms show ?thesis by (auto simp: wm_purgeDeadLetterQueue_def Let_def wh_ok_def)
qed (use assms in \<open>auto simp: publish_ok create_ok update_ok resume_ok deliver_ok timer_ok retryDead_ok map_stream_def
      es_pause_def es_resume_def es_close_def es_on_def es_off_def Let_def intro!: wh_ok_stream dest: wh_ok_hooks\<close>,
    simp_all add: wh_ok_def wm_on_def wm_off_def)

lemma run_ok: "wh_ok m \<Longrightarrow> wh_ok (wh_run H react ops m)"
  unfolding wh_run_def by (induction ops arbitrary: m) (simp_all add: apply_ok)

lemma new_ok: "wh_ok (new_WebhookManager (new_EventStream a b))"
  by (simp add: wh_ok_def new_WebhookManager_def new_EventStream_def)

definition circuit_admits :: "delivery_draw \<Rightarrow> string \<Rightarrow> 'h WebhookManager \<Rightarrow> bool" where
  "circuit_admits d i m =
     (case jm_get (wm_circuitState m) i of None \<Rightarrow> True | Some c \<Rightarrow> \<not> (ci_open c \<and> dd_start d < ci_halfOpenAt c))"

lemma deliver_admitted:
  "jm_get (wm_webhooks m) i = Some r \<Longrightarrow> circuit_admits d i m \<Longrightarrow>
   fst (wm_deliver d i e m) = fst (attemptDelivery d r e 1 m)"
  by (auto simp: wm_deliver_def circuit_admits_def Let_def split: option.splits prod.split)

text \<open>The attempt a delivery makes of itself while the circuit is open, and the log that holds it.\<close>

abbreviation refused_attempt :: "delivery_draw \<Rightarrow> string \<Rightarrow> StreamEvent \<Rightarrow> DeliveryAttempt" where
  "refused_attempt d i e \<equiv> new_attempt d i (ev_id e) dl_failed 0 1 (Some ''Circuit breaker open'') None"

lemma deliver_refused:
  "jm_get (wm_webhooks m) i = Some r \<Longrightarrow> \<not> circuit_admits d i m \<Longrightarrow>
   wm_deliver d i e m = (log_attempt (refused_attempt d i e) m, Inr (refused_attempt d i e))"
  by (auto simp: wm_deliver_def circuit_admits_def Let_def split: option.splits)

lemma retry_chain_idle: "length (wm_timers m) \<le> base \<Longrightarrow> retry_chain ds base k m = m"
  by (cases k) simp_all

text \<open>
  C33. Every delivery comes to an end. Hand an event to a registered webhook after any history, and let its retries
  fire one after the other. While the webhook's circuit is open the delivery is over at once: a failed attempt
  is logged and returned, and statistics, retries and dead letters are as before. Otherwise the event is attempted
  until an attempt succeeds, and at most \<open>maxAttempts\<close> times (but once in any case), and then no retry of it waits
  any more. If one of the attempts succeeds, the webhook counts one success more and the failures before it, and the dead
  letters are as before. If none does, exactly one dead letter is added, of this webhook and event and the last
  attempt; and if the failures in a row are five or more when the delivery dies, the webhook is in error and its circuit open.
\<close>

theorem delivery_ends:
  assumes "m = wh_run H react ops (new_WebhookManager (new_EventStream a b))"
    and "jm_get (wm_webhooks m) i = Some r"
    and "N = nat (max 1 (rc_maxAttempts (wh_retry (wm_objects m ! r))))"
    and "m' = retry_chain (\<lambda>k. ds (Suc k)) (length (wm_timers m)) (N - 1) (fst (wm_deliver (ds 0) i e m))"
  shows "if \<not> circuit_admits (ds 0) i m
    then m' = log_attempt (refused_attempt (ds 0) i e) m \<and> snd (wm_deliver (ds 0) i e m) = Inr (refused_attempt (ds 0) i e)
    else wm_timers m' = wm_timers m \<and>
      ws_failedDeliveries (stats_of r m') = ws_failedDeliveries (stats_of r m) + failures_before ds N \<and>
      (if failures_before ds N < N
       then wm_deadLetterQueue m' = wm_deadLetterQueue m \<and>
            ws_successfulDeliveries (stats_of r m') = Suc (ws_successfulDeliveries (stats_of r m))
       else ws_successfulDeliveries (stats_of r m') = ws_successfulDeliveries (stats_of r m) \<and>
            (\<exists>a. wm_deadLetterQueue m' = wm_deadLetterQueue m @ [a] \<and> da_status a = dl_dead_letter \<and>
                 da_webhookId a = i \<and> da_eventId a = ev_id e \<and> da_attemptNumber a = N) \<and>
            (5 \<le> ws_consecutiveFailures (stats_of r m) + N \<longrightarrow>
               wh_status (wm_objects m' ! r) = wh_error \<and> circuit_open i m'))"
proof (cases "circuit_admits (ds 0) i m")
  case False
  have "wm_timers (log_attempt x m) = wm_timers m" for x by (simp add: log_attempt_def Let_def)
  with False show ?thesis using assms(4) deliver_refused [OF assms(2) False] by (simp add: retry_chain_idle)
next
  case True
  have r: "r < length (wm_objects m)" "wh_id (wm_objects m ! r) = i"
    using wh_ok_hook [OF run_ok [OF new_ok] assms(2)[unfolded assms(1)]] assms(1) by simp_all
  have cnt: "Suc (N - 1) = (if int 1 < rc_maxAttempts (wh_retry (wm_objects m ! r))
      then Suc (nat (rc_maxAttempts (wh_retry (wm_objects m ! r)) - int 1)) else 1)"
    and N: "Suc (N - 1) = N" "1 + (N - 1) = N"
    using assms(3) by auto
  have m': "m' = retry_chain (\<lambda>k. ds (Suc k)) (length (wm_timers m)) (N - 1) (fst (attemptDelivery (ds 0) r e 1 m))"
    using assms(4) deliver_admitted [OF assms(2) True] by simp
  from chain_outcome [OF r(1) cnt m'] True show ?thesis unfolding N delivered_or_dead_def r(2)
    by (cases "failures_before ds N < N") (simp, metis)
qed

section \<open>Webhooks that get nothing any more\<close>

definition ids :: "'h WebhookManager \<Rightarrow> string list" where
  "ids m = map wh_id (wm_objects m)"

lemma ids_map_object: "(\<And>w. wh_id (f w) = wh_id w) \<Longrightarrow> ids (map_object r f m) = ids m"
  by (rule nth_equalityI) (simp_all add: ids_def map_object_nth)

lemma ids_attempt [simp]: "ids (fst (attemptDelivery d r e n m)) = ids m"
  by (rule nth_equalityI) (simp_all add: ids_def attempt_object)

lemma ids_deliver [simp]: "ids (fst (wm_deliver d i e m)) = ids m"
  using deliver_cases [of m i d e] ids_attempt [of d _ e 1 m] by (auto simp: ids_def)

lemma ids_fields:
  "wm_objects m' = wm_objects m \<Longrightarrow> ids m' = ids m"
  by (simp add: ids_def)

lemma attempt_other:
  assumes "wh_ok m" and "distinct (ids m)" and "k < length (wm_objects m)" and "k \<noteq> r" and "r < length (wm_objects m)"
  shows "wm_objects (fst (attemptDelivery d r e n m)) ! k = wm_objects m ! k"
proof -
  have "x \<noteq> k" if "jm_get (wm_webhooks m) (wh_id (wm_objects m ! r)) = Some x" for x
    using wh_ok_hook [OF assms(1) that] assms(2-5) by (auto simp: ids_def distinct_conv_nth)
  then show ?thesis using assms(3,4,5)
    by (auto simp: attemptDelivery_def Let_def updateStats_def map_object_nth checkCircuitBreaker_def
        resetCircuitBreaker_def split: option.split)
qed

text \<open>Object \<open>r\<close> is out of service: not active or not registered, and no retry waits for it.\<close>

definition out_of_service :: "nat \<Rightarrow> 'h WebhookManager \<Rightarrow> bool" where
  "out_of_service r m \<longleftrightarrow> r < length (wm_objects m) \<and>
     (wh_status (wm_objects m ! r) \<noteq> wh_active \<or> jm_get (wm_webhooks m) (wh_id (wm_objects m ! r)) = None) \<and>
     (\<forall>t \<in> set (wm_timers m). tm_hook t \<noteq> r)"

definition still :: "nat \<Rightarrow> WebhookRegistration \<Rightarrow> 'h WebhookManager \<Rightarrow> bool" where
  "still r w m \<longleftrightarrow> wh_ok m \<and> distinct (ids m) \<and> out_of_service r m \<and>
     wh_stats (wm_objects m ! r) = wh_stats w \<and> wh_id (wm_objects m ! r) = wh_id w"

lemma still_attempt:
  assumes "still r w m" and "r' \<noteq> r" and "r' < length (wm_objects m)"
  shows "still r w (fst (attemptDelivery d r' e n m))"
proof -
  have "wm_objects (fst (attemptDelivery d r' e n m)) ! r = wm_objects m ! r"
    using assms by (intro attempt_other) (auto simp: still_def out_of_service_def)
  with assms attempt_lists(1) [of d r' e n m] show ?thesis
    by (auto simp: still_def out_of_service_def attempt_ok)
qed

lemma still_same:
  "still r w m \<Longrightarrow> wh_ok m' \<Longrightarrow> wm_objects m' = wm_objects m \<Longrightarrow>
   (\<And>k. jm_get (wm_webhooks m) k = None \<Longrightarrow> jm_get (wm_webhooks m') k = None) \<Longrightarrow> set (wm_timers m') \<subseteq> set (wm_timers m) \<Longrightarrow> still r w m'"
  unfolding still_def out_of_service_def ids_def by auto

lemma still_ok: "still r w m \<Longrightarrow> wh_ok m"
  by (simp add: still_def)

lemma still_log: "still r w m \<Longrightarrow> still r w (log_attempt a m)"
  using still_same [of r w m "log_attempt a m"] wh_ok_log [of m a] still_ok [of r w m] by simp

lemma still_deliver:
  assumes "still r w m" and "i \<noteq> wh_id w \<or> jm_get (wm_webhooks m) i = None"
  shows "still r w (fst (wm_deliver d i e m))"
proof (cases "jm_get (wm_webhooks m) i")
  case None
  with assms show ?thesis by (simp add: wm_deliver_def)
next
  case (Some r')
  with assms wh_ok_hook [of m i r'] have "r' \<noteq> r" "r' < length (wm_objects m)" by (auto simp: still_def)
  with assms(1) deliver_cases [of m i d e] Some show ?thesis by (auto intro: still_attempt still_log)
qed

lemma still_subscriber:
  assumes "still r w m" and "\<And>r' k. h = Hook r' k \<Longrightarrow> r' < length (wm_objects m)"
  shows "still r w (fst (run_subscriber H react ds k h e m))"
proof (cases h)
  case (Hook r' k')
  show ?thesis
  proof (cases "r' = r")
    case True
    from assms(1) have "wh_status (wm_objects m ! r) \<noteq> wh_active \<or> fst (wm_deliver d (wh_id (wm_objects m ! r)) e m) = m" for d
      by (auto simp: still_def out_of_service_def wm_deliver_def)
    with True assms(1) show ?thesis by (auto simp: Hook Let_def)
  next
    case False
    moreover have "r' < length (ids m)" "r < length (ids m)" "distinct (ids m)"
      using assms by (auto simp: Hook still_def ids_def out_of_service_def)
    ultimately have "ids m ! r' \<noteq> ids m ! r" by (simp add: nth_eq_iff_index_eq)
    with assms have "wh_id (wm_objects m ! r') \<noteq> wh_id w"
      by (simp add: Hook still_def ids_def out_of_service_def)
    with assms(1) show ?thesis by (simp add: Hook Let_def still_deliver)
  qed
next
  case (Outside x)
  with still_same [OF assms(1), of "m\<lparr>wm_called := wm_called m @ [(x, e)]\<rparr>"] assms(1) show ?thesis
    by (simp add: wh_ok_called still_ok)
qed

lemma still_call:
  "still r w m \<Longrightarrow> (\<And>r' k. Hook r' k \<in> set hs \<Longrightarrow> r' < length (wm_objects m)) \<Longrightarrow>
   still r w (fst (call_subscribers (run_subscriber H react ds) e k hs m))"
proof (induction hs arbitrary: k m)
  case (Cons h hs)
  obtain m1 x where rs: "run_subscriber H react ds k h e m = (m1, x)" by fastforce
  have "still r w (fst (run_subscriber H react ds k h e m))"
    by (rule still_subscriber [OF Cons.prems(1)]) (use Cons.prems(2) in auto)
  then have s: "still r w m1" by (simp add: rs)
  moreover from run_subscriber_frame(2) [of H react ds k h e m] rs have "length (wm_objects m1) = length (wm_objects m)" by simp
  ultimately have "still r w (fst (call_subscribers (run_subscriber H react ds) e (Suc k) hs m1))"
    using Cons.IH [OF s] Cons.prems(2) by (metis list.set_intros(2))
  with s show ?case by (simp add: rs split: option.split)
qed simp

lemma all_subscribers_set:
  assumes "h \<in> set (all_subscribers ty s)"
  shows "\<exists>ty hs. jm_get (es_subscribers s) ty = Some hs \<and> h \<in> set hs"
proof -
  have "set (fold set_add xs ys) = set xs \<union> set ys" for xs ys :: "'a list"
    by (induction xs arbitrary: ys) (auto simp: set_add_def)
  with assms have "h \<in> set (dflt (jm_get (es_subscribers s) ty) []) \<or> h \<in> set (dflt (jm_get (es_subscribers s) ''*'') [])"
    by (auto simp: all_subscribers_def Let_def)
  moreover have "x \<in> set (dflt v []) \<Longrightarrow> \<exists>hs. v = Some hs \<and> x \<in> set hs" for x :: 'a and v
    by (cases v) (simp_all add: dflt_def)
  ultimately show ?thesis by blast
qed

lemma still_publish: "still r w m \<Longrightarrow> still r w (fst (wm_publish H react ds now random ty source data p m))"
proof -
  assume m: "still r w m"
  have "r' < length (wm_objects m)" if "Hook r' k \<in> set (all_subscribers ty (wm_eventStream m))" for r' k
    using all_subscribers_set [OF that] wh_ok_hooks m by (auto simp: still_def)
  then have c: "still r w (fst (call_subscribers (run_subscriber H react ds)
        (new_event now random ty source data p (Suc (es_sequenceCounter (wm_eventStream m)))) 0
        (all_subscribers ty (wm_eventStream m)) m))" by (rule still_call [OF m])
  show ?thesis
  proof (cases "es_status (wm_eventStream m) = st_closed")
    case False
    show ?thesis
      by (rule still_same [OF c publish_ok [OF still_ok [OF m]]]) (simp_all add: publish_world False)
  qed (simp add: publish_world m)
qed

text \<open>
  The operations of a history that do not take webhook \<open>i\<close> back into service: no resume of it, no direct
  delivery to it, no retry of dead letters; the identifiers of new webhooks are new.
\<close>

fun leaves_alone :: "string \<Rightarrow> 'h wh_op \<Rightarrow> 'h WebhookManager \<Rightarrow> bool" where
  "leaves_alone i (CreateHook now random c) m = (''wh_'' @ int_str now @ ''_'' @ random \<notin> set (ids m))"
| "leaves_alone i (ResumeHook now j) m = (j \<noteq> i)"
| "leaves_alone i (Deliver d j e) m = (j \<noteq> i)"
| "leaves_alone i (RetryDead d a) m = False"
| "leaves_alone i _ m = True"

fun new_ids :: "'h wh_op \<Rightarrow> 'h WebhookManager \<Rightarrow> bool" where
  "new_ids (CreateHook now random c) m = (''wh_'' @ int_str now @ ''_'' @ random \<notin> set (ids m))"
| "new_ids _ m = True"

inductive wh_steps ::
  "dc_host \<Rightarrow> ('h \<Rightarrow> StreamEvent \<Rightarrow> string option) \<Rightarrow> ('h wh_op \<Rightarrow> 'h WebhookManager \<Rightarrow> bool) \<Rightarrow>
     'h WebhookManager \<Rightarrow> 'h WebhookManager \<Rightarrow> bool"
  for H and react and allowed where
  none: "wh_steps H react allowed m m"
| step: "wh_steps H react allowed m m1 \<Longrightarrow> allowed op m1 \<Longrightarrow> wh_steps H react allowed m (wh_apply H react op m1)"


lemma map_update_same: "(map f xs)[k := f (xs ! k)] = map f xs"
  by (metis length_map list_update_beyond list_update_id not_less nth_map)

lemma ids_apply:
  "ids (wh_apply H react op m) =
     (case op of CreateHook now random c \<Rightarrow> ids m @ [''wh_'' @ int_str now @ ''_'' @ random] | _ \<Rightarrow> ids m)"
proof (cases op)
  case (Publish ds now random ty source data p)
  have "ids (fst (run_subscriber H react ds k h e m)) = ids m" for k h e and m :: "'a WebhookManager"
    by (cases h) (simp_all add: Let_def, simp add: ids_def)
  then have "ids (fst (call_subscribers (run_subscriber H react ds) e k hs m)) = ids m" for e k hs
    by (induction hs arbitrary: k m) (simp, simp split: prod.split option.split, metis fst_conv)
  then show ?thesis by (simp add: Publish publish_world ids_def)
next
  case (UpdateHook now i u)
  then show ?thesis
    by (simp add: wm_update_def Let_def split: option.split) (simp add: ids_def map_object_def map_update map_update_same assign_updates_def)
next
  case (RetryDead d a)
  have "ids (m\<lparr>wm_deadLetterQueue := q\<rparr>) = ids m" for q by (simp add: ids_def)
  then show ?thesis by (simp add: RetryDead wm_retryDeadLetter_def Let_def split: option.split)
next
  case (Deliver d i e)
  then show ?thesis by simp
next
  case (RetryTimer d i)
  have "ids (m\<lparr>wm_timers := ts\<rparr>) = ids m" for ts by (simp add: ids_def)
  then show ?thesis by (simp add: RetryTimer wm_retry_timer_def Let_def)
qed (simp_all add: ids_def map_stream_def wm_create_def wm_delete_def wm_pause_def wm_resume_def map_object_def map_update
      map_update_same wm_purgeDeadLetterQueue_def wm_on_def wm_off_def Let_def WebhookConfig.defs WebhookRegistration.defs
      split: option.split)


lemma steps_ok:
  "wh_steps H react new_ids m m' \<Longrightarrow> wh_ok m \<Longrightarrow> distinct (ids m) \<Longrightarrow> wh_ok m' \<and> distinct (ids m')"
proof (induction rule: wh_steps.induct)
  case (step m m1 op)
  then have "distinct (ids (wh_apply H react op m1))" unfolding ids_apply by (cases op) simp_all
  with step show ?case by (simp add: apply_ok)
qed simp

lemma still_object:
  assumes "still r w m" and "\<And>v. wh_id (f v) = wh_id v" and "\<And>v. stats_ok (wh_stats v) \<Longrightarrow> stats_ok (wh_stats (f v))"
    and "r' = r \<Longrightarrow> wh_stats (f (wm_objects m ! r)) = wh_stats (wm_objects m ! r) \<and>
      (wh_status (f (wm_objects m ! r)) = wh_active \<longrightarrow> wh_status (wm_objects m ! r) = wh_active)"
  shows "still r w (map_object r' f m)"
  using assms map_object_ok [of m f r'] ids_map_object [of f r' m]
  by (auto simp: still_def out_of_service_def map_object_nth)

lemma still_create:
  assumes m: "still r w m" and fresh: "''wh_'' @ int_str now @ ''_'' @ random \<notin> set (ids m)"
  shows "still r w (fst (wm_create now random c m))"
proof -
  let ?m = "fst (wm_create now random c m)" and ?i = "''wh_'' @ int_str now @ ''_'' @ random"
  have "\<exists>v. wm_objects ?m = wm_objects m @ [v]" and "wm_webhooks ?m = jm_set ?i (length (wm_objects m)) (wm_webhooks m)"
    and "wm_timers ?m = wm_timers m"
    by (simp_all add: wm_create_def Let_def WebhookConfig.defs WebhookRegistration.defs)
  then obtain v where v: "wm_objects ?m = wm_objects m @ [v]"
    "wm_webhooks ?m = jm_set ?i (length (wm_objects m)) (wm_webhooks m)" "wm_timers ?m = wm_timers m" by blast
  have "ids m ! r \<in> set (ids m)" "ids m ! r = wh_id (wm_objects m ! r)"
    using m nth_mem [of r "ids m"] by (auto simp: still_def out_of_service_def ids_def)
  with fresh have "wh_id (wm_objects m ! r) \<noteq> ?i" by metis
  moreover have "distinct (ids ?m)"
    using ids_apply [of H react "CreateHook now random c" m for H react] m fresh by (simp add: still_def)
  moreover have "wh_ok ?m" using m by (simp add: create_ok still_ok)
  ultimately show ?thesis using m by (auto simp: still_def out_of_service_def v nth_append)
qed

lemma still_apply:
  assumes m: "still r w m" and ok: "leaves_alone (wh_id w) op m"
  shows "still r w (wh_apply H react op m)"
proof -
  note same = still_same [OF m apply_ok [OF still_ok [OF m]]]
  show ?thesis
  proof (cases op)
    case (Publish ds now random ty source data p)
    then show ?thesis by (simp add: still_publish m)
  next
    case (CreateHook now random c)
    with ok show ?thesis by (simp add: still_create m)
  next
    case (UpdateHook now i u)
    show ?thesis
    proof (cases "jm_get (wm_webhooks m) i")
      case (Some r')
      let ?m1 = "map_object r' (assign_updates now u) m"
      have m1: "still r w ?m1" by (rule still_object [OF m]) (simp_all add: assign_updates_def)
      show ?thesis
        by (rule still_same [OF m1 apply_ok [OF still_ok [OF m]]]) (auto simp: UpdateHook wm_update_def Some Let_def)
    qed (simp add: UpdateHook wm_update_def m)
  next
    case (DeleteHook now i)
    show ?thesis by (rule same) (simp_all add: DeleteHook wm_delete_def split: option.split)
  next
    case (PauseHook now i)
    then show ?thesis by (auto simp: wm_pause_def m intro!: still_object split: option.split)
  next
    case (ResumeHook now i)
    show ?thesis
    proof (cases "jm_get (wm_webhooks m) i")
      case (Some r')
      with ok ResumeHook wh_ok_hook [OF still_ok [OF m] Some] m have "r' \<noteq> r" by (auto simp: still_def)
      then have "still r w (map_object r' (\<lambda>w. w\<lparr>wh_status := wh_active, wh_updatedAt := now,
          wh_stats := (wh_stats w)\<lparr>ws_consecutiveFailures := 0\<rparr>\<rparr>) m)"
        by (intro still_object [OF m]) (simp_all add: stats_ok_def)
      from still_same [OF this apply_ok [OF still_ok [OF m], of H react op]] show ?thesis
        by (simp add: ResumeHook wm_resume_def Some Let_def)
    qed (simp add: ResumeHook wm_resume_def m)
  next
    case (Deliver d i e)
    with ok show ?thesis by (simp add: still_deliver m)
  next
    case (RetryTimer d k)
    show ?thesis
    proof (cases "k < length (wm_timers m)")
      case True
      let ?m1 = "m\<lparr>wm_timers := take k (wm_timers m) @ drop (Suc k) (wm_timers m)\<rparr>"
      have "set (wm_timers ?m1) \<subseteq> set (wm_timers m)" by (auto dest: in_set_takeD in_set_dropD)
      moreover from this have "wh_ok ?m1" using still_ok [OF m] by (auto simp: wh_ok_def)
      ultimately have "still r w ?m1" using still_same [OF m, of ?m1] by simp
      moreover have "tm_hook (wm_timers m ! k) \<noteq> r" "tm_hook (wm_timers m ! k) < length (wm_objects ?m1)"
        using m True by (simp_all add: still_def out_of_service_def wh_ok_def)
      ultimately show ?thesis using True by (simp add: RetryTimer wm_retry_timer_def Let_def still_attempt)
    qed (simp add: RetryTimer wm_retry_timer_def m)
  next
    case (RetryDead d a)
    with ok show ?thesis by simp
  next
    case (PurgeDead i)
    show ?thesis by (rule same) (simp_all add: PurgeDead wm_purgeDeadLetterQueue_def Let_def)
  qed (rule same; simp add: map_stream_def wm_on_def wm_off_def)+
qed

lemma steps_still:
  "wh_steps H react (leaves_alone (wh_id w)) m m' \<Longrightarrow> still r w m \<Longrightarrow> still r w m'"
proof (induction rule: wh_steps.induct)
  case (step m m1 op)
  then show ?case by (simp add: still_apply)
qed simp

text \<open>
  C34. A circuit that has opened stays open. A webhook in error, paused or deleted, for which no retry waits,
  gets nothing in any further history, however long it is and whatever is published, unless it is resumed or an
  event is delivered to it directly: nothing is attempted, and it stays out of service. In particular the trial
  after a minute that the circuit breaker provides for is never made by the stream, since its subscription skips
  every webhook that is not active.
\<close>

theorem open_circuit_stays:
  assumes "wh_steps H react new_ids (new_WebhookManager (new_EventStream a b)) m"
    and "out_of_service r m" and "wh_steps H react (leaves_alone (wh_id (wm_objects m ! r))) m m'"
  shows "out_of_service r m' \<and> stats_of r m' = stats_of r m"
proof -
  have "wh_ok m \<and> distinct (ids m)"
    by (rule steps_ok [OF assms(1) new_ok]) (simp add: ids_def new_WebhookManager_def)
  with assms(2) have "still r (wm_objects m ! r) m" by (simp add: still_def)
  from steps_still [OF assms(3) this] show ?thesis by (simp add: still_def)
qed

text \<open>Direct deliveries and retries do make the trial, and success takes the webhook back into service.\<close>

lemma trial_closes_circuit:
  assumes "jm_get (wm_webhooks m) i = Some r" and "r < length (wm_objects m)" and "wh_id (wm_objects m ! r) = i"
    and "circuit_open i m" and "circuit_admits d i m" and "lucky d"
  shows "\<not> circuit_open i (fst (wm_deliver d i e m)) \<and>
    wh_status (wm_objects (fst (wm_deliver d i e m)) ! r) = wh_active"
proof -
  have "circuit_open i (updateStats d r True l (log_attempt a m))" for l a
    using assms(4) by (simp add: circuit_open_def)
  then show ?thesis using assms
    by (simp add: deliver_admitted attemptDelivery_def Let_def resetCircuitBreaker_def)
      (simp add: circuit_open_def map_object_nth updateStats_def)
qed

section \<open>Concrete histories\<close>

definition host0 :: dc_host where
  "host0 = \<lparr>ho_text = (\<lambda>v. ''x''), ho_number = (\<lambda>v. None), ho_regex = (\<lambda>p s. None)\<rparr>"

definition hook0 :: "int \<Rightarrow> WebhookConfig" where
  "hook0 attempts =
     \<lparr>wh_name = ''n'', wh_url = ''u'', wh_verb = verb_POST, wh_eventTypes = [''t''], wh_filter = None, wh_secret = ''s'',
      wh_headers = [], wh_retry = \<lparr>rc_maxAttempts = attempts, rc_initialDelayMs = 1000, rc_maxDelayMs = 5000,
        rc_backoffMultiplier = 2, rc_jitter = False\<rparr>, wh_rateLimit = (1, 1), wh_ownerId = ''o''\<rparr>"

definition draw0 :: "bool \<Rightarrow> delivery_draw" where
  "draw0 ok = \<lparr>dd_start = 0, dd_now = 1, dd_random = (if ok then 1 / 2 else 0), dd_text = ''x'', dd_jitter = 0\<rparr>"

definition meta0 :: partial_metadata where
  "meta0 = \<lparr>pm_correlationId = None, pm_causationId = None, pm_partitionKey = None, pm_schemaVersion = None,
     pm_contentType = None\<rparr>"

definition event0 :: StreamEvent where
  "event0 = new_event 1 ''x'' ''t'' ''s'' JUndef meta0 1"

abbreviation publish0 :: "bool \<Rightarrow> int \<Rightarrow> unit wh_op" where
  "publish0 ok now \<equiv> Publish (\<lambda>k. draw0 ok) now ''x'' ''t'' ''s'' JUndef meta0"

abbreviation run0 :: "unit wh_op list \<Rightarrow> unit WebhookManager" where
  "run0 ops \<equiv> wh_run host0 (\<lambda>h e. None) ops (new_WebhookManager (new_EventStream (Some 3) (Some 2)))"

theorem stream_refines_log_witness:
  "es_replay (replay_from 2) (wm_eventStream (run0 [publish0 True 1, publish0 True 2, publish0 True 3, publish0 True 4])) =
     drop 1 (sl_events (log_of [publish0 True 1, publish0 True 2, publish0 True 3, publish0 True 4]))"
  using stream_refines_log [of "Some 3" _ host0 "\<lambda>h e. None" "[publish0 True 1, publish0 True 2, publish0 True 3, publish0 True 4]" "Some 2" _ _ 2,
      OF _ refl refl refl]
  by (simp add: num_or_def log_of_def)

lemmas hook_state = wh_run_def wm_create_def new_WebhookManager_def new_EventStream_def num_or_def subscribe_hook_def
  es_subscribe_def set_add_def dflt_def wm_emit_def hook_notify_def subscribers_def eb_set_def new_EventBus_def
  WebhookConfig.defs WebhookRegistration.defs Let_def jm_set_def hook0_def

lemma hook0_state:
  "jm_get (wm_webhooks (run0 [CreateHook 0 ''a'' (hook0 n)])) ''wh_0_a'' = Some 0"
  "wm_timers (run0 [CreateHook 0 ''a'' (hook0 n)]) = []" "wm_deadLetterQueue (run0 [CreateHook 0 ''a'' (hook0 n)]) = []"
  "rc_maxAttempts (wh_retry (wm_objects (run0 [CreateHook 0 ''a'' (hook0 n)]) ! 0)) = n"
  "stats_of 0 (run0 [CreateHook 0 ''a'' (hook0 n)]) = zero_stats"
  "wm_circuitState (run0 [CreateHook 0 ''a'' (hook0 n)]) = []"
  "circuit_admits d i (run0 [CreateHook 0 ''a'' (hook0 n)])"
proof -
  have z: "int_str 0 = ''0''" by code_simp
  show "jm_get (wm_webhooks (run0 [CreateHook 0 ''a'' (hook0 n)])) ''wh_0_a'' = Some 0"
    by (simp add: hook_state z jm_get_def)
qed (simp_all add: hook_state circuit_admits_def)

theorem delivery_ends_witness:
  "let m = run0 [CreateHook 0 ''a'' (hook0 3)];
       m' = retry_chain (\<lambda>k. draw0 (1 \<le> k)) 0 2 (fst (wm_deliver (draw0 False) ''wh_0_a'' event0 m))
   in wm_timers m' = [] \<and> wm_deadLetterQueue m' = [] \<and> ws_failedDeliveries (stats_of 0 m') = 2 \<and>
      ws_successfulDeliveries (stats_of 0 m') = 1"
proof -
  let ?m = "run0 [CreateHook 0 ''a'' (hook0 3)]"
  let ?ds = "\<lambda>k. draw0 (2 \<le> k)"
  have f: "failures_before ?ds 3 = 2"
    by (simp add: failures_before_def upt_rec draw0_def)
  have ds: "(\<lambda>k. ?ds (Suc k)) = (\<lambda>k. draw0 (1 \<le> k))" by (rule ext) simp
  have N: "3 = nat (max 1 (rc_maxAttempts (wh_retry (wm_objects ?m ! 0))))" by (simp add: hook0_state)
  from delivery_ends [where ds = ?ds and e = event0 and H = host0 and react = "\<lambda>h e. None" and
      ops = "[CreateHook 0 ''a'' (hook0 3)]" and a = "Some 3" and b = "Some 2",
      OF refl hook0_state(1) N refl]
  show ?thesis unfolding Let_def f ds by (simp add: hook0_state zero_stats_def)
qed

lemma one_step: "P op m \<Longrightarrow> wh_steps H react P m (wh_run H react [op] m)"
  using wh_steps.step [OF wh_steps.none, of P op m H react] by (simp add: wh_run_def)

lemma chain_steps: "wh_steps H react new_ids m m1 \<Longrightarrow> wh_steps H react new_ids m (retry_chain ds base k m1)"
proof (induction k arbitrary: m1 ds)
  case (Suc k)
  have "wh_steps H react new_ids m (wh_apply H react (RetryTimer (ds 0) (length (wm_timers m1) - 1)) m1)"
    by (rule wh_steps.step [OF Suc.prems]) simp
  with Suc show ?case by simp
qed simp

text \<open>Five failures in a row open the circuit of the webhook; a later publication is not delivered to it.\<close>

abbreviation broken :: "unit WebhookManager" where
  "broken \<equiv> retry_chain (\<lambda>k. draw0 False) 0 4
     (wh_run host0 (\<lambda>h e. None) [Deliver (draw0 False) ''wh_0_a'' event0] (run0 [CreateHook 0 ''a'' (hook0 5)]))"

lemma broken_state: "out_of_service 0 broken \<and> wh_status (wm_objects broken ! 0) = wh_error \<and>
   ws_failedDeliveries (stats_of 0 broken) = 5"
proof -
  let ?m = "run0 [CreateHook 0 ''a'' (hook0 5)]"
  have f: "failures_before (\<lambda>k. draw0 False) (Suc 4) = 5"
    by (simp add: failures_before_def upt_rec draw0_def)
  have l: "0 < length (wm_objects ?m)" by (simp add: hook_state)
  have c: "Suc 4 = (if int 1 < rc_maxAttempts (wh_retry (wm_objects ?m ! 0))
      then Suc (nat (rc_maxAttempts (wh_retry (wm_objects ?m ! 0)) - int 1)) else 1)" by (simp add: hook0_state)
  have b: "broken = retry_chain (\<lambda>i. draw0 False) (length (wm_timers ?m)) 4 (fst (attemptDelivery (draw0 False) 0 event0 1 ?m))"
    by (simp add: hook0_state wh_run_def [of _ _ "[Deliver _ _ _]"] deliver_admitted)
  have "length (wm_objects broken) = length (wm_objects ?m)"
  proof -
    have "length (wm_objects (retry_chain ds base k m)) = length (wm_objects m)" for ds base k and m :: "unit WebhookManager"
      by (induction k arbitrary: ds m) simp_all
    then show ?thesis by (simp add: wh_run_def [of _ _ "[Deliver _ _ _]"])
  qed
  with chain_outcome [OF l c b] show ?thesis unfolding f
    using l by (simp add: delivered_or_dead_def out_of_service_def hook0_state zero_stats_def)
qed

theorem open_circuit_stays_witness:
  "ws_failedDeliveries (stats_of 0 broken) = 5 \<and>
   stats_of 0 (wh_run host0 (\<lambda>h e. None) [publish0 True 1000000] broken) = stats_of 0 broken"
proof -
  have "wh_steps host0 (\<lambda>h e. None) new_ids (new_WebhookManager (new_EventStream (Some 3) (Some 2))) (run0 [CreateHook 0 ''a'' (hook0 5)])"
    by (rule one_step) (simp add: ids_def new_WebhookManager_def)
  then have "wh_steps host0 (\<lambda>h e. None) new_ids (new_WebhookManager (new_EventStream (Some 3) (Some 2)))
      (wh_apply host0 (\<lambda>h e. None) (Deliver (draw0 False) ''wh_0_a'' event0) (run0 [CreateHook 0 ''a'' (hook0 5)]))"
    by (rule wh_steps.step) simp
  then have 1: "wh_steps host0 (\<lambda>h e. None) new_ids (new_WebhookManager (new_EventStream (Some 3) (Some 2))) broken"
    by (simp add: wh_run_def [of _ _ "[Deliver _ _ _]"] chain_steps)
  have 2: "wh_steps host0 (\<lambda>h e. None) (leaves_alone i) broken (wh_run host0 (\<lambda>h e. None) [publish0 True 1000000] broken)" for i
    by (rule one_step) simp
  from open_circuit_stays [OF 1 _ 2] broken_state show ?thesis by simp
qed

end
