(* ===== verification/InfinityTypes.thy ===== *)
theory InfinityTypes
  imports Json JsMap
begin

text \<open>
  The data of the account hub: the types of \<open>packages/infinity-one/src/types.ts\<close> that the state of the
  service is made of. Dates are milliseconds, coordinates and scores of logins rationals. A property
  that may be missing is an option. The active sessions of a user are shared objects of the map of
  sessions and are kept by their identifiers.
\<close>

section \<open>Profile and contact\<close>

datatype Gender =
    G_MALE | G_FEMALE | G_NON_BINARY | G_GENDERFLUID | G_AGENDER | G_PREFER_NOT_TO_SAY | G_OTHER

record SocialLinks =
  sl_twitter :: "string option"
  sl_linkedin :: "string option"
  sl_github :: "string option"
  sl_instagram :: "string option"
  sl_facebook :: "string option"
  sl_youtube :: "string option"
  sl_tiktok :: "string option"
  sl_custom :: "(string \<times> string) list option"

record UserProfile =
  up_firstName :: string
  up_lastName :: string
  up_middleName :: "string option"
  up_displayName :: string
  up_username :: string
  up_photo :: "string option"
  up_photoThumbnail :: "string option"
  up_coverPhoto :: "string option"
  up_bio :: "string option"
  up_dateOfBirth :: "int option"
  up_gender :: Gender
  up_pronouns :: "string option"
  up_nationality :: "string option"
  up_languages :: "string list"
  up_occupation :: "string option"
  up_organisation :: "string option"
  up_website :: "string option"
  up_socialLinks :: "SocialLinks option"

record EmailAddress =
  em_address :: string
  em_verified :: bool
  em_primary :: bool
  em_label :: "string option"
  em_addedAt :: int

datatype phone_type = mobile_phone | home_phone | work_phone | other_phone

record PhoneNumber =
  pn_number :: string
  pn_verified :: bool
  pn_primary :: bool
  pn_type :: phone_type
  pn_label :: "string option"
  pn_addedAt :: int

datatype address_type = home_address | work_address | billing_address | shipping_address | other_address

record PostalAddress =
  pa_line1 :: string
  pa_line2 :: "string option"
  pa_city :: string
  pa_state :: "string option"
  pa_postalCode :: string
  pa_country :: string
  pa_type :: address_type
  pa_verified :: bool
  pa_primary :: bool

record ContactInfo =
  ct_email :: string
  ct_emailVerified :: bool
  ct_emailAlt :: "EmailAddress list"
  ct_phone :: "string option"
  ct_phoneVerified :: bool
  ct_phoneAlt :: "PhoneNumber list"
  ct_address :: "PostalAddress option"
  ct_addressAlt :: "PostalAddress list option"
  ct_timezone :: string
  ct_locale :: string

section \<open>Security profile\<close>

datatype RiskLevel = R_MINIMAL | R_LOW | R_MEDIUM | R_HIGH | R_CRITICAL

datatype MFAType =
    M_TOTP | M_WEBAUTHN | M_SMS | M_EMAIL | M_BACKUP_CODES | M_PUSH | M_BIOMETRIC | M_VOICE | M_NEURAL

primrec mfa_str :: "MFAType \<Rightarrow> string" where
  "mfa_str M_TOTP = ''totp''"
| "mfa_str M_WEBAUTHN = ''webauthn''"
| "mfa_str M_SMS = ''sms''"
| "mfa_str M_EMAIL = ''email''"
| "mfa_str M_BACKUP_CODES = ''backup_codes''"
| "mfa_str M_PUSH = ''push''"
| "mfa_str M_BIOMETRIC = ''biometric''"
| "mfa_str M_VOICE = ''voice''"
| "mfa_str M_NEURAL = ''neural''"

text \<open>What an enrolment hands out: the secret of an authenticator, a challenge (its bytes), a telephone
  number, an address, or nothing; a method written by a caller may carry anything.\<close>

datatype mfa_data =
    E_totp string
  | E_challenge "nat list"
  | E_sms "string option"
  | E_email string
  | E_nothing
  | E_given "(string \<times> jsval) list"

record MFAMethod =
  mm_id :: string
  mm_type :: MFAType
  mm_name :: string
  mm_enabled :: bool
  mm_primary :: bool
  mm_createdAt :: int
  mm_lastUsedAt :: "int option"
  mm_metadata :: mfa_data

datatype authenticator_type = platform_device | cross_platform_device

record WebAuthnCredential =
  wa_id :: string
  wa_credentialId :: string
  wa_publicKey :: string
  wa_counter :: int
  wa_deviceType :: authenticator_type
  wa_backedUp :: bool
  wa_transports :: "string list"
  wa_name :: string
  wa_createdAt :: int
  wa_lastUsedAt :: "int option"
  wa_aaguid :: string

record GeoLocation =
  gl_country :: string
  gl_region :: string
  gl_city :: string
  gl_latitude :: rat
  gl_longitude :: rat
  gl_accuracy :: rat

record Session =
  se_id :: string
  se_userId :: string
  se_deviceId :: string
  se_ipAddress :: string
  se_userAgent :: string
  se_location :: "GeoLocation option"
  se_createdAt :: int
  se_expiresAt :: int
  se_lastActiveAt :: int
  se_riskScore :: int
  se_mfaVerified :: bool
  se_scopes :: "string list"
  se_applicationId :: "string option"

record TrustedDevice =
  td_id :: string
  td_name :: string
  td_fingerprint :: string
  td_platform :: string
  td_browser :: "string option"
  td_ipAddress :: string
  td_location :: "GeoLocation option"
  td_trustedAt :: int
  td_expiresAt :: "int option"
  td_lastSeenAt :: int

record LoginAttempt =
  la_id :: string
  la_timestamp :: int
  la_ipAddress :: string
  la_userAgent :: string
  la_success :: bool
  la_failureReason :: "string option"
  la_mfaUsed :: "MFAType option"
  la_location :: "GeoLocation option"
  la_riskScore :: rat

datatype SecurityEventType =
    LOGIN_SUCCESS | LOGIN_FAILURE | MFA_ENABLED | MFA_DISABLED | PASSWORD_CHANGED | SUSPICIOUS_LOGIN
  | IMPOSSIBLE_TRAVEL | BRUTE_FORCE | ACCOUNT_LOCKED | PERMISSION_ESCALATION | DATA_EXPORT | LIGHTHOUSE_ALERT
  | WARP_TUNNEL_TRIGGERED

datatype event_severity = info_event | warning_event | critical_event

record SecurityEvent =
  sv_id :: string
  sv_type :: SecurityEventType
  sv_severity :: event_severity
  sv_description :: string
  sv_timestamp :: int
  sv_ipAddress :: "string option"
  sv_metadata :: "(string \<times> jsval) list"
  sv_resolved :: bool
  sv_resolvedAt :: "int option"

datatype recovery_type =
    recovery_email | recovery_phone | recovery_codes | trusted_contact | identity_verification

record RecoveryMethod =
  rm_id :: string
  rm_type :: recovery_type
  rm_value :: string
  rm_verified :: bool
  rm_addedAt :: int

record BiometricProfile =
  bp_fingerprintEnrolled :: bool
  bp_faceEnrolled :: bool
  bp_voiceEnrolled :: bool
  bp_irisEnrolled :: bool
  bp_neuralPatternEnrolled :: bool
  bp_lastUpdated :: int

record SecurityProfile =
  sp_passwordHash :: "string option"
  sp_passwordChangedAt :: "int option"
  sp_mfaEnabled :: bool
  sp_mfaMethods :: "MFAMethod list"
  sp_webauthnCredentials :: "WebAuthnCredential list"
  sp_activeSessions :: "string list"
  sp_trustedDevices :: "TrustedDevice list"
  sp_securityScore :: int
  sp_riskLevel :: RiskLevel
  sp_loginAttempts :: "LoginAttempt list"
  sp_securityEvents :: "SecurityEvent list"
  sp_recoveryMethods :: "RecoveryMethod list"
  sp_biometrics :: "BiometricProfile option"
  sp_quantumKeyId :: "string option"

section \<open>Policies, roles, groups, applications\<close>

datatype PolicyEffect = effect_allow | effect_deny

datatype ConditionOperator =
    STRING_EQUALS | STRING_NOT_EQUALS | STRING_LIKE | IP_ADDRESS | NOT_IP_ADDRESS | DATE_GREATER_THAN
  | DATE_LESS_THAN | BOOL | NULL | MFA_PRESENT | RISK_SCORE_LESS_THAN

record PolicyCondition =
  co_operator :: ConditionOperator
  co_key :: string
  co_values :: "string list"

record PolicyStatement =
  ps_sid :: string
  ps_effect :: PolicyEffect
  ps_principals :: "string list"
  ps_actions :: "string list"
  ps_resources :: "string list"
  ps_conditions :: "PolicyCondition list option"

record IAMPolicy =
  ip_id :: string
  ip_name :: string
  ip_description :: string
  ip_version :: string
  ip_statements :: "PolicyStatement list"
  ip_conditions :: "PolicyCondition list"
  ip_effect :: PolicyEffect
  ip_priority :: rat
  ip_enabled :: bool
  ip_createdAt :: int
  ip_updatedAt :: int
  ip_createdBy :: string

datatype RoleType =
    role_SYSTEM | role_ORGANISATION | role_APPLICATION | role_CUSTOM | role_TEMPORAL | role_EMERGENCY

datatype PermissionScope =
    scope_GLOBAL | scope_ORGANISATION | scope_TEAM | scope_PERSONAL | scope_APPLICATION

record Permission =
  pe_id :: string
  pe_name :: string
  pe_displayName :: string
  pe_description :: string
  pe_resource :: string
  pe_action :: string
  pe_scope :: PermissionScope
  pe_conditions :: "PolicyCondition list option"
  pe_riskLevel :: RiskLevel

datatype ConstraintType =
    MAX_USERS | TIME_WINDOW | IP_RANGE | GEO_FENCE | DEVICE_TRUST | MFA_REQUIRED | APPROVAL_REQUIRED

record RoleConstraint =
  rk_type :: ConstraintType
  rk_value :: jsval
  rk_description :: string

record Role =
  ro_id :: string
  ro_name :: string
  ro_displayName :: string
  ro_description :: string
  ro_type :: RoleType
  ro_level :: int
  ro_permissions :: "Permission list"
  ro_inheritedRoles :: "string list"
  ro_policies :: "IAMPolicy list"
  ro_constraints :: "RoleConstraint list"
  ro_metadata :: "(string \<times> jsval) list"
  ro_createdAt :: int
  ro_updatedAt :: int
  ro_createdBy :: string

datatype GroupType =
    group_ORGANISATION | group_DEPARTMENT | group_TEAM | group_PROJECT | group_DYNAMIC | group_EXTERNAL

datatype member_role = member_owner | member_admin | member_member | member_billing | member_viewer

record GroupMember =
  gm_userId :: string
  gm_role :: member_role
  gm_addedAt :: int
  gm_addedBy :: string
  gm_expiresAt :: "int option"

record Group =
  gr_id :: string
  gr_name :: string
  gr_displayName :: string
  gr_description :: string
  gr_type :: GroupType
  gr_members :: "GroupMember list"
  gr_roles :: "Role list"
  gr_parentGroupId :: "string option"
  gr_childGroupIds :: "string list"
  gr_policies :: "IAMPolicy list"
  gr_createdAt :: int
  gr_updatedAt :: int

record AppAccess =
  aa_applicationId :: string
  aa_applicationName :: string
  aa_roles :: "Role list"
  aa_permissions :: "Permission list"
  aa_grantedAt :: int
  aa_grantedBy :: string
  aa_expiresAt :: "int option"
  aa_conditions :: "PolicyCondition list option"
  aa_lastAccessedAt :: "int option"
  aa_accessCount :: int

datatype ApplicationType =
    app_WEB | app_MOBILE | app_DESKTOP | app_API | app_SERVICE | app_IOT | app_AGENT | app_BOT

record OAuthScope =
  oc_name :: string
  oc_displayName :: string
  oc_description :: string
  oc_sensitive :: bool
  oc_requiresConsent :: bool

record Application =
  ap_id :: string
  ap_name :: string
  ap_displayName :: string
  ap_description :: string
  ap_type :: ApplicationType
  ap_icon :: "string option"
  ap_url :: "string option"
  ap_clientId :: string
  ap_clientSecret :: "string option"
  ap_redirectUris :: "string list"
  ap_scopes :: "OAuthScope list"
  ap_roles :: "Role list"
  ap_policies :: "IAMPolicy list"
  ap_ssoEnabled :: bool
  ap_mfaRequired :: bool
  ap_trustedApplication :: bool
  ap_createdAt :: int
  ap_updatedAt :: int

section \<open>Access profile\<close>

datatype RestrictionType =
    IP_BLOCK | GEO_BLOCK | TIME_BLOCK | DEVICE_BLOCK | FEATURE_BLOCK | RATE_LIMIT | QUARANTINE

record AccessRestriction =
  rs_id :: string
  rs_type :: RestrictionType
  rs_reason :: string
  rs_appliedAt :: int
  rs_appliedBy :: string
  rs_expiresAt :: "int option"
  rs_metadata :: "(string \<times> jsval) list"

datatype temporal_status =
    temporal_pending | temporal_approved | temporal_active | temporal_expired | temporal_revoked

record TemporalAccess =
  ta_id :: string
  ta_roleId :: string
  ta_reason :: string
  ta_requestedBy :: string
  ta_approvedBy :: "string option"
  ta_startAt :: int
  ta_endAt :: int
  ta_status :: temporal_status

record EmergencyAccess =
  ea_enabled :: bool
  ea_reason :: string
  ea_grantedBy :: string
  ea_grantedAt :: int
  ea_expiresAt :: int
  ea_scope :: "string list"
  ea_auditRequired :: bool

record AccessProfile =
  ac_roles :: "Role list"
  ac_permissions :: "Permission list"
  ac_groups :: "Group list"
  ac_applications :: "AppAccess list"
  ac_restrictions :: "AccessRestriction list"
  ac_temporalAccess :: "TemporalAccess list"
  ac_emergencyAccess :: "EmergencyAccess option"
  ac_lastReviewedAt :: "int option"
  ac_nextReviewAt :: "int option"

section \<open>Compliance, preferences, metadata\<close>

datatype ConsentType =
    consent_TERMS | consent_PRIVACY | consent_MARKETING | consent_ANALYTICS | consent_COOKIES
  | consent_DATA_PROCESSING | consent_BIOMETRIC | consent_NEURAL

record ConsentRecord =
  cr_id :: string
  cr_type :: ConsentType
  cr_granted :: bool
  cr_grantedAt :: "int option"
  cr_revokedAt :: "int option"
  cr_version :: string
  cr_ipAddress :: string
  cr_userAgent :: string

datatype audit_result = audit_success | audit_failure | audit_partial

record AuditEntry =
  ae_id :: string
  ae_timestamp :: int
  ae_action :: string
  ae_resource :: string
  ae_actor :: string
  ae_ipAddress :: string
  ae_result :: audit_result
  ae_metadata :: "(string \<times> jsval) list"

record UserCertification =
  uc_id :: string
  uc_type :: string
  uc_issuedAt :: int
  uc_expiresAt :: "int option"
  uc_issuer :: string
  uc_metadata :: "(string \<times> jsval) list"

record ComplianceProfile =
  cp_gdprConsent :: "ConsentRecord list"
  cp_ccpaOptOut :: bool
  cp_dataRetentionPolicy :: string
  cp_rightToErasureRequested :: bool
  cp_rightToErasureRequestedAt :: "int option"
  cp_dataPortabilityRequested :: bool
  cp_auditTrail :: "AuditEntry list"
  cp_certifications :: "UserCertification list"

datatype theme_kind = light_theme | dark_theme | system_theme | high_contrast_theme
datatype time_format = format_12h | format_24h
datatype digest_kind = digest_realtime | digest_daily | digest_weekly | digest_never
datatype visibility_kind = visible_public | visible_private | visible_connections
datatype color_blind_mode = deuteranopia | protanopia | tritanopia
datatype layout_kind = default_layout | compact_layout | comfortable_layout

record NotificationPreferences =
  np_email :: bool
  np_sms :: bool
  np_push :: bool
  np_inApp :: bool
  np_securityAlerts :: bool
  np_loginAlerts :: bool
  np_marketingEmails :: bool
  np_digest :: digest_kind

record PrivacyPreferences =
  pp_profileVisibility :: visibility_kind
  pp_activityVisibility :: visibility_kind
  pp_searchable :: bool
  pp_dataSharing :: bool
  pp_analyticsOptIn :: bool

record AccessibilityPreferences =
  ax_screenReader :: bool
  ax_highContrast :: bool
  ax_largeText :: bool
  ax_reducedMotion :: bool
  ax_keyboardNavigation :: bool
  ax_colorBlindMode :: "color_blind_mode option"
  ax_neuralInterface :: "bool option"

record InterfacePreferences =
  fp_layout :: layout_kind
  fp_sidebarCollapsed :: bool
  fp_dashboardWidgets :: "string list"
  fp_shortcuts :: "(string \<times> string) list"
  fp_holographicMode :: "bool option"

record UserPreferences =
  pr_theme :: theme_kind
  pr_language :: string
  pr_timezone :: string
  pr_dateFormat :: string
  pr_timeFormat :: time_format
  pr_currency :: string
  pr_notifications :: NotificationPreferences
  pr_privacy :: PrivacyPreferences
  pr_accessibility :: AccessibilityPreferences
  pr_interface :: InterfacePreferences

datatype user_source =
    source_direct | source_oauth | source_saml | source_scim | source_invitation | source_migration

datatype VerificationLevel =
    UNVERIFIED | EMAIL_VERIFIED | PHONE_VERIFIED | IDENTITY_VERIFIED | BIOMETRIC_VERIFIED
  | GOVERNMENT_ID_VERIFIED | NEURAL_VERIFIED

primrec verification_str :: "VerificationLevel \<Rightarrow> string" where
  "verification_str UNVERIFIED = ''unverified''"
| "verification_str EMAIL_VERIFIED = ''email_verified''"
| "verification_str PHONE_VERIFIED = ''phone_verified''"
| "verification_str IDENTITY_VERIFIED = ''identity_verified''"
| "verification_str BIOMETRIC_VERIFIED = ''biometric_verified''"
| "verification_str GOVERNMENT_ID_VERIFIED = ''government_id_verified''"
| "verification_str NEURAL_VERIFIED = ''neural_verified''"

record UserMetadata =
  um_source :: user_source
  um_externalId :: "string option"
  um_externalProvider :: "string option"
  um_invitedBy :: "string option"
  um_invitedAt :: "int option"
  um_onboardingCompleted :: bool
  um_onboardingCompletedAt :: "int option"
  um_verificationLevel :: VerificationLevel
  um_tags :: "string list"
  um_customAttributes :: "(string \<times> jsval) list"

datatype UserStatus =
    U_ACTIVE | U_INACTIVE | U_SUSPENDED | U_LOCKED | U_PENDING_VERIFICATION | U_PENDING_APPROVAL
  | U_DEACTIVATED | U_QUARANTINED | U_DELETED

primrec user_status_str :: "UserStatus \<Rightarrow> string" where
  "user_status_str U_ACTIVE = ''active''"
| "user_status_str U_INACTIVE = ''inactive''"
| "user_status_str U_SUSPENDED = ''suspended''"
| "user_status_str U_LOCKED = ''locked''"
| "user_status_str U_PENDING_VERIFICATION = ''pending_verification''"
| "user_status_str U_PENDING_APPROVAL = ''pending_approval''"
| "user_status_str U_DEACTIVATED = ''deactivated''"
| "user_status_str U_QUARANTINED = ''quarantined''"
| "user_status_str U_DELETED = ''deleted''"

record InfinityOneUser =
  us_id :: string
  us_did :: string
  us_lighthouseToken :: string
  us_hiveNodeId :: string
  us_voidKeyId :: "string option"
  us_profile :: UserProfile
  us_contact :: ContactInfo
  us_security :: SecurityProfile
  us_access :: AccessProfile
  us_compliance :: ComplianceProfile
  us_preferences :: UserPreferences
  us_metadata :: UserMetadata
  us_status :: UserStatus
  us_createdAt :: int
  us_updatedAt :: int
  us_lastLoginAt :: "int option"
  us_lastActiveAt :: "int option"

section \<open>Organisations\<close>

datatype OrgType =
    org_PERSONAL | org_STARTUP | org_ENTERPRISE | org_GOVERNMENT | org_NON_PROFIT | org_EDUCATIONAL

datatype OrgPlan = plan_FREE | plan_STARTER | plan_PROFESSIONAL | plan_ENTERPRISE | plan_SOVEREIGN

record PasswordPolicy =
  pw_minLength :: int
  pw_requireUppercase :: bool
  pw_requireLowercase :: bool
  pw_requireNumbers :: bool
  pw_requireSpecialChars :: bool
  pw_maxAge :: int
  pw_historyCount :: int
  pw_breachCheckEnabled :: bool

record SessionPolicy =
  sn_maxDuration :: int
  sn_idleTimeout :: int
  sn_maxConcurrentSessions :: int
  sn_requireMfaForSensitive :: bool
  sn_trustedDevicesEnabled :: bool

record BrandingConfig =
  br_primaryColor :: string
  br_secondaryColor :: string
  br_logo :: string
  br_favicon :: string
  br_customDomain :: "string option"
  br_emailTemplate :: "string option"

record OrgSettings =
  os_ssoEnabled :: bool
  os_ssoProvider :: "string option"
  os_mfaRequired :: bool
  os_passwordPolicy :: PasswordPolicy
  os_sessionPolicy :: SessionPolicy
  os_ipAllowlist :: "string list"
  os_geoAllowlist :: "string list"
  os_dataResidency :: string
  os_auditLogRetention :: int
  os_customBranding :: "BrandingConfig option"

datatype org_member_status = org_member_active | org_member_pending | org_member_suspended

record OrgMember =
  ob_userId :: string
  ob_role :: member_role
  ob_joinedAt :: int
  ob_invitedBy :: string
  ob_status :: org_member_status

record Organisation =
  og_id :: string
  og_name :: string
  og_displayName :: string
  og_description :: "string option"
  og_logo :: "string option"
  og_domain :: string
  og_domains :: "string list"
  og_type :: OrgType
  og_plan :: OrgPlan
  og_settings :: OrgSettings
  og_members :: "OrgMember list"
  og_groups :: "Group list"
  og_roles :: "Role list"
  og_policies :: "IAMPolicy list"
  og_applications :: "Application list"
  og_createdAt :: int
  og_updatedAt :: int
  og_createdBy :: string

section \<open>Tokens and provisioning\<close>

record OAuthToken =
  ot_accessToken :: string
  ot_tokenType :: string
  ot_expiresIn :: int
  ot_refreshToken :: "string option"
  ot_scope :: string
  ot_idToken :: "string option"

record OIDCClaims =
  cl_sub :: string
  cl_iss :: string
  cl_aud :: string
  cl_exp :: int
  cl_iat :: int
  cl_nonce :: "string option"
  cl_name :: "string option"
  cl_email :: "string option"
  cl_email_verified :: "bool option"
  cl_phone_number :: "string option"
  cl_picture :: "string option"
  cl_locale :: "string option"
  cl_zoneinfo :: "string option"
  cl_updated_at :: "int option"
  cl_did :: "string option"
  cl_roles :: "string list option"
  cl_permissions :: "string list option"
  cl_lighthouse_token :: "string option"
  cl_risk_score :: "int option"
  cl_verification_level :: "string option"

text \<open>Of a user of the provisioning protocol, the properties the service reads.\<close>

record SCIMName =
  sm_formatted :: "string option"
  sm_familyName :: "string option"
  sm_givenName :: "string option"

record SCIMUser =
  su_externalId :: "string option"
  su_userName :: string
  su_name :: SCIMName
  su_emails :: "string list"
  su_phoneNumbers :: "string list option"

end
