(* ===== verification/InfinityOne.thy ===== *)
theory InfinityOne
  imports InfinityTypes
begin

text \<open>
  The account hub of \<open>packages/infinity-one/src/InfinityOneService.ts\<close>: users, roles and permissions,
  sessions, second factors, provisioning, tokens, audit log and data requests.

  Every operation reads the clock once (\<open>en_now\<close>) and takes what it draws at random: \<open>en_id k\<close> is the text
  of the \<open>k\<close>-th identifier it makes. Every call is awaited before the next one, except that an
  assignment of a role is also given as its two halves, before and after the point where it is
  suspended. Users, roles and sessions are values in the maps, and callers keep no reference to
  them. The lists of keys an update reports are in the order of the type. Listeners only take note.
\<close>

section \<open>Host and draws\<close>

record io_env =
  en_now :: int
  en_id :: "nat \<Rightarrow> string"
  en_node :: nat
  en_number :: nat
  en_byte :: "nat \<Rightarrow> nat"

definition later_ids :: "nat \<Rightarrow> io_env \<Rightarrow> io_env" where
  "later_ids n e = e\<lparr>en_id := (\<lambda>k. en_id e (k + n))\<rparr>"

text \<open>The floating-point functions of \<open>Math\<close>, and the number a value that is not one is converted to.\<close>

record io_host =
  mt_sin :: "rat \<Rightarrow> rat"
  mt_cos :: "rat \<Rightarrow> rat"
  mt_sqrt :: "rat \<Rightarrow> rat"
  mt_atan2 :: "rat \<Rightarrow> rat \<Rightarrow> rat"
  mt_pi :: rat
  mt_number :: "jsval \<Rightarrow> rat option"

definition io_generateId :: "io_env \<Rightarrow> nat \<Rightarrow> string" where
  "io_generateId e k = radix_str 36 (nat (en_now e)) @ ''_'' @ en_id e k"

definition generateSecureRandom :: "io_env \<Rightarrow> nat \<Rightarrow> nat list" where
  "generateSecureRandom e n = map (en_byte e) [0..<n]"

definition hex_text :: "nat list \<Rightarrow> string" where
  "hex_text bs = concat (map (\<lambda>b. pad_start 2 (CHR ''0'') (radix_str 16 b)) bs)"

text \<open>\<open>toString('base64')\<close>: the alphabet with + and /, padded to a multiple of four.\<close>

definition base64_text :: "nat list \<Rightarrow> string" where
  "base64_text bs =
     (let s = map (\<lambda>c. if c = CHR ''-'' then CHR ''+'' else if c = CHR ''_'' then CHR ''/'' else c)
                (base64url_encode bs)
      in s @ replicate ((4 - length s mod 4) mod 4) (CHR ''=''))"

text \<open>\<open>parseInt(s)\<close> without a radix; \<^const>\<open>None\<close> is \<open>NaN\<close>.\<close>

definition is_space :: "char \<Rightarrow> bool" where
  "is_space c = ((of_char c :: nat) \<in> {9, 10, 11, 12, 13, 32, 160})"

definition digit_of :: "char \<Rightarrow> nat" where
  "digit_of c =
     (let n = of_char c :: nat in
      if 48 \<le> n \<and> n \<le> 57 then n - 48
      else if 97 \<le> n \<and> n \<le> 122 then n - 87
      else if 65 \<le> n \<and> n \<le> 90 then n - 55 else 36)"

definition parse_radix :: "nat \<Rightarrow> string \<Rightarrow> nat option" where
  "parse_radix r s =
     (let ds = takeWhile (\<lambda>c. digit_of c < r) s
      in if ds = [] then None else Some (foldl (\<lambda>a c. r * a + digit_of c) 0 ds))"

definition js_parseInt :: "string \<Rightarrow> int option" where
  "js_parseInt s =
     (let t = dropWhile is_space s;
          neg = (t \<noteq> [] \<and> hd t = CHR ''-'');
          u = (if t \<noteq> [] \<and> hd t \<in> {CHR ''-'', CHR ''+''} then tl t else t);
          n = (if take 2 u \<in> {''0x'', ''0X''} then parse_radix 16 (drop 2 u) else parse_radix 10 u)
      in map_option (\<lambda>k. if neg then - int k else int k) n)"

section \<open>Events and errors\<close>

datatype io_event =
    UserCreated InfinityOneUser
  | UserUpdated InfinityOneUser
  | UserSuspended string string string
  | UserDeleted string bool
  | UserQuarantined string string
  | RoleAssigned string string Role
  | RoleRevoked string string
  | AuditLogged AuditEntry
  | AccountLocked string string
  | WarpTriggered string string string int
  | CryptoShredRequested string int
  | ErasureScheduled string int

primrec io_event_name :: "io_event \<Rightarrow> string" where
  "io_event_name (UserCreated u) = ''user.created''"
| "io_event_name (UserUpdated u) = ''user.updated''"
| "io_event_name (UserSuspended u r b) = ''user.suspended''"
| "io_event_name (UserDeleted u h) = ''user.deleted''"
| "io_event_name (UserQuarantined u r) = ''user.quarantined''"
| "io_event_name (RoleAssigned u i r) = ''role.assigned''"
| "io_event_name (RoleRevoked u i) = ''role.revoked''"
| "io_event_name (AuditLogged a) = ''audit.entry''"
| "io_event_name (AccountLocked u r) = ''account.locked''"
| "io_event_name (WarpTriggered u y r t) = ''warp_tunnel.triggered''"
| "io_event_name (CryptoShredRequested u t) = ''crypto_shred.requested''"
| "io_event_name (ErasureScheduled u t) = ''data_erasure.scheduled''"

datatype io_error =
    User_not_found string
  | Role_not_found string
  | Role_requires_MFA string
  | Role_limit_reached string

text \<open>The state; \<open>io_delivered\<close> is a ghost that lists the calls of the listeners in order.\<close>

record 'h InfinityOne =
  io_users :: "(string, InfinityOneUser) jsmap"
  io_roles :: "(string, Role) jsmap"
  io_permissions :: "(string, Permission) jsmap"
  io_groups :: "(string, Group) jsmap"
  io_organisations :: "(string, Organisation) jsmap"
  io_applications :: "(string, Application) jsmap"
  io_policies :: "(string, IAMPolicy) jsmap"
  io_sessions :: "(string, Session) jsmap"
  io_auditLog :: "AuditEntry list"
  io_eventHandlers :: "(string, 'h list) jsmap"
  io_delivered :: "('h \<times> io_event) list"

definition io_on :: "string \<Rightarrow> 'h \<Rightarrow> 'h InfinityOne \<Rightarrow> 'h InfinityOne" where
  "io_on event h s =
     (let hs = dflt (jm_get (io_eventHandlers s) event) []
      in s\<lparr>io_eventHandlers := jm_set event (if h \<in> set hs then hs else hs @ [h]) (io_eventHandlers s)\<rparr>)"

definition io_emit :: "io_event \<Rightarrow> 'h InfinityOne \<Rightarrow> 'h InfinityOne" where
  "io_emit ev s =
     s\<lparr>io_delivered := io_delivered s @ map (\<lambda>h. (h, ev)) (dflt (jm_get (io_eventHandlers s) (io_event_name ev)) [])\<rparr>"

definition logAudit ::
  "io_env \<Rightarrow> string \<Rightarrow> string \<Rightarrow> string \<Rightarrow> string \<Rightarrow> audit_result \<Rightarrow> (string \<times> jsval) list \<Rightarrow>
     'h InfinityOne \<Rightarrow> 'h InfinityOne" where
  "logAudit e action resource resourceId actor result metadata s =
     (let ip = (case obj_prop metadata ''ipAddress'' of JStr t \<Rightarrow> if t = [] then ''system'' else t | _ \<Rightarrow> ''system'');
          entry = \<lparr>ae_id = io_generateId e 0, ae_timestamp = en_now e, ae_action = action,
                   ae_resource = resource @ ''/'' @ resourceId, ae_actor = actor, ae_ipAddress = ip,
                   ae_result = result, ae_metadata = metadata\<rparr>
      in io_emit (AuditLogged entry) (s\<lparr>io_auditLog := io_auditLog s @ [entry]\<rparr>))"

section \<open>System roles and permissions\<close>

definition SYSTEM_ROLES :: "(string \<times> string \<times> string \<times> int) list" where
  "SYSTEM_ROLES =
     [(''super_admin'', ''Super Administrator'', ''Unrestricted access to all platform resources'', 0),
      (''org_admin'', ''Organisation Administrator'', ''Full control over organisation resources'', 1),
      (''security_admin'', ''Security Administrator'', ''Security policy and incident management'', 1),
      (''power_user'', ''Power User'', ''Advanced features and shared workspaces'', 2),
      (''standard_user'', ''Standard User'', ''Personal files and approved modules'', 3),
      (''guest'', ''Guest'', ''Limited read-only access'', 4),
      (''bot'', ''Bot/Agent'', ''Automated agent access'', 3)]"

definition SYSTEM_PERMISSIONS :: "(string \<times> string \<times> string \<times> PermissionScope \<times> RiskLevel) list" where
  "SYSTEM_PERMISSIONS =
     [(''infinity-one:read'', ''infinity-one'', ''read'', scope_PERSONAL, R_LOW),
      (''infinity-one:write'', ''infinity-one'', ''write'', scope_PERSONAL, R_MEDIUM),
      (''infinity-one:admin'', ''infinity-one'', ''admin'', scope_GLOBAL, R_HIGH),
      (''lighthouse:read'', ''lighthouse'', ''read'', scope_PERSONAL, R_LOW),
      (''lighthouse:write'', ''lighthouse'', ''write'', scope_ORGANISATION, R_HIGH),
      (''lighthouse:admin'', ''lighthouse'', ''admin'', scope_GLOBAL, R_CRITICAL),
      (''hive:read'', ''hive'', ''read'', scope_PERSONAL, R_LOW),
      (''hive:route'', ''hive'', ''route'', scope_ORGANISATION, R_MEDIUM),
      (''hive:admin'', ''hive'', ''admin'', scope_GLOBAL, R_CRITICAL),
      (''void:read'', ''void'', ''read'', scope_PERSONAL, R_HIGH),
      (''void:write'', ''void'', ''write'', scope_PERSONAL, R_CRITICAL),
      (''void:admin'', ''void'', ''admin'', scope_GLOBAL, R_CRITICAL),
      (''icebox:read'', ''icebox'', ''read'', scope_ORGANISATION, R_HIGH),
      (''icebox:release'', ''icebox'', ''release'', scope_ORGANISATION, R_CRITICAL),
      (''icebox:admin'', ''icebox'', ''admin'', scope_GLOBAL, R_CRITICAL),
      (''rba:read'', ''royal-bank'', ''read'', scope_PERSONAL, R_LOW),
      (''rba:transact'', ''royal-bank'', ''transact'', scope_PERSONAL, R_MEDIUM),
      (''rba:admin'', ''royal-bank'', ''admin'', scope_GLOBAL, R_CRITICAL),
      (''aex:read'', ''arcadian-exchange'', ''read'', scope_PERSONAL, R_LOW),
      (''aex:trade'', ''arcadian-exchange'', ''trade'', scope_PERSONAL, R_MEDIUM),
      (''aex:admin'', ''arcadian-exchange'', ''admin'', scope_GLOBAL, R_HIGH)]"

definition system_role :: "io_env \<Rightarrow> nat \<Rightarrow> string \<times> string \<times> string \<times> int \<Rightarrow> Role" where
  "system_role e k r =
     (case r of (name, display, description, level) \<Rightarrow>
        \<lparr>ro_id = io_generateId e k, ro_name = name, ro_displayName = display, ro_description = description,
         ro_type = role_SYSTEM, ro_level = level, ro_permissions = [], ro_inheritedRoles = [], ro_policies = [],
         ro_constraints = [], ro_metadata = [], ro_createdAt = en_now e, ro_updatedAt = en_now e,
         ro_createdBy = ''system''\<rparr>)"

definition initializeSystemRoles :: "io_env \<Rightarrow> 'h InfinityOne \<Rightarrow> 'h InfinityOne" where
  "initializeSystemRoles e s =
     s\<lparr>io_roles := fold (\<lambda>(k, r) m. let role = system_role e k r in jm_set (ro_id role) role m)
        (enumerate 0 SYSTEM_ROLES) (io_roles s)\<rparr>"

text \<open>\<open>replace\<close> with a text pattern replaces the first occurrence only.\<close>

fun replace_char :: "char \<Rightarrow> char \<Rightarrow> string \<Rightarrow> string" where
  "replace_char a b [] = []"
| "replace_char a b (c # cs) = (if c = a then b # cs else c # replace_char a b cs)"

definition system_permission ::
  "io_env \<Rightarrow> nat \<Rightarrow> string \<times> string \<times> string \<times> PermissionScope \<times> RiskLevel \<Rightarrow> Permission" where
  "system_permission e k p =
     (case p of (key, resource, action, scope, risk) \<Rightarrow>
        \<lparr>pe_id = io_generateId e k, pe_name = key,
         pe_displayName = replace_char (CHR ''-'') (CHR '' '') (replace_char (CHR '':'') (CHR '' '') key),
         pe_description = action @ '' access to '' @ resource, pe_resource = resource, pe_action = action,
         pe_scope = scope, pe_conditions = None, pe_riskLevel = risk\<rparr>)"

definition initializeSystemPermissions :: "io_env \<Rightarrow> 'h InfinityOne \<Rightarrow> 'h InfinityOne" where
  "initializeSystemPermissions e s =
     s\<lparr>io_permissions := fold (\<lambda>(k, r) m. let p = system_permission e k r in jm_set (pe_id p) p m)
        (enumerate 0 SYSTEM_PERMISSIONS) (io_permissions s)\<rparr>"

definition new_InfinityOne :: "io_env \<Rightarrow> 'h InfinityOne" where
  "new_InfinityOne e =
     initializeSystemPermissions (later_ids (length SYSTEM_ROLES) e) (initializeSystemRoles e
       \<lparr>io_users = [], io_roles = [], io_permissions = [], io_groups = [], io_organisations = [],
        io_applications = [], io_policies = [], io_sessions = [], io_auditLog = [], io_eventHandlers = [],
        io_delivered = []\<rparr>)"

definition io_getRole :: "string \<Rightarrow> 'h InfinityOne \<Rightarrow> Role option" where
  "io_getRole nameOrId s =
     (case jm_get (io_roles s) nameOrId of
        Some r \<Rightarrow> Some r
      | None \<Rightarrow> find (\<lambda>r. ro_name r = nameOrId) (jm_values (io_roles s)))"

section \<open>Users\<close>

record CreateUserInput =
  cu_firstName :: string
  cu_lastName :: string
  cu_email :: string
  cu_displayName :: "string option"
  cu_username :: "string option"
  cu_phone :: "string option"
  cu_photo :: "string option"
  cu_dateOfBirth :: "int option"
  cu_gender :: "Gender option"
  cu_languages :: "string list option"
  cu_occupation :: "string option"
  cu_organisation :: "string option"
  cu_address :: "PostalAddress option"
  cu_timezone :: "string option"
  cu_locale :: "string option"
  cu_source :: "user_source option"
  cu_externalId :: "string option"
  cu_externalProvider :: "string option"
  cu_invitedBy :: "string option"
  cu_tags :: "string list option"
  cu_customAttributes :: "(string \<times> jsval) list option"
  cu_createdBy :: "string option"

definition requestLighthouseToken :: "io_env \<Rightarrow> string \<Rightarrow> string \<Rightarrow> string" where
  "requestLighthouseToken e entityId entityType =
     ''lh_'' @ entityType @ ''_'' @ entityId @ ''_'' @ int_str (en_now e)"

definition io_assignHiveNode :: "io_env \<Rightarrow> string" where
  "io_assignHiveNode e = ''hive_node_'' @ nat_str (en_node e)"

definition generateUsername :: "io_env \<Rightarrow> string \<Rightarrow> string \<Rightarrow> string" where
  "generateUsername e firstName lastName =
     js_toLowerCase firstName @ ''.'' @ js_toLowerCase lastName @ nat_str (en_number e)"

definition getDefaultPreferences :: UserPreferences where
  "getDefaultPreferences =
     \<lparr>pr_theme = system_theme, pr_language = ''en'', pr_timezone = ''UTC'', pr_dateFormat = ''DD/MM/YYYY'',
      pr_timeFormat = format_24h, pr_currency = ''GBP'',
      pr_notifications = \<lparr>np_email = True, np_sms = False, np_push = True, np_inApp = True, np_securityAlerts = True,
        np_loginAlerts = True, np_marketingEmails = False, np_digest = digest_daily\<rparr>,
      pr_privacy = \<lparr>pp_profileVisibility = visible_private, pp_activityVisibility = visible_private,
        pp_searchable = False, pp_dataSharing = False, pp_analyticsOptIn = False\<rparr>,
      pr_accessibility = \<lparr>ax_screenReader = False, ax_highContrast = False, ax_largeText = False,
        ax_reducedMotion = False, ax_keyboardNavigation = True, ax_colorBlindMode = None, ax_neuralInterface = None\<rparr>,
      pr_interface = \<lparr>fp_layout = default_layout, fp_sidebarCollapsed = False,
        fp_dashboardWidgets = [''profile'', ''security'', ''activity''], fp_shortcuts = [], fp_holographicMode = None\<rparr>\<rparr>"

definition new_profile :: "io_env \<Rightarrow> CreateUserInput \<Rightarrow> UserProfile" where
  "new_profile e d =
     \<lparr>up_firstName = cu_firstName d, up_lastName = cu_lastName d, up_middleName = None,
      up_displayName = str_or (cu_displayName d) (cu_firstName d @ '' '' @ cu_lastName d),
      up_username = str_or (cu_username d) (generateUsername e (cu_firstName d) (cu_lastName d)),
      up_photo = cu_photo d, up_photoThumbnail = None, up_coverPhoto = None, up_bio = None,
      up_dateOfBirth = cu_dateOfBirth d, up_gender = dflt (cu_gender d) G_PREFER_NOT_TO_SAY, up_pronouns = None,
      up_nationality = None, up_languages = dflt (cu_languages d) [''en''], up_occupation = cu_occupation d,
      up_organisation = cu_organisation d, up_website = None, up_socialLinks = None\<rparr>"

definition new_contact :: "CreateUserInput \<Rightarrow> ContactInfo" where
  "new_contact d =
     \<lparr>ct_email = cu_email d, ct_emailVerified = False, ct_emailAlt = [], ct_phone = cu_phone d,
      ct_phoneVerified = False, ct_phoneAlt = [], ct_address = cu_address d, ct_addressAlt = None,
      ct_timezone = str_or (cu_timezone d) ''UTC'', ct_locale = str_or (cu_locale d) ''en-GB''\<rparr>"

definition new_security :: SecurityProfile where
  "new_security =
     \<lparr>sp_passwordHash = None, sp_passwordChangedAt = None, sp_mfaEnabled = False, sp_mfaMethods = [],
      sp_webauthnCredentials = [], sp_activeSessions = [], sp_trustedDevices = [], sp_securityScore = 30,
      sp_riskLevel = R_MEDIUM, sp_loginAttempts = [], sp_securityEvents = [], sp_recoveryMethods = [],
      sp_biometrics = None, sp_quantumKeyId = None\<rparr>"

definition new_access :: "Role option \<Rightarrow> AccessProfile" where
  "new_access standard =
     \<lparr>ac_roles = (case standard of None \<Rightarrow> [] | Some r \<Rightarrow> [r]), ac_permissions = [], ac_groups = [],
      ac_applications = [], ac_restrictions = [], ac_temporalAccess = [], ac_emergencyAccess = None,
      ac_lastReviewedAt = None, ac_nextReviewAt = None\<rparr>"

definition new_user :: "io_env \<Rightarrow> CreateUserInput \<Rightarrow> Role option \<Rightarrow> InfinityOneUser" where
  "new_user e d standard =
     (let uid = io_generateId e 0; now = en_now e in
      \<lparr>us_id = uid, us_did = ''did:infinity:'' @ uid, us_lighthouseToken = requestLighthouseToken e uid ''user'',
       us_hiveNodeId = io_assignHiveNode e, us_voidKeyId = None, us_profile = new_profile e d,
       us_contact = new_contact d, us_security = new_security, us_access = new_access standard,
       us_compliance = \<lparr>cp_gdprConsent = [], cp_ccpaOptOut = False, cp_dataRetentionPolicy = ''standard'',
         cp_rightToErasureRequested = False, cp_rightToErasureRequestedAt = None, cp_dataPortabilityRequested = False,
         cp_auditTrail = [], cp_certifications = []\<rparr>,
       us_preferences = getDefaultPreferences,
       us_metadata = \<lparr>um_source = dflt (cu_source d) source_direct, um_externalId = cu_externalId d,
         um_externalProvider = cu_externalProvider d, um_invitedBy = cu_invitedBy d,
         um_invitedAt = (if str_truthy (cu_invitedBy d) then Some now else None),
         um_onboardingCompleted = False, um_onboardingCompletedAt = None, um_verificationLevel = UNVERIFIED,
         um_tags = dflt (cu_tags d) [], um_customAttributes = dflt (cu_customAttributes d) []\<rparr>,
       us_status = U_PENDING_VERIFICATION, us_createdAt = now, us_updatedAt = now, us_lastLoginAt = None,
       us_lastActiveAt = None\<rparr>)"

definition io_createUser :: "io_env \<Rightarrow> CreateUserInput \<Rightarrow> 'h InfinityOne \<Rightarrow> 'h InfinityOne \<times> InfinityOneUser" where
  "io_createUser e d s =
     (let u = new_user e d (io_getRole ''standard_user'' s);
          s1 = s\<lparr>io_users := jm_set (us_id u) u (io_users s)\<rparr>;
          s2 = logAudit (later_ids 1 e) ''user.created'' ''user'' (us_id u) (str_or (cu_createdBy d) ''system'')
                 audit_success [(''email'', JStr (cu_email d))] s1
      in (io_emit (UserCreated u) s2, u))"

definition io_getUser :: "string \<Rightarrow> 'h InfinityOne \<Rightarrow> InfinityOneUser option" where
  "io_getUser uid s = jm_get (io_users s) uid"

definition getUserByEmail :: "string \<Rightarrow> 'h InfinityOne \<Rightarrow> InfinityOneUser option" where
  "getUserByEmail email s = find (\<lambda>u. ct_email (us_contact u) = email) (jm_values (io_users s))"

text \<open>\<open>Partial<InfinityOneUser>\<close>; a property given as \<open>undefined\<close> is not modelled.\<close>

record user_updates =
  uu_id :: "string option"
  uu_did :: "string option"
  uu_lighthouseToken :: "string option"
  uu_hiveNodeId :: "string option"
  uu_voidKeyId :: "string option"
  uu_profile :: "UserProfile option"
  uu_contact :: "ContactInfo option"
  uu_security :: "SecurityProfile option"
  uu_access :: "AccessProfile option"
  uu_compliance :: "ComplianceProfile option"
  uu_preferences :: "UserPreferences option"
  uu_metadata :: "UserMetadata option"
  uu_status :: "UserStatus option"
  uu_createdAt :: "int option"
  uu_updatedAt :: "int option"
  uu_lastLoginAt :: "int option"
  uu_lastActiveAt :: "int option"

definition no_updates :: user_updates where
  "no_updates =
     \<lparr>uu_id = None, uu_did = None, uu_lighthouseToken = None, uu_hiveNodeId = None, uu_voidKeyId = None,
      uu_profile = None, uu_contact = None, uu_security = None, uu_access = None, uu_compliance = None,
      uu_preferences = None, uu_metadata = None, uu_status = None, uu_createdAt = None, uu_updatedAt = None,
      uu_lastLoginAt = None, uu_lastActiveAt = None\<rparr>"

definition merge_user :: "int \<Rightarrow> user_updates \<Rightarrow> InfinityOneUser \<Rightarrow> InfinityOneUser" where
  "merge_user now d u =
     \<lparr>us_id = dflt (uu_id d) (us_id u), us_did = dflt (uu_did d) (us_did u),
      us_lighthouseToken = dflt (uu_lighthouseToken d) (us_lighthouseToken u),
      us_hiveNodeId = dflt (uu_hiveNodeId d) (us_hiveNodeId u),
      us_voidKeyId = (if uu_voidKeyId d = None then us_voidKeyId u else uu_voidKeyId d),
      us_profile = dflt (uu_profile d) (us_profile u), us_contact = dflt (uu_contact d) (us_contact u),
      us_security = dflt (uu_security d) (us_security u), us_access = dflt (uu_access d) (us_access u),
      us_compliance = dflt (uu_compliance d) (us_compliance u),
      us_preferences = dflt (uu_preferences d) (us_preferences u), us_metadata = dflt (uu_metadata d) (us_metadata u),
      us_status = dflt (uu_status d) (us_status u), us_createdAt = dflt (uu_createdAt d) (us_createdAt u),
      us_updatedAt = now,
      us_lastLoginAt = (if uu_lastLoginAt d = None then us_lastLoginAt u else uu_lastLoginAt d),
      us_lastActiveAt = (if uu_lastActiveAt d = None then us_lastActiveAt u else uu_lastActiveAt d)\<rparr>"

definition updated_keys :: "user_updates \<Rightarrow> string list" where
  "updated_keys d =
     map fst (filter snd
       [(''id'', uu_id d \<noteq> None), (''did'', uu_did d \<noteq> None), (''lighthouseToken'', uu_lighthouseToken d \<noteq> None),
        (''hiveNodeId'', uu_hiveNodeId d \<noteq> None), (''voidKeyId'', uu_voidKeyId d \<noteq> None),
        (''profile'', uu_profile d \<noteq> None), (''contact'', uu_contact d \<noteq> None), (''security'', uu_security d \<noteq> None),
        (''access'', uu_access d \<noteq> None), (''compliance'', uu_compliance d \<noteq> None),
        (''preferences'', uu_preferences d \<noteq> None), (''metadata'', uu_metadata d \<noteq> None),
        (''status'', uu_status d \<noteq> None), (''createdAt'', uu_createdAt d \<noteq> None),
        (''updatedAt'', uu_updatedAt d \<noteq> None), (''lastLoginAt'', uu_lastLoginAt d \<noteq> None),
        (''lastActiveAt'', uu_lastActiveAt d \<noteq> None)])"

text \<open>Arrays made by the service are compared by no one: their identity is 0.\<close>

definition strings_val :: "string list \<Rightarrow> jsval" where
  "strings_val xs = JArr 0 (map JStr xs)"

definition io_updateUser ::
  "io_env \<Rightarrow> string \<Rightarrow> user_updates \<Rightarrow> string \<Rightarrow> 'h InfinityOne \<Rightarrow>
     'h InfinityOne \<times> (io_error + InfinityOneUser)" where
  "io_updateUser e uid d by s =
     (case jm_get (io_users s) uid of
        None \<Rightarrow> (s, Inl (User_not_found uid))
      | Some u \<Rightarrow>
          (let u1 = merge_user (en_now e) d u;
               s1 = s\<lparr>io_users := jm_set uid u1 (io_users s)\<rparr>;
               s2 = logAudit e ''user.updated'' ''user'' uid by audit_success
                      [(''fields'', strings_val (updated_keys d))] s1
           in (io_emit (UserUpdated u1) s2, Inr u1)))"

definition set_status :: "UserStatus \<Rightarrow> user_updates" where
  "set_status st = no_updates\<lparr>uu_status := Some st\<rparr>"

section \<open>Sessions\<close>

record DeviceInfo =
  di_deviceId :: "string option"
  di_ipAddress :: string
  di_userAgent :: string
  di_location :: "GeoLocation option"
  di_platform :: "string option"
  di_browser :: "string option"

record SessionOptions =
  sx_duration :: "int option"
  sx_mfaVerified :: "bool option"
  sx_scopes :: "string list option"
  sx_applicationId :: "string option"

definition no_session_options :: SessionOptions where
  "no_session_options = \<lparr>sx_duration = None, sx_mfaVerified = None, sx_scopes = None, sx_applicationId = None\<rparr>"

definition calculateSessionRisk :: "InfinityOneUser \<Rightarrow> int" where
  "calculateSessionRisk u =
     min 100
       ((if sp_mfaEnabled (us_security u) then 0 else 20) +
        (if sp_riskLevel (us_security u) = R_HIGH then 30 else 0) +
        (if sp_riskLevel (us_security u) = R_CRITICAL then 50 else 0) +
        (if ct_emailVerified (us_contact u) then 0 else 10))"

definition map_security :: "(SecurityProfile \<Rightarrow> SecurityProfile) \<Rightarrow> InfinityOneUser \<Rightarrow> InfinityOneUser" where
  "map_security f u = u\<lparr>us_security := f (us_security u)\<rparr>"

definition put_user :: "string \<Rightarrow> InfinityOneUser \<Rightarrow> 'h InfinityOne \<Rightarrow> 'h InfinityOne" where
  "put_user uid u s = s\<lparr>io_users := jm_set uid u (io_users s)\<rparr>"

definition new_session :: "io_env \<Rightarrow> InfinityOneUser \<Rightarrow> string \<Rightarrow> DeviceInfo \<Rightarrow> SessionOptions \<Rightarrow> Session" where
  "new_session e u userId di opts =
     \<lparr>se_id = io_generateId e 0, se_userId = userId, se_deviceId = str_or (di_deviceId di) (io_generateId e 1),
      se_ipAddress = di_ipAddress di, se_userAgent = di_userAgent di, se_location = di_location di,
      se_createdAt = en_now e, se_expiresAt = en_now e + num_or (sx_duration opts) 3600 * 1000,
      se_lastActiveAt = en_now e, se_riskScore = calculateSessionRisk u,
      se_mfaVerified = dflt (sx_mfaVerified opts) False,
      se_scopes = dflt (sx_scopes opts) [''openid'', ''profile'', ''email''],
      se_applicationId = sx_applicationId opts\<rparr>"

definition io_createSession ::
  "io_env \<Rightarrow> string \<Rightarrow> DeviceInfo \<Rightarrow> SessionOptions \<Rightarrow> 'h InfinityOne \<Rightarrow> 'h InfinityOne \<times> (io_error + Session)" where
  "io_createSession e userId di opts s =
     (case jm_get (io_users s) userId of
        None \<Rightarrow> (s, Inl (User_not_found userId))
      | Some u \<Rightarrow>
          (let x = new_session e u userId di opts;
               u1 = map_security (\<lambda>p. p\<lparr>sp_activeSessions := sp_activeSessions p @ [se_id x]\<rparr>) u;
               s1 = (put_user userId u1 s)\<lparr>io_sessions := jm_set (se_id x) x (io_sessions s)\<rparr>
           in (logAudit (later_ids 2 e) ''session.created'' ''session'' (se_id x) userId audit_success
                 [(''ipAddress'', JStr (di_ipAddress di)), (''riskScore'', JNum (of_int (se_riskScore x)))] s1,
               Inr x)))"

definition io_revokeSession :: "string \<Rightarrow> 'h InfinityOne \<Rightarrow> 'h InfinityOne" where
  "io_revokeSession sid s =
     (case jm_get (io_sessions s) sid of
        None \<Rightarrow> s
      | Some x \<Rightarrow>
          (let s1 = s\<lparr>io_sessions := jm_delete sid (io_sessions s)\<rparr> in
           case jm_get (io_users s) (se_userId x) of
             None \<Rightarrow> s1
           | Some u \<Rightarrow>
               put_user (se_userId x)
                 (map_security (\<lambda>p. p\<lparr>sp_activeSessions := filter (\<lambda>i. i \<noteq> sid) (sp_activeSessions p)\<rparr>) u) s1))"

definition io_revokeAllSessions :: "string \<Rightarrow> 'h InfinityOne \<Rightarrow> 'h InfinityOne" where
  "io_revokeAllSessions userId s =
     (case jm_get (io_users s) userId of
        None \<Rightarrow> s
      | Some u \<Rightarrow>
          put_user userId (map_security (\<lambda>p. p\<lparr>sp_activeSessions := []\<rparr>) u)
            (s\<lparr>io_sessions := fold jm_delete (sp_activeSessions (us_security u)) (io_sessions s)\<rparr>))"

datatype session_refusal = Session_not_found | Session_expired

definition io_validateSession ::
  "int \<Rightarrow> string \<Rightarrow> 'h InfinityOne \<Rightarrow> 'h InfinityOne \<times> (session_refusal + Session)" where
  "io_validateSession now sid s =
     (case jm_get (io_sessions s) sid of
        None \<Rightarrow> (s, Inl Session_not_found)
      | Some x \<Rightarrow>
          if se_expiresAt x < now then (io_revokeSession sid s, Inl Session_expired)
          else (let x1 = x\<lparr>se_lastActiveAt := now\<rparr>
                in (s\<lparr>io_sessions := jm_set sid x1 (io_sessions s)\<rparr>, Inr x1)))"

section \<open>Suspension, deletion, quarantine\<close>

definition io_suspendUser ::
  "io_env \<Rightarrow> string \<Rightarrow> string \<Rightarrow> string \<Rightarrow> 'h InfinityOne \<Rightarrow> 'h InfinityOne \<times> (io_error + unit)" where
  "io_suspendUser e uid reason by s =
     (case io_updateUser e uid (set_status U_SUSPENDED) by s of
        (s1, Inl err) \<Rightarrow> (s1, Inl err)
      | (s1, Inr u) \<Rightarrow>
          (let s2 = io_revokeAllSessions uid s1;
               s3 = logAudit (later_ids 1 e) ''user.suspended'' ''user'' uid by audit_success [(''reason'', JStr reason)] s2
           in (io_emit (UserSuspended uid reason by) s3, Inr ())))"

definition io_deleteUser ::
  "io_env \<Rightarrow> string \<Rightarrow> string \<Rightarrow> bool \<Rightarrow> 'h InfinityOne \<Rightarrow> 'h InfinityOne \<times> (io_error + unit)" where
  "io_deleteUser e uid by hardDelete s =
     (case jm_get (io_users s) uid of
        None \<Rightarrow> (s, Inl (User_not_found uid))
      | Some u \<Rightarrow>
          (let s1 = (if hardDelete
                     then (io_emit (CryptoShredRequested uid (en_now e)) s)\<lparr>io_users := jm_delete uid (io_users s)\<rparr>
                     else fst (io_updateUser e uid (set_status U_DELETED) by s));
               s2 = logAudit (later_ids 1 e) ''user.deleted'' ''user'' uid by audit_success
                      [(''hardDelete'', JBool hardDelete)] s1
           in (io_emit (UserDeleted uid hardDelete) s2, Inr ())))"

definition io_quarantineUser ::
  "io_env \<Rightarrow> string \<Rightarrow> string \<Rightarrow> string \<Rightarrow> 'h InfinityOne \<Rightarrow> 'h InfinityOne \<times> (io_error + unit)" where
  "io_quarantineUser e uid reason by s =
     (case io_updateUser e uid (set_status U_QUARANTINED) by s of
        (s1, Inl err) \<Rightarrow> (s1, Inl err)
      | (s1, Inr u) \<Rightarrow>
          (let s2 = io_revokeAllSessions uid s1;
               s3 = io_emit (WarpTriggered uid ''user'' reason (en_now e)) s2;
               s4 = logAudit (later_ids 1 e) ''user.quarantined'' ''user'' uid by audit_success [(''reason'', JStr reason)] s3
           in (io_emit (UserQuarantined uid reason) s4, Inr ())))"

record UserFilters =
  uf_status :: "UserStatus option"
  uf_role :: "string option"
  uf_search :: "string option"

definition io_listUsers :: "UserFilters \<Rightarrow> 'h InfinityOne \<Rightarrow> InfinityOneUser list" where
  "io_listUsers f s =
     (let u0 = jm_values (io_users s);
          u1 = (if uf_status f \<noteq> None then filter (\<lambda>u. Some (us_status u) = uf_status f) u0 else u0);
          u2 = (if str_truthy (uf_role f)
                then filter (\<lambda>u. list_ex (\<lambda>r. Some (ro_name r) = uf_role f) (ac_roles (us_access u))) u1 else u1);
          q = js_toLowerCase (dflt (uf_search f) [])
      in if str_truthy (uf_search f)
         then filter (\<lambda>u. js_includes (js_toLowerCase (up_displayName (us_profile u))) q \<or>
                          js_includes (js_toLowerCase (ct_email (us_contact u))) q \<or>
                          js_includes (js_toLowerCase (up_username (us_profile u))) q) u2
         else u2)"

section \<open>Roles\<close>

record CreateRoleInput =
  rr_name :: string
  rr_displayName :: string
  rr_description :: string
  rr_type :: "RoleType option"
  rr_level :: "int option"
  rr_permissions :: "Permission list option"
  rr_inheritedRoles :: "string list option"
  rr_policies :: "IAMPolicy list option"
  rr_constraints :: "RoleConstraint list option"
  rr_metadata :: "(string \<times> jsval) list option"

definition io_createRole :: "io_env \<Rightarrow> CreateRoleInput \<Rightarrow> string \<Rightarrow> 'h InfinityOne \<Rightarrow> 'h InfinityOne \<times> Role" where
  "io_createRole e d by s =
     (let r = \<lparr>ro_id = io_generateId e 0, ro_name = rr_name d, ro_displayName = rr_displayName d,
               ro_description = rr_description d, ro_type = dflt (rr_type d) role_CUSTOM,
               ro_level = num_or (rr_level d) 3, ro_permissions = dflt (rr_permissions d) [],
               ro_inheritedRoles = dflt (rr_inheritedRoles d) [], ro_policies = dflt (rr_policies d) [],
               ro_constraints = dflt (rr_constraints d) [], ro_metadata = dflt (rr_metadata d) [],
               ro_createdAt = en_now e, ro_updatedAt = en_now e, ro_createdBy = by\<rparr>
      in (logAudit (later_ids 1 e) ''role.created'' ''role'' (ro_id r) by audit_success [(''name'', JStr (rr_name d))]
            (s\<lparr>io_roles := jm_set (ro_id r) r (io_roles s)\<rparr>), r))"

definition has_role :: "string \<Rightarrow> InfinityOneUser \<Rightarrow> bool" where
  "has_role rid u = list_ex (\<lambda>r. ro_id r = rid) (ac_roles (us_access u))"

text \<open>\<open>users >= constraint.value as number\<close>, with the conversion of a value that is no number.\<close>

definition limit_reached :: "io_host \<Rightarrow> nat \<Rightarrow> jsval \<Rightarrow> bool" where
  "limit_reached H n v =
     (case (case v of JNum x \<Rightarrow> Some x | _ \<Rightarrow> mt_number H v) of None \<Rightarrow> False | Some x \<Rightarrow> x \<le> of_nat n)"

fun validate_constraints ::
  "io_host \<Rightarrow> Role \<Rightarrow> InfinityOneUser \<Rightarrow> InfinityOneUser list \<Rightarrow> RoleConstraint list \<Rightarrow> io_error option" where
  "validate_constraints H role u users [] = None"
| "validate_constraints H role u users (c # cs) =
     (case rk_type c of
        MFA_REQUIRED \<Rightarrow>
          if sp_mfaEnabled (us_security u) then validate_constraints H role u users cs
          else Some (Role_requires_MFA (ro_name role))
      | MAX_USERS \<Rightarrow>
          if limit_reached H (length (filter (has_role (ro_id role)) users)) (rk_value c)
          then Some (Role_limit_reached (ro_name role)) else validate_constraints H role u users cs
      | _ \<Rightarrow> validate_constraints H role u users cs)"

definition validateRoleConstraints :: "io_host \<Rightarrow> Role \<Rightarrow> InfinityOneUser \<Rightarrow> 'h InfinityOne \<Rightarrow> io_error option" where
  "validateRoleConstraints H role u s = validate_constraints H role u (jm_values (io_users s)) (ro_constraints role)"

record AssignRoleOptions =
  ao_reason :: "string option"
  ao_approvedBy :: "string option"
  ao_temporal :: "(int \<times> int) option"

definition no_role_options :: AssignRoleOptions where
  "no_role_options = \<lparr>ao_reason = None, ao_approvedBy = None, ao_temporal = None\<rparr>"

text \<open>The first half of an assignment: the role to assign, \<^const>\<open>None\<close> when the user has it.\<close>

definition assign_begin :: "io_host \<Rightarrow> string \<Rightarrow> string \<Rightarrow> 'h InfinityOne \<Rightarrow> io_error + Role option" where
  "assign_begin H userId roleId s =
     (case jm_get (io_users s) userId of
        None \<Rightarrow> Inl (User_not_found userId)
      | Some u \<Rightarrow>
          (case io_getRole roleId s of
             None \<Rightarrow> Inl (Role_not_found roleId)
           | Some r \<Rightarrow>
               if has_role (ro_id r) u then Inr None
               else (case validateRoleConstraints H r u s of Some err \<Rightarrow> Inl err | None \<Rightarrow> Inr (Some r))))"

definition grant_role :: "io_env \<Rightarrow> string \<Rightarrow> AssignRoleOptions \<Rightarrow> Role \<Rightarrow> AccessProfile \<Rightarrow> AccessProfile" where
  "grant_role e by opts r a =
     (case ao_temporal opts of
        None \<Rightarrow> a\<lparr>ac_roles := ac_roles a @ [r]\<rparr>
      | Some (startAt, endAt) \<Rightarrow>
          a\<lparr>ac_temporalAccess := ac_temporalAccess a @
              [\<lparr>ta_id = io_generateId e 0, ta_roleId = ro_id r,
                ta_reason = str_or (ao_reason opts) ''Temporal access granted'', ta_requestedBy = by,
                ta_approvedBy = ao_approvedBy opts, ta_startAt = startAt, ta_endAt = endAt,
                ta_status = (if str_truthy (ao_approvedBy opts) then temporal_approved else temporal_pending)\<rparr>]\<rparr>)"

text \<open>The second half, for a user that still exists.\<close>

definition assign_end ::
  "io_env \<Rightarrow> string \<Rightarrow> string \<Rightarrow> string \<Rightarrow> AssignRoleOptions \<Rightarrow> Role \<Rightarrow> 'h InfinityOne \<Rightarrow> 'h InfinityOne" where
  "assign_end e userId roleId by opts r s =
     (case jm_get (io_users s) userId of
        None \<Rightarrow> s
      | Some u \<Rightarrow>
          (let s1 = put_user userId (u\<lparr>us_access := grant_role e by opts r (us_access u), us_updatedAt := en_now e\<rparr>) s;
               s2 = logAudit (later_ids 1 e) ''role.assigned'' ''user'' userId by audit_success
                      [(''roleId'', JStr roleId), (''roleName'', JStr (ro_name r))] s1
           in io_emit (RoleAssigned userId roleId r) s2))"

definition io_assignRole ::
  "io_host \<Rightarrow> io_env \<Rightarrow> string \<Rightarrow> string \<Rightarrow> string \<Rightarrow> AssignRoleOptions \<Rightarrow> 'h InfinityOne \<Rightarrow>
     'h InfinityOne \<times> (io_error + unit)" where
  "io_assignRole H e userId roleId by opts s =
     (case assign_begin H userId roleId s of
        Inl err \<Rightarrow> (s, Inl err)
      | Inr None \<Rightarrow> (s, Inr ())
      | Inr (Some r) \<Rightarrow> (assign_end e userId roleId by opts r s, Inr ()))"

definition io_revokeRole ::
  "io_env \<Rightarrow> string \<Rightarrow> string \<Rightarrow> string \<Rightarrow> 'h InfinityOne \<Rightarrow> 'h InfinityOne \<times> (io_error + unit)" where
  "io_revokeRole e userId roleId by s =
     (case jm_get (io_users s) userId of
        None \<Rightarrow> (s, Inl (User_not_found userId))
      | Some u \<Rightarrow>
          (let a = us_access u;
               u1 = u\<lparr>us_access := a\<lparr>ac_roles := filter (\<lambda>r. ro_id r \<noteq> roleId) (ac_roles a)\<rparr>,
                      us_updatedAt := en_now e\<rparr>;
               s1 = logAudit e ''role.revoked'' ''user'' userId by audit_success [(''roleId'', JStr roleId)]
                      (put_user userId u1 s)
           in (io_emit (RoleRevoked userId roleId) s1, Inr ())))"

section \<open>Permission checks\<close>

record PermissionContext =
  px_ipAddress :: "string option"
  px_country :: "string option"
  px_mfaVerified :: "bool option"
  px_riskScore :: "rat option"
  px_deviceTrusted :: "bool option"
  px_timeOfDay :: "rat option"
  px_applicationId :: "string option"

datatype permission_reason =
    User_unknown
  | Status_is UserStatus
  | User_is_quarantined
  | IP_blocked
  | Geo_blocked
  | Super_admin_access
  | No_matching_permission
  | MFA_needed
  | IP_not_in_range
  | Risk_too_high
  | Permission_granted

record PermissionResult =
  pt_allowed :: bool
  pt_reason :: permission_reason
  pt_permission :: "Permission option"
  pt_riskScore :: "int option"

definition refuse :: "permission_reason \<Rightarrow> PermissionResult" where
  "refuse r = \<lparr>pt_allowed = False, pt_reason = r, pt_permission = None, pt_riskScore = None\<rparr>"

fun restriction_hit :: "int \<Rightarrow> PermissionContext option \<Rightarrow> AccessRestriction list \<Rightarrow> permission_reason option" where
  "restriction_hit now ctx [] = None"
| "restriction_hit now ctx (r # rs) =
     (if (case rs_expiresAt r of None \<Rightarrow> False | Some t \<Rightarrow> t < now) then restriction_hit now ctx rs
      else case rs_type r of
        QUARANTINE \<Rightarrow> Some User_is_quarantined
      | IP_BLOCK \<Rightarrow>
          if (case ctx of None \<Rightarrow> False | Some c \<Rightarrow> str_truthy (px_ipAddress c)) \<and>
             truthy (obj_prop (rs_metadata r) ''ipRange'')
          then Some IP_blocked else restriction_hit now ctx rs
      | GEO_BLOCK \<Rightarrow>
          if (case ctx of None \<Rightarrow> False | Some c \<Rightarrow> str_truthy (px_country c)) \<and>
             truthy (obj_prop (rs_metadata r) ''countries'')
          then Some Geo_blocked else restriction_hit now ctx rs
      | _ \<Rightarrow> restriction_hit now ctx rs)"

definition checkRestrictions :: "int \<Rightarrow> InfinityOneUser \<Rightarrow> PermissionContext option \<Rightarrow> permission_reason option" where
  "checkRestrictions now u ctx = restriction_hit now ctx (ac_restrictions (us_access u))"

definition role_permissions :: "'h InfinityOne \<Rightarrow> Role \<Rightarrow> Permission list" where
  "role_permissions s r =
     ro_permissions r @
     concat (map (\<lambda>i. case io_getRole i s of None \<Rightarrow> [] | Some q \<Rightarrow> ro_permissions q) (ro_inheritedRoles r))"

definition collectPermissions :: "InfinityOneUser \<Rightarrow> 'h InfinityOne \<Rightarrow> Permission list" where
  "collectPermissions u s =
     ac_permissions (us_access u) @ concat (map (role_permissions s) (ac_roles (us_access u)))"

definition permission_matches :: "string \<Rightarrow> string \<Rightarrow> Permission \<Rightarrow> bool" where
  "permission_matches resource action p =
     ((pe_resource p = resource \<or> pe_resource p = ''*'') \<and> (pe_action p = action \<or> pe_action p = ''*''))"

text \<open>The reason why a condition fails.\<close>

definition condition_failure :: "PermissionContext \<Rightarrow> PolicyCondition \<Rightarrow> permission_reason option" where
  "condition_failure ctx c =
     (case co_operator c of
        MFA_PRESENT \<Rightarrow> if px_mfaVerified ctx = Some True then None else Some MFA_needed
      | IP_ADDRESS \<Rightarrow>
          if list_ex (\<lambda>v. case px_ipAddress ctx of None \<Rightarrow> False | Some a \<Rightarrow> js_startsWith a v) (co_values c)
          then None else Some IP_not_in_range
      | RISK_SCORE_LESS_THAN \<Rightarrow>
          (case (case co_values c of [] \<Rightarrow> None | v # _ \<Rightarrow> js_parseInt v) of
             None \<Rightarrow> None
           | Some t \<Rightarrow> if of_int t \<le> dflt (px_riskScore ctx) 0 then Some Risk_too_high else None)
      | _ \<Rightarrow> None)"

fun io_evaluateConditions :: "PermissionContext \<Rightarrow> PolicyCondition list \<Rightarrow> permission_reason option" where
  "io_evaluateConditions ctx [] = None"
| "io_evaluateConditions ctx (c # cs) =
     (case condition_failure ctx c of Some r \<Rightarrow> Some r | None \<Rightarrow> io_evaluateConditions ctx cs)"

definition risk_number :: "RiskLevel \<Rightarrow> int" where
  "risk_number r = (if r = R_CRITICAL then 90 else if r = R_HIGH then 70 else if r = R_MEDIUM then 40 else 10)"

definition io_checkPermission ::
  "int \<Rightarrow> string \<Rightarrow> string \<Rightarrow> string \<Rightarrow> PermissionContext option \<Rightarrow> 'h InfinityOne \<Rightarrow> PermissionResult" where
  "io_checkPermission now userId resource action ctx s =
     (case jm_get (io_users s) userId of
        None \<Rightarrow> refuse User_unknown
      | Some u \<Rightarrow>
          if us_status u \<noteq> U_ACTIVE then refuse (Status_is (us_status u))
          else (case checkRestrictions now u ctx of
                  Some r \<Rightarrow> refuse r
                | None \<Rightarrow>
                    if list_ex (\<lambda>r. ro_name r = ''super_admin'') (ac_roles (us_access u))
                    then \<lparr>pt_allowed = True, pt_reason = Super_admin_access, pt_permission = None, pt_riskScore = Some 0\<rparr>
                    else (case find (permission_matches resource action) (collectPermissions u s) of
                            None \<Rightarrow> refuse No_matching_permission
                          | Some p \<Rightarrow>
                              (case (case (pe_conditions p, ctx) of
                                       (Some cs, Some c) \<Rightarrow> io_evaluateConditions c cs
                                     | _ \<Rightarrow> None) of
                                 Some r \<Rightarrow> refuse r
                               | None \<Rightarrow>
                                   \<lparr>pt_allowed = True, pt_reason = Permission_granted, pt_permission = Some p,
                                    pt_riskScore = Some (risk_number (pe_riskLevel p))\<rparr>))))"

record PermissionCheck =
  pk_resource :: string
  pk_action :: string
  pk_context :: "PermissionContext option"

definition io_checkPermissions ::
  "int \<Rightarrow> string \<Rightarrow> PermissionCheck list \<Rightarrow> 'h InfinityOne \<Rightarrow> (string, PermissionResult) jsmap" where
  "io_checkPermissions now userId checks s =
     fold (\<lambda>c m. jm_set (pk_resource c @ '':'' @ pk_action c)
                   (io_checkPermission now userId (pk_resource c) (pk_action c) (pk_context c) s) m) checks []"

section \<open>Second factors\<close>

definition enrollment_data :: "io_env \<Rightarrow> InfinityOneUser \<Rightarrow> MFAType \<Rightarrow> mfa_data" where
  "enrollment_data e u ty =
     (case ty of
        M_TOTP \<Rightarrow> E_totp (base64_text (generateSecureRandom e 20))
      | M_WEBAUTHN \<Rightarrow> E_challenge (generateSecureRandom e 32)
      | M_SMS \<Rightarrow> E_sms (ct_phone (us_contact u))
      | M_EMAIL \<Rightarrow> E_email (ct_email (us_contact u))
      | _ \<Rightarrow> E_nothing)"

definition io_enrollMFA ::
  "io_env \<Rightarrow> string \<Rightarrow> MFAType \<Rightarrow> string \<Rightarrow> 'h InfinityOne \<Rightarrow> 'h InfinityOne \<times> (io_error + string \<times> mfa_data)" where
  "io_enrollMFA e userId ty name s =
     (case jm_get (io_users s) userId of
        None \<Rightarrow> (s, Inl (User_not_found userId))
      | Some u \<Rightarrow>
          (let m = \<lparr>mm_id = io_generateId e 0, mm_type = ty, mm_name = name, mm_enabled = False,
                    mm_primary = (sp_mfaMethods (us_security u) = []), mm_createdAt = en_now e,
                    mm_lastUsedAt = None, mm_metadata = enrollment_data e u ty\<rparr>;
               u1 = map_security (\<lambda>p. p\<lparr>sp_mfaMethods := sp_mfaMethods p @ [m]\<rparr>) u
           in (logAudit (later_ids 1 e) ''mfa.enrolled'' ''user'' userId userId audit_success
                 [(''type'', JStr (mfa_str ty))] (put_user userId u1 s),
               Inr (mm_id m, mm_metadata m))))"

definition verifyMFACode :: "MFAMethod \<Rightarrow> string \<Rightarrow> bool" where
  "verifyMFACode m code = (6 \<le> length code)"

text \<open>The first method with the identifier, changed in place.\<close>

fun use_method :: "int \<Rightarrow> string \<Rightarrow> MFAMethod list \<Rightarrow> MFAMethod list" where
  "use_method now mid [] = []"
| "use_method now mid (m # ms) =
     (if mm_id m = mid then m\<lparr>mm_enabled := True, mm_lastUsedAt := Some now\<rparr> # ms else m # use_method now mid ms)"

definition enable_mfa :: "SecurityProfile \<Rightarrow> SecurityProfile" where
  "enable_mfa p =
     (if sp_mfaEnabled p then p
      else p\<lparr>sp_mfaEnabled := True, sp_securityScore := min 100 (sp_securityScore p + 20)\<rparr>)"

definition io_verifyMFA ::
  "io_env \<Rightarrow> string \<Rightarrow> string \<Rightarrow> string \<Rightarrow> 'h InfinityOne \<Rightarrow> 'h InfinityOne \<times> bool" where
  "io_verifyMFA e userId methodId code s =
     (case jm_get (io_users s) userId of
        None \<Rightarrow> (s, False)
      | Some u \<Rightarrow>
          (case find (\<lambda>m. mm_id m = methodId) (sp_mfaMethods (us_security u)) of
             None \<Rightarrow> (s, False)
           | Some m \<Rightarrow>
               if verifyMFACode m code
               then (let u1 = map_security (\<lambda>p. enable_mfa
                                (p\<lparr>sp_mfaMethods := use_method (en_now e) methodId (sp_mfaMethods p)\<rparr>)) u
                     in (logAudit e ''mfa.verified'' ''user'' userId userId audit_success
                           [(''type'', JStr (mfa_str (mm_type m)))] (put_user userId u1 s), True))
               else (logAudit e ''mfa.failed'' ''user'' userId userId audit_failure
                       [(''type'', JStr (mfa_str (mm_type m)))] s, False)))"

section \<open>Organisations and provisioning\<close>

record CreateOrgInput =
  oi_name :: string
  oi_displayName :: string
  oi_description :: "string option"
  oi_domain :: string
  oi_domains :: "string list option"
  oi_type :: "OrgType option"
  oi_plan :: "OrgPlan option"

definition getDefaultOrgSettings :: OrgSettings where
  "getDefaultOrgSettings =
     \<lparr>os_ssoEnabled = False, os_ssoProvider = None, os_mfaRequired = False,
      os_passwordPolicy = \<lparr>pw_minLength = 12, pw_requireUppercase = True, pw_requireLowercase = True,
        pw_requireNumbers = True, pw_requireSpecialChars = True, pw_maxAge = 90, pw_historyCount = 10,
        pw_breachCheckEnabled = True\<rparr>,
      os_sessionPolicy = \<lparr>sn_maxDuration = 86400, sn_idleTimeout = 3600, sn_maxConcurrentSessions = 5,
        sn_requireMfaForSensitive = True, sn_trustedDevicesEnabled = True\<rparr>,
      os_ipAllowlist = [], os_geoAllowlist = [], os_dataResidency = ''EU'', os_auditLogRetention = 365,
      os_customBranding = None\<rparr>"

definition io_createOrganisation ::
  "io_env \<Rightarrow> CreateOrgInput \<Rightarrow> string \<Rightarrow> 'h InfinityOne \<Rightarrow> 'h InfinityOne \<times> Organisation" where
  "io_createOrganisation e d by s =
     (let og = \<lparr>og_id = io_generateId e 0, og_name = oi_name d, og_displayName = oi_displayName d,
               og_description = oi_description d, og_logo = None, og_domain = oi_domain d,
               og_domains = dflt (oi_domains d) [oi_domain d], og_type = dflt (oi_type d) org_STARTUP,
               og_plan = dflt (oi_plan d) plan_FREE, og_settings = getDefaultOrgSettings,
               og_members = [\<lparr>ob_userId = by, ob_role = member_owner, ob_joinedAt = en_now e, ob_invitedBy = by,
                              ob_status = org_member_active\<rparr>],
               og_groups = [], og_roles = [], og_policies = [], og_applications = [], og_createdAt = en_now e,
               og_updatedAt = en_now e, og_createdBy = by\<rparr>
      in (logAudit (later_ids 1 e) ''org.created'' ''organisation'' (og_id og) by audit_success
            [(''name'', JStr (oi_name d))] (s\<lparr>io_organisations := jm_set (og_id og) og (io_organisations s)\<rparr>), og))"

definition scim_input :: "SCIMUser \<Rightarrow> string \<Rightarrow> CreateUserInput" where
  "scim_input x orgId =
     \<lparr>cu_firstName = str_or (sm_givenName (su_name x)) '''', cu_lastName = str_or (sm_familyName (su_name x)) '''',
      cu_email = (case su_emails x of [] \<Rightarrow> '''' | a # _ \<Rightarrow> a), cu_displayName = None,
      cu_username = Some (su_userName x),
      cu_phone = (case su_phoneNumbers x of Some (p # _) \<Rightarrow> Some p | _ \<Rightarrow> None), cu_photo = None,
      cu_dateOfBirth = None, cu_gender = None, cu_languages = None, cu_occupation = None, cu_organisation = None,
      cu_address = None, cu_timezone = None, cu_locale = None, cu_source = Some source_scim,
      cu_externalId = su_externalId x, cu_externalProvider = None, cu_invitedBy = None, cu_tags = None,
      cu_customAttributes = None, cu_createdBy = Some (''scim:'' @ orgId)\<rparr>"

definition scimCreateUser ::
  "io_env \<Rightarrow> SCIMUser \<Rightarrow> string \<Rightarrow> 'h InfinityOne \<Rightarrow> 'h InfinityOne \<times> InfinityOneUser" where
  "scimCreateUser e x orgId s = io_createUser e (scim_input x orgId) s"

text \<open>Of a partial update only the name and the user name are read. When the user does not exist the
  profile is built from nothing, but then the update fails.\<close>

definition scim_profile :: "SCIMName \<Rightarrow> string option \<Rightarrow> UserProfile \<Rightarrow> UserProfile" where
  "scim_profile name userName p =
     p\<lparr>up_firstName := str_or (sm_givenName name) '''', up_lastName := str_or (sm_familyName name) '''',
       up_displayName := str_or (sm_formatted name) '''', up_username := str_or userName '''',
       up_gender := G_PREFER_NOT_TO_SAY, up_languages := [''en'']\<rparr>"

definition scimUpdateUser ::
  "io_env \<Rightarrow> string \<Rightarrow> SCIMName option \<Rightarrow> string option \<Rightarrow> string \<Rightarrow> 'h InfinityOne \<Rightarrow>
     'h InfinityOne \<times> (io_error + InfinityOneUser)" where
  "scimUpdateUser e uid name userName by s =
     io_updateUser e uid
       (case (name, jm_get (io_users s) uid) of
          (Some n, Some u) \<Rightarrow> no_updates\<lparr>uu_profile := Some (scim_profile n userName (us_profile u))\<rparr>
        | _ \<Rightarrow> no_updates) by s"

section \<open>Tokens\<close>

definition json_claims :: "OIDCClaims \<Rightarrow> string" where
  "json_claims c = json_obj
     [(''sub'', Some (json_quote (cl_sub c))), (''iss'', Some (json_quote (cl_iss c))),
      (''aud'', Some (json_quote (cl_aud c))), (''exp'', Some (int_str (cl_exp c))), (''iat'', Some (int_str (cl_iat c))),
      (''name'', map_option json_quote (cl_name c)), (''email'', map_option json_quote (cl_email c)),
      (''email_verified'', map_option json_bool (cl_email_verified c)),
      (''phone_number'', map_option json_quote (cl_phone_number c)), (''picture'', map_option json_quote (cl_picture c)),
      (''locale'', map_option json_quote (cl_locale c)), (''zoneinfo'', map_option json_quote (cl_zoneinfo c)),
      (''updated_at'', map_option int_str (cl_updated_at c)), (''infinity:did'', map_option json_quote (cl_did c)),
      (''infinity:roles'', map_option (\<lambda>xs. json_arr (map json_quote xs)) (cl_roles c)),
      (''infinity:permissions'', map_option (\<lambda>xs. json_arr (map json_quote xs)) (cl_permissions c)),
      (''infinity:lighthouse_token'', map_option json_quote (cl_lighthouse_token c)),
      (''infinity:risk_score'', map_option int_str (cl_risk_score c)),
      (''infinity:verification_level'', map_option json_quote (cl_verification_level c)),
      (''nonce'', map_option json_quote (cl_nonce c))]"

definition b64u_text :: "string \<Rightarrow> string" where
  "b64u_text s = base64url_encode (utf8_encode s)"

definition signJWT :: "int \<Rightarrow> OIDCClaims \<Rightarrow> string" where
  "signJWT now c =
     b64u_text (json_obj [(''alg'', Some (json_quote ''ML-DSA-65'')), (''typ'', Some (json_quote ''JWT''))]) @ ''.'' @
     b64u_text (json_claims c) @ ''.'' @ b64u_text (''sig_'' @ int_str now)"

definition oidc_claims :: "int \<Rightarrow> string \<Rightarrow> string \<Rightarrow> InfinityOneUser \<Rightarrow> OIDCClaims" where
  "oidc_claims now userId applicationId u =
     \<lparr>cl_sub = userId, cl_iss = ''https://identity.trancendos.com'', cl_aud = applicationId,
      cl_exp = now div 1000 + 900, cl_iat = now div 1000, cl_nonce = None,
      cl_name = Some (up_displayName (us_profile u)), cl_email = Some (ct_email (us_contact u)),
      cl_email_verified = Some (ct_emailVerified (us_contact u)), cl_phone_number = ct_phone (us_contact u),
      cl_picture = up_photo (us_profile u), cl_locale = Some (ct_locale (us_contact u)),
      cl_zoneinfo = Some (ct_timezone (us_contact u)), cl_updated_at = Some (us_updatedAt u div 1000),
      cl_did = Some (us_did u), cl_roles = Some (map ro_name (ac_roles (us_access u))),
      cl_permissions = Some (map (\<lambda>p. pe_resource p @ '':'' @ pe_action p) (ac_permissions (us_access u))),
      cl_lighthouse_token = Some (us_lighthouseToken u),
      cl_risk_score = Some (risk_number (sp_riskLevel (us_security u))),
      cl_verification_level = Some (verification_str (um_verificationLevel (us_metadata u)))\<rparr>"

definition generateRefreshToken :: "io_env \<Rightarrow> string \<Rightarrow> string \<Rightarrow> string" where
  "generateRefreshToken e userId applicationId =
     ''rt_'' @ userId @ ''_'' @ applicationId @ ''_'' @ hex_text (generateSecureRandom e 32)"

definition generateOAuthToken ::
  "io_env \<Rightarrow> string \<Rightarrow> string list \<Rightarrow> string \<Rightarrow> 'h InfinityOne \<Rightarrow> io_error + OAuthToken" where
  "generateOAuthToken e userId scopes applicationId s =
     (case jm_get (io_users s) userId of
        None \<Rightarrow> Inl (User_not_found userId)
      | Some u \<Rightarrow>
          (let c = oidc_claims (en_now e) userId applicationId u
           in Inr \<lparr>ot_accessToken = signJWT (en_now e) c, ot_tokenType = ''Bearer'', ot_expiresIn = 900,
                   ot_refreshToken = Some (generateRefreshToken e userId applicationId),
                   ot_scope = js_join (CHR '' '') scopes,
                   ot_idToken = (if ''openid'' \<in> set scopes
                                 then Some (signJWT (en_now e) (c\<lparr>cl_nonce := Some (io_generateId e 0)\<rparr>)) else None)\<rparr>))"

section \<open>Audit and data requests\<close>

record AuditFilters =
  af_userId :: "string option"
  af_action :: "string option"
  af_from :: "int option"
  af_to :: "int option"

definition io_getAuditLog :: "AuditFilters \<Rightarrow> 'h InfinityOne \<Rightarrow> AuditEntry list" where
  "io_getAuditLog f s =
     (let a0 = io_auditLog s;
          a1 = (if str_truthy (af_userId f) then filter (\<lambda>a. Some (ae_actor a) = af_userId f) a0 else a0);
          a2 = (if str_truthy (af_action f) then filter (\<lambda>a. js_includes (ae_action a) (dflt (af_action f) [])) a1 else a1);
          a3 = (case af_from f of None \<Rightarrow> a2 | Some t \<Rightarrow> filter (\<lambda>a. t \<le> ae_timestamp a) a2);
          a4 = (case af_to f of None \<Rightarrow> a3 | Some t \<Rightarrow> filter (\<lambda>a. ae_timestamp a \<le> t) a3)
      in sort_key (\<lambda>a. - ae_timestamp a) a4)"

datatype gdpr_request = gdpr_erasure | gdpr_portability | gdpr_access

primrec gdpr_str :: "gdpr_request \<Rightarrow> string" where
  "gdpr_str gdpr_erasure = ''erasure''"
| "gdpr_str gdpr_portability = ''portability''"
| "gdpr_str gdpr_access = ''access''"

record exported_data =
  xd_profile :: UserProfile
  xd_contact :: ContactInfo
  xd_emailAlt :: "string list"
  xd_preferences :: UserPreferences
  xd_createdAt :: int

definition exportUserData :: "string \<Rightarrow> 'h InfinityOne \<Rightarrow> exported_data option" where
  "exportUserData userId s =
     map_option (\<lambda>u. \<lparr>xd_profile = us_profile u, xd_contact = us_contact u,
                       xd_emailAlt = map em_address (ct_emailAlt (us_contact u)),
                       xd_preferences = us_preferences u, xd_createdAt = us_createdAt u\<rparr>) (jm_get (io_users s) userId)"

definition io_processGDPRRequest ::
  "io_env \<Rightarrow> string \<Rightarrow> gdpr_request \<Rightarrow> string \<Rightarrow> 'h InfinityOne \<Rightarrow>
     'h InfinityOne \<times> (io_error + exported_data option)" where
  "io_processGDPRRequest e userId ty by s =
     (case jm_get (io_users s) userId of
        None \<Rightarrow> (s, Inl (User_not_found userId))
      | Some u \<Rightarrow>
          (case ty of
             gdpr_erasure \<Rightarrow>
               (let u1 = u\<lparr>us_compliance := (us_compliance u)\<lparr>cp_rightToErasureRequested := True,
                            cp_rightToErasureRequestedAt := Some (en_now e)\<rparr>\<rparr>;
                    s1 = io_emit (ErasureScheduled userId (en_now e + 30 * 24 * 3600 * 1000)) (put_user userId u1 s)
                in (logAudit e (''gdpr.'' @ gdpr_str ty) ''user'' userId by audit_success [] s1, Inr None))
           | gdpr_portability \<Rightarrow>
               (let u1 = u\<lparr>us_compliance := (us_compliance u)\<lparr>cp_dataPortabilityRequested := True\<rparr>\<rparr>;
                    s1 = put_user userId u1 s
                in (s1, Inr (exportUserData userId s1)))
           | gdpr_access \<Rightarrow> (s, Inr (exportUserData userId s))))"

section \<open>Risk\<close>

definition io_calculateSecurityScore :: "string \<Rightarrow> 'h InfinityOne \<Rightarrow> 'h InfinityOne \<times> int" where
  "io_calculateSecurityScore userId s =
     (case jm_get (io_users s) userId of
        None \<Rightarrow> (s, 0)
      | Some u \<Rightarrow>
          (let p = us_security u;
               score = (if ct_emailVerified (us_contact u) then 10 else 0) +
                       (if ct_phoneVerified (us_contact u) then 10 else 0) +
                       (if sp_mfaEnabled p then 20 else 0) +
                       (if 0 < length (sp_webauthnCredentials p) then 15 else 0) +
                       (if 0 < length (sp_trustedDevices p) then 5 else 0) +
                       (if um_verificationLevel (us_metadata u) = IDENTITY_VERIFIED then 20 else 0) +
                       (if 2 \<le> length (sp_recoveryMethods p) then 10 else 0) +
                       (if 2 \<le> length (sp_mfaMethods p) then 10 else 0)
           in (put_user userId (map_security (\<lambda>p. p\<lparr>sp_securityScore := min 100 score\<rparr>) u) s, min 100 score)))"

definition calculateDistance :: "io_host \<Rightarrow> rat \<Rightarrow> rat \<Rightarrow> rat \<Rightarrow> rat \<Rightarrow> rat" where
  "calculateDistance H lat1 lon1 lat2 lon2 =
     (let dLat = (lat2 - lat1) * mt_pi H / 180;
          dLon = (lon2 - lon1) * mt_pi H / 180;
          a = mt_sin H (dLat / 2) * mt_sin H (dLat / 2) +
              mt_cos H (lat1 * mt_pi H / 180) * mt_cos H (lat2 * mt_pi H / 180) *
              mt_sin H (dLon / 2) * mt_sin H (dLon / 2)
      in 6371 * 2 * mt_atan2 H (mt_sqrt H a) (mt_sqrt H (1 - a)))"

text \<open>A division by 0 gives an infinity, or \<open>NaN\<close> for 0 / 0.\<close>

definition isImpossibleTravel :: "io_host \<Rightarrow> LoginAttempt \<Rightarrow> LoginAttempt \<Rightarrow> bool" where
  "isImpossibleTravel H earlier now =
     (case (la_location earlier, la_location now) of
        (Some a, Some b) \<Rightarrow>
          (let timeDiff = of_int (la_timestamp now - la_timestamp earlier) / 3600000;
               distance = calculateDistance H (gl_latitude a) (gl_longitude a) (gl_latitude b) (gl_longitude b)
           in if timeDiff = 0 then 0 < distance else 900 < distance / timeDiff)
      | _ \<Rightarrow> False)"

definition lockAccount :: "io_env \<Rightarrow> string \<Rightarrow> string \<Rightarrow> 'h InfinityOne \<Rightarrow> 'h InfinityOne" where
  "lockAccount e userId reason s =
     io_emit (AccountLocked userId reason) (fst (io_updateUser e userId (set_status U_LOCKED) ''system'' s))"

datatype anomaly = no_anomaly | brute_force | impossible_travel | new_location

definition detectAnomalousLogin ::
  "io_host \<Rightarrow> io_env \<Rightarrow> string \<Rightarrow> LoginAttempt \<Rightarrow> 'h InfinityOne \<Rightarrow> 'h InfinityOne \<times> anomaly" where
  "detectAnomalousLogin H e userId attempt s =
     (case jm_get (io_users s) userId of
        None \<Rightarrow> (s, no_anomaly)
      | Some u \<Rightarrow>
          (let recent = slice_last 10 (sp_loginAttempts (us_security u)) in
           if 5 \<le> length (filter (\<lambda>a. \<not> la_success a) recent) then (lockAccount e userId ''brute_force'' s, brute_force)
           else if recent \<noteq> [] \<and> isImpossibleTravel H (last recent) attempt then (s, impossible_travel)
           else (case la_location attempt of
                   None \<Rightarrow> (s, no_anomaly)
                 | Some l \<Rightarrow>
                     if gl_country l \<in> set (map gl_country (List.map_filter la_location recent)) then (s, no_anomaly)
                     else (s, new_location))))"

end
