(* ===== verification/InfinityProps.thy ===== *)
theory InfinityProps
  imports InfinityOne
begin

text \<open>
  The properties of the account hub. Histories are sequences of operations in which identifiers are drawn
  afresh and no update replaces a user's security profile or access profile; the relation \<open>io_steps N\<close>
  moreover never draws an identifier of \<open>N\<close> again. Suspension ends every session of the user for good,
  deletion ends none; a permission check decides by its specification; the limit on the holders of a role
  is kept when assignments are not interleaved.
\<close>

section \<open>Histories\<close>

datatype 'h io_op =
    CreateUser io_env CreateUserInput
  | UpdateUser io_env string user_updates string
  | SuspendUser io_env string string string
  | DeleteUser io_env string string bool
  | QuarantineUser io_env string string string
  | CreateRole io_env CreateRoleInput string
  | AssignRole io_env string string string AssignRoleOptions
  | RevokeRole io_env string string string
  | CreateSession io_env string DeviceInfo SessionOptions
  | ValidateSession int string
  | RevokeSession string
  | RevokeAllSessions string
  | EnrollMFA io_env string MFAType string
  | VerifyMFA io_env string string string
  | CreateOrganisation io_env CreateOrgInput string
  | ScimCreate io_env SCIMUser string
  | ScimUpdate io_env string "SCIMName option" "string option" string
  | GDPRRequest io_env string gdpr_request string
  | SecurityScore string
  | DetectLogin io_env string LoginAttempt
  | OnEvent string 'h

primrec io_apply :: "io_host \<Rightarrow> 'h io_op \<Rightarrow> 'h InfinityOne \<Rightarrow> 'h InfinityOne" where
  "io_apply H (CreateUser e d) s = fst (io_createUser e d s)"
| "io_apply H (UpdateUser e uid d by) s = fst (io_updateUser e uid d by s)"
| "io_apply H (SuspendUser e uid reason by) s = fst (io_suspendUser e uid reason by s)"
| "io_apply H (DeleteUser e uid by hard) s = fst (io_deleteUser e uid by hard s)"
| "io_apply H (QuarantineUser e uid reason by) s = fst (io_quarantineUser e uid reason by s)"
| "io_apply H (CreateRole e d by) s = fst (io_createRole e d by s)"
| "io_apply H (AssignRole e uid rid by opts) s = fst (io_assignRole H e uid rid by opts s)"
| "io_apply H (RevokeRole e uid rid by) s = fst (io_revokeRole e uid rid by s)"
| "io_apply H (CreateSession e uid di opts) s = fst (io_createSession e uid di opts s)"
| "io_apply H (ValidateSession now sid) s = fst (io_validateSession now sid s)"
| "io_apply H (RevokeSession sid) s = io_revokeSession sid s"
| "io_apply H (RevokeAllSessions uid) s = io_revokeAllSessions uid s"
| "io_apply H (EnrollMFA e uid ty name) s = fst (io_enrollMFA e uid ty name s)"
| "io_apply H (VerifyMFA e uid mid code) s = fst (io_verifyMFA e uid mid code s)"
| "io_apply H (CreateOrganisation e d by) s = fst (io_createOrganisation e d by s)"
| "io_apply H (ScimCreate e x og) s = fst (scimCreateUser e x og s)"
| "io_apply H (ScimUpdate e uid name userName by) s = fst (scimUpdateUser e uid name userName by s)"
| "io_apply H (GDPRRequest e uid ty by) s = fst (io_processGDPRRequest e uid ty by s)"
| "io_apply H (SecurityScore uid) s = fst (io_calculateSecurityScore uid s)"
| "io_apply H (DetectLogin e uid a) s = fst (detectAnomalousLogin H e uid a s)"
| "io_apply H (OnEvent ev h) s = io_on ev h s"

text \<open>A new identifier of a user, a role or a session.\<close>

definition fresh_user :: "string \<Rightarrow> 'h InfinityOne \<Rightarrow> bool" where
  "fresh_user uid s = (jm_get (io_users s) uid = None \<and> list_all (\<lambda>x. se_userId x \<noteq> uid) (jm_values (io_sessions s)))"

definition fresh_session :: "string \<Rightarrow> 'h InfinityOne \<Rightarrow> bool" where
  "fresh_session sid s = (jm_get (io_sessions s) sid = None)"

definition fresh_role :: "string \<Rightarrow> 'h InfinityOne \<Rightarrow> bool" where
  "fresh_role rid s = (jm_get (io_roles s) rid = None)"

fun io_allowed :: "string set \<Rightarrow> 'h io_op \<Rightarrow> 'h InfinityOne \<Rightarrow> bool" where
  "io_allowed N (CreateUser e d) s = (io_generateId e 0 \<notin> N \<and> fresh_user (io_generateId e 0) s)"
| "io_allowed N (ScimCreate e x og) s = (io_generateId e 0 \<notin> N \<and> fresh_user (io_generateId e 0) s)"
| "io_allowed N (UpdateUser e uid d by) s = (uu_security d = None \<and> uu_access d = None)"
| "io_allowed N (CreateRole e d by) s = (io_generateId e 0 \<notin> N \<and> fresh_role (io_generateId e 0) s)"
| "io_allowed N (CreateSession e uid di opts) s = (io_generateId e 0 \<notin> N \<and> fresh_session (io_generateId e 0) s)"
| "io_allowed N op s = True"

inductive io_steps :: "io_host \<Rightarrow> string set \<Rightarrow> 'h InfinityOne \<Rightarrow> 'h InfinityOne \<Rightarrow> bool" for H N s where
  io_refl: "io_steps H N s s"
| io_step: "io_steps H N s t \<Longrightarrow> io_allowed N op t \<Longrightarrow> io_steps H N s (io_apply H op t)"

section \<open>What operations leave alone\<close>

lemma io_emit_fields [simp]:
  "io_users (io_emit ev s) = io_users s" "io_sessions (io_emit ev s) = io_sessions s"
  "io_roles (io_emit ev s) = io_roles s" "io_auditLog (io_emit ev s) = io_auditLog s"
  by (simp_all add: io_emit_def)

lemma logAudit_fields [simp]:
  "io_users (logAudit e a r i by x m s) = io_users s" "io_sessions (logAudit e a r i by x m s) = io_sessions s"
  "io_roles (logAudit e a r i by x m s) = io_roles s"
  by (simp_all add: logAudit_def Let_def)

lemma io_on_fields [simp]:
  "io_users (io_on ev h s) = io_users s" "io_sessions (io_on ev h s) = io_sessions s"
  "io_roles (io_on ev h s) = io_roles s"
  by (simp_all add: io_on_def Let_def)

lemma put_user_fields [simp]:
  "io_users (put_user uid u s) = jm_set uid u (io_users s)" "io_sessions (put_user uid u s) = io_sessions s"
  "io_roles (put_user uid u s) = io_roles s"
  by (simp_all add: put_user_def)

lemma merge_user_fields [simp]:
  "us_security (merge_user now d u) = dflt (uu_security d) (us_security u)"
  "us_access (merge_user now d u) = dflt (uu_access d) (us_access u)"
  "us_status (merge_user now d u) = dflt (uu_status d) (us_status u)"
  by (simp_all add: merge_user_def)

lemma map_security_fields [simp]:
  "us_security (map_security f u) = f (us_security u)" "us_access (map_security f u) = us_access u"
  "us_status (map_security f u) = us_status u"
  by (simp_all add: map_security_def)

lemma set_status_fields [simp]:
  "uu_security (set_status st) = None" "uu_access (set_status st) = None" "uu_status (set_status st) = Some st"
  by (simp_all add: set_status_def no_updates_def)

lemma dflt_simps [simp]: "dflt None x = x" "dflt (Some y) x = y"
  by (simp_all add: dflt_def)

text \<open>An update of a user in the map.\<close>

lemma update_user_effect:
  "io_users (fst (io_updateUser e uid d by s)) =
     (case jm_get (io_users s) uid of None \<Rightarrow> io_users s
      | Some u \<Rightarrow> jm_set uid (merge_user (en_now e) d u) (io_users s))"
  "io_sessions (fst (io_updateUser e uid d by s)) = io_sessions s"
  "io_roles (fst (io_updateUser e uid d by s)) = io_roles s"
  "(snd (io_updateUser e uid d by s) = Inl err) = (jm_get (io_users s) uid = None \<and> err = User_not_found uid)"
  by (auto simp: io_updateUser_def Let_def split: option.splits)

lemma get_deleted: "jm_get (fold jm_delete ks m) k = (if k \<in> set ks then None else jm_get m k)"
  by (induction ks arbitrary: m) auto

text \<open>The two ways to shut a user out have the same effect on users and sessions.\<close>

definition shut_out :: "UserStatus \<Rightarrow> io_env \<Rightarrow> string \<Rightarrow> string \<Rightarrow> 'h InfinityOne \<Rightarrow> 'h InfinityOne" where
  "shut_out st e uid by s = io_revokeAllSessions uid (fst (io_updateUser e uid (set_status st) by s))"

lemma suspend_effect:
  "io_users (fst (io_suspendUser e uid reason by s)) = io_users (shut_out U_SUSPENDED e uid by s)"
  "io_sessions (fst (io_suspendUser e uid reason by s)) = io_sessions (shut_out U_SUSPENDED e uid by s)"
  "io_roles (fst (io_suspendUser e uid reason by s)) = io_roles (shut_out U_SUSPENDED e uid by s)"
  by (auto simp: io_suspendUser_def shut_out_def io_updateUser_def io_revokeAllSessions_def Let_def
      split: option.splits)

lemma quarantine_effect:
  "io_users (fst (io_quarantineUser e uid reason by s)) = io_users (shut_out U_QUARANTINED e uid by s)"
  "io_sessions (fst (io_quarantineUser e uid reason by s)) = io_sessions (shut_out U_QUARANTINED e uid by s)"
  "io_roles (fst (io_quarantineUser e uid reason by s)) = io_roles (shut_out U_QUARANTINED e uid by s)"
  by (auto simp: io_quarantineUser_def shut_out_def io_updateUser_def io_revokeAllSessions_def Let_def
      split: option.splits)

section \<open>Sessions\<close>

definition active_ids :: "'h InfinityOne \<Rightarrow> string \<Rightarrow> string list option" where
  "active_ids s uid = map_option (\<lambda>u. sp_activeSessions (us_security u)) (jm_get (io_users s) uid)"

definition sessions_listed :: "'h InfinityOne \<Rightarrow> bool" where
  "sessions_listed s =
     (\<forall>sid x ids. jm_get (io_sessions s) sid = Some x \<longrightarrow> active_ids s (se_userId x) = Some ids \<longrightarrow> sid \<in> set ids)"

lemma sessions_listedD:
  "sessions_listed s \<Longrightarrow> jm_get (io_sessions s) sid = Some x \<Longrightarrow> active_ids s (se_userId x) = Some ids \<Longrightarrow>
   sid \<in> set ids"
  by (simp add: sessions_listed_def)

text \<open>Fewer sessions and fewer users, or the same.\<close>

definition no_more :: "'h InfinityOne \<Rightarrow> 'h InfinityOne \<Rightarrow> bool" where
  "no_more s t =
     ((\<forall>sid x. jm_get (io_sessions t) sid = Some x \<longrightarrow>
        (\<exists>y. jm_get (io_sessions s) sid = Some y \<and> se_userId y = se_userId x)) \<and>
      (\<forall>uid ids. active_ids t uid = Some ids \<longrightarrow> active_ids s uid = Some ids))"

lemma no_more_listed:
  assumes s: "sessions_listed s" and m: "no_more s t"
  shows "sessions_listed t"
  unfolding sessions_listed_def
proof (intro allI impI)
  fix sid x ids
  assume "jm_get (io_sessions t) sid = Some x" and ids: "active_ids t (se_userId x) = Some ids"
  with m obtain y where "jm_get (io_sessions s) sid = Some y" "se_userId y = se_userId x"
    unfolding no_more_def by blast
  with s ids m show "sid \<in> set ids"
    using sessions_listedD [OF s, of sid y ids] by (simp add: no_more_def)
qed

lemma no_more_same:
  "io_sessions t = io_sessions s \<Longrightarrow> (\<And>uid ids. active_ids t uid = Some ids \<Longrightarrow> active_ids s uid = Some ids) \<Longrightarrow>
   no_more s t"
  by (simp add: no_more_def)

lemma active_put:
  "io_users t = jm_set uid u (io_users s) \<Longrightarrow>
   active_ids t k = (if k = uid then Some (sp_activeSessions (us_security u)) else active_ids s k)"
  by (simp add: active_ids_def)

lemma no_more_put:
  assumes "jm_get (io_users s) uid = Some u" and "io_users t = jm_set uid v (io_users s)"
    and "sp_activeSessions (us_security v) = sp_activeSessions (us_security u)" and "io_sessions t = io_sessions s"
  shows "no_more s t"
  using assms by (intro no_more_same) (auto simp: active_ids_def split: if_splits)

lemma no_more_refl: "no_more s s"
  by (rule no_more_same) simp_all

lemma no_more_users:
  "io_users t = io_users s \<Longrightarrow> io_sessions t = io_sessions s \<Longrightarrow> no_more s t"
  by (rule no_more_same) (simp_all add: active_ids_def)

lemma no_more_update: "uu_security d = None \<Longrightarrow> no_more s (fst (io_updateUser e uid d by s))"
  by (cases "jm_get (io_users s) uid")
    (auto simp: update_user_effect intro: no_more_users no_more_put)

lemma no_more_assign: "no_more s (fst (io_assignRole H e uid rid by opts s))"
  by (auto simp: io_assignRole_def assign_end_def Let_def no_more_refl intro: no_more_put
      split: sum.splits option.splits)

lemma no_more_revoke_role: "no_more s (fst (io_revokeRole e uid rid by s))"
  by (auto simp: io_revokeRole_def Let_def no_more_refl intro: no_more_put split: option.splits)

lemma enable_mfa_sessions [simp]: "sp_activeSessions (enable_mfa p) = sp_activeSessions p"
  by (simp add: enable_mfa_def)

lemma no_more_mfa:
  "no_more s (fst (io_enrollMFA e uid ty name s))" "no_more s (fst (io_verifyMFA e uid mid code s))"
  by (auto simp: io_enrollMFA_def io_verifyMFA_def Let_def no_more_refl intro: no_more_put no_more_users
      split: option.splits)

lemma no_more_gdpr: "no_more s (fst (io_processGDPRRequest e uid ty by s))"
  by (auto simp: io_processGDPRRequest_def Let_def no_more_refl intro: no_more_put
      split: option.splits gdpr_request.splits)

lemma no_more_score: "no_more s (fst (io_calculateSecurityScore uid s))"
  by (auto simp: io_calculateSecurityScore_def Let_def no_more_refl intro: no_more_put split: option.splits)

lemma no_more_trans: "no_more r s \<Longrightarrow> no_more s t \<Longrightarrow> no_more r t"
  unfolding no_more_def by metis

lemma no_more_detect: "no_more s (fst (detectAnomalousLogin H e uid a s))"
proof -
  have "no_more s (lockAccount e uid reason s)" for reason
    using no_more_trans [OF no_more_update [where d = "set_status U_LOCKED" and s = s and e = e and uid = uid] no_more_users]
    by (simp add: lockAccount_def)
  then show ?thesis
    by (auto simp: detectAnomalousLogin_def Let_def no_more_refl split: option.splits)
qed

lemma no_more_delete: "no_more s (fst (io_deleteUser e uid by hard s))"
proof (cases "jm_get (io_users s) uid")
  case None
  then show ?thesis by (simp add: io_deleteUser_def no_more_refl)
next
  case (Some u)
  show ?thesis
  proof (cases hard)
    case True
    with Some show ?thesis
      by (intro no_more_same) (auto simp: io_deleteUser_def Let_def active_ids_def split: if_splits)
  next
    case False
    with Some show ?thesis
      using no_more_trans [OF no_more_update [where d = "set_status U_DELETED" and s = s and e = e and uid = uid] no_more_users]
      by (simp add: io_deleteUser_def Let_def)
  qed
qed

lemma scim_keeps [simp]:
  "uu_security (no_updates\<lparr>uu_profile := x\<rparr>) = None" "uu_access (no_updates\<lparr>uu_profile := x\<rparr>) = None"
  "uu_security no_updates = None" "uu_access no_updates = None" "uu_status no_updates = None"
  by (simp_all add: no_updates_def)

lemma no_more_scim: "no_more s (fst (scimUpdateUser e uid name userName by s))"
  unfolding scimUpdateUser_def by (rule no_more_update) (simp split: option.splits)

lemma no_more_rest:
  "no_more s (fst (io_createRole e d by s))" "no_more s (fst (io_createOrganisation e g by s))"
  "no_more s (io_on ev h s)"
  by (rule no_more_users; simp add: io_createRole_def io_createOrganisation_def Let_def)+

text \<open>The operations that change sessions.\<close>

lemma listed_create_user:
  assumes s: "sessions_listed s" and f: "fresh_user (io_generateId e 0) s"
  shows "sessions_listed (fst (io_createUser e d s))"
proof -
  have eff: "io_users (fst (io_createUser e d s)) =
      jm_set (io_generateId e 0) (new_user e d (io_getRole ''standard_user'' s)) (io_users s)"
    "io_sessions (fst (io_createUser e d s)) = io_sessions s"
    by (simp_all add: io_createUser_def Let_def new_user_def)
  have "jm_get (io_sessions s) sid = Some x \<Longrightarrow> se_userId x \<noteq> io_generateId e 0" for sid x
    using f jm_get_values [of "io_sessions s" sid x] by (auto simp: fresh_user_def list_all_iff)
  with s show ?thesis
    by (auto simp: sessions_listed_def eff active_put [OF eff(1)])
qed

lemma revoke_effect:
  "jm_get (io_sessions (io_revokeSession sid s)) k = (if k = sid then None else jm_get (io_sessions s) k)"
  "active_ids (io_revokeSession sid s) uid =
     (case jm_get (io_sessions s) sid of
        None \<Rightarrow> active_ids s uid
      | Some x \<Rightarrow> if uid = se_userId x then map_option (filter (\<lambda>i. i \<noteq> sid)) (active_ids s uid) else active_ids s uid)"
  by (auto simp: io_revokeSession_def Let_def active_ids_def split: option.splits)

lemma listed_revoke: "sessions_listed s \<Longrightarrow> sessions_listed (io_revokeSession sid s)"
  by (auto simp: sessions_listed_def revoke_effect split: option.splits if_splits)

lemma revoke_all_effect:
  "jm_get (io_sessions (io_revokeAllSessions uid s)) k =
     (if k \<in> set (dflt (active_ids s uid) []) then None else jm_get (io_sessions s) k)"
  "active_ids (io_revokeAllSessions uid s) k = (if k = uid then map_option (\<lambda>_. []) (active_ids s uid) else active_ids s k)"
  by (auto simp: io_revokeAllSessions_def active_ids_def get_deleted split: option.splits)

lemma listed_revoke_all:
  assumes s: "sessions_listed s"
  shows "sessions_listed (io_revokeAllSessions uid s)"
proof -
  show ?thesis
    unfolding sessions_listed_def
  proof (intro allI impI)
    fix sid x ids
    assume x: "jm_get (io_sessions (io_revokeAllSessions uid s)) sid = Some x"
      and ids: "active_ids (io_revokeAllSessions uid s) (se_userId x) = Some ids"
    from x have old: "jm_get (io_sessions s) sid = Some x" "sid \<notin> set (dflt (active_ids s uid) [])"
      by (auto simp: revoke_all_effect split: if_splits)
    show "sid \<in> set ids"
    proof (cases "se_userId x = uid")
      case True
      with ids obtain ids' where "active_ids s uid = Some ids'" by (auto simp: revoke_all_effect)
      with True old sessions_listedD [OF s old(1)] show ?thesis by simp
    next
      case False
      with ids have "active_ids s (se_userId x) = Some ids" by (simp add: revoke_all_effect)
      then show ?thesis by (rule sessions_listedD [OF s old(1)])
    qed
  qed
qed

lemma create_session_effect:
  assumes "jm_get (io_users s) uid = Some u"
  shows "io_sessions (fst (io_createSession e uid di opts s)) =
           jm_set (io_generateId e 0) (new_session e u uid di opts) (io_sessions s)"
    and "active_ids (fst (io_createSession e uid di opts s)) k =
           (if k = uid then Some (sp_activeSessions (us_security u) @ [io_generateId e 0]) else active_ids s k)"
    and "snd (io_createSession e uid di opts s) = Inr (new_session e u uid di opts)"
  using assms by (auto simp: io_createSession_def Let_def new_session_def active_ids_def)

lemma new_session_simps [simp]:
  "se_userId (new_session e u uid di opts) = uid" "se_id (new_session e u uid di opts) = io_generateId e 0"
  "se_expiresAt (new_session e u uid di opts) = en_now e + num_or (sx_duration opts) 3600 * 1000"
  by (simp_all add: new_session_def)

lemma listed_create_session:
  assumes s: "sessions_listed s"
  shows "sessions_listed (fst (io_createSession e uid di opts s))"
proof (cases "jm_get (io_users s) uid")
  case None
  with s show ?thesis by (simp add: io_createSession_def)
next
  case (Some u)
  have "active_ids s uid = Some (sp_activeSessions (us_security u))" using Some by (simp add: active_ids_def)
  with s show ?thesis
    by (auto simp: sessions_listed_def create_session_effect [OF Some] split: if_splits)
qed

lemma listed_validate:
  assumes s: "sessions_listed s"
  shows "sessions_listed (fst (io_validateSession now sid s))"
proof (cases "jm_get (io_sessions s) sid")
  case None
  with s show ?thesis by (simp add: io_validateSession_def)
next
  case (Some x)
  show ?thesis
  proof (cases "se_expiresAt x < now")
    case True
    with s Some show ?thesis by (simp add: io_validateSession_def listed_revoke)
  next
    case False
    with Some have "no_more s (fst (io_validateSession now sid s))"
      by (auto simp: no_more_def io_validateSession_def active_ids_def Let_def)
    with s show ?thesis by (rule no_more_listed)
  qed
qed

lemma listed_cong:
  "io_users t = io_users s \<Longrightarrow> io_sessions t = io_sessions s \<Longrightarrow> sessions_listed s \<Longrightarrow> sessions_listed t"
  by (simp add: sessions_listed_def active_ids_def)

lemma listed_shut_out: "sessions_listed s \<Longrightarrow> sessions_listed (shut_out st e uid by s)"
  unfolding shut_out_def by (intro listed_revoke_all no_more_listed [OF _ no_more_update]) simp_all

lemma listed_apply:
  assumes "sessions_listed s" and "io_allowed N op s"
  shows "sessions_listed (io_apply H op s)"
  using assms
  by (cases op)
    (auto simp: scimCreateUser_def intro: listed_create_user listed_create_session listed_validate listed_revoke
       listed_revoke_all listed_cong [OF suspend_effect(1,2)] listed_cong [OF quarantine_effect(1,2)] listed_shut_out
       no_more_listed [OF _ no_more_update] no_more_listed [OF _ no_more_delete] no_more_listed [OF _ no_more_assign]
       no_more_listed [OF _ no_more_revoke_role] no_more_listed [OF _ no_more_mfa(1)] no_more_listed [OF _ no_more_mfa(2)]
       no_more_listed [OF _ no_more_gdpr] no_more_listed [OF _ no_more_score] no_more_listed [OF _ no_more_detect]
       no_more_listed [OF _ no_more_scim] no_more_listed [OF _ no_more_rest(1)] no_more_listed [OF _ no_more_rest(2)]
       no_more_listed [OF _ no_more_rest(3)])

lemma listed_steps: "io_steps H N s t \<Longrightarrow> sessions_listed s \<Longrightarrow> sessions_listed t"
  by (induction rule: io_steps.induct) (auto intro: listed_apply)

lemma listed_new: "sessions_listed (new_InfinityOne e)"
  by (simp add: sessions_listed_def new_InfinityOne_def initializeSystemRoles_def initializeSystemPermissions_def)

text \<open>A session that ended stays ended as long as its identifier is not drawn again.\<close>

lemma gone_create_session:
  "jm_get (io_sessions s) sid = None \<Longrightarrow> io_generateId e 0 \<noteq> sid \<Longrightarrow>
   jm_get (io_sessions (fst (io_createSession e uid di opts s))) sid = None"
  by (cases "jm_get (io_users s) uid") (simp_all add: create_session_effect, simp add: io_createSession_def)

lemma gone_no_more: "no_more s t \<Longrightarrow> jm_get (io_sessions s) sid = None \<Longrightarrow> jm_get (io_sessions t) sid = None"
  unfolding no_more_def by (metis not_Some_eq)

lemma gone_validate:
  "jm_get (io_sessions s) sid = None \<Longrightarrow> jm_get (io_sessions (fst (io_validateSession now k s))) sid = None"
  by (auto simp: io_validateSession_def revoke_effect Let_def split: option.splits)

lemma gone_shut_out:
  "jm_get (io_sessions s) sid = None \<Longrightarrow> jm_get (io_sessions (shut_out st e uid by s)) sid = None"
  by (simp add: shut_out_def revoke_all_effect update_user_effect)

lemma gone_create_user: "io_sessions (fst (io_createUser e d s)) = io_sessions s"
  by (simp add: io_createUser_def Let_def)

lemma gone_apply:
  assumes "jm_get (io_sessions s) sid = None" and "io_allowed N op s" and "sid \<in> N"
  shows "jm_get (io_sessions (io_apply H op s)) sid = None"
  using assms
  by (cases op)
    (auto simp: scimCreateUser_def gone_create_user suspend_effect quarantine_effect gone_shut_out revoke_effect
       revoke_all_effect
       intro: gone_create_session gone_validate gone_no_more [OF no_more_update] gone_no_more [OF no_more_delete]
       gone_no_more [OF no_more_assign] gone_no_more [OF no_more_revoke_role] gone_no_more [OF no_more_mfa(1)]
       gone_no_more [OF no_more_mfa(2)] gone_no_more [OF no_more_gdpr] gone_no_more [OF no_more_score]
       gone_no_more [OF no_more_detect] gone_no_more [OF no_more_scim] gone_no_more [OF no_more_rest(1)]
       gone_no_more [OF no_more_rest(2)] gone_no_more [OF no_more_rest(3)])

lemma gone_steps:
  "io_steps H N s t \<Longrightarrow> sid \<in> N \<Longrightarrow> jm_get (io_sessions s) sid = None \<Longrightarrow> jm_get (io_sessions t) sid = None"
  by (induction rule: io_steps.induct) (auto intro: gone_apply)

lemma shut_out_ends:
  assumes l: "sessions_listed s" and u: "jm_get (io_users s) uid \<noteq> None"
    and x: "jm_get (io_sessions s) sid = Some x" and uid: "se_userId x = uid"
  shows "jm_get (io_sessions (shut_out st e uid by s)) sid = None"
proof -
  let ?s = "fst (io_updateUser e uid (set_status st) by s)"
  have l1: "sessions_listed ?s" by (rule no_more_listed [OF l no_more_update]) simp
  have x1: "jm_get (io_sessions ?s) sid = Some x" using x by (simp add: update_user_effect)
  obtain ids where ids: "active_ids ?s uid = Some ids"
    using u by (auto simp: active_ids_def update_user_effect split: option.splits)
  have "sid \<in> set ids" using sessions_listedD [OF l1 x1] ids uid by simp
  with ids show ?thesis by (simp add: shut_out_def revoke_all_effect)
qed

lemma shut_out_status:
  assumes "jm_get (io_users s) uid \<noteq> None"
  obtains v where "jm_get (io_users (shut_out st e uid by s)) uid = Some v" and "us_status v = st"
  using assms that
  by (auto simp: shut_out_def io_revokeAllSessions_def update_user_effect split: option.splits)

lemma refused_by_status:
  "jm_get (io_users s) uid = Some v \<Longrightarrow> us_status v \<noteq> U_ACTIVE \<Longrightarrow>
   io_checkPermission now uid r a ctx s = refuse (Status_is (us_status v))"
  by (simp add: io_checkPermission_def)

lemma shut_out_refuses:
  assumes u: "jm_get (io_users s) uid \<noteq> None" and st: "st \<noteq> U_ACTIVE"
    and t: "io_users t = io_users (shut_out st e uid by s)"
  shows "io_checkPermission now uid r a ctx t = refuse (Status_is st)"
proof -
  from shut_out_status [OF u, of st e "by"] obtain v
    where v: "jm_get (io_users (shut_out st e uid by s)) uid = Some v" "us_status v = st"
    by blast
  then have "jm_get (io_users t) uid = Some v" by (simp add: t)
  from refused_by_status [OF this] v st show ?thesis by simp
qed

section \<open>Permission checks\<close>

definition condition_holds :: "PermissionContext \<Rightarrow> PolicyCondition \<Rightarrow> bool" where
  "condition_holds ctx c =
     ((co_operator c = MFA_PRESENT \<longrightarrow> px_mfaVerified ctx = Some True) \<and>
      (co_operator c = IP_ADDRESS \<longrightarrow> (\<exists>v \<in> set (co_values c). \<exists>a. px_ipAddress ctx = Some a \<and> prefix v a)) \<and>
      (co_operator c = RISK_SCORE_LESS_THAN \<longrightarrow>
         (\<forall>v vs t. co_values c = v # vs \<longrightarrow> js_parseInt v = Some t \<longrightarrow> dflt (px_riskScore ctx) 0 < of_int t)))"

lemma condition_holds_iff: "condition_holds ctx c = (condition_failure ctx c = None)"
  by (auto simp: condition_holds_def condition_failure_def list_ex_iff not_le
      split: ConditionOperator.splits option.splits list.splits if_splits)

lemma conditions_hold: "(io_evaluateConditions ctx cs = None) = list_all (condition_holds ctx) cs"
  by (induction cs) (auto simp: condition_holds_iff split: option.splits)

definition restricted_by :: "int \<Rightarrow> PermissionContext option \<Rightarrow> AccessRestriction \<Rightarrow> bool" where
  "restricted_by now ctx r =
     (\<not> (\<exists>t. rs_expiresAt r = Some t \<and> t < now) \<and>
      (rs_type r = QUARANTINE \<or>
       (rs_type r = IP_BLOCK \<and> (\<exists>c. ctx = Some c \<and> str_truthy (px_ipAddress c)) \<and> truthy (obj_prop (rs_metadata r) ''ipRange'')) \<or>
       (rs_type r = GEO_BLOCK \<and> (\<exists>c. ctx = Some c \<and> str_truthy (px_country c)) \<and> truthy (obj_prop (rs_metadata r) ''countries''))))"

lemma restriction_hit_iff: "(restriction_hit now ctx rs \<noteq> None) = list_ex (restricted_by now ctx) rs"
  by (induction rs) (auto simp: restricted_by_def split: option.splits RestrictionType.splits)

section \<open>Holders of a role\<close>

definition holders :: "string \<Rightarrow> 'h InfinityOne \<Rightarrow> nat" where
  "holders rid s = length (filter (has_role rid) (jm_values (io_users s)))"

definition count_values :: "('v \<Rightarrow> bool) \<Rightarrow> ('k, 'v) jsmap \<Rightarrow> nat" where
  "count_values p m = length (filter p (jm_values m))"

lemma count_values_set:
  "count_values p (jm_set k v m) =
     (case jm_get m k of
        None \<Rightarrow> count_values p m + (if p v then 1 else 0)
      | Some w \<Rightarrow> count_values p m + (if p v then 1 else 0) - (if p w then 1 else 0))"
proof (induction m)
  case Nil
  then show ?case by (simp add: count_values_def jm_values_def jm_set_def)
next
  case (Cons kw m)
  obtain k' w where kw: "kw = (k', w)" by (cases kw)
  show ?case
  proof (cases "k' = k")
    case True
    then show ?thesis by (simp add: kw count_values_def jm_values_def jm_set_def jm_get_def)
  next
    case False
    have pos: "jm_get m k = Some x \<Longrightarrow> p x \<Longrightarrow> 0 < count_values p m" for x
      using jm_get_values [of m k x] by (force simp: count_values_def filter_empty_conv)
    have "count_values p (jm_set k v (kw # m)) = (if p w then 1 else 0) + count_values p (jm_set k v m)"
      using False by (simp add: kw count_values_def jm_values_def jm_set_def)
    also have "\<dots> = (case jm_get (kw # m) k of
        None \<Rightarrow> count_values p (kw # m) + (if p v then 1 else 0)
      | Some w \<Rightarrow> count_values p (kw # m) + (if p v then 1 else 0) - (if p w then 1 else 0))"
      using False pos unfolding Cons.IH
      by (auto simp: kw jm_get_def count_values_def jm_values_def split: option.splits)
    finally show ?thesis .
  qed
qed

lemma count_values_delete: "count_values p (jm_delete k m) \<le> count_values p m"
proof -
  have "jm_delete k m = filter (\<lambda>(k', _). k' \<noteq> k) m"
    by (induction m) (auto simp: jm_delete_def)
  then show ?thesis
    by (induction m) (auto simp: jm_delete_def count_values_def jm_values_def)
qed

lemma holders_count: "holders rid s = count_values (has_role rid) (io_users s)"
  by (simp add: holders_def count_values_def)

lemma holders_cong: "io_users t = io_users s \<Longrightarrow> holders rid t = holders rid s"
  by (simp add: holders_def)

lemma holders_put:
  assumes "jm_get (io_users s) uid = Some u" and "io_users t = jm_set uid v (io_users s)"
    and "has_role rid v \<longrightarrow> has_role rid u"
  shows "holders rid t \<le> holders rid s"
  using assms by (simp add: holders_count count_values_set)

lemma holders_same_access:
  "jm_get (io_users s) uid = Some u \<Longrightarrow> io_users t = jm_set uid v (io_users s) \<Longrightarrow> us_access v = us_access u \<Longrightarrow>
   holders rid t \<le> holders rid s"
  by (erule holders_put) (assumption, simp add: has_role_def)

lemma holders_update: "uu_access d = None \<Longrightarrow> holders rid (fst (io_updateUser e uid d by s)) \<le> holders rid s"
  by (cases "jm_get (io_users s) uid")
    (auto simp: update_user_effect intro: holders_same_access eq_refl [OF holders_cong])

lemma holders_revoke: "holders rid (io_revokeSession sid s) \<le> holders rid s"
  by (auto simp: io_revokeSession_def Let_def
      intro: holders_same_access eq_refl [OF holders_cong] split: option.splits)

lemma holders_revoke_all: "holders rid (io_revokeAllSessions uid s) \<le> holders rid s"
  by (auto simp: io_revokeAllSessions_def intro: holders_same_access split: option.splits)

lemma holders_shut_out: "holders rid (shut_out st e uid by s) \<le> holders rid s"
  unfolding shut_out_def by (rule order_trans [OF holders_revoke_all holders_update]) simp

lemma holders_delete: "holders rid (fst (io_deleteUser e uid by hard s)) \<le> holders rid s"
  using holders_update [of "set_status U_DELETED" rid e uid "by" s]
  by (auto simp: io_deleteUser_def Let_def holders_count count_values_delete split: option.splits)

lemma holders_revoke_role: "holders rid (fst (io_revokeRole e uid r by s)) \<le> holders rid s"
proof (cases "jm_get (io_users s) uid")
  case None
  then show ?thesis by (simp add: io_revokeRole_def)
next
  case (Some u)
  show ?thesis
    by (rule holders_put [OF Some]) (auto simp: io_revokeRole_def Some Let_def has_role_def list_ex_iff)
qed

lemma holders_others:
  "holders rid (fst (io_validateSession now sid s)) \<le> holders rid s"
  "holders rid (fst (io_createSession e uid di opts s)) \<le> holders rid s"
  "holders rid (fst (io_enrollMFA e uid ty name s)) \<le> holders rid s"
  "holders rid (fst (io_verifyMFA e uid mid code s)) \<le> holders rid s"
  "holders rid (fst (io_calculateSecurityScore uid s)) \<le> holders rid s"
  by (auto simp: io_validateSession_def io_createSession_def io_enrollMFA_def io_verifyMFA_def
      io_calculateSecurityScore_def Let_def
      intro: holders_same_access holders_revoke eq_refl [OF holders_cong] split: option.splits)

lemma holders_gdpr: "holders rid (fst (io_processGDPRRequest e uid ty by s)) \<le> holders rid s"
  by (auto simp: io_processGDPRRequest_def Let_def intro: holders_same_access
      split: option.splits gdpr_request.splits)

lemma holders_detect: "holders rid (fst (detectAnomalousLogin H e uid a s)) \<le> holders rid s"
  using holders_update [of "set_status U_LOCKED" rid e uid "''system''" s]
  by (auto simp: detectAnomalousLogin_def lockAccount_def Let_def holders_def split: option.splits)

lemma holders_rest:
  "holders rid (fst (io_createRole e d by s)) = holders rid s"
  "holders rid (fst (io_createOrganisation e g by s)) = holders rid s"
  "holders rid (io_on ev h s) = holders rid s"
  by (rule holders_cong; simp add: io_createRole_def io_createOrganisation_def Let_def)+

text \<open>Roles are only added.\<close>

lemma roles_kept:
  assumes "\<And>e d by. op \<noteq> CreateRole e d by"
  shows "io_roles (io_apply H op s) = io_roles s"
  using assms
  by (cases op)
    (auto simp: io_createUser_def scimCreateUser_def scimUpdateUser_def update_user_effect suspend_effect quarantine_effect
      shut_out_def io_revokeAllSessions_def io_deleteUser_def io_assignRole_def assign_end_def io_revokeRole_def
      io_createSession_def io_validateSession_def io_revokeSession_def io_enrollMFA_def io_verifyMFA_def
      io_createOrganisation_def io_processGDPRRequest_def io_calculateSecurityScore_def detectAnomalousLogin_def
      lockAccount_def Let_def split: option.splits sum.splits gdpr_request.splits)

definition limit_of :: "nat \<Rightarrow> RoleConstraint \<Rightarrow> bool" where
  "limit_of n c = (rk_type c = MAX_USERS \<and> rk_value c = JNum (of_nat n))"

definition roles_ok :: "string \<Rightarrow> nat \<Rightarrow> 'h InfinityOne \<Rightarrow> bool" where
  "roles_ok rid n s =
     (jm_ok (io_roles s) \<and> (\<forall>k r. jm_get (io_roles s) k = Some r \<longrightarrow> ro_id r = k) \<and>
      (\<exists>r. jm_get (io_roles s) rid = Some r \<and> list_ex (limit_of n) (ro_constraints r)) \<and>
      (\<exists>r0. io_getRole ''standard_user'' s = Some r0 \<and> ro_id r0 \<noteq> rid))"

lemma jm_set_fresh: "jm_get m k = None \<Longrightarrow> jm_set k v m = m @ [(k, v)]"
  by (induction m) (auto simp: jm_set_def jm_get_def split: if_splits)

lemma find_append_Some: "find p xs = Some x \<Longrightarrow> find p (xs @ ys) = Some x"
  by (induction xs) auto

lemma roles_ok_apply:
  assumes ok: "roles_ok rid n s" and al: "io_allowed N op s" and N: "''standard_user'' \<in> N"
  shows "roles_ok rid n (io_apply H op s)"
proof (cases "\<exists>e d by. op = CreateRole e d by")
  case False
  then have "io_roles (io_apply H op s) = io_roles s" by (intro roles_kept) blast
  moreover from this have "io_getRole x (io_apply H op s) = io_getRole x s" for x
    by (simp add: io_getRole_def cong: option.case_cong)
  ultimately show ?thesis using ok by (simp add: roles_ok_def)
next
  case True
  then obtain e d b where op: "op = CreateRole e d b" by blast
  let ?i = "io_generateId e 0"
  obtain r where r: "io_roles (io_apply H op s) = jm_set ?i r (io_roles s)" "ro_id r = ?i"
    by (simp add: op io_createRole_def Let_def)
  have new: "jm_get (io_roles s) ?i = None" "?i \<noteq> ''standard_user''"
    using al N by (auto simp: op fresh_role_def)
  have vals: "jm_values (jm_set ?i r (io_roles s)) = jm_values (io_roles s) @ [r]"
    by (simp add: jm_set_fresh [OF new(1)] jm_values_def)
  obtain r0 where r0: "io_getRole ''standard_user'' s = Some r0" "ro_id r0 \<noteq> rid"
    using ok unfolding roles_ok_def by blast
  have same: "jm_get (jm_set ?i r (io_roles s)) ''standard_user'' = jm_get (io_roles s) ''standard_user''"
    using new(2) by simp
  have "io_getRole ''standard_user'' (io_apply H op s) = Some r0"
    using r0(1) unfolding io_getRole_def r(1) vals same
    by (cases "jm_get (io_roles s) ''standard_user''") (simp_all add: find_append_Some)
  moreover obtain q where "jm_get (io_roles s) rid = Some q" "list_ex (limit_of n) (ro_constraints q)"
    using ok unfolding roles_ok_def by blast
  moreover from this new(1) have "rid \<noteq> ?i" by auto
  moreover have "jm_ok (io_roles s)" "\<forall>k x. jm_get (io_roles s) k = Some x \<longrightarrow> ro_id x = k"
    using ok unfolding roles_ok_def by blast+
  ultimately show ?thesis
    using r r0(2) unfolding roles_ok_def by simp
qed

lemma validated_constraint:
  "validate_constraints H r u us cs = None \<Longrightarrow> c \<in> set cs \<Longrightarrow> rk_type c = MAX_USERS \<Longrightarrow>
   \<not> limit_reached H (length (filter (has_role (ro_id r)) us)) (rk_value c)"
  by (induction cs) (auto split: ConstraintType.splits if_splits)

lemma getRole_stored:
  "jm_ok (io_roles s) \<Longrightarrow> io_getRole i s = Some r \<Longrightarrow> \<exists>k. jm_get (io_roles s) k = Some r"
  by (auto simp: io_getRole_def find_Some_iff jm_values_get split: option.splits)

lemma begin_within_limit:
  assumes ok: "roles_ok rid n s" and b: "assign_begin H uid i s = Inr (Some r)" and r: "ro_id r = rid"
  shows "holders rid s < n"
proof -
  obtain u where u: "io_getRole i s = Some r" "validateRoleConstraints H r u s = None"
    using b by (auto simp: assign_begin_def split: option.splits if_splits)
  obtain q where q: "jm_get (io_roles s) rid = Some q" "list_ex (limit_of n) (ro_constraints q)"
    using ok by (auto simp: roles_ok_def)
  have "q = r" using getRole_stored [OF _ u(1)] ok q r by (force simp: roles_ok_def)
  with q obtain c where c: "c \<in> set (ro_constraints r)" "rk_type c = MAX_USERS" "rk_value c = JNum (of_nat n)"
    by (auto simp: list_ex_iff limit_of_def)
  from validated_constraint [OF _ c(1,2)] u(2) have
    "\<not> limit_reached H (length (filter (has_role (ro_id r)) (jm_values (io_users s)))) (rk_value c)"
    unfolding validateRoleConstraints_def by blast
  then show ?thesis using c(3) r by (simp add: limit_reached_def holders_def)
qed

lemma begin_facts:
  assumes "assign_begin H uid i s = Inr (Some r)"
  obtains u where "jm_get (io_users s) uid = Some u" and "\<not> has_role (ro_id r) u"
  using assms that by (auto simp: assign_begin_def split: option.splits if_splits)

lemma granted_role:
  "has_role rid (u\<lparr>us_access := grant_role e by opts r (us_access u), us_updatedAt := t\<rparr>) =
     (has_role rid u \<or> (ao_temporal opts = None \<and> ro_id r = rid))"
  by (auto simp: has_role_def grant_role_def split: option.splits)

lemma holders_end:
  assumes u: "jm_get (io_users s) uid = Some u" and n: "\<not> has_role (ro_id r) u"
  shows "holders rid (assign_end e uid i by opts r s) =
           holders rid s + (if ao_temporal opts = None \<and> ro_id r = rid then 1 else 0)"
proof -
  have "0 < holders rid s" if "has_role rid u"
    using that jm_get_values [OF u] by (force simp: holders_def filter_empty_conv)
  with u n show ?thesis
    by (auto simp: assign_end_def Let_def holders_count count_values_set granted_role)
qed

lemma holders_assign:
  assumes ok: "roles_ok rid n s" and h: "holders rid s \<le> n"
  shows "holders rid (fst (io_assignRole H e uid i by opts s)) \<le> n"
proof -
  consider err where "assign_begin H uid i s = Inl err" | "assign_begin H uid i s = Inr None"
    | r where "assign_begin H uid i s = Inr (Some r)"
    by (cases "assign_begin H uid i s") (auto simp: split_option_all)
  then show ?thesis
  proof cases
    case (3 r)
    from begin_facts [OF 3] obtain u where "jm_get (io_users s) uid = Some u" "\<not> has_role (ro_id r) u" by blast
    from holders_end [OF this] begin_within_limit [OF ok 3] h 3 show ?thesis
      by (simp add: io_assignRole_def Suc_le_eq)
  qed (use h in \<open>simp_all add: io_assignRole_def\<close>)
qed

lemma holders_create_user:
  assumes ok: "roles_ok rid n s" and f: "fresh_user (io_generateId e 0) s"
  shows "holders rid (fst (io_createUser e d s)) = holders rid s"
proof -
  obtain r0 where r0: "io_getRole ''standard_user'' s = Some r0" "ro_id r0 \<noteq> rid"
    using ok by (auto simp: roles_ok_def)
  have "io_users (fst (io_createUser e d s)) = jm_set (io_generateId e 0) (new_user e d (Some r0)) (io_users s)"
    using r0 by (simp add: io_createUser_def Let_def new_user_def)
  moreover have "\<not> has_role rid (new_user e d (Some r0))"
    using r0 by (simp add: has_role_def new_user_def new_access_def Let_def)
  ultimately show ?thesis
    using f by (simp add: holders_count count_values_set fresh_user_def)
qed

lemma holders_apply:
  assumes "roles_ok rid n s" and "io_allowed N op s" and "holders rid s \<le> n"
  shows "holders rid (io_apply H op s) \<le> n"
  using assms
  by (cases op)
    (auto simp: scimCreateUser_def scimUpdateUser_def holders_create_user holders_assign holders_rest
      holders_cong [OF suspend_effect(1)] holders_cong [OF quarantine_effect(1)]
      intro: order_trans [OF holders_update] order_trans [OF holders_shut_out] order_trans [OF holders_delete]
        order_trans [OF holders_revoke_role] order_trans [OF holders_others(1)] order_trans [OF holders_others(2)]
        order_trans [OF holders_others(3)] order_trans [OF holders_others(4)] order_trans [OF holders_others(5)]
        order_trans [OF holders_gdpr] order_trans [OF holders_detect] order_trans [OF holders_revoke]
        order_trans [OF holders_revoke_all] split: option.splits)

lemma limit_steps:
  "io_steps H N s t \<Longrightarrow> ''standard_user'' \<in> N \<Longrightarrow> roles_ok rid n s \<Longrightarrow> holders rid s \<le> n \<Longrightarrow>
   roles_ok rid n t \<and> holders rid t \<le> n"
  by (induction rule: io_steps.induct) (auto intro: roles_ok_apply holders_apply)

section \<open>Properties\<close>

definition demo_env :: "int \<Rightarrow> io_env" where
  "demo_env t = \<lparr>en_now = t, en_id = nat_str, en_node = 0, en_number = 0, en_byte = (\<lambda>k. 0)\<rparr>"

definition demo_io_host :: io_host where
  "demo_io_host = \<lparr>mt_sin = (\<lambda>x. x), mt_cos = (\<lambda>x. 1), mt_sqrt = (\<lambda>x. x), mt_atan2 = (\<lambda>x y. x), mt_pi = 3,
     mt_number = (\<lambda>v. None)\<rparr>"

definition demo_input :: CreateUserInput where
  "demo_input = \<lparr>cu_firstName = ''Ada'', cu_lastName = ''L'', cu_email = ''a@b'', cu_displayName = None,
     cu_username = None, cu_phone = None, cu_photo = None, cu_dateOfBirth = None, cu_gender = None,
     cu_languages = None, cu_occupation = None, cu_organisation = None, cu_address = None, cu_timezone = None,
     cu_locale = None, cu_source = None, cu_externalId = None, cu_externalProvider = None, cu_invitedBy = None,
     cu_tags = None, cu_customAttributes = None, cu_createdBy = None\<rparr>"

definition demo_device :: DeviceInfo where
  "demo_device = \<lparr>di_deviceId = None, di_ipAddress = ''1.2.3.4'', di_userAgent = ''x'', di_location = None,
     di_platform = None, di_browser = None\<rparr>"

definition demo_uid :: string where
  "demo_uid = io_generateId (demo_env 1) 0"

text \<open>A hub with one user who has one session.\<close>

definition demo_hub :: "nat InfinityOne" where
  "demo_hub =
     io_apply demo_io_host (CreateSession (demo_env 2) demo_uid demo_device no_session_options)
       (io_apply demo_io_host (CreateUser (demo_env 1) demo_input) (new_InfinityOne (demo_env 0)))"

lemma new_hub_empty: "io_users (new_InfinityOne e) = []" "io_sessions (new_InfinityOne e) = []"
  by (simp_all add: new_InfinityOne_def initializeSystemRoles_def initializeSystemPermissions_def)

lemma create_user_users:
  "jm_get (io_users (fst (io_createUser e d s))) (io_generateId e 0) =
     Some (new_user e d (io_getRole ''standard_user'' s))"
proof -
  have "us_id (new_user e d r) = io_generateId e 0" for r by (simp add: new_user_def Let_def)
  then show ?thesis by (simp add: io_createUser_def Let_def)
qed

lemma demo_hub_facts:
  "io_steps demo_io_host {} (new_InfinityOne (demo_env 0)) demo_hub"
  "\<exists>u. jm_get (io_users demo_hub) demo_uid = Some u"
  "\<exists>x. jm_get (io_sessions demo_hub) (io_generateId (demo_env 2) 0) = Some x \<and> se_userId x = demo_uid \<and>
     se_expiresAt x = 3600002"
proof -
  let ?s0 = "new_InfinityOne (demo_env 0) :: nat InfinityOne"
  let ?s1 = "io_apply demo_io_host (CreateUser (demo_env 1) demo_input) ?s0"
  have s1: "io_steps demo_io_host {} ?s0 ?s1"
    by (rule io_step [OF io_refl]) (simp add: fresh_user_def new_hub_empty jm_values_def)
  have ses: "io_sessions ?s1 = []" by (simp add: gone_create_user new_hub_empty)
  show "io_steps demo_io_host {} ?s0 demo_hub"
    unfolding demo_hub_def by (rule io_step [OF s1]) (simp add: fresh_session_def ses del: io_apply.simps)
  obtain u where u: "jm_get (io_users ?s1) demo_uid = Some u"
    using create_user_users [of "demo_env 1" demo_input ?s0] by (simp add: demo_uid_def)
  have hub: "demo_hub = fst (io_createSession (demo_env 2) demo_uid demo_device no_session_options ?s1)"
    by (simp add: demo_hub_def)
  show "\<exists>u. jm_get (io_users demo_hub) demo_uid = Some u"
    using create_session_effect(2) [OF u, of "demo_env 2" demo_device no_session_options demo_uid]
    by (auto simp: hub active_ids_def)
  show "\<exists>x. jm_get (io_sessions demo_hub) (io_generateId (demo_env 2) 0) = Some x \<and> se_userId x = demo_uid \<and>
     se_expiresAt x = 3600002"
    unfolding hub create_session_effect(1) [OF u]
    by (simp add: num_or_def) (simp add: no_session_options_def demo_env_def)
qed

text \<open>
  C30. In every state the hub can reach, suspending or quarantining a user ends all the user's sessions: none of
  them validates afterwards, after any further history in which its identifier is not drawn again, and
  every permission check of the user is refused at once.
\<close>

theorem suspension_ends_sessions:
  assumes reach: "io_steps H {} (new_InfinityOne e0) s"
    and x: "jm_get (io_sessions s) sid = Some x" "se_userId x = uid" and u: "jm_get (io_users s) uid \<noteq> None"
    and s': "s' = fst (io_suspendUser e uid reason by s) \<or> s' = fst (io_quarantineUser e uid reason by s)"
    and t: "io_steps H N s' t" and N: "sid \<in> N"
  shows "io_validateSession now sid t = (t, Inl Session_not_found) \<and>
         \<not> pt_allowed (io_checkPermission now uid resource action ctx s')"
proof -
  have l: "sessions_listed s" by (rule listed_steps [OF reach listed_new])
  obtain st where st: "st \<noteq> U_ACTIVE" and users: "io_users s' = io_users (shut_out st e uid by s)"
    and ses: "io_sessions s' = io_sessions (shut_out st e uid by s)"
    using s' suspend_effect [of e uid reason "by" s] quarantine_effect [of e uid reason "by" s]
    by (metis UserStatus.distinct(3,13))
  have "jm_get (io_sessions s') sid = None" by (simp add: ses shut_out_ends [OF l u x])
  from gone_steps [OF t N this] have "io_validateSession now sid t = (t, Inl Session_not_found)"
    by (simp add: io_validateSession_def)
  with shut_out_refuses [OF u st users] show ?thesis by (simp add: refuse_def)
qed

theorem suspension_ends_sessions_witness:
  "snd (io_validateSession 5 (io_generateId (demo_env 2) 0)
     (fst (io_suspendUser (demo_env 3) demo_uid ''abuse'' ''admin'' demo_hub))) = Inl Session_not_found"
proof -
  let ?s' = "fst (io_suspendUser (demo_env 3) demo_uid ''abuse'' ''admin'' demo_hub)"
  obtain x where x: "jm_get (io_sessions demo_hub) (io_generateId (demo_env 2) 0) = Some x" "se_userId x = demo_uid"
    using demo_hub_facts(3) by blast
  have u: "jm_get (io_users demo_hub) demo_uid \<noteq> None" using demo_hub_facts(2) by auto
  have "io_steps demo_io_host {io_generateId (demo_env 2) 0} ?s' ?s'" by (rule io_refl)
  from suspension_ends_sessions [OF demo_hub_facts(1) x u disjI1 [OF refl] this]
  show ?thesis by simp
qed

text \<open>
  Deleting a user, softly or with the erasure of the data, ends no session: every session that has not
  expired still validates. And a user who was just suspended can open a new session, which validates.
\<close>

theorem sessions_survive_deletion:
  assumes x: "jm_get (io_sessions s) sid = Some x" and t: "now \<le> se_expiresAt x"
    and u: "jm_get (io_users s) uid \<noteq> None" and d: "0 \<le> num_or (sx_duration opts) 3600"
  shows "snd (io_validateSession now sid (fst (io_deleteUser e uid by hard s))) = Inr (x\<lparr>se_lastActiveAt := now\<rparr>) \<and>
    (\<exists>y t1. io_createSession e2 uid di opts (fst (io_suspendUser e uid reason by s)) = (t1, Inr y) \<and>
       se_userId y = uid \<and> snd (io_validateSession (en_now e2) (se_id y) t1) = Inr (y\<lparr>se_lastActiveAt := en_now e2\<rparr>))"
proof -
  have "io_sessions (fst (io_deleteUser e uid by hard s)) = io_sessions s"
    using u by (auto simp: io_deleteUser_def Let_def update_user_effect split: option.splits)
  then have 1: "snd (io_validateSession now sid (fst (io_deleteUser e uid by hard s))) = Inr (x\<lparr>se_lastActiveAt := now\<rparr>)"
    using x t by (simp add: io_validateSession_def Let_def)
  let ?s = "fst (io_suspendUser e uid reason by s)"
  from shut_out_status [OF u, of U_SUSPENDED e "by"] obtain v where v: "jm_get (io_users ?s) uid = Some v"
    unfolding suspend_effect by blast
  let ?y = "new_session e2 v uid di opts" and ?t = "fst (io_createSession e2 uid di opts ?s)"
  have c: "io_createSession e2 uid di opts ?s = (?t, Inr ?y)"
    using create_session_effect(3) [OF v] by (simp add: prod_eq_iff)
  have "jm_get (io_sessions ?t) (se_id ?y) = Some ?y" by (simp add: create_session_effect(1) [OF v])
  moreover have "\<not> se_expiresAt ?y < en_now e2" using d by simp
  ultimately have "snd (io_validateSession (en_now e2) (se_id ?y) ?t) = Inr (?y\<lparr>se_lastActiveAt := en_now e2\<rparr>)"
    by (simp add: io_validateSession_def Let_def)
  with c have "\<exists>y t1. io_createSession e2 uid di opts ?s = (t1, Inr y) \<and> se_userId y = uid \<and>
      snd (io_validateSession (en_now e2) (se_id y) t1) = Inr (y\<lparr>se_lastActiveAt := en_now e2\<rparr>)"
    by (intro exI [of _ ?y] exI [of _ ?t]) simp
  with 1 show ?thesis by blast
qed

theorem sessions_survive_deletion_witness:
  "\<exists>y. snd (io_validateSession 5 (io_generateId (demo_env 2) 0)
     (fst (io_deleteUser (demo_env 3) demo_uid ''admin'' True demo_hub))) = Inr y"
proof -
  obtain x where x: "jm_get (io_sessions demo_hub) (io_generateId (demo_env 2) 0) = Some x" "se_expiresAt x = 3600002"
    using demo_hub_facts(3) by blast
  have u: "jm_get (io_users demo_hub) demo_uid \<noteq> None" using demo_hub_facts(2) by auto
  have t: "5 \<le> se_expiresAt x" using x by simp
  have "0 \<le> num_or (sx_duration no_session_options) 3600" by (simp add: no_session_options_def num_or_def)
  from sessions_survive_deletion [OF x(1) t u this, of "demo_env 3" "''admin''" True]
  show ?thesis by blast
qed

text \<open>
  C31. A permission check grants exactly if the user exists and is active, no restriction in force hits the
  request, and the user is a super administrator or the first matching permission, among the user's own, those
  of the roles and those they inherit directly, has no failing condition; conditions are only looked at
  when the request has a context.
\<close>

theorem permission_decision:
  "pt_allowed (io_checkPermission now uid resource action ctx s) =
   (\<exists>u. jm_get (io_users s) uid = Some u \<and> us_status u = U_ACTIVE \<and>
      \<not> list_ex (restricted_by now ctx) (ac_restrictions (us_access u)) \<and>
      (list_ex (\<lambda>r. ro_name r = ''super_admin'') (ac_roles (us_access u)) \<or>
       (\<exists>p. find (permission_matches resource action) (collectPermissions u s) = Some p \<and>
            (case (pe_conditions p, ctx) of (Some cs, Some c) \<Rightarrow> list_all (condition_holds c) cs | _ \<Rightarrow> True))))"
proof (cases "jm_get (io_users s) uid")
  case None
  then show ?thesis by (simp add: io_checkPermission_def refuse_def)
next
  case (Some u)
  note hit = restriction_hit_iff [of now ctx "ac_restrictions (us_access u)"]
  consider "us_status u \<noteq> U_ACTIVE" | r where "us_status u = U_ACTIVE" "checkRestrictions now u ctx = Some r"
    | "us_status u = U_ACTIVE" "checkRestrictions now u ctx = None"
    by (cases "checkRestrictions now u ctx") auto
  then show ?thesis
  proof cases
    case 1
    then show ?thesis using Some by (simp add: io_checkPermission_def refuse_def)
  next
    case 2
    then have "list_ex (restricted_by now ctx) (ac_restrictions (us_access u))"
      using hit by (simp add: checkRestrictions_def)
    with 2 Some show ?thesis by (simp add: io_checkPermission_def refuse_def)
  next
    case 3
    then have no: "\<not> list_ex (restricted_by now ctx) (ac_restrictions (us_access u))"
      using hit by (simp add: checkRestrictions_def)
    show ?thesis
    proof (cases "find (permission_matches resource action) (collectPermissions u s)")
      case None
      with 3 no Some show ?thesis by (simp add: io_checkPermission_def refuse_def)
    next
      case (Some p)
      have "pt_allowed (case (case (pe_conditions p, ctx) of
                (Some cs, Some c) \<Rightarrow> io_evaluateConditions c cs | _ \<Rightarrow> None) of
              Some r \<Rightarrow> refuse r
            | None \<Rightarrow> \<lparr>pt_allowed = True, pt_reason = Permission_granted, pt_permission = Some p,
                       pt_riskScore = Some (risk_number (pe_riskLevel p))\<rparr>) =
          (case (pe_conditions p, ctx) of (Some cs, Some c) \<Rightarrow> list_all (condition_holds c) cs | _ \<Rightarrow> True)"
        by (auto simp: refuse_def conditions_hold [symmetric] split: option.splits)
      with 3 no Some \<open>jm_get (io_users s) uid = Some u\<close> show ?thesis
        by (simp add: io_checkPermission_def)
    qed
  qed
qed

text \<open>
  A limit \<open>n\<close> on the number of users of a role is kept by every history of operations that are not
  interleaved, if at most \<open>n\<close> users hold the role at its start and the role is not the one every new user
  gets.
\<close>

theorem role_limit_kept:
  assumes t: "io_steps H N s t" and N: "''standard_user'' \<in> N"
    and ok: "roles_ok rid n s" and h: "holders rid s \<le> n"
  shows "holders rid t \<le> n"
  using limit_steps [OF t N ok h] by blast

definition plain_role :: "string \<Rightarrow> string \<Rightarrow> RoleConstraint list \<Rightarrow> Role" where
  "plain_role i name cs = \<lparr>ro_id = i, ro_name = name, ro_displayName = name, ro_description = '''', ro_type = role_CUSTOM,
     ro_level = 3, ro_permissions = [], ro_inheritedRoles = [], ro_policies = [], ro_constraints = cs,
     ro_metadata = [], ro_createdAt = 0, ro_updatedAt = 0, ro_createdBy = ''''\<rparr>"

definition limited_hub :: "nat InfinityOne" where
  "limited_hub = demo_hub\<lparr>io_roles :=
     [(''r0'', plain_role ''r0'' ''standard_user'' []),
      (''r1'', plain_role ''r1'' ''auditor'' [\<lparr>rk_type = MAX_USERS, rk_value = JNum (of_nat 1), rk_description = ''''\<rparr>])],
      io_users := []\<rparr>"

theorem role_limit_kept_witness:
  "holders ''r1'' (io_apply demo_io_host (CreateUser (demo_env 9) demo_input) (limited_hub\<lparr>io_sessions := []\<rparr>)) \<le> 1"
proof -
  let ?s = "limited_hub\<lparr>io_sessions := []\<rparr>"
  have ok: "roles_ok ''r1'' 1 ?s"
    by (auto simp: roles_ok_def limited_hub_def plain_role_def io_getRole_def jm_get_def jm_values_def jm_ok_def
        limit_of_def split: if_splits)
  have fresh: "fresh_user (io_generateId (demo_env 9) 0) ?s"
    by (simp add: fresh_user_def limited_hub_def jm_values_def)
  have new: "io_generateId (demo_env 9) 0 \<noteq> ''standard_user''"
  proof -
    have "radix_str 36 9 = [digit_char 9]" by (simp add: radix_str.simps)
    then show ?thesis by (simp add: io_generateId_def demo_env_def)
  qed
  have "io_steps demo_io_host {''standard_user''} ?s (io_apply demo_io_host (CreateUser (demo_env 9) demo_input) ?s)"
    by (rule io_step [OF io_refl]) (use fresh new in simp)
  moreover have "holders ''r1'' ?s \<le> 1" by (simp add: holders_def limited_hub_def jm_values_def)
  ultimately show ?thesis by (rule role_limit_kept [OF _ insertI1 ok])
qed

text \<open>Two assignments that have both begun before either ends pass the same check: the role then has two
  holders more, whatever its limit.\<close>

theorem role_limit_race:
  assumes a: "assign_begin H u1 i s = Inr (Some r)" and b: "assign_begin H u2 i s = Inr (Some r)"
    and ne: "u1 \<noteq> u2" and perm: "ao_temporal o1 = None" "ao_temporal o2 = None"
  shows "holders (ro_id r) (assign_end e2 u2 i by2 o2 r (assign_end e1 u1 i by1 o1 r s)) = holders (ro_id r) s + 2"
proof -
  obtain v1 where v1: "jm_get (io_users s) u1 = Some v1" "\<not> has_role (ro_id r) v1" by (rule begin_facts [OF a])
  obtain v2 where v2: "jm_get (io_users s) u2 = Some v2" "\<not> has_role (ro_id r) v2" by (rule begin_facts [OF b])
  have "jm_get (io_users (assign_end e1 u1 i by1 o1 r s)) u2 = Some v2"
    using v1 v2 ne by (simp add: assign_end_def Let_def)
  from holders_end [OF this v2(2), of "ro_id r" e2 i by2 o2] holders_end [OF v1, of "ro_id r" e1 i by1 o1] perm
  show ?thesis by simp
qed

text \<open>Any code of six characters verifies any second factor.\<close>

theorem any_code_verifies:
  assumes "jm_get (io_users s) uid = Some u" and "find (\<lambda>m. mm_id m = mid) (sp_mfaMethods (us_security u)) = Some m"
  shows "snd (io_verifyMFA e uid mid code s) = (6 \<le> length code)"
  using assms by (simp add: io_verifyMFA_def verifyMFACode_def)

text \<open>Nothing records login attempts: for a user without any, the detection never finds more than a new location.\<close>

theorem logins_never_locked:
  assumes "jm_get (io_users s) uid = Some u" and "sp_loginAttempts (us_security u) = []"
  shows "detectAnomalousLogin H e uid a s = (s, if la_location a = None then no_anomaly else new_location)"
  using assms by (simp add: detectAnomalousLogin_def slice_last_def List.map_filter_def split: option.splits)

end
