(* ===== verification/PlatformBus.thy ===== *)
theory PlatformBus
  imports Json JsMap
begin

text \<open>
  The platform event bus of \<open>packages/event-bus/src/index.ts\<close> and \<open>types.ts\<close>: subscriptions, callbacks,
  emission, buffer and log.

  The lists of callbacks are arrays that an emission walks through while callbacks change them, so they are
  objects of their own, and the map of patterns holds references to them; its entries carry the stamp of their
  insertion, so that a loop over the map can go on after entries were deleted or added. What a callback does
  while the emission waits for it, after the given calls, is the parameter \<open>act\<close>: operations on the register of callbacks
  and whether it throws; it does not emit. The loop may not end then, and \<^const>\<open>None\<close> means that it never does.
  Identifiers and the clock are drawn. How fractions print is the argument \<open>num\<close>.
\<close>

section \<open>Types\<close>

record PbMetadata =
  pb_traceId :: string
  pb_correlationId :: "string option"
  pb_causationId :: "string option"
  pb_timestamp :: string
  pb_version :: string
  pb_attempt :: nat

record EventEnvelope =
  en_id :: string
  en_tenantId :: string
  en_eventType :: string
  en_source :: string
  en_subject :: "string option"
  en_data :: jsval
  en_metadata :: PbMetadata

datatype DeliveryType = via_queue | via_webhook | via_service_binding | via_durable_object | via_callback

record PbFilter =
  pf_subjects :: "string list option"
  pf_dataMatches :: "(string \<times> jsval) list option"
  pf_sources :: "string list option"

record EventSubscription =
  sb_id :: string
  sb_tenantId :: "string option"
  sb_subscriber :: string
  sb_eventPattern :: string
  sb_filter :: "PbFilter option"
  sb_deliveryType :: DeliveryType
  sb_deliveryTarget :: string
  sb_maxRetries :: int
  sb_retryDelayMs :: int
  sb_enabled :: bool

datatype PbDeliveryStatus = pd_pending | pd_delivered | pd_failed | pd_retrying

record DeliveryResult =
  dr_subscriptionId :: string
  dr_status :: PbDeliveryStatus
  dr_attempt :: nat
  dr_error :: "string option"
  dr_latencyMs :: int

record EventBusConfig =
  bc_batchSize :: int
  bc_flushIntervalMs :: int
  bc_defaultMaxRetries :: int
  bc_defaultRetryDelayMs :: int
  bc_persistEvents :: bool
  bc_maxPayloadSize :: int
  bc_deadLetterQueue :: "string option"

definition DEFAULT_EVENT_BUS_CONFIG :: EventBusConfig where
  "DEFAULT_EVENT_BUS_CONFIG =
     \<lparr>bc_batchSize = 100, bc_flushIntervalMs = 5000, bc_defaultMaxRetries = 3, bc_defaultRetryDelayMs = 1000,
      bc_persistEvents = True, bc_maxPayloadSize = 256 * 1024, bc_deadLetterQueue = Some ''platform-events-dlq''\<rparr>"

record EmitParams =
  ep_id :: "string option"
  ep_tenantId :: string
  ep_eventType :: string
  ep_source :: string
  ep_subject :: "string option"
  ep_data :: jsval
  ep_traceId :: "string option"
  ep_correlationId :: "string option"
  ep_causationId :: "string option"
  ep_version :: "string option"

section \<open>State\<close>

text \<open>A callback as it was passed to \<open>on\<close>, or the closure that \<open>once\<close> makes: its number, its pattern
  and the callback in it.\<close>

datatype 'c callback = Always 'c | Once nat string 'c

text \<open>\<open>pb_entries\<close> is the map of callbacks in order of insertion: stamp, pattern, and the index of the array.\<close>

record 'c PlatformBus =
  pb_config :: EventBusConfig
  pb_subscriptions :: "(string, EventSubscription) jsmap"
  pb_entries :: "(nat \<times> string \<times> nat) list"
  pb_arrays :: "'c callback list list"
  pb_stamp :: nat
  pb_buffer :: "EventEnvelope list"
  pb_eventLog :: "EventEnvelope list"

text \<open>The constructor with a complete configuration: the spread of a partial one over the defaults is the
  caller's record update of \<open>DEFAULT_EVENT_BUS_CONFIG\<close>.\<close>

definition new_PlatformBus :: "EventBusConfig \<Rightarrow> 'c PlatformBus" where
  "new_PlatformBus config =
     \<lparr>pb_config = config, pb_subscriptions = [], pb_entries = [], pb_arrays = [], pb_stamp = 0, pb_buffer = [],
      pb_eventLog = []\<rparr>"

section \<open>Patterns, filters\<close>

definition pb_matchesPattern :: "string \<Rightarrow> string \<Rightarrow> bool" where
  "pb_matchesPattern pattern eventType =
     (if pattern = ''*'' then True
      else if pattern = eventType then True
      else if js_endsWith pattern ''.*'' then
        js_startsWith eventType (take (length pattern - 2) pattern @ ''.'')
      else if js_endsWith pattern ''.**'' then
        js_startsWith eventType (take (length pattern - 3) pattern @ ''.'')
      else False)"

definition pb_matchesFilter :: "PbFilter \<Rightarrow> EventEnvelope \<Rightarrow> bool" where
  "pb_matchesFilter f e =
     (\<not> (dflt (pf_subjects f) [] \<noteq> [] \<and>
         (\<not> str_truthy (en_subject e) \<or> dflt (en_subject e) [] \<notin> set (dflt (pf_subjects f) []))) \<and>
      \<not> (dflt (pf_sources f) [] \<noteq> [] \<and> en_source e \<notin> set (dflt (pf_sources f) [])) \<and>
      list_all (\<lambda>(k, v). strict_eq (js_prop (en_data e) k) v) (dflt (pf_dataMatches f) []))"

definition pb_subscription_matches :: "EventEnvelope \<Rightarrow> EventSubscription \<Rightarrow> bool" where
  "pb_subscription_matches e s =
     (sb_enabled s \<and> pb_matchesPattern (sb_eventPattern s) (en_eventType e) \<and>
      \<not> (str_truthy (sb_tenantId s) \<and> sb_tenantId s \<noteq> Some (en_tenantId e)) \<and>
      (case sb_filter s of None \<Rightarrow> True | Some f \<Rightarrow> pb_matchesFilter f e))"

definition findMatchingSubscriptions :: "EventEnvelope \<Rightarrow> 'c PlatformBus \<Rightarrow> EventSubscription list" where
  "findMatchingSubscriptions e b = filter (pb_subscription_matches e) (jm_values (pb_subscriptions b))"

section \<open>Subscriptions and callbacks\<close>

definition pb_subscribe :: "EventSubscription \<Rightarrow> 'c PlatformBus \<Rightarrow> 'c PlatformBus" where
  "pb_subscribe s b = b\<lparr>pb_subscriptions := jm_set (sb_id s) s (pb_subscriptions b)\<rparr>"

definition pb_unsubscribe :: "string \<Rightarrow> 'c PlatformBus \<Rightarrow> 'c PlatformBus \<times> bool" where
  "pb_unsubscribe i b =
     (b\<lparr>pb_subscriptions := jm_delete i (pb_subscriptions b)\<rparr>, jm_has (pb_subscriptions b) i)"

definition pb_array :: "string \<Rightarrow> 'c PlatformBus \<Rightarrow> nat option" where
  "pb_array pattern b = map_option (\<lambda>(t, p, a). a) (find (\<lambda>(t, p, a). p = pattern) (pb_entries b))"

text \<open>\<open>callbacks.push\<close> and \<open>callbacks.set\<close>.\<close>

definition pb_add :: "string \<Rightarrow> 'c callback \<Rightarrow> 'c PlatformBus \<Rightarrow> 'c PlatformBus" where
  "pb_add pattern cb b =
     (case pb_array pattern b of
        Some a \<Rightarrow> b\<lparr>pb_arrays := (pb_arrays b)[a := pb_arrays b ! a @ [cb]]\<rparr>
      | None \<Rightarrow> b\<lparr>pb_arrays := pb_arrays b @ [[cb]],
                  pb_entries := pb_entries b @ [(pb_stamp b, pattern, length (pb_arrays b))],
                  pb_stamp := Suc (pb_stamp b)\<rparr>)"

definition pb_on :: "string \<Rightarrow> 'c \<Rightarrow> 'c PlatformBus \<Rightarrow> 'c PlatformBus" where
  "pb_on pattern c b = pb_add pattern (Always c) b"

text \<open>The function that \<open>on\<close> returns.\<close>

definition pb_off :: "string \<Rightarrow> 'c callback \<Rightarrow> 'c PlatformBus \<Rightarrow> 'c PlatformBus" where
  "pb_off pattern cb b =
     (case pb_array pattern b of
        None \<Rightarrow> b
      | Some a \<Rightarrow>
          (let cbs = remove1 cb (pb_arrays b ! a);
               b1 = b\<lparr>pb_arrays := (pb_arrays b)[a := cbs]\<rparr>
           in if cbs = [] then b1\<lparr>pb_entries := filter (\<lambda>(t, p, a). p \<noteq> pattern) (pb_entries b1)\<rparr> else b1))"

text \<open>\<open>once\<close> wraps the callback in a new closure; \<open>k\<close> is its number, that of no other closure.\<close>

definition pb_once :: "nat \<Rightarrow> string \<Rightarrow> 'c \<Rightarrow> 'c PlatformBus \<Rightarrow> 'c PlatformBus" where
  "pb_once k pattern c b = pb_add pattern (Once k pattern c) b"

datatype 'c bus_change =
    AddCallback string 'c
  | AddOnce nat string 'c
  | RemoveCallback string "'c callback"
  | AddSubscription EventSubscription
  | RemoveSubscription string

primrec pb_change :: "'c bus_change \<Rightarrow> 'c PlatformBus \<Rightarrow> 'c PlatformBus" where
  "pb_change (AddCallback p c) b = pb_on p c b"
| "pb_change (AddOnce k p c) b = pb_once k p c b"
| "pb_change (RemoveCallback p cb) b = pb_off p cb b"
| "pb_change (AddSubscription s) b = pb_subscribe s b"
| "pb_change (RemoveSubscription i) b = fst (pb_unsubscribe i b)"

section \<open>Emission\<close>

text \<open>What a callback does, given the calls so far, and whether it throws or rejects: both are caught.\<close>

type_synonym 'c act = "'c list \<Rightarrow> 'c \<Rightarrow> EventEnvelope \<Rightarrow> 'c bus_change list \<times> bool"

definition call_back :: "'c act \<Rightarrow> EventEnvelope \<Rightarrow> 'c callback \<Rightarrow> 'c PlatformBus \<times> 'c list \<Rightarrow> 'c PlatformBus \<times> 'c list" where
  "call_back act e cb s =
     (case s of (b, calls) \<Rightarrow>
        (case cb of
           Always c \<Rightarrow> (fold pb_change (fst (act calls c e)) b, calls @ [c])
         | Once k p c \<Rightarrow>
             (let b1 = pb_off p (Once k p c) b
              in (fold pb_change (fst (act calls c e)) b1, calls @ [c]))))"

text \<open>\<open>for (const callback of callbacks)\<close>, at index \<open>i\<close> of array \<open>a\<close>.\<close>

partial_function (option) walk_array ::
  "'c act \<Rightarrow> EventEnvelope \<Rightarrow> nat \<Rightarrow> nat \<Rightarrow> 'c PlatformBus \<times> 'c list \<Rightarrow> ('c PlatformBus \<times> 'c list) option" where
  "walk_array act e a i s =
     (if i < length (pb_arrays (fst s) ! a)
      then walk_array act e a (Suc i) (call_back act e (pb_arrays (fst s) ! a ! i) s)
      else Some s)"

text \<open>\<open>for (const [pattern, callbacks] of this.callbacks)\<close>: the next entry is the first one with a stamp
  of at least \<open>t\<close>.\<close>

partial_function (option) walk_map ::
  "'c act \<Rightarrow> EventEnvelope \<Rightarrow> nat \<Rightarrow> 'c PlatformBus \<times> 'c list \<Rightarrow> ('c PlatformBus \<times> 'c list) option" where
  "walk_map act e t s =
     (case find (\<lambda>(t', p, a). t \<le> t') (pb_entries (fst s)) of
        None \<Rightarrow> Some s
      | Some (t', p, a) \<Rightarrow>
          (if pb_matchesPattern p (en_eventType e)
           then (case walk_array act e a 0 s of None \<Rightarrow> None | Some s1 \<Rightarrow> walk_map act e (Suc t') s1)
           else walk_map act e (Suc t') s))"

record emit_draw =
  mt_now :: int
  mt_id :: string
  mt_trace :: string
  mt_latency :: "nat \<Rightarrow> int"

definition buildEnvelope :: "emit_draw \<Rightarrow> EmitParams \<Rightarrow> EventEnvelope" where
  "buildEnvelope d p =
     \<lparr>en_id = str_or (ep_id p) (mt_id d), en_tenantId = ep_tenantId p, en_eventType = ep_eventType p,
      en_source = ep_source p, en_subject = ep_subject p, en_data = ep_data p,
      en_metadata =
        \<lparr>pb_traceId = str_or (ep_traceId p) (mt_trace d), pb_correlationId = ep_correlationId p,
         pb_causationId = ep_causationId p, pb_timestamp = iso_str (mt_now d),
         pb_version = str_or (ep_version p) ''1.0'', pb_attempt = 0\<rparr>\<rparr>"

text \<open>No kind of delivery does anything.\<close>

definition pb_deliver :: "int \<Rightarrow> EventSubscription \<Rightarrow> DeliveryResult" where
  "pb_deliver latency s =
     \<lparr>dr_subscriptionId = sb_id s, dr_status = pd_delivered, dr_attempt = 1, dr_error = None, dr_latencyMs = latency\<rparr>"

definition payload_size :: "(rat \<Rightarrow> string) \<Rightarrow> jsval \<Rightarrow> int" where
  "payload_size num data = int (length (utf8_encode (dflt (json_val num data) [])))"

definition pb_flush :: "'c PlatformBus \<Rightarrow> 'c PlatformBus \<times> EventEnvelope list" where
  "pb_flush b = (b\<lparr>pb_buffer := []\<rparr>, pb_buffer b)"

datatype bus_error = PAYLOAD_TOO_LARGE int int

text \<open>The calls of callbacks are part of the result.\<close>

definition pb_emit ::
  "(rat \<Rightarrow> string) \<Rightarrow> 'c act \<Rightarrow> emit_draw \<Rightarrow> EmitParams \<Rightarrow> 'c PlatformBus \<Rightarrow>
     ('c PlatformBus \<times> (bus_error + DeliveryResult list \<times> 'c list)) option" where
  "pb_emit num act d p b =
     (let e = buildEnvelope d p;
          size = payload_size num (en_data e)
      in if size > bc_maxPayloadSize (pb_config b)
         then Some (b, Inl (PAYLOAD_TOO_LARGE size (bc_maxPayloadSize (pb_config b))))
         else
           (let b1 = (if bc_persistEvents (pb_config b) then b\<lparr>pb_eventLog := pb_eventLog b @ [e]\<rparr> else b);
                b2 = b1\<lparr>pb_buffer := pb_buffer b1 @ [e]\<rparr>;
                subs = findMatchingSubscriptions e b2;
                results = map (\<lambda>(i, s). pb_deliver (mt_latency d i) s) (enumerate 0 subs)
            in case walk_map act e 0 (b2, []) of
                 None \<Rightarrow> None
               | Some (b3, calls) \<Rightarrow>
                   (let b4 = (if int (length (pb_buffer b3)) \<ge> bc_batchSize (pb_config b3) then fst (pb_flush b3) else b3)
                    in Some (b4, Inr (results, calls)))))"

text \<open>\<open>emitAsync\<close> does not wait and logs the error.\<close>

definition pb_emitAsync ::
  "(rat \<Rightarrow> string) \<Rightarrow> 'c act \<Rightarrow> emit_draw \<Rightarrow> EmitParams \<Rightarrow> 'c PlatformBus \<Rightarrow> 'c PlatformBus option" where
  "pb_emitAsync num act d p b = map_option fst (pb_emit num act d p b)"

section \<open>Queries, clearing, helpers\<close>

definition getMatchingSubscriptions :: "string \<Rightarrow> 'c PlatformBus \<Rightarrow> EventSubscription list" where
  "getMatchingSubscriptions eventType b =
     filter (\<lambda>s. sb_enabled s \<and> pb_matchesPattern (sb_eventPattern s) eventType) (jm_values (pb_subscriptions b))"

definition getEventsByType :: "string \<Rightarrow> 'c PlatformBus \<Rightarrow> EventEnvelope list" where
  "getEventsByType ty b = filter (\<lambda>e. en_eventType e = ty) (pb_eventLog b)"

definition getEventsByTenant :: "string \<Rightarrow> 'c PlatformBus \<Rightarrow> EventEnvelope list" where
  "getEventsByTenant t b = filter (\<lambda>e. en_tenantId e = t) (pb_eventLog b)"

text \<open>\<open>clear\<close> puts a new array in place of the buffer and the log and empties the maps.\<close>

definition pb_clear :: "'c PlatformBus \<Rightarrow> 'c PlatformBus" where
  "pb_clear b = b\<lparr>pb_subscriptions := [], pb_entries := [], pb_buffer := [], pb_eventLog := []\<rparr>"

record EventBusStats =
  st_subscriptionCount :: nat
  st_callbackPatternCount :: nat
  st_bufferSize :: nat
  st_eventLogSize :: nat
  st_config :: EventBusConfig

definition pb_getStats :: "'c PlatformBus \<Rightarrow> EventBusStats" where
  "pb_getStats b =
     \<lparr>st_subscriptionCount = jm_size (pb_subscriptions b), st_callbackPatternCount = length (pb_entries b),
      st_bufferSize = length (pb_buffer b), st_eventLogSize = length (pb_eventLog b), st_config = pb_config b\<rparr>"

definition getEventCategory :: "string \<Rightarrow> string" where
  "getEventCategory eventType =
     (let c = hd (js_split (CHR ''.'') eventType) in if c = [] then ''unknown'' else c)"

definition isPlatformEvent :: "string \<Rightarrow> bool" where
  "isPlatformEvent eventType =
     list_ex (js_startsWith eventType) [''tenant.'', ''user.'', ''module.'', ''ai.'', ''security.'', ''billing.'', ''system.'']"

end
