(* ===== verification/PlatformBusProps.thy ===== *)
theory PlatformBusProps
  imports PlatformBus
begin

text \<open>
  The properties of the platform event bus: what patterns match, which callbacks an emission calls when
  callbacks leave the register alone (\<open>visited\<close>; those of \<open>once\<close> remove themselves while the array is walked
  through, and hide the next one), that the emission returns, which results it gives, and what becomes
  of the buffer.
\<close>

section \<open>Patterns\<close>

lemma pattern_spec:
  "pb_matchesPattern p t \<longleftrightarrow>
     p = ''*'' \<or> p = t \<or> (\<exists>ns. (p = ns @ ''.*'' \<or> p = ns @ ''.**'') \<and> prefix (ns @ ''.'') t)"
proof -
  have 2: "js_endsWith p ''.*'' \<longleftrightarrow> (\<exists>ns. p = ns @ ''.*'')" and 3: "js_endsWith p ''.**'' \<longleftrightarrow> (\<exists>ns. p = ns @ ''.**'')"
    by (auto simp: suffix_def)
  have "\<not> suffix ''.*'' (ns @ ''.**'')" for ns
    by (simp add: suffix_to_prefix)
  then show ?thesis unfolding pb_matchesPattern_def 2 3 by (auto simp: suffix_def)
qed

text \<open>One star matches as many levels as two.\<close>

lemma one_star_is_two: "t \<noteq> ns @ ''.*'' \<Longrightarrow> t \<noteq> ns @ ''.**'' \<Longrightarrow> pb_matchesPattern (ns @ ''.*'') t = pb_matchesPattern (ns @ ''.**'') t"
  unfolding pattern_spec by auto

section \<open>Walking through the callbacks\<close>

text \<open>The callbacks that a loop over an array calls, and the array it leaves.\<close>

fun visited :: "'c callback list \<Rightarrow> 'c list" where
  "visited [] = []"
| "visited (Always c # cbs) = c # visited cbs"
| "visited [Once k p c] = [c]"
| "visited (Once k p c # cb # cbs) = c # visited cbs"

fun left_over :: "'c callback list \<Rightarrow> 'c callback list" where
  "left_over [] = []"
| "left_over (Always c # cbs) = Always c # left_over cbs"
| "left_over [Once k p c] = []"
| "left_over (Once k p c # cb # cbs) = cb # left_over cbs"

definition quiet :: "'c act \<Rightarrow> bool" where
  "quiet act \<longleftrightarrow> (\<forall>calls c e. fst (act calls c e) = [])"

fun is_once :: "'c callback \<Rightarrow> bool" where
  "is_once (Always c) = False"
| "is_once (Once k p c) = True"

fun once_of :: "string \<Rightarrow> 'c callback \<Rightarrow> bool" where
  "once_of p (Always c) = True"
| "once_of p (Once k q c) = (q = p)"

text \<open>A registered array: its closures are of its pattern and all different.\<close>

definition array_ok :: "string \<Rightarrow> 'c callback list \<Rightarrow> bool" where
  "array_ok p cbs \<longleftrightarrow> distinct (filter is_once cbs) \<and> (\<forall>cb \<in> set cbs. once_of p cb)"

definition put_array :: "string \<Rightarrow> nat \<Rightarrow> 'c callback list \<Rightarrow> 'c PlatformBus \<Rightarrow> 'c PlatformBus" where
  "put_array p a cbs b =
     b\<lparr>pb_arrays := (pb_arrays b)[a := cbs],
       pb_entries := (if cbs = [] then filter (\<lambda>(t, q, a). q \<noteq> p) (pb_entries b) else pb_entries b)\<rparr>"

lemma remove1_middle: "x \<notin> set us \<Longrightarrow> remove1 x (us @ x # vs) = us @ vs"
  by (induction us) auto

lemma pb_off_put: "pb_array p b = Some a \<Longrightarrow> pb_off p cb b = put_array p a (remove1 cb (pb_arrays b ! a)) b"
  by (simp add: pb_off_def put_array_def Let_def)

lemma put_array_same: "cbs \<noteq> [] \<Longrightarrow> pb_arrays b ! a = cbs \<Longrightarrow> put_array p a cbs b = b"
  by (auto simp: put_array_def)

lemma put_put_array: "put_array p a cbs (put_array p a (d # ds) b) = put_array p a cbs b"
  by (simp add: put_array_def)

lemma pb_array_put: "cbs \<noteq> [] \<Longrightarrow> pb_array p (put_array p a cbs b) = pb_array p b"
  by (simp add: pb_array_def put_array_def)

lemma walk_end: "\<not> i < length (pb_arrays (fst s) ! a) \<Longrightarrow> walk_array act e a i s = Some s"
  by (subst walk_array.simps) simp

lemma array_ok_tail: "array_ok p (x # cbs) \<Longrightarrow> array_ok p cbs"
  by (cases x) (auto simp: array_ok_def)

lemma walk_array_quiet:
  assumes "quiet act" and "a < length (pb_arrays b)" and "pb_array p b = Some a"
    and "pb_arrays b ! a = us @ cbs" and "us @ cbs \<noteq> []" and "array_ok p (us @ cbs)"
  shows "walk_array act e a (length us) (b, calls) = Some (put_array p a (us @ left_over cbs) b, calls @ visited cbs)"
  using assms
proof (induction cbs arbitrary: us b calls rule: visited.induct)
  case 1
  then show ?case by (simp add: walk_end put_array_same)
next
  case (2 c cbs)
  have "walk_array act e a (length us) (b, calls) = walk_array act e a (length (us @ [Always c])) (b, calls @ [c])"
    using 2(2,5) by (subst walk_array.simps) (simp add: call_back_def quiet_def)
  with "2.IH" [of b "us @ [Always c]" "calls @ [c]"] 2(2-) show ?case by simp
next
  case (3 k q c)
  have q: "q = p" and u: "Once k q c \<notin> set us" using 3(6) by (auto simp: array_ok_def)
  have "walk_array act e a (length us) (b, calls) = walk_array act e a (Suc (length us)) (put_array p a us b, calls @ [c])"
    using 3(1,3,4) q u
    by (subst walk_array.simps) (simp add: call_back_def quiet_def Let_def pb_off_put remove1_append)
  also have "\<dots> = Some (put_array p a us b, calls @ [c])"
    using 3(2) by (simp add: walk_end put_array_def)
  finally show ?case by simp
next
  case (4 k q c cb cbs)
  have q: "q = p" and u: "Once k q c \<notin> set us" using 4(7) by (auto simp: array_ok_def)
  let ?b = "put_array p a (us @ cb # cbs) b"
  have "walk_array act e a (length us) (b, calls) = walk_array act e a (length (us @ [cb])) (?b, calls @ [c])"
    using 4(2,4,5) q u
    by (subst walk_array.simps) (simp add: call_back_def quiet_def Let_def pb_off_put remove1_append)
  moreover have "array_ok p ((us @ [cb]) @ cbs)"
    using 4(7) by (auto simp: array_ok_def)
  ultimately show ?case
    using "4.IH" [of ?b "us @ [cb]" "calls @ [c]"] 4(2,3,4)
    by (simp add: pb_array_put) (simp add: put_array_def)
qed

text \<open>The register of callbacks.\<close>

definition bus_ok :: "'c PlatformBus \<Rightarrow> bool" where
  "bus_ok b \<longleftrightarrow>
     sorted_wrt (<) (map fst (pb_entries b)) \<and> (\<forall>e \<in> set (pb_entries b). fst e < pb_stamp b) \<and>
     distinct (map (fst \<circ> snd) (pb_entries b)) \<and> distinct (map (snd \<circ> snd) (pb_entries b)) \<and>
     (\<forall>(t, p, a) \<in> set (pb_entries b). a < length (pb_arrays b) \<and> pb_arrays b ! a \<noteq> [] \<and> array_ok p (pb_arrays b ! a))"

lemma bus_ok_entry:
  "bus_ok b \<Longrightarrow> (t, p, a) \<in> set (pb_entries b) \<Longrightarrow> a < length (pb_arrays b) \<and> pb_arrays b ! a \<noteq> [] \<and> array_ok p (pb_arrays b ! a)"
  by (auto simp: bus_ok_def)

lemma find_unique_key:
  "distinct (map f xs) \<Longrightarrow> x \<in> set xs \<Longrightarrow> find (\<lambda>y. f y = f x) xs = Some x"
  by (induction xs) (auto simp: image_iff)

lemma pb_array_entry: "bus_ok b \<Longrightarrow> (t, p, a) \<in> set (pb_entries b) \<Longrightarrow> pb_array p b = Some a"
  using find_unique_key [of "fst \<circ> snd" "pb_entries b" "(t, p, a)"]
  by (simp add: bus_ok_def pb_array_def o_def case_prod_unfold)

definition hit :: "string \<Rightarrow> nat \<Rightarrow> nat \<times> string \<times> nat \<Rightarrow> bool" where
  "hit ty t x \<longleftrightarrow> t \<le> fst x \<and> pb_matchesPattern (fst (snd x)) ty"

definition array_at :: "'c PlatformBus \<Rightarrow> nat \<times> string \<times> nat \<Rightarrow> 'c callback list" where
  "array_at b x = pb_arrays b ! snd (snd x)"

definition walked :: "string \<Rightarrow> nat \<Rightarrow> 'c PlatformBus \<Rightarrow> 'c PlatformBus" where
  "walked ty t b =
     b\<lparr>pb_entries := filter (\<lambda>x. \<not> (hit ty t x \<and> left_over (array_at b x) = [])) (pb_entries b),
       pb_arrays := map (\<lambda>a. if \<exists>x \<in> set (pb_entries b). hit ty t x \<and> snd (snd x) = a
                            then left_over (pb_arrays b ! a) else pb_arrays b ! a) [0..<length (pb_arrays b)]\<rparr>"

definition called :: "string \<Rightarrow> nat \<Rightarrow> 'c PlatformBus \<Rightarrow> 'c list" where
  "called ty t b = concat (map (\<lambda>x. visited (array_at b x)) (filter (hit ty t) (pb_entries b)))"

lemma left_over_ok: "array_ok p cbs \<Longrightarrow> array_ok p (left_over cbs)"
proof -
  have "set (left_over cbs) \<subseteq> set cbs" and "set (filter is_once (left_over cbs)) \<subseteq> set (filter is_once cbs)" for cbs :: "'a callback list"
    by (induction cbs rule: left_over.induct) auto
  moreover have "distinct (filter is_once cbs) \<Longrightarrow> distinct (filter is_once (left_over cbs))" for cbs :: "'a callback list"
  proof (induction cbs rule: left_over.induct)
    case (4 k p c cb cbs)
    then show ?case using calculation(2) [of cbs] by (cases "is_once cb") auto
  qed auto
  ultimately show "array_ok p cbs \<Longrightarrow> ?thesis" unfolding array_ok_def by blast
qed

lemma split_at:
  fixes t :: nat
  assumes "sorted_wrt (<) (map fst xs)" and "find (\<lambda>(t', p, a). t \<le> t') xs = Some x"
  shows "\<exists>us vs. xs = us @ x # vs \<and> t \<le> fst x \<and> (\<forall>u \<in> set us. fst u < t) \<and> (\<forall>v \<in> set vs. fst x < fst v)"
  using assms
proof (induction xs)
  case (Cons y xs)
  show ?case
  proof (cases "t \<le> fst y")
    case True
    with Cons.prems have "y = x" by (simp add: case_prod_unfold)
    with Cons.prems(1) True have "y # xs = [] @ x # xs \<and> t \<le> fst x \<and> (\<forall>u \<in> set []. fst u < t) \<and> (\<forall>v \<in> set xs. fst x < fst v)" by auto
    then show ?thesis by blast
  next
    case False
    with Cons obtain us vs where "xs = us @ x # vs" "t \<le> fst x" "\<forall>u \<in> set us. fst u < t" "\<forall>v \<in> set vs. fst x < fst v"
      by (auto simp: case_prod_unfold)
    with False have "y # xs = (y # us) @ x # vs \<and> t \<le> fst x \<and> (\<forall>u \<in> set (y # us). fst u < t) \<and> (\<forall>v \<in> set vs. fst x < fst v)" by auto
    then show ?thesis by blast
  qed
qed simp

lemma bus_eqI:
  "pb_entries b = pb_entries c \<Longrightarrow> pb_arrays b = pb_arrays c \<Longrightarrow> pb_config b = pb_config c \<Longrightarrow>
   pb_subscriptions b = pb_subscriptions c \<Longrightarrow> pb_stamp b = pb_stamp c \<Longrightarrow> pb_buffer b = pb_buffer c \<Longrightarrow>
   pb_eventLog b = pb_eventLog c \<Longrightarrow> b = (c :: 'c PlatformBus)"
  by (cases b, cases c) simp

lemma put_array_fields [simp]:
  "pb_config (put_array p a cbs b) = pb_config b" "pb_subscriptions (put_array p a cbs b) = pb_subscriptions b"
  "pb_stamp (put_array p a cbs b) = pb_stamp b" "pb_buffer (put_array p a cbs b) = pb_buffer b"
  "pb_eventLog (put_array p a cbs b) = pb_eventLog b"
  "pb_arrays (put_array p a cbs b) = (pb_arrays b)[a := cbs]"
  by (simp_all add: put_array_def)

lemma put_array_entries:
  assumes "bus_ok b" and "pb_entries b = us @ (t, p, a) # vs"
  shows "pb_entries (put_array p a cbs b) = (if cbs = [] then us @ vs else pb_entries b)"
proof -
  have "p \<notin> (fst \<circ> snd) ` set us" "p \<notin> (fst \<circ> snd) ` set vs"
    using assms by (auto simp: bus_ok_def)
  then have "filter (\<lambda>(t, q, a). q \<noteq> p) us = us" "filter (\<lambda>(t, q, a). q \<noteq> p) vs = vs"
    by (auto intro!: filter_True simp: image_iff case_prod_unfold)
  then show ?thesis by (simp add: put_array_def assms(2))
qed

lemma refs_apart:
  assumes "bus_ok b" and "pb_entries b = us @ (t, p, a) # vs"
  shows "(t', p', a) \<notin> set us" and "(t', p', a) \<notin> set vs"
  using assms by (auto simp: bus_ok_def image_iff)

lemma put_array_ok:
  assumes b: "bus_ok b" and e: "pb_entries b = us @ (t, p, a) # vs" and c: "array_ok p cbs"
  shows "bus_ok (put_array p a cbs b)"
proof -
  have ok: "a' < length (pb_arrays b) \<and> pb_arrays b ! a' \<noteq> [] \<and> array_ok p' (pb_arrays b ! a')"
    if "(t', p', a') \<in> set us \<union> set vs" for t' p' a'
    using bus_ok_entry [OF b, of t' p' a'] that e by auto
  have a: "a < length (pb_arrays b)" using bus_ok_entry [OF b, of t p a] e by simp
  have "(t', p', a') \<in> set us \<union> set vs \<Longrightarrow> a' \<noteq> a" for t' p' a'
    using refs_apart [OF b e, of t' p'] by auto
  with ok have ok': "(t', p', a') \<in> set us \<union> set vs \<Longrightarrow>
      a' < length (pb_arrays b) \<and> (pb_arrays b)[a := cbs] ! a' \<noteq> [] \<and> array_ok p' ((pb_arrays b)[a := cbs] ! a')" for t' p' a'
    by (metis nth_list_update_neq)
  show ?thesis
  proof (cases "cbs = []")
    case True
    from b ok' show ?thesis unfolding bus_ok_def put_array_entries [OF b e] unfolding e using True
      by (auto simp: sorted_wrt_append)
  next
    case False
    from b ok' a c show ?thesis unfolding bus_ok_def put_array_entries [OF b e] unfolding e using False
      by auto
  qed
qed

lemma walk_map_quiet:
  assumes "quiet act" and "bus_ok b"
  shows "walk_map act e t (b, calls) = Some (walked (en_eventType e) t b, calls @ called (en_eventType e) t b)"
  using assms(2)
proof (induction "length (filter (\<lambda>x. t \<le> fst x) (pb_entries b))" arbitrary: t b calls rule: less_induct)
  case less
  let ?ty = "en_eventType e"
  show ?case
  proof (cases "find (\<lambda>(t', p, a). t \<le> t') (pb_entries b)")
    case None
    then have none: "\<not> hit ?ty t x" if "x \<in> set (pb_entries b)" for x
      using that by (cases x) (auto simp: find_None_iff hit_def)
    then have "filter (\<lambda>x. \<not> (hit ?ty t x \<and> left_over (array_at b x) = [])) (pb_entries b) = pb_entries b"
      and "filter (hit ?ty t) (pb_entries b) = []"
      by (auto intro!: filter_True simp: filter_empty_conv)
    with none None show ?thesis
      by (subst walk_map.simps) (simp add: walked_def called_def map_nth cong: if_cong)
  next
    case (Some x)
    obtain t' p a where x: "x = (t', p, a)" by (cases x)
    have "sorted_wrt (<) (map fst (pb_entries b))" using less.prems by (simp add: bus_ok_def)
    from split_at [OF this Some] obtain us vs where "pb_entries b = us @ x # vs \<and> t \<le> fst x \<and>
        (\<forall>u \<in> set us. fst u < t) \<and> (\<forall>v \<in> set vs. fst x < fst v)" by blast
    then have e: "pb_entries b = us @ (t', p, a) # vs" and t: "t \<le> t'"
      and us: "\<And>u. u \<in> set us \<Longrightarrow> fst u < t" and vs: "\<And>v. v \<in> set vs \<Longrightarrow> t' < fst v"
      by (simp_all add: x)
    have arr: "a < length (pb_arrays b)" "pb_arrays b ! a \<noteq> []" "array_ok p (pb_arrays b ! a)" "pb_array p b = Some a"
      using bus_ok_entry [OF less.prems, of t' p a] pb_array_entry [OF less.prems, of t' p a] e by simp_all
    have hus: "\<not> hit ?ty t u" "\<not> hit ?ty (Suc t') u" if "u \<in> set us" for u
      using us [OF that] t by (simp_all add: hit_def)
    have hvs: "hit ?ty (Suc t') v = hit ?ty t v" if "v \<in> set vs" for v
      using vs [OF that] t by (auto simp: hit_def)
    have fus: "filter (\<lambda>x. s \<le> fst x) us = []" if "t \<le> s" for s
      using us that by (force simp: filter_empty_conv)
    have fvs: "filter (\<lambda>x. Suc t' \<le> fst x) vs = vs" "filter (\<lambda>x. t \<le> fst x) vs = vs"
      using vs t by (auto intro!: filter_True simp: Suc_le_eq) (meson le_less_trans less_imp_le)
    have fhu: "filter (hit ?ty t) us = []" "filter (hit ?ty (Suc t')) us = []"
      "filter (hit ?ty (Suc t')) vs = filter (hit ?ty t) vs"
      using hus hvs by (auto simp: filter_empty_conv intro!: filter_cong)
    show ?thesis
    proof (cases "pb_matchesPattern p ?ty")
      case False
      then have hx: "\<not> hit ?ty t (t', p, a)" "\<not> hit ?ty (Suc t') (t', p, a)" by (simp_all add: hit_def)
      have shrink: "length (filter (\<lambda>x. Suc t' \<le> fst x) (pb_entries b)) < length (filter (\<lambda>x. t \<le> fst x) (pb_entries b))"
        by (simp add: e fus t fvs le_SucI)
      have "walk_map act e t (b, calls) = walk_map act e (Suc t') (b, calls)"
        using Some False by (subst walk_map.simps) (simp add: x)
      moreover have "hit ?ty (Suc t') y = hit ?ty t y" if "y \<in> set (pb_entries b)" for y
      proof -
        from that consider "y \<in> set us" | "y = (t', p, a)" | "y \<in> set vs" by (auto simp: e)
        then show ?thesis using hus hvs hx by cases blast+
      qed
      then have "walked ?ty (Suc t') b = walked ?ty t b" "called ?ty (Suc t') b = called ?ty t b"
        by (simp_all add: walked_def called_def cong: filter_cong bex_cong)
      ultimately show ?thesis using less.hyps [OF shrink less.prems] by simp
    next
      case True
      let ?cbs = "left_over (pb_arrays b ! a)"
      let ?b = "put_array p a ?cbs b"
      have hx: "hit ?ty t (t', p, a)" "\<not> hit ?ty (Suc t') (t', p, a)" using True t by (simp_all add: hit_def)
      have ok: "bus_ok ?b" by (rule put_array_ok [OF less.prems e left_over_ok [OF arr(3)]])
      have e': "pb_entries ?b = us @ (if ?cbs = [] then [] else [(t', p, a)]) @ vs"
        by (simp add: put_array_entries [OF less.prems e] e)
      have shrink: "length (filter (\<lambda>x. Suc t' \<le> fst x) (pb_entries ?b)) < length (filter (\<lambda>x. t \<le> fst x) (pb_entries b))"
        by (simp add: e e' fus t fvs le_SucI)
      have ra: "snd (snd v) \<noteq> a" if "v \<in> set us \<union> set vs" for v
        using refs_apart [OF less.prems e, of "fst v" "fst (snd v)"] that by (cases v) auto
      have at: "array_at ?b v = array_at b v" if "v \<in> set us \<union> set vs" for v
        using ra [OF that] by (simp add: array_at_def)
      have "walk_array act e a 0 (b, calls) = Some (?b, calls @ visited (pb_arrays b ! a))"
        using walk_array_quiet [OF assms(1) arr(1,4), of "[]" "pb_arrays b ! a" e calls] arr by simp
      then have "walk_map act e t (b, calls) = walk_map act e (Suc t') (?b, calls @ visited (pb_arrays b ! a))"
        using Some True by (subst walk_map.simps) (simp add: x)
      moreover have "called ?ty t b = visited (pb_arrays b ! a) @ called ?ty (Suc t') ?b"
      proof -
        have "map (\<lambda>x. visited (array_at ?b x)) (filter (hit ?ty t) vs) = map (\<lambda>x. visited (array_at b x)) (filter (hit ?ty t) vs)"
          using at by (intro map_cong) auto
        from arg_cong [where f = concat, OF this] show ?thesis
          using hx by (simp add: called_def e e' fhu array_at_def [of b "(t', p, a)"])
      qed
      moreover have "walked ?ty (Suc t') ?b = walked ?ty t b"
      proof (rule bus_eqI)
        show "pb_entries (walked ?ty (Suc t') ?b) = pb_entries (walked ?ty t b)"
          by (simp add: walked_def e e' hus hvs hx at array_at_def [of b "(t', p, a)"] cong: filter_cong)
        show "pb_arrays (walked ?ty (Suc t') ?b) = pb_arrays (walked ?ty t b)"
        proof (rule nth_equalityI)
          fix i assume "i < length (pb_arrays (walked ?ty (Suc t') ?b))"
          then have i: "i < length (pb_arrays b)" by (simp add: walked_def)
          have A: "(\<exists>x \<in> set (pb_entries ?b). hit ?ty (Suc t') x \<and> snd (snd x) = i) = (\<exists>x \<in> set vs. hit ?ty t x \<and> snd (snd x) = i)"
            by (simp add: e' bex_Un hus hvs hx cong: bex_cong)
          have B: "(\<exists>x \<in> set (pb_entries b). hit ?ty t x \<and> snd (snd x) = i) =
              (a = i \<or> (\<exists>x \<in> set vs. hit ?ty t x \<and> snd (snd x) = i))"
            by (simp add: e bex_Un hus hx cong: bex_cong)
          have C: "\<not> (\<exists>x \<in> set vs. hit ?ty t x \<and> snd (snd x) = a)" using ra by blast
          show "pb_arrays (walked ?ty (Suc t') ?b) ! i = pb_arrays (walked ?ty t b) ! i"
          proof -
            have 1: "pb_arrays (walked ?ty (Suc t') ?b) ! i =
                (if \<exists>x \<in> set vs. hit ?ty t x \<and> snd (snd x) = i then left_over (pb_arrays ?b ! i) else pb_arrays ?b ! i)"
              unfolding A [symmetric] using i by (auto simp: walked_def)
            have 2: "pb_arrays (walked ?ty t b) ! i =
                (if a = i \<or> (\<exists>x \<in> set vs. hit ?ty t x \<and> snd (snd x) = i) then left_over (pb_arrays b ! i) else pb_arrays b ! i)"
              unfolding B [symmetric] using i by (auto simp: walked_def)
            show ?thesis unfolding 1 2 using i C by (cases "a = i") auto
          qed
        qed (simp add: walked_def)
      qed (simp_all add: walked_def)
      ultimately show ?thesis using less.hyps [OF shrink ok] by simp
    qed
  qed
qed

section \<open>Histories\<close>

lemma same_ref:
  "bus_ok b \<Longrightarrow> x \<in> set (pb_entries b) \<Longrightarrow> y \<in> set (pb_entries b) \<Longrightarrow> snd (snd x) = snd (snd y) \<Longrightarrow> x = y"
  by (auto simp: bus_ok_def distinct_map inj_on_def)

lemma walked_at:
  assumes "bus_ok b" and "x \<in> set (pb_entries b)"
  shows "array_at (walked ty t b) x = (if hit ty t x then left_over (array_at b x) else array_at b x)"
proof -
  have "snd (snd x) < length (pb_arrays b)" using assms bus_ok_entry [OF assms(1), of "fst x" "fst (snd x)"] by simp
  moreover have "(\<exists>y \<in> set (pb_entries b). hit ty t y \<and> snd (snd y) = snd (snd x)) = hit ty t x"
    using same_ref [OF assms(1) _ assms(2)] assms(2) by blast
  ultimately show ?thesis by (simp add: walked_def array_at_def)
qed

lemma walked_ok: "bus_ok b \<Longrightarrow> bus_ok (walked ty t b)"
proof -
  assume b: "bus_ok b"
  have len: "length (pb_arrays (walked ty t b)) = length (pb_arrays b)" by (simp add: walked_def)
  have "snd (snd x) < length (pb_arrays b) \<and> array_at (walked ty t b) x \<noteq> [] \<and> array_ok (fst (snd x)) (array_at (walked ty t b) x)"
    if "x \<in> set (pb_entries (walked ty t b))" for x
  proof -
    from that have x: "x \<in> set (pb_entries b)" and n: "\<not> (hit ty t x \<and> left_over (array_at b x) = [])" by (auto simp: walked_def)
    have "snd (snd x) < length (pb_arrays b) \<and> array_at b x \<noteq> [] \<and> array_ok (fst (snd x)) (array_at b x)"
      using bus_ok_entry [OF b, of "fst x" "fst (snd x)" "snd (snd x)"] x by (simp add: array_at_def)
    with n show ?thesis by (auto simp: walked_at [OF b x] left_over_ok)
  qed
  then have "\<forall>(t', p, a) \<in> set (pb_entries (walked ty t b)).
      a < length (pb_arrays (walked ty t b)) \<and> pb_arrays (walked ty t b) ! a \<noteq> [] \<and> array_ok p (pb_arrays (walked ty t b) ! a)"
    by (force simp: len array_at_def)
  moreover have "sorted_wrt (<) (map fst (pb_entries (walked ty t b)))" "\<forall>e \<in> set (pb_entries (walked ty t b)). fst e < pb_stamp (walked ty t b)"
    "distinct (map (fst \<circ> snd) (pb_entries (walked ty t b)))" "distinct (map (snd \<circ> snd) (pb_entries (walked ty t b)))"
    using b by (auto simp: bus_ok_def walked_def sorted_wrt_map sorted_wrt_filter distinct_map_filter)
  ultimately show ?thesis by (simp add: bus_ok_def)
qed

lemma array_entry: "pb_array p b = Some a \<Longrightarrow> \<exists>t. (t, p, a) \<in> set (pb_entries b)"
  by (auto simp: pb_array_def find_Some_iff) (metis nth_mem)

lemma array_no_entry: "pb_array p b = None \<Longrightarrow> (t, p, a) \<notin> set (pb_entries b)"
  by (auto simp: pb_array_def find_None_iff)

definition fresh_closure :: "nat \<Rightarrow> 'c PlatformBus \<Rightarrow> bool" where
  "fresh_closure k b \<longleftrightarrow> (\<forall>cbs \<in> set (pb_arrays b). \<forall>q c. Once k q c \<notin> set cbs)"

lemma pb_add_ok:
  assumes b: "bus_ok b" and cb: "once_of p cb" and new: "\<And>cbs. cbs \<in> set (pb_arrays b) \<Longrightarrow> is_once cb \<Longrightarrow> cb \<notin> set cbs"
  shows "bus_ok (pb_add p cb b)"
proof (cases "pb_array p b")
  case (Some a)
  then obtain t where e: "(t, p, a) \<in> set (pb_entries b)" using array_entry by blast
  from bus_ok_entry [OF b e] have a: "a < length (pb_arrays b)" "array_ok p (pb_arrays b ! a)" by simp_all
  with new [of "pb_arrays b ! a"] cb have "array_ok p (pb_arrays b ! a @ [cb])" by (auto simp: array_ok_def)
  moreover have "p' = p" if "(t', p', a) \<in> set (pb_entries b)" for t' p'
    using same_ref [OF b that e] by simp
  ultimately show ?thesis using b a by (fastforce simp: pb_add_def Some bus_ok_def nth_list_update)
next
  case None
  have "p \<notin> (fst \<circ> snd) ` set (pb_entries b)" "length (pb_arrays b) \<notin> (snd \<circ> snd) ` set (pb_entries b)"
    using array_no_entry [OF None] bus_ok_entry [OF b] by fastforce+
  moreover have "array_ok p [cb]" using cb by (simp add: array_ok_def)
  ultimately show ?thesis using b
    by (auto simp: pb_add_def None bus_ok_def sorted_wrt_append nth_append less_Suc_eq)
qed

lemma pb_off_ok: "bus_ok b \<Longrightarrow> bus_ok (pb_off p cb b)"
proof (cases "pb_array p b")
  case (Some a)
  assume b: "bus_ok b"
  obtain t where "(t, p, a) \<in> set (pb_entries b)" using array_entry [OF Some] by blast
  then obtain us vs where e: "pb_entries b = us @ (t, p, a) # vs" by (meson split_list)
  have "array_ok p (pb_arrays b ! a)" using bus_ok_entry [OF b, of t p a] e by simp
  then have "array_ok p (remove1 cb (pb_arrays b ! a))"
    using set_remove1_subset [of cb "pb_arrays b ! a"] by (auto simp: array_ok_def filter_remove1 distinct_remove1)
  then show ?thesis unfolding pb_off_put [OF Some] by (rule put_array_ok [OF b e])
qed (simp add: pb_off_def)

text \<open>The states that can be reached while callbacks leave the register alone.\<close>

fun fresh_change :: "'c bus_change \<Rightarrow> 'c PlatformBus \<Rightarrow> bool" where
  "fresh_change (AddOnce k p c) b = fresh_closure k b"
| "fresh_change _ b = True"

inductive pb_reach :: "(rat \<Rightarrow> string) \<Rightarrow> 'c act \<Rightarrow> EventBusConfig \<Rightarrow> 'c PlatformBus \<Rightarrow> bool"
  for num and act and config where
  start: "pb_reach num act config (new_PlatformBus config)"
| change: "pb_reach num act config b \<Longrightarrow> fresh_change ch b \<Longrightarrow> pb_reach num act config (pb_change ch b)"
| emit: "pb_reach num act config b \<Longrightarrow> pb_emit num act d p b = Some (b', res) \<Longrightarrow> pb_reach num act config b'"
| flush: "pb_reach num act config b \<Longrightarrow> pb_reach num act config (fst (pb_flush b))"
| cleared: "pb_reach num act config b \<Longrightarrow> pb_reach num act config (pb_clear b)"

lemma bus_ok_fields: "pb_entries b' = pb_entries b \<Longrightarrow> pb_arrays b' = pb_arrays b \<Longrightarrow> pb_stamp b' = pb_stamp b \<Longrightarrow> bus_ok b' = bus_ok b"
  by (simp add: bus_ok_def)

lemma change_ok: "bus_ok b \<Longrightarrow> fresh_change ch b \<Longrightarrow> bus_ok (pb_change ch b)"
proof (cases ch)
  case (AddOnce k p c)
  assume "bus_ok b" and "fresh_change ch b"
  then show ?thesis unfolding AddOnce by (auto simp: pb_once_def fresh_closure_def intro!: pb_add_ok)
next
  case (AddCallback p c)
  assume "bus_ok b"
  then show ?thesis unfolding AddCallback by (auto simp: pb_on_def intro!: pb_add_ok)
qed (simp_all add: pb_off_ok pb_subscribe_def pb_unsubscribe_def bus_ok_fields [of "_\<lparr>pb_subscriptions := _\<rparr>"])

definition accepted :: "(rat \<Rightarrow> string) \<Rightarrow> EmitParams \<Rightarrow> 'c PlatformBus \<Rightarrow> bool" where
  "accepted num p b \<longleftrightarrow> payload_size num (ep_data p) \<le> bc_maxPayloadSize (pb_config b)"

definition stored :: "EventEnvelope \<Rightarrow> 'c PlatformBus \<Rightarrow> 'c PlatformBus" where
  "stored e b =
     b\<lparr>pb_eventLog := (if bc_persistEvents (pb_config b) then pb_eventLog b @ [e] else pb_eventLog b),
       pb_buffer := (if bc_batchSize (pb_config b) \<le> int (Suc (length (pb_buffer b))) then [] else pb_buffer b @ [e])\<rparr>"

lemma emit_quiet:
  assumes "quiet act" and "bus_ok b" and "e = buildEnvelope d p"
  shows "pb_emit num act d p b =
    (if accepted num p b
     then Some (walked (en_eventType e) 0 (stored e b),
            Inr (map (\<lambda>(i, s). pb_deliver (mt_latency d i) s) (enumerate 0 (findMatchingSubscriptions e b)),
                 called (en_eventType e) 0 b))
     else Some (b, Inl (PAYLOAD_TOO_LARGE (payload_size num (ep_data p)) (bc_maxPayloadSize (pb_config b)))))"
proof -
  let ?b1 = "if bc_persistEvents (pb_config b) then b\<lparr>pb_eventLog := pb_eventLog b @ [e]\<rparr> else b"
  let ?b2 = "?b1\<lparr>pb_buffer := pb_buffer ?b1 @ [e]\<rparr>"
  have same: "pb_entries ?b2 = pb_entries b" "pb_arrays ?b2 = pb_arrays b" "pb_stamp ?b2 = pb_stamp b"
    "pb_config ?b2 = pb_config b" "pb_subscriptions ?b2 = pb_subscriptions b"
    "pb_buffer ?b2 = pb_buffer b @ [e]" "pb_eventLog ?b2 = pb_eventLog (stored e b)" by (simp_all add: stored_def)
  have ok: "bus_ok ?b2" using assms(2) bus_ok_fields [OF same(1-3)] by simp
  have d: "en_data e = ep_data p" by (simp add: assms(3) buildEnvelope_def)
  have c: "called ty 0 ?b2 = called ty 0 b" for ty by (simp add: called_def array_at_def same)
  have w: "(if bc_batchSize (pb_config (walked ty 0 ?b2)) \<le> int (length (pb_buffer (walked ty 0 ?b2)))
       then fst (pb_flush (walked ty 0 ?b2)) else walked ty 0 ?b2) = walked ty 0 (stored e b)" for ty
    by (rule bus_eqI) (auto simp: walked_def array_at_def pb_flush_def stored_def)
  show ?thesis
    using w [of "en_eventType e"] walk_map_quiet [OF assms(1) ok, of e 0 "[]"]
    by (simp add: pb_emit_def assms(3) [symmetric] Let_def d accepted_def not_less c findMatchingSubscriptions_def same(5))
qed

lemma reach_ok: "pb_reach num act config b \<Longrightarrow> quiet act \<Longrightarrow> bus_ok b \<and> pb_config b = config"
proof (induction rule: pb_reach.induct)
  case start
  then show ?case by (simp add: bus_ok_def new_PlatformBus_def)
next
  case (change b ch)
  moreover have "pb_config (pb_change ch b) = pb_config b"
    by (cases ch) (simp_all add: pb_on_def pb_once_def pb_add_def pb_off_def pb_subscribe_def pb_unsubscribe_def Let_def split: option.split)
  ultimately show ?case by (simp add: change_ok)
next
  case (emit b d p b' res)
  have "bus_ok (stored e b)" "pb_config (walked ty 0 (stored e b)) = pb_config b" for e ty
    using emit bus_ok_fields [of "stored e b" b] by (simp_all add: stored_def walked_def)
  with emit show ?case by (auto simp: emit_quiet walked_ok split: if_splits)
next
  case (flush b)
  then show ?case using bus_ok_fields [of "fst (pb_flush b)" b] by (simp add: pb_flush_def)
next
  case (cleared b)
  then show ?case by (simp add: pb_clear_def bus_ok_def)
qed

text \<open>
  C35. What an emission does. In every reachable state of a bus whose callbacks leave the register alone, an
  event whose payload is not too large is reported as delivered to exactly the enabled subscriptions whose
  pattern, tenant and filter match, in the order of registration; and the callbacks called are, pattern after
  matching pattern, those that \<open>visited\<close> lists: the array in order, where a callback is passed over exactly when it comes
  directly after a callback of \<open>once\<close> that was called (of a \<open>once\<close>, a second \<open>once\<close> and a third callback, the
  first and the third are called). Each callback of \<open>once\<close> that was called is gone afterwards.
\<close>

theorem emission_calls:
  assumes "pb_reach num act config b" and "quiet act" and "accepted num p b" and "e = buildEnvelope d p"
  shows "\<exists>b' results.
    pb_emit num act d p b = Some (b', Inr (results,
      concat (map (\<lambda>(t, q, a). visited (pb_arrays b ! a))
        (filter (\<lambda>(t, q, a). pb_matchesPattern q (ep_eventType p)) (pb_entries b))))) \<and>
    map dr_subscriptionId results = map sb_id (filter (pb_subscription_matches e) (jm_values (pb_subscriptions b))) \<and>
    (\<forall>r \<in> set results. dr_status r = pd_delivered) \<and>
    (\<forall>(t, q, a) \<in> set (pb_entries b). pb_arrays b' ! a =
       (if pb_matchesPattern q (ep_eventType p) then left_over (pb_arrays b ! a) else pb_arrays b ! a))"
proof -
  have b: "bus_ok b" using reach_ok [OF assms(1,2)] by simp
  have ty: "en_eventType e = ep_eventType p" by (simp add: assms(4) buildEnvelope_def)
  let ?b' = "walked (ep_eventType p) 0 (stored e b)"
  let ?rs = "map (\<lambda>(i, s). pb_deliver (mt_latency d i) s) (enumerate 0 (findMatchingSubscriptions e b))"
  have "called (ep_eventType p) 0 b = concat (map (\<lambda>(t, q, a). visited (pb_arrays b ! a))
        (filter (\<lambda>(t, q, a). pb_matchesPattern q (ep_eventType p)) (pb_entries b)))"
    by (simp add: called_def hit_def [abs_def] array_at_def [abs_def] case_prod_unfold)
  then have "pb_emit num act d p b = Some (?b', Inr (?rs,
      concat (map (\<lambda>(t, q, a). visited (pb_arrays b ! a))
        (filter (\<lambda>(t, q, a). pb_matchesPattern q (ep_eventType p)) (pb_entries b)))))"
    using emit_quiet [OF assms(2) b assms(4), of num] assms(3) by (simp add: ty)
  moreover have "map dr_subscriptionId (map (\<lambda>(i, s). pb_deliver (f i) s) (enumerate n ss)) = map sb_id ss" for f n ss
    by (induction ss arbitrary: n) (simp_all add: pb_deliver_def)
  then have "map dr_subscriptionId ?rs = map sb_id (filter (pb_subscription_matches e) (jm_values (pb_subscriptions b)))"
    unfolding findMatchingSubscriptions_def by blast
  moreover have "\<forall>r \<in> set ?rs. dr_status r = pd_delivered" by (auto simp: pb_deliver_def)
  moreover have "pb_arrays ?b' ! a = (if pb_matchesPattern q (ep_eventType p) then left_over (pb_arrays b ! a) else pb_arrays b ! a)"
    if "(t, q, a) \<in> set (pb_entries b)" for t q a
  proof -
    have "bus_ok (stored e b)" "(t, q, a) \<in> set (pb_entries (stored e b))" "pb_arrays (stored e b) = pb_arrays b"
      using b that bus_ok_fields [of "stored e b" b] by (simp_all add: stored_def)
    from walked_at [OF this(1,2), of "ep_eventType p" 0] this(3) show ?thesis by (simp add: array_at_def hit_def)
  qed
  ultimately show ?thesis by blast
qed

section \<open>The buffer\<close>

text \<open>Emissions one after the other.\<close>

fun emit_all :: "(rat \<Rightarrow> string) \<Rightarrow> 'c act \<Rightarrow> (emit_draw \<times> EmitParams) list \<Rightarrow> 'c PlatformBus \<Rightarrow> 'c PlatformBus option" where
  "emit_all num act [] b = Some b"
| "emit_all num act ((d, p) # ps) b =
     (case pb_emit num act d p b of None \<Rightarrow> None | Some (b1, res) \<Rightarrow> emit_all num act ps b1)"

definition accepted_events :: "(rat \<Rightarrow> string) \<Rightarrow> EventBusConfig \<Rightarrow> (emit_draw \<times> EmitParams) list \<Rightarrow> EventEnvelope list" where
  "accepted_events num config ps =
     map (\<lambda>(d, p). buildEnvelope d p) (filter (\<lambda>(d, p). payload_size num (ep_data p) \<le> bc_maxPayloadSize config) ps)"

lemma drop_batches:
  assumes "0 < B" and "n = length es"
  shows "drop (B * (Suc n div B)) (es @ [x]) = (if B \<le> Suc (n - B * (n div B)) then [] else drop (B * (n div B)) es @ [x])"
proof -
  have le: "B * (n div B) \<le> n" by simp
  have m: "n - B * (n div B) = n mod B" by (simp add: minus_mult_div_eq_mod)
  show ?thesis
  proof (cases "Suc (n mod B) = B")
    case True
    then have "Suc n mod B = 0" by (simp add: mod_Suc)
    then have "B * (Suc n div B) = Suc n" by (metis add.right_neutral mult_div_mod_eq)
    then show ?thesis using True m assms(2) by simp
  next
    case False
    then have "Suc n div B = n div B" by (simp add: div_Suc mod_Suc)
    moreover have "\<not> B \<le> Suc (n mod B)" using False mod_less_divisor [OF assms(1), of n] by linarith
    ultimately show ?thesis using le m assms(2) by simp
  qed
qed

text \<open>
  Full batches are thrown away. However many events are emitted, the buffer holds the last ones that do not fill
  a batch: whenever a batch is full, it is emptied and its events are handed to nobody. The log, when it is kept,
  grows with every event and is never cut.
\<close>

theorem batches_discarded:
  assumes "quiet act" and "0 < bc_batchSize config" and "B = nat (bc_batchSize config)" and "es = accepted_events num config ps"
  shows "\<exists>b. emit_all num act ps (new_PlatformBus config) = Some b \<and> pb_buffer b = drop (B * (length es div B)) es \<and>
    pb_eventLog b = (if bc_persistEvents config then es else [])"
proof -
  have "\<exists>b'. emit_all num act ps b = Some b' \<and>
      pb_buffer b' = drop (B * (length (old @ accepted_events num config ps) div B)) (old @ accepted_events num config ps) \<and>
      pb_eventLog b' = (if bc_persistEvents config then old @ accepted_events num config ps else [])"
    if "bus_ok b" "pb_config b = config" "pb_buffer b = drop (B * (length old div B)) old"
      "pb_eventLog b = (if bc_persistEvents config then old else [])" for b old
    using that
  proof (induction ps arbitrary: b old)
    case Nil
    then show ?case by (simp add: accepted_events_def)
  next
    case (Cons dp ps)
    obtain d p where dp: "dp = (d, p)" by (cases dp)
    let ?e = "buildEnvelope d p"
    show ?case
    proof (cases "payload_size num (ep_data p) \<le> bc_maxPayloadSize config")
      case False
      then have "emit_all num act (dp # ps) b = emit_all num act ps b"
        "accepted_events num config (dp # ps) = accepted_events num config ps"
        using emit_quiet [OF assms(1) Cons.prems(1) refl, of num d p] Cons.prems(2)
        by (simp_all add: dp accepted_def accepted_events_def)
      with Cons.IH [OF Cons.prems] show ?thesis by (simp only:)
    next
      case True
      let ?b = "walked (en_eventType ?e) 0 (stored ?e b)"
      have em: "emit_all num act (dp # ps) b = emit_all num act ps ?b"
        using emit_quiet [OF assms(1) Cons.prems(1) refl, of num d p] Cons.prems(2) True by (simp add: dp accepted_def)
      have ok: "bus_ok ?b" by (rule walked_ok) (use Cons.prems(1) bus_ok_fields [of "stored ?e b" b] in \<open>simp add: stored_def\<close>)
      have cf: "pb_config ?b = config" by (simp add: walked_def stored_def Cons.prems(2))
      have bf: "pb_buffer ?b = drop (B * (length (old @ [?e]) div B)) (old @ [?e])"
      proof -
        have "(bc_batchSize config \<le> int (Suc k)) = (B \<le> Suc k)" for k using assms(2,3) by auto
        moreover have "0 < B" using assms(2,3) by simp
        ultimately have "pb_buffer ?b = (if B \<le> Suc (length (pb_buffer b)) then [] else pb_buffer b @ [?e])" and B: "0 < B"
          by (simp_all add: walked_def stored_def Cons.prems(2))
        then show ?thesis using drop_batches [OF B refl, of old ?e] by (simp only: Cons.prems(3) length_drop length_append_singleton)
      qed
      have lg: "pb_eventLog ?b = (if bc_persistEvents config then old @ [?e] else [])"
        by (simp add: walked_def stored_def Cons.prems(2,4))
      have acc: "old @ accepted_events num config (dp # ps) = (old @ [?e]) @ accepted_events num config ps"
        using True by (simp add: dp accepted_events_def)
      from Cons.IH [OF ok cf bf lg] show ?thesis unfolding em acc .
    qed
  qed
  then have "\<exists>b'. emit_all num act ps (new_PlatformBus config) = Some b' \<and>
      pb_buffer b' = drop (B * (length ([] @ accepted_events num config ps) div B)) ([] @ accepted_events num config ps) \<and>
      pb_eventLog b' = (if bc_persistEvents config then [] @ accepted_events num config ps else [])"
    by (rule meta_mp) (simp_all add: bus_ok_def new_PlatformBus_def)
  then show ?thesis unfolding assms(4) append_Nil .
qed

section \<open>A concrete bus\<close>

definition silent0 :: "string act" where
  "silent0 = (\<lambda>calls c e. ([], False))"

definition params0 :: EmitParams where
  "params0 = \<lparr>ep_id = None, ep_tenantId = ''t1'', ep_eventType = ''user.created'', ep_source = ''s'', ep_subject = None,
     ep_data = JObj 1 [], ep_traceId = None, ep_correlationId = None, ep_causationId = None, ep_version = None\<rparr>"

definition draw1 :: emit_draw where
  "draw1 = \<lparr>mt_now = 0, mt_id = ''i'', mt_trace = ''t'', mt_latency = (\<lambda>k. 0)\<rparr>"

text \<open>The first callback, registered with \<open>once\<close>, hides the second.\<close>

theorem emission_calls_witness:
  "\<exists>b'. pb_emit (\<lambda>x. ''1'') silent0 draw1 params0
     (pb_on ''user.*'' ''second'' (pb_once 0 ''user.*'' ''first'' (new_PlatformBus DEFAULT_EVENT_BUS_CONFIG))) =
     Some (b', Inr ([], [''first'']))"
proof -
  let ?b1 = "pb_once 0 ''user.*'' ''first'' (new_PlatformBus DEFAULT_EVENT_BUS_CONFIG) :: string PlatformBus"
  let ?b = "pb_on ''user.*'' ''second'' ?b1"
  have "pb_reach (\<lambda>x. ''1'') silent0 DEFAULT_EVENT_BUS_CONFIG ?b1"
    using pb_reach.change [OF pb_reach.start, of "AddOnce 0 ''user.*'' ''first''" DEFAULT_EVENT_BUS_CONFIG]
    by (simp add: fresh_closure_def new_PlatformBus_def)
  then have r: "pb_reach (\<lambda>x. ''1'') silent0 DEFAULT_EVENT_BUS_CONFIG ?b"
    using pb_reach.change [of _ _ _ ?b1 "AddCallback ''user.*'' ''second''"] by simp
  have q: "quiet silent0" by (simp add: quiet_def silent0_def)
  have a: "accepted (\<lambda>x. ''1'') params0 ?b"
    by (simp add: accepted_def payload_size_def params0_def json_obj_def dflt_def utf8_encode_def utf8_char_def pb_on_def pb_once_def
        pb_add_def pb_array_def new_PlatformBus_def DEFAULT_EVENT_BUS_CONFIG_def List.map_filter_def)
  have e: "pb_entries ?b = [(0, ''user.*'', 0)]" "pb_arrays ?b = [[Once 0 ''user.*'' ''first'', Always ''second'']]"
    "pb_subscriptions ?b = []"
    by (simp_all add: pb_on_def pb_once_def pb_add_def pb_array_def new_PlatformBus_def)
  have m: "pb_matchesPattern ''user.*'' (ep_eventType params0)" by (simp add: pb_matchesPattern_def params0_def suffix_def)
  from emission_calls [OF r q a refl, of draw1] show ?thesis by (simp add: e m jm_values_def) blast
qed

end
