(* ===== verification/IpcClient.thy ===== *)
theory IpcClient
  imports Json JsMap
begin

text \<open>
  Messages between services, \<open>packages/ipc/src/index.ts\<close>: the client that sends requests and messages
  through service bindings, and the side that handles them.

  A binding of type \<open>'b\<close> is the host's; what it answers is the argument \<open>fetch\<close>: a response or a
  failure after a number of milliseconds, or nothing ever. What a handler of type \<open>'h\<close> does is the argument
  \<open>handle\<close>: its promise is fulfilled or rejected after a number of milliseconds, or stays pending.
  \<open>JSON.parse\<close> is \<open>parse\<close>, with the message of its error on the left; how numbers print is \<open>num\<close>, the text of a value in a
  template string \<open>shown\<close>. Identifiers and the clock are drawn. Each call runs to its end, or to where it waits for
  ever, before the next.
\<close>

section \<open>Data\<close>

record IpcMessage =
  mg_id :: string
  mg_type :: string
  mg_source :: string
  mg_target :: string
  mg_payload :: jsval
  mg_traceId :: "string option"
  mg_tenantId :: "string option"
  mg_timestamp :: string
  mg_ttl :: "int option"
  mg_replyTo :: "string option"

record IpcError =
  er_code :: string
  er_message :: string

record IpcResponse =
  rp_messageId :: string
  rp_success :: bool
  rp_data :: "jsval option"
  rp_error :: "IpcError option"
  rp_latencyMs :: int

record IpcClientConfig =
  cc_serviceName :: string
  cc_defaultTimeoutMs :: int
  cc_defaultTenantId :: "string option"
  cc_enableLogging :: bool

definition DEFAULT_IPC_CONFIG :: IpcClientConfig where
  "DEFAULT_IPC_CONFIG =
     \<lparr>cc_serviceName = ''unknown'', cc_defaultTimeoutMs = 10000, cc_defaultTenantId = None, cc_enableLogging = False\<rparr>"

record http_request =
  hq_url :: string
  hq_path :: string
  hq_verb :: string
  hq_headers :: "(string \<times> string) list"
  hq_body :: string

record http_response =
  hs_status :: nat
  hs_statusText :: string
  hs_body :: string

definition hs_ok :: "http_response \<Rightarrow> bool" where
  "hs_ok r = (200 \<le> hs_status r \<and> hs_status r < 300)"

text \<open>The numbers are the milliseconds until the promise settles.\<close>

datatype fetched = Answered nat http_response | FetchFails nat string | NoAnswer

datatype handled = HandlerReturns nat jsval | HandlerThrows nat string | HandlerHangs

record ipc_stats =
  sx_sent :: nat
  sx_received :: nat
  sx_errors :: nat
  sx_timeouts :: nat

definition zero_ipc_stats :: ipc_stats where
  "zero_ipc_stats = \<lparr>sx_sent = 0, sx_received = 0, sx_errors = 0, sx_timeouts = 0\<rparr>"

record ('b, 'h) IpcClient =
  ic_config :: IpcClientConfig
  ic_bindings :: "(string, 'b) jsmap"
  ic_handlers :: "(string, 'h) jsmap"
  ic_messageLog :: "IpcMessage list"
  ic_stats :: ipc_stats

definition new_IpcClient :: "IpcClientConfig \<Rightarrow> ('b, 'h) IpcClient" where
  "new_IpcClient c =
     \<lparr>ic_config = c, ic_bindings = [], ic_handlers = [], ic_messageLog = [], ic_stats = zero_ipc_stats\<rparr>"

record ipc_draw =
  id_now :: int
  id_text :: string
  id_latency :: int

definition generateMessageId :: "ipc_draw \<Rightarrow> string" where
  "generateMessageId d = ''msg_'' @ radix_str 36 (nat (id_now d)) @ ''_'' @ id_text d"

section \<open>Registration\<close>

definition registerBinding :: "string \<Rightarrow> 'b \<Rightarrow> ('b, 'h) IpcClient \<Rightarrow> ('b, 'h) IpcClient" where
  "registerBinding serviceName binding c = c\<lparr>ic_bindings := jm_set serviceName binding (ic_bindings c)\<rparr>"

definition unregisterBinding :: "string \<Rightarrow> ('b, 'h) IpcClient \<Rightarrow> ('b, 'h) IpcClient" where
  "unregisterBinding serviceName c = c\<lparr>ic_bindings := jm_delete serviceName (ic_bindings c)\<rparr>"

definition registerHandler :: "string \<Rightarrow> 'h \<Rightarrow> ('b, 'h) IpcClient \<Rightarrow> ('b, 'h) IpcClient" where
  "registerHandler messageType handler c = c\<lparr>ic_handlers := jm_set messageType handler (ic_handlers c)\<rparr>"

definition unregisterHandler :: "string \<Rightarrow> ('b, 'h) IpcClient \<Rightarrow> ('b, 'h) IpcClient" where
  "unregisterHandler messageType c = c\<lparr>ic_handlers := jm_delete messageType (ic_handlers c)\<rparr>"

definition map_stats :: "(ipc_stats \<Rightarrow> ipc_stats) \<Rightarrow> ('b, 'h) IpcClient \<Rightarrow> ('b, 'h) IpcClient" where
  "map_stats f c = c\<lparr>ic_stats := f (ic_stats c)\<rparr>"

abbreviation count_error :: "ipc_stats \<Rightarrow> ipc_stats" where
  "count_error s \<equiv> s\<lparr>sx_errors := Suc (sx_errors s)\<rparr>"

abbreviation count_sent :: "ipc_stats \<Rightarrow> ipc_stats" where
  "count_sent s \<equiv> s\<lparr>sx_sent := Suc (sx_sent s)\<rparr>"

section \<open>Sending\<close>

definition message_json :: "(rat \<Rightarrow> string) \<Rightarrow> IpcMessage \<Rightarrow> string" where
  "message_json num m =
     json_obj
       [(''id'', Some (json_quote (mg_id m))), (''type'', Some (json_quote (mg_type m))),
        (''source'', Some (json_quote (mg_source m))), (''target'', Some (json_quote (mg_target m))),
        (''payload'', json_val num (mg_payload m)), (''traceId'', map_option json_quote (mg_traceId m)),
        (''tenantId'', map_option json_quote (mg_tenantId m)), (''timestamp'', Some (json_quote (mg_timestamp m))),
        (''ttl'', map_option int_str (mg_ttl m)), (''replyTo'', map_option json_quote (mg_replyTo m))]"

record send_options =
  so_timeoutMs :: "int option"
  so_tenantId :: "string option"
  so_traceId :: "string option"

text \<open>\<open>options.tenantId || this.config.defaultTenantId\<close>.\<close>

definition tenant_or :: "string option \<Rightarrow> string option \<Rightarrow> string option" where
  "tenant_or t d = (if str_truthy t then t else d)"

definition new_message ::
  "ipc_draw \<Rightarrow> string \<Rightarrow> string \<Rightarrow> jsval \<Rightarrow> send_options \<Rightarrow> int option \<Rightarrow> ('b, 'h) IpcClient \<Rightarrow> IpcMessage" where
  "new_message d target ty payload opts ttl c =
     \<lparr>mg_id = generateMessageId d, mg_type = ty, mg_source = cc_serviceName (ic_config c), mg_target = target,
      mg_payload = payload, mg_traceId = so_traceId opts,
      mg_tenantId = tenant_or (so_tenantId opts) (cc_defaultTenantId (ic_config c)),
      mg_timestamp = iso_str (id_now d), mg_ttl = ttl,
      mg_replyTo = None\<rparr>"

definition ipc_headers :: "IpcMessage \<Rightarrow> (string \<times> string) list" where
  "ipc_headers m =
     [(''Content-Type'', ''application/json''), (''X-IPC-Source'', mg_source m), (''X-IPC-Type'', mg_type m),
      (''X-IPC-Message-Id'', mg_id m)]"

definition ipc_request :: "(rat \<Rightarrow> string) \<Rightarrow> IpcMessage \<Rightarrow> (string \<times> string) list \<Rightarrow> http_request" where
  "ipc_request num m headers =
     \<lparr>hq_url = ''https://ipc.internal/__ipc'', hq_path = ''/__ipc'', hq_verb = ''POST'', hq_headers = headers,
      hq_body = message_json num m\<rparr>"

definition log_message :: "IpcMessage \<Rightarrow> ('b, 'h) IpcClient \<Rightarrow> ('b, 'h) IpcClient" where
  "log_message m c = (if cc_enableLogging (ic_config c) then c\<lparr>ic_messageLog := ic_messageLog c @ [m]\<rparr> else c)"

definition ipc_failure :: "string \<Rightarrow> string \<Rightarrow> string \<Rightarrow> int \<Rightarrow> IpcResponse" where
  "ipc_failure i code msg latency =
     \<lparr>rp_messageId = i, rp_success = False, rp_data = None,
      rp_error = Some \<lparr>er_code = code, er_message = msg\<rparr>, rp_latencyMs = latency\<rparr>"

text \<open>The race against the timer. A timer that was set first fires first, so an answer at the very time of the timer is late.\<close>

definition raced :: "int \<Rightarrow> fetched \<Rightarrow> fetched" where
  "raced timer f =
     (let late = FetchFails (nat timer) ''IPC_TIMEOUT''
      in case f of
           Answered ms r \<Rightarrow> if int ms < timer then f else late
         | FetchFails ms msg \<Rightarrow> if int ms < timer then f else late
         | NoAnswer \<Rightarrow> late)"

definition ipc_request_call ::
  "(rat \<Rightarrow> string) \<Rightarrow> (string \<Rightarrow> string + jsval) \<Rightarrow> ('b \<Rightarrow> http_request \<Rightarrow> fetched) \<Rightarrow> ipc_draw \<Rightarrow> string \<Rightarrow> string \<Rightarrow>
     jsval \<Rightarrow> send_options \<Rightarrow> ('b, 'h) IpcClient \<Rightarrow> ('b, 'h) IpcClient \<times> IpcResponse" where
  "ipc_request_call num parse fetch d target ty payload opts c =
     (case jm_get (ic_bindings c) target of
        None \<Rightarrow>
          (map_stats count_error c,
           ipc_failure (generateMessageId d) ''NO_BINDING'' (''No binding registered for service: '' @ target) 0)
      | Some binding \<Rightarrow>
          (let timeoutMs = num_or (so_timeoutMs opts) (cc_defaultTimeoutMs (ic_config c));
               m = new_message d target ty payload opts (Some timeoutMs) c;
               c1 = map_stats count_sent (log_message m c);
               headers = ipc_headers m @
                 (if str_truthy (mg_traceId m) then [(''X-Trace-Id'', dflt (mg_traceId m) [])] else []) @
                 (if str_truthy (mg_tenantId m) then [(''X-Tenant-Id'', dflt (mg_tenantId m) [])] else []);
               failed = (\<lambda>msg.
                 let isTimeout = (msg = ''IPC_TIMEOUT'')
                 in (map_stats count_error
                       (if isTimeout then map_stats (\<lambda>s. s\<lparr>sx_timeouts := Suc (sx_timeouts s)\<rparr>) c1 else c1),
                     ipc_failure (mg_id m) (if isTimeout then ''TIMEOUT'' else ''REQUEST_FAILED'') msg (id_latency d)))
           in case raced (timer_delay timeoutMs) (fetch binding (ipc_request num m headers)) of
                NoAnswer \<Rightarrow> failed ''IPC_TIMEOUT''
              | FetchFails ms msg \<Rightarrow> failed msg
              | Answered ms r \<Rightarrow>
                  if \<not> hs_ok r then
                    (map_stats count_error c1,
                     ipc_failure (mg_id m) (''HTTP_'' @ nat_str (hs_status r))
                       (if hs_body r \<noteq> [] then hs_body r else hs_statusText r) (id_latency d))
                  else
                    (case parse (hs_body r) of
                       Inl msg \<Rightarrow> failed msg
                     | Inr v \<Rightarrow>
                         (c1, \<lparr>rp_messageId = mg_id m, rp_success = True, rp_data = Some v, rp_error = None,
                               rp_latencyMs = id_latency d\<rparr>))))"

text \<open>
  There is no timeout: the result \<^const>\<open>None\<close> means that the promise stays pending, and the number is the time
  it settles at.
\<close>

definition ipc_send ::
  "(rat \<Rightarrow> string) \<Rightarrow> ('b \<Rightarrow> http_request \<Rightarrow> fetched) \<Rightarrow> ipc_draw \<Rightarrow> string \<Rightarrow> string \<Rightarrow>
     jsval \<Rightarrow> send_options \<Rightarrow> ('b, 'h) IpcClient \<Rightarrow> ('b, 'h) IpcClient \<times> (nat \<times> bool) option" where
  "ipc_send num fetch d target ty payload opts c =
     (case jm_get (ic_bindings c) target of
        None \<Rightarrow> (map_stats count_error c, Some (0, False))
      | Some binding \<Rightarrow>
          (let m = new_message d target ty payload opts None c;
               c1 = map_stats count_sent (log_message m c)
           in case fetch binding (ipc_request num m (ipc_headers m @ [(''X-IPC-Fire-And-Forget'', ''true'')])) of
                NoAnswer \<Rightarrow> (c1, None)
              | FetchFails ms msg \<Rightarrow> (map_stats count_error c1, Some (ms, False))
              | Answered ms r \<Rightarrow> (c1, Some (ms, True))))"

text \<open>
  The sends of a broadcast, started in order, and how each settles. Every send enters its result when it settles (those of the same
  time in the order of the targets); if one of them stays pending, the broadcast does. \<open>d k\<close> is the draw for the \<open>k\<close>-th.
\<close>

fun send_each ::
  "(rat \<Rightarrow> string) \<Rightarrow> ('b \<Rightarrow> http_request \<Rightarrow> fetched) \<Rightarrow> (nat \<Rightarrow> ipc_draw) \<Rightarrow> string list \<Rightarrow> string \<Rightarrow>
     jsval \<Rightarrow> send_options \<Rightarrow> ('b, 'h) IpcClient \<Rightarrow> ('b, 'h) IpcClient \<times> (string \<times> (nat \<times> bool) option) list" where
  "send_each num fetch d [] ty payload opts c = (c, [])"
| "send_each num fetch d (t # ts) ty payload opts c =
     (case ipc_send num fetch (d 0) t ty payload opts c of
        (c1, r) \<Rightarrow>
          (case send_each num fetch (\<lambda>k. d (Suc k)) ts ty payload opts c1 of
             (c2, rs) \<Rightarrow> (c2, (t, r) # rs)))"

definition ipc_broadcast ::
  "(rat \<Rightarrow> string) \<Rightarrow> ('b \<Rightarrow> http_request \<Rightarrow> fetched) \<Rightarrow> (nat \<Rightarrow> ipc_draw) \<Rightarrow> string list \<Rightarrow> string \<Rightarrow>
     jsval \<Rightarrow> send_options \<Rightarrow> ('b, 'h) IpcClient \<Rightarrow> ('b, 'h) IpcClient \<times> (string, bool) jsmap option" where
  "ipc_broadcast num fetch d targets ty payload opts c =
     (case send_each num fetch d targets ty payload opts c of
        (c1, rs) \<Rightarrow>
          (c1, if list_all (\<lambda>(t, r). r \<noteq> None) rs then
                 Some (fold (\<lambda>(t, r). jm_set t (snd (the r))) (sort_key (\<lambda>(t, r). fst (the r)) rs) [])
               else None))"

section \<open>Receiving\<close>

definition error_json :: "string \<Rightarrow> string \<Rightarrow> string" where
  "error_json code msg = json_obj [(''code'', Some (json_quote code)), (''message'', Some (json_quote msg))]"

definition failure_response :: "string \<Rightarrow> http_response" where
  "failure_response msg = \<lparr>hs_status = 500, hs_statusText = [], hs_body = error_json ''HANDLER_ERROR'' msg\<rparr>"

definition incoming_failure ::
  "nat \<Rightarrow> string \<Rightarrow> ('b, 'h) IpcClient \<Rightarrow> ('b, 'h) IpcClient \<times> (nat \<times> http_response) option" where
  "incoming_failure ms msg c = (map_stats count_error c, Some (ms, failure_response msg))"

definition null_read_error :: "string \<Rightarrow> string" where
  "null_read_error v = ''Cannot read properties of '' @ v @ '' (reading '' @ [CHR 0x27] @ ''type'' @ [CHR 0x27] @ '')''"

text \<open>The response and when it is there; \<^const>\<open>None\<close> when the handler never settles, and neither does the promise.\<close>

definition ipc_handleIncoming ::
  "(rat \<Rightarrow> string) \<Rightarrow> (string \<Rightarrow> string + jsval) \<Rightarrow> (jsval \<Rightarrow> string) \<Rightarrow> ('h \<Rightarrow> jsval \<Rightarrow> handled) \<Rightarrow> http_request \<Rightarrow>
     ('b, 'h) IpcClient \<Rightarrow> ('b, 'h) IpcClient \<times> (nat \<times> http_response) option" where
  "ipc_handleIncoming num parse shown handle rq c =
     (let c1 = map_stats (\<lambda>s. s\<lparr>sx_received := Suc (sx_received s)\<rparr>) c
      in case parse (hq_body rq) of
           Inl msg \<Rightarrow> incoming_failure 0 msg c1
         | Inr JNull \<Rightarrow> incoming_failure 0 (null_read_error ''null'') c1
         | Inr JUndef \<Rightarrow> incoming_failure 0 (null_read_error ''undefined'') c1
         | Inr m \<Rightarrow>
             (case (case js_prop m ''type'' of JStr ty \<Rightarrow> jm_get (ic_handlers c1) ty | _ \<Rightarrow> None) of
                None \<Rightarrow>
                  (c1, Some (0, \<lparr>hs_status = 404, hs_statusText = [],
                     hs_body = error_json ''NO_HANDLER'' (''No handler for type: '' @ shown (js_prop m ''type''))\<rparr>))
              | Some h \<Rightarrow>
                  (case handle h m of
                     HandlerThrows ms msg \<Rightarrow> incoming_failure ms msg c1
                   | HandlerReturns ms v \<Rightarrow>
                       (c1, Some (ms, \<lparr>hs_status = 200, hs_statusText = [], hs_body = dflt (json_val num v) []\<rparr>))
                   | HandlerHangs \<Rightarrow> (c1, None))))"

section \<open>Queries, resets, helpers\<close>

definition clearLog :: "('b, 'h) IpcClient \<Rightarrow> ('b, 'h) IpcClient" where
  "clearLog c = c\<lparr>ic_messageLog := []\<rparr>"

definition resetStats :: "('b, 'h) IpcClient \<Rightarrow> ('b, 'h) IpcClient" where
  "resetStats c = c\<lparr>ic_stats := zero_ipc_stats\<rparr>"

definition isIPCRequest :: "http_request \<Rightarrow> bool" where
  "isIPCRequest rq = (hq_path rq = ''/__ipc'' \<and> hq_verb rq = ''POST'')"

definition createIPCClient :: "string \<Rightarrow> (string \<times> 'b) list \<Rightarrow> IpcClientConfig \<Rightarrow> ('b, 'h) IpcClient" where
  "createIPCClient serviceName bindings config =
     fold (\<lambda>(n, b). registerBinding n b) bindings (new_IpcClient (config\<lparr>cc_serviceName := serviceName\<rparr>))"

section \<open>Two services\<close>

text \<open>
  A request between two clients of this library: the binding of \<open>target\<close> hands the request to the other
  client, \<open>peer\<close>, which is in the state it has then. The answer, and when it is there, follow from what the other
  side does.
\<close>

definition peer_fetch ::
  "(rat \<Rightarrow> string) \<Rightarrow> (string \<Rightarrow> string + jsval) \<Rightarrow> (jsval \<Rightarrow> string) \<Rightarrow> ('h \<Rightarrow> jsval \<Rightarrow> handled) \<Rightarrow> ('b, 'h) IpcClient \<Rightarrow>
     'b \<Rightarrow> http_request \<Rightarrow> fetched" where
  "peer_fetch num parse shown handle peer b rq =
     (if isIPCRequest rq then
        (case snd (ipc_handleIncoming num parse shown handle rq peer) of
           None \<Rightarrow> NoAnswer
         | Some (ms, r) \<Rightarrow> Answered ms r)
      else FetchFails 0 ''not found'')"

lemma peer_fetch_request:
  assumes "parse (message_json num m) = Inr v" and "js_prop v ''type'' = JStr ty"
  shows "peer_fetch num parse shown handle peer b (ipc_request num m headers) =
      (case jm_get (ic_handlers peer) ty of
         None \<Rightarrow> Answered 0 \<lparr>hs_status = 404, hs_statusText = [],
                   hs_body = error_json ''NO_HANDLER'' (''No handler for type: '' @ shown (JStr ty))\<rparr>
       | Some h \<Rightarrow>
           (case handle h v of
              HandlerThrows ms msg \<Rightarrow> Answered ms (failure_response msg)
            | HandlerReturns ms r \<Rightarrow>
                Answered ms \<lparr>hs_status = 200, hs_statusText = [], hs_body = dflt (json_val num r) []\<rparr>
            | HandlerHangs \<Rightarrow> NoAnswer))"
proof -
  have v: "v \<noteq> JNull" "v \<noteq> JUndef" using assms(2) by auto
  show ?thesis
    using v assms
    by (cases v)
       (auto simp: peer_fetch_def isIPCRequest_def ipc_handleIncoming_def ipc_request_def Let_def map_stats_def
         incoming_failure_def split: option.split handled.split)
qed

lemma raced_simps:
  "raced timer (Answered ms r) = (if int ms < timer then Answered ms r else FetchFails (nat timer) ''IPC_TIMEOUT'')"
  "raced timer (FetchFails ms msg) = (if int ms < timer then FetchFails ms msg else FetchFails (nat timer) ''IPC_TIMEOUT'')"
  "raced timer NoAnswer = FetchFails (nat timer) ''IPC_TIMEOUT''"
  by (simp_all add: raced_def Let_def)

text \<open>
  C36. A request between two services, for every behaviour of the handler, in time, late or never. The receiver gets every
  request of the client; when \<open>JSON.parse\<close> reads back what was sent, the client's answer is the text of the handler's
  result read back, a 404 without a handler, a 500 when the handler throws, the error of parsing an empty text when the handler
  returns nothing, and a timeout when the handler has not settled before the timer of the request. A message that is
  only sent counts as delivered in each of these cases as soon as the handler has settled, also when it threw or nobody handles
  the type; without a timer it stays pending for ever when the handler does.
\<close>

theorem request_answered:
  assumes "jm_get (ic_bindings c) target = Some b"
    and "timeoutMs = num_or (so_timeoutMs opts) (cc_defaultTimeoutMs (ic_config c))"
    and "m = new_message d target ty payload opts (Some timeoutMs) c" and "m' = new_message d target ty payload opts None c"
    and "parse (message_json num m) = Inr v" and "js_prop v ''type'' = JStr ty"
    and "parse (message_json num m') = Inr v'" and "js_prop v' ''type'' = JStr ty"
  shows "snd (ipc_request_call num parse (peer_fetch num parse shown handle peer) d target ty payload opts c) =
      (let late = ipc_failure (mg_id m) ''TIMEOUT'' ''IPC_TIMEOUT'' (id_latency d) in
       case jm_get (ic_handlers peer) ty of
         None \<Rightarrow> ipc_failure (mg_id m) ''HTTP_404'' (error_json ''NO_HANDLER'' (''No handler for type: '' @ shown (JStr ty))) (id_latency d)
       | Some h \<Rightarrow>
           (case handle h v of
              HandlerThrows ms msg \<Rightarrow>
                if int ms < timer_delay timeoutMs
                then ipc_failure (mg_id m) ''HTTP_500'' (error_json ''HANDLER_ERROR'' msg) (id_latency d) else late
            | HandlerReturns ms r \<Rightarrow>
                if int ms < timer_delay timeoutMs then
                  (case parse (dflt (json_val num r) []) of
                     Inr x \<Rightarrow> \<lparr>rp_messageId = mg_id m, rp_success = True, rp_data = Some x, rp_error = None, rp_latencyMs = id_latency d\<rparr>
                   | Inl msg \<Rightarrow> ipc_failure (mg_id m) (if msg = ''IPC_TIMEOUT'' then ''TIMEOUT'' else ''REQUEST_FAILED'') msg (id_latency d))
                else late
            | HandlerHangs \<Rightarrow> late)) \<and>
    snd (ipc_send num (peer_fetch num parse shown handle peer) d target ty payload opts c) =
      (case jm_get (ic_handlers peer) ty of
         None \<Rightarrow> Some (0, True)
       | Some h \<Rightarrow>
           (case handle h v' of
              HandlerThrows ms msg \<Rightarrow> Some (ms, True)
            | HandlerReturns ms r \<Rightarrow> Some (ms, True)
            | HandlerHangs \<Rightarrow> None))"
    (is "?answer \<and> ?sent")
proof
  have codes: "nat_str 404 = ''404''" "nat_str 500 = ''500''" by code_simp+
  have body: "error_json code msg \<noteq> []" for code msg by (simp add: error_json_def json_obj_def)
  note fetched = peer_fetch_request [where parse = parse and v = v, OF assms(5,6)]
    peer_fetch_request [where parse = parse and v = v', OF assms(7,8)]
  show ?answer
    by (simp add: ipc_request_call_def assms(1) assms(2) [symmetric] assms(3) [symmetric] Let_def fetched raced_simps
        timer_delay_pos body hs_ok_def codes failure_response_def split: option.split handled.split sum.split)
  show ?sent
    by (simp add: ipc_send_def assms(1) assms(4) [symmetric] Let_def fetched split: option.split handled.split)
qed

text \<open>A client of the service \<open>peer\<close>, which has a handler for \<open>ping\<close>.\<close>

definition ping_client :: "(unit, unit) IpcClient" where
  "ping_client = createIPCClient ''me'' [(''peer'', ())] DEFAULT_IPC_CONFIG"

definition ping_peer :: "(unit, unit) IpcClient" where
  "ping_peer = registerHandler ''ping'' () (createIPCClient ''peer'' [] DEFAULT_IPC_CONFIG)"

definition ping_parse :: "string \<Rightarrow> string + jsval" where
  "ping_parse s = (if s = [] then Inl ''Unexpected end of JSON input'' else Inr (JObj 1 [(''type'', JStr ''ping'')]))"

definition ping_draw :: ipc_draw where
  "ping_draw = \<lparr>id_now = 0, id_text = ''a'', id_latency = 3\<rparr>"

definition ping_options :: send_options where
  "ping_options = \<lparr>so_timeoutMs = None, so_tenantId = None, so_traceId = None\<rparr>"

definition ping_error :: "handled \<Rightarrow> IpcError option" where
  "ping_error behaviour =
     rp_error (snd (ipc_request_call (\<lambda>x. ''1'') ping_parse
       (peer_fetch (\<lambda>x. ''1'') ping_parse (\<lambda>v. ''ping'') (\<lambda>h m. behaviour) ping_peer)
       ping_draw ''peer'' ''ping'' JNull ping_options ping_client))"

text \<open>A handler that returns nothing after 5 ms, and one that needs exactly the ten seconds of the timer.\<close>

theorem request_answered_witness:
  "ping_error (HandlerReturns 5 JUndef) =
     Some \<lparr>er_code = ''REQUEST_FAILED'', er_message = ''Unexpected end of JSON input''\<rparr> \<and>
   ping_error (HandlerReturns 10000 JNull) = Some \<lparr>er_code = ''TIMEOUT'', er_message = ''IPC_TIMEOUT''\<rparr>"
proof -
  have b: "jm_get (ic_bindings ping_client) ''peer'' = Some ()"
    by (simp add: ping_client_def createIPCClient_def registerBinding_def)
  have h: "jm_get (ic_handlers ping_peer) ''ping'' = Some ()"
    by (simp add: ping_peer_def registerHandler_def)
  have p: "ping_parse (message_json num m) = Inr (JObj 1 [(''type'', JStr ''ping'')])" for num m
    by (simp add: ping_parse_def message_json_def json_obj_def)
  have t: "js_prop (JObj 1 [(''type'', JStr ''ping'')]) ''type'' = JStr ''ping''" by (simp add: obj_prop_def)
  have ms: "timer_delay (num_or (so_timeoutMs ping_options) (cc_defaultTimeoutMs (ic_config ping_client))) = 10000"
    by (simp add: timer_delay_def ping_options_def num_or_def ping_client_def createIPCClient_def registerBinding_def
        new_IpcClient_def DEFAULT_IPC_CONFIG_def)
  note answer = request_answered [where parse = ping_parse and num = "\<lambda>x. ''1''" and shown = "\<lambda>v. ''ping''"
      and peer = ping_peer and d = ping_draw and payload = JNull and opts = ping_options,
      OF b refl refl refl p t p t, THEN conjunct1]
  show ?thesis
    by (simp add: ping_error_def answer h ms ping_parse_def dflt_def ipc_failure_def Let_def)
qed

end
