(* ===== verification/SelfHealing.thy ===== *)
theory SelfHealing
  imports KernelCore
begin

text \<open>
  Predictive scaling, anomaly detection, failover and recovery of
  \<open>packages/kernel/src/os/self-healing.ts\<close>.

  Metric values, loads and health scores are real numbers. The arithmetic of the scaler and of the detector
  is that of the code, operation by operation in its order, with \<open>fl\<close> applied to every result: \<open>fl\<close> is
  the rounding of the machine's numbers (without infinities and not-a-number). Every operation reads the clock once; local time is UTC. The identifiers of anomalies are drawn. Reasons of decisions are
  constructors that carry the number the text prints; descriptions of anomalies are left out. States and
  decisions that the operations return are values. Listeners only take note.
\<close>

section \<open>Data\<close>

datatype ScalingAction = scale_up | scale_down | no_change
datatype RecoveryAction = do_restart | do_rollback | do_failover | do_isolate | do_notify
datatype AnomalyType = an_spike | an_drop | an_trend | an_pattern_break | an_threshold_breach
datatype FailoverMode = active_passive | active_active | hot_standby
datatype HealthTrend = trend_improving | trend_stable | trend_degrading | trend_critical

record MetricDataPoint =
  mp_timestamp :: int
  mp_value :: real

datatype scaling_reason =
    NoPolicy | InCooldown | ScheduleBased | PredictedLoad real | HighCpu real | HighMemory real | SlowResponse real
  | LowUtilization real | WithinRange

record ScalingDecision =
  de_action :: ScalingAction
  de_serviceName :: string
  de_currentInstances :: int
  de_targetInstances :: int
  de_reason :: scaling_reason
  de_confidence :: real
  de_predictedLoad :: real
  de_timestamp :: int

record SchedulePattern =
  pa_name :: string
  pa_dayOfWeek :: "int list"
  pa_hourStart :: int
  pa_hourEnd :: int
  pa_targetInstances :: int

record SpScalingPolicy =
  po_serviceName :: string
  po_minInstances :: int
  po_maxInstances :: int
  po_targetCpuUtilization :: real
  po_targetMemoryUtilization :: real
  po_targetResponseTime :: real
  po_scaleUpCooldownMs :: int
  po_scaleDownCooldownMs :: int
  po_scaleUpThreshold :: real
  po_scaleDownThreshold :: real
  po_predictiveEnabled :: bool
  po_schedulePatterns :: "SchedulePattern list"

datatype recovery_operator = rop_gt | rop_lt | rop_eq | rop_gte | rop_lte

record RecoveryCondition =
  rn_metric :: string
  rn_operator :: recovery_operator
  rn_value :: real

record RecoveryStep =
  rs_order :: int
  rs_action :: RecoveryAction
  rs_description :: string
  rs_timeoutMs :: int
  rs_retryCount :: int
  rs_conditions :: "RecoveryCondition list"

record EscalationLevel =
  el_level :: int
  el_afterMinutes :: int
  el_actions :: "RecoveryAction list"
  el_notifyChannels :: "string list"

record RecoveryPlan =
  rl_serviceName :: string
  rl_actions :: "RecoveryStep list"
  rl_maxAttempts :: int
  rl_escalationPolicy :: "EscalationLevel list"

datatype severity = sev_low | sev_medium | sev_high | sev_critical

record Anomaly =
  ay_id :: string
  ay_type :: AnomalyType
  ay_serviceName :: string
  ay_metric :: string
  ay_severity :: severity
  ay_currentValue :: real
  ay_expectedValue :: real
  ay_deviation :: real
  ay_detectedAt :: int
  ay_resolvedAt :: "int option"
  ay_acknowledged :: bool

record FailoverConfig =
  fo_serviceName :: string
  fo_mode :: FailoverMode
  fo_primaryInstance :: string
  fo_secondaryInstances :: "string list"
  fo_healthCheckIntervalMs :: int
  fo_failoverThreshold :: real
  fo_failbackEnabled :: bool
  fo_failbackDelayMs :: int

datatype failover_status = fs_normal | fs_failover | fs_failback | fs_degraded

record FailoverState =
  ft_serviceName :: string
  ft_activeInstance :: string
  ft_failoverCount :: nat
  ft_lastFailoverAt :: int
  ft_lastFailbackAt :: int
  ft_status :: failover_status

section \<open>Predictive scaler\<close>

record PredictiveScaler =
  sc_metrics :: "(string, MetricDataPoint list) jsmap"
  sc_policies :: "(string, SpScalingPolicy) jsmap"
  sc_decisions :: "ScalingDecision list"
  sc_lastScaleAction :: "(string, ScalingAction \<times> int) jsmap"
  sc_currentInstances :: "(string, int) jsmap"

definition new_PredictiveScaler :: PredictiveScaler where
  "new_PredictiveScaler =
     \<lparr>sc_metrics = [], sc_policies = [], sc_decisions = [], sc_lastScaleAction = [], sc_currentInstances = []\<rparr>"

definition metric_key :: "string \<Rightarrow> string \<Rightarrow> string" where
  "metric_key serviceName metric = serviceName @ '':'' @ metric"

definition sc_setPolicy :: "SpScalingPolicy \<Rightarrow> PredictiveScaler \<Rightarrow> PredictiveScaler" where
  "sc_setPolicy p s =
     (let s1 = s\<lparr>sc_policies := jm_set (po_serviceName p) p (sc_policies s)\<rparr>
      in if jm_has (sc_currentInstances s1) (po_serviceName p) then s1
         else s1\<lparr>sc_currentInstances := jm_set (po_serviceName p) (po_minInstances p) (sc_currentInstances s1)\<rparr>)"

definition recordMetric :: "int \<Rightarrow> string \<Rightarrow> string \<Rightarrow> real \<Rightarrow> PredictiveScaler \<Rightarrow> PredictiveScaler" where
  "recordMetric now serviceName metric v s =
     (let key = metric_key serviceName metric;
          points = dflt (jm_get (sc_metrics s) key) [] @ [\<lparr>mp_timestamp = now, mp_value = v\<rparr>]
      in s\<lparr>sc_metrics := jm_set key (if length points > 1440 then slice_last 1440 points else points) (sc_metrics s)\<rparr>)"

definition getRecentMetrics :: "int \<Rightarrow> string \<Rightarrow> string \<Rightarrow> int \<Rightarrow> PredictiveScaler \<Rightarrow> real list" where
  "getRecentMetrics now serviceName metric minutes s =
     (let points = dflt (jm_get (sc_metrics s) (metric_key serviceName metric)) [];
          cutoff = now - minutes * 60 * 1000
      in map mp_value (filter (\<lambda>p. mp_timestamp p \<ge> cutoff) points))"

text \<open>Rounding, and the sum of a \<open>reduce\<close> or a loop, from the left and starting at zero.\<close>

type_synonym rounding = "real \<Rightarrow> real"

definition fl_sum :: "rounding \<Rightarrow> real list \<Rightarrow> real" where
  "fl_sum fl vs = foldl (\<lambda>s v. fl (s + v)) 0 vs"

definition sc_average :: "rounding \<Rightarrow> real list \<Rightarrow> real" where
  "sc_average fl vs = (if vs = [] then 0 else fl (fl_sum fl vs / of_nat (length vs)))"

definition day_of_week :: "int \<Rightarrow> int" where
  "day_of_week now = (now div 86400000 + 4) mod 7"

definition hour_of_day :: "int \<Rightarrow> int" where
  "hour_of_day now = now div 3600000 mod 24"

definition getScheduledTarget :: "int \<Rightarrow> SpScalingPolicy \<Rightarrow> int option" where
  "getScheduledTarget now p =
     map_option pa_targetInstances
       (find (\<lambda>pat. day_of_week now \<in> set (pa_dayOfWeek pat) \<and> hour_of_day now \<ge> pa_hourStart pat \<and>
                    hour_of_day now < pa_hourEnd pat) (po_schedulePatterns p))"

text \<open>The sums of the linear regression over the points \<open>(i, vs ! i)\<close>.\<close>

definition regression :: "rounding \<Rightarrow> real list \<Rightarrow> real \<times> real" where
  "regression fl vs =
     (let n = of_nat (length vs);
          sumX = fl_sum fl (map (\<lambda>i. of_nat i) [0..<length vs]);
          sumY = fl_sum fl (map (\<lambda>i. vs ! i) [0..<length vs]);
          sumXY = fl_sum fl (map (\<lambda>i. fl (of_nat i * vs ! i)) [0..<length vs]);
          sumX2 = fl_sum fl (map (\<lambda>i. fl (of_nat i * of_nat i)) [0..<length vs]);
          slope = fl (fl (fl (n * sumXY) - fl (sumX * sumY)) / fl (fl (n * sumX2) - fl (sumX * sumX)));
          intercept = fl (fl (sumY - fl (slope * sumX)) / n)
      in (slope, intercept))"

definition predict :: "rounding \<Rightarrow> real list \<Rightarrow> real" where
  "predict fl vs =
     (if length vs < 10 then sc_average fl vs
      else case regression fl vs of
             (slope, intercept) \<Rightarrow> max 0 (min 100 (fl (intercept + fl (slope * (of_nat (length vs) + 5))))))"

definition predictLoad :: "rounding \<Rightarrow> int \<Rightarrow> string \<Rightarrow> PredictiveScaler \<Rightarrow> real" where
  "predictLoad fl now serviceName s = predict fl (getRecentMetrics now serviceName ''cpu'' 30 s)"

definition createDecision ::
  "int \<Rightarrow> string \<Rightarrow> ScalingAction \<Rightarrow> int \<Rightarrow> int \<Rightarrow> scaling_reason \<Rightarrow> real \<Rightarrow> real \<Rightarrow> ScalingDecision" where
  "createDecision now serviceName action current target reason confidence predictedLoad =
     \<lparr>de_action = action, de_serviceName = serviceName, de_currentInstances = current, de_targetInstances = target,
      de_reason = reason, de_confidence = confidence, de_predictedLoad = predictedLoad, de_timestamp = now\<rparr>"

definition in_cooldown :: "int \<Rightarrow> SpScalingPolicy \<Rightarrow> (ScalingAction \<times> int) option \<Rightarrow> bool" where
  "in_cooldown now p lastAction =
     (case lastAction of
        None \<Rightarrow> False
      | Some (a, t) \<Rightarrow> now - t < (if a = scale_up then po_scaleUpCooldownMs p else po_scaleDownCooldownMs p))"

definition sc_evaluate :: "rounding \<Rightarrow> int \<Rightarrow> string \<Rightarrow> PredictiveScaler \<Rightarrow> ScalingDecision" where
  "sc_evaluate fl now serviceName s =
     (case jm_get (sc_policies s) serviceName of
        None \<Rightarrow> createDecision now serviceName no_change 0 0 NoPolicy 0 0
      | Some p \<Rightarrow>
          (let current = num_or (jm_get (sc_currentInstances s) serviceName) (po_minInstances p);
               avgCpu = sc_average fl (getRecentMetrics now serviceName ''cpu'' 5 s);
               avgMemory = sc_average fl (getRecentMetrics now serviceName ''memory'' 5 s);
               avgResponseTime = sc_average fl (getRecentMetrics now serviceName ''response_time'' 5 s);
               decide = createDecision now serviceName;
               scheduled = getScheduledTarget now p;
               predicted = predictLoad fl now serviceName s
           in if in_cooldown now p (jm_get (sc_lastScaleAction s) serviceName)
              then decide no_change current current InCooldown (1 / 2) avgCpu
              else if scheduled \<noteq> None \<and> scheduled \<noteq> Some current then
                decide (if dflt scheduled 0 > current then scale_up else scale_down) current (dflt scheduled 0)
                  ScheduleBased (9 / 10) avgCpu
              else if po_predictiveEnabled p \<and> predicted > po_scaleUpThreshold p \<and> current < po_maxInstances p then
                decide scale_up current (min (current + 1) (po_maxInstances p)) (PredictedLoad predicted) (7 / 10) predicted
              else if (avgCpu > po_scaleUpThreshold p \<or> avgMemory > po_targetMemoryUtilization p \<or>
                       avgResponseTime > po_targetResponseTime p) \<and> current < po_maxInstances p then
                decide scale_up current (min (current + 1) (po_maxInstances p))
                  (if avgCpu > po_scaleUpThreshold p then HighCpu avgCpu
                   else if avgMemory > po_targetMemoryUtilization p then HighMemory avgMemory
                   else SlowResponse avgResponseTime) (17 / 20) avgCpu
              else if avgCpu < po_scaleDownThreshold p \<and> avgMemory < po_scaleDownThreshold p \<and> current > po_minInstances p then
                decide scale_down current (max (current - 1) (po_minInstances p)) (LowUtilization avgCpu) (4 / 5) avgCpu
              else decide no_change current current WithinRange (9 / 10) avgCpu))"

definition sc_execute :: "int \<Rightarrow> ScalingDecision \<Rightarrow> PredictiveScaler \<Rightarrow> PredictiveScaler" where
  "sc_execute now d s =
     (if de_action d = no_change then s
      else s\<lparr>sc_currentInstances := jm_set (de_serviceName d) (de_targetInstances d) (sc_currentInstances s),
             sc_lastScaleAction := jm_set (de_serviceName d) (de_action d, now) (sc_lastScaleAction s),
             sc_decisions := sc_decisions s @ [d]\<rparr>)"

definition sc_getHistory :: "string option \<Rightarrow> int \<Rightarrow> PredictiveScaler \<Rightarrow> ScalingDecision list" where
  "sc_getHistory serviceName limit s =
     (let history = (if str_truthy serviceName then filter (\<lambda>d. Some (de_serviceName d) = serviceName) (sc_decisions s)
                     else sc_decisions s)
      in js_slice 0 limit (sort_key (\<lambda>d. - de_timestamp d) history))"

definition getInstanceCount :: "string \<Rightarrow> PredictiveScaler \<Rightarrow> int" where
  "getInstanceCount serviceName s = num_or (jm_get (sc_currentInstances s) serviceName) 0"

section \<open>Anomaly detector\<close>

record AnomalyDetector =
  ad_anomalies :: "(string, Anomaly) jsmap"
  ad_metricHistory :: "(string, real list) jsmap"
  ad_thresholds :: "(string, real \<times> real) jsmap"

definition new_AnomalyDetector :: AnomalyDetector where
  "new_AnomalyDetector = \<lparr>ad_anomalies = [], ad_metricHistory = [], ad_thresholds = []\<rparr>"

definition setThreshold :: "string \<Rightarrow> string \<Rightarrow> real \<Rightarrow> real \<Rightarrow> AnomalyDetector \<Rightarrow> AnomalyDetector" where
  "setThreshold serviceName metric warning critical a =
     a\<lparr>ad_thresholds := jm_set (metric_key serviceName metric) (warning, critical) (ad_thresholds a)\<rparr>"

definition mean_of :: "rounding \<Rightarrow> real list \<Rightarrow> real" where
  "mean_of fl h = fl (fl_sum fl h / of_nat (length h))"

definition variance_of :: "rounding \<Rightarrow> real list \<Rightarrow> real" where
  "variance_of fl h = fl (fl_sum fl (map (\<lambda>v. fl ((fl (v - mean_of fl h)) ^ 2)) h) / of_nat (length h))"

definition zScore :: "rounding \<Rightarrow> real list \<Rightarrow> real \<Rightarrow> real" where
  "zScore fl h v =
     (let stdDev = fl (sqrt (variance_of fl h)) in if stdDev > 0 then fl (fl (v - mean_of fl h) / stdDev) else 0)"

text \<open>\<open>recent.every((v, i) => i === 0 || v >= recent[i - 1])\<close>.\<close>

definition every_step :: "(real \<Rightarrow> real \<Rightarrow> bool) \<Rightarrow> real list \<Rightarrow> bool" where
  "every_step R xs = list_all (\<lambda>i. i = 0 \<or> R (xs ! i) (xs ! (i - 1))) [0..<length xs]"

record anomaly_draw =
  dw_now :: int
  dw_text :: string

definition createAnomaly ::
  "anomaly_draw \<Rightarrow> AnomalyType \<Rightarrow> string \<Rightarrow> string \<Rightarrow> severity \<Rightarrow> real \<Rightarrow> real \<Rightarrow> real \<Rightarrow> Anomaly" where
  "createAnomaly d ty serviceName metric sev current expected deviation =
     \<lparr>ay_id = ''anomaly_'' @ int_str (dw_now d) @ ''_'' @ dw_text d, ay_type = ty, ay_serviceName = serviceName,
      ay_metric = metric, ay_severity = sev, ay_currentValue = current, ay_expectedValue = expected,
      ay_deviation = deviation, ay_detectedAt = dw_now d, ay_resolvedAt = None, ay_acknowledged = False\<rparr>"

text \<open>The verdict on the newest value \<open>v\<close> of the history \<open>h\<close>, which contains it.\<close>

definition judge ::
  "rounding \<Rightarrow> anomaly_draw \<Rightarrow> string \<Rightarrow> string \<Rightarrow> (real \<times> real) option \<Rightarrow> real list \<Rightarrow> real \<Rightarrow> Anomaly option" where
  "judge fl d serviceName metric threshold h v =
     (let mean = mean_of fl h;
          z = zScore fl h v;
          a1 = (if \<bar>z\<bar> > 3
                then Some (createAnomaly d (if z > 0 then an_spike else an_drop) serviceName metric
                       (if \<bar>z\<bar> > 4 then sev_critical else sev_high) v mean \<bar>z\<bar>)
                else None);
          a2 = (case threshold of
                  None \<Rightarrow> a1
                | Some (warning, critical) \<Rightarrow>
                    if v \<ge> critical \<and> a1 = None then
                      Some (createAnomaly d an_threshold_breach serviceName metric sev_critical v critical (fl (v / critical)))
                    else if v \<ge> warning \<and> a1 = None then
                      Some (createAnomaly d an_threshold_breach serviceName metric sev_medium v warning (fl (v / warning)))
                    else a1);
          recent = slice_last 10 h
      in if a2 = None \<and> length h \<ge> 10 then
           (if every_step (\<ge>) recent \<and> v > fl (mean * (3 / 2))
            then Some (createAnomaly d an_trend serviceName metric sev_medium v mean (fl (fl (v - mean) / mean)))
            else if every_step (\<le>) recent \<and> v < fl (mean * (1 / 2))
            then Some (createAnomaly d an_trend serviceName metric sev_medium v mean (fl (fl (mean - v) / mean)))
            else None)
         else a2)"

definition ad_analyze ::
  "rounding \<Rightarrow> anomaly_draw \<Rightarrow> string \<Rightarrow> string \<Rightarrow> real \<Rightarrow> AnomalyDetector \<Rightarrow> AnomalyDetector \<times> Anomaly option" where
  "ad_analyze fl d serviceName metric v a =
     (let key = metric_key serviceName metric;
          history = dflt (jm_get (ad_metricHistory a) key) [] @ [v];
          a1 = a\<lparr>ad_metricHistory := jm_set key (if length history > 100 then slice_last 100 history else history)
                                       (ad_metricHistory a)\<rparr>
      in if length history < 10 then (a1, None)
         else (case judge fl d serviceName metric (jm_get (ad_thresholds a1) key) history v of
                 None \<Rightarrow> (a1, None)
               | Some an \<Rightarrow> (a1\<lparr>ad_anomalies := jm_set (ay_id an) an (ad_anomalies a1)\<rparr>, Some an)))"

definition getActiveAnomalies :: "string option \<Rightarrow> AnomalyDetector \<Rightarrow> Anomaly list" where
  "getActiveAnomalies serviceName a =
     (let active = filter (\<lambda>x. dflt (ay_resolvedAt x) 0 = 0) (jm_values (ad_anomalies a));
          mine = (if str_truthy serviceName then filter (\<lambda>x. Some (ay_serviceName x) = serviceName) active else active)
      in sort_key (\<lambda>x. - ay_detectedAt x) mine)"

definition ad_acknowledge :: "string \<Rightarrow> AnomalyDetector \<Rightarrow> AnomalyDetector \<times> bool" where
  "ad_acknowledge anomalyId a =
     (case jm_get (ad_anomalies a) anomalyId of
        None \<Rightarrow> (a, False)
      | Some x \<Rightarrow> (a\<lparr>ad_anomalies := jm_set anomalyId (x\<lparr>ay_acknowledged := True\<rparr>) (ad_anomalies a)\<rparr>, True))"

definition ad_resolve :: "int \<Rightarrow> string \<Rightarrow> AnomalyDetector \<Rightarrow> AnomalyDetector \<times> bool" where
  "ad_resolve now anomalyId a =
     (case jm_get (ad_anomalies a) anomalyId of
        None \<Rightarrow> (a, False)
      | Some x \<Rightarrow> (a\<lparr>ad_anomalies := jm_set anomalyId (x\<lparr>ay_resolvedAt := Some now\<rparr>) (ad_anomalies a)\<rparr>, True))"

definition getHealthTrend :: "string \<Rightarrow> AnomalyDetector \<Rightarrow> HealthTrend" where
  "getHealthTrend serviceName a =
     (let active = getActiveAnomalies (Some serviceName) a
      in if filter (\<lambda>x. ay_severity x = sev_critical) active \<noteq> [] then trend_critical
         else if filter (\<lambda>x. ay_severity x = sev_high) active \<noteq> [] then trend_degrading
         else if active \<noteq> [] then trend_degrading
         else trend_stable)"

section \<open>Failover manager\<close>

record FailoverManager =
  fv_configs :: "(string, FailoverConfig) jsmap"
  fv_states :: "(string, FailoverState) jsmap"
  fv_healthScores :: "(string, real) jsmap"

definition new_FailoverManager :: FailoverManager where
  "new_FailoverManager = \<lparr>fv_configs = [], fv_states = [], fv_healthScores = []\<rparr>"

definition fv_configure :: "FailoverConfig \<Rightarrow> FailoverManager \<Rightarrow> FailoverManager" where
  "fv_configure c f =
     f\<lparr>fv_configs := jm_set (fo_serviceName c) c (fv_configs f),
       fv_states := jm_set (fo_serviceName c)
         \<lparr>ft_serviceName = fo_serviceName c, ft_activeInstance = fo_primaryInstance c, ft_failoverCount = 0,
          ft_lastFailoverAt = 0, ft_lastFailbackAt = 0, ft_status = fs_normal\<rparr> (fv_states f)\<rparr>"

definition updateHealth :: "string \<Rightarrow> real \<Rightarrow> FailoverManager \<Rightarrow> FailoverManager" where
  "updateHealth instanceId score f =
     f\<lparr>fv_healthScores := jm_set instanceId (max 0 (min 100 score)) (fv_healthScores f)\<rparr>"

definition best_secondary :: "(string, real) jsmap \<Rightarrow> string list \<Rightarrow> string option \<times> real" where
  "best_secondary scores secondaries =
     fold (\<lambda>s (best, h). let x = dflt (jm_get scores s) 0 in if x > h then (Some s, x) else (best, h)) secondaries (None, 0)"

definition failover_step :: "int \<Rightarrow> FailoverConfig \<Rightarrow> (string, real) jsmap \<Rightarrow> FailoverState \<Rightarrow> FailoverState" where
  "failover_step now c scores st =
     (let activeHealth = dflt (jm_get scores (ft_activeInstance st)) 100
      in if activeHealth < fo_failoverThreshold c \<and> ft_status st = fs_normal then
           (case best_secondary scores (fo_secondaryInstances c) of
              (best, h) \<Rightarrow>
                if str_truthy best \<and> h > fo_failoverThreshold c
                then st\<lparr>ft_activeInstance := dflt best [], ft_status := fs_failover,
                        ft_failoverCount := Suc (ft_failoverCount st), ft_lastFailoverAt := now\<rparr>
                else st\<lparr>ft_status := fs_degraded\<rparr>)
         else st)"

definition failback_step :: "int \<Rightarrow> FailoverConfig \<Rightarrow> (string, real) jsmap \<Rightarrow> FailoverState \<Rightarrow> FailoverState" where
  "failback_step now c scores st =
     (if fo_failbackEnabled c \<and> ft_status st = fs_failover \<and>
         dflt (jm_get scores (fo_primaryInstance c)) 0 > fo_failoverThreshold c + 10 \<and>
         now - ft_lastFailoverAt st > fo_failbackDelayMs c
      then st\<lparr>ft_activeInstance := fo_primaryInstance c, ft_status := fs_normal, ft_lastFailbackAt := now\<rparr>
      else st)"

definition checkFailover :: "int \<Rightarrow> string \<Rightarrow> FailoverManager \<Rightarrow> FailoverManager \<times> FailoverState option" where
  "checkFailover now serviceName f =
     (case (jm_get (fv_configs f) serviceName, jm_get (fv_states f) serviceName) of
        (Some c, Some st) \<Rightarrow>
          (let st1 = failback_step now c (fv_healthScores f) (failover_step now c (fv_healthScores f) st)
           in (f\<lparr>fv_states := jm_set serviceName st1 (fv_states f)\<rparr>, Some st1))
      | _ \<Rightarrow> (f, None))"

definition forceFailover :: "int \<Rightarrow> string \<Rightarrow> string \<Rightarrow> FailoverManager \<Rightarrow> FailoverManager \<times> bool" where
  "forceFailover now serviceName target f =
     (case (jm_get (fv_configs f) serviceName, jm_get (fv_states f) serviceName) of
        (Some c, Some st) \<Rightarrow>
          if target \<notin> set (fo_secondaryInstances c) \<and> target \<noteq> fo_primaryInstance c then (f, False)
          else
            (f\<lparr>fv_states := jm_set serviceName
                 (st\<lparr>ft_activeInstance := target,
                     ft_status := (if target = fo_primaryInstance c then fs_normal else fs_failover),
                     ft_failoverCount := Suc (ft_failoverCount st), ft_lastFailoverAt := now\<rparr>) (fv_states f)\<rparr>, True)
      | _ \<Rightarrow> (f, False))"

section \<open>The system\<close>

datatype sh_event =
    ScalingExecuted ScalingAction int int
  | AnomalyDetected string AnomalyType severity string
  | FailoverTriggered string failover_status
  | RecoveryStarted nat "RecoveryAction list"
  | RecoveryCompleted nat

primrec sh_event_str :: "sh_event \<Rightarrow> string" where
  "sh_event_str (ScalingExecuted a m n) = ''scaling:executed''"
| "sh_event_str (AnomalyDetected i ty sev metric) = ''anomaly:detected''"
| "sh_event_str (FailoverTriggered i st) = ''failover:triggered''"
| "sh_event_str (RecoveryStarted n as) = ''recovery:started''"
| "sh_event_str (RecoveryCompleted n) = ''recovery:completed''"

record SelfHealingEvent =
  sv_event :: sh_event
  sv_serviceName :: string
  sv_timestamp :: int

record recovery_entry =
  re_serviceName :: string
  re_action :: RecoveryAction
  re_success :: bool
  re_timestamp :: int

text \<open>\<open>sh_emitted\<close> is a ghost that lists the calls of listeners.\<close>

record 'h SelfHealing =
  sh_scaler :: PredictiveScaler
  sh_detector :: AnomalyDetector
  sh_failover :: FailoverManager
  sh_recoveryPlans :: "(string, RecoveryPlan) jsmap"
  sh_recoveryHistory :: "recovery_entry list"
  sh_listeners :: "'h EventBus"
  sh_emitted :: "('h \<times> SelfHealingEvent) list"

definition new_SelfHealing :: "'h SelfHealing" where
  "new_SelfHealing =
     \<lparr>sh_scaler = new_PredictiveScaler, sh_detector = new_AnomalyDetector, sh_failover = new_FailoverManager,
      sh_recoveryPlans = [], sh_recoveryHistory = [], sh_listeners = new_EventBus, sh_emitted = []\<rparr>"

definition sh_on :: "string \<Rightarrow> 'h \<Rightarrow> 'h SelfHealing \<Rightarrow> 'h SelfHealing" where
  "sh_on ty h s = s\<lparr>sh_listeners := eb_on ty h (sh_listeners s)\<rparr>"

definition sh_off :: "string \<Rightarrow> 'h \<Rightarrow> 'h SelfHealing \<Rightarrow> 'h SelfHealing" where
  "sh_off ty h s = s\<lparr>sh_listeners := eb_off ty h (sh_listeners s)\<rparr>"

definition sh_emit :: "int \<Rightarrow> string \<Rightarrow> sh_event \<Rightarrow> 'h SelfHealing \<Rightarrow> 'h SelfHealing" where
  "sh_emit now serviceName ev s =
     (let e = \<lparr>sv_event = ev, sv_serviceName = serviceName, sv_timestamp = now\<rparr>
      in s\<lparr>sh_emitted := sh_emitted s @ map (\<lambda>h. (h, e)) (subscribers (sh_listeners s) (sh_event_str ev) @
                                                       subscribers (sh_listeners s) ''*'')\<rparr>)"

definition setRecoveryPlan :: "RecoveryPlan \<Rightarrow> 'h SelfHealing \<Rightarrow> 'h SelfHealing" where
  "setRecoveryPlan p s = s\<lparr>sh_recoveryPlans := jm_set (rl_serviceName p) p (sh_recoveryPlans s)\<rparr>"

definition recovery_condition :: "Anomaly list \<Rightarrow> RecoveryCondition \<Rightarrow> bool" where
  "recovery_condition anomalies c =
     (case find (\<lambda>a. ay_metric a = rn_metric c) anomalies of
        None \<Rightarrow> False
      | Some a \<Rightarrow>
          (case rn_operator c of
             rop_gt \<Rightarrow> ay_currentValue a > rn_value c
           | rop_lt \<Rightarrow> ay_currentValue a < rn_value c
           | rop_gte \<Rightarrow> ay_currentValue a \<ge> rn_value c
           | rop_lte \<Rightarrow> ay_currentValue a \<le> rn_value c
           | rop_eq \<Rightarrow> ay_currentValue a = rn_value c))"

text \<open>\<open>sort\<close> changes the array of the plan itself.\<close>

definition triggerRecovery :: "int \<Rightarrow> string \<Rightarrow> Anomaly list \<Rightarrow> 'h SelfHealing \<Rightarrow> 'h SelfHealing \<times> bool" where
  "triggerRecovery now serviceName anomalies s =
     (case jm_get (sh_recoveryPlans s) serviceName of
        None \<Rightarrow> (s, False)
      | Some plan \<Rightarrow>
          (let s1 = sh_emit now serviceName (RecoveryStarted (length anomalies) (map rs_action (rl_actions plan))) s;
               steps = sort_key rs_order (rl_actions plan);
               s2 = s1\<lparr>sh_recoveryPlans := jm_set serviceName (plan\<lparr>rl_actions := steps\<rparr>) (sh_recoveryPlans s1)\<rparr>;
               run = filter (\<lambda>st. list_all (recovery_condition anomalies) (rs_conditions st) \<or> rs_conditions st = []) steps;
               s3 = s2\<lparr>sh_recoveryHistory := sh_recoveryHistory s2 @
                        map (\<lambda>st. \<lparr>re_serviceName = serviceName, re_action = rs_action st, re_success = True,
                                   re_timestamp = now\<rparr>) run\<rparr>
           in (sh_emit now serviceName (RecoveryCompleted (length (rl_actions plan))) s3, True)))"

definition record_metrics :: "int \<Rightarrow> string \<Rightarrow> (string \<times> real) list \<Rightarrow> 'h SelfHealing \<Rightarrow> 'h SelfHealing" where
  "record_metrics now serviceName metrics s =
     s\<lparr>sh_scaler := fold (\<lambda>(metric, v). recordMetric now serviceName metric v) metrics (sh_scaler s)\<rparr>"

definition sh_scale :: "rounding \<Rightarrow> int \<Rightarrow> string \<Rightarrow> 'h SelfHealing \<Rightarrow> 'h SelfHealing \<times> ScalingDecision" where
  "sh_scale fl now serviceName s =
     (let d = sc_evaluate fl now serviceName (sh_scaler s)
      in (if de_action d = no_change then s
          else sh_emit now serviceName (ScalingExecuted (de_action d) (de_currentInstances d) (de_targetInstances d))
                 (s\<lparr>sh_scaler := sc_execute now d (sh_scaler s)\<rparr>), d))"

text \<open>The loop over the metrics; the \<open>k\<close>-th anomaly draws \<open>texts k\<close>.\<close>

fun detect_anomalies ::
  "rounding \<Rightarrow> int \<Rightarrow> (nat \<Rightarrow> string) \<Rightarrow> string \<Rightarrow> (string \<times> real) list \<Rightarrow> 'h SelfHealing \<Rightarrow> 'h SelfHealing \<times> Anomaly list" where
  "detect_anomalies fl now texts serviceName [] s = (s, [])"
| "detect_anomalies fl now texts serviceName ((metric, v) # metrics) s =
     (case ad_analyze fl \<lparr>dw_now = now, dw_text = texts 0\<rparr> serviceName metric v (sh_detector s) of
        (ad, an) \<Rightarrow>
          (let s1 = s\<lparr>sh_detector := ad\<rparr>;
               s2 = (case an of
                       None \<Rightarrow> s1
                     | Some a \<Rightarrow> sh_emit now serviceName (AnomalyDetected (ay_id a) (ay_type a) (ay_severity a) metric) s1)
           in case detect_anomalies fl now (\<lambda>k. texts (Suc k)) serviceName metrics s2 of
                (s3, as) \<Rightarrow> (s3, case an of None \<Rightarrow> as | Some a \<Rightarrow> a # as)))"

definition sh_check_failover :: "int \<Rightarrow> string \<Rightarrow> 'h SelfHealing \<Rightarrow> 'h SelfHealing \<times> FailoverState option" where
  "sh_check_failover now serviceName s =
     (case checkFailover now serviceName (sh_failover s) of
        (f, st) \<Rightarrow>
          (let s1 = s\<lparr>sh_failover := f\<rparr>
           in (case st of
                 Some x \<Rightarrow>
                   if ft_status x = fs_failover \<or> ft_status x = fs_degraded
                   then sh_emit now serviceName (FailoverTriggered (ft_activeInstance x) (ft_status x)) s1 else s1
               | None \<Rightarrow> s1, st)))"

record healing_result =
  hr_scalingDecision :: ScalingDecision
  hr_anomalies :: "Anomaly list"
  hr_failoverState :: "FailoverState option"
  hr_recoveryTriggered :: bool

definition processMetrics ::
  "rounding \<Rightarrow> int \<Rightarrow> (nat \<Rightarrow> string) \<Rightarrow> string \<Rightarrow> (string \<times> real) list \<Rightarrow> 'h SelfHealing \<Rightarrow> 'h SelfHealing \<times> healing_result" where
  "processMetrics fl now texts serviceName metrics s =
     (case sh_scale fl now serviceName (record_metrics now serviceName metrics s) of
        (s1, d) \<Rightarrow>
          (case detect_anomalies fl now texts serviceName metrics s1 of
             (s2, as) \<Rightarrow>
               (case sh_check_failover now serviceName s2 of
                  (s3, st) \<Rightarrow>
                    (let criticals = filter (\<lambda>a. ay_severity a = sev_critical) as
                     in case (if criticals \<noteq> [] then triggerRecovery now serviceName criticals s3 else (s3, False)) of
                          (s4, triggered) \<Rightarrow>
                            (s4, \<lparr>hr_scalingDecision = d, hr_anomalies = as, hr_failoverState = st,
                                  hr_recoveryTriggered = triggered\<rparr>)))))"

record service_health =
  sl_name :: string
  sl_trend :: HealthTrend
  sl_instances :: int
  sl_anomalies :: nat

record health_overview =
  ho_services :: "service_health list"
  ho_totalAnomalies :: nat
  ho_failoverCount :: nat
  ho_recoveryCount :: nat

text \<open>The elements of a \<open>Set\<close> in the order in which they were added.\<close>

definition remdups_first :: "'a list \<Rightarrow> 'a list" where
  "remdups_first xs = rev (remdups (rev xs))"

definition getHealthOverview :: "'h SelfHealing \<Rightarrow> health_overview" where
  "getHealthOverview s =
     (let names = remdups_first (map ay_serviceName (getActiveAnomalies None (sh_detector s)) @
                                 map ft_serviceName (jm_values (fv_states (sh_failover s))))
      in \<lparr>ho_services = map (\<lambda>n. \<lparr>sl_name = n, sl_trend = getHealthTrend n (sh_detector s),
                                  sl_instances = getInstanceCount n (sh_scaler s),
                                  sl_anomalies = length (getActiveAnomalies (Some n) (sh_detector s))\<rparr>) names,
          ho_totalAnomalies = length (getActiveAnomalies None (sh_detector s)),
          ho_failoverCount = length (filter (\<lambda>st. ft_status st = fs_failover) (jm_values (fv_states (sh_failover s)))),
          ho_recoveryCount = length (sh_recoveryHistory s)\<rparr>)"

definition getRecoveryHistory :: "string option \<Rightarrow> int \<Rightarrow> 'h SelfHealing \<Rightarrow> recovery_entry list" where
  "getRecoveryHistory serviceName limit s =
     (let history = (if str_truthy serviceName then filter (\<lambda>h. Some (re_serviceName h) = serviceName) (sh_recoveryHistory s)
                     else sh_recoveryHistory s)
      in js_slice 0 limit (sort_key (\<lambda>h. - re_timestamp h) history))"

end
