(* ===== verification/SelfHealingProps.thy ===== *)
theory SelfHealingProps
  imports SelfHealing
begin

text \<open>
  Properties of the self-healing system: how far a value can stand out from the few values of a young history (in exact
  arithmetic, and as computed),
  what the failover states can be and where they get stuck, by how much one decision scales a service, and what a
  recovery does.
\<close>

section \<open>Statistics\<close>

text \<open>Exact arithmetic is the rounding \<^const>\<open>id\<close>.\<close>

lemma fl_sum_snoc [simp]: "fl_sum fl (xs @ [x]) = fl (fl_sum fl xs + x)"
  by (simp add: fl_sum_def)

lemma fl_sum_id [simp]: "fl_sum id xs = sum_list xs"
  by (induction xs rule: rev_induct) (simp_all add: fl_sum_def)

lemma square_sum_le: "(sum_list ds)\<^sup>2 \<le> of_nat (length ds) * sum_list (map (\<lambda>d. d\<^sup>2) ds)" for ds :: "real list"
proof (induction ds)
  case Nil
  show ?case by simp
next
  case (Cons a ds)
  define k :: real where "k = of_nat (length ds)"
  define S where "S = sum_list ds"
  define Q where "Q = sum_list (map (\<lambda>d. d\<^sup>2) ds)"
  have le: "S\<^sup>2 \<le> k * Q" and k: "0 \<le> k" using Cons.IH by (simp_all add: k_def S_def Q_def)
  have "2 * a * S \<le> k * a\<^sup>2 + Q"
  proof (cases "ds = []")
    case True
    then show ?thesis by (simp add: k_def S_def Q_def)
  next
    case False
    then have pos: "0 < k" by (simp add: k_def)
    have "0 \<le> (k * a - S)\<^sup>2" by simp
    then have "k * (2 * a * S) \<le> k * (k * a\<^sup>2) + S\<^sup>2" by (simp add: power2_eq_square algebra_simps)
    also have "\<dots> \<le> k * (k * a\<^sup>2 + Q)" using le by (simp add: algebra_simps)
    finally show ?thesis using pos by simp
  qed
  then show ?case using le by (simp add: k_def S_def Q_def power2_eq_square algebra_simps)
qed

lemma deviations_cancel: "h \<noteq> [] \<Longrightarrow> sum_list (map (\<lambda>v. v - mean_of id h) h) = 0"
  by (simp add: sum_list_subtractf sum_list_triv mean_of_def)

lemma sum_list_remove1: "x \<in> set xs \<Longrightarrow> sum_list (map f xs) = f x + sum_list (map f (remove1 x xs))"
  for f :: "'a \<Rightarrow> real"
  by (induction xs) auto

lemma deviation_bound:
  assumes "v \<in> set h"
  shows "(v - mean_of id h)\<^sup>2 \<le> (of_nat (length h) - 1) * variance_of id h"
proof -
  define n :: real where "n = of_nat (length h)"
  define f where "f = (\<lambda>x. x - mean_of id h)"
  define r where "r = remove1 v h"
  have ne: "h \<noteq> []" using assms by auto
  then have n: "0 < n" by (simp add: n_def)
  have len: "of_nat (length r) = n - 1"
    using assms ne by (simp add: r_def n_def length_remove1 of_nat_diff Suc_leI)
  have zero: "f v + sum_list (map f r) = 0"
    using deviations_cancel [OF ne] sum_list_remove1 [OF assms, of f] by (simp add: f_def r_def)
  have sq: "sum_list (map (\<lambda>x. (f x)\<^sup>2) h) = (f v)\<^sup>2 + sum_list (map (\<lambda>x. (f x)\<^sup>2) r)"
    using sum_list_remove1 [OF assms, of "\<lambda>x. (f x)\<^sup>2"] by (simp add: r_def)
  have var: "n * variance_of id h = sum_list (map (\<lambda>x. (f x)\<^sup>2) h)"
    using n by (simp add: variance_of_def n_def f_def)
  have "sum_list (map f r) = - f v" using zero by simp
  then have "(f v)\<^sup>2 \<le> (n - 1) * sum_list (map (\<lambda>x. (f x)\<^sup>2) r)"
    using square_sum_le [of "map f r"] by (simp add: len o_def)
  then have "n * (f v)\<^sup>2 \<le> n * ((n - 1) * variance_of id h)"
    using sq var by (simp add: algebra_simps)
  then show ?thesis using n by (simp add: f_def n_def)
qed

lemma variance_nonneg: "0 \<le> variance_of id h"
  unfolding variance_of_def id_apply fl_sum_id by (intro divide_nonneg_nonneg sum_list_nonneg) auto

lemma zScore_bound:
  assumes "v \<in> set h"
  shows "(zScore id h v)\<^sup>2 \<le> of_nat (length h) - 1"
proof (cases "sqrt (variance_of id h) > 0")
  case True
  then have pos: "0 < variance_of id h" by simp
  then have "(zScore id h v)\<^sup>2 = (v - mean_of id h)\<^sup>2 / variance_of id h"
    by (simp add: zScore_def power_divide)
  then show ?thesis using deviation_bound [OF assms] pos by (simp add: divide_le_eq)
next
  case False
  then have "zScore id h v = 0" by (simp add: zScore_def Let_def)
  moreover have "1 \<le> length h" using assms by (cases h) auto
  ultimately show ?thesis by simp
qed

lemma zScore_small: "v \<in> set h \<Longrightarrow> length h \<le> Suc (k * k) \<Longrightarrow> \<bar>zScore id h v\<bar> \<le> of_nat k"
proof -
  assume v: "v \<in> set h" and l: "length h \<le> Suc (k * k)"
  have "real (length h) - 1 \<le> real (k * k)" using l by linarith
  then have "(zScore id h v)\<^sup>2 \<le> (of_nat k)\<^sup>2" using zScore_bound [OF v] by (simp add: power2_eq_square)
  then show ?thesis using abs_le_square_iff [of "zScore id h v" "of_nat k"] by simp
qed

lemma judge_scored:
  assumes "judge fl d s m None h v = Some an"
  shows "ay_type an = an_trend \<and> ay_severity an = sev_medium \<or>
         ay_type an \<in> {an_spike, an_drop} \<and> ay_deviation an = \<bar>zScore fl h v\<bar> \<and> 3 < ay_deviation an \<and>
         ay_severity an = (if 4 < ay_deviation an then sev_critical else sev_high)"
  using assms by (auto simp: judge_def createAnomaly_def Let_def split: if_splits)

text \<open>
  A value is measured against a mean and a deviation that include the value itself. In exact arithmetic and without thresholds, the
  deviation of a spike or drop can therefore not exceed the root of the number of earlier values: nothing is a
  spike among the first ten values and nothing is critical among the first seventeen, however large it is.
\<close>
theorem young_history_quiet:
  assumes "snd (ad_analyze id d s m v a) = Some an"
    and "jm_get (ad_thresholds a) (metric_key s m) = None"
    and "n = length (dflt (jm_get (ad_metricHistory a) (metric_key s m)) [])"
  shows "(ay_type an \<in> {an_spike, an_drop} \<longrightarrow> 3 < ay_deviation an \<and> (ay_deviation an)\<^sup>2 \<le> n) \<and>
         (n < 10 \<longrightarrow> ay_type an = an_trend) \<and> (n < 17 \<longrightarrow> ay_severity an \<noteq> sev_critical)"
proof -
  define h where "h = dflt (jm_get (ad_metricHistory a) (metric_key s m)) [] @ [v]"
  have v: "v \<in> set h" and len: "length h = Suc n" by (simp_all add: h_def assms(3))
  have "judge id d s m None h v = Some an"
    using assms(1,2) by (auto simp: ad_analyze_def h_def Let_def split: if_splits option.splits)
  note scored = judge_scored [OF this]
  have dev: "(zScore id h v)\<^sup>2 \<le> n" using zScore_bound [OF v] by (simp add: len)
  have ten: "\<bar>zScore id h v\<bar> \<le> 3" if "n < 10" using zScore_small [OF v, of 3] that by (simp add: len)
  have seventeen: "\<bar>zScore id h v\<bar> \<le> 4" if "n < 17" using zScore_small [OF v, of 4] that by (simp add: len)
  show ?thesis using scored dev ten seventeen by (auto split: if_splits)
qed

definition nine_tens :: AnomalyDetector where
  "nine_tens = new_AnomalyDetector\<lparr>ad_metricHistory := [(''api:cpu'', [10, 10, 10, 10, 10, 10, 10, 10, 10])]\<rparr>"

lemma nine_tens_scores: "mean_of id ([10, 10, 10, 10, 10, 10, 10, 10, 10, 100]) = 19" "variance_of id ([10, 10, 10, 10, 10, 10, 10, 10, 10, 100]) = 27\<^sup>2"
  by (simp_all add: mean_of_def variance_of_def eval_nat_numeral)

lemma young_history_quiet_witness:
  "\<exists>an. snd (ad_analyze id \<lparr>dw_now = 1, dw_text = ''x''\<rparr> ''api'' ''cpu'' 100 nine_tens) = Some an \<and> ay_type an = an_trend"
proof -
  let ?j = "judge id \<lparr>dw_now = 1, dw_text = ''x''\<rparr> ''api'' ''cpu'' None ([10, 10, 10, 10, 10, 10, 10, 10, 10, 100]) 100"
  have "zScore id ([10, 10, 10, 10, 10, 10, 10, 10, 10, 100]) 100 = 3"
    by (simp add: zScore_def nine_tens_scores Let_def)
  then obtain an where j: "?j = Some an"
    by (auto simp: judge_def nine_tens_scores Let_def slice_last_def every_step_def upt_rec numeral_nat)
  have an: "snd (ad_analyze id \<lparr>dw_now = 1, dw_text = ''x''\<rparr> ''api'' ''cpu'' 100 nine_tens) = Some an"
    using j by (simp add: ad_analyze_def nine_tens_def new_AnomalyDetector_def metric_key_def jm_get_def dflt_def Let_def)
  show ?thesis using an young_history_quiet [OF an, of 9]
    by (simp add: nine_tens_def new_AnomalyDetector_def metric_key_def jm_get_def dflt_def)
qed

section \<open>Failover\<close>

datatype fv_op =
    Configure FailoverConfig
  | UpdateHealth string real
  | CheckFailover int string
  | ForceFailover int string string

primrec fv_step :: "fv_op \<Rightarrow> FailoverManager \<Rightarrow> FailoverManager" where
  "fv_step (Configure c) f = fv_configure c f"
| "fv_step (UpdateHealth i x) f = updateHealth i x f"
| "fv_step (CheckFailover now n) f = fst (checkFailover now n f)"
| "fv_step (ForceFailover now n i) f = fst (forceFailover now n i f)"

text \<open>What a state may be under its configuration.\<close>

definition state_fits :: "FailoverConfig \<Rightarrow> FailoverState \<Rightarrow> bool" where
  "state_fits c st =
     (case ft_status st of
        fs_normal \<Rightarrow> ft_activeInstance st = fo_primaryInstance c
      | fs_degraded \<Rightarrow> ft_activeInstance st = fo_primaryInstance c
      | fs_failover \<Rightarrow> ft_activeInstance st \<in> set (fo_secondaryInstances c)
      | fs_failback \<Rightarrow> False)"

definition failover_ok :: "FailoverManager \<Rightarrow> bool" where
  "failover_ok f =
     (\<forall>n. case (jm_get (fv_configs f) n, jm_get (fv_states f) n) of
            (None, None) \<Rightarrow> True
          | (Some c, Some st) \<Rightarrow> state_fits c st
          | _ \<Rightarrow> False)"

lemma best_secondary_listed:
  "fold (\<lambda>s (best, h). let x = dflt (jm_get scores s) 0 in if x > h then (Some s, x) else (best, h)) ss (b, h) = (Some i, y)
     \<Longrightarrow> i \<in> set ss \<or> b = Some i"
  by (induction ss arbitrary: b h) (auto simp: Let_def split: if_splits)

lemma failover_step_fits: "state_fits c st \<Longrightarrow> state_fits c (failover_step now c scores st)"
  using best_secondary_listed [of scores "fo_secondaryInstances c" None 0]
  by (auto simp: failover_step_def state_fits_def best_secondary_def str_truthy_def dflt_def Let_def
           split: prod.splits failover_status.splits option.splits)

lemma failback_step_fits: "state_fits c st \<Longrightarrow> state_fits c (failback_step now c scores st)"
  by (auto simp: failback_step_def state_fits_def split: failover_status.splits)

lemma failover_okI:
  "(\<And>n. case (jm_get (fv_configs f) n, jm_get (fv_states f) n) of
            (None, None) \<Rightarrow> True | (Some c, Some st) \<Rightarrow> state_fits c st | _ \<Rightarrow> False) \<Longrightarrow> failover_ok f"
  by (simp add: failover_ok_def)

lemma failover_okD: "failover_ok f \<Longrightarrow> jm_get (fv_configs f) n = Some c \<Longrightarrow> jm_get (fv_states f) n = Some st \<Longrightarrow> state_fits c st"
  unfolding failover_ok_def by (drule spec [of _ n]) simp

lemma failover_ok_update:
  assumes "failover_ok f" and "jm_get (fv_configs f) n = Some c" and "state_fits c st"
  shows "failover_ok (f\<lparr>fv_states := jm_set n st (fv_states f)\<rparr>)"
  using assms by (auto simp: failover_ok_def jm_get_set)

lemma fv_step_ok: "failover_ok f \<Longrightarrow> failover_ok (fv_step op f)"
proof (cases op)
  case (Configure c)
  assume ok: "failover_ok f"
  have "state_fits c \<lparr>ft_serviceName = fo_serviceName c, ft_activeInstance = fo_primaryInstance c, ft_failoverCount = 0,
          ft_lastFailoverAt = 0, ft_lastFailbackAt = 0, ft_status = fs_normal\<rparr>"
    by (simp add: state_fits_def)
  then show ?thesis using ok by (auto simp: Configure fv_configure_def failover_ok_def jm_get_set)
next
  case (UpdateHealth i x)
  assume "failover_ok f"
  then show ?thesis by (simp add: UpdateHealth updateHealth_def failover_ok_def)
next
  case (CheckFailover now n)
  assume ok: "failover_ok f"
  show ?thesis
  proof (cases "jm_get (fv_configs f) n = None \<or> jm_get (fv_states f) n = None")
    case True
    then show ?thesis using ok by (auto simp: CheckFailover checkFailover_def split: option.splits)
  next
    case False
    then obtain c st where cs: "jm_get (fv_configs f) n = Some c" "jm_get (fv_states f) n = Some st" by auto
    show ?thesis
      using failover_ok_update [OF ok cs(1) failback_step_fits [OF failover_step_fits [OF failover_okD [OF ok cs]]]]
      by (simp add: CheckFailover checkFailover_def cs Let_def)
  qed
next
  case (ForceFailover now n i)
  assume ok: "failover_ok f"
  show ?thesis
    using ok by (auto simp: ForceFailover forceFailover_def state_fits_def split: option.splits intro: failover_ok_update)
qed

definition fv_run :: "fv_op list \<Rightarrow> FailoverManager \<Rightarrow> FailoverManager" where
  "fv_run ops = fold fv_step ops"

lemma fv_run_ok: "failover_ok f \<Longrightarrow> failover_ok (fv_run ops f)"
  unfolding fv_run_def by (induction ops arbitrary: f) (simp_all add: fv_step_ok)

lemma new_failover_ok: "failover_ok new_FailoverManager"
  by (simp add: failover_ok_def new_FailoverManager_def jm_get_def)

text \<open>
  Through every history of operations, each configured service has a state that fits its configuration: the
  primary serves while the state is normal or degraded, one of the secondaries during a failover, and the status
  \<open>failback\<close> is never taken.
\<close>
theorem failover_states_fit: "failover_ok (fv_run ops new_FailoverManager)"
  by (rule fv_run_ok [OF new_failover_ok])

section \<open>Dead ends\<close>

primrec leaves_alone :: "string \<Rightarrow> fv_op \<Rightarrow> bool" where
  "leaves_alone n (Configure c) = (fo_serviceName c \<noteq> n)"
| "leaves_alone n (UpdateHealth i x) = True"
| "leaves_alone n (CheckFailover now m) = True"
| "leaves_alone n (ForceFailover now m i) = (m \<noteq> n)"

definition is_stuck :: "FailoverConfig \<Rightarrow> FailoverState \<Rightarrow> bool" where
  "is_stuck c st \<longleftrightarrow> ft_status st = fs_degraded \<or> ft_status st = fs_failover \<and> \<not> fo_failbackEnabled c"

lemma stuck_steps: "is_stuck c st \<Longrightarrow> failback_step now c scores (failover_step now c scores st) = st"
  by (auto simp: is_stuck_def failover_step_def failback_step_def Let_def)

lemma fv_step_stuck:
  assumes "is_stuck c st" and "leaves_alone n op"
    and "jm_get (fv_configs f) n = Some c" and "jm_get (fv_states f) n = Some st"
  shows "jm_get (fv_configs (fv_step op f)) n = Some c \<and> jm_get (fv_states (fv_step op f)) n = Some st"
  using assms
  by (cases op)
     (auto simp: fv_configure_def updateHealth_def checkFailover_def forceFailover_def jm_get_set stuck_steps Let_def
           split: option.splits)

lemma fv_run_stuck:
  assumes "is_stuck c st" and "list_all (leaves_alone n) ops"
    and "jm_get (fv_configs f) n = Some c" and "jm_get (fv_states f) n = Some st"
  shows "jm_get (fv_states (fv_run ops f)) n = Some st"
proof -
  have "jm_get (fv_configs (fv_run ops f)) n = Some c \<and> jm_get (fv_states (fv_run ops f)) n = Some st"
    using assms(2-) unfolding fv_run_def
  proof (induction ops arbitrary: f)
    case (Cons op ops)
    then show ?case using fv_step_stuck [OF assms(1), of n op f] by simp
  qed simp
  then show ?thesis by simp
qed

text \<open>
  C38. A service becomes degraded when its primary fails while no secondary is healthy, and then stays degraded:
  neither the recovery of the primary nor that of a secondary changes its state, whatever health is reported and
  however often it is checked. In the same way a failover without failback is final: a secondary that fails in
  its turn keeps serving. Only a new configuration or a forced failover of the service gets it out.
\<close>
theorem failover_dead_end:
  assumes "jm_get (fv_configs f) n = Some c" and "jm_get (fv_states f) n = Some st"
    and "ft_status st = fs_degraded \<or> ft_status st = fs_failover \<and> \<not> fo_failbackEnabled c"
    and "list_all (leaves_alone n) ops"
  shows "jm_get (fv_states (fv_run ops f)) n = Some st"
  using fv_run_stuck [OF _ assms(4,1,2)] assms(3) by (simp add: is_stuck_def)

definition pair_config :: FailoverConfig where
  "pair_config = \<lparr>fo_serviceName = ''db'', fo_mode = hot_standby, fo_primaryInstance = ''a'', fo_secondaryInstances = [''b''],
                  fo_healthCheckIntervalMs = 1000, fo_failoverThreshold = 50, fo_failbackEnabled = True,
                  fo_failbackDelayMs = 0\<rparr>"

definition degraded_pair :: FailoverManager where
  "degraded_pair = fv_run [Configure pair_config, UpdateHealth ''a'' 10, CheckFailover 5 ''db''] new_FailoverManager"

lemma failover_dead_end_witness:
  "map_option ft_status
     (jm_get (fv_states (fv_run [UpdateHealth ''a'' 100, UpdateHealth ''b'' 100, CheckFailover 9 ''db''] degraded_pair)) ''db'')
   = Some fs_degraded"
proof -
  have c: "jm_get (fv_configs degraded_pair) ''db'' = Some pair_config"
    and s: "jm_get (fv_states degraded_pair) ''db'' =
      Some \<lparr>ft_serviceName = ''db'', ft_activeInstance = ''a'', ft_failoverCount = 0, ft_lastFailoverAt = 0,
            ft_lastFailbackAt = 0, ft_status = fs_degraded\<rparr>"
    by (simp_all add: degraded_pair_def fv_run_def pair_config_def new_FailoverManager_def fv_configure_def updateHealth_def
        checkFailover_def failover_step_def failback_step_def best_secondary_def str_truthy_def dflt_def jm_get_def jm_set_def Let_def)
  show ?thesis
    using failover_dead_end [OF c s, of "[UpdateHealth ''a'' 100, UpdateHealth ''b'' 100, CheckFailover 9 ''db'']"] by simp
qed

section \<open>A cold start\<close>

text \<open>In exact arithmetic the bound is met: a single one after \<open>n\<close> zeros has the score \<open>sqrt n\<close>.\<close>

lemma zScore_tight: "0 < n \<Longrightarrow> zScore id (replicate n 0 @ [1]) 1 = sqrt (of_nat n)"
proof -
  assume n: "0 < n"
  let ?m = "of_nat n + 1 :: real"
  have pos: "0 < ?m" by simp
  have mean: "mean_of id (replicate n 0 @ [1]) = 1 / ?m"
    by (simp add: mean_of_def sum_list_replicate)
  have sum: "of_nat n * (1 / ?m)\<^sup>2 + (1 - 1 / ?m)\<^sup>2 = of_nat n / ?m"
  proof -
    have "1 - 1 / ?m = of_nat n / ?m" using pos by (simp add: field_simps)
    then have "of_nat n * (1 / ?m)\<^sup>2 + (1 - 1 / ?m)\<^sup>2 = of_nat n * (1 / ?m)\<^sup>2 + (of_nat n / ?m)\<^sup>2"
      by simp
    also have "\<dots> = (of_nat n + of_nat n * of_nat n) / (?m * ?m)"
      by (simp add: power2_eq_square add_divide_distrib)
    also have "\<dots> = of_nat n * ?m / (?m * ?m)" by (simp add: algebra_simps)
    also have "\<dots> = of_nat n / ?m" using pos by simp
    finally show ?thesis .
  qed
  have var: "variance_of id (replicate n 0 @ [1]) = of_nat n / ?m\<^sup>2"
    using sum by (simp add: variance_of_def mean sum_list_replicate power2_eq_square)
  have dev: "sqrt (of_nat n / ?m\<^sup>2) = sqrt (of_nat n) / ?m"
    using pos by (simp add: real_sqrt_divide)
  have "1 - 1 / ?m = of_nat n / ?m" using pos by (simp add: field_simps)
  then show ?thesis
    using n pos by (simp add: zScore_def var dev mean Let_def real_div_sqrt)
qed

text \<open>
  As computed. A rounding is accurate when every result is off by at most a thousandth of it; double precision keeps
  far closer as long as nothing overflows or underflows. Then the rounded score of the newest of at most fifteen
  values is at most four, because the sum of the squares contains that value's own square, whatever the
  computed mean is.
\<close>

definition accurate :: "rounding \<Rightarrow> bool" where
  "accurate fl \<longleftrightarrow> (\<forall>x. \<bar>fl x - x\<bar> \<le> \<bar>x\<bar> / 1000)"

lemma accurate_nonneg:
  assumes "accurate fl" and "0 \<le> x"
  shows "999 / 1000 * x \<le> fl x" and "fl x \<le> 1001 / 1000 * x"
proof -
  have "\<bar>fl x - x\<bar> \<le> x / 1000" using assms by (auto simp: accurate_def dest!: spec [of _ x])
  then show "999 / 1000 * x \<le> fl x" and "fl x \<le> 1001 / 1000 * x" by linarith+
qed

lemma accurate_abs: "accurate fl \<Longrightarrow> \<bar>fl x\<bar> \<le> 1001 / 1000 * \<bar>x\<bar>"
  unfolding accurate_def by (drule spec [of _ x]) linarith

lemma accurate_keeps_nonneg: "accurate fl \<Longrightarrow> 0 \<le> x \<Longrightarrow> 0 \<le> fl x"
  using accurate_nonneg(1) [of fl x] by linarith

lemma fl_sum_nonneg: "accurate fl \<Longrightarrow> list_all (\<lambda>x. 0 \<le> x) xs \<Longrightarrow> 0 \<le> fl_sum fl xs"
  by (induction xs rule: rev_induct) (simp_all add: fl_sum_def accurate_keeps_nonneg)

text \<open>The computed variance of a history is not much below the newest value's share of it.\<close>

lemma variance_share:
  assumes fl: "accurate fl" and h: "h = h0 @ [v]" and d: "d = fl (v - mean_of fl h)"
  shows "(999 / 1000) ^ 3 * (d ^ 2 / of_nat (length h)) \<le> variance_of fl h"
proof -
  define S0 where "S0 = fl_sum fl (map (\<lambda>x. fl ((fl (x - mean_of fl h)) ^ 2)) h0)"
  define n :: real where "n = of_nat (length h)"
  have n: "0 < n" by (simp add: n_def h)
  have S0: "0 \<le> S0" unfolding S0_def by (rule fl_sum_nonneg [OF fl]) (simp add: list_all_iff accurate_keeps_nonneg [OF fl])
  have q: "999 / 1000 * d\<^sup>2 \<le> fl (d\<^sup>2)" by (rule accurate_nonneg(1) [OF fl]) simp
  then have q0: "0 \<le> fl (d\<^sup>2)" using accurate_keeps_nonneg [OF fl] by simp
  have "999 / 1000 * (S0 + fl (d\<^sup>2)) \<le> fl (S0 + fl (d\<^sup>2))"
    by (rule accurate_nonneg(1) [OF fl]) (use S0 q0 in simp)
  with S0 q have S: "(999 / 1000) ^ 2 * d\<^sup>2 \<le> fl (S0 + fl (d\<^sup>2))" by (simp add: power2_eq_square)
  then have S_n: "(999 / 1000) ^ 2 * d\<^sup>2 / n \<le> fl (S0 + fl (d\<^sup>2)) / n" using n by (simp add: divide_right_mono)
  have "0 \<le> (999 / 1000) ^ 2 * d\<^sup>2 / n" using n by simp
  then have "999 / 1000 * (fl (S0 + fl (d\<^sup>2)) / n) \<le> fl (fl (S0 + fl (d\<^sup>2)) / n)"
    using S_n by (intro accurate_nonneg(1) [OF fl]) linarith
  moreover have "variance_of fl h = fl (fl (S0 + fl (d\<^sup>2)) / n)"
    by (simp add: variance_of_def S0_def n_def d) (simp add: h)
  moreover have "999 / 1000 * ((999 / 1000) ^ 2 * d\<^sup>2 / n) \<le> 999 / 1000 * (fl (S0 + fl (d\<^sup>2)) / n)"
    by (rule mult_left_mono [OF S_n]) simp
  moreover have "(999 / 1000) ^ 3 * (d ^ 2 / n) = 999 / 1000 * ((999 / 1000) ^ 2 * d\<^sup>2 / n)"
    by (simp add: power3_eq_cube power2_eq_square)
  ultimately show ?thesis by (simp add: n_def)
qed

lemma zScore_computed:
  assumes fl: "accurate fl" and h: "h = h0 @ [v]" and len: "length h \<le> 15"
  shows "\<bar>zScore fl h v\<bar> \<le> 4"
proof (cases "0 < fl (sqrt (variance_of fl h))")
  case False
  then show ?thesis by (simp add: zScore_def)
next
  case True
  define d where "d = fl (v - mean_of fl h)"
  define V where "V = variance_of fl h"
  define sd where "sd = fl (sqrt V)"
  have n: "0 < length h" by (simp add: h)
  have "d ^ 2 / 15 \<le> d ^ 2 / of_nat (length h)" using n len by (intro divide_left_mono) simp_all
  then have "(999 / 1000) ^ 3 * (d ^ 2 / 15) \<le> (999 / 1000) ^ 3 * (d ^ 2 / of_nat (length h))"
    by (rule mult_left_mono) simp
  also have "\<dots> \<le> V" unfolding V_def by (rule variance_share [OF fl h d_def])
  finally have V: "(999 / 1000) ^ 3 * (d ^ 2 / 15) \<le> V" .
  then have V0: "0 \<le> V" by (rule order_trans [rotated]) simp
  have sd: "0 < sd" "999 / 1000 * sqrt V \<le> sd"
    using True accurate_nonneg(1) [OF fl, of "sqrt V"] V0 by (simp_all add: sd_def V_def)
  have "(999 / 1000 * sqrt V)\<^sup>2 \<le> sd\<^sup>2" using sd V0 by (intro power_mono) simp_all
  then have "(999 / 1000)\<^sup>2 * V \<le> sd\<^sup>2" unfolding power_mult_distrib using V0 by simp
  moreover have "(1001 / 1000)\<^sup>2 * d\<^sup>2 \<le> 16 * ((999 / 1000)\<^sup>2 * ((999 / 1000) ^ 3 * (d\<^sup>2 / 15)))"
    using zero_le_power2 [of d] by (simp add: power2_eq_square power3_eq_cube)
  moreover have "(999 / 1000)\<^sup>2 * ((999 / 1000) ^ 3 * (d\<^sup>2 / 15)) \<le> (999 / 1000)\<^sup>2 * V"
    by (rule mult_left_mono [OF V]) simp
  ultimately have "(1001 / 1000)\<^sup>2 * d\<^sup>2 \<le> 16 * sd\<^sup>2" by linarith
  then have "(1001 / 1000 * \<bar>d\<bar>)\<^sup>2 \<le> (4 * sd)\<^sup>2" unfolding power_mult_distrib by simp
  moreover have "0 \<le> 4 * sd" using sd(1) by simp
  ultimately have "1001 / 1000 * \<bar>d\<bar> \<le> 4 * sd" by (rule power2_le_imp_le)
  then have "1001 / 1000 * \<bar>d\<bar> / sd \<le> 4" by (simp only: pos_divide_le_eq [OF sd(1)])
  then have "1001 / 1000 * \<bar>d / sd\<bar> \<le> 4" using sd(1) by (simp add: abs_divide)
  moreover have "\<bar>fl (d / sd)\<bar> \<le> 1001 / 1000 * \<bar>d / sd\<bar>" by (rule accurate_abs [OF fl])
  ultimately have "\<bar>fl (d / sd)\<bar> \<le> 4" by linarith
  then show ?thesis using True by (simp add: zScore_def Let_def d_def sd_def V_def)
qed

definition young :: "nat \<Rightarrow> AnomalyDetector \<Rightarrow> bool" where
  "young n a \<longleftrightarrow> ad_thresholds a = [] \<and> (\<forall>k. length (dflt (jm_get (ad_metricHistory a) k) []) \<le> n)"

lemma analyze_young:
  assumes fl: "accurate fl"
    and "snd (ad_analyze fl d s m v a) = Some an" and "jm_get (ad_thresholds a) (metric_key s m) = None"
    and "length (dflt (jm_get (ad_metricHistory a) (metric_key s m)) []) < 15"
  shows "ay_severity an \<noteq> sev_critical"
proof -
  define h where "h = dflt (jm_get (ad_metricHistory a) (metric_key s m)) [] @ [v]"
  have len: "length h \<le> 15" using assms(4) by (simp add: h_def)
  have "judge fl d s m None h v = Some an"
    using assms(2,3) by (auto simp: ad_analyze_def h_def Let_def split: if_splits option.splits)
  then show ?thesis using judge_scored zScore_computed [OF fl h_def len] by (fastforce split: if_splits)
qed

lemma analyze_histories:
  "ad_thresholds (fst (ad_analyze fl d s m v a)) = ad_thresholds a \<and>
   length (dflt (jm_get (ad_metricHistory (fst (ad_analyze fl d s m v a))) k) [])
     \<le> length (dflt (jm_get (ad_metricHistory a) k) []) + (if k = metric_key s m then 1 else 0)"
  by (auto simp: ad_analyze_def slice_last_def dflt_def Let_def split: option.splits)

lemma sh_emit_detector [simp]: "sh_detector (sh_emit now n ev s) = sh_detector s"
  by (simp add: sh_emit_def Let_def)

lemma detect_young:
  assumes fl: "accurate fl" and "distinct (map fst metrics)" and "ad_thresholds (sh_detector s) = []"
    and "\<And>m. m \<in> fst ` set metrics \<Longrightarrow> length (dflt (jm_get (ad_metricHistory (sh_detector s)) (metric_key n m)) []) < 15"
  shows "list_all (\<lambda>a. ay_severity a \<noteq> sev_critical) (snd (detect_anomalies fl now texts n metrics s)) \<and>
         ad_thresholds (sh_detector (fst (detect_anomalies fl now texts n metrics s))) = [] \<and>
         (\<forall>k. length (dflt (jm_get (ad_metricHistory (sh_detector (fst (detect_anomalies fl now texts n metrics s)))) k) [])
              \<le> length (dflt (jm_get (ad_metricHistory (sh_detector s)) k) []) +
                (if k \<in> metric_key n ` fst ` set metrics then 1 else 0))"
  using assms(2-)
proof (induction metrics arbitrary: s texts)
  case Nil
  then show ?case by simp
next
  case (Cons mv metrics)
  obtain m v where mv: "mv = (m, v)" by (cases mv)
  obtain ad an where ana: "ad_analyze fl \<lparr>dw_now = now, dw_text = texts 0\<rparr> n m v (sh_detector s) = (ad, an)" (is "?A = _")
    by (cases ?A)
  let ?s = "case an of None \<Rightarrow> s\<lparr>sh_detector := ad\<rparr>
    | Some a \<Rightarrow> sh_emit now n (AnomalyDetected (ay_id a) (ay_type a) (ay_severity a) m) (s\<lparr>sh_detector := ad\<rparr>)"
  have det: "sh_detector ?s = ad" by (simp split: option.split)
  have grow: "ad_thresholds ad = []"
    "length (dflt (jm_get (ad_metricHistory ad) k) [])
       \<le> length (dflt (jm_get (ad_metricHistory (sh_detector s)) k) []) + (if k = metric_key n m then 1 else 0)" for k
    using analyze_histories [of fl "\<lparr>dw_now = now, dw_text = texts 0\<rparr>" n m v "sh_detector s" k] Cons.prems(2)
    by (simp_all add: ana)
  have calm: "ay_severity a \<noteq> sev_critical" if "an = Some a" for a
    using analyze_young [OF fl, of "\<lparr>dw_now = now, dw_text = texts 0\<rparr>" n m v "sh_detector s" a] Cons.prems(2) Cons.prems(3) [of m] that ana
    by (simp add: mv jm_get_def)
  have inj: "metric_key n m' = metric_key n m'' \<longleftrightarrow> m' = m''" for m' m'' by (simp add: metric_key_def)
  have fresh: "m' \<noteq> m" if "m' \<in> fst ` set metrics" for m' using Cons.prems(1) that by (auto simp: mv)
  have hist: "length (dflt (jm_get (ad_metricHistory ad) (metric_key n m')) []) < 15" if "m' \<in> fst ` set metrics" for m'
    using grow(2) [of "metric_key n m'"] Cons.prems(3) [of m'] fresh [OF that] that by (simp add: inj)
  have IH: "list_all (\<lambda>a. ay_severity a \<noteq> sev_critical) (snd (detect_anomalies fl now (\<lambda>k. texts (Suc k)) n metrics ?s)) \<and>
         ad_thresholds (sh_detector (fst (detect_anomalies fl now (\<lambda>k. texts (Suc k)) n metrics ?s))) = [] \<and>
         (\<forall>k. length (dflt (jm_get (ad_metricHistory (sh_detector (fst (detect_anomalies fl now (\<lambda>k. texts (Suc k)) n metrics ?s)))) k) [])
              \<le> length (dflt (jm_get (ad_metricHistory (sh_detector ?s)) k) []) +
                (if k \<in> metric_key n ` fst ` set metrics then 1 else 0))"
    using Cons.prems(1) by (intro Cons.IH) (simp_all add: mv det grow(1) hist)
  obtain s3 as where rest: "detect_anomalies fl now (\<lambda>k. texts (Suc k)) n metrics ?s = (s3, as)"
    by (cases "detect_anomalies fl now (\<lambda>k. texts (Suc k)) n metrics ?s")
  have eq: "detect_anomalies fl now texts n (mv # metrics) s = (s3, case an of None \<Rightarrow> as | Some a \<Rightarrow> a # as)"
    using rest by (simp add: mv ana Let_def)
  have notin: "metric_key n m \<notin> metric_key n ` fst ` set metrics" using fresh [of m] by (auto simp: inj image_iff)
  have le: "length (dflt (jm_get (ad_metricHistory (sh_detector s3)) k) [])
      \<le> length (dflt (jm_get (ad_metricHistory (sh_detector s)) k) []) +
        (if k \<in> metric_key n ` fst ` set (mv # metrics) then 1 else 0)" for k
    using IH grow(2) [of k] notin unfolding rest det
    by (auto simp: mv dest!: spec [of _ k] split: if_splits)
  show ?case
    using IH calm le unfolding rest eq by (auto split: option.splits)
qed

type_synonym metrics_call = "int \<times> (nat \<Rightarrow> string) \<times> string \<times> (string \<times> real) list"

primrec process_all :: "rounding \<Rightarrow> metrics_call list \<Rightarrow> 'h SelfHealing \<Rightarrow> healing_result list" where
  "process_all fl [] s = []"
| "process_all fl (c # cs) s =
     (case c of (now, texts, n, metrics) \<Rightarrow>
       (case processMetrics fl now texts n metrics s of (s1, r) \<Rightarrow> r # process_all fl cs s1))"

lemma process_young:
  assumes fl: "accurate fl" and "young k (sh_detector s)" and "k < 15" and "distinct (map fst metrics)"
  shows "\<not> hr_recoveryTriggered (snd (processMetrics fl now texts n metrics s)) \<and>
         young (Suc k) (sh_detector (fst (processMetrics fl now texts n metrics s)))"
proof -
  obtain s1 d where sc: "sh_scale fl now n (record_metrics now n metrics s) = (s1, d)" (is "?S = _") by (cases ?S)
  have det1: "sh_detector s1 = sh_detector s"
    using arg_cong [OF sc, of "\<lambda>p. sh_detector (fst p)"] by (simp add: sh_scale_def record_metrics_def Let_def split: if_splits)
  obtain s2 as where de: "detect_anomalies fl now texts n metrics s1 = (s2, as)" (is "?D = _") by (cases ?D)
  obtain s3 st where fo: "sh_check_failover now n s2 = (s3, st)" (is "?F = _") by (cases ?F)
  have det3: "sh_detector s3 = sh_detector s2"
    using arg_cong [OF fo, of "\<lambda>p. sh_detector (fst p)"]
    by (simp add: sh_check_failover_def Let_def split: prod.splits option.splits if_splits)
  have len: "length (dflt (jm_get (ad_metricHistory (sh_detector s)) key) []) \<le> k" for key
    using assms(2) by (simp add: young_def)
  have calm: "list_all (\<lambda>a. ay_severity a \<noteq> sev_critical) as" and thr: "ad_thresholds (sh_detector s2) = []"
    and grow: "length (dflt (jm_get (ad_metricHistory (sh_detector s2)) key) []) \<le> k + 1" for key
    using detect_young [OF fl, of metrics s1 n now texts] assms(2-4) len [of key] le_less_trans [OF len assms(3)]
    by (auto simp: de det1 young_def dest!: spec [of _ key] split: if_splits)
  have none: "filter (\<lambda>a. ay_severity a = sev_critical) as = []"
    using calm by (simp add: filter_empty_conv list_all_iff)
  show ?thesis
    using thr grow by (simp add: processMetrics_def sc de fo none young_def det3)
qed

lemma process_all_young:
  assumes fl: "accurate fl" and "young k (sh_detector s)" and "k + length calls \<le> 15"
    and "list_all (\<lambda>(now, texts, n, metrics). distinct (map fst metrics)) calls"
  shows "list_all (\<lambda>r. \<not> hr_recoveryTriggered r) (process_all fl calls s)"
  using assms(2-)
proof (induction calls arbitrary: k s)
  case (Cons c calls)
  obtain now texts n metrics where c: "c = (now, texts, n, metrics)" by (cases c)
  obtain s1 r where pm: "processMetrics fl now texts n metrics s = (s1, r)" (is "?P = _") by (cases ?P)
  have "\<not> hr_recoveryTriggered r" "young (Suc k) (sh_detector s1)"
    using process_young [OF fl Cons.prems(1), of metrics now texts n] Cons.prems(2,3) by (simp_all add: c pm)
  then show ?case using Cons.IH [of "Suc k" s1] Cons.prems(2,3) by (simp add: c pm)
qed simp

text \<open>
  C37. While no thresholds are set, no recovery is triggered by the first fifteen calls, whatever the metrics of the
  services are (each metric reported once per call), in every arithmetic whose results are off by at most a
  thousandth, as doubles are while nothing overflows or underflows: the score of a value is taken over a history
  that includes it, which keeps it at four or below, and critical needs more.
\<close>

theorem cold_start_no_recovery:
  assumes "accurate fl" and "sh_detector s = new_AnomalyDetector" and "length calls \<le> 15"
    and "list_all (\<lambda>(now, texts, n, metrics). distinct (map fst metrics)) calls"
  shows "list_all (\<lambda>r. \<not> hr_recoveryTriggered r) (process_all fl calls s)"
  using process_all_young [of fl 0 s calls] assms by (simp add: young_def new_AnomalyDetector_def jm_get_def dflt_def)

text \<open>Rounding to 53 significant bits, the doubles with an unbounded exponent.\<close>

definition to_double :: rounding where
  "to_double x = (let s = 2 powr of_int (52 - \<lfloor>log 2 \<bar>x\<bar>\<rfloor>) in of_int (round (x * s)) / s)"

lemma to_double_accurate: "accurate to_double"
  unfolding accurate_def
proof
  fix x :: real
  show "\<bar>to_double x - x\<bar> \<le> \<bar>x\<bar> / 1000"
  proof (cases "x = 0")
    case True
    then show ?thesis by (simp add: to_double_def Let_def)
  next
    case False
    define e where "e = \<lfloor>log 2 \<bar>x\<bar>\<rfloor>"
    define s :: real where "s = 2 powr of_int (52 - e)"
    have s: "0 < s" by (simp add: s_def)
    have "2 powr of_int e \<le> 2 powr (log 2 \<bar>x\<bar>)" unfolding e_def by (rule powr_mono) simp_all
    then have "2 powr of_int e \<le> \<bar>x\<bar>" using False by simp
    then have "2 powr of_int e * s \<le> \<bar>x\<bar> * s" using s by (intro mult_right_mono) simp_all
    then have big: "2 powr 52 \<le> \<bar>x\<bar> * s" by (simp add: s_def powr_add [symmetric])
    have "\<bar>of_int (round (x * s)) - x * s\<bar> \<le> 1 / 2" by (rule of_int_round_abs_le)
    also have "\<dots> \<le> \<bar>x\<bar> * s / 1000" using big by simp
    finally have "\<bar>of_int (round (x * s)) - x * s\<bar> / s \<le> \<bar>x\<bar> / 1000" using s by (simp add: divide_le_eq)
    moreover have "of_int (round (x * s)) / s - x = (of_int (round (x * s)) - x * s) / s"
      using s by (simp add: diff_divide_distrib)
    ultimately have "\<bar>of_int (round (x * s)) / s - x\<bar> \<le> \<bar>x\<bar> / 1000" using s by (simp add: abs_divide)
    then show ?thesis unfolding to_double_def Let_def e_def [symmetric] s_def [symmetric] .
  qed
qed

theorem cold_start_no_recovery_witness:
  "list_all (\<lambda>r. \<not> hr_recoveryTriggered r)
     (process_all to_double (replicate 14 (1, \<lambda>k. ''x'', ''api'', [(''cpu'', 0)]) @ [(2, \<lambda>k. ''y'', ''api'', [(''cpu'', 1000000), (''memory'', 7)])])
        (new_SelfHealing :: nat SelfHealing))"
  by (rule cold_start_no_recovery [OF to_double_accurate]) (simp_all add: new_SelfHealing_def list_all_length nth_append)

section \<open>Scaling\<close>

lemma getScheduledTarget_from:
  "getScheduledTarget now p = Some t \<Longrightarrow> \<exists>pat \<in> set (po_schedulePatterns p). pa_targetInstances pat = t"
  by (auto simp: getScheduledTarget_def find_Some_iff)

lemma evaluate_cases:
  assumes p: "jm_get (sc_policies s) n = Some p"
    and cur: "num_or (jm_get (sc_currentInstances s) n) (po_minInstances p) = cur"
    and cool: "in_cooldown now p (jm_get (sc_lastScaleAction s) n) = cool"
    and same: "\<And>r c l. r \<noteq> ScheduleBased \<Longrightarrow> P (createDecision now n no_change cur cur r c l)"
    and scheduled: "\<And>t c l. \<not> cool \<Longrightarrow> getScheduledTarget now p = Some t \<Longrightarrow> t \<noteq> cur \<Longrightarrow>
      P (createDecision now n (if t > cur then scale_up else scale_down) cur t ScheduleBased c l)"
    and up: "\<And>r c l. \<not> cool \<Longrightarrow> r \<noteq> ScheduleBased \<Longrightarrow> cur < po_maxInstances p \<Longrightarrow>
      P (createDecision now n scale_up cur (min (cur + 1) (po_maxInstances p)) r c l)"
    and down: "\<And>r c l. \<not> cool \<Longrightarrow> r \<noteq> ScheduleBased \<Longrightarrow> po_minInstances p < cur \<Longrightarrow>
      P (createDecision now n scale_down cur (max (cur - 1) (po_minInstances p)) r c l)"
  shows "P (sc_evaluate fl now n s)"
proof -
  have sched: "P (createDecision now n (if dflt t 0 > cur then scale_up else scale_down) cur (dflt t 0) ScheduleBased c l)"
    if "\<not> cool" "t \<noteq> None \<and> t \<noteq> Some cur" "getScheduledTarget now p = t" for t c l
    using that scheduled by (cases t) (simp_all add: dflt_def)
  show ?thesis
    unfolding sc_evaluate_def p option.case Let_def cur cool if_distrib [of P] if_bool_eq_conj
  proof (intro conjI impI)
    show "P (createDecision now n no_change cur cur InCooldown (1 / 2) c)" for c by (rule same) simp
    show "P (createDecision now n no_change cur cur WithinRange (9 / 10) c)" for c by (rule same) simp
  qed (rule sched up down; simp)+
qed

text \<open>
  A decision never moves a service by more than one instance nor out of the limits of its policy, except to the
  target of a schedule pattern, which is taken as it is. During the cooldown there is no change.
\<close>
theorem decision_bounded:
  assumes "jm_get (sc_policies s) n = Some p" and "d = sc_evaluate fl now n s"
    and "po_minInstances p \<le> de_currentInstances d" and "de_currentInstances d \<le> po_maxInstances p"
  shows "(if de_reason d = ScheduleBased
          then \<exists>pat \<in> set (po_schedulePatterns p). pa_targetInstances pat = de_targetInstances d
          else po_minInstances p \<le> de_targetInstances d \<and> de_targetInstances d \<le> po_maxInstances p \<and>
               \<bar>de_targetInstances d - de_currentInstances d\<bar> \<le> 1) \<and>
         (de_action d = scale_up \<longleftrightarrow> de_targetInstances d > de_currentInstances d) \<and>
         (de_action d = scale_down \<longleftrightarrow> de_targetInstances d < de_currentInstances d) \<and>
         (in_cooldown now p (jm_get (sc_lastScaleAction s) n) \<longrightarrow> de_action d = no_change)"
  using assms(3,4) unfolding assms(2)
  by (induct rule: evaluate_cases [OF assms(1) refl refl])
     (simp_all add: createDecision_def, (fastforce dest: getScheduledTarget_from)?)

text \<open>On samples of an affine load the prediction of exact arithmetic is exact: the load five samples after the window.\<close>

lemma sum_index: "(\<Sum>i\<leftarrow>[0..<n]. real i) = of_nat n * (of_nat n - 1) / 2"
  by (induction n) (simp_all add: field_simps)

lemma sum_index_sq: "(\<Sum>i\<leftarrow>[0..<n]. real i * real i) = of_nat n * (of_nat n - 1) * (2 * of_nat n - 1) / 6"
  by (induction n) (simp_all add: field_simps)

lemma regression_affine:
  assumes "2 \<le> n" and "vs = map (\<lambda>i. a + b * of_nat i) [0..<n]"
  shows "regression id vs = (b, a)"
proof -
  define N :: real where "N = of_nat n"
  define X where "X = (\<Sum>i\<leftarrow>[0..<n]. real i)"
  define Q where "Q = (\<Sum>i\<leftarrow>[0..<n]. real i * real i)"
  have N: "2 \<le> N" using assms(1) by (simp add: N_def)
  have len: "length vs = n" by (simp add: assms(2))
  have at: "map (\<lambda>i. f i (vs ! i)) [0..<n] = map (\<lambda>i. f i (a + b * of_nat i)) [0..<n]" for f :: "nat \<Rightarrow> real \<Rightarrow> real"
    by (simp add: assms(2))
  have Y: "(\<Sum>i\<leftarrow>[0..<n]. vs ! i) = a * N + b * X"
  proof -
    have "(\<Sum>i\<leftarrow>[0..<n]. vs ! i) = (\<Sum>i\<leftarrow>[0..<n]. a + b * real i)"
      using at [of "\<lambda>i y. y"] by (rule arg_cong)
    then show ?thesis by (simp add: sum_list_addf sum_list_const_mult X_def N_def sum_list_triv)
  qed
  have XY: "(\<Sum>i\<leftarrow>[0..<n]. real i * vs ! i) = a * X + b * Q"
  proof -
    have "(\<Sum>i\<leftarrow>[0..<n]. real i * vs ! i) = (\<Sum>i\<leftarrow>[0..<n]. a * real i + b * (real i * real i))"
      by (rule arg_cong [of _ _ sum_list]) (use at [of "\<lambda>i y. real i * y"] in \<open>simp add: algebra_simps\<close>)
    then show ?thesis by (simp add: sum_list_addf sum_list_const_mult X_def Q_def)
  qed
  have "N * Q - X * X = N * N * (N - 1) * (N + 1) / 12"
    by (simp add: Q_def X_def sum_index sum_index_sq N_def field_simps)
  moreover have "0 < N * N * (N - 1) * (N + 1)" using N by simp
  ultimately have D: "N * Q - X * X \<noteq> 0" by simp
  have "N * (a * X + b * Q) - X * (a * N + b * X) = b * (N * Q - X * X)" by (simp add: algebra_simps)
  then have slope: "(N * (a * X + b * Q) - X * (a * N + b * X)) / (N * Q - X * X) = b" using D by simp
  have icpt: "(a * N + b * X - b * X) / N = a" using N by simp
  show ?thesis
    unfolding regression_def Let_def id_apply fl_sum_id len Y XY N_def [symmetric] X_def [symmetric] Q_def [symmetric] slope icpt ..
qed

theorem predict_affine:
  assumes "10 \<le> n"
  shows "predict id (map (\<lambda>i. a + b * of_nat i) [0..<n]) = max 0 (min 100 (a + b * (of_nat n + 5)))"
  using assms regression_affine [of n _ a b] by (simp add: predict_def)

section \<open>Recovery\<close>

text \<open>
  A recovery runs nothing: the steps whose conditions hold are entered into the history as successes, and the
  completion reports every step of the plan, also those it skipped.
\<close>
theorem recovery_reports_all:
  assumes "jm_get (sh_recoveryPlans s) n = Some plan"
  shows "\<exists>ran. sh_recoveryHistory (fst (triggerRecovery now n as s)) = sh_recoveryHistory s @ ran \<and>
           list_all re_success ran \<and> length ran \<le> length (rl_actions plan) \<and>
           (\<forall>h. h \<in> set (subscribers (sh_listeners s) ''recovery:completed'') \<longrightarrow>
              (h, \<lparr>sv_event = RecoveryCompleted (length (rl_actions plan)), sv_serviceName = n, sv_timestamp = now\<rparr>)
                \<in> set (sh_emitted (fst (triggerRecovery now n as s))))"
proof -
  have len: "length (filter P (sort_key rs_order (rl_actions plan))) \<le> length (rl_actions plan)" for P
    using length_filter_le [of P "sort_key rs_order (rl_actions plan)"] by simp
  show ?thesis
    by (rule exI) (auto simp: triggerRecovery_def assms sh_emit_def Let_def list_all_iff intro!: len)
qed

end
