(* ===== verification/ServiceDiscovery.thy ===== *)
theory ServiceDiscovery
  imports KernelCore
begin

text \<open>
  Service discovery of \<open>packages/kernel/src/os/service-discovery.ts\<close>: registration, heartbeats and expiry,
  queries with routing, and the graph of dependencies between services.

  Loads and latencies are real numbers. \<open>num\<close> is \<open>Number\<close> on the parts of a version, \<open>None\<close> for \<open>NaN\<close>;
  \<open>shuffle\<close> is what sorting by a random comparison does to a list. A registered object is not shared with its
  caller. \<open>healthCheckTimers\<close> is never filled and left out; listeners only take note.
\<close>

section \<open>Data\<close>

datatype ServiceStatus = st_registering | st_healthy | st_degraded | st_unhealthy | st_draining | st_deregistered
datatype RoutingStrategy = rt_round_robin | rt_weighted | rt_least_connections | rt_latency_based | rt_random
datatype HealthCheckProtocol = hp_http | hp_tcp | hp_grpc | hp_script
datatype service_protocol = pr_http | pr_https | pr_grpc | pr_ws | pr_wss
datatype check_result = ck_pass | ck_fail | ck_unknown

record ServiceMetadata =
  me_environment :: string
  me_region :: "string option"
  me_zone :: "string option"
  me_deploymentId :: "string option"
  me_containerId :: "string option"
  me_custom :: "(string, string) jsmap"

record DiscoveryHealthCheck =
  hc_protocol :: HealthCheckProtocol
  hc_path :: "string option"
  hc_intervalMs :: int
  hc_timeoutMs :: int
  hc_unhealthyThreshold :: int
  hc_healthyThreshold :: int
  hc_consecutiveFailures :: int
  hc_consecutiveSuccesses :: int
  hc_lastCheckAt :: int
  hc_lastCheckResult :: check_result

record DiscoverableService =
  ds_instanceId :: string
  ds_serviceName :: string
  ds_version :: string
  ds_host :: string
  ds_port :: int
  ds_protocol :: service_protocol
  ds_status :: ServiceStatus
  ds_metadata :: ServiceMetadata
  ds_healthCheck :: DiscoveryHealthCheck
  ds_registeredAt :: int
  ds_lastHeartbeat :: int
  ds_ttlMs :: int
  ds_weight :: real
  ds_load :: real
  ds_latency :: real
  ds_activeConnections :: int
  ds_tags :: "string list"
  ds_dependencies :: "string list"
  ds_capabilities :: "string list"

datatype discovery_event_type =
    ev_registered | ev_deregistered | ev_healthy | ev_unhealthy | ev_degraded | ev_heartbeat | ev_expired | ev_draining
  | ev_topology_changed

primrec discovery_event_str :: "discovery_event_type \<Rightarrow> string" where
  "discovery_event_str ev_registered = ''service:registered''"
| "discovery_event_str ev_deregistered = ''service:deregistered''"
| "discovery_event_str ev_healthy = ''service:healthy''"
| "discovery_event_str ev_unhealthy = ''service:unhealthy''"
| "discovery_event_str ev_degraded = ''service:degraded''"
| "discovery_event_str ev_heartbeat = ''service:heartbeat''"
| "discovery_event_str ev_expired = ''service:expired''"
| "discovery_event_str ev_draining = ''service:draining''"
| "discovery_event_str ev_topology_changed = ''discovery:topology-changed''"

datatype discovery_payload = NoPayload | RegisteredAt string string int | ExpiredAfter int int

record DiscoveryEvent =
  de_type :: discovery_event_type
  de_instanceId :: string
  de_serviceName :: string
  de_payload :: discovery_payload
  de_timestamp :: int

record DiscoveryQuery =
  dq_serviceName :: string
  dq_versionRange :: "string option"
  dq_tags :: "string list option"
  dq_capabilities :: "string list option"
  dq_environment :: "string option"
  dq_region :: "string option"
  dq_healthyOnly :: "bool option"
  dq_routingStrategy :: "RoutingStrategy option"
  dq_limit :: "int option"

record ServiceNode =
  dp_serviceName :: string
  dp_dependencies :: "string list"
  dp_dependents :: "string list"
  dp_depth :: nat
  dp_critical :: bool

text \<open>The sets of instance identifiers keep the order of insertion. \<open>di_emitted\<close> is a ghost: the calls of listeners.\<close>

record 'h ServiceDiscovery =
  di_services :: "(string, DiscoverableService) jsmap"
  di_servicesByName :: "(string, string list) jsmap"
  di_listeners :: "'h EventBus"
  di_roundRobinCounters :: "(string, int) jsmap"
  di_expirationTimer :: "int option"
  di_emitted :: "('h \<times> DiscoveryEvent) list"

definition startExpirationChecker :: "int option \<Rightarrow> 'h ServiceDiscovery \<Rightarrow> 'h ServiceDiscovery" where
  "startExpirationChecker expirationCheckIntervalMs d =
     d\<lparr>di_expirationTimer := Some (num_or expirationCheckIntervalMs 10000)\<rparr>"

definition new_ServiceDiscovery :: "int option \<Rightarrow> 'h ServiceDiscovery" where
  "new_ServiceDiscovery expirationCheckIntervalMs =
     startExpirationChecker expirationCheckIntervalMs
       \<lparr>di_services = [], di_servicesByName = [], di_listeners = new_EventBus, di_roundRobinCounters = [],
        di_expirationTimer = None, di_emitted = []\<rparr>"

section \<open>Events\<close>

definition di_on :: "string \<Rightarrow> 'h \<Rightarrow> 'h ServiceDiscovery \<Rightarrow> 'h ServiceDiscovery" where
  "di_on ty h d = d\<lparr>di_listeners := eb_on ty h (di_listeners d)\<rparr>"

definition di_off :: "string \<Rightarrow> 'h \<Rightarrow> 'h ServiceDiscovery \<Rightarrow> 'h ServiceDiscovery" where
  "di_off ty h d = d\<lparr>di_listeners := eb_off ty h (di_listeners d)\<rparr>"

definition di_emit ::
  "int \<Rightarrow> discovery_event_type \<Rightarrow> string \<Rightarrow> string \<Rightarrow> discovery_payload \<Rightarrow> 'h ServiceDiscovery \<Rightarrow> 'h ServiceDiscovery" where
  "di_emit now ty instanceId serviceName payload d =
     (let e = \<lparr>de_type = ty, de_instanceId = instanceId, de_serviceName = serviceName, de_payload = payload,
               de_timestamp = now\<rparr>
      in d\<lparr>di_emitted := di_emitted d @ map (\<lambda>h. (h, e)) (subscribers (di_listeners d) (discovery_event_str ty) @
                                                       subscribers (di_listeners d) ''*'')\<rparr>)"

section \<open>Registration\<close>

definition set_insert :: "'a \<Rightarrow> 'a list \<Rightarrow> 'a list" where
  "set_insert x xs = (if x \<in> set xs then xs else xs @ [x])"

definition registered :: "int \<Rightarrow> DiscoverableService \<Rightarrow> DiscoverableService" where
  "registered now s =
     s\<lparr>ds_status := st_healthy, ds_registeredAt := now, ds_lastHeartbeat := now,
       ds_healthCheck := (ds_healthCheck s)
         \<lparr>hc_consecutiveSuccesses := hc_healthyThreshold (ds_healthCheck s), hc_lastCheckResult := ck_pass,
          hc_lastCheckAt := now\<rparr>\<rparr>"

text \<open>The fields \<open>status\<close>, \<open>registeredAt\<close> and \<open>lastHeartbeat\<close> of the argument are not read.\<close>

definition di_register ::
  "int \<Rightarrow> DiscoverableService \<Rightarrow> 'h ServiceDiscovery \<Rightarrow> 'h ServiceDiscovery \<times> DiscoverableService" where
  "di_register now service d =
     (let full = registered now service;
          i = ds_instanceId service; n = ds_serviceName service;
          d1 = d\<lparr>di_services := jm_set i full (di_services d),
                 di_servicesByName := jm_set n (set_insert i (dflt (jm_get (di_servicesByName d) n) [])) (di_servicesByName d)\<rparr>
      in (di_emit now ev_registered i n (RegisteredAt (ds_version service) (ds_host service) (ds_port service)) d1, full))"

definition unindex :: "string \<Rightarrow> string \<Rightarrow> (string, string list) jsmap \<Rightarrow> (string, string list) jsmap" where
  "unindex n i byName =
     (case jm_get byName n of
        None \<Rightarrow> byName
      | Some ids \<Rightarrow> (let ids1 = filter (\<lambda>j. j \<noteq> i) ids
                    in if ids1 = [] then jm_delete n byName else jm_set n ids1 byName))"

definition deregister :: "int \<Rightarrow> string \<Rightarrow> 'h ServiceDiscovery \<Rightarrow> 'h ServiceDiscovery \<times> bool" where
  "deregister now instanceId d =
     (case jm_get (di_services d) instanceId of
        None \<Rightarrow> (d, False)
      | Some service \<Rightarrow>
          (di_emit now ev_deregistered instanceId (ds_serviceName service) NoPayload
             (d\<lparr>di_services := jm_delete instanceId (di_services d),
                di_servicesByName := unindex (ds_serviceName service) instanceId (di_servicesByName d)\<rparr>), True))"

record heartbeat_metrics =
  hm_load :: "real option"
  hm_latency :: "real option"
  hm_activeConnections :: "int option"

definition beaten :: "int \<Rightarrow> heartbeat_metrics option \<Rightarrow> DiscoverableService \<Rightarrow> DiscoverableService" where
  "beaten now metrics s =
     (let s1 = s\<lparr>ds_lastHeartbeat := now\<rparr>
      in case metrics of
           None \<Rightarrow> s1
         | Some m \<Rightarrow> s1\<lparr>ds_load := dflt (hm_load m) (ds_load s1), ds_latency := dflt (hm_latency m) (ds_latency s1),
                         ds_activeConnections := dflt (hm_activeConnections m) (ds_activeConnections s1)\<rparr>)"

definition heartbeat ::
  "int \<Rightarrow> string \<Rightarrow> heartbeat_metrics option \<Rightarrow> 'h ServiceDiscovery \<Rightarrow> 'h ServiceDiscovery \<times> bool" where
  "heartbeat now instanceId metrics d =
     (case jm_get (di_services d) instanceId of
        None \<Rightarrow> (d, False)
      | Some service \<Rightarrow>
          (let s1 = beaten now metrics service;
               put = (\<lambda>s. d\<lparr>di_services := jm_set instanceId s (di_services d)\<rparr>)
           in if ds_status s1 = st_unhealthy then
                (let hc = (ds_healthCheck s1)
                       \<lparr>hc_consecutiveFailures := 0, hc_consecutiveSuccesses := hc_consecutiveSuccesses (ds_healthCheck s1) + 1\<rparr>;
                     s2 = s1\<lparr>ds_healthCheck := hc\<rparr>
                 in if hc_consecutiveSuccesses hc \<ge> hc_healthyThreshold hc
                    then (di_emit now ev_healthy instanceId (ds_serviceName s2) NoPayload (put (s2\<lparr>ds_status := st_healthy\<rparr>)), True)
                    else (put s2, True))
              else (put s1, True)))"

definition drain :: "int \<Rightarrow> string \<Rightarrow> 'h ServiceDiscovery \<Rightarrow> 'h ServiceDiscovery \<times> bool" where
  "drain now instanceId d =
     (case jm_get (di_services d) instanceId of
        None \<Rightarrow> (d, False)
      | Some service \<Rightarrow>
          (di_emit now ev_draining instanceId (ds_serviceName service) NoPayload
             (d\<lparr>di_services := jm_set instanceId (service\<lparr>ds_status := st_draining\<rparr>) (di_services d)\<rparr>), True))"

definition expired :: "int \<Rightarrow> DiscoverableService \<Rightarrow> DiscoverableService" where
  "expired now s =
     s\<lparr>ds_status := st_unhealthy,
       ds_healthCheck := (ds_healthCheck s)
         \<lparr>hc_consecutiveFailures := hc_consecutiveFailures (ds_healthCheck s) + 1, hc_consecutiveSuccesses := 0,
          hc_lastCheckResult := ck_fail, hc_lastCheckAt := now\<rparr>\<rparr>"

definition expire_one :: "int \<Rightarrow> string \<Rightarrow> 'h ServiceDiscovery \<Rightarrow> 'h ServiceDiscovery" where
  "expire_one now instanceId d =
     (case jm_get (di_services d) instanceId of
        None \<Rightarrow> d
      | Some s \<Rightarrow>
          (let elapsed = now - ds_lastHeartbeat s
           in if ds_status s = st_deregistered \<or> \<not> elapsed > ds_ttlMs s then d
              else (let d1 = di_emit now ev_expired instanceId (ds_serviceName s) (ExpiredAfter elapsed (ds_ttlMs s))
                               (d\<lparr>di_services := jm_set instanceId (expired now s) (di_services d)\<rparr>)
                    in if elapsed > ds_ttlMs s * 3 then fst (deregister now instanceId d1) else d1)))"

definition checkExpirations :: "int \<Rightarrow> 'h ServiceDiscovery \<Rightarrow> 'h ServiceDiscovery" where
  "checkExpirations now d = fold (expire_one now) (jm_keys (di_services d)) d"

definition di_destroy :: "'h ServiceDiscovery \<Rightarrow> 'h ServiceDiscovery" where
  "di_destroy d = d\<lparr>di_expirationTimer := None\<rparr>"

section \<open>Discovery\<close>

text \<open>What \<open>parts[i]\<close> of an array of numbers can be.\<close>

datatype vpart = VUndefined | VNaN | VNum real

definition vpart_at :: "vpart list \<Rightarrow> nat \<Rightarrow> vpart" where
  "vpart_at vs i = (if i < length vs then vs ! i else VUndefined)"

fun vp_same :: "vpart \<Rightarrow> vpart \<Rightarrow> bool" where
  "vp_same VUndefined VUndefined = True"
| "vp_same (VNum x) (VNum y) = (x = y)"
| "vp_same _ _ = False"

fun vp_compare :: "(real \<Rightarrow> real \<Rightarrow> bool) \<Rightarrow> vpart \<Rightarrow> vpart \<Rightarrow> bool" where
  "vp_compare R (VNum x) (VNum y) = R x y"
| "vp_compare R _ _ = False"

definition version_parts :: "(string \<Rightarrow> real option) \<Rightarrow> string \<Rightarrow> vpart list" where
  "version_parts num v = map (\<lambda>p. case num p of None \<Rightarrow> VNaN | Some x \<Rightarrow> VNum x) (js_split CHR ''.'' v)"

definition range_base :: "string \<Rightarrow> string" where
  "range_base wanted = dropWhile (\<lambda>c. c \<in> set ''^~>=<'') wanted"

definition versionSatisfies :: "(string \<Rightarrow> real option) \<Rightarrow> string \<Rightarrow> string \<Rightarrow> bool" where
  "versionSatisfies num version wanted =
     (if wanted = ''*'' \<or> wanted = version then True
      else (let v = vpart_at (version_parts num version); r = vpart_at (version_parts num (range_base wanted));
                patch = vp_compare (\<ge>) (v 2) (r 2);
                minor = vp_compare (>) (v 1) (r 1) \<or> vp_same (v 1) (r 1) \<and> patch
            in if js_startsWith wanted ''^'' then vp_same (v 0) (r 0) \<and> minor
               else if js_startsWith wanted ''~'' then vp_same (v 0) (r 0) \<and> vp_same (v 1) (r 1) \<and> patch
               else if js_startsWith wanted ''>='' then vp_compare (>) (v 0) (r 0) \<or> vp_same (v 0) (r 0) \<and> minor
               else False))"

text \<open>The rotation of an empty list by \<open>NaN\<close> is the empty list.\<close>

definition rotate_from :: "int \<Rightarrow> 'a list \<Rightarrow> 'a list" where
  "rotate_from counter xs =
     (if xs = [] then [] else (let startIdx = nat (counter mod int (length xs)) in drop startIdx xs @ take startIdx xs))"

definition applyRoutingStrategy ::
  "(DiscoverableService list \<Rightarrow> DiscoverableService list) \<Rightarrow> DiscoverableService list \<Rightarrow> string \<Rightarrow> RoutingStrategy \<Rightarrow>
     'h ServiceDiscovery \<Rightarrow> 'h ServiceDiscovery \<times> DiscoverableService list" where
  "applyRoutingStrategy shuffle instances serviceName strategy d =
     (case strategy of
        rt_round_robin \<Rightarrow>
          (let counter = num_or (jm_get (di_roundRobinCounters d) serviceName) 0 + 1
           in (d\<lparr>di_roundRobinCounters := jm_set serviceName counter (di_roundRobinCounters d)\<rparr>, rotate_from counter instances))
      | rt_weighted \<Rightarrow> (d, sort_key (\<lambda>s. - ds_weight s) instances)
      | rt_least_connections \<Rightarrow> (d, sort_key ds_activeConnections instances)
      | rt_latency_based \<Rightarrow> (d, sort_key ds_latency instances)
      | rt_random \<Rightarrow> (d, shuffle instances))"

definition getInstances :: "string \<Rightarrow> 'h ServiceDiscovery \<Rightarrow> DiscoverableService list" where
  "getInstances serviceName d =
     List.map_filter (jm_get (di_services d)) (dflt (jm_get (di_servicesByName d) serviceName) [])"

definition query_matches :: "(string \<Rightarrow> real option) \<Rightarrow> DiscoveryQuery \<Rightarrow> DiscoverableService \<Rightarrow> bool" where
  "query_matches num q s \<longleftrightarrow>
     (dq_healthyOnly q \<noteq> Some False \<longrightarrow> ds_status s = st_healthy) \<and>
     (str_truthy (dq_versionRange q) \<longrightarrow> versionSatisfies num (ds_version s) (dflt (dq_versionRange q) [])) \<and>
     list_all (\<lambda>t. t \<in> set (ds_tags s)) (dflt (dq_tags q) []) \<and>
     list_all (\<lambda>c. c \<in> set (ds_capabilities s)) (dflt (dq_capabilities q) []) \<and>
     (str_truthy (dq_environment q) \<longrightarrow> Some (me_environment (ds_metadata s)) = dq_environment q) \<and>
     (str_truthy (dq_region q) \<longrightarrow> me_region (ds_metadata s) = dq_region q)"

definition discover ::
  "(string \<Rightarrow> real option) \<Rightarrow> (DiscoverableService list \<Rightarrow> DiscoverableService list) \<Rightarrow> DiscoveryQuery \<Rightarrow>
     'h ServiceDiscovery \<Rightarrow> 'h ServiceDiscovery \<times> DiscoverableService list" where
  "discover num shuffle q d =
     (if dflt (jm_get (di_servicesByName d) (dq_serviceName q)) [] = [] then (d, [])
      else (case applyRoutingStrategy shuffle (filter (query_matches num q) (getInstances (dq_serviceName q) d))
                   (dq_serviceName q) (dflt (dq_routingStrategy q) rt_round_robin) d of
              (d1, instances) \<Rightarrow>
                (d1, if num_or (dq_limit q) 0 \<noteq> 0 then js_slice 0 (num_or (dq_limit q) 0) instances else instances)))"

definition discoverOne ::
  "(string \<Rightarrow> real option) \<Rightarrow> (DiscoverableService list \<Rightarrow> DiscoverableService list) \<Rightarrow> DiscoveryQuery \<Rightarrow>
     'h ServiceDiscovery \<Rightarrow> 'h ServiceDiscovery \<times> DiscoverableService option" where
  "discoverOne num shuffle q d =
     (case discover num shuffle (q\<lparr>dq_limit := Some 1\<rparr>) d of (d1, rs) \<Rightarrow> (d1, case rs of [] \<Rightarrow> None | s # _ \<Rightarrow> Some s))"

primrec protocol_str :: "service_protocol \<Rightarrow> string" where
  "protocol_str pr_http = ''http''" | "protocol_str pr_https = ''https''" | "protocol_str pr_grpc = ''grpc''"
| "protocol_str pr_ws = ''ws''" | "protocol_str pr_wss = ''wss''"

definition getServiceUrl ::
  "(string \<Rightarrow> real option) \<Rightarrow> (DiscoverableService list \<Rightarrow> DiscoverableService list) \<Rightarrow> DiscoveryQuery \<Rightarrow>
     'h ServiceDiscovery \<Rightarrow> 'h ServiceDiscovery \<times> string option" where
  "getServiceUrl num shuffle q d =
     (case discoverOne num shuffle q d of
        (d1, s) \<Rightarrow> (d1, map_option (\<lambda>s. protocol_str (ds_protocol s) @ ''://'' @ ds_host s @ '':'' @ int_str (ds_port s)) s))"

section \<open>Dependency graph\<close>

type_synonym service_graph = "(string, ServiceNode) jsmap"

definition graph_init :: "string list \<Rightarrow> service_graph" where
  "graph_init names =
     map (\<lambda>n. (n, \<lparr>dp_serviceName = n, dp_dependencies = [], dp_dependents = [], dp_depth = 0, dp_critical = False\<rparr>)) names"

definition change_node :: "string \<Rightarrow> (ServiceNode \<Rightarrow> ServiceNode) \<Rightarrow> service_graph \<Rightarrow> service_graph" where
  "change_node n f g = (case jm_get g n of None \<Rightarrow> g | Some node \<Rightarrow> jm_set n (f node) g)"

definition add_edge :: "string \<Rightarrow> string \<Rightarrow> service_graph \<Rightarrow> service_graph" where
  "add_edge n dep g =
     change_node dep (\<lambda>node. node\<lparr>dp_dependents := set_insert n (dp_dependents node)\<rparr>)
       (change_node n (\<lambda>node. node\<lparr>dp_dependencies := set_insert dep (dp_dependencies node)\<rparr>) g)"

definition add_service :: "DiscoverableService \<Rightarrow> service_graph \<Rightarrow> service_graph" where
  "add_service s g = (if jm_has g (ds_serviceName s) then fold (add_edge (ds_serviceName s)) (ds_dependencies s) g else g)"

definition deps_of :: "service_graph \<Rightarrow> string \<Rightarrow> string list" where
  "deps_of g n = (case jm_get g n of None \<Rightarrow> [] | Some node \<Rightarrow> dp_dependencies node)"

definition dependents_of :: "service_graph \<Rightarrow> string \<Rightarrow> string list" where
  "dependents_of g n = (case jm_get g n of None \<Rightarrow> [] | Some node \<Rightarrow> dp_dependents node)"

text \<open>
  The loop of \<open>calculateDepth\<close> over the dependencies of a node, with the calls for nodes that were visited, have no
  dependencies, or have some; \<open>visited\<close> is shared by all calls.
\<close>

partial_function (option) depth_loop ::
  "string list \<Rightarrow> nat \<Rightarrow> string set \<Rightarrow> service_graph \<Rightarrow> (nat \<times> string set \<times> service_graph) option" where
  "depth_loop deps maxDepth visited g =
     (case deps of
        [] \<Rightarrow> Some (maxDepth, visited, g)
      | dep # rest \<Rightarrow>
          if dep \<in> visited then depth_loop rest (max maxDepth 1) visited g
          else if deps_of g dep = [] then depth_loop rest (max maxDepth 1) (insert dep visited) g
          else Option.bind (depth_loop (deps_of g dep) 0 (insert dep visited) g)
            (\<lambda>(k, v1, g1). depth_loop rest (max maxDepth (1 + k)) v1
                             (change_node dep (\<lambda>node. node\<lparr>dp_depth := k\<rparr>) g1)))"

definition calculateDepth :: "string \<Rightarrow> service_graph \<Rightarrow> service_graph option" where
  "calculateDepth n g =
     (if deps_of g n = [] then Some g
      else map_option (\<lambda>(k, v1, g1). change_node n (\<lambda>node. node\<lparr>dp_depth := k\<rparr>) g1) (depth_loop (deps_of g n) 0 {n} g))"

fun calculateDepths :: "string list \<Rightarrow> service_graph \<Rightarrow> service_graph option" where
  "calculateDepths [] g = Some g"
| "calculateDepths (n # ns) g = Option.bind (calculateDepth n g) (calculateDepths ns)"

definition markCriticalServices :: "service_graph \<Rightarrow> service_graph" where
  "markCriticalServices g = jm_map (\<lambda>n node. node\<lparr>dp_critical := (length (dp_dependents node) \<ge> 2)\<rparr>) g"

definition service_edges :: "'h ServiceDiscovery \<Rightarrow> service_graph" where
  "service_edges d = fold add_service (jm_values (di_services d)) (graph_init (jm_keys (di_servicesByName d)))"

definition buildDependencyGraph :: "'h ServiceDiscovery \<Rightarrow> service_graph option" where
  "buildDependencyGraph d =
     map_option markCriticalServices (calculateDepths (jm_keys (service_edges d)) (service_edges d))"

text \<open>The recursion of \<open>visit\<close> over a list of names, with the names visited and the order so far.\<close>

partial_function (option) visit_all ::
  "(string \<Rightarrow> string list) \<Rightarrow> string list \<Rightarrow> string set \<Rightarrow> string list \<Rightarrow> (string set \<times> string list) option" where
  "visit_all deps names visited order =
     (case names of
        [] \<Rightarrow> Some (visited, order)
      | n # rest \<Rightarrow>
          if n \<in> visited then visit_all deps rest visited order
          else Option.bind (visit_all deps (deps n) (insert n visited) order)
            (\<lambda>(v1, o1). visit_all deps rest v1 (o1 @ [n])))"

definition getStartupOrder :: "'h ServiceDiscovery \<Rightarrow> string list option" where
  "getStartupOrder d =
     Option.bind (buildDependencyGraph d)
       (\<lambda>g. map_option snd (visit_all (deps_of g) (jm_keys g) {} []))"

definition getShutdownOrder :: "'h ServiceDiscovery \<Rightarrow> string list option" where
  "getShutdownOrder d = map_option rev (getStartupOrder d)"

record removal_impact =
  ri_directDependents :: "string list"
  ri_transitiveDependents :: "string list"
  ri_canSafelyRemove :: bool

partial_function (option) dependents_loop ::
  "(string \<Rightarrow> string list) \<Rightarrow> string list \<Rightarrow> string list \<Rightarrow> string list option" where
  "dependents_loop dependents queue transitive =
     (case queue of
        [] \<Rightarrow> Some transitive
      | current # rest \<Rightarrow>
          if current \<in> set transitive then dependents_loop dependents rest transitive
          else dependents_loop dependents (rest @ dependents current) (transitive @ [current]))"

definition getImpactAnalysis :: "string \<Rightarrow> 'h ServiceDiscovery \<Rightarrow> removal_impact option" where
  "getImpactAnalysis serviceName d =
     Option.bind (buildDependencyGraph d)
       (\<lambda>g. case jm_get g serviceName of
              None \<Rightarrow> Some \<lparr>ri_directDependents = [], ri_transitiveDependents = [], ri_canSafelyRemove = True\<rparr>
            | Some node \<Rightarrow>
                map_option (\<lambda>t. \<lparr>ri_directDependents = dp_dependents node, ri_transitiveDependents = t,
                                 ri_canSafelyRemove = (dp_dependents node = [])\<rparr>)
                  (dependents_loop (dependents_of g) (dp_dependents node) []))"

section \<open>Queries\<close>

definition getServiceNames :: "'h ServiceDiscovery \<Rightarrow> string list" where
  "getServiceNames d = jm_keys (di_servicesByName d)"

definition count_status :: "ServiceStatus \<Rightarrow> 'h ServiceDiscovery \<Rightarrow> nat" where
  "count_status st d = length (filter (\<lambda>s. ds_status s = st) (jm_values (di_services d)))"

record service_count =
  ct_total :: nat
  ct_healthy :: nat
  ct_unhealthy :: nat
  ct_draining :: nat

definition getServiceCount :: "'h ServiceDiscovery \<Rightarrow> service_count" where
  "getServiceCount d =
     \<lparr>ct_total = jm_size (di_services d), ct_healthy = count_status st_healthy d, ct_unhealthy = count_status st_unhealthy d,
      ct_draining = count_status st_draining d\<rparr>"

record discovery_stats =
  dt_totalInstances :: nat
  dt_totalServices :: nat
  dt_healthyInstances :: nat
  dt_averageLoad :: real
  dt_averageLatency :: real

definition mean_field :: "('a \<Rightarrow> real) \<Rightarrow> 'a list \<Rightarrow> real" where
  "mean_field f xs = (if xs = [] then 0 else sum_list (map f xs) / of_nat (length xs))"

definition di_getStats :: "'h ServiceDiscovery \<Rightarrow> discovery_stats" where
  "di_getStats d =
     (let instances = jm_values (di_services d)
      in \<lparr>dt_totalInstances = length instances, dt_totalServices = jm_size (di_servicesByName d),
          dt_healthyInstances = count_status st_healthy d, dt_averageLoad = mean_field ds_load instances,
          dt_averageLatency = mean_field ds_latency instances\<rparr>)"

end
