(* ===== verification/ServiceDiscoveryProps.thy ===== *)
theory ServiceDiscoveryProps
  imports ServiceDiscovery "HOL-Library.Multiset"
begin

text \<open>
  Properties of service discovery: the register and its index over all histories, the order of startup, the
  services affected by a removal, and what a query returns.
\<close>

section \<open>The depth-first visit\<close>

definition precedes :: "'a \<Rightarrow> 'a \<Rightarrow> 'a list \<Rightarrow> bool" where
  "precedes p n xs \<longleftrightarrow> (\<exists>ys zs. xs = ys @ n # zs \<and> p \<in> set ys)"

lemma precedes_append: "precedes p n xs \<Longrightarrow> precedes p n (xs @ ws)"
  unfolding precedes_def by fastforce

lemma precedes_last: "p \<in> set xs \<Longrightarrow> precedes p n (xs @ [n])"
  unfolding precedes_def by blast

definition edges_of :: "('a \<Rightarrow> 'a list) \<Rightarrow> ('a \<times> 'a) set" where
  "edges_of deps = {(n, p). p \<in> set (deps n)}"

lemma edges_of_iff [simp]: "(n, p) \<in> edges_of deps \<longleftrightarrow> p \<in> set (deps n)"
  by (simp add: edges_of_def)

text \<open>The nodes visited but not yet in the order are the ancestors of all names still to visit.\<close>

definition visit_pre :: "(string \<Rightarrow> string list) \<Rightarrow> string list \<Rightarrow> string set \<Rightarrow> string list \<Rightarrow> bool" where
  "visit_pre deps names V ord \<longleftrightarrow>
     set ord \<subseteq> V \<and> (\<forall>g \<in> V - set ord. \<forall>m \<in> set names. (g, m) \<in> (edges_of deps)\<^sup>*)"

definition visit_post ::
  "(string \<Rightarrow> string list) \<Rightarrow> string list \<Rightarrow> string set \<Rightarrow> string list \<Rightarrow> string set \<Rightarrow> string list \<Rightarrow> bool" where
  "visit_post deps names V ord V' ord' \<longleftrightarrow>
     set names \<subseteq> V' \<and> V \<subseteq> V' \<and>
     (\<exists>fin. ord' = ord @ fin \<and> distinct fin \<and> set fin = V' - V \<and>
        (\<forall>n \<in> set fin. (\<exists>m \<in> set names. (m, n) \<in> (edges_of deps)\<^sup>*) \<and>
           (\<forall>p \<in> set (deps n). p \<in> V' \<and> ((p, n) \<in> (edges_of deps)\<^sup>* \<or> precedes p n (ord @ fin)))))"

lemma visit_postE:
  assumes "visit_post deps names V ord V' ord'"
  obtains fin where "set names \<subseteq> V'" "V \<subseteq> V'" "ord' = ord @ fin" "distinct fin" "set fin = V' - V"
    "\<forall>n \<in> set fin. (\<exists>m \<in> set names. (m, n) \<in> (edges_of deps)\<^sup>*) \<and>
       (\<forall>p \<in> set (deps n). p \<in> V' \<and> ((p, n) \<in> (edges_of deps)\<^sup>* \<or> precedes p n (ord @ fin)))"
  using assms unfolding visit_post_def by (elim conjE exE) (rule that; assumption)

lemma visit_post_Nil: "visit_post deps [] V ord V ord"
  by (simp add: visit_post_def)

lemma visit_post_skip: "n \<in> V \<Longrightarrow> visit_post deps rest V ord V' ord' \<Longrightarrow> visit_post deps (n # rest) V ord V' ord'"
  unfolding visit_post_def by auto

lemma visit_pre_deps:
  assumes "visit_pre deps (n # rest) V ord"
  shows "visit_pre deps (deps n) (insert n V) ord"
proof -
  have "(g, p) \<in> (edges_of deps)\<^sup>*" if "g \<in> insert n V - set ord" "p \<in> set (deps n)" for g p
  proof (cases "g = n")
    case True
    then show ?thesis using that(2) by (intro r_into_rtrancl) simp
  next
    case False
    then have "(g, n) \<in> (edges_of deps)\<^sup>*" using assms that(1) by (auto simp: visit_pre_def)
    then show ?thesis using that(2) by (rule_tac rtrancl_into_rtrancl) simp_all
  qed
  then show ?thesis using assms by (auto simp: visit_pre_def)
qed

lemma visit_step:
  assumes pre: "visit_pre deps (n # rest) V ord" and n: "n \<notin> V"
    and sub: "visit_post deps (deps n) (insert n V) ord V1 ord1"
    and post: "visit_post deps rest V1 (ord1 @ [n]) V' ord'"
  shows "visit_post deps (n # rest) V ord V' ord'"
proof -
  let ?E = "(edges_of deps)\<^sup>*"
  obtain f1 where V1: "set (deps n) \<subseteq> V1" "insert n V \<subseteq> V1"
    and f1: "ord1 = ord @ f1" "distinct f1" "set f1 = V1 - insert n V"
      "\<forall>m \<in> set f1. (\<exists>d \<in> set (deps n). (d, m) \<in> ?E) \<and>
         (\<forall>p \<in> set (deps m). p \<in> V1 \<and> ((p, m) \<in> ?E \<or> precedes p m (ord @ f1)))"
    by (rule visit_postE [OF sub]) (rule that; assumption)
  obtain f2 where V2: "set rest \<subseteq> V'" "V1 \<subseteq> V'"
    and f2: "ord' = (ord1 @ [n]) @ f2" "distinct f2" "set f2 = V' - V1"
      "\<forall>m \<in> set f2. (\<exists>d \<in> set rest. (d, m) \<in> ?E) \<and>
         (\<forall>p \<in> set (deps m). p \<in> V' \<and> ((p, m) \<in> ?E \<or> precedes p m ((ord1 @ [n]) @ f2)))"
    by (rule visit_postE [OF post]) (rule that; assumption)
  have V: "insert n V \<subseteq> V1" "V1 \<subseteq> V'" "set (deps n) \<subseteq> V1" "set rest \<subseteq> V'"
    using V1 V2 by auto
  let ?f = "f1 @ n # f2"
  have ord': "ord' = ord @ ?f" by (simp add: f1(1) f2(1))
  have dist: "distinct ?f" using f1(2,3) f2(2,3) V by auto
  have set: "set ?f = V' - V" using f1(3) f2(3) V n by auto
  have reach: "\<exists>d \<in> set (n # rest). (d, m) \<in> ?E" if m: "m \<in> set ?f" for m
  proof -
    consider "m \<in> set f1" | "m = n" | "m \<in> set f2" using m by auto
    then show ?thesis
    proof cases
      case 1
      then obtain d where "d \<in> set (deps n)" "(d, m) \<in> ?E" using f1(4) by blast
      then have "(n, m) \<in> ?E" by (meson converse_rtrancl_into_rtrancl edges_of_iff)
      then show ?thesis by auto
    next
      case 3
      then show ?thesis using f2(4) by auto
    qed auto
  qed
  have dep: "p \<in> V' \<and> ((p, m) \<in> ?E \<or> precedes p m (ord @ ?f))" if m: "m \<in> set ?f" and p: "p \<in> set (deps m)" for m p
  proof -
    consider "m \<in> set f1" | "m = n" | "m \<in> set f2" using m by auto
    then show ?thesis
    proof cases
      case 1
      then show ?thesis using bspec [OF conjunct2 [OF bspec [OF f1(4) 1]] p] V precedes_append [of p m "ord @ f1" "n # f2"] by auto
    next
      case 2
      have pV: "p \<in> V1" using p 2 V by auto
      show ?thesis
      proof (cases "p \<in> set ord1")
        case True
        then show ?thesis using pV V precedes_append [OF precedes_last [OF True, of n], of f2] 2 by (auto simp: f1(1))
      next
        case False
        then have "p = n \<or> p \<in> V - set ord" using pV f1(1,3) by auto
        then have "(p, n) \<in> ?E" using pre by (auto simp: visit_pre_def)
        then show ?thesis using pV V 2 by auto
      qed
    next
      case 3
      then show ?thesis using bspec [OF conjunct2 [OF bspec [OF f2(4) 3]] p] by (simp add: f1(1))
    qed
  qed
  show ?thesis
    unfolding visit_post_def using V n set dist reach dep ord' by (intro conjI exI [of _ ?f]) auto
qed

lemma visit_pre_rest:
  assumes "visit_pre deps (n # rest) V ord" and "visit_post deps (deps n) (insert n V) ord V1 ord1"
  shows "visit_pre deps rest V1 (ord1 @ [n])"
proof -
  obtain fin where fin: "ord1 = ord @ fin" "set fin = V1 - insert n V" by (rule visit_postE [OF assms(2)]) (rule that)
  have V: "insert n V \<subseteq> V1" using assms(2) by (simp add: visit_post_def)
  have "g \<in> V - set ord" if "g \<in> V1 - set (ord1 @ [n])" for g using that fin by auto
  then show ?thesis using assms(1) fin V by (auto simp: visit_pre_def)
qed

lemma visit_all_total:
  assumes "finite U" and "\<And>u. u \<in> U \<Longrightarrow> set (deps u) \<subseteq> U"
  shows "set names \<subseteq> U \<Longrightarrow> visit_pre deps names V ord \<Longrightarrow> card (U - V) \<le> k \<Longrightarrow>
    \<exists>V' ord'. visit_all deps names V ord = Some (V', ord') \<and> visit_post deps names V ord V' ord'"
proof (induction k arbitrary: names V ord)
  case outer: 0
  show ?case
    using outer.prems
  proof (induction names arbitrary: V ord)
    case Nil
    then show ?case by (subst visit_all.simps) (simp add: visit_post_Nil)
  next
    case (Cons n rest)
    have "n \<in> V" using Cons.prems(1,3) assms(1) by auto
    moreover have "visit_pre deps rest V ord" using Cons.prems(2) by (simp add: visit_pre_def)
    ultimately show ?case
      using Cons.IH [of V ord] Cons.prems visit_post_skip [of n V deps rest ord] by (subst visit_all.simps) auto
  qed
next
  case outer: (Suc k)
  show ?case
    using outer.prems
  proof (induction names arbitrary: V ord)
    case Nil
    then show ?case by (subst visit_all.simps) (simp add: visit_post_Nil)
  next
    case (Cons n rest)
    show ?case
    proof (cases "n \<in> V")
      case True
      moreover have "visit_pre deps rest V ord" using Cons.prems(2) by (simp add: visit_pre_def)
      ultimately show ?thesis
        using Cons.IH [of V ord] Cons.prems visit_post_skip [of n V deps rest ord] by (subst visit_all.simps) auto
    next
      case False
      have nU: "n \<in> U" using Cons.prems(1) by simp
      have "card (U - insert n V) < card (U - V)"
        using nU False assms(1) by (intro psubset_card_mono) auto
      then obtain V1 ord1 where sub: "visit_all deps (deps n) (insert n V) ord = Some (V1, ord1)"
          "visit_post deps (deps n) (insert n V) ord V1 ord1"
        using outer.IH [of "deps n" "insert n V" ord] assms(2) [OF nU] visit_pre_deps [OF Cons.prems(2)] Cons.prems(3)
        by auto
      have "V \<subseteq> V1" using sub(2) by (auto simp: visit_post_def)
      then have "card (U - V1) \<le> Suc k"
        using Cons.prems(3) card_mono [of "U - V" "U - V1"] assms(1) by (metis Diff_mono finite_Diff order_refl order_trans)
      then obtain V' ord' where "visit_all deps rest V1 (ord1 @ [n]) = Some (V', ord')"
          "visit_post deps rest V1 (ord1 @ [n]) V' ord'"
        using Cons.IH [of V1 "ord1 @ [n]"] Cons.prems(1) visit_pre_rest [OF Cons.prems(2) sub(2)] by auto
      then show ?thesis
        using visit_step [OF Cons.prems(2) False sub(2)] sub(1) False by (subst visit_all.simps) auto
    qed
  qed
qed

section \<open>The graph\<close>

lemma jm_keys_set_has: "jm_has m k \<Longrightarrow> jm_keys (jm_set k v m) = jm_keys m"
  by (induction m) (auto simp: jm_has_def jm_set_def jm_keys_def jm_get_def)

lemma jm_keys_jm_map: "jm_keys (jm_map f m) = jm_keys m"
  by (simp add: jm_keys_def jm_map_def comp_def case_prod_beta)

lemma set_set_insert [simp]: "set (set_insert x xs) = insert x (set xs)"
  by (auto simp: set_insert_def)

lemma set_insert_Nil [simp]: "set_insert x xs \<noteq> []"
  by (auto simp: set_insert_def)

definition same_edges :: "service_graph \<Rightarrow> service_graph \<Rightarrow> bool" where
  "same_edges g g' \<longleftrightarrow> jm_keys g' = jm_keys g \<and> deps_of g' = deps_of g \<and> dependents_of g' = dependents_of g"

lemma same_edges_refl [simp]: "same_edges g g"
  by (simp add: same_edges_def)

lemma same_edges_trans: "same_edges g g' \<Longrightarrow> same_edges g' g'' \<Longrightarrow> same_edges g g''"
  by (simp add: same_edges_def)

lemma same_edges_depth: "same_edges g (change_node n (\<lambda>node. node\<lparr>dp_depth := k\<rparr>) g)"
  by (auto simp: same_edges_def change_node_def deps_of_def dependents_of_def jm_keys_set_has jm_has_def fun_eq_iff
      split: option.splits)

lemma same_edges_critical: "same_edges g (markCriticalServices g)"
  by (auto simp: same_edges_def markCriticalServices_def deps_of_def dependents_of_def jm_keys_jm_map fun_eq_iff
      split: option.splits)

definition closed_under :: "('a \<Rightarrow> 'a list) \<Rightarrow> 'a set \<Rightarrow> bool" where
  "closed_under deps U \<longleftrightarrow> finite U \<and> (\<forall>u \<in> U. set (deps u) \<subseteq> U)"

lemma depth_loop_total:
  assumes "closed_under D U"
  shows "set deps \<subseteq> U \<Longrightarrow> deps_of g = D \<Longrightarrow> card (U - V) \<le> k \<Longrightarrow>
    \<exists>x V' g'. depth_loop deps m V g = Some (x, V', g') \<and> V \<subseteq> V' \<and> same_edges g g'"
proof (induction k arbitrary: deps m V g)
  case outer: 0
  show ?case
    using outer.prems
  proof (induction deps arbitrary: m V g)
    case (Cons n rest)
    have "n \<in> V" using Cons.prems(1,3) assms by (auto simp: closed_under_def)
    then show ?case using Cons by (subst depth_loop.simps) auto
  qed (subst depth_loop.simps, simp)
next
  case outer: (Suc k)
  show ?case
    using outer.prems
  proof (induction deps arbitrary: m V g)
    case (Cons n rest)
    have nU: "n \<in> U" using Cons.prems(1) by simp
    consider "n \<in> V" | "n \<notin> V" "deps_of g n = []" | "n \<notin> V" "deps_of g n \<noteq> []" by blast
    then show ?case
    proof cases
      case 1
      then show ?thesis using Cons by (subst depth_loop.simps) auto
    next
      case 2
      have "card (U - insert n V) \<le> Suc k"
        using Cons.prems(3) card_mono [of "U - V" "U - insert n V"] assms by (force simp: closed_under_def)
      then obtain x V' g' where "depth_loop rest (max m 1) (insert n V) g = Some (x, V', g')" "insert n V \<subseteq> V'"
          "same_edges g g'"
        using Cons.IH [of g "insert n V" "max m 1"] Cons.prems by auto
      then show ?thesis using 2 by (subst depth_loop.simps) auto
    next
      case 3
      have "card (U - insert n V) < card (U - V)"
        using nU 3(1) assms by (intro psubset_card_mono) (auto simp: closed_under_def)
      then obtain x1 V1 g1 where sub: "depth_loop (deps_of g n) 0 (insert n V) g = Some (x1, V1, g1)"
          "insert n V \<subseteq> V1" "same_edges g g1"
        using outer.IH [of "deps_of g n" g "insert n V" 0] assms nU Cons.prems(2,3) by (auto simp: closed_under_def)
      let ?g = "change_node n (\<lambda>node. node\<lparr>dp_depth := x1\<rparr>) g1"
      have g: "same_edges g ?g" by (rule same_edges_trans [OF sub(3) same_edges_depth])
      have "card (U - V1) \<le> Suc k"
        using Cons.prems(3) card_mono [of "U - V" "U - V1"] assms sub(2) by (force simp: closed_under_def)
      then obtain x V' g' where "depth_loop rest (max m (1 + x1)) V1 ?g = Some (x, V', g')" "V1 \<subseteq> V'" "same_edges ?g g'"
        using Cons.IH [of ?g V1 "max m (1 + x1)"] Cons.prems(1,2) g by (auto simp: same_edges_def)
      then show ?thesis using 3 sub same_edges_trans [OF g] by (subst depth_loop.simps) auto
    qed
  qed (subst depth_loop.simps, simp)
qed

lemma calculateDepth_total:
  assumes "closed_under (deps_of g) U" and "n \<in> U"
  shows "\<exists>g'. calculateDepth n g = Some g' \<and> same_edges g g'"
proof -
  obtain x V' g' where "depth_loop (deps_of g n) 0 {n} g = Some (x, V', g')" "same_edges g g'"
    using depth_loop_total [OF assms(1), of "deps_of g n" g "{n}" "card (U - {n})" 0] assms
    by (auto simp: closed_under_def)
  then show ?thesis
    using same_edges_trans [OF _ same_edges_depth] by (auto simp: calculateDepth_def)
qed

lemma calculateDepths_total:
  "closed_under (deps_of g) U \<Longrightarrow> set ns \<subseteq> U \<Longrightarrow> \<exists>g'. calculateDepths ns g = Some g' \<and> same_edges g g'"
proof (induction ns arbitrary: g)
  case (Cons n ns)
  obtain g1 where g1: "calculateDepth n g = Some g1" "same_edges g g1"
    using calculateDepth_total [OF Cons.prems(1), of n] Cons.prems(2) by auto
  then obtain g' where "calculateDepths ns g1 = Some g'" "same_edges g1 g'"
    using Cons.IH [of g1] Cons.prems by (auto simp: same_edges_def)
  then show ?case using g1 same_edges_trans by auto
qed simp

text \<open>What the edges are.\<close>

lemma change_node_keys: "jm_keys (change_node n f g) = jm_keys g"
  by (auto simp: change_node_def jm_keys_set_has jm_has_def split: option.splits)

lemma jm_has_keys: "jm_has m k \<longleftrightarrow> k \<in> set (jm_keys m)"
  by (auto simp: jm_has_def jm_get_def jm_keys_def map_of_eq_None_iff)

lemma add_edge_keys [simp]: "jm_keys (add_edge n p g) = jm_keys g"
  by (simp add: add_edge_def change_node_keys)

lemma add_edge_deps:
  "set (deps_of (add_edge n p g) m) = set (deps_of g m) \<union> (if m = n \<and> m \<in> set (jm_keys g) then {p} else {})"
  by (auto simp: add_edge_def change_node_def deps_of_def jm_has_keys [symmetric] jm_has_def split: option.splits if_splits)

lemma add_edge_dependents:
  "set (dependents_of (add_edge n p g) m) = set (dependents_of g m) \<union> (if m = p \<and> m \<in> set (jm_keys g) then {n} else {})"
  by (auto simp: add_edge_def change_node_def dependents_of_def jm_has_keys [symmetric] jm_has_def split: option.splits if_splits)

lemma add_edges:
  "jm_keys (fold (add_edge n) ps g) = jm_keys g \<and>
   set (deps_of (fold (add_edge n) ps g) m) = set (deps_of g m) \<union> {p. m = n \<and> m \<in> set (jm_keys g) \<and> p \<in> set ps} \<and>
   set (dependents_of (fold (add_edge n) ps g) m) =
     set (dependents_of g m) \<union> {k. k = n \<and> m \<in> set ps \<and> m \<in> set (jm_keys g)}"
  by (induction ps arbitrary: g) (auto simp: add_edge_deps add_edge_dependents)

text \<open>No service is entered twice among the dependents of another.\<close>

lemma set_insert_distinct [simp]: "distinct (set_insert x xs) = distinct xs"
  by (auto simp: set_insert_def)

definition distinct_dependents :: "service_graph \<Rightarrow> bool" where
  "distinct_dependents g \<longleftrightarrow> (\<forall>m. distinct (dependents_of g m))"

lemma add_edge_distinct: "distinct_dependents g \<Longrightarrow> distinct_dependents (add_edge n p g)"
  by (auto simp: distinct_dependents_def add_edge_def change_node_def dependents_of_def split: option.splits)

lemma add_edges_distinct: "distinct_dependents g \<Longrightarrow> distinct_dependents (fold (add_edge n) ps g)"
  by (induction ps arbitrary: g) (simp_all add: add_edge_distinct)

lemma add_services_distinct: "distinct_dependents g \<Longrightarrow> distinct_dependents (fold add_service ss g)"
  by (induction ss arbitrary: g) (simp_all add: add_service_def add_edges_distinct)

definition requires_in :: "DiscoverableService list \<Rightarrow> (string \<times> string) set" where
  "requires_in ss = {(n, p). \<exists>s \<in> set ss. ds_serviceName s = n \<and> p \<in> set (ds_dependencies s)}"

lemma requires_in_Cons: "(n, p) \<in> requires_in (s # ss) \<longleftrightarrow> ds_serviceName s = n \<and> p \<in> set (ds_dependencies s) \<or> (n, p) \<in> requires_in ss"
  by (auto simp: requires_in_def)

lemma add_services:
  "jm_keys (fold add_service ss g) = jm_keys g \<and>
   set (deps_of (fold add_service ss g) n) = set (deps_of g n) \<union> {p. (n, p) \<in> requires_in ss \<and> n \<in> set (jm_keys g)} \<and>
   set (dependents_of (fold add_service ss g) p) =
     set (dependents_of g p) \<union> {n. (n, p) \<in> requires_in ss \<and> n \<in> set (jm_keys g) \<and> p \<in> set (jm_keys g)}"
proof (induction ss arbitrary: g)
  case Nil
  show ?case by (simp add: requires_in_def)
next
  case (Cons s ss)
  have s: "jm_keys (add_service s g) = jm_keys g"
    "set (deps_of (add_service s g) n) =
       set (deps_of g n) \<union> {p. ds_serviceName s = n \<and> p \<in> set (ds_dependencies s) \<and> n \<in> set (jm_keys g)}"
    "set (dependents_of (add_service s g) p) =
       set (dependents_of g p) \<union> {n. ds_serviceName s = n \<and> p \<in> set (ds_dependencies s) \<and> n \<in> set (jm_keys g) \<and> p \<in> set (jm_keys g)}"
    using add_edges [of "ds_serviceName s" "ds_dependencies s" g] by (auto simp: add_service_def jm_has_keys)
  show ?case using Cons.IH [of "add_service s g"] unfolding s by (auto simp: requires_in_Cons s)
qed

lemma graph_init_facts:
  "jm_keys (graph_init ns) = ns" "deps_of (graph_init ns) n = []" "dependents_of (graph_init ns) n = []"
  by (auto simp: graph_init_def jm_keys_def deps_of_def dependents_of_def jm_get_def comp_def split: option.splits
      dest!: map_of_SomeD)

section \<open>Histories\<close>

datatype 'h di_op =
    Register int DiscoverableService
  | Deregister int string
  | Heartbeat int string "heartbeat_metrics option"
  | Drain int string
  | Expire int
  | Discover DiscoveryQuery
  | Listen string 'h
  | Unlisten string 'h
  | Destroy

primrec di_step ::
  "(string \<Rightarrow> real option) \<Rightarrow> (DiscoverableService list \<Rightarrow> DiscoverableService list) \<Rightarrow> 'h di_op \<Rightarrow>
     'h ServiceDiscovery \<Rightarrow> 'h ServiceDiscovery" where
  "di_step num shuffle (Register now s) d = fst (di_register now s d)"
| "di_step num shuffle (Deregister now i) d = fst (deregister now i d)"
| "di_step num shuffle (Heartbeat now i m) d = fst (heartbeat now i m d)"
| "di_step num shuffle (Drain now i) d = fst (drain now i d)"
| "di_step num shuffle (Expire now) d = checkExpirations now d"
| "di_step num shuffle (Discover q) d = fst (discover num shuffle q d)"
| "di_step num shuffle (Listen ty h) d = di_on ty h d"
| "di_step num shuffle (Unlisten ty h) d = di_off ty h d"
| "di_step num shuffle Destroy d = di_destroy d"

definition di_run ::
  "(string \<Rightarrow> real option) \<Rightarrow> (DiscoverableService list \<Rightarrow> DiscoverableService list) \<Rightarrow> 'h di_op list \<Rightarrow>
     'h ServiceDiscovery \<Rightarrow> 'h ServiceDiscovery" where
  "di_run num shuffle ops = fold (di_step num shuffle) ops"

text \<open>Every instance is indexed under its name; an index entry may be stale, but none is empty.\<close>

definition register_ok ::
  "(string, DiscoverableService) jsmap \<Rightarrow> (string, string list) jsmap \<Rightarrow> bool" where
  "register_ok services byName \<longleftrightarrow>
     jm_ok services \<and> jm_ok byName \<and>
     (\<forall>i s. jm_get services i = Some s \<longrightarrow>
        ds_instanceId s = i \<and> (\<exists>ids. jm_get byName (ds_serviceName s) = Some ids \<and> i \<in> set ids)) \<and>
     (\<forall>n ids. jm_get byName n = Some ids \<longrightarrow> ids \<noteq> [] \<and> distinct ids)"

definition discovery_ok :: "'h ServiceDiscovery \<Rightarrow> bool" where
  "discovery_ok d \<longleftrightarrow> register_ok (di_services d) (di_servicesByName d)"

lemma di_emit_fields [simp]:
  "di_services (di_emit now ty i n p d) = di_services d"
  "di_servicesByName (di_emit now ty i n p d) = di_servicesByName d"
  by (simp_all add: di_emit_def Let_def)

lemma register_ok_register:
  assumes "register_ok services byName" and "ds_instanceId s = i"
  shows "register_ok (jm_set i s services)
           (jm_set (ds_serviceName s) (set_insert i (dflt (jm_get byName (ds_serviceName s)) [])) byName)"
  using assms by (auto simp: register_ok_def dflt_def split: option.splits) (metis option.distinct(1), metis option.inject)

lemma register_ok_update:
  assumes "register_ok services byName" and "jm_get services i = Some s" and "ds_instanceId s' = i"
    and "ds_serviceName s' = ds_serviceName s"
  shows "register_ok (jm_set i s' services) byName"
  using assms by (auto simp: register_ok_def)

lemma unindex_get:
  "jm_get (unindex n i byName) m =
     (if m = n then case jm_get byName n of None \<Rightarrow> None
        | Some ids \<Rightarrow> if filter (\<lambda>j. j \<noteq> i) ids = [] then None else Some (filter (\<lambda>j. j \<noteq> i) ids)
      else jm_get byName m)"
  by (auto simp: unindex_def Let_def split: option.splits)

lemma unindex_ok: "jm_ok byName \<Longrightarrow> jm_ok (unindex n i byName)"
  by (auto simp: unindex_def Let_def split: option.splits)

lemma register_ok_delete:
  assumes ok: "register_ok services byName" and s: "jm_get services i = Some s"
  shows "register_ok (jm_delete i services) (unindex (ds_serviceName s) i byName)"
proof -
  let ?n = "ds_serviceName s"
  have maps: "jm_ok (jm_delete i services)" "jm_ok (unindex ?n i byName)"
    using ok by (auto simp: register_ok_def unindex_ok)
  have idx: "ds_instanceId t = j \<and> (\<exists>ids. jm_get (unindex ?n i byName) (ds_serviceName t) = Some ids \<and> j \<in> set ids)"
    if t: "jm_get (jm_delete i services) j = Some t" for j t
  proof -
    have j: "j \<noteq> i" "jm_get services j = Some t" using t by (auto split: if_splits)
    then obtain ids where ids: "ds_instanceId t = j" "jm_get byName (ds_serviceName t) = Some ids" "j \<in> set ids"
      using ok unfolding register_ok_def by blast
    have "j \<in> set (filter (\<lambda>k. k \<noteq> i) ids)" using j(1) ids(3) by simp
    moreover have "filter (\<lambda>k. k \<noteq> i) ids \<noteq> []" using j(1) ids(3) by (auto simp: filter_empty_conv)
    ultimately show ?thesis
      using ids by (cases "ds_serviceName t = ?n") (simp_all add: unindex_get)
  qed
  have full: "ids \<noteq> [] \<and> distinct ids" if "jm_get (unindex ?n i byName) m = Some ids" for m ids
    using that ok unfolding unindex_get register_ok_def by (auto split: if_splits option.splits)
  show ?thesis unfolding register_ok_def using maps idx full by blast
qed

lemma registered_names [simp]:
  "ds_instanceId (registered now s) = ds_instanceId s" "ds_serviceName (registered now s) = ds_serviceName s"
  "ds_dependencies (registered now s) = ds_dependencies s"
  by (simp_all add: registered_def)

lemma beaten_names [simp]:
  "ds_instanceId (beaten now m s) = ds_instanceId s" "ds_serviceName (beaten now m s) = ds_serviceName s"
  by (simp_all add: beaten_def Let_def split: option.split)

lemma register_okD: "register_ok services byName \<Longrightarrow> jm_get services i = Some s \<Longrightarrow> ds_instanceId s = i"
  by (simp add: register_ok_def)

lemma deregister_ok: "discovery_ok d \<Longrightarrow> discovery_ok (fst (deregister now i d))"
  by (auto simp: discovery_ok_def deregister_def register_ok_delete split: option.split)

lemma heartbeat_ok: "discovery_ok d \<Longrightarrow> discovery_ok (fst (heartbeat now i m d))"
  by (auto simp: discovery_ok_def heartbeat_def Let_def register_okD split: option.split intro!: register_ok_update)

lemma drain_ok: "discovery_ok d \<Longrightarrow> discovery_ok (fst (drain now i d))"
  by (auto simp: discovery_ok_def drain_def register_okD split: option.split intro!: register_ok_update)

lemma expire_one_ok: "discovery_ok d \<Longrightarrow> discovery_ok (expire_one now i d)"
proof -
  assume ok: "discovery_ok d"
  have "discovery_ok (di_emit now ev_expired i n p (d\<lparr>di_services := jm_set i (expired now s) (di_services d)\<rparr>))"
    if "jm_get (di_services d) i = Some s" for s n p
    using ok that
    by (auto simp: discovery_ok_def expired_def register_okD intro!: register_ok_update)
  then show ?thesis using ok by (auto simp: expire_one_def Let_def deregister_ok split: option.split)
qed

lemma expire_ok: "discovery_ok d \<Longrightarrow> discovery_ok (fold (expire_one now) is d)"
  by (induction "is" arbitrary: d) (simp_all add: expire_one_ok)

lemma discover_fields:
  "di_services (fst (discover num shuffle q d)) = di_services d \<and>
   di_servicesByName (fst (discover num shuffle q d)) = di_servicesByName d"
  by (auto simp: discover_def applyRoutingStrategy_def Let_def split: RoutingStrategy.split)

lemma discovery_ok_other [simp]:
  "discovery_ok (di_on ty h d) = discovery_ok d" "discovery_ok (di_off ty h d) = discovery_ok d"
  "discovery_ok (di_destroy d) = discovery_ok d" "discovery_ok (fst (discover num shuffle q d)) = discovery_ok d"
  by (simp_all add: discovery_ok_def di_on_def di_off_def di_destroy_def discover_fields)

lemma di_step_ok: "discovery_ok d \<Longrightarrow> discovery_ok (di_step num shuffle op d)"
proof (cases op)
  case (Register now s)
  assume "discovery_ok d"
  then show ?thesis
    using register_ok_register [of "di_services d" "di_servicesByName d" "registered now s" "ds_instanceId s"]
    by (simp add: Register discovery_ok_def di_register_def Let_def)
qed (simp_all add: deregister_ok heartbeat_ok drain_ok checkExpirations_def expire_ok)

lemma di_run_ok: "discovery_ok d \<Longrightarrow> discovery_ok (di_run num shuffle ops d)"
  unfolding di_run_def by (induction ops arbitrary: d) (simp_all add: di_step_ok)

lemma new_discovery_ok: "discovery_ok (new_ServiceDiscovery t)"
  by (simp add: discovery_ok_def register_ok_def new_ServiceDiscovery_def startExpirationChecker_def)

lemmas reachable_ok = di_run_ok [OF new_discovery_ok]

section \<open>Startup\<close>

text \<open>\<open>(n, p)\<close>: some instance of \<open>n\<close> depends on \<open>p\<close>.\<close>

definition requires :: "'h ServiceDiscovery \<Rightarrow> (string \<times> string) set" where
  "requires d = {(n, p). \<exists>i s. jm_get (di_services d) i = Some s \<and> ds_serviceName s = n \<and> p \<in> set (ds_dependencies s)}"

lemma requires_values: "discovery_ok d \<Longrightarrow> requires d = requires_in (jm_values (di_services d))"
  unfolding requires_def requires_in_def discovery_ok_def register_ok_def
  by (blast dest: jm_values_get jm_get_values)

lemma requires_named: "discovery_ok d \<Longrightarrow> (n, p) \<in> requires d \<Longrightarrow> n \<in> set (getServiceNames d)"
  unfolding requires_def discovery_ok_def register_ok_def getServiceNames_def jm_has_keys [symmetric] jm_has_def by blast

lemma service_edges_facts:
  assumes "discovery_ok d"
  shows "jm_keys (service_edges d) = getServiceNames d"
    and "set (deps_of (service_edges d) n) = {p. (n, p) \<in> requires d}"
    and "set (dependents_of (service_edges d) p) = {n. (n, p) \<in> requires d \<and> p \<in> set (getServiceNames d)}"
  using add_services [of "jm_values (di_services d)" "graph_init (jm_keys (di_servicesByName d))"] requires_named [OF assms]
  unfolding service_edges_def requires_values [OF assms] graph_init_facts getServiceNames_def
  by (auto simp: requires_values [OF assms] getServiceNames_def)

lemma service_edges_distinct: "distinct (dependents_of (service_edges d) n)"
  using add_services_distinct [of "graph_init (jm_keys (di_servicesByName d))" "jm_values (di_services d)"]
  by (simp add: service_edges_def distinct_dependents_def graph_init_facts)

definition known_names :: "'h ServiceDiscovery \<Rightarrow> string set" where
  "known_names d = set (getServiceNames d) \<union> snd ` requires d"

lemma known_dependency: "(n, p) \<in> requires d \<Longrightarrow> p \<in> known_names d"
  by (force simp: known_names_def)

lemma known_closed: "discovery_ok d \<Longrightarrow> closed_under (deps_of (service_edges d)) (known_names d)"
proof -
  assume ok: "discovery_ok d"
  have "finite (requires d)"
  proof (rule finite_subset)
    show "requires d \<subseteq> (\<Union>s \<in> set (jm_values (di_services d)). {ds_serviceName s} \<times> set (ds_dependencies s))"
      unfolding requires_values [OF ok] requires_in_def by blast
  qed simp
  then show ?thesis
    unfolding closed_under_def using service_edges_facts(2) [OF ok] known_dependency [of _ _ d]
    by (auto simp: known_names_def)
qed

lemma buildDependencyGraph_total:
  assumes "discovery_ok d"
  shows "\<exists>g. buildDependencyGraph d = Some g \<and> same_edges (service_edges d) g"
proof -
  obtain g where "calculateDepths (jm_keys (service_edges d)) (service_edges d) = Some g" "same_edges (service_edges d) g"
    using calculateDepths_total [OF known_closed [OF assms], of "jm_keys (service_edges d)"]
    by (auto simp: service_edges_facts(1) [OF assms] known_names_def)
  then show ?thesis using same_edges_trans [OF _ same_edges_critical] by (auto simp: buildDependencyGraph_def)
qed

lemma edges_requires: "discovery_ok d \<Longrightarrow> edges_of (deps_of (service_edges d)) = requires d"
  using service_edges_facts(2) by (auto simp: edges_of_def)

text \<open>
  C39. In every reachable state a startup order is found, each service and each dependency stands in it once, and
  every dependency comes before the services that need it unless it needs them in turn.
\<close>
theorem startup_order_sound:
  assumes "d = di_run num shuffle ops (new_ServiceDiscovery t)"
  shows "\<exists>order. getStartupOrder d = Some order \<and> distinct order \<and> set order = known_names d \<and>
           (\<forall>(n, p) \<in> requires d. precedes p n order \<or> (p, n) \<in> (requires d)\<^sup>*)"
proof -
  have ok: "discovery_ok d" unfolding assms by (rule reachable_ok)
  obtain g where g: "buildDependencyGraph d = Some g" "same_edges (service_edges d) g"
    using buildDependencyGraph_total [OF ok] by blast
  let ?D = "deps_of (service_edges d)" and ?N = "getServiceNames d"
  note closed = known_closed [OF ok, unfolded closed_under_def]
  obtain V order where run: "visit_all ?D ?N {} [] = Some (V, order)" "visit_post ?D ?N {} [] V order"
    using visit_all_total [of "known_names d" ?D ?N "{}" "[]" "card (known_names d)"] closed
    by (auto simp: visit_pre_def known_names_def)
  obtain fin where f: "set ?N \<subseteq> V" "order = [] @ fin" "distinct fin" "set fin = V - {}"
    and each: "\<forall>n \<in> set fin. (\<exists>m \<in> set ?N. (m, n) \<in> (requires d)\<^sup>*) \<and>
       (\<forall>p \<in> set (?D n). p \<in> V \<and> ((p, n) \<in> (requires d)\<^sup>* \<or> precedes p n ([] @ fin)))"
    by (rule visit_postE [OF run(2), unfolded edges_requires [OF ok]]) (rule that; assumption)
  have V: "set order = V" using f by simp
  have dep: "p \<in> V \<and> ((p, n) \<in> (requires d)\<^sup>* \<or> precedes p n order)" if "(n, p) \<in> requires d" for n p
    using each f V requires_named [OF ok that] that service_edges_facts(2) [OF ok, of n] by auto
  have "V \<subseteq> known_names d"
  proof
    fix n assume "n \<in> V"
    then obtain m where m: "m \<in> set ?N" "(m, n) \<in> (requires d)\<^sup>*" using each f(4) by auto
    from m(2) show "n \<in> known_names d"
      by (cases rule: rtranclE) (use m(1) known_dependency [of _ n d] in \<open>auto simp: known_names_def\<close>)
  qed
  then have "set order = known_names d" using V f(1) dep by (auto simp: known_names_def)
  moreover have "getStartupOrder d = Some order"
    using g run(1) by (simp add: getStartupOrder_def same_edges_def service_edges_facts(1) [OF ok])
  moreover have "distinct order" using f by simp
  ultimately show ?thesis using dep by blast
qed

section \<open>Removal\<close>

lemma dependents_loop_total:
  assumes "closed_under D U"
  shows "set queue \<subseteq> U \<Longrightarrow> set found \<subseteq> U \<Longrightarrow> distinct found \<Longrightarrow> card (U - set found) \<le> k \<Longrightarrow>
    S \<subseteq> set found \<union> set queue \<Longrightarrow> set found \<union> set queue \<subseteq> (edges_of D)\<^sup>* `` S \<Longrightarrow>
    (\<forall>x \<in> set found. set (D x) \<subseteq> set found \<union> set queue) \<Longrightarrow>
    \<exists>t. dependents_loop D queue found = Some t \<and> distinct t \<and> set t = (edges_of D)\<^sup>* `` S"
proof (induction k arbitrary: queue found)
  case outer: 0
  have all: "U = set found" using outer.prems(2,4) assms by (auto simp: closed_under_def)
  show ?case
    using outer.prems(1,5-7)
  proof (induction queue)
    case Nil
    have "y \<in> set found" if "x \<in> S" "(x, y) \<in> (edges_of D)\<^sup>*" for x y
      using that(2,1) Nil by (induction rule: rtrancl_induct) auto
    then have "set found = (edges_of D)\<^sup>* `` S" using Nil by auto
    then show ?case using outer.prems(3) by (subst dependents_loop.simps) simp
  next
    case (Cons n queue)
    then show ?case using all by (subst dependents_loop.simps) (auto simp: insert_absorb)
  qed
next
  case outer: (Suc k)
  show ?case
    using outer.prems(1,5-7)
  proof (induction queue)
    case Nil
    have "y \<in> set found" if "x \<in> S" "(x, y) \<in> (edges_of D)\<^sup>*" for x y
      using that(2,1) Nil by (induction rule: rtrancl_induct) auto
    then have "set found = (edges_of D)\<^sup>* `` S" using Nil by auto
    then show ?case using outer.prems(3) by (subst dependents_loop.simps) simp
  next
    case (Cons n queue)
    show ?case
    proof (cases "n \<in> set found")
      case True
      then show ?thesis using Cons by (subst dependents_loop.simps) (auto simp: insert_absorb)
    next
      case False
      have nU: "n \<in> U" using Cons.prems(1) by simp
      have "card (U - set (found @ [n])) < card (U - set found)"
        using nU False assms by (intro psubset_card_mono) (auto simp: closed_under_def)
      moreover have "set (D n) \<subseteq> U" using assms nU by (auto simp: closed_under_def)
      moreover have "set (D n) \<subseteq> (edges_of D)\<^sup>* `` S"
      proof
        fix m assume m: "m \<in> set (D n)"
        have "n \<in> (edges_of D)\<^sup>* `` S" using Cons.prems(3) by simp
        then obtain s where "s \<in> S" "(s, n) \<in> (edges_of D)\<^sup>*" by blast
        then show "m \<in> (edges_of D)\<^sup>* `` S" using m by (meson ImageI edges_of_iff rtrancl_into_rtrancl)
      qed
      ultimately have "\<exists>t. dependents_loop D (queue @ D n) (found @ [n]) = Some t \<and> distinct t \<and> set t = (edges_of D)\<^sup>* `` S"
        using outer.prems(2-4) Cons.prems nU False by (intro outer.IH) auto
      then show ?thesis using False by (subst dependents_loop.simps) simp
    qed
  qed
qed

lemma dependents_closed: "discovery_ok d \<Longrightarrow> closed_under (dependents_of (service_edges d)) (set (getServiceNames d))"
  using service_edges_facts(3) requires_named by (force simp: closed_under_def)

lemma required_paths:
  assumes ok: "discovery_ok d" and x: "x \<in> set (getServiceNames d)"
  shows "(x, y) \<in> (edges_of (dependents_of (service_edges d)))\<^sup>+ \<longleftrightarrow> (y, x) \<in> (requires d)\<^sup>+"
proof
  assume "(x, y) \<in> (edges_of (dependents_of (service_edges d)))\<^sup>+"
  then show "(y, x) \<in> (requires d)\<^sup>+"
    by (induction rule: trancl_induct)
       (use service_edges_facts(3) [OF ok] in \<open>auto intro: trancl_into_trancl2\<close>)
next
  assume "(y, x) \<in> (requires d)\<^sup>+"
  then show "(x, y) \<in> (edges_of (dependents_of (service_edges d)))\<^sup>+"
  proof (induction rule: converse_trancl_induct)
    case (base y)
    then show ?case using service_edges_facts(3) [OF ok] x by (intro r_into_trancl) simp
  next
    case (step y z)
    have "z \<in> set (getServiceNames d)" using step(2) requires_named [OF ok] by (blast dest: tranclD)
    then have "(z, y) \<in> edges_of (dependents_of (service_edges d))"
      using step(1) service_edges_facts(3) [OF ok] by simp
    then show ?case using step(3) by (rule_tac trancl_into_trancl)
  qed
qed

text \<open>
  C40. In every reachable state the analysis of a removal ends. For a name that the register lists it reports exactly the
  services that need it, directly and over any number of steps, each once in both lists, and calls the removal
  safe exactly if nothing needs it. Any other name it reports as safe to remove and without dependents, also one that
  registered services need.
\<close>

theorem impact_complete:
  assumes "d = di_run num shuffle ops (new_ServiceDiscovery t)"
  shows "\<exists>r. getImpactAnalysis n d = Some r \<and>
           (if n \<in> set (getServiceNames d)
            then distinct (ri_directDependents r) \<and> set (ri_directDependents r) = {m. (m, n) \<in> requires d} \<and>
                 distinct (ri_transitiveDependents r) \<and> set (ri_transitiveDependents r) = {m. (m, n) \<in> (requires d)\<^sup>+} \<and>
                 (ri_canSafelyRemove r \<longleftrightarrow> n \<notin> snd ` requires d)
            else ri_directDependents r = [] \<and> ri_transitiveDependents r = [] \<and> ri_canSafelyRemove r)"
proof -
  have ok: "discovery_ok d" unfolding assms by (rule reachable_ok)
  obtain g where g: "buildDependencyGraph d = Some g" "same_edges (service_edges d) g"
    using buildDependencyGraph_total [OF ok] by blast
  show ?thesis
  proof (cases "jm_get g n")
    case None
    then have "n \<notin> set (getServiceNames d)"
      using g(2) service_edges_facts(1) [OF ok] jm_has_keys [of g n] by (simp add: same_edges_def jm_has_def)
    then show ?thesis using g(1) None by (simp add: getImpactAnalysis_def)
  next
    case (Some node)
    let ?D = "dependents_of (service_edges d)"
    have n: "n \<in> set (getServiceNames d)"
      using Some g(2) service_edges_facts(1) [OF ok] jm_has_keys [of g n] by (simp add: same_edges_def jm_has_def)
    have node: "dp_dependents node = ?D n"
      using g(2) Some by (auto simp: same_edges_def dependents_of_def dest: fun_cong [of _ _ n])
    have direct: "set (?D n) = {m. (m, n) \<in> requires d}" using service_edges_facts(3) [OF ok] n by simp
    obtain t where t: "dependents_loop ?D (?D n) [] = Some t" "distinct t" "set t = (edges_of ?D)\<^sup>* `` set (?D n)"
      using dependents_loop_total [OF dependents_closed [OF ok], of "?D n" "[]" "card (set (getServiceNames d))" "set (?D n)"]
        dependents_closed [OF ok] n by (fastforce simp: closed_under_def)
    have "set t = {m. (n, m) \<in> (edges_of ?D)\<^sup>+}"
      unfolding t(3) by (auto simp: trancl_unfold_left relcomp_unfold)
    also have "\<dots> = {m. (m, n) \<in> (requires d)\<^sup>+}" using required_paths [OF ok n] by simp
    finally have trans: "set t = {m. (m, n) \<in> (requires d)\<^sup>+}" .
    have "dp_dependents node = [] \<longleftrightarrow> n \<notin> snd ` requires d"
      using direct by (force simp: node set_empty [symmetric] simp del: set_empty)
    then show ?thesis
      using g t(1,2) Some trans n direct service_edges_distinct [of d n]
      by (simp add: getImpactAnalysis_def same_edges_def node)
  qed
qed

definition plain_service :: "string \<Rightarrow> string \<Rightarrow> string list \<Rightarrow> DiscoverableService" where
  "plain_service i n deps =
     \<lparr>ds_instanceId = i, ds_serviceName = n, ds_version = ''1.0.0'', ds_host = ''h'', ds_port = 80, ds_protocol = pr_http,
      ds_status = st_healthy,
      ds_metadata = \<lparr>me_environment = ''test'', me_region = None, me_zone = None, me_deploymentId = None,
                     me_containerId = None, me_custom = []\<rparr>,
      ds_healthCheck = \<lparr>hc_protocol = hp_http, hc_path = None, hc_intervalMs = 1000, hc_timeoutMs = 100,
                        hc_unhealthyThreshold = 3, hc_healthyThreshold = 1, hc_consecutiveFailures = 0,
                        hc_consecutiveSuccesses = 0, hc_lastCheckAt = 0, hc_lastCheckResult = ck_unknown\<rparr>,
      ds_registeredAt = 0, ds_lastHeartbeat = 0, ds_ttlMs = 1000, ds_weight = 1, ds_load = 0, ds_latency = 0,
      ds_activeConnections = 0, ds_tags = [], ds_dependencies = deps, ds_capabilities = []\<rparr>"

lemma plain_service_fields [simp]:
  "ds_instanceId (plain_service i n deps) = i" "ds_serviceName (plain_service i n deps) = n"
  "ds_dependencies (plain_service i n deps) = deps"
  by (simp_all add: plain_service_def)

definition shop :: "nat di_op list" where
  "shop = [Register 1 (plain_service ''w1'' ''web'' [''api'']), Register 2 (plain_service ''a1'' ''api'' [''db'']),
           Register 3 (plain_service ''d1'' ''db'' [])]"

definition shop_state :: "nat ServiceDiscovery" where
  "shop_state = di_run (\<lambda>p. None) (\<lambda>xs. xs) shop (new_ServiceDiscovery None)"

lemma register_fields:
  "di_services (fst (di_register now s d)) = jm_set (ds_instanceId s) (registered now s) (di_services d)"
  "di_servicesByName (fst (di_register now s d)) =
     jm_set (ds_serviceName s) (set_insert (ds_instanceId s) (dflt (jm_get (di_servicesByName d) (ds_serviceName s)) []))
       (di_servicesByName d)"
  by (simp_all add: di_register_def Let_def)

lemma new_fields:
  "di_services (new_ServiceDiscovery t) = []" "di_servicesByName (new_ServiceDiscovery t) = []"
  by (simp_all add: new_ServiceDiscovery_def startExpirationChecker_def)

lemma jm_eval:
  "jm_set k v [] = [(k, v)]" "jm_set k v ((k', v') # m) = (if k' = k then (k, v) # m else (k', v') # jm_set k v m)"
  by (simp_all add: jm_set_def)

lemma jm_get_eval: "jm_get ((k', v') # m) k = (if k' = k then Some v' else jm_get m k)"
  by (simp add: jm_get_def)

lemma requires_in_eval:
  "requires_in [] = {}" "requires_in (s # ss) = {ds_serviceName s} \<times> set (ds_dependencies s) \<union> requires_in ss"
  by (auto simp: requires_in_def)

lemma shop_services:
  "di_services shop_state =
     [(''w1'', registered 1 (plain_service ''w1'' ''web'' [''api''])), (''a1'', registered 2 (plain_service ''a1'' ''api'' [''db''])),
      (''d1'', registered 3 (plain_service ''d1'' ''db'' []))]"
  "di_servicesByName shop_state = [(''web'', [''w1'']), (''api'', [''a1'']), (''db'', [''d1''])]"
  by (simp_all add: shop_state_def di_run_def shop_def register_fields new_fields jm_eval jm_get_eval set_insert_def dflt_def)

lemma shop_requires: "requires shop_state = {(''web'', ''api''), (''api'', ''db'')}"
proof -
  have "discovery_ok shop_state" unfolding shop_state_def by (rule reachable_ok)
  then have "requires shop_state = {''web''} \<times> {''api''} \<union> {''api''} \<times> {''db''}"
    by (simp add: requires_values shop_services jm_values_def requires_in_eval)
  then show ?thesis by (simp add: insert_commute)
qed

lemma not_back: "(''db'', ''api'') \<notin> {(''web'', ''api''), (''api'', ''db'')}\<^sup>*" "(''api'', ''web'') \<notin> {(''web'', ''api''), (''api'', ''db'')}\<^sup>*"
proof -
  have "y = ''db''" if "(''db'', y) \<in> {(''web'', ''api''), (''api'', ''db'')}\<^sup>*" for y
    using that by (induction rule: rtrancl_induct) auto
  then show "(''db'', ''api'') \<notin> {(''web'', ''api''), (''api'', ''db'')}\<^sup>*" by blast
  have "y \<in> {''api'', ''db''}" if "(''api'', y) \<in> {(''web'', ''api''), (''api'', ''db'')}\<^sup>*" for y
    using that by (induction rule: rtrancl_induct) auto
  then show "(''api'', ''web'') \<notin> {(''web'', ''api''), (''api'', ''db'')}\<^sup>*" by blast
qed

lemma startup_order_sound_witness:
  "\<exists>order. getStartupOrder shop_state = Some order \<and> precedes ''db'' ''api'' order \<and> precedes ''api'' ''web'' order"
proof -
  have "(''db'', ''api'') \<notin> (requires shop_state)\<^sup>*" "(''api'', ''web'') \<notin> (requires shop_state)\<^sup>*"
    using not_back unfolding shop_requires by blast+
  then show ?thesis
    using startup_order_sound [OF shop_state_def] unfolding shop_requires by auto
qed

lemma impact_complete_witness:
  "\<exists>r. getImpactAnalysis ''db'' shop_state = Some r \<and> ''web'' \<in> set (ri_transitiveDependents r) \<and> \<not> ri_canSafelyRemove r"
proof -
  have "(''web'', ''db'') \<in> (requires shop_state)\<^sup>+"
    unfolding shop_requires by (rule trancl_into_trancl [of _ "''api''"]) auto
  moreover have "''db'' \<in> snd ` requires shop_state" unfolding shop_requires by force
  moreover have "''db'' \<in> set (getServiceNames shop_state)" by (simp add: getServiceNames_def shop_services jm_keys_def)
  ultimately show ?thesis using impact_complete [OF shop_state_def, of "''db''"] by auto
qed

section \<open>Depths\<close>

lemma depth_loop_unfold:
  "depth_loop [] m V g = Some (m, V, g)"
  "depth_loop (n # rest) m V g =
     (if n \<in> V then depth_loop rest (max m 1) V g
      else if deps_of g n = [] then depth_loop rest (max m 1) (insert n V) g
      else Option.bind (depth_loop (deps_of g n) 0 (insert n V) g)
        (\<lambda>(k, v1, g1). depth_loop rest (max m (1 + k)) v1 (change_node n (\<lambda>node. node\<lparr>dp_depth := k\<rparr>) g1)))"
  by (subst depth_loop.simps, simp)+

definition chain_state :: "nat ServiceDiscovery" where
  "chain_state = di_run (\<lambda>p. None) (\<lambda>xs. xs)
     [Register 1 (plain_service ''1'' ''b'' [''c'']), Register 1 (plain_service ''2'' ''c'' [''d'']),
      Register 1 (plain_service ''3'' ''d'' []), Register 1 (plain_service ''4'' ''a'' [''c'', ''b''])]
     (new_ServiceDiscovery None)"

text \<open>
  The calls share the set of visited nodes: of the chain a - b - c - d the node a gets depth 2, and the computation
  for a overwrites the depth 2 of b with 1, because c was visited before b.
\<close>

theorem depth_underestimated:
  "map_option (\<lambda>g. (map_option dp_depth (jm_get g ''a''), map_option dp_depth (jm_get g ''b''))) (buildDependencyGraph chain_state)
   = Some (Some 2, Some 1)"
  "{(''a'', ''b''), (''b'', ''c''), (''c'', ''d'')} \<subseteq> requires chain_state"
proof -
  have s: "di_services chain_state =
     [(''1'', registered 1 (plain_service ''1'' ''b'' [''c''])), (''2'', registered 1 (plain_service ''2'' ''c'' [''d''])),
      (''3'', registered 1 (plain_service ''3'' ''d'' [])), (''4'', registered 1 (plain_service ''4'' ''a'' [''c'', ''b'']))]"
    "di_servicesByName chain_state = [(''b'', [''1'']), (''c'', [''2'']), (''d'', [''3'']), (''a'', [''4''])]"
    by (simp_all add: chain_state_def di_run_def register_fields new_fields jm_eval jm_get_eval set_insert_def dflt_def)
  have g: "service_edges chain_state =
     [(''b'', \<lparr>dp_serviceName = ''b'', dp_dependencies = [''c''], dp_dependents = [''a''], dp_depth = 0, dp_critical = False\<rparr>),
      (''c'', \<lparr>dp_serviceName = ''c'', dp_dependencies = [''d''], dp_dependents = [''b'', ''a''], dp_depth = 0, dp_critical = False\<rparr>),
      (''d'', \<lparr>dp_serviceName = ''d'', dp_dependencies = [], dp_dependents = [''c''], dp_depth = 0, dp_critical = False\<rparr>),
      (''a'', \<lparr>dp_serviceName = ''a'', dp_dependencies = [''c'', ''b''], dp_dependents = [], dp_depth = 0, dp_critical = False\<rparr>)]"
    by (simp add: service_edges_def s graph_init_def add_service_def add_edge_def change_node_def
        jm_values_def jm_keys_def jm_has_def jm_eval jm_get_eval set_insert_def)
  show "map_option (\<lambda>g. (map_option dp_depth (jm_get g ''a''), map_option dp_depth (jm_get g ''b'')))
      (buildDependencyGraph chain_state) = Some (Some 2, Some 1)"
    by (simp add: buildDependencyGraph_def g jm_keys_def calculateDepth_def deps_of_def change_node_def jm_eval jm_get_eval
        depth_loop_unfold markCriticalServices_def)
  have "discovery_ok chain_state" unfolding chain_state_def by (rule reachable_ok)
  then show "{(''a'', ''b''), (''b'', ''c''), (''c'', ''d'')} \<subseteq> requires chain_state"
    by (simp add: requires_values s jm_values_def requires_in_eval)
qed

section \<open>Queries\<close>

lemma rotated_mset: "mset (drop k xs @ take k xs) = mset xs"
  by (metis append_take_drop_id mset_append union_commute)

lemma routed_mset:
  assumes "\<And>xs. mset (shuffle xs) = mset xs"
  shows "mset (snd (applyRoutingStrategy shuffle ss n st d)) = mset ss"
  by (simp add: applyRoutingStrategy_def rotate_from_def assms Let_def rotated_mset del: mset_append split: RoutingStrategy.split)

lemma getInstances_set:
  "s \<in> set (getInstances n d) \<longleftrightarrow> (\<exists>i ids. jm_get (di_servicesByName d) n = Some ids \<and> i \<in> set ids \<and> jm_get (di_services d) i = Some s)"
  by (auto simp: getInstances_def List.map_filter_def dflt_def image_iff split: option.splits) force+

text \<open>
  A query without a limit returns exactly the matching instances listed under the name, in the order of the strategy;
  a query with a limit returns a beginning of that.
\<close>
theorem discover_exact:
  assumes "\<And>xs. mset (shuffle xs) = mset xs" and "num_or (dq_limit q) 0 \<ge> 0"
  shows "\<exists>all. mset all = mset (filter (query_matches num q) (getInstances (dq_serviceName q) d)) \<and>
           snd (discover num shuffle q d) =
             (if num_or (dq_limit q) 0 = 0 then all else take (nat (num_or (dq_limit q) 0)) all)"
proof (cases "dflt (jm_get (di_servicesByName d) (dq_serviceName q)) [] = []")
  case True
  then show ?thesis by (intro exI [of _ "[]"]) (simp add: discover_def getInstances_def List.map_filter_def)
next
  case False
  let ?ss = "filter (query_matches num q) (getInstances (dq_serviceName q) d)"
  let ?r = "applyRoutingStrategy shuffle ?ss (dq_serviceName q) (dflt (dq_routingStrategy q) rt_round_robin) d"
  show ?thesis
    using False assms(2) routed_mset [OF assms(1), of ?ss "dq_serviceName q" "dflt (dq_routingStrategy q) rt_round_robin" d]
    by (intro exI [of _ "snd ?r"])
       (auto simp: discover_def js_slice_def slice_index_def min_def split: prod.split)
qed

text \<open>The versions a range admits, for versions of three numbers.\<close>

definition version3 :: "nat \<Rightarrow> nat \<Rightarrow> nat \<Rightarrow> string" where
  "version3 a b c = nat_str a @ ''.'' @ nat_str b @ ''.'' @ nat_str c"

lemma version3_parts:
  assumes "\<And>n. num (nat_str n) = Some (of_nat n)"
  shows "version_parts num (version3 a b c) = [VNum (of_nat a), VNum (of_nat b), VNum (of_nat c)]"
proof -
  have dot: "CHR ''.'' \<notin> set (nat_str n)" for n by (rule nat_str_no_sep) (simp add: is_digit_def)
  show ?thesis
    by (simp add: version_parts_def version3_def js_split_append_sep [OF dot] js_split_single [OF dot] assms)
qed

lemma version3_head: "\<exists>c cs. version3 a b c' = c # cs \<and> is_digit c"
proof -
  obtain c cs where c: "nat_str a = c # cs" by (cases "nat_str a") (use nat_str.simps [of a] in \<open>auto split: if_splits\<close>)
  then have "is_digit c" using nat_str_digits [of c a] by simp
  then show ?thesis using c by (simp add: version3_def)
qed

lemma range_base_version3: "set ops \<subseteq> set ''^~>=<'' \<Longrightarrow> range_base (ops @ version3 a b c) = version3 a b c"
proof -
  assume ops: "set ops \<subseteq> set ''^~>=<''"
  obtain d ds where d: "version3 a b c = d # ds" "is_digit d" using version3_head by blast
  have "d \<notin> set ''^~>=<''" using d(2) by (auto simp: is_digit_def)
  then have "dropWhile (\<lambda>c. c \<in> set ''^~>=<'') (version3 a b c) = version3 a b c" using d(1) by simp
  then show ?thesis using ops by (simp add: range_base_def dropWhile_append2 subset_iff)
qed

theorem version_ranges:
  assumes "\<And>n. num (nat_str n) = Some (of_nat n)"
  shows "versionSatisfies num (version3 a b c) (''>='' @ version3 a' b' c') \<longleftrightarrow>
           a' < a \<or> a' = a \<and> (b' < b \<or> b' = b \<and> c' \<le> c)"
    and "versionSatisfies num (version3 a b c) (''^'' @ version3 a' b' c') \<longleftrightarrow> a' = a \<and> (b' < b \<or> b' = b \<and> c' \<le> c)"
    and "versionSatisfies num (version3 a b c) (''~'' @ version3 a' b' c') \<longleftrightarrow> a' = a \<and> b' = b \<and> c' \<le> c"
    and "\<not> versionSatisfies num (version3 a b c) (''<='' @ version3 a' b' c')"
    and "\<not> versionSatisfies num (version3 a b c) (''<'' @ version3 a' b' c')"
    and "\<not> versionSatisfies num (version3 a b c) (''='' @ version3 a' b' c')"
proof -
  obtain d ds where d: "version3 a b c = d # ds" "is_digit d" using version3_head by blast
  have head: "op @ version3 a' b' c' \<noteq> version3 a b c \<and> op @ version3 a' b' c' \<noteq> ''*''"
    if "op \<noteq> []" "\<not> is_digit (hd op)" "hd op \<noteq> CHR ''*''" for op
    using that d by (cases op) auto
  note base = range_base_version3 [of "''>=''"] range_base_version3 [of "''^''"] range_base_version3 [of "''~''"]
  note parts = version3_parts [of num, OF assms]
  show "versionSatisfies num (version3 a b c) (''>='' @ version3 a' b' c') \<longleftrightarrow>
           a' < a \<or> a' = a \<and> (b' < b \<or> b' = b \<and> c' \<le> c)"
    using head [of "''>=''"] base(1)
    by (auto simp: versionSatisfies_def parts vpart_at_def is_digit_def Let_def)
  show "versionSatisfies num (version3 a b c) (''^'' @ version3 a' b' c') \<longleftrightarrow> a' = a \<and> (b' < b \<or> b' = b \<and> c' \<le> c)"
    using head [of "''^''"] base(2)
    by (auto simp: versionSatisfies_def parts vpart_at_def is_digit_def Let_def)
  show "versionSatisfies num (version3 a b c) (''~'' @ version3 a' b' c') \<longleftrightarrow> a' = a \<and> b' = b \<and> c' \<le> c"
    using head [of "''~''"] base(3)
    by (auto simp: versionSatisfies_def parts vpart_at_def is_digit_def Let_def)
  show "\<not> versionSatisfies num (version3 a b c) (''<='' @ version3 a' b' c')"
    "\<not> versionSatisfies num (version3 a b c) (''<'' @ version3 a' b' c')"
    "\<not> versionSatisfies num (version3 a b c) (''='' @ version3 a' b' c')"
    using head [of "''<=''"] head [of "''<''"] head [of "''=''"]
    by (auto simp: versionSatisfies_def is_digit_def Let_def)
qed

section \<open>Gaps\<close>

lemma expire_one_other: "k \<noteq> i \<Longrightarrow> jm_get (di_services (expire_one now k d)) i = jm_get (di_services d) i"
  by (auto simp: expire_one_def deregister_def Let_def split: option.split)

lemma expire_all_other:
  "i \<notin> set ks \<Longrightarrow> jm_get (di_services (fold (expire_one now) ks d)) i = jm_get (di_services d) i"
  by (induction ks arbitrary: d) (auto simp: expire_one_other)

lemma checkExpirations_at:
  fixes d :: "'h ServiceDiscovery"
  assumes "discovery_ok d" and "jm_get (di_services d) i = Some s"
  shows "\<exists>d' :: 'h ServiceDiscovery. jm_get (di_services (checkExpirations now d)) i = jm_get (di_services (expire_one now i d')) i \<and>
           jm_get (di_services d') i = Some s"
proof -
  have "distinct (jm_keys (di_services d))" using assms(1) by (simp add: discovery_ok_def register_ok_def jm_ok_def jm_keys_def)
  moreover have "i \<in> set (jm_keys (di_services d))" using assms(2) by (simp add: jm_has_keys [symmetric] jm_has_def)
  ultimately obtain as bs where ks: "jm_keys (di_services d) = as @ i # bs" "i \<notin> set as" "i \<notin> set bs"
    by (metis in_set_conv_decomp_first distinct_append distinct.simps(2))
  show ?thesis
    by (intro exI [of _ "fold (expire_one now) as d"])
       (simp add: checkExpirations_def expire_all_other ks assms(2))
qed

text \<open>
  Draining does not survive an expiry: an instance that is draining, misses its time to live once and then sends a
  heartbeat is healthy again and gets traffic (with a threshold of one success).
\<close>
theorem drained_instance_returns:
  fixes d :: "'h ServiceDiscovery"
  assumes "discovery_ok d" and "jm_get (di_services d) i = Some s"
    and "ds_ttlMs s < t1 - ds_lastHeartbeat s" and "t1 - ds_lastHeartbeat s \<le> ds_ttlMs s * 3"
    and "hc_healthyThreshold (ds_healthCheck s) \<le> 1"
  shows "map_option ds_status (jm_get (di_services (di_run num shuffle [Drain t0 i, Expire t1, Heartbeat t2 i None] d)) i)
           = Some st_healthy"
proof -
  let ?s = "s\<lparr>ds_status := st_draining\<rparr>"
  let ?d = "fst (drain t0 i d)"
  have ok: "discovery_ok ?d" by (rule drain_ok [OF assms(1)])
  have s: "jm_get (di_services ?d) i = Some ?s" using assms(2) by (simp add: drain_def)
  obtain d' :: "'h ServiceDiscovery" where d': "jm_get (di_services (checkExpirations t1 ?d)) i = jm_get (di_services (expire_one t1 i d')) i"
      "jm_get (di_services d') i = Some ?s"
    using checkExpirations_at [OF ok s] by blast
  have "jm_get (di_services (checkExpirations t1 ?d)) i = Some (expired t1 ?s)"
    using assms(3,4) unfolding d'(1) by (simp add: expire_one_def d'(2) Let_def)
  then show ?thesis using assms(5) by (simp add: di_run_def heartbeat_def beaten_def expired_def Let_def)
qed

text \<open>
  An instance registered again under another name is still listed under its old one, so that a query for the old
  service returns an instance of the new one; removing the instance does not remove the old name.
\<close>
theorem renamed_instance_found:
  assumes "ds_serviceName s' \<noteq> ds_serviceName s" and "ds_instanceId s' = ds_instanceId s"
  shows "registered t2 s' \<in> set (getInstances (ds_serviceName s) (di_run num shuffle [Register t1 s, Register t2 s'] d))"
    and "ds_serviceName s \<in> set (getServiceNames
           (di_run num shuffle [Register t1 s, Register t2 s', Deregister t3 (ds_instanceId s)] d))"
proof -
  show "registered t2 s' \<in> set (getInstances (ds_serviceName s) (di_run num shuffle [Register t1 s, Register t2 s'] d))"
    using assms by (auto simp: getInstances_set di_run_def register_fields)
  show "ds_serviceName s \<in> set (getServiceNames
           (di_run num shuffle [Register t1 s, Register t2 s', Deregister t3 (ds_instanceId s)] d))"
    using assms
    by (auto simp: getServiceNames_def jm_has_keys [symmetric] jm_has_def di_run_def deregister_def register_fields unindex_get)
qed

text \<open>A range of two numbers: version 1.3.0 satisfies ^1.2, version 1.2.5 does not.\<close>

lemma partial_range:
  assumes "num ''1'' = Some 1" and "num ''2'' = Some 2" and "num ''3'' = Some 3" and "num ''5'' = Some 5" and "num ''0'' = Some 0"
  shows "versionSatisfies num ''1.3.0'' ''^1.2'' \<and> \<not> versionSatisfies num ''1.2.5'' ''^1.2''"
  using assms by (simp add: versionSatisfies_def version_parts_def range_base_def vpart_at_def Let_def)

end
