(* ===== verification/Spec2Isabelle.thy ===== *)
theory Spec2Isabelle
  imports CircuitBreaker Retry Bulkhead RateLimiter Cache Permissions PolicyEngine Hive ZeroTrust Iam
    KernelCore ServiceRegistry VoidProps AutoScaler Billing LighthouseVoid DependencyGraph
    DynamicConfigProps WebhookProps InfinityProps PlatformBusProps IpcClient SelfHealingProps ServiceDiscoveryProps
begin

text \<open>
  Infinity OS: a verification library for the TypeScript packages of the repository.

  The program. The repository is an operating environment in the browser and on Cloudflare. Its own
  logic lives in the packages under \<open>src/packages\<close>: a kernel (\<open>kernel\<close>) with its event bus, processes,
  resilience patterns, cache, service registry, scaler and marketplace; the access control of users and
  agents (\<open>permissions\<close>, \<open>policy-engine\<close>, \<open>iam-middleware\<close>); the classified message router \<open>hive\<close>; and
  the secret store \<open>void\<close>. Services call the middleware first (zero trust, then tokens and guards), ask
  the permission or policy engine, and use the kernel's registry, limiter, breaker, bulkhead and retry
  around remote calls; secrets come from the store, whose access check asks for a token and a clearance.

  How the code is translated. A class is a record with one field per field of the class, and a method
  a function that takes the record and returns the changed one with the result. What a method reads from
  outside is an argument: \<open>now\<close> for \<open>Date.now()\<close>, \<open>random\<close>, \<open>rnd\<close> for random text and numbers. A thrown
  error is a value: \<open>Inl\<close> of a sum, or \<open>None\<close>. Timers are operations of the history that fire whenever
  the environment lets them, at any clock reading. Numbers: clock readings, counters and sizes are
  \<^typ>\<open>int\<close> or \<^typ>\<open>nat\<close>, fractions are \<^typ>\<open>rat\<close> (\<^typ>\<open>real\<close> where loads and metrics
  are measured); JavaScript's rounding is modelled in the statistics of \<open>SelfHealing\<close> only, NaN and infinities are out of
  the model. The 32-bit arithmetic of hashes is \<^typ>\<open>32 word\<close>. A \<open>Map\<close> is the association list of \<open>JsMap\<close>,
  in insertion order, as its iterators show it. Objects shared by reference are stored once, where
  they are mutated, and looked up there.

  Theories.
  \<^item> \<open>Prelude\<close>: the fragment of JavaScript: values of type \<open>unknown\<close> (\<open>jsval\<close>), truthiness, strings and
    slices, decimal texts, dates; the hints \<open>js_simps\<close> and \<open>state_defs\<close>.
  \<^item> \<open>JsMap\<close>: \<open>Map\<close>, and the locale \<open>keyed_store\<close>, its laws, interpreted on \<open>jm_get\<close>, \<open>jm_set\<close>, \<open>jm_delete\<close>.
  \<^item> \<open>CircuitBreaker\<close> (\<open>kernel/src/resilience/circuit-breaker.ts\<close>): calls interleave freely in the step
    relation \<open>cb_step\<close>; refinement of a three-state automaton, an invariant, safety and recovery.
  \<^item> \<open>Retry\<close>, \<open>Bulkhead\<close>, \<open>RateLimiter\<close> (the files of those names beside it): the outcome and bounds of
    the retry loop; the step relation \<open>bh_step\<close> of the bulkhead with its queue and timers; token bucket, sliding
    and fixed window, whose separation of keys is proved once in the locale \<open>keyed_limiter\<close>.
  \<^item> \<open>Cache\<close> (\<open>kernel/src/cache/cache-manager.ts\<close>): the in-memory cache refines a map with expiries.
  \<^item> \<open>Permissions\<close> (\<open>permissions/src/index.ts\<close>): roles, tiers, deny rules, overrides.
  \<^item> \<open>PolicyEngine\<close> (\<open>policy-engine/src/index.ts\<close>): conditions over attribute paths, the four combining
    strategies against their specifications, and what the decision cache may answer. The regular expressions of the host
    (\<open>rx\<close>) and \<open>JSON.stringify\<close> (\<open>stringify\<close>) are arguments.
  \<^item> \<open>Hive\<close> (\<open>hive/src/HiveService.ts\<close>): topology, clearances, routing, priority queues, channels.
  \<^item> \<open>ZeroTrust\<close>, \<open>Iam\<close> (\<open>iam-middleware/src\<close>): the context of a request, tokens, the middleware, and
    the guards, instances of the locale \<open>route_guard\<close>. HMAC, SHA-512, \<open>JSON.parse\<close> and Base64 decoding are
    arguments (\<open>hmac\<close>, \<open>sha512\<close>, \<open>parse\<close>, \<open>decode\<close>).
  \<^item> \<open>KernelCore\<close> (\<open>kernel/src/index.ts\<close>): event bus, IPC, processes, permissions, storage, the kernel.
    What handlers do is an argument, \<open>reactions\<close>; a loop over a set that handlers change may not end, so
    \<open>eb_emit\<close> is a partial function whose value \<open>None\<close> means that it never returns, and \<open>emit_delivers\<close>
    proves that it returns when handlers only unsubscribe.
  \<^item> \<open>ServiceRegistry\<close> (\<open>kernel/src/microservices/service-registry.ts\<close>): instances, heartbeats, clean-up and
    weighted round robin.
  \<^item> \<open>VoidTypes\<close>, \<open>Encoding\<close>, \<open>VoidVault\<close>, \<open>VoidProps\<close> (\<open>void/src/types.ts\<close>, \<open>VoidService.ts\<close>): the
    secret store: seal and unseal, envelopes, policies, rotation, audit log, quarantine. What the service
    gets from the host is the record \<open>void_host\<close>. The locales \<open>read_invariant\<close> and \<open>envelope_invariant\<close>
    state which elementary changes an operation may make to an envelope; each property of single envelopes
    is an interpretation, so that every operation is treated once.
  \<^item> \<open>AutoScaler\<close> (\<open>kernel/src/scaling/auto-scaler.ts\<close>): policies and decisions; bounds, steps and cooldowns
    over all histories, in which policies are also replaced, and that the scaler reaches its maximum under load.
  \<^item> \<open>Billing\<close> (\<open>kernel/src/marketplace/billing-system.ts\<close>, pricing types of \<open>service-package.ts\<close>): usage,
    subscriptions, invoices, payments; the histories contain the public operations of the four managers as well as
    those of the system that joins them; how a subscription evolves in them, and what one billing run does. Event handlers are names here: they do not call back into the billing system.

  \<^item> \<open>Json\<close>: \<open>JSON.stringify\<close> for the values the sources hash or print.
  \<^item> \<open>LighthouseTypes\<close>, \<open>Lighthouse\<close>, \<open>LighthouseProps\<close> (\<open>lighthouse/src/types.ts\<close>, \<open>LighthouseService.ts\<close>): the
    token hub: tokens, threat events, the warp tunnel into the icebox, analysis and verdicts. Draws and
    clock readings are \<open>lh_env\<close>, number texts and logarithms \<open>lh_host\<close>. The analysis that a transfer does not
    await is an operation of the history of its own. The relation \<open>tok_step\<close> lists the elementary changes of a
    token; the locale \<open>token_law\<close> proves a law of single tokens once over all operations.
    \<open>LighthouseVoid\<close> puts the hub and the secret store together.
  \<^item> \<open>DependencyGraph\<close> (\<open>services/artifactory/src/intelligence/dependency-graph.ts\<close>): impact analysis, cycles,
    trees. The database is the record \<open>GraphDatabase\<close>, an argument. The searches are partial functions, \<open>None\<close>
    for no return; on graphs where finitely many nodes can be reached (\<open>finite_from\<close>) they return.
  \<^item> \<open>DynamicConfig\<close>, \<open>DynamicConfigProps\<close> (\<open>kernel/src/os/dynamic-config.ts\<close>): versioned entries, feature
    flags, experiments. The locale \<open>versioned\<close> is the contract of a versioned variable, interpreted for every
    key; the store refines a list of written values per key. Number texts, \<open>Number\<close> and regular expressions
    are the record \<open>dc_host\<close>.
  \<^item> \<open>InfinityTypes\<close>, \<open>InfinityOne\<close>, \<open>InfinityProps\<close> (\<open>infinity-one/src/types.ts\<close>, \<open>InfinityOneService.ts\<close>):
    users, roles, sessions, second factors, provisioning, data requests. Draws are \<open>io_env\<close>, the functions
    of \<open>Math\<close> \<open>io_host\<close>. Histories draw identifiers afresh (\<open>io_allowed\<close>).
  \<^item> \<open>Webhooks\<close>, \<open>WebhookProps\<close> (\<open>kernel/src/os/webhook-system.ts\<close>): event stream, webhooks, retries, dead letters,
    circuit breaker. A webhook keeps its place in the list of all webhooks ever made, since closures and dead
    letters hold the object itself; timers are operations of the history; draws and conversions are arguments.
    The stream refines the list of everything published.
  \<^item> \<open>PlatformBus\<close>, \<open>PlatformBusProps\<close> (\<open>event-bus/src/index.ts\<close>, \<open>types.ts\<close>): subscriptions, callbacks, the event
    log. Arrays of callbacks are objects with a stamp, since an emission walks through an array that its callbacks
    change; \<open>act\<close> is what a callback does to the register, \<open>None\<close> a walk that never ends.
  \<^item> \<open>IpcClient\<close> (\<open>ipc/src/index.ts\<close>): requests between services. What a binding and a handler answer, and
    after how many milliseconds or never, the parser of bodies and number texts are arguments; a request races
    against its timer, a send waits for ever.
  \<^item> \<open>SelfHealing\<close>, \<open>SelfHealingProps\<close> (\<open>kernel/src/os/self-healing.ts\<close>): scaler, anomaly detector, failover,
    recovery. Metrics are real numbers, and every result of an arithmetic operation is rounded by the argument \<open>fl\<close>; local
    time is UTC. The lemmas bound the score of a value by the length of its history, exactly for \<^const>\<open>id\<close> and with a margin
    for every \<open>accurate\<close> rounding, and show where the failover states get stuck.
  \<^item> \<open>ServiceDiscovery\<close>, \<open>ServiceDiscoveryProps\<close> (\<open>kernel/src/os/service-discovery.ts\<close>): instances, queries,
    version ranges, dependencies. The recursions over the graph are partial functions that return on every
    reachable state; the order of startup is the order in which a depth-first visit finishes.

  What the lemmas show. Each theory proves, besides the listed properties, the behaviour of its operations
  branch by branch (simplification rules of the record fields), an invariant with one preservation lemma
  per operation, and the induction over histories (\<open>*_run\<close> functions fold the operations of a component over
  an empty state) or over step relations. Properties quantify over all such histories where they can. A
  property that needs the host to behave assumes the documented behaviour by name, with a witness.

  Not modelled. HTTP handlers over SQL, KV and Durable Objects (\<open>src/workers\<close>, \<open>tenant-do\<close>), user
  interfaces (\<open>src/apps\<close>), clients of remote services (\<open>ai-gateway\<close>, \<open>sdk\<close>, \<open>adapters\<close>), metric collection
  (\<open>observability\<close>, \<open>health\<close>) and heuristics over random choices (\<open>adaptive-intelligence\<close>,
  \<open>swarm-intelligence\<close>, \<open>quantum-computing\<close>): there is little logic in them that does not belong to the host.
  Log output, and texts that only people read, are left out everywhere.
\<close>

end
